(* ===== verification/Go_Strings.thy ===== *)
theory Go_Strings
  imports Main
begin

section \<open>Go strings and integers\<close>

text \<open>
  The part of Go's \<^verbatim>\<open>strings\<close> and \<^verbatim>\<open>strconv\<close> packages that the modelled sources call.
  A Go string is a sequence of bytes, modelled as \<open>string\<close> (\<open>char list\<close>, one \<open>char\<close> per byte);
  slicing and \<^verbatim>\<open>len\<close> count bytes, as \<open>take\<close>, \<open>drop\<close> and \<open>length\<close> do.
  \<^verbatim>\<open>TrimSpace\<close> and \<^verbatim>\<open>Fields\<close> know every white-space rune of Unicode, as its UTF-8 bytes.
  \<^verbatim>\<open>ToLower\<close> is modelled on ASCII letters; other bytes stay as they are.
  \<^verbatim>\<open>-1\<close> results of \<^verbatim>\<open>Index\<close> and \<^verbatim>\<open>LastIndex\<close> are \<open>None\<close>.
\<close>

named_theorems go_string \<open>characterisations of the string operations\<close>

subsection \<open>Prefixes, suffixes, substrings\<close>

definition has_prefix :: "string \<Rightarrow> string \<Rightarrow> bool" where
  "has_prefix s p \<longleftrightarrow> take (length p) s = p"

definition has_suffix :: "string \<Rightarrow> string \<Rightarrow> bool" where
  "has_suffix s p \<longleftrightarrow> length p \<le> length s \<and> drop (length s - length p) s = p"

fun index_of :: "string \<Rightarrow> string \<Rightarrow> nat option" where
  "index_of [] sub = (if sub = [] then Some 0 else None)"
| "index_of (c # cs) sub =
     (if has_prefix (c # cs) sub then Some 0 else map_option Suc (index_of cs sub))"

definition last_index_of :: "string \<Rightarrow> string \<Rightarrow> nat option" where
  "last_index_of s sub =
     map_option (\<lambda>i. length s - length sub - i) (index_of (rev s) (rev sub))"

definition str_contains :: "string \<Rightarrow> string \<Rightarrow> bool" where
  "str_contains s sub \<longleftrightarrow> index_of s sub \<noteq> None"

definition contains_any :: "string \<Rightarrow> string \<Rightarrow> bool" where
  "contains_any s chars \<longleftrightarrow> list_ex (\<lambda>c. c \<in> set chars) s"

definition trim_prefix :: "string \<Rightarrow> string \<Rightarrow> string" where
  "trim_prefix s p = (if has_prefix s p then drop (length p) s else s)"

definition trim_cutset :: "string \<Rightarrow> string \<Rightarrow> string" where
  "trim_cutset s chars =
     rev (dropWhile (\<lambda>c. c \<in> set chars) (rev (dropWhile (\<lambda>c. c \<in> set chars) s)))"

subsection \<open>White space\<close>

definition ws_seqs :: "string list" where
  "ws_seqs =
     [[CHR 0x09], [CHR 0x0A], [CHR 0x0B], [CHR 0x0C], [CHR 0x0D], [CHR 0x20],
      [CHR 0xC2, CHR 0x85], [CHR 0xC2, CHR 0xA0], [CHR 0xE1, CHR 0x9A, CHR 0x80],
      [CHR 0xE2, CHR 0x80, CHR 0x80], [CHR 0xE2, CHR 0x80, CHR 0x81],
      [CHR 0xE2, CHR 0x80, CHR 0x82], [CHR 0xE2, CHR 0x80, CHR 0x83],
      [CHR 0xE2, CHR 0x80, CHR 0x84], [CHR 0xE2, CHR 0x80, CHR 0x85],
      [CHR 0xE2, CHR 0x80, CHR 0x86], [CHR 0xE2, CHR 0x80, CHR 0x87],
      [CHR 0xE2, CHR 0x80, CHR 0x88], [CHR 0xE2, CHR 0x80, CHR 0x89],
      [CHR 0xE2, CHR 0x80, CHR 0x8A], [CHR 0xE2, CHR 0x80, CHR 0xA8],
      [CHR 0xE2, CHR 0x80, CHR 0xA9], [CHR 0xE2, CHR 0x80, CHR 0xAF],
      [CHR 0xE2, CHR 0x81, CHR 0x9F], [CHR 0xE3, CHR 0x80, CHR 0x80]]"

definition strip_one :: "string list \<Rightarrow> string \<Rightarrow> string option" where
  "strip_one ws s =
     map_option (\<lambda>w. drop (length w) s) (find (\<lambda>w. w \<noteq> [] \<and> has_prefix s w) ws)"

lemma strip_one_length:
  assumes "strip_one ws s = Some t"
  shows "length t < length s"
proof -
  from assms obtain w where w: "find (\<lambda>w. w \<noteq> [] \<and> has_prefix s w) ws = Some w"
    and t: "t = drop (length w) s"
    by (auto simp: strip_one_def)
  from w have "w \<noteq> []" and "take (length w) s = w"
    by (auto simp: find_Some_iff has_prefix_def)
  then have "0 < length w" and "length w \<le> length s"
    by (simp, metis length_take min.cobounded1)
  moreover have "length t = length s - length w"
    by (simp add: t)
  ultimately show ?thesis by linarith
qed

function trim_left_with :: "string list \<Rightarrow> string \<Rightarrow> string" where
  "trim_left_with ws s = (case strip_one ws s of None \<Rightarrow> s | Some t \<Rightarrow> trim_left_with ws t)"
  by pat_completeness auto
termination
  by (relation "measure (\<lambda>(ws, s). length s)") (auto simp: strip_one_length)

declare trim_left_with.simps [simp del]

definition trim_left :: "string \<Rightarrow> string" where
  "trim_left s = trim_left_with ws_seqs s"

definition trim_right :: "string \<Rightarrow> string" where
  "trim_right s = rev (trim_left_with (map rev ws_seqs) (rev s))"

definition trim_space :: "string \<Rightarrow> string" where
  "trim_space s = trim_right (trim_left s)"

fun take_word :: "string \<Rightarrow> string \<times> string" where
  "take_word [] = ([], [])"
| "take_word (c # cs) =
     (if strip_one ws_seqs (c # cs) \<noteq> None then ([], c # cs)
      else (let (w, r) = take_word cs in (c # w, r)))"

lemma take_word_append: "take_word s = (w, r) \<Longrightarrow> s = w @ r"
  by (induction s arbitrary: w r) (auto split: if_splits prod.splits)

lemma trim_left_with_fix: "strip_one ws (trim_left_with ws s) = None"
  by (induction ws s rule: trim_left_with.induct)
    (subst trim_left_with.simps, auto split: option.splits)

lemma take_word_nonempty:
  assumes "take_word s = (w, r)" "strip_one ws_seqs s = None" "s \<noteq> []"
  shows "length r < length s"
  using assms by (cases s) (auto split: prod.splits dest: take_word_append)

lemma trim_left_with_length: "length (trim_left_with ws s) \<le> length s"
proof (induction ws s rule: trim_left_with.induct)
  case (1 ws s)
  show ?case
  proof (cases "strip_one ws s")
    case None
    then show ?thesis by (subst trim_left_with.simps) simp
  next
    case (Some t)
    with 1 strip_one_length [OF Some] show ?thesis
      by (subst trim_left_with.simps) (simp add: order_trans less_imp_le)
  qed
qed

function fields :: "string \<Rightarrow> string list" where
  "fields s = (let s' = trim_left s in
     if s' = [] then [] else (let (w, r) = take_word s' in w # fields r))"
  by pat_completeness auto
termination
proof (relation "measure length", goal_cases)
  case 1
  show ?case by simp
next
  case (2 s s' p w r)
  then have "take_word s' = (w, r)" and "s' \<noteq> []" and s': "s' = trim_left_with ws_seqs s"
    by (simp_all add: trim_left_def)
  then have "length r < length s'"
    by (intro take_word_nonempty) (simp_all add: trim_left_with_fix)
  also have "\<dots> \<le> length s"
    by (simp add: s' trim_left_with_length)
  finally show ?case by simp
qed

declare fields.simps [simp del]

subsection \<open>Splitting, joining, replacing\<close>

fun split_on :: "char \<Rightarrow> string \<Rightarrow> string list" where
  "split_on d [] = [[]]"
| "split_on d (c # cs) =
     (if c = d then [] # split_on d cs
      else (case split_on d cs of [] \<Rightarrow> [[c]] | w # ws \<Rightarrow> (c # w) # ws))"

fun str_join :: "string \<Rightarrow> string list \<Rightarrow> string" where
  "str_join sep [] = []"
| "str_join sep [w] = w"
| "str_join sep (w # v # ws) = w @ sep @ str_join sep (v # ws)"

definition cut_at :: "char \<Rightarrow> string \<Rightarrow> (string \<times> string) option" where
  "cut_at d s = map_option (\<lambda>i. (take i s, drop (Suc i) s)) (index_of s [d])"

function replace_all :: "string \<Rightarrow> string \<Rightarrow> string \<Rightarrow> string" where
  "replace_all old new s =
     (case s of [] \<Rightarrow> []
      | c # cs \<Rightarrow> if old \<noteq> [] \<and> has_prefix s old
                 then new @ replace_all old new (drop (length old) s)
                 else c # replace_all old new cs)"
  by pat_completeness auto
termination
  by (relation "measure (\<lambda>(old, new, s). length s)") auto

declare replace_all.simps [simp del]

subsection \<open>Case, decimal numbers\<close>

definition lower_char :: "char \<Rightarrow> char" where
  "lower_char c =
     (if 65 \<le> (of_char c :: nat) \<and> (of_char c :: nat) \<le> 90 then char_of ((of_char c :: nat) + 32) else c)"

definition to_lower :: "string \<Rightarrow> string" where
  "to_lower s = map lower_char s"

fun itoa_nat :: "nat \<Rightarrow> string" where
  "itoa_nat n = (if n < 10 then [char_of (48 + n)] else itoa_nat (n div 10) @ [char_of (48 + n mod 10)])"

declare itoa_nat.simps [simp del]

definition itoa :: "int \<Rightarrow> string" where
  "itoa i = (if i < 0 then CHR ''-'' # itoa_nat (nat (- i)) else itoa_nat (nat i))"

definition digit_val :: "char \<Rightarrow> nat option" where
  "digit_val c =
     (let n = (of_char c :: nat) in if 48 \<le> n \<and> n \<le> 57 then Some (n - 48) else None)"

fun parse_digits :: "nat \<Rightarrow> string \<Rightarrow> nat option" where
  "parse_digits acc [] = Some acc"
| "parse_digits acc (c # cs) =
     (case digit_val c of None \<Rightarrow> None | Some d \<Rightarrow> parse_digits (10 * acc + d) cs)"

definition max_int64 :: int where "max_int64 = 9223372036854775807"

definition min_int64 :: int where "min_int64 = -9223372036854775808"

definition wrap64 :: "int \<Rightarrow> int" where
  "wrap64 x = (x + 9223372036854775808) mod 18446744073709551616 - 9223372036854775808"

definition atoi :: "string \<Rightarrow> int option" where
  "atoi s =
     (let (neg, ds) = (case s of [] \<Rightarrow> (False, [])
                       | c # cs \<Rightarrow> if c = CHR ''-'' then (True, cs)
                                   else if c = CHR ''+'' then (False, cs) else (False, s))
      in if ds = [] then None
         else (case parse_digits 0 ds of None \<Rightarrow> None
               | Some n \<Rightarrow> (let v = (if neg then - int n else int n)
                           in if min_int64 \<le> v \<and> v \<le> max_int64 then Some v else None)))"

text \<open>\<^verbatim>\<open>fmt.Sscanf(s, "%d", &n)\<close>: blanks but no line break, a sign, digits; what follows is not read.\<close>

definition sscan_int :: "string \<Rightarrow> int option" where
  "sscan_int s =
     (let s1 = trim_left_with (filter (\<lambda>w. w \<noteq> [CHR 0x0A]) ws_seqs) s;
          sign = (s1 \<noteq> [] \<and> (hd s1 = CHR ''-'' \<or> hd s1 = CHR ''+''));
          ds = takeWhile (\<lambda>c. digit_val c \<noteq> None) (if sign then tl s1 else s1)
      in if ds = [] then None else atoi ((if sign then [hd s1] else []) @ ds))"

subsection \<open>Lemmas on prefixes and substrings\<close>

lemma has_prefix_iff [go_string]: "has_prefix s p \<longleftrightarrow> (\<exists>t. s = p @ t)"
  unfolding has_prefix_def
  by (metis append_eq_conv_conj append_take_drop_id)

lemma has_suffix_iff [go_string]: "has_suffix s p \<longleftrightarrow> (\<exists>t. s = t @ p)"
proof
  assume "has_suffix s p"
  then have "s = take (length s - length p) s @ p"
    by (metis has_suffix_def append_take_drop_id)
  then show "\<exists>t. s = t @ p" ..
next
  assume "\<exists>t. s = t @ p"
  then show "has_suffix s p" by (auto simp: has_suffix_def)
qed

lemma has_prefix_refl [simp]: "has_prefix s s"
  by (simp add: has_prefix_def)

lemma has_prefix_Nil [simp]: "has_prefix s []"
  by (simp add: has_prefix_def)

lemma has_prefix_append [simp]: "has_prefix (p @ t) p"
  by (simp add: has_prefix_def)

lemma has_prefix_Nil_left [simp]: "has_prefix [] p \<longleftrightarrow> p = []"
  by (auto simp: has_prefix_def)

lemma has_prefix_Cons [simp]: "has_prefix (c # s) (d # p) \<longleftrightarrow> c = d \<and> has_prefix s p"
  by (auto simp: has_prefix_def)

lemma index_of_prefix: "has_prefix s sub \<Longrightarrow> index_of s sub = Some 0"
  by (cases s) auto

lemma index_of_Some [go_string]:
  "index_of s sub = Some i \<Longrightarrow>
     i + length sub \<le> length s \<and> has_prefix (drop i s) sub \<and> (\<forall>j < i. \<not> has_prefix (drop j s) sub)"
proof (induction s arbitrary: i)
  case Nil
  then show ?case by (auto split: if_splits)
next
  case (Cons c cs)
  show ?case
  proof (cases "has_prefix (c # cs) sub")
    case True
    with Cons.prems have "i = 0" by simp
    with True show ?thesis by (auto simp: has_prefix_iff dest: arg_cong [where f = length])
  next
    case False
    with Cons.prems obtain k where k: "index_of cs sub = Some k" "i = Suc k" by auto
    from Cons.IH [OF k(1)] False show ?thesis
      by (auto simp: k(2) less_Suc_eq_0_disj)
  qed
qed

lemma index_of_None [go_string]:
  "index_of s sub = None \<longleftrightarrow> (\<forall>a b. s \<noteq> a @ sub @ b)"
proof (induction s)
  case Nil
  then show ?case by auto
next
  case (Cons c cs)
  have "(\<exists>a b. c # cs = a @ sub @ b) \<longleftrightarrow> has_prefix (c # cs) sub \<or> (\<exists>a b. cs = a @ sub @ b)"
    by (metis (no_types, lifting) append_Cons append_Nil has_prefix_iff list.inject neq_Nil_conv)
  then show ?case using Cons.IH by (auto split: if_splits)
qed

lemma str_contains_iff [go_string]: "str_contains s sub \<longleftrightarrow> (\<exists>a b. s = a @ sub @ b)"
  by (simp add: str_contains_def index_of_None)

lemma index_of_split:
  assumes "index_of s sub = Some i"
  shows "s = take i s @ sub @ drop (i + length sub) s"
proof -
  from index_of_Some [OF assms] have "take (length sub) (drop i s) = sub"
    by (simp add: has_prefix_def)
  then have "drop i s = sub @ drop (i + length sub) s"
    by (metis append_take_drop_id drop_drop add.commute)
  then show ?thesis by (metis append_take_drop_id)
qed

lemma str_contains_append_left: "str_contains s sub \<Longrightarrow> str_contains (t @ s) sub"
  unfolding str_contains_iff by (metis append_assoc)

lemma str_contains_append_right: "str_contains s sub \<Longrightarrow> str_contains (s @ t) sub"
  unfolding str_contains_iff by (metis append_assoc)

lemma contains_any_iff [go_string]: "contains_any s chars \<longleftrightarrow> set s \<inter> set chars \<noteq> {}"
  by (auto simp: contains_any_def list_ex_iff)

subsection \<open>Lemmas on trimming\<close>

lemma strip_one_Nil [simp]: "strip_one ws [] = None"
  by (auto simp: strip_one_def find_None_iff)

lemma trim_left_with_id: "strip_one ws s = None \<Longrightarrow> trim_left_with ws s = s"
  by (subst trim_left_with.simps) simp

lemma trim_space_Nil [simp]: "trim_space [] = []"
  by (simp add: trim_space_def trim_left_def trim_right_def trim_left_with_id)

lemma trim_left_with_suffix: "\<exists>p. s = p @ trim_left_with ws s"
proof (induction ws s rule: trim_left_with.induct)
  case (1 ws s)
  show ?case
  proof (cases "strip_one ws s")
    case None
    then show ?thesis by (simp add: trim_left_with_id)
  next
    case (Some t)
    with 1 obtain p where "t = p @ trim_left_with ws t" by blast
    moreover obtain q where "s = q @ t"
      using Some by (auto simp: strip_one_def) (metis append_take_drop_id)
    ultimately have "s = (q @ p) @ trim_left_with ws t" by simp
    then show ?thesis using Some by (subst trim_left_with.simps) auto
  qed
qed

lemma trim_space_infix: "\<exists>a b. s = a @ trim_space s @ b"
proof -
  obtain a where a: "s = a @ trim_left s"
    using trim_left_with_suffix [of s ws_seqs] by (auto simp: trim_left_def)
  obtain p where "rev (trim_left s) = p @ trim_left_with (map rev ws_seqs) (rev (trim_left s))"
    using trim_left_with_suffix by blast
  then have "trim_left s = trim_space s @ rev p"
    by (metis rev_append rev_rev_ident trim_right_def trim_space_def)
  with a show ?thesis by metis
qed

lemma trim_space_length: "length (trim_space s) \<le> length s"
  using trim_space_infix [of s] by (metis length_append le_add1 le_add2 le_trans)

subsection \<open>Lemmas on splitting and joining\<close>

lemma strip_one_append: "strip_one ws s \<noteq> None \<Longrightarrow> strip_one ws (s @ t) \<noteq> None"
proof -
  have "has_prefix s w \<Longrightarrow> has_prefix (s @ t) w" for w by (auto simp: has_prefix_iff)
  then show "strip_one ws s \<noteq> None \<Longrightarrow> strip_one ws (s @ t) \<noteq> None"
    by (auto simp: strip_one_def find_None_iff find_Some_iff)
qed

lemma trim_left_trim_space [simp]: "trim_left (trim_space s) = trim_space s"
proof -
  obtain p where "rev (trim_left s) = p @ trim_left_with (map rev ws_seqs) (rev (trim_left s))"
    using trim_left_with_suffix by blast
  then have "trim_left s = trim_space s @ rev p"
    by (metis rev_append rev_rev_ident trim_right_def trim_space_def)
  moreover have "strip_one ws_seqs (trim_left s) = None"
    by (simp add: trim_left_def trim_left_with_fix)
  ultimately have "strip_one ws_seqs (trim_space s) = None"
    using strip_one_append [of ws_seqs "trim_space s" "rev p"] by (metis option.distinct(1))
  then show ?thesis by (simp add: trim_left_def trim_left_with_id)
qed

lemma fields_not_Nil: "trim_space s \<noteq> [] \<Longrightarrow> fields (trim_space s) \<noteq> []"
  by (subst fields.simps) (simp add: split: prod.splits)

lemma split_on_not_Nil [simp]: "split_on d s \<noteq> []"
  by (induction s) (auto split: list.splits)

lemma join_split [go_string]: "str_join [d] (split_on d s) = s"
proof (induction s)
  case Nil
  show ?case by simp
next
  case (Cons c cs)
  then show ?case
    by (cases "split_on d cs" rule: list.exhaust; cases "tl (split_on d cs)")
      (auto simp: neq_Nil_conv)
qed

subsection \<open>Lemmas on decimal numbers\<close>

lemma digit_val_char [simp]: "d < 10 \<Longrightarrow> digit_val (char_of (48 + d)) = Some d"
  by (simp add: digit_val_def Let_def)

lemma parse_digits_append:
  "parse_digits acc (s @ t) = Option.bind (parse_digits acc s) (\<lambda>a. parse_digits a t)"
  by (induction s arbitrary: acc) (auto split: option.splits)

lemma parse_digits_itoa: "\<exists>k. parse_digits acc (itoa_nat n) = Some (acc * 10 ^ k + n)"
proof (induction n arbitrary: acc rule: itoa_nat.induct)
  case (1 n)
  show ?case
  proof (cases "n < 10")
    case True
    then have "parse_digits acc (itoa_nat n) = Some (acc * 10 ^ 1 + n)"
      by (subst itoa_nat.simps) simp
    then show ?thesis ..
  next
    case False
    with 1 obtain k where "parse_digits acc (itoa_nat (n div 10)) = Some (acc * 10 ^ k + n div 10)"
      by blast
    then have "parse_digits acc (itoa_nat n) = Some (acc * 10 ^ Suc k + n)"
      using False by (subst itoa_nat.simps) (simp add: parse_digits_append algebra_simps)
    then show ?thesis ..
  qed
qed

lemma parse_digits_itoa_0: "parse_digits 0 (itoa_nat n) = Some n"
  using parse_digits_itoa [of 0 n] by auto

lemma itoa_nat_not_Nil [simp]: "itoa_nat n \<noteq> []"
  by (subst itoa_nat.simps) simp

lemma itoa_nat_digits: "c \<in> set (itoa_nat n) \<Longrightarrow> digit_val c \<noteq> None"
proof (induction n rule: itoa_nat.induct)
  case (1 n)
  show ?case
  proof (cases "n < 10")
    case True
    then show ?thesis using "1.prems" by (subst (asm) itoa_nat.simps) simp
  next
    case False
    then have "c \<in> set (itoa_nat (n div 10)) \<or> c = char_of (48 + n mod 10)"
      using "1.prems" by (subst (asm) itoa_nat.simps) auto
    then show ?thesis using "1.IH" [OF False] by auto
  qed
qed

lemma atoi_itoa [go_string]:
  assumes "min_int64 \<le> i" "i \<le> max_int64"
  shows "atoi (itoa i) = Some i"
proof (cases "i < 0")
  case True
  then show ?thesis using assms
    by (simp add: atoi_def itoa_def parse_digits_itoa_0)
next
  case False
  obtain c cs where eq: "itoa_nat (nat i) = c # cs"
    by (cases "itoa_nat (nat i)") auto
  then have "digit_val c \<noteq> None"
    using itoa_nat_digits [of c "nat i"] by simp
  then have "c \<noteq> CHR ''-''" and "c \<noteq> CHR ''+''"
    by (auto simp: digit_val_def Let_def)
  moreover have "parse_digits 0 (c # cs) = Some (nat i)"
    by (metis eq parse_digits_itoa_0)
  ultimately show ?thesis using False assms eq
    by (simp add: atoi_def itoa_def del: parse_digits.simps)
qed

lemma atoi_range: "atoi s = Some v \<Longrightarrow> min_int64 \<le> v \<and> v \<le> max_int64"
  by (auto simp: atoi_def Let_def split: if_splits option.splits prod.splits)

lemma wrap64_id [go_string]: "min_int64 \<le> x \<Longrightarrow> x \<le> max_int64 \<Longrightarrow> wrap64 x = x"
  by (simp add: wrap64_def min_int64_def max_int64_def)

lemma wrap64_range: "min_int64 \<le> wrap64 x \<and> wrap64 x \<le> max_int64"
  by (simp add: wrap64_def min_int64_def max_int64_def)

end
