(* ===== verification/Go_Values.thy ===== *)
theory Go_Values
  imports Go_Strings "HOL-Library.AList" "HOL-Library.List_Lexorder" "HOL-Library.Char_ord"
begin

section \<open>Dynamic Go values and time\<close>

text \<open>
  \<^verbatim>\<open>interface{}\<close> values as decoded from JSON or YAML (\<^verbatim>\<open>nil\<close>, booleans, integers, floats, strings,
  \<^verbatim>\<open>[]interface{}\<close>, \<^verbatim>\<open>map[string]interface{}\<close>), their \<^verbatim>\<open>%v\<close> and \<^verbatim>\<open>%q\<close> renderings, and
  \<^verbatim>\<open>time.Time\<close>.
  A map is an association list; the order of the list is the order in which one \<^verbatim>\<open>range\<close> loop
  visits it, which Go leaves open, so theorems hold for every order.
  A \<^verbatim>\<open>float64\<close> is \<open>NaN\<close>, an infinity, or finite; a finite one is represented by its shortest decimal form \<open>m * 10 ^ e\<close> that reads
  back as the same float (\<open>Dec m e\<close>, \<open>m\<close> without trailing zeros), which determines it.
  A \<^verbatim>\<open>time.Time\<close> is the number of nanoseconds since January 1 of year 1 UTC, Go's zero time.
\<close>

subsection \<open>Values\<close>

datatype gofloat = Dec int int | NaN | PosInf | NegInf

text \<open>Go's \<^verbatim>\<open><\<close> on floats: false whenever an operand is \<^verbatim>\<open>NaN\<close>.\<close>

fun float_less :: "gofloat \<Rightarrow> gofloat \<Rightarrow> bool" where
  "float_less NaN _ = False"
| "float_less _ NaN = False"
| "float_less _ NegInf = False"
| "float_less NegInf _ = True"
| "float_less PosInf _ = False"
| "float_less _ PosInf = True"
| "float_less (Dec m e) (Dec n f) =
     (let g = min e f in m * 10 ^ nat (e - g) < n * 10 ^ nat (f - g))"

datatype gvalue =
    GNil
  | GBool bool
  | GInt int
  | GFloat gofloat
  | GStr string
  | GList "gvalue list"
  | GMap "(string \<times> gvalue) list"

type_synonym gmap = "(string \<times> gvalue) list"

fun as_string :: "gvalue \<Rightarrow> string option" where
  "as_string (GStr s) = Some s"
| "as_string _ = None"

fun as_map :: "gvalue \<Rightarrow> gmap option" where
  "as_map (GMap m) = Some m"
| "as_map _ = None"

fun as_list :: "gvalue \<Rightarrow> gvalue list option" where
  "as_list (GList xs) = Some xs"
| "as_list _ = None"

text \<open>\<open>get_string m k\<close> is \<^verbatim>\<open>s, _ := m[k].(string)\<close>: the empty string when the key is missing or
  holds another type.\<close>

definition get_string :: "gmap \<Rightarrow> string \<Rightarrow> string" where
  "get_string m k =
     (case map_of m k of Some v \<Rightarrow> (case as_string v of Some s \<Rightarrow> s | None \<Rightarrow> []) | None \<Rightarrow> [])"

subsection \<open>Rendering with \<^verbatim>\<open>%v\<close> and \<^verbatim>\<open>%q\<close>\<close>

definition pad_zeros :: "nat \<Rightarrow> string \<Rightarrow> string" where
  "pad_zeros n s = replicate (n - length s) (CHR ''0'') @ s"

fun fmt_float :: "gofloat \<Rightarrow> string" where
  "fmt_float NaN = ''NaN''"
| "fmt_float PosInf = ''+Inf''"
| "fmt_float NegInf = ''-Inf''"
| "fmt_float (Dec m e) =
     (if m = 0 then ''0''
      else (let sign = (if m < 0 then ''-'' else []);
                ds = itoa_nat (nat \<bar>m\<bar>);
                dp = int (length ds) + e;
                ex = dp - 1
            in if ex < -4 \<or> 6 \<le> ex
               then sign @ take 1 ds @ (if 1 < length ds then ''.'' @ drop 1 ds else []) @
                    ''e'' @ (if ex < 0 then ''-'' else ''+'') @ pad_zeros 2 (itoa_nat (nat \<bar>ex\<bar>))
               else sign @
                    (if 0 < dp then take (nat dp) ds @ replicate (nat dp - length ds) (CHR ''0'') else ''0'') @
                    (if dp < int (length ds)
                     then ''.'' @ replicate (nat (- dp)) (CHR ''0'') @ drop (nat dp) ds else [])))"

fun sprint_v :: "gvalue \<Rightarrow> string" where
  "sprint_v GNil = ''<nil>''"
| "sprint_v (GBool b) = (if b then ''true'' else ''false'')"
| "sprint_v (GInt i) = itoa i"
| "sprint_v (GFloat f) = fmt_float f"
| "sprint_v (GStr s) = s"
| "sprint_v (GList xs) = ''['' @ str_join '' '' (map sprint_v xs) @ '']''"
| "sprint_v (GMap m) =
     ''map['' @
     str_join '' '' (map (\<lambda>(k, v). k @ '':'' @ v)
       (sort_key fst (map (\<lambda>(k, v). (k, sprint_v v)) m))) @ '']''"

definition hex_digit :: "nat \<Rightarrow> char" where
  "hex_digit n = (if n < 10 then char_of (48 + n) else char_of (87 + n))"

definition quote_char :: "char \<Rightarrow> string" where
  "quote_char c =
     (if c = CHR 0x22 \<or> c = CHR 0x5C then [CHR 0x5C, c] else
      if c = CHR 0x07 then [CHR 0x5C, CHR ''a''] else
      if c = CHR 0x08 then [CHR 0x5C, CHR ''b''] else
      if c = CHR 0x09 then [CHR 0x5C, CHR ''t''] else
      if c = CHR 0x0A then [CHR 0x5C, CHR ''n''] else
      if c = CHR 0x0B then [CHR 0x5C, CHR ''v''] else
      if c = CHR 0x0C then [CHR 0x5C, CHR ''f''] else
      if c = CHR 0x0D then [CHR 0x5C, CHR ''r''] else
      (let n = (of_char c :: nat) in
       if n < 32 \<or> n = 127
       then [CHR 0x5C, CHR ''x'', hex_digit (n div 16), hex_digit (n mod 16)] else [c]))"

definition go_quote :: "string \<Rightarrow> string" where
  "go_quote s = [CHR 0x22] @ concat (map quote_char s) @ [CHR 0x22]"

subsection \<open>Times and durations\<close>

type_synonym gotime = int

definition nanosecond :: int where "nanosecond = 1"
definition millisecond :: int where "millisecond = 1000000"
definition second :: int where "second = 1000000000"
definition minute :: int where "minute = 60000000000"
definition hour :: int where "hour = 3600000000000"

definition is_zero_time :: "gotime \<Rightarrow> bool" where
  "is_zero_time t \<longleftrightarrow> t = 0"

definition truncate_time :: "gotime \<Rightarrow> int \<Rightarrow> gotime" where
  "truncate_time t d = (if d \<le> 0 then t else t - t mod d)"

definition day_number :: "gotime \<Rightarrow> int" where
  "day_number t = t div (24 * hour)"

text \<open>Year, month and day of a day number, on the proleptic Gregorian calendar: days are counted
  from March 1 of year 0, in eras of 400 years.\<close>

definition civil :: "int \<Rightarrow> int \<times> int \<times> int" where
  "civil n =
     (let z = n + 306;
          era = z div 146097;
          doe = z mod 146097;
          yoe = (doe - doe div 1460 + doe div 36524 - doe div 146096) div 365;
          doy = doe - (365 * yoe + yoe div 4 - yoe div 100);
          mp = (5 * doy + 2) div 153;
          d = doy - (153 * mp + 2) div 5 + 1;
          m = (if mp < 10 then mp + 3 else mp - 9);
          y = yoe + era * 400 + (if m \<le> 2 then 1 else 0)
      in (y, m, d))"

definition time_year :: "gotime \<Rightarrow> int" where
  "time_year t = fst (civil (day_number t))"
definition time_month :: "gotime \<Rightarrow> int" where
  "time_month t = fst (snd (civil (day_number t)))"
definition time_day :: "gotime \<Rightarrow> int" where
  "time_day t = snd (snd (civil (day_number t)))"
definition time_weekday :: "gotime \<Rightarrow> int" where
  "time_weekday t = (day_number t + 1) mod 7"
definition time_hour :: "gotime \<Rightarrow> int" where
  "time_hour t = (t div hour) mod 24"
definition time_minute :: "gotime \<Rightarrow> int" where
  "time_minute t = (t div minute) mod 60"
definition time_second :: "gotime \<Rightarrow> int" where
  "time_second t = (t div second) mod 60"

definition pad_int :: "nat \<Rightarrow> int \<Rightarrow> string" where
  "pad_int n i = pad_zeros n (itoa i)"

definition fmt_rfc3339 :: "gotime \<Rightarrow> string" where
  "fmt_rfc3339 t =
     pad_int 4 (time_year t) @ ''-'' @ pad_int 2 (time_month t) @ ''-'' @ pad_int 2 (time_day t) @ ''T'' @
     pad_int 2 (time_hour t) @ '':'' @ pad_int 2 (time_minute t) @ '':'' @ pad_int 2 (time_second t) @ ''Z''"

definition fmt_rfc3339_nano :: "gotime \<Rightarrow> string" where
  "fmt_rfc3339_nano t =
     (let frac = rev (dropWhile (\<lambda>c. c = CHR ''0'') (rev (pad_int 9 (t mod second))))
      in butlast (fmt_rfc3339 t) @ (if frac = [] then [] else ''.'' @ frac) @ ''Z'')"

text \<open>Known dates, evaluated: the zero time is a Monday; the Unix epoch; a leap day.\<close>

lemma civil_zero: "civil 0 = (1, 1, 1)"
  by code_simp

lemma civil_unix_epoch: "civil 719162 = (1970, 1, 1)"
  by code_simp

lemma civil_leap_day: "civil (719162 + 19782) = (2024, 2, 29)"
  by code_simp

subsection \<open>Error values\<close>

text \<open>
  A Go function that returns \<^verbatim>\<open>error\<close> gives \<open>'e option\<close>, \<open>None\<close> for \<^verbatim>\<open>nil\<close>; one that returns
  a value and an error gives \<open>'e + 'a\<close>.  \<open>first_of\<close> is a sequence of
  \<^verbatim>\<open>if ... { return err }\<close> checks, \<open>reject b e\<close> one such check, \<open>first_error\<close> the same in
  a \<^verbatim>\<open>for i, x := range xs\<close> loop.
\<close>

definition reject :: "bool \<Rightarrow> 'e \<Rightarrow> 'e option" where
  "reject b e = (if b then Some e else None)"

fun first_of :: "'e option list \<Rightarrow> 'e option" where
  "first_of [] = None"
| "first_of (Some e # rs) = Some e"
| "first_of (None # rs) = first_of rs"

fun first_error :: "(nat \<Rightarrow> 'a \<Rightarrow> 'e option) \<Rightarrow> nat \<Rightarrow> 'a list \<Rightarrow> 'e option" where
  "first_error f i [] = None"
| "first_error f i (x # xs) = (case f i x of Some e \<Rightarrow> Some e | None \<Rightarrow> first_error f (Suc i) xs)"

lemma reject_None [simp]: "reject b e = None \<longleftrightarrow> \<not> b"
  by (simp add: reject_def)

lemma reject_Some [simp]: "reject b e = Some x \<longleftrightarrow> b \<and> x = e"
  by (auto simp: reject_def)

lemma first_of_None [simp]: "first_of (r # rs) = None \<longleftrightarrow> r = None \<and> first_of rs = None"
  by (cases r) auto

lemma first_of_Cons: "first_of (r # rs) = (case r of Some e \<Rightarrow> Some e | None \<Rightarrow> first_of rs)"
  by (cases r) auto

lemma first_of_append: "first_of (rs @ qs) = (case first_of rs of Some e \<Rightarrow> Some e | None \<Rightarrow> first_of qs)"
  by (induction rs rule: first_of.induct) auto

lemma first_of_Some: "first_of rs = Some e \<Longrightarrow> Some e \<in> set rs"
  by (induction rs rule: first_of.induct) auto

lemma first_error_None:
  "first_error f i xs = None \<longleftrightarrow> (\<forall>j < length xs. f (i + j) (xs ! j) = None)"
  by (induction f i xs rule: first_error.induct)
    (auto split: option.splits simp: less_Suc_eq_0_disj)

lemma first_error_Some:
  "first_error f i xs = Some e \<longleftrightarrow>
     (\<exists>j < length xs. f (i + j) (xs ! j) = Some e \<and> (\<forall>k < j. f (i + k) (xs ! k) = None))"
proof (induction f i xs rule: first_error.induct)
  case (1 f i)
  then show ?case by simp
next
  case (2 f i x xs)
  then show ?case
    by (cases "f i x") (auto simp: Ex_less_Suc2 All_less_Suc2)
qed

lemma first_error_None_all:
  "(\<And>i x. f i x = None \<longleftrightarrow> P x) \<Longrightarrow> first_error f i xs = None \<longleftrightarrow> (\<forall>x \<in> set xs. P x)"
  by (simp add: first_error_None all_set_conv_all_nth)

lemma first_error_cong [fundef_cong]:
  assumes "xs = ys" "i = j" "\<And>k x. x \<in> set ys \<Longrightarrow> f k x = g k x"
  shows "first_error f i xs = first_error g j ys"
  unfolding assms(1,2) using assms(3) by (induction ys arbitrary: j) (auto split: option.split)

subsection \<open>Maps\<close>

text \<open>\<^verbatim>\<open>m[k]\<close> on a \<^verbatim>\<open>map[string]string\<close>: the empty string when the key is missing.\<close>

definition cfg_get :: "(string \<times> string) list \<Rightarrow> string \<Rightarrow> string" where
  "cfg_get m k = (case map_of m k of None \<Rightarrow> [] | Some v \<Rightarrow> v)"

lemma map_of_update [simp]: "map_of (AList.update k v m) = (map_of m)(k \<mapsto> v)"
  by (rule update_conv')

lemma map_of_delete [simp]: "map_of (AList.delete k m) = (map_of m)(k := None)"
  by (rule delete_conv')

lemma in_update: "(n, x) \<in> set (AList.update k v w) \<Longrightarrow> n = k \<and> x = v \<or> (n, x) \<in> set w"
  by (induction w) (auto split: if_splits)

end
