(* ===== verification/Gosuto_Types.thy ===== *)
theory Gosuto_Types
  imports Go_Values
begin

section \<open>The Gosuto configuration schema\<close>

text \<open>
  \<^verbatim>\<open>common/spec/gosuto/types.go\<close>: one record per struct, fields in the source's order.
  \<^verbatim>\<open>WorkflowProtocolStep\<close> contains a list of itself, so its flat fields are a record and the step
  a datatype around it.  \<^verbatim>\<open>map[string]string\<close> is an association list; an unset optional pointer
  (\<^verbatim>\<open>Persona.Temperature\<close>) is \<open>None\<close>.
\<close>

definition SpecVersion :: string where
  "SpecVersion = ''gosuto/v1''"

record Metadata =
  md_Name :: string
  md_Template :: string
  md_CanonicalName :: string
  md_Description :: string

record TrustedPeer =
  tp_MXID :: string
  tp_RoomID :: string
  tp_Alias :: string
  tp_Protocols :: "string list"

record Trust =
  tr_AllowedRooms :: "string list"
  tr_AllowedSenders :: "string list"
  tr_RequireE2EE :: bool
  tr_AdminRoom :: string
  tr_TrustedPeers :: "TrustedPeer list"

record WorkflowSchemas =
  ws_Definitions :: gmap
  ws_Duplicates :: "string list"

record WorkflowTrigger =
  wt_Type :: string
  wt_Prefix :: string

record StepFields =
  sf_Type :: string
  sf_Tool :: string
  sf_ArgsTemplate :: gmap
  sf_BranchExpr :: string
  sf_Prompt :: string
  sf_InputSchemaRef :: string
  sf_OutputSchemaRef :: string
  sf_Retries :: int
  sf_MaxOutputItems :: int
  sf_TargetAlias :: string
  sf_PayloadTemplate :: string
  sf_PersistKey :: string
  sf_PersistValue :: string
  sf_ItemsExpr :: string
  sf_ItemVar :: string
  sf_MaxIterations :: int
  sf_ForEachIterationSchemaRef :: string
  sf_ForEachResultSchemaRef :: string
  sf_CollectFrom :: string
  sf_CollectMode :: string
  sf_CollectFlatten :: bool

datatype WorkflowProtocolStep =
  Step (step_fields: StepFields) (step_steps: "WorkflowProtocolStep list")

record WorkflowProtocol =
  wp_ID :: string
  wp_Trigger :: WorkflowTrigger
  wp_InputSchemaRef :: string
  wp_Retries :: int
  wp_Steps :: "WorkflowProtocolStep list"

record Workflow =
  wf_Schemas :: WorkflowSchemas
  wf_Protocols :: "WorkflowProtocol list"

record Limits =
  li_MaxRequestsPerMinute :: int
  li_MaxTokensPerRequest :: int
  li_MaxConcurrentRequests :: int
  li_MaxMonthlyCostUSD :: gofloat
  li_MaxEventsPerMinute :: int

record Capability =
  cap_Name :: string
  cap_MCP :: string
  cap_Tool :: string
  cap_Allow :: bool
  cap_RequireApproval :: bool
  cap_Constraints :: "(string \<times> string) list"

record Approvals =
  ap_Enabled :: bool
  ap_Room :: string
  ap_Approvers :: "string list"
  ap_TTLSeconds :: int

record MCPServer =
  mcp_Name :: string
  mcp_Command :: string
  mcp_Args :: "string list"
  mcp_Env :: "(string \<times> string) list"
  mcp_AutoRestart :: bool

record Gateway =
  gw_Name :: string
  gw_Type :: string
  gw_Command :: string
  gw_Args :: "string list"
  gw_Env :: "(string \<times> string) list"
  gw_Config :: "(string \<times> string) list"
  gw_AutoRestart :: bool

record SecretRef =
  sr_Name :: string
  sr_EnvVar :: string
  sr_Required :: bool

record WorkflowStep =
  st_Trigger :: string
  st_Action :: string

record PeerRef =
  pr_Name :: string
  pr_Role :: string

record InstructionsContext =
  ic_User :: string
  ic_Peers :: "PeerRef list"

record Instructions =
  in_Role :: string
  in_Workflow :: "WorkflowStep list"
  in_Context :: InstructionsContext

record MessagingTarget =
  mt_RoomID :: string
  mt_Alias :: string

record Messaging =
  ms_AllowedTargets :: "MessagingTarget list"
  ms_MaxMessagesPerMinute :: int

record Persona =
  pe_SystemPrompt :: string
  pe_LLMProvider :: string
  pe_Model :: string
  pe_Temperature :: "gofloat option"
  pe_APIKeySecretRef :: string

record Config =
  cf_APIVersion :: string
  cf_Metadata :: Metadata
  cf_Trust :: Trust
  cf_Limits :: Limits
  cf_Capabilities :: "Capability list"
  cf_Approvals :: Approvals
  cf_MCPs :: "MCPServer list"
  cf_Gateways :: "Gateway list"
  cf_Secrets :: "SecretRef list"
  cf_Persona :: Persona
  cf_Instructions :: Instructions
  cf_Messaging :: Messaging
  cf_Workflow :: Workflow

subsection \<open>Zero values\<close>

text \<open>The Go zero values of the structs: what an absent YAML section decodes to.\<close>

definition zero_StepFields :: StepFields where
  "zero_StepFields =
     \<lparr>sf_Type = [], sf_Tool = [], sf_ArgsTemplate = [], sf_BranchExpr = [], sf_Prompt = [],
      sf_InputSchemaRef = [], sf_OutputSchemaRef = [], sf_Retries = 0, sf_MaxOutputItems = 0,
      sf_TargetAlias = [], sf_PayloadTemplate = [], sf_PersistKey = [], sf_PersistValue = [],
      sf_ItemsExpr = [], sf_ItemVar = [], sf_MaxIterations = 0, sf_ForEachIterationSchemaRef = [],
      sf_ForEachResultSchemaRef = [], sf_CollectFrom = [], sf_CollectMode = [],
      sf_CollectFlatten = False\<rparr>"

definition zero_Trust :: Trust where
  "zero_Trust = \<lparr>tr_AllowedRooms = [], tr_AllowedSenders = [], tr_RequireE2EE = False,
     tr_AdminRoom = [], tr_TrustedPeers = []\<rparr>"

definition zero_Gateway :: Gateway where
  "zero_Gateway = \<lparr>gw_Name = [], gw_Type = [], gw_Command = [], gw_Args = [], gw_Env = [],
     gw_Config = [], gw_AutoRestart = False\<rparr>"

definition zero_Workflow :: Workflow where
  "zero_Workflow = \<lparr>wf_Schemas = \<lparr>ws_Definitions = [], ws_Duplicates = []\<rparr>, wf_Protocols = []\<rparr>"

definition zero_Config :: Config where
  "zero_Config =
     \<lparr>cf_APIVersion = [],
      cf_Metadata = \<lparr>md_Name = [], md_Template = [], md_CanonicalName = [], md_Description = []\<rparr>,
      cf_Trust = zero_Trust,
      cf_Limits = \<lparr>li_MaxRequestsPerMinute = 0, li_MaxTokensPerRequest = 0,
        li_MaxConcurrentRequests = 0, li_MaxMonthlyCostUSD = Dec 0 0, li_MaxEventsPerMinute = 0\<rparr>,
      cf_Capabilities = [],
      cf_Approvals = \<lparr>ap_Enabled = False, ap_Room = [], ap_Approvers = [], ap_TTLSeconds = 0\<rparr>,
      cf_MCPs = [], cf_Gateways = [], cf_Secrets = [],
      cf_Persona = \<lparr>pe_SystemPrompt = [], pe_LLMProvider = [], pe_Model = [], pe_Temperature = None,
        pe_APIKeySecretRef = []\<rparr>,
      cf_Instructions = \<lparr>in_Role = [], in_Workflow = [], in_Context = \<lparr>ic_User = [], ic_Peers = []\<rparr>\<rparr>,
      cf_Messaging = \<lparr>ms_AllowedTargets = [], ms_MaxMessagesPerMinute = 0\<rparr>,
      cf_Workflow = zero_Workflow\<rparr>"

subsection \<open>Decoding \<^verbatim>\<open>workflow.schemas\<close>\<close>

text \<open>
  \<^verbatim>\<open>WorkflowSchemas.UnmarshalYAML\<close> walks the key and value nodes of a YAML mapping.  The YAML
  library is a parameter: \<open>decode\<close> stands for \<^verbatim>\<open>valueNode.Decode(&schema)\<close> (\<open>None\<close> for its error),
  and the node is given as its kind and its list of pairs.
\<close>

datatype 'n yaml_node = MappingNode "(string \<times> 'n) list" | OtherNode

datatype schemas_error = NotAMapping | DecodeSchema string

definition store_schema :: "string \<Rightarrow> gvalue \<Rightarrow> WorkflowSchemas \<Rightarrow> WorkflowSchemas" where
  "store_schema key schema w =
     (let w' = (if map_of (ws_Definitions w) key \<noteq> None
                then w\<lparr>ws_Duplicates := ws_Duplicates w @ [key]\<rparr> else w)
      in w'\<lparr>ws_Definitions := AList.update key schema (ws_Definitions w')\<rparr>)"

fun unmarshal_pairs ::
    "('n \<Rightarrow> gvalue option) \<Rightarrow> (string \<times> 'n) list \<Rightarrow> WorkflowSchemas \<Rightarrow> schemas_error + WorkflowSchemas"
where
  "unmarshal_pairs decode [] w = Inr w"
| "unmarshal_pairs decode ((key, node) # rest) w =
     (case decode node of
        None \<Rightarrow> Inl (DecodeSchema key)
      | Some schema \<Rightarrow> unmarshal_pairs decode rest (store_schema key schema w))"

fun UnmarshalYAML :: "('n \<Rightarrow> gvalue option) \<Rightarrow> 'n yaml_node \<Rightarrow> schemas_error + WorkflowSchemas" where
  "UnmarshalYAML decode OtherNode = Inl NotAMapping"
| "UnmarshalYAML decode (MappingNode pairs) =
     unmarshal_pairs decode pairs \<lparr>ws_Definitions = [], ws_Duplicates = []\<rparr>"

definition MarshalYAML :: "WorkflowSchemas \<Rightarrow> gmap" where
  "MarshalYAML w = (if ws_Definitions w = [] then [] else ws_Definitions w)"

lemma store_schema_simps [simp]:
  "ws_Definitions (store_schema key schema w) = AList.update key schema (ws_Definitions w)"
  "ws_Duplicates (store_schema key schema w) =
     ws_Duplicates w @ (if map_of (ws_Definitions w) key \<noteq> None then [key] else [])"
  by (simp_all add: store_schema_def Let_def)

lemma unmarshal_pairs_distinct:
  "distinct (map fst (ws_Definitions w)) \<Longrightarrow> unmarshal_pairs decode pairs w = Inr w' \<Longrightarrow>
     distinct (map fst (ws_Definitions w'))"
  by (induction decode pairs w rule: unmarshal_pairs.induct)
    (auto simp: distinct_update split: option.splits)

lemma unmarshal_pairs_dups:
  "unmarshal_pairs decode pairs w = Inr w' \<Longrightarrow>
     ws_Duplicates w' = [] \<longleftrightarrow>
       ws_Duplicates w = [] \<and> distinct (map fst pairs) \<and>
       dom (map_of (ws_Definitions w)) \<inter> set (map fst pairs) = {}"
proof (induction decode pairs w rule: unmarshal_pairs.induct)
  case (1 decode w)
  then show ?case by simp
next
  case (2 decode key node rest w)
  then obtain schema where schema: "decode node = Some schema"
    and rest: "unmarshal_pairs decode rest (store_schema key schema w) = Inr w'"
    by (auto split: option.splits)
  show ?case
    unfolding "2.IH" [OF schema rest] by (auto simp: dom_def)
qed

lemma UnmarshalYAML_duplicates:
  "UnmarshalYAML decode (MappingNode pairs) = Inr w \<Longrightarrow>
     ws_Duplicates w = [] \<longleftrightarrow> distinct (map fst pairs)"
  by (simp add: unmarshal_pairs_dups)

end
