(* ===== verification/Gosuto_Validate.thy ===== *)
theory Gosuto_Validate
  imports Gosuto_Types
begin

section \<open>Validation of a Gosuto configuration\<close>

text \<open>
  \<^verbatim>\<open>common/spec/gosuto/validate.go\<close>: \<^verbatim>\<open>Validate\<close> and its helpers, check by check in the source's
  order, and \<^verbatim>\<open>Warnings\<close>.  An error is a constructor per message; the wrappers
  \<^verbatim>\<open>fmt.Errorf("trust: %w", err)\<close> and the like are constructors around the inner error.
  The second half states what a valid configuration is, without the order of the checks, and
  proves that \<^verbatim>\<open>Validate\<close> accepts exactly those.
\<close>

datatype trust_error =
    NoAllowedRooms
  | BadRoom string
  | NoAllowedSenders
  | BadSender string
  | PeerBadMXID nat string
  | PeerBadRoom nat string
  | PeerNoProtocols nat
  | PeerEmptyProtocol nat nat
  | PeerDuplicate nat string string string

datatype ref_error =
    SchemaRefEmpty string
  | SchemaRefExternal
  | SchemaRefNoSchemas
  | InputRefNotFound string string
  | OutputRefNotFound string int string

datatype step_error =
    StepUnknownType string string string
  | StepNegativeRetries string string
  | StepNegativeMaxOutput string string
  | StepRef ref_error
  | IterationRefMisplaced string string
  | ResultRefMisplaced string string
  | PlanNoPrompt string string
  | PlanNoOutputRef string string
  | ForEachNoItems string string
  | ForEachNegativeMax string string
  | ForEachNoSteps string string
  | CollectNoFrom string string
  | CollectBadMode string string string

datatype trigger_error =
    TriggerNoType string
  | TriggerPrefixSpace string string
  | TriggerPrefixMissing string string
  | TriggerBadType string string

datatype workflow_error =
    SchemaDuplicateKey string
  | SchemaInvalid string
  | ProtocolNoID nat
  | ProtocolTrigger trigger_error
  | ProtocolNegativeRetries string
  | ProtocolRef ref_error
  | ProtocolStep step_error

datatype limits_error =
    NegativeMaxRequests
  | NegativeMaxTokens
  | NegativeMaxConcurrent
  | NegativeMaxCost
  | NegativeMaxEvents

datatype server_error = EmptyName | EmptyCommand

datatype gateway_error =
    GatewayEmptyName
  | TypeAndCommand
  | NeitherTypeNorCommand
  | CronNoExpression
  | CronNoTarget
  | CronNoPayload
  | CronBadSource string
  | WebhookNoSecretRef
  | UnknownGatewayType string

datatype instructions_error =
    WorkflowNoTrigger nat
  | WorkflowNoAction nat
  | PeerRefNoName nat
  | PeerRefNoRole nat

datatype messaging_error =
    NegativeMaxMessages
  | TargetNoRoom nat
  | TargetBadRoom nat string
  | TargetNoAlias nat
  | TargetAliasSpace nat string
  | TargetDuplicateAlias nat string

datatype gosuto_error =
    ConfigNil
  | BadAPIVersion string
  | EmptyMetadataName
  | InTrust trust_error
  | InWorkflow workflow_error
  | InLimits limits_error
  | InCapability nat string server_error
  | InMCP nat string server_error
  | DuplicateMCP nat string
  | InGateway nat string gateway_error
  | DuplicateGateway nat string
  | EmptySecretName nat
  | InPersona gofloat
  | InInstructions instructions_error
  | InMessaging messaging_error

abbreviation blank :: "string \<Rightarrow> bool" where
  "blank s \<equiv> trim_space s = []"

definition space_chars :: string where
  "space_chars = [CHR 0x20, CHR 0x09, CHR 0x0A, CHR 0x0D]"

subsection \<open>Trust\<close>

definition peer_tuple :: "TrustedPeer \<Rightarrow> string \<Rightarrow> string" where
  "peer_tuple p protocol = tp_MXID p @ ''|'' @ tp_RoomID p @ ''|'' @ protocol"

fun peer_protocols :: "nat \<Rightarrow> TrustedPeer \<Rightarrow> nat \<Rightarrow> string list \<Rightarrow> string list \<Rightarrow> trust_error + string list"
where
  "peer_protocols i p j [] seen = Inr seen"
| "peer_protocols i p j (raw # rest) seen =
     (let protocol = trim_space raw; tuple = peer_tuple p protocol in
      if protocol = [] then Inl (PeerEmptyProtocol i j)
      else if tuple \<in> set seen then Inl (PeerDuplicate i (tp_MXID p) (tp_RoomID p) protocol)
      else peer_protocols i p (Suc j) rest (tuple # seen))"

fun trusted_peers :: "nat \<Rightarrow> TrustedPeer list \<Rightarrow> string list \<Rightarrow> trust_error option" where
  "trusted_peers i [] seen = None"
| "trusted_peers i (p # ps) seen =
     (if \<not> has_prefix (tp_MXID p) ''@'' then Some (PeerBadMXID i (tp_MXID p))
      else if \<not> has_prefix (tp_RoomID p) ''!'' then Some (PeerBadRoom i (tp_RoomID p))
      else if tp_Protocols p = [] then Some (PeerNoProtocols i)
      else (case peer_protocols i p 0 (tp_Protocols p) seen of
              Inl e \<Rightarrow> Some e
            | Inr seen' \<Rightarrow> trusted_peers (Suc i) ps seen'))"

definition validateTrust :: "Trust \<Rightarrow> trust_error option" where
  "validateTrust t = first_of
     [reject (tr_AllowedRooms t = []) NoAllowedRooms,
      first_error (\<lambda>_ room. reject (room \<noteq> ''*'' \<and> \<not> has_prefix room ''!'') (BadRoom room))
        0 (tr_AllowedRooms t),
      reject (tr_AllowedSenders t = []) NoAllowedSenders,
      first_error (\<lambda>_ sender. reject (sender \<noteq> ''*'' \<and> \<not> has_prefix sender ''@'') (BadSender sender))
        0 (tr_AllowedSenders t),
      trusted_peers 0 (tr_TrustedPeers t) []]"

subsection \<open>Workflow\<close>

definition isExternalSchemaRef :: "string \<Rightarrow> bool" where
  "isExternalSchemaRef ref \<longleftrightarrow>
     str_contains ref ''://'' \<or> has_prefix ref ''#'' \<or>
     contains_any ref [CHR 0x2F, CHR 0x5C, CHR 0x5C]"

datatype ref_field = InputRef | OutputRef

definition validateSchemaRef :: "gmap \<Rightarrow> string \<Rightarrow> ref_field \<Rightarrow> string \<Rightarrow> int \<Rightarrow> ref_error option" where
  "validateSchemaRef schemas protocolID field ref stepIndex =
     (let trimmed = trim_space ref in first_of
      [reject (trimmed = []) (SchemaRefEmpty protocolID),
       reject (isExternalSchemaRef trimmed) SchemaRefExternal,
       reject (schemas = []) SchemaRefNoSchemas,
       reject (map_of schemas trimmed = None)
         (case field of
            InputRef \<Rightarrow> InputRefNotFound protocolID trimmed
          | OutputRef \<Rightarrow> OutputRefNotFound protocolID stepIndex trimmed)])"

fun required_fields :: "string list \<Rightarrow> gvalue list \<Rightarrow> bool" where
  "required_fields seen [] = True"
| "required_fields seen (GStr f # rest) = (f \<notin> set seen \<and> required_fields (f # seen) rest)"
| "required_fields seen (_ # rest) = False"

definition schema_object_ok :: "gvalue \<Rightarrow> bool" where
  "schema_object_ok schema = (case schema of
       GMap obj \<Rightarrow>
         (case map_of obj ''type'' of None \<Rightarrow> True | Some v \<Rightarrow> as_string v \<noteq> None) \<and>
         (case map_of obj ''required'' of None \<Rightarrow> True
          | Some v \<Rightarrow> (case as_list v of None \<Rightarrow> False | Some rs \<Rightarrow> required_fields [] rs)) \<and>
         (case map_of obj ''properties'' of None \<Rightarrow> True | Some v \<Rightarrow> as_map v \<noteq> None)
     | _ \<Rightarrow> False)"

definition validateWorkflowSchemaObject :: "string \<Rightarrow> gvalue \<Rightarrow> workflow_error option" where
  "validateWorkflowSchemaObject name schema = reject (\<not> schema_object_ok schema) (SchemaInvalid name)"

definition validStepTypes :: "string list" where
  "validStepTypes =
     [''parse_input'', ''tool'', ''branch'', ''summarize'', ''plan'', ''send_message'', ''persist'',
      ''for_each'', ''collect'']"

definition step_refs :: "gmap \<Rightarrow> string \<Rightarrow> string \<Rightarrow> int \<Rightarrow> StepFields \<Rightarrow> step_error option" where
  "step_refs schemas pid path topIndex s = first_of
     [if sf_InputSchemaRef s \<noteq> []
      then map_option StepRef (validateSchemaRef schemas pid InputRef (sf_InputSchemaRef s) topIndex) else None,
      if sf_OutputSchemaRef s \<noteq> []
      then map_option StepRef (validateSchemaRef schemas pid OutputRef (sf_OutputSchemaRef s) topIndex) else None,
      if sf_ForEachIterationSchemaRef s \<noteq> []
      then first_of
        [reject (sf_Type s \<noteq> ''for_each'') (IterationRefMisplaced pid path),
         map_option StepRef (validateSchemaRef schemas pid OutputRef (sf_ForEachIterationSchemaRef s) topIndex)]
      else None,
      if sf_ForEachResultSchemaRef s \<noteq> []
      then first_of
        [reject (sf_Type s \<noteq> ''for_each'') (ResultRefMisplaced pid path),
         map_option StepRef (validateSchemaRef schemas pid OutputRef (sf_ForEachResultSchemaRef s) topIndex)]
      else None]"

definition collect_modes :: "string list" where
  "collect_modes = [''result'', ''entry'', ''outputs'', ''item'']"

function validateStep ::
    "gmap \<Rightarrow> string \<Rightarrow> WorkflowProtocolStep \<Rightarrow> string \<Rightarrow> int \<Rightarrow> step_error option"
where
  "validateStep schemas pid (Step s nested) path topIndex = first_of
     [reject (sf_Type s \<notin> set validStepTypes) (StepUnknownType pid path (sf_Type s)),
      reject (sf_Retries s < 0) (StepNegativeRetries pid path),
      reject (sf_MaxOutputItems s < 0) (StepNegativeMaxOutput pid path),
      step_refs schemas pid path topIndex s,
      if sf_Type s = ''plan'' then first_of
        [reject (blank (sf_Prompt s)) (PlanNoPrompt pid path),
         reject (blank (sf_OutputSchemaRef s)) (PlanNoOutputRef pid path)]
      else if sf_Type s = ''for_each'' then first_of
        [reject (blank (sf_ItemsExpr s)) (ForEachNoItems pid path),
         reject (sf_MaxIterations s < 0) (ForEachNegativeMax pid path),
         reject (nested = []) (ForEachNoSteps pid path),
         first_error (\<lambda>i n. validateStep schemas pid n (path @ ''.'' @ itoa (int i)) topIndex) 0 nested]
      else if sf_Type s = ''collect'' then first_of
        [reject (blank (sf_CollectFrom s)) (CollectNoFrom pid path),
         (let mode = trim_space (sf_CollectMode s)
          in reject (mode \<noteq> [] \<and> mode \<notin> set collect_modes) (CollectBadMode pid path mode))]
      else None]"
  by pat_completeness auto
termination
  by (relation "measure (\<lambda>(schemas, pid, s, path, k). size s)")
    (auto simp: size_list_estimation' less_Suc_eq_le)

definition validateWorkflowTrigger :: "string \<Rightarrow> WorkflowTrigger \<Rightarrow> trigger_error option" where
  "validateWorkflowTrigger pid trigger =
     (let triggerType = trim_space (wt_Type trigger);
          rawPrefix = wt_Prefix trigger;
          prefix = trim_space (wt_Prefix trigger)
      in first_of
        [reject (triggerType = []) (TriggerNoType pid),
         reject (rawPrefix \<noteq> [] \<and> contains_any rawPrefix space_chars) (TriggerPrefixSpace pid rawPrefix),
         if triggerType = ''matrix.protocol_message''
         then reject (prefix = []) (TriggerPrefixMissing pid triggerType)
         else if triggerType = ''gateway.event'' then None
         else Some (TriggerBadType pid triggerType)])"

definition validateProtocol :: "gmap \<Rightarrow> nat \<Rightarrow> WorkflowProtocol \<Rightarrow> workflow_error option" where
  "validateProtocol schemas i p = first_of
     [reject (blank (wp_ID p)) (ProtocolNoID i),
      map_option ProtocolTrigger (validateWorkflowTrigger (wp_ID p) (wp_Trigger p)),
      reject (wp_Retries p < 0) (ProtocolNegativeRetries (wp_ID p)),
      if wp_InputSchemaRef p \<noteq> []
      then map_option ProtocolRef (validateSchemaRef schemas (wp_ID p) InputRef (wp_InputSchemaRef p) (-1)) else None,
      map_option ProtocolStep
        (first_error (\<lambda>k s. validateStep schemas (wp_ID p) s (''step '' @ itoa (int k)) (int k))
          0 (wp_Steps p))]"

definition validateWorkflow :: "Workflow \<Rightarrow> workflow_error option" where
  "validateWorkflow w =
     (let schemas = ws_Definitions (wf_Schemas w) in first_of
      [(case ws_Duplicates (wf_Schemas w) of [] \<Rightarrow> None | key # _ \<Rightarrow> Some (SchemaDuplicateKey key)),
       first_error (\<lambda>_ (name, schema). validateWorkflowSchemaObject name schema) 0 schemas,
       first_error (validateProtocol schemas) 0 (wf_Protocols w)])"

subsection \<open>Limits, capabilities, servers, gateways\<close>

definition validateLimits :: "Limits \<Rightarrow> limits_error option" where
  "validateLimits l = first_of
     [reject (li_MaxRequestsPerMinute l < 0) NegativeMaxRequests,
      reject (li_MaxTokensPerRequest l < 0) NegativeMaxTokens,
      reject (li_MaxConcurrentRequests l < 0) NegativeMaxConcurrent,
      reject (float_less (li_MaxMonthlyCostUSD l) (Dec 0 0)) NegativeMaxCost,
      reject (li_MaxEventsPerMinute l < 0) NegativeMaxEvents]"

definition validateCapability :: "Capability \<Rightarrow> server_error option" where
  "validateCapability c = reject (blank (cap_Name c)) EmptyName"

definition validateMCPServer :: "MCPServer \<Rightarrow> server_error option" where
  "validateMCPServer m = first_of
     [reject (blank (mcp_Name m)) EmptyName,
      reject (blank (mcp_Command m)) EmptyCommand]"

definition validateGateway :: "Gateway \<Rightarrow> gateway_error option" where
  "validateGateway g =
     (let hasType = (\<not> blank (gw_Type g));
          hasCommand = (\<not> blank (gw_Command g))
      in first_of
        [reject (blank (gw_Name g)) GatewayEmptyName,
         reject (hasType \<and> hasCommand) TypeAndCommand,
         reject (\<not> hasType \<and> \<not> hasCommand) NeitherTypeNorCommand,
         if hasType then
           (if gw_Type g = ''cron'' then
              (let raw = trim_space (cfg_get (gw_Config g) ''source'');
                   source = (if raw = [] then ''static'' else raw)
               in if source = ''static''
                  then reject (blank (cfg_get (gw_Config g) ''expression'')) CronNoExpression
                  else if source = ''db'' then
                    (if \<not> blank (cfg_get (gw_Config g) ''expression'') then first_of
                       [reject (blank (cfg_get (gw_Config g) ''target'')) CronNoTarget,
                        reject (blank (cfg_get (gw_Config g) ''payload'')) CronNoPayload]
                     else None)
                  else Some (CronBadSource source))
            else if gw_Type g = ''webhook'' then
              (if cfg_get (gw_Config g) ''authType'' = ''hmac-sha256''
               then reject (blank (cfg_get (gw_Config g) ''hmacSecretRef'')) WebhookNoSecretRef
               else None)
            else Some (UnknownGatewayType (gw_Type g)))
         else None])"

fun validateMCPs :: "nat \<Rightarrow> MCPServer list \<Rightarrow> string list \<Rightarrow> gosuto_error + string list" where
  "validateMCPs i [] seen = Inr seen"
| "validateMCPs i (m # ms) seen =
     (case validateMCPServer m of
        Some e \<Rightarrow> Inl (InMCP i (mcp_Name m) e)
      | None \<Rightarrow> if mcp_Name m \<in> set seen then Inl (DuplicateMCP i (mcp_Name m))
                else validateMCPs (Suc i) ms (mcp_Name m # seen))"

fun validateGateways :: "nat \<Rightarrow> Gateway list \<Rightarrow> string list \<Rightarrow> gosuto_error option" where
  "validateGateways i [] seen = None"
| "validateGateways i (g # gs) seen =
     (case validateGateway g of
        Some e \<Rightarrow> Some (InGateway i (gw_Name g) e)
      | None \<Rightarrow> if gw_Name g \<in> set seen then Some (DuplicateGateway i (gw_Name g))
                else validateGateways (Suc i) gs (gw_Name g # seen))"

subsection \<open>Instructions, messaging, persona\<close>

definition validateInstructions :: "Instructions \<Rightarrow> instructions_error option" where
  "validateInstructions ins = first_of
     [first_error (\<lambda>i s. first_of [reject (blank (st_Trigger s)) (WorkflowNoTrigger i),
                                   reject (blank (st_Action s)) (WorkflowNoAction i)])
        0 (in_Workflow ins),
      first_error (\<lambda>i p. first_of [reject (blank (pr_Name p)) (PeerRefNoName i),
                                   reject (blank (pr_Role p)) (PeerRefNoRole i)])
        0 (ic_Peers (in_Context ins))]"

fun validateTargets :: "nat \<Rightarrow> MessagingTarget list \<Rightarrow> string list \<Rightarrow> messaging_error option" where
  "validateTargets i [] aliases = None"
| "validateTargets i (t # ts) aliases =
     (if blank (mt_RoomID t) then Some (TargetNoRoom i)
      else if \<not> has_prefix (mt_RoomID t) ''!'' then Some (TargetBadRoom i (mt_RoomID t))
      else if blank (mt_Alias t) then Some (TargetNoAlias i)
      else if contains_any (mt_Alias t) space_chars then Some (TargetAliasSpace i (mt_Alias t))
      else if mt_Alias t \<in> set aliases then Some (TargetDuplicateAlias i (mt_Alias t))
      else validateTargets (Suc i) ts (mt_Alias t # aliases))"

definition validateMessaging :: "Messaging \<Rightarrow> messaging_error option" where
  "validateMessaging m = first_of
     [reject (ms_MaxMessagesPerMinute m < 0) NegativeMaxMessages,
      validateTargets 0 (ms_AllowedTargets m) []]"

definition validatePersona :: "Persona \<Rightarrow> gofloat option" where
  "validatePersona p = (case pe_Temperature p of
       None \<Rightarrow> None
     | Some t \<Rightarrow> reject (float_less t (Dec 0 0) \<or> float_less (Dec 2 0) t) t)"

subsection \<open>\<^verbatim>\<open>Validate\<close>, \<^verbatim>\<open>Parse\<close>, \<^verbatim>\<open>Warnings\<close>\<close>

definition validateSupervised :: "MCPServer list \<Rightarrow> Gateway list \<Rightarrow> gosuto_error option" where
  "validateSupervised ms gs = (case validateMCPs 0 ms [] of
       Inl e \<Rightarrow> Some e
     | Inr seen \<Rightarrow> validateGateways 0 gs seen)"

definition validateConfig :: "Config \<Rightarrow> gosuto_error option" where
  "validateConfig cfg = first_of
     [reject (cf_APIVersion cfg \<noteq> SpecVersion) (BadAPIVersion (cf_APIVersion cfg)),
      reject (blank (md_Name (cf_Metadata cfg))) EmptyMetadataName,
      map_option InTrust (validateTrust (cf_Trust cfg)),
      map_option InWorkflow (validateWorkflow (cf_Workflow cfg)),
      map_option InLimits (validateLimits (cf_Limits cfg)),
      first_error (\<lambda>i c. map_option (InCapability i (cap_Name c)) (validateCapability c))
        0 (cf_Capabilities cfg),
      validateSupervised (cf_MCPs cfg) (cf_Gateways cfg),
      first_error (\<lambda>i r. reject (blank (sr_Name r)) (EmptySecretName i)) 0 (cf_Secrets cfg),
      map_option InPersona (validatePersona (cf_Persona cfg)),
      map_option InInstructions (validateInstructions (cf_Instructions cfg)),
      map_option InMessaging (validateMessaging (cf_Messaging cfg))]"

definition Validate :: "Config option \<Rightarrow> gosuto_error option" where
  "Validate c = (case c of None \<Rightarrow> Some ConfigNil | Some cfg \<Rightarrow> validateConfig cfg)"

text \<open>\<^verbatim>\<open>Parse\<close>: the strict YAML decoder is the parameter \<open>decode\<close>, \<open>None\<close> for its error.\<close>

datatype parse_error = DecodeFailed | Invalid gosuto_error

definition Parse :: "('d \<Rightarrow> Config option) \<Rightarrow> 'd \<Rightarrow> parse_error + Config" where
  "Parse decode data = (case decode data of
       None \<Rightarrow> Inl DecodeFailed
     | Some cfg \<Rightarrow> (case Validate (Some cfg) of Some e \<Rightarrow> Inl (Invalid e) | None \<Rightarrow> Inr cfg))"

record Warning =
  wn_Field :: string
  wn_Message :: string

fun allowed_mcps :: "Capability list \<Rightarrow> string list \<Rightarrow> string list option" where
  "allowed_mcps [] allowed = Some allowed"
| "allowed_mcps (c # cs) allowed =
     (if \<not> cap_Allow c then allowed_mcps cs allowed
      else if cap_MCP c = ''*'' then None
      else allowed_mcps cs (cap_MCP c # allowed))"

definition warning_text :: "string \<Rightarrow> string" where
  "warning_text mcp =
     ''references MCP server '' @ go_quote mcp @
     '' which has no allow:true capability rule; the agent will be denied access at runtime (Invariant '' @
     [char_of (194::nat), char_of (167::nat)] @ ''2: Policy > Instructions > Persona)''"

definition step_warnings :: "string list \<Rightarrow> MCPServer list \<Rightarrow> nat \<Rightarrow> WorkflowStep \<Rightarrow> Warning list" where
  "step_warnings allowed ms i step =
     (let actionLower = to_lower (st_Action step) in
      map (\<lambda>m. \<lparr>wn_Field = ''instructions.workflow['' @ itoa (int i) @ ''].action'',
                wn_Message = warning_text (mcp_Name m)\<rparr>)
        (filter (\<lambda>m. mcp_Name m \<notin> set allowed \<and> str_contains actionLower (to_lower (mcp_Name m))) ms))"

definition Warnings :: "Config option \<Rightarrow> Warning list" where
  "Warnings c = (case c of None \<Rightarrow> [] | Some cfg \<Rightarrow>
     (case allowed_mcps (cf_Capabilities cfg) [] of
        None \<Rightarrow> []
      | Some allowed \<Rightarrow>
          concat (map (\<lambda>(i, s). step_warnings allowed (cf_MCPs cfg) i s)
            (enumerate 0 (in_Workflow (cf_Instructions cfg))))))"

subsection \<open>What a valid configuration is\<close>

definition peer_tuples :: "TrustedPeer list \<Rightarrow> string list" where
  "peer_tuples ps = concat (map (\<lambda>p. map (\<lambda>q. peer_tuple p (trim_space q)) (tp_Protocols p)) ps)"

definition wf_peer :: "TrustedPeer \<Rightarrow> bool" where
  "wf_peer p \<longleftrightarrow> has_prefix (tp_MXID p) ''@'' \<and> has_prefix (tp_RoomID p) ''!'' \<and>
     tp_Protocols p \<noteq> [] \<and> (\<forall>q \<in> set (tp_Protocols p). \<not> blank q)"

definition wf_trust :: "Trust \<Rightarrow> bool" where
  "wf_trust t \<longleftrightarrow>
     tr_AllowedRooms t \<noteq> [] \<and> (\<forall>r \<in> set (tr_AllowedRooms t). r = ''*'' \<or> has_prefix r ''!'') \<and>
     tr_AllowedSenders t \<noteq> [] \<and> (\<forall>s \<in> set (tr_AllowedSenders t). s = ''*'' \<or> has_prefix s ''@'') \<and>
     (\<forall>p \<in> set (tr_TrustedPeers t). wf_peer p) \<and> distinct (peer_tuples (tr_TrustedPeers t))"

definition wf_ref :: "gmap \<Rightarrow> string \<Rightarrow> bool" where
  "wf_ref schemas ref \<longleftrightarrow> \<not> blank ref \<and> \<not> isExternalSchemaRef (trim_space ref) \<and>
     trim_space ref \<in> dom (map_of schemas)"

definition wf_step_fields :: "gmap \<Rightarrow> StepFields \<Rightarrow> bool" where
  "wf_step_fields schemas s \<longleftrightarrow>
     sf_Type s \<in> set validStepTypes \<and> 0 \<le> sf_Retries s \<and> 0 \<le> sf_MaxOutputItems s \<and>
     (sf_InputSchemaRef s = [] \<or> wf_ref schemas (sf_InputSchemaRef s)) \<and>
     (sf_OutputSchemaRef s = [] \<or> wf_ref schemas (sf_OutputSchemaRef s)) \<and>
     (sf_ForEachIterationSchemaRef s = [] \<or>
        sf_Type s = ''for_each'' \<and> wf_ref schemas (sf_ForEachIterationSchemaRef s)) \<and>
     (sf_ForEachResultSchemaRef s = [] \<or>
        sf_Type s = ''for_each'' \<and> wf_ref schemas (sf_ForEachResultSchemaRef s)) \<and>
     (sf_Type s = ''plan'' \<longrightarrow> \<not> blank (sf_Prompt s) \<and> \<not> blank (sf_OutputSchemaRef s)) \<and>
     (sf_Type s = ''for_each'' \<longrightarrow> \<not> blank (sf_ItemsExpr s) \<and> 0 \<le> sf_MaxIterations s) \<and>
     (sf_Type s = ''collect'' \<longrightarrow> \<not> blank (sf_CollectFrom s) \<and>
        (blank (sf_CollectMode s) \<or> trim_space (sf_CollectMode s) \<in> set collect_modes))"

text \<open>A step is well-formed when its own fields are and, for \<^verbatim>\<open>for_each\<close>, all its nested steps,
  to any depth.\<close>

inductive wf_step :: "gmap \<Rightarrow> WorkflowProtocolStep \<Rightarrow> bool" for schemas where
  wf_leaf: "wf_step_fields schemas s \<Longrightarrow> sf_Type s \<noteq> ''for_each'' \<Longrightarrow> wf_step schemas (Step s nested)"
| wf_for_each: "wf_step_fields schemas s \<Longrightarrow> sf_Type s = ''for_each'' \<Longrightarrow> nested \<noteq> [] \<Longrightarrow>
    (\<forall>n \<in> set nested. wf_step schemas n) \<Longrightarrow> wf_step schemas (Step s nested)"

inductive_simps wf_step_Step [simp]: "wf_step schemas (Step s nested)"

definition wf_trigger :: "WorkflowTrigger \<Rightarrow> bool" where
  "wf_trigger t \<longleftrightarrow> \<not> contains_any (wt_Prefix t) space_chars \<and>
     (trim_space (wt_Type t) = ''matrix.protocol_message'' \<and> \<not> blank (wt_Prefix t) \<or>
      trim_space (wt_Type t) = ''gateway.event'')"

definition wf_protocol :: "gmap \<Rightarrow> WorkflowProtocol \<Rightarrow> bool" where
  "wf_protocol schemas p \<longleftrightarrow> \<not> blank (wp_ID p) \<and> wf_trigger (wp_Trigger p) \<and> 0 \<le> wp_Retries p \<and>
     (wp_InputSchemaRef p = [] \<or> wf_ref schemas (wp_InputSchemaRef p)) \<and>
     (\<forall>s \<in> set (wp_Steps p). wf_step schemas s)"

definition wf_workflow :: "Workflow \<Rightarrow> bool" where
  "wf_workflow w \<longleftrightarrow> ws_Duplicates (wf_Schemas w) = [] \<and>
     (\<forall>(name, schema) \<in> set (ws_Definitions (wf_Schemas w)). schema_object_ok schema) \<and>
     (\<forall>p \<in> set (wf_Protocols w). wf_protocol (ws_Definitions (wf_Schemas w)) p)"

definition wf_limits :: "Limits \<Rightarrow> bool" where
  "wf_limits l \<longleftrightarrow> 0 \<le> li_MaxRequestsPerMinute l \<and> 0 \<le> li_MaxTokensPerRequest l \<and>
     0 \<le> li_MaxConcurrentRequests l \<and> \<not> float_less (li_MaxMonthlyCostUSD l) (Dec 0 0) \<and>
     0 \<le> li_MaxEventsPerMinute l"

definition wf_gateway :: "Gateway \<Rightarrow> bool" where
  "wf_gateway g \<longleftrightarrow> \<not> blank (gw_Name g) \<and> (blank (gw_Type g) \<longleftrightarrow> \<not> blank (gw_Command g)) \<and>
     (blank (gw_Type g) \<or>
      gw_Type g = ''cron'' \<and>
        (trim_space (cfg_get (gw_Config g) ''source'') \<in> {[], ''static''} \<and>
           \<not> blank (cfg_get (gw_Config g) ''expression'') \<or>
         trim_space (cfg_get (gw_Config g) ''source'') = ''db'' \<and>
           (\<not> blank (cfg_get (gw_Config g) ''expression'') \<longrightarrow>
              \<not> blank (cfg_get (gw_Config g) ''target'') \<and> \<not> blank (cfg_get (gw_Config g) ''payload''))) \<or>
      gw_Type g = ''webhook'' \<and>
        (cfg_get (gw_Config g) ''authType'' = ''hmac-sha256'' \<longrightarrow>
           \<not> blank (cfg_get (gw_Config g) ''hmacSecretRef'')))"

definition wf_target :: "MessagingTarget \<Rightarrow> bool" where
  "wf_target t \<longleftrightarrow> \<not> blank (mt_RoomID t) \<and> has_prefix (mt_RoomID t) ''!'' \<and> \<not> blank (mt_Alias t) \<and>
     \<not> contains_any (mt_Alias t) space_chars"

definition wf_persona :: "Persona \<Rightarrow> bool" where
  "wf_persona p \<longleftrightarrow> (case pe_Temperature p of None \<Rightarrow> True
     | Some t \<Rightarrow> \<not> float_less t (Dec 0 0) \<and> \<not> float_less (Dec 2 0) t)"

definition supervisor_names :: "Config \<Rightarrow> string list" where
  "supervisor_names cfg = map mcp_Name (cf_MCPs cfg) @ map gw_Name (cf_Gateways cfg)"

definition wf_config :: "Config \<Rightarrow> bool" where
  "wf_config cfg \<longleftrightarrow>
     cf_APIVersion cfg = ''gosuto/v1'' \<and> \<not> blank (md_Name (cf_Metadata cfg)) \<and>
     wf_trust (cf_Trust cfg) \<and> wf_workflow (cf_Workflow cfg) \<and> wf_limits (cf_Limits cfg) \<and>
     (\<forall>c \<in> set (cf_Capabilities cfg). \<not> blank (cap_Name c)) \<and>
     (\<forall>m \<in> set (cf_MCPs cfg). \<not> blank (mcp_Name m) \<and> \<not> blank (mcp_Command m)) \<and>
     (\<forall>g \<in> set (cf_Gateways cfg). wf_gateway g) \<and>
     distinct (supervisor_names cfg) \<and>
     (\<forall>r \<in> set (cf_Secrets cfg). \<not> blank (sr_Name r)) \<and>
     wf_persona (cf_Persona cfg) \<and>
     (\<forall>s \<in> set (in_Workflow (cf_Instructions cfg)). \<not> blank (st_Trigger s) \<and> \<not> blank (st_Action s)) \<and>
     (\<forall>p \<in> set (ic_Peers (in_Context (cf_Instructions cfg))). \<not> blank (pr_Name p) \<and> \<not> blank (pr_Role p)) \<and>
     0 \<le> ms_MaxMessagesPerMinute (cf_Messaging cfg) \<and>
     (\<forall>t \<in> set (ms_AllowedTargets (cf_Messaging cfg)). wf_target t) \<and>
     distinct (map mt_Alias (ms_AllowedTargets (cf_Messaging cfg)))"

subsection \<open>The checks accept exactly the valid parts\<close>

named_theorems gosuto_valid \<open>each validator returns no error exactly on well-formed input\<close>

lemma peer_tuples_simps [simp]:
  "peer_tuples [] = []"
  "peer_tuples (p # ps) = map (\<lambda>q. peer_tuple p (trim_space q)) (tp_Protocols p) @ peer_tuples ps"
  by (simp_all add: peer_tuples_def)

definition fresh_protocols :: "TrustedPeer \<Rightarrow> string list \<Rightarrow> string list \<Rightarrow> bool" where
  "fresh_protocols p qs seen \<longleftrightarrow> (\<forall>q \<in> set qs. \<not> blank q) \<and>
     (let ts = map (\<lambda>q. peer_tuple p (trim_space q)) qs in distinct ts \<and> set ts \<inter> set seen = {})"

lemma fresh_protocols_simps [simp]:
  "fresh_protocols p [] seen"
  "fresh_protocols p (raw # rest) seen \<longleftrightarrow> \<not> blank raw \<and>
     peer_tuple p (trim_space raw) \<notin> set seen \<and>
     fresh_protocols p rest (peer_tuple p (trim_space raw) # seen)"
  by (auto simp: fresh_protocols_def Let_def)

lemma peer_protocols_fresh:
  "fresh_protocols p qs seen \<Longrightarrow>
     peer_protocols i p j qs seen = Inr (rev (map (\<lambda>q. peer_tuple p (trim_space q)) qs) @ seen)"
  by (induction i p j qs seen rule: peer_protocols.induct) (simp_all add: Let_def)

lemma peer_protocols_stale:
  "\<not> fresh_protocols p qs seen \<Longrightarrow> \<exists>e. peer_protocols i p j qs seen = Inl e"
  by (induction i p j qs seen rule: peer_protocols.induct) (auto simp: Let_def)

lemma trusted_peers_None:
  "trusted_peers i ps seen = None \<longleftrightarrow>
     (\<forall>p \<in> set ps. wf_peer p) \<and> distinct (peer_tuples ps) \<and> set (peer_tuples ps) \<inter> set seen = {}"
proof (induction ps arbitrary: i seen)
  case Nil
  show ?case by simp
next
  case (Cons p ps)
  let ?ts = "map (\<lambda>q. peer_tuple p (trim_space q)) (tp_Protocols p)"
  have step: "trusted_peers i (p # ps) seen = None \<longleftrightarrow>
      has_prefix (tp_MXID p) ''@'' \<and> has_prefix (tp_RoomID p) ''!'' \<and> tp_Protocols p \<noteq> [] \<and>
      fresh_protocols p (tp_Protocols p) seen \<and> trusted_peers (Suc i) ps (rev ?ts @ seen) = None"
    using peer_protocols_fresh [of p "tp_Protocols p" seen i 0]
      peer_protocols_stale [of p "tp_Protocols p" seen i 0]
    by (cases "fresh_protocols p (tp_Protocols p) seen") auto
  show ?case
    unfolding step Cons.IH by (auto simp: wf_peer_def fresh_protocols_def Let_def)
qed

lemma validateTrust_None [gosuto_valid]: "validateTrust t = None \<longleftrightarrow> wf_trust t"
  by (auto simp: validateTrust_def wf_trust_def first_error_None_all trusted_peers_None)

lemma validateSchemaRef_None [gosuto_valid]:
  "validateSchemaRef schemas pid field ref k = None \<longleftrightarrow> wf_ref schemas ref"
  by (auto simp: validateSchemaRef_def wf_ref_def Let_def)

lemma step_refs_None:
  "step_refs schemas pid path k s = None \<longleftrightarrow>
     (sf_InputSchemaRef s = [] \<or> wf_ref schemas (sf_InputSchemaRef s)) \<and>
     (sf_OutputSchemaRef s = [] \<or> wf_ref schemas (sf_OutputSchemaRef s)) \<and>
     (sf_ForEachIterationSchemaRef s = [] \<or>
        sf_Type s = ''for_each'' \<and> wf_ref schemas (sf_ForEachIterationSchemaRef s)) \<and>
     (sf_ForEachResultSchemaRef s = [] \<or>
        sf_Type s = ''for_each'' \<and> wf_ref schemas (sf_ForEachResultSchemaRef s))"
  by (simp add: step_refs_def validateSchemaRef_None)

lemma validateStep_None [gosuto_valid]:
  "validateStep schemas pid s path k = None \<longleftrightarrow> wf_step schemas s"
proof (induction schemas pid s path k rule: validateStep.induct)
  case (1 schemas pid s nested path k)
  have nested: "first_error (\<lambda>i n. validateStep schemas pid n (path @ ''.'' @ itoa (int i)) k) 0 nested = None
      \<longleftrightarrow> (\<forall>n \<in> set nested. wf_step schemas n)" if "sf_Type s = ''for_each''"
    using 1 that by (simp add: first_error_None all_set_conv_all_nth)
  consider "sf_Type s = ''for_each''" | "sf_Type s = ''plan''" | "sf_Type s = ''collect''"
    | "sf_Type s \<notin> {''for_each'', ''plan'', ''collect''}" by blast
  then show ?case
    by cases (simp_all add: nested [simplified] step_refs_None wf_step_fields_def Let_def not_less
        conj_ac disj_ac cong: conj_cong)
qed

lemma validateWorkflowTrigger_None [gosuto_valid]:
  "validateWorkflowTrigger pid t = None \<longleftrightarrow> wf_trigger t"
  by (auto simp: validateWorkflowTrigger_def wf_trigger_def Let_def contains_any_def)

lemma validateProtocol_None [gosuto_valid]:
  "validateProtocol schemas i p = None \<longleftrightarrow> wf_protocol schemas p"
  by (auto simp: validateProtocol_def wf_protocol_def gosuto_valid first_error_None_all)

lemma validateWorkflow_None [gosuto_valid]: "validateWorkflow w = None \<longleftrightarrow> wf_workflow w"
proof -
  have "first_error (\<lambda>_ (name, schema). validateWorkflowSchemaObject name schema) 0 ds = None
      \<longleftrightarrow> (\<forall>(name, schema) \<in> set ds. schema_object_ok schema)" for ds
    by (rule first_error_None_all) (auto simp: validateWorkflowSchemaObject_def)
  then show ?thesis
    by (simp add: validateWorkflow_def wf_workflow_def Let_def first_error_None_all
        [of "validateProtocol _" "wf_protocol _", OF validateProtocol_None] split: list.split)
qed

lemma validateLimits_None [gosuto_valid]: "validateLimits l = None \<longleftrightarrow> wf_limits l"
  by (auto simp: validateLimits_def wf_limits_def)

lemma validateGateway_None [gosuto_valid]: "validateGateway g = None \<longleftrightarrow> wf_gateway g"
  by (cases "gw_Type g = ''cron''"; cases "gw_Type g = ''webhook''"; cases "blank (gw_Type g)")
    (auto simp: validateGateway_def wf_gateway_def Let_def)

lemma validateMCPs_Inr:
  "validateMCPs i ms seen = Inr seen' \<longleftrightarrow>
     (\<forall>m \<in> set ms. \<not> blank (mcp_Name m) \<and> \<not> blank (mcp_Command m)) \<and>
     distinct (map mcp_Name ms) \<and> set (map mcp_Name ms) \<inter> set seen = {} \<and>
     seen' = rev (map mcp_Name ms) @ seen"
  by (induction i ms seen rule: validateMCPs.induct)
    (auto simp: validateMCPServer_def first_of_Cons reject_def split: option.splits if_splits)

lemma validateGateways_None:
  "validateGateways i gs seen = None \<longleftrightarrow>
     (\<forall>g \<in> set gs. wf_gateway g) \<and> distinct (map gw_Name gs) \<and> set (map gw_Name gs) \<inter> set seen = {}"
  by (induction i gs seen rule: validateGateways.induct)
    (auto simp flip: validateGateway_None split: option.splits)

lemma validateSupervised_None [gosuto_valid]:
  "validateSupervised ms gs = None \<longleftrightarrow>
     (\<forall>m \<in> set ms. \<not> blank (mcp_Name m) \<and> \<not> blank (mcp_Command m)) \<and>
     (\<forall>g \<in> set gs. wf_gateway g) \<and> distinct (map mcp_Name ms @ map gw_Name gs)"
proof (cases "validateMCPs 0 ms []")
  case (Inl e)
  then have "\<not> ((\<forall>m \<in> set ms. \<not> blank (mcp_Name m) \<and> \<not> blank (mcp_Command m)) \<and>
      distinct (map mcp_Name ms))"
    using validateMCPs_Inr [of 0 ms "[]"] by auto
  with Inl show ?thesis by (auto simp: validateSupervised_def)
next
  case (Inr seen)
  from Inr validateMCPs_Inr [THEN iffD1, OF Inr] show ?thesis
    by (auto simp: validateSupervised_def validateGateways_None)
qed

lemma validateTargets_None:
  "validateTargets i ts aliases = None \<longleftrightarrow>
     (\<forall>t \<in> set ts. wf_target t) \<and> distinct (map mt_Alias ts) \<and> set (map mt_Alias ts) \<inter> set aliases = {}"
  by (induction i ts aliases rule: validateTargets.induct) (auto simp: wf_target_def)

lemma validatePersona_None [gosuto_valid]: "validatePersona p = None \<longleftrightarrow> wf_persona p"
  by (auto simp: validatePersona_def wf_persona_def split: option.splits)

lemma validateConfig_None: "validateConfig cfg = None \<longleftrightarrow> wf_config cfg"
  by (auto simp: validateConfig_def wf_config_def SpecVersion_def supervisor_names_def gosuto_valid
      validateCapability_def first_error_None_all validateInstructions_def validateMessaging_def
      validateTargets_None)

subsection \<open>Properties\<close>

text \<open>
  C11: \<^verbatim>\<open>Validate\<close> returns no error exactly on the well-formed configurations: the API version is
  \<^verbatim>\<open>gosuto/v1\<close>, rooms and senders are given and well-formed, trusted-peer keys are distinct,
  every workflow step is well-formed to any nesting depth and refers only to schemas that exist,
  limits are not negative, each gateway has exactly one of type and command with the settings
  its type needs, MCP servers and gateways share one namespace without collisions, and messaging
  aliases are unique.  A missing configuration is an error.
\<close>

theorem Validate_iff_wf:
  "Validate None = Some ConfigNil \<and> (Validate (Some cfg) = None \<longleftrightarrow> wf_config cfg)"
  by (simp add: Validate_def validateConfig_None)

text \<open>
  A \<^verbatim>\<open>workflow.schemas\<close> mapping with a repeated key is decoded (the last definition wins) but
  never accepted: validation of any workflow over it reports the first repeated key, and a
  mapping without repeated keys records none.
\<close>

theorem repeated_schema_key_rejected:
  assumes "UnmarshalYAML decode (MappingNode pairs) = Inr w"
  shows "if distinct (map fst pairs) then ws_Duplicates w = []
    else validateWorkflow \<lparr>wf_Schemas = w, wf_Protocols = ps\<rparr> =
      Some (SchemaDuplicateKey (hd (ws_Duplicates w)))"
  using UnmarshalYAML_duplicates [OF assms]
  by (auto simp: validateWorkflow_def first_of_Cons Let_def split: list.splits)

theorem repeated_schema_key_rejected_witness:
  "validateWorkflow \<lparr>wf_Schemas = \<lparr>ws_Definitions = [(''a'', GNil)], ws_Duplicates = [''a'']\<rparr>,
     wf_Protocols = []\<rparr> = Some (SchemaDuplicateKey ''a'')"
  using repeated_schema_key_rejected [of Some "[(''a'', GMap []), (''a'', GNil)]"
      "\<lparr>ws_Definitions = [(''a'', GNil)], ws_Duplicates = [''a'']\<rparr>" "[]"]
  by (simp add: store_schema_def)

text \<open>
  The duplicate check on trusted peers joins sender, room and protocol with \<^verbatim>\<open>|\<close> and compares
  the joined strings, so it also rejects peers that differ.  Here two peers with different Matrix
  IDs and different rooms, each well-formed, are reported as a duplicate tuple.
\<close>

theorem trusted_peers_false_duplicate:
  "let p = \<lparr>tp_MXID = ''@a'', tp_RoomID = ''!b|!c'', tp_Alias = [], tp_Protocols = [''p'']\<rparr>;
       q = \<lparr>tp_MXID = ''@a|!b'', tp_RoomID = ''!c'', tp_Alias = [], tp_Protocols = [''p'']\<rparr>
   in wf_peer p \<and> wf_peer q \<and> tp_MXID p \<noteq> tp_MXID q \<and> tp_RoomID p \<noteq> tp_RoomID q \<and>
      validateTrust (zero_Trust\<lparr>tr_AllowedRooms := [''*''], tr_AllowedSenders := [''*''],
        tr_TrustedPeers := [p, q]\<rparr>) = Some (PeerDuplicate 1 ''@a|!b'' ''!c'' ''p'')"
proof -
  have "trim_space ''p'' = ''p''" by code_simp
  then show ?thesis
    by (simp add: Let_def wf_peer_def validateTrust_def first_of_Cons reject_def zero_Trust_def
        peer_tuple_def)
qed

text \<open>
  The temperature check accepts exactly an unset temperature, a finite one between 0 and 2,
  and \<^verbatim>\<open>NaN\<close> (which YAML writes as \<^verbatim>\<open>.nan\<close>), for which both comparisons are false.
\<close>

theorem persona_temperature:
  "validatePersona p = None \<longleftrightarrow>
     pe_Temperature p \<in> {None, Some NaN} \<union>
       {Some (Dec m e) | m e. 0 \<le> m \<and> m * 10 ^ nat e \<le> 2 * 10 ^ nat (- e)}"
proof (cases "pe_Temperature p")
  case None
  then show ?thesis by (simp add: validatePersona_def)
next
  case (Some t)
  have "float_less (Dec 2 0) (Dec m e) \<longleftrightarrow> \<not> m * 10 ^ nat e \<le> 2 * 10 ^ nat (- e)" for m e
    by (cases "0 \<le> e") (auto simp: Let_def min_def)
  moreover have "float_less (Dec m e) (Dec 0 0) \<longleftrightarrow> m < 0" for m e
    by (simp add: Let_def mult_less_0_iff)
  ultimately show ?thesis
    by (cases t) (auto simp: Some validatePersona_def)
qed

end
