(* ===== verification/Policy.thy ===== *)
theory Policy
  imports Gosuto_Validate "HOL-Library.Multiset"
begin

section \<open>The policy engine\<close>

text \<open>
  \<^verbatim>\<open>internal/gitai/policy/engine.go\<close>: the decision whether a tool call is permitted, needs approval
  or is denied.  The engine reads the configuration through \<^verbatim>\<open>ConfigProvider.Config()\<close>, here the
  argument \<open>cfg\<close>, \<open>None\<close> when no configuration is loaded.  \<^verbatim>\<open>checkConstraints\<close> ranges over a Go
  map; the model ranges over the association list, and the decision is proved not to depend
  on its order.
\<close>

datatype Decision = DecisionAllow | DecisionRequireApproval | DecisionDeny

record Violation =
  vi_Rule :: string
  vi_Constraint :: string
  vi_Message :: string

record Result =
  re_Decision :: Decision
  re_MatchedRule :: string
  re_Violation :: "Violation option"

fun decision_string :: "Decision \<Rightarrow> string" where
  "decision_string DecisionAllow = ''allow''"
| "decision_string DecisionRequireApproval = ''require_approval''"
| "decision_string DecisionDeny = ''deny''"

definition violation_text :: "Violation \<Rightarrow> string" where
  "violation_text v =
     (if vi_Constraint v \<noteq> []
      then ''['' @ vi_Rule v @ ''] constraint '' @ go_quote (vi_Constraint v) @ '': '' @ vi_Message v
      else ''['' @ vi_Rule v @ ''] '' @ vi_Message v)"

definition matchesGlob :: "string \<Rightarrow> string \<Rightarrow> bool" where
  "matchesGlob pattern v \<longleftrightarrow> pattern = ''*'' \<or> pattern = v"

definition matchesAny :: "string list \<Rightarrow> string \<Rightarrow> bool" where
  "matchesAny xs v \<longleftrightarrow> list_ex (\<lambda>s. s = ''*'' \<or> s = v) xs"

definition checkConstraint :: "Capability \<Rightarrow> gmap \<Rightarrow> string \<times> string \<Rightarrow> Violation option" where
  "checkConstraint cap args = (\<lambda>(key, expected).
     if key = ''url_prefix'' then
       (case map_of args ''url'' of
          Some (GStr u) \<Rightarrow>
            if length u < length expected \<or> take (length expected) u \<noteq> expected
            then Some \<lparr>vi_Rule = cap_Name cap, vi_Constraint = key,
                       vi_Message = ''url '' @ go_quote u @ '' does not start with '' @ go_quote expected\<rparr>
            else None
        | _ \<Rightarrow> None)
     else
       (case map_of args key of
          Some actual \<Rightarrow>
            if sprint_v actual \<noteq> expected
            then Some \<lparr>vi_Rule = cap_Name cap, vi_Constraint = key,
                       vi_Message = ''arg '' @ go_quote key @ '' = '' @ sprint_v actual @
                         '', expected '' @ go_quote expected\<rparr>
            else None
        | None \<Rightarrow> None))"

definition checkConstraints :: "Capability \<Rightarrow> gmap \<Rightarrow> Violation option" where
  "checkConstraints cap args = first_error (\<lambda>_. checkConstraint cap args) 0 (cap_Constraints cap)"

definition evaluateMatched :: "Capability \<Rightarrow> gmap \<Rightarrow> Result" where
  "evaluateMatched cap args =
     (case checkConstraints cap args of
        Some v \<Rightarrow> \<lparr>re_Decision = DecisionDeny, re_MatchedRule = cap_Name cap, re_Violation = Some v\<rparr>
      | None \<Rightarrow>
          if \<not> cap_Allow cap
          then \<lparr>re_Decision = DecisionDeny, re_MatchedRule = cap_Name cap,
                re_Violation = Some \<lparr>vi_Rule = cap_Name cap, vi_Constraint = [],
                  vi_Message = ''capability rule denies this tool call''\<rparr>\<rparr>
          else if cap_RequireApproval cap
          then \<lparr>re_Decision = DecisionRequireApproval, re_MatchedRule = cap_Name cap, re_Violation = None\<rparr>
          else \<lparr>re_Decision = DecisionAllow, re_MatchedRule = cap_Name cap, re_Violation = None\<rparr>)"

definition defaultDeny :: "string \<Rightarrow> string \<Rightarrow> Result" where
  "defaultDeny mcpServer tool =
     \<lparr>re_Decision = DecisionDeny, re_MatchedRule = ''<default>'',
      re_Violation = Some \<lparr>vi_Rule = ''<default>'', vi_Constraint = [],
        vi_Message = ''no capability rule matches mcp='' @ go_quote mcpServer @ '' tool='' @
          go_quote tool @ ''; default deny''\<rparr>\<rparr>"

fun evaluateRules :: "Capability list \<Rightarrow> string \<Rightarrow> string \<Rightarrow> gmap \<Rightarrow> Result" where
  "evaluateRules [] mcpServer tool args = defaultDeny mcpServer tool"
| "evaluateRules (cap # caps) mcpServer tool args =
     (if \<not> matchesGlob (cap_MCP cap) mcpServer then evaluateRules caps mcpServer tool args
      else if \<not> matchesGlob (cap_Tool cap) tool then evaluateRules caps mcpServer tool args
      else evaluateMatched cap args)"

definition Evaluate :: "Config option \<Rightarrow> string \<Rightarrow> string \<Rightarrow> gmap \<Rightarrow> Result" where
  "Evaluate cfg mcpServer tool args =
     (case cfg of
        None \<Rightarrow> \<lparr>re_Decision = DecisionDeny, re_MatchedRule = ''<no config>'',
                 re_Violation = Some \<lparr>vi_Rule = ''<no config>'', vi_Constraint = [],
                   vi_Message = ''no Gosuto configuration loaded''\<rparr>\<rparr>
      | Some c \<Rightarrow> evaluateRules (cf_Capabilities c) mcpServer tool args)"

definition IsSenderAllowed :: "Config option \<Rightarrow> string \<Rightarrow> bool" where
  "IsSenderAllowed cfg senderMXID = (case cfg of None \<Rightarrow> False
     | Some c \<Rightarrow> matchesAny (tr_AllowedSenders (cf_Trust c)) senderMXID)"

definition IsRoomAllowed :: "Config option \<Rightarrow> string \<Rightarrow> bool" where
  "IsRoomAllowed cfg roomID = (case cfg of None \<Rightarrow> False
     | Some c \<Rightarrow> matchesAny (tr_AllowedRooms (cf_Trust c)) roomID)"

definition IsMessagingConfigured :: "Config option \<Rightarrow> bool" where
  "IsMessagingConfigured cfg = (case cfg of None \<Rightarrow> False
     | Some c \<Rightarrow> length (ms_AllowedTargets (cf_Messaging c)) > 0)"

subsection \<open>First-match loops\<close>

text \<open>
  Several loops of the program walk a list, skip the entries that do not apply and return at the
  first that does.  The locale states that contract and what follows from it.
\<close>

locale first_match =
  fixes hits :: "'r \<Rightarrow> 'q \<Rightarrow> bool"
    and verdict :: "'r \<Rightarrow> 'q \<Rightarrow> 'd"
    and fallback :: "'q \<Rightarrow> 'd"
    and decide :: "'r list \<Rightarrow> 'q \<Rightarrow> 'd"
  assumes decide_Nil: "decide [] q = fallback q"
    and decide_hit: "hits r q \<Longrightarrow> decide (r # rs) q = verdict r q"
    and decide_miss: "\<not> hits r q \<Longrightarrow> decide (r # rs) q = decide rs q"
begin

lemma decide_find:
  "decide rs q = (case find (\<lambda>r. hits r q) rs of None \<Rightarrow> fallback q | Some r \<Rightarrow> verdict r q)"
  by (induction rs) (auto simp: decide_Nil decide_hit decide_miss)

lemma decide_none: "(\<forall>r \<in> set rs. \<not> hits r q) \<Longrightarrow> decide rs q = fallback q"
  by (induction rs) (auto simp: decide_Nil decide_miss)

lemma decide_split:
  "(\<forall>r \<in> set pre. \<not> hits r q) \<Longrightarrow> hits r q \<Longrightarrow> decide (pre @ r # post) q = verdict r q"
  by (induction pre) (auto simp: decide_hit decide_miss)

lemma decide_append_hit: "\<exists>r \<in> set rs. hits r q \<Longrightarrow> decide (rs @ rs') q = decide rs q"
  by (induction rs) (auto simp: decide_hit decide_miss, metis decide_hit decide_miss)

lemma decide_cases:
  obtains (fallback) "\<forall>r \<in> set rs. \<not> hits r q" "decide rs q = fallback q"
    | (hit) pre r post where "rs = pre @ r # post" "\<forall>r \<in> set pre. \<not> hits r q" "hits r q"
        "decide rs q = verdict r q"
proof (cases "\<exists>r \<in> set rs. hits r q")
  case True
  then obtain pre r post where split: "rs = pre @ r # post" "hits r q" "\<forall>r \<in> set pre. \<not> hits r q"
    using split_list_first_prop [of rs "\<lambda>r. hits r q"] by blast
  then have "decide rs q = verdict r q" by (simp add: decide_split)
  with split show ?thesis by (intro that(2))
next
  case False
  then show ?thesis using that(1) decide_none by blast
qed

end

text \<open>A rule applies to a call when both its patterns match.\<close>

definition rule_hits :: "Capability \<Rightarrow> string \<times> string \<times> gmap \<Rightarrow> bool" where
  "rule_hits cap = (\<lambda>(mcpServer, tool, args).
     matchesGlob (cap_MCP cap) mcpServer \<and> matchesGlob (cap_Tool cap) tool)"

interpretation rules: first_match
  rule_hits "\<lambda>cap (s, t, args). evaluateMatched cap args" "\<lambda>(s, t, args). defaultDeny s t"
  "\<lambda>caps (s, t, args). evaluateRules caps s t args"
  by unfold_locales (auto simp: rule_hits_def split: if_splits)

subsection \<open>What the rules decide\<close>

text \<open>The abstract policy: the first rule whose patterns match decides; a call that violates one of
  its constraints, or that it does not allow, is denied.\<close>

definition constraint_ok :: "gmap \<Rightarrow> string \<times> string \<Rightarrow> bool" where
  "constraint_ok args = (\<lambda>(key, expected).
     if key = ''url_prefix''
     then (case map_of args ''url'' of Some (GStr u) \<Rightarrow> has_prefix u expected | _ \<Rightarrow> True)
     else (case map_of args key of Some v \<Rightarrow> sprint_v v = expected | None \<Rightarrow> True))"

definition rule_decision :: "Capability \<Rightarrow> gmap \<Rightarrow> Decision" where
  "rule_decision cap args =
     (if \<not> list_all (constraint_ok args) (cap_Constraints cap) \<or> \<not> cap_Allow cap then DecisionDeny
      else if cap_RequireApproval cap then DecisionRequireApproval else DecisionAllow)"

definition abstract_policy :: "Capability list \<Rightarrow> string \<Rightarrow> string \<Rightarrow> gmap \<Rightarrow> Decision" where
  "abstract_policy caps s t args =
     (case find (\<lambda>cap. rule_hits cap (s, t, args)) caps of
        None \<Rightarrow> DecisionDeny | Some cap \<Rightarrow> rule_decision cap args)"

lemma checkConstraint_None: "checkConstraint cap args kv = None \<longleftrightarrow> constraint_ok args kv"
  by (cases kv)
    (auto simp: checkConstraint_def constraint_ok_def has_prefix_def split: option.splits gvalue.splits)

lemma checkConstraints_None:
  "checkConstraints cap args = None \<longleftrightarrow> list_all (constraint_ok args) (cap_Constraints cap)"
  unfolding checkConstraints_def list_all_iff
  by (rule first_error_None_all) (rule checkConstraint_None)

lemma evaluateMatched_decision: "re_Decision (evaluateMatched cap args) = rule_decision cap args"
  by (auto simp: evaluateMatched_def rule_decision_def simp flip: checkConstraints_None
      split: option.splits)

lemma evaluateMatched_violation:
  "re_Violation (evaluateMatched cap args) \<noteq> None \<longleftrightarrow> rule_decision cap args = DecisionDeny"
  by (auto simp: evaluateMatched_def rule_decision_def simp flip: checkConstraints_None
      split: option.splits)

lemma evaluateRules_decision:
  "re_Decision (evaluateRules caps s t args) = abstract_policy caps s t args"
  using rules.decide_find [of caps "(s, t, args)"]
  by (auto simp: abstract_policy_def defaultDeny_def evaluateMatched_decision split: option.splits)

lemma find_rule_deny:
  assumes "\<forall>cap \<in> set caps. rule_hits cap (s, t, args) \<longrightarrow> \<not> cap_Allow cap"
  shows "abstract_policy caps s t args = DecisionDeny"
  using assms
  by (auto simp: abstract_policy_def rule_decision_def find_Some_iff in_set_conv_nth split: option.splits)
    (metis nth_mem)

subsection \<open>Properties\<close>

text \<open>
  C1: \<^verbatim>\<open>Evaluate\<close> implements the abstract policy: the first capability rule whose MCP and tool
  patterns match decides, and with no configuration or no matching rule the call is denied.
  A result carries a violation exactly when it denies.
\<close>

theorem Evaluate_refines_policy:
  "re_Decision (Evaluate cfg s t args) =
     (case cfg of None \<Rightarrow> DecisionDeny | Some c \<Rightarrow> abstract_policy (cf_Capabilities c) s t args) \<and>
   (re_Violation (Evaluate cfg s t args) \<noteq> None \<longleftrightarrow> re_Decision (Evaluate cfg s t args) = DecisionDeny)"
proof (cases cfg)
  case None
  then show ?thesis by (simp add: Evaluate_def)
next
  case (Some c)
  have "re_Violation (evaluateRules caps s t args) \<noteq> None \<longleftrightarrow>
      re_Decision (evaluateRules caps s t args) = DecisionDeny" for caps
    using rules.decide_find [of caps "(s, t, args)"] evaluateMatched_violation evaluateMatched_decision
    by (auto simp: defaultDeny_def split: option.splits)
  then show ?thesis by (simp add: Some Evaluate_def evaluateRules_decision)
qed

text \<open>
  A tool call is allowed without approval exactly when some rule matches it, no earlier rule
  does, the call satisfies every constraint of that rule, and the rule allows without approval.
\<close>

theorem Evaluate_allow_iff:
  "re_Decision (Evaluate (Some cfg) s t args) = DecisionAllow \<longleftrightarrow>
     (\<exists>pre cap post. cf_Capabilities cfg = pre @ cap # post \<and>
        (\<forall>r \<in> set pre. \<not> rule_hits r (s, t, args)) \<and> rule_hits cap (s, t, args) \<and>
        (\<forall>kv \<in> set (cap_Constraints cap). constraint_ok args kv) \<and>
        cap_Allow cap \<and> \<not> cap_RequireApproval cap)"
proof -
  let ?caps = "cf_Capabilities cfg" and ?q = "(s, t, args)"
  have dec: "rule_decision cap args = DecisionAllow \<longleftrightarrow>
      (\<forall>kv \<in> set (cap_Constraints cap). constraint_ok args kv) \<and> cap_Allow cap \<and> \<not> cap_RequireApproval cap"
    for cap by (auto simp: rule_decision_def list_all_iff)
  have split: "re_Decision (evaluateRules (pre @ cap # post) s t args) = rule_decision cap args"
    if "\<forall>r \<in> set pre. \<not> rule_hits r ?q" "rule_hits cap ?q" for pre cap post
    using rules.decide_split [OF that] by (simp add: evaluateMatched_decision)
  show ?thesis
  proof (cases rule: rules.decide_cases [of ?caps ?q])
    case fallback
    then show ?thesis by (auto simp: Evaluate_def defaultDeny_def)
  next
    case (hit pre cap post)
    then have d: "re_Decision (Evaluate (Some cfg) s t args) = rule_decision cap args"
      by (simp add: Evaluate_def evaluateMatched_decision)
    show ?thesis
      unfolding d dec
      by (metis (no_types, lifting) Evaluate_def d dec hit(1-3) option.simps(5) split)
  qed
qed

theorem Evaluate_allow_iff_witness:
  "re_Decision (Evaluate (Some (zero_Config\<lparr>cf_Capabilities :=
     [\<lparr>cap_Name = ''r'', cap_MCP = ''*'', cap_Tool = ''*'', cap_Allow = True,
       cap_RequireApproval = False, cap_Constraints = []\<rparr>]\<rparr>)) ''m'' ''t'' []) = DecisionAllow"
  unfolding Evaluate_allow_iff
  by (rule exI [of _ "[]"]) (simp add: rule_hits_def matchesGlob_def zero_Config_def)

text \<open>
  Go visits a rule's constraint map in any order.  Reordering the constraints of any rules
  changes no decision (only which violation is reported).
\<close>

theorem Evaluate_constraint_order:
  assumes "list_all2 (\<lambda>c d. \<exists>kvs. mset kvs = mset (cap_Constraints c) \<and> d = c\<lparr>cap_Constraints := kvs\<rparr>)
    (cf_Capabilities cfg) caps"
  shows "re_Decision (Evaluate (Some (cfg\<lparr>cf_Capabilities := caps\<rparr>)) s t args) =
    re_Decision (Evaluate (Some cfg) s t args)"
proof -
  have "abstract_policy caps s t args = abstract_policy (cf_Capabilities cfg) s t args"
    using assms
  proof (induction rule: list_all2_induct)
    case Nil
    then show ?case by simp
  next
    case (Cons c cs d ds)
    then obtain kvs where kvs: "mset kvs = mset (cap_Constraints c)" "d = c\<lparr>cap_Constraints := kvs\<rparr>"
      by blast
    then have "set kvs = set (cap_Constraints c)" by (metis set_mset_mset)
    then have "rule_decision d args = rule_decision c args"
      by (simp add: kvs(2) rule_decision_def list_all_iff)
    moreover have "rule_hits d (s, t, args) = rule_hits c (s, t, args)"
      by (simp add: kvs(2) rule_hits_def)
    ultimately show ?case using Cons.IH by (simp add: abstract_policy_def)
  qed
  then show ?thesis by (simp add: Evaluate_def evaluateRules_decision)
qed

theorem Evaluate_constraint_order_witness:
  "let rule = (\<lambda>kvs. \<lparr>cap_Name = ''r'', cap_MCP = ''*'', cap_Tool = ''*'', cap_Allow = True,
       cap_RequireApproval = False, cap_Constraints = kvs\<rparr>);
     cfg = (\<lambda>kvs. Some (zero_Config\<lparr>cf_Capabilities := [rule kvs]\<rparr>))
   in re_Decision (Evaluate (cfg [(''b'', ''2''), (''a'', ''1'')]) ''m'' ''t'' []) =
      re_Decision (Evaluate (cfg [(''a'', ''1''), (''b'', ''2'')]) ''m'' ''t'' [])"
  using Evaluate_constraint_order [of
    "zero_Config\<lparr>cf_Capabilities := [\<lparr>cap_Name = ''r'', cap_MCP = ''*'', cap_Tool = ''*'',
       cap_Allow = True, cap_RequireApproval = False, cap_Constraints = [(''a'', ''1''), (''b'', ''2'')]\<rparr>]\<rparr>"
    "[\<lparr>cap_Name = ''r'', cap_MCP = ''*'', cap_Tool = ''*'',
       cap_Allow = True, cap_RequireApproval = False, cap_Constraints = [(''b'', ''2''), (''a'', ''1'')]\<rparr>]"
    "''m''" "''t''" "[]"]
  by (simp add: Let_def)

text \<open>
  A warning of the configuration checker is a fact about the engine: when \<^verbatim>\<open>Warnings\<close> reports
  that an instruction step refers to an MCP server without an allow rule, every call to every
  tool of that server is denied.
\<close>

theorem warned_server_is_denied:
  assumes "w \<in> set (Warnings (Some cfg))"
  shows "\<exists>m \<in> set (cf_MCPs cfg). wn_Message w = warning_text (mcp_Name m) \<and>
    (\<forall>t args. re_Decision (Evaluate (Some cfg) (mcp_Name m) t args) = DecisionDeny)"
proof -
  have allowed: "allowed_mcps caps acc = Some allowed \<Longrightarrow>
      set acc \<subseteq> set allowed \<and> (\<forall>c \<in> set caps. cap_Allow c \<longrightarrow> cap_MCP c \<noteq> ''*'' \<and> cap_MCP c \<in> set allowed)"
    for caps acc allowed
    by (induction caps acc rule: allowed_mcps.induct) (auto split: if_splits)
  from assms obtain allowed where a: "allowed_mcps (cf_Capabilities cfg) [] = Some allowed"
    by (cases "allowed_mcps (cf_Capabilities cfg) []") (auto simp: Warnings_def)
  with assms obtain m where m: "m \<in> set (cf_MCPs cfg)" "mcp_Name m \<notin> set allowed"
      "wn_Message w = warning_text (mcp_Name m)"
    by (auto simp: Warnings_def step_warnings_def Let_def)
  have "abstract_policy (cf_Capabilities cfg) (mcp_Name m) t args = DecisionDeny" for t args
    by (rule find_rule_deny) (use allowed [OF a] m(2) in \<open>auto simp: rule_hits_def matchesGlob_def\<close>)
  with m show ?thesis
    by (auto simp: Evaluate_def evaluateRules_decision)
qed

definition sample_warned_config :: Config where
  "sample_warned_config = zero_Config\<lparr>
     cf_MCPs := [\<lparr>mcp_Name = ''fin'', mcp_Command = ''x'', mcp_Args = [], mcp_Env = [],
                  mcp_AutoRestart = False\<rparr>],
     cf_Instructions := \<lparr>in_Role = [], in_Workflow = [\<lparr>st_Trigger = ''t'', st_Action = ''Use FIN now''\<rparr>],
                         in_Context = \<lparr>ic_User = [], ic_Peers = []\<rparr>\<rparr>\<rparr>"

theorem warned_server_is_denied_witness:
  "length (Warnings (Some sample_warned_config)) = 1 \<and>
   re_Decision (Evaluate (Some sample_warned_config) ''fin'' ''quote'' []) = DecisionDeny"
proof -
  have ws: "Warnings (Some sample_warned_config) =
      [\<lparr>wn_Field = ''instructions.workflow[0].action'', wn_Message = warning_text ''fin''\<rparr>]"
    by code_simp
  then have "\<lparr>wn_Field = ''instructions.workflow[0].action'', wn_Message = warning_text ''fin''\<rparr>
      \<in> set (Warnings (Some sample_warned_config))" by simp
  from warned_server_is_denied [OF this]
  have "re_Decision (Evaluate (Some sample_warned_config) ''fin'' ''quote'' []) = DecisionDeny"
    by (auto simp: sample_warned_config_def)
  with ws show ?thesis by simp
qed

end
