(* ===== verification/Envelope.thy ===== *)
theory Envelope
  imports Go_Values
begin

section \<open>Event envelopes\<close>

text \<open>
  \<^verbatim>\<open>common/spec/envelope/event.go\<close>: the event that gateways post to an agent, its validation and
  its parsing.  \<^verbatim>\<open>json.Unmarshal\<close> into the struct is the parameter \<open>unmarshal\<close> of \<open>ParseEvent\<close>.
\<close>

record EventPayload =
  ep_Message :: string
  ep_Data :: gmap

record Event =
  ev_Source :: string
  ev_Type :: string
  ev_TS :: gotime
  ev_Payload :: EventPayload

datatype event_error = EventNil | EmptySource | EmptyType | ZeroTime

definition Event_Validate :: "Event option \<Rightarrow> event_error option" where
  "Event_Validate evt = (case evt of None \<Rightarrow> Some EventNil
     | Some e \<Rightarrow> first_of
         [reject (ev_Source e = []) EmptySource,
          reject (ev_Type e = []) EmptyType,
          reject (is_zero_time (ev_TS e)) ZeroTime])"

datatype envelope_error = EnvelopeParse string | EnvelopeValidate event_error

definition ParseEvent :: "('d \<Rightarrow> string + Event) \<Rightarrow> 'd \<Rightarrow> envelope_error + Event" where
  "ParseEvent unmarshal data = (case unmarshal data of
       Inl e \<Rightarrow> Inl (EnvelopeParse e)
     | Inr evt \<Rightarrow> (case Event_Validate (Some evt) of
           Some e \<Rightarrow> Inl (EnvelopeValidate e)
         | None \<Rightarrow> Inr evt))"

lemma ParseEvent_Inr:
  "ParseEvent unmarshal data = Inr evt \<longleftrightarrow>
     unmarshal data = Inr evt \<and> ev_Source evt \<noteq> [] \<and> ev_Type evt \<noteq> [] \<and> ev_TS evt \<noteq> 0"
  by (auto simp: ParseEvent_def Event_Validate_def is_zero_time_def first_of_Cons reject_def
      split: sum.splits if_splits)

end
