(* ===== verification/Workflow_Match.thy ===== *)
theory Workflow_Match
  imports Policy Envelope
begin

section \<open>Matching inbound messages and events to workflow protocols\<close>

text \<open>
  \<^verbatim>\<open>internal/gitai/workflow/workflow.go\<close> and \<^verbatim>\<open>gateway.go\<close>: trigger matching, payload parsing, schema
  checks, trusted-peer gating, execution contexts and the retry wrapper of workflow steps.
  \<^verbatim>\<open>encoding/json\<close> is the parameter \<open>unmarshal\<close>, which decodes a text into a value or gives the
  decoder's message; every theorem holds for any such decoder.
  A computation that may run forever returns \<open>None\<close> when it does, so the retry wrapper
  takes and gives an \<open>option\<close>.
\<close>

subsection \<open>Errors\<close>

datatype ErrorCode = CodeInvalidProtocolMessage | CodeSchemaValidation | CodeTrustMismatch

text \<open>\<open>Plain\<close> is \<^verbatim>\<open>fmt.Errorf\<close> without a cause, \<open>Wrap p e\<close> is \<^verbatim>\<open>fmt.Errorf("p: %w", e)\<close>, \<open>WfError\<close> the
  package's \<^verbatim>\<open>*Error\<close>.\<close>

datatype go_error =
    Plain string
  | Wrap string go_error
  | WfError ErrorCode string string "go_error option"

fun error_text :: "go_error \<Rightarrow> string" where
  "error_text (Plain s) = s"
| "error_text (Wrap p e) = p @ '': '' @ error_text e"
| "error_text (WfError code pid msg (Some cause)) =
     (if pid \<noteq> [] then ''workflow protocol '' @ pid @ '': '' @ msg @ '': '' @ error_text cause
      else msg @ '': '' @ error_text cause)"
| "error_text (WfError code pid msg None) =
     (if pid \<noteq> [] then ''workflow protocol '' @ pid @ '': '' @ msg else msg)"

text \<open>\<^verbatim>\<open>errors.As\<close> stops at the first \<^verbatim>\<open>*Error\<close> of the chain, and \<^verbatim>\<open>HasCode\<close> looks at its code.\<close>

fun HasCode :: "go_error \<Rightarrow> ErrorCode \<Rightarrow> bool" where
  "HasCode (Plain s) code = False"
| "HasCode (Wrap p e) code = HasCode e code"
| "HasCode (WfError c pid msg cause) code = (c = code)"

subsection \<open>Schema checks\<close>

text \<open>\<^verbatim>\<open>number == float64(int64(number))\<close>: the float is integral and converts to \<^verbatim>\<open>int64\<close>.  The least such
  float, \<open>-2 ^ 63\<close>, has the shortest decimal form \<^verbatim>\<open>-9.223372036854776e+18\<close>; a float outside the
  range of \<^verbatim>\<open>int64\<close> converts to another number (on amd64).\<close>

definition int64_float :: "gofloat \<Rightarrow> bool" where
  "int64_float f = (case f of Dec m e \<Rightarrow>
       (m = 0 \<or> 0 \<le> e) \<and> -9223372036854776000 \<le> m * 10 ^ nat e \<and> m * 10 ^ nat e < 9223372036854776000
     | _ \<Rightarrow> False)"

definition matchesJSONSchemaType :: "string \<Rightarrow> gvalue \<Rightarrow> bool" where
  "matchesJSONSchemaType expected v =
     (if expected = ''string'' then as_string v \<noteq> None
      else if expected = ''boolean'' then (case v of GBool _ \<Rightarrow> True | _ \<Rightarrow> False)
      else if expected = ''number'' then (case v of GInt _ \<Rightarrow> True | GFloat _ \<Rightarrow> True | _ \<Rightarrow> False)
      else if expected = ''integer'' then
        (case v of GInt _ \<Rightarrow> True | GFloat f \<Rightarrow> int64_float f | _ \<Rightarrow> False)
      else if expected = ''array'' then as_list v \<noteq> None
      else if expected = ''object'' then as_map v \<noteq> None
      else if expected = ''null'' then v = GNil
      else False)"

definition checkRequired :: "gmap \<Rightarrow> gvalue \<Rightarrow> string option" where
  "checkRequired payload raw = (case as_string raw of
       None \<Rightarrow> Some ''schema.required entries must be strings''
     | Some key \<Rightarrow> reject (map_of payload key = None) (''payload missing required field '' @ go_quote key))"

definition checkProperty :: "gmap \<Rightarrow> string \<times> gvalue \<Rightarrow> string option" where
  "checkProperty payload = (\<lambda>(key, propertySchemaAny).
     case map_of payload key of
       None \<Rightarrow> None
     | Some v \<Rightarrow>
         (case as_map propertySchemaAny of
            None \<Rightarrow> None
          | Some propertySchema \<Rightarrow>
              (let expectedType = get_string propertySchema ''type''
               in if expectedType = [] then None
                  else reject (\<not> matchesJSONSchemaType expectedType v)
                    (''payload field '' @ go_quote key @ '' has wrong type; expected '' @ expectedType))))"

definition validatePayloadAgainstSchema :: "gmap \<Rightarrow> gmap \<Rightarrow> string option" where
  "validatePayloadAgainstSchema schema payload =
     (let typeName = get_string schema ''type'' in first_of
      [reject (typeName \<noteq> [] \<and> typeName \<noteq> ''object'')
         (''schema type '' @ go_quote typeName @ '' is not supported for protocol input''),
       (case map_of schema ''required'' of None \<Rightarrow> None
        | Some requiredAny \<Rightarrow>
            (case as_list requiredAny of
               None \<Rightarrow> Some ''schema.required must be an array''
             | Some required \<Rightarrow> first_error (\<lambda>_. checkRequired payload) 0 required)),
       (case map_of schema ''properties'' of None \<Rightarrow> None
        | Some propertiesAny \<Rightarrow>
            (case as_map propertiesAny of
               None \<Rightarrow> Some ''schema.properties must be an object''
             | Some properties \<Rightarrow> first_error (\<lambda>_. checkProperty payload) 0 properties))])"

definition validateProtocolInputSchema :: "Config \<Rightarrow> WorkflowProtocol \<Rightarrow> gmap \<Rightarrow> go_error option" where
  "validateProtocolInputSchema cfg protocol payload =
     (let ref = wp_InputSchemaRef protocol in
      if trim_space ref = [] then None
      else (case map_of (ws_Definitions (wf_Schemas (cf_Workflow cfg))) ref of
              None \<Rightarrow> Some (WfError CodeSchemaValidation (wp_ID protocol)
                (''input schema ref '' @ ref @ '' not found'') None)
            | Some schemaAny \<Rightarrow>
                (case as_map schemaAny of
                   None \<Rightarrow> Some (WfError CodeSchemaValidation (wp_ID protocol)
                     (''schema '' @ ref @ '' is not an object'') None)
                 | Some schema \<Rightarrow>
                     map_option (\<lambda>msg. WfError CodeSchemaValidation (wp_ID protocol) msg None)
                       (validatePayloadAgainstSchema schema payload))))"

subsection \<open>Inbound protocol messages\<close>

record InboundProtocolMatch =
  im_Protocol :: WorkflowProtocol
  im_Payload :: gmap
  im_SchemaDefinitions :: gmap
  im_Prefix :: string
  im_RawText :: string

definition cloneSchemaDefinitions :: "gmap \<Rightarrow> gmap" where
  "cloneSchemaDefinitions m = (if length m = 0 then [] else m)"

text \<open>\<^verbatim>\<open>json.Unmarshal\<close> into a \<^verbatim>\<open>map[string]interface{}\<close>: an object fills the map, \<^verbatim>\<open>null\<close> leaves it nil
  (\<open>None\<close>), anything else is an error.\<close>

definition unmarshal_object :: "(string \<Rightarrow> string + gvalue) \<Rightarrow> string \<Rightarrow> string + gmap option" where
  "unmarshal_object unmarshal s = (case unmarshal s of
       Inl e \<Rightarrow> Inl e
     | Inr (GMap m) \<Rightarrow> Inr (Some m)
     | Inr GNil \<Rightarrow> Inr None
     | Inr _ \<Rightarrow> Inl ''json: cannot unmarshal value into Go value of type map[string]interface {}'')"

datatype parsed = NotMatched | BadPayload go_error | Payload gmap

definition parseProtocolMessage :: "(string \<Rightarrow> string + gvalue) \<Rightarrow> string \<Rightarrow> string \<Rightarrow> parsed" where
  "parseProtocolMessage unmarshal prefix text =
     (if \<not> has_prefix text prefix then NotMatched
      else (let remainder = trim_space (drop (length prefix) text) in
        if remainder = [] then BadPayload (Plain ''missing JSON payload after protocol prefix'')
        else (case unmarshal_object unmarshal remainder of
                Inl e \<Rightarrow> BadPayload (Wrap ''decode JSON payload'' (Plain e))
              | Inr None \<Rightarrow> BadPayload (Plain ''payload must be a JSON object'')
              | Inr (Some payload) \<Rightarrow> Payload payload)))"

definition isTrustedProtocolPeer :: "Trust \<Rightarrow> string \<Rightarrow> string \<Rightarrow> string \<Rightarrow> bool" where
  "isTrustedProtocolPeer trust senderMXID roomID protocolID \<longleftrightarrow>
     list_ex (\<lambda>peer. tp_MXID peer = senderMXID \<and> tp_RoomID peer = roomID \<and>
       list_ex (\<lambda>protocol. protocol = protocolID) (tp_Protocols peer)) (tr_TrustedPeers trust)"

text \<open>What the loop body does once the trigger type matches and the prefix is not blank; \<open>None\<close> is
  \<^verbatim>\<open>continue\<close>.\<close>

definition matchProtocol ::
    "(string \<Rightarrow> string + gvalue) \<Rightarrow> Config \<Rightarrow> string \<Rightarrow> string \<Rightarrow> string \<Rightarrow> WorkflowProtocol \<Rightarrow>
     (go_error + InboundProtocolMatch option) option"
where
  "matchProtocol unmarshal cfg roomID senderMXID trimmedText protocol =
     (let prefix = trim_space (wt_Prefix (wp_Trigger protocol)) in
      case parseProtocolMessage unmarshal prefix trimmedText of
        BadPayload e \<Rightarrow> Some (Inl (WfError CodeInvalidProtocolMessage (wp_ID protocol)
          (''invalid protocol payload for prefix '' @ go_quote prefix) (Some e)))
      | NotMatched \<Rightarrow> None
      | Payload payload \<Rightarrow>
          (case validateProtocolInputSchema cfg protocol payload of
             Some e \<Rightarrow> Some (Inl e)
           | None \<Rightarrow>
               if \<not> isTrustedProtocolPeer (cf_Trust cfg) senderMXID roomID (wp_ID protocol)
               then Some (Inl (WfError CodeTrustMismatch (wp_ID protocol)
                 (''protocol trigger rejected by trustedPeers (sender='' @ senderMXID @ '' room='' @
                  roomID @ '' protocol='' @ wp_ID protocol @ '')'') None))
               else Some (Inr (Some
                 \<lparr>im_Protocol = protocol, im_Payload = payload,
                  im_SchemaDefinitions = cloneSchemaDefinitions (ws_Definitions (wf_Schemas (cf_Workflow cfg))),
                  im_Prefix = prefix, im_RawText = trimmedText\<rparr>))))"

fun matchProtocols ::
    "(string \<Rightarrow> string + gvalue) \<Rightarrow> Config \<Rightarrow> string \<Rightarrow> string \<Rightarrow> string \<Rightarrow> WorkflowProtocol list \<Rightarrow>
     go_error + InboundProtocolMatch option"
where
  "matchProtocols unmarshal cfg roomID senderMXID text [] = Inr None"
| "matchProtocols unmarshal cfg roomID senderMXID text (p # ps) =
     (if wt_Type (wp_Trigger p) \<noteq> ''matrix.protocol_message''
      then matchProtocols unmarshal cfg roomID senderMXID text ps
      else if trim_space (wt_Prefix (wp_Trigger p)) = []
      then matchProtocols unmarshal cfg roomID senderMXID text ps
      else (case matchProtocol unmarshal cfg roomID senderMXID text p of
              None \<Rightarrow> matchProtocols unmarshal cfg roomID senderMXID text ps
            | Some r \<Rightarrow> r))"

definition MatchInboundProtocol ::
    "(string \<Rightarrow> string + gvalue) \<Rightarrow> Config option \<Rightarrow> string \<Rightarrow> string \<Rightarrow> string \<Rightarrow>
     go_error + InboundProtocolMatch option"
where
  "MatchInboundProtocol unmarshal c roomID senderMXID text = (case c of
       None \<Rightarrow> Inr None
     | Some cfg \<Rightarrow>
         (let trimmedText = trim_space text in
          if trimmedText = [] \<or> length (wf_Protocols (cf_Workflow cfg)) = 0 then Inr None
          else matchProtocols unmarshal cfg roomID senderMXID trimmedText (wf_Protocols (cf_Workflow cfg))))"

subsection \<open>Gateway events\<close>

definition gatewayPayload :: "Event \<Rightarrow> gmap" where
  "gatewayPayload evt =
     (let ts = GStr (fmt_rfc3339_nano (ev_TS evt));
          message = ep_Message (ev_Payload evt);
          data = ep_Data (ev_Payload evt);
          payload =
            [(''source'', GStr (ev_Source evt)), (''type'', GStr (ev_Type evt)), (''ts'', ts),
             (''payload'', GMap [(''message'', GStr message), (''data'', GMap data)]),
             (''gateway'', GMap [(''source'', GStr (ev_Source evt)), (''event_type'', GStr (ev_Type evt)),
                (''timestamp'', ts), (''message'', GStr message), (''data'', GMap data)])];
          payload = (if message \<noteq> [] then AList.update ''message'' (GStr message) payload else payload)
      in if length data > 0 then AList.update ''data'' (GMap data) payload else payload)"

fun matchGateway :: "Config \<Rightarrow> Event \<Rightarrow> WorkflowProtocol list \<Rightarrow> go_error + InboundProtocolMatch option" where
  "matchGateway cfg evt [] = Inr None"
| "matchGateway cfg evt (p # ps) =
     (let prefix = trim_space (wt_Prefix (wp_Trigger p)) in
      if wt_Type (wp_Trigger p) \<noteq> ''gateway.event'' then matchGateway cfg evt ps
      else if prefix \<noteq> [] \<and> prefix \<noteq> ev_Type evt then matchGateway cfg evt ps
      else (let payload = gatewayPayload evt in
        case validateProtocolInputSchema cfg p payload of
          Some e \<Rightarrow> Inl e
        | None \<Rightarrow> Inr (Some
            \<lparr>im_Protocol = p, im_Payload = payload,
             im_SchemaDefinitions = cloneSchemaDefinitions (ws_Definitions (wf_Schemas (cf_Workflow cfg))),
             im_Prefix = prefix, im_RawText = ''gateway:'' @ ev_Source evt @ ''/'' @ ev_Type evt\<rparr>)))"

definition MatchGatewayProtocol ::
    "Config option \<Rightarrow> Event option \<Rightarrow> go_error + InboundProtocolMatch option"
where
  "MatchGatewayProtocol c e = (case (c, e) of
       (Some cfg, Some evt) \<Rightarrow>
         if length (wf_Protocols (cf_Workflow cfg)) = 0 then Inr None
         else matchGateway cfg evt (wf_Protocols (cf_Workflow cfg))
     | _ \<Rightarrow> Inr None)"

subsection \<open>Execution contexts\<close>

record ExecutionContext =
  ec_TraceID :: string
  ec_RoomID :: string
  ec_SenderMXID :: string
  ec_ProtocolID :: string
  ec_Input :: gmap
  ec_State :: gmap
  ec_SchemaDefinitions :: gmap

definition NewExecutionContext ::
    "string \<Rightarrow> string \<Rightarrow> string \<Rightarrow> InboundProtocolMatch option \<Rightarrow> ExecutionContext"
where
  "NewExecutionContext traceID roomID senderMXID m = (case m of
       None \<Rightarrow> \<lparr>ec_TraceID = traceID, ec_RoomID = roomID, ec_SenderMXID = senderMXID,
                ec_ProtocolID = [], ec_Input = [], ec_State = [], ec_SchemaDefinitions = []\<rparr>
     | Some im \<Rightarrow> \<lparr>ec_TraceID = traceID, ec_RoomID = roomID, ec_SenderMXID = senderMXID,
                ec_ProtocolID = wp_ID (im_Protocol im), ec_Input = im_Payload im,
                ec_State = im_Payload im,
                ec_SchemaDefinitions = cloneSchemaDefinitions (im_SchemaDefinitions im)\<rparr>)"

subsection \<open>Retry, then refuse\<close>

definition isSchemaRetryStep :: "string \<Rightarrow> bool" where
  "isSchemaRetryStep stepType \<longleftrightarrow> trim_space stepType \<in> {''parse_input'', ''summarize'', ''plan''}"

fun retryLoop ::
    "nat \<Rightarrow> ('s \<Rightarrow> (go_error option \<times> 's) option) \<Rightarrow> go_error option \<Rightarrow> 's \<Rightarrow> (go_error option \<times> 's) option"
where
  "retryLoop 0 run lastErr s = Some (lastErr, s)"
| "retryLoop (Suc n) run lastErr s = (case run s of
       None \<Rightarrow> None
     | Some (None, s') \<Rightarrow> Some (None, s')
     | Some (Some err, s') \<Rightarrow> retryLoop n run (Some err) s')"

text \<open>The \<^verbatim>\<open>attempts\<close> counter is a 64-bit integer.  A loop that returns \<^verbatim>\<open>nil\<close> from inside is told
  apart from one that ends with \<^verbatim>\<open>lastErr\<close> still \<^verbatim>\<open>nil\<close>, which happens only when it made no attempt.\<close>

definition retryAttempts :: "string \<Rightarrow> int \<Rightarrow> int" where
  "retryAttempts stepType retries =
     (let retries = (if retries < 0 then 0 else retries)
      in if isSchemaRetryStep stepType then wrap64 (1 + retries) else 1)"

definition RunStepWithRetryThenRefuse ::
    "string \<Rightarrow> string \<Rightarrow> int \<Rightarrow> ('s \<Rightarrow> (go_error option \<times> 's) option) option \<Rightarrow> 's \<Rightarrow>
     (go_error option \<times> 's) option"
where
  "RunStepWithRetryThenRefuse protocolID stepType retries run s = (case run of
       None \<Rightarrow> Some (Some (WfError CodeSchemaValidation protocolID
         (''step '' @ stepType @ '' execution failed: runner is nil'') None), s)
     | Some f \<Rightarrow>
         (let attempts = retryAttempts stepType retries in
          case retryLoop (nat attempts) f None s of
            None \<Rightarrow> None
          | Some (lastErr, s') \<Rightarrow>
              if 0 < attempts \<and> lastErr = None then Some (None, s')
              else if \<not> isSchemaRetryStep stepType then Some (lastErr, s')
              else Some (Some (WfError CodeSchemaValidation protocolID
                (''step '' @ stepType @ '' failed after '' @ itoa attempts @ '' attempt(s)'') lastErr), s')))"

subsection \<open>What the schema checks accept\<close>

definition property_ok :: "gmap \<Rightarrow> string \<times> gvalue \<Rightarrow> bool" where
  "property_ok payload = (\<lambda>(key, ps). \<forall>v m. map_of payload key = Some v \<longrightarrow> ps = GMap m \<longrightarrow>
     get_string m ''type'' \<noteq> [] \<longrightarrow> matchesJSONSchemaType (get_string m ''type'') v)"

text \<open>A payload satisfies a schema: the schema is for objects, every required field is present, and
  every present field with a typed property has that type.\<close>

definition payload_ok :: "gmap \<Rightarrow> gmap \<Rightarrow> bool" where
  "payload_ok schema payload \<longleftrightarrow>
     get_string schema ''type'' \<in> {[], ''object''} \<and>
     (\<forall>r. map_of schema ''required'' = Some r \<longrightarrow>
        (\<exists>keys. r = GList (map GStr keys) \<and> set keys \<subseteq> dom (map_of payload))) \<and>
     (\<forall>p. map_of schema ''properties'' = Some p \<longrightarrow>
        (\<exists>props. p = GMap props \<and> (\<forall>kv \<in> set props. property_ok payload kv)))"

lemma as_list_Some [simp]: "as_list v = Some xs \<longleftrightarrow> v = GList xs"
  by (cases v) auto

lemma as_map_Some [simp]: "as_map v = Some m \<longleftrightarrow> v = GMap m"
  by (cases v) auto

lemma as_string_Some [simp]: "as_string v = Some s \<longleftrightarrow> v = GStr s"
  by (cases v) auto

lemma checkRequired_None:
  "checkRequired payload raw = None \<longleftrightarrow> (\<exists>key. raw = GStr key \<and> key \<in> dom (map_of payload))"
  by (auto simp: checkRequired_def split: option.splits)

lemma checkProperty_None: "checkProperty payload kv = None \<longleftrightarrow> property_ok payload kv"
  by (cases kv) (auto simp: checkProperty_def property_ok_def Let_def split: option.splits)

lemma required_list:
  "(\<forall>x \<in> set rs. \<exists>key. x = GStr key \<and> key \<in> K) \<longleftrightarrow> (\<exists>keys. rs = map GStr keys \<and> set keys \<subseteq> K)"
proof
  assume "\<forall>x \<in> set rs. \<exists>key. x = GStr key \<and> key \<in> K"
  then have "rs = map GStr (map (\<lambda>x. the (as_string x)) rs) \<and> set (map (\<lambda>x. the (as_string x)) rs) \<subseteq> K"
    by (induction rs) auto
  then show "\<exists>keys. rs = map GStr keys \<and> set keys \<subseteq> K" ..
qed fastforce

lemma validatePayload_None: "validatePayloadAgainstSchema schema payload = None \<longleftrightarrow> payload_ok schema payload"
proof -
  have req: "(case map_of schema ''required'' of None \<Rightarrow> None
        | Some requiredAny \<Rightarrow> (case as_list requiredAny of None \<Rightarrow> Some ''schema.required must be an array''
             | Some required \<Rightarrow> first_error (\<lambda>_. checkRequired payload) 0 required)) = None \<longleftrightarrow>
      (\<forall>r. map_of schema ''required'' = Some r \<longrightarrow>
        (\<exists>keys. r = GList (map GStr keys) \<and> set keys \<subseteq> dom (map_of payload)))"
    by (auto simp: first_error_None_all [OF checkRequired_None] required_list split: option.splits)
  have typed: "(case map_of schema ''properties'' of None \<Rightarrow> None
        | Some propertiesAny \<Rightarrow> (case as_map propertiesAny of None \<Rightarrow> Some ''schema.properties must be an object''
             | Some properties \<Rightarrow> first_error (\<lambda>_. checkProperty payload) 0 properties)) = None \<longleftrightarrow>
      (\<forall>p. map_of schema ''properties'' = Some p \<longrightarrow>
        (\<exists>props. p = GMap props \<and> (\<forall>kv \<in> set props. property_ok payload kv)))"
    by (auto simp: first_error_None_all [OF checkProperty_None] split: option.splits)
  show ?thesis
    by (simp only: validatePayloadAgainstSchema_def Let_def first_of_None req typed payload_ok_def
        reject_None first_of.simps) auto
qed

definition input_ok :: "Config \<Rightarrow> WorkflowProtocol \<Rightarrow> gmap \<Rightarrow> bool" where
  "input_ok cfg p payload \<longleftrightarrow> trim_space (wp_InputSchemaRef p) = [] \<or>
     (\<exists>schema. map_of (ws_Definitions (wf_Schemas (cf_Workflow cfg))) (wp_InputSchemaRef p) = Some (GMap schema) \<and>
        payload_ok schema payload)"

lemma validateProtocolInputSchema_None:
  "validateProtocolInputSchema cfg p payload = None \<longleftrightarrow> input_ok cfg p payload"
  by (auto simp: validateProtocolInputSchema_def input_ok_def Let_def validatePayload_None
      split: option.splits)

lemma validateProtocolInputSchema_Some:
  "validateProtocolInputSchema cfg p payload = Some e \<Longrightarrow>
     \<exists>msg. e = WfError CodeSchemaValidation (wp_ID p) msg None"
  by (auto simp: validateProtocolInputSchema_def Let_def split: option.splits if_splits)

subsection \<open>The matching loops are first-match loops\<close>

definition message_hits :: "WorkflowProtocol \<Rightarrow> string \<Rightarrow> bool" where
  "message_hits p text \<longleftrightarrow> wt_Type (wp_Trigger p) = ''matrix.protocol_message'' \<and>
     trim_space (wt_Prefix (wp_Trigger p)) \<noteq> [] \<and> has_prefix text (trim_space (wt_Prefix (wp_Trigger p)))"

lemma matchProtocol_None:
  "matchProtocol um cfg room sender text p = None \<longleftrightarrow>
     \<not> has_prefix text (trim_space (wt_Prefix (wp_Trigger p)))"
  by (auto simp: matchProtocol_def parseProtocolMessage_def Let_def split: sum.splits option.splits)

interpretation inbound: first_match
  message_hits "\<lambda>p text. the (matchProtocol um cfg room sender text p)" "\<lambda>_. Inr None"
  "\<lambda>ps text. matchProtocols um cfg room sender text ps"
  for um cfg room sender
  by unfold_locales
    (auto simp: message_hits_def matchProtocol_None matchProtocol_None [THEN iffD2] split: option.split)

definition event_hits :: "WorkflowProtocol \<Rightarrow> Event \<Rightarrow> bool" where
  "event_hits p evt \<longleftrightarrow> wt_Type (wp_Trigger p) = ''gateway.event'' \<and>
     trim_space (wt_Prefix (wp_Trigger p)) \<in> {[], ev_Type evt}"

definition event_verdict :: "Config \<Rightarrow> WorkflowProtocol \<Rightarrow> Event \<Rightarrow> go_error + InboundProtocolMatch option" where
  "event_verdict cfg p evt = matchGateway cfg evt [p]"

interpretation gateway: first_match
  event_hits "event_verdict cfg" "\<lambda>_. Inr None" "\<lambda>ps evt. matchGateway cfg evt ps" for cfg
  by unfold_locales (auto simp: event_hits_def event_verdict_def Let_def)

subsection \<open>The retry loop\<close>

text \<open>\<open>failures run k e s\<close> makes \<open>k\<close> attempts that all fail: \<open>Some\<close> of the last error (\<open>e\<close> for none) and
  the state after them, \<open>None\<close> when an attempt succeeds or does not return.\<close>

fun failures ::
    "('s \<Rightarrow> (go_error option \<times> 's) option) \<Rightarrow> nat \<Rightarrow> go_error option \<Rightarrow> 's \<Rightarrow> (go_error option \<times> 's) option"
where
  "failures run 0 e s = Some (e, s)"
| "failures run (Suc k) e s = (case run s of Some (Some e', u) \<Rightarrow> failures run k (Some e') u | _ \<Rightarrow> None)"

lemma ex_le_Suc: "(\<exists>k \<le> Suc n. P k) \<longleftrightarrow> P 0 \<or> (\<exists>k \<le> n. P (Suc k))"
  by (metis Suc_le_mono le0 not0_implies_Suc)

lemma failures_last: "failures run k e s = Some (r, t) \<Longrightarrow> e \<noteq> None \<or> 0 < k \<Longrightarrow> r \<noteq> None"
  by (induction run k e s rule: failures.induct) (auto split: option.splits prod.splits)

lemma retryLoop_spec:
  "retryLoop (Suc n) run e s = Some (r, s') \<longleftrightarrow>
     (r = None \<and> (\<exists>k \<le> n. \<exists>e' t. failures run k e s = Some (e', t) \<and> run t = Some (None, s'))) \<or>
     failures run (Suc n) e s = Some (r, s')"
proof (induction n arbitrary: e s)
  case 0
  then show ?case by (auto split: option.splits prod.splits)
next
  case (Suc n)
  show ?case
  proof (cases "run s")
    case None
    then show ?thesis by (simp add: ex_le_Suc)
  next
    case (Some p)
    obtain r1 u where p: "p = (r1, u)" by (cases p)
    show ?thesis
    proof (cases r1)
      case None
      then show ?thesis using Some p by (auto simp: ex_le_Suc)
    next
      case (Some e1)
      with \<open>run s = Some p\<close> p have run: "run s = Some (Some e1, u)" by simp
      then have "retryLoop (Suc (Suc n)) run e s = retryLoop (Suc n) run (Some e1) u" by simp
      also have "(\<dots> = Some (r, s')) \<longleftrightarrow>
          (r = None \<and> (\<exists>k \<le> Suc n. \<exists>e' t. failures run k e s = Some (e', t) \<and> run t = Some (None, s'))) \<or>
          failures run (Suc (Suc n)) e s = Some (r, s')"
        unfolding Suc.IH ex_le_Suc by (simp add: run)
      finally show ?thesis .
    qed
  qed
qed

text \<open>What a match for a message stands for.\<close>

lemma inbound_match:
  assumes "MatchInboundProtocol um (Some cfg) room sender text = Inr (Some m)"
  shows "(\<exists>pre post. wf_Protocols (cf_Workflow cfg) = pre @ im_Protocol m # post \<and>
      (\<forall>p \<in> set pre. \<not> message_hits p (trim_space text))) \<and>
    message_hits (im_Protocol m) (trim_space text) \<and>
    (\<exists>peer \<in> set (tr_TrustedPeers (cf_Trust cfg)). tp_MXID peer = sender \<and> tp_RoomID peer = room \<and>
      wp_ID (im_Protocol m) \<in> set (tp_Protocols peer)) \<and>
    um (trim_space (drop (length (im_Prefix m)) (trim_space text))) = Inr (GMap (im_Payload m)) \<and>
    input_ok cfg (im_Protocol m) (im_Payload m)"
proof -
  from assms have res: "matchProtocols um cfg room sender (trim_space text) (wf_Protocols (cf_Workflow cfg)) = Inr (Some m)"
    by (simp add: MatchInboundProtocol_def Let_def split: if_splits)
  show ?thesis
  proof (cases rule: inbound.decide_cases [of "wf_Protocols (cf_Workflow cfg)" "trim_space text" um cfg room sender])
    case fallback
    with res show ?thesis by simp
  next
    case (hit pre p post)
    from hit(3) have "matchProtocol um cfg room sender (trim_space text) p \<noteq> None"
      by (simp add: matchProtocol_None message_hits_def)
    with hit(4) res have m: "matchProtocol um cfg room sender (trim_space text) p = Some (Inr (Some m))" by auto
    then show ?thesis using hit(1-3)
      by (auto simp: matchProtocol_def parseProtocolMessage_def unmarshal_object_def Let_def
          isTrustedProtocolPeer_def list_ex_iff validateProtocolInputSchema_None
          split: if_splits option.splits sum.splits gvalue.splits parsed.splits) blast
  qed
qed

subsection \<open>Properties\<close>

text \<open>
  C18: A Matrix message starts a workflow only when it is authorised: the match returned is for the
  first protocol whose prefix the message has, the sender is a trusted peer for exactly this
  room and this protocol, and the JSON object after the prefix satisfies the protocol's input schema.
\<close>

theorem inbound_match_authorised:
  assumes "MatchInboundProtocol um (Some cfg) room sender text = Inr (Some m)"
  shows "(\<exists>pre post. wf_Protocols (cf_Workflow cfg) = pre @ im_Protocol m # post \<and>
      (\<forall>p \<in> set pre. \<not> message_hits p (trim_space text))) \<and>
    message_hits (im_Protocol m) (trim_space text) \<and>
    (\<exists>peer \<in> set (tr_TrustedPeers (cf_Trust cfg)). tp_MXID peer = sender \<and> tp_RoomID peer = room \<and>
      wp_ID (im_Protocol m) \<in> set (tp_Protocols peer)) \<and>
    um (trim_space (drop (length (im_Prefix m)) (trim_space text))) = Inr (GMap (im_Payload m)) \<and>
    input_ok cfg (im_Protocol m) (im_Payload m)"
  using assms by (rule inbound_match)

definition sample_protocol :: WorkflowProtocol where
  "sample_protocol = \<lparr>wp_ID = ''p'', wp_Trigger = \<lparr>wt_Type = ''matrix.protocol_message'', wt_Prefix = ''P''\<rparr>,
     wp_InputSchemaRef = [], wp_Retries = 0, wp_Steps = []\<rparr>"

definition sample_config :: "WorkflowProtocol \<Rightarrow> Config" where
  "sample_config p = zero_Config\<lparr>
     cf_APIVersion := ''gosuto/v1'',
     cf_Metadata := \<lparr>md_Name = ''a'', md_Template = [], md_CanonicalName = [], md_Description = []\<rparr>,
     cf_Trust := zero_Trust\<lparr>tr_AllowedRooms := [''*''], tr_AllowedSenders := [''*''],
       tr_TrustedPeers := [\<lparr>tp_MXID = ''@s'', tp_RoomID = ''!r'', tp_Alias = [], tp_Protocols = [''p'']\<rparr>]\<rparr>,
     cf_Workflow := \<lparr>wf_Schemas = \<lparr>ws_Definitions = [(''s'', GMap [])], ws_Duplicates = []\<rparr>,
       wf_Protocols = [p]\<rparr>\<rparr>"

theorem inbound_match_authorised_witness:
  "\<exists>m. MatchInboundProtocol (\<lambda>_. Inr (GMap [])) (Some (sample_config sample_protocol)) ''!r'' ''@s'' ''P x'' = Inr (Some m) \<and>
    input_ok (sample_config sample_protocol) (im_Protocol m) (im_Payload m)"
proof -
  have "isl (MatchInboundProtocol (\<lambda>_. Inr (GMap [])) (Some (sample_config sample_protocol)) ''!r'' ''@s'' ''P x'') = False \<and>
      projr (MatchInboundProtocol (\<lambda>_. Inr (GMap [])) (Some (sample_config sample_protocol)) ''!r'' ''@s'' ''P x'') \<noteq> None"
    by code_simp
  then obtain m where
    m: "MatchInboundProtocol (\<lambda>_. Inr (GMap [])) (Some (sample_config sample_protocol)) ''!r'' ''@s'' ''P x'' = Inr (Some m)"
    by (cases "MatchInboundProtocol (\<lambda>_. Inr (GMap [])) (Some (sample_config sample_protocol)) ''!r'' ''@s'' ''P x''") auto
  from inbound_match_authorised [OF m] m show ?thesis by blast
qed

text \<open>
  The payload check accepts exactly the payloads that satisfy the schema, in whatever order the
  property map is visited, and every rejection of a message that some protocol's prefix matches is
  classified: bad JSON, schema violation or untrusted peer.
\<close>

theorem inbound_rejections_classified:
  "(validatePayloadAgainstSchema schema payload = None \<longleftrightarrow> payload_ok schema payload) \<and>
   (MatchInboundProtocol um c room sender text = Inl e \<longrightarrow>
     HasCode e CodeInvalidProtocolMessage \<or> HasCode e CodeSchemaValidation \<or> HasCode e CodeTrustMismatch)"
proof -
  have code_one: "matchProtocol um cfg room sender body p = Some (Inl e) \<Longrightarrow>
      HasCode e CodeInvalidProtocolMessage \<or> HasCode e CodeSchemaValidation \<or> HasCode e CodeTrustMismatch"
    for cfg body p
    by (auto simp: matchProtocol_def Let_def split: parsed.splits option.splits if_splits
        dest!: validateProtocolInputSchema_Some)
  have "matchProtocols um cfg room sender body ps = Inl e \<Longrightarrow>
      HasCode e CodeInvalidProtocolMessage \<or> HasCode e CodeSchemaValidation \<or> HasCode e CodeTrustMismatch"
    for cfg body ps
  proof (induction ps)
    case (Cons p ps)
    then show ?case using code_one [of cfg body p] by (simp split: option.splits if_splits)
  qed simp
  then show ?thesis
    by (auto simp: validatePayload_None MatchInboundProtocol_def Let_def split: option.splits if_splits)
qed

theorem inbound_rejections_classified_witness:
  "HasCode (projl (MatchInboundProtocol (\<lambda>_. Inr (GMap [])) (Some (sample_config sample_protocol)) ''!r'' ''@x'' ''P x''))
     CodeTrustMismatch \<and>
   validatePayloadAgainstSchema [] [] = None"
proof
  show "validatePayloadAgainstSchema [] [] = None"
    using inbound_rejections_classified [of "[]" "[]"] by (simp add: payload_ok_def get_string_def)
qed code_simp

text \<open>
  An input schema reference with surrounding blanks passes validation, which looks up the
  trimmed reference, but matching looks up the reference as written: the protocol of this valid
  configuration refuses every payload of every peer, with a schema error.
\<close>

theorem untrimmed_schema_ref_refuses_all:
  "wf_config (sample_config (sample_protocol\<lparr>wp_InputSchemaRef := '' s''\<rparr>)) \<and>
   validateProtocolInputSchema (sample_config (sample_protocol\<lparr>wp_InputSchemaRef := '' s''\<rparr>))
     (sample_protocol\<lparr>wp_InputSchemaRef := '' s''\<rparr>) payload =
       Some (WfError CodeSchemaValidation ''p'' ''input schema ref  s not found'' None)"
proof
  have "Validate (Some (sample_config (sample_protocol\<lparr>wp_InputSchemaRef := '' s''\<rparr>))) = None"
    by code_simp
  then show "wf_config (sample_config (sample_protocol\<lparr>wp_InputSchemaRef := '' s''\<rparr>))"
    by (simp add: Validate_def validateConfig_None)
  have "trim_space '' s'' = ''s''" by code_simp
  then show "validateProtocolInputSchema (sample_config (sample_protocol\<lparr>wp_InputSchemaRef := '' s''\<rparr>))
     (sample_protocol\<lparr>wp_InputSchemaRef := '' s''\<rparr>) payload =
       Some (WfError CodeSchemaValidation ''p'' ''input schema ref  s not found'' None)"
    by (simp add: validateProtocolInputSchema_def sample_config_def sample_protocol_def)
qed

text \<open>
  Retry, then refuse: a step of a schema-sensitive type is attempted until it succeeds, at most
  \<^verbatim>\<open>retries + 1\<close> times, any other step exactly once.  When all attempts fail, the schema-sensitive
  step is refused with a schema-validation error that wraps the last error; another step returns its
  own error.
\<close>

theorem retry_then_refuse:
  assumes "0 \<le> retries" "retries < max_int64"
  shows "RunStepWithRetryThenRefuse pid ty retries (Some run) s = Some (r, s') \<longleftrightarrow>
    (let n = (if isSchemaRetryStep ty then nat retries else 0) in
     (r = None \<and> (\<exists>k \<le> n. \<exists>e t. failures run k None s = Some (e, t) \<and> run t = Some (None, s'))) \<or>
     (\<exists>e. failures run (Suc n) None s = Some (Some e, s') \<and>
       r = Some (if isSchemaRetryStep ty
         then WfError CodeSchemaValidation pid
           (''step '' @ ty @ '' failed after '' @ itoa (1 + retries) @ '' attempt(s)'') (Some e)
         else e)))"
proof -
  define n where "n = (if isSchemaRetryStep ty then nat retries else 0)"
  have att: "retryAttempts ty retries = (if isSchemaRetryStep ty then 1 + retries else 1)"
    using assms wrap64_id [of "1 + retries"] by (simp add: retryAttempts_def min_int64_def)
  have pos: "0 < retryAttempts ty retries" and nat: "nat (retryAttempts ty retries) = Suc n"
    using assms by (simp_all add: att n_def Suc_nat_eq_nat_zadd1 add.commute)
  have msg: "isSchemaRetryStep ty \<Longrightarrow> itoa (retryAttempts ty retries) = itoa (1 + retries)"
    by (simp add: att)
  have some: "failures run (Suc n) None s \<noteq> Some (None, t)" for t
    using failures_last [of run "Suc n" None s None t] by auto
  define wrap where "wrap e = (if isSchemaRetryStep ty
      then WfError CodeSchemaValidation pid
        (''step '' @ ty @ '' failed after '' @ itoa (1 + retries) @ '' attempt(s)'') (Some e) else e)" for e
  have "RunStepWithRetryThenRefuse pid ty retries (Some run) s =
      map_option (\<lambda>(e, t). (map_option wrap e, t)) (retryLoop (Suc n) run None s)"
    using pos msg
    by (cases "isSchemaRetryStep ty")
      (auto simp: RunStepWithRetryThenRefuse_def nat wrap_def Let_def
        simp del: retryLoop.simps split: option.splits)
  then have "RunStepWithRetryThenRefuse pid ty retries (Some run) s = Some (r, s') \<longleftrightarrow>
      (\<exists>e. retryLoop (Suc n) run None s = Some (e, s') \<and> r = map_option wrap e)"
    by auto
  also have "\<dots> \<longleftrightarrow> (r = None \<and> (\<exists>k \<le> n. \<exists>e t. failures run k None s = Some (e, t) \<and> run t = Some (None, s'))) \<or>
      (\<exists>e. failures run (Suc n) None s = Some (Some e, s') \<and> r = Some (wrap e))"
    unfolding retryLoop_spec using some by (auto simp del: failures.simps) (metis option.exhaust option.simps(9))+
  finally show ?thesis unfolding Let_def n_def [symmetric] wrap_def .
qed

theorem retry_then_refuse_witness:
  "RunStepWithRetryThenRefuse ''p'' ''plan'' 2 (Some (\<lambda>n. Some (if n < 2 then Some (Plain ''bad'') else None, Suc n))) (0::nat) =
     Some (None, 3)"
proof -
  have "isSchemaRetryStep ''plan''" by code_simp
  moreover have "(0::int) \<le> 2" "2 < max_int64" by (simp_all add: max_int64_def)
  moreover have "failures (\<lambda>n. Some (if n < 2 then Some (Plain ''bad'') else None, Suc n)) 2 None (0::nat) =
      Some (Some (Plain ''bad''), 2)"
    by (simp add: numeral_2_eq_2)
  ultimately show ?thesis
    by (subst retry_then_refuse) (auto simp: Let_def intro!: exI [of _ "2::nat"])
qed

end
