(* ===== verification/Workflow_Template.thy ===== *)
theory Workflow_Template
  imports Workflow_Match
begin

section \<open>Run state and template interpolation\<close>

text \<open>
  \<^verbatim>\<open>internal/gitai/workflow/state.go\<close> and the template functions of \<^verbatim>\<open>runner.go\<close>: the state of a run,
  path lookup in it, and the replacement of \<^verbatim>\<open>{{path}}\<close> tokens.
  \<^verbatim>\<open>interpolateString\<close> rescans the text it has just produced, so its loop need not end: it is a
  \<^verbatim>\<open>partial_function\<close> in the option type and \<open>None\<close> is a call that never returns.
  The theory shows when it does return and that it then is one left-to-right pass, that a payload can make it
  run for ever, and that a payload can have tokens of its own expanded.
  Values are trees: a map is copied where the code passes the reference on (the runner never
  changes a map that it has handed out, with the exception that the theory of the runner names).
\<close>

subsection \<open>State\<close>

record TraceMetadata =
  tm_TraceID :: string
  tm_ProtocolID :: string
  tm_RoomID :: string
  tm_SenderMXID :: string
  tm_StartedAt :: gotime
  tm_CompletedAt :: gotime
  tm_DurationMS :: int
  tm_Status :: string
  tm_Error :: string
  tm_ToolCalls :: int
  tm_StepsTotal :: int
  tm_StepsCompleted :: int

record FinalOutput =
  fo_StepKey :: string
  fo_StepIndex :: int
  fo_StepType :: string
  fo_Value :: gvalue

record State =
  ss_TraceID :: string
  ss_RoomID :: string
  ss_SenderMXID :: string
  ss_ProtocolID :: string
  ss_Input :: gmap
  ss_Values :: gmap
  ss_Schemas :: gmap
  ss_StepOutputs :: "(string \<times> gmap) list"
  ss_FinalOutput :: string
  ss_Final :: FinalOutput
  ss_Trace :: TraceMetadata

definition zero_TraceMetadata :: TraceMetadata where
  "zero_TraceMetadata = \<lparr>tm_TraceID = [], tm_ProtocolID = [], tm_RoomID = [], tm_SenderMXID = [],
     tm_StartedAt = 0, tm_CompletedAt = 0, tm_DurationMS = 0, tm_Status = [], tm_Error = [],
     tm_ToolCalls = 0, tm_StepsTotal = 0, tm_StepsCompleted = 0\<rparr>"

definition zero_State :: State where
  "zero_State = \<lparr>ss_TraceID = [], ss_RoomID = [], ss_SenderMXID = [], ss_ProtocolID = [],
     ss_Input = [], ss_Values = [], ss_Schemas = [], ss_StepOutputs = [], ss_FinalOutput = [],
     ss_Final = \<lparr>fo_StepKey = [], fo_StepIndex = 0, fo_StepType = [], fo_Value = GNil\<rparr>,
     ss_Trace = zero_TraceMetadata\<rparr>"

definition cloneMap :: "gmap \<Rightarrow> gmap" where
  "cloneMap m = (if length m = 0 then [] else m)"

lemma cloneMap_id [simp]: "cloneMap m = m"
  by (simp add: cloneMap_def)

definition NewStateFromExecutionContext :: "gotime \<Rightarrow> ExecutionContext option \<Rightarrow> State" where
  "NewStateFromExecutionContext now ctx = (case ctx of
       None \<Rightarrow> zero_State
     | Some c \<Rightarrow> zero_State\<lparr>
         ss_TraceID := ec_TraceID c, ss_RoomID := ec_RoomID c, ss_SenderMXID := ec_SenderMXID c,
         ss_ProtocolID := ec_ProtocolID c, ss_Input := cloneMap (ec_Input c),
         ss_Values := cloneMap (ec_State c),
         ss_Schemas := cloneSchemaDefinitions (ec_SchemaDefinitions c),
         ss_Trace := zero_TraceMetadata\<lparr>
           tm_TraceID := ec_TraceID c, tm_ProtocolID := ec_ProtocolID c, tm_RoomID := ec_RoomID c,
           tm_SenderMXID := ec_SenderMXID c, tm_StartedAt := now, tm_Status := ''running''\<rparr>\<rparr>)"

subsection \<open>Paths\<close>

fun resolvePath :: "gvalue \<Rightarrow> string list \<Rightarrow> gvalue option" where
  "resolvePath current [] = Some current"
| "resolvePath current (p # ps) = (case as_map current of
       None \<Rightarrow> None
     | Some obj \<Rightarrow> (case map_of obj p of None \<Rightarrow> None | Some v \<Rightarrow> resolvePath v ps))"

definition step_outputs_value :: "State \<Rightarrow> gvalue" where
  "step_outputs_value st = GMap (map (apsnd GMap) (ss_StepOutputs st))"

text \<open>The shortcuts for \<^verbatim>\<open>steps.KEY\<close> and \<^verbatim>\<open>steps.KEY.PATH\<close>: the output of the step, or the contract.\<close>

definition resolveStep :: "gmap \<Rightarrow> string list \<Rightarrow> gvalue option" where
  "resolveStep contract path =
     (case path of
        [] \<Rightarrow> (case map_of contract ''output'' of Some out \<Rightarrow> Some out | None \<Rightarrow> Some (GMap contract))
      | p # _ \<Rightarrow> first_of
          [if p = ''output'' then resolvePath (GMap contract) path else None,
           Option.bind (Option.bind (map_of contract ''output'') as_map) (\<lambda>obj. resolvePath (GMap obj) path),
           resolvePath (GMap contract) path])"

definition resolveRoot :: "State \<Rightarrow> string \<Rightarrow> gvalue option" where
  "resolveRoot st root =
     (if root = ''input'' then Some (GMap (ss_Input st))
      else if root = ''state'' then Some (GMap (ss_Values st))
      else if root = ''steps'' then Some (step_outputs_value st)
      else None)"

definition resolvePathToken :: "string \<Rightarrow> State \<Rightarrow> gvalue option" where
  "resolvePathToken token st =
     (if token = [] then None
      else (case split_on (CHR ''.'') token of
              [] \<Rightarrow> None
            | root # path \<Rightarrow> first_of
                [if root = ''steps''
                 then (case path of [] \<Rightarrow> None
                       | key # rest \<Rightarrow> Option.bind (map_of (ss_StepOutputs st) key) (\<lambda>c. resolveStep c rest))
                 else None,
                 Option.bind (resolveRoot st root) (\<lambda>r. resolvePath r path)]))"

subsection \<open>Templates\<close>

definition singleTemplateToken :: "string \<Rightarrow> string option" where
  "singleTemplateToken raw =
     (let trimmed = trim_space raw in
      if \<not> has_prefix trimmed ''{{'' \<or> \<not> has_suffix trimmed ''}}'' then None
      else (let inner = trim_space (take (length trimmed - 4) (drop 2 trimmed)) in
        if inner = [] then None
        else if str_contains inner ''{{'' \<or> str_contains inner ''}}'' then None
        else Some inner))"

definition replacement :: "gvalue \<Rightarrow> string" where
  "replacement resolved = (if resolved = GNil then [] else sprint_v resolved)"

definition malformed :: "string \<Rightarrow> string \<Rightarrow> go_error" where
  "malformed raw why = Plain (''malformed template '' @ go_quote raw @ '': '' @ why)"

definition unresolved :: "string \<Rightarrow> go_error" where
  "unresolved token = Plain (''unresolved template token '' @ go_quote token)"

text \<open>One iteration of the loop of \<^verbatim>\<open>interpolateString\<close>: the token found, its value, and the text
  before and behind it; \<open>Inr None\<close> leaves the loop.\<close>

definition next_token :: "string \<Rightarrow> State \<Rightarrow> string \<Rightarrow> go_error + (string \<times> string \<times> string) option" where
  "next_token raw st out = (case index_of out ''{{'' of
       None \<Rightarrow> Inr None
     | Some start \<Rightarrow>
         (case index_of (drop (start + 2) out) ''}}'' of
            None \<Rightarrow> Inl (malformed raw ''missing closing braces'')
          | Some n \<Rightarrow>
              (let token = trim_space (take n (drop (start + 2) out)) in
               if token = [] then Inl (malformed raw ''empty token'')
               else (case resolvePathToken token st of
                       None \<Rightarrow> Inl (unresolved token)
                     | Some resolved \<Rightarrow>
                         Inr (Some (take start out, replacement resolved, drop (start + 2 + n + 2) out))))))"

partial_function (option) interp_loop :: "string \<Rightarrow> State \<Rightarrow> string \<Rightarrow> (go_error + string) option" where
  "interp_loop raw st out = (case next_token raw st out of
       Inl e \<Rightarrow> Some (Inl e)
     | Inr None \<Rightarrow> Some (Inr out)
     | Inr (Some (before, rendered, behind)) \<Rightarrow> interp_loop raw st (before @ rendered @ behind))"

declare interp_loop.simps [code]

definition check_rendered :: "string \<Rightarrow> go_error + string \<Rightarrow> go_error + string" where
  "check_rendered raw r = (case r of
       Inl e \<Rightarrow> Inl e
     | Inr out \<Rightarrow> if str_contains out ''{{'' \<or> str_contains out ''}}''
                 then Inl (malformed raw ''unmatched braces'') else Inr out)"

definition interpolateString :: "string \<Rightarrow> State \<Rightarrow> (go_error + string) option" where
  "interpolateString raw st =
     (let trimmed = trim_space raw in
      if \<not> str_contains trimmed ''{{'' \<or> \<not> str_contains trimmed ''}}'' then Some (Inr raw)
      else map_option (check_rendered raw) (interp_loop raw st raw))"

definition interpolateText :: "string \<Rightarrow> State \<Rightarrow> (go_error + gvalue) option" where
  "interpolateText v st = (case singleTemplateToken v of
       Some token \<Rightarrow> (case resolvePathToken token st of
           None \<Rightarrow> Some (Inl (unresolved token)) | Some resolved \<Rightarrow> Some (Inr resolved))
     | None \<Rightarrow> map_option (map_sum id GStr) (interpolateString v st))"

fun interpolateValue :: "gvalue \<Rightarrow> State \<Rightarrow> (go_error + gvalue) option"
and interpolateItems :: "gvalue list \<Rightarrow> State \<Rightarrow> (go_error + gvalue list) option"
and interpolateFields :: "(string \<times> gvalue) list \<Rightarrow> State \<Rightarrow> (go_error + gmap) option"
where
  "interpolateValue (GStr v) st = interpolateText v st"
| "interpolateValue (GMap m) st = map_option (map_sum id GMap) (interpolateFields m st)"
| "interpolateValue (GList xs) st = map_option (map_sum id GList) (interpolateItems xs st)"
| "interpolateValue v st = Some (Inr v)"
| "interpolateItems [] st = Some (Inr [])"
| "interpolateItems (x # xs) st = (case interpolateValue x st of
       None \<Rightarrow> None
     | Some (Inl e) \<Rightarrow> Some (Inl e)
     | Some (Inr y) \<Rightarrow> map_option (map_sum id (\<lambda>ys. y # ys)) (interpolateItems xs st))"
| "interpolateFields [] st = Some (Inr [])"
| "interpolateFields ((k, x) # m) st = (case interpolateValue x st of
       None \<Rightarrow> None
     | Some (Inl e) \<Rightarrow> Some (Inl e)
     | Some (Inr y) \<Rightarrow> map_option (map_sum id (\<lambda>ys. (k, y) # ys)) (interpolateFields m st))"

subsection \<open>One pass over the template\<close>

text \<open>\<open>render\<close> replaces the tokens from left to right and never looks at replaced text again.  It is what
  the loop computes as long as no rendered value brings in an opening brace.\<close>

lemma next_token_shrinks:
  assumes "next_token raw st out = Inr (Some (before, rendered, behind))"
  shows "length behind < length out"
proof -
  from assms obtain i n where "index_of out ''{{'' = Some i" and "behind = drop (i + 2 + n + 2) out"
    by (auto simp: next_token_def Let_def split: option.splits if_splits)
  then show ?thesis using index_of_Some [of out "''{{''" i] by (simp, linarith)
qed

function render :: "string \<Rightarrow> State \<Rightarrow> string \<Rightarrow> go_error + string" where
  "render raw st s = (case next_token raw st s of
       Inl e \<Rightarrow> Inl e
     | Inr None \<Rightarrow> Inr s
     | Inr (Some (before, rendered, behind)) \<Rightarrow> map_sum id (\<lambda>t. before @ rendered @ t) (render raw st behind))"
  by pat_completeness auto
termination
  by (relation "measure (\<lambda>(raw, st, s). length s)") (auto simp: next_token_shrinks)

declare render.simps [simp del]

definition inert :: "State \<Rightarrow> bool" where
  "inert st \<longleftrightarrow> (\<forall>token v. resolvePathToken token st = Some v \<longrightarrow> CHR ''{'' \<notin> set (replacement v))"

text \<open>Text to the left of the scan: no token starts in it, and none can start at its end.\<close>

definition scanned :: "string \<Rightarrow> bool" where
  "scanned p \<longleftrightarrow> \<not> str_contains p ''{{'' \<and> (p = [] \<or> last p \<noteq> CHR ''{'')"

lemma scanned_index:
  assumes "scanned p"
  shows "index_of (p @ q) ''{{'' = map_option (\<lambda>i. length p + i) (index_of q ''{{'')"
  using assms
proof (induction p)
  case Nil
  then show ?case by (simp add: option.map_ident)
next
  case (Cons c p)
  have p: "scanned p"
    using Cons.prems by (auto simp: scanned_def str_contains_def split: if_splits)
  have "\<not> has_prefix (c # p @ q) ''{{''"
    using Cons.prems by (cases p) (auto simp: scanned_def str_contains_def split: if_splits)
  then show ?case using Cons.IH [OF p] by (auto simp: option.map_comp o_def)
qed

lemma scanned_before:
  assumes "index_of q ''{{'' = Some i"
  shows "scanned (take i q)"
  using assms
proof (induction q arbitrary: i)
  case (Cons c q)
  show ?case
  proof (cases "has_prefix (c # q) ''{{''")
    case False
    with Cons.prems obtain j where j: "index_of q ''{{'' = Some j" "i = Suc j" by auto
    with Cons.IH have "scanned (take j q)" by simp
    moreover have "\<not> (c = CHR ''{'' \<and> (\<exists>t. take j q = CHR ''{'' # t))"
      using False by (cases q; cases j) auto
    moreover have "c = CHR ''{'' \<Longrightarrow> take j q \<noteq> []"
      using False j(1) by (cases q; cases j) (auto split: if_splits)
    ultimately show ?thesis using j(2)
      by (cases "take j q") (auto simp: scanned_def str_contains_def)
  qed (use Cons.prems in \<open>auto simp: scanned_def str_contains_def\<close>)
qed simp

lemma scanned_append:
  assumes "scanned p" "scanned q"
  shows "scanned (p @ q)"
proof -
  have "index_of (p @ q) ''{{'' = None"
    using assms by (simp add: scanned_index scanned_def str_contains_def)
  then show ?thesis using assms by (auto simp: scanned_def str_contains_def last_append)
qed

lemma scanned_plain: "CHR ''{'' \<notin> set p \<Longrightarrow> scanned p"
  by (auto simp: scanned_def str_contains_iff) (metis last_in_set)

lemma next_token_scanned:
  assumes "scanned p"
  shows "next_token raw st (p @ q) =
    map_sum id (map_option (\<lambda>(before, rendered, behind). (p @ before, rendered, behind))) (next_token raw st q)"
  using assms by (auto simp: next_token_def scanned_index Let_def numeral_eq_Suc split: option.splits)

lemma next_token_before:
  assumes "next_token raw st q = Inr (Some (before, rendered, behind))" "inert st"
  shows "scanned (before @ rendered)"
proof -
  from assms obtain i v where "index_of q ''{{'' = Some i" "before = take i q" "CHR ''{'' \<notin> set rendered"
    by (auto simp: next_token_def inert_def Let_def split: option.splits if_splits)
  then show ?thesis by (simp add: scanned_append scanned_before scanned_plain)
qed

lemma interp_loop_render:
  assumes "inert st" "scanned p"
  shows "interp_loop raw st (p @ q) = Some (map_sum id (\<lambda>t. p @ t) (render raw st q))"
  using assms(2)
proof (induction "length q" arbitrary: p q rule: less_induct)
  case less
  note loop = interp_loop.simps [of raw st "p @ q"] render.simps [of raw st q] next_token_scanned [OF less.prems]
  show ?case
  proof (cases "next_token raw st q")
    case (Inr r)
    show ?thesis
    proof (cases r)
      case (Some t)
      then obtain before rendered behind where t: "r = Some (before, rendered, behind)" by (cases t) auto
      have next_q: "next_token raw st q = Inr (Some (before, rendered, behind))" using Inr t by simp
      have "scanned (p @ before @ rendered)"
        using less.prems next_token_before [OF next_q assms(1)] by (simp add: scanned_append)
      from less.hyps [OF next_token_shrinks [OF next_q] this]
      have "interp_loop raw st (p @ before @ rendered @ behind) =
          Some (map_sum id (\<lambda>t. p @ before @ rendered @ t) (render raw st behind))"
        by (simp del: append_assoc add: append_assoc [symmetric])
      then show ?thesis by (simp add: loop next_q sum.map_comp o_def id_def)
    qed (simp add: loop Inr)
  qed (simp add: loop)
qed

subsection \<open>Properties\<close>

text \<open>
  C35: Interpolation returns, and makes a single left-to-right pass over the template, whenever no
  value that a token can resolve to renders to text with an opening brace.
\<close>

theorem interpolation_terminates:
  assumes "inert st"
  shows "interpolateString raw st = Some
    (if str_contains (trim_space raw) ''{{'' \<and> str_contains (trim_space raw) ''}}''
     then check_rendered raw (render raw st raw) else Inr raw)"
  using interp_loop_render [OF assms, of "[]" raw raw]
  by (simp add: interpolateString_def Let_def scanned_def str_contains_def sum.map_id0 flip: id_def)

lemma inert_zero_State: "inert zero_State"
proof -
  have "replacement (GMap []) = ''map[]''" by code_simp
  moreover have "resolvePathToken token zero_State = Some v \<Longrightarrow> v = GMap []" for token v
    by (auto simp: resolvePathToken_def zero_State_def resolveRoot_def step_outputs_value_def first_of_Cons
        neq_Nil_conv split: if_splits list.splits option.splits elim!: resolvePath.elims)
  ultimately show ?thesis by (fastforce simp: inert_def)
qed

theorem interpolation_terminates_witness:
  "interpolateString ''in: {{input}}'' zero_State = Some (Inr ''in: map[]'')"
proof -
  have "str_contains (trim_space ''in: {{input}}'') ''{{'' \<and> str_contains (trim_space ''in: {{input}}'') ''}}''"
    by code_simp
  moreover have "check_rendered ''in: {{input}}'' (render ''in: {{input}}'' zero_State ''in: {{input}}'') =
      Inr ''in: map[]''"
    by code_simp
  ultimately show ?thesis using interpolation_terminates [OF inert_zero_State, of "''in: {{input}}''"] by simp
qed

text \<open>
  A payload can keep the runner busy for ever: when the field \<^verbatim>\<open>text\<close> of the input is
  \<^verbatim>\<open>{{input.text}}\<close>, interpolating the ordinary prompt \<^verbatim>\<open>Summary: {{input.text}}\<close> never returns.
\<close>

theorem interpolation_diverges:
  assumes "map_of (ss_Input st) ''text'' = Some (GStr ''{{input.text}}'')"
  shows "interpolateString ''Summary: {{input.text}}'' st = None"
proof -
  let ?t = "''Summary: {{input.text}}''"
  have "index_of ?t ''{{'' = Some 9" and "index_of (drop (9 + 2) ?t) ''}}'' = Some 10"
    and "trim_space (take 10 (drop (9 + 2) ?t)) = ''input.text''"
    and "split_on (CHR ''.'') ''input.text'' = [''input'', ''text'']"
    by code_simp+
  then have step: "next_token ?t st ?t = Inr (Some (''Summary: '', ''{{input.text}}'', []))"
    using assms by (simp add: next_token_def resolvePathToken_def resolveRoot_def replacement_def first_of_Cons)
  have "\<not> (raw = ?t \<and> s = st \<and> out = ?t)" if "interp_loop raw s out = Some r" for raw s out r
  proof (rule interp_loop.raw_induct
      [where P = "\<lambda>raw s out r. \<not> (raw = ?t \<and> s = st \<and> out = ?t)", OF _ that])
    fix loop raw s out r
    assume again: "\<And>raw s out r. loop raw s out = Some r \<Longrightarrow> \<not> (raw = ?t \<and> s = st \<and> out = ?t)"
      and body: "(case next_token raw s out of Inl e \<Rightarrow> Some (Inl e) | Inr None \<Rightarrow> Some (Inr out)
        | Inr (Some (before, rendered, behind)) \<Rightarrow> loop raw s (before @ rendered @ behind)) = Some r"
    show "\<not> (raw = ?t \<and> s = st \<and> out = ?t)"
    proof
      assume "raw = ?t \<and> s = st \<and> out = ?t"
      with body step have "loop ?t st ?t = Some r" by simp
      from again [OF this] show False by simp
    qed
  qed
  then have "interp_loop ?t st ?t = None" by fastforce
  moreover have "str_contains (trim_space ?t) ''{{'' \<and> str_contains (trim_space ?t) ''}}''" by code_simp
  ultimately show ?thesis by (simp add: interpolateString_def Let_def)
qed

theorem interpolation_diverges_witness:
  "interpolateString ''Summary: {{input.text}}''
     (zero_State\<lparr>ss_Input := [(''text'', GStr ''{{input.text}}'')]\<rparr>) = None"
  by (rule interpolation_diverges) simp

text \<open>
  Text of the sender is interpreted as a template: with \<^verbatim>\<open>{{state.token}}\<close> in the field \<^verbatim>\<open>name\<close> of the
  input, the message \<^verbatim>\<open>Hi {{input.name}}\<close> is sent with the value that the run keeps under \<^verbatim>\<open>token\<close>.
\<close>

theorem payload_template_expanded:
  assumes "map_of (ss_Input st) ''name'' = Some (GStr ''{{state.token}}'')"
    and "map_of (ss_Values st) ''token'' = Some (GStr secret)"
    and "set secret \<inter> {CHR ''{'', CHR ''}''} = {}"
  shows "interpolateString ''Hi {{input.name}}'' st = Some (Inr (''Hi '' @ secret))"
proof -
  let ?t = "''Hi {{input.name}}''" and ?u = "''Hi {{state.token}}''"
  have "index_of ?t ''{{'' = Some 3" "index_of (drop (3 + 2) ?t) ''}}'' = Some 10"
    "trim_space (take 10 (drop (3 + 2) ?t)) = ''input.name''"
    "split_on (CHR ''.'') ''input.name'' = [''input'', ''name'']"
    by code_simp+
  then have 1: "next_token ?t st ?t = Inr (Some (''Hi '', ''{{state.token}}'', []))"
    using assms(1) by (simp add: next_token_def resolvePathToken_def resolveRoot_def replacement_def first_of_Cons)
  have "index_of ?u ''{{'' = Some 3" "index_of (drop (3 + 2) ?u) ''}}'' = Some 11"
    "trim_space (take 11 (drop (3 + 2) ?u)) = ''state.token''"
    "split_on (CHR ''.'') ''state.token'' = [''state'', ''token'']"
    by code_simp+
  then have 2: "next_token ?t st ?u = Inr (Some (''Hi '', secret, []))"
    using assms(2) by (simp add: next_token_def resolvePathToken_def resolveRoot_def replacement_def first_of_Cons)
  have "\<not> str_contains (''Hi '' @ secret) ''{{''" and plain: "\<not> str_contains (''Hi '' @ secret) ''}}''"
    using assms(3) by (auto simp: str_contains_iff Cons_eq_append_conv append_eq_append_conv2)
  then have 3: "next_token ?t st (''Hi '' @ secret) = Inr None"
    by (auto simp: next_token_def str_contains_def)
  have "interp_loop ?t st ?t = Some (Inr (''Hi '' @ secret))"
    using interp_loop.simps [of ?t st ?t] interp_loop.simps [of ?t st ?u]
      interp_loop.simps [of ?t st "''Hi '' @ secret"]
    by (simp add: 1 2 3 [simplified])
  moreover have "str_contains (trim_space ?t) ''{{'' \<and> str_contains (trim_space ?t) ''}}''" by code_simp
  ultimately show ?thesis
    using plain \<open>\<not> str_contains (''Hi '' @ secret) ''{{''\<close>
    by (simp add: interpolateString_def Let_def check_rendered_def)
qed

theorem payload_template_expanded_witness:
  "interpolateString ''Hi {{input.name}}''
     (zero_State\<lparr>ss_Input := [(''name'', GStr ''{{state.token}}'')], ss_Values := [(''token'', GStr ''s3cret'')]\<rparr>) =
   Some (Inr (''Hi '' @ ''s3cret''))"
  by (rule payload_template_expanded) simp_all

end
