(* ===== verification/Workflow_Runner.thy ===== *)
theory Workflow_Runner
  imports Workflow_Template
begin

section \<open>The workflow runner\<close>

text \<open>
  \<^verbatim>\<open>internal/gitai/workflow/runner.go\<close> and \<^verbatim>\<open>engine.go\<close>: execution of the steps of a protocol, loops over items,
  output checks, and the trace of a run.
  The dispatcher (tools and language model), the clock and the JSON decoder are a \<open>Runtime\<close>: functions
  on a world of any type, which they may change; they are taken to return, and not to change the
  run state that \<^verbatim>\<open>Summarize\<close> is shown.
  \<open>None\<close> is a run that does not return: an interpolation that never ends, or a \<^verbatim>\<open>persist\<close> step that stores
  a run-time map in itself (\<open>live_token\<close>), which the code then prints without end; such a step counts as one that does not return also where
  an output schema would refuse it first.
  Error texts name every integer type \<^verbatim>\<open>int\<close> and every map type \<^verbatim>\<open>map[string]interface {}\<close>.
\<close>

subsection \<open>Runtime and helpers\<close>

record 'w Runtime =
  rt_DispatchTool :: "string \<Rightarrow> string \<Rightarrow> string \<Rightarrow> gmap \<Rightarrow> 'w \<Rightarrow> (go_error + string) \<times> 'w"
  rt_Summarize :: "string \<Rightarrow> State \<Rightarrow> 'w \<Rightarrow> (go_error + string) \<times> 'w"
  rt_Now :: "'w \<Rightarrow> gotime \<times> 'w"
  rt_Unmarshal :: "string \<Rightarrow> string + gvalue"

text \<open>What a step returns: the error or the value, the number of tool calls, and the state and world it leaves.\<close>

type_synonym 'w step_result = "(go_error + gvalue) \<times> int \<times> State \<times> 'w"

definition workflowCaller :: string where "workflowCaller = ''workflow''"
definition stepPrefix :: string where "stepPrefix = ''step_''"
definition defaultForEachMaxIterations :: int where "defaultForEachMaxIterations = 10"

definition go_type_name :: "gvalue \<Rightarrow> string" where
  "go_type_name v = (case v of
       GNil \<Rightarrow> ''<nil>'' | GBool _ \<Rightarrow> ''bool'' | GInt _ \<Rightarrow> ''int'' | GFloat _ \<Rightarrow> ''float64'' | GStr _ \<Rightarrow> ''string''
     | GList _ \<Rightarrow> ''[]interface {}'' | GMap _ \<Rightarrow> ''map[string]interface {}'')"

definition asInterfaceSlice :: "gvalue \<Rightarrow> go_error + gvalue list" where
  "asInterfaceSlice v =
     (if v = GNil then Inl (Plain ''value is nil'')
      else (case as_list v of
              Some xs \<Rightarrow> Inr xs
            | None \<Rightarrow> Inl (Plain (''value type '' @ go_type_name v @ '' is not an array''))))"

definition asOptionalInterfaceSlice :: "gvalue \<Rightarrow> gvalue list option" where
  "asOptionalInterfaceSlice v = (if v = GNil then None else as_list v)"

definition field_of :: "gvalue \<Rightarrow> string \<Rightarrow> string \<Rightarrow> go_error + gvalue" where
  "field_of entry mode k = (case as_map entry of
       None \<Rightarrow> Inl (Plain (''collect mode '' @ mode @ '' requires object entries''))
     | Some obj \<Rightarrow> (case map_of obj k of
         None \<Rightarrow> Inl (Plain (''collect mode '' @ mode @ '' requires '' @ k @ '' field''))
       | Some v \<Rightarrow> Inr v))"

definition selectCollectValue :: "gvalue \<Rightarrow> string \<Rightarrow> go_error + gvalue" where
  "selectCollectValue entry mode =
     (if mode = ''result'' then
        (case Option.bind (as_map entry) (\<lambda>obj. map_of obj ''result'') of
           Some result \<Rightarrow> Inr result | None \<Rightarrow> Inr entry)
      else if mode = ''entry'' then Inr entry
      else if mode = ''outputs'' then field_of entry ''outputs'' ''outputs''
      else if mode = ''item'' then field_of entry ''item'' ''item''
      else Inl (Plain (''collect mode '' @ go_quote mode @ '' is not supported'')))"

definition fence :: string where "fence = [CHR 0x60, CHR 0x60, CHR 0x60]"

definition strip_fence :: "string \<Rightarrow> string" where
  "strip_fence trimmed =
     (if \<not> has_prefix trimmed fence then trimmed
      else (let t = trim_space (trim_prefix trimmed fence);
                t = (if has_prefix (to_lower t) ''json'' then trim_space (drop 4 t) else t)
            in case last_index_of t fence of Some idx \<Rightarrow> trim_space (take idx t) | None \<Rightarrow> t))"

definition parseStructuredJSON :: "(string \<Rightarrow> string + gvalue) \<Rightarrow> string \<Rightarrow> go_error + gvalue" where
  "parseStructuredJSON unmarshal raw =
     (let trimmed = trim_space raw in
      if trimmed = [] then Inl (Plain ''empty response'')
      else map_sum Plain id (unmarshal (strip_fence trimmed)))"

definition summarizeShouldParseStructured :: "string \<Rightarrow> State \<Rightarrow> bool" where
  "summarizeShouldParseStructured schemaRef st =
     (let ref = trim_space schemaRef in
      if ref = [] then False
      else (case Option.bind (map_of (ss_Schemas st) ref) as_map of
              None \<Rightarrow> False
            | Some schema \<Rightarrow>
                (let typeName = trim_space (get_string schema ''type'') in
                 if typeName = [] then map_of schema ''required'' \<noteq> None \<or> map_of schema ''properties'' \<noteq> None
                 else typeName \<noteq> ''string'')))"

definition outputPresent :: "gvalue \<Rightarrow> bool" where
  "outputPresent v = (v \<noteq> GNil \<and> (case as_string v of Some s \<Rightarrow> trim_space s \<noteq> [] | None \<Rightarrow> True))"

subsection \<open>Output checks\<close>

definition schema_error :: "string \<Rightarrow> string \<Rightarrow> go_error" where
  "schema_error protocolID msg = WfError CodeSchemaValidation protocolID msg None"

definition validateOutputAgainstSchemaRef :: "string \<Rightarrow> string \<Rightarrow> gvalue \<Rightarrow> State \<Rightarrow> go_error option" where
  "validateOutputAgainstSchemaRef protocolID schemaRef output st =
     (let ref = trim_space schemaRef in
      if ref = [] then None
      else if length (ss_Schemas st) = 0
      then Some (schema_error protocolID (''output schema ref '' @ ref @ '' not available in execution context''))
      else (case map_of (ss_Schemas st) ref of
              None \<Rightarrow> Some (schema_error protocolID (''output schema ref '' @ ref @ '' not found''))
            | Some schemaAny \<Rightarrow>
                (case as_map schemaAny of
                   None \<Rightarrow> Some (schema_error protocolID (''output schema '' @ ref @ '' is not an object''))
                 | Some schema \<Rightarrow>
                     (let typeName = get_string schema ''type'' in
                      if typeName \<noteq> [] \<and> \<not> matchesJSONSchemaType typeName output
                      then Some (schema_error protocolID (''step output has wrong type; expected '' @ typeName))
                      else if typeName = ''object'' \<or>
                        typeName = [] \<and> (map_of schema ''required'' \<noteq> None \<or> map_of schema ''properties'' \<noteq> None)
                      then (case as_map output of
                              None \<Rightarrow> Some (schema_error protocolID ''step output must be an object'')
                            | Some payload \<Rightarrow>
                                map_option (schema_error protocolID) (validatePayloadAgainstSchema schema payload))
                      else None))))"

definition validateStepOutputSchema :: "string \<Rightarrow> StepFields \<Rightarrow> gvalue \<Rightarrow> State \<Rightarrow> go_error option" where
  "validateStepOutputSchema protocolID f output st =
     validateOutputAgainstSchemaRef protocolID (sf_OutputSchemaRef f) output st"

definition validateStepMaxOutputItems :: "string \<Rightarrow> StepFields \<Rightarrow> gvalue \<Rightarrow> go_error option" where
  "validateStepMaxOutputItems protocolID f output =
     (if sf_MaxOutputItems f \<le> 0 then None
      else (case asOptionalInterfaceSlice output of
              None \<Rightarrow> None
            | Some items \<Rightarrow>
                if int (length items) \<le> sf_MaxOutputItems f then None
                else Some (schema_error protocolID
                  (''step output item count '' @ itoa (int (length items)) @
                   '' exceeds maxOutputItems '' @ itoa (sf_MaxOutputItems f)))))"

subsection \<open>Steps\<close>

definition set_value :: "string \<Rightarrow> gvalue \<Rightarrow> State \<Rightarrow> State" where
  "set_value k v st = st\<lparr>ss_Values := AList.update k v (ss_Values st)\<rparr>"

definition step_fails :: "string \<Rightarrow> State \<Rightarrow> 'w \<Rightarrow> 'w step_result option" where
  "step_fails msg st w = Some (Inl (Plain msg), 0, st, w)"

text \<open>\<open>interpolated what v st w k\<close> interpolates \<open>v\<close>, fails with \<^verbatim>\<open>interpolate WHAT: ...\<close>, and else goes on
  with the value.\<close>

definition interpolated ::
    "string \<Rightarrow> gvalue \<Rightarrow> State \<Rightarrow> 'w \<Rightarrow> (gvalue \<Rightarrow> 'w step_result option) \<Rightarrow> 'w step_result option"
where
  "interpolated what v st w k = (case interpolateValue v st of
       None \<Rightarrow> None
     | Some (Inl e) \<Rightarrow> Some (Inl (Wrap (''interpolate '' @ what) e), 0, st, w)
     | Some (Inr x) \<Rightarrow> k x)"

definition runParseInput :: "State \<Rightarrow> 'w \<Rightarrow> 'w step_result option" where
  "runParseInput st w =
     Some (Inr (GMap (cloneMap (ss_Input st))), 0, set_value ''parsed_input'' (GMap (cloneMap (ss_Input st))) st, w)"

definition dispatch :: "'w Runtime \<Rightarrow> string \<Rightarrow> gmap \<Rightarrow> State \<Rightarrow> 'w \<Rightarrow> 'w step_result option" where
  "dispatch rt name args st w =
     (let (r, w') = rt_DispatchTool rt workflowCaller (ss_SenderMXID st) name args w
      in Some (map_sum id GStr r, 1, st, w'))"

definition runTool :: "'w Runtime \<Rightarrow> StepFields \<Rightarrow> State \<Rightarrow> 'w \<Rightarrow> 'w step_result option" where
  "runTool rt f st w =
     (let toolName = trim_space (sf_Tool f) in
      if toolName = [] then step_fails ''workflow tool step requires tool'' st w
      else interpolated ''tool args'' (GMap (sf_ArgsTemplate f)) st w (\<lambda>argsAny.
        case as_map argsAny of
          None \<Rightarrow> step_fails ''tool args template must resolve to an object'' st w
        | Some args \<Rightarrow> dispatch rt toolName args st w))"

definition nonblank_string :: "gvalue \<Rightarrow> string option" where
  "nonblank_string v = (case as_string v of None \<Rightarrow> None | Some s \<Rightarrow> if trim_space s = [] then None else Some s)"

definition json_suffix :: string where
  "json_suffix = [CHR 0x0A, CHR 0x0A] @
     ''Return ONLY valid JSON. Do not include markdown, code fences, comments, or additional text.''"

definition structured :: "'w Runtime \<Rightarrow> string \<Rightarrow> string \<Rightarrow> State \<Rightarrow> 'w \<Rightarrow> 'w step_result option" where
  "structured rt what raw st w =
     Some (map_sum (Wrap (what @ '' step expected JSON output'')) id (parseStructuredJSON (rt_Unmarshal rt) raw), 0, st, w)"

definition runSummarize :: "'w Runtime \<Rightarrow> StepFields \<Rightarrow> State \<Rightarrow> 'w \<Rightarrow> 'w step_result option" where
  "runSummarize rt f st w =
     interpolated ''summarize prompt'' (GStr (sf_Prompt f)) st w (\<lambda>promptAny.
       case nonblank_string promptAny of
         None \<Rightarrow> step_fails ''summarize step requires non-empty prompt'' st w
       | Some p \<Rightarrow>
           (let parse = summarizeShouldParseStructured (sf_OutputSchemaRef f) st;
                prompt = (if parse then p @ json_suffix else p);
                (r, w') = rt_Summarize rt prompt st w
            in case r of
                 Inl e \<Rightarrow> Some (Inl e, 0, st, w')
               | Inr result \<Rightarrow>
                   if parse then structured rt ''summarize'' result st w' else Some (Inr (GStr result), 0, st, w')))"

definition runPlan :: "'w Runtime \<Rightarrow> StepFields \<Rightarrow> State \<Rightarrow> 'w \<Rightarrow> 'w step_result option" where
  "runPlan rt f st w =
     (if trim_space (sf_OutputSchemaRef f) = [] then step_fails ''plan step requires outputSchemaRef'' st w
      else interpolated ''plan prompt'' (GStr (sf_Prompt f)) st w (\<lambda>promptAny.
        case nonblank_string promptAny of
          None \<Rightarrow> step_fails ''plan step requires non-empty prompt'' st w
        | Some prompt \<Rightarrow>
            (let (r, w') = rt_Summarize rt prompt st w
             in case r of
                  Inl e \<Rightarrow> Some (Inl e, 0, st, w')
                | Inr raw \<Rightarrow> structured rt ''plan'' raw st w')))"

definition runSendMessage :: "'w Runtime \<Rightarrow> StepFields \<Rightarrow> State \<Rightarrow> 'w \<Rightarrow> 'w step_result option" where
  "runSendMessage rt f st w =
     interpolated ''send_message target'' (GStr (sf_TargetAlias f)) st w (\<lambda>targetAny.
       case nonblank_string targetAny of
         None \<Rightarrow> step_fails ''send_message step requires targetAlias'' st w
       | Some target \<Rightarrow>
           interpolated ''send_message payload'' (GStr (sf_PayloadTemplate f)) st w (\<lambda>msgAny.
             case nonblank_string msgAny of
               None \<Rightarrow> step_fails ''send_message step requires payloadTemplate'' st w
             | Some message \<Rightarrow>
                 dispatch rt ''matrix.send_message''
                   [(''target'', GStr target), (''message'', GStr message)] st w))"

text \<open>The tokens \<^verbatim>\<open>{{state}}\<close> and \<^verbatim>\<open>{{steps}}\<close> resolve to the run's own maps, by reference: storing one puts a map
  inside itself, and the next \<^verbatim>\<open>%v\<close> of it never ends.\<close>

definition live_token :: "string \<Rightarrow> bool" where
  "live_token raw \<longleftrightarrow> singleTemplateToken raw \<in> {Some ''state'', Some ''steps''}"

definition runPersist :: "StepFields \<Rightarrow> State \<Rightarrow> 'w \<Rightarrow> 'w step_result option" where
  "runPersist f st w =
     (if trim_space (sf_PersistKey f) = [] then step_fails ''persist step requires persistKey'' st w
      else if live_token (sf_PersistValue f) then None
      else interpolated ''persist value'' (GStr (sf_PersistValue f)) st w (\<lambda>v.
        Some (Inr v, 0, set_value (sf_PersistKey f) v st, w)))"

fun collect_entries :: "string \<Rightarrow> bool \<Rightarrow> gvalue list \<Rightarrow> go_error + gvalue list" where
  "collect_entries mode flatten [] = Inr []"
| "collect_entries mode flatten (entry # entries) = (case selectCollectValue entry mode of
       Inl e \<Rightarrow> Inl e
     | Inr selected \<Rightarrow>
         (let found =
            (if \<not> outputPresent selected then []
             else if flatten then (case asOptionalInterfaceSlice selected of Some flat \<Rightarrow> flat | None \<Rightarrow> [selected])
             else [selected])
          in map_sum id (\<lambda>rest. found @ rest) (collect_entries mode flatten entries)))"

definition runCollect :: "StepFields \<Rightarrow> State \<Rightarrow> 'w \<Rightarrow> 'w step_result option" where
  "runCollect f st w =
     (let collectFrom = trim_space (sf_CollectFrom f);
          mode = trim_space (sf_CollectMode f);
          collectMode = (if mode = [] then ''result'' else mode)
      in if collectFrom = [] then step_fails ''collect step requires collectFrom'' st w
         else interpolated ''collect source'' (GStr collectFrom) st w (\<lambda>sourceAny.
           case asInterfaceSlice sourceAny of
             Inl e \<Rightarrow> Some (Inl (Wrap ''collect source must resolve to an array'' e), 0, st, w)
           | Inr source \<Rightarrow>
               Some (map_sum id GList (collect_entries collectMode (sf_CollectFlatten f) source), 0, st, w)))"

subsection \<open>Loops over items\<close>

text \<open>\<^verbatim>\<open>float64(i)\<close> for a small integer.\<close>

fun float_of_nat :: "nat \<Rightarrow> int \<Rightarrow> gofloat" where
  "float_of_nat m e = (if m \<noteq> 0 \<and> m mod 10 = 0 then float_of_nat (m div 10) (e + 1) else Dec (int m) e)"

declare float_of_nat.simps [simp del]

definition iteration_error :: "nat \<Rightarrow> string \<Rightarrow> go_error \<Rightarrow> go_error" where
  "iteration_error i what e = Wrap (''for_each iteration '' @ itoa (int i) @ what) e"

definition nested_error :: "nat \<Rightarrow> nat \<Rightarrow> WorkflowProtocolStep \<Rightarrow> string \<Rightarrow> go_error \<Rightarrow> go_error" where
  "nested_error i k s what e = iteration_error i
     ('' nested step '' @ itoa (int k) @ '' ('' @ sf_Type (step_fields s) @ '')'' @ what) e"

type_synonym 'w body_result = "(go_error + gmap \<times> gvalue) \<times> int \<times> State \<times> 'w"

text \<open>The two output checks that follow a step.\<close>

definition output_error :: "string \<Rightarrow> StepFields \<Rightarrow> gvalue \<Rightarrow> State \<Rightarrow> go_error option" where
  "output_error protocolID f v st = first_of
     [validateStepOutputSchema protocolID f v st, validateStepMaxOutputItems protocolID f v]"

definition bind_item :: "string \<Rightarrow> nat \<Rightarrow> gvalue \<Rightarrow> State \<Rightarrow> State" where
  "bind_item itemVar i item st =
     set_value (itemVar @ ''_index'') (GFloat (float_of_nat i 0)) (set_value itemVar item st)"

definition iteration_contract :: "nat \<Rightarrow> gvalue \<Rightarrow> gmap \<Rightarrow> gvalue \<Rightarrow> gvalue" where
  "iteration_contract i item outputs final =
     GMap [(''index'', GInt (int i)), (''item'', item), (''outputs'', GMap outputs), (''result'', final)]"

text \<open>The loop of \<^verbatim>\<open>for_each\<close> over the items, given what the nested steps do in one iteration
  (the outputs, and the last output that is present).\<close>

fun forEachItems ::
    "string \<Rightarrow> StepFields \<Rightarrow> string \<Rightarrow> (nat \<Rightarrow> State \<Rightarrow> 'w \<Rightarrow> 'w body_result option) \<Rightarrow>
     nat \<Rightarrow> gvalue list \<Rightarrow> gvalue list \<Rightarrow> int \<Rightarrow> State \<Rightarrow> 'w \<Rightarrow> 'w step_result option"
where
  "forEachItems pid f itemVar body i [] results calls st w = Some (Inr (GList results), calls, st, w)"
| "forEachItems pid f itemVar body i (item # items) results calls st w =
     (case body i (bind_item itemVar i item st) w of
        None \<Rightarrow> None
      | Some (Inl e, n, st', w') \<Rightarrow> Some (Inl e, calls + n, st', w')
      | Some (Inr (outputs, final), n, st', w') \<Rightarrow>
          (let contract = iteration_contract i item outputs final
           in case validateOutputAgainstSchemaRef pid (sf_ForEachResultSchemaRef f) final st' of
                Some e \<Rightarrow> Some (Inl (iteration_error i '' result schema validation failed'' e), calls + n, st', w')
              | None \<Rightarrow>
                  (case validateOutputAgainstSchemaRef pid (sf_ForEachIterationSchemaRef f) contract st' of
                     Some e \<Rightarrow> Some (Inl (iteration_error i '' contract schema validation failed'' e), calls + n, st', w')
                   | None \<Rightarrow> forEachItems pid f itemVar body (Suc i) items (results @ [contract]) (calls + n) st' w')))"

definition restore_value :: "string \<Rightarrow> gvalue option \<Rightarrow> State \<Rightarrow> State" where
  "restore_value k old st = (case old of
       Some v \<Rightarrow> set_value k v st
     | None \<Rightarrow> st\<lparr>ss_Values := AList.delete k (ss_Values st)\<rparr>)"

definition item_var :: "StepFields \<Rightarrow> string" where
  "item_var f = (let v = trim_space (sf_ItemVar f) in if v = [] then ''item'' else v)"

definition max_iterations :: "StepFields \<Rightarrow> int" where
  "max_iterations f = (if sf_MaxIterations f \<le> 0 then defaultForEachMaxIterations else sf_MaxIterations f)"

definition runForEach ::
    "string \<Rightarrow> StepFields \<Rightarrow> nat \<Rightarrow> (nat \<Rightarrow> State \<Rightarrow> 'w \<Rightarrow> 'w body_result option) \<Rightarrow> State \<Rightarrow> 'w \<Rightarrow> 'w step_result option"
where
  "runForEach pid f nsteps body st w =
     (let itemsExpr = trim_space (sf_ItemsExpr f) in
      if itemsExpr = [] then step_fails ''for_each step requires itemsExpr'' st w
      else interpolated ''for_each itemsExpr'' (GStr itemsExpr) st w (\<lambda>itemsAny.
        case asInterfaceSlice itemsAny of
          Inl e \<Rightarrow> Some (Inl (Wrap ''for_each itemsExpr must resolve to an array'' e), 0, st, w)
        | Inr items \<Rightarrow>
            if nsteps = 0 then step_fails ''for_each step requires nested steps'' st w
            else (let itemVar = item_var f; indexVar = itemVar @ ''_index''
                  in map_option (\<lambda>(r, n, st', w').
                      (r, n, restore_value indexVar (map_of (ss_Values st) indexVar)
                        (restore_value itemVar (map_of (ss_Values st) itemVar) st'), w'))
                    (forEachItems pid f itemVar body 0 (take (nat (max_iterations f)) items) [] 0 st w))))"

subsection \<open>The step interpreter\<close>

fun runStep :: "'w Runtime \<Rightarrow> string \<Rightarrow> WorkflowProtocolStep \<Rightarrow> State \<Rightarrow> 'w \<Rightarrow> 'w step_result option"
and runNested ::
    "'w Runtime \<Rightarrow> string \<Rightarrow> nat \<Rightarrow> nat \<Rightarrow> WorkflowProtocolStep list \<Rightarrow> gmap \<Rightarrow> gvalue \<Rightarrow> int \<Rightarrow> State \<Rightarrow> 'w \<Rightarrow>
     'w body_result option"
where
  "runStep rt pid (Step f steps) st w =
     (let ty = trim_space (sf_Type f) in
      if ty = ''parse_input'' then runParseInput st w
      else if ty = ''tool'' then runTool rt f st w
      else if ty = ''summarize'' then runSummarize rt f st w
      else if ty = ''plan'' then runPlan rt f st w
      else if ty = ''send_message'' then runSendMessage rt f st w
      else if ty = ''persist'' then runPersist f st w
      else if ty = ''for_each'' then
        runForEach pid f (length steps) (\<lambda>i. runNested rt pid i 0 steps [] GNil 0) st w
      else if ty = ''collect'' then runCollect f st w
      else if ty = ''branch'' then step_fails ''branch steps are not implemented yet'' st w
      else step_fails (''unsupported workflow step type '' @ go_quote (sf_Type f)) st w)"
| "runNested rt pid i k [] outputs final calls st w = Some (Inr (outputs, final), calls, st, w)"
| "runNested rt pid i k (s # steps) outputs final calls st w =
     (case runStep rt pid s st w of
        None \<Rightarrow> None
      | Some (Inl e, n, st', w') \<Rightarrow> Some (Inl (nested_error i k s '' failed'' e), calls + n, st', w')
      | Some (Inr v, n, st', w') \<Rightarrow>
          (case validateStepOutputSchema pid (step_fields s) v st' of
             Some e \<Rightarrow> Some (Inl (nested_error i k s '' output validation failed'' e), calls + n, st', w')
           | None \<Rightarrow>
               (case validateStepMaxOutputItems pid (step_fields s) v of
                  Some e \<Rightarrow> Some (Inl (nested_error i k s '' output cardinality failed'' e), calls + n, st', w')
                | None \<Rightarrow>
                    runNested rt pid i (Suc k) steps (AList.update (stepPrefix @ itoa (int k)) v outputs)
                      (if outputPresent v then v else final) (calls + n) st' w')))"

subsection \<open>Runs\<close>

text \<open>The variables that the retried closure of \<^verbatim>\<open>Run\<close> assigns: state, world, \<^verbatim>\<open>stepResult\<close>, \<^verbatim>\<open>stepToolCalls\<close>
  and \<^verbatim>\<open>toolCalls\<close>.\<close>

record 'w Attempt =
  at_State :: State
  at_World :: 'w
  at_StepResult :: gvalue
  at_StepToolCalls :: int
  at_ToolCalls :: int

definition attempt ::
    "'w Runtime \<Rightarrow> string \<Rightarrow> WorkflowProtocolStep \<Rightarrow> 'w Attempt \<Rightarrow> (go_error option \<times> 'w Attempt) option"
where
  "attempt rt pid s a = (case runStep rt pid s (at_State a) (at_World a) of
       None \<Rightarrow> None
     | Some (r, callCount, st, w) \<Rightarrow>
         (let a' = a\<lparr>at_State := st, at_World := w\<rparr> in
          case r of
            Inl e \<Rightarrow> Some (Some e, a')
          | Inr v \<Rightarrow>
              (case output_error pid (step_fields s) v st of
                 Some e \<Rightarrow> Some (Some e, a')
               | None \<Rightarrow> Some (None, a'\<lparr>at_StepResult := v, at_StepToolCalls := at_StepToolCalls a + callCount,
                                    at_ToolCalls := at_ToolCalls a + callCount\<rparr>))))"

definition step_retries :: "WorkflowProtocol \<Rightarrow> WorkflowProtocolStep \<Rightarrow> int" where
  "step_retries protocol s =
     (if 0 < sf_Retries (step_fields s) then sf_Retries (step_fields s) else wp_Retries protocol)"

definition ms_between :: "gotime \<Rightarrow> gotime \<Rightarrow> int" where
  "ms_between a b = sgn (b - a) * (\<bar>b - a\<bar> div millisecond)"

definition step_key :: "nat \<Rightarrow> string" where
  "step_key i = stepPrefix @ itoa (int i)"

definition step_contract ::
    "nat \<Rightarrow> string \<Rightarrow> gotime \<Rightarrow> gotime \<Rightarrow> int \<Rightarrow> int \<Rightarrow> gvalue \<Rightarrow> go_error option \<Rightarrow> gmap"
where
  "step_contract i ty startedAt completedAt calls retries out err =
     (let contract =
        [(''stepKey'', GStr (step_key i)), (''stepIndex'', GInt (int i)), (''stepType'', GStr ty),
         (''startedAt'', GStr (fmt_rfc3339_nano startedAt)), (''completedAt'', GStr (fmt_rfc3339_nano completedAt)),
         (''durationMS'', GInt (ms_between startedAt completedAt)), (''toolCalls'', GInt calls),
         (''retryBudget'', GInt retries), (''status'', GStr ''success''), (''output'', out),
         (''outputPresent'', GBool (outputPresent out))]
      in case err of
           None \<Rightarrow> contract
         | Some e \<Rightarrow> AList.update ''error'' (GStr (error_text e)) (AList.update ''status'' (GStr ''error'') contract))"

definition fail_run :: "nat \<Rightarrow> string \<Rightarrow> gmap \<Rightarrow> gotime \<Rightarrow> int \<Rightarrow> go_error \<Rightarrow> State \<Rightarrow> State" where
  "fail_run i key contract completedAt toolCalls e st =
     st\<lparr>ss_StepOutputs := AList.update key contract (ss_StepOutputs st),
        ss_Trace := (ss_Trace st)\<lparr>
          tm_CompletedAt := completedAt, tm_DurationMS := ms_between (tm_StartedAt (ss_Trace st)) completedAt,
          tm_Status := ''error'', tm_Error := error_text e, tm_ToolCalls := toolCalls,
          tm_StepsCompleted := int i\<rparr>\<rparr>"

definition step_failure :: "nat \<Rightarrow> string \<Rightarrow> go_error \<Rightarrow> go_error" where
  "step_failure i ty e = Wrap (''workflow step '' @ itoa (int i) @ '' ('' @ ty @ '') failed'') e"

definition pass_step :: "nat \<Rightarrow> string \<Rightarrow> string \<Rightarrow> gmap \<Rightarrow> gvalue \<Rightarrow> State \<Rightarrow> State" where
  "pass_step i key ty contract v st =
     (let st = st\<lparr>ss_StepOutputs := AList.update key contract (ss_StepOutputs st)\<rparr>;
          st = (if outputPresent v
                then (set_value key v st)\<lparr>ss_FinalOutput := sprint_v v,
                  ss_Final := \<lparr>fo_StepKey = key, fo_StepIndex = int i, fo_StepType = ty, fo_Value = v\<rparr>\<rparr>
                else st)
      in st\<lparr>ss_Trace := (ss_Trace st)\<lparr>tm_StepsCompleted := int i + 1\<rparr>\<rparr>)"

text \<open>What \<^verbatim>\<open>Run\<close> returns: the error or the final output, the tool calls, and the state and world.\<close>

type_synonym 'w run_result = "(go_error + string) \<times> int \<times> State \<times> 'w"

fun runSteps ::
    "'w Runtime \<Rightarrow> WorkflowProtocol \<Rightarrow> nat \<Rightarrow> WorkflowProtocolStep list \<Rightarrow> int \<Rightarrow> State \<Rightarrow> 'w \<Rightarrow> 'w run_result option"
where
  "runSteps rt protocol i [] toolCalls st w =
     (let (completedAt, w') = rt_Now rt w;
          st' = st\<lparr>ss_Trace := (ss_Trace st)\<lparr>
            tm_CompletedAt := completedAt, tm_DurationMS := ms_between (tm_StartedAt (ss_Trace st)) completedAt,
            tm_Status := ''success'', tm_ToolCalls := toolCalls\<rparr>\<rparr>
      in Some (Inr (ss_FinalOutput st'), toolCalls, st', w'))"
| "runSteps rt protocol i (s # steps) toolCalls st w =
     (let (startedAt, w1) = rt_Now rt w;
          retries = step_retries protocol s;
          ty = sf_Type (step_fields s)
      in case RunStepWithRetryThenRefuse (wp_ID protocol) ty retries (Some (attempt rt (wp_ID protocol) s))
           \<lparr>at_State = st, at_World = w1, at_StepResult = GNil, at_StepToolCalls = 0, at_ToolCalls = toolCalls\<rparr> of
           None \<Rightarrow> None
         | Some (err, a) \<Rightarrow>
             (let (completedAt, w2) = rt_Now rt (at_World a);
                  contract = step_contract i ty startedAt completedAt (at_StepToolCalls a) retries (at_StepResult a) err
              in case err of
                   Some e \<Rightarrow>
                     Some (Inl (step_failure i ty e), at_ToolCalls a,
                       fail_run i (step_key i) contract completedAt (at_ToolCalls a) e (at_State a), w2)
                 | None \<Rightarrow>
                     runSteps rt protocol (Suc i) steps (at_ToolCalls a)
                       (pass_step i (step_key i) ty contract (at_StepResult a) (at_State a)) w2))"

definition start_trace :: "gotime \<Rightarrow> WorkflowProtocol \<Rightarrow> State \<Rightarrow> State" where
  "start_trace startedAt protocol st = st\<lparr>ss_Trace := (ss_Trace st)\<lparr>
     tm_StartedAt := startedAt, tm_Status := ''running'', tm_ProtocolID := wp_ID protocol,
     tm_StepsTotal := int (length (wp_Steps protocol)), tm_StepsCompleted := 0\<rparr>\<rparr>"

definition Run :: "'w Runtime option \<Rightarrow> WorkflowProtocol \<Rightarrow> State option \<Rightarrow> 'w \<Rightarrow> 'w run_result option" where
  "Run rt protocol state w =
     (let st = (case state of None \<Rightarrow> zero_State | Some s \<Rightarrow> s) in
      case rt of
        None \<Rightarrow> Some (Inl (Plain ''workflow runner dispatcher is not configured''), 0, st, w)
      | Some d \<Rightarrow>
          (let (startedAt, w') = (if is_zero_time (tm_StartedAt (ss_Trace st)) then rt_Now d w
                                  else (tm_StartedAt (ss_Trace st), w))
           in runSteps d protocol 0 (wp_Steps protocol) 0 (start_trace startedAt protocol st) w'))"

definition ExecuteProtocol ::
    "'w Runtime option option \<Rightarrow> ('w \<Rightarrow> gotime \<times> 'w) \<Rightarrow> WorkflowProtocol \<Rightarrow> ExecutionContext option \<Rightarrow> 'w \<Rightarrow>
     'w run_result option"
where
  "ExecuteProtocol engine clock protocol execCtx w = (case engine of
       None \<Rightarrow> Some (Inl (Plain ''workflow engine is not configured''), 0, zero_State, w)
     | Some rt \<Rightarrow>
         (let (now, w') = (if execCtx = None then (0, w) else clock w)
          in Run rt protocol (Some (NewStateFromExecutionContext now execCtx)) w'))"

subsection \<open>What a step can do to the state and the world\<close>

lemma forEachItems_step:
  assumes "forEachItems pid f itemVar body i (item # items) results calls st w = Some (r, n, st', w')"
  shows "\<exists>b m st1 w1. body i (bind_item itemVar i item st) w = Some (b, m, st1, w1) \<and>
    (calls + m = n \<and> st1 = st' \<and> w1 = w' \<or>
     (\<exists>results'. forEachItems pid f itemVar body (Suc i) items results' (calls + m) st1 w1 = Some (r, n, st', w')))"
proof (cases "body i (bind_item itemVar i item st) w")
  case (Some t)
  obtain b m st1 w1 where t: "t = (b, m, st1, w1)" by (cases t)
  with assms Some show ?thesis
    by (cases b) (simp_all add: Let_def split: option.splits prod.splits, blast+)
qed (use assms in simp)

lemma runNested_step:
  assumes "runNested rt pid i k (s # ss) outputs final calls st w = Some (b, n, st', w')"
  shows "\<exists>r m st1 w1. runStep rt pid s st w = Some (r, m, st1, w1) \<and>
    (calls + m = n \<and> st1 = st' \<and> w1 = w' \<or> (\<exists>outputs' final'.
      runNested rt pid i (Suc k) ss outputs' final' (calls + m) st1 w1 = Some (b, n, st', w')))"
proof (cases "runStep rt pid s st w")
  case (Some t)
  obtain r m st1 w1 where t: "t = (r, m, st1, w1)" by (cases t)
  with assms Some show ?thesis
    by (cases r) (simp_all split: option.splits, blast+)
qed (use assms in simp)

text \<open>
  A relation between what is before and behind a step, indexed by the number of tool calls made,
  holds for every step as soon as it holds for the primitive effects: nothing, a change of the
  values, a tool call for the sender of the run, a call of the language model.
\<close>

locale step_relation =
  fixes rt :: "'w Runtime"
    and R :: "int \<Rightarrow> State \<Rightarrow> 'w \<Rightarrow> State \<Rightarrow> 'w \<Rightarrow> bool"
  assumes trans: "R m st w st' w' \<Longrightarrow> R n st' w' st'' w'' \<Longrightarrow> R (m + n) st w st'' w''"
    and write_values: "R 0 st w (st\<lparr>ss_Values := vs\<rparr>) w"
    and dispatch_tool: "R 1 st w st (snd (rt_DispatchTool rt workflowCaller (ss_SenderMXID st) name args w))"
    and summarize: "R 0 st w st (snd (rt_Summarize rt prompt st w))"
begin

lemma refl: "R 0 st w st w"
  using write_values [of st w "ss_Values st"] by simp

lemma values_then: "R n (st\<lparr>ss_Values := m\<rparr>) w st' w' \<Longrightarrow> R n st w st' w'"
  using trans [OF write_values] by simp

lemma then_values: "R n st w st' w' \<Longrightarrow> R n st w (st'\<lparr>ss_Values := m\<rparr>) w'"
  using trans [OF _ write_values] by simp

lemma interpolated_R:
  assumes "interpolated what v st w k = Some (r, n, st', w')"
    and "\<And>x. k x = Some (r, n, st', w') \<Longrightarrow> R n st w st' w'"
  shows "R n st w st' w'"
  using assms by (auto simp: interpolated_def refl split: option.splits sum.splits)

lemma dispatch_R: "dispatch rt name args st w = Some (r, n, st', w') \<Longrightarrow> R n st w st' w'"
  using dispatch_tool [of st w name args] by (auto simp: dispatch_def split: prod.splits)

lemma simple_R:
  "step_fails msg st w = Some (r, n, st', w') \<Longrightarrow> R n st w st' w'"
  "runParseInput st w = Some (r, n, st', w') \<Longrightarrow> R n st w st' w'"
  "structured rt what raw st w = Some (r, n, st', w') \<Longrightarrow> R n st w st' w'"
  by (auto simp: step_fails_def runParseInput_def structured_def set_value_def refl write_values)

lemma summarize_then:
  "rt_Summarize rt p st w = (a, w1) \<Longrightarrow> R n st w1 st' w' \<Longrightarrow> R n st w st' w'"
  using trans [OF summarize [of st w p]] by simp

lemma runTool_R: "runTool rt f st w = Some (r, n, st', w') \<Longrightarrow> R n st w st' w'"
  by (auto simp: runTool_def Let_def simple_R dispatch_R split: if_splits option.splits elim!: interpolated_R)

lemma runSummarize_R: "runSummarize rt f st w = Some (r, n, st', w') \<Longrightarrow> R n st w st' w'"
  unfolding runSummarize_def Let_def
  by (erule interpolated_R)
    (auto simp: simple_R refl split: if_splits option.splits prod.splits sum.splits
      elim!: summarize_then simple_R(3))

lemma runPlan_R: "runPlan rt f st w = Some (r, n, st', w') \<Longrightarrow> R n st w st' w'"
  by (auto simp: runPlan_def Let_def simple_R refl
      split: if_splits option.splits prod.splits sum.splits elim!: interpolated_R summarize_then simple_R(3))

lemma runSendMessage_R: "runSendMessage rt f st w = Some (r, n, st', w') \<Longrightarrow> R n st w st' w'"
  by (auto simp: runSendMessage_def simple_R dispatch_R split: option.splits elim!: interpolated_R)

lemma runPersist_R: "runPersist f st w = Some (r, n, st', w') \<Longrightarrow> R n st w st' w'"
  by (auto simp: runPersist_def simple_R set_value_def write_values split: if_splits elim!: interpolated_R)

lemma runCollect_R: "runCollect f st w = Some (r, n, st', w') \<Longrightarrow> R n st w st' w'"
  by (auto simp: runCollect_def Let_def simple_R refl split: if_splits sum.splits elim!: interpolated_R)

lemma then_restore: "R n st w st' w' \<Longrightarrow> R n st w (restore_value k old st') w'"
  by (simp add: restore_value_def set_value_def then_values split: option.split)

lemma bind_item_then: "R n (bind_item v i x st) w st' w' \<Longrightarrow> R n st w st' w'"
  by (simp add: bind_item_def set_value_def) (erule values_then)

lemma forEachItems_R:
  assumes body: "\<And>i st w r n st' w'. body i st w = Some (r, n, st', w') \<Longrightarrow> R n st w st' w'"
    and "forEachItems pid f itemVar body i items results calls st w = Some (r, n, st', w')"
  shows "R (n - calls) st w st' w'"
  using assms(2)
proof (induction items arbitrary: i results calls st w)
  case (Cons item items)
  from forEachItems_step [OF Cons.prems] obtain b m st1 w1 where
    b: "body i (bind_item itemVar i item st) w = Some (b, m, st1, w1)" and
    rest: "calls + m = n \<and> st1 = st' \<and> w1 = w' \<or>
      (\<exists>results'. forEachItems pid f itemVar body (Suc i) items results' (calls + m) st1 w1 = Some (r, n, st', w'))"
    by blast
  have first: "R m st w st1 w1"
    using body [OF b] by (rule bind_item_then)
  from rest show ?case
  proof
    assume "calls + m = n \<and> st1 = st' \<and> w1 = w'"
    with first show ?thesis by auto
  next
    assume "\<exists>results'. forEachItems pid f itemVar body (Suc i) items results' (calls + m) st1 w1 = Some (r, n, st', w')"
    then have "R (n - (calls + m)) st1 w1 st' w'" using Cons.IH by blast
    from trans [OF first this] show ?thesis by simp
  qed
qed (auto simp: refl)

lemma runForEach_R:
  assumes body: "\<And>i st w r n st' w'. body i st w = Some (r, n, st', w') \<Longrightarrow> R n st w st' w'"
    and "runForEach pid f k body st w = Some (r, n, st', w')"
  shows "R n st w st' w'"
proof -
  have items: "forEachItems pid f v body 0 items [] 0 st w = Some (r, n, a, w') \<Longrightarrow> R n st w a w'" for v items a
    using forEachItems_R [of body, OF body] by fastforce
  from assms(2) show ?thesis unfolding runForEach_def Let_def
    by (auto simp: simple_R refl split: if_splits sum.splits elim!: interpolated_R
        intro!: then_restore dest!: items)
qed

lemma runStep_R:
  "runStep rt pid s st w = Some (r, n, st', w') \<Longrightarrow> R n st w st' w'"
proof (induction s arbitrary: st w r n st' w')
  case (Step f steps)
  have "runNested rt pid i k ss outputs final calls st w = Some (b, n, st', w') \<Longrightarrow> set ss \<subseteq> set steps \<Longrightarrow>
      R (n - calls) st w st' w'" for i k ss outputs final calls st w b n st' w'
  proof (induction ss arbitrary: k outputs final calls st w)
    case (Cons s ss)
    from runNested_step [OF Cons.prems(1)] obtain r m st1 w1 where
      s: "runStep rt pid s st w = Some (r, m, st1, w1)" and
      rest: "calls + m = n \<and> st1 = st' \<and> w1 = w' \<or> (\<exists>outputs' final'.
        runNested rt pid i (Suc k) ss outputs' final' (calls + m) st1 w1 = Some (b, n, st', w'))"
      by blast
    have first: "R m st w st1 w1" using Step.IH [OF _ s] Cons.prems(2) by simp
    from rest show ?case
    proof
      assume "calls + m = n \<and> st1 = st' \<and> w1 = w'"
      with first show ?thesis by auto
    next
      assume "\<exists>outputs' final'. runNested rt pid i (Suc k) ss outputs' final' (calls + m) st1 w1 = Some (b, n, st', w')"
      then have "R (n - (calls + m)) st1 w1 st' w'" using Cons.IH Cons.prems(2) by fastforce
      from trans [OF first this] show ?thesis by simp
    qed
  qed (auto simp: refl)
  from this [where ss = steps and calls = 0 and k = 0 and outputs = "[]" and final = GNil]
  have body: "runNested rt pid i 0 steps [] GNil 0 st w = Some (b, n, st', w') \<Longrightarrow> R n st w st' w'"
    for i st w b n st' w' by simp
  show ?case
    using Step.prems
    by (auto simp: Let_def simple_R runTool_R runSummarize_R runPlan_R runSendMessage_R runPersist_R runCollect_R
        split: if_splits elim!: runForEach_R [rotated] body)
qed

end

text \<open>Steps change nothing of the state but its values.\<close>

definition same_frame :: "State \<Rightarrow> State \<Rightarrow> bool" where
  "same_frame st st' \<longleftrightarrow> st\<lparr>ss_Values := []\<rparr> = st'\<lparr>ss_Values := []\<rparr>"

interpretation frame: step_relation rt "\<lambda>n st w st' w'. same_frame st st'" for rt
  by unfold_locales (simp_all add: same_frame_def)

lemma same_frameD:
  assumes "same_frame st st'"
  shows "ss_SenderMXID st' = ss_SenderMXID st" "ss_Schemas st' = ss_Schemas st" "ss_Input st' = ss_Input st"
    "ss_StepOutputs st' = ss_StepOutputs st" "ss_Trace st' = ss_Trace st"
  using assms by (auto simp: same_frame_def elim!: State.ext_inject [THEN iffD1, elim_format]
      dest: arg_cong [where f = ss_SenderMXID] arg_cong [where f = ss_Schemas] arg_cong [where f = ss_Input]
        arg_cong [where f = ss_StepOutputs] arg_cong [where f = ss_Trace])

text \<open>A runtime that also keeps a log of the tool calls.\<close>

record ToolCall =
  tc_Caller :: string
  tc_Sender :: string
  tc_Name :: string
  tc_Args :: gmap

definition logged :: "'w Runtime \<Rightarrow> ('w \<times> ToolCall list) Runtime" where
  "logged rt = \<lparr>
     rt_DispatchTool = (\<lambda>caller sender name args (w, l).
       let (r, w') = rt_DispatchTool rt caller sender name args w
       in (r, w', l @ [\<lparr>tc_Caller = caller, tc_Sender = sender, tc_Name = name, tc_Args = args\<rparr>])),
     rt_Summarize = (\<lambda>prompt st (w, l). let (r, w') = rt_Summarize rt prompt st w in (r, w', l)),
     rt_Now = (\<lambda>(w, l). let (t, w') = rt_Now rt w in (t, w', l)),
     rt_Unmarshal = rt_Unmarshal rt\<rparr>"

definition calls_for :: "string \<Rightarrow> ToolCall list \<Rightarrow> bool" where
  "calls_for sender l \<longleftrightarrow> (\<forall>c \<in> set l. tc_Caller c = workflowCaller \<and> tc_Sender c = sender)"

definition logs :: "int \<Rightarrow> State \<Rightarrow> 'w \<times> ToolCall list \<Rightarrow> State \<Rightarrow> 'w \<times> ToolCall list \<Rightarrow> bool" where
  "logs n st w st' w' \<longleftrightarrow> ss_SenderMXID st' = ss_SenderMXID st \<and>
     (\<exists>l. snd w' = snd w @ l \<and> int (length l) = n \<and> calls_for (ss_SenderMXID st) l)"

interpretation log: step_relation "logged rt" logs for rt
proof
  fix m n st st' st'' and w w' w'' :: "'a \<times> ToolCall list"
  assume "logs m st w st' w'" "logs n st' w' st'' w''"
  then show "logs (m + n) st w st'' w''" by (fastforce simp: logs_def calls_for_def)
qed (auto simp: logs_def logged_def calls_for_def split: prod.splits)

subsection \<open>What a run leaves behind\<close>

lemma retryLoop_rel:
  assumes "\<And>s r s'. run s = Some (r, s') \<Longrightarrow> Q s s'" "\<And>s. Q s s" "\<And>s t u. Q s t \<Longrightarrow> Q t u \<Longrightarrow> Q s u"
    and "retryLoop n run e s = Some (r, s')"
  shows "Q s s'"
  using assms(4)
proof (induction n arbitrary: e s)
  case (Suc n)
  then obtain r1 s1 where "run s = Some (r1, s1)" by (auto split: option.splits)
  with Suc show ?case using assms(1-3) by (fastforce split: option.splits)
qed (use assms(2) in auto)

lemma retry_rel:
  assumes "RunStepWithRetryThenRefuse pid ty n (Some run) s = Some (r, s')"
    and "\<And>s r s'. run s = Some (r, s') \<Longrightarrow> Q s s'" "\<And>s. Q s s" "\<And>s t u. Q s t \<Longrightarrow> Q t u \<Longrightarrow> Q s u"
  shows "Q s s'"
proof -
  from assms(1) obtain r' where "retryLoop (nat (retryAttempts ty n)) run None s = Some (r', s')"
    by (auto simp: RunStepWithRetryThenRefuse_def Let_def split: option.splits if_splits)
  with assms(2-4) show ?thesis by (rule retryLoop_rel)
qed

lemma retryLoop_last:
  "retryLoop n run e s = Some (None, s') \<Longrightarrow> 0 < n \<or> e \<noteq> None \<Longrightarrow> \<exists>t. run t = Some (None, s')"
  by (induction n arbitrary: e s) (auto split: option.splits)

lemma retryAttempts_other: "\<not> isSchemaRetryStep ty \<Longrightarrow> retryAttempts ty n = 1"
  by (simp add: retryAttempts_def)

lemma retry_success:
  "RunStepWithRetryThenRefuse pid ty n (Some run) s = Some (None, s') \<Longrightarrow> \<exists>t. run t = Some (None, s')"
  by (auto simp: RunStepWithRetryThenRefuse_def Let_def retryAttempts_other split: option.splits if_splits
      dest!: retryLoop_last)

lemma output_error_cong: "ss_Schemas st = ss_Schemas st' \<Longrightarrow> output_error pid f v st = output_error pid f v st'"
  by (simp add: output_error_def validateStepOutputSchema_def validateOutputAgainstSchemaRef_def Let_def)

lemma attempt_frame: "attempt rt pid s a = Some (r, a') \<Longrightarrow> same_frame (at_State a) (at_State a')"
  by (auto simp: attempt_def Let_def split: option.splits sum.splits) (rule frame.runStep_R, assumption)+

lemma attempt_output:
  "attempt rt pid s a = Some (None, a') \<Longrightarrow> output_error pid (step_fields s) (at_StepResult a') (at_State a') = None"
  by (auto simp: attempt_def Let_def split: option.splits sum.splits)

lemma attempts_frame:
  assumes "RunStepWithRetryThenRefuse pid ty n (Some (attempt rt pid s)) a = Some (r, a')"
  shows "same_frame (at_State a) (at_State a')"
  using assms by (rule retry_rel [where Q = "\<lambda>a a'. same_frame (at_State a) (at_State a')"])
    (auto simp: attempt_frame, simp_all add: same_frame_def)

text \<open>The record of a step that passed: a contract with status \<^verbatim>\<open>success\<close> whose output satisfies the schema and
  the item bound of the step.\<close>

definition step_passed :: "string \<Rightarrow> State \<Rightarrow> nat \<Rightarrow> WorkflowProtocolStep \<Rightarrow> bool" where
  "step_passed pid st i s \<longleftrightarrow> (\<exists>contract v. map_of (ss_StepOutputs st) (step_key i) = Some contract \<and>
     map_of contract ''status'' = Some (GStr ''success'') \<and> map_of contract ''output'' = Some v \<and>
     output_error pid (step_fields s) v st = None)"

definition step_failed :: "State \<Rightarrow> nat \<Rightarrow> go_error \<Rightarrow> bool" where
  "step_failed st i e \<longleftrightarrow> (\<exists>contract. map_of (ss_StepOutputs st) (step_key i) = Some contract \<and>
     map_of contract ''status'' = Some (GStr ''error'') \<and> map_of contract ''error'' = Some (GStr (error_text e)))"

definition passed_up_to :: "string \<Rightarrow> State \<Rightarrow> nat \<Rightarrow> WorkflowProtocolStep list \<Rightarrow> bool" where
  "passed_up_to pid st i steps \<longleftrightarrow> (\<forall>j < length steps. step_passed pid st (i + j) (steps ! j))"

lemma step_key_inject [simp]: "step_key i = step_key j \<longleftrightarrow> i = j"
proof
  assume "step_key i = step_key j"
  then have "parse_digits 0 (itoa_nat i) = parse_digits 0 (itoa_nat j)"
    by (simp add: step_key_def itoa_def)
  then show "i = j" by (simp add: parse_digits_itoa_0)
qed simp

lemma contract_fields:
  "map_of (step_contract i ty t0 t1 n k v None) ''status'' = Some (GStr ''success'')"
  "map_of (step_contract i ty t0 t1 n k v None) ''output'' = Some v"
  "map_of (step_contract i ty t0 t1 n k v (Some e)) ''status'' = Some (GStr ''error'')"
  "map_of (step_contract i ty t0 t1 n k v (Some e)) ''error'' = Some (GStr (error_text e))"
  by (simp_all add: step_contract_def Let_def)

lemma pass_step_simps [simp]:
  "ss_StepOutputs (pass_step i k ty c v st) = AList.update k c (ss_StepOutputs st)"
  "ss_Schemas (pass_step i k ty c v st) = ss_Schemas st"
  "ss_SenderMXID (pass_step i k ty c v st) = ss_SenderMXID st"
  "ss_Trace (pass_step i k ty c v st) = (ss_Trace st)\<lparr>tm_StepsCompleted := int i + 1\<rparr>"
  by (simp_all add: pass_step_def Let_def set_value_def)

lemma passed_cong:
  assumes "map_of (ss_StepOutputs st) (step_key i) = map_of (ss_StepOutputs st') (step_key i)"
    and "ss_Schemas st = ss_Schemas st'"
  shows "step_passed pid st i s \<longleftrightarrow> step_passed pid st' i s"
  using assms output_error_cong [OF assms(2)] by (simp add: step_passed_def)

lemma all_less_Suc_split: "(\<forall>j < Suc n. P j) \<longleftrightarrow> P 0 \<and> (\<forall>j < n. P (Suc j))"
  by (metis less_Suc_eq_0_disj)

lemma passed_up_to_Cons:
  "passed_up_to pid st i (s # steps) \<longleftrightarrow> step_passed pid st i s \<and> passed_up_to pid st (Suc i) steps"
  by (simp add: passed_up_to_def all_less_Suc_split)

lemma passed_up_to_Nil [simp]: "passed_up_to pid st i []"
  by (simp add: passed_up_to_def)

text \<open>One step of \<^verbatim>\<open>Run\<close>: either the run ends with the record of a failure, or it goes on with the record of a
  success.\<close>

lemma runSteps_Cons:
  assumes "runSteps rt p i (s # steps) tc st w = Some (r, n, st', w')"
  shows "(\<exists>e. r = Inl (step_failure i (sf_Type (step_fields s)) e) \<and> step_failed st' i e \<and>
       ss_Schemas st' = ss_Schemas st \<and> tm_StepsCompleted (ss_Trace st') = int i \<and> tm_Status (ss_Trace st') = ''error'' \<and>
       (\<forall>k. k \<noteq> step_key i \<longrightarrow> map_of (ss_StepOutputs st') k = map_of (ss_StepOutputs st) k)) \<or>
    (\<exists>tc1 st1 w1. runSteps rt p (Suc i) steps tc1 st1 w1 = Some (r, n, st', w') \<and> step_passed (wp_ID p) st1 i s \<and>
       ss_Schemas st1 = ss_Schemas st \<and> tm_StepsCompleted (ss_Trace st1) = int i + 1 \<and>
       (\<forall>k. k \<noteq> step_key i \<longrightarrow> map_of (ss_StepOutputs st1) k = map_of (ss_StepOutputs st) k))"
proof -
  obtain t0 w1 where t0: "rt_Now rt w = (t0, w1)" by fastforce
  let ?a = "\<lparr>at_State = st, at_World = w1, at_StepResult = GNil, at_StepToolCalls = 0, at_ToolCalls = tc\<rparr>"
  from assms t0 obtain err a where
    run: "RunStepWithRetryThenRefuse (wp_ID p) (sf_Type (step_fields s)) (step_retries p s)
      (Some (attempt rt (wp_ID p) s)) ?a = Some (err, a)"
    by (auto simp: Let_def split: option.splits)
  note fr = same_frameD [OF attempts_frame [OF run], simplified]
  obtain t1 w2 where t1: "rt_Now rt (at_World a) = (t1, w2)" by fastforce
  let ?c = "step_contract i (sf_Type (step_fields s)) t0 t1 (at_StepToolCalls a) (step_retries p s) (at_StepResult a) err"
  show ?thesis
  proof (cases err)
    case (Some e)
    let ?st1 = "fail_run i (step_key i) ?c t1 (at_ToolCalls a) e (at_State a)"
    have "runSteps rt p i (s # steps) tc st w =
        Some (Inl (step_failure i (sf_Type (step_fields s)) e), at_ToolCalls a, ?st1, w2)"
      using t0 t1 run Some by (simp add: Let_def)
    with assms have res: "r = Inl (step_failure i (sf_Type (step_fields s)) e)" "st' = ?st1"
      by (metis option.inject prod.inject)+
    show ?thesis
      by (rule disjI1, rule exI [of _ e]) (simp add: res fail_run_def step_failed_def contract_fields fr Some)
  next
    case None
    let ?st1 = "pass_step i (step_key i) (sf_Type (step_fields s)) ?c (at_StepResult a) (at_State a)"
    from retry_success [OF run [unfolded None]] obtain t where "attempt rt (wp_ID p) s t = Some (None, a)" by (rule exE)
    from attempt_output [OF this] have "output_error (wp_ID p) (step_fields s) (at_StepResult a) ?st1 = None"
      using output_error_cong [of ?st1 "at_State a"] by simp
    then have passed: "step_passed (wp_ID p) ?st1 i s"
      by (simp add: step_passed_def contract_fields None)
    have "runSteps rt p (Suc i) steps (at_ToolCalls a) ?st1 w2 = Some (r, n, st', w')"
      using assms t0 t1 run None by (simp add: Let_def)
    with passed show ?thesis by (intro disjI2 exI conjI) (assumption | simp add: fr)+
  qed
qed

lemma runSteps_record:
  assumes "runSteps rt p i steps tc st w = Some (r, n, st', w')"
  shows "ss_Schemas st' = ss_Schemas st \<and>
    (\<forall>k. (\<forall>j \<ge> i. k \<noteq> step_key j) \<longrightarrow> map_of (ss_StepOutputs st') k = map_of (ss_StepOutputs st) k) \<and>
    (case r of
       Inr out \<Rightarrow> passed_up_to (wp_ID p) st' i steps \<and> tm_Status (ss_Trace st') = ''success'' \<and>
         tm_StepsCompleted (ss_Trace st') =
           (if steps = [] then tm_StepsCompleted (ss_Trace st) else int (i + length steps))
     | Inl e \<Rightarrow> \<exists>j cause. j < length steps \<and> passed_up_to (wp_ID p) st' i (take j steps) \<and>
         e = step_failure (i + j) (sf_Type (step_fields (steps ! j))) cause \<and> step_failed st' (i + j) cause \<and>
         tm_Status (ss_Trace st') = ''error'' \<and> tm_StepsCompleted (ss_Trace st') = int (i + j))"
  using assms
proof (induction steps arbitrary: i tc st w)
  case Nil
  then show ?case by (auto split: prod.splits)
next
  case (Cons s steps)
  from runSteps_Cons [OF Cons.prems] show ?case
  proof (elim disjE exE conjE)
    fix e
    assume "r = Inl (step_failure i (sf_Type (step_fields s)) e)" "step_failed st' i e"
      "ss_Schemas st' = ss_Schemas st" "tm_StepsCompleted (ss_Trace st') = int i" "tm_Status (ss_Trace st') = ''error''"
      "\<forall>k. k \<noteq> step_key i \<longrightarrow> map_of (ss_StepOutputs st') k = map_of (ss_StepOutputs st) k"
    then show ?thesis by (auto intro!: exI [of _ "0::nat"])
  next
    fix tc1 st1 w1
    assume run: "runSteps rt p (Suc i) steps tc1 st1 w1 = Some (r, n, st', w')"
      and passed: "step_passed (wp_ID p) st1 i s" and schemas: "ss_Schemas st1 = ss_Schemas st"
      and count: "tm_StepsCompleted (ss_Trace st1) = int i + 1"
      and keep: "\<forall>k. k \<noteq> step_key i \<longrightarrow> map_of (ss_StepOutputs st1) k = map_of (ss_StepOutputs st) k"
    note IH = Cons.IH [OF run]
    from IH have here: "map_of (ss_StepOutputs st') (step_key i) = map_of (ss_StepOutputs st1) (step_key i)"
      and schemas': "ss_Schemas st' = ss_Schemas st1" by auto
    have first: "step_passed (wp_ID p) st' i s" using passed passed_cong [OF here schemas'] by simp
    show ?thesis
    proof (cases r)
      case (Inr out)
      then show ?thesis using IH first schemas keep count by (auto simp: passed_up_to_Cons)
    next
      case (Inl e)
      with IH obtain j cause where "j < length steps" "passed_up_to (wp_ID p) st' (Suc i) (take j steps)"
        "e = step_failure (Suc i + j) (sf_Type (step_fields (steps ! j))) cause" "step_failed st' (Suc i + j) cause"
        "tm_Status (ss_Trace st') = ''error''" "tm_StepsCompleted (ss_Trace st') = int (Suc i + j)"
        by auto
      then show ?thesis using Inl IH first schemas keep
        by (auto simp: passed_up_to_Cons intro!: exI [of _ "Suc j"])
    qed
  qed
qed

text \<open>The log of the tool calls of a run.\<close>

definition run_logs :: "string \<Rightarrow> int \<Rightarrow> ToolCall list \<Rightarrow> ToolCall list \<Rightarrow> bool" where
  "run_logs sender n l l' \<longleftrightarrow> (\<exists>m. l' = l @ m \<and> calls_for sender m \<and> n \<le> int (length m))"

lemma run_logs_refl [simp]: "run_logs sender 0 l l"
  by (simp add: run_logs_def calls_for_def)

lemma run_logs_trans: "run_logs sender m l1 l2 \<Longrightarrow> run_logs sender n l2 l3 \<Longrightarrow> run_logs sender (m + n) l1 l3"
  by (fastforce simp: run_logs_def calls_for_def)

lemma logged_Now: "snd (snd (rt_Now (logged rt) w)) = snd w"
  by (simp add: logged_def split: prod.split)

lemma attempt_logs:
  assumes "attempt (logged rt) pid s a = Some (r, a')"
  shows "ss_SenderMXID (at_State a') = ss_SenderMXID (at_State a) \<and>
    run_logs (ss_SenderMXID (at_State a)) (at_ToolCalls a' - at_ToolCalls a) (snd (at_World a)) (snd (at_World a'))"
proof -
  from assms obtain v n st w where run: "runStep (logged rt) pid s (at_State a) (at_World a) = Some (v, n, st, w)"
    and a': "at_State a' = st" "at_World a' = w" "at_ToolCalls a' = at_ToolCalls a \<or> at_ToolCalls a' = at_ToolCalls a + n"
    by (auto simp: attempt_def Let_def split: option.splits sum.splits)
  from log.runStep_R [OF run] a' show ?thesis by (auto simp: logs_def run_logs_def)
qed

lemma attempts_logs:
  assumes "RunStepWithRetryThenRefuse pid ty k (Some (attempt (logged rt) pid s)) a = Some (r, a')"
  shows "ss_SenderMXID (at_State a') = ss_SenderMXID (at_State a) \<and>
    run_logs (ss_SenderMXID (at_State a)) (at_ToolCalls a' - at_ToolCalls a) (snd (at_World a)) (snd (at_World a'))"
  using assms
proof (rule retry_rel [where Q = "\<lambda>a a'. ss_SenderMXID (at_State a') = ss_SenderMXID (at_State a) \<and>
    run_logs (ss_SenderMXID (at_State a)) (at_ToolCalls a' - at_ToolCalls a) (snd (at_World a)) (snd (at_World a'))"])
  fix a b c :: "('a \<times> ToolCall list) Attempt"
  assume "ss_SenderMXID (at_State b) = ss_SenderMXID (at_State a) \<and>
      run_logs (ss_SenderMXID (at_State a)) (at_ToolCalls b - at_ToolCalls a) (snd (at_World a)) (snd (at_World b))"
    and "ss_SenderMXID (at_State c) = ss_SenderMXID (at_State b) \<and>
      run_logs (ss_SenderMXID (at_State b)) (at_ToolCalls c - at_ToolCalls b) (snd (at_World b)) (snd (at_World c))"
  then show "ss_SenderMXID (at_State c) = ss_SenderMXID (at_State a) \<and>
      run_logs (ss_SenderMXID (at_State a)) (at_ToolCalls c - at_ToolCalls a) (snd (at_World a)) (snd (at_World c))"
    using run_logs_trans [of "ss_SenderMXID (at_State a)" "at_ToolCalls b - at_ToolCalls a" _ _ "at_ToolCalls c - at_ToolCalls b"]
    by auto
qed (auto simp: attempt_logs)

lemma runSteps_logs:
  assumes "runSteps (logged rt) p i steps tc st w = Some (r, n, st', w')"
  shows "run_logs (ss_SenderMXID st) (n - tc) (snd w) (snd w')"
  using assms
proof (induction steps arbitrary: i tc st w)
  case Nil
  then show ?case using logged_Now [of rt w] by (auto split: prod.splits)
next
  case (Cons s steps)
  obtain t0 w1 where t0: "rt_Now (logged rt) w = (t0, w1)" by (cases "rt_Now (logged rt) w")
  let ?a = "\<lparr>at_State = st, at_World = w1, at_StepResult = GNil, at_StepToolCalls = 0, at_ToolCalls = tc\<rparr>"
  from Cons.prems t0 obtain err a where
    run: "RunStepWithRetryThenRefuse (wp_ID p) (sf_Type (step_fields s)) (step_retries p s)
      (Some (attempt (logged rt) (wp_ID p) s)) ?a = Some (err, a)"
    by (auto simp: Let_def split: option.splits)
  obtain t1 w2 where t1: "rt_Now (logged rt) (at_World a) = (t1, w2)" by (cases "rt_Now (logged rt) (at_World a)")
  have w: "snd w1 = snd w" "snd w2 = snd (at_World a)"
    using logged_Now [of rt w] logged_Now [of rt "at_World a"] t0 t1 by simp_all
  have first: "ss_SenderMXID (at_State a) = ss_SenderMXID st"
    "run_logs (ss_SenderMXID st) (at_ToolCalls a - tc) (snd w) (snd w2)"
    using attempts_logs [OF run] w by simp_all
  show ?case
  proof (cases err)
    case (Some e)
    with Cons.prems t0 t1 run have "at_ToolCalls a = n \<and> w2 = w'" by (simp add: Let_def)
    with first show ?thesis by simp
  next
    case None
    let ?c = "step_contract i (sf_Type (step_fields s)) t0 t1 (at_StepToolCalls a) (step_retries p s) (at_StepResult a) None"
    from Cons.prems t0 t1 run None
    have "runSteps (logged rt) p (Suc i) steps (at_ToolCalls a)
        (pass_step i (step_key i) (sf_Type (step_fields s)) ?c (at_StepResult a) (at_State a)) w2 = Some (r, n, st', w')"
      by (simp add: Let_def)
    from run_logs_trans [OF first(2) Cons.IH [OF this, simplified first(1) pass_step_simps]] show ?thesis by simp
  qed
qed

lemma forEachItems_length:
  "forEachItems pid f v body i items results calls st w = Some (Inr x, n, st', w') \<Longrightarrow>
     \<exists>xs. x = GList (results @ xs) \<and> length xs = length items"
proof (induction items arbitrary: i results calls st w)
  case (Cons item items)
  from Cons.prems obtain c m st1 w1 where
    "forEachItems pid f v body (Suc i) items (results @ [c]) m st1 w1 = Some (Inr x, n, st', w')"
    by (auto simp: Let_def split: option.splits sum.splits)
  from Cons.IH [OF this] show ?case by (metis append_assoc append_Cons append_Nil length_Cons)
qed auto

lemma restore_lookup:
  "map_of (ss_Values (restore_value k old st)) k' = (if k' = k then old else map_of (ss_Values st) k')"
  by (simp add: restore_value_def set_value_def split: option.split)

lemma interpolated_cases:
  assumes "interpolated what v st w k = Some (r, n, st', w')"
  obtains (failed) "isl r" "st' = st" | (rendered) x where "k x = Some (r, n, st', w')"
  using assms by (auto simp: interpolated_def split: option.splits sum.splits)

lemma runForEach_scoped:
  assumes "runForEach pid f k body st w = Some (r, n, st', w')"
  shows "(\<forall>x \<in> {item_var f, item_var f @ ''_index''}. map_of (ss_Values st') x = map_of (ss_Values st) x) \<and>
    (case r of Inl e \<Rightarrow> True | Inr v \<Rightarrow> \<exists>xs. v = GList xs \<and> int (length xs) \<le> max_iterations f)"
proof (cases "trim_space (sf_ItemsExpr f) = []")
  case True
  with assms show ?thesis by (auto simp: runForEach_def step_fails_def)
next
  case False
  have max: "0 < max_iterations f" by (simp add: max_iterations_def defaultForEachMaxIterations_def)
  from False assms show ?thesis
    unfolding runForEach_def Let_def
    by (auto elim!: interpolated_cases simp: isl_def step_fails_def restore_lookup
        split: sum.splits if_splits dest!: forEachItems_length) (use max in linarith)
qed

subsection \<open>Properties\<close>

text \<open>
  C21: A run that succeeds has passed every step of the protocol: each has a contract with status
  \<^verbatim>\<open>success\<close> whose output satisfies the output schema and the item bound of the step, and the trace
  counts all steps as completed.
\<close>

theorem run_success_sound:
  assumes "Run (Some rt) protocol (Some st) w = Some (Inr out, n, st', w')"
  shows "(\<forall>j < length (wp_Steps protocol). step_passed (wp_ID protocol) st' j (wp_Steps protocol ! j)) \<and>
    tm_StepsCompleted (ss_Trace st') = int (length (wp_Steps protocol)) \<and> tm_Status (ss_Trace st') = ''success''"
proof -
  from assms obtain t w1 where
    "runSteps rt protocol 0 (wp_Steps protocol) 0 (start_trace t protocol st) w1 = Some (Inr out, n, st', w')"
    by (auto simp: Run_def split: prod.splits if_splits)
  from runSteps_record [OF this] show ?thesis
    by (auto simp: passed_up_to_def start_trace_def split: if_splits)
qed

definition sample_runtime :: "(go_error + string) \<Rightarrow> unit Runtime" where
  "sample_runtime result = \<lparr>rt_DispatchTool = (\<lambda>caller sender name args w. (result, w)),
     rt_Summarize = (\<lambda>prompt st w. (Inr ''summary'', w)), rt_Now = (\<lambda>w. (0, w)), rt_Unmarshal = (\<lambda>_. Inr GNil)\<rparr>"

definition sample_tool_protocol :: WorkflowProtocol where
  "sample_tool_protocol = sample_protocol\<lparr>wp_Steps :=
     [Step (zero_StepFields\<lparr>sf_Type := ''parse_input''\<rparr>) [],
      Step (zero_StepFields\<lparr>sf_Type := ''tool'', sf_Tool := ''t''\<rparr>) []]\<rparr>"

theorem run_success_sound_witness:
  "\<exists>out n st' w'. Run (Some (sample_runtime (Inr ''done''))) sample_tool_protocol (Some zero_State) () = Some (Inr out, n, st', w') \<and>
    tm_StepsCompleted (ss_Trace st') = 2"
proof -
  have "(case Run (Some (sample_runtime (Inr ''done''))) sample_tool_protocol (Some zero_State) () of
      Some (Inr out, _) \<Rightarrow> True | _ \<Rightarrow> False)" by code_simp
  then obtain out n st' w' where
    "Run (Some (sample_runtime (Inr ''done''))) sample_tool_protocol (Some zero_State) () = Some (Inr out, n, st', w')"
    by (auto split: option.splits sum.splits)
  with run_success_sound [OF this] show ?thesis by (auto simp: sample_tool_protocol_def)
qed

text \<open>
  A run that fails names the first step that failed: the steps before it have passed and are
  recorded as such, its own contract and the trace carry status \<^verbatim>\<open>error\<close> and the error text, and the
  completed-steps counter is its index.
\<close>

theorem run_failure_recorded:
  assumes "Run (Some rt) protocol (Some st) w = Some (Inl e, n, st', w')"
  shows "\<exists>j cause. j < length (wp_Steps protocol) \<and>
    (\<forall>k < j. step_passed (wp_ID protocol) st' k (wp_Steps protocol ! k)) \<and>
    e = step_failure j (sf_Type (step_fields (wp_Steps protocol ! j))) cause \<and> step_failed st' j cause \<and>
    tm_Status (ss_Trace st') = ''error'' \<and> tm_StepsCompleted (ss_Trace st') = int j"
proof -
  from assms obtain t w1 where
    "runSteps rt protocol 0 (wp_Steps protocol) 0 (start_trace t protocol st) w1 = Some (Inl e, n, st', w')"
    by (auto simp: Run_def split: prod.splits if_splits)
  from runSteps_record [OF this] obtain j cause where j: "j < length (wp_Steps protocol)"
    and passed: "passed_up_to (wp_ID protocol) st' 0 (take j (wp_Steps protocol))"
    and rest: "e = step_failure j (sf_Type (step_fields (wp_Steps protocol ! j))) cause" "step_failed st' j cause"
      "tm_Status (ss_Trace st') = ''error''" "tm_StepsCompleted (ss_Trace st') = int j"
    by auto
  from passed j have "\<forall>k < j. step_passed (wp_ID protocol) st' k (wp_Steps protocol ! k)"
    by (simp add: passed_up_to_def)
  with j rest show ?thesis by (intro exI [of _ j] exI [of _ cause] conjI) simp_all
qed

theorem run_failure_recorded_witness:
  "\<exists>e n st' w'. Run (Some (sample_runtime (Inl (Plain ''denied'')))) sample_tool_protocol (Some zero_State) () =
      Some (Inl e, n, st', w') \<and> tm_Status (ss_Trace st') = ''error''"
proof -
  have "(case Run (Some (sample_runtime (Inl (Plain ''denied'')))) sample_tool_protocol (Some zero_State) () of
      Some (Inl e, _) \<Rightarrow> True | _ \<Rightarrow> False)" by code_simp
  then obtain e n st' w' where
    "Run (Some (sample_runtime (Inl (Plain ''denied'')))) sample_tool_protocol (Some zero_State) () = Some (Inl e, n, st', w')"
    by (auto split: option.splits sum.splits)
  with run_failure_recorded [OF this] show ?thesis by auto
qed

text \<open>
  Whatever the protocol and the runtime, every tool call of a run is made for the caller
  \<^verbatim>\<open>workflow\<close> and the sender of the run, and a run never reports more tool calls than it made.
\<close>

theorem run_tool_calls_attributed:
  assumes "Run (Some (logged rt)) protocol (Some st) (w, []) = Some (r, n, st', (w', calls))"
  shows "(\<forall>c \<in> set calls. tc_Caller c = workflowCaller \<and> tc_Sender c = ss_SenderMXID st) \<and> n \<le> int (length calls)"
proof -
  from assms obtain t w1 where
    run: "runSteps (logged rt) protocol 0 (wp_Steps protocol) 0 (start_trace t protocol st) w1 = Some (r, n, st', (w', calls))"
    and "snd w1 = []"
    using logged_Now [of rt "(w, [])"]
    by (auto simp: Run_def split: prod.splits if_splits)
  with runSteps_logs [OF run] show ?thesis by (simp add: run_logs_def calls_for_def start_trace_def)
qed

theorem run_tool_calls_attributed_witness:
  "\<exists>r n st' w' call. Run (Some (logged (sample_runtime (Inl (Plain ''denied''))))) sample_tool_protocol
      (Some (zero_State\<lparr>ss_SenderMXID := ''@a''\<rparr>)) ((), []) = Some (r, n, st', (w', [call])) \<and>
    tc_Sender call = ''@a'' \<and> n = 0"
proof -
  have "(case Run (Some (logged (sample_runtime (Inl (Plain ''denied''))))) sample_tool_protocol
      (Some (zero_State\<lparr>ss_SenderMXID := ''@a''\<rparr>)) ((), []) of
      Some (r, n, st', (w', l)) \<Rightarrow> length l = 1 \<and> n = 0 | _ \<Rightarrow> False)" by code_simp
  then obtain r n st' w' call where
    run: "Run (Some (logged (sample_runtime (Inl (Plain ''denied''))))) sample_tool_protocol
      (Some (zero_State\<lparr>ss_SenderMXID := ''@a''\<rparr>)) ((), []) = Some (r, n, st', (w', [call]))" and "n = 0"
    by (auto simp: length_Suc_conv split: option.splits)
  moreover from run_tool_calls_attributed [OF run] have "tc_Sender call = ''@a''" by simp
  ultimately show ?thesis by blast
qed

text \<open>
  A loop over items is scoped and bounded: whether it succeeds or fails, its item and index
  variables have the values of before, and a successful loop has at most as many results as its
  iteration bound (10 by default).
\<close>

theorem for_each_scoped_and_bounded:
  assumes "runStep rt pid (Step f steps) st w = Some (r, n, st', w')" "trim_space (sf_Type f) = ''for_each''"
  shows "(\<forall>x \<in> {item_var f, item_var f @ ''_index''}. map_of (ss_Values st') x = map_of (ss_Values st) x) \<and>
    (case r of Inl e \<Rightarrow> True | Inr v \<Rightarrow> \<exists>xs. v = GList xs \<and> int (length xs) \<le> max_iterations f)"
  using assms by (intro runForEach_scoped) simp

definition sample_loop :: WorkflowProtocolStep where
  "sample_loop = Step (zero_StepFields\<lparr>sf_Type := ''for_each'', sf_ItemsExpr := ''{{input.xs}}'', sf_MaxIterations := 2\<rparr>)
     [Step (zero_StepFields\<lparr>sf_Type := ''persist'', sf_PersistKey := ''k'', sf_PersistValue := ''{{state.item}}''\<rparr>) []]"

theorem for_each_scoped_and_bounded_witness:
  "\<exists>v n st' w'. runStep (sample_runtime (Inr [])) ''p'' sample_loop
      (zero_State\<lparr>ss_Input := [(''xs'', GList [GInt 1, GInt 2, GInt 3])], ss_Values := [(''item'', GNil)]\<rparr>) () =
        Some (Inr v, n, st', w') \<and>
    map_of (ss_Values st') ''item'' = Some GNil \<and> map_of (ss_Values st') ''item_index'' = None"
proof -
  let ?st = "zero_State\<lparr>ss_Input := [(''xs'', GList [GInt 1, GInt 2, GInt 3])], ss_Values := [(''item'', GNil)]\<rparr>"
  have "(case runStep (sample_runtime (Inr [])) ''p'' sample_loop ?st () of Some (Inr v, _) \<Rightarrow> True | _ \<Rightarrow> False)"
    by code_simp
  then obtain v n st' w' where run: "runStep (sample_runtime (Inr [])) ''p'' sample_loop ?st () = Some (Inr v, n, st', w')"
    by (auto split: option.splits sum.splits)
  have "trim_space (sf_Type (step_fields sample_loop)) = ''for_each''" and "item_var (step_fields sample_loop) = ''item''"
    by code_simp+
  then show ?thesis
    using run for_each_scoped_and_bounded [of "sample_runtime (Inr [])" "''p''" "step_fields sample_loop"
        "step_steps sample_loop" ?st "()" "Inr v" n st' w']
    by auto
qed

end
