(* ===== verification/Stores.thy ===== *)
theory Stores
  imports Go_Values
begin

section \<open>What the stores share\<close>

text \<open>
  The SQLite tables of the program are lists of rows.  A call on the database may fail; the operations
  take the failure of each call they make as an argument (\<open>fault\<close>, the error text, \<open>None\<close> for a call that
  succeeds), and a failed statement leaves the table as it was.

  The second half is the contract of things that can be claimed once: one-time tokens and approvals.
  Operations act on a state; some of them, with some results, claim a key.  A claim needs a key that is
  live and leaves it dead, and a dead key stays dead until an operation creates it anew.  Then, over any sequence of
  operations, however interleaved, a key is claimed at most once.
\<close>

type_synonym fault = "string option"

definition unique_failed :: "string \<Rightarrow> string" where
  "unique_failed column = ''UNIQUE constraint failed: '' @ column"

text \<open>\<^verbatim>\<open>time.RFC3339\<close> has no fractions: what is read back is the time cut to whole seconds.\<close>

definition stored_time :: "gotime \<Rightarrow> gotime" where
  "stored_time t = truncate_time t second"

lemma stored_time_bounds: "t - second < stored_time t \<and> stored_time t \<le> t"
  unfolding stored_time_def truncate_time_def second_def
  using pos_mod_bound [of 1000000000 t] pos_mod_sign [of 1000000000 t] by simp

lemma stored_time_mono: "s \<le> t \<Longrightarrow> stored_time s \<le> stored_time t"
proof -
  have "u - u mod 1000000000 = 1000000000 * (u div 1000000000)" for u :: int
    by (simp add: minus_mod_eq_mult_div)
  then show "s \<le> t \<Longrightarrow> stored_time s \<le> stored_time t"
    by (simp add: stored_time_def truncate_time_def second_def zdiv_mono1)
qed

lemma find_append_last: "\<forall>r \<in> set rows. \<not> P r \<Longrightarrow> P x \<Longrightarrow> find P (rows @ [x]) = Some x"
  by (induction rows) auto

fun run_log :: "('x \<Rightarrow> 's \<Rightarrow> 'r \<times> 's) \<Rightarrow> 'x list \<Rightarrow> 's \<Rightarrow> ('x \<times> 'r) list" where
  "run_log exec [] s = []"
| "run_log exec (x # xs) s = (let (r, s') = exec x s in (x, r) # run_log exec xs s')"

fun run_state :: "('x \<Rightarrow> 's \<Rightarrow> 'r \<times> 's) \<Rightarrow> 'x list \<Rightarrow> 's \<Rightarrow> 's" where
  "run_state exec [] s = s"
| "run_state exec (x # xs) s = run_state exec xs (snd (exec x s))"

lemma run_state_invariant:
  assumes "\<And>x s. P s \<Longrightarrow> P (snd (exec x s))" "P s"
  shows "P (run_state exec xs s)"
  using assms(2) by (induction xs arbitrary: s) (auto simp: assms(1))

text \<open>A component whose operations keep an invariant keeps it over every sequence of operations.\<close>

locale invariant_system =
  fixes exec :: "'x \<Rightarrow> 's \<Rightarrow> 'r \<times> 's"
    and inv :: "'s \<Rightarrow> bool"
  assumes keeps: "inv s \<Longrightarrow> inv (snd (exec x s))"
begin

lemma run_keeps: "inv s \<Longrightarrow> inv (run_state exec xs s)"
  by (rule run_state_invariant) (simp_all add: keeps)

end

locale one_shot =
  fixes exec :: "'x \<Rightarrow> 's \<Rightarrow> 'r \<times> 's"
    and live :: "'s \<Rightarrow> 'k \<Rightarrow> bool"
    and claims :: "'x \<Rightarrow> 'r \<Rightarrow> 'k \<Rightarrow> bool"
    and creates :: "'x \<Rightarrow> 'k \<Rightarrow> bool"
  assumes claim_live: "exec x s = (r, s') \<Longrightarrow> claims x r k \<Longrightarrow> live s k"
    and claim_dead: "exec x s = (r, s') \<Longrightarrow> claims x r k \<Longrightarrow> \<not> live s' k"
    and stays_dead: "exec x s = (r, s') \<Longrightarrow> \<not> live s k \<Longrightarrow> \<not> creates x k \<Longrightarrow> \<not> live s' k"
begin

definition claims_of :: "'k \<Rightarrow> ('x \<times> 'r) list \<Rightarrow> nat" where
  "claims_of k l = length (filter (\<lambda>(x, r). claims x r k) l)"

lemma none_when_dead:
  assumes "\<not> live s k" "\<forall>x \<in> set xs. \<not> creates x k"
  shows "claims_of k (run_log exec xs s) = 0"
  using assms
proof (induction xs arbitrary: s)
  case (Cons x xs)
  obtain r s' where e: "exec x s = (r, s')" by fastforce
  have "\<not> claims x r k" using claim_live [OF e] Cons.prems(1) by blast
  moreover have "\<not> live s' k" using stays_dead [OF e] Cons.prems by simp
  ultimately show ?case using e Cons.IH [of s'] Cons.prems(2) by (simp add: claims_of_def)
qed (simp add: claims_of_def)

lemma at_most_once:
  assumes "\<forall>x \<in> set xs. \<not> creates x k"
  shows "claims_of k (run_log exec xs s) \<le> 1"
  using assms
proof (induction xs arbitrary: s)
  case (Cons x xs)
  obtain r s' where e: "exec x s = (r, s')" by fastforce
  show ?case
  proof (cases "claims x r k")
    case True
    from none_when_dead [OF claim_dead [OF e True]] Cons.prems have "claims_of k (run_log exec xs s') = 0" by simp
    with True e show ?thesis by (simp add: claims_of_def)
  next
    case False
    with e Cons.IH [of s'] Cons.prems show ?thesis by (simp add: claims_of_def)
  qed
qed (simp add: claims_of_def)

end

end
