(* ===== verification/Base64.thy ===== *)
theory Base64
  imports Go_Values
begin

section \<open>Base64 and hexadecimal\<close>

text \<open>
  The two encodings the program uses: \<^verbatim>\<open>RawURLEncoding\<close> for tokens and \<^verbatim>\<open>StdEncoding\<close> for secret values on the wire, with the decoder
  the agent applies to them.  Bytes are natural numbers below 256.  The decoder skips carriage returns and newlines, insists on
  the padding and ignores spare bits; where it gives up only the offset it would report is left out.
  Hexadecimal digits are used for signatures and keys.
  The theory shows that decoding undoes encoding, for both.
\<close>

definition b64_digits :: string where
  "b64_digits = ''ABCDEFGHIJKLMNOPQRSTUVWXYZabcdefghijklmnopqrstuvwxyz0123456789''"

definition b64_char :: "string \<Rightarrow> nat \<Rightarrow> char" where
  "b64_char alphabet n = alphabet ! (n mod 64)"

text \<open>\<^verbatim>\<open>EncodeToString\<close> of a list of bytes, without padding (\<^verbatim>\<open>RawURLEncoding\<close>).\<close>

fun b64_encode :: "string \<Rightarrow> nat list \<Rightarrow> string" where
  "b64_encode al [] = []"
| "b64_encode al [a] = map (b64_char al) [a div 4, a mod 4 * 16]"
| "b64_encode al [a, b] = map (b64_char al) [a div 4, a mod 4 * 16 + b div 16, b mod 16 * 4]"
| "b64_encode al (a # b # c # rest) =
     map (b64_char al) [a div 4, a mod 4 * 16 + b div 16, b mod 16 * 4 + c div 64, c mod 64] @ b64_encode al rest"

definition RawURLEncoding :: "nat list \<Rightarrow> string" where
  "RawURLEncoding bytes = b64_encode (b64_digits @ ''-_'') bytes"

definition StdEncoding :: "nat list \<Rightarrow> string" where
  "StdEncoding bytes = (let s = b64_encode (b64_digits @ ''+/'') bytes
     in s @ replicate ((4 - length s mod 4) mod 4) (CHR ''=''))"

subsection \<open>Decoding\<close>

definition std_alphabet :: string where "std_alphabet = b64_digits @ ''+/''"

fun position :: "char \<Rightarrow> string \<Rightarrow> nat option" where
  "position c [] = None"
| "position c (d # ds) = (if c = d then Some 0 else map_option Suc (position c ds))"

definition b64_value :: "char \<Rightarrow> nat option" where
  "b64_value c = position c std_alphabet"

fun decode_quanta :: "string \<Rightarrow> nat list option" where
  "decode_quanta [] = Some []"
| "decode_quanta (a # b # c # d # rest) =
     (case (b64_value a, b64_value b) of
        (Some x, Some y) \<Rightarrow>
          if c = CHR ''='' then (if d = CHR ''='' \<and> rest = [] then Some [x * 4 + y div 16] else None)
          else (case b64_value c of
                  None \<Rightarrow> None
                | Some z \<Rightarrow>
                    if d = CHR ''='' then (if rest = [] then Some [x * 4 + y div 16, y mod 16 * 16 + z div 4] else None)
                    else (case (b64_value d, decode_quanta rest) of
                            (Some u, Some bs) \<Rightarrow> Some ([x * 4 + y div 16, y mod 16 * 16 + z div 4, z mod 4 * 64 + u] @ bs)
                          | _ \<Rightarrow> None))
      | _ \<Rightarrow> None)"
| "decode_quanta _ = None"

definition DecodeString :: "string \<Rightarrow> nat list option" where
  "DecodeString s = decode_quanta (filter (\<lambda>c. c \<noteq> CHR 0x0D \<and> c \<noteq> CHR 0x0A) s)"

subsection \<open>Round trip\<close>

lemma std_alphabet_length: "length std_alphabet = 64"
  by code_simp

lemma position_nth: "distinct xs \<Longrightarrow> i < length xs \<Longrightarrow> position (xs ! i) xs = Some i"
  by (induction xs arbitrary: i) (auto simp: nth_Cons split: nat.splits)

lemma b64_value_char [simp]: "b64_value (b64_char std_alphabet n) = Some (n mod 64)"
proof -
  have "distinct std_alphabet" by code_simp
  then show ?thesis by (simp add: b64_value_def b64_char_def position_nth std_alphabet_length)
qed

lemma b64_char_plain [simp]:
  "b64_char std_alphabet n \<noteq> CHR ''=''" "b64_char std_alphabet n \<noteq> CHR 0x0D" "b64_char std_alphabet n \<noteq> CHR 0x0A"
proof -
  have "list_all (\<lambda>c. c \<noteq> CHR ''='' \<and> c \<noteq> CHR 0x0D \<and> c \<noteq> CHR 0x0A) std_alphabet" by code_simp
  moreover have "b64_char std_alphabet n \<in> set std_alphabet" by (simp add: b64_char_def std_alphabet_length)
  ultimately show "b64_char std_alphabet n \<noteq> CHR ''=''" "b64_char std_alphabet n \<noteq> CHR 0x0D" "b64_char std_alphabet n \<noteq> CHR 0x0A"
    by (auto simp: list_all_iff)
qed

definition padded :: "string \<Rightarrow> string" where
  "padded s = s @ replicate ((4 - length s mod 4) mod 4) (CHR ''='')"

lemma padded_quantum [simp]: "padded (a # b # c # d # s) = a # b # c # d # padded s"
  by (simp add: padded_def)

lemma sextets:
  fixes a b c :: nat
  assumes "a < 256" "b < 256" "c < 256"
  shows "a div 4 < 64" "a mod 4 * 16 + b div 16 < 64" "b mod 16 * 4 + c div 64 < 64" "a mod 4 * 16 < 64" "b mod 16 * 4 < 64"
  using assms by auto

lemma octets:
  fixes a b c :: nat
  assumes "b < 256" "c < 256"
  shows "a div 4 * 4 + (a mod 4 * 16 + b div 16) div 16 = a" "(a mod 4 * 16 + b div 16) mod 16 * 16 + (b mod 16 * 4 + c div 64) div 4 = b"
    "(b mod 16 * 4 + c div 64) mod 4 * 64 + c mod 64 = c" "a div 4 * 4 + (a mod 4 * 16) div 16 = a"
    "(a mod 4 * 16 + b div 16) mod 16 * 16 + (b mod 16 * 4) div 4 = b"
proof -
  have "b div 16 < 16" "c div 64 < 4" using assms by auto
  then show "a div 4 * 4 + (a mod 4 * 16 + b div 16) div 16 = a" "(a mod 4 * 16 + b div 16) mod 16 * 16 + (b mod 16 * 4 + c div 64) div 4 = b"
    "(b mod 16 * 4 + c div 64) mod 4 * 64 + c mod 64 = c" "a div 4 * 4 + (a mod 4 * 16) div 16 = a"
    "(a mod 4 * 16 + b div 16) mod 16 * 16 + (b mod 16 * 4) div 4 = b" by simp_all
qed

lemma decode_encode:
  "list_all (\<lambda>b. b < 256) bytes \<Longrightarrow> decode_quanta (padded (b64_encode std_alphabet bytes)) = Some bytes"
proof (induction std_alphabet bytes rule: b64_encode.induct)
  case (2 a)
  then show ?case using sextets [of a 0 0] octets(1,2,4,5) [of 0 0 a] by (simp add: padded_def numeral_2_eq_2)
next
  case (3 a b)
  then show ?case using sextets [of a b 0] octets(1,2,4,5) [of b 0 a] by (simp add: padded_def)
next
  case (4 a b c rest)
  then show ?case using sextets [of a b c] octets(1,2,4,5) [of b c a] octets(3) [of b c] by (simp del: One_nat_def)
qed (simp add: padded_def)

lemma encode_plain: "c \<in> set (b64_encode std_alphabet bytes) \<Longrightarrow> c \<noteq> CHR 0x0D \<and> c \<noteq> CHR 0x0A"
  by (induction std_alphabet bytes rule: b64_encode.induct) auto

lemma decode_StdEncoding: "list_all (\<lambda>b. b < 256) bytes \<Longrightarrow> DecodeString (StdEncoding bytes) = Some bytes"
proof -
  assume b: "list_all (\<lambda>b. b < 256) bytes"
  have e: "StdEncoding bytes = padded (b64_encode std_alphabet bytes)" by (simp add: StdEncoding_def padded_def std_alphabet_def Let_def)
  have "filter (\<lambda>c. c \<noteq> CHR 0x0D \<and> c \<noteq> CHR 0x0A) (StdEncoding bytes) = StdEncoding bytes"
    unfolding e padded_def by (auto simp: filter_id_conv dest: encode_plain)
  then show ?thesis using decode_encode [OF b] by (simp add: DecodeString_def e)
qed

subsection \<open>Hexadecimal\<close>

definition hex_val :: "char \<Rightarrow> nat option" where
  "hex_val c = (let n = of_char c :: nat in
     if 48 \<le> n \<and> n \<le> 57 then Some (n - 48) else if 97 \<le> n \<and> n \<le> 102 then Some (n - 87)
     else if 65 \<le> n \<and> n \<le> 70 then Some (n - 55) else None)"

text \<open>\<^verbatim>\<open>hex.DecodeString\<close>; of a failure only the kind is kept.\<close>

datatype hex_error = InvalidByte char | OddLength

fun hex_decode :: "string \<Rightarrow> hex_error + nat list" where
  "hex_decode [] = Inr []"
| "hex_decode [a] = (if hex_val a = None then Inl (InvalidByte a) else Inl OddLength)"
| "hex_decode (a # b # s) = (case hex_val a of
       None \<Rightarrow> Inl (InvalidByte a)
     | Some x \<Rightarrow> (case hex_val b of
           None \<Rightarrow> Inl (InvalidByte b)
         | Some y \<Rightarrow> map_sum (\<lambda>e. e) (\<lambda>bs. (16 * x + y) # bs) (hex_decode s)))"

definition hex_encode :: "nat list \<Rightarrow> string" where
  "hex_encode bytes = concat (map (\<lambda>b. [hex_digit (b div 16), hex_digit (b mod 16)]) bytes)"

lemma hex_val_digit [simp]: "n < 16 \<Longrightarrow> hex_val (hex_digit n) = Some n"
  by (simp add: hex_val_def hex_digit_def Let_def)

lemma hex_decode_encode: "list_all (\<lambda>b. b < 256) bytes \<Longrightarrow> hex_decode (hex_encode bytes) = Inr bytes"
proof (induction bytes)
  case (Cons b bytes)
  have e: "hex_encode (b # bytes) = hex_digit (b div 16) # hex_digit (b mod 16) # hex_encode bytes" by (simp add: hex_encode_def)
  have "b div 16 < 16" using Cons.prems by auto
  then show ?case using Cons unfolding e by simp
qed (simp add: hex_encode_def)

end
