(* ===== verification/Kuze_Tokens.thy ===== *)
theory Kuze_Tokens
  imports Stores Base64
begin

section \<open>One-time tokens\<close>

text \<open>
  \<^verbatim>\<open>internal/ruriko/kuze/tokens.go\<close>: the table of one-time tokens, with which people enter secrets and
  agents fetch them.  The clock reading, the random bytes and the failures of the database calls are
  arguments of the operations; timestamps are stored with whole seconds.
  The theory shows that a token is spent at most once over any sequence of operations, who can redeem it and for how long,
  and that pruning removes no token that could still be redeemed.
\<close>

datatype kuze_error =
    ErrTokenNotFound | ErrTokenExpired | ErrTokenUsed | ErrAgentIDMismatch
  | EmptyAgentID | Entropy string | Insert string
  | BeginTx string | QueryRedeem string | BurnRedeem string | Commit string
  | Query string | BurnExec string | QueryExpired string | Prune string

definition DefaultTTL :: int where "DefaultTTL = 10 * minute"
definition AgentTTL :: int where "AgentTTL = 60 * second"

record TokenRow =
  tk_token :: string
  tk_secret_ref :: string
  tk_secret_type :: string
  tk_created_at :: gotime
  tk_expires_at :: gotime
  tk_used :: bool
  tk_agent_id :: "string option"
  tk_purpose :: "string option"

record PendingToken =
  pt_Token :: string
  pt_SecretRef :: string
  pt_SecretType :: string
  pt_CreatedAt :: gotime
  pt_ExpiresAt :: gotime
  pt_Used :: bool
  pt_AgentID :: string
  pt_Purpose :: string

record TokenStore =
  ts_rows :: "TokenRow list"
  ts_ttl :: int

definition newTokenStore :: "TokenRow list \<Rightarrow> int \<Rightarrow> TokenStore" where
  "newTokenStore rows ttl = \<lparr>ts_rows = rows, ts_ttl = (if ttl \<le> 0 then DefaultTTL else ttl)\<rparr>"

subsection \<open>Issuing\<close>

definition nullable :: "string \<Rightarrow> string option" where
  "nullable s = (if s \<noteq> [] then Some s else None)"

definition issue ::
    "(string + nat list) \<Rightarrow> gotime \<Rightarrow> fault \<Rightarrow> string \<Rightarrow> string \<Rightarrow> string \<Rightarrow> string \<Rightarrow> TokenStore \<Rightarrow>
     (kuze_error + string \<times> gotime) \<times> TokenStore"
where
  "issue rand now ins secretRef secretType agentID purpose s = (case rand of
       Inl e \<Rightarrow> (Inl (Entropy e), s)
     | Inr raw \<Rightarrow>
         (let token = RawURLEncoding raw;
              ttl = (if agentID \<noteq> [] then AgentTTL else ts_ttl s);
              expiresAt = now + ttl
          in case ins of
               Some e \<Rightarrow> (Inl (Insert e), s)
             | None \<Rightarrow>
                 if list_ex (\<lambda>r. tk_token r = token) (ts_rows s)
                 then (Inl (Insert (unique_failed ''kuze_tokens.token'')), s)
                 else (Inr (token, expiresAt),
                   s\<lparr>ts_rows := ts_rows s @
                     [\<lparr>tk_token = token, tk_secret_ref = secretRef, tk_secret_type = secretType,
                       tk_created_at = stored_time now, tk_expires_at = stored_time expiresAt, tk_used = False,
                       tk_agent_id = nullable agentID, tk_purpose = nullable purpose\<rparr>]\<rparr>)))"

definition Issue ::
    "(string + nat list) \<Rightarrow> gotime \<Rightarrow> fault \<Rightarrow> string \<Rightarrow> string \<Rightarrow> TokenStore \<Rightarrow>
     (kuze_error + string \<times> gotime) \<times> TokenStore"
where
  "Issue rand now ins secretRef secretType s = issue rand now ins secretRef secretType [] [] s"

definition IssueAgent ::
    "(string + nat list) \<Rightarrow> gotime \<Rightarrow> fault \<Rightarrow> string \<Rightarrow> string \<Rightarrow> string \<Rightarrow> string \<Rightarrow> TokenStore \<Rightarrow>
     (kuze_error + string \<times> gotime) \<times> TokenStore"
where
  "IssueAgent rand now ins secretRef secretType agentID purpose s =
     (if agentID = [] then (Inl EmptyAgentID, s)
      else issue rand now ins secretRef secretType agentID purpose s)"

subsection \<open>Redeeming and burning\<close>

definition null_string :: "string option \<Rightarrow> string" where
  "null_string x = (case x of None \<Rightarrow> [] | Some s \<Rightarrow> s)"

definition scan_token :: "TokenRow \<Rightarrow> PendingToken" where
  "scan_token r = \<lparr>pt_Token = tk_token r, pt_SecretRef = tk_secret_ref r, pt_SecretType = tk_secret_type r,
     pt_CreatedAt = tk_created_at r, pt_ExpiresAt = tk_expires_at r, pt_Used = tk_used r,
     pt_AgentID = null_string (tk_agent_id r), pt_Purpose = null_string (tk_purpose r)\<rparr>"

definition find_token :: "string \<Rightarrow> TokenRow list \<Rightarrow> TokenRow option" where
  "find_token token rows = find (\<lambda>r. tk_token r = token) rows"

text \<open>The statement \<^verbatim>\<open>UPDATE kuze_tokens SET used = 1 WHERE token = ? AND used = 0\<close>: rows affected and the table
  after it.\<close>

definition burn_rows :: "string \<Rightarrow> TokenRow list \<Rightarrow> nat \<times> TokenRow list" where
  "burn_rows token rows =
     (length (filter (\<lambda>r. tk_token r = token \<and> \<not> tk_used r) rows),
      map (\<lambda>r. if tk_token r = token \<and> \<not> tk_used r then r\<lparr>tk_used := True\<rparr> else r) rows)"

record RedeemFaults =
  rf_begin :: fault
  rf_query :: fault
  rf_burn :: fault
  rf_commit :: fault

definition no_faults :: RedeemFaults where
  "no_faults = \<lparr>rf_begin = None, rf_query = None, rf_burn = None, rf_commit = None\<rparr>"

definition Redeem ::
    "RedeemFaults \<Rightarrow> gotime \<Rightarrow> string \<Rightarrow> string \<Rightarrow> TokenStore \<Rightarrow> (kuze_error + PendingToken) \<times> TokenStore"
where
  "Redeem fs now token claimedAgentID s = (case rf_begin fs of
       Some e \<Rightarrow> (Inl (BeginTx e), s)
     | None \<Rightarrow>
         (case rf_query fs of
            Some e \<Rightarrow> (Inl (QueryRedeem e), s)
          | None \<Rightarrow>
              (case find_token token (ts_rows s) of
                 None \<Rightarrow> (Inl ErrTokenNotFound, s)
               | Some row \<Rightarrow>
                   (let pt = scan_token row in
                    if pt_Used pt then (Inl ErrTokenUsed, s)
                    else if pt_ExpiresAt pt < now then (Inl ErrTokenExpired, s)
                    else if pt_AgentID pt \<noteq> claimedAgentID then (Inl ErrAgentIDMismatch, s)
                    else (case rf_burn fs of
                            Some e \<Rightarrow> (Inl (BurnRedeem e), s)
                          | None \<Rightarrow>
                              (let burnt = burn_rows token (ts_rows s) in
                               if fst burnt = 0 then (Inl ErrTokenUsed, s)
                               else (case rf_commit fs of
                                       Some e \<Rightarrow> (Inl (Commit e), s)
                                     | None \<Rightarrow> (Inr pt, s\<lparr>ts_rows := snd burnt\<rparr>))))))))"

definition Validate_token :: "fault \<Rightarrow> gotime \<Rightarrow> string \<Rightarrow> TokenStore \<Rightarrow> kuze_error + PendingToken" where
  "Validate_token query now token s = (case query of
       Some e \<Rightarrow> Inl (Query e)
     | None \<Rightarrow>
         (case find_token token (ts_rows s) of
            None \<Rightarrow> Inl ErrTokenNotFound
          | Some row \<Rightarrow>
              (let pt = scan_token row in
               if pt_Used pt then Inl ErrTokenUsed
               else if pt_ExpiresAt pt < now then Inl ErrTokenExpired
               else Inr pt)))"

definition Burn :: "fault \<Rightarrow> string \<Rightarrow> TokenStore \<Rightarrow> kuze_error option \<times> TokenStore" where
  "Burn exec token s = (case exec of
       Some e \<Rightarrow> (Some (BurnExec e), s)
     | None \<Rightarrow> (let burnt = burn_rows token (ts_rows s) in
         if fst burnt = 0 then (Some ErrTokenUsed, s) else (None, s\<lparr>ts_rows := snd burnt\<rparr>)))"

subsection \<open>Expiry\<close>

definition ListExpiredUnused :: "fault \<Rightarrow> gotime \<Rightarrow> TokenStore \<Rightarrow> kuze_error + PendingToken list" where
  "ListExpiredUnused query now s = (case query of
       Some e \<Rightarrow> Inl (QueryExpired e)
     | None \<Rightarrow> Inr (map scan_token
         (filter (\<lambda>r. \<not> tk_used r \<and> tk_expires_at r < stored_time now) (ts_rows s))))"

definition PruneExpired :: "fault \<Rightarrow> gotime \<Rightarrow> TokenStore \<Rightarrow> kuze_error option \<times> TokenStore" where
  "PruneExpired exec now s = (case exec of
       Some e \<Rightarrow> (Some (Prune e), s)
     | None \<Rightarrow> (None, s\<lparr>ts_rows :=
         filter (\<lambda>r. \<not> (tk_expires_at r < stored_time now \<or> tk_used r)) (ts_rows s)\<rparr>))"

subsection \<open>Sequences of operations\<close>

datatype kuze_op =
    OpIssue "string + nat list" gotime fault string string
  | OpIssueAgent "string + nat list" gotime fault string string string string
  | OpRedeem RedeemFaults gotime string string
  | OpValidate fault gotime string
  | OpBurn fault string
  | OpList fault gotime
  | OpPrune fault gotime

datatype kuze_result =
    Issued "kuze_error + string \<times> gotime"
  | Redeemed "kuze_error + PendingToken"
  | Listed "kuze_error + PendingToken list"
  | Finished "kuze_error option"

fun exec_kuze :: "kuze_op \<Rightarrow> TokenStore \<Rightarrow> kuze_result \<times> TokenStore" where
  "exec_kuze (OpIssue rnd now ins ref ty) s = apfst Issued (Issue rnd now ins ref ty s)"
| "exec_kuze (OpIssueAgent rnd now ins ref ty agent purpose) s =
     apfst Issued (IssueAgent rnd now ins ref ty agent purpose s)"
| "exec_kuze (OpRedeem fs now token agent) s = apfst Redeemed (Redeem fs now token agent s)"
| "exec_kuze (OpValidate query now token) s = (Redeemed (Validate_token query now token s), s)"
| "exec_kuze (OpBurn f token) s = apfst Finished (Burn f token s)"
| "exec_kuze (OpList query now) s = (Listed (ListExpiredUnused query now s), s)"
| "exec_kuze (OpPrune f now) s = apfst Finished (PruneExpired f now s)"

definition token_live :: "TokenStore \<Rightarrow> string \<Rightarrow> bool" where
  "token_live s k \<longleftrightarrow> (\<exists>r \<in> set (ts_rows s). tk_token r = k \<and> \<not> tk_used r)"

text \<open>Redeeming a token and burning it are the two ways to spend it.\<close>

fun spends :: "kuze_op \<Rightarrow> kuze_result \<Rightarrow> string \<Rightarrow> bool" where
  "spends (OpRedeem fs now token agent) (Redeemed (Inr pt)) k = (token = k)"
| "spends (OpBurn f token) (Finished None) k = (token = k)"
| "spends _ _ k = False"

fun issues :: "kuze_op \<Rightarrow> string \<Rightarrow> bool" where
  "issues (OpIssue (Inr raw) now ins ref ty) k = (RawURLEncoding raw = k)"
| "issues (OpIssueAgent (Inr raw) now ins ref ty agent purpose) k = (RawURLEncoding raw = k)"
| "issues _ k = False"

lemma burn_rows_live:
  "fst (burn_rows token rows) = 0 \<longleftrightarrow> \<not> (\<exists>r \<in> set rows. tk_token r = token \<and> \<not> tk_used r)"
  "(\<exists>r \<in> set (snd (burn_rows token rows)). tk_token r = k \<and> \<not> tk_used r) \<longleftrightarrow>
     k \<noteq> token \<and> (\<exists>r \<in> set rows. tk_token r = k \<and> \<not> tk_used r)"
  by (auto simp: burn_rows_def filter_empty_conv)

lemma find_token_Some: "find_token token rows = Some row \<Longrightarrow> row \<in> set rows \<and> tk_token row = token"
  by (auto simp: find_token_def find_Some_iff)

lemma Redeem_Inr:
  "Redeem fs now token agent s = (Inr pt, s') \<longleftrightarrow> fs = no_faults \<and>
     (\<exists>row. find_token token (ts_rows s) = Some row \<and> \<not> tk_used row \<and> now \<le> tk_expires_at row \<and>
       null_string (tk_agent_id row) = agent \<and> pt = scan_token row \<and>
       s' = s\<lparr>ts_rows := snd (burn_rows token (ts_rows s))\<rparr>)"
proof (cases "find_token token (ts_rows s)")
  case None
  then show ?thesis by (auto simp: Redeem_def split: option.splits)
next
  case (Some row)
  with find_token_Some have row: "row \<in> set (ts_rows s)" "tk_token row = token" by blast+
  then have "\<not> tk_used row \<Longrightarrow> fst (burn_rows token (ts_rows s)) \<noteq> 0"
    unfolding burn_rows_live by blast
  then show ?thesis using Some
    by (cases fs) (auto simp: Redeem_def Let_def scan_token_def no_faults_def split: option.splits)
qed

lemma Redeem_Inl: "Redeem fs now token agent s = (Inl e, s') \<Longrightarrow> s' = s"
  by (auto simp: Redeem_def Let_def split: option.splits if_splits)

lemma Burn_None:
  "Burn f token s = (None, s') \<longleftrightarrow> f = None \<and> token_live s token \<and> s' = s\<lparr>ts_rows := snd (burn_rows token (ts_rows s))\<rparr>"
  by (auto simp: Burn_def Let_def token_live_def burn_rows_live split: option.splits)

lemma Burn_Some: "Burn f token s = (Some e, s') \<Longrightarrow> s' = s"
  by (auto simp: Burn_def Let_def split: option.splits if_splits)

lemma token_live_burnt [simp]:
  "token_live (s\<lparr>ts_rows := snd (burn_rows token (ts_rows s))\<rparr>) k \<longleftrightarrow> k \<noteq> token \<and> token_live s k"
  by (simp add: token_live_def burn_rows_live)

lemma issue_live:
  "token_live (snd (issue rnd now ins ref ty agent purpose s)) k \<Longrightarrow>
     token_live s k \<or> (\<exists>raw. rnd = Inr raw \<and> RawURLEncoding raw = k)"
  by (auto simp: token_live_def issue_def Let_def split: sum.splits option.splits if_splits)

lemma prune_live: "token_live (snd (PruneExpired f now s)) k \<Longrightarrow> token_live s k"
  by (auto simp: token_live_def PruneExpired_def split: option.splits)

lemma spends_iff:
  assumes "exec_kuze x s = (r, s')" "spends x r k"
  shows "token_live s k \<and> \<not> token_live s' k"
proof (cases x)
  case (OpRedeem fs now token agent)
  with assms obtain pt where "Redeem fs now token agent s = (Inr pt, s')" "token = k"
    by (cases "Redeem fs now token agent s") (auto elim!: spends.elims)
  then show ?thesis by (auto simp: Redeem_Inr token_live_def [of s] dest!: find_token_Some)
next
  case (OpBurn f token)
  with assms have "Burn f token s = (None, s')" "token = k"
    by (cases "Burn f token s", auto elim!: spends.elims)+
  then show ?thesis by (simp add: Burn_None)
qed (use assms in \<open>auto elim!: spends.elims\<close>)

lemma exec_stays_dead:
  assumes "exec_kuze x s = (r, s')" "\<not> token_live s k" "\<not> issues x k"
  shows "\<not> token_live s' k"
proof (cases x)
  case (OpIssue rnd now ins ref ty)
  with assms show ?thesis
    using issue_live [of rnd now ins ref ty "[]" "[]" s k] by (cases rnd) (auto simp: Issue_def apfst_def map_prod_def split: prod.splits)
next
  case (OpIssueAgent rnd now ins ref ty agent purpose)
  with assms show ?thesis
    using issue_live [of rnd now ins ref ty agent purpose s k]
    by (cases rnd) (auto simp: IssueAgent_def apfst_def map_prod_def split: prod.splits if_splits)
next
  case (OpRedeem fs now token agent)
  with assms obtain r' where "Redeem fs now token agent s = (r', s')" by (cases "Redeem fs now token agent s") auto
  then show ?thesis using assms(2) by (cases r') (auto simp: Redeem_Inr dest: Redeem_Inl)
next
  case (OpBurn f token)
  with assms obtain r' where "Burn f token s = (r', s')" by (cases "Burn f token s") auto
  then show ?thesis using assms(2) by (cases r') (auto simp: Burn_None dest: Burn_Some)
next
  case (OpPrune f now)
  with assms show ?thesis using prune_live [of f now s k] by (cases "PruneExpired f now s") auto
qed (use assms in auto)

interpretation kuze: one_shot exec_kuze token_live spends issues
  by unfold_locales (blast dest: spends_iff exec_stays_dead)+

subsection \<open>The life of a token\<close>

text \<open>The primary key.\<close>

definition wf_tokens :: "TokenStore \<Rightarrow> bool" where
  "wf_tokens s \<longleftrightarrow> distinct (map tk_token (ts_rows s))"

text \<open>Every row of the token is this row, up to the used flag.\<close>

definition token_row :: "string \<Rightarrow> TokenRow \<Rightarrow> TokenStore \<Rightarrow> bool" where
  "token_row k row s \<longleftrightarrow> (\<forall>r \<in> set (ts_rows s). tk_token r = k \<longrightarrow> r\<lparr>tk_used := False\<rparr> = row)"

lemma burn_rows_keys [simp]: "map tk_token (snd (burn_rows token rows)) = map tk_token rows"
  by (simp add: burn_rows_def o_def if_distrib)

lemma issue_wf: "wf_tokens s \<Longrightarrow> wf_tokens (snd (issue rnd now ins ref ty agent purpose s))"
  by (auto simp: wf_tokens_def issue_def Let_def list_ex_iff split: sum.splits option.splits)

lemma exec_kuze_snd [simp]:
  "snd (exec_kuze (OpIssue rnd now ins ref ty) s) = snd (issue rnd now ins ref ty [] [] s)"
  "snd (exec_kuze (OpIssueAgent rnd now ins ref ty agent purpose) s) =
     (if agent = [] then s else snd (issue rnd now ins ref ty agent purpose s))"
  "snd (exec_kuze (OpRedeem fs now token agent) s) = snd (Redeem fs now token agent s)"
  "snd (exec_kuze (OpBurn f token) s) = snd (Burn f token s)"
  "snd (exec_kuze (OpPrune f now) s) = snd (PruneExpired f now s)"
  by (simp_all add: Issue_def IssueAgent_def)

lemma Redeem_state:
  "snd (Redeem fs now token agent s) \<in> {s, s\<lparr>ts_rows := snd (burn_rows token (ts_rows s))\<rparr>}"
proof (cases "Redeem fs now token agent s")
  case (Pair r s')
  then have "s' \<in> {s, s\<lparr>ts_rows := snd (burn_rows token (ts_rows s))\<rparr>}"
    by (cases r) (auto simp: Redeem_Inr dest: Redeem_Inl)
  with Pair show ?thesis by simp
qed

lemma Burn_state: "snd (Burn f token s) \<in> {s, s\<lparr>ts_rows := snd (burn_rows token (ts_rows s))\<rparr>}"
proof (cases "Burn f token s")
  case (Pair r s')
  then have "s' \<in> {s, s\<lparr>ts_rows := snd (burn_rows token (ts_rows s))\<rparr>}"
    by (cases r) (auto simp: Burn_None dest: Burn_Some)
  with Pair show ?thesis by simp
qed

lemma exec_kuze_wf: "wf_tokens s \<Longrightarrow> wf_tokens (snd (exec_kuze x s))"
proof (cases x)
  case (OpRedeem fs now token agent)
  then show "wf_tokens s \<Longrightarrow> ?thesis" using Redeem_state [of fs now token agent s] by (auto simp: wf_tokens_def)
next
  case (OpBurn f token)
  then show "wf_tokens s \<Longrightarrow> ?thesis" using Burn_state [of f token s] by (auto simp: wf_tokens_def)
next
  case (OpPrune f now)
  then show "wf_tokens s \<Longrightarrow> ?thesis"
    by (auto simp: wf_tokens_def PruneExpired_def distinct_map_filter split: option.splits)
qed (simp_all add: issue_wf del: exec_kuze.simps(1-3,5,7))

lemma burn_token_row:
  "token_row k row s \<Longrightarrow> token_row k row (s\<lparr>ts_rows := snd (burn_rows token (ts_rows s))\<rparr>)"
  by (auto simp: token_row_def burn_rows_def)

lemma exec_token_row:
  assumes "token_row k row s" "\<not> issues x k"
  shows "token_row k row (snd (exec_kuze x s))"
proof (cases x)
  case (OpIssue rnd now ins ref ty)
  with assms show ?thesis
    by (cases rnd) (auto simp: token_row_def issue_def Let_def simp del: exec_kuze.simps split: option.splits)
next
  case (OpIssueAgent rnd now ins ref ty agent purpose)
  with assms show ?thesis
    by (cases rnd) (auto simp: token_row_def issue_def Let_def simp del: exec_kuze.simps split: option.splits)
next
  case (OpRedeem fs now token agent)
  then show ?thesis using assms Redeem_state [of fs now token agent s]
    by (auto simp: burn_token_row simp del: exec_kuze.simps)
next
  case (OpBurn f token)
  then show ?thesis using assms Burn_state [of f token s] by (auto simp: burn_token_row simp del: exec_kuze.simps)
next
  case (OpPrune f now)
  then show ?thesis using assms
    by (auto simp: token_row_def PruneExpired_def simp del: exec_kuze.simps split: option.splits)
qed (use assms in auto)

text \<open>What keeps an unspent token redeemable: no pruning after its expiry.\<close>

fun prunes_by :: "gotime \<Rightarrow> kuze_op \<Rightarrow> bool" where
  "prunes_by t (OpPrune f now) = (now \<le> t)"
| "prunes_by t _ = True"

lemma exec_stays_live:
  assumes "exec_kuze x s = (r, s')" "token_live s k" "token_row k row s" "\<not> spends x r k"
    "prunes_by t x" "t \<le> tk_expires_at row"
  shows "token_live s' k"
proof (cases x)
  case (OpRedeem fs now token agent)
  with assms obtain r' where r': "Redeem fs now token agent s = (r', s')" "r = Redeemed r'"
    by (cases "Redeem fs now token agent s") auto
  show ?thesis
  proof (cases r')
    case (Inr pt)
    with r' OpRedeem assms(4) have "token \<noteq> k" by auto
    with r' Inr assms(2) show ?thesis by (auto simp: Redeem_Inr)
  qed (use r' assms(2) in \<open>auto dest: Redeem_Inl\<close>)
next
  case (OpBurn f token)
  with assms obtain r' where r': "Burn f token s = (r', s')" "r = Finished r'" by (cases "Burn f token s") auto
  show ?thesis
  proof (cases r')
    case None
    with r' OpBurn assms(4) have "token \<noteq> k" by auto
    with r' None assms(2) show ?thesis by (auto simp: Burn_None)
  qed (use r' assms(2) in \<open>auto dest: Burn_Some\<close>)
next
  case (OpPrune f now)
  have "stored_time now \<le> tk_expires_at row" using assms(5,6) stored_time_bounds [of now] OpPrune by simp
  moreover have "tk_expires_at r = tk_expires_at row" if "r \<in> set (ts_rows s)" "tk_token r = k" for r
    using assms(3) that by (auto simp: token_row_def)
  ultimately show ?thesis using assms(1,2) OpPrune
    by (fastforce simp: token_live_def PruneExpired_def split: option.splits)
qed (use assms in \<open>auto simp: token_live_def issue_def Issue_def IssueAgent_def Let_def split: sum.splits option.splits if_splits\<close>)

lemma run_token_row:
  "token_row k row s \<Longrightarrow> \<forall>x \<in> set xs. \<not> issues x k \<Longrightarrow> token_row k row (run_state exec_kuze xs s)"
  by (induction xs arbitrary: s) (simp_all add: exec_token_row del: exec_kuze.simps)

lemma run_stays_live:
  assumes "token_live s k" "token_row k row s" "\<forall>x \<in> set xs. \<not> issues x k \<and> prunes_by t x"
    "\<forall>(x, r) \<in> set (run_log exec_kuze xs s). \<not> spends x r k" "t \<le> tk_expires_at row"
  shows "token_live (run_state exec_kuze xs s) k"
  using assms
proof (induction xs arbitrary: s)
  case (Cons x xs)
  obtain r s' where e: "exec_kuze x s = (r, s')" by fastforce
  have "token_live s' k" using exec_stays_live [OF e Cons.prems(1,2), of t] Cons.prems(3-5) e by simp
  moreover have "token_row k row s'" using exec_token_row [of k row s x] Cons.prems e by simp
  ultimately show ?case using Cons.IH [of s'] Cons.prems e by simp
qed simp

lemma issue_Inr:
  assumes "issue rnd now ins ref ty agent purpose s = (Inr (token, expiresAt), s')" "wf_tokens s"
  shows "wf_tokens s' \<and> token_live s' token \<and>
    expiresAt = now + (if agent \<noteq> [] then AgentTTL else ts_ttl s) \<and>
    (\<exists>row. token_row token row s' \<and> tk_token row = token \<and> tk_expires_at row = stored_time expiresAt \<and>
      tk_agent_id row = nullable agent \<and> tk_secret_ref row = ref \<and> tk_secret_type row = ty)"
proof -
  have "wf_tokens s'" using issue_wf [OF assms(2), of rnd now ins ref ty agent purpose] assms(1) by simp
  with assms(1) show ?thesis
    by (auto simp: issue_def Let_def token_live_def token_row_def list_ex_iff split: sum.splits option.splits if_splits)
qed

lemma live_token_found:
  assumes "token_live s k" "token_row k row s" "wf_tokens s"
  shows "find_token k (ts_rows s) = Some row \<and> \<not> tk_used row"
proof -
  from assms(1) obtain r where r: "r \<in> set (ts_rows s)" "tk_token r = k" "\<not> tk_used r"
    by (auto simp: token_live_def)
  then have "r\<lparr>tk_used := False\<rparr> = row" using assms(2) by (simp add: token_row_def)
  with r(3) have eq: "r = row" by (cases r) simp
  obtain q where q: "find_token k (ts_rows s) = Some q"
    using r by (cases "find_token k (ts_rows s)") (auto simp: find_token_def find_None_iff)
  with find_token_Some have "q \<in> set (ts_rows s)" "tk_token q = k" by blast+
  with r assms(3) have "q = r" by (auto simp: wf_tokens_def distinct_map inj_on_def)
  with q eq r show ?thesis by simp
qed

subsection \<open>Properties\<close>

text \<open>
  C9: Whatever operations run on the token table, in whatever order and with whatever database
  failures, a token is spent (redeemed or burnt) at most once, unless it is issued again.
\<close>

theorem token_spent_at_most_once:
  assumes "\<forall>x \<in> set xs. \<not> issues x token"
  shows "length (filter (\<lambda>(x, r). spends x r token) (run_log exec_kuze xs s)) \<le> 1"
  using kuze.at_most_once [OF assms] by (simp add: kuze.claims_of_def)

theorem token_spent_at_most_once_witness:
  "length (filter (\<lambda>(x, r). spends x r ''t'')
     (run_log exec_kuze [OpRedeem no_faults 0 ''t'' ''a'', OpBurn None ''t'', OpRedeem no_faults 0 ''t'' ''a'']
       \<lparr>ts_rows = [\<lparr>tk_token = ''t'', tk_secret_ref = ''r'', tk_secret_type = ''api_key'', tk_created_at = 0,
          tk_expires_at = 0, tk_used = False, tk_agent_id = Some ''a'', tk_purpose = None\<rparr>], ts_ttl = DefaultTTL\<rparr>)) \<le> 1"
  by (rule token_spent_at_most_once) simp

text \<open>
  An agent token opens one secret to one agent for at most a minute: however the table is used in
  between, a successful redemption is by the agent the token was issued for, at most 60 seconds
  after the issue, and yields the secret it was issued for.
\<close>

theorem agent_token_scope:
  assumes "IssueAgent rnd t0 ins ref ty agent purpose s = (Inr (token, expiresAt), s1)" "wf_tokens s"
    and "\<forall>x \<in> set xs. \<not> issues x token"
    and "Redeem fs t token claimed (run_state exec_kuze xs s1) = (Inr pt, s2)"
  shows "claimed = agent \<and> t \<le> t0 + AgentTTL \<and> pt_SecretRef pt = ref \<and> pt_SecretType pt = ty"
proof -
  from assms(1) have agent: "agent \<noteq> []" and iss: "issue rnd t0 ins ref ty agent purpose s = (Inr (token, expiresAt), s1)"
    by (auto simp: IssueAgent_def split: if_splits)
  from issue_Inr [OF iss assms(2)] agent obtain row where
    exp: "expiresAt = t0 + AgentTTL" and row: "token_row token row s1" and
    fields: "tk_expires_at row = stored_time expiresAt" "tk_agent_id row = Some agent" "tk_secret_ref row = ref"
      "tk_secret_type row = ty"
    by (auto simp: nullable_def)
  from assms(4) obtain r where r: "find_token token (ts_rows (run_state exec_kuze xs s1)) = Some r"
    "t \<le> tk_expires_at r" "null_string (tk_agent_id r) = claimed" "pt = scan_token r"
    by (auto simp: Redeem_Inr)
  have "r\<lparr>tk_used := False\<rparr> = row"
    using run_token_row [OF row assms(3)] find_token_Some [OF r(1)] by (simp add: token_row_def)
  then have "tk_expires_at r = tk_expires_at row" "tk_agent_id r = tk_agent_id row"
    "tk_secret_ref r = tk_secret_ref row" "tk_secret_type r = tk_secret_type row" by auto
  with r fields exp stored_time_bounds [of expiresAt] show ?thesis
    by (auto simp: null_string_def scan_token_def)
qed

definition no_tokens :: TokenStore where
  "no_tokens = newTokenStore [] 0"

theorem agent_token_scope_witness:
  "\<exists>token e s1 pt s2. IssueAgent (Inr [1, 2, 3]) 0 None ''r'' ''api_key'' ''kairo'' [] no_tokens = (Inr (token, e), s1) \<and>
     Redeem no_faults (59 * second) token ''kairo'' s1 = (Inr pt, s2) \<and> pt_SecretRef pt = ''r''"
proof -
  define s1 where "s1 = snd (IssueAgent (Inr [1, 2, 3]) 0 None ''r'' ''api_key'' ''kairo'' [] no_tokens)"
  have issue: "IssueAgent (Inr [1, 2, 3]) 0 None ''r'' ''api_key'' ''kairo'' [] no_tokens = (Inr (''AQID'', 60 * second), s1)"
    unfolding s1_def by code_simp
  have "isl (fst (Redeem no_faults (59 * second) ''AQID'' ''kairo'' s1)) = False" unfolding s1_def by code_simp
  then obtain pt s2 where red: "Redeem no_faults (59 * second) ''AQID'' ''kairo'' s1 = (Inr pt, s2)"
    by (cases "Redeem no_faults (59 * second) ''AQID'' ''kairo'' s1"; cases "fst (Redeem no_faults (59 * second) ''AQID'' ''kairo'' s1)") auto
  have "wf_tokens no_tokens" by (simp add: wf_tokens_def no_tokens_def newTokenStore_def)
  from agent_token_scope [OF issue this, of "[]" no_faults "59 * second" "''kairo''" pt s2] red issue show ?thesis by auto
qed

text \<open>
  An agent token stays usable: until 59 seconds after the issue its agent can redeem it, as long
  as nobody has spent it, whatever else happens on the table, pruning included.
\<close>

theorem agent_token_usable:
  assumes "IssueAgent rnd t0 ins ref ty agent purpose s = (Inr (token, expiresAt), s1)" "wf_tokens s"
    and "\<forall>x \<in> set xs. \<not> issues x token \<and> prunes_by t x"
    and "\<forall>(x, r) \<in> set (run_log exec_kuze xs s1). \<not> spends x r token"
    and "t \<le> t0 + 59 * second"
  shows "\<exists>pt s2. Redeem no_faults t token agent (run_state exec_kuze xs s1) = (Inr pt, s2) \<and> pt_SecretRef pt = ref"
proof -
  from assms(1) have agent: "agent \<noteq> []" and iss: "issue rnd t0 ins ref ty agent purpose s = (Inr (token, expiresAt), s1)"
    by (auto simp: IssueAgent_def split: if_splits)
  from issue_Inr [OF iss assms(2)] agent obtain row where
    wf: "wf_tokens s1" and live: "token_live s1 token" and row: "token_row token row s1" and
    fields: "tk_expires_at row = stored_time (t0 + AgentTTL)" "tk_agent_id row = Some agent" "tk_secret_ref row = ref"
    by (auto simp: nullable_def)
  let ?s = "run_state exec_kuze xs s1"
  have t: "t \<le> tk_expires_at row"
    using assms(5) fields(1) stored_time_bounds [of "t0 + AgentTTL"] by (simp add: AgentTTL_def second_def)
  have "token_live ?s token" using run_stays_live [OF live row assms(3,4) t] .
  moreover have "token_row token row ?s" using run_token_row [OF row] assms(3) by blast
  moreover have "wf_tokens ?s" by (rule run_state_invariant [of wf_tokens]) (simp_all add: wf exec_kuze_wf)
  ultimately have "find_token token (ts_rows ?s) = Some row \<and> \<not> tk_used row" by (rule live_token_found)
  with t fields show ?thesis
    by (auto simp: Redeem_Inr null_string_def scan_token_def)
qed

theorem agent_token_usable_witness:
  "\<exists>pt s2. Redeem no_faults (59 * second) ''AQID'' ''kairo''
     (run_state exec_kuze [OpPrune None (59 * second), OpRedeem no_faults 0 ''AQID'' ''other'']
       (snd (IssueAgent (Inr [1, 2, 3]) 0 None ''r'' ''api_key'' ''kairo'' [] no_tokens))) = (Inr pt, s2) \<and> pt_SecretRef pt = ''r''"
proof (rule agent_token_usable [of "Inr [1, 2, 3]" 0 None "''r''" "''api_key''" "''kairo''" "[]" no_tokens])
  show "IssueAgent (Inr [1, 2, 3]) 0 None ''r'' ''api_key'' ''kairo'' [] no_tokens =
      (Inr (''AQID'', 60 * second), snd (IssueAgent (Inr [1, 2, 3]) 0 None ''r'' ''api_key'' ''kairo'' [] no_tokens))"
    by code_simp
  show "wf_tokens no_tokens" by (simp add: wf_tokens_def no_tokens_def newTokenStore_def)
  show "\<forall>(x, r) \<in> set (run_log exec_kuze [OpPrune None (59 * second), OpRedeem no_faults 0 ''AQID'' ''other'']
      (snd (IssueAgent (Inr [1, 2, 3]) 0 None ''r'' ''api_key'' ''kairo'' [] no_tokens))). \<not> spends x r ''AQID''"
    by code_simp
qed simp_all

end
