(* ===== verification/Kuze_Server.thy ===== *)
theory Kuze_Server
  imports Kuze_Tokens
begin

section \<open>The token server\<close>

text \<open>
  \<^verbatim>\<open>internal/ruriko/kuze/server.go\<close>: the HTTP handlers that issue tokens, hand secrets to agents and accept secrets from
  people.  The secrets store is what the code makes of it, an interface with \<^verbatim>\<open>Set\<close> and \<^verbatim>\<open>Get\<close>; HTML pages are
  values.  The form handler makes three separate store calls, so it is modelled as a thread with a step
  for each; \<open>acceptSecret\<close> runs the steps of one request without interruption, and other requests can come in between.
\<close>

subsection \<open>Requests, responses, state\<close>

record Request =
  rq_Method :: string
  rq_Path :: string
  rq_XAgentID :: string
  rq_Query :: "(string \<times> string) list"
  rq_FormError :: "string option"
  rq_SecretValue :: string

datatype body =
    TextBody string
  | JSONBody "(string \<times> string) list"
  | FormPage string string string
  | SuccessPage string
  | ExpiredPage

record Response =
  rs_Status :: nat
  rs_Body :: body

record 'q Secrets =
  se_Set :: "string \<Rightarrow> string \<Rightarrow> string \<Rightarrow> 'q \<Rightarrow> string option \<times> 'q"
  se_Get :: "string \<Rightarrow> 'q \<Rightarrow> string + nat list"

record 'q Server =
  sv_tokens :: TokenStore
  sv_secrets :: 'q
  sv_has_getter :: bool
  sv_baseURL :: string
  sv_storeNotify :: "string list option"
  sv_expiryNotify :: "PendingToken list option"

definition trim_right_slash :: "string \<Rightarrow> string" where
  "trim_right_slash s = rev (dropWhile (\<lambda>c. c = CHR ''/'') (rev s))"

definition New_server :: "TokenRow list \<Rightarrow> 'q \<Rightarrow> string \<Rightarrow> int \<Rightarrow> 'q Server" where
  "New_server rows secrets baseURL ttl = \<lparr>sv_tokens = newTokenStore rows ttl, sv_secrets = secrets, sv_has_getter = False,
     sv_baseURL = trim_right_slash baseURL, sv_storeNotify = None, sv_expiryNotify = None\<rparr>"

definition query_get :: "Request \<Rightarrow> string \<Rightarrow> string" where
  "query_get r k = (case map_of (rq_Query r) k of Some v \<Rightarrow> v | None \<Rightarrow> [])"

definition respond :: "nat \<Rightarrow> string \<Rightarrow> Response" where
  "respond code msg = \<lparr>rs_Status = code, rs_Body = TextBody msg\<rparr>"

definition respond_json :: "nat \<Rightarrow> (string \<times> string) list \<Rightarrow> Response" where
  "respond_json code kv = \<lparr>rs_Status = code, rs_Body = JSONBody kv\<rparr>"

definition method_not_allowed :: Response where "method_not_allowed = respond 405 ''method not allowed''"
definition not_found :: Response where "not_found = respond 404 ''404 page not found''"

fun kuze_error_text :: "kuze_error \<Rightarrow> string" where
  "kuze_error_text ErrTokenNotFound = ''kuze: token not found''"
| "kuze_error_text ErrTokenExpired = ''kuze: token expired''"
| "kuze_error_text ErrTokenUsed = ''kuze: token already used''"
| "kuze_error_text ErrAgentIDMismatch = ''kuze: agent identity does not match token''"
| "kuze_error_text EmptyAgentID = ''kuze: agentID must not be empty for agent tokens''"
| "kuze_error_text (Entropy e) = ''kuze: generate token entropy: '' @ e"
| "kuze_error_text (Insert e) = ''kuze: insert token: '' @ e"
| "kuze_error_text (BeginTx e) = ''kuze: begin redeem tx: '' @ e"
| "kuze_error_text (QueryRedeem e) = ''kuze: query token for redeem: '' @ e"
| "kuze_error_text (BurnRedeem e) = ''kuze: burn in redeem tx: '' @ e"
| "kuze_error_text (QueryExpired e) = ''kuze: query expired unused tokens: '' @ e"
| "kuze_error_text (Query e) = ''kuze: query token: '' @ e"
| "kuze_error_text (BurnExec e) = ''kuze: burn token: '' @ e"
| "kuze_error_text (Commit e) = ''kuze: commit redeem tx: '' @ e"
| "kuze_error_text (Prune e) = ''kuze: prune tokens: '' @ e"

subsection \<open>Issuing\<close>

record IssueResult =
  ir_URL :: string
  ir_Token :: string
  ir_ExpiresAt :: gotime
  ir_SecretRef :: string
  ir_AgentID :: string

definition IssueHumanToken ::
    "(string + nat list) \<Rightarrow> gotime \<Rightarrow> fault \<Rightarrow> string \<Rightarrow> string \<Rightarrow> 'q Server \<Rightarrow> (string + IssueResult) \<times> 'q Server"
where
  "IssueHumanToken rnd now ins secretRef secretType srv =
     (if secretRef = [] then (Inl ''kuze: secret_ref must not be empty'', srv)
      else (let ty = (if secretType = [] then ''api_key'' else secretType);
                (r, ts) = Issue rnd now ins secretRef ty (sv_tokens srv);
                srv' = srv\<lparr>sv_tokens := ts\<rparr>
            in case r of
                 Inl e \<Rightarrow> (Inl (''kuze: issue token: '' @ kuze_error_text e), srv')
               | Inr (token, expiresAt) \<Rightarrow>
                   (Inr \<lparr>ir_URL = sv_baseURL srv @ ''/s/'' @ token, ir_Token = token, ir_ExpiresAt = expiresAt,
                         ir_SecretRef = secretRef, ir_AgentID = []\<rparr>, srv')))"

definition IssueAgentToken ::
    "(string + nat list) \<Rightarrow> gotime \<Rightarrow> fault \<Rightarrow> string \<Rightarrow> string \<Rightarrow> string \<Rightarrow> string \<Rightarrow> 'q Server \<Rightarrow>
     (string + IssueResult) \<times> 'q Server"
where
  "IssueAgentToken rnd now ins agentID secretRef secretType purpose srv =
     (if agentID = [] then (Inl ''kuze: agentID must not be empty'', srv)
      else if secretRef = [] then (Inl ''kuze: secret_ref must not be empty'', srv)
      else (let ty = (if secretType = [] then ''api_key'' else secretType);
                (r, ts) = IssueAgent rnd now ins secretRef ty agentID purpose (sv_tokens srv);
                srv' = srv\<lparr>sv_tokens := ts\<rparr>
            in case r of
                 Inl e \<Rightarrow> (Inl (''kuze: issue agent token: '' @ kuze_error_text e), srv')
               | Inr (token, expiresAt) \<Rightarrow>
                   (Inr \<lparr>ir_URL = sv_baseURL srv @ ''/kuze/redeem/'' @ token, ir_Token = token, ir_ExpiresAt = expiresAt,
                         ir_SecretRef = secretRef, ir_AgentID = agentID\<rparr>, srv')))"

definition handleIssueHuman ::
    "(string + nat list) \<Rightarrow> gotime \<Rightarrow> fault \<Rightarrow> Request \<Rightarrow> 'q Server \<Rightarrow> Response \<times> 'q Server"
where
  "handleIssueHuman rnd now ins r srv =
     (if rq_Method r \<noteq> ''POST'' then (method_not_allowed, srv)
      else (let (res, srv') = IssueHumanToken rnd now ins (query_get r ''secret_ref'') (query_get r ''type'') srv
            in case res of
                 Inl e \<Rightarrow> (respond 400 e, srv')
               | Inr i \<Rightarrow> (respond_json 200
                   [(''link'', ir_URL i), (''token'', ir_Token i), (''expires_at'', fmt_rfc3339_nano (ir_ExpiresAt i)),
                    (''secret_ref'', ir_SecretRef i)], srv')))"

definition handleIssueAgent ::
    "(string + nat list) \<Rightarrow> gotime \<Rightarrow> fault \<Rightarrow> Request \<Rightarrow> 'q Server \<Rightarrow> Response \<times> 'q Server"
where
  "handleIssueAgent rnd now ins r srv =
     (if rq_Method r \<noteq> ''POST'' then (method_not_allowed, srv)
      else (let (res, srv') = IssueAgentToken rnd now ins (query_get r ''agent_id'') (query_get r ''secret_ref'')
                (query_get r ''type'') (query_get r ''purpose'') srv
            in case res of
                 Inl e \<Rightarrow> (respond 400 e, srv')
               | Inr i \<Rightarrow> (respond_json 200
                   [(''redeem_url'', ir_URL i), (''token'', ir_Token i), (''expires_at'', fmt_rfc3339_nano (ir_ExpiresAt i)),
                    (''secret_ref'', ir_SecretRef i), (''agent_id'', ir_AgentID i)], srv')))"

subsection \<open>Redeeming\<close>

definition redeem_error :: "kuze_error \<Rightarrow> Response" where
  "redeem_error e =
     (if e \<in> {ErrTokenUsed, ErrTokenExpired, ErrTokenNotFound}
      then respond_json 410 [(''error'', ''token not valid or already used'')]
      else if e = ErrAgentIDMismatch then respond_json 403 [(''error'', ''agent identity mismatch'')]
      else respond 500 (''{'' @ go_quote ''error'' @ '':'' @ go_quote ''internal error'' @ ''}''))"

definition path_token :: "string \<Rightarrow> Request \<Rightarrow> string option" where
  "path_token prefix r = (let token = trim_prefix (rq_Path r) prefix
     in if token = [] \<or> str_contains token ''/'' then None else Some token)"

definition handleRedeem ::
    "'q Secrets \<Rightarrow> RedeemFaults \<Rightarrow> gotime \<Rightarrow> Request \<Rightarrow> 'q Server \<Rightarrow> Response \<times> 'q Server"
where
  "handleRedeem se fs now r srv =
     (if rq_Method r \<noteq> ''GET'' then (method_not_allowed, srv)
      else (case path_token ''/kuze/redeem/'' r of
              None \<Rightarrow> (not_found, srv)
            | Some token \<Rightarrow>
                if rq_XAgentID r = []
                then (respond 401 (''{'' @ go_quote ''error'' @ '':'' @ go_quote ''X-Agent-ID header is required'' @ ''}''), srv)
                else if \<not> sv_has_getter srv
                then (respond 501 (''{'' @ go_quote ''error'' @ '':'' @ go_quote ''service not fully initialised'' @ ''}''), srv)
                else (let (res, ts) = Redeem fs now token (rq_XAgentID r) (sv_tokens srv); srv' = srv\<lparr>sv_tokens := ts\<rparr>
                      in case res of
                           Inl e \<Rightarrow> (redeem_error e, srv')
                         | Inr pt \<Rightarrow>
                             (case se_Get se (pt_SecretRef pt) (sv_secrets srv') of
                                Inl e \<Rightarrow> (respond_json 500 [(''error'', ''secret unavailable; request a new token'')], srv')
                              | Inr raw \<Rightarrow> (respond_json 200
                                  [(''secret_ref'', pt_SecretRef pt), (''secret_type'', pt_SecretType pt),
                                   (''value'', StdEncoding raw)], srv')))))"

subsection \<open>The form\<close>

definition handleTokenError :: "kuze_error \<Rightarrow> Response" where
  "handleTokenError e =
     (if e \<in> {ErrTokenNotFound, ErrTokenExpired, ErrTokenUsed} then \<lparr>rs_Status = 410, rs_Body = ExpiredPage\<rparr>
      else respond 500 ''internal error'')"

definition serveForm :: "fault \<Rightarrow> gotime \<Rightarrow> string \<Rightarrow> 'q Server \<Rightarrow> Response" where
  "serveForm query now token srv = (case Validate_token query now token (sv_tokens srv) of
       Inl e \<Rightarrow> handleTokenError e
     | Inr pt \<Rightarrow> \<lparr>rs_Status = 200, rs_Body = FormPage (pt_SecretRef pt) token []\<rparr>)"

text \<open>Where a form submission stands: the token has to be validated, the value stored, the token burnt.\<close>

datatype post =
    Validating Request string
  | Storing Request string PendingToken
  | Burning Request string PendingToken
  | Answered Response

fun post_step :: "'q Secrets \<Rightarrow> fault \<Rightarrow> gotime \<Rightarrow> post \<Rightarrow> 'q Server \<Rightarrow> post \<times> 'q Server" where
  "post_step se f now (Validating r token) srv = (case Validate_token f now token (sv_tokens srv) of
       Inl e \<Rightarrow> (Answered (handleTokenError e), srv)
     | Inr pt \<Rightarrow>
         (case rq_FormError r of
            Some e \<Rightarrow> (Answered (respond 400 (''bad request: '' @ e)), srv)
          | None \<Rightarrow>
              if rq_SecretValue r = []
              then (Answered \<lparr>rs_Status = 200, rs_Body = FormPage (pt_SecretRef pt) token ''Secret value cannot be empty.''\<rparr>, srv)
              else (Storing r token pt, srv)))"
| "post_step se f now (Storing r token pt) srv =
     (let (err, q) = se_Set se (pt_SecretRef pt) (pt_SecretType pt) (rq_SecretValue r) (sv_secrets srv);
          srv' = srv\<lparr>sv_secrets := q\<rparr>
      in case err of
           Some e \<Rightarrow> (Answered (respond 500 ''failed to store secret; please try again''), srv')
         | None \<Rightarrow> (Burning r token pt, srv'))"
| "post_step se f now (Burning r token pt) srv =
     (let (e, ts) = Burn f token (sv_tokens srv)
      in (Answered \<lparr>rs_Status = 200, rs_Body = SuccessPage (pt_SecretRef pt)\<rparr>,
          srv\<lparr>sv_tokens := ts, sv_storeNotify := map_option (\<lambda>l. l @ [pt_SecretRef pt]) (sv_storeNotify srv)\<rparr>))"
| "post_step se f now (Answered res) srv = (Answered res, srv)"

definition acceptSecret ::
    "'q Secrets \<Rightarrow> fault \<Rightarrow> fault \<Rightarrow> gotime \<Rightarrow> Request \<Rightarrow> string \<Rightarrow> 'q Server \<Rightarrow> post \<times> 'q Server"
where
  "acceptSecret se query burn now r token srv =
     (let (p1, srv1) = post_step se query now (Validating r token) srv;
          (p2, srv2) = post_step se None now p1 srv1
      in post_step se burn now p2 srv2)"

fun response_of :: "post \<Rightarrow> Response" where
  "response_of (Answered res) = res"
| "response_of _ = respond 500 ''unfinished''"

definition handleForm ::
    "'q Secrets \<Rightarrow> fault \<Rightarrow> fault \<Rightarrow> gotime \<Rightarrow> Request \<Rightarrow> 'q Server \<Rightarrow> Response \<times> 'q Server"
where
  "handleForm se query burn now r srv = (case path_token ''/s/'' r of
       None \<Rightarrow> (not_found, srv)
     | Some token \<Rightarrow>
         if rq_Method r = ''GET'' then (serveForm query now token srv, srv)
         else if rq_Method r = ''POST'' then apfst response_of (acceptSecret se query burn now r token srv)
         else (method_not_allowed, srv))"

subsection \<open>Pruning\<close>

definition PruneExpiredWithNotify ::
    "fault \<Rightarrow> fault \<Rightarrow> gotime \<Rightarrow> gotime \<Rightarrow> 'q Server \<Rightarrow> kuze_error option \<times> 'q Server"
where
  "PruneExpiredWithNotify query exec now1 now2 srv =
     (let srv1 = (case sv_expiryNotify srv of
            None \<Rightarrow> srv
          | Some l \<Rightarrow> (case ListExpiredUnused query now1 (sv_tokens srv) of
              Inl e \<Rightarrow> srv
            | Inr expired \<Rightarrow> srv\<lparr>sv_expiryNotify := Some (l @ expired)\<rparr>));
          (e, ts) = PruneExpired exec now2 (sv_tokens srv1)
      in (e, srv1\<lparr>sv_tokens := ts\<rparr>))"

subsection \<open>Properties\<close>

text \<open>When a token can be used at a time: it is in the table, unused and not expired.\<close>

definition valid_at :: "TokenStore \<Rightarrow> gotime \<Rightarrow> string \<Rightarrow> TokenRow \<Rightarrow> bool" where
  "valid_at ts now token row \<longleftrightarrow> find_token token (ts_rows ts) = Some row \<and> \<not> tk_used row \<and> now \<le> tk_expires_at row"

lemma Redeem_invalid:
  assumes "\<nexists>row. valid_at ts now token row"
  shows "\<exists>e \<in> {ErrTokenUsed, ErrTokenExpired, ErrTokenNotFound}. Redeem no_faults now token agent ts = (Inl e, ts)"
proof (cases "find_token token (ts_rows ts)")
  case (Some row)
  with assms have "tk_used row \<or> tk_expires_at row < now" by (auto simp: valid_at_def)
  with Some show ?thesis by (auto simp: Redeem_def Let_def no_faults_def scan_token_def)
qed (simp add: Redeem_def no_faults_def)

lemma Validate_valid: "valid_at ts now token row \<Longrightarrow> Validate_token None now token ts = Inr (scan_token row)"
  by (auto simp: Validate_token_def valid_at_def Let_def scan_token_def)

text \<open>
  C10: A secret leaves the token server only over a token that is valid at that moment, only to the
  agent named in it, and only with the token spent: a \<^verbatim>\<open>200\<close> answer carries the secret of the token's row,
  base64-encoded, the claimed identity is the row's agent, and the token is dead afterwards.
\<close>

theorem redeem_handler_sound:
  assumes "handleRedeem se fs now r srv = (res, srv')" "rs_Status res = 200"
  shows "\<exists>token row raw. path_token ''/kuze/redeem/'' r = Some token \<and> valid_at (sv_tokens srv) now token row \<and>
    tk_agent_id row = Some (rq_XAgentID r) \<and> se_Get se (tk_secret_ref row) (sv_secrets srv) = Inr raw \<and>
    res = respond_json 200 [(''secret_ref'', tk_secret_ref row), (''secret_type'', tk_secret_type row), (''value'', StdEncoding raw)] \<and>
    \<not> token_live (sv_tokens srv') token \<and> sv_secrets srv' = sv_secrets srv"
proof -
  from assms obtain token res' ts where tok: "path_token ''/kuze/redeem/'' r = Some token" and hd: "rq_XAgentID r \<noteq> []"
    and red: "Redeem fs now token (rq_XAgentID r) (sv_tokens srv) = (res', ts)"
    and out: "(case res' of Inl e \<Rightarrow> (redeem_error e, srv\<lparr>sv_tokens := ts\<rparr>)
       | Inr pt \<Rightarrow> (case se_Get se (pt_SecretRef pt) (sv_secrets (srv\<lparr>sv_tokens := ts\<rparr>)) of
            Inl e \<Rightarrow> (respond_json 500 [(''error'', ''secret unavailable; request a new token'')], srv\<lparr>sv_tokens := ts\<rparr>)
          | Inr raw \<Rightarrow> (respond_json 200 [(''secret_ref'', pt_SecretRef pt), (''secret_type'', pt_SecretType pt),
              (''value'', StdEncoding raw)], srv\<lparr>sv_tokens := ts\<rparr>))) = (res, srv')"
    by (auto simp: handleRedeem_def Let_def method_not_allowed_def not_found_def respond_def
        split: if_splits option.splits prod.splits)
  from out assms(2) obtain pt raw where pt: "res' = Inr pt" and raw: "se_Get se (pt_SecretRef pt) (sv_secrets srv) = Inr raw"
    and res: "res = respond_json 200 [(''secret_ref'', pt_SecretRef pt), (''secret_type'', pt_SecretType pt), (''value'', StdEncoding raw)]"
      "srv' = srv\<lparr>sv_tokens := ts\<rparr>"
    by (auto simp: redeem_error_def respond_def respond_json_def split: sum.splits if_splits)
  from red pt obtain row where row: "valid_at (sv_tokens srv) now token row" "null_string (tk_agent_id row) = rq_XAgentID r"
    "pt = scan_token row" "ts = (sv_tokens srv)\<lparr>ts_rows := snd (burn_rows token (ts_rows (sv_tokens srv)))\<rparr>"
    by (auto simp: Redeem_Inr valid_at_def)
  moreover from row(2) hd have "tk_agent_id row = Some (rq_XAgentID r)"
    by (cases "tk_agent_id row") (auto simp: null_string_def)
  ultimately show ?thesis using tok raw res by (auto simp: scan_token_def)
qed

definition sample_secrets :: "((string \<times> string) list) Secrets" where
  "sample_secrets = \<lparr>se_Set = (\<lambda>name ty v q. (None, AList.update name v q)),
     se_Get = (\<lambda>name q. case map_of q name of None \<Rightarrow> Inl ''secret not found'' | Some v \<Rightarrow> Inr (map of_char v))\<rparr>"

definition sample_row :: TokenRow where
  "sample_row = \<lparr>tk_token = ''t'', tk_secret_ref = ''key'', tk_secret_type = ''api_key'', tk_created_at = 0,
     tk_expires_at = 60 * second, tk_used = False, tk_agent_id = Some ''kairo'', tk_purpose = None\<rparr>"

definition sample_server :: "((string \<times> string) list) Server" where
  "sample_server = (New_server [sample_row] [(''key'', ''abc'')] ''http://h'' 0)\<lparr>sv_has_getter := True\<rparr>"

definition sample_request :: "string \<Rightarrow> string \<Rightarrow> string \<Rightarrow> string \<Rightarrow> Request" where
  "sample_request m path agent v = \<lparr>rq_Method = m, rq_Path = path, rq_XAgentID = agent, rq_Query = [],
     rq_FormError = None, rq_SecretValue = v\<rparr>"

theorem redeem_handler_sound_witness:
  "\<exists>res srv'. handleRedeem sample_secrets no_faults 0 (sample_request ''GET'' ''/kuze/redeem/t'' ''kairo'' []) sample_server = (res, srv') \<and>
     rs_Status res = 200 \<and> \<not> token_live (sv_tokens srv') ''t''"
proof -
  let ?h = "handleRedeem sample_secrets no_faults 0 (sample_request ''GET'' ''/kuze/redeem/t'' ''kairo'' []) sample_server"
  have ok: "rs_Status (fst ?h) = 200" and tok: "path_token ''/kuze/redeem/'' (sample_request ''GET'' ''/kuze/redeem/t'' ''kairo'' []) = Some ''t''"
    by code_simp+
  from redeem_handler_sound [of sample_secrets no_faults 0 "sample_request ''GET'' ''/kuze/redeem/t'' ''kairo'' []" sample_server
      "fst ?h" "snd ?h"] ok tok show ?thesis by (intro exI [of _ "fst ?h"] exI [of _ "snd ?h"]) auto
qed

text \<open>
  Redemption is no oracle: for a token that does not exist, is used, or is expired, an agent gets one
  and the same answer, and nothing changes.
\<close>

theorem redeem_no_oracle:
  assumes "rq_Method r = ''GET''" "path_token ''/kuze/redeem/'' r = Some token" "rq_XAgentID r \<noteq> []" "sv_has_getter srv"
    and "\<nexists>row. valid_at (sv_tokens srv) now token row"
  shows "handleRedeem se no_faults now r srv =
    (respond_json 410 [(''error'', ''token not valid or already used'')], srv)"
  using Redeem_invalid [OF assms(5), of "rq_XAgentID r"] assms(1-4)
  by (auto simp: handleRedeem_def redeem_error_def)

theorem redeem_no_oracle_witness:
  "handleRedeem sample_secrets no_faults (61 * second) (sample_request ''GET'' ''/kuze/redeem/t'' ''eve'' []) sample_server =
     (respond_json 410 [(''error'', ''token not valid or already used'')], sample_server)"
proof (rule redeem_no_oracle)
  show "\<nexists>row. valid_at (sv_tokens sample_server) (61 * second) ''t'' row"
    by (simp add: valid_at_def sample_server_def New_server_def newTokenStore_def find_token_def sample_row_def second_def)
  show "path_token ''/kuze/redeem/'' (sample_request ''GET'' ''/kuze/redeem/t'' ''eve'' []) = Some ''t''" by code_simp
qed (simp_all add: sample_request_def sample_server_def)

text \<open>
  The form accepts every valid token, also one issued for an agent: whoever holds a redemption
  token can overwrite the secret that it lets the agent read, without any agent identity.
\<close>

theorem form_overwrites_with_any_token:
  assumes "valid_at (sv_tokens srv) now token row" "path_token ''/s/'' r = Some token" "rq_Method r = ''POST''"
    and "rq_FormError r = None" "rq_SecretValue r \<noteq> []"
    and "se_Set se (tk_secret_ref row) (tk_secret_type row) (rq_SecretValue r) (sv_secrets srv) = (None, q)"
  shows "fst (handleForm se None burn now r srv) = \<lparr>rs_Status = 200, rs_Body = SuccessPage (tk_secret_ref row)\<rparr> \<and>
    sv_secrets (snd (handleForm se None burn now r srv)) = q"
  using assms Validate_valid [OF assms(1)]
  by (simp add: handleForm_def acceptSecret_def Let_def scan_token_def split: prod.splits)

theorem form_overwrites_with_any_token_witness:
  "tk_agent_id sample_row = Some ''kairo'' \<and>
   sv_secrets (snd (handleForm sample_secrets None None 0 (sample_request ''POST'' ''/s/t'' [] ''evil'') sample_server)) =
     [(''key'', ''evil'')]"
proof
  have "path_token ''/s/'' (sample_request ''POST'' ''/s/t'' [] ''evil'') = Some ''t''" by code_simp
  then show "sv_secrets (snd (handleForm sample_secrets None None 0 (sample_request ''POST'' ''/s/t'' [] ''evil'') sample_server)) =
     [(''key'', ''evil'')]"
    using form_overwrites_with_any_token [of sample_server 0 "''t''" sample_row "sample_request ''POST'' ''/s/t'' [] ''evil''"
        sample_secrets "[(''key'', ''evil'')]" None]
    by (simp add: valid_at_def sample_server_def New_server_def newTokenStore_def find_token_def sample_row_def
        second_def sample_request_def sample_secrets_def)
qed (simp add: sample_row_def)

text \<open>
  Validation and burning are separate calls, so two submissions of one form can both pass: with the
  steps interleaved, both are answered with the success page and both values are stored, the second
  over the first.
\<close>

theorem concurrent_posts_store_twice:
  assumes "valid_at (sv_tokens srv) now token row"
    and "rq_FormError r1 = None" "rq_SecretValue r1 \<noteq> []" "rq_FormError r2 = None" "rq_SecretValue r2 \<noteq> []"
    and "se_Set se (tk_secret_ref row) (tk_secret_type row) (rq_SecretValue r1) (sv_secrets srv) = (None, q1)"
    and "se_Set se (tk_secret_ref row) (tk_secret_type row) (rq_SecretValue r2) q1 = (None, q2)"
  shows "let (a1, s1) = post_step se None now (Validating r1 token) srv;
             (b1, s2) = post_step se None now (Validating r2 token) s1;
             (a2, s3) = post_step se None now a1 s2;
             (b2, s4) = post_step se None now b1 s3;
             (a3, s5) = post_step se None now a2 s4;
             (b3, s6) = post_step se None now b2 s5
         in a3 = Answered \<lparr>rs_Status = 200, rs_Body = SuccessPage (tk_secret_ref row)\<rparr> \<and> b3 = a3 \<and> sv_secrets s6 = q2"
  using assms Validate_valid [OF assms(1)]
  by (simp add: Let_def scan_token_def split: prod.splits)

theorem concurrent_posts_store_twice_witness:
  "let (a1, s1) = post_step sample_secrets None 0 (Validating (sample_request ''POST'' ''/s/t'' [] ''one'') ''t'') sample_server;
       (b1, s2) = post_step sample_secrets None 0 (Validating (sample_request ''POST'' ''/s/t'' [] ''two'') ''t'') s1;
       (a2, s3) = post_step sample_secrets None 0 a1 s2;
       (b2, s4) = post_step sample_secrets None 0 b1 s3;
       (a3, s5) = post_step sample_secrets None 0 a2 s4;
       (b3, s6) = post_step sample_secrets None 0 b2 s5
   in a3 = Answered \<lparr>rs_Status = 200, rs_Body = SuccessPage (tk_secret_ref sample_row)\<rparr> \<and> b3 = a3 \<and>
      sv_secrets s6 = [(''key'', ''two'')]"
  by (rule concurrent_posts_store_twice [of _ _ _ sample_row _ _ _ "[(''key'', ''one'')]"])
    (simp_all add: valid_at_def sample_server_def New_server_def newTokenStore_def find_token_def sample_row_def
      second_def sample_request_def sample_secrets_def)

end
