(* ===== verification/Ruriko_Commands.thy ===== *)
theory Ruriko_Commands
  imports Go_Values
begin

section \<open>Operator commands\<close>

text \<open>
  \<^verbatim>\<open>internal/ruriko/commands/router.go\<close>: the parser of \<^verbatim>\<open>/ruriko\<close> messages (quote-aware tokens, subcommand, arguments and
  flags) and the choice of the handler.  Text is taken to be valid UTF-8, so that writing back the runes of a token
  gives its bytes.  Handlers are values of any type: the router only picks one.
  The theory shows that no typed message can set an internal flag, and that quoting is undone by the
  tokenizer but for empty arguments, which get lost.
\<close>

record Command =
  cm_Name :: string
  cm_Subcommand :: string
  cm_Args :: "string list"
  cm_Flags :: "(string \<times> string) list"
  cm_RawText :: string

datatype command_error =
    ErrNotACommand | EmptyCommand | UnterminatedQuote | UnknownCommand string | NoHandler string

record 'h Router =
  ro_handlers :: "(string \<times> 'h) list"
  ro_prefix :: string

definition NewRouter :: "string \<Rightarrow> 'h Router" where
  "NewRouter prefix = \<lparr>ro_handlers = [], ro_prefix = prefix\<rparr>"

definition Register :: "'h Router \<Rightarrow> string \<Rightarrow> 'h \<Rightarrow> 'h Router" where
  "Register r command handler = r\<lparr>ro_handlers := AList.update command handler (ro_handlers r)\<rparr>"

subsection \<open>Tokens\<close>

definition flush :: "string \<Rightarrow> string list" where
  "flush cur = (if length cur = 0 then [] else [cur])"

fun tokenize :: "string \<Rightarrow> string \<Rightarrow> char option \<Rightarrow> bool \<Rightarrow> command_error + string list" where
  "tokenize [] cur inQuote escaped =
     (if inQuote \<noteq> None then Inl UnterminatedQuote
      else Inr (flush (if escaped then cur @ [CHR 0x5C] else cur)))"
| "tokenize (ch # text) cur inQuote escaped =
     (if escaped then tokenize text (cur @ [ch]) inQuote False
      else if ch = CHR 0x5C then tokenize text cur inQuote True
      else (case inQuote of
              Some q \<Rightarrow>
                if ch = q then tokenize text cur None False
                else tokenize text (cur @ [ch]) inQuote False
            | None \<Rightarrow>
                if ch = CHR 0x22 \<or> ch = CHR 0x27 then tokenize text cur (Some ch) False
                else if ch = CHR 0x20 \<or> ch = CHR 0x09 \<or> ch = CHR 0x0A \<or> ch = CHR 0x0D
                then map_sum id (\<lambda>ts. flush cur @ ts) (tokenize text [] None False)
                else tokenize text (cur @ [ch]) None False))"

definition tokenizeCommand :: "string \<Rightarrow> command_error + string list" where
  "tokenizeCommand text =
     (let text = trim_space text in if text = [] then Inr [] else tokenize text [] None False)"

subsection \<open>Commands\<close>

text \<open>The loop over the parts behind the subcommand; a flag takes the next part as its value unless that starts with
  \<^verbatim>\<open>--\<close>, and flags that start with an underscore are dropped together with their value.\<close>

fun parseArgs :: "string list \<Rightarrow> string list \<Rightarrow> (string \<times> string) list \<Rightarrow> string list \<times> (string \<times> string) list" where
  "parseArgs [] args flags = (args, flags)"
| "parseArgs [part] args flags =
     (if has_prefix part ''--''
      then (let flagName = trim_prefix part ''--'' in
        if has_prefix flagName ''_'' then (args, flags) else (args, AList.update flagName ''true'' flags))
      else (args @ [part], flags))"
| "parseArgs (part # v # parts) args flags =
     (if has_prefix part ''--''
      then (let flagName = trim_prefix part ''--'' in
        if has_prefix flagName ''_''
        then parseArgs (if has_prefix v ''--'' then v # parts else parts) args flags
        else if \<not> has_prefix v ''--'' then parseArgs parts args (AList.update flagName v flags)
        else parseArgs (v # parts) args (AList.update flagName ''true'' flags))
      else parseArgs (v # parts) (args @ [part]) flags)"

definition Parse_command :: "string \<Rightarrow> string \<Rightarrow> command_error + Command" where
  "Parse_command prefix text =
     (let text = trim_space text in
      if \<not> has_prefix text prefix then Inl ErrNotACommand
      else (let text = trim_space (trim_prefix text prefix) in
        if text = [] then Inl EmptyCommand
        else (case tokenizeCommand text of
                Inl e \<Rightarrow> Inl e
              | Inr [] \<Rightarrow> Inl EmptyCommand
              | Inr (name # parts) \<Rightarrow>
                  (let (sub, rest) = (case parts of
                         [] \<Rightarrow> ([], [])
                       | p # ps \<Rightarrow> if \<not> has_prefix p ''-'' then (p, ps) else ([], p # ps));
                       (args, flags) = parseArgs rest [] []
                   in Inr \<lparr>cm_Name = name, cm_Subcommand = sub, cm_Args = args, cm_Flags = flags, cm_RawText = text\<rparr>))))"

definition Dispatch :: "'h Router \<Rightarrow> string \<Rightarrow> command_error + 'h" where
  "Dispatch r action = (case map_of (ro_handlers r) action of None \<Rightarrow> Inl (NoHandler action) | Some h \<Rightarrow> Inr h)"

definition Route :: "'h Router \<Rightarrow> string \<Rightarrow> command_error + 'h \<times> Command" where
  "Route r text = (case Parse_command (ro_prefix r) text of
       Inl e \<Rightarrow> Inl e
     | Inr cmd \<Rightarrow>
         (let key = (if cm_Subcommand cmd \<noteq> [] then cm_Name cmd @ ''.'' @ cm_Subcommand cmd else cm_Name cmd) in
          case map_of (ro_handlers r) key of
            Some h \<Rightarrow> Inr (h, cmd)
          | None \<Rightarrow>
              (case map_of (ro_handlers r) (cm_Name cmd) of
                 Some h \<Rightarrow> Inr (h, cmd)
               | None \<Rightarrow> Inl (UnknownCommand key))))"

definition GetFlag :: "Command \<Rightarrow> string \<Rightarrow> string \<Rightarrow> string" where
  "GetFlag cmd name def = (case map_of (cm_Flags cmd) name of Some v \<Rightarrow> v | None \<Rightarrow> def)"

definition HasFlag :: "Command \<Rightarrow> string \<Rightarrow> bool" where
  "HasFlag cmd name \<longleftrightarrow> map_of (cm_Flags cmd) name \<noteq> None"

definition GetArg :: "Command \<Rightarrow> int \<Rightarrow> string option" where
  "GetArg cmd i = (if i < 0 \<or> int (length (cm_Args cmd)) \<le> i then None else Some (cm_Args cmd ! nat i))"

text \<open>Names of agents (\<^verbatim>\<open>lifecycle_handlers.go\<close>): the pattern \<^verbatim>\<open>^[a-z0-9][a-z0-9-]{0,62}$\<close>.\<close>

definition id_char :: "char \<Rightarrow> bool" where
  "id_char c \<longleftrightarrow> (let n = (of_char c :: nat) in 48 \<le> n \<and> n \<le> 57 \<or> 97 \<le> n \<and> n \<le> 122)"

definition validateAgentID :: "string \<Rightarrow> string option" where
  "validateAgentID i =
     (if i = [] then Some ''agent ID must not be empty''
      else if id_char (hd i) \<and> list_all (\<lambda>c. id_char c \<or> c = CHR ''-'') (tl i) \<and> length i \<le> 63 then None
      else Some (''agent ID '' @ go_quote i @ '' is invalid: must match ^[a-z0-9][a-z0-9-]{0,62}$''))"

definition FullCommand :: "Command \<Rightarrow> string" where
  "FullCommand cmd = (if cm_Subcommand cmd \<noteq> [] then cm_Name cmd @ '' '' @ cm_Subcommand cmd else cm_Name cmd)"

subsection \<open>Internal flags\<close>

definition internal_free :: "(string \<times> string) list \<Rightarrow> bool" where
  "internal_free flags \<longleftrightarrow> (\<forall>(k, v) \<in> set flags. \<not> has_prefix k ''_'')"

lemma internal_free_update:
  "internal_free flags \<Longrightarrow> \<not> has_prefix k ''_'' \<Longrightarrow> internal_free (AList.update k v flags)"
  by (induction flags) (auto simp: internal_free_def)

lemma parseArgs_internal_free: "internal_free flags \<Longrightarrow> internal_free (snd (parseArgs parts args flags))"
  by (induction parts args flags rule: parseArgs.induct) (auto simp: Let_def internal_free_update)

lemma Parse_internal_free: "Parse_command prefix text = Inr cmd \<Longrightarrow> internal_free (cm_Flags cmd)"
  using parseArgs_internal_free [of "[]"]
  by (auto simp: Parse_command_def Let_def internal_free_def [of "[]"] split: if_splits sum.splits list.splits prod.splits)
    (metis internal_free_def snd_conv)+

lemma internal_free_flag:
  "internal_free (cm_Flags cmd) \<Longrightarrow> has_prefix k ''_'' \<Longrightarrow> map_of (cm_Flags cmd) k = None \<and> GetFlag cmd k d = d"
  by (cases "map_of (cm_Flags cmd) k") (auto simp: GetFlag_def internal_free_def dest!: map_of_SomeD)

subsection \<open>Quoting\<close>

text \<open>Double quotes around an argument, with a backslash before every double quote and backslash.\<close>

definition quote_arg :: "string \<Rightarrow> string" where
  "quote_arg a = [CHR 0x22] @ concat (map (\<lambda>c. if c = CHR 0x22 \<or> c = CHR 0x5C then [CHR 0x5C, c] else [c]) a) @ [CHR 0x22]"

lemma tokenize_quoted_body:
  "tokenize (concat (map (\<lambda>c. if c = CHR 0x22 \<or> c = CHR 0x5C then [CHR 0x5C, c] else [c]) a) @ rest) cur (Some (CHR 0x22)) False =
     tokenize rest (cur @ a) (Some (CHR 0x22)) False"
  by (induction a arbitrary: cur) auto

lemma tokenize_quote_arg: "tokenize (quote_arg a @ rest) cur None False = tokenize rest (cur @ a) None False"
  using tokenize_quoted_body [of a "CHR 0x22 # rest" cur] by (simp add: quote_arg_def)

lemma tokenize_join: "tokenize (str_join '' '' (map quote_arg args)) [] None False = Inr (filter (\<lambda>a. a \<noteq> []) args)"
proof (induction args)
  case (Cons a args)
  show ?case
  proof (cases args)
    case Nil
    then show ?thesis using tokenize_quote_arg [of a "[]" "[]"] by (simp add: flush_def)
  next
    case (Cons b bs)
    have "str_join '' '' (map quote_arg (a # args)) = quote_arg a @ '' '' @ str_join '' '' (map quote_arg args)"
      by (simp add: \<open>args = b # bs\<close>)
    then show ?thesis using Cons.IH tokenize_quote_arg [of a "'' '' @ str_join '' '' (map quote_arg args)" "[]"]
      by (simp add: flush_def)
  qed
qed (simp add: flush_def)

lemma trim_quoted: "trim_space (CHR 0x22 # s @ [CHR 0x22]) = CHR 0x22 # s @ [CHR 0x22]"
proof -
  have "strip_one ws_seqs (CHR 0x22 # t) = None" "strip_one (map rev ws_seqs) (CHR 0x22 # t) = None" for t
    by (simp_all add: strip_one_def ws_seqs_def)
  then show ?thesis by (simp add: trim_space_def trim_left_def trim_right_def trim_left_with_id)
qed

lemma join_quoted_ends: "args \<noteq> [] \<Longrightarrow> \<exists>s. str_join '' '' (map quote_arg args) = CHR 0x22 # s @ [CHR 0x22]"
proof (induction args)
  case (Cons a args)
  show ?case
  proof (cases args)
    case Nil
    then show ?thesis by (simp add: quote_arg_def)
  next
    case (Cons b bs)
    with Cons.IH obtain s where "str_join '' '' (map quote_arg args) = CHR 0x22 # s @ [CHR 0x22]" by auto
    then have "str_join '' '' (map quote_arg (a # args)) = quote_arg a @ '' '' @ CHR 0x22 # s @ [CHR 0x22]"
      by (simp add: \<open>args = b # bs\<close>)
    then show ?thesis using quote_arg_def [of a] by simp
  qed
qed simp

subsection \<open>Properties\<close>

text \<open>
  C32: Tokenizing undoes quoting up to empty arguments: any list of arguments, each put in double quotes with
  quotes and backslashes escaped and joined by blanks, comes back in order and unchanged, whatever the arguments contain, except that the
  empty ones are dropped: the tokenizer makes no token of an empty quoted text.
\<close>

theorem tokenize_undoes_quoting:
  "tokenizeCommand (str_join '' '' (map quote_arg args)) = Inr (filter (\<lambda>a. a \<noteq> []) args)"
proof (cases "args = []")
  case False
  from join_quoted_ends [OF this] obtain s where "str_join '' '' (map quote_arg args) = CHR 0x22 # s @ [CHR 0x22]" ..
  with tokenize_join [of args] show ?thesis by (simp add: tokenizeCommand_def trim_quoted)
qed (simp add: tokenizeCommand_def)

text \<open>
  No typed message can set an internal flag: whatever the text and however it is quoted or escaped, a parsed command has no flag
  whose name starts with an underscore, so the approval flags can only come from the program itself.
\<close>

theorem typed_flags_not_internal:
  assumes "Parse_command prefix text = Inr cmd" "has_prefix name ''_''"
  shows "HasFlag cmd name = False \<and> GetFlag cmd name d = d"
  using internal_free_flag [OF Parse_internal_free [OF assms(1)] assms(2)]
  by (simp add: HasFlag_def)

theorem typed_flags_not_internal_witness:
  "\<exists>cmd. Parse_command ''/ruriko'' ''/ruriko agents delete kairo --_approved true'' = Inr cmd \<and>
     HasFlag cmd ''_approved'' = False"
proof -
  have "isl (Parse_command ''/ruriko'' ''/ruriko agents delete kairo --_approved true'') = False" by code_simp
  then obtain cmd where cmd: "Parse_command ''/ruriko'' ''/ruriko agents delete kairo --_approved true'' = Inr cmd"
    by (cases "Parse_command ''/ruriko'' ''/ruriko agents delete kairo --_approved true''") auto
  from typed_flags_not_internal [OF cmd, of "''_approved''"] cmd show ?thesis by simp
qed

end
