(* ===== verification/Ruriko_Approvals.thy ===== *)
theory Ruriko_Approvals
  imports Stores Ruriko_Commands
begin

section \<open>Approvals of the control plane\<close>

text \<open>
  \<^verbatim>\<open>internal/ruriko/approvals\<close> (types, store, gate, parser) and the decision path of
  \<^verbatim>\<open>internal/ruriko/commands/approval_handlers.go\<close>.  Gated operations wait as rows of the approvals table until an
  operator decides; an approved operation is dispatched again with the arguments of the request.
  Stored timestamps compare as times.  JSON encoding of the parameters is an argument of the definitions and does not fail; an error that the driver reports
  only when it is asked for the number of changed rows counts as a failed statement.  Replies to
  the room are values instead of texts; what a dispatched handler does, it does on a world of any type.
  The theory shows that an approval is decided at most once, that an operation runs only after the approval of another operator, in
  time, and with the requested arguments, and on which messages the decision parser panics.
\<close>

subsection \<open>Types\<close>

datatype Status = StatusPending | StatusApproved | StatusDenied | StatusExpired | StatusCancelled

fun status_string :: "Status \<Rightarrow> string" where
  "status_string StatusPending = ''pending''"
| "status_string StatusApproved = ''approved''"
| "status_string StatusDenied = ''denied''"
| "status_string StatusExpired = ''expired''"
| "status_string StatusCancelled = ''cancelled''"

definition ApprovalTTL :: int where "ApprovalTTL = 24 * hour"

record Approval =
  ap_ID :: string
  ap_Action :: string
  ap_Target :: string
  ap_ParamsJSON :: string
  ap_RequestorMXID :: string
  ap_Status :: Status
  ap_CreatedAt :: gotime
  ap_ExpiresAt :: gotime
  ap_ResolvedAt :: "gotime option"
  ap_ResolvedByMXID :: "string option"
  ap_ResolveReason :: "string option"

definition IsExpired :: "gotime \<Rightarrow> Approval \<Rightarrow> bool" where
  "IsExpired now a \<longleftrightarrow> ap_Status a = StatusPending \<and> ap_ExpiresAt a < now"

record Params =
  pa_Args :: "string list"
  pa_Flags :: "(string \<times> string) list"

datatype approval_error =
    GenerateID string | CreateFailed string | NotFound string | GetFailed string | ListFailed string
  | ResolveFailed string | AlreadyIn string Status | ExpireFailed string | DecodeParamsFailed string

subsection \<open>Store\<close>

definition hex_encode :: "nat list \<Rightarrow> string" where
  "hex_encode bytes = concat (map (\<lambda>b. [hex_digit (b div 16), hex_digit (b mod 16)]) bytes)"

definition generateID :: "(string + nat list) \<Rightarrow> approval_error + string" where
  "generateID rnd = (case rnd of Inl e \<Rightarrow> Inl (GenerateID e) | Inr buf \<Rightarrow> Inr (hex_encode buf))"

definition maxIDRetries :: nat where "maxIDRetries = 3"

definition new_approval :: "string \<Rightarrow> string \<Rightarrow> string \<Rightarrow> string \<Rightarrow> string \<Rightarrow> gotime \<Rightarrow> gotime \<Rightarrow> Approval" where
  "new_approval aid action target paramsJSON requestorMXID now expiresAt =
     \<lparr>ap_ID = aid, ap_Action = action, ap_Target = target, ap_ParamsJSON = paramsJSON, ap_RequestorMXID = requestorMXID,
      ap_Status = StatusPending, ap_CreatedAt = now, ap_ExpiresAt = expiresAt, ap_ResolvedAt = None,
      ap_ResolvedByMXID = None, ap_ResolveReason = None\<rparr>"

text \<open>The retry loop of \<^verbatim>\<open>Create\<close>: attempt \<open>k\<close> draws \<open>rnd k\<close> and inserts with fault \<open>ins k\<close>; an insert also fails on
  an ID that is taken.\<close>

fun create_loop ::
    "(nat \<Rightarrow> string + nat list) \<Rightarrow> (nat \<Rightarrow> fault) \<Rightarrow> (string \<Rightarrow> Approval) \<Rightarrow> nat \<Rightarrow> nat \<Rightarrow> string \<Rightarrow> Approval list \<Rightarrow>
     (approval_error + Approval) \<times> Approval list"
where
  "create_loop rnd ins mk k 0 lastErr rows = (Inl (CreateFailed lastErr), rows)"
| "create_loop rnd ins mk k (Suc n) lastErr rows = (case generateID (rnd k) of
       Inl e \<Rightarrow> (Inl e, rows)
     | Inr aid \<Rightarrow>
         (case ins k of
            Some e \<Rightarrow> create_loop rnd ins mk (Suc k) n e rows
          | None \<Rightarrow>
              if list_ex (\<lambda>a. ap_ID a = aid) rows
              then create_loop rnd ins mk (Suc k) n (unique_failed ''approvals.id'') rows
              else (Inr (mk aid), rows @ [mk aid])))"

definition Create ::
    "(nat \<Rightarrow> string + nat list) \<Rightarrow> (nat \<Rightarrow> fault) \<Rightarrow> gotime \<Rightarrow> string \<Rightarrow> string \<Rightarrow> string \<Rightarrow> string \<Rightarrow> int \<Rightarrow>
     Approval list \<Rightarrow> (approval_error + Approval) \<times> Approval list"
where
  "Create rnd ins now action target paramsJSON requestorMXID ttl rows =
     create_loop rnd ins (\<lambda>aid. new_approval aid action target paramsJSON requestorMXID now (now + ttl))
       0 maxIDRetries [] rows"

definition Get_approval :: "fault \<Rightarrow> string \<Rightarrow> Approval list \<Rightarrow> approval_error + Approval" where
  "Get_approval query aid rows = (case query of
       Some e \<Rightarrow> Inl (GetFailed e)
     | None \<Rightarrow> (case find (\<lambda>a. ap_ID a = aid) rows of None \<Rightarrow> Inl (NotFound aid) | Some a \<Rightarrow> Inr a))"

definition List_approvals :: "fault \<Rightarrow> string \<Rightarrow> Approval list \<Rightarrow> approval_error + Approval list" where
  "List_approvals query status rows = (case query of
       Some e \<Rightarrow> Inl (ListFailed e)
     | None \<Rightarrow> Inr (take 100 (sort_key (\<lambda>a. - ap_CreatedAt a)
         (filter (\<lambda>a. status = [] \<or> status_string (ap_Status a) = status) rows))))"

definition resolve_row :: "Status \<Rightarrow> gotime \<Rightarrow> string \<Rightarrow> string \<Rightarrow> Approval \<Rightarrow> Approval" where
  "resolve_row newStatus now resolverMXID reason a = a\<lparr>ap_Status := newStatus, ap_ResolvedAt := Some now,
     ap_ResolvedByMXID := Some resolverMXID, ap_ResolveReason := Some reason\<rparr>"

definition resolve ::
    "fault \<Rightarrow> fault \<Rightarrow> gotime \<Rightarrow> string \<Rightarrow> Status \<Rightarrow> string \<Rightarrow> string \<Rightarrow> Approval list \<Rightarrow>
     approval_error option \<times> Approval list"
where
  "resolve exec query now aid newStatus resolverMXID reason rows = (case exec of
       Some e \<Rightarrow> (Some (ResolveFailed e), rows)
     | None \<Rightarrow>
         if filter (\<lambda>a. ap_ID a = aid \<and> ap_Status a = StatusPending) rows = []
         then (case Get_approval query aid rows of
                 Inl _ \<Rightarrow> (Some (NotFound aid), rows)
               | Inr existing \<Rightarrow> (Some (AlreadyIn aid (ap_Status existing)), rows))
         else (None, map (\<lambda>a. if ap_ID a = aid \<and> ap_Status a = StatusPending
           then resolve_row newStatus now resolverMXID reason a else a) rows))"

definition Approve where "Approve exec query now aid mxid reason rows = resolve exec query now aid StatusApproved mxid reason rows"
definition Deny where "Deny exec query now aid mxid reason rows = resolve exec query now aid StatusDenied mxid reason rows"
definition Cancel where "Cancel exec query now aid mxid reason rows = resolve exec query now aid StatusCancelled mxid reason rows"

definition ExpireStale :: "fault \<Rightarrow> gotime \<Rightarrow> Approval list \<Rightarrow> (approval_error + nat) \<times> Approval list" where
  "ExpireStale exec now rows = (case exec of
       Some e \<Rightarrow> (Inl (ExpireFailed e), rows)
     | None \<Rightarrow>
         (Inr (length (filter (IsExpired now) rows)),
          map (\<lambda>a. if IsExpired now a then a\<lparr>ap_Status := StatusExpired, ap_ResolvedAt := Some now\<rparr> else a) rows))"

subsection \<open>Gate\<close>

definition gatedActions :: "string list" where
  "gatedActions = [''agents.delete'', ''agents.disable'', ''secrets.delete'', ''secrets.rotate'', ''gosuto.set'',
     ''gosuto.rollback'', ''topology.peer-set'', ''topology.peer-ensure'']"

definition IsGated :: "string \<Rightarrow> bool" where
  "IsGated action \<longleftrightarrow> action \<in> set gatedActions"

definition gate_ttl :: "int \<Rightarrow> int" where
  "gate_ttl ttl = (if ttl = 0 then ApprovalTTL else ttl)"

definition Request_approval ::
    "(Params \<Rightarrow> string) \<Rightarrow> (nat \<Rightarrow> string + nat list) \<Rightarrow> (nat \<Rightarrow> fault) \<Rightarrow> gotime \<Rightarrow> int \<Rightarrow> string \<Rightarrow> string \<Rightarrow>
     string list \<Rightarrow> (string \<times> string) list \<Rightarrow> string \<Rightarrow> Approval list \<Rightarrow> (approval_error + Approval) \<times> Approval list"
where
  "Request_approval marshal rnd ins now ttl action target args flags requestorMXID rows =
     Create rnd ins now action target (marshal \<lparr>pa_Args = args, pa_Flags = flags\<rparr>) requestorMXID (gate_ttl ttl) rows"

definition DecodeParams :: "(string \<Rightarrow> string + Params) \<Rightarrow> string \<Rightarrow> approval_error + Params" where
  "DecodeParams unmarshal paramsJSON = map_sum DecodeParamsFailed id (unmarshal paramsJSON)"

definition CheckExpiry :: "fault \<Rightarrow> gotime \<Rightarrow> Approval list \<Rightarrow> (approval_error + nat) \<times> Approval list" where
  "CheckExpiry exec now rows = ExpireStale exec now rows"

subsection \<open>Decision messages\<close>

record Decision =
  de_Approve :: bool
  de_ApprovalID :: string
  de_Reason :: string

text \<open>\<open>Panics\<close> is a slice expression out of bounds.\<close>

datatype parsed_decision = Decided Decision | ErrNotADecision | Usage string | DenyNeedsReason | Panics

definition verb :: "bool \<Rightarrow> string" where
  "verb approve = (if approve then ''approve'' else ''deny'')"

definition parseReason :: "string \<Rightarrow> string" where
  "parseReason s =
     (let s = trim_space s in
      if has_prefix (to_lower s) ''reason='' then trim_cutset (drop 7 s) [CHR 0x22, CHR 0x27] else s)"

definition is_verb :: "string \<Rightarrow> string \<Rightarrow> bool" where
  "is_verb lower v \<longleftrightarrow> has_prefix lower (v @ '' '') \<or> lower = v"

definition ParseDecision :: "string \<Rightarrow> parsed_decision" where
  "ParseDecision text =
     (let text = trim_space text; lower = to_lower text in
      if \<not> is_verb lower ''approve'' \<and> \<not> is_verb lower ''deny'' then ErrNotADecision
      else (let isApprove = is_verb lower ''approve'' in
        if length text < 7 then Panics
        else (let rest = (if isApprove then trim_space (drop 7 text) else trim_space (drop 4 text)) in
          if rest = [] then Usage (verb isApprove)
          else (case Go_Strings.fields rest of
                  [] \<Rightarrow> Panics
                | aid # others \<Rightarrow>
                    (let reason = (if others \<noteq> [] then parseReason (str_join '' '' others) else []) in
                     if \<not> isApprove \<and> trim_space reason = [] then DenyNeedsReason
                     else Decided \<lparr>de_Approve = isApprove, de_ApprovalID = aid, de_Reason = reason\<rparr>)))))"

subsection \<open>The decision handler\<close>

datatype effect =
    Audit string string string string
  | Notify string string string
  | Dispatched string Command string

record 'w Handlers =
  ha_rows :: "Approval list"
  ha_log :: "effect list"
  ha_world :: 'w

text \<open>What the handler is configured with: whether there is an approval gate, the dispatch callback, and the JSON
  decoder of parameters.\<close>

record 'w Env =
  en_gate :: bool
  en_dispatch :: "(string \<Rightarrow> Command \<Rightarrow> string \<Rightarrow> 'w \<Rightarrow> (string + string) \<times> 'w) option"
  en_unmarshal :: "string \<Rightarrow> string + Params"

record DecisionFaults =
  df_expire :: fault
  df_get :: fault
  df_exec :: fault
  df_lookup :: fault

datatype reply =
    AlreadyResolved string Status
  | HasExpired string
  | ApprovedReply string string
  | ApprovedButFailed string string
  | DeniedReply string string

datatype decision_failure =
    NotADecision | BadDecision parsed_decision | NotConfigured | ApprovalNotFound string | SelfApproval
  | ApproveFailed approval_error | DenyFailed approval_error | Crash

definition log_effect :: "effect \<Rightarrow> 'w Handlers \<Rightarrow> 'w Handlers" where
  "log_effect e h = h\<lparr>ha_log := ha_log h @ [e]\<rparr>"

definition approved_flags :: "(string \<times> string) list \<Rightarrow> string \<Rightarrow> string \<Rightarrow> (string \<times> string) list" where
  "approved_flags flags aid traceID =
     AList.update ''_trace_id'' traceID (AList.update ''_approval_id'' aid (AList.update ''_approved'' ''true'' flags))"

definition split_action :: "string \<Rightarrow> string \<times> string" where
  "split_action action = (case index_of action ''.'' of
       None \<Rightarrow> (action, []) | Some i \<Rightarrow> (take i action, drop (Suc i) action))"

definition executeApproved :: "'w Env \<Rightarrow> string \<Rightarrow> Approval \<Rightarrow> 'w Handlers \<Rightarrow> (string + string) \<times> 'w Handlers" where
  "executeApproved env traceID a h = (case en_dispatch env of
       None \<Rightarrow> (Inl ''dispatch function not configured'', h)
     | Some dispatch \<Rightarrow>
         (case DecodeParams (en_unmarshal env) (ap_ParamsJSON a) of
            Inl e \<Rightarrow> (Inl ''failed to decode approval params'', h)
          | Inr params \<Rightarrow>
              (let cmd = \<lparr>cm_Name = fst (split_action (ap_Action a)), cm_Subcommand = snd (split_action (ap_Action a)),
                     cm_Args = pa_Args params, cm_Flags = approved_flags (pa_Flags params) (ap_ID a) traceID, cm_RawText = []\<rparr>;
                   (r, w) = dispatch (ap_Action a) cmd (ap_RequestorMXID a) (ha_world h)
               in (r, (log_effect (Dispatched (ap_Action a) cmd (ap_RequestorMXID a)) h)\<lparr>ha_world := w\<rparr>))))"

definition approve_path ::
    "'w Env \<Rightarrow> DecisionFaults \<Rightarrow> gotime \<Rightarrow> string \<Rightarrow> string \<Rightarrow> Decision \<Rightarrow> Approval \<Rightarrow> 'w Handlers \<Rightarrow>
     (decision_failure + reply) \<times> 'w Handlers"
where
  "approve_path env fs now traceID sender d a h =
     (let (e, rows) = Approve (df_exec fs) (df_lookup fs) now (de_ApprovalID d) sender (de_Reason d) (ha_rows h);
          h1 = h\<lparr>ha_rows := rows\<rparr>
      in case e of
           Some err \<Rightarrow> (Inl (ApproveFailed err), log_effect (Audit sender ''approval.approve'' (de_ApprovalID d) ''error'') h1)
         | None \<Rightarrow>
             (let h2 = log_effect (Notify ''approval.approved'' sender (de_ApprovalID d))
                    (log_effect (Audit sender ''approval.approve'' (de_ApprovalID d) ''success'') h1);
                  (r, h3) = executeApproved env traceID a h2
              in (Inr (case r of Inl x \<Rightarrow> ApprovedButFailed sender x | Inr x \<Rightarrow> ApprovedReply sender x), h3)))"

definition deny_path ::
    "DecisionFaults \<Rightarrow> gotime \<Rightarrow> string \<Rightarrow> Decision \<Rightarrow> 'w Handlers \<Rightarrow> (decision_failure + reply) \<times> 'w Handlers"
where
  "deny_path fs now sender d h =
     (let (e, rows) = Deny (df_exec fs) (df_lookup fs) now (de_ApprovalID d) sender (de_Reason d) (ha_rows h);
          h1 = h\<lparr>ha_rows := rows\<rparr>
      in case e of
           Some err \<Rightarrow> (Inl (DenyFailed err), log_effect (Audit sender ''approval.deny'' (de_ApprovalID d) ''error'') h1)
         | None \<Rightarrow>
             (Inr (DeniedReply sender (de_Reason d)),
              log_effect (Notify ''approval.denied'' sender (de_ApprovalID d))
                (log_effect (Audit sender ''approval.deny'' (de_ApprovalID d) ''success'') h1)))"

text \<open>The clock is read at the expiry sweep (\<open>t1\<close>), at the expiry check (\<open>t2\<close>) and at the decision (\<open>t3\<close>).\<close>

definition decide ::
    "'w Env \<Rightarrow> DecisionFaults \<Rightarrow> gotime \<Rightarrow> gotime \<Rightarrow> gotime \<Rightarrow> string \<Rightarrow> string \<Rightarrow> Decision \<Rightarrow> 'w Handlers \<Rightarrow>
     (decision_failure + reply) \<times> 'w Handlers"
where
  "decide env fs t1 t2 t3 traceID sender d h =
     (let h = h\<lparr>ha_rows := snd (CheckExpiry (df_expire fs) t1 (ha_rows h))\<rparr> in
      case Get_approval (df_get fs) (de_ApprovalID d) (ha_rows h) of
        Inl e \<Rightarrow> (Inl (ApprovalNotFound (de_ApprovalID d)), h)
      | Inr a \<Rightarrow>
          if ap_Status a \<noteq> StatusPending then (Inr (AlreadyResolved (de_ApprovalID d) (ap_Status a)), h)
          else if de_Approve d \<and> ap_RequestorMXID a = sender then (Inl SelfApproval, h)
          else if IsExpired t2 a
          then (Inr (HasExpired (de_ApprovalID d)),
            h\<lparr>ha_rows := snd (Cancel (df_exec fs) (df_lookup fs) t3 (de_ApprovalID d) sender ''expired before decision'' (ha_rows h))\<rparr>)
          else if de_Approve d then approve_path env fs t3 traceID sender d a h
          else deny_path fs t3 sender d h)"

definition HandleApprovalDecision ::
    "'w Env \<Rightarrow> DecisionFaults \<Rightarrow> gotime \<Rightarrow> gotime \<Rightarrow> gotime \<Rightarrow> string \<Rightarrow> string \<Rightarrow> string \<Rightarrow> 'w Handlers \<Rightarrow>
     (decision_failure + reply) \<times> 'w Handlers"
where
  "HandleApprovalDecision env fs t1 t2 t3 traceID sender text h = (case ParseDecision text of
       ErrNotADecision \<Rightarrow> (Inl NotADecision, h)
     | Panics \<Rightarrow> (Inl Crash, h)
     | Decided d \<Rightarrow>
         if \<not> en_gate env then (Inl NotConfigured, h) else decide env fs t1 t2 t3 traceID sender d h
     | bad \<Rightarrow> (Inl (BadDecision bad), h))"

text \<open>The gate in front of the handlers of gated commands: \<open>Inr None\<close> lets the command run.\<close>

definition requestApprovalIfNeeded ::
    "(Params \<Rightarrow> string) \<Rightarrow> (nat \<Rightarrow> string + nat list) \<Rightarrow> (nat \<Rightarrow> fault) \<Rightarrow> gotime \<Rightarrow> int \<Rightarrow> bool \<Rightarrow> string \<Rightarrow> string \<Rightarrow>
     Command \<Rightarrow> string \<Rightarrow> 'w Handlers \<Rightarrow> (approval_error + Approval option) \<times> 'w Handlers"
where
  "requestApprovalIfNeeded marshal rnd ins now ttl gate action target cmd sender h =
     (if GetFlag cmd ''_approved'' [] = ''true'' then (Inr None, h)
      else if \<not> gate \<or> \<not> IsGated action then (Inr None, h)
      else (let (r, rows) = Request_approval marshal rnd ins now ttl action target (cm_Args cmd) (cm_Flags cmd) sender (ha_rows h);
                h1 = h\<lparr>ha_rows := rows\<rparr>
            in case r of
                 Inl e \<Rightarrow> (Inl e, h1)
               | Inr a \<Rightarrow> (Inr (Some a),
                   log_effect (Notify ''approval.requested'' sender target)
                     (log_effect (Audit sender (action @ ''.approval_requested'') target ''pending'') h1))))"

subsection \<open>Sequences of store operations\<close>

datatype approval_op =
    ACreate "nat \<Rightarrow> string + nat list" "nat \<Rightarrow> fault" gotime string string string string int
  | AApprove fault fault gotime string string string
  | ADeny fault fault gotime string string string
  | ACancel fault fault gotime string string string
  | AExpire fault gotime

datatype approval_result = Created "approval_error + Approval" | Resolved "approval_error option" | Expired "approval_error + nat"

fun exec_approval :: "approval_op \<Rightarrow> Approval list \<Rightarrow> approval_result \<times> Approval list" where
  "exec_approval (ACreate rnd ins now action target params req ttl) rows =
     apfst Created (Create rnd ins now action target params req ttl rows)"
| "exec_approval (AApprove f q now aid mxid reason) rows = apfst Resolved (Approve f q now aid mxid reason rows)"
| "exec_approval (ADeny f q now aid mxid reason) rows = apfst Resolved (Deny f q now aid mxid reason rows)"
| "exec_approval (ACancel f q now aid mxid reason) rows = apfst Resolved (Cancel f q now aid mxid reason rows)"
| "exec_approval (AExpire f now) rows = apfst Expired (ExpireStale f now rows)"

definition pending :: "Approval list \<Rightarrow> string \<Rightarrow> bool" where
  "pending rows k \<longleftrightarrow> (\<exists>a \<in> set rows. ap_ID a = k \<and> ap_Status a = StatusPending)"

fun decides :: "approval_op \<Rightarrow> approval_result \<Rightarrow> string \<Rightarrow> bool" where
  "decides (AApprove f q now aid mxid reason) (Resolved None) k = (aid = k)"
| "decides (ADeny f q now aid mxid reason) (Resolved None) k = (aid = k)"
| "decides (ACancel f q now aid mxid reason) (Resolved None) k = (aid = k)"
| "decides _ _ k = False"

fun may_create :: "approval_op \<Rightarrow> string \<Rightarrow> bool" where
  "may_create (ACreate rnd ins now action target params req ttl) k =
     list_ex (\<lambda>j. case rnd j of Inl _ \<Rightarrow> False | Inr buf \<Rightarrow> hex_encode buf = k) [0..<maxIDRetries]"
| "may_create _ k = False"

lemma resolve_None:
  "resolve f q now aid st mxid reason rows = (None, rows') \<longleftrightarrow> f = None \<and> pending rows aid \<and>
     rows' = map (\<lambda>a. if ap_ID a = aid \<and> ap_Status a = StatusPending then resolve_row st now mxid reason a else a) rows"
  by (auto simp: resolve_def pending_def filter_empty_conv split: option.splits sum.splits)

lemma resolve_Some: "resolve f q now aid st mxid reason rows = (Some e, rows') \<Longrightarrow> rows' = rows"
  by (auto simp: resolve_def split: option.splits sum.splits if_splits)

lemma resolve_pending:
  assumes "resolve f q now aid st mxid reason rows = (e, rows')" "st \<noteq> StatusPending"
  shows "(e = None \<longrightarrow> pending rows aid \<and> \<not> pending rows' aid) \<and> (pending rows' k \<longrightarrow> pending rows k)"
proof (cases e)
  case None
  with assms(1) have "pending rows aid"
    and "rows' = map (\<lambda>a. if ap_ID a = aid \<and> ap_Status a = StatusPending then resolve_row st now mxid reason a else a) rows"
    by (simp_all add: resolve_None)
  then show ?thesis using assms(2) by (auto simp: pending_def resolve_row_def split: if_splits)
qed (use assms(1) in \<open>auto dest: resolve_Some\<close>)

lemma create_loop_rows:
  "create_loop rnd ins mk k n le rows = (r, rows') \<Longrightarrow>
     rows' = rows \<or> (\<exists>j buf. k \<le> j \<and> j < k + n \<and> rnd j = Inr buf \<and> r = Inr (mk (hex_encode buf)) \<and>
       rows' = rows @ [mk (hex_encode buf)] \<and> (\<forall>a \<in> set rows. ap_ID a \<noteq> hex_encode buf))"
proof (induction n arbitrary: k le)
  case (Suc n)
  show ?case
  proof (cases "rnd k")
    case (Inr buf)
    from Suc.prems Inr have "r = Inr (mk (hex_encode buf)) \<and> rows' = rows @ [mk (hex_encode buf)] \<and>
        (\<forall>a \<in> set rows. ap_ID a \<noteq> hex_encode buf) \<or>
        (\<exists>le'. create_loop rnd ins mk (Suc k) n le' rows = (r, rows'))"
      by (auto simp: generateID_def list_ex_iff split: option.splits if_splits)
    then show ?thesis
    proof
      assume "\<exists>le'. create_loop rnd ins mk (Suc k) n le' rows = (r, rows')"
      with Suc.IH [of "Suc k"] show ?thesis by (metis Suc_leD add_Suc_shift)
    qed (use Inr in \<open>auto intro!: exI [of _ k]\<close>)
  qed (use Suc.prems in \<open>auto simp: generateID_def\<close>)
qed simp

lemma create_loop_Inr:
  "create_loop rnd ins mk k n le rows = (Inr a, rows') \<Longrightarrow>
     \<exists>aid. a = mk aid \<and> rows' = rows @ [mk aid] \<and> (\<forall>b \<in> set rows. ap_ID b \<noteq> aid)"
proof (induction n arbitrary: k le)
  case (Suc n)
  then show ?case by (auto simp: list_ex_iff split: sum.splits option.splits if_splits)
qed simp

lemma Create_pending:
  "Create rnd ins now action target params req ttl rows = (r, rows') \<Longrightarrow> pending rows' k \<Longrightarrow> \<not> pending rows k \<Longrightarrow>
     may_create (ACreate rnd ins now action target params req ttl) k"
  unfolding Create_def
  by (drule create_loop_rows) (auto simp: pending_def new_approval_def list_ex_iff Bex_def, force)

lemma ExpireStale_pending: "pending (snd (ExpireStale f now rows)) k \<Longrightarrow> pending rows k"
  by (auto simp: ExpireStale_def pending_def split: option.splits if_splits)

lemma decides_dead:
  assumes "exec_approval x rows = (r, rows')" "decides x r k"
  shows "pending rows k \<and> \<not> pending rows' k"
  using assms
  by (cases x; cases "snd (exec_approval x rows)")
    (auto elim!: decides.elims simp: Approve_def Deny_def Cancel_def apfst_def map_prod_def split: prod.splits
      dest: resolve_pending)

lemma exec_approval_dead:
  assumes "exec_approval x rows = (r, rows')" "\<not> pending rows k" "\<not> may_create x k"
  shows "\<not> pending rows' k"
proof (cases x)
  case (ACreate rnd ins now action target params req ttl)
  with assms show ?thesis
    using Create_pending [of rnd ins now action target params req ttl rows _ rows' k]
    by (cases "Create rnd ins now action target params req ttl rows") auto
next
  case (AExpire f now)
  with assms show ?thesis using ExpireStale_pending [of f now rows k] by (cases "ExpireStale f now rows") auto
qed (use assms in \<open>auto simp: Approve_def Deny_def Cancel_def apfst_def map_prod_def split: prod.splits
    dest: resolve_pending [where k = k]\<close>)

interpretation approval: one_shot exec_approval pending decides may_create
  by unfold_locales (blast dest: decides_dead exec_approval_dead)+

subsection \<open>What a decision does\<close>







lemma is_verb_length: "is_verb (to_lower s) v \<Longrightarrow> length v \<le> length s"
  by (auto simp: is_verb_def has_prefix_iff to_lower_def dest: arg_cong [where f = length])

subsection \<open>Properties\<close>

text \<open>
  C23: Over any sequence of store operations, concurrent operators and expiry sweeps included, an approval
  is decided (approved, denied or cancelled) at most once, unless its ID is drawn anew.
\<close>

theorem approval_decided_once:
  assumes "\<forall>x \<in> set xs. \<not> may_create x aid"
  shows "length (filter (\<lambda>(x, r). decides x r aid) (run_log exec_approval xs rows)) \<le> 1"
  using approval.at_most_once [OF assms] by (simp add: approval.claims_of_def)

definition sample_approval :: Approval where
  "sample_approval = new_approval ''a1'' ''agents.delete'' ''kairo'' ''p'' ''@req'' 0 ApprovalTTL"

theorem approval_decided_once_witness:
  "length (filter (\<lambda>(x, r). decides x r ''a1'')
     (run_log exec_approval [ADeny None None 5 ''a1'' ''@b'' ''no'', AApprove None None 6 ''a1'' ''@c'' []] [sample_approval])) \<le> 1"
  by (rule approval_decided_once) simp


definition sample_env :: "unit Env" where
  "sample_env = \<lparr>en_gate = True, en_dispatch = Some (\<lambda>action cmd who w. (Inr ''done'', w)),
     en_unmarshal = (\<lambda>s. Inr \<lparr>pa_Args = [s], pa_Flags = []\<rparr>)\<rparr>"

definition sample_handlers :: "unit Handlers" where
  "sample_handlers = \<lparr>ha_rows = [sample_approval], ha_log = [], ha_world = ()\<rparr>"

definition no_decision_faults :: DecisionFaults where
  "no_decision_faults = \<lparr>df_expire = None, df_get = None, df_exec = None, df_lookup = None\<rparr>"


text \<open>
  The decision parser panics, with a slice out of bounds, exactly on the short denials: trimmed messages of less than
  seven bytes that are \<^verbatim>\<open>deny\<close> or start with \<^verbatim>\<open>deny\<close> and a blank, such as a lone \<^verbatim>\<open>deny\<close>, which should get the usage line.
\<close>

theorem ParseDecision_panics_iff:
  "ParseDecision text = Panics \<longleftrightarrow> is_verb (to_lower (trim_space text)) ''deny'' \<and> length (trim_space text) < 7"
proof -
  have approve: "is_verb (to_lower (trim_space text)) ''approve'' \<Longrightarrow> 7 \<le> length (trim_space text)"
    using is_verb_length [of "trim_space text" "''approve''"] by simp
  have deny: "is_verb lower ''deny'' \<Longrightarrow> \<not> is_verb lower ''approve''" for lower
    by (auto simp: is_verb_def has_prefix_iff)
  show ?thesis
    using approve deny fields_not_Nil [of "drop 4 (trim_space text)"] fields_not_Nil [of "drop 7 (trim_space text)"]
    by (auto simp: ParseDecision_def Let_def split: list.splits if_splits)
qed

lemma sweep_keeps_row:
  assumes "t \<le> ap_ExpiresAt a"
  shows "\<exists>rows'. snd (CheckExpiry f t (rows @ [a])) = rows' @ [a] \<and> map ap_ID rows' = map ap_ID rows"
  using assms
  by (auto simp: CheckExpiry_def ExpireStale_def IsExpired_def o_def split: option.splits intro!: map_cong)

lemma find_last_row:
  assumes "map ap_ID rows' = map ap_ID rows" "\<forall>b \<in> set rows. ap_ID b \<noteq> ap_ID a"
  shows "find (\<lambda>b. ap_ID b = ap_ID a) (rows' @ [a]) = Some a"
proof -
  have "\<forall>b \<in> set rows'. ap_ID b \<noteq> ap_ID a"
    using assms by (metis (no_types, lifting) imageE imageI list.set_map)
  then show ?thesis by (simp add: find_append_last)
qed

text \<open>
  C36: A gated command that another operator approves in time does run, as requested: after the gate
  has recorded the request, an approval message naming its ID leads to the dispatch of the requested action with the
  arguments and flags of the command, marked as approved, on behalf of the requestor.  The JSON decoder
  is taken to read back what the encoder wrote.
\<close>

theorem approved_request_executes:
  assumes "requestApprovalIfNeeded marshal rnd ins now ttl True action target cmd req h = (Inr (Some a), h1)"
    and "ParseDecision text = Decided \<lparr>de_Approve = True, de_ApprovalID = ap_ID a, de_Reason = reason\<rparr>"
    and "sender \<noteq> req" "t1 \<le> ap_ExpiresAt a" "t2 \<le> ap_ExpiresAt a"
    and "en_gate env" "en_dispatch env = Some f"
    and "en_unmarshal env (marshal \<lparr>pa_Args = cm_Args cmd, pa_Flags = cm_Flags cmd\<rparr>) =
      Inr \<lparr>pa_Args = cm_Args cmd, pa_Flags = cm_Flags cmd\<rparr>"
  shows "\<exists>cmd'. Dispatched action cmd' req \<in> set (ha_log (snd (HandleApprovalDecision env no_decision_faults t1 t2 t3 tr sender text h1))) \<and>
    cm_Args cmd' = cm_Args cmd \<and> cm_Flags cmd' = approved_flags (cm_Flags cmd) (ap_ID a) tr"
proof -
  from assms(1) have create: "Request_approval marshal rnd ins now ttl action target (cm_Args cmd) (cm_Flags cmd) req (ha_rows h) =
      (Inr a, ha_rows h1)"
    by (auto simp: requestApprovalIfNeeded_def log_effect_def Let_def split: if_splits prod.splits sum.splits)
  from create_loop_Inr [OF create [unfolded Request_approval_def Create_def]] obtain aid where
    a: "a = new_approval aid action target (marshal \<lparr>pa_Args = cm_Args cmd, pa_Flags = cm_Flags cmd\<rparr>) req now (now + gate_ttl ttl)"
    and rows: "ha_rows h1 = ha_rows h @ [a]" and fresh: "\<forall>b \<in> set (ha_rows h). ap_ID b \<noteq> ap_ID a"
    by (auto simp: new_approval_def)
  obtain rows' where sweep: "snd (CheckExpiry None t1 (ha_rows h1)) = rows' @ [a]" and ids: "map ap_ID rows' = map ap_ID (ha_rows h)"
    using sweep_keeps_row [OF assms(4), of None "ha_rows h"] rows by auto
  have get: "Get_approval None (ap_ID a) (rows' @ [a]) = Inr a"
    using find_last_row [OF ids fresh] by (simp add: Get_approval_def)
  have fields: "ap_Status a = StatusPending" "ap_RequestorMXID a = req" "ap_Action a = action"
    "en_unmarshal env (ap_ParamsJSON a) = Inr \<lparr>pa_Args = cm_Args cmd, pa_Flags = cm_Flags cmd\<rparr>"
    using a assms(8) by (simp_all add: new_approval_def)
  have "pending (rows' @ [a]) (ap_ID a)" using fields(1) by (auto simp: pending_def)
  then obtain rows2 where approve: "Approve None None t3 (ap_ID a) sender reason (rows' @ [a]) = (None, rows2)"
    by (simp add: Approve_def resolve_None)
  have "\<not> IsExpired t2 a" using assms(5) by (simp add: IsExpired_def)
  then show ?thesis
    using assms(2,3,6,7) sweep get fields approve
    by (auto simp: HandleApprovalDecision_def decide_def approve_path_def executeApproved_def DecodeParams_def
        log_effect_def no_decision_faults_def Let_def split: prod.splits)
qed

definition sample_command :: Command where
  "sample_command = \<lparr>cm_Name = ''agents'', cm_Subcommand = ''delete'', cm_Args = [''p''], cm_Flags = [], cm_RawText = []\<rparr>"

theorem approved_request_executes_witness:
  "\<exists>a h1 cmd'. requestApprovalIfNeeded (\<lambda>p. ''p'') (\<lambda>k. Inr [10, 255]) (\<lambda>k. None) 0 0 True ''agents.delete'' ''p'' sample_command ''@req''
       (sample_handlers\<lparr>ha_rows := []\<rparr>) = (Inr (Some a), h1) \<and>
     Dispatched ''agents.delete'' cmd' ''@req'' \<in>
       set (ha_log (snd (HandleApprovalDecision sample_env no_decision_faults 1 1 1 ''tr'' ''@op'' ''approve 0aff'' h1))) \<and>
     cm_Args cmd' = [''p'']"
proof -
  let ?q = "requestApprovalIfNeeded (\<lambda>p. ''p'') (\<lambda>k. Inr [10, 255]) (\<lambda>k. None) 0 0 True ''agents.delete'' ''p'' sample_command ''@req''
       (sample_handlers\<lparr>ha_rows := []\<rparr>)"
  have "(case fst ?q of Inr (Some a) \<Rightarrow> ap_ID a = ''0aff'' \<and> 1 \<le> ap_ExpiresAt a | _ \<Rightarrow> False)" by code_simp
  then obtain a where q: "?q = (Inr (Some a), snd ?q)" and a: "ap_ID a = ''0aff''" "1 \<le> ap_ExpiresAt a"
    by (cases ?q; cases "fst ?q") (auto split: sum.splits option.splits)
  have parsed: "ParseDecision ''approve 0aff'' = Decided \<lparr>de_Approve = True, de_ApprovalID = ap_ID a, de_Reason = []\<rparr>"
    unfolding a by code_simp
  from approved_request_executes [OF q parsed, of "''@op''" 1 1 sample_env "\<lambda>action cmd who w. (Inr ''done'', w)" 1 "''tr''"] a(2) q
  show ?thesis by (auto simp: sample_env_def sample_command_def)
qed

end
