(* ===== verification/Gitai_Approvals.thy ===== *)
theory Gitai_Approvals
  imports Stores
begin

section \<open>Approvals on the agent\<close>

text \<open>
  \<^verbatim>\<open>internal/gitai/approvals/approvals.go\<close> and the approval table of \<^verbatim>\<open>internal/gitai/store/store.go\<close>: a tool call that needs
  approval is recorded, and the agent polls until it is decided, times out or the context ends.
  What happens while it polls is a list of events: ticks of the poll timer, the timeout, the end of the context, and the
  decisions that the control plane records in the table.  \<open>None\<close> is a request that is still waiting when the events end.
  The theory shows that the gate opens only on a recorded approval, that it fails safe on a deadline, and that a second request of
  one trace is always refused.
\<close>

record ApprovalRow =
  ar_approval_id :: string
  ar_trace_id :: string
  ar_room_id :: string
  ar_action :: string
  ar_target :: string
  ar_params_json :: string
  ar_status :: string
  ar_requestor_mxid :: string
  ar_expires_at :: gotime
  ar_decided_by :: "string option"
  ar_decision_reason :: "string option"

definition nullableString :: "string \<Rightarrow> string option" where
  "nullableString s = (if s = [] then None else Some s)"

datatype gate_error =
    SaveApprovalFailed string
  | PollFailed string
  | OperationDenied string string
  | ContextDone

subsection \<open>Table\<close>

definition SaveApproval ::
    "fault \<Rightarrow> string \<Rightarrow> string \<Rightarrow> string \<Rightarrow> string \<Rightarrow> string \<Rightarrow> string \<Rightarrow> string \<Rightarrow> gotime \<Rightarrow> ApprovalRow list \<Rightarrow>
     string option \<times> ApprovalRow list"
where
  "SaveApproval ins approvalID traceID roomID action target paramsJSON requestorMXID expiresAt rows = (case ins of
       Some e \<Rightarrow> (Some e, rows)
     | None \<Rightarrow>
         if list_ex (\<lambda>r. ar_approval_id r = approvalID) rows then (Some (unique_failed ''approvals.approval_id''), rows)
         else (None, rows @ [\<lparr>ar_approval_id = approvalID, ar_trace_id = traceID, ar_room_id = roomID, ar_action = action,
           ar_target = target, ar_params_json = paramsJSON, ar_status = ''pending'', ar_requestor_mxid = requestorMXID,
           ar_expires_at = expiresAt, ar_decided_by = None, ar_decision_reason = None\<rparr>]))"

definition SetApprovalStatus ::
    "fault \<Rightarrow> string \<Rightarrow> string \<Rightarrow> string \<Rightarrow> string \<Rightarrow> ApprovalRow list \<Rightarrow> string option \<times> ApprovalRow list"
where
  "SetApprovalStatus exec approvalID status decidedBy reason rows = (case exec of
       Some e \<Rightarrow> (Some e, rows)
     | None \<Rightarrow> (None, map (\<lambda>r. if ar_approval_id r = approvalID
         then r\<lparr>ar_status := status, ar_decided_by := nullableString decidedBy, ar_decision_reason := nullableString reason\<rparr>
         else r) rows))"

definition GetApprovalStatus ::
    "fault \<Rightarrow> fault \<Rightarrow> gotime \<Rightarrow> string \<Rightarrow> ApprovalRow list \<Rightarrow> (string + string) \<times> ApprovalRow list"
where
  "GetApprovalStatus query exec now approvalID rows = (case query of
       Some e \<Rightarrow> (Inl e, rows)
     | None \<Rightarrow>
         (case find (\<lambda>r. ar_approval_id r = approvalID) rows of
            None \<Rightarrow> (Inl (''approval '' @ go_quote approvalID @ '' not found''), rows)
          | Some r \<Rightarrow>
              if ar_status r = ''pending'' \<and> ar_expires_at r < now
              then (Inr ''expired'', snd (SetApprovalStatus exec approvalID ''expired'' [] ''TTL exceeded'' rows))
              else (Inr (ar_status r), rows)))"

subsection \<open>Gate\<close>

datatype gate_event =
    Tick gotime fault fault fault
  | Timeout fault
  | CtxDone
  | Recorded string string string string

definition RecordDecision ::
    "fault \<Rightarrow> string \<Rightarrow> string \<Rightarrow> string \<Rightarrow> string \<Rightarrow> ApprovalRow list \<Rightarrow> string option \<times> ApprovalRow list"
where
  "RecordDecision exec approvalID status decidedBy reason rows = SetApprovalStatus exec approvalID status decidedBy reason rows"

definition deny :: "fault \<Rightarrow> string \<Rightarrow> string \<Rightarrow> ApprovalRow list \<Rightarrow> gate_error option \<times> ApprovalRow list" where
  "deny exec approvalID reason rows =
     (Some (OperationDenied approvalID reason), snd (SetApprovalStatus exec approvalID ''denied'' ''ruriko'' reason rows))"

definition on_tick ::
    "gotime \<Rightarrow> fault \<Rightarrow> fault \<Rightarrow> fault \<Rightarrow> string \<Rightarrow> ApprovalRow list \<Rightarrow> (gate_error option \<times> ApprovalRow list) option \<times> ApprovalRow list"
where
  "on_tick now query exec exec2 approvalID rows =
     (let (r, rows') = GetApprovalStatus query exec now approvalID rows in
      (case r of
         Inl e \<Rightarrow> Some (Some (PollFailed e), rows')
       | Inr status \<Rightarrow>
           if status = ''approved'' then Some (None, rows')
           else if status = ''denied'' then Some (Some (OperationDenied approvalID ''denied''), rows')
           else if status = ''expired'' then Some (deny exec2 approvalID ''timeout'' rows')
           else if status = ''pending'' then None
           else Some (deny exec2 approvalID ''invalid decision state'' rows'), rows'))"

fun poll_gate :: "string \<Rightarrow> gate_event list \<Rightarrow> ApprovalRow list \<Rightarrow> (gate_error option \<times> ApprovalRow list) option" where
  "poll_gate aid [] rows = None"
| "poll_gate aid (CtxDone # es) rows = Some (Some ContextDone, rows)"
| "poll_gate aid (Timeout exec # es) rows = Some (deny exec aid ''timeout'' rows)"
| "poll_gate aid (Recorded i status who reason # es) rows = poll_gate aid es (snd (RecordDecision None i status who reason rows))"
| "poll_gate aid (Tick now query exec exec2 # es) rows = (case on_tick now query exec exec2 aid rows of
       (Some r, _) \<Rightarrow> Some r
     | (None, rows') \<Rightarrow> poll_gate aid es rows')"

definition gate_defaultTTL :: int where "gate_defaultTTL = 60 * minute"

text \<open>\<open>traceID\<close> is the trace of the context, \<open>generated\<close> the one drawn when it has none.\<close>

definition Request_gate ::
    "(gmap \<Rightarrow> string) \<Rightarrow> fault \<Rightarrow> gotime \<Rightarrow> string \<Rightarrow> string \<Rightarrow> string \<Rightarrow> string \<Rightarrow> string \<Rightarrow> string \<Rightarrow> gmap \<Rightarrow> int \<Rightarrow>
     gate_event list \<Rightarrow> ApprovalRow list \<Rightarrow> (gate_error option \<times> ApprovalRow list) option"
where
  "Request_gate marshal ins now traceID generated approvalsRoom requestorMXID action target params ttl events rows =
     (let ttl = (if ttl = 0 then gate_defaultTTL else ttl);
          traceID = (if traceID = [] then generated else traceID);
          approvalID = ''appr_'' @ traceID;
          paramsJSON = (if length params > 0 then marshal params else []);
          (e, rows') = SaveApproval ins approvalID traceID approvalsRoom action target paramsJSON requestorMXID (now + ttl) rows
      in case e of
           Some err \<Rightarrow> Some (Some (SaveApprovalFailed err), rows')
         | None \<Rightarrow> poll_gate approvalID events rows')"

subsection \<open>When the gate opens\<close>

definition status_of :: "string \<Rightarrow> ApprovalRow list \<Rightarrow> string option" where
  "status_of aid rows = map_option ar_status (find (\<lambda>r. ar_approval_id r = aid) rows)"

lemma SetApprovalStatus_find:
  "find (\<lambda>r. ar_approval_id r = aid) (snd (SetApprovalStatus exec i status who reason rows)) =
     map_option (\<lambda>r. if exec = None \<and> i = aid
       then r\<lparr>ar_status := status, ar_decided_by := nullableString who, ar_decision_reason := nullableString reason\<rparr> else r)
       (find (\<lambda>r. ar_approval_id r = aid) rows)"
proof (cases exec)
  case None
  then show ?thesis by (induction rows) (auto simp: SetApprovalStatus_def)
qed (simp add: SetApprovalStatus_def option.map_ident)

lemma status_of_set:
  "status_of aid (snd (SetApprovalStatus exec i status who reason rows)) =
     (if exec = None \<and> i = aid then map_option (\<lambda>_. status) (status_of aid rows) else status_of aid rows)"
  by (auto simp: status_of_def SetApprovalStatus_find option.map_comp o_def option.map_ident)

lemma on_tick_approved:
  "on_tick now query exec exec2 aid rows = (Some (None, rows'), rows'') \<Longrightarrow> status_of aid rows = Some ''approved''"
  by (auto simp: on_tick_def GetApprovalStatus_def status_of_def deny_def
      split: prod.splits sum.splits option.splits if_splits)

lemma on_tick_waits: "on_tick now query exec exec2 aid rows = (None, rows') \<Longrightarrow> rows' = rows"
  by (auto simp: on_tick_def GetApprovalStatus_def split: prod.splits sum.splits option.splits if_splits)

lemma poll_opens:
  assumes "poll_gate aid es rows = Some (None, rows')" "status_of aid rows \<noteq> Some ''approved''"
  shows "\<exists>who reason. Recorded aid ''approved'' who reason \<in> set es"
  using assms
proof (induction aid es rows rule: poll_gate.induct)
  case (4 aid i status who reason es rows)
  show ?case
  proof (cases "i = aid \<and> status = ''approved''")
    case False
    then have "status_of aid (snd (RecordDecision None i status who reason rows)) \<noteq> Some ''approved''"
      using 4(3) by (auto simp: RecordDecision_def status_of_set)
    with 4(1,2) show ?thesis by auto
  qed auto
next
  case (5 aid now query exec exec2 es rows)
  obtain r rows1 where t: "on_tick now query exec exec2 aid rows = (r, rows1)" by fastforce
  show ?case
  proof (cases r)
    case None
    with t 5 on_tick_waits [of now query exec exec2 aid rows rows1] show ?thesis by auto
  next
    case (Some p)
    with t 5(2) have "on_tick now query exec exec2 aid rows = (Some (None, rows'), rows1)" by simp
    from on_tick_approved [OF this] 5(3) show ?thesis by simp
  qed
qed (auto simp: deny_def)

lemma poll_answers:
  assumes "\<exists>e \<in> set es. e = CtxDone \<or> (\<exists>f. e = Timeout f)"
  shows "poll_gate aid es rows \<noteq> None"
  using assms
  by (induction aid es rows rule: poll_gate.induct) (auto split: prod.splits option.splits)

lemma Request_gate_cases:
  assumes "Request_gate marshal ins now traceID generated room req action target params ttl es rows = res"
  shows "(\<forall>rows'. res = Some (None, rows') \<longrightarrow>
      (\<exists>who reason. Recorded (''appr_'' @ (if traceID = [] then generated else traceID)) ''approved'' who reason \<in> set es)) \<and>
    ((\<exists>e \<in> set es. e = CtxDone \<or> (\<exists>f. e = Timeout f)) \<longrightarrow> res \<noteq> None)"
proof -
  let ?t = "if traceID = [] then generated else traceID"
  let ?aid = "''appr_'' @ ?t"
  let ?ttl = "if ttl = 0 then gate_defaultTTL else ttl"
  let ?p = "if length params > 0 then marshal params else []"
  obtain e rows1 where save: "SaveApproval ins ?aid ?t room action target ?p req (now + ?ttl) rows = (e, rows1)"
    by (cases "SaveApproval ins ?aid ?t room action target ?p req (now + ?ttl) rows")
  have res: "res = (case e of Some err \<Rightarrow> Some (Some (SaveApprovalFailed err), rows1) | None \<Rightarrow> poll_gate ?aid es rows1)"
    using assms save unfolding Request_gate_def Let_def by simp
  have new: "status_of ?aid rows1 = Some ''pending''" if "e = None"
  proof -
    from save that have fresh: "\<forall>r \<in> set rows. ar_approval_id r \<noteq> ?aid"
      and rows1: "\<exists>r. rows1 = rows @ [r] \<and> ar_approval_id r = ?aid \<and> ar_status r = ''pending''"
      by (auto simp: SaveApproval_def list_ex_iff split: option.splits if_splits)
    from rows1 obtain r where "rows1 = rows @ [r]" "ar_approval_id r = ?aid" "ar_status r = ''pending''" by blast
    with fresh have "find (\<lambda>r. ar_approval_id r = ?aid) rows1 = Some r" by (simp only: find_append_last)
    with \<open>ar_status r = ''pending''\<close> show ?thesis by (simp add: status_of_def)
  qed
  show ?thesis
    using res new poll_opens [of ?aid es rows1] poll_answers [of es ?aid rows1] by (cases e) auto
qed

subsection \<open>Properties\<close>

text \<open>
  C22: The gate of the agent fails safe: it opens only if the control plane has recorded the decision
  \<^verbatim>\<open>approved\<close> for this very request while it was waiting, and it always answers once the timeout fires or the context ends.
\<close>

theorem gate_fails_safe:
  assumes "Request_gate marshal ins now traceID generated room req action target params ttl es rows = res"
  shows "(\<forall>rows'. res = Some (None, rows') \<longrightarrow>
      (\<exists>who reason. Recorded (''appr_'' @ (if traceID = [] then generated else traceID)) ''approved'' who reason \<in> set es)) \<and>
    ((\<exists>e \<in> set es. e = CtxDone \<or> (\<exists>f. e = Timeout f)) \<longrightarrow> res \<noteq> None)"
  using Request_gate_cases [OF assms] by blast

definition sample_events :: "gate_event list" where
  "sample_events = [Tick 1 None None None, Recorded ''appr_t1'' ''approved'' ''@op'' [], Tick 2 None None None, CtxDone]"

theorem gate_fails_safe_witness:
  "(\<exists>rows'. Request_gate (\<lambda>p. []) None 0 ''t1'' [] ''!r'' ''@u'' ''tool.call'' ''x'' [] 0 sample_events [] = Some (None, rows')) \<and>
   (\<exists>who reason. Recorded ''appr_t1'' ''approved'' who reason \<in> set sample_events)"
proof -
  have "(case Request_gate (\<lambda>p. []) None 0 ''t1'' [] ''!r'' ''@u'' ''tool.call'' ''x'' [] 0 sample_events [] of
      Some (None, _) \<Rightarrow> True | _ \<Rightarrow> False)" by code_simp
  then obtain rows' where "Request_gate (\<lambda>p. []) None 0 ''t1'' [] ''!r'' ''@u'' ''tool.call'' ''x'' [] 0 sample_events [] =
      Some (None, rows')"
    by (auto split: option.splits)
  with gate_fails_safe [OF this] show ?thesis by auto
qed

text \<open>
  Approval IDs are made from the trace ID, and a turn has one trace: once a request of a trace is
  in the table, in whatever state, every further request of the same trace is refused at once, whether or not an operator would approve it.
\<close>

theorem second_request_of_trace_refused:
  assumes "\<exists>r \<in> set rows. ar_approval_id r = ''appr_'' @ traceID" "traceID \<noteq> []"
  shows "Request_gate marshal None now traceID generated room req action target params ttl es rows =
    Some (Some (SaveApprovalFailed (unique_failed ''approvals.approval_id'')), rows)"
  using assms by (auto simp: Request_gate_def SaveApproval_def list_ex_iff Let_def)

theorem second_request_of_trace_refused_witness:
  "\<exists>rows. fst (SaveApproval None ''appr_t1'' ''t1'' ''!r'' ''tool.call'' ''x'' [] ''@u'' 0 []) = None \<and>
     rows = snd (SaveApproval None ''appr_t1'' ''t1'' ''!r'' ''tool.call'' ''x'' [] ''@u'' 0 []) \<and>
     Request_gate (\<lambda>p. []) None 5 ''t1'' [] ''!r'' ''@u'' ''tool.call'' ''y'' [] 0 sample_events rows =
       Some (Some (SaveApprovalFailed (unique_failed ''approvals.approval_id'')), rows)"
  using second_request_of_trace_refused [of "snd (SaveApproval None ''appr_t1'' ''t1'' ''!r'' ''tool.call'' ''x'' [] ''@u'' 0 [])" "''t1''"]
  by (simp add: SaveApproval_def)

end
