(* ===== verification/Cron.thy ===== *)
theory Cron
  imports Gosuto_Types
begin

section \<open>Cron schedules\<close>

text \<open>
  \<^verbatim>\<open>internal/gitai/gateway/cron.go\<close>: the parser of cron expressions, the search for the next tick, and the manager
  that keeps the running cron jobs in line with the configuration.
  Times are instants; \<open>off\<close> gives the offset of the local zone at an instant, since the fields of the
  clock are read in local time.  Integers are 64 bits wide where the source can make them overflow: the
  loop that expands a step is given fuel, and the fuel is proved to be enough.
  The fraction of a duration is computed exactly (the source uses floats).
\<close>

subsection \<open>Durations\<close>

text \<open>\<^verbatim>\<open>time.ParseDuration\<close>.\<close>

fun leadingInt :: "nat \<Rightarrow> string \<Rightarrow> (nat \<times> string) option" where
  "leadingInt x [] = Some (x, [])"
| "leadingInt x (c # s) = (case digit_val c of
       None \<Rightarrow> Some (x, c # s)
     | Some d \<Rightarrow>
         if 2 ^ 63 div 10 < x then None
         else if 2 ^ 63 < 10 * x + d then None
         else leadingInt (10 * x + d) s)"

fun leadingFraction :: "nat \<Rightarrow> nat \<Rightarrow> bool \<Rightarrow> string \<Rightarrow> nat \<times> nat \<times> string" where
  "leadingFraction x scale overflow [] = (x, scale, [])"
| "leadingFraction x scale overflow (c # s) = (case digit_val c of
       None \<Rightarrow> (x, scale, c # s)
     | Some d \<Rightarrow>
         if overflow \<or> (2 ^ 63 - 1) div 10 < x \<or> 2 ^ 63 < 10 * x + d then leadingFraction x scale True s
         else leadingFraction (10 * x + d) (10 * scale) False s)"

definition duration_units :: "(string \<times> nat) list" where
  "duration_units = [(''ns'', 1), (''us'', 1000), ([CHR 0xC2, CHR 0xB5, CHR ''s''], 1000), ([CHR 0xCE, CHR 0xBC, CHR ''s''], 1000),
     (''ms'', 1000000), (''s'', 1000000000), (''m'', 60000000000), (''h'', 3600000000000)]"

definition unit_name :: "string \<Rightarrow> string" where
  "unit_name s = takeWhile (\<lambda>c. c \<noteq> CHR ''.'' \<and> digit_val c = None) s"

text \<open>The fraction after the digits, if any: its digits, their scale, the rest of the text, and whether there were digits.\<close>

definition fraction_part :: "string \<Rightarrow> nat \<times> nat \<times> string \<times> bool" where
  "fraction_part s = (case s of
       c # s' \<Rightarrow> if c = CHR ''.'' then (let (f, sc, r) = leadingFraction 0 1 False s' in (f, sc, r, length r \<noteq> length s'))
                 else (0, 1, s, False)
     | [] \<Rightarrow> (0, 1, s, False))"

definition scaled_unit :: "nat \<Rightarrow> nat \<Rightarrow> nat \<Rightarrow> string \<Rightarrow> nat option" where
  "scaled_unit v f scale u = (case map_of duration_units u of
       None \<Rightarrow> None
     | Some unit \<Rightarrow>
         if 2 ^ 63 div unit < v then None
         else (let n = v * unit + f * unit div scale in if 2 ^ 63 < n then None else Some n))"

text \<open>One number with its unit: the nanoseconds and the rest of the text.\<close>

definition duration_item :: "string \<Rightarrow> (nat \<times> string) option" where
  "duration_item s = (case leadingInt 0 s of
       None \<Rightarrow> None
     | Some (v, s1) \<Rightarrow>
         (case fraction_part s1 of (f, scale, s2, post) \<Rightarrow>
            if length s1 = length s \<and> \<not> post then None
            else if unit_name s2 = [] then None
            else map_option (\<lambda>n. (n, drop (length (unit_name s2)) s2)) (scaled_unit v f scale (unit_name s2))))"

fun parse_items :: "nat \<Rightarrow> nat \<Rightarrow> string \<Rightarrow> nat option" where
  "parse_items 0 d s = None"
| "parse_items (Suc k) d s =
     (if s = [] then Some d
      else if \<not> (hd s = CHR ''.'' \<or> digit_val (hd s) \<noteq> None) then None
      else (case duration_item s of
              None \<Rightarrow> None
            | Some (n, r) \<Rightarrow> if 2 ^ 63 < d + n then None else parse_items k (d + n) r))"

definition ParseDuration :: "string \<Rightarrow> int option" where
  "ParseDuration s =
     (let (neg, t) = (case s of [] \<Rightarrow> (False, [])
                      | c # cs \<Rightarrow> if c = CHR ''-'' then (True, cs) else if c = CHR ''+'' then (False, cs) else (False, s))
      in if t = ''0'' then Some 0
         else if t = [] then None
         else (case parse_items (Suc (length t)) 0 t of
                 None \<Rightarrow> None
               | Some d \<Rightarrow>
                   if neg then Some (- int d)
                   else if max_int64 < int d then None
                   else Some (int d)))"

subsection \<open>Fields\<close>

datatype cron_error =
    BadDuration string | NonPositiveDuration | FieldCount nat | BadField nat string cron_error
  | InvalidStep string | InvalidValue string | InvalidListValue string | ValueOutOfRange int
  | InvalidRange string | RangeOutOfBounds int int | NoNextTick

definition parseRange :: "string \<Rightarrow> cron_error + int \<times> int" where
  "parseRange s = (case cut_at (CHR ''-'') s of
       None \<Rightarrow> Inl (InvalidRange s)
     | Some (a, b) \<Rightarrow>
         (case atoi a of
            None \<Rightarrow> Inl (InvalidRange a)
          | Some start \<Rightarrow> (case atoi b of None \<Rightarrow> Inl (InvalidRange b) | Some stop \<Rightarrow> Inr (start, stop))))"

definition checkRange :: "int \<Rightarrow> int \<Rightarrow> int \<Rightarrow> int \<Rightarrow> cron_error option" where
  "checkRange start stop lo hi = reject (start < lo \<or> hi < stop \<or> stop < start) (RangeOutOfBounds start stop)"

text \<open>The loop \<^verbatim>\<open>for v := start; v <= end; v += step\<close> on 64-bit integers; \<open>None\<close> when the fuel runs out.\<close>

fun step_values :: "nat \<Rightarrow> int \<Rightarrow> int \<Rightarrow> int \<Rightarrow> int list option" where
  "step_values 0 v stop step = None"
| "step_values (Suc n) v stop step =
     (if v \<le> stop then map_option (\<lambda>vs. v # vs) (step_values n (wrap64 (v + step)) stop step) else Some [])"

definition step_fuel :: nat where "step_fuel = 200"

definition expand_steps :: "int \<Rightarrow> int \<Rightarrow> int \<Rightarrow> int list" where
  "expand_steps start stop step = (case step_values step_fuel start stop step of Some vs \<Rightarrow> vs | None \<Rightarrow> [])"

definition step_bounds :: "string \<Rightarrow> int \<Rightarrow> int \<Rightarrow> cron_error + int \<times> int" where
  "step_bounds base lo hi =
     (if base = ''*'' then Inr (lo, hi)
      else if str_contains base ''-'' then parseRange base
      else (case atoi base of None \<Rightarrow> Inl (InvalidValue base) | Some v \<Rightarrow> Inr (v, hi)))"

fun list_values :: "string list \<Rightarrow> int \<Rightarrow> int \<Rightarrow> int list \<Rightarrow> cron_error + int list" where
  "list_values [] lo hi vals = Inr (sort vals)"
| "list_values (p # ps) lo hi vals = (case atoi (trim_space p) of
       None \<Rightarrow> Inl (InvalidListValue p)
     | Some v \<Rightarrow>
         if v < lo \<or> hi < v then Inl (ValueOutOfRange v)
         else list_values ps lo hi (if v \<in> set vals then vals else vals @ [v]))"

definition parseCronField :: "string \<Rightarrow> int \<Rightarrow> int \<Rightarrow> cron_error + int list" where
  "parseCronField field lo hi = (case last_index_of field ''/'' of
       Some idx \<Rightarrow>
         (let stepStr = drop (Suc idx) field; base = take idx field in
          case atoi stepStr of
            None \<Rightarrow> Inl (InvalidStep stepStr)
          | Some step \<Rightarrow>
              if step \<le> 0 then Inl (InvalidStep stepStr)
              else (case step_bounds base lo hi of
                      Inl e \<Rightarrow> Inl e
                    | Inr (start, stop) \<Rightarrow>
                        (case checkRange start stop lo hi of
                           Some e \<Rightarrow> Inl e
                         | None \<Rightarrow> Inr (expand_steps start stop step))))
     | None \<Rightarrow>
         if field = ''*'' then Inr [lo..hi]
         else if str_contains field '','' then list_values (split_on (CHR '','') field) lo hi []
         else if str_contains field ''-'' then
           (case parseRange field of
              Inl e \<Rightarrow> Inl e
            | Inr (start, stop) \<Rightarrow>
                (case checkRange start stop lo hi of Some e \<Rightarrow> Inl e | None \<Rightarrow> Inr [start..stop]))
         else (case atoi field of
                 None \<Rightarrow> Inl (InvalidValue field)
               | Some v \<Rightarrow> if v < lo \<or> hi < v then Inl (ValueOutOfRange v) else Inr [v]))"

subsection \<open>Schedules\<close>

record cronSchedule =
  cs_minute :: "int list"
  cs_hour :: "int list"
  cs_dayOfMonth :: "int list"
  cs_month :: "int list"
  cs_dayOfWeek :: "int list"

datatype schedule = CronSchedule cronSchedule | IntervalSchedule int

definition field_of_expr :: "nat \<Rightarrow> string \<Rightarrow> int \<Rightarrow> int \<Rightarrow> cron_error + int list" where
  "field_of_expr i f lo hi = map_sum (BadField i f) (\<lambda>vs. vs) (parseCronField f lo hi)"

definition parse_fields :: "string \<Rightarrow> string \<Rightarrow> string \<Rightarrow> string \<Rightarrow> string \<Rightarrow> cron_error + cronSchedule" where
  "parse_fields f0 f1 f2 f3 f4 = (case field_of_expr 0 f0 0 59 of Inl e \<Rightarrow> Inl e | Inr minutes \<Rightarrow>
     (case field_of_expr 1 f1 0 23 of Inl e \<Rightarrow> Inl e | Inr hours \<Rightarrow>
     (case field_of_expr 2 f2 1 31 of Inl e \<Rightarrow> Inl e | Inr dayOfMonth \<Rightarrow>
     (case field_of_expr 3 f3 1 12 of Inl e \<Rightarrow> Inl e | Inr month \<Rightarrow>
     (case field_of_expr 4 f4 0 6 of Inl e \<Rightarrow> Inl e | Inr dayOfWeek \<Rightarrow>
        Inr \<lparr>cs_minute = minutes, cs_hour = hours, cs_dayOfMonth = dayOfMonth, cs_month = month, cs_dayOfWeek = dayOfWeek\<rparr>)))))"

definition parseCron :: "string \<Rightarrow> cron_error + schedule" where
  "parseCron expr0 =
     (let expr = trim_space expr0 in
      if has_prefix expr ''@every ''
      then (let interval = trim_space (drop 7 expr) in
        case ParseDuration interval of
          None \<Rightarrow> Inl (BadDuration interval)
        | Some d \<Rightarrow> if d \<le> 0 then Inl NonPositiveDuration else Inr (IntervalSchedule d))
      else (case Go_Strings.fields expr of
              [f0, f1, f2, f3, f4] \<Rightarrow> map_sum (\<lambda>e. e) CronSchedule (parse_fields f0 f1 f2 f3 f4)
            | fs \<Rightarrow> Inl (FieldCount (length fs))))"

definition containsInt :: "int list \<Rightarrow> int \<Rightarrow> bool" where
  "containsInt vals v = list_ex (\<lambda>x. x = v) vals"

definition matches_local :: "cronSchedule \<Rightarrow> gotime \<Rightarrow> bool" where
  "matches_local s t \<longleftrightarrow> containsInt (cs_month s) (time_month t) \<and> containsInt (cs_dayOfMonth s) (time_day t) \<and>
     containsInt (cs_dayOfWeek s) (time_weekday t) \<and> containsInt (cs_hour s) (time_hour t) \<and>
     containsInt (cs_minute s) (time_minute t)"

text \<open>A time matches when the fields of its local clock do.\<close>

definition matches :: "(gotime \<Rightarrow> int) \<Rightarrow> cronSchedule \<Rightarrow> gotime \<Rightarrow> bool" where
  "matches off s t \<longleftrightarrow> matches_local s (t + off t)"

fun search :: "(gotime \<Rightarrow> bool) \<Rightarrow> nat \<Rightarrow> gotime \<Rightarrow> gotime" where
  "search p 0 t = 0"
| "search p (Suc n) t = (if p t then t else search p n (t + minute))"

definition search_minutes :: nat where "search_minutes = 366 * 24 * 60"

definition Next_cron :: "(gotime \<Rightarrow> int) \<Rightarrow> cronSchedule \<Rightarrow> gotime \<Rightarrow> gotime" where
  "Next_cron off s now = search (matches off s) search_minutes (truncate_time (now + minute) minute)"

definition Next_interval :: "int \<Rightarrow> gotime \<Rightarrow> gotime" where
  "Next_interval every now = (if every \<le> 0 then 0 else now + every)"

definition Next :: "(gotime \<Rightarrow> int) \<Rightarrow> schedule \<Rightarrow> gotime \<Rightarrow> gotime" where
  "Next off s now = (case s of CronSchedule c \<Rightarrow> Next_cron off c now | IntervalSchedule d \<Rightarrow> Next_interval d now)"

definition NextCronTick :: "(gotime \<Rightarrow> int) \<Rightarrow> string \<Rightarrow> gotime \<Rightarrow> cron_error + gotime" where
  "NextCronTick off expr now = (case parseCron expr of
       Inl e \<Rightarrow> Inl e
     | Inr sched \<Rightarrow> (let next = Next off sched now in if is_zero_time next then Inl NoNextTick else Inr next))"

subsection \<open>The duration parser reads all of its text\<close>

lemma leadingInt_length: "leadingInt x s = Some (v, r) \<Longrightarrow> length r \<le> length s"
  by (induction x s rule: leadingInt.induct) (auto split: option.splits if_splits)

lemma leadingFraction_length: "leadingFraction x sc ov s = (v, w, r) \<Longrightarrow> length r \<le> length s"
  by (induction x sc ov s rule: leadingFraction.induct) (auto split: option.splits if_splits)

lemma fraction_part_shorter: "fraction_part s = (f, sc, r, post) \<Longrightarrow> length r \<le> length s"
  by (cases s) (auto simp: fraction_part_def split: if_splits prod.splits dest: leadingFraction_length)

lemma duration_item_shorter:
  assumes "duration_item s = Some (n, r)"
  shows "length r < length s"
proof -
  obtain v s1 f sc s2 post where i: "leadingInt 0 s = Some (v, s1)" and q: "fraction_part s1 = (f, sc, s2, post)"
    and u: "unit_name s2 \<noteq> []" and r: "r = drop (length (unit_name s2)) s2"
    using assms by (auto simp: duration_item_def split: option.splits prod.splits if_splits)
  have "length s2 \<le> length s" using leadingInt_length [OF i] fraction_part_shorter [OF q] by simp
  moreover have "0 < length s2" "0 < length (unit_name s2)" using u by (auto simp: unit_name_def)
  ultimately have "length s2 - length (unit_name s2) < length s" by linarith
  then show ?thesis using r by simp
qed

lemma parse_items_fuel: "length s < k \<Longrightarrow> length s < k' \<Longrightarrow> parse_items k d s = parse_items k' d s"
proof (induction k arbitrary: k' d s)
  case (Suc k)
  obtain j where j: "k' = Suc j" using Suc.prems(2) by (cases k') auto
  have "parse_items k e r = parse_items j e r" if "duration_item s = Some (n, r)" for e n r
    using duration_item_shorter [OF that] Suc.prems j by (intro Suc.IH) auto
  then show ?case by (auto simp: j split: option.splits)
qed simp

subsection \<open>Step loops\<close>

lemma step_no_wrap:
  assumes "min_int64 \<le> v" "v \<le> stop" "0 < step" "step \<le> max_int64 - stop"
  shows "wrap64 (v + step) = v + step"
  using assms by (intro wrap64_id) auto

text \<open>Without overflow, the loop collects the values at the multiples of the step, in order.\<close>

lemma step_values_exact:
  assumes "min_int64 \<le> v" "0 < step" "step \<le> max_int64 - stop" "nat (stop - v + 1) < n"
  shows "step_values n v stop step = Some (filter (\<lambda>x. (x - v) mod step = 0) [v..stop])"
  using assms
proof (induction n arbitrary: v)
  case (Suc n)
  show ?case
  proof (cases "v \<le> stop")
    case True
    let ?P = "\<lambda>w x. (x - w) mod step = (0::int)"
    have w: "wrap64 (v + step) = v + step"
      using True Suc.prems by (intro step_no_wrap) auto
    have ih: "step_values n (v + step) stop step = Some (filter (?P (v + step)) [v + step..stop])"
      using Suc.prems True by (intro Suc.IH) auto
    have shift: "?P (v + step) x = ?P v x" for x
      by (metis diff_diff_eq minus_mod_self2)
    have skip: "filter (?P v) [v + 1..stop] = filter (?P v) [v + step..stop]"
    proof (cases "v + step \<le> stop")
      case True
      have "[v + 1..stop] = [v + 1..v + step - 1] @ [v + step..stop]"
        using True Suc.prems(2) upto_split1 [of "v + 1" "v + step" stop] by simp
      moreover have "filter (?P v) [v + 1..v + step - 1] = []"
        by (auto simp: filter_empty_conv)
      ultimately show ?thesis by simp
    next
      case False
      then show ?thesis by (auto simp: filter_empty_conv)
    qed
    have "filter (?P v) [v..stop] = v # filter (?P v) [v + step..stop]"
      using True upto_rec1 [OF True] skip by simp
    then show ?thesis using True w ih by (simp add: shift)
  qed simp
qed simp

text \<open>A step close to the largest integer wraps around; the loop still ends.\<close>

lemma step_values_wrapping:
  assumes "-59 \<le> v" "v \<le> 59" "0 \<le> stop" "stop \<le> 59" "1 \<le> d" "d \<le> 59" "nat (v + 62) \<le> n"
  shows "step_values n v stop (9223372036854775808 - d) \<noteq> None"
  using assms(1,2,7)
proof (induction n arbitrary: v rule: less_induct)
  case (less n)
  obtain m where n: "n = Suc m" using less.prems by (cases n) auto
  obtain m' where m: "m = Suc m'" using less.prems n by (cases m) auto
  show ?case
  proof (cases "v \<le> stop \<and> d \<le> v")
    case True
    have w1: "wrap64 (v + (9223372036854775808 - d)) = v - d - 9223372036854775808"
      using True assms(4,5,6) by (simp add: wrap64_def)
    have w2: "wrap64 (v - d - 9223372036854775808 + (9223372036854775808 - d)) = v - 2 * d"
      using True assms(4,5,6) less.prems by (simp add: wrap64_def)
    have "step_values m' (v - 2 * d) stop (9223372036854775808 - d) \<noteq> None"
      using less.prems True assms(4,5,6) n m by (intro less.IH) auto
    then show ?thesis using True w1 w2 assms n m by auto
  next
    case False
    have "wrap64 (v + (9223372036854775808 - d)) = v + (9223372036854775808 - d)" if "v < d"
      using that assms less.prems by (intro wrap64_id) (auto simp: min_int64_def max_int64_def)
    then show ?thesis using False n m assms less.prems by auto
  qed
qed

lemma step_fuel_enough:
  assumes "0 \<le> start" "start \<le> stop" "stop \<le> 59" "0 < step" "step \<le> max_int64"
  shows "step_values step_fuel start stop step \<noteq> None"
proof (cases "step \<le> max_int64 - stop")
  case True
  have "nat (stop - start + 1) < step_fuel" using assms by (simp add: step_fuel_def)
  from step_values_exact [OF _ assms(4) True this] assms(1) show ?thesis by (simp add: min_int64_def)
next
  case False
  have "step_values step_fuel start stop (9223372036854775808 - (9223372036854775808 - step)) \<noteq> None"
    using assms False by (intro step_values_wrapping) (auto simp: step_fuel_def max_int64_def)
  then show ?thesis by simp
qed

subsection \<open>Fields denote sets of values\<close>

text \<open>What a field may denote: ascending values of the allowed range, at least one.\<close>

definition field_ok :: "int \<Rightarrow> int \<Rightarrow> int list \<Rightarrow> bool" where
  "field_ok lo hi vals \<longleftrightarrow> sorted vals \<and> distinct vals \<and> vals \<noteq> [] \<and> list_all (\<lambda>v. lo \<le> v \<and> v \<le> hi) vals"

lemma field_ok_upto: "lo \<le> a \<Longrightarrow> a \<le> b \<Longrightarrow> b \<le> hi \<Longrightarrow> field_ok lo hi [a..b]"
  by (auto simp: field_ok_def list_all_iff)

lemma field_ok_filter: "lo \<le> a \<Longrightarrow> a \<le> b \<Longrightarrow> b \<le> hi \<Longrightarrow> P a \<Longrightarrow> field_ok lo hi (filter P [a..b])"
  by (auto simp: field_ok_def list_all_iff sorted_filter [of "\<lambda>x. x", simplified] filter_empty_conv)

lemma checkRange_None: "checkRange a b lo hi = None \<longleftrightarrow> lo \<le> a \<and> b \<le> hi \<and> a \<le> b"
  by (auto simp: checkRange_def reject_def)

lemma list_values_ok:
  "list_values ps lo hi vals = Inr vs \<Longrightarrow> distinct vals \<Longrightarrow> list_all (\<lambda>v. lo \<le> v \<and> v \<le> hi) vals \<Longrightarrow>
   vals \<noteq> [] \<or> ps \<noteq> [] \<Longrightarrow> field_ok lo hi vs"
proof (induction ps arbitrary: vals)
  case Nil
  then have "vs = sort vals" "vals \<noteq> []" by auto
  moreover have "sort vals \<noteq> []" using \<open>vals \<noteq> []\<close> by (metis length_0_conv length_sort)
  ultimately show ?case using Nil by (auto simp: field_ok_def list_all_iff)
next
  case (Cons p ps)
  then obtain v where v: "atoi (trim_space p) = Some v" "lo \<le> v" "v \<le> hi"
    and r: "list_values ps lo hi (if v \<in> set vals then vals else vals @ [v]) = Inr vs"
    by (auto split: option.splits if_splits)
  show ?case by (rule Cons.IH [OF r]) (use Cons.prems v in \<open>auto simp: list_all_iff\<close>)
qed

lemma parse_digits_bound: "parse_digits acc s = Some n \<Longrightarrow> n < (acc + 1) * 10 ^ length s"
proof (induction acc s rule: parse_digits.induct)
  case (2 acc c cs)
  then obtain d where d: "digit_val c = Some d" and r: "parse_digits (10 * acc + d) cs = Some n"
    by (auto split: option.splits)
  have "d \<le> 9" using d by (auto simp: digit_val_def Let_def split: if_splits)
  then have "(10 * acc + d + 1) * 10 ^ length cs \<le> (10 * (acc + 1)) * 10 ^ length cs" by (intro mult_right_mono) auto
  with "2.IH" [OF d r] have "n < (10 * (acc + 1)) * 10 ^ length cs" by (rule less_le_trans)
  also have "\<dots> = (acc + 1) * 10 ^ length (c # cs)" by (simp add: algebra_simps)
  finally show ?case .
qed simp

lemma atoi_digits:
  assumes "atoi s = Some v"
  shows "\<exists>ds n. parse_digits 0 ds = Some n \<and> length ds \<le> length s \<and> v \<le> int n"
proof -
  obtain neg ds where e: "(case s of [] \<Rightarrow> (False, [])
      | c # cs \<Rightarrow> if c = CHR ''-'' then (True, cs) else if c = CHR ''+'' then (False, cs) else (False, s)) = (neg, ds)"
    by fastforce
  then have l: "length ds \<le> length s" by (auto split: list.splits if_splits)
  obtain n where "parse_digits 0 ds = Some n" "v = (if neg then - int n else int n)"
    using assms unfolding atoi_def e by (auto simp: Let_def split: if_splits option.splits)
  with l show ?thesis by (intro exI [of _ ds] exI [of _ n]) auto
qed

lemma atoi_short:
  assumes "atoi s = Some v" "length s \<le> k"
  shows "v < 10 ^ k"
proof -
  obtain ds n where d: "parse_digits 0 ds = Some n" "length ds \<le> length s" "v \<le> int n"
    using atoi_digits [OF assms(1)] by blast
  have "n < 10 ^ length ds" using parse_digits_bound [OF d(1)] by simp
  also have "(10::nat) ^ length ds \<le> 10 ^ k" using d(2) assms(2) by (intro power_increasing) auto
  finally have "int n < 10 ^ k" by (metis of_nat_less_iff of_nat_numeral of_nat_power)
  with d(3) show ?thesis by linarith
qed

lemma expand_steps_exact:
  assumes "0 \<le> start" "start \<le> stop" "stop \<le> 59" "0 < step" "step \<le> max_int64 - 59"
  shows "expand_steps start stop step = filter (\<lambda>x. (x - start) mod step = 0) [start..stop]"
proof -
  have "step_values step_fuel start stop step = Some (filter (\<lambda>x. (x - start) mod step = 0) [start..stop])"
    using assms by (intro step_values_exact) (auto simp: step_fuel_def min_int64_def)
  then show ?thesis by (simp add: expand_steps_def)
qed

text \<open>The field without a step.\<close>

lemma range_field_ok:
  "(case parseRange f of Inl e \<Rightarrow> Inl e | Inr (a, b) \<Rightarrow>
      (case checkRange a b lo hi of Some e \<Rightarrow> Inl e | None \<Rightarrow> Inr [a..b])) = Inr vals \<Longrightarrow> field_ok lo hi vals"
  by (auto simp: checkRange_None intro!: field_ok_upto split: sum.splits option.splits)

lemma single_field_ok:
  "(case atoi f of None \<Rightarrow> Inl (InvalidValue f)
     | Some v \<Rightarrow> if v < lo \<or> hi < v then Inl (ValueOutOfRange v) else Inr [v]) = Inr vals \<Longrightarrow> field_ok lo hi vals"
  by (auto simp: field_ok_def split: option.splits if_splits)

lemma plain_field_ok:
  assumes p: "parseCronField field lo hi = Inr vals" and n: "last_index_of field ''/'' = None" and "lo \<le> hi"
  shows "field_ok lo hi vals"
proof -
  note unfolded = p [unfolded parseCronField_def n option.case]
  consider "field = ''*''" | "field \<noteq> ''*''" "str_contains field '',''"
    | "field \<noteq> ''*''" "\<not> str_contains field '',''" "str_contains field ''-''"
    | "field \<noteq> ''*''" "\<not> str_contains field '',''" "\<not> str_contains field ''-''" by blast
  then show ?thesis
  proof cases
    case 1
    then have "vals = [lo..hi]" using unfolded by simp
    then show ?thesis using assms(3) by (simp add: field_ok_upto)
  next
    case 2
    then have "list_values (split_on (CHR '','') field) lo hi [] = Inr vals" using unfolded by simp
    then show ?thesis by (rule list_values_ok) auto
  next
    case 3
    then show ?thesis using unfolded by (intro range_field_ok [where f = field]) simp
  next
    case 4
    then show ?thesis using unfolded by (intro single_field_ok [where f = field]) simp
  qed
qed

lemma step_field_inv:
  assumes "parseCronField field lo hi = Inr vals" "last_index_of field ''/'' = Some idx"
  shows "\<exists>step start stop. atoi (drop (Suc idx) field) = Some step \<and> 0 < step \<and> lo \<le> start \<and> stop \<le> hi \<and> start \<le> stop
           \<and> step_bounds (take idx field) lo hi = Inr (start, stop) \<and> vals = expand_steps start stop step"
  using assms by (auto simp: parseCronField_def Let_def checkRange_None split: option.splits if_splits sum.splits)

text \<open>a field that is accepted, and is no longer than eighteen characters, denotes at least one value, in ascending
  order and without repetition, all of them within the bounds of the field.\<close>

theorem parseCronField_values:
  assumes "parseCronField field lo hi = Inr vals" "0 \<le> lo" "lo \<le> hi" "hi \<le> 59" "length field \<le> 18"
  shows "field_ok lo hi vals"
proof (cases "last_index_of field ''/''")
  case None
  with assms(1,3) show ?thesis by (intro plain_field_ok)
next
  case (Some idx)
  from step_field_inv [OF assms(1) this] obtain step start stop
    where s: "atoi (drop (Suc idx) field) = Some step" "0 < step" "lo \<le> start" "stop \<le> hi" "start \<le> stop"
      "vals = expand_steps start stop step" by blast
  have "step < 10 ^ 18" using atoi_short [OF s(1), of 18] assms(5) by simp
  then have e: "expand_steps start stop step = filter (\<lambda>x. (x - start) mod step = 0) [start..stop]"
    using s assms by (intro expand_steps_exact) (auto simp: max_int64_def)
  show ?thesis unfolding s(6) e using s by (intro field_ok_filter) auto
qed

theorem parseCronField_values_witness:
  "parseCronField ''5-20/5'' 0 59 = Inr [5, 10, 15, 20] \<and> field_ok 0 59 [5, 10, 15, 20]"
proof
  show p: "parseCronField ''5-20/5'' 0 59 = Inr [5, 10, 15, 20]" by code_simp
  show "field_ok 0 59 [5, 10, 15, 20]" by (rule parseCronField_values [OF p]) simp_all
qed

lemma wrapping_step_values:
  "\<exists>vs. expand_steps 59 59 9223372036854775807 = 59 # -9223372036854775750 # 57 # vs"
proof -
  have fuel: "step_fuel = Suc (Suc (Suc 197))" by (simp add: step_fuel_def)
  have "step_values step_fuel 59 59 9223372036854775807 \<noteq> None"
    by (rule step_fuel_enough) (simp_all add: max_int64_def)
  moreover have "step_values (Suc (Suc (Suc n))) 59 59 9223372036854775807 =
      map_option (\<lambda>vs. 59 # -9223372036854775750 # 57 # vs)
        (step_values n (wrap64 (57 + 9223372036854775807)) 59 9223372036854775807)" for n
    by (simp add: wrap64_def option.map_comp comp_def)
  ultimately show ?thesis by (auto simp only: expand_steps_def fuel option.map_disc_iff) auto
qed

text \<open>the loop that expands a step adds without looking for overflow.  A step close to the largest integer wraps around,
  and the field denotes values it does not name: \<^verbatim>\<open>59/9223372036854775807\<close> names minute 59 only, and holds minute 57 and a
  negative number as well.  The loop ends all the same, whatever the step.\<close>

theorem step_overflow_adds_values:
  assumes "0 \<le> start" "start \<le> stop" "stop \<le> 59" "0 < step" "step \<le> max_int64"
  shows "step_values step_fuel start stop step \<noteq> None \<and>
     (\<exists>vals. parseCronField ''59/9223372036854775807'' 0 59 = Inr vals \<and> containsInt vals 57 \<and> containsInt vals (-9223372036854775750))"
proof
  show "step_values step_fuel start stop step \<noteq> None" by (rule step_fuel_enough [OF assms])
  have "atoi ''9223372036854775807'' = Some 9223372036854775807"
    by (simp add: atoi_def digit_val_def min_int64_def max_int64_def)
  moreover have "last_index_of ''59/9223372036854775807'' ''/'' = Some 2" "step_bounds ''59'' 0 59 = Inr (59, 59)"
    "checkRange 59 59 0 59 = None" by code_simp+
  ultimately have "parseCronField ''59/9223372036854775807'' 0 59 = Inr (expand_steps 59 59 9223372036854775807)"
    by (simp add: parseCronField_def)
  with wrapping_step_values show "\<exists>vals. parseCronField ''59/9223372036854775807'' 0 59 = Inr vals \<and> containsInt vals 57 \<and>
      containsInt vals (-9223372036854775750)" by (auto simp: containsInt_def)
qed

theorem step_overflow_adds_values_witness:
  "step_values step_fuel 5 20 5 \<noteq> None \<and>
     (\<exists>vals. parseCronField ''59/9223372036854775807'' 0 59 = Inr vals \<and> containsInt vals 57 \<and> containsInt vals (-9223372036854775750))"
  by (rule step_overflow_adds_values) (simp_all add: max_int64_def)

subsection \<open>The search for the next tick\<close>

lemma search_cases:
  "(search p n t = 0 \<and> (\<forall>k < n. \<not> p (t + int k * minute))) \<or>
   (\<exists>k < n. search p n t = t + int k * minute \<and> p (search p n t) \<and> (\<forall>j < k. \<not> p (t + int j * minute)))"
proof (induction n arbitrary: t)
  case (Suc n)
  show ?case
  proof (cases "p t")
    case True
    then show ?thesis by (intro disjI2 exI [of _ 0]) simp
  next
    case False
    have shift: "t + minute + int j * minute = t + int (Suc j) * minute" for j by (simp add: algebra_simps)
    from Suc.IH [of "t + minute"] show ?thesis
    proof (elim disjE exE conjE)
      assume a: "search p n (t + minute) = 0" "\<forall>k < n. \<not> p (t + minute + int k * minute)"
      have "\<not> p (t + int k * minute)" if "k < Suc n" for k
        using a(2) that False by (cases k) (auto simp only: shift, auto)
      then show ?thesis using a(1) False by simp
    next
      fix k assume a: "k < n" "search p n (t + minute) = t + minute + int k * minute" "p (search p n (t + minute))"
        "\<forall>j < k. \<not> p (t + minute + int j * minute)"
      have "\<not> p (t + int j * minute)" if "j < Suc k" for j
        using a(4) that False by (cases j) (auto simp only: shift, auto)
      then show ?thesis using a False by (intro disjI2 exI [of _ "Suc k"]) (simp add: shift)
    qed
  qed
qed simp

lemma minute_grid:
  assumes "minute dvd a" "minute dvd t" "a \<le> t" "t < a + int n * minute"
  shows "\<exists>k < n. t = a + int k * minute"
proof -
  obtain q where q: "t = a + minute * q" using assms(1,2) by (metis dvd_diff dvd_def add.commute diff_add_cancel)
  have "0 \<le> q" using assms(3) q by (simp add: minute_def)
  moreover have "q < int n" using assms(4) q by (simp add: minute_def)
  ultimately show ?thesis using q by (intro exI [of _ "nat q"]) (auto simp: algebra_simps)
qed

lemma truncate_next: "truncate_time (now + minute) minute = minute * (now div minute + 1)"
  by (simp add: truncate_time_def minute_def minus_mod_eq_mult_div)

lemma next_minute:
  "minute dvd truncate_time (now + minute) minute" "now < truncate_time (now + minute) minute"
  "truncate_time (now + minute) minute \<le> now + minute"
  "minute dvd t \<Longrightarrow> now < t \<Longrightarrow> truncate_time (now + minute) minute \<le> t"
proof -
  have d: "now = minute * (now div minute) + now mod minute" by simp
  have m: "0 \<le> now mod minute" "now mod minute < minute" by (simp_all add: minute_def)
  show "minute dvd truncate_time (now + minute) minute" by (simp add: truncate_next)
  show "now < truncate_time (now + minute) minute" "truncate_time (now + minute) minute \<le> now + minute"
    unfolding truncate_next distrib_left using d m by linarith+
  show "truncate_time (now + minute) minute \<le> t" if t: "minute dvd t" "now < t"
  proof -
    obtain q where q: "t = minute * q" using t(1) by (rule dvdE)
    have "minute * (now div minute) < minute * q" using t(2) q d m(1) by linarith
    then have "now div minute + 1 \<le> q" by (simp add: minute_def)
    then show ?thesis unfolding truncate_next q by (intro mult_left_mono) (simp_all add: minute_def)
  qed
qed

text \<open>What the next tick has to be: the earliest whole minute after \<open>now\<close> that matches, within the horizon of the search,
  or the zero time if there is none.\<close>

definition next_tick_spec :: "(gotime \<Rightarrow> bool) \<Rightarrow> gotime \<Rightarrow> gotime \<Rightarrow> bool" where
  "next_tick_spec p now next \<longleftrightarrow>
     (next = 0 \<and> (\<forall>t. minute dvd t \<and> now < t \<and> t \<le> now + 366 * 24 * hour \<longrightarrow> \<not> p t)) \<or>
     (now < next \<and> next \<le> now + 366 * 24 * hour \<and> minute dvd next \<and> p next \<and>
      (\<forall>t. minute dvd t \<and> now < t \<and> t < next \<longrightarrow> \<not> p t))"

text \<open>C26: the next tick of a cron schedule is the earliest whole minute after the given time whose local clock matches all five
  fields; it is the zero time exactly when no minute of the next 366 days matches.\<close>

theorem Next_cron_earliest:
  assumes "0 \<le> now"
  shows "next_tick_spec (matches off s) now (Next_cron off s now)"
proof -
  define a where "a = truncate_time (now + minute) minute"
  have a: "minute dvd a" "now < a" "a \<le> now + minute" "\<And>t. minute dvd t \<Longrightarrow> now < t \<Longrightarrow> a \<le> t"
    unfolding a_def by (fact next_minute)+
  have n: "int search_minutes * minute = 366 * 24 * hour" by (simp add: search_minutes_def minute_def hour_def)
  from search_cases [of "matches off s" search_minutes a] show ?thesis
  proof (elim disjE exE conjE)
    assume s: "search (matches off s) search_minutes a = 0" "\<forall>k < search_minutes. \<not> matches off s (a + int k * minute)"
    have "\<not> matches off s t" if "minute dvd t" "now < t" "t \<le> now + 366 * 24 * hour" for t
      using minute_grid [OF a(1) that(1) a(4) [OF that(1,2)], of search_minutes] s(2) that(3) a(2) n by auto
    with s(1) show ?thesis by (auto simp: next_tick_spec_def Next_cron_def a_def [symmetric])
  next
    fix k assume k: "k < search_minutes" and e: "search (matches off s) search_minutes a = a + int k * minute"
      and m: "matches off s (search (matches off s) search_minutes a)"
      and l: "\<forall>j < k. \<not> matches off s (a + int j * minute)"
    have "int k * minute \<le> int search_minutes * minute - minute"
      using k by (simp add: minute_def)
    then have b: "a + int k * minute \<le> now + 366 * 24 * hour" using a(3) n by simp
    have "\<not> matches off s t" if "minute dvd t" "now < t" "t < a + int k * minute" for t
      using minute_grid [OF a(1) that(1) a(4) [OF that(1,2)] that(3)] l by auto
    moreover have "now < a + int k * minute" "minute dvd a + int k * minute" using a(1,2) by (auto simp: minute_def)
    ultimately show ?thesis using m e b by (auto simp: next_tick_spec_def Next_cron_def a_def [symmetric])
  qed
qed

theorem Next_cron_earliest_witness:
  "next_tick_spec (matches (\<lambda>_. 0) \<lparr>cs_minute = [5], cs_hour = [0], cs_dayOfMonth = [1], cs_month = [1], cs_dayOfWeek = [1]\<rparr>) 0
     (Next_cron (\<lambda>_. 0) \<lparr>cs_minute = [5], cs_hour = [0], cs_dayOfMonth = [1], cs_month = [1], cs_dayOfWeek = [1]\<rparr> 0)"
  by (rule Next_cron_earliest) simp

subsection \<open>Schedules as sources of ticks\<close>

text \<open>What the loop of a cron job relies on: a schedule gives a later time or says there is none.  The loop reads the clock, waits
  for the tick and fires no earlier than it; so the ticks of its rounds, each computed at a clock reading at or after the previous
  tick, are strictly increasing, and no tick is fired twice.\<close>

fun ticks :: "(gotime \<Rightarrow> gotime) \<Rightarrow> gotime list \<Rightarrow> gotime list" where
  "ticks nxt [] = []"
| "ticks nxt (now # later) = (if is_zero_time (nxt now) then [] else nxt now # ticks nxt later)"

fun waited :: "(gotime \<Rightarrow> gotime) \<Rightarrow> gotime list \<Rightarrow> bool" where
  "waited nxt (now # now' # later) \<longleftrightarrow> 0 \<le> now \<and> nxt now \<le> now' \<and> waited nxt (now' # later)"
| "waited nxt [now] \<longleftrightarrow> 0 \<le> now"
| "waited nxt [] \<longleftrightarrow> True"

locale tick_source =
  fixes nxt :: "gotime \<Rightarrow> gotime"
  assumes advances: "0 \<le> now \<Longrightarrow> \<not> is_zero_time (nxt now) \<Longrightarrow> now < nxt now"
begin

lemma ticks_after: "waited nxt (now # later) \<Longrightarrow> \<forall>t \<in> set (ticks nxt (now # later)). now < t"
proof (induction later arbitrary: now)
  case Nil
  then show ?case using advances by auto
next
  case (Cons now' later)
  show ?case
  proof (cases "is_zero_time (nxt now)")
    case False
    then have "now < nxt now" using Cons.prems advances by simp
    moreover have "\<forall>t \<in> set (ticks nxt (now' # later)). now' < t" using Cons.prems by (intro Cons.IH) simp
    ultimately have "\<forall>t \<in> set (ticks nxt (now' # later)). now < t" using Cons.prems by fastforce
    with \<open>now < nxt now\<close> show ?thesis by (subst ticks.simps) simp
  qed simp
qed

lemma ticks_increasing: "waited nxt nows \<Longrightarrow> sorted_wrt (<) (ticks nxt nows)"
proof (induction nows)
  case (Cons now later)
  show ?case
  proof (cases later)
    case (Cons now' later')
    have w: "waited nxt (now' # later')" "nxt now \<le> now'" using Cons Cons.prems by auto
    have "\<forall>t \<in> set (ticks nxt later). nxt now < t" using ticks_after [OF w(1)] w(2) Cons by fastforce
    then show ?thesis using Cons.IH w(1) Cons by simp
  qed simp
qed simp

end

lemma Next_cron_advances: "0 \<le> now \<Longrightarrow> \<not> is_zero_time (Next_cron off s now) \<Longrightarrow> now < Next_cron off s now"
proof -
  assume "\<not> is_zero_time (Next_cron off s now)"
  then obtain k where "Next_cron off s now = truncate_time (now + minute) minute + int k * minute"
    using search_cases [of "matches off s" search_minutes "truncate_time (now + minute) minute"]
    by (auto simp: Next_cron_def is_zero_time_def)
  moreover have "0 \<le> int k * minute" by (simp add: minute_def)
  ultimately show ?thesis using next_minute(2) [of now] by linarith
qed

interpretation sched: tick_source "Next off s" for off s
  by unfold_locales
    (auto simp: Next_def Next_interval_def is_zero_time_def Next_cron_advances split: schedule.splits if_splits)

subsection \<open>Leap days\<close>

lemma day_as_minutes: "day_number t = (t div minute) div 1440"
proof -
  have "24 * hour = minute * 1440" by (simp add: hour_def minute_def)
  then show ?thesis unfolding day_number_def by (metis zdiv_zmult2_eq zero_le_numeral)
qed

lemma days_later: "0 \<le> k \<Longrightarrow> k \<le> n * 1440 \<Longrightarrow> q div 1440 \<le> (q + k) div 1440 \<and> (q + k) div 1440 \<le> q div 1440 + (n::int)"
  using zdiv_mono1 [of q "q + k" 1440] zdiv_mono1 [of "q + k" "q + n * 1440" 1440] by simp

lemma midnight: "time_hour t = 0 \<Longrightarrow> time_minute t = 0 \<Longrightarrow> t div minute mod 1440 = 0"
proof -
  assume h: "time_hour t = 0" "time_minute t = 0"
  have "hour = minute * 60" by (simp add: hour_def minute_def)
  then have "t div hour = t div minute div 60" by (metis zdiv_zmult2_eq zero_le_numeral)
  with h have "t div minute div 60 mod 24 = 0" "t div minute mod 60 = 0" by (simp_all add: time_hour_def time_minute_def)
  then show ?thesis using zmod_zmult2_eq [of 24 "t div minute" 60] by simp
qed

lemma leap_day_far:
  assumes far: "\<And>d. D < d \<Longrightarrow> d \<le> D + 367 \<Longrightarrow> \<not> (fst (snd (civil d)) = 2 \<and> snd (snd (civil d)) = 29)"
    and D: "day_number now = D" and s: "cs_month s = [2]" "cs_dayOfMonth s = [29]" "cs_hour s = [0]" "cs_minute s = [0]"
  shows "Next_cron (\<lambda>_. 0) s now = 0"
proof -
  have "\<not> matches (\<lambda>_. 0) s (truncate_time (now + minute) minute + int k * minute)" if k: "k < search_minutes" for k
  proof
    let ?t = "truncate_time (now + minute) minute + int k * minute"
    define q where "q = now div minute"
    assume m: "matches (\<lambda>_. 0) s ?t"
    have tq: "?t div minute = q + (1 + int k)" unfolding truncate_next q_def by (simp add: minute_def)
    have Dq: "D = q div 1440" using D by (simp add: day_as_minutes q_def)
    have "1 + int k \<le> 367 * 1440" using k by (simp add: search_minutes_def)
    with days_later [of "1 + int k" 367 q] have "D \<le> day_number ?t \<and> day_number ?t \<le> D + 367"
      by (simp add: day_as_minutes tq Dq)
    moreover have "time_month ?t = 2 \<and> time_day ?t = 29"
      using m by (auto simp: matches_def matches_local_def containsInt_def s)
    ultimately have "day_number ?t = D" using far [of "day_number ?t"] by (force simp: time_month_def time_day_def)
    moreover have "time_hour ?t = 0" "time_minute ?t = 0"
      using m by (auto simp: matches_def matches_local_def containsInt_def s)
    then have "(q + (1 + int k)) mod 1440 = 0" using midnight [of ?t] tq by simp
    ultimately have "q + (1 + int k) = 1440 * D" by (simp add: day_as_minutes tq) (metis add.right_neutral mult_div_mod_eq)
    moreover have "1440 * D \<le> q" unfolding Dq by simp
    ultimately show False by simp
  qed
  with search_cases [of "matches (\<lambda>_. 0) s" search_minutes "truncate_time (now + minute) minute"] show ?thesis
    by (auto simp: Next_cron_def)
qed

text \<open>In the part of the calendar that starts on March 1, day 365 of a year is February 29.\<close>

lemma civil_month_day:
  assumes "(n + 306) mod 146097 = doe" "(doe - doe div 1460 + doe div 36524 - doe div 146096) div 365 = y"
    and "doe - (365 * y + y div 4 - y div 100) = doy" "(5 * doy + 2) div 153 = mp"
  shows "snd (civil n) = (if mp < 10 then mp + 3 else mp - 9, doy - (153 * mp + 2) div 5 + 1)"
  unfolding civil_def Let_def assms by simp

lemma not_leap_day:
  assumes "(n + 306) mod 146097 = doe" "(doe - doe div 1460 + doe div 36524 - doe div 146096) div 365 = y"
    and "doe - (365 * y + y div 4 - y div 100) = doy" "0 \<le> doy" "doy < 365"
  shows "\<not> (fst (snd (civil n)) = 2 \<and> snd (snd (civil n)) = 29)"
proof
  define mp where "mp = (5 * doy + 2) div 153"
  assume "fst (snd (civil n)) = 2 \<and> snd (snd (civil n)) = 29"
  then have m: "(if mp < 10 then mp + 3 else mp - 9) = 2" "doy - (153 * mp + 2) div 5 + 1 = 29"
    using civil_month_day [OF assms(1-3) mp_def [symmetric]] by simp_all
  have "0 \<le> mp" using assms(4) by (simp add: mp_def)
  with m(1) have "mp = 11" by (cases "mp < 10") simp_all
  with m(2) have "doy = 365" by simp
  then show False using assms(5) by simp
qed

lemma no_leap_day_2024_2028:
  assumes "738945 \<le> d" "d \<le> 740404"
  shows "\<not> (fst (snd (civil d)) = 2 \<and> snd (snd (civil d)) = 29)"
proof -
  define e where "e = d - 730179"
  have e: "(d + 306) mod 146097 = e"
    using mod_mult_self2 [of e 146097 5] mod_pos_pos_trivial [of e 146097] assms by (simp add: e_def add.commute)
  have r: "8766 \<le> e" "e \<le> 10225" "e div 36524 = 0" "e div 146096 = 0"
    unfolding e_def using assms by auto
  consider "e < 9131" | "9131 \<le> e" "e < 9496" | "9496 \<le> e" "e < 9861" | "9861 \<le> e" by linarith
  then show ?thesis
  proof cases
    case 1
    have "e div 1460 = 6" using 1 r(1) by (intro int_div_pos_eq [of _ _ _ "e - 8760"]) auto
    moreover have "(e - 6) div 365 = 24" using 1 r(1) by (intro int_div_pos_eq [of _ _ _ "e - 8766"]) auto
    ultimately show ?thesis using 1 r by (intro not_leap_day [of _ e 24 "e - 8766"]) (simp_all add: e)
  next
    case 2
    have "e div 1460 = 6" using 2 by (intro int_div_pos_eq [of _ _ _ "e - 8760"]) auto
    moreover have "(e - 6) div 365 = 25" using 2 by (intro int_div_pos_eq [of _ _ _ "e - 9131"]) auto
    ultimately show ?thesis using 2 r by (intro not_leap_day [of _ e 25 "e - 9131"]) (simp_all add: e)
  next
    case 3
    have "e div 1460 = 6" using 3 by (intro int_div_pos_eq [of _ _ _ "e - 8760"]) auto
    moreover have "(e - 6) div 365 = 26" using 3 by (intro int_div_pos_eq [of _ _ _ "e - 9496"]) auto
    ultimately show ?thesis using 3 r by (intro not_leap_day [of _ e 26 "e - 9496"]) (simp_all add: e)
  next
    case 4
    have "(e - e div 1460) div 365 = 27"
    proof (cases "e < 10220")
      case True
      have "e div 1460 = 6" using True 4 by (intro int_div_pos_eq [of _ _ _ "e - 8760"]) auto
      moreover have "(e - 6) div 365 = 27" using True 4 by (intro int_div_pos_eq [of _ _ _ "e - 9861"]) auto
      ultimately show ?thesis by simp
    next
      case False
      have "e div 1460 = 7" using False r(2) by (intro int_div_pos_eq [of _ _ _ "e - 10220"]) auto
      moreover have "(e - 7) div 365 = 27" using False r(2) by (intro int_div_pos_eq [of _ _ _ "e - 9862"]) auto
      ultimately show ?thesis by simp
    qed
    with 4 r show ?thesis by (intro not_leap_day [of _ e 27 "e - 9861"]) (simp_all add: e)
  qed
qed

definition leap_schedule :: cronSchedule where
  "leap_schedule = \<lparr>cs_minute = [0], cs_hour = [0], cs_dayOfMonth = [29], cs_month = [2], cs_dayOfWeek = [0, 1, 2, 3, 4, 5, 6]\<rparr>"

lemma leap_expression: "parseCron ''0 0 29 2 *'' = Inr (CronSchedule leap_schedule)"
  by code_simp

lemma leap_tick_none:
  assumes "738944 \<le> day_number now" "day_number now \<le> 740037"
  shows "NextCronTick (\<lambda>_. 0) ''0 0 29 2 *'' now = Inl NoNextTick"
proof -
  have "Next_cron (\<lambda>_. 0) leap_schedule now = 0"
    using assms by (intro leap_day_far [OF _ refl] no_leap_day_2024_2028) (auto simp: leap_schedule_def)
  then show ?thesis by (simp add: NextCronTick_def leap_expression Next_def is_zero_time_def)
qed

text \<open>the search looks at 366 days, but a schedule for February 29 can be years away from its next tick.  At any time from
  February 29, 2024 to February 26, 2027 (day numbers, in UTC) the valid expression \<^verbatim>\<open>0 0 29 2 *\<close> is reported to have no next tick.\<close>

theorem leap_day_schedule_gives_up:
  assumes "738944 \<le> day_number now" "day_number now \<le> 740037"
  shows "(\<exists>s. parseCron ''0 0 29 2 *'' = Inr s) \<and> NextCronTick (\<lambda>_. 0) ''0 0 29 2 *'' now = Inl NoNextTick"
  using leap_tick_none [OF assms] leap_expression by blast

theorem leap_day_schedule_gives_up_witness:
  "(\<exists>s. parseCron ''0 0 29 2 *'' = Inr s) \<and> NextCronTick (\<lambda>_. 0) ''0 0 29 2 *'' (739616 * (24 * hour)) = Inl NoNextTick"
  by (rule leap_day_schedule_gives_up) (simp_all add: day_number_def hour_def)

end
