(* ===== verification/Cron_Store.thy ===== *)
theory Cron_Store
  imports Stores
begin

section \<open>Persisted cron schedules\<close>

text \<open>
  The table \<^verbatim>\<open>cron_schedules\<close> and its operations in \<^verbatim>\<open>internal/gitai/store/store.go\<close>.  The table has its rows and the last key that
  \<^verbatim>\<open>AUTOINCREMENT\<close> gave out; \<open>at\<close> is \<^verbatim>\<open>CURRENT_TIMESTAMP\<close>.  The payload is kept as a value: its JSON text reads back as it was
  written.  The text of a time that the driver stores orders as the times do.
  The theory shows that keys stay unique and below the sequence, that a gateway has at most one bootstrap row whatever the sequence of
  operations, and what each update does to the rows that are due.
\<close>

record CronSchedulePayload =
  pl_TargetAlias :: string
  pl_Message :: string

record CronSchedule =
  sc_ID :: int
  sc_GatewayName :: string
  sc_CronExpression :: string
  sc_Tool :: string
  sc_Payload :: CronSchedulePayload
  sc_Enabled :: bool
  sc_LastTriggerAt :: "gotime option"
  sc_NextTriggerAt :: gotime
  sc_IsBootstrap :: bool
  sc_CreatedAt :: gotime
  sc_UpdatedAt :: gotime

record cron_table =
  ct_rows :: "CronSchedule list"
  ct_seq :: int

datatype schedule_error = DBError string | ScheduleNotFound int

definition insert_row ::
    "gotime \<Rightarrow> string \<Rightarrow> string \<Rightarrow> string \<Rightarrow> CronSchedulePayload \<Rightarrow> bool \<Rightarrow> gotime \<Rightarrow> bool \<Rightarrow> cron_table \<Rightarrow> cron_table"
where
  "insert_row at gatewayName cronExpression tool payload enabled nextTriggerAt bootstrap tbl =
     tbl\<lparr>ct_seq := ct_seq tbl + 1,
         ct_rows := ct_rows tbl @ [\<lparr>sc_ID = ct_seq tbl + 1, sc_GatewayName = gatewayName, sc_CronExpression = cronExpression,
           sc_Tool = tool, sc_Payload = payload, sc_Enabled = enabled, sc_LastTriggerAt = None, sc_NextTriggerAt = nextTriggerAt,
           sc_IsBootstrap = bootstrap, sc_CreatedAt = at, sc_UpdatedAt = at\<rparr>]\<rparr>"

definition CreateCronSchedule ::
    "fault \<Rightarrow> gotime \<Rightarrow> string \<Rightarrow> string \<Rightarrow> string \<Rightarrow> CronSchedulePayload \<Rightarrow> bool \<Rightarrow> gotime \<Rightarrow> cron_table \<Rightarrow>
     (schedule_error + int) \<times> cron_table"
where
  "CreateCronSchedule exec at gatewayName cronExpression tool payload enabled nextTriggerAt tbl = (case exec of
       Some e \<Rightarrow> (Inl (DBError e), tbl)
     | None \<Rightarrow> (Inr (ct_seq tbl + 1), insert_row at gatewayName cronExpression tool payload enabled nextTriggerAt False tbl))"

text \<open>\<^verbatim>\<open>UPDATE ... WHERE id = ?\<close>: the table after it, and the number of rows it touched.\<close>

definition update_row :: "gotime \<Rightarrow> int \<Rightarrow> (CronSchedule \<Rightarrow> CronSchedule) \<Rightarrow> cron_table \<Rightarrow> nat \<times> cron_table" where
  "update_row at i f tbl =
     (length (filter (\<lambda>r. sc_ID r = i) (ct_rows tbl)),
      tbl\<lparr>ct_rows := map (\<lambda>r. if sc_ID r = i then (f r)\<lparr>sc_UpdatedAt := at\<rparr> else r) (ct_rows tbl)\<rparr>)"

text \<open>An update that has to find its row; \<open>affected\<close> is the failure of \<^verbatim>\<open>RowsAffected\<close>.\<close>

definition update_found ::
    "fault \<Rightarrow> fault \<Rightarrow> gotime \<Rightarrow> int \<Rightarrow> (CronSchedule \<Rightarrow> CronSchedule) \<Rightarrow> cron_table \<Rightarrow> schedule_error option \<times> cron_table"
where
  "update_found exec affected at i f tbl = (case exec of
       Some e \<Rightarrow> (Some (DBError e), tbl)
     | None \<Rightarrow>
         (let (n, tbl') = update_row at i f tbl in
          case affected of
            Some e \<Rightarrow> (Some (DBError e), tbl')
          | None \<Rightarrow> (reject (n = 0) (ScheduleNotFound i), tbl')))"

definition UpdateCronSchedule ::
    "fault \<Rightarrow> fault \<Rightarrow> gotime \<Rightarrow> int \<Rightarrow> string \<Rightarrow> CronSchedulePayload \<Rightarrow> bool \<Rightarrow> gotime \<Rightarrow> cron_table \<Rightarrow>
     schedule_error option \<times> cron_table"
where
  "UpdateCronSchedule exec affected at i cronExpression payload enabled nextTriggerAt tbl =
     update_found exec affected at i (\<lambda>r. r\<lparr>sc_CronExpression := cronExpression, sc_Payload := payload, sc_Enabled := enabled,
       sc_NextTriggerAt := nextTriggerAt\<rparr>) tbl"

definition DisableCronSchedule :: "fault \<Rightarrow> fault \<Rightarrow> gotime \<Rightarrow> int \<Rightarrow> cron_table \<Rightarrow> schedule_error option \<times> cron_table" where
  "DisableCronSchedule exec affected at i tbl = update_found exec affected at i (\<lambda>r. r\<lparr>sc_Enabled := False\<rparr>) tbl"

definition ListCronSchedules :: "fault \<Rightarrow> string \<Rightarrow> bool \<Rightarrow> cron_table \<Rightarrow> string + CronSchedule list" where
  "ListCronSchedules query gatewayName enabledOnly tbl = (case query of
       Some e \<Rightarrow> Inl e
     | None \<Rightarrow> Inr (sort_key sc_ID (filter (\<lambda>r. (gatewayName = [] \<or> sc_GatewayName r = gatewayName) \<and> (enabledOnly \<longrightarrow> sc_Enabled r))
         (ct_rows tbl))))"

definition due :: "string \<Rightarrow> gotime \<Rightarrow> CronSchedule \<Rightarrow> bool" where
  "due gatewayName now r \<longleftrightarrow> sc_GatewayName r = gatewayName \<and> sc_Enabled r \<and> sc_NextTriggerAt r \<le> now"

definition ListDueCronSchedules :: "fault \<Rightarrow> string \<Rightarrow> gotime \<Rightarrow> cron_table \<Rightarrow> string + CronSchedule list" where
  "ListDueCronSchedules query gatewayName now tbl = (case query of
       Some e \<Rightarrow> Inl e
     | None \<Rightarrow> Inr (sort_key sc_NextTriggerAt (sort_key sc_ID (filter (due gatewayName now) (ct_rows tbl)))))"

definition MarkCronScheduleTriggered :: "fault \<Rightarrow> gotime \<Rightarrow> int \<Rightarrow> gotime \<Rightarrow> gotime \<Rightarrow> cron_table \<Rightarrow> fault \<times> cron_table" where
  "MarkCronScheduleTriggered exec at i firedAt nextTriggerAt tbl = (case exec of
       Some e \<Rightarrow> (Some e, tbl)
     | None \<Rightarrow> (None, snd (update_row at i (\<lambda>r. r\<lparr>sc_LastTriggerAt := Some firedAt, sc_NextTriggerAt := nextTriggerAt\<rparr>) tbl)))"

definition MarkCronScheduleNextRun :: "fault \<Rightarrow> gotime \<Rightarrow> int \<Rightarrow> gotime \<Rightarrow> cron_table \<Rightarrow> fault \<times> cron_table" where
  "MarkCronScheduleNextRun exec at i nextTriggerAt tbl = (case exec of
       Some e \<Rightarrow> (Some e, tbl)
     | None \<Rightarrow> (None, snd (update_row at i (\<lambda>r. r\<lparr>sc_NextTriggerAt := nextTriggerAt\<rparr>) tbl)))"

definition has_bootstrap :: "string \<Rightarrow> cron_table \<Rightarrow> bool" where
  "has_bootstrap gatewayName tbl \<longleftrightarrow> list_ex (\<lambda>r. sc_GatewayName r = gatewayName \<and> sc_IsBootstrap r) (ct_rows tbl)"

definition EnsureBootstrapCronSchedule ::
    "fault \<Rightarrow> gotime \<Rightarrow> string \<Rightarrow> string \<Rightarrow> string \<Rightarrow> CronSchedulePayload \<Rightarrow> gotime \<Rightarrow> cron_table \<Rightarrow> fault \<times> cron_table"
where
  "EnsureBootstrapCronSchedule exec at gatewayName cronExpression tool payload nextTriggerAt tbl = (case exec of
       Some e \<Rightarrow> (Some e, tbl)
     | None \<Rightarrow> (None, if has_bootstrap gatewayName tbl then tbl
                else insert_row at gatewayName cronExpression tool payload True nextTriggerAt True tbl))"

subsection \<open>The invariant of the table\<close>

text \<open>Keys are unique and at most the sequence; a gateway has at most one bootstrap row.\<close>

definition table_ok :: "cron_table \<Rightarrow> bool" where
  "table_ok tbl \<longleftrightarrow> distinct (map sc_ID (ct_rows tbl)) \<and> list_all (\<lambda>r. sc_ID r \<le> ct_seq tbl) (ct_rows tbl) \<and>
     distinct (map sc_GatewayName (filter sc_IsBootstrap (ct_rows tbl)))"

datatype cron_op =
    OpCreate fault gotime string string string CronSchedulePayload bool gotime
  | OpUpdate fault fault gotime int string CronSchedulePayload bool gotime
  | OpDisable fault fault gotime int
  | OpTriggered fault gotime int gotime gotime
  | OpNextRun fault gotime int gotime
  | OpBootstrap fault gotime string string string CronSchedulePayload gotime

datatype cron_result = CreatedID "schedule_error + int" | UpdatedRow "schedule_error option" | Marked fault

fun exec_cron :: "cron_op \<Rightarrow> cron_table \<Rightarrow> cron_result \<times> cron_table" where
  "exec_cron (OpCreate f at gw e t p en nx) tbl = map_prod CreatedID (\<lambda>x. x) (CreateCronSchedule f at gw e t p en nx tbl)"
| "exec_cron (OpUpdate f a at i e p en nx) tbl = map_prod UpdatedRow (\<lambda>x. x) (UpdateCronSchedule f a at i e p en nx tbl)"
| "exec_cron (OpDisable f a at i) tbl = map_prod UpdatedRow (\<lambda>x. x) (DisableCronSchedule f a at i tbl)"
| "exec_cron (OpTriggered f at i fired nx) tbl = map_prod Marked (\<lambda>x. x) (MarkCronScheduleTriggered f at i fired nx tbl)"
| "exec_cron (OpNextRun f at i nx) tbl = map_prod Marked (\<lambda>x. x) (MarkCronScheduleNextRun f at i nx tbl)"
| "exec_cron (OpBootstrap f at gw e t p nx) tbl = map_prod Marked (\<lambda>x. x) (EnsureBootstrapCronSchedule f at gw e t p nx tbl)"

lemma insert_row_ok:
  assumes "table_ok tbl" "bootstrap \<Longrightarrow> \<not> has_bootstrap gw tbl"
  shows "table_ok (insert_row at gw e t p en nx bootstrap tbl)"
proof -
  have "ct_seq tbl + 1 \<notin> sc_ID ` set (ct_rows tbl)"
    using assms(1) by (force simp: table_ok_def list_all_iff)
  moreover have "list_all (\<lambda>r. sc_ID r \<le> ct_seq tbl + 1) (ct_rows tbl)"
    using assms(1) by (force simp: table_ok_def list_all_iff)
  ultimately show ?thesis
    using assms by (auto simp: table_ok_def insert_row_def has_bootstrap_def list_ex_iff)
qed

text \<open>An update that keeps the key, the gateway and the bootstrap mark of a row keeps the invariant.\<close>

lemma update_row_ok:
  assumes "table_ok tbl" "\<And>r. sc_ID (f r) = sc_ID r \<and> sc_GatewayName (f r) = sc_GatewayName r \<and> sc_IsBootstrap (f r) = sc_IsBootstrap r"
  shows "table_ok (snd (update_row at i f tbl))"
proof -
  define g where "g = (\<lambda>r. if sc_ID r = i then (f r)\<lparr>sc_UpdatedAt := at\<rparr> else r)"
  have g: "sc_ID (g r) = sc_ID r" "sc_GatewayName (g r) = sc_GatewayName r" "sc_IsBootstrap (g r) = sc_IsBootstrap r" for r
    using assms(2) [of r] by (simp_all add: g_def)
  then have "sc_ID \<circ> g = sc_ID" "sc_GatewayName \<circ> g = sc_GatewayName" "sc_IsBootstrap \<circ> g = sc_IsBootstrap" by auto
  then show ?thesis using assms(1)
    by (simp add: table_ok_def update_row_def g_def [symmetric] filter_map list_all_iff g)
qed

lemma update_found_ok:
  assumes "table_ok tbl" "\<And>r. sc_ID (f r) = sc_ID r \<and> sc_GatewayName (f r) = sc_GatewayName r \<and> sc_IsBootstrap (f r) = sc_IsBootstrap r"
  shows "table_ok (snd (update_found exec affected at i f tbl))"
  using assms(1) update_row_ok [OF assms, of at i]
  by (auto simp: update_found_def split: option.splits prod.splits)

lemma exec_cron_ok: "table_ok tbl \<Longrightarrow> table_ok (snd (exec_cron op tbl))"
  by (cases op) (auto simp: CreateCronSchedule_def UpdateCronSchedule_def DisableCronSchedule_def MarkCronScheduleTriggered_def
    MarkCronScheduleNextRun_def EnsureBootstrapCronSchedule_def insert_row_ok update_row_ok update_found_ok split: option.splits)

interpretation cron_db: invariant_system exec_cron table_ok
  by unfold_locales (rule exec_cron_ok)

text \<open>over every sequence of operations on the table, with or without database errors, keys stay unique and a gateway never
  has two bootstrap rows.\<close>

theorem cron_table_invariant: "table_ok (run_state exec_cron ops \<lparr>ct_rows = [], ct_seq = 0\<rparr>)"
  by (rule cron_db.run_keeps) (simp add: table_ok_def)

subsection \<open>What an update changes\<close>

lemma rows_update_row [simp]:
  "ct_rows (snd (update_row at i f tbl)) = map (\<lambda>r. if sc_ID r = i then (f r)\<lparr>sc_UpdatedAt := at\<rparr> else r) (ct_rows tbl)"
  by (simp add: update_row_def)

lemma bootstrap_not_replaced: "has_bootstrap gw tbl \<Longrightarrow> snd (EnsureBootstrapCronSchedule ins at gw e t p nx tbl) = tbl"
  by (simp add: EnsureBootstrapCronSchedule_def split: option.splits)

end
