(* ===== verification/Cron_Manager.thy ===== *)
theory Cron_Manager
  imports Cron Cron_Store Envelope
begin

section \<open>The cron gateway manager\<close>

text \<open>
  The rest of \<^verbatim>\<open>internal/gitai/gateway/cron.go\<close>: the manager that keeps the running jobs in line with the configuration, the loop of a
  job that posts \<^verbatim>\<open>cron.tick\<close> events, and the poll of a job whose schedules are rows of the table.
  A job is known by its name and the gateway it was started for.  \<open>ord\<close> is the order in which \<^verbatim>\<open>range\<close> visits the map of wanted gateways.
  The clock and the failures of the calls a round makes are arguments.
\<close>

record Manager =
  mg_jobs :: "(string \<times> Gateway) list"
  mg_acpURL :: string
  mg_db :: bool
  mg_table :: cron_table

definition NewManager :: "string \<Rightarrow> cron_table \<Rightarrow> Manager" where
  "NewManager acpURL tbl = \<lparr>mg_jobs = [], mg_acpURL = acpURL, mg_db = False, mg_table = tbl\<rparr>"

definition EnableDBSchedules :: "Manager \<Rightarrow> Manager" where
  "EnableDBSchedules m = m\<lparr>mg_db := True\<rparr>"

definition gw_get :: "Gateway \<Rightarrow> string \<Rightarrow> string" where
  "gw_get gw k = cfg_get (gw_Config gw) k"

definition cronSpecChanged :: "Gateway \<Rightarrow> Gateway \<Rightarrow> bool" where
  "cronSpecChanged old newSpec \<longleftrightarrow>
     trim_space (gw_get old ''source'') \<noteq> trim_space (gw_get newSpec ''source'') \<or>
     trim_space (gw_get old ''target'') \<noteq> trim_space (gw_get newSpec ''target'') \<or>
     trim_space (gw_get old ''poll_interval'') \<noteq> trim_space (gw_get newSpec ''poll_interval'') \<or>
     gw_get old ''expression'' \<noteq> gw_get newSpec ''expression'' \<or>
     gw_get old ''payload'' \<noteq> gw_get newSpec ''payload''"

definition ACPBaseURL :: "string \<Rightarrow> string" where
  "ACPBaseURL addr = (case last_index_of addr '':'' of
       None \<Rightarrow> ''http://127.0.0.1:8765''
     | Some colonIdx \<Rightarrow>
         (let port = drop (Suc colonIdx) addr in
          if port = [] then ''http://127.0.0.1:8765'' else ''http://127.0.0.1:'' @ port))"

subsection \<open>Starting and stopping jobs\<close>

text \<open>\<^verbatim>\<open>strings.EqualFold(s, "db")\<close>: no other letter folds to a letter of \<^verbatim>\<open>db\<close>.\<close>

definition source_db :: "Gateway \<Rightarrow> bool" where
  "source_db gw \<longleftrightarrow> to_lower (trim_space (gw_get gw ''source'')) = ''db''"

definition add_job :: "Gateway \<Rightarrow> Manager \<Rightarrow> Manager" where
  "add_job gw m = m\<lparr>mg_jobs := AList.update (gw_Name gw) gw (mg_jobs m)\<rparr>"

definition bootstrap_table :: "gotime \<Rightarrow> fault \<Rightarrow> Gateway \<Rightarrow> cron_table \<Rightarrow> cron_table" where
  "bootstrap_table now ins gw tbl =
     (let bootstrapExpr = trim_space (gw_get gw ''expression'');
          targetAlias = trim_space (gw_get gw ''target'');
          message = trim_space (gw_get gw ''payload'')
      in if bootstrapExpr = [] then tbl
         else if targetAlias = [] \<or> message = [] then tbl
         else (case NextCronTick (\<lambda>_. 0) bootstrapExpr now of
                 Inl e \<Rightarrow> tbl
               | Inr next \<Rightarrow> snd (EnsureBootstrapCronSchedule ins now (gw_Name gw) bootstrapExpr ''matrix.send_message''
                   \<lparr>pl_TargetAlias = targetAlias, pl_Message = message\<rparr> next tbl)))"

definition startDBLocked :: "gotime \<Rightarrow> fault \<Rightarrow> Gateway \<Rightarrow> Manager \<Rightarrow> Manager" where
  "startDBLocked now ins gw m =
     (if \<not> mg_db m then m else add_job gw (m\<lparr>mg_table := bootstrap_table now ins gw (mg_table m)\<rparr>))"

definition startLocked :: "gotime \<Rightarrow> fault \<Rightarrow> Gateway \<Rightarrow> Manager \<Rightarrow> Manager" where
  "startLocked now ins gw m =
     (if source_db gw then startDBLocked now ins gw m
      else (case parseCron (gw_get gw ''expression'') of Inl e \<Rightarrow> m | Inr sched \<Rightarrow> add_job gw m))"

definition wanted :: "Gateway list \<Rightarrow> (string \<times> Gateway) list" where
  "wanted gateways = fold (\<lambda>gw w. if gw_Type gw = ''cron'' then AList.update (gw_Name gw) gw w else w) gateways []"

definition keep_job :: "(string \<times> Gateway) list \<Rightarrow> string \<times> Gateway \<Rightarrow> bool" where
  "keep_job w = (\<lambda>(name, spec). case map_of w name of None \<Rightarrow> False | Some newSpec \<Rightarrow> \<not> cronSpecChanged spec newSpec)"

text \<open>\<open>at name\<close> is the clock and the fate of the insertion when the job of that name starts.\<close>

definition start_missing :: "(string \<Rightarrow> gotime \<times> fault) \<Rightarrow> string \<times> Gateway \<Rightarrow> Manager \<Rightarrow> Manager" where
  "start_missing at = (\<lambda>(name, gw) m.
     if map_of (mg_jobs m) name \<noteq> None then m else startLocked (fst (at name)) (snd (at name)) gw m)"

definition Reconcile ::
    "((string \<times> Gateway) list \<Rightarrow> (string \<times> Gateway) list) \<Rightarrow> (string \<Rightarrow> gotime \<times> fault) \<Rightarrow> Gateway list \<Rightarrow> Manager \<Rightarrow> Manager"
where
  "Reconcile ord at gateways m =
     (let w = wanted gateways in
      fold (start_missing at) (ord w) (m\<lparr>mg_jobs := filter (keep_job w) (mg_jobs m)\<rparr>))"

definition Stop :: "Manager \<Rightarrow> Manager" where
  "Stop m = m\<lparr>mg_jobs := []\<rparr>"

subsection \<open>The loop of a job\<close>

text \<open>One round: the clock when the tick is computed, when the delay is, and when the event is made, whether the context ends while the
  job waits, and the failure of making the request.  What the server answers changes nothing.\<close>

record tick_round =
  rd_now :: gotime
  rd_now2 :: gotime
  rd_cancelled :: bool
  rd_fire_now :: gotime
  rd_request :: fault

datatype job_event = NoTick | Waiting int | JobStopped | Posted string Event

definition fire :: "Manager \<Rightarrow> string \<Rightarrow> Gateway \<Rightarrow> tick_round \<Rightarrow> job_event list" where
  "fire m name spec r =
     (let evt = \<lparr>ev_Source = name, ev_Type = ''cron.tick'', ev_TS = rd_fire_now r,
          ev_Payload = \<lparr>ep_Message = gw_get spec ''payload'', ep_Data = []\<rparr>\<rparr>
      in case rd_request r of
           Some e \<Rightarrow> []
         | None \<Rightarrow> [Posted (mg_acpURL m @ ''/events/'' @ name) evt])"

fun runJob :: "Manager \<Rightarrow> (gotime \<Rightarrow> int) \<Rightarrow> string \<Rightarrow> Gateway \<Rightarrow> schedule \<Rightarrow> tick_round list \<Rightarrow> job_event list" where
  "runJob m off name spec sched [] = []"
| "runJob m off name spec sched (r # rs) =
     (let next = Next off sched (rd_now r) in
      if is_zero_time next then [NoTick]
      else (let delay = (if next - rd_now2 r < 0 then 0 else next - rd_now2 r) in
        Waiting delay #
        (if rd_cancelled r then [JobStopped]
         else fire m name spec r @ runJob m off name spec sched rs)))"

subsection \<open>The poll of a database job\<close>

definition pollInterval :: "Gateway \<Rightarrow> int" where
  "pollInterval spec =
     (let raw = trim_space (gw_get spec ''poll_interval'') in
      if raw = [] then 15 * second
      else (case ParseDuration raw of None \<Rightarrow> 15 * second | Some d \<Rightarrow> if d > 0 then d else 15 * second))"

text \<open>A dispatched tool call: gateway, tool, target and message.\<close>

type_synonym tool_call = "string \<times> string \<times> string \<times> string"

text \<open>The failures of a round: of the query, of the dispatch of a row and of the statement that updates a row.\<close>

record poll_faults =
  pf_query :: fault
  pf_dispatch :: "CronSchedule \<Rightarrow> fault"
  pf_update :: "CronSchedule \<Rightarrow> fault"

definition row_call :: "string \<Rightarrow> CronSchedule \<Rightarrow> tool_call" where
  "row_call name r = (name, sc_Tool r, pl_TargetAlias (sc_Payload r), pl_Message (sc_Payload r))"

definition run_row :: "string \<Rightarrow> poll_faults \<Rightarrow> gotime \<Rightarrow> CronSchedule \<Rightarrow> tool_call list \<times> cron_table \<Rightarrow> tool_call list \<times> cron_table" where
  "run_row name fs now r = (\<lambda>(calls, tbl).
     (case NextCronTick (\<lambda>_. 0) (sc_CronExpression r) now of
        Inl e \<Rightarrow> (calls, snd (DisableCronSchedule (pf_update fs r) None now (sc_ID r) tbl))
      | Inr next \<Rightarrow>
          (case pf_dispatch fs r of
             Some e \<Rightarrow> (calls @ [row_call name r], snd (MarkCronScheduleNextRun (pf_update fs r) now (sc_ID r) next tbl))
           | None \<Rightarrow> (calls @ [row_call name r], snd (MarkCronScheduleTriggered (pf_update fs r) now (sc_ID r) now next tbl)))))"

definition poll_round :: "string \<Rightarrow> poll_faults \<Rightarrow> gotime \<Rightarrow> cron_table \<Rightarrow> tool_call list \<times> cron_table" where
  "poll_round name fs now tbl = (case ListDueCronSchedules (pf_query fs) name now tbl of
       Inl e \<Rightarrow> ([], tbl)
     | Inr rows \<Rightarrow> fold (run_row name fs now) rows ([], tbl))"

text \<open>The loop: a poll, then the end of the context or the next poll.\<close>

fun runDBJob :: "string \<Rightarrow> (poll_faults \<times> gotime \<times> bool) list \<Rightarrow> cron_table \<Rightarrow> tool_call list \<times> cron_table" where
  "runDBJob name [] tbl = ([], tbl)"
| "runDBJob name ((fs, now, cancelled) # rs) tbl =
     (let (calls, tbl1) = poll_round name fs now tbl in
      if cancelled then (calls, tbl1)
      else (let (calls', tbl2) = runDBJob name rs tbl1 in (calls @ calls', tbl2)))"

subsection \<open>Reconciliation\<close>

definition manager_ok :: "Manager \<Rightarrow> bool" where
  "manager_ok m \<longleftrightarrow> distinct (map fst (mg_jobs m)) \<and> list_all (\<lambda>(n, gw). gw_Name gw = n) (mg_jobs m)"

text \<open>A loop over a map visits every entry once.\<close>

definition visits_all :: "(('k \<times> 'v) list \<Rightarrow> ('k \<times> 'v) list) \<Rightarrow> ('k \<times> 'v) list \<Rightarrow> bool" where
  "visits_all ord w \<longleftrightarrow> set (ord w) = set w \<and> distinct (map fst (ord w))"

definition startable :: "bool \<Rightarrow> Gateway \<Rightarrow> bool" where
  "startable db gw \<longleftrightarrow> (if source_db gw then db else (case parseCron (gw_get gw ''expression'') of Inl _ \<Rightarrow> False | Inr _ \<Rightarrow> True))"

text \<open>The job that should run under a name: the running one if its gateway is wanted unchanged, otherwise a new one if it can start.\<close>

definition desired :: "Manager \<Rightarrow> Gateway list \<Rightarrow> string \<Rightarrow> Gateway option" where
  "desired m gateways k = (case map_of (wanted gateways) k of
       None \<Rightarrow> None
     | Some gw \<Rightarrow>
         (case map_of (mg_jobs m) k of
            Some old \<Rightarrow> if cronSpecChanged old gw then (if startable (mg_db m) gw then Some gw else None) else Some old
          | None \<Rightarrow> if startable (mg_db m) gw then Some gw else None))"

lemma wanted_keys: "distinct (map fst (wanted gateways)) \<and> (\<forall>(n, gw) \<in> set (wanted gateways). gw_Name gw = n)"
proof -
  define f where "f = (\<lambda>gw w. if gw_Type gw = ''cron'' then AList.update (gw_Name gw) gw w else (w :: (string \<times> Gateway) list))"
  have "distinct (map fst (fold f gws w)) \<and> (\<forall>(n, gw) \<in> set (fold f gws w). gw_Name gw = n)"
    if "distinct (map fst w)" "\<forall>(n, gw) \<in> set w. gw_Name gw = n" for gws w
    using that
  proof (induction gws arbitrary: w)
    case (Cons g gws)
    have "distinct (map fst (f g w))" "\<forall>(n, gw) \<in> set (f g w). gw_Name gw = n"
      using Cons.prems by (auto simp: f_def distinct_update dest: in_update)
    from Cons.IH [OF this] show ?case by simp
  qed simp
  from this [of "[]" gateways] show ?thesis by (simp add: wanted_def f_def)
qed

lemma add_job_simps [simp]:
  "map_of (mg_jobs (add_job gw m)) = (map_of (mg_jobs m))(gw_Name gw \<mapsto> gw)" "mg_db (add_job gw m) = mg_db m"
  "mg_table (add_job gw m) = mg_table m"
  by (simp_all add: add_job_def)

lemma startLocked_jobs:
  "map_of (mg_jobs (startLocked now ins gw m)) =
     (if startable (mg_db m) gw then (map_of (mg_jobs m))(gw_Name gw \<mapsto> gw) else map_of (mg_jobs m))"
  "mg_db (startLocked now ins gw m) = mg_db m"
  by (auto simp: startLocked_def startDBLocked_def startable_def add_job_def split: sum.splits)

lemma add_job_ok: "manager_ok m \<Longrightarrow> manager_ok (add_job gw m)"
  by (auto simp: manager_ok_def add_job_def list_all_iff distinct_update dest: in_update)

lemma startLocked_ok: "manager_ok m \<Longrightarrow> manager_ok (startLocked now ins gw m)"
proof -
  assume m: "manager_ok m"
  then have "manager_ok (m\<lparr>mg_table := t\<rparr>)" for t by (simp add: manager_ok_def)
  with m show ?thesis
    by (auto simp: startLocked_def startDBLocked_def add_job_ok split: sum.splits)
qed

lemma fold_start:
  assumes "distinct (map fst xs)" "\<forall>(n, gw) \<in> set xs. gw_Name gw = n"
  shows "map_of (mg_jobs (fold (start_missing at) xs m)) k = (case map_of (mg_jobs m) k of
           Some j \<Rightarrow> Some j
         | None \<Rightarrow> (case map_of xs k of Some gw \<Rightarrow> if startable (mg_db m) gw then Some gw else None | None \<Rightarrow> None))"
    and "mg_db (fold (start_missing at) xs m) = mg_db m"
    and "manager_ok m \<Longrightarrow> manager_ok (fold (start_missing at) xs m)"
proof -
  have "map_of (mg_jobs (fold (start_missing at) xs m)) k = (case map_of (mg_jobs m) k of
           Some j \<Rightarrow> Some j
         | None \<Rightarrow> (case map_of xs k of Some gw \<Rightarrow> if startable (mg_db m) gw then Some gw else None | None \<Rightarrow> None))
      \<and> mg_db (fold (start_missing at) xs m) = mg_db m \<and> (manager_ok m \<longrightarrow> manager_ok (fold (start_missing at) xs m))"
    using assms
  proof (induction xs arbitrary: m)
    case (Cons x xs)
    obtain n gw where x: "x = (n, gw)" "gw_Name gw = n" using Cons.prems(2) by (cases x) auto
    have nx: "map_of xs n = None" using Cons.prems(1) x by (simp add: map_of_eq_None_iff)
    have ok: "manager_ok m \<Longrightarrow> manager_ok (start_missing at x m)"
      using startLocked_ok by (auto simp: start_missing_def x)
    show ?case using Cons.IH [of "start_missing at x m"] Cons.prems x nx ok
      by (auto simp: start_missing_def startLocked_jobs split: option.splits if_splits)
  qed (simp split: option.splits)
  then show "map_of (mg_jobs (fold (start_missing at) xs m)) k = (case map_of (mg_jobs m) k of
           Some j \<Rightarrow> Some j
         | None \<Rightarrow> (case map_of xs k of Some gw \<Rightarrow> if startable (mg_db m) gw then Some gw else None | None \<Rightarrow> None))"
    and "mg_db (fold (start_missing at) xs m) = mg_db m"
    and "manager_ok m \<Longrightarrow> manager_ok (fold (start_missing at) xs m)" by blast+
qed

lemma map_of_filter_distinct:
  "distinct (map fst xs) \<Longrightarrow> map_of (filter P xs) k = (case map_of xs k of Some v \<Rightarrow> if P (k, v) then Some v else None | None \<Rightarrow> None)"
  by (induction xs) (auto simp: map_of_eq_None_iff split: option.splits dest: map_of_SomeD intro: rev_image_eqI)

lemma Reconcile_desired:
  assumes "manager_ok m" "visits_all ord (wanted gateways)"
  shows "manager_ok (Reconcile ord at gateways m)" "mg_db (Reconcile ord at gateways m) = mg_db m"
    "map_of (mg_jobs (Reconcile ord at gateways m)) k = desired m gateways k"
proof -
  let ?w = "wanted gateways"
  have v: "distinct (map fst (ord ?w))" "\<forall>(n, gw) \<in> set (ord ?w). gw_Name gw = n"
    using assms(2) wanted_keys by (auto simp: visits_all_def)
  have same: "map_of (ord ?w) k = map_of ?w k"
    using assms(2) wanted_keys [of gateways] map_of_inject_set [of "ord ?w" ?w] by (simp add: visits_all_def)
  have d: "distinct (map fst (mg_jobs m))" using assms(1) by (simp add: manager_ok_def)
  have k: "manager_ok (m\<lparr>mg_jobs := filter (keep_job ?w) (mg_jobs m)\<rparr>)"
    using assms(1) by (auto simp: manager_ok_def list_all_iff distinct_map_filter)
  show "manager_ok (Reconcile ord at gateways m)" "mg_db (Reconcile ord at gateways m) = mg_db m"
    using fold_start(2,3) [OF v] k by (simp_all add: Reconcile_def Let_def)
  show "map_of (mg_jobs (Reconcile ord at gateways m)) k = desired m gateways k"
    by (auto simp: Reconcile_def Let_def fold_start(1) [OF v] same desired_def map_of_filter_distinct [OF d] keep_job_def
        split: option.splits)
qed

lemma desired_stable:
  assumes "manager_ok m" "visits_all ord (wanted gateways)"
  shows "desired (Reconcile ord at gateways m) gateways k = map_of (mg_jobs (Reconcile ord at gateways m)) k"
  unfolding desired_def [of "Reconcile ord at gateways m"] Reconcile_desired(2,3) [OF assms]
  by (auto simp: desired_def cronSpecChanged_def split: option.splits if_splits)

text \<open>C27: after a reconciliation, in whatever order it visits the gateways, exactly the wanted cron gateways that can start have a
  job: a job whose gateway is unchanged keeps running, a changed one is replaced, any other is stopped.  Reconciling again changes nothing.\<close>

theorem Reconcile_exact:
  assumes "manager_ok m" "visits_all ord (wanted gateways)"
  shows "manager_ok (Reconcile ord at gateways m) \<and>
    (\<forall>k. map_of (mg_jobs (Reconcile ord at gateways m)) k = desired m gateways k) \<and>
    (\<forall>k. map_of (mg_jobs (Reconcile ord at' gateways (Reconcile ord at gateways m))) k = map_of (mg_jobs (Reconcile ord at gateways m)) k)"
  using Reconcile_desired(1,3) [OF assms] desired_stable [OF assms]
    Reconcile_desired(3) [OF Reconcile_desired(1) [OF assms] assms(2)] by simp

definition sample_gateway :: "string \<Rightarrow> string \<Rightarrow> Gateway" where
  "sample_gateway name expr = \<lparr>gw_Name = name, gw_Type = ''cron'', gw_Command = [], gw_Args = [], gw_Env = [],
     gw_Config = [(''expression'', expr), (''payload'', ''go'')], gw_AutoRestart = False\<rparr>"

theorem Reconcile_exact_witness:
  "let m = \<lparr>mg_jobs = [(''a'', sample_gateway ''a'' ''@every 5m''), (''b'', sample_gateway ''b'' ''@every 5m'')], mg_acpURL = [], mg_db = False,
        mg_table = \<lparr>ct_rows = [], ct_seq = 0\<rparr>\<rparr>;
      gws = [sample_gateway ''a'' ''@every 5m'', sample_gateway ''c'' ''bad'']
   in manager_ok (Reconcile (\<lambda>w. w) (\<lambda>_. (0, None)) gws m) \<and>
      (\<forall>k. map_of (mg_jobs (Reconcile (\<lambda>w. w) (\<lambda>_. (0, None)) gws m)) k = desired m gws k) \<and>
      (\<forall>k. map_of (mg_jobs (Reconcile (\<lambda>w. w) (\<lambda>_. (1, None)) gws (Reconcile (\<lambda>w. w) (\<lambda>_. (0, None)) gws m))) k =
         map_of (mg_jobs (Reconcile (\<lambda>w. w) (\<lambda>_. (0, None)) gws m)) k)"
  unfolding Let_def
  by (rule Reconcile_exact)
    (simp_all add: manager_ok_def visits_all_def wanted_keys sample_gateway_def)

subsection \<open>Bootstrap rows\<close>

lemma start_missing_table:
  assumes "source_db (snd x) \<Longrightarrow> has_bootstrap (gw_Name (snd x)) (mg_table m)"
  shows "mg_table (start_missing at x m) = mg_table m"
  using assms
  by (cases x) (auto simp: start_missing_def startLocked_def startDBLocked_def bootstrap_table_def Let_def bootstrap_not_replaced
    split: sum.splits)

text \<open>a changed expression, target or payload restarts a database job, but the row that was made from the old one stays: once every
  wanted database gateway has its bootstrap row, no reconciliation changes the table, whatever the new configuration says.\<close>

theorem bootstrap_change_ignored:
  assumes "\<forall>(n, gw) \<in> set (ord (wanted gateways)). source_db gw \<longrightarrow> has_bootstrap (gw_Name gw) (mg_table m)"
  shows "mg_table (Reconcile ord at gateways m) = mg_table m"
proof -
  have "mg_table (fold (start_missing at) xs m') = mg_table m'"
    if "\<forall>(n, gw) \<in> set xs. source_db gw \<longrightarrow> has_bootstrap (gw_Name gw) (mg_table m')" for xs m'
    using that
  proof (induction xs arbitrary: m')
    case (Cons x xs)
    have e: "mg_table (start_missing at x m') = mg_table m'"
      using Cons.prems by (intro start_missing_table) (auto simp: split_beta)
    then show ?case using Cons by simp
  qed simp
  from this [of "ord (wanted gateways)" "m\<lparr>mg_jobs := filter (keep_job (wanted gateways)) (mg_jobs m)\<rparr>"] assms
  show ?thesis by (simp add: Reconcile_def Let_def)
qed

definition sample_row :: "int \<Rightarrow> string \<Rightarrow> string \<Rightarrow> gotime \<Rightarrow> CronSchedule" where
  "sample_row i gw expr next = \<lparr>sc_ID = i, sc_GatewayName = gw, sc_CronExpression = expr, sc_Tool = ''matrix.send_message'',
     sc_Payload = \<lparr>pl_TargetAlias = ''ops'', pl_Message = ''hello''\<rparr>, sc_Enabled = True, sc_LastTriggerAt = None,
     sc_NextTriggerAt = next, sc_IsBootstrap = True, sc_CreatedAt = 0, sc_UpdatedAt = 0\<rparr>"

definition db_gateway :: "string \<Rightarrow> Gateway" where
  "db_gateway expr = \<lparr>gw_Name = ''s'', gw_Type = ''cron'', gw_Command = [], gw_Args = [], gw_Env = [],
     gw_Config = [(''source'', ''db''), (''expression'', expr), (''target'', ''ops''), (''payload'', ''new'')], gw_AutoRestart = False\<rparr>"

theorem bootstrap_change_ignored_witness:
  "let m = \<lparr>mg_jobs = [(''s'', db_gateway ''@every 1h'')], mg_acpURL = [], mg_db = True,
        mg_table = \<lparr>ct_rows = [sample_row 1 ''s'' ''@every 1h'' 5], ct_seq = 1\<rparr>\<rparr>
   in mg_table (Reconcile (\<lambda>w. w) (\<lambda>_. (7, None)) [db_gateway ''@every 5m''] m) = mg_table m"
  unfolding Let_def
  by (rule bootstrap_change_ignored) (simp add: wanted_def db_gateway_def has_bootstrap_def sample_row_def)

subsection \<open>Ticks of a job\<close>

text \<open>What the clock guarantees of the rounds of a job: readings do not go back, and the timer does not fire early.\<close>

fun clock_ok :: "(gotime \<Rightarrow> gotime) \<Rightarrow> tick_round list \<Rightarrow> bool" where
  "clock_ok nxt [] \<longleftrightarrow> True"
| "clock_ok nxt (r # rs) \<longleftrightarrow> 0 \<le> rd_now r \<and> rd_now r \<le> rd_now2 r \<and>
     rd_now2 r + max 0 (nxt (rd_now r) - rd_now2 r) \<le> rd_fire_now r \<and>
     (rs \<noteq> [] \<longrightarrow> rd_fire_now r \<le> rd_now (hd rs)) \<and> clock_ok nxt rs"

definition posted :: "job_event list \<Rightarrow> Event list" where
  "posted es = List.map_filter (\<lambda>e. case e of Posted url evt \<Rightarrow> Some evt | _ \<Rightarrow> None) es"

lemma clock_ok_waited: "clock_ok nxt rs \<Longrightarrow> waited nxt (map rd_now rs)"
proof (induction rs)
  case (Cons r rs)
  then show ?case by (cases rs) auto
qed simp

lemma posted_simps [simp]:
  "posted [] = []" "posted (Waiting d # es) = posted es" "posted [NoTick] = []" "posted [JobStopped] = []"
  "posted (Posted u e # es) = e # posted es"
  by (simp_all add: posted_def List.map_filter_simps)

lemma runJob_posts:
  assumes "clock_ok (Next off sched) rs" "list_all (\<lambda>r. rd_request r = None \<and> \<not> rd_cancelled r) rs"
  shows "list_all2 (\<lambda>tick e. tick \<le> ev_TS e \<and> ev_Source e = name \<and> ep_Message (ev_Payload e) = gw_get spec ''payload'')
           (ticks (Next off sched) (map rd_now rs)) (posted (runJob m off name spec sched rs))"
  using assms by (induction rs) (auto simp: Let_def fire_def)

text \<open>the job posts one event for each tick of its schedule, under its own name and with its own payload, none before its tick;
  and the ticks are strictly increasing, so no tick is posted twice.\<close>

theorem job_posts_each_tick_once:
  assumes "clock_ok (Next off sched) rs" "list_all (\<lambda>r. rd_request r = None \<and> \<not> rd_cancelled r) rs"
  shows "sorted_wrt (<) (ticks (Next off sched) (map rd_now rs)) \<and>
    list_all2 (\<lambda>tick e. tick \<le> ev_TS e \<and> ev_Source e = name \<and> ep_Message (ev_Payload e) = gw_get spec ''payload'')
      (ticks (Next off sched) (map rd_now rs)) (posted (runJob m off name spec sched rs))"
  using sched.ticks_increasing [OF clock_ok_waited [OF assms(1)]] runJob_posts [OF assms] by blast

theorem job_posts_each_tick_once_witness:
  "let rs = [\<lparr>rd_now = 10, rd_now2 = 11, rd_cancelled = False, rd_fire_now = 20, rd_request = None\<rparr>,
         \<lparr>rd_now = 21, rd_now2 = 21, rd_cancelled = False, rd_fire_now = 26, rd_request = None\<rparr>];
       nxt = Next (\<lambda>_. 0) (IntervalSchedule 5)
   in sorted_wrt (<) (ticks nxt (map rd_now rs)) \<and>
      list_all2 (\<lambda>tick e. tick \<le> ev_TS e \<and> ev_Source e = ''a'' \<and> ep_Message (ev_Payload e) = gw_get (sample_gateway ''a'' ''@every 5ns'') ''payload'')
        (ticks nxt (map rd_now rs))
        (posted (runJob (NewManager [] \<lparr>ct_rows = [], ct_seq = 0\<rparr>) (\<lambda>_. 0) ''a'' (sample_gateway ''a'' ''@every 5ns'') (IntervalSchedule 5) rs))"
  unfolding Let_def by (rule job_posts_each_tick_once) (simp_all add: Next_def Next_interval_def)

subsection \<open>Due rows\<close>

lemma NextCronTick_later: "NextCronTick off expr now = Inr next \<Longrightarrow> 0 \<le> now \<Longrightarrow> now < next"
  using sched.advances by (auto simp: NextCronTick_def Let_def split: sum.splits if_splits)

definition valid_row :: "gotime \<Rightarrow> CronSchedule \<Rightarrow> bool" where
  "valid_row now r \<longleftrightarrow> (case NextCronTick (\<lambda>_. 0) (sc_CronExpression r) now of Inl _ \<Rightarrow> False | Inr _ \<Rightarrow> True)"

lemma run_row_calls: "fst (run_row name fs now r (calls, tbl)) = calls @ (if valid_row now r then [row_call name r] else [])"
  by (auto simp: run_row_def valid_row_def split: sum.splits option.splits)

lemma fold_run_calls:
  "fst (fold (run_row name fs now) rows (calls, tbl)) = calls @ map (row_call name) (filter (valid_row now) rows)"
proof (induction rows arbitrary: calls tbl)
  case (Cons r rows)
  obtain calls' tbl' where e: "run_row name fs now r (calls, tbl) = (calls', tbl')" by (cases "run_row name fs now r (calls, tbl)")
  then show ?case using Cons.IH [of calls' tbl'] run_row_calls [of name fs now r calls tbl] by auto
qed simp

lemma run_row_due:
  assumes "0 \<le> now" "pf_update fs r = None" "r' \<in> set (ct_rows (snd (run_row name fs now r (calls, tbl))))" "due name now r'"
  shows "r' \<in> set (ct_rows tbl) \<and> sc_ID r' \<noteq> sc_ID r"
  using assms NextCronTick_later [of "\<lambda>_. 0" "sc_CronExpression r" now]
  by (auto simp: run_row_def DisableCronSchedule_def update_found_def MarkCronScheduleNextRun_def MarkCronScheduleTriggered_def
      split_beta due_def split: sum.splits option.splits if_splits)

lemma fold_run_due:
  assumes "0 \<le> now" "\<forall>r. pf_update fs r = None" "r' \<in> set (ct_rows (snd (fold (run_row name fs now) rows (calls, tbl))))" "due name now r'"
  shows "r' \<in> set (ct_rows tbl) \<and> sc_ID r' \<notin> sc_ID ` set rows"
  using assms(3)
proof (induction rows arbitrary: calls tbl)
  case (Cons r rows)
  obtain calls' tbl' where e: "run_row name fs now r (calls, tbl) = (calls', tbl')" by (cases "run_row name fs now r (calls, tbl)")
  have "r' \<in> set (ct_rows tbl') \<and> sc_ID r' \<notin> sc_ID ` set rows" using Cons e by simp
  with run_row_due [OF assms(1) _ _ assms(4), where fs = fs and r = r and calls = calls and tbl = tbl] e assms(2) show ?case by auto
qed simp

lemma due_rows_sorted:
  "ListDueCronSchedules None name now tbl = Inr rows \<Longrightarrow> set rows = {r \<in> set (ct_rows tbl). due name now r} \<and>
     sorted (map sc_NextTriggerAt rows)"
  by (auto simp: ListDueCronSchedules_def)

text \<open>C28: a poll whose statements succeed calls the tool once for each due row with a usable expression, earliest first, and leaves no row
  due: polling again at the same time calls nothing and changes nothing.\<close>

theorem poll_fires_due_rows_once:
  assumes "0 \<le> now" "pf_query fs = None" "\<forall>r. pf_update fs r = None"
  shows "\<exists>rows. ListDueCronSchedules None name now tbl = Inr rows \<and>
      fst (poll_round name fs now tbl) = map (row_call name) (filter (valid_row now) rows) \<and>
      sorted (map sc_NextTriggerAt rows) \<and>
      (\<forall>r \<in> set (ct_rows (snd (poll_round name fs now tbl))). \<not> due name now r) \<and>
      poll_round name fs now (snd (poll_round name fs now tbl)) = ([], snd (poll_round name fs now tbl))"
proof -
  obtain rows where rows: "ListDueCronSchedules None name now tbl = Inr rows" by (simp add: ListDueCronSchedules_def)
  have p: "poll_round name fs now tbl = fold (run_row name fs now) rows ([], tbl)" by (simp add: poll_round_def assms(2) rows)
  have none: "\<not> due name now r" if "r \<in> set (ct_rows (snd (poll_round name fs now tbl)))" for r
    using fold_run_due [OF assms(1,3) that [unfolded p]] due_rows_sorted [OF rows] by blast
  then have "ListDueCronSchedules None name now (snd (poll_round name fs now tbl)) = Inr []"
    by (auto simp: ListDueCronSchedules_def filter_empty_conv)
  then have "poll_round name fs now (snd (poll_round name fs now tbl)) = ([], snd (poll_round name fs now tbl))"
    by (simp add: poll_round_def [of name fs now "snd (poll_round name fs now tbl)"] assms(2))
  then show ?thesis using rows p none due_rows_sorted [OF rows] fold_run_calls [of name fs now rows "[]" tbl] by auto
qed

theorem poll_fires_due_rows_once_witness:
  "let fs = \<lparr>pf_query = None, pf_dispatch = (\<lambda>_. None), pf_update = (\<lambda>_. None)\<rparr>; tbl = \<lparr>ct_rows = [sample_row 1 ''s'' ''@every 1h'' 5], ct_seq = 1\<rparr>
   in \<exists>rows. ListDueCronSchedules None ''s'' 7 tbl = Inr rows \<and>
      fst (poll_round ''s'' fs 7 tbl) = map (row_call ''s'') (filter (valid_row 7) rows) \<and>
      sorted (map sc_NextTriggerAt rows) \<and>
      (\<forall>r \<in> set (ct_rows (snd (poll_round ''s'' fs 7 tbl))). \<not> due ''s'' 7 r) \<and>
      poll_round ''s'' fs 7 (snd (poll_round ''s'' fs 7 tbl)) = ([], snd (poll_round ''s'' fs 7 tbl))"
  unfolding Let_def by (rule poll_fires_due_rows_once) simp_all

lemma leap_row_invalid: "738944 \<le> day_number now \<Longrightarrow> day_number now \<le> 740037 \<Longrightarrow> sc_CronExpression r = ''0 0 29 2 *'' \<Longrightarrow> \<not> valid_row now r"
  by (simp add: valid_row_def leap_tick_none)

lemma run_row_disabled:
  assumes "\<forall>r' \<in> set (ct_rows tbl). sc_ID r' = i \<longrightarrow> \<not> sc_Enabled r'"
  shows "\<forall>r' \<in> set (ct_rows (snd (run_row name fs now r (calls, tbl)))). sc_ID r' = i \<longrightarrow> \<not> sc_Enabled r'"
  using assms by (auto simp: run_row_def DisableCronSchedule_def update_found_def MarkCronScheduleNextRun_def MarkCronScheduleTriggered_def
      split_beta split: sum.splits option.splits)

lemma fold_run_disabled:
  assumes "\<forall>r. pf_update fs r = None" "r \<in> set rows" "\<not> valid_row now r"
  shows "\<forall>r' \<in> set (ct_rows (snd (fold (run_row name fs now) rows (calls, tbl)))). sc_ID r' = sc_ID r \<longrightarrow> \<not> sc_Enabled r'"
proof -
  have keep: "\<forall>r' \<in> set (ct_rows (snd (fold (run_row name fs now) rs (c, t)))). sc_ID r' = i \<longrightarrow> \<not> sc_Enabled r'"
    if "\<forall>r' \<in> set (ct_rows t). sc_ID r' = i \<longrightarrow> \<not> sc_Enabled r'" for rs c t i
    using that
  proof (induction rs arbitrary: c t)
    case (Cons x rs)
    obtain c' t' where e: "run_row name fs now x (c, t) = (c', t')" by (cases "run_row name fs now x (c, t)")
    with run_row_disabled [OF Cons.prems, of name fs now x c] Cons.IH [where t = t' and c = c'] show ?case by simp
  qed simp
  from assms(2) obtain xs ys where s: "rows = xs @ r # ys" by (meson split_list)
  obtain c1 t1 where e1: "fold (run_row name fs now) xs (calls, tbl) = (c1, t1)"
    by (cases "fold (run_row name fs now) xs (calls, tbl)")
  obtain c2 t2 where e2: "run_row name fs now r (c1, t1) = (c2, t2)" by (cases "run_row name fs now r (c1, t1)")
  have "\<forall>r' \<in> set (ct_rows t2). sc_ID r' = sc_ID r \<longrightarrow> \<not> sc_Enabled r'"
    using e2 assms(1,3) by (auto simp: run_row_def valid_row_def DisableCronSchedule_def update_found_def split_beta split: sum.splits)
  from keep [OF this] show ?thesis using s e1 e2 by simp
qed

text \<open>a row for February 29 never fires: when it is due (here from February 29, 2024 on) its next tick cannot be found, so the
  poll disables it before it calls the tool.\<close>

theorem leap_day_row_never_fires:
  assumes "0 \<le> now" "738944 \<le> day_number now" "day_number now \<le> 740037" "pf_query fs = None" "\<forall>r. pf_update fs r = None"
    and "r \<in> set (ct_rows tbl)" "due name now r" "sc_CronExpression r = ''0 0 29 2 *''"
  shows "(\<forall>c \<in> set (fst (poll_round name fs now tbl)). \<exists>r' \<in> set (ct_rows tbl). c = row_call name r' \<and> sc_CronExpression r' \<noteq> ''0 0 29 2 *'') \<and>
    (\<forall>r' \<in> set (ct_rows (snd (poll_round name fs now tbl))). sc_ID r' = sc_ID r \<longrightarrow> \<not> sc_Enabled r')"
proof -
  obtain rows where rows: "ListDueCronSchedules None name now tbl = Inr rows" by (simp add: ListDueCronSchedules_def)
  have p: "poll_round name fs now tbl = fold (run_row name fs now) rows ([], tbl)" by (simp add: poll_round_def assms(4) rows)
  have r: "r \<in> set rows" "set rows \<subseteq> set (ct_rows tbl)" using due_rows_sorted [OF rows] assms(6,7) by auto
  have "\<forall>r' \<in> set (ct_rows (snd (poll_round name fs now tbl))). sc_ID r' = sc_ID r \<longrightarrow> \<not> sc_Enabled r'"
    unfolding p by (rule fold_run_disabled [OF assms(5) r(1) leap_row_invalid [OF assms(2,3,8)]])
  moreover have "\<exists>r' \<in> set (ct_rows tbl). c = row_call name r' \<and> sc_CronExpression r' \<noteq> ''0 0 29 2 *''"
    if "c \<in> set (fst (poll_round name fs now tbl))" for c
    using that r(2) leap_row_invalid [OF assms(2,3)] unfolding p fold_run_calls by auto
  ultimately show ?thesis by blast
qed

theorem leap_day_row_never_fires_witness:
  "let fs = \<lparr>pf_query = None, pf_dispatch = (\<lambda>_. None), pf_update = (\<lambda>_. None)\<rparr>; now = 738944 * (24 * hour) + 5;
       r = sample_row 1 ''s'' ''0 0 29 2 *'' (738944 * (24 * hour)); tbl = \<lparr>ct_rows = [r], ct_seq = 1\<rparr>
   in (\<forall>c \<in> set (fst (poll_round ''s'' fs now tbl)). \<exists>r' \<in> set (ct_rows tbl). c = row_call ''s'' r' \<and> sc_CronExpression r' \<noteq> ''0 0 29 2 *'') \<and>
      (\<forall>r' \<in> set (ct_rows (snd (poll_round ''s'' fs now tbl))). sc_ID r' = sc_ID r \<longrightarrow> \<not> sc_Enabled r')"
  unfolding Let_def
  by (rule leap_day_row_never_fires) (simp_all add: day_number_def hour_def due_def sample_row_def)

end
