(* ===== verification/Gitai_Dispatch.thy ===== *)
theory Gitai_Dispatch
  imports Policy Gitai_Approvals Workflow_Match
begin

section \<open>The tool boundary of the agent\<close>

text \<open>
  \<^verbatim>\<open>DispatchToolCall\<close> of \<^verbatim>\<open>internal/gitai/app/app.go\<close>, the one place where tools run, with its helpers, and the registry of built-in
  tools (\<^verbatim>\<open>internal/gitai/builtin/tool.go\<close>).  It composes the policy engine (theory \<open>Policy\<close>) and the approval gate
  (theory \<open>Gitai_Approvals\<close>).
  The agent's state is its approval table, its counters, a log of what it did to the outside, and the outside itself (\<open>'w\<close>).  What it is
  wired to is a \<open>Host\<close>: built-in tools, MCP clients, secrets, JSON, the hash, and what happens while an approval waits.
  The theory shows that no tool runs against the policy or without a recorded approval, that a refused call does nothing, that the values of secrets
  do not show in anything but the arguments of the MCP call, and when a composed tool name can be split again.
\<close>

record ToolDispatchRequest =
  dr_Caller :: string
  dr_Sender :: string
  dr_Name :: string
  dr_Args :: gmap

record ContentItem =
  ci_Type :: string
  ci_Text :: string
  ci_Data :: string
  ci_MIME :: string

record CallToolResult =
  cr_Content :: "ContentItem list"
  cr_IsError :: bool

datatype agent_effect =
    RanBuiltin string gmap
  | CalledMCP string string gmap gmap
  | SentText string string
  | Replied string string string
  | LLMCall
  | Terminated int

text \<open>What happens while an approval request waits: the clock and the fate of the insertion, the trace that is drawn if there is none, the events
  before the timer fires, and the fate of the statement the timer leads to.\<close>

record wait =
  wa_now :: gotime
  wa_insert :: fault
  wa_generated :: string
  wa_events :: "gate_event list"
  wa_timeout :: fault

record 'w Agent =
  ag_rows :: "ApprovalRow list"
  ag_llmCalls :: int
  ag_msgOutbound :: int
  ag_log :: "agent_effect list"
  ag_world :: 'w

type_synonym 'w tool = "gmap \<Rightarrow> 'w \<Rightarrow> (string + string) \<times> 'w"

record 'w Host =
  ho_AgentID :: string
  ho_LLMCallHardLimit :: int
  ho_config :: "Config option"
  ho_builtins :: "(string \<times> 'w tool) list"
  ho_client :: "string \<Rightarrow> 'w \<Rightarrow> (string \<Rightarrow> gmap \<Rightarrow> 'w \<Rightarrow> (string + CallToolResult) \<times> 'w) option"
  ho_secret :: "string \<Rightarrow> 'w \<Rightarrow> string + string"
  ho_gate :: bool
  ho_wait :: "'w \<Rightarrow> wait \<times> 'w"
  ho_marshal :: "gmap \<Rightarrow> string + string"
  ho_sha256hex :: "string \<Rightarrow> string"
  ho_send :: "(string \<Rightarrow> string \<Rightarrow> 'w \<Rightarrow> fault \<times> 'w) option"

definition log_agent :: "agent_effect \<Rightarrow> 'w Agent \<Rightarrow> 'w Agent" where
  "log_agent e ag = ag\<lparr>ag_log := ag_log ag @ [e]\<rparr>"

subsection \<open>Registry of built-in tools\<close>

definition BuiltinMCPNamespace :: string where "BuiltinMCPNamespace = ''builtin''"
definition MatrixSendToolName :: string where "MatrixSendToolName = ''matrix.send_message''"

text \<open>\<open>None\<close> is the panic on a name that is registered twice.\<close>

definition Register_tool :: "string \<Rightarrow> 't \<Rightarrow> (string \<times> 't) list \<Rightarrow> (string \<times> 't) list option" where
  "Register_tool name t reg = (if map_of reg name \<noteq> None then None else Some (reg @ [(name, t)]))"

definition IsBuiltin :: "(string \<times> 't) list \<Rightarrow> string \<Rightarrow> bool" where
  "IsBuiltin reg name \<longleftrightarrow> map_of reg name \<noteq> None"

subsection \<open>Helpers\<close>

definition splitToolName :: "string \<Rightarrow> string \<times> string" where
  "splitToolName composed = (case index_of composed ''__'' of
       Some i \<Rightarrow> (take i composed, drop (i + 2) composed)
     | None \<Rightarrow> ([], composed))"

definition formatToolResult :: "CallToolResult \<Rightarrow> string" where
  "formatToolResult result =
     (let parts = filter (\<lambda>t. t \<noteq> []) (map ci_Text (cr_Content result)) in
      if parts = [] then ''(empty result)'' else concat (map (\<lambda>p. p @ [CHR 0x0A]) parts))"

text \<open>\<^verbatim>\<open>%v\<close> of the content of a result.\<close>

definition content_v :: "ContentItem list \<Rightarrow> string" where
  "content_v items = ''['' @ str_join '' '' (map (\<lambda>i. ''{'' @ ci_Type i @ '' '' @ ci_Text i @ '' '' @ ci_Data i @ '' '' @ ci_MIME i @ ''}'') items) @ '']''"

definition normalizedArgsHash :: "'w Host \<Rightarrow> gmap \<Rightarrow> string" where
  "normalizedArgsHash host args =
     (if args = [] then ho_sha256hex host ''{}''
      else (case ho_marshal host args of Inl e \<Rightarrow> ho_sha256hex host ''{}'' | Inr b \<Rightarrow> ho_sha256hex host b))"

subsection \<open>Secrets in arguments\<close>

definition secret_prefix :: string where "secret_prefix = ''{{secret:''"

text \<open>The reference of a placeholder that is the whole string; \<open>None\<close> for a plain string.\<close>

definition secret_ref :: "string \<Rightarrow> string option" where
  "secret_ref s =
     (if \<not> has_prefix s secret_prefix \<or> \<not> has_suffix s ''}}'' \<or> length s \<le> length secret_prefix + 2 then None
      else (let ref = take (length s - 2 - length secret_prefix) (drop (length secret_prefix) s) in
        if ref = [] then None else Some ref))"

definition interpolateSecretString :: "'w Host \<Rightarrow> string \<Rightarrow> 'w \<Rightarrow> string + string" where
  "interpolateSecretString host s w = (case secret_ref s of None \<Rightarrow> Inr s | Some ref \<Rightarrow> ho_secret host ref w)"

fun resolveSecretArgs :: "'w Host \<Rightarrow> gmap \<Rightarrow> 'w \<Rightarrow> (string \<times> string) + gmap" where
  "resolveSecretArgs host [] w = Inr []"
| "resolveSecretArgs host ((k, v) # args) w =
     (case as_string v of
        None \<Rightarrow> map_sum (\<lambda>e. e) (\<lambda>r. (k, v) # r) (resolveSecretArgs host args w)
      | Some sv \<Rightarrow>
          (case interpolateSecretString host sv w of
             Inl e \<Rightarrow> Inl (k, e)
           | Inr val \<Rightarrow> map_sum (\<lambda>e. e) (\<lambda>r. (k, GStr val) # r) (resolveSecretArgs host args w)))"

subsection \<open>Dispatch\<close>

datatype dispatch_error =
    InvalidToolName string
  | PolicyDenied string
  | ApprovalsNotConfigured
  | GateNotConfigured
  | ApprovalRefused gate_error
  | ToolFailed string
  | ServerNotRunning string
  | SecretUnresolved string string string string
  | CallFailed string string string
  | ReturnedError string string string

fun gate_error_text :: "gate_error \<Rightarrow> string" where
  "gate_error_text (SaveApprovalFailed e) = ''save approval: '' @ e"
| "gate_error_text (PollFailed e) = ''poll approval: '' @ e"
| "gate_error_text (OperationDenied aid reason) = ''operation denied (approval '' @ aid @ ''): '' @ reason"
| "gate_error_text ContextDone = ''context canceled''"

fun dispatch_error_text :: "dispatch_error \<Rightarrow> string" where
  "dispatch_error_text (InvalidToolName n) = ''invalid MCP tool name '' @ go_quote n @ '': expected mcp__tool''"
| "dispatch_error_text (PolicyDenied m) = ''policy denied: '' @ m"
| "dispatch_error_text ApprovalsNotConfigured = ''approval required but approvals not configured''"
| "dispatch_error_text GateNotConfigured = ''approval required but approval gate is not configured''"
| "dispatch_error_text (ApprovalRefused e) = ''approval: '' @ gate_error_text e"
| "dispatch_error_text (ToolFailed e) = e"
| "dispatch_error_text (ServerNotRunning n) = ''MCP server '' @ go_quote n @ '' is not running''"
| "dispatch_error_text (SecretUnresolved m t k e) =
     ''resolving secret args for '' @ m @ ''.'' @ t @ '': arg '' @ go_quote k @ '' references secret that could not be resolved: '' @ e"
| "dispatch_error_text (CallFailed m t e) = ''tool call '' @ m @ ''.'' @ t @ '': '' @ e"
| "dispatch_error_text (ReturnedError m t c) = ''tool '' @ m @ ''.'' @ t @ '' returned error: '' @ c"

text \<open>The agent waits until the request is decided; the timer of the gate fires after the events.\<close>

definition await_approval ::
    "'w Host \<Rightarrow> string \<Rightarrow> Config \<Rightarrow> string \<Rightarrow> ToolDispatchRequest \<Rightarrow> 'w Agent \<Rightarrow> gate_error option \<times> 'w Agent"
where
  "await_approval host traceID cfg action req ag =
     (let (wt, w) = ho_wait host (ag_world ag);
          payload = [(''trace_id'', GStr traceID), (''tool_ref'', GStr (dr_Name req)),
            (''normalized_arg_hash'', GStr (normalizedArgsHash host (dr_Args req))), (''caller_context'', GStr (dr_Caller req)),
            (''args'', GMap (dr_Args req))]
      in case Request_gate (\<lambda>m. case ho_marshal host m of Inl _ \<Rightarrow> [] | Inr s \<Rightarrow> s) (wa_insert wt) (wa_now wt) traceID (wa_generated wt)
             (ap_Room (cf_Approvals cfg)) (dr_Sender req) action (dr_Name req) payload (wrap64 (ap_TTLSeconds (cf_Approvals cfg) * second))
             (wa_events wt @ [Timeout (wa_timeout wt)]) (ag_rows ag) of
           Some (e, rows) \<Rightarrow> (e, ag\<lparr>ag_rows := rows, ag_world := w\<rparr>)
         | None \<Rightarrow> (Some ContextDone, ag\<lparr>ag_world := w\<rparr>))"

definition permission ::
    "'w Host \<Rightarrow> string \<Rightarrow> string \<Rightarrow> string \<Rightarrow> string \<Rightarrow> ToolDispatchRequest \<Rightarrow> 'w Agent \<Rightarrow> dispatch_error option \<times> 'w Agent"
where
  "permission host traceID namespace toolName action req ag =
     (let result = Evaluate (ho_config host) namespace toolName (dr_Args req) in
      case re_Decision result of
        DecisionDeny \<Rightarrow> (Some (PolicyDenied (case re_Violation result of Some v \<Rightarrow> vi_Message v | None \<Rightarrow> [])), ag)
      | DecisionRequireApproval \<Rightarrow>
          (case ho_config host of
             None \<Rightarrow> (Some ApprovalsNotConfigured, ag)
           | Some cfg \<Rightarrow>
               if \<not> ap_Enabled (cf_Approvals cfg) \<or> ap_Room (cf_Approvals cfg) = [] then (Some ApprovalsNotConfigured, ag)
               else if \<not> ho_gate host then (Some GateNotConfigured, ag)
               else (let (e, ag') = await_approval host traceID cfg action req ag in (map_option ApprovalRefused e, ag')))
      | DecisionAllow \<Rightarrow> (None, ag))"

definition auditMessagingSend :: "'w Host \<Rightarrow> string \<Rightarrow> gmap \<Rightarrow> bool \<Rightarrow> 'w Agent \<Rightarrow> 'w Agent" where
  "auditMessagingSend host traceID args failed ag =
     (if failed then ag
      else (let ag1 = ag\<lparr>ag_msgOutbound := ag_msgOutbound ag + 1\<rparr> in
        case ho_config host of
          None \<Rightarrow> ag1
        | Some cfg \<Rightarrow>
            (case ho_send host of
               None \<Rightarrow> ag1
             | Some send \<Rightarrow>
                 if tr_AdminRoom (cf_Trust cfg) = [] then ag1
                 else (let breadcrumb = [CHR 0xF0, CHR 0x9F, CHR 0x93, CHR 0xA8] @ '' Sent message to '' @ get_string args ''target'' @
                         '' (trace='' @ traceID @ '')'' in
                   (log_agent (SentText (tr_AdminRoom (cf_Trust cfg)) breadcrumb) ag1)
                     \<lparr>ag_world := snd (send (tr_AdminRoom (cf_Trust cfg)) breadcrumb (ag_world ag1))\<rparr>))))"

definition runBuiltin :: "'w Host \<Rightarrow> string \<Rightarrow> 'w tool \<Rightarrow> ToolDispatchRequest \<Rightarrow> 'w Agent \<Rightarrow> (dispatch_error + string) \<times> 'w Agent" where
  "runBuiltin host traceID tool req ag =
     (let (r, w) = tool (dr_Args req) (ag_world ag);
          ag1 = (log_agent (RanBuiltin (dr_Name req) (dr_Args req)) ag)\<lparr>ag_world := w\<rparr>;
          ag2 = (if dr_Name req = MatrixSendToolName
                 then auditMessagingSend host traceID (dr_Args req) (case r of Inl _ \<Rightarrow> True | Inr _ \<Rightarrow> False) ag1 else ag1)
      in (map_sum ToolFailed (\<lambda>x. x) r, ag2))"

definition callMCP :: "'w Host \<Rightarrow> string \<Rightarrow> string \<Rightarrow> ToolDispatchRequest \<Rightarrow> 'w Agent \<Rightarrow> (dispatch_error + string) \<times> 'w Agent" where
  "callMCP host mcpName toolName req ag = (case ho_client host mcpName (ag_world ag) of
       None \<Rightarrow> (Inl (ServerNotRunning mcpName), ag)
     | Some call \<Rightarrow>
         (case resolveSecretArgs host (dr_Args req) (ag_world ag) of
            Inl (k, e) \<Rightarrow> (Inl (SecretUnresolved mcpName toolName k e), ag)
          | Inr args \<Rightarrow>
              (let (r, w) = call toolName args (ag_world ag);
                   ag1 = (log_agent (CalledMCP mcpName toolName (dr_Args req) args) ag)\<lparr>ag_world := w\<rparr>
               in case r of
                    Inl e \<Rightarrow> (Inl (CallFailed mcpName toolName e), ag1)
                  | Inr res \<Rightarrow>
                      if cr_IsError res then (Inl (ReturnedError mcpName toolName (content_v (cr_Content res))), ag1)
                      else (Inr (formatToolResult res), ag1))))"

definition DispatchToolCall :: "'w Host \<Rightarrow> string \<Rightarrow> ToolDispatchRequest \<Rightarrow> 'w Agent \<Rightarrow> (dispatch_error + string) \<times> 'w Agent" where
  "DispatchToolCall host traceID req ag = (case map_of (ho_builtins host) (dr_Name req) of
       Some tool \<Rightarrow>
         (case permission host traceID BuiltinMCPNamespace (dr_Name req) ''builtin.call'' req ag of
            (Some e, ag') \<Rightarrow> (Inl e, ag')
          | (None, ag') \<Rightarrow> runBuiltin host traceID tool req ag')
     | None \<Rightarrow>
         (case splitToolName (dr_Name req) of (mcpName, toolName) \<Rightarrow>
            if trim_space mcpName = [] \<or> trim_space toolName = [] then (Inl (InvalidToolName (dr_Name req)), ag)
            else (case permission host traceID mcpName toolName ''mcp.call'' req ag of
                    (Some e, ag') \<Rightarrow> (Inl e, ag')
                  | (None, ag') \<Rightarrow> callMCP host mcpName toolName req ag')))"

subsection \<open>Composed names\<close>

lemma first_separator:
  "index_of (m @ ''__'' @ t) ''__'' = Some (length m) \<longleftrightarrow> \<not> str_contains (m @ ''_'') ''__''"
proof (induction m)
  case (Cons c m)
  have "has_prefix (c # m @ ''__'' @ t) ''__'' \<longleftrightarrow> has_prefix (c # m @ ''_'') ''__''"
    by (cases m) (auto simp: has_prefix_def)
  with Cons show ?case by (auto simp: str_contains_def)
qed (simp_all add: str_contains_def has_prefix_def)

lemma separator_found: "index_of (m @ ''__'' @ t) ''__'' = Some i \<Longrightarrow> i \<le> length m"
proof (induction m arbitrary: i)
  case (Cons c m)
  then show ?case by (cases i) (auto split: if_splits)
qed (simp add: has_prefix_def split: if_splits)

lemma separator_exists: "index_of (m @ ''__'' @ t) ''__'' \<noteq> None"
  by (induction m) (auto simp: has_prefix_def)

text \<open>the name composed of a server and a tool splits into the two again exactly when the server's name does not contain two
  underscores in a row and does not end with one.\<close>

theorem splitToolName_composed:
  "splitToolName (mcpName @ ''__'' @ toolName) = (mcpName, toolName) \<longleftrightarrow> \<not> str_contains (mcpName @ ''_'') ''__''"
proof -
  obtain i where i: "index_of (mcpName @ ''__'' @ toolName) ''__'' = Some i" using separator_exists by blast
  have le: "i \<le> length mcpName" by (rule separator_found [OF i])
  then have "length (take i (mcpName @ ''__'' @ toolName)) = i" by simp
  moreover have "fst (splitToolName (mcpName @ ''__'' @ toolName)) = take i (mcpName @ ''__'' @ toolName)"
    unfolding splitToolName_def i by simp
  ultimately have "splitToolName (mcpName @ ''__'' @ toolName) = (mcpName, toolName) \<Longrightarrow> i = length mcpName" by (metis fst_conv)
  moreover have "i = length mcpName \<Longrightarrow> splitToolName (mcpName @ ''__'' @ toolName) = (mcpName, toolName)"
    using i by (simp add: splitToolName_def)
  moreover have "i = length mcpName \<longleftrightarrow> \<not> str_contains (mcpName @ ''_'') ''__''"
    using first_separator [of mcpName toolName] i by simp
  ultimately show ?thesis by blast
qed

subsection \<open>Permission\<close>

lemma deny_has_violation: "re_Decision (Evaluate cfg m t args) = DecisionDeny \<Longrightarrow> \<exists>v. re_Violation (Evaluate cfg m t args) = Some v"
proof (cases cfg)
  case (Some c)
  have "re_Decision (evaluateRules caps m t args) = DecisionDeny \<Longrightarrow> \<exists>v. re_Violation (evaluateRules caps m t args) = Some v" for caps
    by (induction caps) (auto simp: evaluateMatched_def defaultDeny_def split: option.splits if_splits)
  then show "re_Decision (Evaluate cfg m t args) = DecisionDeny \<Longrightarrow> ?thesis" using Some by (simp add: Evaluate_def)
qed (simp add: Evaluate_def)

definition decision :: "'w Host \<Rightarrow> agent_effect \<Rightarrow> Decision option" where
  "decision host e = (case e of
       RanBuiltin name args \<Rightarrow> Some (re_Decision (Evaluate (ho_config host) BuiltinMCPNamespace name args))
     | CalledMCP m t args resolved \<Rightarrow> Some (re_Decision (Evaluate (ho_config host) m t args))
     | _ \<Rightarrow> None)"

definition approval_recorded :: "'w Host \<Rightarrow> string \<Rightarrow> 'w \<Rightarrow> bool" where
  "approval_recorded host traceID w \<longleftrightarrow>
     (\<exists>who reason. Recorded (''appr_'' @ (if traceID = [] then wa_generated (fst (ho_wait host w)) else traceID)) ''approved'' who reason
        \<in> set (wa_events (fst (ho_wait host w))))"

lemma await_approval_recorded:
  assumes "await_approval host traceID cfg action req ag = (None, ag')"
  shows "approval_recorded host traceID (ag_world ag)"
proof -
  obtain wt w where wt: "ho_wait host (ag_world ag) = (wt, w)" by (cases "ho_wait host (ag_world ag)")
  let ?payload = "[(''trace_id'', GStr traceID), (''tool_ref'', GStr (dr_Name req)),
    (''normalized_arg_hash'', GStr (normalizedArgsHash host (dr_Args req))), (''caller_context'', GStr (dr_Caller req)),
    (''args'', GMap (dr_Args req))]"
  from assms obtain rows where "Request_gate (\<lambda>m. case ho_marshal host m of Inl _ \<Rightarrow> [] | Inr s \<Rightarrow> s) (wa_insert wt) (wa_now wt) traceID
      (wa_generated wt) (ap_Room (cf_Approvals cfg)) (dr_Sender req) action (dr_Name req) ?payload
      (wrap64 (ap_TTLSeconds (cf_Approvals cfg) * second)) (wa_events wt @ [Timeout (wa_timeout wt)]) (ag_rows ag) = Some (None, rows)"
    by (auto simp: await_approval_def wt split: option.splits)
  from Request_gate_cases [OF this] obtain who reason where
    "Recorded (''appr_'' @ (if traceID = [] then wa_generated wt else traceID)) ''approved'' who reason \<in> set (wa_events wt)" by auto
  then show ?thesis unfolding approval_recorded_def wt fst_conv by blast
qed

lemma await_approval_log: "await_approval host traceID cfg action req ag = (e, ag') \<Longrightarrow> ag_log ag' = ag_log ag"
  by (auto simp: await_approval_def split: prod.splits option.splits)

lemma permission_log: "ag_log (snd (permission host traceID m t action req ag)) = ag_log ag"
  by (auto simp: permission_def Let_def await_approval_log split: Policy.Decision.splits option.splits prod.splits)

lemma permission_granted:
  assumes "permission host traceID m t action req ag = (None, ag')"
  shows "re_Decision (Evaluate (ho_config host) m t (dr_Args req)) \<noteq> DecisionDeny"
    "re_Decision (Evaluate (ho_config host) m t (dr_Args req)) = DecisionRequireApproval \<Longrightarrow> approval_recorded host traceID (ag_world ag)"
  using assms await_approval_recorded [of host traceID _ action req ag]
  by (auto simp: permission_def Let_def split: Policy.Decision.splits option.splits prod.splits if_splits)

text \<open>What a dispatch may add to the log of the agent.\<close>

definition granted :: "'w Host \<Rightarrow> string \<Rightarrow> 'w \<Rightarrow> agent_effect \<Rightarrow> bool" where
  "granted host traceID w e \<longleftrightarrow> decision host e \<noteq> Some DecisionDeny \<and>
     (decision host e = Some DecisionRequireApproval \<longrightarrow> approval_recorded host traceID w)"

lemma runBuiltin_log:
  "\<exists>sent. ag_log (snd (runBuiltin host traceID tool req ag)) = ag_log ag @ RanBuiltin (dr_Name req) (dr_Args req) # sent \<and>
     (\<forall>e \<in> set sent. decision host e = None)"
  by (auto simp: runBuiltin_def auditMessagingSend_def log_agent_def Let_def decision_def split: prod.splits sum.splits option.splits)

lemma callMCP_log:
  "\<exists>new. ag_log (snd (callMCP host m t req ag)) = ag_log ag @ new \<and>
     (\<forall>e \<in> set new. \<exists>resolved. e = CalledMCP m t (dr_Args req) resolved)"
  by (auto simp: callMCP_def log_agent_def Let_def split: prod.splits sum.splits option.splits)

lemma dispatch_log:
  "\<exists>new. ag_log (snd (DispatchToolCall host traceID req ag)) = ag_log ag @ new \<and>
     (\<forall>e \<in> set new. granted host traceID (ag_world ag) e)"
proof (cases "map_of (ho_builtins host) (dr_Name req)")
  case (Some tool)
  obtain p ag' where p: "permission host traceID BuiltinMCPNamespace (dr_Name req) ''builtin.call'' req ag = (p, ag')"
    by (cases "permission host traceID BuiltinMCPNamespace (dr_Name req) ''builtin.call'' req ag")
  have "ag_log ag' = ag_log ag" using permission_log p by (metis snd_conv)
  then show ?thesis
    using Some p runBuiltin_log [of host traceID tool req ag'] permission_granted [of host traceID BuiltinMCPNamespace "dr_Name req"]
    by (cases p) (force simp: DispatchToolCall_def granted_def decision_def)+
next
  case None
  obtain m t where mt: "splitToolName (dr_Name req) = (m, t)" by (cases "splitToolName (dr_Name req)")
  obtain p ag' where p: "permission host traceID m t ''mcp.call'' req ag = (p, ag')"
    by (cases "permission host traceID m t ''mcp.call'' req ag")
  have l: "ag_log ag' = ag_log ag" using permission_log p by (metis snd_conv)
  show ?thesis
  proof (cases "p = None \<and> \<not> (trim_space m = [] \<or> trim_space t = [])")
    case True
    obtain new where new: "ag_log (snd (callMCP host m t req ag')) = ag_log ag' @ new"
      "\<forall>e \<in> set new. \<exists>resolved. e = CalledMCP m t (dr_Args req) resolved" using callMCP_log by blast
    have "granted host traceID (ag_world ag) e" if "e \<in> set new" for e
      using new(2) that permission_granted [of host traceID m t "''mcp.call''" req ag ag'] p True
      by (auto simp: granted_def decision_def)
    then show ?thesis using None mt p True new(1) l by (auto simp: DispatchToolCall_def)
  next
    case False
    then show ?thesis using None mt p l by (auto simp: DispatchToolCall_def split: option.splits)
  qed
qed

text \<open>C2: no tool runs against the policy.  Whatever the request, a dispatch runs a built-in tool or calls an MCP server only if the policy
  engine does not deny the call with these very arguments, and, if the policy requires approval, only after the control plane has recorded the
  decision \<^verbatim>\<open>approved\<close> for this request.\<close>

theorem dispatch_respects_policy:
  assumes "DispatchToolCall host traceID req ag = (r, ag')"
  shows "\<exists>new. ag_log ag' = ag_log ag @ new \<and>
     (\<forall>e \<in> set new. decision host e \<noteq> Some DecisionDeny \<and>
        (decision host e = Some DecisionRequireApproval \<longrightarrow> approval_recorded host traceID (ag_world ag)))"
  using dispatch_log [of host traceID req ag] assms by (auto simp: granted_def)

definition sample_capability :: "bool \<Rightarrow> Capability" where
  "sample_capability approval = \<lparr>cap_Name = ''r'', cap_MCP = ''fin'', cap_Tool = ''*'', cap_Allow = True, cap_RequireApproval = approval,
     cap_Constraints = []\<rparr>"

definition sample_host :: "bool \<Rightarrow> (string \<Rightarrow> string + string) \<Rightarrow> unit Host" where
  "sample_host approval secret = \<lparr>ho_AgentID = ''a'', ho_LLMCallHardLimit = 0,
     ho_config = Some (zero_Config\<lparr>cf_Capabilities := [sample_capability approval],
       cf_Approvals := \<lparr>ap_Enabled = True, ap_Room = ''!ops'', ap_Approvers = [], ap_TTLSeconds = 60\<rparr>\<rparr>),
     ho_builtins = [], ho_client = (\<lambda>n w. Some (\<lambda>t args w. (Inr \<lparr>cr_Content = [], cr_IsError = False\<rparr>, w))),
     ho_secret = (\<lambda>ref w. secret ref), ho_gate = True,
     ho_wait = (\<lambda>w. (\<lparr>wa_now = 0, wa_insert = None, wa_generated = [], wa_events = sample_events, wa_timeout = None\<rparr>, w)),
     ho_marshal = (\<lambda>m. Inr ''{}''), ho_sha256hex = (\<lambda>x. x), ho_send = None\<rparr>"

definition sample_request :: ToolDispatchRequest where
  "sample_request = \<lparr>dr_Caller = ''llm'', dr_Sender = ''@u'', dr_Name = ''fin__quote'', dr_Args = [(''k'', GStr ''{{secret:api}}'')]\<rparr>"

definition sample_agent :: "unit Agent" where
  "sample_agent = \<lparr>ag_rows = [], ag_llmCalls = 0, ag_msgOutbound = 0, ag_log = [], ag_world = ()\<rparr>"

theorem dispatch_respects_policy_witness:
  "\<exists>r ag' e. DispatchToolCall (sample_host True Inr) ''t1'' sample_request sample_agent = (r, ag') \<and> ag_log ag' = [e] \<and>
     decision (sample_host True Inr) e = Some DecisionRequireApproval \<and> approval_recorded (sample_host True Inr) ''t1'' ()"
proof -
  let ?h = "sample_host True Inr"
  obtain r ag' where d: "DispatchToolCall ?h ''t1'' sample_request sample_agent = (r, ag')"
    by (cases "DispatchToolCall ?h ''t1'' sample_request sample_agent")
  have "(case DispatchToolCall ?h ''t1'' sample_request sample_agent of (r, ag') \<Rightarrow>
      (case ag_log ag' of [e] \<Rightarrow> decision ?h e = Some DecisionRequireApproval | _ \<Rightarrow> False))" by code_simp
  then obtain e where e: "ag_log ag' = [e]" "decision ?h e = Some DecisionRequireApproval"
    unfolding d by (auto split: list.splits)
  from dispatch_respects_policy [OF d] e have "approval_recorded ?h ''t1'' (ag_world sample_agent)"
    by (auto simp: sample_agent_def)
  then have "approval_recorded ?h ''t1'' ()" by (simp add: sample_agent_def)
  with d e show ?thesis by blast
qed

text \<open>The server and tool under which the policy sees a request.\<close>

definition policy_name :: "'w Host \<Rightarrow> string \<Rightarrow> string \<times> string" where
  "policy_name host name = (if IsBuiltin (ho_builtins host) name then (BuiltinMCPNamespace, name) else splitToolName name)"

text \<open>a call that the policy denies does nothing at all: the agent, its approvals and the outside are as before, and the answer is the
  violation that the policy engine reports (an engine that denies always reports one) or the complaint about a malformed name.\<close>

theorem denied_call_does_nothing:
  assumes "policy_name host (dr_Name req) = (m, t)" "re_Decision (Evaluate (ho_config host) m t (dr_Args req)) = DecisionDeny"
  shows "\<exists>v. re_Violation (Evaluate (ho_config host) m t (dr_Args req)) = Some v \<and>
    DispatchToolCall host traceID req ag \<in> {(Inl (PolicyDenied (vi_Message v)), ag), (Inl (InvalidToolName (dr_Name req)), ag)}"
proof -
  obtain v where v: "re_Violation (Evaluate (ho_config host) m t (dr_Args req)) = Some v"
    using deny_has_violation [OF assms(2)] by blast
  have "permission host traceID m t action req ag = (Some (PolicyDenied (vi_Message v)), ag)" for action
    by (simp add: permission_def assms(2) v)
  with assms(1) v show ?thesis
    by (auto simp: DispatchToolCall_def policy_name_def IsBuiltin_def split: option.splits if_splits)
qed

theorem denied_call_does_nothing_witness:
  "\<exists>v. re_Violation (Evaluate (ho_config (sample_host True Inr)) ''mail'' ''send'' []) = Some v \<and>
    DispatchToolCall (sample_host True Inr) ''t1'' (sample_request\<lparr>dr_Name := ''mail__send'', dr_Args := []\<rparr>) sample_agent
      \<in> {(Inl (PolicyDenied (vi_Message v)), sample_agent), (Inl (InvalidToolName ''mail__send''), sample_agent)}"
proof -
  have "policy_name (sample_host True Inr) (dr_Name (sample_request\<lparr>dr_Name := ''mail__send'', dr_Args := []\<rparr>)) = (''mail'', ''send'')"
    by code_simp
  moreover have "re_Decision (Evaluate (ho_config (sample_host True Inr)) ''mail'' ''send''
      (dr_Args (sample_request\<lparr>dr_Name := ''mail__send'', dr_Args := []\<rparr>))) = DecisionDeny" by code_simp
  ultimately show ?thesis using denied_call_does_nothing [of "sample_host True Inr"] by force
qed

subsection \<open>Secrets\<close>

lemma interpolate_other_secret: "secret_ref s = None \<Longrightarrow> interpolateSecretString host s w = Inr s"
  by (simp add: interpolateSecretString_def)

lemma resolve_without_placeholders:
  "\<forall>(k, v) \<in> set args. \<forall>s. v = GStr s \<longrightarrow> secret_ref s = None \<Longrightarrow> resolveSecretArgs host args w = Inr args"
proof (induction args)
  case (Cons kv args)
  obtain k v where kv: "kv = (k, v)" by (cases kv)
  then show ?case using Cons by (cases v) (auto simp: interpolateSecretString_def)
qed simp

lemma hash_other_secret: "normalizedArgsHash (host\<lparr>ho_secret := f\<rparr>) args = normalizedArgsHash host args"
  by (simp add: normalizedArgsHash_def cong: sum.case_cong)

lemma await_other_secret: "await_approval (host\<lparr>ho_secret := f\<rparr>) traceID cfg action req ag = await_approval host traceID cfg action req ag"
  by (simp add: await_approval_def hash_other_secret cong: prod.case_cong)

lemma permission_other_secret: "permission (host\<lparr>ho_secret := f\<rparr>) traceID m t action req ag = permission host traceID m t action req ag"
  by (simp add: permission_def Let_def await_other_secret cong: option.case_cong Policy.Decision.case_cong if_cong)

lemma audit_other_secret: "auditMessagingSend (host\<lparr>ho_secret := f\<rparr>) traceID args b ag = auditMessagingSend host traceID args b ag"
  by (simp add: auditMessagingSend_def Let_def cong: option.case_cong)

lemma builtin_other_secret: "runBuiltin (host\<lparr>ho_secret := f\<rparr>) traceID tool req ag = runBuiltin host traceID tool req ag"
  by (simp add: runBuiltin_def Let_def audit_other_secret cong: prod.case_cong if_cong)

text \<open>The resolved arguments of a call, hidden.\<close>

fun hide_resolved :: "agent_effect \<Rightarrow> agent_effect" where
  "hide_resolved (CalledMCP m t args resolved) = CalledMCP m t args []"
| "hide_resolved e = e"

definition visible :: "'w Agent \<Rightarrow> 'w Agent" where
  "visible ag = ag\<lparr>ag_log := map hide_resolved (ag_log ag)\<rparr>"

text \<open>Two sources of secrets that resolve the same references and fail with the same errors on the others.\<close>

definition same_references :: "(string \<Rightarrow> 'w \<Rightarrow> string + string) \<Rightarrow> (string \<Rightarrow> 'w \<Rightarrow> string + string) \<Rightarrow> bool" where
  "same_references f g \<longleftrightarrow> (\<forall>ref w. map_sum (\<lambda>e. e) (\<lambda>_. ()) (f ref w) = map_sum (\<lambda>e. e) (\<lambda>_. ()) (g ref w))"

text \<open>Servers whose answers do not depend on the arguments they get.\<close>

definition ignores_arguments :: "'w Host \<Rightarrow> bool" where
  "ignores_arguments host \<longleftrightarrow> (\<forall>n w call t args args' w'. ho_client host n w = Some call \<longrightarrow> call t args w' = call t args' w')"

lemma same_referencesD:
  assumes "same_references f g"
  shows "(\<exists>e. f ref w = Inl e \<and> g ref w = Inl e) \<or> (\<exists>a b. f ref w = Inr a \<and> g ref w = Inr b)"
proof -
  have "map_sum (\<lambda>e. e) (\<lambda>_. ()) (f ref w) = map_sum (\<lambda>e. e) (\<lambda>_. ()) (g ref w)" using assms by (simp add: same_references_def)
  then show ?thesis by (cases "f ref w"; cases "g ref w") auto
qed

lemma resolve_same_references:
  assumes "same_references f (ho_secret host)"
  shows "map_sum (\<lambda>e. e) (\<lambda>_. ()) (resolveSecretArgs (host\<lparr>ho_secret := f\<rparr>) args w) = map_sum (\<lambda>e. e) (\<lambda>_. ()) (resolveSecretArgs host args w)"
proof (induction args)
  case (Cons kv args)
  obtain k v where kv: "kv = (k, v)" by (cases kv)
  show ?case
  proof (cases "as_string v")
    case None
    then show ?thesis using Cons kv by (simp add: sum.map_comp comp_def)
  next
    case (Some sv)
    show ?thesis
    proof (cases "secret_ref sv")
      case None
      then show ?thesis using Cons kv Some by (simp add: interpolateSecretString_def sum.map_comp comp_def)
    next
      case ref: (Some ref)
      from same_referencesD [OF assms, of ref w] show ?thesis
        using Cons kv Some ref by (auto simp: interpolateSecretString_def sum.map_comp comp_def)
    qed
  qed
qed simp

lemma callMCP_same_references:
  assumes "same_references f (ho_secret host)" "ignores_arguments host"
  shows "fst (callMCP (host\<lparr>ho_secret := f\<rparr>) m t req ag) = fst (callMCP host m t req ag) \<and>
    visible (snd (callMCP (host\<lparr>ho_secret := f\<rparr>) m t req ag)) = visible (snd (callMCP host m t req ag))"
proof (cases "ho_client host m (ag_world ag)")
  case (Some call)
  have eq: "map_sum (\<lambda>e. e) (\<lambda>_. ()) (resolveSecretArgs (host\<lparr>ho_secret := f\<rparr>) (dr_Args req) (ag_world ag)) =
      map_sum (\<lambda>e. e) (\<lambda>_. ()) (resolveSecretArgs host (dr_Args req) (ag_world ag))" by (rule resolve_same_references [OF assms(1)])
  show ?thesis
  proof (cases "resolveSecretArgs host (dr_Args req) (ag_world ag)")
    case (Inl e)
    with eq have "resolveSecretArgs (host\<lparr>ho_secret := f\<rparr>) (dr_Args req) (ag_world ag) = Inl e"
      by (cases "resolveSecretArgs (host\<lparr>ho_secret := f\<rparr>) (dr_Args req) (ag_world ag)") auto
    then show ?thesis using Some Inl by (cases e) (simp add: callMCP_def)
  next
    case (Inr args)
    with eq obtain args' where args': "resolveSecretArgs (host\<lparr>ho_secret := f\<rparr>) (dr_Args req) (ag_world ag) = Inr args'"
      by (cases "resolveSecretArgs (host\<lparr>ho_secret := f\<rparr>) (dr_Args req) (ag_world ag)") auto
    have "call t args' (ag_world ag) = call t args (ag_world ag)" using assms(2) Some unfolding ignores_arguments_def by blast
    then show ?thesis using Some Inr args'
      by (auto simp: callMCP_def visible_def log_agent_def Let_def split: prod.splits sum.splits)
  qed
qed (simp add: callMCP_def)

text \<open>C29: secret values reach the MCP server only.  For a server whose answer does not depend on its arguments, so that nothing flows back from it, a dispatch with
  other values under the same references ends in the same answer or error and in the same agent: approval rows, counters, messages, the outside and the
  log are equal up to the arguments handed to the server.  And arguments without a placeholder are passed on as they are.\<close>

theorem secrets_reach_only_the_call:
  assumes "same_references f (ho_secret host)" "ignores_arguments host" "\<forall>(k, v) \<in> set plain. \<forall>s. v = GStr s \<longrightarrow> secret_ref s = None"
  shows "fst (DispatchToolCall (host\<lparr>ho_secret := f\<rparr>) traceID req ag) = fst (DispatchToolCall host traceID req ag) \<and>
    visible (snd (DispatchToolCall (host\<lparr>ho_secret := f\<rparr>) traceID req ag)) = visible (snd (DispatchToolCall host traceID req ag)) \<and>
    resolveSecretArgs host plain w = Inr plain"
  using resolve_without_placeholders [OF assms(3)] callMCP_same_references [OF assms(1,2)]
  by (auto simp: DispatchToolCall_def permission_other_secret builtin_other_secret split: option.splits prod.splits)

theorem secrets_reach_only_the_call_witness:
  "DispatchToolCall (sample_host False (\<lambda>_. Inr ''s1'')) ''t1'' sample_request sample_agent \<noteq>
     DispatchToolCall (sample_host False (\<lambda>_. Inr ''s2'')) ''t1'' sample_request sample_agent \<and>
   visible (snd (DispatchToolCall (sample_host False (\<lambda>_. Inr ''s1'')) ''t1'' sample_request sample_agent)) =
     visible (snd (DispatchToolCall (sample_host False (\<lambda>_. Inr ''s2'')) ''t1'' sample_request sample_agent))"
proof
  let ?sent = "\<lambda>v. map (\<lambda>e. case e of CalledMCP _ _ _ args \<Rightarrow> args | _ \<Rightarrow> [])
    (ag_log (snd (DispatchToolCall (sample_host False (\<lambda>_. Inr v)) ''t1'' sample_request sample_agent)))"
  have "?sent ''s1'' = [[(''k'', GStr ''s1'')]]" "?sent ''s2'' = [[(''k'', GStr ''s2'')]]" by code_simp+
  then have "?sent ''s1'' \<noteq> ?sent ''s2''" by simp
  then show "DispatchToolCall (sample_host False (\<lambda>_. Inr ''s1'')) ''t1'' sample_request sample_agent \<noteq>
     DispatchToolCall (sample_host False (\<lambda>_. Inr ''s2'')) ''t1'' sample_request sample_agent" by metis
  let ?h = "sample_host False (\<lambda>_. Inr ''s2'')"
  have h: "?h\<lparr>ho_secret := (\<lambda>_ _. Inr ''s1'')\<rparr> = sample_host False (\<lambda>_. Inr ''s1'')" by (simp add: sample_host_def)
  have "same_references (\<lambda>_ _. Inr ''s1'') (ho_secret ?h)" "ignores_arguments ?h"
    by (auto simp: same_references_def ignores_arguments_def sample_host_def)
  from secrets_reach_only_the_call [OF this, of "[]" "''t1''" sample_request sample_agent "()"]
  show "visible (snd (DispatchToolCall (sample_host False (\<lambda>_. Inr ''s1'')) ''t1'' sample_request sample_agent)) =
     visible (snd (DispatchToolCall ?h ''t1'' sample_request sample_agent))" unfolding h by simp
qed

end
