(* ===== verification/Gitai_Memory.thy ===== *)
theory Gitai_Memory
  imports Stores "HOL-Library.Sublist"
begin

section \<open>Conversation memory\<close>

text \<open>
  \<^verbatim>\<open>common/memory/types.go\<close> and \<^verbatim>\<open>common/memory/context.go\<close>, the token estimate and the assembly of the memory context, and
  \<^verbatim>\<open>internal/gitai/app/memory.go\<close>, the short-term memory of an agent.  The embedder and the long-term store are parameters.
  The theory shows that the assembled context stays within its budget, or is the one last message that does not fit, and that the short-term
  memory is bounded and keeps the most recent messages.
\<close>

record Message =
  me_Role :: string
  me_Content :: string
  me_Timestamp :: gotime

record Conversation =
  cv_ID :: string
  cv_RoomID :: string
  cv_SenderID :: string
  cv_Messages :: "Message list"
  cv_StartedAt :: gotime
  cv_LastMsgAt :: gotime
  cv_Sealed :: bool

record MemoryEntry =
  en_ConversationID :: string
  en_RoomID :: string
  en_SenderID :: string
  en_Summary :: string
  en_Embedding :: "gofloat list"
  en_Messages :: "Message list"
  en_SealedAt :: gotime
  en_Metadata :: "(string \<times> string) list"

definition message_cost :: "Message \<Rightarrow> int" where
  "message_cost m = int (length (me_Content m)) div 4 + 4"

definition EstimateTokens :: "Message list \<Rightarrow> int" where
  "EstimateTokens msgs = sum_list (map message_cost msgs)"

fun TrimToTokenBudget :: "Message list \<Rightarrow> int \<Rightarrow> Message list" where
  "TrimToTokenBudget [] budget = []"
| "TrimToTokenBudget [m] budget = [m]"
| "TrimToTokenBudget (m # n # ms) budget =
     (if EstimateTokens (m # n # ms) > budget then TrimToTokenBudget (n # ms) budget else m # n # ms)"

subsection \<open>The context assembler\<close>

definition DefaultMaxTokens :: int where "DefaultMaxTokens = 4000"
definition DefaultLTMTopK :: int where "DefaultLTMTopK = 3"

text \<open>The embedder answers with an error, or with a vector or \<^verbatim>\<open>nil\<close>; the search with an error or entries.\<close>

record Assembler =
  as_STM :: "(string \<Rightarrow> string \<Rightarrow> Conversation option) option"
  as_LTM :: "(string \<Rightarrow> string \<Rightarrow> string \<Rightarrow> int \<Rightarrow> string + MemoryEntry list) option"
  as_Embedder :: "(string \<Rightarrow> string + gofloat list option) option"
  as_MaxTokens :: int
  as_LTMTopK :: int

definition date_only :: "gotime \<Rightarrow> string" where
  "date_only t = pad_int 4 (time_year t) @ ''-'' @ pad_int 2 (time_month t) @ ''-'' @ pad_int 2 (time_day t)"

definition entry_message :: "MemoryEntry \<Rightarrow> Message" where
  "entry_message e = \<lparr>me_Role = ''system'',
     me_Content = ''Previous relevant conversation (from '' @ date_only (en_SealedAt e) @ ''): '' @ en_Summary e, me_Timestamp = 0\<rparr>"

definition retrieveLTM ::
    "(string \<Rightarrow> string + gofloat list option) \<Rightarrow> (string \<Rightarrow> string \<Rightarrow> string \<Rightarrow> int \<Rightarrow> string + MemoryEntry list) \<Rightarrow>
     string \<Rightarrow> string \<Rightarrow> string \<Rightarrow> int \<Rightarrow> Message list"
where
  "retrieveLTM embed_text find_entries currentMsg roomID senderID topK = (case embed_text currentMsg of
       Inl e \<Rightarrow> []
     | Inr None \<Rightarrow> []
     | Inr (Some vec) \<Rightarrow>
         (case find_entries currentMsg roomID senderID topK of
            Inl e \<Rightarrow> []
          | Inr entries \<Rightarrow> map entry_message (filter (\<lambda>e. en_Summary e \<noteq> []) entries)))"

fun take_budget :: "Message list \<Rightarrow> int \<Rightarrow> int \<Rightarrow> Message list" where
  "take_budget [] used remaining = []"
| "take_budget (m # ms) used remaining =
     (if used + EstimateTokens [m] > remaining then [] else m # take_budget ms (used + EstimateTokens [m]) remaining)"

definition assembleWithBudget :: "Message list \<Rightarrow> int \<Rightarrow> Message list \<Rightarrow> int \<Rightarrow> Message list" where
  "assembleWithBudget stm stmTokens ltm maxTokens =
     (if stm = [] \<and> ltm = [] then []
      else (let (trimmedSTM, stmTokens) =
                  (if stmTokens > maxTokens \<and> length stm > 1
                   then (TrimToTokenBudget stm maxTokens, EstimateTokens (TrimToTokenBudget stm maxTokens))
                   else (stm, stmTokens));
                remaining = (if maxTokens - stmTokens < 0 then 0 else maxTokens - stmTokens)
            in take_budget ltm 0 remaining @ trimmedSTM))"

definition Assemble :: "Assembler \<Rightarrow> string \<Rightarrow> string \<Rightarrow> string \<Rightarrow> Message list" where
  "Assemble a roomID senderID currentMsg =
     (let maxTokens = (if as_MaxTokens a \<le> 0 then DefaultMaxTokens else as_MaxTokens a);
          topK = (if as_LTMTopK a \<le> 0 then DefaultLTMTopK else as_LTMTopK a);
          stm = (case as_STM a of None \<Rightarrow> []
                 | Some get \<Rightarrow> (case get roomID senderID of None \<Rightarrow> [] | Some conv \<Rightarrow> cv_Messages conv));
          ltm = (case (as_Embedder a, as_LTM a) of
                   (Some embed_text, Some find_entries) \<Rightarrow> retrieveLTM embed_text find_entries currentMsg roomID senderID topK
                 | _ \<Rightarrow> [])
      in assembleWithBudget stm (EstimateTokens stm) ltm maxTokens)"

subsection \<open>The short-term memory of the agent\<close>

record gitaiMemorySTM =
  sm_convos :: "(string \<times> Conversation) list"
  sm_maxMessages :: int

definition newGitaiMemorySTM :: "int \<Rightarrow> gitaiMemorySTM" where
  "newGitaiMemorySTM maxMessages = \<lparr>sm_convos = [], sm_maxMessages = (if maxMessages \<le> 0 then 50 else maxMessages)\<rparr>"

definition memorySessionKey :: "string \<Rightarrow> string \<Rightarrow> string" where
  "memorySessionKey roomID senderID = roomID @ '':'' @ senderID"

text \<open>\<^verbatim>\<open>msgs[excess:]\<close> when there are too many messages.\<close>

definition cap_messages :: "int \<Rightarrow> Message list \<Rightarrow> Message list" where
  "cap_messages maxMessages msgs =
     (if int (length msgs) > maxMessages then drop (nat (int (length msgs) - maxMessages)) msgs else msgs)"

definition RecordMessage :: "gotime \<Rightarrow> string \<Rightarrow> string \<Rightarrow> string \<Rightarrow> string \<Rightarrow> gitaiMemorySTM \<Rightarrow> gitaiMemorySTM" where
  "RecordMessage now roomID senderID role content s =
     (let key = memorySessionKey roomID senderID;
          conv = (case map_of (sm_convos s) key of
              Some c \<Rightarrow> c
            | None \<Rightarrow> \<lparr>cv_ID = roomID @ '':'' @ senderID, cv_RoomID = roomID, cv_SenderID = senderID, cv_Messages = [],
                cv_StartedAt = now, cv_LastMsgAt = 0, cv_Sealed = False\<rparr>);
          conv = conv\<lparr>cv_Messages := cap_messages (sm_maxMessages s)
              (cv_Messages conv @ [\<lparr>me_Role = role, me_Content = content, me_Timestamp = now\<rparr>]), cv_LastMsgAt := now\<rparr>
      in s\<lparr>sm_convos := AList.update key conv (sm_convos s)\<rparr>)"

definition GetActiveConversation :: "gitaiMemorySTM \<Rightarrow> string \<Rightarrow> string \<Rightarrow> Conversation option" where
  "GetActiveConversation s roomID senderID = map_of (sm_convos s) (memorySessionKey roomID senderID)"

definition formatMemoryContext :: "Message list \<Rightarrow> string" where
  "formatMemoryContext messages = str_join [CHR 0x0A] (map (\<lambda>m. me_Role m @ '': '' @ me_Content m) messages)"

subsection \<open>Budgets\<close>

lemma message_cost_pos: "0 < message_cost m"
  by (simp add: message_cost_def)

lemma EstimateTokens_simps [simp]:
  "EstimateTokens [] = 0" "EstimateTokens (m # ms) = message_cost m + EstimateTokens ms"
  "EstimateTokens (xs @ ys) = EstimateTokens xs + EstimateTokens ys"
  by (simp_all add: EstimateTokens_def)

lemma EstimateTokens_nonneg: "0 \<le> EstimateTokens ms"
  using message_cost_pos by (induction ms) (auto simp: add_nonneg_nonneg less_imp_le)

lemma TrimToTokenBudget_suffix: "suffix (TrimToTokenBudget ms budget) ms"
  by (induction ms budget rule: TrimToTokenBudget.induct) (auto intro: suffix_ConsI)

lemma TrimToTokenBudget_fits: "EstimateTokens (TrimToTokenBudget ms budget) \<le> budget \<or> length (TrimToTokenBudget ms budget) \<le> 1"
  by (induction ms budget rule: TrimToTokenBudget.induct) auto

text \<open>It drops no more than it has to.\<close>

lemma TrimToTokenBudget_longest:
  "suffix ys ms \<Longrightarrow> EstimateTokens ys \<le> budget \<Longrightarrow> suffix ys (TrimToTokenBudget ms budget)"
  by (induction ms budget rule: TrimToTokenBudget.induct) (auto simp: suffix_Cons)

lemma take_budget_prefix: "prefix (take_budget ms used remaining) ms"
  by (induction ms used remaining rule: take_budget.induct) auto

lemma take_budget_fits: "used \<le> remaining \<Longrightarrow> used + EstimateTokens (take_budget ms used remaining) \<le> remaining"
  by (induction ms used remaining rule: take_budget.induct) (auto simp: add.assoc [symmetric])

lemma take_budget_none: "take_budget ms 0 0 = []"
  using message_cost_pos by (cases ms) (auto simp: not_less)

text \<open>the memory context is the most relevant long-term entries followed by the latest messages of the conversation, and stays within the
  token budget; the one exception is a last message that alone exceeds it, which is then the whole context.\<close>

theorem assembled_context_within_budget:
  assumes "0 \<le> maxTokens"
  shows "\<exists>l s. assembleWithBudget stm (EstimateTokens stm) ltm maxTokens = l @ s \<and> prefix l ltm \<and> suffix s stm \<and>
    (EstimateTokens (l @ s) \<le> maxTokens \<or> (l = [] \<and> length s = 1)) \<and>
    (\<forall>ys. suffix ys stm \<and> EstimateTokens ys \<le> maxTokens \<longrightarrow> suffix ys s)"
proof (cases "EstimateTokens stm > maxTokens \<and> length stm > 1")
  case True
  let ?s = "TrimToTokenBudget stm maxTokens"
  let ?r = "if maxTokens - EstimateTokens ?s < 0 then 0 else maxTokens - EstimateTokens ?s"
  have e: "assembleWithBudget stm (EstimateTokens stm) ltm maxTokens = take_budget ltm 0 ?r @ ?s"
    using True by (auto simp: assembleWithBudget_def Let_def)
  have "EstimateTokens ?s \<le> maxTokens \<or> length ?s = 1"
    using TrimToTokenBudget_fits [of stm maxTokens] assms by (cases ?s) auto
  then have fits: "EstimateTokens (take_budget ltm 0 ?r @ ?s) \<le> maxTokens \<or> (take_budget ltm 0 ?r = [] \<and> length ?s = 1)"
    using take_budget_fits [of 0 ?r ltm] take_budget_none by (auto split: if_splits)
  have "\<forall>ys. suffix ys stm \<and> EstimateTokens ys \<le> maxTokens \<longrightarrow> suffix ys ?s"
    by (simp add: TrimToTokenBudget_longest)
  with e fits take_budget_prefix [of ltm 0 ?r] TrimToTokenBudget_suffix [of stm maxTokens] show ?thesis
    by (intro exI [of _ "take_budget ltm 0 ?r"] exI [of _ ?s] conjI)
next
  case False
  let ?r = "if maxTokens - EstimateTokens stm < 0 then 0 else maxTokens - EstimateTokens stm"
  have e: "assembleWithBudget stm (EstimateTokens stm) ltm maxTokens = take_budget ltm 0 ?r @ stm"
    using False by (auto simp: assembleWithBudget_def Let_def)
  have "EstimateTokens stm \<le> maxTokens \<or> length stm = 1"
    using False assms by (cases stm) auto
  then have "EstimateTokens (take_budget ltm 0 ?r @ stm) \<le> maxTokens \<or> (take_budget ltm 0 ?r = [] \<and> length stm = 1)"
    using take_budget_fits [of 0 ?r ltm] take_budget_none by (auto split: if_splits)
  then show ?thesis
    unfolding e using take_budget_prefix [of ltm 0 ?r] by (intro exI [of _ "take_budget ltm 0 ?r"] exI [of _ stm]) auto
qed

theorem assembled_context_within_budget_witness:
  "let m = (\<lambda>c. \<lparr>me_Role = ''user'', me_Content = c, me_Timestamp = 0\<rparr>) in
   \<exists>l s. assembleWithBudget [m ''one'', m ''two''] (EstimateTokens [m ''one'', m ''two'']) [m ''old''] 9 = l @ s \<and> prefix l [m ''old''] \<and>
    suffix s [m ''one'', m ''two''] \<and> (EstimateTokens (l @ s) \<le> 9 \<or> (l = [] \<and> length s = 1))"
  using assembled_context_within_budget [of 9 "map (\<lambda>c. \<lparr>me_Role = ''user'', me_Content = c, me_Timestamp = 0\<rparr>) [''one'', ''two'']"
      "[\<lparr>me_Role = ''user'', me_Content = ''old'', me_Timestamp = 0\<rparr>]"]
  unfolding Let_def list.map by (simp only: zero_le_numeral) blast

subsection \<open>The short-term memory is bounded\<close>

definition stm_ok :: "gitaiMemorySTM \<Rightarrow> bool" where
  "stm_ok s \<longleftrightarrow> 0 < sm_maxMessages s \<and> (\<forall>(k, c) \<in> set (sm_convos s). int (length (cv_Messages c)) \<le> sm_maxMessages s)"

lemma cap_messages_length: "0 \<le> n \<Longrightarrow> int (length (cap_messages n ms)) \<le> n"
  by (auto simp: cap_messages_def)

lemma cap_messages_suffix: "suffix (cap_messages n ms) ms"
  by (simp add: cap_messages_def suffix_drop)

lemma RecordMessage_ok: "stm_ok s \<Longrightarrow> stm_ok (RecordMessage now roomID senderID role content s)"
  by (auto simp: stm_ok_def RecordMessage_def Let_def cap_messages_length dest!: in_update)

definition record_op :: "gotime \<times> string \<times> string \<times> string \<times> string \<Rightarrow> gitaiMemorySTM \<Rightarrow> unit \<times> gitaiMemorySTM" where
  "record_op = (\<lambda>(now, room, sender, role, content) s. ((), RecordMessage now room sender role content s))"

interpretation stm: invariant_system record_op stm_ok
  by unfold_locales (auto simp: record_op_def RecordMessage_ok)

text \<open>over every sequence of messages the short-term memory holds at most its bound of messages per conversation, and a message that has just
  been recorded is the last one of its conversation, after a tail of what was there.\<close>

theorem short_term_memory_bounded:
  assumes "s = run_state record_op ops (newGitaiMemorySTM n)"
  shows "stm_ok s \<and> sm_maxMessages s = (if n \<le> 0 then 50 else n) \<and>
    (\<exists>c old. GetActiveConversation (RecordMessage now roomID senderID role content s) roomID senderID = Some c \<and>
       cv_Messages c = old @ [\<lparr>me_Role = role, me_Content = content, me_Timestamp = now\<rparr>] \<and>
       suffix old (case GetActiveConversation s roomID senderID of None \<Rightarrow> [] | Some c0 \<Rightarrow> cv_Messages c0))"
proof -
  have ok: "stm_ok s" unfolding assms by (rule stm.run_keeps) (simp add: stm_ok_def newGitaiMemorySTM_def)
  have m: "sm_maxMessages (run_state record_op xs t) = sm_maxMessages t" for xs t
    by (induction xs arbitrary: t) (auto simp: record_op_def RecordMessage_def Let_def)
  let ?m = "\<lparr>me_Role = role, me_Content = content, me_Timestamp = now\<rparr>"
  let ?ms = "case GetActiveConversation s roomID senderID of None \<Rightarrow> [] | Some c0 \<Rightarrow> cv_Messages c0"
  have "\<exists>old. cap_messages (sm_maxMessages s) (?ms @ [?m]) = old @ [?m] \<and> suffix old ?ms"
  proof -
    let ?d = "nat (int (length (?ms @ [?m])) - sm_maxMessages s)"
    have "?d \<le> length ?ms" using ok by (auto simp: stm_ok_def)
    then show ?thesis by (auto simp: cap_messages_def suffix_drop)
  qed
  then show ?thesis using ok m [of ops "newGitaiMemorySTM n"] assms
    by (auto simp: RecordMessage_def GetActiveConversation_def Let_def newGitaiMemorySTM_def split: option.splits)
qed

theorem short_term_memory_bounded_witness:
  "let s = run_state record_op [(1, ''!r'', ''@u'', ''user'', ''hi'')] (newGitaiMemorySTM 1) in
   stm_ok s \<and> sm_maxMessages s = (if (1::int) \<le> 0 then 50 else 1) \<and>
    (\<exists>c old. GetActiveConversation (RecordMessage 2 ''!r'' ''@u'' ''user'' ''again'' s) ''!r'' ''@u'' = Some c \<and>
       cv_Messages c = old @ [\<lparr>me_Role = ''user'', me_Content = ''again'', me_Timestamp = 2\<rparr>] \<and>
       suffix old (case GetActiveConversation s ''!r'' ''@u'' of None \<Rightarrow> [] | Some c0 \<Rightarrow> cv_Messages c0))"
  unfolding Let_def by (rule short_term_memory_bounded) (rule refl)

end
