(* ===== verification/Gitai_Turn.thy ===== *)
theory Gitai_Turn
  imports Gitai_Dispatch Gitai_Memory Workflow_Runner
begin

section \<open>Turns of the agent\<close>

text \<open>
  \<^verbatim>\<open>internal/gitai/app/app.go\<close>, \<^verbatim>\<open>prompt.go\<close> and \<^verbatim>\<open>workflow_runtime.go\<close>: what the agent does with a Matrix message or a gateway event.
  A message is admitted by room, sender and addressee, matched against the workflow protocols (theory \<open>Workflow_Match\<close>), and then run as a
  workflow (theory \<open>Workflow_Runner\<close>) or as a conversation with the language model; either way every tool call goes through
  \<^verbatim>\<open>DispatchToolCall\<close> (theory \<open>Gitai_Dispatch\<close>).
  \<open>Turn\<close> is what a turn is wired to: the host, the tools of the running servers, the model, the clock, the JSON decoder and the reply channel.
  The result \<open>None\<close> is a workflow that does not return (a template that never stops expanding).
  A model that returns without an error returns an answer, so that the check for a nil answer is dropped.
  Letters are compared without case on ASCII.
\<close>

subsection \<open>Model messages and tools\<close>

record llm_tool_call =
  lc_ID :: string
  lc_Name :: string
  lc_Arguments :: string

record llm_message =
  lm_Role :: string
  lm_Content :: string
  lm_ToolCalls :: "llm_tool_call list"
  lm_ToolCallID :: string
  lm_Name :: string

record ToolDefinition =
  td_Name :: string
  td_Description :: string
  td_Parameters :: gvalue

record CompletionRequest =
  cq_Messages :: "llm_message list"
  cq_Tools :: "ToolDefinition list"
  cq_MaxTokens :: int

record CompletionResponse =
  cp_Message :: llm_message
  cp_FinishReason :: string

record 'w Turn =
  tn_host :: "'w Host"
  tn_names :: "'w \<Rightarrow> string list"
  tn_list :: "string \<Rightarrow> 'w \<Rightarrow> (string + ToolDefinition list) option"
  tn_definitions :: "ToolDefinition list"
  tn_complete :: "(CompletionRequest \<Rightarrow> 'w \<Rightarrow> (string + CompletionResponse) \<times> 'w) option"
  tn_LLMProvider :: string
  tn_now :: "'w \<Rightarrow> gotime \<times> 'w"
  tn_unmarshal :: "string \<Rightarrow> string + gvalue"
  tn_reply :: "(string \<Rightarrow> string \<Rightarrow> string \<Rightarrow> 'w \<Rightarrow> fault \<times> 'w) option"
  tn_startedAt :: gotime
  tn_assembler :: "(gitaiMemorySTM option \<Rightarrow> Assembler) option"

text \<open>The state a turn works on: the agent, its short-term memory and the log of turns.\<close>

record TurnRow =
  tl_ID :: int
  tl_trace_id :: string
  tl_room_id :: string
  tl_sender_mxid :: string
  tl_message :: string
  tl_trigger :: "(string \<times> string) option"
  tl_tool_calls :: int
  tl_result :: string
  tl_error_msg :: "string option"
  tl_duration_ms :: "int option"

record 'w TurnState =
  tu_agent :: "'w Agent"
  tu_stm :: "gitaiMemorySTM option"
  tu_log :: "TurnRow list"
  tu_seq :: int

subsection \<open>The log of turns\<close>

definition insert_turn :: "fault \<Rightarrow> string \<Rightarrow> string \<Rightarrow> string \<Rightarrow> string \<Rightarrow> (string \<times> string) option \<Rightarrow> 'w TurnState \<Rightarrow> int \<times> 'w TurnState" where
  "insert_turn exec traceID roomID senderMXID message trigger st = (case exec of
       Some e \<Rightarrow> (0, st)
     | None \<Rightarrow> (tu_seq st + 1, st\<lparr>tu_seq := tu_seq st + 1, tu_log := tu_log st @ [\<lparr>tl_ID = tu_seq st + 1, tl_trace_id = traceID,
         tl_room_id = roomID, tl_sender_mxid = senderMXID, tl_message = message, tl_trigger = trigger, tl_tool_calls = 0,
         tl_result = [], tl_error_msg = None, tl_duration_ms = None\<rparr>]\<rparr>))"

definition LogTurn :: "fault \<Rightarrow> string \<Rightarrow> string \<Rightarrow> string \<Rightarrow> string \<Rightarrow> 'w TurnState \<Rightarrow> int \<times> 'w TurnState" where
  "LogTurn exec traceID roomID senderMXID message st = insert_turn exec traceID roomID senderMXID message None st"

definition LogGatewayTurn :: "fault \<Rightarrow> string \<Rightarrow> string \<Rightarrow> string \<Rightarrow> string \<Rightarrow> string \<Rightarrow> string \<Rightarrow> 'w TurnState \<Rightarrow> int \<times> 'w TurnState" where
  "LogGatewayTurn exec traceID roomID senderMXID message gatewayName eventType st =
     insert_turn exec traceID roomID senderMXID message (Some (gatewayName, eventType)) st"

definition update_turn :: "fault \<Rightarrow> int \<Rightarrow> (TurnRow \<Rightarrow> TurnRow) \<Rightarrow> 'w TurnState \<Rightarrow> 'w TurnState" where
  "update_turn exec i f st = (case exec of
       Some e \<Rightarrow> st
     | None \<Rightarrow> st\<lparr>tu_log := map (\<lambda>r. if tl_ID r = i then f r else r) (tu_log st)\<rparr>)"

definition FinishTurn :: "fault \<Rightarrow> int \<Rightarrow> int \<Rightarrow> string \<Rightarrow> string \<Rightarrow> 'w TurnState \<Rightarrow> 'w TurnState" where
  "FinishTurn exec i toolCalls result errMsg st =
     update_turn exec i (\<lambda>r. r\<lparr>tl_tool_calls := toolCalls, tl_result := result, tl_error_msg := nullableString errMsg\<rparr>) st"

definition FinishTurnWithDuration :: "fault \<Rightarrow> int \<Rightarrow> int \<Rightarrow> int \<Rightarrow> string \<Rightarrow> string \<Rightarrow> 'w TurnState \<Rightarrow> 'w TurnState" where
  "FinishTurnWithDuration exec i toolCalls durationMS result errMsg st =
     update_turn exec i (\<lambda>r. r\<lparr>tl_tool_calls := toolCalls, tl_result := result, tl_error_msg := nullableString errMsg,
       tl_duration_ms := Some durationMS\<rparr>) st"

subsection \<open>Addressing\<close>

definition equal_fold :: "string \<Rightarrow> string \<Rightarrow> bool" where
  "equal_fold a b \<longleftrightarrow> to_lower a = to_lower b"

definition parseDirectedAgentMessage :: "string \<Rightarrow> (string \<times> string) option" where
  "parseDirectedAgentMessage text =
     (let trimmed = trim_space text in
      if trimmed = [] then None
      else (case (if length trimmed \<ge> 4 \<and> equal_fold (take 4 trimmed) ''hey '' then Some (trim_space (drop 4 trimmed))
                  else if has_prefix trimmed ''@'' then Some trimmed else None) of
              None \<Rightarrow> None
            | Some remainder \<Rightarrow>
                if remainder = [] then None
                else (case index_of remainder '','' of
                        None \<Rightarrow> None
                      | Some comma \<Rightarrow>
                          if comma = 0 then None
                          else (let target = trim_space (trim_prefix (trim_space (take comma remainder)) ''@'');
                                    body = trim_space (drop (Suc comma) remainder)
                                in if target = [] then None else if body = [] then None else Some (target, body)))))"

definition normalizeDirectedTarget :: "string \<Rightarrow> string" where
  "normalizeDirectedTarget v0 =
     (let v = trim_space (trim_prefix v0 ''@'') in
      if v = [] then []
      else (case index_of v '':'' of
              Some at \<Rightarrow> if at > 0 then trim_space (take at v) else trim_space v
            | None \<Rightarrow> trim_space v))"

definition isDirectedAtSelf :: "string \<Rightarrow> string \<Rightarrow> bool" where
  "isDirectedAtSelf target self =
     (let normalizedTarget = normalizeDirectedTarget target; normalizedSelf = normalizeDirectedTarget self in
      if normalizedTarget = [] \<or> normalizedSelf = [] then False else equal_fold normalizedTarget normalizedSelf)"

definition agentIdentity :: "Config option \<Rightarrow> string \<Rightarrow> string" where
  "agentIdentity cfg fallback = (case cfg of
       None \<Rightarrow> trim_space fallback
     | Some c \<Rightarrow>
         if trim_space (md_CanonicalName (cf_Metadata c)) \<noteq> [] then trim_space (md_CanonicalName (cf_Metadata c))
         else if trim_space (md_Name (cf_Metadata c)) \<noteq> [] then trim_space (md_Name (cf_Metadata c))
         else trim_space fallback)"

definition isTrustedPeerSender :: "Config option \<Rightarrow> string \<Rightarrow> bool" where
  "isTrustedPeerSender cfg sender = (case cfg of
       None \<Rightarrow> False
     | Some c \<Rightarrow> list_ex (\<lambda>peer. equal_fold (trim_space (tp_MXID peer)) (trim_space sender)) (tr_TrustedPeers (cf_Trust c)))"

definition shouldSendTurnErrorReply :: "Config option \<Rightarrow> string \<Rightarrow> string \<Rightarrow> bool" where
  "shouldSendTurnErrorReply cfg sender err =
     (if \<not> isTrustedPeerSender cfg sender then True
      else (let msg = to_lower err in
        \<not> (str_contains msg ''llm provider not configured'' \<or> str_contains msg ''llm call failed'')))"

subsection \<open>Prompt and messages\<close>

definition nl :: string where "nl = [CHR 0x0A]"

definition buildMessagingTargets :: "Config option \<Rightarrow> string list" where
  "buildMessagingTargets cfg = (case cfg of
       None \<Rightarrow> []
     | Some c \<Rightarrow> map (\<lambda>t. mt_Alias t @ '' ('' @ mt_RoomID t @ '')'') (ms_AllowedTargets (cf_Messaging c)))"

definition workflow_lines :: "WorkflowStep list \<Rightarrow> string" where
  "workflow_lines steps = concat (map (\<lambda>s.
     (let trigger = trim_space (st_Trigger s); action = trim_space (st_Action s) in
      if trigger \<noteq> [] \<and> action \<noteq> []
      then ''- When '' @ trigger @ '':'' @ nl @ ''  '' @ [CHR 0xE2, CHR 0x86, CHR 0x92] @ '' '' @ action @ nl else [])) steps)"

definition peer_lines :: "PeerRef list \<Rightarrow> string" where
  "peer_lines peers = concat (map (\<lambda>p.
     (let name = trim_space (pr_Name p); role = trim_space (pr_Role p) in
      if name = [] then []
      else if role \<noteq> [] then ''- **'' @ name @ ''**: '' @ role @ nl else ''- **'' @ name @ ''**'' @ nl)) peers)"

definition buildSystemPrompt :: "Config option \<Rightarrow> string list \<Rightarrow> string \<Rightarrow> string" where
  "buildSystemPrompt cfg messagingTargets memoryContext = (case cfg of
       None \<Rightarrow> []
     | Some c \<Rightarrow>
         (let md = cf_Metadata c; ins = cf_Instructions c; user = trim_space (ic_User (in_Context ins)); peers = ic_Peers (in_Context ins);
              persona = (if pe_SystemPrompt (cf_Persona c) = [] then ''You are '' @ md_Name md @ ''. '' @ md_Description md
                         else pe_SystemPrompt (cf_Persona c));
              role = trim_space (in_Role ins); mc = trim_space memoryContext
          in trim_space persona
             @ (if role \<noteq> [] then nl @ nl @ ''## Operational Role'' @ nl @ role else [])
             @ (if in_Workflow ins \<noteq> [] then nl @ nl @ ''## Workflow'' @ nl @ workflow_lines (in_Workflow ins) else [])
             @ (if user \<noteq> [] \<or> peers \<noteq> []
                then nl @ nl @ ''## Context'' @ (if user \<noteq> [] then nl @ nl @ ''### User'' @ nl @ user else [])
                  @ (if peers \<noteq> [] then nl @ nl @ ''### Peer Agents'' @ nl @ peer_lines peers else [])
                else [])
             @ (if messagingTargets \<noteq> []
                then nl @ nl @ ''## Messaging Targets'' @ nl @ ''You can send messages to the following agents and users:'' @ nl
                  @ concat (map (\<lambda>t. ''- '' @ t @ nl) messagingTargets)
                else [])
             @ (if mc \<noteq> [] then nl @ nl @ ''## Memory Context'' @ nl @ mc else [])))"

definition buildEventMessage :: "(gmap \<Rightarrow> string + string) \<Rightarrow> Event \<Rightarrow> string" where
  "buildEventMessage marshal evt =
     (let plain = ''Event received from '' @ ev_Source evt @ '' (type: '' @ ev_Type evt @ '').'' in
      if ep_Message (ev_Payload evt) \<noteq> [] then ep_Message (ev_Payload evt)
      else if ep_Data (ev_Payload evt) = [] then plain
      else (case marshal (ep_Data (ev_Payload evt)) of Inl e \<Rightarrow> plain | Inr dataJSON \<Rightarrow> plain @ '' Data: '' @ dataJSON))"

definition buildSecretEnvMapping :: "SecretRef list \<Rightarrow> (string \<times> string) list" where
  "buildSecretEnvMapping secrets = fold (\<lambda>s out. if sr_EnvVar s \<noteq> [] then AList.update (sr_EnvVar s) (sr_Name s) out else out) secrets []"

fun distinct_rooms :: "string list \<Rightarrow> string list \<Rightarrow> string list" where
  "distinct_rooms [] rooms = rooms"
| "distinct_rooms (r # rs) rooms =
     (let room = trim_space r in if room = [] \<or> room \<in> set rooms then distinct_rooms rs rooms else distinct_rooms rs (rooms @ [room]))"

definition roomsFromConfig :: "Config option \<Rightarrow> string list" where
  "roomsFromConfig cfg = (case cfg of
       None \<Rightarrow> []
     | Some c \<Rightarrow>
         (let rooms = distinct_rooms (tr_AllowedRooms (cf_Trust c)) []; adminRoom = trim_space (tr_AdminRoom (cf_Trust c)) in
          if adminRoom \<noteq> [] \<and> adminRoom \<notin> set rooms then rooms @ [adminRoom] else rooms))"

subsection \<open>Tool names for the provider\<close>

definition name_char_ok :: "char \<Rightarrow> bool" where
  "name_char_ok c \<longleftrightarrow> (let n = of_char c :: nat in
     (97 \<le> n \<and> n \<le> 122) \<or> (65 \<le> n \<and> n \<le> 90) \<or> (48 \<le> n \<and> n \<le> 57) \<or> c = CHR ''_'' \<or> c = CHR ''-'')"

text \<open>\<^verbatim>\<open>[^a-zA-Z0-9_-]\<close> replaced by an underscore.  The pattern matches runes: of the bytes of a rune beyond ASCII the first becomes the
  underscore, the others (\<^verbatim>\<open>10xxxxxx\<close>) vanish with it.\<close>

definition replace_chars :: "string \<Rightarrow> string" where
  "replace_chars s = concat (map (\<lambda>c. if name_char_ok c then [c]
     else if 128 \<le> (of_char c :: nat) \<and> (of_char c :: nat) < 192 then [] else ''_'') s)"

text \<open>The loop that looks for a free name: \<^verbatim>\<open>base\<close>, \<^verbatim>\<open>base_2\<close>, \<^verbatim>\<open>base_3\<close>, \<dots>; \<open>None\<close> when the fuel runs out.\<close>

fun free_name :: "nat \<Rightarrow> string \<Rightarrow> nat \<Rightarrow> string \<Rightarrow> string list \<Rightarrow> string option" where
  "free_name 0 normalized k candidate used = None"
| "free_name (Suc n) normalized k candidate used =
     (if candidate \<in> set used then free_name n normalized (Suc k) (normalized @ ''_'' @ itoa (int k)) used
      else Some candidate)"

definition normalized_name :: "string \<Rightarrow> string" where
  "normalized_name canonical = (if replace_chars canonical = [] then ''tool'' else replace_chars canonical)"

definition provider_name :: "string \<Rightarrow> string list \<Rightarrow> string" where
  "provider_name canonical used =
     (case free_name (Suc (length used)) (normalized_name canonical) 2 (normalized_name canonical) used of
        Some c \<Rightarrow> c | None \<Rightarrow> [])"

fun normalize_defs :: "ToolDefinition list \<Rightarrow> string list \<Rightarrow> ToolDefinition list \<times> (string \<times> string) list" where
  "normalize_defs [] used = ([], [])"
| "normalize_defs (def # defs) used =
     (let candidate = provider_name (td_Name def) used;
          (ds, m) = normalize_defs defs (candidate # used)
      in (def\<lparr>td_Name := candidate\<rparr> # ds, (candidate, td_Name def) # m))"

definition normalizeToolDefinitionsForProvider :: "string \<Rightarrow> ToolDefinition list \<Rightarrow> ToolDefinition list \<times> (string \<times> string) list" where
  "normalizeToolDefinitionsForProvider provider defs =
     (if to_lower (trim_space provider) \<noteq> ''openai'' then (defs, []) else normalize_defs defs [])"

definition gatherTools :: "'w Turn \<Rightarrow> 'w \<Rightarrow> ToolDefinition list" where
  "gatherTools tn w =
     concat (map (\<lambda>mcpName. case tn_list tn mcpName w of
         None \<Rightarrow> []
       | Some (Inl e) \<Rightarrow> []
       | Some (Inr tools) \<Rightarrow> map (\<lambda>t. t\<lparr>td_Name := mcpName @ ''__'' @ td_Name t\<rparr>) tools) (tn_names tn w))
     @ filter (\<lambda>d. td_Name d \<noteq> MatrixSendToolName \<or> IsMessagingConfigured (ho_config (tn_host tn))) (tn_definitions tn)"

subsection \<open>The conversation with the model\<close>

definition enforceLLMCallHardLimit :: "'w Turn \<Rightarrow> 'w Agent \<Rightarrow> string option \<times> 'w Agent" where
  "enforceLLMCallHardLimit tn ag =
     (let limit = ho_LLMCallHardLimit (tn_host tn) in
      if limit \<le> 0 then (None, ag)
      else (let count = ag_llmCalls ag + 1; ag1 = ag\<lparr>ag_llmCalls := count\<rparr> in
        if count \<le> limit then (None, ag1)
        else (Some (''LLM hard call limit exceeded ('' @ itoa limit @ '')''), log_agent (Terminated 1) ag1)))"

definition complete :: "'w Turn \<Rightarrow> CompletionRequest \<Rightarrow> 'w Agent \<Rightarrow> (string + CompletionResponse) \<times> 'w Agent" where
  "complete tn req ag = (case tn_complete tn of
       None \<Rightarrow> (Inl ''LLM provider not configured'', ag)
     | Some f \<Rightarrow> (let (r, w) = f req (ag_world ag) in (r, (log_agent LLMCall ag)\<lparr>ag_world := w\<rparr>)))"

definition executeToolCall :: "'w Turn \<Rightarrow> string \<Rightarrow> string \<Rightarrow> llm_tool_call \<Rightarrow> 'w Agent \<Rightarrow> (string + string) \<times> 'w Agent" where
  "executeToolCall tn traceID sender tc ag =
     (case (if lc_Arguments tc = [] then Inr None else unmarshal_object (tn_unmarshal tn) (lc_Arguments tc)) of
        Inl e \<Rightarrow> (Inl (''invalid tool arguments: '' @ e), ag)
      | Inr args \<Rightarrow> apfst (map_sum dispatch_error_text (\<lambda>x. x)) (DispatchToolCall (tn_host tn) traceID
          \<lparr>dr_Caller = ''llm'', dr_Sender = sender, dr_Name = lc_Name tc, dr_Args = (case args of None \<Rightarrow> [] | Some m \<Rightarrow> m)\<rparr> ag))"

definition canonical_call :: "(string \<times> string) list \<Rightarrow> llm_tool_call \<Rightarrow> llm_tool_call" where
  "canonical_call names tc = (case map_of names (lc_Name tc) of Some canonical \<Rightarrow> tc\<lparr>lc_Name := canonical\<rparr> | None \<Rightarrow> tc)"

fun process_calls ::
    "'w Turn \<Rightarrow> string \<Rightarrow> string \<Rightarrow> (string \<times> string) list \<Rightarrow> llm_tool_call list \<Rightarrow> llm_message list \<Rightarrow> 'w Agent \<Rightarrow>
     llm_message list \<times> 'w Agent"
where
  "process_calls tn traceID sender names [] messages ag = (messages, ag)"
| "process_calls tn traceID sender names (tc # tcs) messages ag =
     (let tc = canonical_call names tc;
          (r, ag1) = executeToolCall tn traceID sender tc ag;
          msg = \<lparr>lm_Role = ''tool'', lm_Content = (case r of Inl e \<Rightarrow> ''error: '' @ e | Inr x \<Rightarrow> x), lm_ToolCalls = [],
            lm_ToolCallID = lc_ID tc, lm_Name = lc_Name tc\<rparr>
      in process_calls tn traceID sender names tcs (messages @ [msg]) ag1)"

definition maxToolCallRounds :: nat where "maxToolCallRounds = 10"

fun turn_rounds ::
    "'w Turn \<Rightarrow> string \<Rightarrow> string \<Rightarrow> ToolDefinition list \<Rightarrow> (string \<times> string) list \<Rightarrow> int \<Rightarrow> nat \<Rightarrow> llm_message list \<Rightarrow> int \<Rightarrow>
     'w Agent \<Rightarrow> (string + string) \<times> int \<times> 'w Agent"
where
  "turn_rounds tn traceID sender tools names maxTokens 0 messages calls ag =
     (Inl (''exceeded maximum tool call rounds ('' @ itoa (int maxToolCallRounds) @ '')''), calls, ag)"
| "turn_rounds tn traceID sender tools names maxTokens (Suc n) messages calls ag =
     (case enforceLLMCallHardLimit tn ag of
        (Some e, ag1) \<Rightarrow> (Inl e, calls, ag1)
      | (None, ag1) \<Rightarrow>
          (case complete tn \<lparr>cq_Messages = messages, cq_Tools = tools, cq_MaxTokens = maxTokens\<rparr> ag1 of
             (Inl e, ag2) \<Rightarrow> (Inl (''LLM call failed: '' @ e), calls, ag2)
           | (Inr resp, ag2) \<Rightarrow>
               (let messages = messages @ [cp_Message resp]; tcs = lm_ToolCalls (cp_Message resp) in
                if cp_FinishReason resp \<noteq> ''tool_calls'' \<or> tcs = [] then (Inr (lm_Content (cp_Message resp)), calls, ag2)
                else (case process_calls tn traceID sender names tcs messages ag2 of (messages, ag3) \<Rightarrow>
                  turn_rounds tn traceID sender tools names maxTokens n messages (calls + int (length tcs)) ag3))))"

definition record_message :: "'w Turn \<Rightarrow> string \<Rightarrow> string \<Rightarrow> string \<Rightarrow> string \<Rightarrow> 'w TurnState \<Rightarrow> 'w TurnState" where
  "record_message tn roomID sender role content st = (case tu_stm st of
       None \<Rightarrow> st
     | Some stm \<Rightarrow>
         (let (now, w) = tn_now tn (ag_world (tu_agent st)) in
          st\<lparr>tu_stm := Some (RecordMessage now roomID sender role content stm), tu_agent := (tu_agent st)\<lparr>ag_world := w\<rparr>\<rparr>))"

definition plain_message :: "string \<Rightarrow> string \<Rightarrow> llm_message" where
  "plain_message role content = \<lparr>lm_Role = role, lm_Content = content, lm_ToolCalls = [], lm_ToolCallID = [], lm_Name = []\<rparr>"

definition runTurn :: "'w Turn \<Rightarrow> string \<Rightarrow> string \<Rightarrow> string \<Rightarrow> string \<Rightarrow> 'w TurnState \<Rightarrow> (string + string) \<times> int \<times> 'w TurnState" where
  "runTurn tn traceID roomID sender userText st = (case ho_config (tn_host tn) of
       None \<Rightarrow> (Inl ''no Gosuto config loaded; cannot process messages'', 0, st)
     | Some cfg \<Rightarrow>
         if tn_complete tn = None then (Inl ''LLM provider not configured'', 0, st)
         else
           (let st1 = record_message tn roomID sender ''user'' userText st;
                memoryContext = (case tn_assembler tn of None \<Rightarrow> []
                  | Some a \<Rightarrow> formatMemoryContext (Assemble (a (tu_stm st1)) roomID sender userText));
                systemPrompt = buildSystemPrompt (Some cfg) (buildMessagingTargets (Some cfg)) memoryContext;
                toolDefs = gatherTools tn (ag_world (tu_agent st1));
                persona = to_lower (trim_space (pe_LLMProvider (cf_Persona cfg)));
                providerName = (if persona = [] then to_lower (trim_space (tn_LLMProvider tn)) else persona);
                (tools, names) = normalizeToolDefinitionsForProvider providerName toolDefs;
                maxTokens = (if li_MaxTokensPerRequest (cf_Limits cfg) > 0 then li_MaxTokensPerRequest (cf_Limits cfg) else 0);
                (r, calls, ag) = turn_rounds tn traceID sender tools names maxTokens maxToolCallRounds
                  [plain_message ''system'' systemPrompt, plain_message ''user'' userText] 0 (tu_agent st1);
                st2 = st1\<lparr>tu_agent := ag\<rparr>
            in case r of
                 Inl e \<Rightarrow> (Inl e, calls, st2)
               | Inr content \<Rightarrow>
                   (Inr content, calls, if content \<noteq> [] then record_message tn roomID sender ''assistant'' content st2 else st2)))"

subsection \<open>Workflow turns\<close>

definition Summarize :: "'w Turn \<Rightarrow> string \<Rightarrow> 'w Agent \<Rightarrow> (go_error + string) \<times> 'w Agent" where
  "Summarize tn prompt ag = (case ho_config (tn_host tn) of
       None \<Rightarrow> (Inl (Plain ''no Gosuto config loaded''), ag)
     | Some cfg \<Rightarrow>
         if tn_complete tn = None then (Inl (Plain ''LLM provider not configured''), ag)
         else (case enforceLLMCallHardLimit tn ag of
                 (Some e, ag1) \<Rightarrow> (Inl (Plain e), ag1)
               | (None, ag1) \<Rightarrow>
                   (case complete tn \<lparr>cq_Messages = [plain_message ''system'' (buildSystemPrompt (Some cfg) (buildMessagingTargets (Some cfg)) []),
                         plain_message ''user'' prompt], cq_Tools = [], cq_MaxTokens = li_MaxTokensPerRequest (cf_Limits cfg)\<rparr> ag1 of
                      (Inl e, ag2) \<Rightarrow> (Inl (Wrap ''workflow summarize failed'' (Plain e)), ag2)
                    | (Inr resp, ag2) \<Rightarrow> (Inr (lm_Content (cp_Message resp)), ag2))))"

definition workflowDispatcher :: "'w Turn \<Rightarrow> string \<Rightarrow> 'w Agent Runtime" where
  "workflowDispatcher tn traceID = \<lparr>
     rt_DispatchTool = (\<lambda>caller sender name args ag. apfst (map_sum (\<lambda>e. Plain (dispatch_error_text e)) (\<lambda>x. x))
       (DispatchToolCall (tn_host tn) traceID \<lparr>dr_Caller = caller, dr_Sender = sender, dr_Name = name, dr_Args = args\<rparr> ag)),
     rt_Summarize = (\<lambda>prompt st ag. Summarize tn prompt ag),
     rt_Now = (\<lambda>ag. let (t, w) = tn_now tn (ag_world ag) in (t, ag\<lparr>ag_world := w\<rparr>)),
     rt_Unmarshal = tn_unmarshal tn\<rparr>"

definition runWorkflowTurn ::
    "'w Turn \<Rightarrow> string \<Rightarrow> string \<Rightarrow> string \<Rightarrow> InboundProtocolMatch \<Rightarrow> 'w TurnState \<Rightarrow> ((string + string) \<times> int \<times> 'w TurnState) option"
where
  "runWorkflowTurn tn traceID roomID sender match st =
     map_option (\<lambda>(r, calls, wst, ag). (map_sum error_text trim_space r, calls, st\<lparr>tu_agent := ag\<rparr>))
       (ExecuteProtocol (Some (Some (workflowDispatcher tn traceID))) (rt_Now (workflowDispatcher tn traceID)) (im_Protocol match)
         (Some (NewExecutionContext traceID roomID sender (Some match))) (tu_agent st))"

subsection \<open>Messages and events\<close>

record MatrixEvent =
  mx_Body :: "string option"
  mx_Timestamp :: gotime
  mx_RoomID :: string
  mx_Sender :: string
  mx_ID :: string

definition send_reply :: "'w Turn \<Rightarrow> string \<Rightarrow> string \<Rightarrow> string \<Rightarrow> 'w TurnState \<Rightarrow> 'w TurnState" where
  "send_reply tn roomID eventID text st = (case tn_reply tn of
       None \<Rightarrow> st
     | Some f \<Rightarrow> st\<lparr>tu_agent := (log_agent (Replied roomID eventID text) (tu_agent st))
         \<lparr>ag_world := snd (f roomID eventID text (ag_world (tu_agent st)))\<rparr>\<rparr>)"

definition send_text :: "'w Turn \<Rightarrow> string \<Rightarrow> string \<Rightarrow> 'w TurnState \<Rightarrow> 'w TurnState" where
  "send_text tn roomID text st = (case ho_send (tn_host tn) of
       None \<Rightarrow> st
     | Some f \<Rightarrow> st\<lparr>tu_agent := (log_agent (SentText roomID text) (tu_agent st))
         \<lparr>ag_world := snd (f roomID text (ag_world (tu_agent st)))\<rparr>\<rparr>)"

definition cross_mark :: string where "cross_mark = [CHR 0xE2, CHR 0x9D, CHR 0x8C] @ '' ''"
definition event_mark :: string where "event_mark = [CHR 0xE2, CHR 0x9A, CHR 0xA1] @ '' Event: ''"

text \<open>What a message is admitted as: ignored, or a turn with its text and the workflow it matched.\<close>

definition admit :: "'w Turn \<Rightarrow> MatrixEvent \<Rightarrow> (string \<times> InboundProtocolMatch option) option" where
  "admit tn evt = (case mx_Body evt of
       None \<Rightarrow> None
     | Some body \<Rightarrow>
         (let cfg = ho_config (tn_host tn) in
          if mx_Timestamp evt < tn_startedAt tn then None
          else if \<not> IsRoomAllowed cfg (mx_RoomID evt) then None
          else if \<not> IsSenderAllowed cfg (mx_Sender evt) then None
          else if cfg = None then None
          else
            (case (case parseDirectedAgentMessage body of
                     Some (target, directedBody) \<Rightarrow>
                       if isDirectedAtSelf target (agentIdentity cfg (ho_AgentID (tn_host tn))) then Some (True, directedBody) else None
                   | None \<Rightarrow> Some (False, body)) of
               None \<Rightarrow> None
             | Some (directedToSelf, text) \<Rightarrow>
                 (case MatchInboundProtocol (tn_unmarshal tn) cfg (mx_RoomID evt) (mx_Sender evt) text of
                    Inl e \<Rightarrow> None
                  | Inr match \<Rightarrow> if match = None \<and> \<not> directedToSelf then None else Some (text, match)))))"

text \<open>\<open>ins\<close> and \<open>upd\<close> are the failures of the two statements on the log of turns; \<open>traceID\<close> is the drawn trace.\<close>

definition finish_turn ::
    "'w Turn \<Rightarrow> fault \<Rightarrow> MatrixEvent \<Rightarrow> int \<Rightarrow> (string + string) \<times> int \<times> 'w TurnState \<Rightarrow> 'w TurnState"
where
  "finish_turn tn upd evt turnID = (\<lambda>(r, calls, st). case r of
       Inl e \<Rightarrow>
         (let st1 = (if shouldSendTurnErrorReply (ho_config (tn_host tn)) (mx_Sender evt) e
                     then send_reply tn (mx_RoomID evt) (mx_ID evt) (cross_mark @ e) st else st)
          in if turnID > 0 then FinishTurn upd turnID calls ''error'' e st1 else st1)
     | Inr result \<Rightarrow>
         (let st1 = (if result \<noteq> [] then send_reply tn (mx_RoomID evt) (mx_ID evt) result st else st)
          in if turnID > 0 then FinishTurn upd turnID calls ''success'' [] st1 else st1))"

definition handleMessage :: "'w Turn \<Rightarrow> fault \<Rightarrow> fault \<Rightarrow> string \<Rightarrow> MatrixEvent \<Rightarrow> 'w TurnState \<Rightarrow> 'w TurnState option" where
  "handleMessage tn ins upd traceID evt st = (case admit tn evt of
       None \<Rightarrow> Some st
     | Some (text, match) \<Rightarrow>
         (let (turnID, st1) = LogTurn ins traceID (mx_RoomID evt) (mx_Sender evt) text st in
          map_option (finish_turn tn upd evt turnID)
            (case match of
               Some m \<Rightarrow>
                 if wp_Steps (im_Protocol m) \<noteq> [] then runWorkflowTurn tn traceID (mx_RoomID evt) (mx_Sender evt) m st1
                 else Some (runTurn tn traceID (mx_RoomID evt) (mx_Sender evt) text st1)
             | None \<Rightarrow> Some (runTurn tn traceID (mx_RoomID evt) (mx_Sender evt) text st1))))"

definition finish_event :: "'w Turn \<Rightarrow> fault \<Rightarrow> string \<Rightarrow> Event \<Rightarrow> int \<Rightarrow> int \<Rightarrow> (string + string) \<times> int \<times> 'w TurnState \<Rightarrow> 'w TurnState" where
  "finish_event tn upd adminRoom evt turnID durationMS = (\<lambda>(r, calls, st).
     (let header = event_mark @ ev_Source evt @ ''/'' @ ev_Type evt in
      case r of
        Inl e \<Rightarrow>
          (let st1 = send_text tn adminRoom (header @ nl @ cross_mark @ e) st
           in if turnID > 0 then FinishTurnWithDuration upd turnID calls durationMS ''error'' e st1 else st1)
      | Inr result \<Rightarrow>
          (let st1 = (if result \<noteq> [] then send_text tn adminRoom (header @ nl @ result) st else st)
           in if turnID > 0 then FinishTurnWithDuration upd turnID calls durationMS ''success'' [] st1 else st1)))"

text \<open>The duration is an argument: it is only written to the log of turns.\<close>

definition runEventTurn :: "'w Turn \<Rightarrow> fault \<Rightarrow> fault \<Rightarrow> string \<Rightarrow> int \<Rightarrow> Event \<Rightarrow> 'w TurnState \<Rightarrow> 'w TurnState option" where
  "runEventTurn tn ins upd traceID durationMS evt st = (case ho_config (tn_host tn) of
       None \<Rightarrow> Some st
     | Some cfg \<Rightarrow>
         (let adminRoom = tr_AdminRoom (cf_Trust cfg) in
          if adminRoom = [] then Some st
          else
            (let userText = buildEventMessage (ho_marshal (tn_host tn)) evt;
                 senderLabel = ''gateway:'' @ ev_Source evt;
                 (turnID, st1) = LogGatewayTurn ins traceID adminRoom senderLabel userText (ev_Source evt) (ev_Type evt) st
             in map_option (finish_event tn upd adminRoom evt turnID durationMS)
                  (case MatchGatewayProtocol (Some cfg) (Some evt) of
                     Inl e \<Rightarrow> Some (Inl (error_text e), 0, st1)
                   | Inr (Some m) \<Rightarrow>
                       if wp_Steps (im_Protocol m) \<noteq> [] then runWorkflowTurn tn traceID adminRoom senderLabel m st1
                       else Some (runTurn tn traceID adminRoom senderLabel userText st1)
                   | Inr None \<Rightarrow> Some (runTurn tn traceID adminRoom senderLabel userText st1)))))"

subsection \<open>Provider names\<close>

definition candidate_name :: "string \<Rightarrow> nat \<Rightarrow> string" where
  "candidate_name normalized i = (if i = 0 then normalized else normalized @ ''_'' @ itoa (int (Suc i)))"

lemma itoa_int_inject [simp]: "itoa (int m) = itoa (int n) \<longleftrightarrow> m = n"
proof
  assume "itoa (int m) = itoa (int n)"
  then have "parse_digits 0 (itoa_nat m) = parse_digits 0 (itoa_nat n)" by (simp add: itoa_def)
  then show "m = n" by (simp add: parse_digits_itoa_0)
qed simp

lemma candidate_name_inject [simp]: "candidate_name b i = candidate_name b j \<longleftrightarrow> i = j"
  by (auto simp: candidate_name_def simp del: of_nat_Suc)

lemma free_name_None:
  "free_name n b k c used = None \<Longrightarrow> k = j + 2 \<Longrightarrow> c = candidate_name b j \<Longrightarrow> i < n \<Longrightarrow> candidate_name b (j + i) \<in> set used"
proof (induction n arbitrary: j i k c)
  case (Suc n)
  from Suc.prems(1-3) have j: "candidate_name b j \<in> set used"
    and r: "free_name n b (Suc k) (b @ ''_'' @ itoa (int k)) used = None" by (auto split: if_splits)
  show ?case
  proof (cases i)
    case (Suc i')
    have "b @ ''_'' @ itoa (int k) = candidate_name b (Suc j)" using Suc.prems(2) by (simp add: candidate_name_def)
    from Suc.IH [OF r _ this, of i'] show ?thesis using Suc Suc.prems by simp
  qed (use j in simp)
qed simp

lemma free_name_Some:
  "free_name n b k c used = Some x \<Longrightarrow> k = j + 2 \<Longrightarrow> c = candidate_name b j \<Longrightarrow> x \<notin> set used \<and> (\<exists>i. x = candidate_name b i)"
proof (induction n arbitrary: j k c)
  case (Suc n)
  have next_name: "b @ ''_'' @ itoa (int k) = candidate_name b (Suc j)" using Suc.prems(2) by (simp add: candidate_name_def)
  show ?case
  proof (cases "c \<in> set used")
    case True
    then show ?thesis using Suc.prems by (intro Suc.IH [OF _ _ next_name]) auto
  qed (use Suc.prems in auto)
qed simp

text \<open>The fuel is enough: among one more candidate than there are used names, one is free.\<close>

lemma candidate_name_0: "b = candidate_name b 0"
  by (simp add: candidate_name_def)

lemma free_name_enough: "free_name (Suc (length used)) b 2 b used \<noteq> None"
proof
  assume n: "free_name (Suc (length used)) b 2 b used = None"
  have "candidate_name b i \<in> set used" if "i < Suc (length used)" for i
    using free_name_None [OF n _ candidate_name_0 that] by simp
  then have "candidate_name b ` {..<Suc (length used)} \<subseteq> set used" by auto
  from card_mono [OF _ this] have "Suc (length used) \<le> card (set used)"
    by (simp add: card_image inj_on_def)
  then show False using card_length [of used] by simp
qed

lemma provider_name_spec:
  "provider_name canonical used \<notin> set used \<and> (\<exists>i. provider_name canonical used = candidate_name (normalized_name canonical) i)"
proof -
  obtain c where c: "free_name (Suc (length used)) (normalized_name canonical) 2 (normalized_name canonical) used = Some c"
    using free_name_enough by blast
  have "c \<notin> set used \<and> (\<exists>i. c = candidate_name (normalized_name canonical) i)"
    by (rule free_name_Some [OF c _ candidate_name_0]) simp
  then show ?thesis unfolding provider_name_def c option.case .
qed

lemmas provider_name_fresh = provider_name_spec [THEN conjunct1]
lemmas provider_name_candidate = provider_name_spec [THEN conjunct2]

lemma digit_name_char: "digit_val c \<noteq> None \<Longrightarrow> name_char_ok c"
  by (auto simp: digit_val_def name_char_ok_def Let_def split: if_splits)

lemma provider_name_chars: "list_all name_char_ok (provider_name canonical used)"
proof -
  have "list_all name_char_ok (normalized_name canonical)"
    by (auto simp: normalized_name_def replace_chars_def list_all_iff name_char_ok_def Let_def split: if_splits)
  moreover have "list_all name_char_ok (itoa (int n))" for n
    using itoa_nat_digits digit_name_char by (auto simp: list_all_iff itoa_def)
  moreover have "name_char_ok (CHR ''_'')" by (simp add: name_char_ok_def)
  ultimately show ?thesis using provider_name_candidate [of canonical used]
    by (auto simp: candidate_name_def simp del: of_nat_Suc)
qed

definition renamed :: "(string \<times> string) list \<Rightarrow> ToolDefinition \<Rightarrow> ToolDefinition \<Rightarrow> bool" where
  "renamed m d d' \<longleftrightarrow> d' = d\<lparr>td_Name := td_Name d'\<rparr> \<and> map_of m (td_Name d') = Some (td_Name d)"

lemma normalize_defs_spec:
  assumes "normalize_defs defs used = (ds, m)"
  shows "distinct (map td_Name ds)" "set (map td_Name ds) \<inter> set used = {}" "map fst m = map td_Name ds"
    "list_all (\<lambda>d. list_all name_char_ok (td_Name d)) ds" "list_all2 (renamed m) defs ds"
proof -
  have "distinct (map td_Name ds) \<and> set (map td_Name ds) \<inter> set used = {} \<and> map fst m = map td_Name ds \<and>
      list_all (\<lambda>d. list_all name_char_ok (td_Name d)) ds \<and> list_all2 (renamed m) defs ds"
    using assms
  proof (induction defs arbitrary: used ds m)
    case (Cons d defs)
    define c where "c = provider_name (td_Name d) used"
    obtain ds' m' where r: "normalize_defs defs (c # used) = (ds', m')" by (cases "normalize_defs defs (c # used)")
    with Cons.prems have e: "ds = d\<lparr>td_Name := c\<rparr> # ds'" "m = (c, td_Name d) # m'" by (auto simp: c_def Let_def)
    note IH = Cons.IH [OF r]
    have "c \<notin> td_Name ` set ds'" using IH by auto
    then have "list_all2 (renamed m) defs ds'"
      using IH by (auto simp: list_all2_conv_all_nth renamed_def e)
    moreover have "c \<notin> set used" "list_all name_char_ok c" by (simp_all add: c_def provider_name_fresh provider_name_chars)
    moreover have "renamed m d (d\<lparr>td_Name := c\<rparr>)" by (simp add: e renamed_def)
    ultimately show ?case using IH by (auto simp: e)
  qed simp
  then show "distinct (map td_Name ds)" "set (map td_Name ds) \<inter> set used = {}" "map fst m = map td_Name ds"
    "list_all (\<lambda>d. list_all name_char_ok (td_Name d)) ds" "list_all2 (renamed m) defs ds" by blast+
qed

text \<open>the names under which tools are offered to an OpenAI model are distinct and use only the characters it accepts, whatever the tools are
  called, and the name that the model calls is mapped back to the very tool it was offered for.\<close>

theorem provider_names_map_back:
  assumes "normalizeToolDefinitionsForProvider ''openai'' defs = (ds, m)"
  shows "distinct (map td_Name ds) \<and> list_all (\<lambda>d. list_all name_char_ok (td_Name d)) ds \<and>
    list_all2 (\<lambda>d d'. d' = d\<lparr>td_Name := td_Name d'\<rparr> \<and> map_of m (td_Name d') = Some (td_Name d)) defs ds"
proof -
  have "to_lower (trim_space ''openai'') = ''openai''" by code_simp
  then have "normalize_defs defs [] = (ds, m)" using assms by (simp add: normalizeToolDefinitionsForProvider_def)
  from normalize_defs_spec(1,4,5) [OF this] show ?thesis by (simp add: renamed_def [abs_def])
qed

theorem provider_names_map_back_witness:
  "\<exists>ds m. normalizeToolDefinitionsForProvider ''openai'' [\<lparr>td_Name = ''a.b'', td_Description = [], td_Parameters = GNil\<rparr>,
      \<lparr>td_Name = ''a_b'', td_Description = [], td_Parameters = GNil\<rparr>] = (ds, m) \<and> distinct (map td_Name ds) \<and> length ds = 2"
proof -
  let ?defs = "[\<lparr>td_Name = ''a.b'', td_Description = [], td_Parameters = GNil\<rparr>, \<lparr>td_Name = ''a_b'', td_Description = [], td_Parameters = GNil\<rparr>]"
  obtain ds m where d: "normalizeToolDefinitionsForProvider ''openai'' ?defs = (ds, m)"
    by (cases "normalizeToolDefinitionsForProvider ''openai'' ?defs")
  from provider_names_map_back [OF d] have "distinct (map td_Name ds)" "length ds = 2" by (auto dest: list_all2_lengthD)
  with d show ?thesis by blast
qed

end
