(* ===== verification/Gitai_Turn_Safety.thy ===== *)
theory Gitai_Turn_Safety
  imports Gitai_Turn
begin

section \<open>What a turn can do\<close>

text \<open>
  Properties of whole turns (theory \<open>Gitai_Turn\<close>), whatever the model answers and however a workflow branches.  A relation between the
  agent before and after that every dispatch, every model call and every message respects is respected by a whole turn (locale
  \<open>turn_relation\<close>); it is used twice: every tool call of a turn obeys the policy, and the number of model calls stays within the
  hard limit.  The last part says which messages start a turn at all.
\<close>

subsection \<open>What a workflow run does to the world\<close>

text \<open>A relation on the worlds of a runtime that every call respects is respected by a whole run.\<close>

locale world_relation =
  fixes rt :: "'w Runtime"
    and W :: "'w \<Rightarrow> 'w \<Rightarrow> bool"
  assumes W_refl: "W w w"
    and W_trans: "W w w' \<Longrightarrow> W w' w'' \<Longrightarrow> W w w''"
    and W_dispatch: "W w (snd (rt_DispatchTool rt caller sender name args w))"
    and W_summarize: "W w (snd (rt_Summarize rt prompt st w))"
    and W_now: "W w (snd (rt_Now rt w))"

sublocale world_relation \<subseteq> steps: step_relation rt "\<lambda>n st w st' w'. W w w'"
  by unfold_locales (erule (1) W_trans | rule W_refl W_dispatch W_summarize)+

context world_relation
begin

lemma attempt_W: "attempt rt pid s a = Some (r, a') \<Longrightarrow> W (at_World a) (at_World a')"
  by (auto simp: attempt_def Let_def split: option.splits sum.splits) (rule steps.runStep_R, assumption)+

lemma attempts_W:
  assumes "RunStepWithRetryThenRefuse pid ty n (Some (attempt rt pid s)) a = Some (r, a')"
  shows "W (at_World a) (at_World a')"
  using assms by (rule retry_rel [where Q = "\<lambda>a a'. W (at_World a) (at_World a')"]) (auto intro: attempt_W W_refl W_trans)

lemma runSteps_W: "runSteps rt protocol i steps calls st w = Some (r, n, st', w') \<Longrightarrow> W w w'"
proof (induction steps arbitrary: i calls st w)
  case Nil
  then show ?case using W_now [of w] by (auto split: prod.splits)
next
  case (Cons s steps)
  obtain t w1 where n1: "rt_Now rt w = (t, w1)" by (cases "rt_Now rt w")
  from Cons.prems n1 obtain err a where a: "RunStepWithRetryThenRefuse (wp_ID protocol) (sf_Type (step_fields s)) (step_retries protocol s)
      (Some (attempt rt (wp_ID protocol) s))
      \<lparr>at_State = st, at_World = w1, at_StepResult = GNil, at_StepToolCalls = 0, at_ToolCalls = calls\<rparr> = Some (err, a)"
    by (auto simp: Let_def split: option.splits)
  obtain t2 w2 where n2: "rt_Now rt (at_World a) = (t2, w2)" by (cases "rt_Now rt (at_World a)")
  have w1: "W w w1" using W_now [of w] n1 by simp
  have wa: "W w1 (at_World a)" using attempts_W [OF a] by simp
  have "W (at_World a) w2" using W_now [of "at_World a"] n2 by simp
  from W_trans [OF W_trans [OF w1 wa] this] have w2: "W w w2" .
  show ?case
  proof (cases err)
    case None
    with Cons.prems n1 n2 a have "W w2 w'" by (intro Cons.IH) (auto simp: Let_def)
    with w2 show ?thesis by (rule W_trans)
  next
    case (Some e)
    with Cons.prems n1 n2 a w2 show ?thesis by (auto simp: Let_def)
  qed
qed

lemma Run_W: "Run (Some rt) protocol st w = Some (r, n, st', w') \<Longrightarrow> W w w'"
  by (cases "rt_Now rt w")
    (auto simp: Run_def Let_def split: if_splits dest!: runSteps_W intro: W_trans [OF W_now [of w]])

lemma ExecuteProtocol_W:
  assumes "ExecuteProtocol (Some (Some rt)) (rt_Now rt) protocol ctx w = Some (r, n, st', w')"
  shows "W w w'"
  using assms by (cases "rt_Now rt w")
    (auto simp: ExecuteProtocol_def split: if_splits dest!: Run_W intro: W_trans [OF W_now [of w]])

end

subsection \<open>Relations that a turn respects\<close>

locale turn_relation =
  fixes tn :: "'w Turn" and traceID :: string
    and R :: "'w Agent \<Rightarrow> 'w Agent \<Rightarrow> bool"
  assumes R_quiet: "ag_log ag' = ag_log ag \<Longrightarrow> ag_llmCalls ag' = ag_llmCalls ag \<Longrightarrow> R ag ag'"
    and R_trans: "R ag ag' \<Longrightarrow> R ag' ag'' \<Longrightarrow> R ag ag''"
    and R_dispatch: "R ag (snd (DispatchToolCall (tn_host tn) traceID req ag))"
    and R_stopped: "enforceLLMCallHardLimit tn ag = (Some err, ag') \<Longrightarrow> R ag ag'"
    and R_complete: "enforceLLMCallHardLimit tn ag = (None, ag') \<Longrightarrow> R ag (snd (complete tn creq ag'))"
    and R_message: "ag_log ag' = ag_log ag @ [e] \<Longrightarrow> ag_llmCalls ag' = ag_llmCalls ag \<Longrightarrow>
      (\<exists>room evt t. e = Replied room evt t) \<or> (\<exists>room t. e = SentText room t) \<Longrightarrow> R ag ag'"

text \<open>A conversation turn is the rounds with the model between two records in the memory.\<close>

lemma runTurn_rounds:
  assumes "runTurn tn traceID room sender t st = (r, n, st')"
  shows "st' = st \<or> (\<exists>tools names k msgs r' c ag. turn_rounds tn traceID sender tools names k maxToolCallRounds msgs 0
      (tu_agent (record_message tn room sender ''user'' t st)) = (r', c, ag) \<and>
      (tu_agent st' = ag \<or> (\<exists>st2 content. tu_agent st2 = ag \<and> st' = record_message tn room sender ''assistant'' content st2)))"
proof (cases "ho_config (tn_host tn) = None \<or> tn_complete tn = None")
  case True
  then show ?thesis using assms by (auto simp: runTurn_def split: option.splits)
next
  case False
  then obtain cfg where cfg: "ho_config (tn_host tn) = Some cfg" "tn_complete tn \<noteq> None" by (auto simp: not_None_eq)
  define st1 where "st1 = record_message tn room sender ''user'' t st"
  define provider where "provider = (if to_lower (trim_space (pe_LLMProvider (cf_Persona cfg))) = [] then to_lower (trim_space (tn_LLMProvider tn))
    else to_lower (trim_space (pe_LLMProvider (cf_Persona cfg))))"
  define k where "k = (if li_MaxTokensPerRequest (cf_Limits cfg) > 0 then li_MaxTokensPerRequest (cf_Limits cfg) else 0)"
  define msgs where "msgs = [plain_message ''system'' (buildSystemPrompt (Some cfg) (buildMessagingTargets (Some cfg)) (case tn_assembler tn of None \<Rightarrow> []
    | Some a \<Rightarrow> formatMemoryContext (Assemble (a (tu_stm st1)) room sender t))), plain_message ''user'' t]"
  obtain tools names where d: "normalizeToolDefinitionsForProvider provider (gatherTools tn (ag_world (tu_agent st1))) = (tools, names)"
    by (cases "normalizeToolDefinitionsForProvider provider (gatherTools tn (ag_world (tu_agent st1)))")
  obtain r' c ag where rounds: "turn_rounds tn traceID sender tools names k maxToolCallRounds msgs 0 (tu_agent st1) = (r', c, ag)"
    by (cases "turn_rounds tn traceID sender tools names k maxToolCallRounds msgs 0 (tu_agent st1)")
  have "runTurn tn traceID room sender t st = (case r' of
      Inl e \<Rightarrow> (Inl e, c, st1\<lparr>tu_agent := ag\<rparr>)
    | Inr content \<Rightarrow> (Inr content, c, if content \<noteq> [] then record_message tn room sender ''assistant'' content (st1\<lparr>tu_agent := ag\<rparr>)
        else st1\<lparr>tu_agent := ag\<rparr>))"
    unfolding runTurn_def using cfg(2) by (simp only: cfg(1) option.case Let_def st1_def [symmetric] provider_def [symmetric] d k_def [symmetric]
        msgs_def [symmetric] prod.case rounds if_False)
  then have "tu_agent st' = ag \<or> (\<exists>st2 content. tu_agent st2 = ag \<and> st' = record_message tn room sender ''assistant'' content st2)"
    using assms by (cases r') (force split: if_splits)+
  with rounds show ?thesis unfolding st1_def by blast
qed

lemma record_message_quiet:
  "ag_log (tu_agent (record_message tn room sender role content st)) = ag_log (tu_agent st)"
  "ag_llmCalls (tu_agent (record_message tn room sender role content st)) = ag_llmCalls (tu_agent st)"
  by (auto simp: record_message_def split: option.splits prod.splits)

lemma turn_log_agent [simp]:
  "tu_agent (snd (insert_turn exec tr room sender msg trig st)) = tu_agent st"
  "tu_agent (update_turn exec i f st) = tu_agent st"
  by (auto simp: insert_turn_def update_turn_def split: option.splits)

context turn_relation
begin

lemma executeToolCall_R: "R ag (snd (executeToolCall tn traceID sender tc ag))"
  by (auto simp: executeToolCall_def R_dispatch R_quiet split: sum.splits)

lemma process_calls_R: "process_calls tn traceID sender names tcs messages ag = (msgs, ag') \<Longrightarrow> R ag ag'"
proof (induction tcs arbitrary: messages ag)
  case (Cons tc tcs)
  obtain r ag1 where e: "executeToolCall tn traceID sender (canonical_call names tc) ag = (r, ag1)"
    by (cases "executeToolCall tn traceID sender (canonical_call names tc) ag")
  have "R ag ag1" using executeToolCall_R e by (metis snd_conv)
  moreover from Cons.prems e have "R ag1 ag'" by (intro Cons.IH) (auto simp: Let_def)
  ultimately show ?case by (rule R_trans)
qed (simp add: R_quiet)

lemma turn_rounds_R: "turn_rounds tn traceID sender tools names maxTokens n messages calls ag = (r, k, ag') \<Longrightarrow> R ag ag'"
proof (induction n arbitrary: messages calls ag)
  case (Suc n)
  obtain e ag1 where en: "enforceLLMCallHardLimit tn ag = (e, ag1)" by (cases "enforceLLMCallHardLimit tn ag")
  let ?req = "\<lparr>cq_Messages = messages, cq_Tools = tools, cq_MaxTokens = maxTokens\<rparr>"
  obtain c ag2 where co: "complete tn ?req ag1 = (c, ag2)" by (cases "complete tn ?req ag1")
  have o1: "R ag ag1" if "e \<noteq> None" using R_stopped en that by blast
  have o2: "R ag ag2" if "e = None" using R_complete [of ag ag1 ?req] en co that by simp
  show ?case
  proof (cases "e = None \<and> (\<exists>resp. c = Inr resp \<and> \<not> (cp_FinishReason resp \<noteq> ''tool_calls'' \<or> lm_ToolCalls (cp_Message resp) = []))")
    case True
    then obtain resp where resp: "e = None" "c = Inr resp" "cp_FinishReason resp = ''tool_calls''" "lm_ToolCalls (cp_Message resp) \<noteq> []" by blast
    obtain msgs ag3 where pc: "process_calls tn traceID sender names (lm_ToolCalls (cp_Message resp)) (messages @ [cp_Message resp]) ag2 = (msgs, ag3)"
      by (cases "process_calls tn traceID sender names (lm_ToolCalls (cp_Message resp)) (messages @ [cp_Message resp]) ag2")
    from Suc.prems en co resp pc have "R ag3 ag'" by (intro Suc.IH) (auto simp: Let_def)
    with R_trans [OF o2 [OF resp(1)] process_calls_R [OF pc]] show ?thesis by (rule R_trans)
  next
    case False
    then show ?thesis using Suc.prems en co o1 o2 by (auto simp: Let_def split: option.splits sum.splits if_splits)
  qed
qed (simp add: R_quiet)

lemma runTurn_R:
  assumes "runTurn tn traceID room sender t st = (r, n, st')"
  shows "R (tu_agent st) (tu_agent st')"
proof -
  have rec: "R (tu_agent s) (tu_agent (record_message tn room sender role content s))" for role content s
    by (rule R_quiet) (simp_all add: record_message_quiet)
  from runTurn_rounds [OF assms] show ?thesis
    by (elim disjE exE conjE) (auto simp: R_quiet dest!: turn_rounds_R intro: R_trans [OF rec] R_trans [OF R_trans [OF rec] rec])
qed

lemma Summarize_R: "R ag (snd (Summarize tn prompt ag))"
proof (cases "ho_config (tn_host tn) = None \<or> tn_complete tn = None")
  case True
  then show ?thesis by (auto simp: Summarize_def R_quiet split: option.splits)
next
  case False
  then obtain cfg where cfg: "ho_config (tn_host tn) = Some cfg" "tn_complete tn \<noteq> None" by (auto simp: not_None_eq)
  obtain e ag1 where en: "enforceLLMCallHardLimit tn ag = (e, ag1)" by (cases "enforceLLMCallHardLimit tn ag")
  show ?thesis
  proof (cases e)
    case None
    have "R ag (snd (complete tn req ag1))" for req using R_complete en None by blast
    with cfg en None show ?thesis by (auto simp: Summarize_def split: prod.splits sum.splits) (metis snd_conv)+
  qed (use cfg en R_stopped in \<open>auto simp: Summarize_def\<close>)
qed

end

sublocale turn_relation \<subseteq> workflow: world_relation "workflowDispatcher tn traceID" R
  by unfold_locales (auto simp: workflowDispatcher_def R_quiet R_dispatch Summarize_R split: prod.splits intro: R_trans)

context turn_relation
begin

lemma runWorkflowTurn_R: "runWorkflowTurn tn traceID room sender m st = Some (r, n, st') \<Longrightarrow> R (tu_agent st) (tu_agent st')"
  by (auto simp: runWorkflowTurn_def dest!: workflow.ExecuteProtocol_W)

lemma reply_R:
  "R (tu_agent st) (tu_agent (send_reply tn room evt t st))"
  "R (tu_agent st) (tu_agent (send_text tn room t st))"
  by (auto simp: send_reply_def send_text_def log_agent_def R_quiet intro: R_message split: option.splits)

lemma finish_R:
  "R (tu_agent st) (tu_agent (finish_turn tn upd evt i (r, n, st)))"
  "R (tu_agent st) (tu_agent (finish_event tn upd room gevt i ms (r, n, st)))"
  by (auto simp: finish_turn_def FinishTurn_def finish_event_def FinishTurnWithDuration_def Let_def reply_R R_quiet split: sum.splits)

lemma handleMessage_R:
  assumes "handleMessage tn ins upd traceID evt st = Some st'"
  shows "R (tu_agent st) (tu_agent st')"
proof (cases "admit tn evt")
  case None
  then show ?thesis using assms by (simp add: handleMessage_def R_quiet)
next
  case (Some am)
  obtain body match where am: "am = (body, match)" by (cases am)
  obtain i st1 where l: "LogTurn ins traceID (mx_RoomID evt) (mx_Sender evt) body st = (i, st1)"
    by (cases "LogTurn ins traceID (mx_RoomID evt) (mx_Sender evt) body st")
  have st1: "tu_agent st1 = tu_agent st" using l turn_log_agent(1) unfolding LogTurn_def by (metis snd_conv)
  from assms Some am l obtain r n st2 where
    x: "st' = finish_turn tn upd evt i (r, n, st2)" and
    y: "runTurn tn traceID (mx_RoomID evt) (mx_Sender evt) body st1 = (r, n, st2) \<or>
      (\<exists>m. runWorkflowTurn tn traceID (mx_RoomID evt) (mx_Sender evt) m st1 = Some (r, n, st2))"
    by (auto simp: handleMessage_def split: option.splits if_splits)
  from y have "R (tu_agent st1) (tu_agent st2)" using runTurn_R runWorkflowTurn_R by blast
  with x st1 show ?thesis using R_trans finish_R(1) by metis
qed

lemma runEventTurn_R:
  assumes "runEventTurn tn ins upd traceID ms evt st = Some st'"
  shows "R (tu_agent st) (tu_agent st')"
proof (cases "ho_config (tn_host tn) = None \<or> (\<exists>c. ho_config (tn_host tn) = Some c \<and> tr_AdminRoom (cf_Trust c) = [])")
  case True
  then show ?thesis using assms by (auto simp: runEventTurn_def R_quiet split: option.splits if_splits)
next
  case False
  then obtain c where c: "ho_config (tn_host tn) = Some c" "tr_AdminRoom (cf_Trust c) \<noteq> []" by (auto simp: not_None_eq)
  let ?room = "tr_AdminRoom (cf_Trust c)" and ?label = "''gateway:'' @ ev_Source evt"
    and ?text = "buildEventMessage (ho_marshal (tn_host tn)) evt"
  obtain i st1 where l: "LogGatewayTurn ins traceID ?room ?label ?text (ev_Source evt) (ev_Type evt) st = (i, st1)"
    by (cases "LogGatewayTurn ins traceID ?room ?label ?text (ev_Source evt) (ev_Type evt) st")
  have st1: "tu_agent st1 = tu_agent st" using l turn_log_agent(1) unfolding LogGatewayTurn_def by (metis snd_conv)
  from assms c l obtain r n st2 where
    x: "st' = finish_event tn upd ?room evt i ms (r, n, st2)" and
    y: "st2 = st1 \<or> runTurn tn traceID ?room ?label ?text st1 = (r, n, st2) \<or>
      (\<exists>m. runWorkflowTurn tn traceID ?room ?label m st1 = Some (r, n, st2))"
    by (auto simp: runEventTurn_def Let_def split: option.splits if_splits sum.splits)
  from y have "R (tu_agent st1) (tu_agent st2)" using runTurn_R runWorkflowTurn_R R_quiet by blast
  with x st1 show ?thesis using R_trans finish_R(2) by metis
qed

end

subsection \<open>Every tool call of a turn obeys the policy\<close>

text \<open>What a turn may add to the log: no tool against the policy, and a tool that needs approval only with a recorded one.\<close>

definition turn_effect_ok :: "'w Host \<Rightarrow> string \<Rightarrow> agent_effect \<Rightarrow> bool" where
  "turn_effect_ok host traceID e \<longleftrightarrow> decision host e \<noteq> Some DecisionDeny \<and>
     (decision host e = Some DecisionRequireApproval \<longrightarrow> (\<exists>w. approval_recorded host traceID w))"

definition obeys :: "'w Host \<Rightarrow> string \<Rightarrow> 'w Agent \<Rightarrow> 'w Agent \<Rightarrow> bool" where
  "obeys host traceID ag ag' \<longleftrightarrow> (\<exists>new. ag_log ag' = ag_log ag @ new \<and> (\<forall>e \<in> set new. turn_effect_ok host traceID e))"

lemma obeys_refl: "ag_log ag' = ag_log ag \<Longrightarrow> obeys host traceID ag ag'"
  by (simp add: obeys_def)

lemma obeys_trans: "obeys host traceID ag ag' \<Longrightarrow> obeys host traceID ag' ag'' \<Longrightarrow> obeys host traceID ag ag''"
  unfolding obeys_def by (metis Un_iff append.assoc set_append)

lemma dispatch_obeys: "obeys host traceID ag (snd (DispatchToolCall host traceID req ag))"
proof -
  obtain new where "ag_log (snd (DispatchToolCall host traceID req ag)) = ag_log ag @ new"
    "\<forall>e \<in> set new. granted host traceID (ag_world ag) e" using dispatch_log by blast
  then show ?thesis unfolding obeys_def turn_effect_ok_def granted_def by blast
qed

lemma neutral_obeys: "ag_log ag' = ag_log ag @ [e] \<Longrightarrow> decision host e = None \<Longrightarrow> obeys host traceID ag ag'"
  by (simp add: obeys_def turn_effect_ok_def)

interpretation policy_turn: turn_relation tn traceID "obeys (tn_host tn) traceID" for tn traceID
  by unfold_locales (auto simp: obeys_refl dispatch_obeys enforceLLMCallHardLimit_def complete_def log_agent_def Let_def decision_def
      intro: obeys_trans neutral_obeys split: if_splits option.splits prod.splits)

text \<open>C3: whatever a message or an event makes the agent do, whether the model asks for it over several rounds or a workflow does: no tool runs
  that the policy denies, and one that needs approval runs only if the approval of this turn was recorded.\<close>

theorem turn_respects_policy:
  assumes "handleMessage tn ins upd traceID evt st = Some st' \<or> runEventTurn tn ins upd traceID ms gevt st = Some st'"
  shows "\<exists>new. ag_log (tu_agent st') = ag_log (tu_agent st) @ new \<and>
    (\<forall>e \<in> set new. decision (tn_host tn) e \<noteq> Some DecisionDeny \<and>
       (decision (tn_host tn) e = Some DecisionRequireApproval \<longrightarrow> (\<exists>w. approval_recorded (tn_host tn) traceID w)))"
  using assms policy_turn.handleMessage_R [of tn ins upd traceID evt st st'] policy_turn.runEventTurn_R [of tn ins upd traceID ms gevt st st']
  by (auto simp: obeys_def turn_effect_ok_def)

text \<open>A model that asks for one tool and then answers.\<close>

definition asking_model :: "CompletionRequest \<Rightarrow> unit \<Rightarrow> (string + CompletionResponse) \<times> unit" where
  "asking_model req w = (Inr (if length (cq_Messages req) = 2
     then \<lparr>cp_Message = (plain_message ''assistant'' [])\<lparr>lm_ToolCalls := [\<lparr>lc_ID = ''1'', lc_Name = ''fin__quote'', lc_Arguments = []\<rparr>]\<rparr>,
       cp_FinishReason = ''tool_calls''\<rparr>
     else \<lparr>cp_Message = plain_message ''assistant'' ''done'', cp_FinishReason = ''stop''\<rparr>), w)"

definition sample_turn :: "int \<Rightarrow> unit Turn" where
  "sample_turn limit = \<lparr>tn_host = (sample_host True Inr)\<lparr>ho_LLMCallHardLimit := limit, ho_config := map_option (\<lambda>c. c\<lparr>cf_Trust :=
         (cf_Trust c)\<lparr>tr_AllowedRooms := [''!r:h''], tr_AllowedSenders := [''@u:h''], tr_AdminRoom := ''!adm''\<rparr>\<rparr>) (ho_config (sample_host True Inr))\<rparr>,
     tn_names = (\<lambda>w. [''fin'']), tn_list = (\<lambda>n w. Some (Inr [\<lparr>td_Name = ''quote'', td_Description = [], td_Parameters = GNil\<rparr>])),
     tn_definitions = [], tn_complete = Some asking_model, tn_LLMProvider = ''openai'', tn_now = (\<lambda>w. (0, w)),
     tn_unmarshal = (\<lambda>s. Inl ''syntax''), tn_reply = Some (\<lambda>r e t w. (None, w)), tn_startedAt = 0, tn_assembler = None\<rparr>"

definition sample_message :: MatrixEvent where
  "sample_message = \<lparr>mx_Body = Some ''hey a, quote'', mx_Timestamp = 5, mx_RoomID = ''!r:h'', mx_Sender = ''@u:h'', mx_ID = ''$1''\<rparr>"

definition sample_state :: "unit TurnState" where
  "sample_state = \<lparr>tu_agent = sample_agent, tu_stm = None, tu_log = [], tu_seq = 0\<rparr>"

lemma sample_turn_runs:
  "case handleMessage (sample_turn 2) None None ''t1'' sample_message sample_state of
     Some st' \<Rightarrow> ag_log (tu_agent st') = [LLMCall, CalledMCP ''fin'' ''quote'' [] [], LLMCall, Replied ''!r:h'' ''$1'' ''done'']
   | None \<Rightarrow> False"
  by code_simp

theorem turn_respects_policy_witness:
  "\<exists>st'. handleMessage (sample_turn 2) None None ''t1'' sample_message sample_state = Some st' \<and>
     CalledMCP ''fin'' ''quote'' [] [] \<in> set (ag_log (tu_agent st')) \<and> approval_recorded (tn_host (sample_turn 2)) ''t1'' ()"
proof -
  from sample_turn_runs obtain st' where st': "handleMessage (sample_turn 2) None None ''t1'' sample_message sample_state = Some st'"
    and l: "ag_log (tu_agent st') = [LLMCall, CalledMCP ''fin'' ''quote'' [] [], LLMCall, Replied ''!r:h'' ''$1'' ''done'']"
    by (auto split: option.splits)
  have "decision (tn_host (sample_turn 2)) (CalledMCP ''fin'' ''quote'' [] []) = Some DecisionRequireApproval" by code_simp
  moreover have "ag_log (tu_agent sample_state) = []" by (simp add: sample_state_def sample_agent_def)
  ultimately have "\<exists>w. approval_recorded (tn_host (sample_turn 2)) ''t1'' w"
    using turn_respects_policy [OF disjI1 [OF st']] l by auto
  then have "approval_recorded (tn_host (sample_turn 2)) ''t1'' ()" by (metis (full_types) old.unit.exhaust)
  with st' l show ?thesis by auto
qed

subsection \<open>The number of model calls\<close>

definition llm_calls :: "agent_effect list \<Rightarrow> nat" where
  "llm_calls l = length (filter (\<lambda>e. e = LLMCall) l)"

lemma llm_calls_simps [simp]:
  "llm_calls [] = 0" "llm_calls (e # l) = (if e = LLMCall then Suc (llm_calls l) else llm_calls l)" "llm_calls (k @ l) = llm_calls k + llm_calls l"
  by (auto simp: llm_calls_def)

lemma await_approval_calls: "await_approval host traceID cfg action req ag = (e, ag') \<Longrightarrow> ag_llmCalls ag' = ag_llmCalls ag"
  by (auto simp: await_approval_def split: prod.splits option.splits)

lemma permission_calls: "ag_llmCalls (snd (permission host traceID m t action req ag)) = ag_llmCalls ag"
  by (auto simp: permission_def Let_def await_approval_calls split: Policy.Decision.splits option.splits prod.splits)

lemma runBuiltin_calls:
  "ag_llmCalls (snd (runBuiltin host traceID tool req ag)) = ag_llmCalls ag"
  "llm_calls (ag_log (snd (runBuiltin host traceID tool req ag))) = llm_calls (ag_log ag)"
  by (auto simp: runBuiltin_def auditMessagingSend_def log_agent_def Let_def split: prod.splits sum.splits option.splits)

lemma callMCP_calls:
  "ag_llmCalls (snd (callMCP host m t req ag)) = ag_llmCalls ag"
  "llm_calls (ag_log (snd (callMCP host m t req ag))) = llm_calls (ag_log ag)"
  by (auto simp: callMCP_def log_agent_def Let_def split: prod.splits sum.splits option.splits)

lemma dispatch_calls:
  "ag_llmCalls (snd (DispatchToolCall host traceID req ag)) = ag_llmCalls ag"
  "llm_calls (ag_log (snd (DispatchToolCall host traceID req ag))) = llm_calls (ag_log ag)"
  using permission_calls [of host traceID] permission_log [of host traceID]
  by (auto simp: DispatchToolCall_def runBuiltin_calls callMCP_calls split: option.splits prod.splits) (metis snd_conv)+

text \<open>The counter bounds the calls that were made, and both stay within a positive limit.\<close>

definition within_limit :: "int \<Rightarrow> 'w Agent \<Rightarrow> bool" where
  "within_limit limit ag \<longleftrightarrow> int (llm_calls (ag_log ag)) \<le> ag_llmCalls ag \<and> int (llm_calls (ag_log ag)) \<le> limit"

definition keeps_limit :: "int \<Rightarrow> 'w Agent \<Rightarrow> 'w Agent \<Rightarrow> bool" where
  "keeps_limit limit ag ag' \<longleftrightarrow> (0 < limit \<longrightarrow> within_limit limit ag \<longrightarrow> within_limit limit ag')"

lemma stopped_keeps: "enforceLLMCallHardLimit tn ag = (Some e, ag') \<Longrightarrow> keeps_limit (ho_LLMCallHardLimit (tn_host tn)) ag ag'"
  by (auto simp: enforceLLMCallHardLimit_def Let_def keeps_limit_def within_limit_def log_agent_def split: if_splits)

lemma complete_keeps:
  "enforceLLMCallHardLimit tn ag = (None, ag') \<Longrightarrow> keeps_limit (ho_LLMCallHardLimit (tn_host tn)) ag (snd (complete tn req ag'))"
  by (auto simp: enforceLLMCallHardLimit_def Let_def keeps_limit_def within_limit_def complete_def log_agent_def
      split: if_splits option.splits prod.splits)

interpretation limit_turn: turn_relation tn traceID "keeps_limit (ho_LLMCallHardLimit (tn_host tn))" for tn traceID
  by unfold_locales (auto simp: stopped_keeps complete_keeps, auto simp: keeps_limit_def within_limit_def dispatch_calls)

text \<open>What the agent is given over its life: messages and events.\<close>

datatype turn_input = Message fault fault string MatrixEvent | GatewayEvent fault fault string int Event

fun run_input :: "'w Turn \<Rightarrow> turn_input \<Rightarrow> 'w TurnState \<Rightarrow> 'w TurnState option" where
  "run_input tn (Message ins upd traceID evt) st = handleMessage tn ins upd traceID evt st"
| "run_input tn (GatewayEvent ins upd traceID ms evt) st = runEventTurn tn ins upd traceID ms evt st"

fun run_inputs :: "'w Turn \<Rightarrow> turn_input list \<Rightarrow> 'w TurnState \<Rightarrow> 'w TurnState option" where
  "run_inputs tn [] st = Some st"
| "run_inputs tn (x # xs) st = (case run_input tn x st of None \<Rightarrow> None | Some st' \<Rightarrow> run_inputs tn xs st')"

lemma run_inputs_keeps:
  "run_inputs tn xs st = Some st' \<Longrightarrow> keeps_limit (ho_LLMCallHardLimit (tn_host tn)) (tu_agent st) (tu_agent st')"
proof (induction xs arbitrary: st)
  case (Cons x xs)
  then obtain st1 where x: "run_input tn x st = Some st1" and xs: "run_inputs tn xs st1 = Some st'" by (auto split: option.splits)
  from x have "keeps_limit (ho_LLMCallHardLimit (tn_host tn)) (tu_agent st) (tu_agent st1)"
    by (cases x) (auto dest: limit_turn.handleMessage_R limit_turn.runEventTurn_R)
  with Cons.IH [OF xs] show ?case by (simp add: keeps_limit_def)
qed (simp add: keeps_limit_def)

text \<open>C31: over any sequence of messages and events, workflows included, the agent calls the language model at most as often as the hard limit
  allows.\<close>

theorem llm_hard_limit_holds:
  assumes "run_inputs tn inputs st = Some st'" "0 < ho_LLMCallHardLimit (tn_host tn)" "ag_log (tu_agent st) = []" "ag_llmCalls (tu_agent st) = 0"
  shows "int (llm_calls (ag_log (tu_agent st'))) \<le> ho_LLMCallHardLimit (tn_host tn)"
  using run_inputs_keeps [OF assms(1)] assms(2-) by (simp add: keeps_limit_def within_limit_def)

theorem llm_hard_limit_holds_witness:
  "\<exists>st'. run_inputs (sample_turn 3) [Message None None ''t1'' sample_message, Message None None ''t2'' sample_message] sample_state = Some st' \<and>
     int (llm_calls (ag_log (tu_agent st'))) \<le> 3 \<and> Terminated 1 \<in> set (ag_log (tu_agent st'))"
proof -
  let ?run = "run_inputs (sample_turn 3) [Message None None ''t1'' sample_message, Message None None ''t2'' sample_message] sample_state"
  have "case ?run of Some st' \<Rightarrow> Terminated 1 \<in> set (ag_log (tu_agent st')) | None \<Rightarrow> False" by code_simp
  then obtain st' where r: "?run = Some st'" "Terminated 1 \<in> set (ag_log (tu_agent st'))" by (auto split: option.splits)
  have "ho_LLMCallHardLimit (tn_host (sample_turn 3)) = 3" by (simp add: sample_turn_def)
  with llm_hard_limit_holds [OF r(1)] have "int (llm_calls (ag_log (tu_agent st'))) \<le> 3"
    by (simp add: sample_state_def sample_agent_def)
  with r show ?thesis by blast
qed

text \<open>One conversation.\<close>

lemma executeToolCall_calls: "llm_calls (ag_log (snd (executeToolCall tn traceID sender tc ag))) = llm_calls (ag_log ag)"
  by (auto simp: executeToolCall_def dispatch_calls split: sum.splits)

lemma process_calls_calls: "llm_calls (ag_log (snd (process_calls tn traceID sender names tcs messages ag))) = llm_calls (ag_log ag)"
proof (induction tcs arbitrary: messages ag)
  case (Cons tc tcs)
  then show ?case using executeToolCall_calls [of tn traceID sender "canonical_call names tc" ag] by (auto simp: Let_def split: prod.splits)
qed simp

lemma turn_rounds_calls:
  "llm_calls (ag_log (snd (snd (turn_rounds tn traceID sender tools names k n messages calls ag)))) \<le> llm_calls (ag_log ag) + n"
proof (induction n arbitrary: messages calls ag)
  case (Suc n)
  obtain e ag1 where en: "enforceLLMCallHardLimit tn ag = (e, ag1)" by (cases "enforceLLMCallHardLimit tn ag")
  then have l1: "llm_calls (ag_log ag1) = llm_calls (ag_log ag)"
    by (auto simp: enforceLLMCallHardLimit_def Let_def log_agent_def split: if_splits)
  let ?req = "\<lparr>cq_Messages = messages, cq_Tools = tools, cq_MaxTokens = k\<rparr>"
  obtain c ag2 where co: "complete tn ?req ag1 = (c, ag2)" by (cases "complete tn ?req ag1")
  then have l2: "llm_calls (ag_log ag2) \<le> Suc (llm_calls (ag_log ag))"
    using l1 by (auto simp: complete_def log_agent_def split: option.splits prod.splits)
  have "llm_calls (ag_log (snd (snd (case process_calls tn traceID sender names tcs msgs ag2 of (messages, ag3) \<Rightarrow>
      turn_rounds tn traceID sender tools names k n messages calls' ag3)))) \<le> llm_calls (ag_log ag) + Suc n" for tcs msgs calls'
    using Suc.IH [of "fst (process_calls tn traceID sender names tcs msgs ag2)" calls' "snd (process_calls tn traceID sender names tcs msgs ag2)"]
      l2 by (simp add: process_calls_calls case_prod_beta)
  then show ?case using l1 l2 by (auto simp: en co Let_def split: option.splits sum.splits)
qed simp

text \<open>one conversation turn calls the model at most ten times, whatever the model answers.\<close>

theorem conversation_bounded:
  "llm_calls (ag_log (tu_agent (snd (snd (runTurn tn traceID roomID sender userText st))))) \<le> llm_calls (ag_log (tu_agent st)) + 10"
proof -
  obtain r n st' where r: "runTurn tn traceID roomID sender userText st = (r, n, st')" by (cases "runTurn tn traceID roomID sender userText st")
  have "llm_calls (ag_log ag) \<le> llm_calls (ag_log (tu_agent st)) + 10"
    if "turn_rounds tn traceID sender tools names k maxToolCallRounds msgs 0 (tu_agent (record_message tn roomID sender ''user'' userText st)) = (r', c, ag)"
    for tools names k msgs r' c ag
    using turn_rounds_calls [of tn traceID sender tools names k maxToolCallRounds msgs 0 "tu_agent (record_message tn roomID sender ''user'' userText st)"]
    by (simp add: that record_message_quiet) (simp add: maxToolCallRounds_def)
  with runTurn_rounds [OF r] show ?thesis by (auto simp: r record_message_quiet)
qed

subsection \<open>Admission\<close>

text \<open>C24: a message starts a turn only if it is not older than the agent, its room and its sender are allowed, and it is either addressed to this
  agent or, addressed to nobody, matches a protocol of the configuration with a trusted peer; any other message changes nothing.\<close>

theorem message_admission:
  assumes "handleMessage tn ins upd traceID evt st = Some st'" "st' \<noteq> st"
  shows "\<exists>cfg body. ho_config (tn_host tn) = Some cfg \<and> mx_Body evt = Some body \<and> tn_startedAt tn \<le> mx_Timestamp evt \<and>
    IsRoomAllowed (Some cfg) (mx_RoomID evt) \<and> IsSenderAllowed (Some cfg) (mx_Sender evt) \<and>
    (case parseDirectedAgentMessage body of
       Some (target, directed) \<Rightarrow> isDirectedAtSelf target (agentIdentity (Some cfg) (ho_AgentID (tn_host tn)))
     | None \<Rightarrow> (\<exists>m. MatchInboundProtocol (tn_unmarshal tn) (Some cfg) (mx_RoomID evt) (mx_Sender evt) body = Inr (Some m) \<and>
         (\<exists>peer \<in> set (tr_TrustedPeers (cf_Trust cfg)). tp_MXID peer = mx_Sender evt \<and> tp_RoomID peer = mx_RoomID evt \<and>
            wp_ID (im_Protocol m) \<in> set (tp_Protocols peer))))"
proof -
  from assms obtain am where a: "admit tn evt = Some am" by (auto simp: handleMessage_def split: option.splits)
  then obtain body where body: "mx_Body evt = Some body" by (auto simp: admit_def split: option.splits)
  show ?thesis
  proof (cases "parseDirectedAgentMessage body")
    case None
    with a body show ?thesis by (auto simp: admit_def Let_def not_None_eq split: if_splits sum.splits option.splits dest: inbound_match)
  next
    case (Some td)
    with a body show ?thesis by (cases td) (auto simp: admit_def Let_def not_None_eq split: if_splits sum.splits option.splits)
  qed
qed

theorem message_admission_witness:
  "\<exists>st' cfg. handleMessage (sample_turn 2) None None ''t1'' sample_message sample_state = Some st' \<and>
     ho_config (tn_host (sample_turn 2)) = Some cfg \<and> IsSenderAllowed (Some cfg) ''@u:h''"
proof -
  from sample_turn_runs obtain st' where st': "handleMessage (sample_turn 2) None None ''t1'' sample_message sample_state = Some st'"
    and l: "ag_log (tu_agent st') = [LLMCall, CalledMCP ''fin'' ''quote'' [] [], LLMCall, Replied ''!r:h'' ''$1'' ''done'']"
    by (auto split: option.splits)
  have "st' \<noteq> sample_state" using l by (auto simp: sample_state_def sample_agent_def)
  from message_admission [OF st' this] st' show ?thesis by (auto simp: sample_message_def)
qed

end
