(* ===== verification/Webhook_Auth.thy ===== *)
theory Webhook_Auth
  imports Workflow_Match Envelope Base64
begin

section \<open>Webhook deliveries\<close>

text \<open>
  \<^verbatim>\<open>common/webhookauth/hmac.go\<close> and \<^verbatim>\<open>internal/gitai/gateway/webhook.go\<close>: the signature of a delivery, and the event a delivery is
  wrapped in.  The keyed hash is the parameter \<open>hmac\<close>; JSON decoding is the parameter \<open>unmarshal\<close>.
  The theory shows which headers are accepted.
\<close>

subsection \<open>Signatures\<close>

definition SignaturePrefix :: string where "SignaturePrefix = ''sha256=''"

datatype signature_error = ErrMissingSignatureHeader | ErrMalformedSignatureHeader | ErrInvalidSignatureHex hex_error | ErrSignatureMismatch

type_synonym hmac_fn = "nat list \<Rightarrow> nat list \<Rightarrow> nat list"

definition string_bytes :: "string \<Rightarrow> nat list" where
  "string_bytes = map of_char"

definition ValidateHMACSHA256 :: "hmac_fn \<Rightarrow> nat list \<Rightarrow> string \<Rightarrow> string \<Rightarrow> signature_error option" where
  "ValidateHMACSHA256 hmac secret body sigHeader =
     (if sigHeader = [] then Some ErrMissingSignatureHeader
      else if \<not> has_prefix sigHeader SignaturePrefix then Some ErrMalformedSignatureHeader
      else (case hex_decode (trim_prefix sigHeader SignaturePrefix) of
              Inl e \<Rightarrow> Some (ErrInvalidSignatureHex e)
            | Inr expected \<Rightarrow> if hmac secret (string_bytes body) \<noteq> expected then Some ErrSignatureMismatch else None))"

definition VerifyHMACSHA256 :: "hmac_fn \<Rightarrow> nat list \<Rightarrow> string \<Rightarrow> string \<Rightarrow> bool" where
  "VerifyHMACSHA256 hmac secret body sigHeader \<longleftrightarrow> ValidateHMACSHA256 hmac secret body sigHeader = None"

subsection \<open>Wrapping a delivery\<close>

definition str_field :: "gmap \<Rightarrow> string \<Rightarrow> string option" where
  "str_field m k = (case map_of m k of Some v \<Rightarrow> as_string v | None \<Rightarrow> None)"

definition summary_part :: "string \<Rightarrow> string option \<Rightarrow> string list" where
  "summary_part label v = (case v of Some s \<Rightarrow> if s \<noteq> [] then [label @ '': '' @ go_quote s @ ''.''] else [] | None \<Rightarrow> [])"

definition summariseWebhookData :: "string \<Rightarrow> gmap \<Rightarrow> string" where
  "summariseWebhookData source data =
     (if data = [] then ''Webhook delivery received from gateway '' @ go_quote source @ ''.''
      else str_join '' '' ([''Webhook delivery from '' @ go_quote source @ ''.'']
        @ summary_part ''Action'' (str_field data ''action'')
        @ summary_part ''Event type'' (str_field data ''event'')
        @ summary_part ''Ref'' (str_field data ''ref'')
        @ summary_part ''Repository'' (case map_of data ''repository'' of
            Some v \<Rightarrow> (case as_map v of Some repo \<Rightarrow> str_field repo ''full_name'' | None \<Rightarrow> None) | None \<Rightarrow> None)
        @ summary_part ''Type'' (str_field data ''type'')))"

definition WrapRawWebhookBody :: "(string \<Rightarrow> string + gvalue) \<Rightarrow> gotime \<Rightarrow> string \<Rightarrow> string \<Rightarrow> Event" where
  "WrapRawWebhookBody unmarshal now source rawBody =
     (let data = (if length rawBody > 0
                  then (case unmarshal_object unmarshal rawBody of
                          Inl e \<Rightarrow> [(''raw'', GStr rawBody)] | Inr None \<Rightarrow> [] | Inr (Some m) \<Rightarrow> m)
                  else [])
      in \<lparr>ev_Source = source, ev_Type = ''webhook.delivery'', ev_TS = now,
          ev_Payload = \<lparr>ep_Message = summariseWebhookData source data, ep_Data = data\<rparr>\<rparr>)"

subsection \<open>Accepted signatures\<close>

lemma signature_accepted:
  "VerifyHMACSHA256 hmac secret body sigHeader \<longleftrightarrow>
     (\<exists>hex. sigHeader = ''sha256='' @ hex \<and> hex_decode hex = Inr (hmac secret (string_bytes body)))"
  by (auto simp: VerifyHMACSHA256_def ValidateHMACSHA256_def SignaturePrefix_def trim_prefix_def has_prefix_iff split: sum.splits if_splits)

text \<open>the header that a sender computes, \<^verbatim>\<open>sha256=\<close> and the lower-case digits of the keyed hash, is accepted, and an accepted header decodes to
  that hash: a header made for another hash is refused.\<close>

theorem signature_roundtrip:
  assumes "list_all (\<lambda>b. b < 256) mac"
  shows "VerifyHMACSHA256 hmac secret body (''sha256='' @ hex_encode mac) \<longleftrightarrow> mac = hmac secret (string_bytes body)"
  using hex_decode_encode [OF assms] by (auto simp: signature_accepted)

theorem signature_roundtrip_witness:
  "VerifyHMACSHA256 (\<lambda>k b. [202, 254]) [1] ''x'' (''sha256='' @ hex_encode [202, 254]) \<longleftrightarrow> [202, 254] = [202, 254 :: nat]"
  by (rule signature_roundtrip) simp_all

lemma wrapped_event_valid: "source \<noteq> [] \<Longrightarrow> now \<noteq> 0 \<Longrightarrow> Event_Validate (Some (WrapRawWebhookBody unmarshal now source rawBody)) = None"
  by (simp add: Event_Validate_def WrapRawWebhookBody_def Let_def is_zero_time_def first_of_Cons reject_def)

end
