(* ===== verification/Rate_Limits.thy ===== *)
theory Rate_Limits
  imports Stores
begin

section \<open>Rate limits and budgets\<close>

text \<open>
  The limiters of the program: the keyed fixed window of \<^verbatim>\<open>common/ratelimit/fixed_window.go\<close> with its two users
  (\<^verbatim>\<open>internal/ruriko/webhook/ratelimit.go\<close> and the event limiter of \<^verbatim>\<open>internal/gitai/control/server.go\<close>), the fixed window of
  \<^verbatim>\<open>internal/gitai/builtin/matrix_send.go\<close>, and for the language model of the control plane the sliding window
  \<^verbatim>\<open>internal/ruriko/nlp/ratelimit.go\<close> and the daily budget \<^verbatim>\<open>internal/ruriko/nlp/tokenbudget.go\<close>.
  The clock reading of a call is an argument; calls are serialised by the mutex of the limiter.
  What the fixed windows promise is proved once, in the locale \<open>window_limiter\<close>: in any span as long as the window at most twice the
  limit passes.  The sliding window lets at most the limit pass.
\<close>

subsection \<open>Keyed fixed window\<close>

record bucket =
  bk_count :: int
  bk_resetAt :: gotime

record KeyedFixedWindow =
  kw_window :: int
  kw_buckets :: "(string \<times> bucket) list"

definition NewKeyedFixedWindow :: "int \<Rightarrow> KeyedFixedWindow" where
  "NewKeyedFixedWindow window = \<lparr>kw_window = (if window \<le> 0 then minute else window), kw_buckets = []\<rparr>"

definition bucket_of :: "string \<Rightarrow> KeyedFixedWindow \<Rightarrow> bucket" where
  "bucket_of key l = (case map_of (kw_buckets l) key of Some b \<Rightarrow> b | None \<Rightarrow> \<lparr>bk_count = 0, bk_resetAt = 0\<rparr>)"

definition put_bucket :: "string \<Rightarrow> bucket \<Rightarrow> KeyedFixedWindow \<Rightarrow> KeyedFixedWindow" where
  "put_bucket key b l = l\<lparr>kw_buckets := AList.update key b (kw_buckets l)\<rparr>"

definition refresh :: "gotime \<Rightarrow> int \<Rightarrow> bucket \<Rightarrow> bucket" where
  "refresh now window b = (if is_zero_time (bk_resetAt b) \<or> now > bk_resetAt b then \<lparr>bk_count = 0, bk_resetAt = now + window\<rparr> else b)"

text \<open>The loop over the keys: the keys seen, or \<open>None\<close> when one has no capacity left.\<close>

fun check_keys :: "int \<Rightarrow> gotime \<Rightarrow> string list \<Rightarrow> string list \<Rightarrow> KeyedFixedWindow \<Rightarrow> string list option \<times> KeyedFixedWindow" where
  "check_keys limit now [] seen l = (Some seen, l)"
| "check_keys limit now (key # keys) seen l =
     (if key \<in> set seen then check_keys limit now keys seen l
      else (let b = refresh now (kw_window l) (bucket_of key l); l1 = put_bucket key b l in
        if bk_count b \<ge> limit then (None, l1) else check_keys limit now keys (key # seen) l1))"

definition consume :: "string \<Rightarrow> KeyedFixedWindow \<Rightarrow> KeyedFixedWindow" where
  "consume key l = put_bucket key ((bucket_of key l)\<lparr>bk_count := bk_count (bucket_of key l) + 1\<rparr>) l"

definition AllowAll :: "int \<Rightarrow> gotime \<Rightarrow> string list \<Rightarrow> KeyedFixedWindow \<Rightarrow> bool \<times> KeyedFixedWindow" where
  "AllowAll limit now keys l =
     (if limit \<le> 0 then (True, l)
      else if keys = [] then (True, l)
      else (case check_keys limit now keys [] l of
              (None, l1) \<Rightarrow> (False, l1)
            | (Some seen, l1) \<Rightarrow> (True, fold consume seen l1)))"

definition Allow :: "int \<Rightarrow> gotime \<Rightarrow> string \<Rightarrow> KeyedFixedWindow \<Rightarrow> bool \<times> KeyedFixedWindow" where
  "Allow limit now key l = AllowAll limit now [key] l"

record webhook_limiter =
  wl_limit :: int
  wl_limiter :: KeyedFixedWindow

definition newRateLimiter :: "int \<Rightarrow> int \<Rightarrow> webhook_limiter" where
  "newRateLimiter limit window = \<lparr>wl_limit = limit, wl_limiter = NewKeyedFixedWindow window\<rparr>"

definition Allow_webhook :: "gotime \<Rightarrow> string \<Rightarrow> webhook_limiter \<Rightarrow> bool \<times> webhook_limiter" where
  "Allow_webhook now agentID r = (let (ok, l) = Allow (wl_limit r) now agentID (wl_limiter r) in (ok, r\<lparr>wl_limiter := l\<rparr>))"

definition newEventRateLimiter :: KeyedFixedWindow where
  "newEventRateLimiter = NewKeyedFixedWindow minute"

definition allow_event :: "gotime \<Rightarrow> string \<Rightarrow> int \<Rightarrow> KeyedFixedWindow \<Rightarrow> bool \<times> KeyedFixedWindow" where
  "allow_event now source maxPerMinute l = AllowAll maxPerMinute now [''__global__'', ''source:'' @ source] l"

subsection \<open>Fixed window of the messaging tool\<close>

record rateLimiter =
  rl_count :: int
  rl_windowStart :: gotime

definition allow_message :: "gotime \<Rightarrow> int \<Rightarrow> rateLimiter \<Rightarrow> bool \<times> rateLimiter" where
  "allow_message now maxPerMinute r =
     (if maxPerMinute \<le> 0 then (True, r)
      else (let r1 = (if is_zero_time (rl_windowStart r) \<or> now - rl_windowStart r \<ge> minute
                      then \<lparr>rl_count = 0, rl_windowStart = now\<rparr> else r)
            in if rl_count r1 \<ge> maxPerMinute then (False, r1) else (True, r1\<lparr>rl_count := rl_count r1 + 1\<rparr>)))"

subsection \<open>Sliding window\<close>

definition DefaultRateLimit :: int where "DefaultRateLimit = 20"

record RateLimiter =
  sl_limit :: int
  sl_window :: int
  sl_counters :: "(string \<times> gotime list) list"

definition NewRateLimiter :: "int \<Rightarrow> int \<Rightarrow> RateLimiter" where
  "NewRateLimiter limit window =
     \<lparr>sl_limit = (if limit \<le> 0 then DefaultRateLimit else limit), sl_window = (if window \<le> 0 then minute else window), sl_counters = []\<rparr>"

definition calls_of :: "string \<Rightarrow> RateLimiter \<Rightarrow> gotime list" where
  "calls_of senderID r = (case map_of (sl_counters r) senderID of Some ts \<Rightarrow> ts | None \<Rightarrow> [])"

definition Allow_sender :: "gotime \<Rightarrow> string \<Rightarrow> RateLimiter \<Rightarrow> bool \<times> RateLimiter" where
  "Allow_sender now senderID r =
     (let cutoff = now - sl_window r;
          valid = filter (\<lambda>t. t > cutoff) (calls_of senderID r)
      in if int (length valid) \<ge> sl_limit r
         then (False, r\<lparr>sl_counters := AList.update senderID valid (sl_counters r)\<rparr>)
         else (True, r\<lparr>sl_counters := AList.update senderID (valid @ [now]) (sl_counters r)\<rparr>))"

definition Remaining_calls :: "gotime \<Rightarrow> string \<Rightarrow> RateLimiter \<Rightarrow> int" where
  "Remaining_calls now senderID r =
     (let count = length (filter (\<lambda>t. t > now - sl_window r) (calls_of senderID r)); rem = sl_limit r - int count
      in if rem < 0 then 0 else rem)"

subsection \<open>Daily token budget\<close>

definition DefaultTokenBudget :: int where "DefaultTokenBudget = 50000"

record senderDailyUsage =
  du_tokens :: int
  du_resetAt :: gotime

record TokenBudget =
  tb_budget :: int
  tb_usage :: "(string \<times> senderDailyUsage) list"

definition NewTokenBudget :: "int \<Rightarrow> TokenBudget" where
  "NewTokenBudget dailyBudget = \<lparr>tb_budget = (if dailyBudget \<le> 0 then DefaultTokenBudget else dailyBudget), tb_usage = []\<rparr>"

definition nextMidnightUTC :: "gotime \<Rightarrow> gotime" where
  "nextMidnightUTC now = (day_number now + 1) * (24 * hour)"

definition resetIfNeeded :: "gotime \<Rightarrow> string \<Rightarrow> TokenBudget \<Rightarrow> TokenBudget" where
  "resetIfNeeded now senderID tb = (case map_of (tb_usage tb) senderID of
       None \<Rightarrow> tb
     | Some u \<Rightarrow> if now > du_resetAt u then tb\<lparr>tb_usage := AList.delete senderID (tb_usage tb)\<rparr> else tb)"

definition Allow_tokens :: "gotime \<Rightarrow> string \<Rightarrow> TokenBudget \<Rightarrow> bool \<times> TokenBudget" where
  "Allow_tokens now senderID tb =
     (let tb1 = resetIfNeeded now senderID tb in
      (case map_of (tb_usage tb1) senderID of None \<Rightarrow> True | Some u \<Rightarrow> du_tokens u < tb_budget tb1, tb1))"

text \<open>\<open>now2\<close> is the second reading of the clock, for the entry that is created.\<close>

definition RecordUsage :: "gotime \<Rightarrow> gotime \<Rightarrow> string \<Rightarrow> int \<Rightarrow> TokenBudget \<Rightarrow> TokenBudget" where
  "RecordUsage now now2 senderID tokens tb =
     (let tb1 = resetIfNeeded now senderID tb;
          u = (case map_of (tb_usage tb1) senderID of Some u \<Rightarrow> u | None \<Rightarrow> \<lparr>du_tokens = 0, du_resetAt = nextMidnightUTC now2\<rparr>)
      in tb1\<lparr>tb_usage := AList.update senderID (u\<lparr>du_tokens := du_tokens u + tokens\<rparr>) (tb_usage tb1)\<rparr>)"

definition Used :: "gotime \<Rightarrow> string \<Rightarrow> TokenBudget \<Rightarrow> int \<times> TokenBudget" where
  "Used now senderID tb =
     (let tb1 = resetIfNeeded now senderID tb in
      (case map_of (tb_usage tb1) senderID of None \<Rightarrow> 0 | Some u \<Rightarrow> du_tokens u, tb1))"

definition Remaining_tokens :: "gotime \<Rightarrow> string \<Rightarrow> TokenBudget \<Rightarrow> int \<times> TokenBudget" where
  "Remaining_tokens now senderID tb =
     (let tb1 = resetIfNeeded now senderID tb in
      (case map_of (tb_usage tb1) senderID of
         None \<Rightarrow> tb_budget tb1
       | Some u \<Rightarrow> if tb_budget tb1 - du_tokens u > 0 then tb_budget tb1 - du_tokens u else 0, tb1))"

subsection \<open>What a fixed window promises\<close>

text \<open>The times of the calls that hit and pass, over a sequence of calls.\<close>

fun passed_times :: "('c \<Rightarrow> 's \<Rightarrow> bool \<times> 's) \<Rightarrow> ('c \<Rightarrow> gotime) \<Rightarrow> ('c \<Rightarrow> bool) \<Rightarrow> 'c list \<Rightarrow> 's \<Rightarrow> gotime list" where
  "passed_times exec clock hits [] s = []"
| "passed_times exec clock hits (c # cs) s =
     (let (ok, s') = exec c s in (if ok \<and> hits c then [clock c] else []) @ passed_times exec clock hits cs s')"

lemma passed_times_clock: "t \<in> set (passed_times exec clock hits cs s) \<Longrightarrow> t \<in> clock ` set cs"
  by (induction cs arbitrary: s) (auto split: prod.splits if_splits)

lemma passed_none_before:
  assumes "\<forall>c \<in> set cs. T \<le> clock c"
  shows "filter (\<lambda>t. t < T) (passed_times exec clock hits cs s) = []"
  using passed_times_clock [of _ exec clock hits cs s] assms by (fastforce simp: filter_empty_conv)

text \<open>A limiter as its client sees it: a call at a time passes or not.  Of the calls that hit a key, \<open>cnt\<close> have passed in the window that
  lasts until \<open>upto\<close>; a window may end early but not begin before the last one has ended.\<close>

locale window_limiter =
  fixes exec :: "'c \<Rightarrow> 's \<Rightarrow> bool \<times> 's"
    and clock :: "'c \<Rightarrow> gotime"
    and hits :: "'c \<Rightarrow> bool"
    and good :: "'c \<Rightarrow> bool"
    and cnt :: "'s \<Rightarrow> int"
    and upto :: "'s \<Rightarrow> gotime"
    and wf :: "'s \<Rightarrow> bool"
    and w :: int
    and L :: nat
  assumes wf_step: "wf s \<Longrightarrow> good c \<Longrightarrow> wf (snd (exec c s))"
    and cnt_nonneg: "wf s \<Longrightarrow> 0 \<le> cnt s"
    and pass: "exec c s = (True, s') \<Longrightarrow> wf s \<Longrightarrow> good c \<Longrightarrow> hits c \<Longrightarrow>
      (clock c \<le> upto s \<and> cnt s' = cnt s + 1 \<and> cnt s' \<le> int L \<and> upto s' = upto s) \<or>
      (upto s \<le> clock c \<and> cnt s' = 1 \<and> upto s' = clock c + w \<and> 1 \<le> L)"
    and no_pass: "exec c s = (ok, s') \<Longrightarrow> wf s \<Longrightarrow> good c \<Longrightarrow> \<not> (ok \<and> hits c) \<Longrightarrow>
      (cnt s' = cnt s \<and> upto s' = upto s) \<or> (upto s \<le> clock c \<and> cnt s' = 0 \<and> upto s' = clock c + w)"
begin

abbreviation passed :: "'c list \<Rightarrow> 's \<Rightarrow> gotime list" where
  "passed \<equiv> passed_times exec clock hits"

lemma rest_of_window:
  "wf s \<Longrightarrow> sorted (map clock cs) \<Longrightarrow> list_all good cs \<Longrightarrow> T \<le> upto s \<Longrightarrow>
     length (filter (\<lambda>t. t < T) (passed cs s)) \<le> nat (int L - cnt s)"
proof (induction cs arbitrary: s)
  case (Cons c cs)
  show ?case
  proof (cases "clock c < T")
    case False
    then have "\<forall>d \<in> set (c # cs). T \<le> clock d" using Cons.prems by auto
    then show ?thesis using passed_none_before by (metis list.size(3) zero_le)
  next
    case True
    obtain ok s' where e: "exec c s = (ok, s')" by (cases "exec c s")
    have wf: "wf s'" using wf_step [of s c] e Cons.prems by simp
    show ?thesis
    proof (cases "ok \<and> hits c")
      case True
      then have "cnt s' = cnt s + 1 \<and> cnt s' \<le> int L \<and> upto s' = upto s"
        using pass [of c s s'] e Cons.prems \<open>clock c < T\<close> by auto
      with Cons.IH [of s'] Cons.prems wf e True show ?thesis by auto
    next
      case False
      then have "cnt s' = cnt s \<and> upto s' = upto s" using no_pass [of c s ok s'] e Cons.prems \<open>clock c < T\<close> by auto
      with Cons.IH [of s'] Cons.prems wf e False show ?thesis by auto
    qed
  qed
qed simp

lemma next_window:
  "wf s \<Longrightarrow> sorted (map clock cs) \<Longrightarrow> list_all good cs \<Longrightarrow> T \<le> upto s + w \<Longrightarrow>
     length (filter (\<lambda>t. t < T) (passed cs s)) \<le> nat (int L - cnt s) + L"
proof (induction cs arbitrary: s)
  case (Cons c cs)
  obtain ok s' where e: "exec c s = (ok, s')" by (cases "exec c s")
  have wf: "wf s'" using wf_step [of s c] e Cons.prems by simp
  have new: "length (filter (\<lambda>t. t < T) (passed cs s')) \<le> nat (int L - cnt s')" if "upto s \<le> clock c" "upto s' = clock c + w"
    using that Cons.prems wf by (intro rest_of_window) auto
  have same: "length (filter (\<lambda>t. t < T) (passed cs s')) \<le> nat (int L - cnt s') + L" if "upto s' = upto s"
    using that Cons.prems wf by (intro Cons.IH) auto
  show ?case
  proof (cases "ok \<and> hits c")
    case True
    with pass [of c s s'] e Cons.prems new same show ?thesis by (auto simp: e)
  next
    case False
    with no_pass [of c s ok s'] e Cons.prems new same show ?thesis by (auto simp: e)
  qed
qed simp

lemma at_most_twice:
  "wf s \<Longrightarrow> sorted (map clock cs) \<Longrightarrow> list_all good cs \<Longrightarrow>
     length (filter (\<lambda>t. T \<le> t \<and> t < T + w) (passed cs s)) \<le> 2 * L"
proof (induction cs arbitrary: s)
  case (Cons c cs)
  obtain ok s' where e: "exec c s = (ok, s')" by (cases "exec c s")
  have wf: "wf s'" using wf_step [of s c] e Cons.prems by simp
  have rest: "length (filter (\<lambda>t. T \<le> t \<and> t < T + w) (passed cs s')) \<le> 2 * L" using Cons wf by auto
  show ?case
  proof (cases "ok \<and> hits c \<and> T \<le> clock c")
    case False
    then show ?thesis using rest by (auto simp: e)
  next
    case True
    have le: "length (filter (\<lambda>t. T \<le> t \<and> t < T + w) ts) \<le> length (filter (\<lambda>t. t < T + w) ts)" for ts :: "gotime list"
      by (induction ts) auto
    from True pass [of c s s'] e Cons.prems consider
      "clock c \<le> upto s" | "cnt s' = 1" "upto s' = clock c + w" "1 \<le> L" by auto
    then show ?thesis
    proof cases
      case 1
      with True have "length (filter (\<lambda>t. t < T + w) (passed (c # cs) s)) \<le> nat (int L - cnt s) + L"
        using Cons.prems by (intro next_window) auto
      with le [of "passed (c # cs) s"] cnt_nonneg [of s] Cons.prems show ?thesis by linarith
    next
      case 2
      have "length (filter (\<lambda>t. t < T + w) (passed cs s')) \<le> nat (int L - cnt s')"
        using Cons.prems wf 2 True by (intro rest_of_window) auto
      with le [of "passed cs s'"] 2 show ?thesis by (auto simp: e)
    qed
  qed
qed simp

end

subsection \<open>The keyed window keeps the promise for every key\<close>

lemma bucket_of_put [simp]: "bucket_of k (put_bucket key b l) = (if k = key then b else bucket_of k l)"
  by (simp add: bucket_of_def put_bucket_def)

lemma window_put [simp]: "kw_window (put_bucket key b l) = kw_window l"
  by (simp add: put_bucket_def)

lemma check_keys_window: "check_keys limit now keys seen l = (r, l') \<Longrightarrow> kw_window l' = kw_window l"
  by (induction keys arbitrary: seen l) (auto simp: Let_def split: if_splits)

lemma check_keys_Some:
  "check_keys limit now keys seen l = (Some seen', l') \<Longrightarrow> distinct seen \<Longrightarrow>
     distinct seen' \<and> set seen' = set seen \<union> set keys \<and>
     bucket_of k l' = (if k \<in> set keys - set seen then refresh now (kw_window l) (bucket_of k l) else bucket_of k l) \<and>
     (k \<in> set keys - set seen \<longrightarrow> bk_count (refresh now (kw_window l) (bucket_of k l)) < limit)"
proof (induction keys arbitrary: seen l)
  case (Cons key keys)
  show ?case
  proof (cases "key \<in> set seen")
    case True
    with Cons.prems show ?thesis using Cons.IH [of seen l] by auto
  next
    case False
    define l1 where "l1 = put_bucket key (refresh now (kw_window l) (bucket_of key l)) l"
    from False Cons.prems have c: "check_keys limit now keys (key # seen) l1 = (Some seen', l')"
      "bk_count (refresh now (kw_window l) (bucket_of key l)) < limit"
      by (auto simp: Let_def l1_def split: if_splits)
    from Cons.IH [OF c(1)] c(2) False Cons.prems(2) show ?thesis by (auto simp: l1_def)
  qed
qed simp

lemma check_keys_None:
  "check_keys limit now keys seen l = (None, l') \<Longrightarrow>
     bucket_of k l' = bucket_of k l \<or> k \<in> set keys - set seen \<and> bucket_of k l' = refresh now (kw_window l) (bucket_of k l)"
proof (induction keys arbitrary: seen l)
  case (Cons key keys)
  define l1 where "l1 = put_bucket key (refresh now (kw_window l) (bucket_of key l)) l"
  show ?case
  proof (cases "key \<in> set seen")
    case True
    with Cons.prems Cons.IH [of seen l] show ?thesis by auto
  next
    case False
    show ?thesis
    proof (cases "bk_count (refresh now (kw_window l) (bucket_of key l)) \<ge> limit")
      case True
      with Cons.prems False have "l' = l1" by (simp add: Let_def l1_def)
      then show ?thesis using False by (simp add: l1_def)
    next
      case False
      with Cons.prems \<open>key \<notin> set seen\<close> have "check_keys limit now keys (key # seen) l1 = (None, l')" by (simp add: Let_def l1_def)
      from Cons.IH [OF this] \<open>key \<notin> set seen\<close> show ?thesis by (auto simp: l1_def split: if_splits)
    qed
  qed
qed simp

lemma window_consume [simp]: "kw_window (fold consume ks l) = kw_window l"
  by (induction ks arbitrary: l) (simp_all add: consume_def)

lemma bucket_of_consume:
  "distinct ks \<Longrightarrow> bucket_of k (fold consume ks l) =
     (if k \<in> set ks then (bucket_of k l)\<lparr>bk_count := bk_count (bucket_of k l) + 1\<rparr> else bucket_of k l)"
  by (induction ks arbitrary: l) (auto simp: consume_def)

text \<open>One call as one key sees it.\<close>

lemma AllowAll_pass:
  assumes "AllowAll limit now keys l = (True, l')" "0 < limit"
  shows "kw_window l' = kw_window l" "k \<notin> set keys \<Longrightarrow> bucket_of k l' = bucket_of k l"
    "k \<in> set keys \<Longrightarrow> bk_count (refresh now (kw_window l) (bucket_of k l)) < limit \<and>
       bucket_of k l' = (refresh now (kw_window l) (bucket_of k l))\<lparr>bk_count := bk_count (refresh now (kw_window l) (bucket_of k l)) + 1\<rparr>"
proof -
  have "kw_window l' = kw_window l \<and> (k \<notin> set keys \<longrightarrow> bucket_of k l' = bucket_of k l) \<and>
    (k \<in> set keys \<longrightarrow> bk_count (refresh now (kw_window l) (bucket_of k l)) < limit \<and>
       bucket_of k l' = (refresh now (kw_window l) (bucket_of k l))\<lparr>bk_count := bk_count (refresh now (kw_window l) (bucket_of k l)) + 1\<rparr>)"
  proof (cases "keys = []")
    case True
    then show ?thesis using assms by (simp add: AllowAll_def)
  next
    case False
    then obtain seen l1 where c: "check_keys limit now keys [] l = (Some seen, l1)" and l': "l' = fold consume seen l1"
      using assms by (auto simp: AllowAll_def split: prod.splits option.splits)
    from check_keys_Some [OF c, of k] check_keys_window [OF c] l' show ?thesis by (simp add: bucket_of_consume)
  qed
  then show "kw_window l' = kw_window l" "k \<notin> set keys \<Longrightarrow> bucket_of k l' = bucket_of k l"
    "k \<in> set keys \<Longrightarrow> bk_count (refresh now (kw_window l) (bucket_of k l)) < limit \<and>
       bucket_of k l' = (refresh now (kw_window l) (bucket_of k l))\<lparr>bk_count := bk_count (refresh now (kw_window l) (bucket_of k l)) + 1\<rparr>"
    by blast+
qed

lemma AllowAll_refuse:
  assumes "AllowAll limit now keys l = (False, l')"
  shows "kw_window l' = kw_window l \<and> (bucket_of k l' = bucket_of k l \<or> bucket_of k l' = refresh now (kw_window l) (bucket_of k l))"
proof -
  from assms have c: "check_keys limit now keys [] l = (None, l')"
    by (auto simp: AllowAll_def split: prod.splits option.splits if_splits)
  from check_keys_None [OF c, of k] check_keys_window [OF c] show ?thesis by auto
qed

type_synonym window_call = "int \<times> gotime \<times> string list"

definition window_good :: "nat \<Rightarrow> window_call \<Rightarrow> bool" where
  "window_good L = (\<lambda>(limit, now, keys). 0 < limit \<and> limit \<le> int L \<and> 0 \<le> now)"

definition window_wf :: "string \<Rightarrow> int \<Rightarrow> KeyedFixedWindow \<Rightarrow> bool" where
  "window_wf k w l \<longleftrightarrow> kw_window l = w \<and> 0 \<le> bk_count (bucket_of k l)"

definition exec_window :: "window_call \<Rightarrow> KeyedFixedWindow \<Rightarrow> bool \<times> KeyedFixedWindow" where
  "exec_window = (\<lambda>(limit, now, keys). AllowAll limit now keys)"

lemma exec_window_cases:
  assumes "exec_window (limit, now, keys) l = (ok, l')" "window_good L (limit, now, keys)"
  obtains "ok" "k \<in> set keys" "bk_count (refresh now (kw_window l) (bucket_of k l)) < limit"
      "bucket_of k l' = (refresh now (kw_window l) (bucket_of k l))\<lparr>bk_count := bk_count (refresh now (kw_window l) (bucket_of k l)) + 1\<rparr>"
      "kw_window l' = kw_window l"
    | "\<not> (ok \<and> k \<in> set keys)" "bucket_of k l' = bucket_of k l \<or> bucket_of k l' = refresh now (kw_window l) (bucket_of k l)"
      "kw_window l' = kw_window l"
  using assms AllowAll_pass [of limit now keys l l'] AllowAll_refuse [of limit now keys l l']
  by (cases ok) (auto simp: exec_window_def window_good_def)

interpretation key_window: window_limiter exec_window "\<lambda>(limit, now, keys). now" "\<lambda>(limit, now, keys). k \<in> set keys" "window_good L"
    "\<lambda>l. bk_count (bucket_of k l)" "\<lambda>l. bk_resetAt (bucket_of k l)" "window_wf k w" w L for k w L
proof (unfold_locales, goal_cases)
  case (1 l c)
  obtain limit now keys where c: "c = (limit, now, keys)" by (cases c)
  obtain ok l' where e: "exec_window c l = (ok, l')" by (cases "exec_window c l")
  show ?case
    by (rule exec_window_cases [OF e [unfolded c] 1(2) [unfolded c], of k])
      (use 1 e in \<open>auto simp: window_wf_def refresh_def split: if_splits\<close>)
next
  case (2 l)
  then show ?case by (simp add: window_wf_def)
next
  case (3 c l l')
  obtain limit now keys where c: "c = (limit, now, keys)" by (cases c)
  show ?case
    by (rule exec_window_cases [OF 3(1) [unfolded c] 3(3) [unfolded c], of k])
      (use 3 c in \<open>auto simp: window_wf_def window_good_def refresh_def is_zero_time_def split: if_splits\<close>)
next
  case (4 c l ok l')
  obtain limit now keys where c: "c = (limit, now, keys)" by (cases c)
  show ?case
    by (rule exec_window_cases [OF 4(1) [unfolded c] 4(3) [unfolded c], of k])
      (use 4 c in \<open>auto simp: window_wf_def window_good_def refresh_def is_zero_time_def split: if_splits\<close>)
qed

text \<open>the keyed limiter bounds every key.  With limits of at most \<open>L\<close> per call, whatever other keys the calls name, whether they pass or not,
  and however the windows fall, at most \<open>2 * L\<close> of the calls that name a key pass in any span of the window's length.\<close>

theorem keyed_window_bound:
  assumes "sorted (map (\<lambda>(limit, now, keys). now) calls)" "\<forall>(limit, now, keys) \<in> set calls. 0 < limit \<and> limit \<le> int L \<and> 0 \<le> now"
  shows "length (filter (\<lambda>t. T \<le> t \<and> t < T + minute)
    (passed_times (\<lambda>(limit, now, keys). AllowAll limit now keys) (\<lambda>(limit, now, keys). now) (\<lambda>(limit, now, keys). key \<in> set keys) calls
      (NewKeyedFixedWindow minute))) \<le> 2 * L"
proof -
  have "window_wf key minute (NewKeyedFixedWindow minute)" by (simp add: window_wf_def NewKeyedFixedWindow_def bucket_of_def minute_def)
  moreover have "list_all (window_good L) calls" using assms(2) by (auto simp: list_all_iff window_good_def)
  ultimately show ?thesis using key_window.at_most_twice [of key minute "NewKeyedFixedWindow minute" calls L T] assms(1)
    by (simp add: exec_window_def)
qed

theorem keyed_window_bound_witness:
  "length (filter (\<lambda>t. 100 \<le> t \<and> t < 100 + minute) (passed_times (\<lambda>(limit, now, keys). AllowAll limit now keys) (\<lambda>(limit, now, keys). now)
     (\<lambda>(limit, now, keys). ''__global__'' \<in> set keys)
     [(1, 100, [''__global__'', ''source:a'']), (1, 200, [''__global__'', ''source:b'']), (1, 60000000101, [''__global__''])]
     (NewKeyedFixedWindow minute))) \<le> 2 * 1"
  by (rule keyed_window_bound) auto

subsection \<open>The messaging window keeps it too\<close>

interpretation message_window: window_limiter "\<lambda>(now, limit). allow_message now limit" fst "\<lambda>_. True"
    "\<lambda>(now, limit). minute \<le> now \<and> 0 < limit \<and> limit \<le> int L" rl_count "\<lambda>r. rl_windowStart r + minute" "\<lambda>r. 0 \<le> rl_count r" minute L for L
  by unfold_locales (auto simp: allow_message_def Let_def is_zero_time_def split: if_splits)

subsection \<open>The sliding window\<close>

text \<open>The reference: all passes are remembered, and a call passes if fewer than the limit lie in the window before it.\<close>

definition allow_reference :: "int \<Rightarrow> int \<Rightarrow> gotime \<Rightarrow> gotime list \<Rightarrow> bool \<times> gotime list" where
  "allow_reference limit window now passes =
     (if int (length (filter (\<lambda>t. t > now - window) passes)) < limit then (True, passes @ [now]) else (False, passes))"

fun results :: "('c \<Rightarrow> 's \<Rightarrow> 'r \<times> 's) \<Rightarrow> 'c list \<Rightarrow> 's \<Rightarrow> 'r list" where
  "results exec [] s = []"
| "results exec (c # cs) s = (let (r, s') = exec c s in r # results exec cs s')"

lemma filter_after:
  assumes "m \<le> n" "filter (\<lambda>t. t > m) xs = filter (\<lambda>t. t > m) ys"
  shows "filter (\<lambda>t. t > n) xs = filter (\<lambda>t. t > n) (ys :: int list)"
proof -
  have "filter (\<lambda>t. t > n) zs = filter (\<lambda>t. t > n) (filter (\<lambda>t. t > m) zs)" for zs
    using assms(1) by (auto simp: filter_filter intro: filter_cong)
  then show ?thesis using assms(2) by metis
qed

lemma sliding_simulation:
  "sorted (a # calls) \<Longrightarrow> filter (\<lambda>t. t > a - sl_window r) (calls_of k r) = filter (\<lambda>t. t > a - sl_window r) passes \<Longrightarrow>
     results (\<lambda>now. Allow_sender now k) calls r = results (allow_reference (sl_limit r) (sl_window r)) calls passes"
proof (induction calls arbitrary: a r passes)
  case (Cons now calls)
  let ?v = "filter (\<lambda>t. t > now - sl_window r) (calls_of k r)"
  have v: "?v = filter (\<lambda>t. t > now - sl_window r) passes"
    using filter_after [of "a - sl_window r" "now - sl_window r" "calls_of k r" passes] Cons.prems by simp
  have s: "sorted (now # calls)" using Cons.prems by simp
  show ?case
  proof (cases "int (length ?v) \<ge> sl_limit r")
    case True
    define r' where "r' = r\<lparr>sl_counters := AList.update k ?v (sl_counters r)\<rparr>"
    have e: "Allow_sender now k r = (False, r')" using True by (simp add: Allow_sender_def Let_def r'_def)
    have "results (\<lambda>now. Allow_sender now k) calls r' = results (allow_reference (sl_limit r) (sl_window r)) calls passes"
      using Cons.IH [OF s, of r' passes] v by (simp add: r'_def calls_of_def)
    then show ?thesis using e True v by (simp add: allow_reference_def [of _ _ now])
  next
    case False
    define r' where "r' = r\<lparr>sl_counters := AList.update k (?v @ [now]) (sl_counters r)\<rparr>"
    have e: "Allow_sender now k r = (True, r')" using False by (simp add: Allow_sender_def Let_def r'_def)
    have "results (\<lambda>now. Allow_sender now k) calls r' = results (allow_reference (sl_limit r) (sl_window r)) calls (passes @ [now])"
      using Cons.IH [OF s, of r' "passes @ [now]"] v by (simp add: r'_def calls_of_def)
    then show ?thesis using e False v by (simp add: allow_reference_def [of _ _ now])
  qed
qed simp

text \<open>the limiter of the language model, which prunes its timestamps on every call, decides every call of a sender as the reference that
  forgets nothing: it passes exactly when fewer than the limit of the sender's calls passed in the window before it.\<close>

theorem sliding_window_exact:
  assumes "sorted calls"
  shows "results (\<lambda>now. Allow_sender now senderID) calls (NewRateLimiter limit window) =
    results (allow_reference (if limit \<le> 0 then 20 else limit) (if window \<le> 0 then minute else window)) calls []"
proof (cases calls)
  case (Cons t ts)
  then show ?thesis using sliding_simulation [of t calls "NewRateLimiter limit window" senderID "[]"] assms
    by (simp add: NewRateLimiter_def calls_of_def DefaultRateLimit_def)
qed simp

theorem sliding_window_exact_witness:
  "results (\<lambda>now. Allow_sender now ''@u'') [5, 6, 7, 16] (NewRateLimiter 2 10) = [True, True, False, True] \<and>
   results (allow_reference 2 10) [5, 6, 7, 16] [] = [True, True, False, True]"
proof -
  have "results (\<lambda>now. Allow_sender now ''@u'') [5, 6, 7, 16] (NewRateLimiter 2 10) = results (allow_reference 2 10) [5, 6, 7, 16] []"
    using sliding_window_exact [of "[5, 6, 7, 16]" "''@u''" 2 10] by simp
  moreover have "results (allow_reference 2 10) [5, 6, 7, 16] [] = [True, True, False, True]" by code_simp
  ultimately show ?thesis by simp
qed

subsection \<open>The budget\<close>

text \<open>What is recorded counts until the next midnight and not beyond.\<close>

lemma budget_of_today:
  assumes "map_of (tb_usage tb) k = Some u" "du_resetAt u = nextMidnightUTC a" "a \<le> now" "now mod (24 * hour) \<noteq> 0"
  shows "fst (Used now k tb) = (if day_number now = day_number a then du_tokens u else 0)"
proof -
  let ?d = "24 * hour"
  have d: "0 < ?d" by (simp add: hour_def)
  have "now > nextMidnightUTC a \<longleftrightarrow> day_number now \<noteq> day_number a"
  proof
    assume "now > nextMidnightUTC a"
    then have "(day_number a + 1) * ?d \<le> now" by (simp add: nextMidnightUTC_def)
    then have "day_number a + 1 \<le> now div ?d" using d by (metis nonzero_mult_div_cancel_right order_less_irrefl zdiv_mono1)
    then show "day_number now \<noteq> day_number a" by (simp add: day_number_def)
  next
    assume "day_number now \<noteq> day_number a"
    moreover have "day_number a \<le> day_number now" unfolding day_number_def by (rule zdiv_mono1 [OF assms(3) d])
    ultimately have "day_number a + 1 \<le> day_number now" by simp
    then have "nextMidnightUTC a \<le> day_number now * ?d" unfolding nextMidnightUTC_def using d by (simp add: mult_right_mono)
    moreover have "day_number now * ?d + now mod ?d = now" unfolding day_number_def by (rule div_mult_mod_eq)
    moreover have "0 < now mod ?d" using assms(4) pos_mod_sign [OF d, of now] by linarith
    ultimately show "now > nextMidnightUTC a" by linarith
  qed
  then show ?thesis using assms(1,2) by (simp add: Used_def resetIfNeeded_def Let_def)
qed

lemma recorded_usage:
  "fst (Used now k (RecordUsage now now2 k n tb)) = fst (Used now k tb) + n" if "now \<le> nextMidnightUTC now2"
  using that by (auto simp: Used_def RecordUsage_def resetIfNeeded_def Let_def split: option.splits)

lemma budget_refuses_when_spent: "fst (Allow_tokens now k tb) \<longleftrightarrow> fst (Used now k tb) < tb_budget tb \<or> map_of (tb_usage (snd (Used now k tb))) k = None"
  by (auto simp: Allow_tokens_def Used_def resetIfNeeded_def Let_def split: option.splits)

end
