(* ===== verification/Acp_Server.thy ===== *)
theory Acp_Server
  imports Webhook_Auth Rate_Limits Gosuto_Validate
begin

section \<open>The agent's control server\<close>

text \<open>
  \<^verbatim>\<open>internal/gitai/control/server.go\<close>, with the wire types of \<^verbatim>\<open>common/spec/acp/types.go\<close>: the HTTP server through which the control
  plane steers an agent and through which gateways deliver events.
  What the server delegates to is the record \<open>Handlers\<close> of callbacks on the world \<open>'w\<close>; the decoders of request bodies, the keyed hash
  and the Kuze endpoint are \<open>Wire\<close>.  A request carries what the handlers read: method, path (clean, as the multiplexer has it), headers, peer
  address, the bytes of the body with the error that follows them, and the clock at the start and at the end.
  The body of a response is kept as the value that is encoded.  A restart or a cancellation, which the code starts in a goroutine, takes
  effect at once.
  \<open>serve_acp\<close> serves one request without interruption; theory \<open>Acp_Concurrency\<close> splits it into the steps between which the code holds no lock.
  What is refused without the token and which events reach the agent is shown in \<open>Acp_Safety\<close>.
\<close>

subsection \<open>Wire types\<close>

record ConfigApplyRequest =
  ca_YAML :: string
  ca_Hash :: string

record SecretLease =
  sl_SecretRef :: string
  sl_RedemptionToken :: string
  sl_KuzeURL :: string

record ApprovalDecisionRequest =
  ad_ApprovalID :: string
  ad_Decision :: string
  ad_DecidedBy :: string
  ad_Reason :: string

record ToolCallRequest =
  tc_ToolRef :: string
  tc_Args :: "gmap option"
  tc_Sender :: string

record kuzeRedeemResponse =
  kr_SecretRef :: string
  kr_SecretType :: string
  kr_Value :: string

datatype acp_body =
    NoBody
  | PlainBody string
  | ErrorBody string
  | StatusField string
  | HealthBody string string
  | StatusBody string string string int gotime "string list" int
  | ToolResult string

record AcpRequest =
  ar_Method :: string
  ar_Path :: string
  ar_Authorization :: string
  ar_IdempotencyKey :: string
  ar_Signature :: string
  ar_RemoteAddr :: string
  ar_Body :: string
  ar_ReadError :: "string option"
  ar_now :: gotime
  ar_done :: gotime

record AcpResponse =
  rp_Status :: nat
  rp_Body :: acp_body

record 'w Wire =
  wi_config :: "string \<Rightarrow> string option \<Rightarrow> string + ConfigApplyRequest"
  wi_secrets :: "string \<Rightarrow> string option \<Rightarrow> string + (string \<times> string) list"
  wi_leases :: "string \<Rightarrow> string option \<Rightarrow> string + SecretLease list"
  wi_decision :: "string \<Rightarrow> string option \<Rightarrow> string + ApprovalDecisionRequest"
  wi_tool :: "string \<Rightarrow> string option \<Rightarrow> string + ToolCallRequest"
  wi_event :: "string \<Rightarrow> string + Event"
  wi_redeemed :: "string \<Rightarrow> string + kuzeRedeemResponse"
  wi_unmarshal :: "string \<Rightarrow> string + gvalue"
  wi_hmac :: hmac_fn
  wi_kuze :: "string \<Rightarrow> string \<Rightarrow> 'w \<Rightarrow> (string + nat \<times> (string + string)) \<times> 'w"

record 'w Handlers =
  hd_AgentID :: string
  hd_Version :: string
  hd_StartedAt :: gotime
  hd_Token :: string
  hd_DirectSecretPushEnabled :: bool
  hd_GosutoHash :: "('w \<Rightarrow> string) option"
  hd_MCPNames :: "('w \<Rightarrow> string list) option"
  hd_ApplyConfig :: "(string \<Rightarrow> string \<Rightarrow> 'w \<Rightarrow> fault \<times> 'w) option"
  hd_ApplySecrets :: "((string \<times> string) list \<Rightarrow> 'w \<Rightarrow> fault \<times> 'w) option"
  hd_RequestRestart :: "('w \<Rightarrow> 'w) option"
  hd_RequestCancel :: "('w \<Rightarrow> 'w) option"
  hd_RecordApprovalDecision :: "(string \<Rightarrow> string \<Rightarrow> string \<Rightarrow> string \<Rightarrow> 'w \<Rightarrow> fault \<times> 'w) option"
  hd_ExecuteTool :: "(string \<Rightarrow> string \<Rightarrow> gmap \<Rightarrow> 'w \<Rightarrow> (string + string) \<times> 'w) option"
  hd_ActiveConfig :: "('w \<Rightarrow> Config option) option"
  hd_GetSecret :: "(string \<Rightarrow> 'w \<Rightarrow> string + nat list) option"
  hd_HandleEvent :: "(Event \<Rightarrow> 'w \<Rightarrow> 'w) option"
  hd_MessagesOutbound :: "('w \<Rightarrow> int) option"

subsection \<open>Idempotency\<close>

definition idempotencyTTL :: int where "idempotencyTTL = 60 * second"

record idempotencyEntry =
  ie_status :: nat
  ie_body :: acp_body
  ie_expiresAt :: gotime

record 'w AcpServer =
  as_cache :: "(string \<times> idempotencyEntry) list"
  as_limiter :: KeyedFixedWindow
  as_world :: 'w

definition New_acp :: "'w \<Rightarrow> 'w AcpServer" where
  "New_acp w = \<lparr>as_cache = [], as_limiter = newEventRateLimiter, as_world = w\<rparr>"

definition cache_get :: "gotime \<Rightarrow> string \<Rightarrow> (string \<times> idempotencyEntry) list \<Rightarrow> idempotencyEntry option" where
  "cache_get now key entries = (case map_of entries key of
       None \<Rightarrow> None
     | Some e \<Rightarrow> if now > ie_expiresAt e then None else Some e)"

definition cache_set :: "gotime \<Rightarrow> string \<Rightarrow> nat \<Rightarrow> acp_body \<Rightarrow> (string \<times> idempotencyEntry) list \<Rightarrow> (string \<times> idempotencyEntry) list" where
  "cache_set now key status body entries =
     AList.update key \<lparr>ie_status = status, ie_body = body, ie_expiresAt = now + idempotencyTTL\<rparr> entries"

definition writeError :: "nat \<Rightarrow> string \<Rightarrow> AcpResponse" where
  "writeError status msg = \<lparr>rp_Status = status, rp_Body = ErrorBody msg\<rparr>"

definition methodNotAllowed :: AcpResponse where
  "methodNotAllowed = \<lparr>rp_Status = 405, rp_Body = PlainBody ''method not allowed''\<rparr>"

text \<open>The replay at the start of the mutating handlers, and the entry at their end.\<close>

definition replay :: "AcpRequest \<Rightarrow> 'w AcpServer \<Rightarrow> AcpResponse option" where
  "replay r s =
     (if ar_IdempotencyKey r = [] then None
      else map_option (\<lambda>e. \<lparr>rp_Status = ie_status e, rp_Body = ie_body e\<rparr>) (cache_get (ar_now r) (ar_IdempotencyKey r) (as_cache s)))"

definition remember :: "AcpRequest \<Rightarrow> nat \<Rightarrow> acp_body \<Rightarrow> 'w AcpServer \<Rightarrow> 'w AcpServer" where
  "remember r status body s =
     (if ar_IdempotencyKey r = [] then s
      else s\<lparr>as_cache := cache_set (ar_done r) (ar_IdempotencyKey r) status body (as_cache s)\<rparr>)"

subsection \<open>Handlers\<close>

definition handleHealth :: "'w Handlers \<Rightarrow> AcpRequest \<Rightarrow> 'w AcpServer \<Rightarrow> AcpResponse \<times> 'w AcpServer" where
  "handleHealth h r s =
     (if ar_Method r \<noteq> ''GET'' then (methodNotAllowed, s)
      else (\<lparr>rp_Status = 200, rp_Body = HealthBody ''ok'' (hd_AgentID h)\<rparr>, s))"

definition handleStatus :: "'w Handlers \<Rightarrow> AcpRequest \<Rightarrow> 'w AcpServer \<Rightarrow> AcpResponse \<times> 'w AcpServer" where
  "handleStatus h r s =
     (if ar_Method r \<noteq> ''GET'' then (methodNotAllowed, s)
      else (\<lparr>rp_Status = 200, rp_Body = StatusBody (hd_AgentID h) (hd_Version h)
          (case hd_GosutoHash h of Some f \<Rightarrow> f (as_world s) | None \<Rightarrow> []) (ar_now r - hd_StartedAt h) (hd_StartedAt h)
          (case hd_MCPNames h of Some f \<Rightarrow> f (as_world s) | None \<Rightarrow> []) (case hd_MessagesOutbound h of Some f \<Rightarrow> f (as_world s) | None \<Rightarrow> 0)\<rparr>, s))"

definition handleConfigApply :: "'w Wire \<Rightarrow> 'w Handlers \<Rightarrow> AcpRequest \<Rightarrow> 'w AcpServer \<Rightarrow> AcpResponse \<times> 'w AcpServer" where
  "handleConfigApply wi h r s =
     (if ar_Method r \<noteq> ''POST'' then (methodNotAllowed, s)
      else (case replay r s of
              Some resp \<Rightarrow> (resp, s)
            | None \<Rightarrow>
                (case wi_config wi (ar_Body r) (ar_ReadError r) of
                   Inl e \<Rightarrow> (writeError 400 (''invalid request: '' @ e), s)
                 | Inr req \<Rightarrow>
                     (case hd_ApplyConfig h of
                        None \<Rightarrow> (writeError 503 ''config apply not available'', s)
                      | Some f \<Rightarrow>
                          (case f (ca_YAML req) (ca_Hash req) (as_world s) of
                             (Some e, w) \<Rightarrow> (writeError 422 e, s\<lparr>as_world := w\<rparr>)
                           | (None, w) \<Rightarrow> (\<lparr>rp_Status = 200, rp_Body = NoBody\<rparr>, remember r 200 NoBody (s\<lparr>as_world := w\<rparr>)))))))"

definition handleSecretsApply :: "'w Wire \<Rightarrow> 'w Handlers \<Rightarrow> AcpRequest \<Rightarrow> 'w AcpServer \<Rightarrow> AcpResponse \<times> 'w AcpServer" where
  "handleSecretsApply wi h r s =
     (if ar_Method r \<noteq> ''POST'' then (methodNotAllowed, s)
      else if \<not> hd_DirectSecretPushEnabled h
      then (writeError 410 ''direct secret push is disabled; use POST /secrets/token with Kuze token redemption'', s)
      else (case replay r s of
              Some resp \<Rightarrow> (resp, s)
            | None \<Rightarrow>
                (case wi_secrets wi (ar_Body r) (ar_ReadError r) of
                   Inl e \<Rightarrow> (writeError 400 (''invalid request: '' @ e), s)
                 | Inr secrets \<Rightarrow>
                     (case hd_ApplySecrets h of
                        None \<Rightarrow> (writeError 503 ''secrets apply not available'', s)
                      | Some f \<Rightarrow>
                          (case f secrets (as_world s) of
                             (Some e, w) \<Rightarrow> (writeError 422 e, s\<lparr>as_world := w\<rparr>)
                           | (None, w) \<Rightarrow> (\<lparr>rp_Status = 200, rp_Body = NoBody\<rparr>, remember r 200 NoBody (s\<lparr>as_world := w\<rparr>)))))))"

definition maxRedeemResponseBytes :: int where "maxRedeemResponseBytes = 64 * 1024"

text \<open>What \<^verbatim>\<open>io.LimitReader\<close> lets through.\<close>

definition limit_reader :: "int \<Rightarrow> string \<Rightarrow> string" where
  "limit_reader n s = (if int (length s) \<le> n then s else take (nat n) s)"

text \<open>The reply of Kuze is a status and the bytes of the body or the error while reading them.\<close>

definition redeemLease :: "'w Wire \<Rightarrow> 'w Handlers \<Rightarrow> SecretLease \<Rightarrow> 'w \<Rightarrow> (string + string) \<times> 'w" where
  "redeemLease wi h lease w =
     (if sl_KuzeURL lease = [] then (Inl (''empty kuze_url for secret '' @ go_quote (sl_SecretRef lease)), w)
      else (case wi_kuze wi (sl_KuzeURL lease) (hd_AgentID h) w of
              (Inl e, w1) \<Rightarrow> (Inl (''kuze GET '' @ go_quote (sl_KuzeURL lease) @ '': '' @ e), w1)
            | (Inr (status, Inl e), w1) \<Rightarrow> (Inl (''read kuze response: '' @ e), w1)
            | (Inr (status, Inr full), w1) \<Rightarrow>
                (let body = limit_reader maxRedeemResponseBytes full in
                 if status \<noteq> 200
                 then (Inl (''kuze returned '' @ itoa (int status) @ '' for '' @ go_quote (sl_SecretRef lease) @ '': '' @ take 200 (trim_space body)), w1)
                 else (case wi_redeemed wi body of
                         Inl e \<Rightarrow> (Inl (''decode kuze response for '' @ go_quote (sl_SecretRef lease) @ '': '' @ e), w1)
                       | Inr kr \<Rightarrow>
                           if kr_Value kr = [] then (Inl (''kuze returned empty value for '' @ go_quote (sl_SecretRef lease)), w1)
                           else (Inr (kr_Value kr), w1)))))"

fun redeemLeases :: "'w Wire \<Rightarrow> 'w Handlers \<Rightarrow> SecretLease list \<Rightarrow> (string \<times> string) list \<Rightarrow> 'w \<Rightarrow> (string \<times> string) list \<times> 'w" where
  "redeemLeases wi h [] redeemed w = (redeemed, w)"
| "redeemLeases wi h (lease # leases) redeemed w = (case redeemLease wi h lease w of
       (Inl e, w1) \<Rightarrow> redeemLeases wi h leases redeemed w1
     | (Inr val, w1) \<Rightarrow> redeemLeases wi h leases (AList.update (sl_SecretRef lease) val redeemed) w1)"

definition handleSecretsToken :: "'w Wire \<Rightarrow> 'w Handlers \<Rightarrow> AcpRequest \<Rightarrow> 'w AcpServer \<Rightarrow> AcpResponse \<times> 'w AcpServer" where
  "handleSecretsToken wi h r s =
     (if ar_Method r \<noteq> ''POST'' then (methodNotAllowed, s)
      else (case replay r s of
              Some resp \<Rightarrow> (resp, s)
            | None \<Rightarrow>
                (case wi_leases wi (ar_Body r) (ar_ReadError r) of
                   Inl e \<Rightarrow> (writeError 400 (''invalid request: '' @ e), s)
                 | Inr leases \<Rightarrow>
                     if leases = [] then (\<lparr>rp_Status = 200, rp_Body = NoBody\<rparr>, s)
                     else (case hd_ApplySecrets h of
                             None \<Rightarrow> (writeError 503 ''secrets apply not available'', s)
                           | Some f \<Rightarrow>
                               (case redeemLeases wi h leases [] (as_world s) of (redeemed, w) \<Rightarrow>
                                  if redeemed = []
                                  then (writeError 502 (''all '' @ itoa (int (length leases)) @ '' secret redemption(s) failed''), s\<lparr>as_world := w\<rparr>)
                                  else (case f redeemed w of
                                          (Some e, w1) \<Rightarrow> (writeError 422 e, s\<lparr>as_world := w1\<rparr>)
                                        | (None, w1) \<Rightarrow>
                                            (\<lparr>rp_Status = 200, rp_Body = NoBody\<rparr>, remember r 200 NoBody (s\<lparr>as_world := w1\<rparr>))))))))"

definition handleRestart :: "'w Handlers \<Rightarrow> AcpRequest \<Rightarrow> 'w AcpServer \<Rightarrow> AcpResponse \<times> 'w AcpServer" where
  "handleRestart h r s =
     (if ar_Method r \<noteq> ''POST'' then (methodNotAllowed, s)
      else (case replay r s of
              Some resp \<Rightarrow> (resp, s)
            | None \<Rightarrow> (\<lparr>rp_Status = 202, rp_Body = StatusField ''restarting''\<rparr>,
                remember r 202 (StatusField ''restarting'')
                  (case hd_RequestRestart h of Some f \<Rightarrow> s\<lparr>as_world := f (as_world s)\<rparr> | None \<Rightarrow> s))))"

definition handleCancel :: "'w Handlers \<Rightarrow> AcpRequest \<Rightarrow> 'w AcpServer \<Rightarrow> AcpResponse \<times> 'w AcpServer" where
  "handleCancel h r s =
     (if ar_Method r \<noteq> ''POST'' then (methodNotAllowed, s)
      else (case replay r s of
              Some resp \<Rightarrow> (resp, s)
            | None \<Rightarrow>
                (case hd_RequestCancel h of
                   None \<Rightarrow> (writeError 503 ''task cancel not available'', s)
                 | Some f \<Rightarrow> (\<lparr>rp_Status = 202, rp_Body = StatusField ''cancelling''\<rparr>,
                     remember r 202 (StatusField ''cancelling'') (s\<lparr>as_world := f (as_world s)\<rparr>)))))"

definition handleApprovalDecision :: "'w Wire \<Rightarrow> 'w Handlers \<Rightarrow> AcpRequest \<Rightarrow> 'w AcpServer \<Rightarrow> AcpResponse \<times> 'w AcpServer" where
  "handleApprovalDecision wi h r s =
     (if ar_Method r \<noteq> ''POST'' then (methodNotAllowed, s)
      else (case hd_RecordApprovalDecision h of
              None \<Rightarrow> (writeError 503 ''approval decision handling not available'', s)
            | Some f \<Rightarrow>
                (case wi_decision wi (ar_Body r) (ar_ReadError r) of
                   Inl e \<Rightarrow> (writeError 400 (''invalid request: '' @ e), s)
                 | Inr req \<Rightarrow>
                     (let approvalID = trim_space (ad_ApprovalID req); decision = trim_space (to_lower (ad_Decision req)) in
                      if approvalID = [] then (writeError 400 ''approval_id is required'', s)
                      else if decision \<noteq> ''approve'' \<and> decision \<noteq> ''deny''
                      then (writeError 400 (''decision must be '' @ [CHR 0x27] @ ''approve'' @ [CHR 0x27] @ '' or '' @ [CHR 0x27] @ ''deny'' @ [CHR 0x27]), s)
                      else (case f approvalID decision (ad_DecidedBy req) (ad_Reason req) (as_world s) of
                              (Some e, w) \<Rightarrow> (writeError 422 e, s\<lparr>as_world := w\<rparr>)
                            | (None, w) \<Rightarrow> (\<lparr>rp_Status = 202, rp_Body = StatusField ''recorded''\<rparr>, s\<lparr>as_world := w\<rparr>))))))"

definition handleToolCall :: "'w Wire \<Rightarrow> 'w Handlers \<Rightarrow> AcpRequest \<Rightarrow> 'w AcpServer \<Rightarrow> AcpResponse \<times> 'w AcpServer" where
  "handleToolCall wi h r s =
     (if ar_Method r \<noteq> ''POST'' then (methodNotAllowed, s)
      else (case replay r s of
              Some resp \<Rightarrow> (resp, s)
            | None \<Rightarrow>
                (case hd_ExecuteTool h of
                   None \<Rightarrow> (writeError 503 ''tool execution not available'', s)
                 | Some f \<Rightarrow>
                     (case wi_tool wi (ar_Body r) (ar_ReadError r) of
                        Inl e \<Rightarrow> (writeError 400 (''invalid request: '' @ e), s)
                      | Inr req \<Rightarrow>
                          if trim_space (tc_ToolRef req) = [] then (writeError 400 ''tool_ref must not be empty'', s)
                          else (let args = (case tc_Args req of None \<Rightarrow> [] | Some m \<Rightarrow> m);
                                    sender = (if trim_space (tc_Sender req) = [] then ''ruriko'' else trim_space (tc_Sender req))
                                in case f sender (tc_ToolRef req) args (as_world s) of
                                     (Inl e, w) \<Rightarrow> (writeError 422 e, s\<lparr>as_world := w\<rparr>)
                                   | (Inr result, w) \<Rightarrow> (\<lparr>rp_Status = 200, rp_Body = ToolResult result\<rparr>,
                                       remember r 200 (ToolResult result) (s\<lparr>as_world := w\<rparr>)))))))"

subsection \<open>Events\<close>

definition maxEventBodyBytes :: int where "maxEventBodyBytes = 1024 * 1024"

text \<open>\<^verbatim>\<open>io.ReadAll\<close> on a limited reader: the limit can be reached before the error.\<close>

definition read_limited :: "AcpRequest \<Rightarrow> string + string" where
  "read_limited r =
     (if int (length (ar_Body r)) \<ge> maxEventBodyBytes then Inr (limit_reader maxEventBodyBytes (ar_Body r))
      else (case ar_ReadError r of Some e \<Rightarrow> Inl e | None \<Rightarrow> Inr (ar_Body r)))"

text \<open>\<^verbatim>\<open>net.SplitHostPort\<close>: the host, or \<open>None\<close> for a malformed address.\<close>

definition split_host :: "string \<Rightarrow> string option" where
  "split_host a = (case last_index_of a '':'' of
       None \<Rightarrow> None
     | Some i \<Rightarrow>
         (case (if has_prefix a ''[''
                then (case index_of a '']'' of
                        None \<Rightarrow> None
                      | Some e \<Rightarrow> if e + 1 = i then Some (take (e - 1) (drop 1 a), 1, e + 1) else None)
                else (if str_contains (take i a) '':'' then None else Some (take i a, 0, 0))) of
            None \<Rightarrow> None
          | Some (host, j, k) \<Rightarrow> if str_contains (drop j a) ''['' \<or> str_contains (drop k a) '']'' then None else Some host))"

definition isLocalhost :: "AcpRequest \<Rightarrow> bool" where
  "isLocalhost r = (let host = (case split_host (ar_RemoteAddr r) of Some x \<Rightarrow> x | None \<Rightarrow> ar_RemoteAddr r) in
     host = ''127.0.0.1'' \<or> host = ''::1'' \<or> host = ''localhost'')"

definition bearer_error :: "'w Handlers \<Rightarrow> AcpRequest \<Rightarrow> AcpResponse option" where
  "bearer_error h r =
     (if \<not> has_prefix (ar_Authorization r) ''Bearer '' then Some (writeError 401 ''missing bearer token'')
      else if drop (length ''Bearer '') (ar_Authorization r) \<noteq> hd_Token h then Some (writeError 401 ''invalid bearer token'')
      else None)"

definition event_error_text :: "event_error \<Rightarrow> string" where
  "event_error_text e = (case e of
       EventNil \<Rightarrow> ''event must not be nil'' | EmptySource \<Rightarrow> ''source must not be empty''
     | EmptyType \<Rightarrow> ''type must not be empty'' | ZeroTime \<Rightarrow> ''ts must not be zero'')"

definition rate_limited :: "string \<Rightarrow> int \<Rightarrow> AcpResponse" where
  "rate_limited source n = writeError 429 (''rate limit exceeded for gateway '' @ go_quote source @ '' ('' @ itoa n @ '' events/min)'')"

definition deliver :: "'w Handlers \<Rightarrow> Event \<Rightarrow> 'w AcpServer \<Rightarrow> AcpResponse \<times> 'w AcpServer" where
  "deliver h evt s = (case hd_HandleEvent h of
       None \<Rightarrow> (writeError 503 ''event handling not available'', s)
     | Some f \<Rightarrow> (\<lparr>rp_Status = 202, rp_Body = StatusField ''queued''\<rparr>, s\<lparr>as_world := f evt (as_world s)\<rparr>))"

text \<open>Why a webhook delivery is not authentic, if it is not.\<close>

definition webhook_error :: "'w Wire \<Rightarrow> 'w Handlers \<Rightarrow> Gateway \<Rightarrow> AcpRequest \<Rightarrow> string \<Rightarrow> 'w \<Rightarrow> AcpResponse option" where
  "webhook_error wi h gw r rawBody w =
     (let authType = (if cfg_get (gw_Config gw) ''authType'' = [] then ''bearer'' else cfg_get (gw_Config gw) ''authType'') in
      if authType = ''bearer'' then (if hd_Token h \<noteq> [] \<and> \<not> isLocalhost r then bearer_error h r else None)
      else if authType = ''hmac-sha256'' then
        (let hmacRef = cfg_get (gw_Config gw) ''hmacSecretRef'' in
         if ar_Signature r = [] then Some (writeError 401 ''missing X-Hub-Signature-256 header'')
         else if hmacRef = [] then Some (writeError 500 ''webhook gateway misconfigured: hmacSecretRef is empty'')
         else (case hd_GetSecret h of
                 None \<Rightarrow> Some (writeError 503 ''secret lookup not available; cannot validate HMAC signature'')
               | Some f \<Rightarrow>
                   (case f hmacRef w of
                      Inl e \<Rightarrow> Some (writeError 401 ''HMAC secret not available'')
                    | Inr secret \<Rightarrow> if VerifyHMACSHA256 (wi_hmac wi) secret rawBody (ar_Signature r) then None
                        else Some (writeError 401 ''invalid HMAC signature''))))
      else Some (writeError 400 (''unsupported webhook authType '' @ go_quote authType)))"

definition handleWebhookEvent ::
    "'w Wire \<Rightarrow> 'w Handlers \<Rightarrow> string \<Rightarrow> Gateway \<Rightarrow> int \<Rightarrow> AcpRequest \<Rightarrow> 'w AcpServer \<Rightarrow> AcpResponse \<times> 'w AcpServer"
where
  "handleWebhookEvent wi h source gw maxEventsPerMinute r s = (case read_limited r of
       Inl e \<Rightarrow> (writeError 400 (''failed to read webhook body: '' @ e), s)
     | Inr rawBody \<Rightarrow>
         (case webhook_error wi h gw r rawBody (as_world s) of
            Some resp \<Rightarrow> (resp, s)
          | None \<Rightarrow>
              (case allow_event (ar_now r) source maxEventsPerMinute (as_limiter s) of
                 (False, l) \<Rightarrow> (rate_limited source maxEventsPerMinute, s\<lparr>as_limiter := l\<rparr>)
               | (True, l) \<Rightarrow> deliver h (WrapRawWebhookBody (wi_unmarshal wi) (ar_done r) source rawBody) (s\<lparr>as_limiter := l\<rparr>))))"

definition handlePlainEvent ::
    "'w Wire \<Rightarrow> 'w Handlers \<Rightarrow> string \<Rightarrow> int \<Rightarrow> AcpRequest \<Rightarrow> 'w AcpServer \<Rightarrow> AcpResponse \<times> 'w AcpServer"
where
  "handlePlainEvent wi h source maxEventsPerMinute r s =
     (case (if hd_Token h \<noteq> [] \<and> \<not> isLocalhost r then bearer_error h r else None) of
        Some resp \<Rightarrow> (resp, s)
      | None \<Rightarrow>
          (case read_limited r of
             Inl e \<Rightarrow> (writeError 400 (''failed to read request body: '' @ e), s)
           | Inr body \<Rightarrow>
               (case wi_event wi body of
                  Inl e \<Rightarrow> (writeError 400 (''invalid JSON: '' @ e), s)
                | Inr evt \<Rightarrow>
                    (case Event_Validate (Some evt) of
                       Some e \<Rightarrow> (writeError 400 (''invalid event envelope: '' @ event_error_text e), s)
                     | None \<Rightarrow>
                         if ev_Source evt \<noteq> source
                         then (writeError 400 (''envelope source '' @ go_quote (ev_Source evt) @ '' does not match URL source '' @ go_quote source), s)
                         else (case allow_event (ar_now r) source maxEventsPerMinute (as_limiter s) of
                                 (False, l) \<Rightarrow> (rate_limited source maxEventsPerMinute, s\<lparr>as_limiter := l\<rparr>)
                               | (True, l) \<Rightarrow> deliver h evt (s\<lparr>as_limiter := l\<rparr>))))))"

definition active_config :: "'w Handlers \<Rightarrow> 'w \<Rightarrow> Config option" where
  "active_config h w = (case hd_ActiveConfig h of None \<Rightarrow> None | Some f \<Rightarrow> f w)"

definition handleEventIngress :: "'w Wire \<Rightarrow> 'w Handlers \<Rightarrow> string \<Rightarrow> AcpRequest \<Rightarrow> 'w AcpServer \<Rightarrow> AcpResponse \<times> 'w AcpServer" where
  "handleEventIngress wi h source r s =
     (if ar_Method r \<noteq> ''POST'' then (methodNotAllowed, s)
      else if source = [] then (writeError 400 ''missing event source in path'', s)
      else (case active_config h (as_world s) of
              None \<Rightarrow> handlePlainEvent wi h source 0 r s
            | Some cfg \<Rightarrow>
                (case find (\<lambda>g. gw_Name g = source) (cf_Gateways cfg) of
                   None \<Rightarrow> (writeError 404 (''unknown gateway source '' @ go_quote source), s)
                 | Some gw \<Rightarrow>
                     if gw_Type gw = ''webhook'' then handleWebhookEvent wi h source gw (li_MaxEventsPerMinute (cf_Limits cfg)) r s
                     else handlePlainEvent wi h source (li_MaxEventsPerMinute (cf_Limits cfg)) r s)))"

subsection \<open>Routing\<close>

definition inner_mux :: "'w Wire \<Rightarrow> 'w Handlers \<Rightarrow> AcpRequest \<Rightarrow> 'w AcpServer \<Rightarrow> AcpResponse \<times> 'w AcpServer" where
  "inner_mux wi h r s =
     (let p = ar_Path r in
      if p = ''/health'' then handleHealth h r s
      else if p = ''/status'' then handleStatus h r s
      else if p = ''/config/apply'' then handleConfigApply wi h r s
      else if p = ''/secrets/apply'' then handleSecretsApply wi h r s
      else if p = ''/secrets/token'' then handleSecretsToken wi h r s
      else if p = ''/process/restart'' then handleRestart h r s
      else if p = ''/tasks/cancel'' then handleCancel h r s
      else if p = ''/approvals/decision'' then handleApprovalDecision wi h r s
      else if p = ''/tools/call'' then handleToolCall wi h r s
      else (\<lparr>rp_Status = 404, rp_Body = PlainBody ''404 page not found''\<rparr>, s))"

definition authMiddleware :: "'w Wire \<Rightarrow> 'w Handlers \<Rightarrow> AcpRequest \<Rightarrow> 'w AcpServer \<Rightarrow> AcpResponse \<times> 'w AcpServer" where
  "authMiddleware wi h r s =
     (if hd_Token h = [] then inner_mux wi h r s
      else (case bearer_error h r of Some resp \<Rightarrow> (resp, s) | None \<Rightarrow> inner_mux wi h r s))"

definition event_source :: "string \<Rightarrow> string option" where
  "event_source p =
     (let source = trim_prefix p ''/events/'' in
      if has_prefix p ''/events/'' \<and> source \<noteq> [] \<and> \<not> str_contains source ''/'' then Some source else None)"

definition serve_acp :: "'w Wire \<Rightarrow> 'w Handlers \<Rightarrow> AcpRequest \<Rightarrow> 'w AcpServer \<Rightarrow> AcpResponse \<times> 'w AcpServer" where
  "serve_acp wi h r s = (case event_source (ar_Path r) of
       Some source \<Rightarrow> handleEventIngress wi h source r s
     | None \<Rightarrow> authMiddleware wi h r s)"

end
