(* ===== verification/Acp_Safety.thy ===== *)
theory Acp_Safety
  imports Acp_Server
begin

section \<open>What the control server lets through\<close>

text \<open>
  Properties of the server of theory \<open>Acp_Server\<close>: authentication and event ingress.
\<close>

subsection \<open>Authentication\<close>

lemma bearer_error_None: "bearer_error h r = None \<longleftrightarrow> ar_Authorization r = ''Bearer '' @ hd_Token h"
  by (auto simp: bearer_error_def has_prefix_iff)

lemma bearer_error_Some: "bearer_error h r = Some resp \<Longrightarrow> rp_Status resp = 401"
  by (auto simp: bearer_error_def writeError_def split: if_splits)

text \<open>on every path but that of events, a request without the agent's bearer token is answered 401 and changes nothing: no callback runs, no
  cached answer is given away, no cache entry is made.\<close>

theorem acp_needs_token:
  assumes "hd_Token h \<noteq> []" "event_source (ar_Path r) = None" "ar_Authorization r \<noteq> ''Bearer '' @ hd_Token h"
  shows "\<exists>resp. serve_acp wi h r s = (resp, s) \<and> rp_Status resp = 401"
proof -
  obtain resp where "bearer_error h r = Some resp" using assms(3) bearer_error_None [of h r] by auto
  with assms(1,2) bearer_error_Some [OF this] show ?thesis by (simp add: serve_acp_def authMiddleware_def)
qed

definition sample_hook :: Gateway where
  "sample_hook = \<lparr>gw_Name = ''gh'', gw_Type = ''webhook'', gw_Command = [], gw_Args = [], gw_Env = [],
     gw_Config = [(''authType'', ''hmac-sha256''), (''hmacSecretRef'', ''k'')], gw_AutoRestart = False\<rparr>"

definition sample_handlers :: "string list Handlers" where
  "sample_handlers = \<lparr>hd_AgentID = ''a'', hd_Version = ''1'', hd_StartedAt = 0, hd_Token = ''tok'', hd_DirectSecretPushEnabled = False,
     hd_GosutoHash = None, hd_MCPNames = None, hd_ApplyConfig = Some (\<lambda>y x w. (None, w @ [''config''])),
     hd_ApplySecrets = Some (\<lambda>sec w. (None, w @ map snd sec)), hd_RequestRestart = Some (\<lambda>w. w @ [''restart'']),
     hd_RequestCancel = Some (\<lambda>w. w @ [''cancel'']), hd_RecordApprovalDecision = None, hd_ExecuteTool = Some (\<lambda>x t a w. (Inr ''done'', w @ [t])),
     hd_ActiveConfig = Some (\<lambda>w. Some (zero_Config\<lparr>cf_Gateways := [sample_hook]\<rparr>)),
     hd_GetSecret = Some (\<lambda>ref w. Inr [1]), hd_HandleEvent = Some (\<lambda>evt w. w @ [ev_Source evt]), hd_MessagesOutbound = None\<rparr>"

definition sample_wire :: "string list Wire" where
  "sample_wire = \<lparr>wi_config = (\<lambda>b e. Inr \<lparr>ca_YAML = b, ca_Hash = []\<rparr>), wi_secrets = (\<lambda>b e. Inr [(b, b)]),
     wi_leases = (\<lambda>b e. Inr [\<lparr>sl_SecretRef = ''k'', sl_RedemptionToken = ''t'', sl_KuzeURL = ''u''\<rparr>]), wi_decision = (\<lambda>b e. Inl ''syntax''),
     wi_tool = (\<lambda>b e. Inr \<lparr>tc_ToolRef = b, tc_Args = None, tc_Sender = []\<rparr>), wi_event = (\<lambda>b. Inl ''syntax''),
     wi_redeemed = (\<lambda>b. Inr \<lparr>kr_SecretRef = ''k'', kr_SecretType = [], kr_Value = b\<rparr>), wi_unmarshal = (\<lambda>b. Inl ''syntax''),
     wi_hmac = (\<lambda>k b. [202, 254]), wi_kuze = (\<lambda>u a w. (Inr (200, Inr ''v''), w))\<rparr>"

definition sample_acp_request :: "string \<Rightarrow> string \<Rightarrow> gotime \<Rightarrow> AcpRequest" where
  "sample_acp_request path key now = \<lparr>ar_Method = ''POST'', ar_Path = path, ar_Authorization = ''Bearer tok'', ar_IdempotencyKey = key,
     ar_Signature = ''sha256=cafe'', ar_RemoteAddr = ''10.0.0.9:4242'', ar_Body = ''x'', ar_ReadError = None, ar_now = now, ar_done = now\<rparr>"

theorem acp_needs_token_witness:
  "\<exists>resp. serve_acp sample_wire sample_handlers ((sample_acp_request ''/process/restart'' ''k'' 1)\<lparr>ar_Authorization := ''Bearer x''\<rparr>) (New_acp [])
     = (resp, New_acp []) \<and> rp_Status resp = 401"
  by (rule acp_needs_token) (code_simp, simp add: sample_acp_request_def event_source_def has_prefix_def, code_simp)

subsection \<open>Events\<close>

text \<open>What makes an event request authentic: the caller is local or has the token, unless the gateway wants signed deliveries.\<close>

definition token_ok :: "'w Handlers \<Rightarrow> AcpRequest \<Rightarrow> bool" where
  "token_ok h r \<longleftrightarrow> hd_Token h = [] \<or> isLocalhost r \<or> ar_Authorization r = ''Bearer '' @ hd_Token h"

definition signed_gateway :: "Gateway \<Rightarrow> bool" where
  "signed_gateway gw \<longleftrightarrow> gw_Type gw = ''webhook'' \<and> cfg_get (gw_Config gw) ''authType'' = ''hmac-sha256''"

definition signature_ok :: "'w Wire \<Rightarrow> 'w Handlers \<Rightarrow> Gateway \<Rightarrow> AcpRequest \<Rightarrow> 'w \<Rightarrow> bool" where
  "signature_ok wi h gw r w \<longleftrightarrow> (\<exists>f secret. hd_GetSecret h = Some f \<and> f (cfg_get (gw_Config gw) ''hmacSecretRef'') w = Inr secret \<and>
     VerifyHMACSHA256 (wi_hmac wi) secret (limit_reader maxEventBodyBytes (ar_Body r)) (ar_Signature r))"

lemma read_limited_body: "read_limited r = Inr b \<Longrightarrow> b = limit_reader maxEventBodyBytes (ar_Body r)"
  by (auto simp: read_limited_def limit_reader_def split: if_splits option.splits)

lemma webhook_authentic:
  assumes "webhook_error wi h gw r b w = None" "read_limited r = Inr b" "gw_Type gw = ''webhook''"
  shows "if signed_gateway gw then signature_ok wi h gw r w else token_ok h r"
  using assms read_limited_body [OF assms(2)]
  by (auto simp: webhook_error_def Let_def signed_gateway_def signature_ok_def token_ok_def bearer_error_None
      split: if_splits option.splits sum.splits)

lemma deliver_world:
  "deliver h evt s = (resp, s') \<Longrightarrow> as_world s' \<noteq> as_world s \<Longrightarrow>
     \<exists>f. hd_HandleEvent h = Some f \<and> as_world s' = f evt (as_world s) \<and> rp_Status resp = 202"
  by (auto simp: deliver_def split: option.splits)

lemma plain_event_world:
  assumes "handlePlainEvent wi h source n r s = (resp, s')" "as_world s' \<noteq> as_world s"
  shows "token_ok h r \<and> fst (allow_event (ar_now r) source n (as_limiter s)) \<and>
    (\<exists>f evt. hd_HandleEvent h = Some f \<and> as_world s' = f evt (as_world s) \<and> ev_Source evt = source \<and> rp_Status resp = 202)"
  using assms unfolding handlePlainEvent_def token_ok_def
  by (auto simp: bearer_error_None split: if_splits option.splits sum.splits prod.splits bool.splits dest!: deliver_world)

lemma webhook_event_world:
  assumes "handleWebhookEvent wi h source gw n r s = (resp, s')" "as_world s' \<noteq> as_world s" "gw_Type gw = ''webhook''"
  shows "(if signed_gateway gw then signature_ok wi h gw r (as_world s) else token_ok h r) \<and>
    fst (allow_event (ar_now r) source n (as_limiter s)) \<and>
    (\<exists>f evt. hd_HandleEvent h = Some f \<and> as_world s' = f evt (as_world s) \<and> ev_Source evt = source \<and> rp_Status resp = 202)"
proof -
  from assms(1,2) obtain b where b: "read_limited r = Inr b" by (auto simp: handleWebhookEvent_def split: sum.splits)
  from assms(1,2) b have e: "webhook_error wi h gw r b (as_world s) = None" by (auto simp: handleWebhookEvent_def split: option.splits)
  let ?evt = "WrapRawWebhookBody (wi_unmarshal wi) (ar_done r) source b"
  have src: "ev_Source ?evt = source" by (simp add: WrapRawWebhookBody_def Let_def)
  obtain ok l where l: "allow_event (ar_now r) source n (as_limiter s) = (ok, l)" by (cases "allow_event (ar_now r) source n (as_limiter s)")
  with assms(1,2) b e have ok: "ok" and d: "deliver h ?evt (s\<lparr>as_limiter := l\<rparr>) = (resp, s')"
    by (auto simp: handleWebhookEvent_def split: bool.splits)
  from deliver_world [OF d] assms(2) obtain f where "hd_HandleEvent h = Some f" "as_world s' = f ?evt (as_world s)" "rp_Status resp = 202" by auto
  with src ok l webhook_authentic [OF e b assms(3)] show ?thesis by auto
qed

text \<open>C20: an event makes the agent act only if it is a POST that carries the source of its path and is authentic.  When the agent has an active configuration,
  the source must be one of its gateways and the event within the limit of events; for a gateway with signed deliveries the signature over the body must
  verify under the configured secret, for every other gateway the caller must be local or have the token.  As long as there is no active
  configuration every source is accepted, without a limit, from a caller that is local or has the token.\<close>

theorem event_admission:
  assumes "event_source (ar_Path r) = Some source" "serve_acp wi h r s = (resp, s')" "as_world s' \<noteq> as_world s"
  shows "ar_Method r = ''POST'' \<and> rp_Status resp = 202 \<and>
    (\<exists>f evt. hd_HandleEvent h = Some f \<and> as_world s' = f evt (as_world s) \<and> ev_Source evt = source) \<and>
    (case active_config h (as_world s) of
       None \<Rightarrow> token_ok h r
     | Some cfg \<Rightarrow> \<exists>gw \<in> set (cf_Gateways cfg). gw_Name gw = source \<and>
         fst (allow_event (ar_now r) source (li_MaxEventsPerMinute (cf_Limits cfg)) (as_limiter s)) \<and>
         (if signed_gateway gw then signature_ok wi h gw r (as_world s) else token_ok h r))"
proof -
  from assms(1,2) have i: "handleEventIngress wi h source r s = (resp, s')" by (simp add: serve_acp_def)
  with assms(3) have post: "ar_Method r = ''POST''" "source \<noteq> []" by (auto simp: handleEventIngress_def split: if_splits)
  show ?thesis
  proof (cases "active_config h (as_world s)")
    case None
    with i post have "handlePlainEvent wi h source 0 r s = (resp, s')" by (simp add: handleEventIngress_def)
    from plain_event_world [OF this assms(3)] post None show ?thesis by auto
  next
    case (Some cfg)
    with i post assms(3) obtain gw where gw: "find (\<lambda>g. gw_Name g = source) (cf_Gateways cfg) = Some gw"
      by (auto simp: handleEventIngress_def split: option.splits)
    then have mem: "gw \<in> set (cf_Gateways cfg)" "gw_Name gw = source" by (auto simp: find_Some_iff)
    let ?n = "li_MaxEventsPerMinute (cf_Limits cfg)"
    show ?thesis
    proof (cases "gw_Type gw = ''webhook''")
      case True
      with i post Some gw have "handleWebhookEvent wi h source gw ?n r s = (resp, s')" by (simp add: handleEventIngress_def)
      from webhook_event_world [OF this assms(3) True] post Some mem show ?thesis by auto
    next
      case False
      with i post Some gw have "handlePlainEvent wi h source ?n r s = (resp, s')" by (simp add: handleEventIngress_def)
      from plain_event_world [OF this assms(3)] post Some mem False show ?thesis by (auto simp: signed_gateway_def)
    qed
  qed
qed

theorem event_admission_witness:
  "\<exists>resp s' gw. serve_acp sample_wire sample_handlers ((sample_acp_request ''/events/gh'' [] 1)\<lparr>ar_Authorization := []\<rparr>) (New_acp []) = (resp, s') \<and>
     signed_gateway gw \<and> signature_ok sample_wire sample_handlers gw ((sample_acp_request ''/events/gh'' [] 1)\<lparr>ar_Authorization := []\<rparr>) []"
proof -
  let ?r = "(sample_acp_request ''/events/gh'' [] 1)\<lparr>ar_Authorization := []\<rparr>"
  obtain resp s' where s: "serve_acp sample_wire sample_handlers ?r (New_acp []) = (resp, s')"
    by (cases "serve_acp sample_wire sample_handlers ?r (New_acp [])")
  have p: "event_source (ar_Path ?r) = Some ''gh''" by code_simp
  have "as_world (snd (serve_acp sample_wire sample_handlers ?r (New_acp []))) = [''gh'']" by code_simp
  then have "as_world s' = [''gh'']" by (simp add: s)
  then have "as_world s' \<noteq> as_world (New_acp [])" by (simp add: New_acp_def)
  moreover have "active_config sample_handlers (as_world (New_acp [])) = Some (zero_Config\<lparr>cf_Gateways := [sample_hook]\<rparr>)"
    by (simp add: active_config_def sample_handlers_def)
  moreover have "signed_gateway sample_hook" by code_simp
  ultimately have "signature_ok sample_wire sample_handlers sample_hook ?r (as_world (New_acp []))"
    using event_admission [OF p s] by auto
  with s \<open>signed_gateway sample_hook\<close> show ?thesis by (auto simp: New_acp_def)
qed

end
