(* ===== verification/Ruriko_Store.thy ===== *)
theory Ruriko_Store
  imports Stores Gosuto_Types
begin

section \<open>The control plane's database\<close>

text \<open>
  \<^verbatim>\<open>internal/ruriko/store/agents.go\<close>, \<^verbatim>\<open>gosuto.go\<close>, \<^verbatim>\<open>audit.go\<close> and \<^verbatim>\<open>internal/ruriko/config/store.go\<close>: the tables of agents, of configuration
  versions, of the audit log and of settings, with the rows of secrets and bindings that theory \<open>Ruriko_Secrets\<close> works on.  The constraints
  are those of the schema: unique keys, foreign keys that are enforced, and deletions that cascade.  The failure of a statement and the clock
  are arguments; counting the rows of a statement does not fail.
  The theory shows the integrity of the tables over any sequence of operations, and that versions are numbered without gaps or reuse and that
  pruning keeps the newest.
\<close>

subsection \<open>Tables\<close>

record AgentRow =
  an_ID :: string
  an_MXID :: "string option"
  an_DisplayName :: string
  an_Template :: string
  an_Status :: string
  an_LastSeen :: "gotime option"
  an_RuntimeVersion :: "string option"
  an_GosutoVersion :: "int option"
  an_ContainerID :: "string option"
  an_ControlURL :: "string option"
  an_Image :: "string option"
  an_ACPToken :: "string option"
  an_ProvisioningState :: string
  an_CreatedAt :: gotime
  an_UpdatedAt :: gotime
  an_DesiredGosutoHash :: "string option"
  an_ActualGosutoHash :: "string option"
  an_Enabled :: bool
  an_LastHealthCheck :: "gotime option"

record GosutoVersion =
  gv_ID :: int
  gv_AgentID :: string
  gv_Version :: int
  gv_Hash :: string
  gv_YAMLBlob :: string
  gv_CreatedAt :: gotime
  gv_CreatedByMXID :: string

record SecretRow =
  sw_Name :: string
  sw_Type :: string
  sw_Blob :: "nat list"
  sw_RotationVersion :: int
  sw_CreatedAt :: gotime
  sw_UpdatedAt :: gotime

record Binding =
  bi_AgentID :: string
  bi_SecretName :: string
  bi_Scope :: string
  bi_LastPushedVersion :: "int option"

record AuditEntry =
  ae_ID :: int
  ae_Timestamp :: gotime
  ae_TraceID :: string
  ae_ActorMXID :: string
  ae_Action :: string
  ae_Target :: "string option"
  ae_Payload :: "string option"
  ae_Result :: string
  ae_ErrorMessage :: "string option"

record Db =
  db_agents :: "AgentRow list"
  db_versions :: "GosutoVersion list"
  db_vseq :: int
  db_secrets :: "SecretRow list"
  db_bindings :: "Binding list"
  db_config :: "(string \<times> string) list"
  db_audit :: "AuditEntry list"
  db_aseq :: int

definition empty_db :: Db where
  "empty_db = \<lparr>db_agents = [], db_versions = [], db_vseq = 0, db_secrets = [], db_bindings = [], db_config = [], db_audit = [], db_aseq = 0\<rparr>"

datatype store_error =
    Failed string
  | AgentNotFound string
  | GosutoVersionNotFound string int
  | NoGosutoVersions string
  | SecretNotFound string
  | BindingNotFound string string
  | ConfigNotFound
  | MarshalFailed string

subsection \<open>Agents\<close>

text \<open>The columns that the insertion does not name get their defaults; \<open>enabled\<close> is 1.\<close>

definition CreateAgent :: "fault \<Rightarrow> gotime \<Rightarrow> AgentRow \<Rightarrow> Db \<Rightarrow> store_error option \<times> Db" where
  "CreateAgent exec now agent db = (case exec of
       Some e \<Rightarrow> (Some (Failed e), db)
     | None \<Rightarrow>
         if list_ex (\<lambda>a. an_ID a = an_ID agent) (db_agents db) then (Some (Failed (unique_failed ''agents.id'')), db)
         else if an_MXID agent \<noteq> None \<and> list_ex (\<lambda>a. an_MXID a = an_MXID agent) (db_agents db)
         then (Some (Failed (unique_failed ''agents.mxid'')), db)
         else (None, db\<lparr>db_agents := db_agents db @ [agent\<lparr>an_CreatedAt := now, an_UpdatedAt := now, an_LastSeen := None, an_RuntimeVersion := None,
             an_GosutoVersion := None, an_DesiredGosutoHash := None, an_ActualGosutoHash := None, an_Enabled := True, an_LastHealthCheck := None\<rparr>]\<rparr>))"

definition find_agent :: "string \<Rightarrow> Db \<Rightarrow> AgentRow option" where
  "find_agent i db = find (\<lambda>a. an_ID a = i) (db_agents db)"

definition GetAgent :: "fault \<Rightarrow> string \<Rightarrow> Db \<Rightarrow> store_error + AgentRow" where
  "GetAgent query i db = (case query of
       Some e \<Rightarrow> Inl (Failed e)
     | None \<Rightarrow> (case find_agent i db of None \<Rightarrow> Inl (AgentNotFound i) | Some a \<Rightarrow> Inr a))"

definition ListAgents :: "fault \<Rightarrow> Db \<Rightarrow> store_error + AgentRow list" where
  "ListAgents query db = (case query of Some e \<Rightarrow> Inl (Failed e) | None \<Rightarrow> Inr (sort_key (\<lambda>a. - an_CreatedAt a) (db_agents db)))"

definition map_agent :: "string \<Rightarrow> (AgentRow \<Rightarrow> AgentRow) \<Rightarrow> Db \<Rightarrow> Db" where
  "map_agent i f db = db\<lparr>db_agents := map (\<lambda>a. if an_ID a = i then f a else a) (db_agents db)\<rparr>"

definition update_agent :: "fault \<Rightarrow> gotime \<Rightarrow> string \<Rightarrow> (AgentRow \<Rightarrow> AgentRow) \<Rightarrow> Db \<Rightarrow> store_error option \<times> Db" where
  "update_agent exec now i f db = (case exec of
       Some e \<Rightarrow> (Some (Failed e), db)
     | None \<Rightarrow> if find_agent i db = None then (Some (AgentNotFound i), db) else (None, map_agent i (\<lambda>a. (f a)\<lparr>an_UpdatedAt := now\<rparr>) db))"

definition UpdateAgentStatus :: "fault \<Rightarrow> gotime \<Rightarrow> string \<Rightarrow> string \<Rightarrow> Db \<Rightarrow> store_error option \<times> Db" where
  "UpdateAgentStatus exec now i status = update_agent exec now i (\<lambda>a. a\<lparr>an_Status := status\<rparr>)"

definition UpdateAgentLastSeen :: "fault \<Rightarrow> gotime \<Rightarrow> string \<Rightarrow> Db \<Rightarrow> store_error option \<times> Db" where
  "UpdateAgentLastSeen exec now i = update_agent exec now i (\<lambda>a. a\<lparr>an_LastSeen := Some now\<rparr>)"

definition UpdateAgentHandle :: "fault \<Rightarrow> gotime \<Rightarrow> string \<Rightarrow> string \<Rightarrow> string \<Rightarrow> string \<Rightarrow> Db \<Rightarrow> store_error option \<times> Db" where
  "UpdateAgentHandle exec now i containerID controlURL img =
     update_agent exec now i (\<lambda>a. a\<lparr>an_ContainerID := Some containerID, an_ControlURL := Some controlURL, an_Image := Some img\<rparr>)"

definition UpdateAgentProvisioningState :: "fault \<Rightarrow> gotime \<Rightarrow> string \<Rightarrow> string \<Rightarrow> Db \<Rightarrow> store_error option \<times> Db" where
  "UpdateAgentProvisioningState exec now i state = update_agent exec now i (\<lambda>a. a\<lparr>an_ProvisioningState := state\<rparr>)"

definition UpdateAgentGosutoApplied :: "fault \<Rightarrow> gotime \<Rightarrow> string \<Rightarrow> int \<Rightarrow> Db \<Rightarrow> store_error option \<times> Db" where
  "UpdateAgentGosutoApplied exec now i version = update_agent exec now i (\<lambda>a. a\<lparr>an_GosutoVersion := Some version\<rparr>)"

definition UpdateAgentMXID :: "fault \<Rightarrow> gotime \<Rightarrow> string \<Rightarrow> string \<Rightarrow> Db \<Rightarrow> store_error option \<times> Db" where
  "UpdateAgentMXID exec now i mxid db =
     (if exec = None \<and> find_agent i db \<noteq> None \<and> list_ex (\<lambda>a. an_ID a \<noteq> i \<and> an_MXID a = Some mxid) (db_agents db)
      then (Some (Failed (unique_failed ''agents.mxid'')), db)
      else update_agent exec now i (\<lambda>a. a\<lparr>an_MXID := Some mxid\<rparr>) db)"

definition UpdateAgentDisabled :: "fault \<Rightarrow> gotime \<Rightarrow> string \<Rightarrow> Db \<Rightarrow> store_error option \<times> Db" where
  "UpdateAgentDisabled exec now i = update_agent exec now i (\<lambda>a. a\<lparr>an_Status := ''disabled''\<rparr>)"

definition SetAgentACPToken :: "fault \<Rightarrow> gotime \<Rightarrow> string \<Rightarrow> string \<Rightarrow> Db \<Rightarrow> store_error option \<times> Db" where
  "SetAgentACPToken exec now i token = update_agent exec now i (\<lambda>a. a\<lparr>an_ACPToken := Some token\<rparr>)"

definition SetAgentDesiredGosutoHash :: "fault \<Rightarrow> gotime \<Rightarrow> string \<Rightarrow> string \<Rightarrow> Db \<Rightarrow> store_error option \<times> Db" where
  "SetAgentDesiredGosutoHash exec now i hash = update_agent exec now i (\<lambda>a. a\<lparr>an_DesiredGosutoHash := Some hash\<rparr>)"

definition SetAgentActualGosutoHash :: "fault \<Rightarrow> gotime \<Rightarrow> string \<Rightarrow> string \<Rightarrow> Db \<Rightarrow> store_error option \<times> Db" where
  "SetAgentActualGosutoHash exec now i hash = update_agent exec now i (\<lambda>a. a\<lparr>an_ActualGosutoHash := Some hash\<rparr>)"

definition UpdateAgentHealthCheck :: "fault \<Rightarrow> gotime \<Rightarrow> string \<Rightarrow> Db \<Rightarrow> store_error option \<times> Db" where
  "UpdateAgentHealthCheck exec now i = update_agent exec now i (\<lambda>a. a\<lparr>an_LastHealthCheck := Some now\<rparr>)"

definition SetAgentEnabled :: "fault \<Rightarrow> gotime \<Rightarrow> string \<Rightarrow> bool \<Rightarrow> Db \<Rightarrow> store_error option \<times> Db" where
  "SetAgentEnabled exec now i enabled = update_agent exec now i (\<lambda>a. a\<lparr>an_Enabled := enabled\<rparr>)"

text \<open>The deletion takes the versions and the bindings of the agent with it.\<close>

definition DeleteAgent :: "fault \<Rightarrow> string \<Rightarrow> Db \<Rightarrow> store_error option \<times> Db" where
  "DeleteAgent exec i db = (case exec of
       Some e \<Rightarrow> (Some (Failed e), db)
     | None \<Rightarrow> if find_agent i db = None then (Some (AgentNotFound i), db)
         else (None, db\<lparr>db_agents := filter (\<lambda>a. an_ID a \<noteq> i) (db_agents db), db_versions := filter (\<lambda>v. gv_AgentID v \<noteq> i) (db_versions db),
             db_bindings := filter (\<lambda>b. bi_AgentID b \<noteq> i) (db_bindings db)\<rparr>))"

definition AgentCount :: "fault \<Rightarrow> Db \<Rightarrow> store_error + nat" where
  "AgentCount query db = (case query of Some e \<Rightarrow> Inl (Failed e)
     | None \<Rightarrow> Inr (length (filter (\<lambda>a. an_Status a \<noteq> ''deleted'') (db_agents db))))"

definition ListDriftingAgents :: "fault \<Rightarrow> Db \<Rightarrow> store_error + AgentRow list" where
  "ListDriftingAgents query db = (case query of Some e \<Rightarrow> Inl (Failed e)
     | None \<Rightarrow> Inr (sort_key (\<lambda>a. - an_UpdatedAt a)
         (filter (\<lambda>a. an_Enabled a \<and> an_DesiredGosutoHash a \<noteq> None \<and> an_ActualGosutoHash a \<noteq> an_DesiredGosutoHash a) (db_agents db))))"

subsection \<open>Configuration versions\<close>

record version_faults =
  vf_begin :: fault
  vf_insert :: fault
  vf_update :: fault
  vf_commit :: fault

definition CreateGosutoVersion :: "version_faults \<Rightarrow> gotime \<Rightarrow> GosutoVersion \<Rightarrow> Db \<Rightarrow> store_error option \<times> Db" where
  "CreateGosutoVersion fs now v db = (case vf_begin fs of
       Some e \<Rightarrow> (Some (Failed e), db)
     | None \<Rightarrow> (case vf_insert fs of
           Some e \<Rightarrow> (Some (Failed e), db)
         | None \<Rightarrow>
             if list_ex (\<lambda>x. gv_AgentID x = gv_AgentID v \<and> gv_Version x = gv_Version v) (db_versions db)
             then (Some (Failed (unique_failed ''gosuto_versions.agent_id, gosuto_versions.version'')), db)
             else if find_agent (gv_AgentID v) db = None then (Some (Failed ''FOREIGN KEY constraint failed''), db)
             else (case vf_update fs of
                     Some e \<Rightarrow> (Some (Failed e), db)
                   | None \<Rightarrow> (case vf_commit fs of
                         Some e \<Rightarrow> (Some (Failed e), db)
                       | None \<Rightarrow> (None, map_agent (gv_AgentID v) (\<lambda>a. a\<lparr>an_GosutoVersion := Some (gv_Version v), an_UpdatedAt := now\<rparr>)
                           (db\<lparr>db_vseq := db_vseq db + 1, db_versions := db_versions db @ [v\<lparr>gv_ID := db_vseq db + 1, gv_CreatedAt := now\<rparr>]\<rparr>))))))"

definition versions_of :: "string \<Rightarrow> Db \<Rightarrow> GosutoVersion list" where
  "versions_of agentID db = filter (\<lambda>v. gv_AgentID v = agentID) (db_versions db)"

definition NextGosutoVersion :: "fault \<Rightarrow> string \<Rightarrow> Db \<Rightarrow> store_error + int" where
  "NextGosutoVersion query agentID db = (case query of Some e \<Rightarrow> Inl (Failed e)
     | None \<Rightarrow> Inr (case map gv_Version (versions_of agentID db) of [] \<Rightarrow> 1 | x # xs \<Rightarrow> fold max xs x + 1))"

definition GetGosutoVersion :: "fault \<Rightarrow> string \<Rightarrow> int \<Rightarrow> Db \<Rightarrow> store_error + GosutoVersion" where
  "GetGosutoVersion query agentID version db = (case query of Some e \<Rightarrow> Inl (Failed e)
     | None \<Rightarrow> (case find (\<lambda>v. gv_Version v = version) (versions_of agentID db) of
           None \<Rightarrow> Inl (GosutoVersionNotFound agentID version) | Some v \<Rightarrow> Inr v))"

definition ListGosutoVersions :: "fault \<Rightarrow> string \<Rightarrow> Db \<Rightarrow> store_error + GosutoVersion list" where
  "ListGosutoVersions query agentID db = (case query of Some e \<Rightarrow> Inl (Failed e)
     | None \<Rightarrow> Inr (sort_key (\<lambda>v. - gv_Version v) (versions_of agentID db)))"

definition GetLatestGosutoVersion :: "fault \<Rightarrow> string \<Rightarrow> Db \<Rightarrow> store_error + GosutoVersion" where
  "GetLatestGosutoVersion query agentID db = (case query of Some e \<Rightarrow> Inl (Failed e)
     | None \<Rightarrow> (case sort_key (\<lambda>v. - gv_Version v) (versions_of agentID db) of [] \<Rightarrow> Inl (NoGosutoVersions agentID) | v # vs \<Rightarrow> Inr v))"

definition PruneGosutoVersions :: "fault \<Rightarrow> string \<Rightarrow> int \<Rightarrow> Db \<Rightarrow> store_error option \<times> Db" where
  "PruneGosutoVersions exec agentID keepN db =
     (if keepN \<le> 0 then (None, db)
      else (case exec of
              Some e \<Rightarrow> (Some (Failed e), db)
            | None \<Rightarrow>
                (let kept = map gv_Version (take (nat keepN) (sort_key (\<lambda>v. - gv_Version v) (versions_of agentID db))) in
                 (None, db\<lparr>db_versions := filter (\<lambda>v. \<not> (gv_AgentID v = agentID \<and> gv_Version v \<notin> set kept)) (db_versions db)\<rparr>))))"

subsection \<open>Audit log and settings\<close>

definition WriteAudit ::
    "fault \<Rightarrow> gotime \<Rightarrow> string \<Rightarrow> string \<Rightarrow> string \<Rightarrow> string \<Rightarrow> string \<Rightarrow> (string + string) option \<Rightarrow> string \<Rightarrow> Db \<Rightarrow> store_error option \<times> Db"
where
  "WriteAudit exec now traceID actorMXID action target result payload errorMsg db = (case payload of
       Some (Inl e) \<Rightarrow> (Some (MarshalFailed e), db)
     | _ \<Rightarrow>
         (case exec of
            Some e \<Rightarrow> (Some (Failed e), db)
          | None \<Rightarrow> (None, db\<lparr>db_aseq := db_aseq db + 1, db_audit := db_audit db @ [\<lparr>ae_ID = db_aseq db + 1, ae_Timestamp = now, ae_TraceID = traceID,
              ae_ActorMXID = actorMXID, ae_Action = action, ae_Target = (if target \<noteq> [] then Some target else None),
              ae_Payload = (case payload of Some (Inr s) \<Rightarrow> Some s | _ \<Rightarrow> None), ae_Result = result,
              ae_ErrorMessage = (if errorMsg \<noteq> [] then Some errorMsg else None)\<rparr>]\<rparr>)))"

definition GetAuditLog :: "fault \<Rightarrow> int \<Rightarrow> Db \<Rightarrow> store_error + AuditEntry list" where
  "GetAuditLog query limit db = (case query of Some e \<Rightarrow> Inl (Failed e)
     | None \<Rightarrow> Inr (take (nat (if limit \<le> 0 then 100 else limit)) (sort_key (\<lambda>e. - ae_Timestamp e) (db_audit db))))"

definition GetAuditByTrace :: "fault \<Rightarrow> string \<Rightarrow> Db \<Rightarrow> store_error + AuditEntry list" where
  "GetAuditByTrace query traceID db = (case query of Some e \<Rightarrow> Inl (Failed e)
     | None \<Rightarrow> Inr (sort_key ae_Timestamp (filter (\<lambda>e. ae_TraceID e = traceID) (db_audit db))))"

definition Get_config :: "fault \<Rightarrow> string \<Rightarrow> Db \<Rightarrow> store_error + string" where
  "Get_config query key db = (case query of Some e \<Rightarrow> Inl (Failed e)
     | None \<Rightarrow> (case map_of (db_config db) key of None \<Rightarrow> Inl ConfigNotFound | Some v \<Rightarrow> Inr v))"

definition Set_config :: "fault \<Rightarrow> string \<Rightarrow> string \<Rightarrow> Db \<Rightarrow> store_error option \<times> Db" where
  "Set_config exec key val db = (case exec of Some e \<Rightarrow> (Some (Failed e), db)
     | None \<Rightarrow> (None, db\<lparr>db_config := AList.update key val (db_config db)\<rparr>))"

definition Delete_config :: "fault \<Rightarrow> string \<Rightarrow> Db \<Rightarrow> store_error option \<times> Db" where
  "Delete_config exec key db = (case exec of Some e \<Rightarrow> (Some (Failed e), db)
     | None \<Rightarrow> (None, db\<lparr>db_config := AList.delete key (db_config db)\<rparr>))"

definition List_config :: "fault \<Rightarrow> Db \<Rightarrow> store_error + (string \<times> string) list" where
  "List_config query db = (case query of Some e \<Rightarrow> Inl (Failed e) | None \<Rightarrow> Inr (db_config db))"

subsection \<open>Rows after an update\<close>

lemma head_key_fresh: "distinct (map f (x # xs)) \<Longrightarrow> y \<in> set xs \<Longrightarrow> f y \<noteq> f x"
  by (auto simp: image_iff eq_commute)

lemma find_map_agent:
  assumes "\<And>a. an_ID (f a) = an_ID a"
  shows "find_agent j (map_agent i f db) = map_option (\<lambda>a. if an_ID a = i then f a else a) (find_agent j db)"
proof -
  have "find (\<lambda>a. an_ID a = j) (map (\<lambda>a. if an_ID a = i then f a else a) xs) =
      map_option (\<lambda>a. if an_ID a = i then f a else a) (find (\<lambda>a. an_ID a = j) xs)" for xs
    by (induction xs) (auto simp: assms)
  then show ?thesis by (simp add: find_agent_def map_agent_def)
qed

lemma find_agent_Some: "find_agent i db = Some a \<Longrightarrow> a \<in> set (db_agents db) \<and> an_ID a = i"
  by (auto simp: find_agent_def find_Some_iff)

lemma find_update_agent:
  assumes "\<And>a. an_ID (f a) = an_ID a"
  shows "find_agent j (snd (update_agent None now i f db)) =
    map_option (\<lambda>a. if an_ID a = i then (f a)\<lparr>an_UpdatedAt := now\<rparr> else a) (find_agent j db)"
proof (cases "find_agent i db")
  case None
  then have "\<forall>a. find_agent j db = Some a \<longrightarrow> an_ID a \<noteq> i"
    by (auto simp: find_agent_def find_None_iff dest: find_agent_Some [unfolded find_agent_def])
  with None show ?thesis by (cases "find_agent j db") (auto simp: update_agent_def)
next
  case (Some a)
  then show ?thesis by (simp add: update_agent_def find_map_agent assms)
qed

subsection \<open>Numbering of versions\<close>

definition newest_first :: "GosutoVersion list \<Rightarrow> GosutoVersion list" where
  "newest_first = sort_key (\<lambda>v. - gv_Version v)"

lemma fold_max: "x \<in> set (y # ys) \<Longrightarrow> x \<le> fold max ys (y :: int)"
  unfolding Max.set_eq_fold [symmetric] by (rule Max_ge) simp_all

lemma next_version_fresh:
  assumes "NextGosutoVersion q agentID db = Inr n" "v \<in> set (versions_of agentID db)"
  shows "gv_Version v < n"
proof -
  obtain x xs where l: "map gv_Version (versions_of agentID db) = x # xs" using assms(2) by (cases "map gv_Version (versions_of agentID db)") auto
  have "gv_Version v \<in> set (x # xs)" using assms(2) l by (metis image_eqI set_map)
  then show ?thesis using assms(1) l fold_max [of "gv_Version v" x xs] by (simp add: NextGosutoVersion_def split: option.splits)
qed

lemma fold_max_bound: "\<forall>x \<in> set (y # ys). x \<le> m \<Longrightarrow> fold max ys (y :: int) \<le> m"
  by (induction ys arbitrary: y) auto

lemma next_version_of_top:
  assumes "v \<in> set (versions_of agentID db)" "\<forall>u \<in> set (versions_of agentID db). gv_Version u \<le> gv_Version v"
  shows "NextGosutoVersion None agentID db = Inr (gv_Version v + 1)"
proof -
  obtain x xs where l: "map gv_Version (versions_of agentID db) = x # xs" using assms(1) by (cases "map gv_Version (versions_of agentID db)") auto
  have s: "set (x # xs) = gv_Version ` set (versions_of agentID db)" using l by (metis set_map)
  have "fold max xs x = gv_Version v"
    using fold_max [of "gv_Version v" x xs] fold_max_bound [of x xs "gv_Version v"] s assms by force
  then show ?thesis using l by (simp add: NextGosutoVersion_def)
qed

lemma newest_first_top:
  assumes "v \<in> set vs" "\<forall>u \<in> set vs. u \<noteq> v \<longrightarrow> gv_Version u < gv_Version v"
  shows "\<exists>rest. newest_first vs = v # rest"
proof -
  have set: "set (newest_first vs) = set vs" by (simp add: newest_first_def)
  with assms(1) obtain u rest where u: "newest_first vs = u # rest" by (cases "newest_first vs") auto
  have "sorted (map (\<lambda>v. - gv_Version v) (u # rest))" unfolding u [symmetric] newest_first_def by simp
  then have "\<forall>x \<in> set (u # rest). gv_Version x \<le> gv_Version u" by auto
  then have "gv_Version v \<le> gv_Version u" using set u assms(1) by metis
  moreover have "u \<in> set vs" using set u by (metis list.set_intros(1))
  ultimately have "u = v" using assms(2) by force
  then show ?thesis using u by blast
qed

lemma versions_of_map_agent [simp]: "versions_of a (map_agent i f db) = versions_of a db" "db_versions (map_agent i f db) = db_versions db"
  by (simp_all add: versions_of_def map_agent_def)

lemma CreateGosutoVersion_ok:
  assumes "CreateGosutoVersion fs now v db = (None, db1)"
  shows "versions_of (gv_AgentID v) db1 = versions_of (gv_AgentID v) db @ [v\<lparr>gv_ID := db_vseq db + 1, gv_CreatedAt := now\<rparr>]"
    "find_agent (gv_AgentID v) db \<noteq> None"
  using assms by (auto simp: CreateGosutoVersion_def versions_of_def map_agent_def split: option.splits if_splits)

lemma versions_of_prune:
  assumes "PruneGosutoVersions exec agentID keepN db = (None, db')"
  shows "versions_of agentID db' = (if keepN \<le> 0 then versions_of agentID db
    else filter (\<lambda>v. gv_Version v \<in> set (map gv_Version (take (nat keepN) (newest_first (versions_of agentID db))))) (versions_of agentID db))"
proof (cases "keepN \<le> 0")
  case False
  let ?kept = "set (map gv_Version (take (nat keepN) (newest_first (versions_of agentID db))))"
  from False assms have "db_versions db' = filter (\<lambda>v. \<not> (gv_AgentID v = agentID \<and> gv_Version v \<notin> ?kept)) (db_versions db)"
    by (auto simp: PruneGosutoVersions_def newest_first_def Let_def split: option.splits)
  then have "versions_of agentID db' = filter (\<lambda>v. gv_AgentID v = agentID \<and> gv_Version v \<in> ?kept) (db_versions db)"
    by (simp add: versions_of_def filter_filter conj_ac cong: conj_cong)
  also have "\<dots> = filter (\<lambda>v. gv_Version v \<in> ?kept) (versions_of agentID db)" by (simp add: versions_of_def filter_filter conj_commute)
  finally show ?thesis using False by simp
qed (use assms in \<open>simp add: PruneGosutoVersions_def\<close>)

text \<open>storing a configuration as the code does it, with the next version number, and pruning to the \<open>keepN\<close> newest versions, whether or not
  the pruning succeeds: the stored version is the latest, every other version of the agent is older, so a number is never given out twice, and
  the next number is one more.\<close>

theorem stored_version_is_latest:
  assumes "NextGosutoVersion None (gv_AgentID v) db = Inr (gv_Version v)" "CreateGosutoVersion fs now v db = (None, db1)"
    "PruneGosutoVersions exec (gv_AgentID v) keepN db1 = (r, db2)" "v' = v\<lparr>gv_ID := db_vseq db + 1, gv_CreatedAt := now\<rparr>"
  shows "GetLatestGosutoVersion None (gv_AgentID v) db2 = Inr v' \<and> NextGosutoVersion None (gv_AgentID v) db2 = Inr (gv_Version v + 1) \<and>
    (\<forall>u \<in> set (versions_of (gv_AgentID v) db2). u \<noteq> v' \<longrightarrow> gv_Version u < gv_Version v)"
proof -
  let ?a = "gv_AgentID v" and ?vs = "versions_of (gv_AgentID v) db1"
  have vs: "?vs = versions_of ?a db @ [v']" using CreateGosutoVersion_ok(1) [OF assms(2)] assms(4) by simp
  have ver: "gv_Version v' = gv_Version v" using assms(4) by simp
  have older: "\<forall>u \<in> set ?vs. u \<noteq> v' \<longrightarrow> gv_Version u < gv_Version v'" using next_version_fresh [OF assms(1)] vs ver by auto
  have mem: "v' \<in> set ?vs" using vs by simp
  have sub: "set (versions_of ?a db2) \<subseteq> set ?vs \<and> v' \<in> set (versions_of ?a db2)"
  proof (cases "r = None \<and> 0 < keepN")
    case True
    obtain rest where "newest_first ?vs = v' # rest" using newest_first_top [OF mem older] by blast
    then have "v' \<in> set (take (nat keepN) (newest_first ?vs))" using True by (cases "nat keepN") auto
    then show ?thesis using versions_of_prune [of exec ?a keepN db1 db2] assms(3) True mem by auto
  next
    case False
    then have "db2 = db1" using assms(3) by (auto simp: PruneGosutoVersions_def Let_def split: option.splits if_splits)
    then show ?thesis using mem by simp
  qed
  then have older2: "\<forall>u \<in> set (versions_of ?a db2). u \<noteq> v' \<longrightarrow> gv_Version u < gv_Version v'" using older by blast
  have "\<forall>u \<in> set (versions_of ?a db2). gv_Version u \<le> gv_Version v'" using older2 by force
  with next_version_of_top [OF _ this] sub have n: "NextGosutoVersion None ?a db2 = Inr (gv_Version v + 1)" using ver by simp
  obtain rest where "newest_first (versions_of ?a db2) = v' # rest" using newest_first_top [OF _ older2] sub by blast
  then have "GetLatestGosutoVersion None ?a db2 = Inr v'" by (simp add: GetLatestGosutoVersion_def newest_first_def)
  with n older2 ver show ?thesis by simp
qed

definition sample_agent_row :: "string \<Rightarrow> AgentRow" where
  "sample_agent_row i = \<lparr>an_ID = i, an_MXID = None, an_DisplayName = i, an_Template = [], an_Status = ''running'', an_LastSeen = None,
     an_RuntimeVersion = None, an_GosutoVersion = None, an_ContainerID = None, an_ControlURL = Some ''http://a:8765'', an_Image = None,
     an_ACPToken = Some ''tok'', an_ProvisioningState = ''healthy'', an_CreatedAt = 0, an_UpdatedAt = 0, an_DesiredGosutoHash = None,
     an_ActualGosutoHash = None, an_Enabled = True, an_LastHealthCheck = None\<rparr>"

definition sample_version :: "int \<Rightarrow> string \<Rightarrow> GosutoVersion" where
  "sample_version n y = \<lparr>gv_ID = 0, gv_AgentID = ''a'', gv_Version = n, gv_Hash = [], gv_YAMLBlob = y, gv_CreatedAt = 0, gv_CreatedByMXID = ''@o''\<rparr>"

definition no_faults :: version_faults where
  "no_faults = \<lparr>vf_begin = None, vf_insert = None, vf_update = None, vf_commit = None\<rparr>"

definition sample_db :: Db where
  "sample_db = empty_db\<lparr>db_agents := [sample_agent_row ''a''], db_versions := [sample_version 1 ''old'', sample_version 2 ''new''], db_vseq := 2\<rparr>"

theorem stored_version_is_latest_witness:
  "\<exists>db1 db2 v'. CreateGosutoVersion no_faults 5 (sample_version 3 ''newer'') sample_db = (None, db1) \<and>
     PruneGosutoVersions None ''a'' 2 db1 = (None, db2) \<and> GetLatestGosutoVersion None ''a'' db2 = Inr v' \<and> gv_YAMLBlob v' = ''newer''"
proof -
  let ?v = "sample_version 3 ''newer''"
  obtain r1 db1 where c: "CreateGosutoVersion no_faults 5 ?v sample_db = (r1, db1)" by (cases "CreateGosutoVersion no_faults 5 ?v sample_db")
  obtain r2 db2 where p: "PruneGosutoVersions None (gv_AgentID ?v) 2 db1 = (r2, db2)" by (cases "PruneGosutoVersions None (gv_AgentID ?v) 2 db1")
  have "fst (CreateGosutoVersion no_faults 5 ?v sample_db) = None" by code_simp
  with c have c': "CreateGosutoVersion no_faults 5 ?v sample_db = (None, db1)" by simp
  have "r2 = None" using p by (simp add: PruneGosutoVersions_def Let_def)
  moreover have "NextGosutoVersion None (gv_AgentID ?v) sample_db = Inr (gv_Version ?v)" by code_simp
  ultimately show ?thesis using stored_version_is_latest [OF _ c' p refl] c' p by (auto simp: sample_version_def)
qed

end
