(* ===== verification/Ruriko_Secrets.thy ===== *)
theory Ruriko_Secrets
  imports Ruriko_Store Base64
begin

section \<open>Secrets of the control plane\<close>

text \<open>
  \<^verbatim>\<open>common/crypto\<close> and \<^verbatim>\<open>internal/ruriko/secrets/store.go\<close>: encrypted secrets and the bindings that grant them to agents, as operations on the
  database of theory \<open>Ruriko_Store\<close>.  The authenticated cipher is a pair of parameters, \<open>seal\<close> and \<open>unseal\<close>, that are given the key, the nonce and
  the data; that \<open>unseal\<close> undoes \<open>seal\<close> is a hypothesis of the theorems that need it.  Creating the cipher cannot fail for a key of the
  right length, which the code checks first.  The random source yields the nonce or an error.
  The theory shows that a stored secret is read back until it is replaced or deleted, that every replacement makes the secret stale for
  all agents bound to it, and that the tables stay well formed over any sequence of operations of this theory and of \<open>Ruriko_Store\<close>.
\<close>

subsection \<open>Encryption at rest\<close>

type_synonym aead_seal = "nat list \<Rightarrow> nat list \<Rightarrow> nat list \<Rightarrow> nat list"
type_synonym aead_open = "nat list \<Rightarrow> nat list \<Rightarrow> nat list \<Rightarrow> string + nat list"

definition NonceSize :: nat where "NonceSize = 12"
definition KeySize :: nat where "KeySize = 32"

datatype crypt_error =
    ErrInvalidKeySize
  | ErrCiphertextTooShort
  | NonceFailed string
  | OpenFailed string

definition Encrypt :: "aead_seal \<Rightarrow> string + nat list \<Rightarrow> nat list \<Rightarrow> nat list \<Rightarrow> crypt_error + nat list" where
  "Encrypt seal rnd key plaintext =
     (if length key \<noteq> KeySize then Inl ErrInvalidKeySize
      else (case rnd of Inl e \<Rightarrow> Inl (NonceFailed e) | Inr nonce \<Rightarrow> Inr (nonce @ seal key nonce plaintext)))"

definition Decrypt :: "aead_open \<Rightarrow> nat list \<Rightarrow> nat list \<Rightarrow> crypt_error + nat list" where
  "Decrypt unseal key ciphertext =
     (if length key \<noteq> KeySize then Inl ErrInvalidKeySize
      else if length ciphertext < NonceSize then Inl ErrCiphertextTooShort
      else (case unseal key (take NonceSize ciphertext) (drop NonceSize ciphertext) of Inl e \<Rightarrow> Inl (OpenFailed e) | Inr plaintext \<Rightarrow> Inr plaintext))"

datatype key_error =
    KeyEmpty
  | KeyInvalidHex hex_error
  | KeyLength nat

definition ParseMasterKey :: "string \<Rightarrow> key_error + nat list" where
  "ParseMasterKey rawHex =
     (let raw = trim_space rawHex in
      if raw = [] then Inl KeyEmpty
      else (case hex_decode raw of
              Inl e \<Rightarrow> Inl (KeyInvalidHex e)
            | Inr key \<Rightarrow> if length key \<noteq> KeySize then Inl (KeyLength (length key)) else Inr key))"

subsection \<open>Secrets\<close>

datatype secrets_error =
    InStore store_error
  | EncryptFailed crypt_error
  | DecryptFailed crypt_error
  | BadMasterKey

definition New_secrets :: "nat list \<Rightarrow> secrets_error + nat list" where
  "New_secrets masterKey = (if length masterKey \<noteq> KeySize then Inl BadMasterKey else Inr masterKey)"

definition find_secret :: "string \<Rightarrow> Db \<Rightarrow> SecretRow option" where
  "find_secret name db = find (\<lambda>s. sw_Name s = name) (db_secrets db)"

definition upsert_secret :: "gotime \<Rightarrow> string \<Rightarrow> string \<Rightarrow> nat list \<Rightarrow> Db \<Rightarrow> Db" where
  "upsert_secret now name secretType blob db = (case find_secret name db of
       None \<Rightarrow> db\<lparr>db_secrets := db_secrets db @ [\<lparr>sw_Name = name, sw_Type = secretType, sw_Blob = blob, sw_RotationVersion = 1,
         sw_CreatedAt = now, sw_UpdatedAt = now\<rparr>]\<rparr>
     | Some _ \<Rightarrow> db\<lparr>db_secrets := map (\<lambda>s. if sw_Name s = name
         then s\<lparr>sw_Type := secretType, sw_Blob := blob, sw_RotationVersion := sw_RotationVersion s + 1, sw_UpdatedAt := now\<rparr> else s) (db_secrets db)\<rparr>)"

definition Set_secret ::
    "aead_seal \<Rightarrow> string + nat list \<Rightarrow> fault \<Rightarrow> gotime \<Rightarrow> nat list \<Rightarrow> string \<Rightarrow> string \<Rightarrow> nat list \<Rightarrow> Db \<Rightarrow> secrets_error option \<times> Db"
where
  "Set_secret seal rnd exec now masterKey name secretType val db = (case Encrypt seal rnd masterKey val of
       Inl e \<Rightarrow> (Some (EncryptFailed e), db)
     | Inr encrypted \<Rightarrow> (case exec of
           Some e \<Rightarrow> (Some (InStore (Failed e)), db)
         | None \<Rightarrow> (None, upsert_secret now name secretType encrypted db)))"

definition Get_secret :: "aead_open \<Rightarrow> fault \<Rightarrow> nat list \<Rightarrow> string \<Rightarrow> Db \<Rightarrow> secrets_error + nat list" where
  "Get_secret unseal query masterKey name db = (case query of
       Some e \<Rightarrow> Inl (InStore (Failed e))
     | None \<Rightarrow> (case find_secret name db of
           None \<Rightarrow> Inl (InStore (SecretNotFound name))
         | Some s \<Rightarrow> (case Decrypt unseal masterKey (sw_Blob s) of Inl e \<Rightarrow> Inl (DecryptFailed e) | Inr v \<Rightarrow> Inr v)))"

record SecretMeta =
  sx_Name :: string
  sx_Type :: string
  sx_RotationVersion :: int
  sx_CreatedAt :: gotime
  sx_UpdatedAt :: gotime

definition secret_meta :: "SecretRow \<Rightarrow> SecretMeta" where
  "secret_meta s = \<lparr>sx_Name = sw_Name s, sx_Type = sw_Type s, sx_RotationVersion = sw_RotationVersion s, sx_CreatedAt = sw_CreatedAt s,
     sx_UpdatedAt = sw_UpdatedAt s\<rparr>"

definition GetMetadata :: "fault \<Rightarrow> string \<Rightarrow> Db \<Rightarrow> secrets_error + SecretMeta" where
  "GetMetadata query name db = (case query of
       Some e \<Rightarrow> Inl (InStore (Failed e))
     | None \<Rightarrow> (case find_secret name db of None \<Rightarrow> Inl (InStore (SecretNotFound name)) | Some s \<Rightarrow> Inr (secret_meta s)))"

definition List_secrets :: "fault \<Rightarrow> Db \<Rightarrow> secrets_error + SecretMeta list" where
  "List_secrets query db = (case query of
       Some e \<Rightarrow> Inl (InStore (Failed e))
     | None \<Rightarrow> Inr (map secret_meta (sort_key sw_Name (db_secrets db))))"

definition Rotate ::
    "aead_seal \<Rightarrow> string + nat list \<Rightarrow> fault \<Rightarrow> fault \<Rightarrow> gotime \<Rightarrow> nat list \<Rightarrow> string \<Rightarrow> nat list \<Rightarrow> Db \<Rightarrow> secrets_error option \<times> Db"
where
  "Rotate seal rnd query exec now masterKey name newValue db = (case query of
       Some e \<Rightarrow> (Some (InStore (Failed e)), db)
     | None \<Rightarrow> (case find_secret name db of
           None \<Rightarrow> (Some (InStore (SecretNotFound name)), db)
         | Some s \<Rightarrow> Set_secret seal rnd exec now masterKey name (sw_Type s) newValue db))"

text \<open>Bindings refer to secrets: deleting a secret deletes its bindings.\<close>

definition Delete_secret :: "fault \<Rightarrow> string \<Rightarrow> Db \<Rightarrow> secrets_error option \<times> Db" where
  "Delete_secret exec name db = (case exec of
       Some e \<Rightarrow> (Some (InStore (Failed e)), db)
     | None \<Rightarrow> if find_secret name db = None then (Some (InStore (SecretNotFound name)), db)
         else (None, db\<lparr>db_secrets := filter (\<lambda>s. sw_Name s \<noteq> name) (db_secrets db),
             db_bindings := filter (\<lambda>b. bi_SecretName b \<noteq> name) (db_bindings db)\<rparr>))"

subsection \<open>Bindings\<close>

definition binding_is :: "string \<Rightarrow> string \<Rightarrow> Binding \<Rightarrow> bool" where
  "binding_is agentID secretName b \<longleftrightarrow> bi_AgentID b = agentID \<and> bi_SecretName b = secretName"

definition Bind :: "fault \<Rightarrow> string \<Rightarrow> string \<Rightarrow> string \<Rightarrow> Db \<Rightarrow> secrets_error option \<times> Db" where
  "Bind exec agentID secretName scope db = (case exec of
       Some e \<Rightarrow> (Some (InStore (Failed e)), db)
     | None \<Rightarrow>
         if list_ex (binding_is agentID secretName) (db_bindings db)
         then (None, db\<lparr>db_bindings := map (\<lambda>b. if binding_is agentID secretName b then b\<lparr>bi_Scope := scope\<rparr> else b) (db_bindings db)\<rparr>)
         else if find_agent agentID db = None \<or> find_secret secretName db = None
         then (Some (InStore (Failed ''FOREIGN KEY constraint failed'')), db)
         else (None, db\<lparr>db_bindings := db_bindings db @ [\<lparr>bi_AgentID = agentID, bi_SecretName = secretName, bi_Scope = scope,
             bi_LastPushedVersion = Some 0\<rparr>]\<rparr>))"

definition UnbindAll :: "fault \<Rightarrow> string \<Rightarrow> Db \<Rightarrow> (secrets_error + nat) \<times> Db" where
  "UnbindAll exec agentID db = (case exec of
       Some e \<Rightarrow> (Inl (InStore (Failed e)), db)
     | None \<Rightarrow> (Inr (length (filter (\<lambda>b. bi_AgentID b = agentID) (db_bindings db))),
         db\<lparr>db_bindings := filter (\<lambda>b. bi_AgentID b \<noteq> agentID) (db_bindings db)\<rparr>))"

definition Unbind :: "fault \<Rightarrow> string \<Rightarrow> string \<Rightarrow> Db \<Rightarrow> secrets_error option \<times> Db" where
  "Unbind exec agentID secretName db = (case exec of
       Some e \<Rightarrow> (Some (InStore (Failed e)), db)
     | None \<Rightarrow>
         if \<not> list_ex (binding_is agentID secretName) (db_bindings db) then (Some (InStore (BindingNotFound agentID secretName)), db)
         else (None, db\<lparr>db_bindings := filter (\<lambda>b. \<not> binding_is agentID secretName b) (db_bindings db)\<rparr>))"

text \<open>A version that is \<^verbatim>\<open>NULL\<close> cannot be scanned into an integer.\<close>

definition scan_bindings :: "Binding list \<Rightarrow> secrets_error + Binding list" where
  "scan_bindings bs = (if list_ex (\<lambda>b. bi_LastPushedVersion b = None) bs then Inl (InStore (Failed ''scan binding'')) else Inr bs)"

definition ListBindings :: "fault \<Rightarrow> string \<Rightarrow> Db \<Rightarrow> secrets_error + Binding list" where
  "ListBindings query agentID db = (case query of
       Some e \<Rightarrow> Inl (InStore (Failed e))
     | None \<Rightarrow> scan_bindings (sort_key bi_SecretName (filter (\<lambda>b. bi_AgentID b = agentID) (db_bindings db))))"

definition behind :: "Db \<Rightarrow> Binding \<Rightarrow> bool" where
  "behind db b \<longleftrightarrow> (case find_secret (bi_SecretName b) db of
       None \<Rightarrow> False
     | Some s \<Rightarrow> (case bi_LastPushedVersion b of None \<Rightarrow> False | Some n \<Rightarrow> n < sw_RotationVersion s))"

definition StaleBindings :: "fault \<Rightarrow> Db \<Rightarrow> secrets_error + Binding list" where
  "StaleBindings query db = (case query of
       Some e \<Rightarrow> Inl (InStore (Failed e))
     | None \<Rightarrow> scan_bindings (sort_key bi_AgentID (sort_key bi_SecretName (filter (behind db) (db_bindings db)))))"

definition MarkPushed :: "fault \<Rightarrow> string \<Rightarrow> string \<Rightarrow> Db \<Rightarrow> secrets_error option \<times> Db" where
  "MarkPushed exec agentID secretName db = (case exec of
       Some e \<Rightarrow> (Some (InStore (Failed e)), db)
     | None \<Rightarrow> (None, db\<lparr>db_bindings := map (\<lambda>b. if binding_is agentID secretName b
         then b\<lparr>bi_LastPushedVersion := map_option sw_RotationVersion (find_secret (bi_SecretName b) db)\<rparr> else b) (db_bindings db)\<rparr>))"

subsection \<open>Integrity of the database\<close>

text \<open>The label of a step is the name of the secret whose value it may touch.\<close>

inductive db_step :: "string option \<Rightarrow> Db \<Rightarrow> Db \<Rightarrow> bool" where
  step_CreateAgent: "CreateAgent exec now agent db = (r, db') \<Longrightarrow> db_step None db db'"
| step_Status: "UpdateAgentStatus exec now i status db = (r, db') \<Longrightarrow> db_step None db db'"
| step_LastSeen: "UpdateAgentLastSeen exec now i db = (r, db') \<Longrightarrow> db_step None db db'"
| step_Handle: "UpdateAgentHandle exec now i c u img db = (r, db') \<Longrightarrow> db_step None db db'"
| step_Provisioning: "UpdateAgentProvisioningState exec now i state db = (r, db') \<Longrightarrow> db_step None db db'"
| step_GosutoApplied: "UpdateAgentGosutoApplied exec now i version db = (r, db') \<Longrightarrow> db_step None db db'"
| step_MXID: "UpdateAgentMXID exec now i mxid db = (r, db') \<Longrightarrow> db_step None db db'"
| step_Disabled: "UpdateAgentDisabled exec now i db = (r, db') \<Longrightarrow> db_step None db db'"
| step_ACPToken: "SetAgentACPToken exec now i token db = (r, db') \<Longrightarrow> db_step None db db'"
| step_Desired: "SetAgentDesiredGosutoHash exec now i h db = (r, db') \<Longrightarrow> db_step None db db'"
| step_Actual: "SetAgentActualGosutoHash exec now i h db = (r, db') \<Longrightarrow> db_step None db db'"
| step_HealthCheck: "UpdateAgentHealthCheck exec now i db = (r, db') \<Longrightarrow> db_step None db db'"
| step_Enabled: "SetAgentEnabled exec now i enabled db = (r, db') \<Longrightarrow> db_step None db db'"
| step_DeleteAgent: "DeleteAgent exec i db = (r, db') \<Longrightarrow> db_step None db db'"
| step_CreateVersion: "CreateGosutoVersion fs now v db = (r, db') \<Longrightarrow> db_step None db db'"
| step_Prune: "PruneGosutoVersions exec i keepN db = (r, db') \<Longrightarrow> db_step None db db'"
| step_Audit: "WriteAudit exec now traceID actor action target result payload msg db = (r, db') \<Longrightarrow> db_step None db db'"
| step_SetConfig: "Set_config exec k v db = (r, db') \<Longrightarrow> db_step None db db'"
| step_DeleteConfig: "Delete_config exec k db = (r, db') \<Longrightarrow> db_step None db db'"
| step_SetSecret: "Set_secret seal rnd exec now key name secretType val db = (r, db') \<Longrightarrow> db_step (Some name) db db'"
| step_Rotate: "Rotate seal rnd query exec now key name val db = (r, db') \<Longrightarrow> db_step (Some name) db db'"
| step_DeleteSecret: "Delete_secret exec name db = (r, db') \<Longrightarrow> db_step (Some name) db db'"
| step_Bind: "Bind exec agentID name scope db = (r, db') \<Longrightarrow> db_step None db db'"
| step_UnbindAll: "UnbindAll exec agentID db = (q, db') \<Longrightarrow> db_step None db db'"
| step_Unbind: "Unbind exec agentID name db = (r, db') \<Longrightarrow> db_step None db db'"
| step_MarkPushed: "MarkPushed exec agentID name db = (r, db') \<Longrightarrow> db_step None db db'"

definition db_steps :: "Db \<Rightarrow> Db \<Rightarrow> bool" where
  "db_steps = (\<lambda>x y. \<exists>l. db_step l x y)\<^sup>*\<^sup>*"

text \<open>Steps that do not touch the value of one secret.\<close>

definition steps_without :: "string \<Rightarrow> Db \<Rightarrow> Db \<Rightarrow> bool" where
  "steps_without name = (\<lambda>x y. \<exists>l. l \<noteq> Some name \<and> db_step l x y)\<^sup>*\<^sup>*"

definition agents_ok :: "Db \<Rightarrow> bool" where
  "agents_ok db \<longleftrightarrow> distinct (map an_ID (db_agents db)) \<and>
     (\<forall>a \<in> set (db_agents db). \<forall>b \<in> set (db_agents db). an_ID a \<noteq> an_ID b \<longrightarrow> an_MXID a \<noteq> None \<longrightarrow> an_MXID a \<noteq> an_MXID b)"

definition secrets_ok :: "Db \<Rightarrow> bool" where
  "secrets_ok db \<longleftrightarrow> distinct (map sw_Name (db_secrets db)) \<and> (\<forall>s \<in> set (db_secrets db). 1 \<le> sw_RotationVersion s)"

definition agent_ids :: "Db \<Rightarrow> string set" where
  "agent_ids db = set (map an_ID (db_agents db))"

definition pushed_ok :: "SecretRow list \<Rightarrow> Binding \<Rightarrow> bool" where
  "pushed_ok secrets b \<longleftrightarrow> (case bi_LastPushedVersion b of None \<Rightarrow> False
      | Some n \<Rightarrow> 0 \<le> n \<and> (\<exists>s \<in> set secrets. sw_Name s = bi_SecretName b \<and> n \<le> sw_RotationVersion s))"

definition binding_ok :: "Db \<Rightarrow> Binding \<Rightarrow> bool" where
  "binding_ok db b \<longleftrightarrow> bi_AgentID b \<in> agent_ids db \<and> pushed_ok (db_secrets db) b"

definition bindings_ok :: "Db \<Rightarrow> bool" where
  "bindings_ok db \<longleftrightarrow> distinct (map (\<lambda>b. (bi_AgentID b, bi_SecretName b)) (db_bindings db)) \<and> (\<forall>b \<in> set (db_bindings db). binding_ok db b)"

definition versions_ok :: "Db \<Rightarrow> bool" where
  "versions_ok db \<longleftrightarrow> distinct (map (\<lambda>v. (gv_AgentID v, gv_Version v)) (db_versions db)) \<and> distinct (map gv_ID (db_versions db)) \<and>
     (\<forall>v \<in> set (db_versions db). gv_ID v \<le> db_vseq db \<and> gv_AgentID v \<in> agent_ids db)"

definition config_ok :: "Db \<Rightarrow> bool" where
  "config_ok db \<longleftrightarrow> distinct (map fst (db_config db))"

definition db_ok :: "Db \<Rightarrow> bool" where
  "db_ok db \<longleftrightarrow> agents_ok db \<and> secrets_ok db \<and> bindings_ok db \<and> versions_ok db \<and> config_ok db"

lemma find_agent_None: "find_agent i db = None \<longleftrightarrow> i \<notin> agent_ids db"
  by (auto simp: find_agent_def find_None_iff agent_ids_def)

lemma find_secret_None: "find_secret name db = None \<longleftrightarrow> name \<notin> sw_Name ` set (db_secrets db)"
  by (auto simp: find_secret_def find_None_iff)

lemma find_secret_Some: "find_secret name db = Some s \<Longrightarrow> s \<in> set (db_secrets db) \<and> sw_Name s = name"
  by (auto simp: find_secret_def find_Some_iff)

lemma find_secret_unique: "secrets_ok db \<Longrightarrow> s \<in> set (db_secrets db) \<Longrightarrow> find_secret (sw_Name s) db = Some s"
proof (cases "find_secret (sw_Name s) db")
  case (Some t)
  then show "secrets_ok db \<Longrightarrow> s \<in> set (db_secrets db) \<Longrightarrow> ?thesis"
    using find_secret_Some [OF Some] by (auto simp: secrets_ok_def distinct_map dest: inj_onD)
qed (simp add: find_secret_None)

text \<open>What each part of the invariant depends on.\<close>

lemma ok_frames:
  "db_agents db' = db_agents db \<Longrightarrow> agents_ok db' = agents_ok db"
  "db_secrets db' = db_secrets db \<Longrightarrow> secrets_ok db' = secrets_ok db"
  "db_config db' = db_config db \<Longrightarrow> config_ok db' = config_ok db"
  by (simp_all add: agents_ok_def secrets_ok_def config_ok_def)

lemma versions_ok_frame:
  "versions_ok db \<Longrightarrow> db_versions db' = db_versions db \<Longrightarrow> db_vseq db' = db_vseq db \<Longrightarrow>
   agent_ids db \<subseteq> agent_ids db' \<Longrightarrow> versions_ok db'"
  unfolding versions_ok_def by auto

lemma bindings_ok_frame:
  "bindings_ok db \<Longrightarrow> db_bindings db' = db_bindings db \<Longrightarrow> db_secrets db' = db_secrets db \<Longrightarrow>
   agent_ids db \<subseteq> agent_ids db' \<Longrightarrow> bindings_ok db'"
  unfolding bindings_ok_def binding_ok_def by auto

lemma map_agent_ok:
  assumes "db_ok db" "\<And>a. an_ID (f a) = an_ID a" "\<And>a. an_MXID (f a) = an_MXID a"
  shows "db_ok (map_agent i f db)"
proof -
  let ?g = "\<lambda>a. if an_ID a = i then f a else a"
  have g [simp]: "an_ID (?g a) = an_ID a" "an_MXID (?g a) = an_MXID a" for a by (simp_all add: assms(2,3))
  have ags: "db_agents (map_agent i f db) = map ?g (db_agents db)" by (simp add: map_agent_def)
  have m: "map an_ID (map ?g (db_agents db)) = map an_ID (db_agents db)" by simp
  then have ids: "agent_ids (map_agent i f db) = agent_ids db" by (simp only: agent_ids_def ags)
  from m have "agents_ok (map_agent i f db)"
    using assms(1) unfolding db_ok_def agents_ok_def ags by (simp only: set_map ball_simps g) simp
  moreover have "bindings_ok (map_agent i f db)"
    by (rule bindings_ok_frame [of db]) (use assms(1) ids in \<open>simp_all add: db_ok_def map_agent_def\<close>)
  moreover have "versions_ok (map_agent i f db)"
    by (rule versions_ok_frame [of db]) (use assms(1) ids in \<open>simp_all add: db_ok_def map_agent_def\<close>)
  ultimately show ?thesis using assms(1) by (simp add: db_ok_def secrets_ok_def config_ok_def map_agent_def)
qed

lemma pushed_ok_mono:
  assumes "pushed_ok xs b" "\<And>s. s \<in> set xs \<Longrightarrow> sw_Name s = bi_SecretName b \<Longrightarrow>
    \<exists>t \<in> set ys. sw_Name t = sw_Name s \<and> sw_RotationVersion s \<le> sw_RotationVersion t"
  shows "pushed_ok ys b"
proof -
  obtain n s where n: "bi_LastPushedVersion b = Some n" "0 \<le> n" "s \<in> set xs" "sw_Name s = bi_SecretName b" "n \<le> sw_RotationVersion s"
    using assms(1) by (auto simp: pushed_ok_def split: option.splits)
  obtain t where "t \<in> set ys" "sw_Name t = sw_Name s" "sw_RotationVersion s \<le> sw_RotationVersion t" using assms(2) [OF n(3,4)] by blast
  with n show ?thesis by (auto simp: pushed_ok_def intro!: bexI [of _ t])
qed

lemma update_agent_ok:
  assumes "update_agent exec now i f db = (r, db')" "db_ok db" "\<And>a. an_ID (f a) = an_ID a" "\<And>a. an_MXID (f a) = an_MXID a"
  shows "db_ok db'"
  using assms map_agent_ok [OF assms(2), of "\<lambda>a. (f a)\<lparr>an_UpdatedAt := now\<rparr>" i]
  by (auto simp: update_agent_def split: option.splits if_splits)

lemma UpdateAgentMXID_ok:
  assumes "UpdateAgentMXID exec now i mxid db = (r, db')" "db_ok db"
  shows "db_ok db'"
proof (cases "exec = None \<and> find_agent i db \<noteq> None \<and> \<not> list_ex (\<lambda>a. an_ID a \<noteq> i \<and> an_MXID a = Some mxid) (db_agents db)")
  case True
  let ?g = "\<lambda>a. if an_ID a = i then a\<lparr>an_MXID := Some mxid, an_UpdatedAt := now\<rparr> else a"
  have g [simp]: "an_ID (?g a) = an_ID a" for a by simp
  have db': "db' = db\<lparr>db_agents := map ?g (db_agents db)\<rparr>"
    using assms(1) True by (auto simp: UpdateAgentMXID_def update_agent_def map_agent_def split: if_splits)
  have m: "map an_ID (map ?g (db_agents db)) = map an_ID (db_agents db)" by simp
  have "db_agents db' = map ?g (db_agents db)" by (simp add: db')
  with m have ids: "agent_ids db' = agent_ids db" by (simp only: agent_ids_def)
  note m
  moreover have "an_MXID (?g a) \<noteq> an_MXID (?g b)" if "a \<in> set (db_agents db)" "b \<in> set (db_agents db)" "an_ID a \<noteq> an_ID b" "an_MXID (?g a) \<noteq> None" for a b
  proof -
    have free: "an_MXID c \<noteq> Some mxid" if "c \<in> set (db_agents db)" "an_ID c \<noteq> i" for c using True that by (auto simp: list_ex_iff)
    have "an_MXID a \<noteq> an_MXID b" if "an_MXID a \<noteq> None"
      using assms(2) that \<open>a \<in> _\<close> \<open>b \<in> _\<close> \<open>an_ID a \<noteq> an_ID b\<close> by (simp add: db_ok_def agents_ok_def)
    then show ?thesis using that free [of a] free [of b] by (cases "an_ID a = i"; cases "an_ID b = i") auto
  qed
  ultimately have "agents_ok db'"
    using assms(2) \<open>db_agents db' = _\<close> unfolding db_ok_def agents_ok_def by (simp only: set_map ball_simps g) blast
  moreover have "bindings_ok db'" by (rule bindings_ok_frame [of db]) (use assms(2) ids in \<open>simp_all add: db_ok_def db'\<close>)
  moreover have "versions_ok db'" by (rule versions_ok_frame [of db]) (use assms(2) ids in \<open>simp_all add: db_ok_def db'\<close>)
  ultimately show ?thesis using assms(2) by (simp add: db_ok_def secrets_ok_def config_ok_def db')
next
  case False
  then have "db' = db" using assms(1) by (auto simp: UpdateAgentMXID_def update_agent_def split: option.splits if_splits)
  then show ?thesis using assms(2) by simp
qed

lemma CreateAgent_ok:
  assumes "CreateAgent exec now agent db = (r, db')" "db_ok db"
  shows "db_ok db'"
proof (cases "db' = db")
  case False
  obtain agent' where db': "db' = db\<lparr>db_agents := db_agents db @ [agent']\<rparr>" and new: "an_ID agent' = an_ID agent" "an_MXID agent' = an_MXID agent"
    "\<forall>a \<in> set (db_agents db). an_ID a \<noteq> an_ID agent" "\<forall>a \<in> set (db_agents db). an_MXID agent \<noteq> None \<longrightarrow> an_MXID a \<noteq> an_MXID agent"
  proof (rule that)
    let ?a = "agent\<lparr>an_CreatedAt := now, an_UpdatedAt := now, an_LastSeen := None, an_RuntimeVersion := None,
      an_GosutoVersion := None, an_DesiredGosutoHash := None, an_ActualGosutoHash := None, an_Enabled := True, an_LastHealthCheck := None\<rparr>"
    show "db' = db\<lparr>db_agents := db_agents db @ [?a]\<rparr>" "an_ID ?a = an_ID agent" "an_MXID ?a = an_MXID agent"
      using assms(1) False by (simp_all add: CreateAgent_def split: option.splits if_splits)
  qed (use assms(1) False in \<open>auto simp: CreateAgent_def list_ex_iff split: option.splits if_splits\<close>)
  have ids: "agent_ids db \<subseteq> agent_ids db'" by (auto simp: db' agent_ids_def)
  have "agents_ok db'"
    using assms(2) new by (auto simp: db' db_ok_def agents_ok_def)
  moreover have "bindings_ok db'" by (rule bindings_ok_frame [of db, OF _ _ _ ids]) (use assms(2) in \<open>auto simp: db_ok_def db'\<close>)
  moreover have "versions_ok db'" by (rule versions_ok_frame [of db, OF _ _ _ ids]) (use assms(2) in \<open>auto simp: db_ok_def db'\<close>)
  ultimately show ?thesis using assms(2) by (simp add: db_ok_def secrets_ok_def config_ok_def db')
qed (use assms in simp)

lemma DeleteAgent_ok:
  assumes "DeleteAgent exec i db = (r, db')" "db_ok db"
  shows "db_ok db'"
proof (cases "db' = db")
  case False
  then have db': "db' = db\<lparr>db_agents := filter (\<lambda>a. an_ID a \<noteq> i) (db_agents db), db_versions := filter (\<lambda>v. gv_AgentID v \<noteq> i) (db_versions db),
             db_bindings := filter (\<lambda>b. bi_AgentID b \<noteq> i) (db_bindings db)\<rparr>"
    using assms(1) by (auto simp: DeleteAgent_def split: option.splits if_splits)
  have ids: "x \<in> agent_ids db' \<longleftrightarrow> x \<in> agent_ids db \<and> x \<noteq> i" for x by (auto simp: db' agent_ids_def)
  have "agents_ok db'" using assms(2) by (simp add: db' db_ok_def agents_ok_def distinct_map_filter)
  moreover have "bindings_ok db'"
    using assms(2) by (simp add: ids bindings_ok_def binding_ok_def) (simp add: db' db_ok_def bindings_ok_def binding_ok_def distinct_map_filter)
  moreover have "versions_ok db'"
    using assms(2) by (simp add: ids versions_ok_def) (simp add: db' db_ok_def versions_ok_def distinct_map_filter)
  ultimately show ?thesis using assms(2) by (simp add: db_ok_def secrets_ok_def config_ok_def db')
qed (use assms in simp)

lemma CreateGosutoVersion_db_ok:
  assumes "CreateGosutoVersion fs now v db = (r, db')" "db_ok db"
  shows "db_ok db'"
proof (cases "db' = db")
  case False
  let ?v = "v\<lparr>gv_ID := db_vseq db + 1, gv_CreatedAt := now\<rparr>"
  let ?db = "db\<lparr>db_vseq := db_vseq db + 1, db_versions := db_versions db @ [?v]\<rparr>"
  from False assms(1) have db': "db' = map_agent (gv_AgentID v) (\<lambda>a. a\<lparr>an_GosutoVersion := Some (gv_Version v), an_UpdatedAt := now\<rparr>) ?db"
    and new: "(gv_AgentID v, gv_Version v) \<notin> (\<lambda>v. (gv_AgentID v, gv_Version v)) ` set (db_versions db)" "gv_AgentID v \<in> agent_ids db"
    by (auto simp: CreateGosutoVersion_def list_ex_iff find_agent_None split: option.splits if_splits)
  have ids: "agent_ids ?db = agent_ids db" by (simp add: agent_ids_def)
  have "gv_ID u \<noteq> db_vseq db + 1" if "u \<in> set (db_versions db)" for u using assms(2) that by (force simp: db_ok_def versions_ok_def)
  then have "versions_ok ?db" using assms(2) new unfolding db_ok_def versions_ok_def ids by fastforce
  moreover have "bindings_ok ?db" by (rule bindings_ok_frame [of db]) (use assms(2) in \<open>simp_all add: ids db_ok_def\<close>)
  ultimately have "db_ok ?db" using assms(2) by (simp add: db_ok_def agents_ok_def secrets_ok_def config_ok_def)
  then show ?thesis unfolding db' by (rule map_agent_ok) simp_all
qed (use assms in simp)

text \<open>Operations that only drop versions, change settings, or write the audit log.\<close>

lemma small_changes_ok:
  assumes "db_ok db"
  shows "PruneGosutoVersions exec i keepN db = (r, db') \<Longrightarrow> db_ok db'"
    "WriteAudit exec now traceID actor action target result payload msg db = (r, db') \<Longrightarrow> db_ok db'"
    "Set_config exec k v db = (r, db') \<Longrightarrow> db_ok db'" "Delete_config exec k db = (r, db') \<Longrightarrow> db_ok db'"
proof -
  have frame: "db_ok d" if "db_agents d = db_agents db" "db_secrets d = db_secrets db" "db_bindings d = db_bindings db" "versions_ok d" "config_ok d" for d
    using that assms bindings_ok_frame [of db d] by (simp add: db_ok_def agents_ok_def secrets_ok_def agent_ids_def)
  have v: "versions_ok d" if "\<exists>P. db_versions d = filter P (db_versions db)" "db_vseq d = db_vseq db" "db_agents d = db_agents db" for d
    using that assms by (auto simp: db_ok_def versions_ok_def agent_ids_def distinct_map_filter)
  have c: "config_ok db" using assms by (simp add: db_ok_def)
  have v0: "versions_ok db" using assms by (simp add: db_ok_def)
  have prune: "db_ok db'" if p: "PruneGosutoVersions exec i keepN db = (r, db')"
  proof (cases "db' = db")
    case False
    then obtain P where "db' = db\<lparr>db_versions := filter P (db_versions db)\<rparr>"
      using p unfolding PruneGosutoVersions_def Let_def by (cases "keepN \<le> 0"; cases exec) auto
    then show ?thesis using c by (intro frame v) (auto simp: config_ok_def)
  qed (simp add: assms)
  show "PruneGosutoVersions exec i keepN db = (r, db') \<Longrightarrow> db_ok db'"
    by (erule prune)
  show "WriteAudit exec now traceID actor action target result payload msg db = (r, db') \<Longrightarrow> db_ok db'"
    using assms c v0 frame [of db'] versions_ok_frame [of db db']
    by (cases "db' = db") (auto simp: WriteAudit_def config_ok_def agent_ids_def split: sum.splits option.splits)
  show "Set_config exec k v db = (r, db') \<Longrightarrow> db_ok db'"
    using assms c frame [of db'] versions_ok_frame [OF v0, of db']
    by (auto simp: Set_config_def config_ok_def agent_ids_def distinct_update split: option.splits)
  show "Delete_config exec k db = (r, db') \<Longrightarrow> db_ok db'"
    using assms c frame [of db'] versions_ok_frame [OF v0, of db']
    by (auto simp: Delete_config_def config_ok_def agent_ids_def distinct_delete split: option.splits)
qed

text \<open>Operations that leave agents, versions and settings alone.\<close>

lemma secret_change_ok:
  assumes "db_ok db" "db_agents db' = db_agents db" "db_versions db' = db_versions db" "db_vseq db' = db_vseq db" "db_config db' = db_config db"
    "secrets_ok db'" "bindings_ok db'"
  shows "db_ok db'"
  using assms versions_ok_frame [of db db'] by (simp add: db_ok_def agents_ok_def config_ok_def agent_ids_def)

lemma upsert_secret_ok:
  assumes "db_ok db"
  shows "db_ok (upsert_secret now name secretType blob db)"
proof (rule secret_change_ok [OF assms])
  let ?db = "upsert_secret now name secretType blob db"
  show "db_agents ?db = db_agents db" "db_versions ?db = db_versions db" "db_vseq ?db = db_vseq db" "db_config ?db = db_config db"
    by (simp_all add: upsert_secret_def split: option.split)
  have comp: "map sw_Name (map (\<lambda>s. if sw_Name s = name then s\<lparr>sw_Type := secretType, sw_Blob := blob,
      sw_RotationVersion := sw_RotationVersion s + 1, sw_UpdatedAt := now\<rparr> else s) xs) = map sw_Name xs" for xs
    by simp
  show "secrets_ok ?db"
  proof (cases "find_secret name db")
    case None
    then have "name \<notin> sw_Name ` set (db_secrets db)" by (simp add: find_secret_None)
    with None show ?thesis using assms by (auto simp: upsert_secret_def db_ok_def secrets_ok_def)
  next
    case (Some s)
    have d: "distinct (map sw_Name (db_secrets db))" "\<forall>s \<in> set (db_secrets db). 1 \<le> sw_RotationVersion s"
      using assms by (simp_all add: db_ok_def secrets_ok_def)
    from Some have "db_secrets ?db = map (\<lambda>s. if sw_Name s = name then s\<lparr>sw_Type := secretType, sw_Blob := blob,
      sw_RotationVersion := sw_RotationVersion s + 1, sw_UpdatedAt := now\<rparr> else s) (db_secrets db)" by (simp add: upsert_secret_def)
    then show ?thesis using d unfolding secrets_ok_def by (simp only: comp) auto
  qed
  have grow: "\<exists>t \<in> set (db_secrets ?db). sw_Name t = sw_Name s \<and> sw_RotationVersion s \<le> sw_RotationVersion t" if "s \<in> set (db_secrets db)" for s
  proof (cases "find_secret name db")
    case (Some x)
    let ?g = "\<lambda>s. if sw_Name s = name then s\<lparr>sw_Type := secretType, sw_Blob := blob,
      sw_RotationVersion := sw_RotationVersion s + 1, sw_UpdatedAt := now\<rparr> else s"
    have "db_secrets ?db = map ?g (db_secrets db)" using Some by (simp add: upsert_secret_def)
    moreover have "?g s \<in> ?g ` set (db_secrets db)" by (rule imageI) (rule that)
    ultimately have "?g s \<in> set (db_secrets ?db)" by (simp only: set_map)
    then show ?thesis by (rule bexI [rotated]) simp
  qed (use that in \<open>auto simp: upsert_secret_def\<close>)
  have "binding_ok ?db b" if b: "binding_ok db b" for b
    using b \<open>db_agents ?db = db_agents db\<close> pushed_ok_mono [of "db_secrets db" b "db_secrets ?db", OF _ grow]
    by (simp add: binding_ok_def agent_ids_def)
  moreover have "db_bindings ?db = db_bindings db" by (simp add: upsert_secret_def split: option.split)
  ultimately show "bindings_ok ?db" using assms by (simp add: db_ok_def bindings_ok_def)
qed

lemma Set_secret_ok: "Set_secret seal rnd exec now key name secretType val db = (r, db') \<Longrightarrow> db_ok db \<Longrightarrow> db_ok db'"
  by (auto simp: Set_secret_def upsert_secret_ok split: sum.splits option.splits)

lemma Rotate_ok: "Rotate seal rnd query exec now key name val db = (r, db') \<Longrightarrow> db_ok db \<Longrightarrow> db_ok db'"
  by (auto simp: Rotate_def Set_secret_ok split: option.splits)

lemma Delete_secret_ok:
  assumes "Delete_secret exec name db = (r, db')" "db_ok db"
  shows "db_ok db'"
proof (cases "db' = db")
  case False
  then have db': "db' = db\<lparr>db_secrets := filter (\<lambda>s. sw_Name s \<noteq> name) (db_secrets db),
             db_bindings := filter (\<lambda>b. bi_SecretName b \<noteq> name) (db_bindings db)\<rparr>"
    using assms(1) by (auto simp: Delete_secret_def split: option.splits if_splits)
  have kept: "pushed_ok (filter (\<lambda>s. sw_Name s \<noteq> name) (db_secrets db)) b" if "pushed_ok (db_secrets db) b" "bi_SecretName b \<noteq> name" for b
    using that(1) by (rule pushed_ok_mono) (use that(2) in auto)
  have "bindings_ok db'"
    using assms(2) kept by (auto simp: db' db_ok_def bindings_ok_def binding_ok_def agent_ids_def distinct_map_filter)
  moreover have "secrets_ok db'" using assms(2) by (simp add: db' db_ok_def secrets_ok_def distinct_map_filter)
  ultimately show ?thesis by (intro secret_change_ok [OF assms(2)]) (simp_all add: db')
qed (use assms in simp)

text \<open>Operations that only change bindings.\<close>

lemma binding_change_ok:
  assumes "db_ok db" "distinct (map (\<lambda>b. (bi_AgentID b, bi_SecretName b)) bs)" "\<forall>b \<in> set bs. binding_ok db b"
  shows "db_ok (db\<lparr>db_bindings := bs\<rparr>)"
proof (rule secret_change_ok [OF assms(1)])
  show "bindings_ok (db\<lparr>db_bindings := bs\<rparr>)" using assms(2,3) by (simp add: bindings_ok_def binding_ok_def agent_ids_def)
qed (use assms(1) in \<open>simp_all add: db_ok_def secrets_ok_def\<close>)

lemma bindings_of_ok: "db_ok db \<Longrightarrow> distinct (map (\<lambda>b. (bi_AgentID b, bi_SecretName b)) (db_bindings db)) \<and> (\<forall>b \<in> set (db_bindings db). binding_ok db b)"
  by (simp add: db_ok_def bindings_ok_def)

lemma map_bindings_ok:
  assumes "db_ok db" "\<And>b. bi_AgentID (g b) = bi_AgentID b" "\<And>b. bi_SecretName (g b) = bi_SecretName b" "\<And>b. binding_ok db b \<Longrightarrow> binding_ok db (g b)"
  shows "db_ok (db\<lparr>db_bindings := map g (db_bindings db)\<rparr>)"
  using bindings_of_ok [OF assms(1)] assms(4) by (intro binding_change_ok [OF assms(1)]) (auto simp: comp_def assms(2,3))

lemma Bind_ok:
  assumes "Bind exec agentID name scope db = (r, db')" "db_ok db"
  shows "db_ok db'"
proof -
  let ?g = "\<lambda>b. if binding_is agentID name b then b\<lparr>bi_Scope := scope\<rparr> else b"
  let ?new = "\<lparr>bi_AgentID = agentID, bi_SecretName = name, bi_Scope = scope, bi_LastPushedVersion = Some 0\<rparr>"
  have g: "binding_ok db (?g b) = binding_ok db b" for b by (cases "bi_LastPushedVersion b") (simp_all add: binding_ok_def pushed_ok_def)
  have "db_ok (db\<lparr>db_bindings := map ?g (db_bindings db)\<rparr>)"
    by (rule map_bindings_ok [OF assms(2)]) (simp, simp, simp only: g)
  moreover have "db_ok (db\<lparr>db_bindings := db_bindings db @ [?new]\<rparr>)"
    if new: "\<not> list_ex (binding_is agentID name) (db_bindings db)" "find_agent agentID db \<noteq> None" "find_secret name db \<noteq> None"
  proof (rule binding_change_ok [OF assms(2)])
    obtain s where "s \<in> set (db_secrets db)" "sw_Name s = name" using new(3) by (auto simp: find_secret_None)
    moreover have "1 \<le> sw_RotationVersion s" using assms(2) calculation by (simp add: db_ok_def secrets_ok_def)
    ultimately have "binding_ok db ?new" using new(2) by (auto simp: binding_ok_def pushed_ok_def find_agent_None)
    then show "\<forall>b \<in> set (db_bindings db @ [?new]). binding_ok db b" using bindings_of_ok [OF assms(2)] by auto
    show "distinct (map (\<lambda>b. (bi_AgentID b, bi_SecretName b)) (db_bindings db @ [?new]))"
      using bindings_of_ok [OF assms(2)] new(1) by (auto simp: list_ex_iff binding_is_def)
  qed
  ultimately show ?thesis using assms by (auto simp: Bind_def split: option.splits if_splits)
qed

lemma Unbind_ok:
  assumes "db_ok db"
  shows "UnbindAll exec agentID db = (q, db') \<Longrightarrow> db_ok db'" "Unbind exec agentID name db = (r, db') \<Longrightarrow> db_ok db'"
proof -
  have "db_ok (db\<lparr>db_bindings := filter P (db_bindings db)\<rparr>)" for P
    using bindings_of_ok [OF assms] by (intro binding_change_ok [OF assms]) (auto simp: distinct_map_filter)
  then show "UnbindAll exec agentID db = (q, db') \<Longrightarrow> db_ok db'" "Unbind exec agentID name db = (r, db') \<Longrightarrow> db_ok db'"
    using assms by (auto simp: UnbindAll_def Unbind_def split: option.splits if_splits)
qed

lemma MarkPushed_ok:
  assumes "MarkPushed exec agentID name db = (r, db')" "db_ok db"
  shows "db_ok db'"
proof -
  let ?g = "\<lambda>b. if binding_is agentID name b then b\<lparr>bi_LastPushedVersion := map_option sw_RotationVersion (find_secret (bi_SecretName b) db)\<rparr> else b"
  have g: "binding_ok db (?g b)" if b: "binding_ok db b" for b
  proof -
    obtain s where s: "s \<in> set (db_secrets db)" "sw_Name s = bi_SecretName b" using b by (auto simp: binding_ok_def pushed_ok_def split: option.splits)
    have sok: "secrets_ok db" using assms(2) by (simp add: db_ok_def)
    have "find_secret (bi_SecretName b) db = Some s" using find_secret_unique [OF sok s(1)] s(2) by simp
    moreover have "0 \<le> sw_RotationVersion s" using sok s(1) by (auto simp: secrets_ok_def)
    ultimately show ?thesis using b s by (auto simp: binding_ok_def pushed_ok_def)
  qed
  have "db_ok (db\<lparr>db_bindings := map ?g (db_bindings db)\<rparr>)"
    by (rule map_bindings_ok [OF assms(2)]) (simp, simp, simp only: g)
  then show ?thesis using assms by (auto simp: MarkPushed_def split: option.splits)
qed

lemmas agent_updates = UpdateAgentStatus_def UpdateAgentLastSeen_def UpdateAgentHandle_def UpdateAgentProvisioningState_def
  UpdateAgentGosutoApplied_def UpdateAgentDisabled_def SetAgentACPToken_def SetAgentDesiredGosutoHash_def SetAgentActualGosutoHash_def
  UpdateAgentHealthCheck_def SetAgentEnabled_def

lemma db_step_ok:
  assumes "db_step l db db'" "db_ok db"
  shows "db_ok db'"
  using assms
  by (cases rule: db_step.cases)
    (auto simp: agent_updates elim!: update_agent_ok
      dest: CreateAgent_ok UpdateAgentMXID_ok DeleteAgent_ok CreateGosutoVersion_db_ok small_changes_ok Set_secret_ok Rotate_ok Delete_secret_ok
        Bind_ok Unbind_ok MarkPushed_ok)


lemma empty_db_ok: "db_ok empty_db"
  by (simp add: db_ok_def agents_ok_def secrets_ok_def bindings_ok_def versions_ok_def config_ok_def empty_db_def)

lemma db_steps_ok: "db_steps db db' \<Longrightarrow> db_ok db \<Longrightarrow> db_ok db'"
  unfolding db_steps_def by (induction rule: rtranclp_induct) (auto dest: db_step_ok)

text \<open>however the statements on agents, versions, settings, audit entries, secrets and bindings follow each other, with failures of any of
  them, the tables stay well formed: identifiers, Matrix names, secret names and version numbers are unique; every version belongs to an agent
  and every binding to an agent and a secret; and a binding records a version that the secret has reached.\<close>

theorem database_well_formed:
  assumes "db_steps empty_db db"
  shows "db_ok db"
  using assms empty_db_ok by (rule db_steps_ok)

definition sample_key :: "nat list" where "sample_key = replicate 32 7"

definition sample_seal :: "aead_seal" where "sample_seal key nonce plain = rev plain @ [0]"
definition sample_open :: "aead_open" where
  "sample_open key nonce data = (if data \<noteq> [] \<and> last data = 0 then Inr (rev (butlast data)) else Inl ''message authentication failed'')"

lemma sample_open_seal: "sample_open key nonce (sample_seal key nonce plain) = Inr plain"
  by (simp add: sample_open_def sample_seal_def)

definition sample_secrets_db :: Db where
  "sample_secrets_db = snd (Bind None ''a'' ''api'' [] (snd (Set_secret sample_seal (Inr (replicate 12 1)) None 3 sample_key ''api'' ''api_key'' [1, 2]
     (snd (CreateAgent None 2 (sample_agent_row ''a'') empty_db)))))"

lemma sample_secrets_steps: "db_steps empty_db sample_secrets_db"
proof -
  let ?d1 = "snd (CreateAgent None 2 (sample_agent_row ''a'') empty_db)"
  let ?d2 = "snd (Set_secret sample_seal (Inr (replicate 12 1)) None 3 sample_key ''api'' ''api_key'' [1, 2] ?d1)"
  have "db_step None empty_db ?d1" by (rule step_CreateAgent) (rule prod.collapse [symmetric])
  moreover have "db_step (Some ''api'') ?d1 ?d2" by (rule step_SetSecret) (rule prod.collapse [symmetric])
  moreover have "db_step None ?d2 sample_secrets_db" unfolding sample_secrets_db_def by (rule step_Bind) (rule prod.collapse [symmetric])
  ultimately have "(\<lambda>x y. \<exists>l. db_step l x y) empty_db ?d1" "(\<lambda>x y. \<exists>l. db_step l x y) ?d1 ?d2" "(\<lambda>x y. \<exists>l. db_step l x y) ?d2 sample_secrets_db"
    by blast+
  then show ?thesis unfolding db_steps_def by (intro rtranclp.rtrancl_into_rtrancl [OF rtranclp.rtrancl_into_rtrancl [OF r_into_rtranclp]])
qed

theorem database_well_formed_witness: "db_ok sample_secrets_db \<and> length (db_bindings sample_secrets_db) = 1"
proof
  show "db_ok sample_secrets_db" by (rule database_well_formed) (rule sample_secrets_steps)
qed code_simp

subsection \<open>Secrets are kept and rotations are noticed\<close>

lemma find_secret_upsert:
  "find_secret n (upsert_secret now name secretType blob db) =
     (if n \<noteq> name then find_secret n db
      else Some (case find_secret name db of
         None \<Rightarrow> \<lparr>sw_Name = name, sw_Type = secretType, sw_Blob = blob, sw_RotationVersion = 1, sw_CreatedAt = now, sw_UpdatedAt = now\<rparr>
       | Some s \<Rightarrow> s\<lparr>sw_Type := secretType, sw_Blob := blob, sw_RotationVersion := sw_RotationVersion s + 1, sw_UpdatedAt := now\<rparr>))"
proof -
  have app: "find P (xs @ [x]) = (case find P xs of None \<Rightarrow> if P x then Some x else None | Some y \<Rightarrow> Some y)" for P and x :: SecretRow and xs
    by (induction xs) auto
  let ?f = "\<lambda>s. s\<lparr>sw_Type := secretType, sw_Blob := blob, sw_RotationVersion := sw_RotationVersion s + 1, sw_UpdatedAt := now\<rparr>"
  have mapped: "find (\<lambda>s. sw_Name s = n) (map (\<lambda>s. if sw_Name s = name then ?f s else s) xs) =
      (if n = name then map_option ?f (find (\<lambda>s. sw_Name s = n) xs) else find (\<lambda>s. sw_Name s = n) xs)" for xs
    by (induction xs) auto
  show ?thesis
  proof (cases "find_secret name db")
    case None
    then show ?thesis by (auto simp: upsert_secret_def find_secret_def app split: option.split)
  next
    case (Some s)
    then have "db_secrets (upsert_secret now name secretType blob db) = map (\<lambda>s. if sw_Name s = name then ?f s else s) (db_secrets db)"
      by (simp add: upsert_secret_def)
    then have "find_secret n (upsert_secret now name secretType blob db) =
        (if n = name then map_option ?f (find_secret n db) else find_secret n db)"
      unfolding find_secret_def by (simp only: mapped)
    with Some show ?thesis by auto
  qed
qed

lemma find_secret_filter: "n \<noteq> name \<Longrightarrow> find (\<lambda>s. sw_Name s = n) (filter (\<lambda>s. sw_Name s \<noteq> name) xs) = find (\<lambda>s. sw_Name s = n) xs"
  by (induction xs) auto

lemma Set_secret_other: "n \<noteq> name \<Longrightarrow> Set_secret seal rnd exec now key name secretType val db = (r, db') \<Longrightarrow> find_secret n db' = find_secret n db"
  by (auto simp: Set_secret_def find_secret_upsert split: sum.splits option.splits)

lemma Rotate_other: "n \<noteq> name \<Longrightarrow> Rotate seal rnd query exec now key name val db = (r, db') \<Longrightarrow> find_secret n db' = find_secret n db"
  by (auto simp: Rotate_def Set_secret_other split: option.splits)

lemma Delete_secret_other: "n \<noteq> name \<Longrightarrow> Delete_secret exec name db = (r, db') \<Longrightarrow> find_secret n db' = find_secret n db"
  by (auto simp: Delete_secret_def find_secret_def find_secret_filter split: option.splits if_splits)

lemma db_step_other:
  assumes "db_step l db db'" "l \<noteq> Some name"
  shows "find_secret name db' = find_secret name db"
proof (cases "l = None")
  case True
  have "db_secrets db' = db_secrets db" using assms(1) True
    by (cases rule: db_step.cases) (auto simp: agent_updates update_agent_def map_agent_def CreateAgent_def UpdateAgentMXID_def DeleteAgent_def
        CreateGosutoVersion_def PruneGosutoVersions_def WriteAudit_def Set_config_def Delete_config_def Bind_def UnbindAll_def Unbind_def MarkPushed_def
        Let_def split: option.splits if_splits sum.splits)
  then show ?thesis by (simp add: find_secret_def)
next
  case False
  show ?thesis using assms(1) False assms(2)
    by (cases rule: db_step.cases) (auto intro: Set_secret_other Rotate_other Delete_secret_other)
qed

lemma steps_without_other: "steps_without name db db' \<Longrightarrow> find_secret name db' = find_secret name db"
  unfolding steps_without_def by (induction rule: rtranclp_induct) (auto dest: db_step_other)

lemma stored_blob:
  assumes "Set_secret seal (Inr nonce) exec now key name secretType val db = (None, db1)"
  shows "exec = None" "db1 = upsert_secret now name secretType (nonce @ seal key nonce val) db" "length key = KeySize"
    "\<exists>s. find_secret name db1 = Some s \<and> sw_Blob s = nonce @ seal key nonce val"
  using assms by (auto simp: Set_secret_def Encrypt_def find_secret_upsert split: option.splits if_splits)

text \<open>C34: a secret that has been stored is read back with its value, whatever is done to the database in between, until it is set, rotated or deleted
  again; this needs of the cipher only that opening undoes sealing, and of the random source that it fills the nonce.\<close>

theorem secret_read_back:
  assumes "Set_secret seal (Inr nonce) exec now key name secretType val db = (None, db1)" "length nonce = NonceSize"
    "\<And>nonce plain. unseal key nonce (seal key nonce plain) = Inr plain" "steps_without name db1 db2"
  shows "Get_secret unseal None key name db2 = Inr val"
proof -
  obtain s where "find_secret name db2 = Some s" "sw_Blob s = nonce @ seal key nonce val"
    using stored_blob(4) [OF assms(1)] steps_without_other [OF assms(4)] by auto
  then show ?thesis using stored_blob(3) [OF assms(1)] assms(2,3) by (simp add: Get_secret_def Decrypt_def)
qed

theorem secret_read_back_witness:
  "\<exists>db1. Set_secret sample_seal (Inr (replicate 12 1)) None 3 sample_key ''db'' ''generic_json'' [9, 8] sample_secrets_db = (None, db1) \<and>
     Get_secret sample_open None sample_key ''db'' (snd (Rotate sample_seal (Inr (replicate 12 2)) None None 4 sample_key ''api'' [5] db1)) = Inr [9, 8]"
proof -
  let ?db1 = "snd (Set_secret sample_seal (Inr (replicate 12 1)) None 3 sample_key ''db'' ''generic_json'' [9, 8] sample_secrets_db)"
  let ?db2 = "snd (Rotate sample_seal (Inr (replicate 12 2)) None None 4 sample_key ''api'' [5] ?db1)"
  have "length sample_key = KeySize" by (simp add: sample_key_def KeySize_def)
  then have set: "Set_secret sample_seal (Inr (replicate 12 1)) None 3 sample_key ''db'' ''generic_json'' [9, 8] sample_secrets_db = (None, ?db1)"
    by (simp add: Set_secret_def Encrypt_def)
  have "db_step (Some ''api'') ?db1 ?db2" by (rule step_Rotate) (rule prod.collapse [symmetric])
  then have "steps_without ''db'' ?db1 ?db2" unfolding steps_without_def by (intro r_into_rtranclp exI [of _ "Some ''api''"]) simp
  then have "Get_secret sample_open None sample_key ''db'' ?db2 = Inr [9, 8]"
    by (intro secret_read_back [OF set]) (simp_all add: NonceSize_def sample_open_seal)
  with set show ?thesis by blast
qed

lemma set_sort_filter: "set (sort_key f (sort_key g (filter P xs))) = {x \<in> set xs. P x}"
  by simp

lemma StaleBindings_exact:
  assumes "db_ok db"
  shows "\<exists>bs. StaleBindings None db = Inr bs \<and> set bs = {b \<in> set (db_bindings db). behind db b}"
proof -
  have "bi_LastPushedVersion b \<noteq> None" if "b \<in> set (db_bindings db)" for b
    using bindings_of_ok [OF assms] that by (auto simp: binding_ok_def pushed_ok_def split: option.splits)
  then show ?thesis by (auto simp: StaleBindings_def scan_bindings_def list_ex_iff)
qed

lemma binding_version:
  assumes "db_ok db" "b \<in> set (db_bindings db)"
  shows "\<exists>n s. bi_LastPushedVersion b = Some n \<and> find_secret (bi_SecretName b) db = Some s \<and> n \<le> sw_RotationVersion s"
proof -
  obtain n s where "bi_LastPushedVersion b = Some n" "s \<in> set (db_secrets db)" "sw_Name s = bi_SecretName b" "n \<le> sw_RotationVersion s"
  proof -
    have "binding_ok db b" using bindings_of_ok [OF assms(1)] assms(2) by blast
    then show thesis using that by (auto simp: binding_ok_def pushed_ok_def split: option.splits)
  qed
  moreover have "secrets_ok db" using assms(1) by (simp add: db_ok_def)
  ultimately show ?thesis using find_secret_unique [of db s] by auto
qed

text \<open>Marking a binding takes it, and no other, off the list of the stale ones.\<close>

lemma MarkPushed_stale:
  assumes "MarkPushed None a name db = (r, db')"
  shows "{c \<in> set (db_bindings db'). behind db' c} = {c \<in> set (db_bindings db). behind db c \<and> \<not> binding_is a name c}"
proof -
  let ?g = "\<lambda>c. if binding_is a name c then c\<lparr>bi_LastPushedVersion := map_option sw_RotationVersion (find_secret (bi_SecretName c) db)\<rparr> else c"
  have db': "db' = db\<lparr>db_bindings := map ?g (db_bindings db)\<rparr>" using assms by (simp add: MarkPushed_def)
  have same: "behind db' c = behind db c" for c by (simp add: behind_def db' find_secret_def)
  have marked: "\<not> behind db (?g c)" if "binding_is a name c" for c
    using that by (auto simp: behind_def split: option.splits)
  have keeps: "binding_is a name (?g c) = binding_is a name c" for c by (simp add: binding_is_def)
  have "set (db_bindings db') = ?g ` set (db_bindings db)" by (simp only: db' set_map Db.simps) simp
  then show ?thesis using same marked by (auto simp: image_iff)
qed

text \<open>every time a secret is stored or rotated, all its bindings become stale, so that every agent bound to it is offered the new value; a binding
  stops being stale when it is marked as pushed, and only that binding does.\<close>

theorem rotation_makes_stale:
  assumes "db_steps empty_db db" "Set_secret seal (Inr nonce) exec now key name secretType val db = (None, db1)"
    "b \<in> set (db_bindings db1)" "bi_SecretName b = name" "MarkPushed None (bi_AgentID b) name db1 = (r, db2)"
  shows "\<exists>bs bs'. StaleBindings None db1 = Inr bs \<and> b \<in> set bs \<and> StaleBindings None db2 = Inr bs' \<and>
    set bs' = {c \<in> set bs. \<not> binding_is (bi_AgentID b) name c}"
proof -
  have db1: "db1 = upsert_secret now name secretType (nonce @ seal key nonce val) db" by (rule stored_blob(2) [OF assms(2)])
  have ok: "db_ok db" by (rule db_steps_ok [OF assms(1) empty_db_ok])
  then have ok1: "db_ok db1" and ok2: "db_ok db2" using assms(2,5) Set_secret_ok MarkPushed_ok by blast+
  have bs: "db_bindings db1 = db_bindings db" by (simp add: db1 upsert_secret_def split: option.split)
  obtain n s where n: "bi_LastPushedVersion b = Some n" "find_secret name db = Some s" "n \<le> sw_RotationVersion s"
    using binding_version [OF ok] assms(3,4) bs by metis
  have new: "behind db1 b" using n assms(4) by (simp add: behind_def db1 find_secret_upsert)
  have "{c \<in> set (db_bindings db2). behind db2 c} = {c \<in> {c \<in> set (db_bindings db1). behind db1 c}. \<not> binding_is (bi_AgentID b) name c}"
    using assms(5) by (auto simp: MarkPushed_stale [OF assms(5)])
  moreover obtain l1 l2 where "StaleBindings None db1 = Inr l1" "set l1 = {c \<in> set (db_bindings db1). behind db1 c}"
      "StaleBindings None db2 = Inr l2" "set l2 = {c \<in> set (db_bindings db2). behind db2 c}"
    using StaleBindings_exact [OF ok1] StaleBindings_exact [OF ok2] by blast
  ultimately show ?thesis using new assms(3) by auto
qed

theorem rotation_makes_stale_witness:
  "\<exists>db1 b r db2. Set_secret sample_seal (Inr (replicate 12 2)) None 5 sample_key ''api'' ''api_key'' [4] sample_secrets_db = (None, db1) \<and>
     b \<in> set (db_bindings db1) \<and> MarkPushed None ''a'' ''api'' db1 = (r, db2) \<and>
     (\<exists>bs bs'. StaleBindings None db1 = Inr bs \<and> b \<in> set bs \<and> StaleBindings None db2 = Inr bs' \<and> set bs' = {c \<in> set bs. \<not> binding_is ''a'' ''api'' c})"
proof -
  let ?db1 = "snd (Set_secret sample_seal (Inr (replicate 12 2)) None 5 sample_key ''api'' ''api_key'' [4] sample_secrets_db)"
  let ?b = "\<lparr>bi_AgentID = ''a'', bi_SecretName = ''api'', bi_Scope = [], bi_LastPushedVersion = Some 0\<rparr>"
  have "length sample_key = KeySize" by (simp add: sample_key_def KeySize_def)
  then have set: "Set_secret sample_seal (Inr (replicate 12 2)) None 5 sample_key ''api'' ''api_key'' [4] sample_secrets_db = (None, ?db1)"
    by (simp add: Set_secret_def Encrypt_def)
  have b: "?b \<in> set (db_bindings ?db1)" by code_simp
  have mark: "MarkPushed None (bi_AgentID ?b) ''api'' ?db1 = (None, snd (MarkPushed None ''a'' ''api'' ?db1))" by (simp add: MarkPushed_def)
  from rotation_makes_stale [OF sample_secrets_steps set b _ mark] set b mark show ?thesis by (simp) blast
qed

end
