(* ===== verification/Webhook_Proxy.thy ===== *)
theory Webhook_Proxy
  imports Acp_Safety Ruriko_Secrets
begin

section \<open>The webhook proxy\<close>

text \<open>
  \<^verbatim>\<open>internal/ruriko/webhook/proxy.go\<close>: deliveries for \<^verbatim>\<open>/webhooks/{agent}/{source}\<close> are checked, limited, authenticated and forwarded to the
  agent's control server.  The decoder of the stored configuration, the cipher of the secret store, the keyed hash and the HTTP client are
  parameters; the client acts on the world \<open>'w\<close> and answers with a status or an error, and \<open>badURL\<close> is the error of building a request for an
  address.
  The theory shows what a delivery must satisfy to reach the agent, that the status of an agent does not matter for it, and, joined with the
  control server of theory \<open>Acp_Server\<close>, that a signed delivery is always refused by the agent because the proxy does not pass the signature on.
\<close>

record WebhookRequest =
  wq_Method :: string
  wq_Path :: string
  wq_Authorization :: string
  wq_Signature :: string
  wq_ContentType :: string
  wq_Body :: string
  wq_ReadError :: "string option"
  wq_now :: gotime

record Forwarded =
  fw_URL :: string
  fw_Authorization :: string
  fw_ContentType :: string
  fw_Body :: string

record 'w ProxyNet =
  px_decode :: "string \<Rightarrow> Config option"
  px_unseal :: aead_open
  px_masterKey :: "nat list"
  px_hmac :: hmac_fn
  px_badURL :: "string \<Rightarrow> string option"
  px_do :: "Forwarded \<Rightarrow> 'w \<Rightarrow> (string + nat) \<times> 'w"

record proxy_faults =
  pxf_agent :: fault
  pxf_version :: fault
  pxf_secret :: fault

definition DefaultWebhookLimit :: int where "DefaultWebhookLimit = 60"
definition maxBodyBytes :: int where "maxBodyBytes = 1 * 1024 * 1024"

definition New_proxy :: "int \<Rightarrow> webhook_limiter" where
  "New_proxy rateLimit = newRateLimiter (if rateLimit \<le> 0 then DefaultWebhookLimit else rateLimit) minute"

datatype proxy_error =
    VersionFailed store_error
  | ParseFailed parse_error
  | NotWebhook string
  | NotConfigured
  | MissingAuthorization
  | InvalidBearer
  | MissingSecretRef
  | SecretFetch secrets_error
  | BadSignature signature_error

definition findWebhookGateway :: "'w ProxyNet \<Rightarrow> fault \<Rightarrow> string \<Rightarrow> string \<Rightarrow> Db \<Rightarrow> proxy_error + Gateway" where
  "findWebhookGateway px query agentID source db = (case GetLatestGosutoVersion query agentID db of
       Inl e \<Rightarrow> Inl (VersionFailed e)
     | Inr gv \<Rightarrow> (case Parse (px_decode px) (gv_YAMLBlob gv) of
           Inl e \<Rightarrow> Inl (ParseFailed e)
         | Inr cfg \<Rightarrow> (case find (\<lambda>gw. gw_Name gw = source) (cf_Gateways cfg) of
               None \<Rightarrow> Inl NotConfigured
             | Some gw \<Rightarrow> if gw_Type gw \<noteq> ''webhook'' then Inl (NotWebhook (gw_Type gw)) else Inr gw)))"

definition validateBearer :: "WebhookRequest \<Rightarrow> AgentRow \<Rightarrow> proxy_error option" where
  "validateBearer r agent = (case an_ACPToken agent of
       None \<Rightarrow> None
     | Some token \<Rightarrow>
         if token = [] then None
         else if \<not> has_prefix (wq_Authorization r) ''Bearer '' then Some MissingAuthorization
         else if trim_prefix (wq_Authorization r) ''Bearer '' \<noteq> token then Some InvalidBearer
         else None)"

definition validateHMAC :: "'w ProxyNet \<Rightarrow> fault \<Rightarrow> WebhookRequest \<Rightarrow> string \<Rightarrow> Gateway \<Rightarrow> Db \<Rightarrow> proxy_error option" where
  "validateHMAC px query r body gw db =
     (let secretRef = cfg_get (gw_Config gw) ''hmacSecretRef'' in
      if secretRef = [] then Some MissingSecretRef
      else (case Get_secret (px_unseal px) query (px_masterKey px) secretRef db of
              Inl e \<Rightarrow> Some (SecretFetch e)
            | Inr secretVal \<Rightarrow> map_option BadSignature (ValidateHMACSHA256 (px_hmac px) secretVal body (wq_Signature r))))"

definition forward :: "'w ProxyNet \<Rightarrow> string \<Rightarrow> string \<Rightarrow> string \<Rightarrow> string \<Rightarrow> 'w \<Rightarrow> (string + nat) \<times> 'w" where
  "forward px acpURL token body contentType w = (case px_badURL px acpURL of
       Some e \<Rightarrow> (Inl e, w)
     | None \<Rightarrow> px_do px \<lparr>fw_URL = acpURL, fw_Authorization = (if token \<noteq> [] then ''Bearer '' @ token else []), fw_ContentType = contentType,
         fw_Body = body\<rparr> w)"

text \<open>The agent and the source of a path: what is left and right of the first slash.\<close>

definition webhook_route :: "string \<Rightarrow> (string \<times> string) option" where
  "webhook_route path = (case cut_at CHR ''/'' (trim_prefix path ''/webhooks/'') of
       None \<Rightarrow> None
     | Some (agentID, source) \<Rightarrow> if agentID = [] \<or> source = [] then None else Some (agentID, source))"

definition trim_slashes :: "string \<Rightarrow> string" where
  "trim_slashes s = rev (dropWhile (\<lambda>c. c = CHR ''/'') (rev s))"

definition authenticate :: "'w ProxyNet \<Rightarrow> fault \<Rightarrow> WebhookRequest \<Rightarrow> AgentRow \<Rightarrow> Gateway \<Rightarrow> string \<Rightarrow> Db \<Rightarrow> (nat \<times> string) option" where
  "authenticate px query r agent gw body db =
     (let authType = (if cfg_get (gw_Config gw) ''authType'' = [] then ''bearer'' else cfg_get (gw_Config gw) ''authType'') in
      if authType = ''bearer'' then (case validateBearer r agent of None \<Rightarrow> None | Some e \<Rightarrow> Some (401, ''unauthorized''))
      else if authType = ''hmac-sha256''
      then (case validateHMAC px query r body gw db of None \<Rightarrow> None | Some e \<Rightarrow> Some (401, ''unauthorized''))
      else Some (500, ''internal server error''))"

text \<open>Reading stops at the limit; an error of the transport shows only before it.\<close>

definition read_webhook :: "WebhookRequest \<Rightarrow> string + string" where
  "read_webhook r =
     (if int (length (wq_Body r)) \<ge> maxBodyBytes then Inr (limit_reader maxBodyBytes (wq_Body r))
      else (case wq_ReadError r of Some e \<Rightarrow> Inl e | None \<Rightarrow> Inr (wq_Body r)))"

text \<open>The state of the proxy is its limiter; the answer is a status with the text of an error.\<close>

definition handleWebhook ::
    "'w ProxyNet \<Rightarrow> proxy_faults \<Rightarrow> WebhookRequest \<Rightarrow> Db \<Rightarrow> webhook_limiter \<Rightarrow> 'w \<Rightarrow> (nat \<times> string) \<times> webhook_limiter \<times> 'w"
where
  "handleWebhook px fs r db lim w =
     (if wq_Method r \<noteq> ''POST'' then ((405, ''method not allowed''), lim, w)
      else (case webhook_route (wq_Path r) of
        None \<Rightarrow> ((404, ''invalid path: expected /webhooks/{agent}/{source}''), lim, w)
      | Some (agentID, source) \<Rightarrow>
          (case GetAgent (pxf_agent fs) agentID db of
             Inl e \<Rightarrow> ((404, ''agent not found''), lim, w)
           | Inr agent \<Rightarrow>
               if \<not> an_Enabled agent then ((404, ''agent not found''), lim, w)
               else if an_ControlURL agent = None \<or> an_ControlURL agent = Some [] then ((503, ''agent not available''), lim, w)
               else (case Allow_webhook (wq_now r) agentID lim of (allowed, lim') \<Rightarrow>
                 if \<not> allowed then ((429, ''too many requests''), lim', w)
                 else (case findWebhookGateway px (pxf_version fs) agentID source db of
                     Inl e \<Rightarrow> ((404, ''source not found''), lim', w)
                   | Inr gw \<Rightarrow>
                       (case read_webhook r of
                          Inl e \<Rightarrow> ((400, ''failed to read request body''), lim', w)
                        | Inr body \<Rightarrow>
                            (case authenticate px (pxf_secret fs) r agent gw body db of
                               Some resp \<Rightarrow> (resp, lim', w)
                             | None \<Rightarrow>
                                 (case forward px (trim_slashes (the (an_ControlURL agent)) @ ''/events/'' @ source)
                                    (case an_ACPToken agent of Some t \<Rightarrow> t | None \<Rightarrow> []) body
                                    (if wq_ContentType r = [] then ''application/json'' else wq_ContentType r) w of
                                    (Inl e, w') \<Rightarrow> ((502, ''failed to forward to agent''), lim', w')
                                  | (Inr status, w') \<Rightarrow> ((status, []), lim', w')))))))))"

subsection \<open>What reaches the agent\<close>

lemma handleWebhook_forwards:
  assumes "handleWebhook px fs r db lim w = (resp, lim', w')" "w' \<noteq> w \<or> fst resp < 400"
  shows "wq_Method r = ''POST'' \<and> (\<exists>agentID source agent gw body. webhook_route (wq_Path r) = Some (agentID, source) \<and>
    find_agent agentID db = Some agent \<and> an_Enabled agent \<and> an_ControlURL agent \<noteq> None \<and> an_ControlURL agent \<noteq> Some [] \<and>
    fst (Allow_webhook (wq_now r) agentID lim) \<and> findWebhookGateway px (pxf_version fs) agentID source db = Inr gw \<and> read_webhook r = Inr body \<and>
    authenticate px (pxf_secret fs) r agent gw body db = None \<and>
    (\<exists>answer. forward px (trim_slashes (the (an_ControlURL agent)) @ ''/events/'' @ source) (case an_ACPToken agent of Some t \<Rightarrow> t | None \<Rightarrow> []) body
      (if wq_ContentType r = [] then ''application/json'' else wq_ContentType r) w = (answer, w') \<and>
      fst resp = (case answer of Inl e \<Rightarrow> 502 | Inr status \<Rightarrow> status)))"
proof -
  have post: "wq_Method r = ''POST''" using assms by (auto simp: handleWebhook_def split: if_splits)
  obtain agentID source where route: "webhook_route (wq_Path r) = Some (agentID, source)"
    using assms post by (auto simp: handleWebhook_def split: option.splits)
  obtain agent where agent: "GetAgent (pxf_agent fs) agentID db = Inr agent"
    using assms post route by (auto simp: handleWebhook_def split: sum.splits)
  have on: "an_Enabled agent" "an_ControlURL agent \<noteq> None" "an_ControlURL agent \<noteq> Some []"
    using assms post route agent by (auto simp: handleWebhook_def split: if_splits)
  obtain lim1 where lim1: "Allow_webhook (wq_now r) agentID lim = (True, lim1)"
    using assms post route agent on by (auto simp: handleWebhook_def split: prod.splits if_splits)
  obtain gw where gw: "findWebhookGateway px (pxf_version fs) agentID source db = Inr gw"
    using assms post route agent on lim1 by (auto simp: handleWebhook_def split: sum.splits)
  obtain body where body: "read_webhook r = Inr body"
    using assms post route agent on lim1 gw by (auto simp: handleWebhook_def split: sum.splits)
  have auth: "authenticate px (pxf_secret fs) r agent gw body db = None"
    using assms post route agent on lim1 gw body
    by (auto simp: handleWebhook_def authenticate_def Let_def split: option.splits if_splits)
  let ?fw = "forward px (trim_slashes (the (an_ControlURL agent)) @ ''/events/'' @ source) (case an_ACPToken agent of Some t \<Rightarrow> t | None \<Rightarrow> []) body
      (if wq_ContentType r = [] then ''application/json'' else wq_ContentType r) w"
  obtain answer w1 where fw: "?fw = (answer, w1)" by (cases ?fw)
  have "w1 = w' \<and> fst resp = (case answer of Inl e \<Rightarrow> 502 | Inr status \<Rightarrow> status)"
    using assms(1) post route agent on lim1 gw body auth fw by (auto simp: handleWebhook_def split: sum.splits)
  moreover have "find_agent agentID db = Some agent" using agent by (auto simp: GetAgent_def split: option.splits)
  ultimately show ?thesis using post route on lim1 gw body auth fw by auto
qed

lemma read_webhook_body: "read_webhook r = Inr b \<Longrightarrow> b = limit_reader maxBodyBytes (wq_Body r)"
  by (auto simp: read_webhook_def limit_reader_def split: if_splits option.splits)

lemma validateBearer_None:
  "validateBearer r agent = None \<longleftrightarrow> (case an_ACPToken agent of None \<Rightarrow> True | Some t \<Rightarrow> t = [] \<or> wq_Authorization r = ''Bearer '' @ t)"
  by (auto simp: validateBearer_def has_prefix_iff trim_prefix_def split: option.splits)

lemma validateHMAC_None:
  "validateHMAC px query r body gw db = None \<longleftrightarrow> cfg_get (gw_Config gw) ''hmacSecretRef'' \<noteq> [] \<and>
     (\<exists>secret. Get_secret (px_unseal px) query (px_masterKey px) (cfg_get (gw_Config gw) ''hmacSecretRef'') db = Inr secret \<and>
        VerifyHMACSHA256 (px_hmac px) secret body (wq_Signature r))"
  by (auto simp: validateHMAC_def Let_def VerifyHMACSHA256_def split: sum.splits)

lemma findWebhookGateway_Inr:
  assumes "findWebhookGateway px query agentID source db = Inr gw"
  shows "\<exists>v cfg. GetLatestGosutoVersion query agentID db = Inr v \<and> Parse (px_decode px) (gv_YAMLBlob v) = Inr cfg \<and>
    find (\<lambda>gw. gw_Name gw = source) (cf_Gateways cfg) = Some gw \<and> gw_Type gw = ''webhook''"
  using assms by (auto simp: findWebhookGateway_def split: sum.splits option.splits if_splits)

lemma fault_irrelevant:
  "GetLatestGosutoVersion query agentID db = Inr v \<Longrightarrow> GetLatestGosutoVersion None agentID db = Inr v"
  "Get_secret unseal query key name db = Inr x \<Longrightarrow> Get_secret unseal None key name db = Inr x"
  by (simp_all add: GetLatestGosutoVersion_def Get_secret_def split: option.splits)

text \<open>C17: the proxy passes a delivery on only if it is a POST for an enabled agent with a control address and for a webhook gateway of that agent's
  latest stored configuration, the agent's limit is not exhausted, and the delivery is authentic: signed with the gateway's secret, or
  carrying the agent's token where the gateway does not want signatures.\<close>

theorem webhook_forward_admission:
  assumes "handleWebhook px fs r db lim w = (resp, lim', w')" "w' \<noteq> w \<or> fst resp < 400"
  shows "\<exists>agentID source agent v cfg gw. wq_Method r = ''POST'' \<and> webhook_route (wq_Path r) = Some (agentID, source) \<and>
    find_agent agentID db = Some agent \<and> an_Enabled agent \<and> an_ControlURL agent \<noteq> None \<and> fst (Allow_webhook (wq_now r) agentID lim) \<and>
    GetLatestGosutoVersion None agentID db = Inr v \<and> Parse (px_decode px) (gv_YAMLBlob v) = Inr cfg \<and>
    find (\<lambda>gw. gw_Name gw = source) (cf_Gateways cfg) = Some gw \<and> gw_Type gw = ''webhook'' \<and>
    (if signed_gateway gw
     then \<exists>secret. Get_secret (px_unseal px) None (px_masterKey px) (cfg_get (gw_Config gw) ''hmacSecretRef'') db = Inr secret \<and>
       VerifyHMACSHA256 (px_hmac px) secret (limit_reader maxBodyBytes (wq_Body r)) (wq_Signature r)
     else (case an_ACPToken agent of None \<Rightarrow> True | Some t \<Rightarrow> t = [] \<or> wq_Authorization r = ''Bearer '' @ t))"
proof -
  obtain agentID source agent gw body where f: "wq_Method r = ''POST''" "webhook_route (wq_Path r) = Some (agentID, source)"
      "find_agent agentID db = Some agent" "an_Enabled agent" "an_ControlURL agent \<noteq> None" "fst (Allow_webhook (wq_now r) agentID lim)"
      "findWebhookGateway px (pxf_version fs) agentID source db = Inr gw" "read_webhook r = Inr body"
      "authenticate px (pxf_secret fs) r agent gw body db = None"
    using handleWebhook_forwards [OF assms] by blast
  obtain v cfg where v: "GetLatestGosutoVersion (pxf_version fs) agentID db = Inr v" "Parse (px_decode px) (gv_YAMLBlob v) = Inr cfg"
    "find (\<lambda>gw. gw_Name gw = source) (cf_Gateways cfg) = Some gw" "gw_Type gw = ''webhook''"
    using findWebhookGateway_Inr [OF f(7)] by blast
  have "if signed_gateway gw
     then \<exists>secret. Get_secret (px_unseal px) None (px_masterKey px) (cfg_get (gw_Config gw) ''hmacSecretRef'') db = Inr secret \<and>
       VerifyHMACSHA256 (px_hmac px) secret (limit_reader maxBodyBytes (wq_Body r)) (wq_Signature r)
     else (case an_ACPToken agent of None \<Rightarrow> True | Some t \<Rightarrow> t = [] \<or> wq_Authorization r = ''Bearer '' @ t)"
    using f(9) read_webhook_body [OF f(8)] v(4) fault_irrelevant(2)
    by (auto simp: authenticate_def Let_def signed_gateway_def validateBearer_None validateHMAC_None split: if_splits option.splits)
  then show ?thesis using f v fault_irrelevant(1) [OF v(1)] by blast
qed

definition bearer_hook :: Gateway where
  "bearer_hook = sample_hook\<lparr>gw_Name := ''ci'', gw_Config := []\<rparr>"

definition hook_config :: Config where
  "hook_config = zero_Config\<lparr>cf_APIVersion := SpecVersion, cf_Metadata := (cf_Metadata zero_Config)\<lparr>md_Name := ''a''\<rparr>,
     cf_Trust := zero_Trust\<lparr>tr_AllowedRooms := [''*''], tr_AllowedSenders := [''*'']\<rparr>,
     cf_Gateways := [sample_hook, bearer_hook]\<rparr>"

definition hook_db :: Db where
  "hook_db = sample_db\<lparr>db_secrets := [\<lparr>sw_Name = ''k'', sw_Type = ''api_key'', sw_Blob = replicate 12 1 @ sample_seal sample_key [] [1], sw_RotationVersion = 1,
     sw_CreatedAt = 0, sw_UpdatedAt = 0\<rparr>]\<rparr>"

definition hook_net :: "(Forwarded \<Rightarrow> 'w \<Rightarrow> (string + nat) \<times> 'w) \<Rightarrow> 'w ProxyNet" where
  "hook_net send = \<lparr>px_decode = (\<lambda>y. Some hook_config), px_unseal = sample_open, px_masterKey = sample_key, px_hmac = (\<lambda>k b. [202, 254]),
     px_badURL = (\<lambda>u. None), px_do = send\<rparr>"

definition no_proxy_faults :: proxy_faults where
  "no_proxy_faults = \<lparr>pxf_agent = None, pxf_version = None, pxf_secret = None\<rparr>"

definition hook_request :: "string \<Rightarrow> WebhookRequest" where
  "hook_request source = \<lparr>wq_Method = ''POST'', wq_Path = ''/webhooks/a/'' @ source, wq_Authorization = ''Bearer tok'', wq_Signature = ''sha256=cafe'',
     wq_ContentType = [], wq_Body = ''x'', wq_ReadError = None, wq_now = 5\<rparr>"

theorem webhook_forward_admission_witness:
  "\<exists>resp lim' w'. handleWebhook (hook_net (\<lambda>f w. (Inr 202, w @ [fw_URL f]))) no_proxy_faults (hook_request ''gh'') hook_db (New_proxy 0) [] =
     (resp, lim', w') \<and> w' = [''http://a:8765/events/gh''] \<and> fst resp = 202 \<and>
   (\<exists>secret. Get_secret sample_open None sample_key ''k'' hook_db = Inr secret)"
proof -
  let ?px = "hook_net (\<lambda>f w. (Inr 202, w @ [fw_URL f]))"
  have run: "case handleWebhook ?px no_proxy_faults (hook_request ''gh'') hook_db (New_proxy 0) [] of
      (resp, lim', w') \<Rightarrow> w' = [''http://a:8765/events/gh''] \<and> fst resp = 202" by code_simp
  obtain resp lim' w' where h: "handleWebhook ?px no_proxy_faults (hook_request ''gh'') hook_db (New_proxy 0) [] = (resp, lim', w')"
    by (cases "handleWebhook ?px no_proxy_faults (hook_request ''gh'') hook_db (New_proxy 0) []")
  with run have w: "w' = [''http://a:8765/events/gh'']" "fst resp = 202" by simp_all
  have "find (\<lambda>gw. gw_Name gw = ''gh'') (cf_Gateways hook_config) = Some sample_hook" by code_simp
  moreover have "Validate (Some hook_config) = None" by code_simp
  then have "Parse (px_decode ?px) y = Inr hook_config" for y by (simp add: Parse_def hook_net_def)
  moreover have "webhook_route (wq_Path (hook_request ''gh'')) = Some (''a'', ''gh'')" by code_simp
  moreover have "signed_gateway sample_hook" "cfg_get (gw_Config sample_hook) ''hmacSecretRef'' = ''k''" by code_simp+
  moreover have "px_unseal ?px = sample_open" "px_masterKey ?px = sample_key" by (simp_all add: hook_net_def)
  moreover have "w' \<noteq> [] \<or> fst resp < 400" using w by simp
  note webhook_forward_admission [OF h this]
  ultimately have "\<exists>secret. Get_secret sample_open None sample_key ''k'' hook_db = Inr secret"
  proof (elim exE conjE, goal_cases)
    case (1 agentID source agent v cfg gw)
    then show ?case by auto
  qed
  with h w show ?thesis by blast
qed

subsection \<open>Disabled agents and signed deliveries\<close>

text \<open>What the proxy uses of an agent's row.\<close>

lemma handleWebhook_cong:
  assumes "db_versions db' = db_versions db" "db_secrets db' = db_secrets db"
    "\<And>i. map_option (\<lambda>a. (an_Enabled a, an_ControlURL a, an_ACPToken a)) (find_agent i db') =
      map_option (\<lambda>a. (an_Enabled a, an_ControlURL a, an_ACPToken a)) (find_agent i db)"
  shows "handleWebhook px fs r db' lim w = handleWebhook px fs r db lim w"
proof -
  have vs: "versions_of i db' = versions_of i db" for i by (simp add: versions_of_def assms(1))
  have sec: "find_secret n db' = find_secret n db" for n by (simp add: find_secret_def assms(2))
  have gw: "findWebhookGateway px q i s db' = findWebhookGateway px q i s db" for q i s
    by (cases q) (simp_all add: findWebhookGateway_def GetLatestGosutoVersion_def vs)
  have auth: "authenticate px q r a gw b db' = authenticate px q r a' gw b db" if "an_ACPToken a = an_ACPToken a'" for q a a' gw b
  proof -
    have "validateBearer r a = validateBearer r a'" using that by (simp add: validateBearer_def)
    moreover have "Get_secret (px_unseal px) q (px_masterKey px) n db' = Get_secret (px_unseal px) q (px_masterKey px) n db" for n
      by (cases q) (simp_all add: Get_secret_def sec)
    then have "validateHMAC px q r b gw db' = validateHMAC px q r b gw db" by (simp add: validateHMAC_def Let_def)
    ultimately show ?thesis unfolding authenticate_def Let_def by (simp only:)
  qed
  have row: "(\<exists>e. GetAgent q i db' = Inl e \<and> (\<exists>e'. GetAgent q i db = Inl e')) \<or>
     (\<exists>a' a. GetAgent q i db' = Inr a' \<and> GetAgent q i db = Inr a \<and> an_Enabled a' = an_Enabled a \<and> an_ControlURL a' = an_ControlURL a \<and>
        an_ACPToken a' = an_ACPToken a)" for q i
    using assms(3) [of i] by (auto simp: GetAgent_def split: option.splits)
  show ?thesis
  proof (cases "webhook_route (wq_Path r)")
    case (Some p)
    obtain agentID source where p: "p = (agentID, source)" by (cases p)
    consider e e' where "GetAgent (pxf_agent fs) agentID db' = Inl e" "GetAgent (pxf_agent fs) agentID db = Inl e'"
      | a' a where "GetAgent (pxf_agent fs) agentID db' = Inr a'" "GetAgent (pxf_agent fs) agentID db = Inr a" "an_Enabled a' = an_Enabled a"
          "an_ControlURL a' = an_ControlURL a" "an_ACPToken a' = an_ACPToken a"
      using row [of "pxf_agent fs" agentID] by blast
    then show ?thesis
    proof cases
      case 1
      then show ?thesis by (simp add: handleWebhook_def Some p)
    next
      case 2
      show ?thesis unfolding handleWebhook_def Some p option.case prod.case 2 sum.case gw auth [OF 2(5)] ..
    qed
  qed (simp add: handleWebhook_def)
qed

text \<open>disabling an agent, which sets its status, does not stop deliveries to it: the proxy answers and forwards exactly as before.  Only the
  column \<^verbatim>\<open>enabled\<close> counts for it, which no command changes.\<close>

theorem disabled_agent_still_served:
  "handleWebhook px fs r (snd (UpdateAgentDisabled exec now i db)) lim w = handleWebhook px fs r db lim w"
proof -
  have "handleWebhook px fs r (map_agent i (\<lambda>a. a\<lparr>an_Status := ''disabled'', an_UpdatedAt := now\<rparr>) db) lim w = handleWebhook px fs r db lim w"
    by (rule handleWebhook_cong) (simp_all add: find_map_agent option.map_comp comp_def, simp add: map_agent_def, simp add: map_option_case split: option.split)
  then show ?thesis by (simp add: UpdateAgentDisabled_def update_agent_def split: option.split)
qed

text \<open>The agent's control server as the target of the HTTP client: the path is what follows the base of the address, and the request carries only
  the headers that the proxy sets.\<close>

definition agent_do :: "'w Wire \<Rightarrow> 'w Handlers \<Rightarrow> string \<Rightarrow> string \<Rightarrow> gotime \<Rightarrow> gotime \<Rightarrow> Forwarded \<Rightarrow> 'w AcpServer \<Rightarrow> (string + nat) \<times> 'w AcpServer" where
  "agent_do wi h base addr now done f s = (case serve_acp wi h \<lparr>ar_Method = ''POST'', ar_Path = trim_prefix (fw_URL f) base,
       ar_Authorization = fw_Authorization f, ar_IdempotencyKey = [], ar_Signature = [], ar_RemoteAddr = addr, ar_Body = fw_Body f,
       ar_ReadError = None, ar_now = now, ar_done = done\<rparr> s of
     (resp, s') \<Rightarrow> (Inr (rp_Status resp), s'))"

lemma unsigned_event_refused:
  assumes "event_source (ar_Path q) = Some source" "active_config h (as_world s) = Some cfg"
    "find (\<lambda>g. gw_Name g = source) (cf_Gateways cfg) = Some gw" "signed_gateway gw" "ar_Signature q = []" "ar_Method q = ''POST''"
  shows "\<exists>resp. serve_acp wi h q s = (resp, s) \<and> 400 \<le> rp_Status resp"
proof -
  have "source \<noteq> []" using assms(1) by (auto simp: event_source_def Let_def split: if_splits)
  with assms have "serve_acp wi h q s = handleWebhookEvent wi h source gw (li_MaxEventsPerMinute (cf_Limits cfg)) q s"
    by (simp add: serve_acp_def handleEventIngress_def signed_gateway_def)
  then show ?thesis using assms(4,5) by (auto simp: handleWebhookEvent_def webhook_error_def signed_gateway_def Let_def writeError_def split: sum.splits)
qed

text \<open>C38: with the agent's control server behind it, the proxy never gets a delivery for a gateway with signatures through, however well it is signed:
  it checks the signature but does not pass the header on, and the agent refuses every such event.\<close>

theorem signed_delivery_always_refused:
  assumes "handleWebhook px fs r db lim s = (resp, lim', s')" "px_do px = agent_do wi h base addr now done"
    "webhook_route (wq_Path r) = Some (agentID, source)" "\<not> str_contains source ''/''" "find_agent agentID db = Some agent"
    "trim_slashes (the (an_ControlURL agent)) = base" "active_config h (as_world s) = Some cfg"
    "find (\<lambda>g. gw_Name g = source) (cf_Gateways cfg) = Some gw" "signed_gateway gw"
  shows "400 \<le> fst resp \<and> s' = s"
proof (rule ccontr)
  assume "\<not> (400 \<le> fst resp \<and> s' = s)"
  then have "s' \<noteq> s \<or> fst resp < 400" by auto
  from handleWebhook_forwards [OF assms(1) this] assms(3,5,6) obtain token body ct answer where
    fw: "forward px (base @ ''/events/'' @ source) token body ct s = (answer, s')" "fst resp = (case answer of Inl e \<Rightarrow> 502 | Inr status \<Rightarrow> status)"
    by auto
  have "source \<noteq> []" using assms(3) by (auto simp: webhook_route_def split: option.splits prod.splits if_splits)
  then have src: "event_source (''/events/'' @ source) = Some source" using assms(4) by (simp add: event_source_def trim_prefix_def has_prefix_iff Let_def)
  let ?q = "\<lparr>ar_Method = ''POST'', ar_Path = ''/events/'' @ source, ar_Authorization = (if token \<noteq> [] then ''Bearer '' @ token else []),
    ar_IdempotencyKey = [], ar_Signature = [], ar_RemoteAddr = addr, ar_Body = body, ar_ReadError = None, ar_now = now, ar_done = done\<rparr>"
  obtain a where a: "serve_acp wi h ?q s = (a, s)" "400 \<le> rp_Status a"
    using unsigned_event_refused [of ?q source h s cfg gw wi] src assms(7,8,9) by auto
  have "trim_prefix (base @ ''/events/'' @ source) base = ''/events/'' @ source" by (simp add: trim_prefix_def)
  with fw a assms(2) have "s' = s \<and> 400 \<le> fst resp" by (auto simp: forward_def agent_do_def split: option.splits)
  with \<open>\<not> (400 \<le> fst resp \<and> s' = s)\<close> show False by blast
qed

definition agent_net :: "string list AcpServer ProxyNet" where
  "agent_net = hook_net (agent_do sample_wire sample_handlers ''http://a:8765'' ''10.0.0.2:999'' 7 7)"

theorem signed_delivery_always_refused_witness:
  "\<exists>resp lim' s'. handleWebhook agent_net no_proxy_faults (hook_request ''gh'') hook_db (New_proxy 0) (New_acp []) = (resp, lim', s') \<and>
     400 \<le> fst resp \<and> s' = New_acp [] \<and> authenticate agent_net None (hook_request ''gh'') (sample_agent_row ''a'') sample_hook ''x'' hook_db = None"
proof -
  obtain resp lim' s' where h: "handleWebhook agent_net no_proxy_faults (hook_request ''gh'') hook_db (New_proxy 0) (New_acp []) = (resp, lim', s')"
    by (cases "handleWebhook agent_net no_proxy_faults (hook_request ''gh'') hook_db (New_proxy 0) (New_acp [])")
  have "400 \<le> fst resp \<and> s' = New_acp []"
  proof (rule signed_delivery_always_refused [OF h])
    show "px_do agent_net = agent_do sample_wire sample_handlers ''http://a:8765'' ''10.0.0.2:999'' 7 7" by (simp add: agent_net_def hook_net_def)
    show "webhook_route (wq_Path (hook_request ''gh'')) = Some (''a'', ''gh'')" by code_simp
    show "\<not> str_contains ''gh'' ''/''" by code_simp
    show "find_agent ''a'' hook_db = Some (sample_agent_row ''a'')" by (simp add: find_agent_def hook_db_def sample_db_def sample_agent_row_def)
    show "trim_slashes (the (an_ControlURL (sample_agent_row ''a''))) = ''http://a:8765''" by code_simp
    show "active_config sample_handlers (as_world (New_acp [])) = Some (zero_Config\<lparr>cf_Gateways := [sample_hook]\<rparr>)"
      by (simp add: active_config_def sample_handlers_def)
    show "find (\<lambda>g. gw_Name g = ''gh'') (cf_Gateways (zero_Config\<lparr>cf_Gateways := [sample_hook]\<rparr>)) = Some sample_hook" by (simp add: sample_hook_def)
    show "signed_gateway sample_hook" by code_simp
  qed
  moreover have "authenticate agent_net None (hook_request ''gh'') (sample_agent_row ''a'') sample_hook ''x'' hook_db = None" by code_simp
  ultimately show ?thesis using h by blast
qed

end
