(* ===== verification/Reconciler.thy ===== *)
theory Reconciler
  imports Ruriko_Store
begin

section \<open>The reconciler\<close>

text \<open>
  \<^verbatim>\<open>internal/ruriko/runtime/reconciler.go\<close> with the types of \<^verbatim>\<open>types.go\<close>: one pass compares the agents of the database with the containers of the
  runtime.  What the outside answers during a pass is one argument, the observation: the list of containers, the state of each, and the
  answers of the agents' control servers.  Alerts are kept as values with their parts instead of the formatted text.  The failure of each
  statement and the clock are arguments.  Go visits the map of containers in any order; the alerts for orphans come here in the order in which
  the containers are listed.
  The theory shows what a pass leaves in the database for every agent, and when it reports a drift of the configuration.
\<close>

definition StateRunning :: string where "StateRunning = ''running''"
definition StateStopped :: string where "StateStopped = ''stopped''"
definition StateExited :: string where "StateExited = ''exited''"
definition StateCreated :: string where "StateCreated = ''created''"
definition StateRemoving :: string where "StateRemoving = ''removing''"
definition StateUnknown :: string where "StateUnknown = ''unknown''"

record AgentHandle =
  ah_AgentID :: string
  ah_ContainerID :: string
  ah_ContainerName :: string
  ah_ControlURL :: string

record RuntimeStatus =
  rs_State :: string
  rs_ExitCode :: int

record Observation =
  ob_List :: "string + AgentHandle list"
  ob_Status :: "AgentHandle \<Rightarrow> string + RuntimeStatus"
  ob_Health :: "string \<Rightarrow> string \<Rightarrow> string option"
  ob_GosutoHash :: "string \<Rightarrow> string \<Rightarrow> string + string"

record ReconcilerConfig =
  rf_Interval :: int
  rf_ACPClientFactory :: bool
  rf_HealthStaleThreshold :: int

definition NewReconciler :: "ReconcilerConfig \<Rightarrow> ReconcilerConfig" where
  "NewReconciler cfg = (if rf_Interval cfg = 0 then cfg\<lparr>rf_Interval := 30 * second\<rparr> else cfg)"

datatype alert_message =
    ContainerMissing
  | StatusChanged string string int
  | HealthCheckFailed string
  | HealthCheckStale int int
  | Drift string string
  | OrphanContainer

record recon_faults =
  rx_list :: fault
  rx_status :: "string \<Rightarrow> fault"
  rx_lastSeen :: "string \<Rightarrow> fault"
  rx_health :: "string \<Rightarrow> fault"
  rx_hash :: "string \<Rightarrow> fault"

record Recon =
  re_db :: Db
  re_alerts :: "(string \<times> alert_message) list"

definition alert :: "string \<Rightarrow> alert_message \<Rightarrow> Recon \<Rightarrow> Recon" where
  "alert agentID msg st = st\<lparr>re_alerts := re_alerts st @ [(agentID, msg)]\<rparr>"

definition containerStateToAgentStatus :: "string \<Rightarrow> string" where
  "containerStateToAgentStatus state =
     (if state = StateRunning then ''running''
      else if state \<in> {StateStopped, StateExited, StateCreated} then ''stopped''
      else if state \<in> {StateUnknown, StateRemoving} then ''error''
      else ''error'')"

definition truncate_text :: "string \<Rightarrow> nat \<Rightarrow> string" where
  "truncate_text s n = (if length s \<le> n then s else take n s)"

definition column :: "string option \<Rightarrow> string" where
  "column x = (case x of Some s \<Rightarrow> s | None \<Rightarrow> [])"

definition check_health :: "Observation \<Rightarrow> recon_faults \<Rightarrow> gotime \<Rightarrow> AgentRow \<Rightarrow> Recon \<Rightarrow> Recon" where
  "check_health ob fs now agent st = (case ob_Health ob (column (an_ControlURL agent)) (column (an_ACPToken agent)) of
       Some e \<Rightarrow> alert (an_ID agent) (HealthCheckFailed e) st
     | None \<Rightarrow> st\<lparr>re_db := snd (UpdateAgentHealthCheck (rx_health fs (an_ID agent)) now (an_ID agent) (re_db st))\<rparr>)"

definition check_stale :: "ReconcilerConfig \<Rightarrow> gotime \<Rightarrow> AgentRow \<Rightarrow> Recon \<Rightarrow> Recon" where
  "check_stale cfg now agent st = (case an_LastHealthCheck agent of
       None \<Rightarrow> st
     | Some t \<Rightarrow> if rf_HealthStaleThreshold cfg > 0 \<and> now - t > rf_HealthStaleThreshold cfg
         then alert (an_ID agent) (HealthCheckStale (now - t) (rf_HealthStaleThreshold cfg)) st else st)"

definition check_drift :: "Observation \<Rightarrow> recon_faults \<Rightarrow> gotime \<Rightarrow> AgentRow \<Rightarrow> Recon \<Rightarrow> Recon" where
  "check_drift ob fs now agent st = (case ob_GosutoHash ob (column (an_ControlURL agent)) (column (an_ACPToken agent)) of
       Inl e \<Rightarrow> st
     | Inr hash \<Rightarrow>
         if hash = [] then st
         else (let st1 = st\<lparr>re_db := snd (SetAgentActualGosutoHash (rx_hash fs (an_ID agent)) now (an_ID agent) hash (re_db st))\<rparr> in
           case an_DesiredGosutoHash agent of
             None \<Rightarrow> st1
           | Some desired \<Rightarrow> if desired \<noteq> [] \<and> hash \<noteq> desired
               then alert (an_ID agent) (Drift (truncate_text desired 8) (truncate_text hash 8)) st1 else st1))"

definition reconcileACP :: "ReconcilerConfig \<Rightarrow> Observation \<Rightarrow> recon_faults \<Rightarrow> gotime \<Rightarrow> AgentRow \<Rightarrow> Recon \<Rightarrow> Recon" where
  "reconcileACP cfg ob fs now agent st = check_drift ob fs now agent (check_stale cfg now agent (check_health ob fs now agent st))"

definition set_status :: "recon_faults \<Rightarrow> gotime \<Rightarrow> string \<Rightarrow> string \<Rightarrow> Recon \<Rightarrow> Recon" where
  "set_status fs now i status st = st\<lparr>re_db := snd (UpdateAgentStatus (rx_status fs i) now i status (re_db st))\<rparr>"

text \<open>The body of the loop over the agents.\<close>

definition note_status :: "recon_faults \<Rightarrow> gotime \<Rightarrow> AgentRow \<Rightarrow> RuntimeStatus \<Rightarrow> Recon \<Rightarrow> Recon" where
  "note_status fs now agent status st =
     (let newStatus = containerStateToAgentStatus (rs_State status) in
      if newStatus = an_Status agent then st
      else (let st1 = set_status fs now (an_ID agent) newStatus st in
        if newStatus = ''error'' \<or> (an_Status agent = ''running'' \<and> newStatus \<noteq> ''running'')
        then alert (an_ID agent) (StatusChanged (an_Status agent) newStatus (rs_ExitCode status)) st1 else st1))"

definition note_seen :: "recon_faults \<Rightarrow> gotime \<Rightarrow> AgentRow \<Rightarrow> RuntimeStatus \<Rightarrow> Recon \<Rightarrow> Recon" where
  "note_seen fs now agent status st =
     (if rs_State status = StateRunning
      then st\<lparr>re_db := snd (UpdateAgentLastSeen (rx_lastSeen fs (an_ID agent)) now (an_ID agent) (re_db st))\<rparr> else st)"

definition acp_checked :: "ReconcilerConfig \<Rightarrow> AgentRow \<Rightarrow> bool" where
  "acp_checked cfg agent \<longleftrightarrow> rf_ACPClientFactory cfg \<and> an_Enabled agent \<and> an_ProvisioningState agent = ''healthy'' \<and>
     an_ControlURL agent \<noteq> None \<and> an_ControlURL agent \<noteq> Some []"

definition reconcile_agent ::
    "ReconcilerConfig \<Rightarrow> Observation \<Rightarrow> recon_faults \<Rightarrow> gotime \<Rightarrow> (string \<times> AgentHandle) list \<Rightarrow> AgentRow \<Rightarrow> Recon \<Rightarrow> Recon"
where
  "reconcile_agent cfg ob fs now handleMap agent st =
     (if an_Status agent = ''stopped'' \<or> an_Status agent = ''deleted'' then st
      else (case map_of handleMap (an_ID agent) of
        None \<Rightarrow> if an_Status agent = ''running''
          then alert (an_ID agent) ContainerMissing (set_status fs now (an_ID agent) ''error'' st) else st
      | Some handle \<Rightarrow> (case ob_Status ob handle of
          Inl e \<Rightarrow> st
        | Inr status \<Rightarrow>
            (let st1 = note_seen fs now agent status (note_status fs now agent status st) in
             if acp_checked cfg agent then reconcileACP cfg ob fs now agent st1 else st1))))"

definition handle_map :: "AgentHandle list \<Rightarrow> (string \<times> AgentHandle) list" where
  "handle_map handles = fold (\<lambda>h. AList.update (ah_AgentID h) h) handles []"

definition report_orphans :: "AgentRow list \<Rightarrow> (string \<times> AgentHandle) list \<Rightarrow> Recon \<Rightarrow> Recon" where
  "report_orphans agents handleMap st =
     fold (\<lambda>(agentID, h) s. if agentID \<in> an_ID ` set agents then s else alert agentID OrphanContainer s) handleMap st"

definition Reconcile_agents :: "ReconcilerConfig \<Rightarrow> Observation \<Rightarrow> recon_faults \<Rightarrow> gotime \<Rightarrow> Recon \<Rightarrow> string option \<times> Recon" where
  "Reconcile_agents cfg ob fs now st = (case ListAgents (rx_list fs) (re_db st) of
       Inl e \<Rightarrow> (Some ''list agents'', st)
     | Inr agents \<Rightarrow> (case ob_List ob of
         Inl e \<Rightarrow> (Some (''list containers: '' @ e), st)
       | Inr handles \<Rightarrow>
           (let handleMap = handle_map handles in
            (None, report_orphans agents handleMap (fold (reconcile_agent cfg ob fs now handleMap) agents st)))))"

subsection \<open>What a pass leaves behind\<close>

text \<open>The row of an agent after a pass, in terms of its row before.\<close>

definition no_recon_faults :: recon_faults where
  "no_recon_faults = \<lparr>rx_list = None, rx_status = (\<lambda>_. None), rx_lastSeen = (\<lambda>_. None), rx_health = (\<lambda>_. None), rx_hash = (\<lambda>_. None)\<rparr>"

definition expected_status :: "Observation \<Rightarrow> (string \<times> AgentHandle) list \<Rightarrow> AgentRow \<Rightarrow> string" where
  "expected_status ob handleMap a =
     (if an_Status a = ''stopped'' \<or> an_Status a = ''deleted'' then an_Status a
      else (case map_of handleMap (an_ID a) of
              None \<Rightarrow> if an_Status a = ''running'' then ''error'' else an_Status a
            | Some h \<Rightarrow> (case ob_Status ob h of Inl e \<Rightarrow> an_Status a | Inr s \<Rightarrow> containerStateToAgentStatus (rs_State s))))"

text \<open>The agents whose control server is asked in a pass.\<close>

definition asked :: "ReconcilerConfig \<Rightarrow> Observation \<Rightarrow> (string \<times> AgentHandle) list \<Rightarrow> AgentRow \<Rightarrow> bool" where
  "asked cfg ob handleMap a \<longleftrightarrow> an_Status a \<noteq> ''stopped'' \<and> an_Status a \<noteq> ''deleted'' \<and> acp_checked cfg a \<and>
     (case map_of handleMap (an_ID a) of None \<Rightarrow> False | Some h \<Rightarrow> (case ob_Status ob h of Inl e \<Rightarrow> False | Inr s \<Rightarrow> True))"

definition hash_after :: "Observation \<Rightarrow> AgentRow \<Rightarrow> string option \<Rightarrow> string option" where
  "hash_after ob a old = (case ob_GosutoHash ob (column (an_ControlURL a)) (column (an_ACPToken a)) of
     Inl e \<Rightarrow> old | Inr hash \<Rightarrow> if hash = [] then old else Some hash)"

definition expected_hash :: "ReconcilerConfig \<Rightarrow> Observation \<Rightarrow> (string \<times> AgentHandle) list \<Rightarrow> AgentRow \<Rightarrow> string option" where
  "expected_hash cfg ob handleMap a =
     (if asked cfg ob handleMap a then hash_after ob a (an_ActualGosutoHash a) else an_ActualGosutoHash a)"

text \<open>Only the status, the hash, and the time stamps of a row change.\<close>

definition stable_part :: "AgentRow \<Rightarrow> AgentRow" where
  "stable_part a = a\<lparr>an_Status := [], an_ActualGosutoHash := None, an_LastSeen := None, an_LastHealthCheck := None, an_UpdatedAt := 0\<rparr>"

abbreviation same_otherwise :: "AgentRow \<Rightarrow> AgentRow \<Rightarrow> bool" where
  "same_otherwise a b \<equiv> stable_part b = stable_part a"

text \<open>The effect of a step on the rows: the row of \<open>i\<close> changes by \<open>f\<close>, the others stay.\<close>

definition acts_on :: "string \<Rightarrow> (AgentRow \<Rightarrow> AgentRow) \<Rightarrow> Recon \<Rightarrow> Recon \<Rightarrow> bool" where
  "acts_on i f st st' \<longleftrightarrow> (\<forall>j. find_agent j (re_db st') = map_option (\<lambda>a. if j = i then f a else a) (find_agent j (re_db st)))"

lemma acts_on_id: "acts_on i (\<lambda>a. a) st st"
  by (simp add: acts_on_def map_option.identity)

lemma acts_on_alert [simp]: "acts_on i f st (alert j m st') = acts_on i f st st'"
  by (simp add: acts_on_def alert_def)

lemma acts_on_comp: "acts_on i f st st1 \<Longrightarrow> acts_on i g st1 st2 \<Longrightarrow> acts_on i (\<lambda>a. g (f a)) st st2"
  by (auto simp: acts_on_def option.map_comp comp_def intro!: option.map_cong)

lemma acts_on_update:
  assumes "\<And>a. an_ID (f a) = an_ID a"
  shows "acts_on i (\<lambda>a. (f a)\<lparr>an_UpdatedAt := now\<rparr>) st (st\<lparr>re_db := snd (update_agent None now i f (re_db st))\<rparr>)"
  by (auto simp: acts_on_def find_update_agent assms intro!: option.map_cong dest: find_agent_Some)

lemma acts_on_status: "acts_on i (\<lambda>a. a\<lparr>an_Status := s, an_UpdatedAt := now\<rparr>) st (set_status no_recon_faults now i s st)"
  using acts_on_update [of "\<lambda>a. a\<lparr>an_Status := s\<rparr>" i now st] by (simp add: set_status_def no_recon_faults_def UpdateAgentStatus_def)

lemma note_status_acts:
  "\<exists>f. acts_on (an_ID a) f st (note_status no_recon_faults now a s st) \<and>
     (\<forall>x. an_Status x = an_Status a \<longrightarrow> an_Status (f x) = containerStateToAgentStatus (rs_State s)) \<and>
     (\<forall>x. same_otherwise x (f x) \<and> an_ActualGosutoHash (f x) = an_ActualGosutoHash x)"
proof (cases "containerStateToAgentStatus (rs_State s) = an_Status a")
  case True
  then show ?thesis using acts_on_id by (intro exI [of _ "\<lambda>a. a"]) (simp add: note_status_def)
next
  case False
  let ?s = "containerStateToAgentStatus (rs_State s)"
  show ?thesis using False acts_on_status [of "an_ID a" now ?s st]
    by (intro exI [of _ "\<lambda>a. a\<lparr>an_Status := ?s, an_UpdatedAt := now\<rparr>"]) (simp add: note_status_def Let_def stable_part_def)
qed

lemma note_seen_acts:
  "\<exists>f. acts_on (an_ID a) f st (note_seen no_recon_faults now a s st) \<and>
     (\<forall>x. an_Status (f x) = an_Status x \<and> same_otherwise x (f x) \<and> an_ActualGosutoHash (f x) = an_ActualGosutoHash x)"
proof (cases "rs_State s = StateRunning")
  case True
  then show ?thesis using acts_on_update [of "\<lambda>a. a\<lparr>an_LastSeen := Some now\<rparr>" "an_ID a" now st]
    by (intro exI [of _ "\<lambda>a. a\<lparr>an_LastSeen := Some now, an_UpdatedAt := now\<rparr>"])
      (simp add: note_seen_def no_recon_faults_def UpdateAgentLastSeen_def stable_part_def)
next
  case False
  then show ?thesis using acts_on_id by (intro exI [of _ "\<lambda>a. a"]) (simp add: note_seen_def)
qed

lemma reconcileACP_acts:
  "\<exists>f. acts_on (an_ID a) f st (reconcileACP cfg ob no_recon_faults now a st) \<and>
     (\<forall>x. an_Status (f x) = an_Status x \<and> same_otherwise x (f x) \<and>
        an_ActualGosutoHash (f x) = hash_after ob a (an_ActualGosutoHash x))"
proof -
  obtain f where f: "acts_on (an_ID a) f st (check_stale cfg now a (check_health ob no_recon_faults now a st))"
      "\<And>x. an_Status (f x) = an_Status x \<and> same_otherwise x (f x) \<and> an_ActualGosutoHash (f x) = an_ActualGosutoHash x"
  proof (cases "ob_Health ob (column (an_ControlURL a)) (column (an_ACPToken a))")
    case None
    have "acts_on (an_ID a) (\<lambda>a. a\<lparr>an_LastHealthCheck := Some now, an_UpdatedAt := now\<rparr>) st (check_health ob no_recon_faults now a st)"
      using None acts_on_update [of "\<lambda>a. a\<lparr>an_LastHealthCheck := Some now\<rparr>" "an_ID a" now st]
      by (simp add: check_health_def no_recon_faults_def UpdateAgentHealthCheck_def)
    then show thesis by (intro that [of "\<lambda>a. a\<lparr>an_LastHealthCheck := Some now, an_UpdatedAt := now\<rparr>"])
      (auto simp: check_stale_def stable_part_def split: option.split)
  next
    case (Some e)
    then show thesis using acts_on_id by (intro that [of "\<lambda>a. a"]) (auto simp: check_health_def check_stale_def split: option.split)
  qed
  show ?thesis
  proof (cases "ob_GosutoHash ob (column (an_ControlURL a)) (column (an_ACPToken a))")
    case (Inl e)
    then show ?thesis using f by (intro exI [of _ f]) (simp add: reconcileACP_def check_drift_def hash_after_def)
  next
    case (Inr hash)
    show ?thesis
    proof (cases "hash = []")
      case True
      with Inr f show ?thesis by (intro exI [of _ f]) (simp add: reconcileACP_def check_drift_def hash_after_def)
    next
      case False
      let ?g = "\<lambda>a. a\<lparr>an_ActualGosutoHash := Some hash, an_UpdatedAt := now\<rparr>" and ?st = "check_stale cfg now a (check_health ob no_recon_faults now a st)"
      have "acts_on (an_ID a) ?g ?st (check_drift ob no_recon_faults now a ?st)"
        using Inr False acts_on_update [of "\<lambda>a. a\<lparr>an_ActualGosutoHash := Some hash\<rparr>" "an_ID a" now ?st]
        by (auto simp: check_drift_def no_recon_faults_def SetAgentActualGosutoHash_def Let_def split: option.split)
      from acts_on_comp [OF f(1) this] f(2) Inr False show ?thesis
        by (intro exI [of _ "\<lambda>x. ?g (f x)"]) (auto simp: reconcileACP_def stable_part_def hash_after_def)
    qed
  qed
qed

lemma seen_container_acts:
  assumes "an_Status a \<noteq> ''stopped''" "an_Status a \<noteq> ''deleted''" "map_of hm (an_ID a) = Some h" "ob_Status ob h = Inr s"
  shows "\<exists>f. acts_on (an_ID a) f st (reconcile_agent cfg ob no_recon_faults now hm a st) \<and>
     (\<forall>x. an_Status x = an_Status a \<and> an_ActualGosutoHash x = an_ActualGosutoHash a \<longrightarrow>
        an_Status (f x) = expected_status ob hm a \<and> an_ActualGosutoHash (f x) = expected_hash cfg ob hm a \<and> same_otherwise x (f x))"
proof -
  let ?st1 = "note_status no_recon_faults now a s st"
  let ?st2 = "note_seen no_recon_faults now a s ?st1"
  have status: "expected_status ob hm a = containerStateToAgentStatus (rs_State s)" using assms by (simp add: expected_status_def)
  obtain f where f: "acts_on (an_ID a) f st ?st1" "\<And>x. an_Status x = an_Status a \<Longrightarrow> an_Status (f x) = containerStateToAgentStatus (rs_State s)"
    "\<And>x. same_otherwise x (f x) \<and> an_ActualGosutoHash (f x) = an_ActualGosutoHash x"
    using note_status_acts by blast
  obtain g where g: "acts_on (an_ID a) g ?st1 ?st2"
    "\<And>x. an_Status (g x) = an_Status x \<and> same_otherwise x (g x) \<and> an_ActualGosutoHash (g x) = an_ActualGosutoHash x"
    using note_seen_acts by blast
  note fg = acts_on_comp [OF f(1) g(1)]
  show ?thesis
  proof (cases "acp_checked cfg a")
    case True
    obtain k where k: "acts_on (an_ID a) k ?st2 (reconcileACP cfg ob no_recon_faults now a ?st2)"
      "\<And>x. an_Status (k x) = an_Status x \<and> same_otherwise x (k x) \<and>
        an_ActualGosutoHash (k x) = hash_after ob a (an_ActualGosutoHash x)"
      using reconcileACP_acts by blast
    have "reconcile_agent cfg ob no_recon_faults now hm a st = reconcileACP cfg ob no_recon_faults now a ?st2"
      using assms True by (simp add: reconcile_agent_def Let_def)
    moreover have "expected_hash cfg ob hm a = hash_after ob a (an_ActualGosutoHash a)"
      using assms True by (simp add: expected_hash_def asked_def)
    ultimately show ?thesis using acts_on_comp [OF fg k(1)] f g k status by (intro exI [of _ "\<lambda>x. k (g (f x))"]) simp
  next
    case False
    then have "reconcile_agent cfg ob no_recon_faults now hm a st = ?st2" "expected_hash cfg ob hm a = an_ActualGosutoHash a"
      using assms by (simp_all add: reconcile_agent_def Let_def expected_hash_def asked_def)
    then show ?thesis using fg f g status by (intro exI [of _ "\<lambda>x. g (f x)"]) simp
  qed
qed

lemma reconcile_agent_acts:
  "\<exists>f. acts_on (an_ID a) f st (reconcile_agent cfg ob no_recon_faults now hm a st) \<and>
     (\<forall>x. an_Status x = an_Status a \<and> an_ActualGosutoHash x = an_ActualGosutoHash a \<longrightarrow>
        an_Status (f x) = expected_status ob hm a \<and> an_ActualGosutoHash (f x) = expected_hash cfg ob hm a \<and> same_otherwise x (f x))"
proof -
  let ?down = "an_Status a = ''stopped'' \<or> an_Status a = ''deleted''"
  consider (idle) "reconcile_agent cfg ob no_recon_faults now hm a st = st" "expected_status ob hm a = an_Status a"
      "expected_hash cfg ob hm a = an_ActualGosutoHash a"
    | (missing) "\<not> ?down" "map_of hm (an_ID a) = None" "an_Status a = ''running''"
    | (seen) h s where "\<not> ?down" "map_of hm (an_ID a) = Some h" "ob_Status ob h = Inr s"
    by (cases ?down; cases "map_of hm (an_ID a)"; cases "ob_Status ob (the (map_of hm (an_ID a)))"; cases "an_Status a = ''running''")
      (auto simp: reconcile_agent_def expected_status_def expected_hash_def asked_def)
  then show ?thesis
  proof cases
    case idle
    then show ?thesis using acts_on_id by (intro exI [of _ "\<lambda>a. a"]) simp
  next
    case missing
    then show ?thesis using acts_on_status [of "an_ID a" now "''error''" st]
      by (intro exI [of _ "\<lambda>a. a\<lparr>an_Status := ''error'', an_UpdatedAt := now\<rparr>"])
        (auto simp: reconcile_agent_def expected_status_def expected_hash_def asked_def stable_part_def)
  next
    case seen
    then show ?thesis using seen_container_acts by blast
  qed
qed

lemma reconcile_agent_other: "j \<noteq> an_ID a \<Longrightarrow> find_agent j (re_db (reconcile_agent cfg ob no_recon_faults now hm a st)) = find_agent j (re_db st)"
proof -
  assume j: "j \<noteq> an_ID a"
  obtain f where "acts_on (an_ID a) f st (reconcile_agent cfg ob no_recon_faults now hm a st)" using reconcile_agent_acts by blast
  with j show ?thesis by (cases "find_agent j (re_db st)") (simp_all add: acts_on_def)
qed

lemma reconcile_agents_rows:
  assumes "distinct (map an_ID as)" "\<forall>a \<in> set as. find_agent (an_ID a) (re_db st) = Some a" "a \<in> set as"
  shows "\<exists>b. find_agent (an_ID a) (re_db (fold (reconcile_agent cfg ob no_recon_faults now hm) as st)) = Some b \<and>
    an_Status b = expected_status ob hm a \<and> an_ActualGosutoHash b = expected_hash cfg ob hm a \<and> same_otherwise a b"
  using assms
proof (induction as arbitrary: st)
  case (Cons x xs)
  let ?st = "reconcile_agent cfg ob no_recon_faults now hm x st"
  have later: "find_agent j (re_db (fold (reconcile_agent cfg ob no_recon_faults now hm) ys t)) = find_agent j (re_db t)"
    if "j \<notin> an_ID ` set ys" for j ys t
    using that by (induction ys arbitrary: t) (auto simp: reconcile_agent_other)
  show ?case
  proof (cases "a = x")
    case True
    obtain f where "acts_on (an_ID x) f st ?st" "an_Status (f x) = expected_status ob hm x \<and> an_ActualGosutoHash (f x) = expected_hash cfg ob hm x \<and> same_otherwise x (f x)"
      using reconcile_agent_acts [of x st cfg ob now hm] by blast
    then show ?thesis using True Cons.prems later [of "an_ID x" xs ?st] by (auto simp: acts_on_def)
  next
    case False
    have "\<forall>y \<in> set xs. find_agent (an_ID y) (re_db ?st) = Some y"
    proof
      fix y
      assume y: "y \<in> set xs"
      then have "an_ID y \<noteq> an_ID x" using head_key_fresh [OF Cons.prems(1)] by blast
      then show "find_agent (an_ID y) (re_db ?st) = Some y" using y Cons.prems(2) by (simp add: reconcile_agent_other)
    qed
    moreover have "distinct (map an_ID xs)" "a \<in> set xs" using Cons.prems(1,3) False by simp_all
    ultimately show ?thesis using Cons.IH [of ?st] by simp
  qed
qed simp

lemma report_orphans_db: "re_db (report_orphans as hm st) = re_db st"
  unfolding report_orphans_def by (induction hm arbitrary: st) (auto simp: alert_def)


lemma find_agent_unique: "distinct (map an_ID (db_agents db)) \<Longrightarrow> a \<in> set (db_agents db) \<Longrightarrow> find_agent (an_ID a) db = Some a"
proof (cases "find_agent (an_ID a) db")
  case None
  then show "a \<in> set (db_agents db) \<Longrightarrow> ?thesis" by (auto simp: find_agent_def find_None_iff)
next
  case (Some b)
  then show "distinct (map an_ID (db_agents db)) \<Longrightarrow> a \<in> set (db_agents db) \<Longrightarrow> ?thesis"
    using find_agent_Some [OF Some] by (auto simp: distinct_map dest: inj_onD)
qed

text \<open>C37: a pass without failing statements leaves an agent that is neither stopped nor deleted and has a container whose state can be read with the status that state
  stands for, and one that counts as running and has no container with the status \<^verbatim>\<open>error\<close>.  All other agents keep their status: those that were stopped or deleted,
  even if a container of theirs runs, and those without a container that do not count as running.  The hash of the
  configuration is the one the agent reports, if it was asked and reports one; and nothing else but time stamps changes.\<close>

theorem reconcile_tracks_containers:
  assumes "Reconcile_agents cfg ob no_recon_faults now st = (None, st')" "ob_List ob = Inr handles" "distinct (map an_ID (db_agents (re_db st)))"
    "a \<in> set (db_agents (re_db st))"
  shows "\<exists>b. find_agent (an_ID a) (re_db st') = Some b \<and> an_Status b = expected_status ob (handle_map handles) a \<and>
    an_ActualGosutoHash b = expected_hash cfg ob (handle_map handles) a \<and> same_otherwise a b"
proof -
  let ?as = "sort_key (\<lambda>a. - an_CreatedAt a) (db_agents (re_db st))"
  have st': "re_db st' = re_db (fold (reconcile_agent cfg ob no_recon_faults now (handle_map handles)) ?as st)"
    using assms(1,2) by (auto simp: Reconcile_agents_def ListAgents_def no_recon_faults_def report_orphans_db Let_def)
  have "distinct (map an_ID ?as)" using assms(3) by (simp add: distinct_map)
  moreover have "\<forall>a \<in> set ?as. find_agent (an_ID a) (re_db st) = Some a" using find_agent_unique [OF assms(3)] by simp
  ultimately show ?thesis unfolding st' using assms(4) by (intro reconcile_agents_rows) simp_all
qed

definition sample_observation :: Observation where
  "sample_observation = \<lparr>ob_List = Inr [\<lparr>ah_AgentID = ''a'', ah_ContainerID = ''c'', ah_ContainerName = ''ruriko-agent-a'', ah_ControlURL = []\<rparr>],
     ob_Status = (\<lambda>h. Inr \<lparr>rs_State = ''exited'', rs_ExitCode = 1\<rparr>), ob_Health = (\<lambda>u t. Some ''refused''), ob_GosutoHash = (\<lambda>u t. Inl ''refused'')\<rparr>"

theorem reconcile_tracks_containers_witness:
  "\<exists>st'. Reconcile_agents \<lparr>rf_Interval = 0, rf_ACPClientFactory = True, rf_HealthStaleThreshold = 0\<rparr> sample_observation no_recon_faults 9
       \<lparr>re_db = sample_db, re_alerts = []\<rparr> = (None, st') \<and> (\<exists>b. find_agent ''a'' (re_db st') = Some b \<and> an_Status b = ''stopped'')"
proof -
  let ?cfg = "\<lparr>rf_Interval = 0, rf_ACPClientFactory = True, rf_HealthStaleThreshold = 0\<rparr>" and ?st = "\<lparr>re_db = sample_db, re_alerts = []\<rparr>"
  let ?run = "Reconcile_agents ?cfg sample_observation no_recon_faults 9 ?st"
  have "fst ?run = None" by code_simp
  then have r: "?run = (None, snd ?run)" by (metis prod.collapse)
  have a: "sample_agent_row ''a'' \<in> set (db_agents (re_db ?st))" "distinct (map an_ID (db_agents (re_db ?st)))"
    by (simp_all add: sample_db_def)
  let ?handles = "[\<lparr>ah_AgentID = ''a'', ah_ContainerID = ''c'', ah_ContainerName = ''ruriko-agent-a'', ah_ControlURL = []\<rparr>]"
  have h: "ob_List sample_observation = Inr ?handles" by (simp add: sample_observation_def)
  have "expected_status sample_observation (handle_map ?handles) (sample_agent_row ''a'') = ''stopped''" by code_simp
  moreover have "an_ID (sample_agent_row ''a'') = ''a''" by (simp add: sample_agent_row_def)
  ultimately show ?thesis using reconcile_tracks_containers [OF r h a(2,1)] r by (intro exI [of _ "snd ?run"]) auto
qed

text \<open>So the status that disabling an agent sets does not survive the next pass while its container exists.\<close>

lemma disabled_status_expected:
  "an_Status a = ''disabled'' \<Longrightarrow> map_of hm (an_ID a) = Some h \<Longrightarrow> ob_Status ob h = Inr s \<Longrightarrow> expected_status ob hm a \<in> {''running'', ''stopped'', ''error''}"
  by (simp add: expected_status_def containerStateToAgentStatus_def)

subsection \<open>Drift\<close>

definition drift_of :: "ReconcilerConfig \<Rightarrow> Observation \<Rightarrow> (string \<times> AgentHandle) list \<Rightarrow> AgentRow \<Rightarrow> alert_message list" where
  "drift_of cfg ob hm a =
     (if asked cfg ob hm a
      then (case (ob_GosutoHash ob (column (an_ControlURL a)) (column (an_ACPToken a)), an_DesiredGosutoHash a) of
              (Inr hash, Some desired) \<Rightarrow> if hash \<noteq> [] \<and> desired \<noteq> [] \<and> hash \<noteq> desired
                then [Drift (truncate_text desired 8) (truncate_text hash 8)] else []
            | _ \<Rightarrow> [])
      else [])"

fun is_drift :: "alert_message \<Rightarrow> bool" where
  "is_drift (Drift d h) \<longleftrightarrow> True"
| "is_drift m \<longleftrightarrow> False"

definition drift_alerts :: "string \<Rightarrow> Recon \<Rightarrow> alert_message list" where
  "drift_alerts i st = map snd (filter (\<lambda>(j, m). j = i \<and> is_drift m) (re_alerts st))"

lemma drift_alerts_simps [simp]:
  "drift_alerts i (alert j m st) = drift_alerts i st @ (if j = i \<and> is_drift m then [m] else [])"
  "drift_alerts i (st\<lparr>re_db := db\<rparr>) = drift_alerts i st"
  by (auto simp: drift_alerts_def alert_def)

lemma drift_alerts_quiet [simp]:
  "drift_alerts i (set_status fs now j s st) = drift_alerts i st" "drift_alerts i (note_status fs now a rs st) = drift_alerts i st"
  "drift_alerts i (note_seen fs now a rs st) = drift_alerts i st" "drift_alerts i (check_health ob fs now a st) = drift_alerts i st"
  "drift_alerts i (check_stale cfg now a st) = drift_alerts i st"
  by (simp_all add: set_status_def note_status_def note_seen_def check_health_def check_stale_def Let_def split: option.split)

lemma drift_alerts_agent:
  "drift_alerts i (reconcile_agent cfg ob fs now hm a st) = drift_alerts i st @ (if i = an_ID a then drift_of cfg ob hm a else [])"
  by (auto simp: reconcile_agent_def reconcileACP_def check_drift_def drift_of_def asked_def Let_def split: option.split sum.split)

lemma drift_alerts_fold:
  "distinct (map an_ID as) \<Longrightarrow> a \<in> set as \<Longrightarrow>
    drift_alerts (an_ID a) (fold (reconcile_agent cfg ob fs now hm) as st) = drift_alerts (an_ID a) st @ drift_of cfg ob hm a"
proof (induction as arbitrary: st)
  case (Cons x xs)
  have other: "drift_alerts i (fold (reconcile_agent cfg ob fs now hm) ys t) = drift_alerts i t" if "i \<notin> an_ID ` set ys" for i ys t
    using that by (induction ys arbitrary: t) (auto simp: drift_alerts_agent)
  show ?case
  proof (cases "a = x")
    case True
    then show ?thesis using Cons.prems other [of "an_ID x" xs] by (simp add: drift_alerts_agent)
  next
    case False
    then have "a \<in> set xs" "an_ID a \<noteq> an_ID x" using Cons.prems head_key_fresh [of an_ID x xs a] by auto
    then show ?thesis using Cons.IH [of "reconcile_agent cfg ob fs now hm x st"] Cons.prems(1) by (simp add: drift_alerts_agent)
  qed
qed simp

lemma report_orphans_drift: "drift_alerts i (report_orphans as hm st) = drift_alerts i st"
  unfolding report_orphans_def by (induction hm arbitrary: st) auto

text \<open>a pass reports a drift for an agent exactly if it asked the agent, the agent reported a hash, and that hash is not the one wanted; it does so once, and
  whether or not statements of the pass fail.\<close>

theorem drift_reported_exactly:
  assumes "Reconcile_agents cfg ob fs now st = (None, st')" "ob_List ob = Inr handles" "distinct (map an_ID (db_agents (re_db st)))"
    "a \<in> set (db_agents (re_db st))"
  shows "drift_alerts (an_ID a) st' = drift_alerts (an_ID a) st @ drift_of cfg ob (handle_map handles) a"
proof -
  let ?as = "sort_key (\<lambda>a. - an_CreatedAt a) (db_agents (re_db st))"
  have "st' = report_orphans ?as (handle_map handles) (fold (reconcile_agent cfg ob fs now (handle_map handles)) ?as st)"
    using assms(1,2) by (auto simp: Reconcile_agents_def ListAgents_def Let_def split: sum.splits option.splits)
  then show ?thesis using drift_alerts_fold [of ?as a] assms(3,4) by (simp add: report_orphans_drift distinct_map)
qed

theorem drift_reported_exactly_witness:
  "let ob = sample_observation\<lparr>ob_Status := \<lambda>h. Inr \<lparr>rs_State = ''running'', rs_ExitCode = 0\<rparr>, ob_GosutoHash := \<lambda>u t. Inr ''abc''\<rparr>;
       a = (sample_agent_row ''a'')\<lparr>an_DesiredGosutoHash := Some ''0123456789''\<rparr>;
       st = \<lparr>re_db = sample_db\<lparr>db_agents := [a]\<rparr>, re_alerts = []\<rparr>;
       st' = snd (Reconcile_agents \<lparr>rf_Interval = 0, rf_ACPClientFactory = True, rf_HealthStaleThreshold = 0\<rparr> ob no_recon_faults 9 st)
   in drift_alerts ''a'' st' = [Drift ''01234567'' ''abc'']"
proof -
  let ?ob = "sample_observation\<lparr>ob_Status := \<lambda>h. Inr \<lparr>rs_State = ''running'', rs_ExitCode = 0\<rparr>, ob_GosutoHash := \<lambda>u t. Inr ''abc''\<rparr>"
  let ?a = "(sample_agent_row ''a'')\<lparr>an_DesiredGosutoHash := Some ''0123456789''\<rparr>"
  let ?st = "\<lparr>re_db = sample_db\<lparr>db_agents := [?a]\<rparr>, re_alerts = []\<rparr>" and ?cfg = "\<lparr>rf_Interval = 0, rf_ACPClientFactory = True, rf_HealthStaleThreshold = 0\<rparr>"
  let ?run = "Reconcile_agents ?cfg ?ob no_recon_faults 9 ?st"
  let ?handles = "[\<lparr>ah_AgentID = ''a'', ah_ContainerID = ''c'', ah_ContainerName = ''ruriko-agent-a'', ah_ControlURL = []\<rparr>]"
  have "fst ?run = None" by code_simp
  then have r: "?run = (None, snd ?run)" by (metis prod.collapse)
  have h: "ob_List ?ob = Inr ?handles" by (simp add: sample_observation_def)
  have "drift_alerts (an_ID ?a) (snd ?run) = drift_alerts (an_ID ?a) ?st @ drift_of ?cfg ?ob (handle_map ?handles) ?a"
    by (rule drift_reported_exactly [OF r h]) simp_all
  also have "\<dots> = [Drift ''01234567'' ''abc'']" by code_simp
  finally show ?thesis by (simp add: Let_def sample_agent_row_def)
qed

end
