(* ===== verification/Retry.thy ===== *)
theory Retry
  imports Go_Values
begin

section \<open>Retries\<close>

text \<open>
  \<^verbatim>\<open>common/retry/retry.go\<close>: exponential backoff.  The function is an action on the world \<open>'w\<close> whose error is an option; \<open>before k\<close> is the
  error of the context when attempt \<open>k\<close> begins, \<open>during k\<close> its error if it ends while the pause after attempt \<open>k\<close> lasts.
  The result is the list of joined errors, empty for success, and the pauses that were begun.
\<close>

record 'e RetryConfig =
  rc_MaxAttempts :: int
  rc_InitialDelay :: int
  rc_MaxDelay :: int
  rc_ShouldRetry :: "('e \<Rightarrow> bool) option"

definition DefaultConfig :: "'e RetryConfig" where
  "DefaultConfig = \<lparr>rc_MaxAttempts = 3, rc_InitialDelay = 500 * millisecond, rc_MaxDelay = 10 * second, rc_ShouldRetry = None\<rparr>"

definition normalized :: "'e RetryConfig \<Rightarrow> 'e RetryConfig" where
  "normalized cfg = cfg\<lparr>rc_MaxAttempts := (if rc_MaxAttempts cfg \<le> 0 then 1 else rc_MaxAttempts cfg),
     rc_InitialDelay := (if rc_InitialDelay cfg \<le> 0 then rc_InitialDelay (DefaultConfig :: 'e RetryConfig) else rc_InitialDelay cfg),
     rc_MaxDelay := (if rc_MaxDelay cfg \<le> 0 then rc_MaxDelay (DefaultConfig :: 'e RetryConfig) else rc_MaxDelay cfg)\<rparr>"

definition next_delay :: "int \<Rightarrow> int \<Rightarrow> int" where
  "next_delay maxDelay delay = (let d = wrap64 (delay * 2) in if d > maxDelay then maxDelay else d)"

text \<open>\<open>left\<close> attempts are left, the next one is number \<open>k\<close>.\<close>

fun retry_loop ::
    "(nat \<Rightarrow> 'e option) \<Rightarrow> (nat \<Rightarrow> 'e option) \<Rightarrow> ('e \<Rightarrow> bool) \<Rightarrow> int \<Rightarrow> ('w \<Rightarrow> 'e option \<times> 'w) \<Rightarrow> nat \<Rightarrow> nat \<Rightarrow> int \<Rightarrow> 'e list \<Rightarrow> 'w \<Rightarrow>
     'e list \<times> int list \<times> 'w"
where
  "retry_loop before during shouldRetry maxDelay fn 0 k delay lastErr w = (lastErr, [], w)"
| "retry_loop before during shouldRetry maxDelay fn (Suc left) k delay lastErr w = (case before k of
       Some err \<Rightarrow> (lastErr @ [err], [], w)
     | None \<Rightarrow> (case fn w of
           (None, w1) \<Rightarrow> ([], [], w1)
         | (Some e, w1) \<Rightarrow>
             if \<not> shouldRetry e then ([e], [], w1)
             else if left = 0 then ([e], [], w1)
             else (case during k of
                     Some err \<Rightarrow> ([e, err], [delay], w1)
                   | None \<Rightarrow> (case retry_loop before during shouldRetry maxDelay fn left (Suc k) (next_delay maxDelay delay) [e] w1 of
                         (errs, delays, w2) \<Rightarrow> (errs, delay # delays, w2)))))"

definition Do ::
    "(nat \<Rightarrow> 'e option) \<Rightarrow> (nat \<Rightarrow> 'e option) \<Rightarrow> 'e RetryConfig \<Rightarrow> ('w \<Rightarrow> 'e option \<times> 'w) \<Rightarrow> 'w \<Rightarrow> 'e list \<times> int list \<times> 'w"
where
  "Do before during cfg fn w =
     (let c = normalized cfg in
      retry_loop before during (case rc_ShouldRetry c of Some f \<Rightarrow> f | None \<Rightarrow> (\<lambda>e. True)) (rc_MaxDelay c) fn (nat (rc_MaxAttempts c)) 1
        (rc_InitialDelay c) [] w)"

subsection \<open>What a retry does\<close>

text \<open>The world after a number of runs of the action, whose errors are ignored.\<close>

fun run_times :: "nat \<Rightarrow> ('w \<Rightarrow> 'e option \<times> 'w) \<Rightarrow> 'w \<Rightarrow> 'w" where
  "run_times 0 fn w = w"
| "run_times (Suc n) fn w = run_times n fn (snd (fn w))"

lemma run_times_Suc: "run_times (Suc n) fn w = snd (fn (run_times n fn w))"
  by (induction n arbitrary: w) auto

definition action_failed :: "nat \<Rightarrow> ('w \<Rightarrow> 'e option \<times> 'w) \<Rightarrow> 'w \<Rightarrow> bool" where
  "action_failed n fn w \<longleftrightarrow> fst (fn (run_times n fn w)) \<noteq> None"

lemma retry_loop_attempts:
  "retry_loop before during sr md fn left k delay lastErr w = (errs, delays, w') \<Longrightarrow> 0 < left \<or> lastErr \<noteq> [] \<Longrightarrow>
     \<exists>n \<le> left. w' = run_times n fn w \<and> length delays \<le> n \<and>
       (errs = [] \<longleftrightarrow> 0 < n \<and> \<not> action_failed (n - 1) fn w) \<and> (\<forall>i < n. Suc i < n \<longrightarrow> action_failed i fn w)"
proof (induction left arbitrary: k delay lastErr w errs delays w')
  case 0
  then show ?case by auto
next
  case (Suc left)
  obtain r w1 where fn: "fn w = (r, w1)" by (cases "fn w")
  show ?case
  proof (cases "before k = None \<and> (\<exists>e. r = Some e \<and> sr e \<and> left \<noteq> 0 \<and> during k = None)")
    case False
    show ?thesis
    proof (cases "before k")
      case (Some err)
      then show ?thesis using Suc.prems by (intro exI [of _ 0]) auto
    next
      case None
      with False Suc.prems fn show ?thesis
        by (intro exI [of _ 1]) (auto simp: action_failed_def split: option.splits if_splits)
    qed
  next
    case True
    then obtain e where e: "before k = None" "r = Some e" "sr e" "left \<noteq> 0" "during k = None" by blast
    obtain errs1 delays1 w2 where rest: "retry_loop before during sr md fn left (Suc k) (next_delay md delay) [e] w1 = (errs1, delays1, w2)"
      by (cases "retry_loop before during sr md fn left (Suc k) (next_delay md delay) [e] w1")
    have out: "errs = errs1" "delays = delay # delays1" "w' = w2" using Suc.prems fn e rest by auto
    from Suc.IH [OF rest] obtain n where n: "n \<le> left" "w2 = run_times n fn w1" "length delays1 \<le> n"
      "errs1 = [] \<longleftrightarrow> 0 < n \<and> \<not> action_failed (n - 1) fn w1" "\<forall>i < n. Suc i < n \<longrightarrow> action_failed i fn w1" by auto
    have shift: "action_failed (Suc i) fn w = action_failed i fn w1" for i by (simp add: action_failed_def fn)
    have first: "action_failed 0 fn w" by (simp add: action_failed_def fn e)
    have "errs = [] \<longleftrightarrow> 0 < Suc n \<and> \<not> action_failed (Suc n - 1) fn w"
      using n(4) out(1) first shift [of "n - 1"] by (cases n) auto
    moreover have "action_failed i fn w" if "Suc i < Suc n" for i
      using that first n(5) shift [of "i - 1"] by (cases i) auto
    ultimately show ?thesis using n out fn by (intro exI [of _ "Suc n"]) auto
  qed
qed

lemma next_delay_bounds: "0 < d \<Longrightarrow> d \<le> m \<Longrightarrow> m \<le> 2 ^ 61 \<Longrightarrow> d \<le> next_delay m d \<and> next_delay m d \<le> m"
proof -
  assume d: "0 < d" "d \<le> m" "m \<le> 2 ^ 61"
  then have "wrap64 (d * 2) = d * 2" by (intro wrap64_id) (simp_all add: min_int64_def max_int64_def)
  with d show ?thesis by (simp add: next_delay_def Let_def)
qed

lemma retry_loop_delays:
  "retry_loop before during sr md fn left k delay lastErr w = (errs, delays, w') \<Longrightarrow> 0 < delay \<Longrightarrow> delay \<le> md \<Longrightarrow> md \<le> 2 ^ 61 \<Longrightarrow>
     sorted delays \<and> (\<forall>d \<in> set delays. delay \<le> d \<and> d \<le> md)"
proof (induction left arbitrary: k delay lastErr w errs delays w')
  case (Suc left)
  obtain r w1 where fn: "fn w = (r, w1)" by (cases "fn w")
  obtain errs1 delays1 w2 where rest: "retry_loop before during sr md fn left (Suc k) (next_delay md delay) [the r] w1 = (errs1, delays1, w2)"
    by (cases "retry_loop before during sr md fn left (Suc k) (next_delay md delay) [the r] w1")
  have nd: "delay \<le> next_delay md delay" "next_delay md delay \<le> md" using next_delay_bounds [OF Suc.prems(2-4)] by simp_all
  then have r1: "sorted delays1 \<and> (\<forall>d \<in> set delays1. next_delay md delay \<le> d \<and> d \<le> md)" using Suc.prems(2,4) by (intro Suc.IH [OF rest]) linarith+
  have "delay \<le> d \<and> d \<le> md" if "d \<in> set delays1" for d using r1 nd(1) that by (meson order_trans)
  with r1 Suc.prems(3) have all: "sorted (delay # delays1) \<and> (\<forall>d \<in> set (delay # delays1). delay \<le> d \<and> d \<le> md)" by simp
  have "delays \<in> {[], [delay], delay # delays1}" using Suc.prems(1) fn rest by (auto split: option.splits if_splits)
  then show ?case using all Suc.prems(3) by auto
qed simp

text \<open>a retried action runs at most \<^verbatim>\<open>MaxAttempts\<close> times and never after it has succeeded; the result is success exactly if the last run
  succeeded; and with a default or sensible configuration the pauses never shrink and never exceed the maximum.\<close>

theorem retry_bounded:
  assumes "Do before during cfg fn w = (errs, delays, w')" "rc_InitialDelay (normalized cfg) \<le> rc_MaxDelay (normalized cfg)"
    "rc_MaxDelay cfg \<le> 2 ^ 61"
  shows "(\<exists>n. int n \<le> max 1 (rc_MaxAttempts cfg) \<and> w' = run_times n fn w \<and> length delays \<le> n \<and>
      (errs = [] \<longleftrightarrow> 0 < n \<and> \<not> action_failed (n - 1) fn w) \<and> (\<forall>i. Suc i < n \<longrightarrow> action_failed i fn w)) \<and>
    sorted delays \<and> (\<forall>d \<in> set delays. d \<le> rc_MaxDelay (normalized cfg))"
proof -
  let ?c = "normalized cfg" and ?sr = "case rc_ShouldRetry (normalized cfg) of Some f \<Rightarrow> f | None \<Rightarrow> (\<lambda>e. True)"
  from assms(1) have l: "retry_loop before during ?sr (rc_MaxDelay ?c) fn (nat (rc_MaxAttempts ?c)) 1 (rc_InitialDelay ?c) [] w = (errs, delays, w')"
    by (simp add: Do_def Let_def)
  have m: "0 < nat (rc_MaxAttempts ?c)" "int (nat (rc_MaxAttempts ?c)) = max 1 (rc_MaxAttempts cfg)"
    by (auto simp: normalized_def)
  have d: "0 < rc_InitialDelay ?c" "rc_MaxDelay ?c \<le> 2 ^ 61"
    using assms(3) by (auto simp: normalized_def DefaultConfig_def millisecond_def second_def)
  from retry_loop_attempts [OF l] m obtain n where "n \<le> nat (rc_MaxAttempts ?c)" "w' = run_times n fn w" "length delays \<le> n"
      "errs = [] \<longleftrightarrow> 0 < n \<and> \<not> action_failed (n - 1) fn w" "\<forall>i < n. Suc i < n \<longrightarrow> action_failed i fn w" by auto
  moreover have "int n \<le> max 1 (rc_MaxAttempts cfg)" using \<open>n \<le> _\<close> m(2) by linarith
  moreover have "sorted delays \<and> (\<forall>d \<in> set delays. d \<le> rc_MaxDelay ?c)" using retry_loop_delays [OF l d(1) assms(2) d(2)] by blast
  ultimately show ?thesis by (metis Suc_lessD)
qed

theorem retry_bounded_witness:
  "\<exists>errs delays w' n. Do (\<lambda>_. None) (\<lambda>_. None) DefaultConfig (\<lambda>w. (if w < (2 :: nat) then Some ''down'' else None, Suc w)) 0 = (errs, delays, w') \<and>
     int n \<le> 3 \<and> w' = run_times n (\<lambda>w. (if w < (2 :: nat) then Some ''down'' else None, Suc w)) 0 \<and> sorted delays"
proof -
  let ?fn = "\<lambda>w. (if w < (2 :: nat) then Some ''down'' else None, Suc w)"
  obtain errs delays w' where d: "Do (\<lambda>_. None) (\<lambda>_. None) DefaultConfig ?fn 0 = (errs, delays, w')"
    by (cases "Do (\<lambda>_. None) (\<lambda>_. None) DefaultConfig ?fn 0")
  have "rc_InitialDelay (normalized (DefaultConfig :: string RetryConfig)) \<le> rc_MaxDelay (normalized (DefaultConfig :: string RetryConfig))"
    "rc_MaxDelay (DefaultConfig :: string RetryConfig) \<le> 2 ^ 61" "rc_MaxAttempts (DefaultConfig :: string RetryConfig) = 3"
    by (simp_all add: normalized_def DefaultConfig_def millisecond_def second_def)
  with retry_bounded [OF d] d show ?thesis by auto
qed

end
