(* ===== verification/Acp_Client.thy ===== *)
theory Acp_Client
  imports Acp_Safety Retry
begin

section \<open>The client of the control protocol\<close>

text \<open>
  \<^verbatim>\<open>internal/ruriko/runtime/acp/client.go\<close>: the requests that the control plane sends to an agent.  The transport, the JSON codecs and the source of
  identifiers are parameters; the transport acts on the world \<open>'w\<close>.  The time limits of the calls end in an error of the transport.
  Joined with the server of theory \<open>Acp_Server\<close> the client is used in the theories \<open>Webhook_Proxy\<close> and \<open>Secret_Delivery\<close>.
\<close>

record OutRequest =
  or_Method :: string
  or_Path :: string
  or_URL :: string
  or_ContentType :: string
  or_TraceID :: string
  or_RequestID :: string
  or_IdempotencyKey :: string
  or_Authorization :: string
  or_Body :: "string option"

record HttpResponse =
  hr_StatusCode :: nat
  hr_Status :: string
  hr_Body :: string
  hr_ReadError :: "string option"

record 'w Net =
  nt_badURL :: "string \<Rightarrow> string option"
  nt_newID :: "'w \<Rightarrow> string \<times> 'w"
  nt_do :: "OutRequest \<Rightarrow> 'w \<Rightarrow> (string + HttpResponse) \<times> 'w"
  nt_errorField :: "string \<Rightarrow> string option"
  nt_marshalConfig :: "ConfigApplyRequest \<Rightarrow> string + string"
  nt_marshalSecrets :: "(string \<times> string) list \<Rightarrow> string + string"
  nt_marshalLeases :: "SecretLease list \<Rightarrow> string + string"
  nt_marshalTool :: "ToolCallRequest \<Rightarrow> string + string"
  nt_health :: "string \<Rightarrow> string + string \<times> string"
  nt_statusHash :: "string \<Rightarrow> string + string"
  nt_toolResult :: "string \<Rightarrow> string + string"

definition maxResponseBytes :: int where "maxResponseBytes = 1048576"

record Client =
  cl_baseURL :: string
  cl_token :: string

definition New_client :: "string \<Rightarrow> string option \<Rightarrow> Client" where
  "New_client baseURL opts = \<lparr>cl_baseURL = baseURL, cl_token = (case opts of Some token \<Rightarrow> token | None \<Rightarrow> [])\<rparr>"

datatype client_error =
    MarshalRequest string
  | BuildRequest string
  | SendRequest string string string
  | ReadBody string
  | AcpError string string nat string string
  | UnmarshalResponse string

definition setCommonHeaders :: "'w Net \<Rightarrow> Client \<Rightarrow> string \<Rightarrow> bool \<Rightarrow> OutRequest \<Rightarrow> 'w \<Rightarrow> OutRequest \<times> 'w" where
  "setCommonHeaders nt c traceID addIdempotencyKey req w = (case nt_newID nt w of (reqID, w') \<Rightarrow>
     (req\<lparr>or_TraceID := traceID, or_RequestID := reqID, or_IdempotencyKey := (if addIdempotencyKey then reqID else []),
        or_Authorization := (if cl_token c \<noteq> [] then ''Bearer '' @ cl_token c else [])\<rparr>, w'))"

definition ellipsis :: string where "ellipsis = [CHR 0xE2, CHR 0x80, CHR 0xA6]"

definition read_response :: "HttpResponse \<Rightarrow> string + string" where
  "read_response resp =
     (if int (length (hr_Body resp)) \<ge> maxResponseBytes then Inr (limit_reader maxResponseBytes (hr_Body resp))
      else (case hr_ReadError resp of Some e \<Rightarrow> Inl e | None \<Rightarrow> Inr (hr_Body resp)))"

definition error_detail :: "'w Net \<Rightarrow> string \<Rightarrow> string" where
  "error_detail nt body = (case nt_errorField nt body of
       Some msg \<Rightarrow> if msg \<noteq> [] then msg else (if length body > 200 then take 200 body @ ellipsis else body)
     | None \<Rightarrow> if length body > 200 then take 200 body @ ellipsis else body)"

text \<open>\<open>out\<close> decodes the answer, if the caller wants it.\<close>

definition do_request :: "'w Net \<Rightarrow> OutRequest \<Rightarrow> (string \<Rightarrow> string + 'o) option \<Rightarrow> 'w \<Rightarrow> (client_error + 'o option) \<times> 'w" where
  "do_request nt req out w = (case nt_do nt req w of
       (Inl e, w') \<Rightarrow> (Inl (SendRequest (or_Method req) (or_Path req) e), w')
     | (Inr resp, w') \<Rightarrow> (case read_response resp of
           Inl e \<Rightarrow> (Inl (ReadBody e), w')
         | Inr body \<Rightarrow>
             if hr_StatusCode resp \<ge> 400
             then (Inl (AcpError (or_Method req) (or_Path req) (hr_StatusCode resp) (hr_Status resp) (error_detail nt body)), w')
             else (case out of
                     None \<Rightarrow> (Inr None, w')
                   | Some decode \<Rightarrow> if body = [] then (Inr None, w')
                       else (case decode body of Inl e \<Rightarrow> (Inl (UnmarshalResponse e), w') | Inr x \<Rightarrow> (Inr (Some x), w')))))"

definition blank_request :: "string \<Rightarrow> string \<Rightarrow> string \<Rightarrow> string option \<Rightarrow> OutRequest" where
  "blank_request meth path url body = \<lparr>or_Method = meth, or_Path = path, or_URL = url, or_ContentType = (if body = None then [] else ''application/json''),
     or_TraceID = [], or_RequestID = [], or_IdempotencyKey = [], or_Authorization = [], or_Body = body\<rparr>"

definition get_request :: "'w Net \<Rightarrow> Client \<Rightarrow> string \<Rightarrow> string \<Rightarrow> (string \<Rightarrow> string + 'o) option \<Rightarrow> 'w \<Rightarrow> (client_error + 'o option) \<times> 'w" where
  "get_request nt c traceID path out w = (case nt_badURL nt (cl_baseURL c @ path) of
       Some e \<Rightarrow> (Inl (BuildRequest e), w)
     | None \<Rightarrow> (case setCommonHeaders nt c traceID False (blank_request ''GET'' path (cl_baseURL c @ path) None) w of
         (req, w') \<Rightarrow> do_request nt req out w'))"

definition post :: "'w Net \<Rightarrow> Client \<Rightarrow> string \<Rightarrow> string \<Rightarrow> (string + string) option \<Rightarrow> (string \<Rightarrow> string + 'o) option \<Rightarrow> bool \<Rightarrow> 'w \<Rightarrow> (client_error + 'o option) \<times> 'w" where
  "post nt c traceID path body out idempotent w = (case body of
       Some (Inl e) \<Rightarrow> (Inl (MarshalRequest e), w)
     | _ \<Rightarrow> (case nt_badURL nt (cl_baseURL c @ path) of
         Some e \<Rightarrow> (Inl (BuildRequest e), w)
       | None \<Rightarrow>
           (case setCommonHeaders nt c traceID idempotent
                   (blank_request ''POST'' path (cl_baseURL c @ path) (case body of Some (Inr b) \<Rightarrow> Some b | _ \<Rightarrow> None)) w of
              (req, w') \<Rightarrow> do_request nt req out w')))"

definition failure_of :: "(client_error + 'o) \<times> 'w \<Rightarrow> client_error option \<times> 'w" where
  "failure_of r = (case r of (Inl e, w) \<Rightarrow> (Some e, w) | (Inr _, w) \<Rightarrow> (None, w))"

definition Health :: "'w Net \<Rightarrow> Client \<Rightarrow> string \<Rightarrow> 'w \<Rightarrow> (client_error + (string \<times> string) option) \<times> 'w" where
  "Health nt c traceID w = get_request nt c traceID ''/health'' (Some (nt_health nt)) w"

definition Status_acp :: "'w Net \<Rightarrow> Client \<Rightarrow> string \<Rightarrow> 'w \<Rightarrow> (client_error + string option) \<times> 'w" where
  "Status_acp nt c traceID w = get_request nt c traceID ''/status'' (Some (nt_statusHash nt)) w"

definition no_output :: "(string \<Rightarrow> string + unit) option" where "no_output = None"

definition ApplyConfig :: "'w Net \<Rightarrow> Client \<Rightarrow> string \<Rightarrow> ConfigApplyRequest \<Rightarrow> 'w \<Rightarrow> client_error option \<times> 'w" where
  "ApplyConfig nt c traceID req w = failure_of (post nt c traceID ''/config/apply'' (Some (nt_marshalConfig nt req)) no_output True w)"

definition ApplySecrets :: "'w Net \<Rightarrow> Client \<Rightarrow> string \<Rightarrow> (string \<times> string) list \<Rightarrow> 'w \<Rightarrow> client_error option \<times> 'w" where
  "ApplySecrets nt c traceID secrets w = failure_of (post nt c traceID ''/secrets/apply'' (Some (nt_marshalSecrets nt secrets)) no_output True w)"

definition ApplySecretsToken :: "'w Net \<Rightarrow> Client \<Rightarrow> string \<Rightarrow> SecretLease list \<Rightarrow> 'w \<Rightarrow> client_error option \<times> 'w" where
  "ApplySecretsToken nt c traceID leases w = failure_of (post nt c traceID ''/secrets/token'' (Some (nt_marshalLeases nt leases)) no_output True w)"

definition Restart_acp :: "'w Net \<Rightarrow> Client \<Rightarrow> string \<Rightarrow> 'w \<Rightarrow> client_error option \<times> 'w" where
  "Restart_acp nt c traceID w = failure_of (post nt c traceID ''/process/restart'' None no_output True w)"

definition Cancel_acp :: "'w Net \<Rightarrow> Client \<Rightarrow> string \<Rightarrow> 'w \<Rightarrow> client_error option \<times> 'w" where
  "Cancel_acp nt c traceID w = failure_of (post nt c traceID ''/tasks/cancel'' None no_output True w)"

definition CallTool :: "'w Net \<Rightarrow> Client \<Rightarrow> string \<Rightarrow> ToolCallRequest \<Rightarrow> 'w \<Rightarrow> (client_error + string option) \<times> 'w" where
  "CallTool nt c traceID req w = post nt c traceID ''/tools/call'' (Some (nt_marshalTool nt req)) (Some (nt_toolResult nt)) True w"

end
