(* ===== verification/Distributor.thy ===== *)
theory Distributor
  imports Acp_Client Ruriko_Secrets
begin

section \<open>Distributing secrets\<close>

text \<open>
  \<^verbatim>\<open>internal/ruriko/secrets/distributor.go\<close>: the secrets bound to an agent are sent to it, as one-time tokens or, without a token server, as
  values.  The state \<open>'s\<close> is that of the whole installation; an environment gives access to the database in it, the token server and the network.
  The failure of each statement is an argument, and \<open>before\<close>, \<open>during\<close> say when the context ends, as for \<open>Do\<close>.
  What a push achieves is shown in theory \<open>Secret_Delivery\<close>, where the environment is that of a whole installation.
\<close>

record TokenLeaseResult =
  tr_RedeemURL :: string
  tr_SecretRef :: string
  tr_Token :: string

record 's DistEnv =
  de_db :: "'s \<Rightarrow> Db"
  de_put :: "Db \<Rightarrow> 's \<Rightarrow> 's"
  de_issue :: "(string \<Rightarrow> string \<Rightarrow> string \<Rightarrow> string \<Rightarrow> 's \<Rightarrow> (string + TokenLeaseResult) \<times> 's) option"
  de_net :: "'s Net"
  de_unseal :: aead_open
  de_masterKey :: "nat list"
  de_before :: "nat \<Rightarrow> client_error option"
  de_during :: "nat \<Rightarrow> client_error option"

record dist_faults =
  df_agent :: fault
  df_bindings :: fault
  df_read :: "string \<Rightarrow> fault"
  df_mark :: "string \<Rightarrow> fault"

datatype dist_error =
    DistAgentNotFound store_error
  | NoControlURL string
  | ListBindingsFailed secrets_error
  | AllFailed dist_error
  | Metadata string secrets_error
  | IssueToken string string
  | DecryptSecret string secrets_error
  | AcpFailed "client_error list"
  | SomeFailed nat dist_error

text \<open>What both ways of distribution start with: the control address, the token and the bindings of the agent.\<close>

definition push_target :: "'s DistEnv \<Rightarrow> dist_faults \<Rightarrow> string \<Rightarrow> 's \<Rightarrow> dist_error + (string \<times> string \<times> Binding list)" where
  "push_target de fs agentID s = (case GetAgent (df_agent fs) agentID (de_db de s) of
       Inl e \<Rightarrow> Inl (DistAgentNotFound e)
     | Inr agent \<Rightarrow> (case an_ControlURL agent of
         None \<Rightarrow> Inl (NoControlURL agentID)
       | Some controlURL \<Rightarrow>
           if controlURL = [] then Inl (NoControlURL agentID)
           else (case ListBindings (df_bindings fs) agentID (de_db de s) of
                   Inl e \<Rightarrow> Inl (ListBindingsFailed e)
                 | Inr bindings \<Rightarrow> Inr (controlURL, (case an_ACPToken agent of Some t \<Rightarrow> t | None \<Rightarrow> []), bindings))))"

text \<open>One token per binding: the leases, the names they were issued for, and the errors.\<close>

fun issue_leases ::
    "'s DistEnv \<Rightarrow> (string \<Rightarrow> string \<Rightarrow> string \<Rightarrow> string \<Rightarrow> 's \<Rightarrow> (string + TokenLeaseResult) \<times> 's) \<Rightarrow> dist_faults \<Rightarrow> string \<Rightarrow> Binding list \<Rightarrow> 's \<Rightarrow>
     SecretLease list \<times> string list \<times> dist_error list \<times> 's"
where
  "issue_leases de issue fs agentID [] s = ([], [], [], s)"
| "issue_leases de issue fs agentID (b # bs) s = (case GetMetadata (df_read fs (bi_SecretName b)) (bi_SecretName b) (de_db de s) of
       Inl e \<Rightarrow> (case issue_leases de issue fs agentID bs s of (ls, refs, errs, s') \<Rightarrow> (ls, refs, Metadata (bi_SecretName b) e # errs, s'))
     | Inr meta \<Rightarrow> (case issue agentID (bi_SecretName b) (sx_Type meta) ''distribution'' s of
           (Inl e, s1) \<Rightarrow> (case issue_leases de issue fs agentID bs s1 of (ls, refs, errs, s') \<Rightarrow> (ls, refs, IssueToken (bi_SecretName b) e # errs, s'))
         | (Inr result, s1) \<Rightarrow> (case issue_leases de issue fs agentID bs s1 of (ls, refs, errs, s') \<Rightarrow>
             (\<lparr>sl_SecretRef = tr_SecretRef result, sl_RedemptionToken = tr_Token result, sl_KuzeURL = tr_RedeemURL result\<rparr> # ls,
              bi_SecretName b # refs, errs, s'))))"

text \<open>\<^verbatim>\<open>MarkPushed\<close> for every binding that was sent; the number of those that worked.\<close>

fun mark_pushed :: "'s DistEnv \<Rightarrow> dist_faults \<Rightarrow> string \<Rightarrow> string list \<Rightarrow> Binding list \<Rightarrow> 's \<Rightarrow> nat \<times> 's" where
  "mark_pushed de fs agentID refs [] s = (0, s)"
| "mark_pushed de fs agentID refs (b # bs) s =
     (if bi_SecretName b \<notin> set refs then mark_pushed de fs agentID refs bs s
      else (case MarkPushed (df_mark fs (bi_SecretName b)) agentID (bi_SecretName b) (de_db de s) of
              (Some e, db) \<Rightarrow> mark_pushed de fs agentID refs bs (de_put de db s)
            | (None, db) \<Rightarrow> apfst Suc (mark_pushed de fs agentID refs bs (de_put de db s))))"

definition push_result :: "dist_error list \<Rightarrow> nat \<Rightarrow> dist_error option \<times> nat" where
  "push_result errs pushed = (case errs of [] \<Rightarrow> (None, pushed) | e # es \<Rightarrow> (Some (SomeFailed (length errs) e), pushed))"

text \<open>Sending with retries, and the marks if that worked.\<close>

definition send_and_mark ::
    "'s DistEnv \<Rightarrow> dist_faults \<Rightarrow> string \<Rightarrow> ('s \<Rightarrow> client_error option \<times> 's) \<Rightarrow> string list \<Rightarrow>
     dist_error list \<Rightarrow> Binding list \<Rightarrow> 's \<Rightarrow> (dist_error option \<times> nat) \<times> 's"
where
  "send_and_mark de fs agentID send refs errs bindings s =
     (case Do (de_before de) (de_during de) DefaultConfig send s of
        (e # es, _, s') \<Rightarrow> ((Some (AcpFailed (e # es)), 0), s')
      | ([], _, s') \<Rightarrow> (case mark_pushed de fs agentID refs bindings s' of (pushed, s'') \<Rightarrow> (push_result errs pushed, s'')))"

definition distributeViaTokens ::
    "'s DistEnv \<Rightarrow> (string \<Rightarrow> string \<Rightarrow> string \<Rightarrow> string \<Rightarrow> 's \<Rightarrow> (string + TokenLeaseResult) \<times> 's) \<Rightarrow> dist_faults \<Rightarrow> string \<Rightarrow> string \<Rightarrow> 's \<Rightarrow>
     (dist_error option \<times> nat) \<times> 's"
where
  "distributeViaTokens de issue fs traceID agentID s = (case push_target de fs agentID s of
       Inl e \<Rightarrow> ((Some e, 0), s)
     | Inr (controlURL, acpToken, bindings) \<Rightarrow>
         if bindings = [] then ((None, 0), s)
         else (case issue_leases de issue fs agentID bindings s of (leases, refs, errs, s1) \<Rightarrow>
           if leases = [] then ((case errs of [] \<Rightarrow> None | e # _ \<Rightarrow> Some (AllFailed e), 0), s1)
           else send_and_mark de fs agentID (ApplySecretsToken (de_net de) (New_client controlURL (Some acpToken)) traceID leases) refs errs bindings s1))"

text \<open>The values of the bindings that can be decrypted, and the errors of the others.\<close>

fun decrypt_bindings :: "'s DistEnv \<Rightarrow> dist_faults \<Rightarrow> Binding list \<Rightarrow> 's \<Rightarrow> (string \<times> string) list \<times> dist_error list" where
  "decrypt_bindings de fs [] s = ([], [])"
| "decrypt_bindings de fs (b # bs) s =
     (case (decrypt_bindings de fs bs s, Get_secret (de_unseal de) (df_read fs (bi_SecretName b)) (de_masterKey de) (bi_SecretName b) (de_db de s)) of
        ((payload, errs), Inl e) \<Rightarrow> (payload, DecryptSecret (bi_SecretName b) e # errs)
      | ((payload, errs), Inr raw) \<Rightarrow> ((bi_SecretName b, StdEncoding raw) # payload, errs))"

definition pushRaw :: "'s DistEnv \<Rightarrow> dist_faults \<Rightarrow> string \<Rightarrow> string \<Rightarrow> 's \<Rightarrow> (dist_error option \<times> nat) \<times> 's" where
  "pushRaw de fs traceID agentID s = (case push_target de fs agentID s of
       Inl e \<Rightarrow> ((Some e, 0), s)
     | Inr (controlURL, acpToken, bindings) \<Rightarrow>
         if bindings = [] then ((None, 0), s)
         else (case decrypt_bindings de fs bindings s of (payload, errs) \<Rightarrow>
           if payload = [] then ((case errs of [] \<Rightarrow> None | e # _ \<Rightarrow> Some (AllFailed e), 0), s)
           else send_and_mark de fs agentID (ApplySecrets (de_net de) (New_client controlURL (Some acpToken)) traceID payload) (map fst payload) errs bindings s))"

definition PushToAgent :: "'s DistEnv \<Rightarrow> dist_faults \<Rightarrow> string \<Rightarrow> string \<Rightarrow> 's \<Rightarrow> (dist_error option \<times> nat) \<times> 's" where
  "PushToAgent de fs traceID agentID s = (case de_issue de of
       Some issue \<Rightarrow> distributeViaTokens de issue fs traceID agentID s
     | None \<Rightarrow> pushRaw de fs traceID agentID s)"

end
