(* ===== verification/Gitai_Secrets.thy ===== *)
theory Gitai_Secrets
  imports Stores Base64
begin

section \<open>The agent's secrets\<close>

text \<open>
  \<^verbatim>\<open>internal/gitai/secrets/store.go\<close> and \<^verbatim>\<open>manager.go\<close>: the secrets an agent holds in memory, and the manager that lets them expire.
  The order in which Go walks a map is the order of the list that stands for it; the clock readings are arguments.
  \<^verbatim>\<open>Evict\<close> locks twice, the manager and then the store, and is modelled as these two steps, between which other calls can come.
  The theory shows how long a secret is served, that the store never holds a secret without a time limit, and two ways in which a secret
  that the manager reports as valid is gone.
\<close>

subsection \<open>Store\<close>

type_synonym bytes = "nat list"

datatype secret_error =
    DecodeSecret string
  | NotInStore string
  | ErrSecretExpired string
  | ErrSecretNotFound string

type_synonym secret_store = "(string \<times> bytes) list"

definition New_store :: secret_store where "New_store = []"

fun decode_all :: "(string \<times> string) list \<Rightarrow> secret_error + secret_store" where
  "decode_all [] = Inr []"
| "decode_all ((name, b64val) # incoming) = (case DecodeString b64val of
       None \<Rightarrow> Inl (DecodeSecret name)
     | Some val \<Rightarrow> map_sum (\<lambda>e. e) (\<lambda>decoded. (name, val) # decoded) (decode_all incoming))"

definition Apply_store :: "(string \<times> string) list \<Rightarrow> secret_store \<Rightarrow> secret_error option \<times> secret_store" where
  "Apply_store incoming s = (case decode_all incoming of Inl e \<Rightarrow> (Some e, s) | Inr decoded \<Rightarrow> (None, decoded))"

definition Get_store :: "string \<Rightarrow> secret_store \<Rightarrow> secret_error + bytes" where
  "Get_store name s = (case map_of s name of None \<Rightarrow> Inl (NotInStore name) | Some val \<Rightarrow> Inr val)"

definition bytes_string :: "bytes \<Rightarrow> string" where
  "bytes_string = map char_of"

definition GetString :: "string \<Rightarrow> secret_store \<Rightarrow> secret_error + string" where
  "GetString name s = map_sum (\<lambda>e. e) bytes_string (Get_store name s)"

definition Names :: "secret_store \<Rightarrow> string list" where
  "Names s = map fst s"

definition Clear :: "string list \<Rightarrow> secret_store \<Rightarrow> secret_store" where
  "Clear refs s = fold AList.delete refs s"

definition Env :: "(string \<times> string) list \<Rightarrow> secret_store \<Rightarrow> (string \<times> string) list" where
  "Env mapping s = concat (map (\<lambda>(envKey, secretName). case map_of s secretName of
     Some val \<Rightarrow> [(envKey, bytes_string val)] | None \<Rightarrow> []) mapping)"

subsection \<open>Manager\<close>

definition DefaultCacheTTL :: int where "DefaultCacheTTL = 4 * hour"

record SecretManager =
  sm_store :: secret_store
  sm_entries :: "(string \<times> gotime) list"
  sm_ttl :: int

definition NewManager_secrets :: "secret_store \<Rightarrow> int \<Rightarrow> SecretManager" where
  "NewManager_secrets s ttl = \<lparr>sm_store = s, sm_entries = [], sm_ttl = (if ttl \<le> 0 then DefaultCacheTTL else ttl)\<rparr>"

definition Apply_secrets :: "gotime \<Rightarrow> (string \<times> string) list \<Rightarrow> int \<Rightarrow> SecretManager \<Rightarrow> secret_error option \<times> SecretManager" where
  "Apply_secrets now sec ttl m =
     (let ttl = (if ttl \<le> 0 then sm_ttl m else ttl) in
      case Apply_store sec (sm_store m) of
        (Some e, s) \<Rightarrow> (Some e, m\<lparr>sm_store := s\<rparr>)
      | (None, s) \<Rightarrow> (None, m\<lparr>sm_store := s, sm_entries := fold (\<lambda>(ref, _). AList.update ref (now + ttl)) sec (sm_entries m)\<rparr>))"

definition GetSecretBytes :: "gotime \<Rightarrow> string \<Rightarrow> SecretManager \<Rightarrow> secret_error + bytes" where
  "GetSecretBytes now ref m = (case map_of (sm_entries m) ref of
       None \<Rightarrow> Inl (ErrSecretNotFound ref)
     | Some expiresAt \<Rightarrow> if now > expiresAt then Inl (ErrSecretExpired ref) else Get_store ref (sm_store m))"

definition GetSecret :: "gotime \<Rightarrow> string \<Rightarrow> SecretManager \<Rightarrow> secret_error + string" where
  "GetSecret now ref m = map_sum (\<lambda>e. e) bytes_string (GetSecretBytes now ref m)"

definition IsExpired :: "gotime \<Rightarrow> string \<Rightarrow> SecretManager \<Rightarrow> bool" where
  "IsExpired now ref m = (case map_of (sm_entries m) ref of None \<Rightarrow> True | Some expiresAt \<Rightarrow> now > expiresAt)"

definition Expired :: "gotime \<Rightarrow> SecretManager \<Rightarrow> string list" where
  "Expired now m = map fst (filter (\<lambda>(ref, expiresAt). now > expiresAt) (sm_entries m))"

definition Evict_entries :: "gotime \<Rightarrow> gotime \<Rightarrow> SecretManager \<Rightarrow> string list \<times> SecretManager" where
  "Evict_entries now1 now2 m =
     (let toEvict = filter (\<lambda>ref. case map_of (sm_entries m) ref of Some expiresAt \<Rightarrow> now2 > expiresAt | None \<Rightarrow> False) (Expired now1 m)
      in (toEvict, m\<lparr>sm_entries := fold AList.delete toEvict (sm_entries m)\<rparr>))"

definition Evict_values :: "string list \<Rightarrow> SecretManager \<Rightarrow> SecretManager" where
  "Evict_values toEvict m = (if toEvict = [] then m else m\<lparr>sm_store := Clear toEvict (sm_store m)\<rparr>)"

definition Evict :: "gotime \<Rightarrow> gotime \<Rightarrow> SecretManager \<Rightarrow> nat \<times> SecretManager" where
  "Evict now1 now2 m = (case Evict_entries now1 now2 m of (toEvict, m1) \<Rightarrow> (length toEvict, Evict_values toEvict m1))"

subsection \<open>How long a secret is served\<close>

lemma map_of_deletes [simp]: "map_of (fold AList.delete ks m) = (\<lambda>k. if k \<in> set ks then None else map_of m k)"
  by (induction ks arbitrary: m) auto

lemma map_of_updates:
  "map_of (fold (\<lambda>(ref, _). AList.update ref t) sec m) k = (if k \<in> fst ` set sec then Some t else map_of m k)"
  by (induction sec arbitrary: m) auto

lemma decode_all_Inr:
  "decode_all incoming = Inr decoded \<Longrightarrow> map fst decoded = map fst incoming \<and>
     (map_of incoming k = Some v \<longrightarrow> (\<exists>val. DecodeString v = Some val \<and> map_of decoded k = Some val)) \<and>
     (map_of incoming k = None \<longrightarrow> map_of decoded k = None)"
proof (induction incoming arbitrary: decoded)
  case (Cons kv incoming)
  obtain n b where kv: "kv = (n, b)" by (cases kv)
  from Cons.prems obtain val rest where d: "DecodeString b = Some val" "decode_all incoming = Inr rest" "decoded = (n, val) # rest"
    by (auto simp: kv split: option.splits sum.splits) (cases "decode_all incoming"; auto)
  from Cons.IH [OF d(2)] d(1,3) show ?case by (auto simp: kv)
qed simp

lemma Apply_secrets_ok:
  assumes "Apply_secrets now sec ttl m = (None, m')"
  obtains decoded where "decode_all sec = Inr decoded" "sm_store m' = decoded" "sm_ttl m' = sm_ttl m"
    "sm_entries m' = fold (\<lambda>(ref, _). AList.update ref (now + (if ttl \<le> 0 then sm_ttl m else ttl))) sec (sm_entries m)"
  using assms by (auto simp: Apply_secrets_def Apply_store_def Let_def split: sum.splits)

text \<open>Evictions, at any times, never touch a secret before its time.\<close>

lemma Evict_keeps:
  assumes "map_of (sm_entries m) ref = Some t" "now2 \<le> t"
  shows "map_of (sm_entries (snd (Evict now1 now2 m))) ref = Some t"
    "map_of (sm_store (snd (Evict now1 now2 m))) ref = map_of (sm_store m) ref"
  using assms by (auto simp: Evict_def Evict_entries_def Evict_values_def Let_def Clear_def)

lemma Evict_never_extends:
  "map_of (sm_entries (snd (Evict now1 now2 m))) ref = Some t \<Longrightarrow> map_of (sm_entries m) ref = Some t"
  by (auto simp: Evict_def Evict_entries_def Evict_values_def Let_def split: if_splits)

lemma Evictions_keep:
  "map_of (sm_entries m) ref = Some t \<Longrightarrow> \<forall>(now1, now2) \<in> set evictions. now2 \<le> t \<Longrightarrow>
     map_of (sm_entries (fold (\<lambda>(now1, now2) m. snd (Evict now1 now2 m)) evictions m)) ref = Some t \<and>
     map_of (sm_store (fold (\<lambda>(now1, now2) m. snd (Evict now1 now2 m)) evictions m)) ref = map_of (sm_store m) ref"
  by (induction evictions arbitrary: m) (auto simp: Evict_keeps)

lemma Evictions_never_extend:
  "map_of (sm_entries (fold (\<lambda>(now1, now2) m. snd (Evict now1 now2 m)) evictions m)) ref = Some t \<Longrightarrow> map_of (sm_entries m) ref = Some t"
  by (induction evictions arbitrary: m) (auto dest!: Evict_never_extends)

text \<open>a secret that was applied is served, decoded, until its time is over and not a moment longer, whatever evictions run in between.\<close>

theorem secret_served_until_expiry:
  assumes "Apply_secrets now sec ttl m = (None, m1)" "map_of sec ref = Some b64"
    "m2 = fold (\<lambda>(now1, now2) m. snd (Evict now1 now2 m)) evictions m1" "\<forall>(now1, now2) \<in> set evictions. now2 \<le> later"
  shows "if later \<le> now + (if ttl \<le> 0 then sm_ttl m else ttl)
    then \<exists>val. DecodeString b64 = Some val \<and> GetSecretBytes later ref m2 = Inr val
    else GetSecretBytes later ref m2 \<in> {Inl (ErrSecretExpired ref), Inl (ErrSecretNotFound ref)}"
proof -
  let ?t = "now + (if ttl \<le> 0 then sm_ttl m else ttl)"
  from assms(1) obtain decoded where d: "decode_all sec = Inr decoded" "sm_store m1 = decoded"
    "sm_entries m1 = fold (\<lambda>(ref, _). AList.update ref ?t) sec (sm_entries m)" by (rule Apply_secrets_ok) auto
  have "ref \<in> fst ` set sec" using assms(2) by (force dest: map_of_SomeD)
  then have e: "map_of (sm_entries m1) ref = Some ?t" by (simp add: d(3) map_of_updates)
  obtain val where val: "DecodeString b64 = Some val" "map_of (sm_store m1) ref = Some val"
    using decode_all_Inr [OF d(1), of ref b64] assms(2) d(2) by auto
  show ?thesis
  proof (cases "later \<le> ?t")
    case True
    then have "\<forall>(now1, now2) \<in> set evictions. now2 \<le> ?t" using assms(4) by auto
    from Evictions_keep [OF e this] val True show ?thesis by (simp add: assms(3) GetSecretBytes_def Get_store_def)
  next
    case False
    then show ?thesis using Evictions_never_extend [where ref = ref and evictions = evictions and m = m1] e
      by (auto simp: assms(3) [symmetric] GetSecretBytes_def split: option.splits)
  qed
qed

theorem secret_served_until_expiry_witness:
  "\<exists>m1 val. Apply_secrets 0 [(''api'', ''aGk='')] 0 (NewManager_secrets [] 100) = (None, m1) \<and>
     GetSecretBytes 100 ''api'' (snd (Evict 50 50 m1)) = Inr val \<and> DecodeString ''aGk='' = Some val"
proof -
  obtain e m1 where m1: "Apply_secrets 0 [(''api'', ''aGk='')] 0 (NewManager_secrets [] 100) = (e, m1)"
    by (cases "Apply_secrets 0 [(''api'', ''aGk='')] 0 (NewManager_secrets [] 100)")
  have "fst (Apply_secrets 0 [(''api'', ''aGk='')] 0 (NewManager_secrets [] 100)) = None" by code_simp
  with m1 have a: "Apply_secrets 0 [(''api'', ''aGk='')] 0 (NewManager_secrets [] 100) = (None, m1)" by simp
  from secret_served_until_expiry [OF a, of "''api''" "''aGk=''" "snd (Evict 50 50 m1)" "[(50, 50)]" 100] a show ?thesis
    by (auto simp: NewManager_secrets_def)
qed

subsection \<open>Nothing is held without a time limit\<close>

datatype secret_op = OpApply gotime "(string \<times> string) list" int | OpEvict gotime gotime

fun exec_secrets :: "secret_op \<Rightarrow> SecretManager \<Rightarrow> unit \<times> SecretManager" where
  "exec_secrets (OpApply now sec ttl) m = ((), snd (Apply_secrets now sec ttl m))"
| "exec_secrets (OpEvict now1 now2) m = ((), snd (Evict now1 now2 m))"

definition limited :: "SecretManager \<Rightarrow> bool" where
  "limited m \<longleftrightarrow> (\<forall>ref. map_of (sm_store m) ref \<noteq> None \<longrightarrow> map_of (sm_entries m) ref \<noteq> None)"

lemma Apply_limited: "limited m \<Longrightarrow> limited (snd (Apply_secrets now sec ttl m))"
proof (cases "decode_all sec")
  case (Inr decoded)
  have "ref \<in> fst ` set sec" if "map_of decoded ref \<noteq> None" for ref
    using decode_all_Inr [OF Inr, of ref] that by (metis domIff dom_map_of_conv_image_fst)
  with Inr show "limited (snd (Apply_secrets now sec ttl m))"
    by (auto simp: Apply_secrets_def Apply_store_def Let_def limited_def map_of_updates)
qed (simp add: Apply_secrets_def Apply_store_def Let_def limited_def)

lemma Evict_limited: "limited m \<Longrightarrow> limited (snd (Evict now1 now2 m))"
  by (auto simp: Evict_def Evict_entries_def Evict_values_def Let_def limited_def Clear_def)

interpretation secrets_db: invariant_system exec_secrets limited
proof
  fix m x
  show "limited m \<Longrightarrow> limited (snd (exec_secrets x m))" by (cases x) (simp_all add: Apply_limited Evict_limited)
qed

text \<open>over any sequence of deliveries and evictions the store holds no secret for which the manager has no time limit, so no value can
  outlive its limit unnoticed.\<close>

theorem no_secret_without_limit:
  "map_of (sm_store (run_state exec_secrets ops (NewManager_secrets [] ttl))) ref \<noteq> None \<longrightarrow>
   map_of (sm_entries (run_state exec_secrets ops (NewManager_secrets [] ttl))) ref \<noteq> None"
proof -
  have "limited (NewManager_secrets [] ttl)" by (simp add: limited_def NewManager_secrets_def)
  from secrets_db.run_keeps [OF this, of ops] show ?thesis by (simp add: limited_def)
qed

theorem no_secret_without_limit_witness:
  "map_of (sm_store (run_state exec_secrets [OpApply 0 [(''api'', ''aGk='')] 5, OpEvict 3 3] (NewManager_secrets [] 9))) ''api'' \<noteq> None \<and>
   map_of (sm_entries (run_state exec_secrets [OpApply 0 [(''api'', ''aGk='')] 5, OpEvict 3 3] (NewManager_secrets [] 9))) ''api'' \<noteq> None"
proof -
  have "map_of (sm_store (run_state exec_secrets [OpApply 0 [(''api'', ''aGk='')] 5, OpEvict 3 3] (NewManager_secrets [] 9))) ''api'' \<noteq> None"
    by code_simp
  then show ?thesis using no_secret_without_limit by blast
qed

subsection \<open>Valid and gone\<close>

text \<open>a delivery replaces the values of the store but only adds to the time limits: a secret delivered earlier that the new delivery does not
  repeat is still reported as valid, while asking for it fails, against the comment that the limits stay consistent with the store.\<close>

theorem undelivered_secret_lost:
  assumes "Apply_secrets now1 sec1 0 m = (None, m1)" "Apply_secrets now2 sec2 0 m1 = (None, m2)"
    "ref \<in> fst ` set sec1" "ref \<notin> fst ` set sec2" "later \<le> now1 + sm_ttl m"
  shows "\<not> IsExpired later ref m2 \<and> GetSecretBytes later ref m2 = Inl (NotInStore ref)"
proof -
  from assms(1) obtain d1 where "decode_all sec1 = Inr d1"
    "sm_entries m1 = fold (\<lambda>(ref, _). AList.update ref (now1 + sm_ttl m)) sec1 (sm_entries m)" "sm_ttl m1 = sm_ttl m"
    by (rule Apply_secrets_ok) auto
  moreover from assms(2) obtain d2 where "decode_all sec2 = Inr d2" "sm_store m2 = d2"
    "sm_entries m2 = fold (\<lambda>(ref, _). AList.update ref (now2 + sm_ttl m1)) sec2 (sm_entries m1)" by (rule Apply_secrets_ok) auto
  moreover have "map_of sec2 ref = None" using assms(4) by (simp add: map_of_eq_None_iff)
  ultimately show ?thesis using assms(3-5) decode_all_Inr [of sec2 d2 ref]
    by (simp add: IsExpired_def GetSecretBytes_def Get_store_def map_of_updates)
qed

theorem undelivered_secret_lost_witness:
  "\<exists>m1 m2. Apply_secrets 0 [(''a'', ''aGk='')] 0 (NewManager_secrets [] 100) = (None, m1) \<and>
     Apply_secrets 1 [(''b'', ''aGk='')] 0 m1 = (None, m2) \<and> \<not> IsExpired 2 ''a'' m2 \<and> GetSecretBytes 2 ''a'' m2 = Inl (NotInStore ''a'')"
proof -
  let ?m = "NewManager_secrets [] 100"
  have "case Apply_secrets 0 [(''a'', ''aGk='')] 0 ?m of (e, m1) \<Rightarrow> e = None \<and> fst (Apply_secrets 1 [(''b'', ''aGk='')] 0 m1) = None" by code_simp
  then obtain m1 m2 where a: "Apply_secrets 0 [(''a'', ''aGk='')] 0 ?m = (None, m1)" "Apply_secrets 1 [(''b'', ''aGk='')] 0 m1 = (None, m2)"
    by (auto split: prod.splits) (metis prod.collapse)
  from undelivered_secret_lost [OF a, of "''a''" 2] a show ?thesis by (auto simp: NewManager_secrets_def)
qed

text \<open>an eviction can take away a secret that was just delivered afresh.  If the delivery comes between the two halves of \<^verbatim>\<open>Evict\<close>, the
  new value is removed with the old one, while its new time limit stays.\<close>

theorem eviction_races_delivery:
  assumes "Evict_entries now1 now2 m = (toEvict, m1)" "ref \<in> set toEvict" "Apply_secrets now sec 0 m1 = (None, m2)" "ref \<in> fst ` set sec"
    "later \<le> now + sm_ttl m"
  shows "\<not> IsExpired later ref (Evict_values toEvict m2) \<and> GetSecretBytes later ref (Evict_values toEvict m2) = Inl (NotInStore ref)"
proof -
  have ttl: "sm_ttl m1 = sm_ttl m" using assms(1) by (auto simp: Evict_entries_def Let_def)
  from assms(3) obtain d where "sm_entries m2 = fold (\<lambda>(ref, _). AList.update ref (now + sm_ttl m)) sec (sm_entries m1)"
    by (rule Apply_secrets_ok) (auto simp: ttl)
  then show ?thesis using assms(2,4,5)
    by (auto simp: Evict_values_def IsExpired_def GetSecretBytes_def Get_store_def map_of_updates Clear_def)
qed

theorem eviction_races_delivery_witness:
  "\<exists>toEvict m1 m2. Evict_entries 10 10 \<lparr>sm_store = [(''a'', [1])], sm_entries = [(''a'', 5)], sm_ttl = 100\<rparr> = (toEvict, m1) \<and>
     Apply_secrets 11 [(''a'', ''aGk='')] 0 m1 = (None, m2) \<and> \<not> IsExpired 12 ''a'' (Evict_values toEvict m2) \<and>
     GetSecretBytes 12 ''a'' (Evict_values toEvict m2) = Inl (NotInStore ''a'')"
proof -
  let ?m = "\<lparr>sm_store = [(''a'', [1])], sm_entries = [(''a'', 5)], sm_ttl = 100\<rparr>"
  obtain toEvict m1 where e: "Evict_entries 10 10 ?m = (toEvict, m1)" by (cases "Evict_entries 10 10 ?m")
  obtain r m2 where a: "Apply_secrets 11 [(''a'', ''aGk='')] 0 m1 = (r, m2)" by (cases "Apply_secrets 11 [(''a'', ''aGk='')] 0 m1")
  have "case Evict_entries 10 10 ?m of (toEvict, m1) \<Rightarrow> ''a'' \<in> set toEvict \<and> fst (Apply_secrets 11 [(''a'', ''aGk='')] 0 m1) = None" by code_simp
  with e a have "''a'' \<in> set toEvict" "Apply_secrets 11 [(''a'', ''aGk='')] 0 m1 = (None, m2)" by auto
  from eviction_races_delivery [OF e this, of 12] this e show ?thesis by auto
qed

end
