(* ===== verification/Secret_Delivery.thy ===== *)
theory Secret_Delivery
  imports Distributor Kuze_Server Gitai_Secrets
begin

section \<open>From the secret store to the agent\<close>

text \<open>
  The components that carry a secret joined into one installation: the database with the encrypted secrets, the token server that reads it, the
  distributor and its client, and the agent with its control server and its secrets manager.  The state is that of the agent's server; its world
  holds the token server, whose secrets are the database, and the manager.  The network delivers every request to the agent at once; the
  JSON codecs are parameters of the installation, and \<open>codecs_ok\<close> says that decoding undoes encoding, for answers of the token server as far as the
  client reads them.  One clock reading stands for the moment of the whole push.
  The theory shows that a push brings every secret that is bound to an agent to it, unchanged, and spends the tokens; and that an answer lost on the
  way makes the push fail although the agent has the secrets.
\<close>

record World =
  wo_kuze :: "Db Server"
  wo_secrets :: SecretManager
  wo_count :: nat
  wo_lost :: "bool list"

record Plant =
  pl_base :: string
  pl_url :: string
  pl_addr :: string
  pl_unseal :: aead_open
  pl_key :: "nat list"
  pl_newID :: "nat \<Rightarrow> string"
  pl_rand :: "nat \<Rightarrow> nat list"
  pl_render :: "body \<Rightarrow> string"
  pl_leases :: "SecretLease list \<Rightarrow> string"
  pl_wire :: "World Wire"
  pl_handlers :: "World Handlers"
  pl_now :: gotime

definition plant_secrets :: "Plant \<Rightarrow> Db Secrets" where
  "plant_secrets pl = \<lparr>se_Set = (\<lambda>name ty val db. (Some ''read only'', db)),
     se_Get = (\<lambda>name db. map_sum (\<lambda>e. ''secret unavailable'') (\<lambda>x. x) (Get_secret (pl_unseal pl) None (pl_key pl) name db))\<rparr>"

text \<open>The agent's request to the token server.\<close>

definition kuze_get :: "Plant \<Rightarrow> string \<Rightarrow> string \<Rightarrow> World \<Rightarrow> (string + nat \<times> (string + string)) \<times> World" where
  "kuze_get pl url agentID w =
     (case handleRedeem (plant_secrets pl) no_faults (pl_now pl) \<lparr>rq_Method = ''GET'', rq_Path = trim_prefix url (pl_base pl), rq_XAgentID = agentID,
         rq_Query = [], rq_FormError = None, rq_SecretValue = []\<rparr> (wo_kuze w) of
       (resp, kz) \<Rightarrow> (Inr (rs_Status resp, Inr (pl_render pl (rs_Body resp))), w\<lparr>wo_kuze := kz\<rparr>))"

definition plant_wire :: "Plant \<Rightarrow> World Wire" where
  "plant_wire pl = (pl_wire pl)\<lparr>wi_kuze := kuze_get pl\<rparr>"

definition apply_redeemed :: "Plant \<Rightarrow> (string \<times> string) list \<Rightarrow> World \<Rightarrow> fault \<times> World" where
  "apply_redeemed pl sec w = (case Apply_secrets (pl_now pl) sec 0 (wo_secrets w) of
     (e, m) \<Rightarrow> (map_option (\<lambda>e. ''decode'') e, w\<lparr>wo_secrets := m\<rparr>))"

definition plant_handlers :: "Plant \<Rightarrow> World Handlers" where
  "plant_handlers pl = (pl_handlers pl)\<lparr>hd_ApplySecrets := Some (apply_redeemed pl)\<rparr>"

text \<open>The network: the request reaches the agent; its answer may be lost.\<close>

definition plant_do :: "Plant \<Rightarrow> OutRequest \<Rightarrow> World AcpServer \<Rightarrow> (string + HttpResponse) \<times> World AcpServer" where
  "plant_do pl req s = (case serve_acp (plant_wire pl) (plant_handlers pl) \<lparr>ar_Method = or_Method req, ar_Path = trim_prefix (or_URL req) (pl_url pl),
       ar_Authorization = or_Authorization req, ar_IdempotencyKey = or_IdempotencyKey req, ar_Signature = [], ar_RemoteAddr = pl_addr pl,
       ar_Body = (case or_Body req of Some b \<Rightarrow> b | None \<Rightarrow> []), ar_ReadError = None, ar_now = pl_now pl, ar_done = pl_now pl\<rparr> s of
     (resp, s') \<Rightarrow>
       (case wo_lost (as_world s') of
          True # rest \<Rightarrow> (Inl ''timeout'', s'\<lparr>as_world := (as_world s')\<lparr>wo_lost := rest\<rparr>\<rparr>)
        | False # rest \<Rightarrow> (Inr \<lparr>hr_StatusCode = rp_Status resp, hr_Status = [], hr_Body = [], hr_ReadError = None\<rparr>, s'\<lparr>as_world := (as_world s')\<lparr>wo_lost := rest\<rparr>\<rparr>)
        | [] \<Rightarrow> (Inr \<lparr>hr_StatusCode = rp_Status resp, hr_Status = [], hr_Body = [], hr_ReadError = None\<rparr>, s')))"

definition plant_net :: "Plant \<Rightarrow> World AcpServer Net" where
  "plant_net pl = \<lparr>nt_badURL = (\<lambda>u. None),
     nt_newID = (\<lambda>s. (pl_newID pl (wo_count (as_world s)), s\<lparr>as_world := (as_world s)\<lparr>wo_count := Suc (wo_count (as_world s))\<rparr>\<rparr>)),
     nt_do = plant_do pl, nt_errorField = (\<lambda>b. None), nt_marshalConfig = (\<lambda>c. Inl []), nt_marshalSecrets = (\<lambda>c. Inl []),
     nt_marshalLeases = (\<lambda>ls. Inr (pl_leases pl ls)), nt_marshalTool = (\<lambda>c. Inl []), nt_health = (\<lambda>b. Inl []), nt_statusHash = (\<lambda>b. Inl []),
     nt_toolResult = (\<lambda>b. Inl [])\<rparr>"

definition plant_issue :: "Plant \<Rightarrow> string \<Rightarrow> string \<Rightarrow> string \<Rightarrow> string \<Rightarrow> World AcpServer \<Rightarrow> (string + TokenLeaseResult) \<times> World AcpServer" where
  "plant_issue pl agentID secretRef secretType purpose s =
     (let w = as_world s in
      case IssueAgentToken (Inr (pl_rand pl (wo_count w))) (pl_now pl) None agentID secretRef secretType purpose (wo_kuze w) of
        (r, kz) \<Rightarrow> (map_sum (\<lambda>e. e) (\<lambda>i. \<lparr>tr_RedeemURL = ir_URL i, tr_SecretRef = ir_SecretRef i, tr_Token = ir_Token i\<rparr>) r,
          s\<lparr>as_world := w\<lparr>wo_kuze := kz, wo_count := Suc (wo_count w)\<rparr>\<rparr>))"

definition plant_db :: "World AcpServer \<Rightarrow> Db" where
  "plant_db s = sv_secrets (wo_kuze (as_world s))"

definition plant_put :: "Db \<Rightarrow> World AcpServer \<Rightarrow> World AcpServer" where
  "plant_put db s = s\<lparr>as_world := (as_world s)\<lparr>wo_kuze := (wo_kuze (as_world s))\<lparr>sv_secrets := db\<rparr>\<rparr>\<rparr>"

definition plant_env :: "Plant \<Rightarrow> World AcpServer DistEnv" where
  "plant_env pl = \<lparr>de_db = plant_db, de_put = plant_put, de_issue = Some (plant_issue pl), de_net = plant_net pl, de_unseal = pl_unseal pl,
     de_masterKey = pl_key pl, de_before = (\<lambda>n. None), de_during = (\<lambda>n. None)\<rparr>"

definition no_dist_faults :: dist_faults where
  "no_dist_faults = \<lparr>df_agent = None, df_bindings = None, df_read = (\<lambda>n. None), df_mark = (\<lambda>n. None)\<rparr>"

text \<open>Decoding undoes encoding.\<close>

definition redeem_body :: "string \<Rightarrow> string \<Rightarrow> string \<Rightarrow> body" where
  "redeem_body ref ty val = JSONBody [(''secret_ref'', ref), (''secret_type'', ty), (''value'', val)]"

definition codecs_ok :: "Plant \<Rightarrow> bool" where
  "codecs_ok pl \<longleftrightarrow> (\<forall>ls. wi_leases (pl_wire pl) (pl_leases pl ls) None = Inr ls) \<and>
     (\<forall>ref ty val. int (length (pl_render pl (redeem_body ref ty val))) \<le> maxRedeemResponseBytes \<longrightarrow>
        wi_redeemed (pl_wire pl) (pl_render pl (redeem_body ref ty val)) = Inr \<lparr>kr_SecretRef = ref, kr_SecretType = ty, kr_Value = val\<rparr>)"

subsection \<open>Tokens\<close>

definition tok :: "Plant \<Rightarrow> nat \<Rightarrow> string" where
  "tok pl n = RawURLEncoding (pl_rand pl n)"

lemma b64_encode_chars: "c \<in> set (b64_encode alphabet bytes) \<Longrightarrow> length alphabet = 64 \<Longrightarrow> c \<in> set alphabet"
  by (induction alphabet bytes rule: b64_encode.induct) (auto simp: b64_char_def)

lemma b64_encode_empty: "b64_encode alphabet bytes = [] \<longleftrightarrow> bytes = []"
  by (cases "(alphabet, bytes)" rule: b64_encode.cases) auto

lemma RawURLEncoding_no_slash: "CHR ''/'' \<notin> set (RawURLEncoding raw)"
proof -
  have "CHR ''/'' \<notin> set (b64_digits @ ''-_'')" "length (b64_digits @ ''-_'') = 64" by code_simp+
  then show ?thesis unfolding RawURLEncoding_def using b64_encode_chars by blast
qed

lemma token_path:
  assumes "raw \<noteq> []"
  shows "path_token ''/kuze/redeem/'' \<lparr>rq_Method = ''GET'', rq_Path = trim_prefix (base @ ''/kuze/redeem/'' @ RawURLEncoding raw) base, rq_XAgentID = a,
    rq_Query = [], rq_FormError = None, rq_SecretValue = []\<rparr> = Some (RawURLEncoding raw)"
proof -
  have "RawURLEncoding raw \<noteq> []" using assms by (simp add: RawURLEncoding_def b64_encode_empty)
  moreover have "\<not> str_contains (RawURLEncoding raw) ''/''"
  proof
    assume "str_contains (RawURLEncoding raw) ''/''"
    then obtain a b where "RawURLEncoding raw = a @ ''/'' @ b" by (auto simp: str_contains_iff)
    then have "CHR ''/'' \<in> set (RawURLEncoding raw)" by simp
    with RawURLEncoding_no_slash show False by blast
  qed
  ultimately show ?thesis by (simp add: path_token_def trim_prefix_def Let_def has_prefix_iff)
qed

lemma find_token_burn: "k \<noteq> t \<Longrightarrow> find_token k (snd (burn_rows t rows)) = find_token k rows"
  unfolding find_token_def burn_rows_def by (induction rows) auto

lemma find_token_append: "find_token k (rows @ new) = (case find_token k rows of None \<Rightarrow> find_token k new | Some r \<Rightarrow> Some r)"
  unfolding find_token_def by (induction rows) auto

lemma find_token_single: "find_token k [row] = (if tk_token row = k then Some row else None)"
  by (simp add: find_token_def)

text \<open>A token in the table that is ready for the agent, and the lease that names it.\<close>

definition token_type :: "string \<Rightarrow> string" where
  "token_type ty = (if ty = [] then ''api_key'' else ty)"

definition ready :: "Plant \<Rightarrow> Db \<Rightarrow> string \<Rightarrow> SecretLease \<Rightarrow> TokenRow \<Rightarrow> bool" where
  "ready pl db agentID l row \<longleftrightarrow> sl_KuzeURL l = pl_base pl @ ''/kuze/redeem/'' @ tk_token row \<and> (\<exists>raw. raw \<noteq> [] \<and> tk_token row = RawURLEncoding raw) \<and>
     tk_secret_ref row = sl_SecretRef l \<and> \<not> tk_used row \<and> pl_now pl \<le> tk_expires_at row \<and> tk_agent_id row = Some agentID \<and>
     (\<exists>sec. find_secret (sl_SecretRef l) db = Some sec \<and> tk_secret_type row = token_type (sw_Type sec))"

text \<open>The value of a secret, as it can be delivered: not empty, made of bytes, and small enough for the answer that carries it.\<close>

definition deliverable :: "Plant \<Rightarrow> Db \<Rightarrow> string \<Rightarrow> nat list \<Rightarrow> bool" where
  "deliverable pl db name val \<longleftrightarrow> name \<noteq> [] \<and> Get_secret (pl_unseal pl) None (pl_key pl) name db = Inr val \<and> val \<noteq> [] \<and> list_all (\<lambda>b. b < 256) val \<and>
     (case find_secret name db of None \<Rightarrow> False | Some sec \<Rightarrow>
        int (length (pl_render pl (redeem_body name (token_type (sw_Type sec)) (StdEncoding val)))) \<le> maxRedeemResponseBytes)"

lemma StdEncoding_empty: "StdEncoding val = [] \<longleftrightarrow> val = []"
  by (auto simp: StdEncoding_def Let_def b64_encode_empty)

definition burnt :: "string \<Rightarrow> World \<Rightarrow> World" where
  "burnt t w = w\<lparr>wo_kuze := (wo_kuze w)\<lparr>sv_tokens := (sv_tokens (wo_kuze w))\<lparr>ts_rows := snd (burn_rows t (ts_rows (sv_tokens (wo_kuze w))))\<rparr>\<rparr>\<rparr>"

lemma burnt_simps [simp]:
  "sv_secrets (wo_kuze (burnt t w)) = sv_secrets (wo_kuze w)" "wo_secrets (burnt t w) = wo_secrets w" "wo_count (burnt t w) = wo_count w"
  "wo_lost (burnt t w) = wo_lost w" "sv_has_getter (wo_kuze (burnt t w)) = sv_has_getter (wo_kuze w)" "sv_baseURL (wo_kuze (burnt t w)) = sv_baseURL (wo_kuze w)"
  "ts_rows (sv_tokens (wo_kuze (burnt t w))) = snd (burn_rows t (ts_rows (sv_tokens (wo_kuze w))))"
  by (simp_all add: burnt_def)

lemma redeem_one:
  assumes "codecs_ok pl" "hd_AgentID (pl_handlers pl) = agentID" "agentID \<noteq> []" "sv_has_getter (wo_kuze w)" "ready pl (sv_secrets (wo_kuze w)) agentID l row"
    "find_token (tk_token row) (ts_rows (sv_tokens (wo_kuze w))) = Some row" "deliverable pl (sv_secrets (wo_kuze w)) (sl_SecretRef l) val"
  shows "redeemLease (plant_wire pl) (plant_handlers pl) l w = (Inr (StdEncoding val), burnt (tk_token row) w)"
proof -
  obtain raw where raw: "raw \<noteq> []" "tk_token row = RawURLEncoding raw" using assms(5) by (auto simp: ready_def)
  have url: "sl_KuzeURL l = pl_base pl @ ''/kuze/redeem/'' @ RawURLEncoding raw" using assms(5) raw by (simp add: ready_def)
  let ?ts = "sv_tokens (wo_kuze w)"
  have "Redeem no_faults (pl_now pl) (RawURLEncoding raw) agentID ?ts = (Inr (scan_token row), ?ts\<lparr>ts_rows := snd (burn_rows (RawURLEncoding raw) (ts_rows ?ts))\<rparr>)"
    using assms(5,6) raw(2) by (subst Redeem_Inr) (simp add: ready_def null_string_def)
  moreover have "se_Get (plant_secrets pl) (sl_SecretRef l) (sv_secrets (wo_kuze w)) = Inr val"
    using assms(7) by (simp add: plant_secrets_def deliverable_def)
  moreover have "pt_SecretRef (scan_token row) = sl_SecretRef l" using assms(5) by (simp add: scan_token_def ready_def)
  ultimately have "kuze_get pl (sl_KuzeURL l) agentID w =
      (Inr (200, Inr (pl_render pl (redeem_body (sl_SecretRef l) (pt_SecretType (scan_token row)) (StdEncoding val)))), burnt (tk_token row) w)"
    unfolding kuze_get_def handleRedeem_def url token_path [OF raw(1)] using assms(3,4) raw(2)
    by (simp add: respond_json_def redeem_body_def burnt_def)
  moreover have fits: "int (length (pl_render pl (redeem_body (sl_SecretRef l) (pt_SecretType (scan_token row)) (StdEncoding val)))) \<le> maxRedeemResponseBytes"
    using assms(5,7) by (auto simp: deliverable_def ready_def scan_token_def)
  moreover have "wi_redeemed (pl_wire pl) (pl_render pl (redeem_body (sl_SecretRef l) (pt_SecretType (scan_token row)) (StdEncoding val))) =
      Inr \<lparr>kr_SecretRef = sl_SecretRef l, kr_SecretType = pt_SecretType (scan_token row), kr_Value = StdEncoding val\<rparr>"
    using assms(1) fits by (simp add: codecs_ok_def)
  moreover have "StdEncoding val \<noteq> []" using assms(7) by (simp add: StdEncoding_empty deliverable_def)
  ultimately show ?thesis using url assms(2)
    by (simp add: redeemLease_def plant_wire_def plant_handlers_def limit_reader_def Let_def)
qed

lemma redeem_all:
  assumes "codecs_ok pl" "hd_AgentID (pl_handlers pl) = agentID" "agentID \<noteq> []"
    "list_all2 (ready pl db agentID) ls rows" "distinct (map tk_token rows)" "sv_has_getter (wo_kuze w)" "sv_secrets (wo_kuze w) = db"
    "\<forall>row \<in> set rows. find_token (tk_token row) (ts_rows (sv_tokens (wo_kuze w))) = Some row"
    "\<forall>l \<in> set ls. deliverable pl db (sl_SecretRef l) (val (sl_SecretRef l))"
  shows "redeemLeases (plant_wire pl) (plant_handlers pl) ls red w =
    (fold (\<lambda>l. AList.update (sl_SecretRef l) (StdEncoding (val (sl_SecretRef l)))) ls red, fold (\<lambda>row. burnt (tk_token row)) rows w)"
  using assms(4-9)
proof (induction ls arbitrary: rows red w)
  case (Cons l ls)
  then obtain row rows' where rows: "rows = row # rows'" "ready pl db agentID l row" "list_all2 (ready pl db agentID) ls rows'"
    by (auto simp: list_all2_Cons1)
  have one: "redeemLease (plant_wire pl) (plant_handlers pl) l w = (Inr (StdEncoding (val (sl_SecretRef l))), burnt (tk_token row) w)"
    using Cons.prems rows by (intro redeem_one [OF assms(1-3)]) auto
  have "find_token (tk_token r) (ts_rows (sv_tokens (wo_kuze (burnt (tk_token row) w)))) = Some r" if "r \<in> set rows'" for r
  proof -
    have "tk_token r \<noteq> tk_token row" using head_key_fresh [of tk_token row rows' r] that Cons.prems(2) rows(1) by simp
    then show ?thesis using that Cons.prems(5) rows(1) by (simp add: find_token_burn)
  qed
  with Cons.prems rows have "redeemLeases (plant_wire pl) (plant_handlers pl) ls red' (burnt (tk_token row) w) =
    (fold (\<lambda>l. AList.update (sl_SecretRef l) (StdEncoding (val (sl_SecretRef l)))) ls red', fold (\<lambda>row. burnt (tk_token row)) rows' (burnt (tk_token row) w))" for red'
    by (intro Cons.IH) auto
  with one rows(1) show ?case by simp
qed simp

lemma burnt_fold [simp]:
  "sv_secrets (wo_kuze (fold (\<lambda>row. burnt (tk_token row)) rows w)) = sv_secrets (wo_kuze w)"
  "wo_secrets (fold (\<lambda>row. burnt (tk_token row)) rows w) = wo_secrets w" "wo_count (fold (\<lambda>row. burnt (tk_token row)) rows w) = wo_count w"
  "wo_lost (fold (\<lambda>row. burnt (tk_token row)) rows w) = wo_lost w"
  "sv_has_getter (wo_kuze (fold (\<lambda>row. burnt (tk_token row)) rows w)) = sv_has_getter (wo_kuze w)"
  "sv_baseURL (wo_kuze (fold (\<lambda>row. burnt (tk_token row)) rows w)) = sv_baseURL (wo_kuze w)"
  by (induction rows arbitrary: w) simp_all

subsection \<open>Issuing\<close>

definition fresh_tokens :: "Plant \<Rightarrow> World \<Rightarrow> bool" where
  "fresh_tokens pl w \<longleftrightarrow> (\<forall>n \<ge> wo_count w. find_token (tok pl n) (ts_rows (sv_tokens (wo_kuze w))) = None)"

definition issued_row :: "Plant \<Rightarrow> string \<Rightarrow> string \<Rightarrow> string \<Rightarrow> string \<Rightarrow> nat \<Rightarrow> TokenRow" where
  "issued_row pl agentID ref ty purpose n = \<lparr>tk_token = tok pl n, tk_secret_ref = ref, tk_secret_type = token_type ty,
    tk_created_at = stored_time (pl_now pl), tk_expires_at = stored_time (pl_now pl + AgentTTL), tk_used = False, tk_agent_id = nullable agentID,
    tk_purpose = nullable purpose\<rparr>"

definition add_rows :: "TokenRow list \<Rightarrow> World \<Rightarrow> World" where
  "add_rows rows w = w\<lparr>wo_kuze := (wo_kuze w)\<lparr>sv_tokens := (sv_tokens (wo_kuze w))\<lparr>ts_rows := ts_rows (sv_tokens (wo_kuze w)) @ rows\<rparr>\<rparr>,
     wo_count := wo_count w + length rows\<rparr>"

lemma add_rows_simps [simp]:
  "sv_secrets (wo_kuze (add_rows rows w)) = sv_secrets (wo_kuze w)" "wo_secrets (add_rows rows w) = wo_secrets w"
  "wo_count (add_rows rows w) = wo_count w + length rows" "wo_lost (add_rows rows w) = wo_lost w"
  "sv_has_getter (wo_kuze (add_rows rows w)) = sv_has_getter (wo_kuze w)" "sv_baseURL (wo_kuze (add_rows rows w)) = sv_baseURL (wo_kuze w)"
  "ts_rows (sv_tokens (wo_kuze (add_rows rows w))) = ts_rows (sv_tokens (wo_kuze w)) @ rows"
  "add_rows more_rows (add_rows rows w) = add_rows (rows @ more_rows) w" "add_rows [] w = w"
  by (simp_all add: add_rows_def)

lemma issue_one:
  assumes "agentID \<noteq> []" "ref \<noteq> []" "fresh_tokens pl (as_world s)" "sv_baseURL (wo_kuze (as_world s)) = pl_base pl"
  shows "plant_issue pl agentID ref ty purpose s =
    (Inr \<lparr>tr_RedeemURL = pl_base pl @ ''/kuze/redeem/'' @ tok pl (wo_count (as_world s)), tr_SecretRef = ref, tr_Token = tok pl (wo_count (as_world s))\<rparr>,
     s\<lparr>as_world := add_rows [issued_row pl agentID ref ty purpose (wo_count (as_world s))] (as_world s)\<rparr>)"
proof -
  have "\<not> list_ex (\<lambda>r. tk_token r = tok pl (wo_count (as_world s))) (ts_rows (sv_tokens (wo_kuze (as_world s))))"
    using assms(3) by (auto simp: fresh_tokens_def find_token_def find_None_iff list_ex_iff)
  then show ?thesis using assms(1,2,4)
    by (simp add: plant_issue_def IssueAgentToken_def IssueAgent_def issue_def tok_def Let_def issued_row_def add_rows_def token_type_def)
qed

lemma issued_ready:
  assumes "agentID \<noteq> []" "pl_rand pl n \<noteq> []" "find_secret ref db = Some sec"
  shows "ready pl db agentID \<lparr>sl_SecretRef = ref, sl_RedemptionToken = tok pl n, sl_KuzeURL = pl_base pl @ ''/kuze/redeem/'' @ tok pl n\<rparr>
    (issued_row pl agentID ref (sw_Type sec) purpose n)"
proof -
  have "pl_now pl \<le> stored_time (pl_now pl + AgentTTL)"
    using stored_time_bounds [of "pl_now pl + AgentTTL"] by (simp add: AgentTTL_def second_def)
  then show ?thesis using assms by (auto simp: ready_def tok_def nullable_def issued_row_def)
qed

lemma fresh_after_issue:
  assumes "fresh_tokens pl w" "inj (tok pl)"
  shows "fresh_tokens pl (add_rows [issued_row pl agentID ref ty purpose (wo_count w)] w)"
proof -
  have "tok pl (wo_count w) \<noteq> tok pl n" if "Suc (wo_count w) \<le> n" for n using injD [OF assms(2)] that by fastforce
  then show ?thesis using assms(1) by (auto simp: fresh_tokens_def find_token_append find_token_single issued_row_def)
qed

lemma issue_all:
  assumes "agentID \<noteq> []" "inj (tok pl)" "\<And>n. pl_rand pl n \<noteq> []" "sv_baseURL (wo_kuze (as_world s)) = pl_base pl" "fresh_tokens pl (as_world s)"
    "plant_db s = db" "\<forall>b \<in> set bs. bi_SecretName b \<noteq> [] \<and> find_secret (bi_SecretName b) db \<noteq> None"
  shows "\<exists>ls rows. issue_leases (plant_env pl) (plant_issue pl) no_dist_faults agentID bs s = (ls, map bi_SecretName bs, [], s\<lparr>as_world := add_rows rows (as_world s)\<rparr>) \<and>
    list_all2 (ready pl db agentID) ls rows \<and> map sl_SecretRef ls = map bi_SecretName bs \<and>
    map tk_token rows = map (tok pl) [wo_count (as_world s)..<wo_count (as_world s) + length bs]"
  using assms(4-7)
proof (induction bs arbitrary: s)
  case Nil
  then show ?case by (intro exI [of _ "[]"]) simp
next
  case (Cons b bs)
  let ?n = "wo_count (as_world s)"
  obtain sec where sec: "find_secret (bi_SecretName b) db = Some sec" using Cons.prems(4) by auto
  let ?row = "issued_row pl agentID (bi_SecretName b) (sw_Type sec) ''distribution'' ?n"
  let ?l = "\<lparr>sl_SecretRef = bi_SecretName b, sl_RedemptionToken = tok pl ?n, sl_KuzeURL = pl_base pl @ ''/kuze/redeem/'' @ tok pl ?n\<rparr>"
  let ?s = "s\<lparr>as_world := add_rows [?row] (as_world s)\<rparr>"
  have meta: "GetMetadata (df_read no_dist_faults (bi_SecretName b)) (bi_SecretName b) (de_db (plant_env pl) s) = Inr (secret_meta sec)"
    using sec Cons.prems(3) by (simp add: GetMetadata_def no_dist_faults_def plant_env_def)
  have one: "plant_issue pl agentID (bi_SecretName b) (sx_Type (secret_meta sec)) ''distribution'' s =
      (Inr \<lparr>tr_RedeemURL = pl_base pl @ ''/kuze/redeem/'' @ tok pl ?n, tr_SecretRef = bi_SecretName b, tr_Token = tok pl ?n\<rparr>, ?s)"
    using issue_one [OF assms(1) _ Cons.prems(2,1)] Cons.prems(4) by (simp add: secret_meta_def)
  have fr: "fresh_tokens pl (as_world ?s)" using fresh_after_issue [OF Cons.prems(2) assms(2)] by simp
  obtain ls rows where rest: "issue_leases (plant_env pl) (plant_issue pl) no_dist_faults agentID bs ?s = (ls, map bi_SecretName bs, [], ?s\<lparr>as_world := add_rows rows (as_world ?s)\<rparr>)"
      "list_all2 (ready pl db agentID) ls rows" "map sl_SecretRef ls = map bi_SecretName bs" "map tk_token rows = map (tok pl) [Suc ?n..<Suc ?n + length bs]"
    using Cons.IH [OF _ fr] Cons.prems(1,3,4) by (auto simp: plant_db_def)
  have "ready pl db agentID ?l ?row" by (rule issued_ready [OF assms(1,3) sec])
  moreover have "map tk_token (?row # rows) = map (tok pl) [?n..<?n + length (b # bs)]"
    using rest(4) by (simp add: issued_row_def upt_conv_Cons del: upt_Suc)
  ultimately show ?case using rest(1-3) meta one
    by (intro exI [of _ "?l # ls"] exI [of _ "?row # rows"] conjI) simp_all
qed

lemma issued_found:
  assumes "fresh_tokens pl w" "inj (tok pl)" "map tk_token rows = map (tok pl) [wo_count w..<wo_count w + k]"
  shows "distinct (map tk_token rows)" "\<forall>row \<in> set rows. find_token (tk_token row) (ts_rows (sv_tokens (wo_kuze (add_rows rows w)))) = Some row"
proof -
  show d: "distinct (map tk_token rows)" using assms(2,3) by (simp add: distinct_map inj_on_def)
  have old: "find_token (tk_token row) (ts_rows (sv_tokens (wo_kuze w))) = None" if "row \<in> set rows" for row
  proof -
    have "tk_token row \<in> set (map (tok pl) [wo_count w..<wo_count w + k])" using that unfolding assms(3) [symmetric] by simp
    then show ?thesis using assms(1) by (auto simp: fresh_tokens_def)
  qed
  have "find_token (tk_token row) rows = Some row" if "row \<in> set rows" for row
    using that d unfolding find_token_def
  proof (induction rows)
    case (Cons r rows)
    then show ?case using head_key_fresh [of tk_token r rows row] by auto
  qed simp
  with old show "\<forall>row \<in> set rows. find_token (tk_token row) (ts_rows (sv_tokens (wo_kuze (add_rows rows w)))) = Some row"
    by (simp add: find_token_append)
qed

subsection \<open>Delivery\<close>

lemma decode_delivered:
  assumes "\<forall>(name, v) \<in> set sec. \<exists>val. DecodeString v = Some val"
  shows "\<exists>decoded. decode_all sec = Inr decoded"
  using assms by (induction sec) auto

lemma map_of_redeemed:
  "map_of (fold (\<lambda>l. AList.update (sl_SecretRef l) (StdEncoding (val (sl_SecretRef l)))) ls red) k =
      (if k \<in> sl_SecretRef ` set ls then Some (StdEncoding (val k)) else map_of red k)"
  by (induction ls arbitrary: red) auto

lemma applied_world:
  assumes "\<forall>l \<in> set ls. list_all (\<lambda>b. b < 256) (val (sl_SecretRef l))"
    "sec = fold (\<lambda>l. AList.update (sl_SecretRef l) (StdEncoding (val (sl_SecretRef l)))) ls []"
  shows "\<exists>m'. apply_redeemed pl sec w = (None, w\<lparr>wo_secrets := m'\<rparr>) \<and> (\<forall>l \<in> set ls. \<forall>t \<le> pl_now pl + sm_ttl (wo_secrets w).
    GetSecretBytes t (sl_SecretRef l) m' = Inr (val (sl_SecretRef l)))"
proof -
  have fsts: "fst ` set (fold (\<lambda>l. AList.update (sl_SecretRef l) (StdEncoding (val (sl_SecretRef l)))) ls red) = sl_SecretRef ` set ls \<union> fst ` set red" for red
    by (induction ls arbitrary: red) (auto simp: dom_update)
  have dist: "distinct (map fst (fold (\<lambda>l. AList.update (sl_SecretRef l) (StdEncoding (val (sl_SecretRef l)))) ls red))" if "distinct (map fst red)" for red
    using that by (induction ls arbitrary: red) (auto simp: distinct_update)
  have "\<forall>(name, v) \<in> set sec. \<exists>val. DecodeString v = Some val"
  proof safe
    fix name v assume "(name, v) \<in> set sec"
    then have "map_of sec name = Some v" using dist [of "[]"] by (simp add: assms(2))
    then have "v = StdEncoding (val name)" "name \<in> sl_SecretRef ` set ls" by (auto simp: assms(2) map_of_redeemed split: if_splits)
    then show "\<exists>val. DecodeString v = Some val" using assms(1) by (auto simp: decode_StdEncoding)
  qed
  then obtain decoded where dec: "decode_all sec = Inr decoded" using decode_delivered by blast
  obtain m' where ok: "Apply_secrets (pl_now pl) sec 0 (wo_secrets w) = (None, m')" by (simp add: Apply_secrets_def Apply_store_def dec)
  then obtain st: "sm_store m' = decoded"
      "sm_entries m' = fold (\<lambda>(ref, _). AList.update ref (pl_now pl + sm_ttl (wo_secrets w))) sec (sm_entries (wo_secrets w))"
    by (rule Apply_secrets_ok) (use dec in simp)
  have "GetSecretBytes t (sl_SecretRef l) m' = Inr (val (sl_SecretRef l))" if l: "l \<in> set ls" and t: "t \<le> pl_now pl + sm_ttl (wo_secrets w)" for l t
  proof -
    have "map_of sec (sl_SecretRef l) = Some (StdEncoding (val (sl_SecretRef l)))" using l by (simp add: assms(2) map_of_redeemed)
    then have "map_of decoded (sl_SecretRef l) = Some (val (sl_SecretRef l))"
      using decode_all_Inr [OF dec, of "sl_SecretRef l" "StdEncoding (val (sl_SecretRef l))"] assms(1) l by (auto simp: decode_StdEncoding)
    moreover have "sl_SecretRef l \<in> fst ` set sec" using l by (simp add: assms(2) fsts)
    ultimately show ?thesis using t by (simp add: GetSecretBytes_def Get_store_def st map_of_updates not_less)
  qed
  then show ?thesis using ok by (intro exI [of _ m']) (simp add: apply_redeemed_def)
qed

text \<open>The state after a delivery: the keys, the spent tokens and the secrets.\<close>

definition delivered :: "Plant \<Rightarrow> SecretLease list \<Rightarrow> (string \<Rightarrow> nat list) \<Rightarrow> TokenRow list \<Rightarrow> World AcpServer \<Rightarrow> World AcpServer \<Rightarrow> bool" where
  "delivered pl ls val rows s s' \<longleftrightarrow> (\<exists>m' n. as_world s' = (fold (\<lambda>row. burnt (tk_token row)) rows (as_world s))\<lparr>wo_secrets := m', wo_count := n\<rparr> \<and>
     (\<forall>l \<in> set ls. \<forall>t \<le> pl_now pl + sm_ttl (wo_secrets (as_world s)). GetSecretBytes t (sl_SecretRef l) m' = Inr (val (sl_SecretRef l))))"

lemma serve_token_request:
  assumes "codecs_ok pl" "hd_AgentID (pl_handlers pl) = agentID" "agentID \<noteq> []" "ls \<noteq> []"
    "list_all2 (ready pl db agentID) ls rows" "distinct (map tk_token rows)" "sv_has_getter (wo_kuze (as_world s))" "plant_db s = db"
    "\<forall>row \<in> set rows. find_token (tk_token row) (ts_rows (sv_tokens (wo_kuze (as_world s)))) = Some row"
    "\<forall>l \<in> set ls. deliverable pl db (sl_SecretRef l) (val (sl_SecretRef l))"
    "ar_Path r = ''/secrets/token''" "ar_Method r = ''POST''" "ar_Body r = pl_leases pl ls" "ar_ReadError r = None" "replay r s = None"
    "hd_Token (pl_handlers pl) \<noteq> [] \<longrightarrow> bearer_error (pl_handlers pl) r = None"
  shows "\<exists>s'. serve_acp (plant_wire pl) (plant_handlers pl) r s = (\<lparr>rp_Status = 200, rp_Body = NoBody\<rparr>, s') \<and> delivered pl ls val rows s s'"
proof -
  let ?sec = "fold (\<lambda>l. AList.update (sl_SecretRef l) (StdEncoding (val (sl_SecretRef l)))) ls []"
  let ?w = "fold (\<lambda>row. burnt (tk_token row)) rows (as_world s)"
  have red: "redeemLeases (plant_wire pl) (plant_handlers pl) ls [] (as_world s) = (?sec, ?w)"
    using assms(8) by (intro redeem_all [OF assms(1-3,5-7) _ assms(9,10)]) (simp add: plant_db_def)
  obtain m' where app: "apply_redeemed pl ?sec ?w = (None, ?w\<lparr>wo_secrets := m'\<rparr>)"
      "\<forall>l \<in> set ls. \<forall>t \<le> pl_now pl + sm_ttl (wo_secrets (as_world s)). GetSecretBytes t (sl_SecretRef l) m' = Inr (val (sl_SecretRef l))"
    using applied_world [of ls val ?sec pl ?w] assms(10) by (auto simp: deliverable_def)
  have ne: "?sec \<noteq> []"
  proof -
    obtain l where "l \<in> set ls" using assms(4) by (cases ls) auto
    then have "map_of ?sec (sl_SecretRef l) \<noteq> None" by (simp add: map_of_redeemed)
    then show ?thesis by auto
  qed
  let ?s' = "remember r 200 NoBody (s\<lparr>as_world := ?w\<lparr>wo_secrets := m'\<rparr>\<rparr>)"
  have "hd_Token (plant_handlers pl) = hd_Token (pl_handlers pl)" "bearer_error (plant_handlers pl) r = bearer_error (pl_handlers pl) r"
    by (simp_all add: plant_handlers_def bearer_error_def)
  then have "serve_acp (plant_wire pl) (plant_handlers pl) r s = handleSecretsToken (plant_wire pl) (plant_handlers pl) r s"
    using assms(11,16) by (cases "bearer_error (pl_handlers pl) r")
      (simp_all add: serve_acp_def event_source_def trim_prefix_def has_prefix_iff authMiddleware_def inner_mux_def)
  also have "\<dots> = (\<lparr>rp_Status = 200, rp_Body = NoBody\<rparr>, ?s')"
  proof -
    have "wi_leases (plant_wire pl) (ar_Body r) (ar_ReadError r) = Inr ls" using assms(1,13,14) by (simp add: plant_wire_def codecs_ok_def)
    moreover have "hd_ApplySecrets (plant_handlers pl) = Some (apply_redeemed pl)" by (simp add: plant_handlers_def)
    ultimately show ?thesis using assms(4,12,15) ne red app(1) by (simp add: handleSecretsToken_def)
  qed
  finally have "serve_acp (plant_wire pl) (plant_handlers pl) r s = (\<lparr>rp_Status = 200, rp_Body = NoBody\<rparr>, ?s')" .
  moreover have "as_world ?s' = ?w\<lparr>wo_secrets := m', wo_count := wo_count (as_world s)\<rparr>" by (simp add: remember_def)
  then have "delivered pl ls val rows s ?s'" unfolding delivered_def using app(2) by blast
  ultimately show ?thesis by blast
qed

lemma token_post_arrives:
  assumes "codecs_ok pl" "hd_AgentID (pl_handlers pl) = agentID" "agentID \<noteq> []" "ls \<noteq> []"
    "list_all2 (ready pl db agentID) ls rows" "distinct (map tk_token rows)" "sv_has_getter (wo_kuze (as_world s))" "plant_db s = db"
    "\<forall>row \<in> set rows. find_token (tk_token row) (ts_rows (sv_tokens (wo_kuze (as_world s)))) = Some row"
    "\<forall>l \<in> set ls. deliverable pl db (sl_SecretRef l) (val (sl_SecretRef l))"
    "pl_newID pl (wo_count (as_world s)) \<notin> fst ` set (as_cache s)" "hd_Token (pl_handlers pl) \<in> {[], token}" "wo_lost (as_world s) = []"
  shows "\<exists>s'. ApplySecretsToken (plant_net pl) (New_client (pl_url pl) (Some token)) traceID ls s = (None, s') \<and> delivered pl ls val rows s s'"
proof -
  let ?s = "s\<lparr>as_world := (as_world s)\<lparr>wo_count := Suc (wo_count (as_world s))\<rparr>\<rparr>"
  let ?r = "\<lparr>ar_Method = ''POST'', ar_Path = ''/secrets/token'', ar_Authorization = (if token \<noteq> [] then ''Bearer '' @ token else []),
    ar_IdempotencyKey = pl_newID pl (wo_count (as_world s)), ar_Signature = [], ar_RemoteAddr = pl_addr pl,
    ar_Body = pl_leases pl ls, ar_ReadError = None, ar_now = pl_now pl, ar_done = pl_now pl\<rparr>"
  have "map_of (as_cache s) (pl_newID pl (wo_count (as_world s))) = None" using assms(11) by (simp add: map_of_eq_None_iff)
  then have "replay ?r ?s = None" by (simp add: replay_def cache_get_def)
  moreover have "hd_Token (pl_handlers pl) \<noteq> [] \<longrightarrow> bearer_error (pl_handlers pl) ?r = None"
    using assms(12) by (auto simp: bearer_error_def has_prefix_iff)
  ultimately obtain s' where s': "serve_acp (plant_wire pl) (plant_handlers pl) ?r ?s = (\<lparr>rp_Status = 200, rp_Body = NoBody\<rparr>, s')" "delivered pl ls val rows ?s s'"
    using serve_token_request [OF assms(1-6), of ?s val ?r] assms(7-10) by (auto simp: plant_db_def)
  have frame: "fold (\<lambda>row. burnt (tk_token row)) rows (w\<lparr>wo_count := k\<rparr>) = (fold (\<lambda>row. burnt (tk_token row)) rows w)\<lparr>wo_count := k\<rparr>" for w k
  proof (induction rows arbitrary: w)
    case (Cons r rows)
    have "burnt t (w\<lparr>wo_count := k\<rparr>) = (burnt t w)\<lparr>wo_count := k\<rparr>" for t by (simp add: burnt_def)
    with Cons show ?case by simp
  qed simp
  have "delivered pl ls val rows s s'" using s'(2) by (auto simp: delivered_def frame)
  moreover have "wo_lost (as_world s') = []" using s'(2) assms(13) by (auto simp: delivered_def)
  ultimately show ?thesis using s'(1)
    by (cases "token = []") (simp_all add: ApplySecretsToken_def post_def plant_net_def New_client_def setCommonHeaders_def blank_request_def do_request_def plant_do_def
        trim_prefix_def has_prefix_iff read_response_def maxResponseBytes_def failure_of_def no_output_def)
qed

lemma Do_first: "fn w = (None, w') \<Longrightarrow> Do (\<lambda>n. None) during DefaultConfig fn w = ([], [], w')"
  by (simp add: Do_def normalized_def DefaultConfig_def Let_def numeral_3_eq_3)

lemma plant_put [simp]:
  "plant_db (plant_put db s) = db" "plant_put db (plant_put db2 s) = plant_put db s" "plant_put (plant_db s) s = s"
  "wo_secrets (as_world (plant_put db s)) = wo_secrets (as_world s)" "sv_tokens (wo_kuze (as_world (plant_put db s))) = sv_tokens (wo_kuze (as_world s))"
  by (simp_all add: plant_db_def plant_put_def)

definition mark_all :: "string \<Rightarrow> Binding list \<Rightarrow> Db \<Rightarrow> Db" where
  "mark_all agentID bs db = fold (\<lambda>b db. snd (MarkPushed None agentID (bi_SecretName b) db)) bs db"

lemma mark_pushed_all:
  "bi_SecretName ` set bs \<subseteq> set refs \<Longrightarrow>
     mark_pushed (plant_env pl) no_dist_faults agentID refs bs s = (length bs, plant_put (mark_all agentID bs (plant_db s)) s)"
proof (induction bs arbitrary: s)
  case (Cons b bs)
  have "MarkPushed (df_mark no_dist_faults (bi_SecretName b)) agentID (bi_SecretName b) (de_db (plant_env pl) s) =
      (None, snd (MarkPushed None agentID (bi_SecretName b) (plant_db s)))"
    by (simp add: no_dist_faults_def plant_env_def MarkPushed_def)
  with Cons show ?case by (simp add: mark_all_def plant_env_def)
qed (simp add: mark_all_def)

lemma mark_all_stale:
  "db_ok db \<Longrightarrow> db_ok (mark_all agentID bs db) \<and> {c \<in> set (db_bindings (mark_all agentID bs db)). behind (mark_all agentID bs db) c} =
     {c \<in> set (db_bindings db). behind db c \<and> \<not> (bi_AgentID c = agentID \<and> bi_SecretName c \<in> bi_SecretName ` set bs)}"
proof (induction bs arbitrary: db)
  case (Cons b bs)
  obtain r db' where m: "MarkPushed None agentID (bi_SecretName b) db = (r, db')" by fastforce
  then have "db_ok db'" using MarkPushed_ok Cons.prems by blast
  from Cons.IH [OF this] MarkPushed_stale [OF m] show ?case by (auto simp: m mark_all_def binding_is_def)
qed (simp add: mark_all_def)

lemma bindings_listed:
  assumes "db_ok db" "ListBindings None agentID db = Inr bs"
  shows "set bs = {b \<in> set (db_bindings db). bi_AgentID b = agentID}"
  using assms by (auto simp: ListBindings_def scan_bindings_def split: if_splits)

lemma bindings_listable: "db_ok db \<Longrightarrow> \<exists>bs. ListBindings None agentID db = Inr bs"
  by (auto simp: ListBindings_def scan_bindings_def db_ok_def bindings_ok_def binding_ok_def pushed_ok_def list_ex_iff split: option.splits)

text \<open>C15: when the agent and the token server can be reached and the bound secrets can be delivered (readable, not empty, at most 64 KiB), a push brings every secret that is bound to the agent to it: the agent serves the stored
  value as long as the lifetime of its secrets lasts, the push reports all of them, and no binding of the agent, and only of the agent, is stale any more.\<close>

theorem bound_secrets_arrive:
  assumes "db_steps empty_db (plant_db s)" "find_agent agentID (plant_db s) = Some agent" "agentID \<noteq> []" "an_ControlURL agent = Some (pl_url pl)" "pl_url pl \<noteq> []"
    "hd_AgentID (pl_handlers pl) = agentID" "hd_Token (pl_handlers pl) \<in> {[], case an_ACPToken agent of Some t \<Rightarrow> t | None \<Rightarrow> []}"
    "codecs_ok pl" "sv_has_getter (wo_kuze (as_world s))" "sv_baseURL (wo_kuze (as_world s)) = pl_base pl" "wo_lost (as_world s) = []"
    "inj (tok pl)" "\<And>n. pl_rand pl n \<noteq> []" "fresh_tokens pl (as_world s)" "\<And>n. pl_newID pl n \<notin> fst ` set (as_cache s)"
    "\<And>b. b \<in> set (db_bindings (plant_db s)) \<Longrightarrow> bi_AgentID b = agentID \<Longrightarrow> deliverable pl (plant_db s) (bi_SecretName b) (val (bi_SecretName b))"
  shows "\<exists>bs s' stale stale'. ListBindings None agentID (plant_db s) = Inr bs \<and>
    PushToAgent (plant_env pl) no_dist_faults traceID agentID s = ((None, length bs), s') \<and>
    (\<forall>b \<in> set bs. \<forall>t \<le> pl_now pl + sm_ttl (wo_secrets (as_world s)). GetSecretBytes t (bi_SecretName b) (wo_secrets (as_world s')) = Inr (val (bi_SecretName b))) \<and>
    StaleBindings None (plant_db s) = Inr stale \<and> StaleBindings None (plant_db s') = Inr stale' \<and> set stale' = {c \<in> set stale. bi_AgentID c \<noteq> agentID}"
proof -
  have ok: "db_ok (plant_db s)" by (rule db_steps_ok [OF assms(1) empty_db_ok])
  obtain bs where bs: "ListBindings None agentID (plant_db s) = Inr bs" using bindings_listable [OF ok] by blast
  note set_bs = bindings_listed [OF ok bs]
  let ?token = "case an_ACPToken agent of Some t \<Rightarrow> t | None \<Rightarrow> []"
  have target: "push_target (plant_env pl) no_dist_faults agentID s = Inr (pl_url pl, ?token, bs)"
    using assms(2,4,5) bs by (simp add: push_target_def plant_env_def no_dist_faults_def GetAgent_def)
  have env: "de_issue (plant_env pl) = Some (plant_issue pl)" "de_net (plant_env pl) = plant_net pl" "de_before (plant_env pl) = (\<lambda>n. None)"
    by (simp_all add: plant_env_def)
  obtain l1 where l1: "StaleBindings None (plant_db s) = Inr l1" "set l1 = {c \<in> set (db_bindings (plant_db s)). behind (plant_db s) c}"
    using StaleBindings_exact [OF ok] by blast
  show ?thesis
  proof (cases "bs = []")
    case True
    then have "set l1 = {c \<in> set l1. bi_AgentID c \<noteq> agentID}" using l1(2) set_bs by auto
    moreover have "PushToAgent (plant_env pl) no_dist_faults traceID agentID s = ((None, 0), s)"
      using target True env(1) by (simp add: PushToAgent_def distributeViaTokens_def)
    ultimately show ?thesis using bs True l1(1) by (intro exI [of _ "[]"] exI [of _ s] exI [of _ l1]) auto
  next
    case False
    have deliv: "deliverable pl (plant_db s) (bi_SecretName b) (val (bi_SecretName b))" if "b \<in> set bs" for b using assms(16) that set_bs by auto
    have "\<forall>b \<in> set bs. bi_SecretName b \<noteq> [] \<and> find_secret (bi_SecretName b) (plant_db s) \<noteq> None"
    proof
      fix b assume "b \<in> set bs"
      from deliv [OF this] show "bi_SecretName b \<noteq> [] \<and> find_secret (bi_SecretName b) (plant_db s) \<noteq> None"
        by (cases "find_secret (bi_SecretName b) (plant_db s)") (simp_all add: deliverable_def)
    qed
    from issue_all [OF assms(3,12,13,10,14) refl this] obtain ls rows where
      issued: "issue_leases (plant_env pl) (plant_issue pl) no_dist_faults agentID bs s = (ls, map bi_SecretName bs, [], s\<lparr>as_world := add_rows rows (as_world s)\<rparr>)"
        "list_all2 (ready pl (plant_db s) agentID) ls rows" "map sl_SecretRef ls = map bi_SecretName bs"
        "map tk_token rows = map (tok pl) [wo_count (as_world s)..<wo_count (as_world s) + length bs]"
      by blast
    let ?s1 = "s\<lparr>as_world := add_rows rows (as_world s)\<rparr>"
    note found = issued_found [OF assms(14,12) issued(4)]
    have names: "sl_SecretRef ` set ls = bi_SecretName ` set bs" using issued(3) by (metis set_map)
    have ne: "ls \<noteq> []" using issued(3) False by auto
    have "\<forall>l \<in> set ls. deliverable pl (plant_db s) (sl_SecretRef l) (val (sl_SecretRef l))"
    proof
      fix l assume "l \<in> set ls"
      then obtain b where "b \<in> set bs" "sl_SecretRef l = bi_SecretName b" using names by (auto simp: set_eq_iff image_iff)
      then show "deliverable pl (plant_db s) (sl_SecretRef l) (val (sl_SecretRef l))" using deliv by simp
    qed
    then obtain s2 where sent: "ApplySecretsToken (plant_net pl) (New_client (pl_url pl) (Some ?token)) traceID ls ?s1 = (None, s2)" "delivered pl ls val rows ?s1 s2"
      using token_post_arrives [OF assms(8,6,3) ne issued(2) found(1), of ?s1 val ?token traceID] found(2) assms(7,9,11,15) by (auto simp: plant_db_def)
    have db2: "plant_db s2 = plant_db s" using sent(2) by (auto simp: delivered_def plant_db_def)
    let ?s3 = "plant_put (mark_all agentID bs (plant_db s)) s2"
    have "PushToAgent (plant_env pl) no_dist_faults traceID agentID s = ((None, length bs), ?s3)"
    proof -
      have "mark_pushed (plant_env pl) no_dist_faults agentID (map bi_SecretName bs) bs s2 = (length bs, ?s3)" using mark_pushed_all db2 by simp
      then show ?thesis using env target False ne issued(1) Do_first [of "ApplySecretsToken (plant_net pl) (New_client (pl_url pl) (Some ?token)) traceID ls", OF sent(1)]
        by (simp add: PushToAgent_def distributeViaTokens_def send_and_mark_def push_result_def)
    qed
    moreover have "GetSecretBytes t (bi_SecretName b) (wo_secrets (as_world ?s3)) = Inr (val (bi_SecretName b))"
      if "b \<in> set bs" "t \<le> pl_now pl + sm_ttl (wo_secrets (as_world s))" for b t
    proof -
      have "bi_SecretName b \<in> sl_SecretRef ` set ls" using that(1) unfolding names by simp
      then obtain l where "l \<in> set ls" "sl_SecretRef l = bi_SecretName b" by auto
      then show ?thesis using sent(2) that(2) by (auto simp: delivered_def)
    qed
    moreover have "\<exists>l3. StaleBindings None (plant_db ?s3) = Inr l3 \<and> set l3 = {c \<in> set l1. bi_AgentID c \<noteq> agentID}"
      using StaleBindings_exact [of "mark_all agentID bs (plant_db s)"] mark_all_stale [OF ok, of agentID bs] set_bs l1(2) by auto
    ultimately show ?thesis using bs l1(1) by blast
  qed
qed

text \<open>An installation: strings are sent as escaped fields.\<close>

definition pack :: "string \<Rightarrow> string" where
  "pack s = concat (map (\<lambda>c. [CHR ''.'', c]) s) @ '';''"

fun unpack :: "string \<Rightarrow> string \<Rightarrow> string list" where
  "unpack acc (x # c # rest) = (if x = CHR ''.'' then unpack (acc @ [c]) rest else acc # unpack [] (c # rest))"
| "unpack acc [x] = [acc]"
| "unpack acc [] = []"

lemma unpack_field: "unpack acc (concat (map (\<lambda>c. [CHR ''.'', c]) s) @ '';'' @ rest) = (acc @ s) # unpack [] rest"
  by (induction s arbitrary: acc) (cases rest; simp)+

lemma unpack_pack: "unpack [] (concat (map pack ss)) = ss"
  by (induction ss) (simp_all add: pack_def unpack_field [simplified])

fun leases_of :: "string list \<Rightarrow> SecretLease list" where
  "leases_of (a # b # c # rest) = \<lparr>sl_SecretRef = a, sl_RedemptionToken = b, sl_KuzeURL = c\<rparr> # leases_of rest"
| "leases_of _ = []"

definition lease_fields :: "SecretLease list \<Rightarrow> string list" where
  "lease_fields ls = concat (map (\<lambda>l. [sl_SecretRef l, sl_RedemptionToken l, sl_KuzeURL l]) ls)"

lemma leases_of_fields: "leases_of (lease_fields ls) = ls"
  by (induction ls) (simp_all add: lease_fields_def)

definition sample_plant :: Plant where
  "sample_plant = \<lparr>pl_base = ''http://r'', pl_url = ''http://a:8765'', pl_addr = ''10.0.0.2:1'', pl_unseal = sample_open, pl_key = sample_key,
     pl_newID = (\<lambda>n. ''k'' @ replicate n (CHR ''x'')), pl_rand = (\<lambda>n. replicate (3 * Suc n) 0),
     pl_render = (\<lambda>b. case b of JSONBody kvs \<Rightarrow> concat (map (\<lambda>kv. pack (snd kv)) kvs) | _ \<Rightarrow> []),
     pl_leases = (\<lambda>ls. concat (map pack (lease_fields ls))),
     pl_wire = \<lparr>wi_config = (\<lambda>b e. Inl []), wi_secrets = (\<lambda>b e. Inl []), wi_leases = (\<lambda>b e. Inr (leases_of (unpack [] b))), wi_decision = (\<lambda>b e. Inl []),
       wi_tool = (\<lambda>b e. Inl []), wi_event = (\<lambda>b. Inl []),
       wi_redeemed = (\<lambda>b. case unpack [] b of [ref, ty, val] \<Rightarrow> Inr \<lparr>kr_SecretRef = ref, kr_SecretType = ty, kr_Value = val\<rparr> | _ \<Rightarrow> Inl ''syntax''),
       wi_unmarshal = (\<lambda>b. Inl []), wi_hmac = (\<lambda>k b. []), wi_kuze = (\<lambda>u a w. (Inl [], w))\<rparr>,
     pl_handlers = \<lparr>hd_AgentID = ''a'', hd_Version = ''1'', hd_StartedAt = 0, hd_Token = ''tok'', hd_DirectSecretPushEnabled = False,
       hd_GosutoHash = None, hd_MCPNames = None, hd_ApplyConfig = None, hd_ApplySecrets = None, hd_RequestRestart = None,
       hd_RequestCancel = None, hd_RecordApprovalDecision = None, hd_ExecuteTool = None, hd_ActiveConfig = None,
       hd_GetSecret = None, hd_HandleEvent = None, hd_MessagesOutbound = None\<rparr>,
     pl_now = 5 * second\<rparr>"

definition sample_world :: "bool list \<Rightarrow> World AcpServer" where
  "sample_world lost = New_acp \<lparr>wo_kuze = \<lparr>sv_tokens = newTokenStore [] 0, sv_secrets = sample_secrets_db, sv_has_getter = True, sv_baseURL = ''http://r'',
     sv_storeNotify = None, sv_expiryNotify = None\<rparr>, wo_secrets = NewManager_secrets New_store 0, wo_count = 0, wo_lost = lost\<rparr>"

lemma sample_codecs: "codecs_ok sample_plant"
proof -
  have "unpack [] (pack a @ pack b @ pack c) = [a, b, c]" for a b c using unpack_pack [of "[a, b, c]"] by simp
  then show ?thesis by (simp add: codecs_ok_def sample_plant_def unpack_pack leases_of_fields redeem_body_def)
qed

lemma sample_tokens: "inj (tok sample_plant)"
proof (rule injI)
  have len: "length (b64_encode al (replicate (3 * k) 0)) = 4 * k" for al k
    by (induction k) (simp_all add: numeral_3_eq_3)
  fix m n assume "tok sample_plant m = tok sample_plant n"
  then have "length (tok sample_plant m) = length (tok sample_plant n)" by simp
  then show "m = n" unfolding tok_def sample_plant_def RawURLEncoding_def Plant.simps len by simp
qed

theorem bound_secrets_arrive_witness:
  "\<exists>s'. PushToAgent (plant_env sample_plant) no_dist_faults ''t'' ''a'' (sample_world []) = ((None, 1), s') \<and>
     GetSecretBytes (6 * second) ''api'' (wo_secrets (as_world s')) = Inr [1, 2] \<and> StaleBindings None (plant_db s') = Inr []"
proof -
  let ?b = "\<lparr>bi_AgentID = ''a'', bi_SecretName = ''api'', bi_Scope = [], bi_LastPushedVersion = Some 0\<rparr>"
  have db: "plant_db (sample_world []) = sample_secrets_db" by (simp add: plant_db_def sample_world_def New_acp_def)
  have bs: "db_bindings sample_secrets_db = [?b]" by code_simp
  have "\<exists>bs s' stale stale'. ListBindings None ''a'' (plant_db (sample_world [])) = Inr bs \<and>
    PushToAgent (plant_env sample_plant) no_dist_faults ''t'' ''a'' (sample_world []) = ((None, length bs), s') \<and>
    (\<forall>b \<in> set bs. \<forall>t \<le> pl_now sample_plant + sm_ttl (wo_secrets (as_world (sample_world []))).
       GetSecretBytes t (bi_SecretName b) (wo_secrets (as_world s')) = Inr ((\<lambda>n. [1, 2]) (bi_SecretName b))) \<and>
    StaleBindings None (plant_db (sample_world [])) = Inr stale \<and> StaleBindings None (plant_db s') = Inr stale' \<and> set stale' = {c \<in> set stale. bi_AgentID c \<noteq> ''a''}"
  proof (rule bound_secrets_arrive [where agent = "the (find_agent ''a'' sample_secrets_db)"], goal_cases)
    case 1 then show ?case using sample_secrets_steps db by simp
  next
    case 2 then show ?case unfolding db by code_simp
  next
    case 4 then show ?case by code_simp
  next
    case 5 then show ?case by code_simp
  next
    case 6 then show ?case by code_simp
  next
    case 7 then show ?case by code_simp
  next
    case (16 b)
    then have "b = ?b" using bs by (simp add: db)
    moreover have "deliverable sample_plant sample_secrets_db ''api'' [1, 2]" by code_simp
    ultimately show ?case using db by simp
  qed (use sample_codecs sample_tokens in \<open>simp_all add: sample_world_def New_acp_def sample_plant_def fresh_tokens_def newTokenStore_def find_token_def\<close>)
  then obtain bs' s' stale stale' where r: "ListBindings None ''a'' sample_secrets_db = Inr bs'"
    "PushToAgent (plant_env sample_plant) no_dist_faults ''t'' ''a'' (sample_world []) = ((None, length bs'), s')"
    "\<forall>b \<in> set bs'. \<forall>t \<le> pl_now sample_plant + sm_ttl (wo_secrets (as_world (sample_world []))). GetSecretBytes t (bi_SecretName b) (wo_secrets (as_world s')) = Inr [1, 2]"
    "StaleBindings None sample_secrets_db = Inr stale" "StaleBindings None (plant_db s') = Inr stale'" "set stale' = {c \<in> set stale. bi_AgentID c \<noteq> ''a''}"
    unfolding db by blast
  have b': "bs' = [?b]" using r(1) bs by (simp add: ListBindings_def scan_bindings_def)
  have "StaleBindings None sample_secrets_db = Inr [?b]" by code_simp
  with r(4) have "stale = [?b]" by simp
  with r(6) have "set stale' = {}" by simp
  with r(5) have "StaleBindings None (plant_db s') = Inr []" by simp
  moreover have late: "6 * second \<le> pl_now sample_plant + sm_ttl (wo_secrets (as_world (sample_world [])))" by code_simp
  have "GetSecretBytes (6 * second) (bi_SecretName ?b) (wo_secrets (as_world s')) = Inr [1, 2]"
    using r(3) b' late by (meson list.set_intros(1))
  ultimately show ?thesis using r(2) b' by (intro exI [of _ s'] conjI) simp_all
qed

text \<open>When the answer of the agent is lost, the retries carry new keys, so that the agent redeems the same tokens again and is refused: the push fails and
  the binding stays stale although the agent has the secret.\<close>

lemma lost_answer_fails_push:
  "case PushToAgent (plant_env sample_plant) no_dist_faults ''t'' ''a'' (sample_world [True]) of
     ((e, n), s') \<Rightarrow> e = Some (AcpFailed [AcpError ''POST'' ''/secrets/token'' 502 [] []]) \<and> n = 0 \<and>
        GetSecretBytes (6 * second) ''api'' (wo_secrets (as_world s')) = Inr [1, 2] \<and> plant_db s' = sample_secrets_db"
  by code_simp

end
