(* ===== verification/Nlp_Classifier.thy ===== *)
theory Nlp_Classifier
  imports Cron Ruriko_Commands
begin

section \<open>Classification of messages\<close>

text \<open>
  \<^verbatim>\<open>internal/ruriko/nlp/provider.go\<close>, \<^verbatim>\<open>classifier.go\<close> and \<^verbatim>\<open>cron.go\<close>: what the language model answers, and the checks of the classifier that can be
  put around it.  A provider is an action on the world \<open>'s\<close>; absent flags and arguments are empty lists.
  The theory shows that an answer of the classifier proposes only registered actions without internal flags, and how its check of cron
  expressions differs from the parser of the agent.
\<close>

definition IntentCommand :: string where "IntentCommand = ''command''"
definition IntentConversational :: string where "IntentConversational = ''conversational''"
definition IntentUnknown :: string where "IntentUnknown = ''unknown''"
definition IntentPlan :: string where "IntentPlan = ''plan''"

datatype nlp_error = ErrRateLimit | ErrMalformedOutput | OtherNlp string

record HistoryMessage =
  hm_Role :: string
  hm_Content :: string

record CanonicalAgentSpec =
  cg_Name :: string
  cg_Role :: string
  cg_Template :: string

record ClassifyRequest =
  cq_Message :: string
  cq_CommandCatalogue :: string
  cq_KnownAgents :: "string list"
  cq_KnownTemplates :: "string list"
  cq_SenderMXID :: string
  cq_ConversationHistory :: "HistoryMessage list"
  cq_CanonicalAgents :: "CanonicalAgentSpec list"

record CommandStep =
  ct_Action :: string
  ct_Args :: "string list"
  ct_Flags :: "(string \<times> string) list"
  ct_Explanation :: string

record ClassifyResponse =
  cp_Intent :: string
  cp_Action :: string
  cp_Args :: "string list"
  cp_Flags :: "(string \<times> string) list"
  cp_Explanation :: string
  cp_Confidence :: gofloat
  cp_Response :: string
  cp_ReadQueries :: "string list"
  cp_Steps :: "CommandStep list"
  cp_TotalTokens :: "int option"

type_synonym 's provider = "ClassifyRequest \<Rightarrow> 's \<Rightarrow> (nlp_error + ClassifyResponse) \<times> 's"

definition zero_response :: ClassifyResponse where
  "zero_response = \<lparr>cp_Intent = [], cp_Action = [], cp_Args = [], cp_Flags = [], cp_Explanation = [], cp_Confidence = Dec 0 0, cp_Response = [],
     cp_ReadQueries = [], cp_Steps = [], cp_TotalTokens = None\<rparr>"

subsection \<open>Cron expressions\<close>

definition CronFlagKeys :: "string list" where "CronFlagKeys = [''cron'', ''schedule'', ''cron-expr'']"

definition cut_step :: "string \<Rightarrow> string \<times> string option" where
  "cut_step item = (case cut_at (CHR ''/'') item of None \<Rightarrow> (item, None) | Some (base, step) \<Rightarrow> (base, Some step))"

definition cron_step_error :: "string \<Rightarrow> string \<Rightarrow> string option \<Rightarrow> string option" where
  "cron_step_error name item step = (case step of
       None \<Rightarrow> None
     | Some s \<Rightarrow> reject (case atoi s of None \<Rightarrow> True | Some n \<Rightarrow> n < 1)
         (''cron field '' @ go_quote name @ '': invalid step '' @ go_quote s @ '' in item '' @ go_quote item))"

definition cron_base_error :: "string \<Rightarrow> int \<Rightarrow> int \<Rightarrow> string \<Rightarrow> string option" where
  "cron_base_error base lo hi name =
     (if base = ''*'' then None
      else (case cut_at (CHR ''-'') base of
        Some (a, b) \<Rightarrow>
          (case (atoi a, atoi b) of
             (Some x, Some y) \<Rightarrow> reject (x < lo \<or> y > hi \<or> x > y)
               (''cron field '' @ go_quote name @ '': range '' @ itoa x @ ''-'' @ itoa y @ '' is out of bounds ['' @ itoa lo @ '','' @ itoa hi @ ''] or inverted'')
           | _ \<Rightarrow> Some (''cron field '' @ go_quote name @ '': invalid range '' @ go_quote base))
      | None \<Rightarrow>
          (case atoi base of
             None \<Rightarrow> Some (''cron field '' @ go_quote name @ '': unrecognised token '' @ go_quote base)
           | Some n \<Rightarrow>
               if name = ''day-of-week'' \<and> n = 7 then None
               else reject (n < lo \<or> n > hi)
                 (''cron field '' @ go_quote name @ '': value '' @ itoa n @ '' is out of bounds ['' @ itoa lo @ '','' @ itoa hi @ '']''))))"

definition validateCronItem :: "string \<Rightarrow> int \<Rightarrow> int \<Rightarrow> string \<Rightarrow> string option" where
  "validateCronItem item lo hi name = (case cut_step item of (base, step) \<Rightarrow>
     (case cron_step_error name item step of Some e \<Rightarrow> Some e | None \<Rightarrow> cron_base_error base lo hi name))"

definition validateCronField :: "string \<Rightarrow> int \<Rightarrow> int \<Rightarrow> string \<Rightarrow> string option" where
  "validateCronField field lo hi name = first_of (map (\<lambda>part. validateCronItem part lo hi name) (split_on (CHR '','') field))"

definition ValidateCronExpression :: "string \<Rightarrow> string option" where
  "ValidateCronExpression expr = (case Go_Strings.fields (trim_space expr) of
       [f0, f1, f2, f3, f4] \<Rightarrow>
         first_of [validateCronField f0 0 59 ''minute'', validateCronField f1 0 23 ''hour'', validateCronField f2 1 31 ''day-of-month'',
           validateCronField f3 1 12 ''month'', validateCronField f4 0 7 ''day-of-week'']
     | fs \<Rightarrow> Some (''cron expression must have exactly 5 fields (minute hour dom month dow), got '' @ itoa (int (length fs)) @ '' in '' @ go_quote expr))"

definition validateFlagMapCron :: "(string \<times> string) list \<Rightarrow> string option" where
  "validateFlagMapCron flags = first_of (map (\<lambda>(key, val). if key \<in> set CronFlagKeys
     then map_option (\<lambda>e. ''flag '' @ go_quote key @ '' contains an invalid cron expression: '' @ e) (ValidateCronExpression val) else None) flags)"

definition validateResponseCronFlags :: "ClassifyResponse \<Rightarrow> string option" where
  "validateResponseCronFlags resp = first_of (validateFlagMapCron (cp_Flags resp) # map (\<lambda>s. validateFlagMapCron (ct_Flags s)) (cp_Steps resp))"

subsection \<open>Classifier\<close>

definition HighConfidenceThreshold :: gofloat where "HighConfidenceThreshold = Dec 8 (-1)"
definition MidConfidenceThreshold :: gofloat where "MidConfidenceThreshold = Dec 5 (-1)"

definition float_ge :: "gofloat \<Rightarrow> gofloat \<Rightarrow> bool" where
  "float_ge a b \<longleftrightarrow> a \<noteq> NaN \<and> b \<noteq> NaN \<and> \<not> float_less a b"

definition newline :: string where "newline = [CHR 0x0A]"
definition em_dash :: string where "em_dash = [CHR 0xE2, CHR 0x80, CHR 0x94]"

definition clarificationSuffix :: string where
  "clarificationSuffix = newline @ newline @ ''You can use `/ruriko help` to see all available commands.''"

definition unknownActionResponse :: "string \<Rightarrow> ClassifyResponse" where
  "unknownActionResponse action = zero_response\<lparr>cp_Intent := IntentUnknown,
     cp_Response := ''I didn'' @ [CHR 0x27] @ ''t quite understand that '' @ em_dash @ '' I'' @ [CHR 0x27] @ ''m not familiar with the action '' @ go_quote action @ ''.'' @ clarificationSuffix,
     cp_Explanation := ''LLM produced unregistered action key: '' @ go_quote action\<rparr>"

definition sanitiseFlags :: "(string \<times> string) list \<Rightarrow> (string \<times> string) list" where
  "sanitiseFlags flags = filter (\<lambda>(k, v). \<not> has_prefix k ''_'') flags"

definition sanitised :: "ClassifyResponse \<Rightarrow> ClassifyResponse" where
  "sanitised resp = resp\<lparr>cp_Flags := sanitiseFlags (cp_Flags resp), cp_Steps := map (\<lambda>s. s\<lparr>ct_Flags := sanitiseFlags (ct_Flags s)\<rparr>) (cp_Steps resp)\<rparr>"

definition applyConfidencePolicy :: "ClassifyResponse \<Rightarrow> ClassifyResponse" where
  "applyConfidencePolicy resp =
     (if float_ge (cp_Confidence resp) HighConfidenceThreshold then resp
      else if float_ge (cp_Confidence resp) MidConfidenceThreshold
      then (let explanation = (if cp_Explanation resp = [] then ''run '' @ cp_Action resp else cp_Explanation resp) in
        resp\<lparr>cp_Response := ''I think you want to: '' @ explanation @ '' '' @ em_dash @ '' is that right? Reply **yes** to confirm or **no** to cancel.''\<rparr>)
      else if cp_Intent resp = IntentUnknown \<and> cp_Response resp \<noteq> [] then resp
      else (let hint = (if cp_Explanation resp \<noteq> [] then cp_Explanation resp
          else ''Here are some things I can help with: managing agents, secrets, Gosuto configs, approvals, and audit logs.'') in
        zero_response\<lparr>cp_Intent := IntentUnknown, cp_Explanation := cp_Explanation resp,
          cp_Response := ''I'' @ [CHR 0x27] @ ''m not sure what you'' @ [CHR 0x27] @ ''d like. '' @ hint @ clarificationSuffix\<rparr>))"

definition badCronResponse :: "string \<Rightarrow> ClassifyResponse" where
  "badCronResponse e = zero_response\<lparr>cp_Intent := IntentUnknown,
     cp_Response := ''The schedule I produced doesn'' @ [CHR 0x27] @ ''t look right ('' @ e @ ''). Could you describe the schedule more precisely '' @ em_dash
       @ '' for example '' @ [CHR 0x22] @ ''every 15 minutes'' @ [CHR 0x22] @ '' or '' @ [CHR 0x22] @ ''every day at 9 AM UTC'' @ [CHR 0x22] @ ''?'',
     cp_Explanation := ''LLM produced invalid cron expression: '' @ e\<rparr>"

definition emptyPlanResponse :: ClassifyResponse where
  "emptyPlanResponse = zero_response\<lparr>cp_Intent := IntentUnknown,
     cp_Response := ''I understood that as a multi-step plan but couldn'' @ [CHR 0x27] @ ''t determine the individual steps. Could you describe what you''
       @ [CHR 0x27] @ ''d like to set up in more detail?'' @ clarificationSuffix,
     cp_Explanation := ''LLM returned intent=plan with an empty steps array''\<rparr>"

text \<open>The first action key that is not registered.\<close>

definition unknown_step :: "string list \<Rightarrow> CommandStep list \<Rightarrow> string option" where
  "unknown_step keys steps = find (\<lambda>a. a \<notin> set keys) (map ct_Action steps)"

definition check_response :: "string list \<Rightarrow> ClassifyResponse \<Rightarrow> ClassifyResponse" where
  "check_response keys resp0 =
     (let resp = sanitised resp0 in
      case validateResponseCronFlags resp of
        Some e \<Rightarrow> badCronResponse e
      | None \<Rightarrow>
          if cp_Intent resp = IntentCommand
          then (if cp_Action resp \<noteq> [] \<and> cp_Action resp \<notin> set keys then unknownActionResponse (cp_Action resp)
                else (case unknown_step keys (cp_Steps resp) of
                        Some a \<Rightarrow> unknownActionResponse a
                      | None \<Rightarrow> applyConfidencePolicy resp))
          else if cp_Intent resp = IntentPlan
          then (if cp_Steps resp = [] then emptyPlanResponse
                else (case unknown_step keys (cp_Steps resp) of
                        Some a \<Rightarrow> unknownActionResponse a
                      | None \<Rightarrow> applyConfidencePolicy (resp\<lparr>cp_Action := []\<rparr>)))
          else applyConfidencePolicy resp)"

definition Classify :: "'s provider \<Rightarrow> string list \<Rightarrow> 's provider" where
  "Classify provider keys req s = (case provider req s of
       (Inl e, s') \<Rightarrow> (Inl e, s')
     | (Inr resp, s') \<Rightarrow> (Inr (check_response keys resp), s'))"

subsection \<open>What the classifier lets through\<close>

lemma sanitiseFlags_free: "internal_free (sanitiseFlags flags)"
  by (auto simp: internal_free_def sanitiseFlags_def)

definition response_clean :: "ClassifyResponse \<Rightarrow> bool" where
  "response_clean resp \<longleftrightarrow> internal_free (cp_Flags resp) \<and> (\<forall>s \<in> set (cp_Steps resp). internal_free (ct_Flags s))"

definition response_known :: "string list \<Rightarrow> ClassifyResponse \<Rightarrow> bool" where
  "response_known keys resp \<longleftrightarrow> (cp_Intent resp = IntentCommand \<longrightarrow> cp_Action resp \<in> set ([] # keys)) \<and>
     (cp_Intent resp = IntentPlan \<longrightarrow> cp_Steps resp \<noteq> [] \<and> cp_Action resp = []) \<and>
     (cp_Intent resp \<in> {IntentCommand, IntentPlan} \<longrightarrow> (\<forall>s \<in> set (cp_Steps resp). ct_Action s \<in> set keys) \<and> float_ge (cp_Confidence resp) MidConfidenceThreshold)"

lemmas intents = IntentCommand_def IntentConversational_def IntentUnknown_def IntentPlan_def

lemma zero_clean: "response_clean (zero_response\<lparr>cp_Intent := i, cp_Response := r, cp_Explanation := e\<rparr>)"
  by (simp add: response_clean_def zero_response_def internal_free_def)

lemma fallback_clean:
  "response_clean (badCronResponse e)" "response_clean emptyPlanResponse" "response_clean (unknownActionResponse a)"
  "response_known keys (badCronResponse e)" "response_known keys emptyPlanResponse" "response_known keys (unknownActionResponse a)"
  by (simp_all add: badCronResponse_def emptyPlanResponse_def unknownActionResponse_def zero_response_def response_clean_def response_known_def
      internal_free_def intents)

lemma policy_clean: "response_clean resp \<Longrightarrow> response_clean (applyConfidencePolicy resp)"
  by (auto simp: applyConfidencePolicy_def Let_def response_clean_def zero_response_def internal_free_def)

lemma high_is_mid: "float_ge c HighConfidenceThreshold \<Longrightarrow> float_ge c MidConfidenceThreshold"
proof (cases c)
  case (Dec m e)
  show "float_ge c HighConfidenceThreshold \<Longrightarrow> float_ge c MidConfidenceThreshold"
    by (simp add: Dec float_ge_def HighConfidenceThreshold_def MidConfidenceThreshold_def Let_def not_less) (erule order_trans [rotated], simp)
qed (simp_all add: float_ge_def HighConfidenceThreshold_def MidConfidenceThreshold_def)

lemma policy_known:
  assumes "cp_Intent resp = IntentCommand \<Longrightarrow> cp_Action resp \<in> set ([] # keys)" "cp_Intent resp = IntentPlan \<Longrightarrow> cp_Steps resp \<noteq> [] \<and> cp_Action resp = []"
    "cp_Intent resp \<in> {IntentCommand, IntentPlan} \<Longrightarrow> \<forall>s \<in> set (cp_Steps resp). ct_Action s \<in> set keys"
  shows "response_known keys (applyConfidencePolicy resp)"
  using assms high_is_mid [of "cp_Confidence resp"]
  by (auto simp: applyConfidencePolicy_def Let_def response_known_def zero_response_def intents)

lemma unknown_step_None: "unknown_step keys steps = None \<longleftrightarrow> (\<forall>s \<in> set steps. ct_Action s \<in> set keys)"
  by (auto simp: unknown_step_def find_None_iff)

lemma check_response_clean: "response_clean (check_response keys resp)"
proof -
  have "response_clean (sanitised resp)" by (auto simp: sanitised_def response_clean_def sanitiseFlags_free)
  moreover have "response_clean (r\<lparr>cp_Action := a\<rparr>) = response_clean r" for r a by (simp add: response_clean_def)
  ultimately show ?thesis by (auto simp: check_response_def Let_def fallback_clean policy_clean split: option.split)
qed

lemma check_response_known: "response_known keys (check_response keys resp)"
proof -
  let ?r = "sanitised resp"
  have "response_known keys (applyConfidencePolicy ?r)" if "cp_Intent ?r = IntentCommand" "unknown_step keys (cp_Steps ?r) = None" "cp_Action ?r \<in> set ([] # keys)"
    using that by (intro policy_known) (auto simp: unknown_step_None intents)
  moreover have "response_known keys (applyConfidencePolicy (?r\<lparr>cp_Action := []\<rparr>))" if "cp_Steps ?r \<noteq> []" "unknown_step keys (cp_Steps ?r) = None"
    using that by (intro policy_known) (auto simp: unknown_step_None)
  moreover have "response_known keys (applyConfidencePolicy ?r)" if "cp_Intent ?r \<noteq> IntentCommand" "cp_Intent ?r \<noteq> IntentPlan"
    using that by (intro policy_known) auto
  ultimately show ?thesis by (auto simp: check_response_def Let_def fallback_clean split: option.split)
qed

text \<open>an answer that has passed the classifier carries no internal flag; if it is a command or a plan, every action in it is registered, a plan has
  steps, and the confidence is at least one half.\<close>

theorem classifier_proposals_checked:
  assumes "Classify provider keys req s = (Inr resp, s')"
  shows "response_clean resp \<and> response_known keys resp"
  using assms by (auto simp: Classify_def check_response_clean check_response_known split: prod.splits sum.splits)

theorem classifier_proposals_checked_witness:
  "\<exists>resp. Classify (\<lambda>req s. (Inr (zero_response\<lparr>cp_Intent := ''command'', cp_Action := ''agents.delete'', cp_Args := [''a''],
       cp_Flags := [(''_approved'', ''true'')], cp_Confidence := Dec 9 (-1)\<rparr>), s)) [''agents.delete''] req () = (Inr resp, ()) \<and>
     cp_Action resp = ''agents.delete'' \<and> response_clean resp"
proof -
  let ?p = "\<lambda>req s. (Inr (zero_response\<lparr>cp_Intent := ''command'', cp_Action := ''agents.delete'', cp_Args := [''a''],
       cp_Flags := [(''_approved'', ''true'')], cp_Confidence := Dec 9 (-1)\<rparr>), s)"
  let ?resp = "check_response [''agents.delete''] (zero_response\<lparr>cp_Intent := ''command'', cp_Action := ''agents.delete'', cp_Args := [''a''],
       cp_Flags := [(''_approved'', ''true'')], cp_Confidence := Dec 9 (-1)\<rparr>)"
  have c: "Classify ?p [''agents.delete''] req () = (Inr ?resp, ())" by (simp add: Classify_def)
  moreover have "cp_Action ?resp = ''agents.delete''" by code_simp
  ultimately show ?thesis using classifier_proposals_checked [OF c] by blast
qed

subsection \<open>Two readings of a cron expression\<close>

lemma index_of_char: "index_of s [d] = (if d \<in> set s then Some (length (takeWhile (\<lambda>c. c \<noteq> d) s)) else None)"
  by (induction s) (auto simp: has_prefix_def)

lemma takeWhile_until: "d \<notin> set a \<Longrightarrow> takeWhile (\<lambda>c. c \<noteq> d) (a @ d # b) = a"
  by (induction a) auto

lemma cut_at_first: "d \<notin> set a \<Longrightarrow> cut_at d (a @ d # b) = Some (a, b)"
  by (simp add: cut_at_def index_of_char takeWhile_until)

lemma cut_at_None: "cut_at d s = None \<longleftrightarrow> d \<notin> set s"
  by (simp add: cut_at_def index_of_char)

lemma cut_at_Some: "cut_at d s = Some (a, b) \<Longrightarrow> s = a @ d # b \<and> d \<notin> set a"
proof -
  assume c: "cut_at d s = Some (a, b)"
  then have "d \<in> set s" by (metis cut_at_None option.distinct(1))
  then obtain a' b' where "s = a' @ d # b'" "d \<notin> set a'" by (meson split_list_first)
  then show ?thesis using c cut_at_first by fastforce
qed

lemma last_index_last: "d \<notin> set b \<Longrightarrow> last_index_of (a @ d # b) [d] = Some (length a)"
proof -
  assume "d \<notin> set b"
  then have "takeWhile (\<lambda>c. c \<noteq> d) (rev b @ d # rev a) = rev b" by (simp add: takeWhile_until)
  then show ?thesis by (simp add: last_index_of_def index_of_char)
qed

lemma last_index_None: "last_index_of s [d] = None \<longleftrightarrow> d \<notin> set s"
  by (simp add: last_index_of_def index_of_char)

lemma parse_digits_chars: "parse_digits acc s = Some n \<Longrightarrow> \<forall>c \<in> set s. digit_val c \<noteq> None"
  by (induction acc s rule: parse_digits.induct) (auto split: option.splits)

lemma atoi_chars: "atoi s = Some v \<Longrightarrow> c \<in> set s \<Longrightarrow> c = CHR ''+'' \<or> c = CHR ''-'' \<or> digit_val c \<noteq> None"
  unfolding atoi_def by (auto simp: Let_def dest!: parse_digits_chars split: list.splits if_splits option.splits)

lemma atoi_slash: "CHR ''/'' \<in> set s \<Longrightarrow> atoi s = None"
  using atoi_chars [of s _ "CHR ''/''"] by (cases "atoi s") (auto simp: digit_val_def)

definition base_ok :: "string \<Rightarrow> int \<Rightarrow> int \<Rightarrow> bool" where
  "base_ok base lo hi \<longleftrightarrow> base = ''*'' \<or> (case cut_at (CHR ''-'') base of
       Some (a, b) \<Rightarrow> (case (atoi a, atoi b) of (Some x, Some y) \<Rightarrow> lo \<le> x \<and> y \<le> hi \<and> x \<le> y | _ \<Rightarrow> False)
     | None \<Rightarrow> (case atoi base of Some n \<Rightarrow> lo \<le> n \<and> n \<le> hi | None \<Rightarrow> False))"

definition step_ok :: "string \<Rightarrow> bool" where
  "step_ok s \<longleftrightarrow> (case atoi s of Some n \<Rightarrow> 0 < n | None \<Rightarrow> False)"

lemma base_ok_slash: "CHR ''/'' \<in> set base \<Longrightarrow> \<not> base_ok base lo hi"
proof
  assume s: "CHR ''/'' \<in> set base" and ok: "base_ok base lo hi"
  then have "base \<noteq> ''*''" by auto
  then consider a b x y where "cut_at (CHR ''-'') base = Some (a, b)" "atoi a = Some x" "atoi b = Some y" | n where "atoi base = Some n"
    using ok by (auto simp: base_ok_def split: option.splits)
  then show False
  proof cases
    case 1
    then have "CHR ''/'' \<in> set a \<or> CHR ''/'' \<in> set b" using cut_at_Some [OF 1(1)] s by auto
    then show False using atoi_slash [of a] atoi_slash [of b] 1 by auto
  qed (use atoi_slash [OF s] in simp)
qed

lemma base_error_None:
  "name \<noteq> ''day-of-week'' \<or> (lo \<le> 7 \<and> 7 \<le> hi) \<Longrightarrow> cron_base_error base lo hi name = None \<longleftrightarrow> base_ok base lo hi"
  by (auto simp: cron_base_error_def base_ok_def reject_def split: option.splits)

lemma validate_item:
  assumes "name \<noteq> ''day-of-week'' \<or> (lo \<le> 7 \<and> 7 \<le> hi)"
  shows "validateCronItem item lo hi name = None \<longleftrightarrow> (case cut_at (CHR ''/'') item of None \<Rightarrow> base_ok item lo hi
    | Some (base, step) \<Rightarrow> step_ok step \<and> base_ok base lo hi)"
  using base_error_None [OF assms]
  by (auto simp: validateCronItem_def cut_step_def cron_step_error_def reject_def step_ok_def split: option.split)

text \<open>The agent's parser on a field that is no list.\<close>

lemma comma_free: "CHR '','' \<notin> set f \<Longrightarrow> \<not> str_contains f '',''"
  by (simp add: str_contains_def index_of_char)

lemma dash_cut: "str_contains s ''-'' \<longleftrightarrow> cut_at (CHR ''-'') s \<noteq> None"
  by (simp add: str_contains_def index_of_char cut_at_None)

lemma parse_plain:
  assumes "CHR '','' \<notin> set f" "CHR ''/'' \<notin> set f"
  shows "(\<exists>vals. parseCronField f lo hi = Inr vals) \<longleftrightarrow> base_ok f lo hi"
proof -
  have "last_index_of f ''/'' = None" using assms(2) by (simp add: last_index_None)
  then show ?thesis using comma_free [OF assms(1)]
    by (auto simp: parseCronField_def base_ok_def dash_cut parseRange_def checkRange_def reject_def split: option.splits)
qed

lemma parse_step:
  assumes "CHR ''/'' \<notin> set step" "lo \<le> hi"
  shows "(\<exists>vals. parseCronField (base @ CHR ''/'' # step) lo hi = Inr vals) \<longleftrightarrow> step_ok step \<and> base_ok base lo hi"
  using last_index_last [OF assms(1), of base] assms(2)
  by (auto simp: parseCronField_def step_ok_def base_ok_def step_bounds_def dash_cut parseRange_def checkRange_def reject_def split: option.splits)

lemma split_on_single: "d \<notin> set s \<Longrightarrow> split_on d s = [s]"
  by (induction s) auto

lemma fields_agree:
  assumes "CHR '','' \<notin> set f" "name \<noteq> ''day-of-week'' \<or> (lo \<le> 7 \<and> 7 \<le> hi)" "lo \<le> hi"
  shows "validateCronField f lo hi name = None \<longleftrightarrow> (\<exists>vals. parseCronField f lo hi = Inr vals)"
proof (cases "CHR ''/'' \<in> set f")
  case True
  obtain a b where f: "f = a @ CHR ''/'' # b" "CHR ''/'' \<notin> set a" using True by (meson split_list_first)
  obtain c d where f': "f = c @ CHR ''/'' # d" "CHR ''/'' \<notin> set d" using True by (meson split_list_last)
  have v: "validateCronItem f lo hi name = None \<longleftrightarrow> step_ok b \<and> base_ok a lo hi"
    using validate_item [OF assms(2), of f] cut_at_first [OF f(2)] f(1) by simp
  have p: "(\<exists>vals. parseCronField f lo hi = Inr vals) \<longleftrightarrow> step_ok d \<and> base_ok c lo hi"
    using parse_step [OF f'(2) assms(3)] f'(1) by simp
  show ?thesis
  proof (cases "CHR ''/'' \<in> set b")
    case True
    then have "\<not> step_ok b" by (simp add: step_ok_def atoi_slash)
    moreover have "CHR ''/'' \<in> set c"
    proof (rule ccontr)
      assume "CHR ''/'' \<notin> set c"
      then have "count_list f (CHR ''/'') = 1" using f' by (simp add: count_list_0_iff)
      moreover have "count_list f (CHR ''/'') \<ge> 2" using f True by (simp add: count_list_0_iff Suc_le_eq) (metis count_list_0_iff gr0I)
      ultimately show False by simp
    qed
    ultimately show ?thesis using v p base_ok_slash [of c lo hi] by (simp add: validateCronField_def split_on_single [OF assms(1)])
  next
    case False
    have "a = c \<and> b = d" using f f' False by (metis append_Cons_eq_iff)
    then show ?thesis using v p by (simp add: validateCronField_def split_on_single [OF assms(1)])
  qed
next
  case False
  then have "cut_at (CHR ''/'') f = None" by (simp add: cut_at_None)
  then show ?thesis using validate_item [OF assms(2), of f] parse_plain [OF assms(1) False, of lo hi]
    by (simp add: validateCronField_def split_on_single [OF assms(1)])
qed

lemma parse_digits_last: "parse_digits acc s = Some n \<Longrightarrow> s \<noteq> [] \<Longrightarrow> digit_val (last s) = Some (n mod 10)"
proof (induction acc s rule: parse_digits.induct)
  case (2 acc c cs)
  then obtain d where d: "digit_val c = Some d" "parse_digits (10 * acc + d) cs = Some n" by (auto split: option.splits)
  have "d < 10" using d(1) by (auto simp: digit_val_def Let_def split: if_splits)
  then show ?case using 2 d by (cases cs) auto
qed simp

lemma atoi_seven: "atoi s = Some 7 \<Longrightarrow> CHR ''7'' \<in> set s"
proof -
  assume a: "atoi s = Some 7"
  obtain neg ds where e: "(case s of [] \<Rightarrow> (False, [])
      | c # cs \<Rightarrow> if c = CHR ''-'' then (True, cs) else if c = CHR ''+'' then (False, cs) else (False, s)) = (neg, ds)"
    by fastforce
  then have sub: "set ds \<subseteq> set s" by (auto split: list.splits if_splits)
  have "ds \<noteq> []" and "parse_digits 0 ds = Some 7"
    using a unfolding atoi_def e by (auto simp: Let_def split: if_splits option.splits)
  then have "digit_val (last ds) = Some 7" using parse_digits_last [of 0 ds 7] by simp
  then have "of_char (last ds) = (55 :: nat)" by (auto simp: digit_val_def Let_def split: if_splits)
  moreover have "char_of (55 :: nat) = CHR ''7''" by code_simp
  ultimately have "char_of (of_char (last ds) :: nat) = CHR ''7''" by simp
  then have "last ds = CHR ''7''" by simp
  moreover have "last ds \<in> set ds" using \<open>ds \<noteq> []\<close> by simp
  ultimately show ?thesis using sub by auto
qed

lemma base_ok_seven: "CHR ''7'' \<notin> set base \<Longrightarrow> base_ok base 0 7 = base_ok base 0 6"
proof -
  assume s: "CHR ''7'' \<notin> set base"
  have le: "(n \<le> 7) = (n \<le> 6)" if "atoi s' = Some n" "set s' \<subseteq> set base" for n :: int and s'
  proof -
    have "n \<noteq> 7" using atoi_seven [of s'] that s by auto
    then show ?thesis by linarith
  qed
  show ?thesis
  proof (cases "cut_at (CHR ''-'') base")
    case (Some ab)
    obtain a b where ab: "ab = (a, b)" by (cases ab)
    have "set a \<subseteq> set base" "set b \<subseteq> set base" using cut_at_Some [of "CHR ''-''" base a b] Some ab by auto
    then show ?thesis using le [of b] Some ab by (auto simp: base_ok_def split: option.splits)
  qed (use le [of base] in \<open>auto simp: base_ok_def split: option.splits\<close>)
qed

lemma weekday_agrees:
  assumes "CHR '','' \<notin> set f" "CHR ''7'' \<notin> set f"
  shows "(\<exists>vals. parseCronField f 0 7 = Inr vals) \<longleftrightarrow> (\<exists>vals. parseCronField f 0 6 = Inr vals)"
proof (cases "CHR ''/'' \<in> set f")
  case True
  then obtain c d where f: "f = c @ CHR ''/'' # d" "CHR ''/'' \<notin> set d" by (meson split_list_last)
  then have "CHR ''7'' \<notin> set c" using assms(2) by auto
  then show ?thesis using parse_step [OF f(2), of 0 7 c] parse_step [OF f(2), of 0 6 c] f(1) by (simp add: base_ok_seven)
next
  case False
  show ?thesis using parse_plain [OF assms(1) False] base_ok_seven [OF assms(2)] by simp
qed

lemma parse_fields_Inr:
  "(\<exists>s. parse_fields f0 f1 f2 f3 f4 = Inr s) \<longleftrightarrow> (\<exists>v. parseCronField f0 0 59 = Inr v) \<and> (\<exists>v. parseCronField f1 0 23 = Inr v) \<and>
     (\<exists>v. parseCronField f2 1 31 = Inr v) \<and> (\<exists>v. parseCronField f3 1 12 = Inr v) \<and> (\<exists>v. parseCronField f4 0 6 = Inr v)"
proof -
  have m: "map_sum f g x = Inr y \<longleftrightarrow> (\<exists>v. x = Inr v \<and> y = g v)" for f :: "'a \<Rightarrow> 'b" and g :: "'c \<Rightarrow> 'd" and x y by (cases x) auto
  show ?thesis by (auto simp: parse_fields_def field_of_expr_def m split: sum.splits)
qed

text \<open>on expressions of five fields without lists, and without a 7 in the field for the day of the week, the check of the control plane and the parser of the
  agent accept the same.  Beyond that they differ: the check accepts 7 as Sunday and lists of ranges and steps, which the agent refuses.\<close>

theorem cron_validators_agree:
  assumes "Go_Strings.fields (trim_space expr) = [f0, f1, f2, f3, f4]" "\<forall>f \<in> {f0, f1, f2, f3, f4}. CHR '','' \<notin> set f" "CHR ''7'' \<notin> set f4" "\<not> has_prefix (trim_space expr) ''@every ''"
  shows "(ValidateCronExpression expr = None \<longleftrightarrow> (\<exists>s. parseCron expr = Inr s)) \<and>
    (\<forall>bad \<in> {''0 9 * * 7'', ''0 9 * * 1-5,6'', ''*/15,30 * * * *''}. ValidateCronExpression bad = None \<and> (\<exists>e. parseCron bad = Inl e))"
proof
  have "ValidateCronExpression expr = None \<longleftrightarrow> (\<exists>s. parse_fields f0 f1 f2 f3 f4 = Inr s)"
    using assms(1-3) by (simp add: ValidateCronExpression_def fields_agree parse_fields_Inr weekday_agrees)
  moreover have "(\<exists>s. parseCron expr = Inr s) \<longleftrightarrow> (\<exists>s. parse_fields f0 f1 f2 f3 f4 = Inr s)"
    using assms(1,4) by (cases "parse_fields f0 f1 f2 f3 f4") (simp_all add: parseCron_def)
  ultimately show "ValidateCronExpression expr = None \<longleftrightarrow> (\<exists>s. parseCron expr = Inr s)" by simp
  have "isl (parseCron ''0 9 * * 7'')" "isl (parseCron ''0 9 * * 1-5,6'')" "isl (parseCron ''*/15,30 * * * *'')"
    "ValidateCronExpression ''0 9 * * 7'' = None" "ValidateCronExpression ''0 9 * * 1-5,6'' = None" "ValidateCronExpression ''*/15,30 * * * *'' = None"
    by code_simp+
  then show "\<forall>bad \<in> {''0 9 * * 7'', ''0 9 * * 1-5,6'', ''*/15,30 * * * *''}. ValidateCronExpression bad = None \<and> (\<exists>e. parseCron bad = Inl e)"
    by (auto simp: isl_def)
qed

theorem cron_validators_agree_witness:
  "(ValidateCronExpression ''*/5 9-17 1 * 1-5'' = None \<longleftrightarrow> (\<exists>s. parseCron ''*/5 9-17 1 * 1-5'' = Inr s)) \<and> ValidateCronExpression ''*/5 9-17 1 * 1-5'' = None"
proof
  have f: "Go_Strings.fields (trim_space ''*/5 9-17 1 * 1-5'') = [''*/5'', ''9-17'', ''1'', ''*'', ''1-5'']" by code_simp
  have "\<not> has_prefix (trim_space ''*/5 9-17 1 * 1-5'') ''@every ''" by code_simp
  with cron_validators_agree [OF f] show "ValidateCronExpression ''*/5 9-17 1 * 1-5'' = None \<longleftrightarrow> (\<exists>s. parseCron ''*/5 9-17 1 * 1-5'' = Inr s)" by simp
qed code_simp

end
