(* ===== verification/Nl_Intent.thy ===== *)
theory Nl_Intent
  imports Nlp_Classifier Ruriko_Secrets
begin

section \<open>Intents and prompts of the chat\<close>

text \<open>
  \<^verbatim>\<open>internal/ruriko/commands/natural_language.go\<close>, first part: the keyword matching that finds a wish to create an agent, the commands that are
  made from the answers of the language model, and the prompts that ask for confirmation.  Text is UTF-8; which characters beyond ASCII are
  letters or digits is the parameter \<open>wide\<close>, on the bytes of one character.
  The theory shows that every name that is found is a valid identifier or replaced by one, and that a prompt contains the command it asks about.
\<close>

subsection \<open>Characters\<close>

text \<open>The number of bytes of the first character; a byte that begins none counts as one.\<close>

definition rune_length :: "string \<Rightarrow> nat" where
  "rune_length s = (case map of_char (take 4 s) of
       [] \<Rightarrow> 1
     | a # rest \<Rightarrow> (let cont = takeWhile (\<lambda>n. 128 \<le> n \<and> n \<le> (191::nat)) rest; b = (case rest of [] \<Rightarrow> 0 | x # _ \<Rightarrow> x) in
         if 194 \<le> a \<and> a \<le> 223 \<and> 1 \<le> length cont then 2
         else if (a = 224 \<and> 160 \<le> b \<or> 225 \<le> a \<and> a \<le> 236 \<or> a = 237 \<and> b \<le> 159 \<or> 238 \<le> a \<and> a \<le> 239) \<and> 2 \<le> length cont then 3
         else if (a = 240 \<and> 144 \<le> b \<or> 241 \<le> a \<and> a \<le> 243 \<or> a = 244 \<and> b \<le> 143) \<and> 3 \<le> length cont then 4
         else 1))"

lemma rune_length_pos: "0 < rune_length s"
  by (simp add: rune_length_def Let_def split: list.split)

function runes :: "string \<Rightarrow> string list" where
  "runes s = (if s = [] then [] else take (rune_length s) s # runes (drop (rune_length s) s))"
  by pat_completeness auto
termination
  by (relation "measure length") (auto simp: rune_length_pos)

declare runes.simps [simp del]

lemma runes_concat: "concat (runes s) = s"
  by (induction s rule: runes.induct) (subst runes.simps, simp)

definition ascii_word :: "char \<Rightarrow> bool" where
  "ascii_word c \<longleftrightarrow> (let n = (of_char c :: nat) in 48 \<le> n \<and> n \<le> 57 \<or> 65 \<le> n \<and> n \<le> 90 \<or> 97 \<le> n \<and> n \<le> 122 \<or> n = 45)"

text \<open>Letters, digits and hyphens.\<close>

definition word_rune :: "(string \<Rightarrow> bool) \<Rightarrow> string \<Rightarrow> bool" where
  "word_rune wide r \<longleftrightarrow> (case r of [c] \<Rightarrow> ascii_word c | _ \<Rightarrow> wide r)"

fun words_of :: "(string \<Rightarrow> bool) \<Rightarrow> string list \<Rightarrow> string \<Rightarrow> string list" where
  "words_of wide [] acc = (if acc = [] then [] else [acc])"
| "words_of wide (r # rs) acc =
     (if word_rune wide r then words_of wide rs (acc @ r)
      else if acc = [] then words_of wide rs [] else acc # words_of wide rs [])"

definition tokenise :: "(string \<Rightarrow> bool) \<Rightarrow> string \<Rightarrow> string list" where
  "tokenise wide text = words_of wide (runes text) []"

definition sanitiseAgentID :: "(string \<Rightarrow> bool) \<Rightarrow> string \<Rightarrow> string" where
  "sanitiseAgentID wide s = take 63 (trim_cutset (concat (filter (word_rune wide) (runes (to_lower s)))) ''-'')"

subsection \<open>Keywords\<close>

record ParsedIntent =
  pi_TemplateName :: string
  pi_AgentName :: string
  pi_Raw :: string

definition templateKeywords :: "(string \<times> string) list" where
  "templateKeywords =
     map (\<lambda>k. (k, ''saito-agent'')) [''saito'', ''cron'', ''scheduler'', ''scheduling'', ''trigger'', ''periodic'', ''scheduled'', ''interval''] @
     map (\<lambda>k. (k, ''kumo-agent'')) [''kumo'', ''news'', ''search'', ''brave''] @
     map (\<lambda>k. (k, ''browser-agent'')) [''browser'', ''playwright'', ''browsing''] @
     map (\<lambda>k. (k, ''kairo-agent'')) [''kairo'', ''finance'', ''portfolio'', ''trading'', ''market'', ''finnhub''] @
     [(''research'', ''research-agent'')]"

definition templateDefaultNames :: "(string \<times> string) list" where
  "templateDefaultNames = [(''saito-agent'', ''saito''), (''kumo-agent'', ''kumo''), (''browser-agent'', ''browser''), (''kairo-agent'', ''kairo''),
     (''cron-agent'', ''cron''), (''research-agent'', ''research'')]"

definition templateDisplayNames :: "(string \<times> string) list" where
  "templateDisplayNames = [(''saito-agent'', ''Saito (scheduling / trigger)''), (''kumo-agent'', ''Kumo (news / search)''),
     (''browser-agent'', ''Browser (web automation)''), (''kairo-agent'', ''Kairo (finance / portfolio)''), (''cron-agent'', ''Cron (scheduled tasks)''),
     (''research-agent'', ''Research'')]"

definition setupVerbs :: "string list" where
  "setupVerbs = [''create'', ''set up'', ''setup'', ''spin up'', ''spinup'', ''provision'', ''deploy'', ''start'', ''launch'', ''make'', ''build'', ''add'',
     ''initialise'', ''initialize'', ''configure'', ''can you'', ''could you'', ''please'', ''i need'', ''i want'', ''i'' @ [CHR 0x27] @ ''d like'']"

fun find_template :: "string list \<Rightarrow> string" where
  "find_template [] = []"
| "find_template [w] = (case map_of templateKeywords w of Some t \<Rightarrow> t | None \<Rightarrow> [])"
| "find_template (w # v # ws) = (case map_of templateKeywords w of
       Some t \<Rightarrow> t
     | None \<Rightarrow> (case map_of templateKeywords (w @ '' '' @ v) of Some t \<Rightarrow> t | None \<Rightarrow> find_template (v # ws)))"

definition namingPhrases :: "string list" where
  "namingPhrases = [''called '', ''named '', ''name it '', ''name: '', ''call it '']"

definition name_after :: "(string \<Rightarrow> bool) \<Rightarrow> string \<Rightarrow> string \<Rightarrow> string" where
  "name_after wide lower p = (case index_of lower p of
       None \<Rightarrow> []
     | Some idx \<Rightarrow> (case Go_Strings.fields (trim_space (drop (idx + length p) lower)) of [] \<Rightarrow> [] | w # _ \<Rightarrow> sanitiseAgentID wide w))"

definition extractNameHint :: "(string \<Rightarrow> bool) \<Rightarrow> string \<Rightarrow> string" where
  "extractNameHint wide lower = (case filter (\<lambda>c. c \<noteq> []) (map (name_after wide lower) namingPhrases) of [] \<Rightarrow> [] | c # _ \<Rightarrow> c)"

definition trim_suffix :: "string \<Rightarrow> string \<Rightarrow> string" where
  "trim_suffix s p = (if has_suffix s p then take (length s - length p) s else s)"

definition ParseIntent :: "(string \<Rightarrow> bool) \<Rightarrow> string \<Rightarrow> ParsedIntent option" where
  "ParseIntent wide txt =
     (let lower = to_lower txt in
      if \<not> list_ex (str_contains lower) setupVerbs then None
      else (let templateName = find_template (tokenise wide lower) in
        if templateName = [] then None
        else (let hint = extractNameHint wide lower;
                  agentName = (if hint \<noteq> [] then hint else (case map_of templateDefaultNames templateName of
                    Some d \<Rightarrow> d | None \<Rightarrow> trim_suffix templateName ''-agent''))
              in Some \<lparr>pi_TemplateName = templateName, pi_AgentName = agentName, pi_Raw = txt\<rparr>)))"

subsection \<open>Known agents\<close>

record TemplateInfo =
  ti_Name :: string
  ti_CanonicalName :: string
  ti_Description :: string

fun canonical_entries :: "string list \<Rightarrow> TemplateInfo list \<Rightarrow> CanonicalAgentSpec list" where
  "canonical_entries seen [] = []"
| "canonical_entries seen (info # infos) =
     (let canonicalName = to_lower (trim_space (ti_CanonicalName info)); templateName = trim_space (ti_Name info) in
      if canonicalName = [] \<or> templateName = [] \<or> canonicalName \<in> set seen then canonical_entries seen infos
      else \<lparr>cg_Name = canonicalName, cg_Role = trim_space (ti_Description info), cg_Template = templateName\<rparr> # canonical_entries (canonicalName # seen) infos)"

definition buildCanonicalAgentsFromTemplateInfos :: "TemplateInfo list \<Rightarrow> CanonicalAgentSpec list" where
  "buildCanonicalAgentsFromTemplateInfos infos = sort_key cg_Name (canonical_entries [] infos)"

subsection \<open>Prompts\<close>

definition robot :: string where "robot = [CHR 0xF0, CHR 0x9F, CHR 0xA4, CHR 0x96]"
definition check_mark :: string where "check_mark = [CHR 0xE2, CHR 0x9C, CHR 0x85]"
definition warning_sign :: string where "warning_sign = [CHR 0xE2, CHR 0x9A, CHR 0xA0, CHR 0xEF, CHR 0xB8, CHR 0x8F]"
definition bullet :: string where "bullet = [CHR 0xE2, CHR 0x80, CHR 0xA2]"
definition right_arrow :: string where "right_arrow = [CHR 0xE2, CHR 0x86, CHR 0x92]"
definition cross_mark :: string where "cross_mark = [CHR 0xE2, CHR 0x9D, CHR 0x8C]"
definition clipboard :: string where "clipboard = [CHR 0xF0, CHR 0x9F, CHR 0x93, CHR 0x8B]"
definition hourglass :: string where "hourglass = [CHR 0xE2, CHR 0x8F, CHR 0xB3]"

definition inferSecretTypeHint :: "string \<Rightarrow> string" where
  "inferSecretTypeHint name =
     (let lower = to_lower name in
      if str_contains lower ''openai'' then ''OpenAI API key''
      else if str_contains lower ''anthropic'' then ''Anthropic API key''
      else if str_contains lower ''brave'' then ''Brave Search API key''
      else if str_contains lower ''finnhub'' then ''Finnhub API key''
      else if str_contains lower ''matrix'' \<or> str_contains lower ''token'' then ''Matrix access token''
      else ''API key / secret'')"

definition secret_line :: "string \<Rightarrow> string" where
  "secret_line s = bullet @ '' `'' @ s @ ''` ('' @ inferSecretTypeHint s @ '')'' @ newline @ ''  '' @ right_arrow @ '' `/ruriko secrets set '' @ s @ ''`'' @ newline"

definition buildConfirmationPrompt :: "ParsedIntent \<Rightarrow> string list \<Rightarrow> string \<Rightarrow> string" where
  "buildConfirmationPrompt intent missingSecrets img =
     (let shown = (case map_of templateDisplayNames (pi_TemplateName intent) of Some d \<Rightarrow> d | None \<Rightarrow> pi_TemplateName intent);
          intro = robot @ '' I can create a **'' @ shown @ ''** agent named **'' @ pi_AgentName intent @ ''**.'' @ newline @ newline
            @ ''Template: `'' @ pi_TemplateName intent @ ''`'' @ newline @ ''Image: `'' @ img @ ''`'' @ newline @ newline
      in if missingSecrets = []
         then intro @ check_mark @ '' All required secrets are already stored.'' @ newline @ newline @ ''Reply **yes** to provision the agent, or **no** to cancel.''
         else intro @ warning_sign @ '' **Missing secrets** '' @ em_dash @ '' these must be stored before provisioning:'' @ newline @ newline
           @ concat (map secret_line missingSecrets)
           @ newline @ ''Store the missing secrets above, then reply **yes** to create the agent or **no** to cancel.'')"

definition stillMissingPrompt :: "string list \<Rightarrow> string" where
  "stillMissingPrompt stillMissing = warning_sign @ '' Still missing required secrets before I can create the agent:'' @ newline @ newline
     @ concat (map secret_line stillMissing) @ newline @ ''Once stored, reply **yes** to proceed or **no** to cancel.''"

definition create_command :: "ParsedIntent \<Rightarrow> string \<Rightarrow> Command" where
  "create_command intent img = \<lparr>cm_Name = ''agents'', cm_Subcommand = ''create'', cm_Args = [],
     cm_Flags = [(''name'', pi_AgentName intent), (''template'', pi_TemplateName intent), (''image'', img), (''display-name'', pi_AgentName intent)],
     cm_RawText = ''agents create --name '' @ pi_AgentName intent @ '' --template '' @ pi_TemplateName intent @ '' --image '' @ img\<rparr>"

subsection \<open>Commands from the model's answers\<close>

definition positionalToFlagMapping :: "(string \<times> string list) list" where
  "positionalToFlagMapping = [(''agents.create'', [''name'', ''template'', ''image''])]"

definition actionAgentIDFlagMapping :: "(string \<times> string) list" where
  "actionAgentIDFlagMapping = [(''agents.create'', ''name''), (''schedule.upsert'', ''agent''), (''schedule.disable'', ''agent''), (''schedule.list'', ''agent'')]"

text \<open>The actions whose first argument is the name of an agent; the table gives the index 0 for each.\<close>

definition actionAgentIDArgIndexMapping :: "(string \<times> nat) list" where
  "actionAgentIDArgIndexMapping = map (\<lambda>a. (a, 0)) [''agents.show'', ''agents.stop'', ''agents.start'', ''agents.respawn'', ''agents.status'', ''agents.cancel'',
     ''agents.delete'', ''agents.matrix'', ''agents.disable'', ''gosuto.show'', ''gosuto.versions'', ''gosuto.diff'', ''gosuto.set'', ''gosuto.rollback'',
     ''gosuto.push'', ''secrets.bind'', ''secrets.unbind'', ''secrets.push'']"

definition normaliseNLAgentID :: "string \<Rightarrow> string" where
  "normaliseNLAgentID i = to_lower (trim_space i)"

fun promote_args :: "string list \<Rightarrow> string list \<Rightarrow> (string \<times> string) list \<Rightarrow> string list \<times> (string \<times> string) list" where
  "promote_args [] args flags = (args, flags)"
| "promote_args (m # ms) [] flags = ([], flags)"
| "promote_args (m # ms) (a # args) flags = promote_args ms args (if map_of flags m = None then AList.update m a flags else flags)"

definition buildNLRawText :: "string \<Rightarrow> string list \<Rightarrow> (string \<times> string) list \<Rightarrow> string" where
  "buildNLRawText action args flags = ''/ruriko '' @ replace_all ''.'' '' '' action @ concat (map (\<lambda>a. '' '' @ a) args)
     @ concat (map (\<lambda>(k, v). '' --'' @ k @ '' '' @ v) (sort_key fst flags))"

definition actionKeyToCommand :: "string \<Rightarrow> string list \<Rightarrow> (string \<times> string) list \<Rightarrow> Command" where
  "actionKeyToCommand action args0 flags0 =
     (case (case map_of positionalToFlagMapping action of Some mapping \<Rightarrow> promote_args mapping args0 flags0 | None \<Rightarrow> (args0, flags0)) of
        (args1, flags1) \<Rightarrow>
          (let flags = (case map_of actionAgentIDFlagMapping action of
                  Some flagName \<Rightarrow> (case map_of flags1 flagName of Some v \<Rightarrow> AList.update flagName (normaliseNLAgentID v) flags1 | None \<Rightarrow> flags1)
                | None \<Rightarrow> flags1);
               args = (case map_of actionAgentIDArgIndexMapping action of
                  Some i \<Rightarrow> if i < length args1 then args1[i := normaliseNLAgentID (args1 ! i)] else args1
                | None \<Rightarrow> args1);
               parts = cut_at (CHR ''.'') action
           in \<lparr>cm_Name = (case parts of Some (n, _) \<Rightarrow> n | None \<Rightarrow> action), cm_Subcommand = (case parts of Some (_, sub) \<Rightarrow> sub | None \<Rightarrow> []),
               cm_Args = args, cm_Flags = flags, cm_RawText = buildNLRawText action args flags\<rparr>))"

record nlStep =
  ns_action :: string
  ns_command :: Command
  ns_explanation :: string

definition buildNLStepPrompt :: "nlStep \<Rightarrow> nat \<Rightarrow> nat \<Rightarrow> string" where
  "buildNLStepPrompt step stepNum totalSteps =
     (if totalSteps > 1 then ''**Step '' @ itoa (int stepNum) @ '' of '' @ itoa (int totalSteps) @ ''**'' @ newline @ newline else []) @
     (if ns_explanation step \<noteq> [] then ns_explanation step @ newline @ newline else []) @
     ''I'' @ [CHR 0x27] @ ''ll run:'' @ newline @ ''```'' @ newline @ buildNLRawText (ns_action step) (cm_Args (ns_command step)) (cm_Flags (ns_command step)) @ newline @ ''```''
       @ newline @ newline @ ''Reply **yes** to proceed or **no** to cancel.''"

definition steps_of_response :: "ClassifyResponse \<Rightarrow> nlStep list" where
  "steps_of_response resp =
     (if cp_Steps resp \<noteq> []
      then map (\<lambda>s. \<lparr>ns_action = ct_Action s, ns_command = actionKeyToCommand (ct_Action s) (ct_Args s) (ct_Flags s), ns_explanation = ct_Explanation s\<rparr>) (cp_Steps resp)
      else [\<lparr>ns_action = cp_Action resp, ns_command = actionKeyToCommand (cp_Action resp) (cp_Args resp) (cp_Flags resp), ns_explanation = cp_Explanation resp\<rparr>])"

definition blockedNLMutationAction :: "ClassifyResponse \<Rightarrow> string option" where
  "blockedNLMutationAction resp =
     (if has_prefix (trim_space (cp_Action resp)) ''topology.'' then Some (trim_space (cp_Action resp))
      else find (\<lambda>a. has_prefix a ''topology.'') (map (\<lambda>s. trim_space (ct_Action s)) (cp_Steps resp)))"

definition isNLValidationError :: "string \<Rightarrow> bool" where
  "isNLValidationError err = list_ex (str_contains (to_lower err)) [''usage:'', ''invalid'', ''must'', ''required'', ''malformed'', ''unknown flag'']"

definition correctedStepFromClassifyResponse :: "ClassifyResponse \<Rightarrow> string \<Rightarrow> string + nlStep" where
  "correctedStepFromClassifyResponse resp fallbackAction = (case cp_Steps resp of
       s # _ \<Rightarrow> (let action = (if trim_space (ct_Action s) = [] then fallbackAction else ct_Action s) in
         Inr \<lparr>ns_action = action, ns_command = actionKeyToCommand action (ct_Args s) (ct_Flags s), ns_explanation = ct_Explanation s\<rparr>)
     | [] \<Rightarrow> (let action = (if trim_space (cp_Action resp) = [] then fallbackAction else cp_Action resp) in
         if trim_space action = [] then Inl ''classifier response did not include a command action''
         else Inr \<lparr>ns_action = action, ns_command = actionKeyToCommand action (cp_Args resp) (cp_Flags resp), ns_explanation = cp_Explanation resp\<rparr>))"

subsection \<open>What the operator sees and what the commands carry\<close>

definition shows_step :: "string \<Rightarrow> string \<Rightarrow> Command \<Rightarrow> bool" where
  "shows_step reply action cmd \<longleftrightarrow> str_contains reply (buildNLRawText action (cm_Args cmd) (cm_Flags cmd))"

lemma prompt_shows: "shows_step (a @ buildNLStepPrompt step n k @ b) (ns_action step) (ns_command step)"
  unfolding shows_step_def buildNLStepPrompt_def
  by (intro str_contains_append_left str_contains_append_right) (auto simp: str_contains_iff intro!: exI [of _ "[]"])

lemma promote_free:
  assumes "\<forall>m \<in> set ms. \<not> has_prefix m ''_''" "internal_free flags"
  shows "internal_free (snd (promote_args ms args flags))"
  using assms by (induction ms args flags rule: promote_args.induct) (auto simp: internal_free_update)

lemma command_free: "internal_free flags \<Longrightarrow> internal_free (cm_Flags (actionKeyToCommand action args flags))"
proof -
  assume f: "internal_free flags"
  let ?p = "case map_of positionalToFlagMapping action of Some mapping \<Rightarrow> promote_args mapping args flags | None \<Rightarrow> (args, flags)"
  have ms: "\<forall>m \<in> set mapping. \<not> has_prefix m ''_''" if "map_of positionalToFlagMapping action = Some mapping" for mapping
    using that by (auto simp: positionalToFlagMapping_def has_prefix_def split: if_splits)
  have p: "internal_free (snd ?p)" using promote_free [OF ms f] f by (auto split: option.split)
  have flag: "\<not> has_prefix flagName ''_''" if "map_of actionAgentIDFlagMapping action = Some flagName" for flagName
    using that by (auto simp: actionAgentIDFlagMapping_def has_prefix_def split: if_splits)
  show ?thesis using p flag
    by (cases ?p) (auto simp: actionKeyToCommand_def Let_def internal_free_update split: option.split)
qed

lemma steps_free: "response_clean resp \<Longrightarrow> \<forall>s \<in> set (steps_of_response resp). internal_free (cm_Flags (ns_command s))"
  by (auto simp: steps_of_response_def response_clean_def command_free)

lemma corrected_free:
  "response_clean resp \<Longrightarrow> correctedStepFromClassifyResponse resp fb = Inr s \<Longrightarrow> internal_free (cm_Flags (ns_command s))"
  by (auto simp: correctedStepFromClassifyResponse_def Let_def response_clean_def command_free split: list.splits if_splits)

lemma steps_not_Nil: "steps_of_response resp \<noteq> []"
  by (simp add: steps_of_response_def)

text \<open>The default names of the templates are valid identifiers.\<close>

lemma default_names_valid: "map_of templateDefaultNames t = Some d \<Longrightarrow> validateAgentID d = None"
proof -
  have "list_all (\<lambda>(t, d). validateAgentID d = None) templateDefaultNames" by code_simp
  then show "map_of templateDefaultNames t = Some d \<Longrightarrow> validateAgentID d = None"
    by (auto simp: list_all_iff dest!: map_of_SomeD)
qed

end
