(* ===== verification/Natural_Language.thy ===== *)
theory Natural_Language
  imports Nl_Intent Rate_Limits
begin

section \<open>The chat front end\<close>

text \<open>
  \<^verbatim>\<open>internal/ruriko/commands/natural_language.go\<close>, second part, and \<^verbatim>\<open>nlp_provider.go\<close>: free-form messages, the sessions that wait for a yes or a no,
  and the choice of the language model.  The world \<open>'s\<close> holds the database and whatever the command handlers act on; the environment
  has the handlers, the model, the templates and the memory as parameters.  A message comes with the clock readings of its handling
  and the failures of its statements.  A session is replaced where the code changes it in place, as every such change is followed by storing
  or deleting it.
  The theory shows that no command runs that was not shown to the same person and confirmed, apart from commands without arguments, the queries
  of an answer; what those can do is in theory \<open>Chat_Safety\<close>.  It shows that
  the sessions and the history stay within their bounds; and that a model behind the classifier cannot give a command internal flags, while
  the model as it is wired can.
\<close>

subsection \<open>State\<close>

definition sessionTTL :: int where "sessionTTL = 5 * minute"
definition nlHistoryFallbackMaxMessages :: nat where "nlHistoryFallbackMaxMessages = 20"
definition nlMaxCorrectionRetries :: nat where "nlMaxCorrectionRetries = 2"

datatype conversationStep = stepAwaitingConfirmation | stepNLAwaitingConfirmation

record conversationSession =
  cv_step :: conversationStep
  cv_intent :: ParsedIntent
  cv_missingSecrets :: "string list"
  cv_image :: string
  cv_expiresAt :: gotime
  cv_nlPendingSteps :: "nlStep list"
  cv_nlTotalSteps :: nat
  cv_nlRawIntent :: string
  cv_nlUserMessage :: string
  cv_nlRetryCount :: nat

datatype nlp_health = nlpHealthOK | nlpHealthDegraded | nlpHealthUnavailable

record 's NlState =
  nl_sessions :: "(string \<times> conversationSession) list"
  nl_history :: "(string \<times> HistoryMessage list) list"
  nl_limiter :: "RateLimiter option"
  nl_budget :: "TokenBudget option"
  nl_health :: nlp_health
  nl_cache :: "(string \<times> string \<times> string) option"
  nl_world :: 's

record 's NlMemory =
  nm_recorder :: "(string \<Rightarrow> string \<Rightarrow> string \<Rightarrow> string \<Rightarrow> 's \<Rightarrow> string list \<times> 's) option option"
  nm_seal :: "string \<Rightarrow> 's \<Rightarrow> 's"
  nm_assemble :: "string \<Rightarrow> string \<Rightarrow> string \<Rightarrow> 's \<Rightarrow> string + HistoryMessage list"

record Templates =
  tm_List :: "string + string list"
  tm_RequiredSecrets :: "string \<Rightarrow> string \<Rightarrow> string + string list"
  tm_DescribeAll :: "string + TemplateInfo list"

record 's NlEnv =
  ne_wide :: "string \<Rightarrow> bool"
  ne_db :: "'s \<Rightarrow> Db"
  ne_put :: "Db \<Rightarrow> 's \<Rightarrow> 's"
  ne_hasStore :: bool
  ne_hasSecrets :: bool
  ne_hasConfig :: bool
  ne_unseal :: aead_open
  ne_masterKey :: "nat list"
  ne_templates :: "Templates option"
  ne_dispatch :: "(string \<Rightarrow> Command \<Rightarrow> 's \<Rightarrow> (string + string) \<times> 's) option"
  ne_create :: "Command \<Rightarrow> 's \<Rightarrow> (string + string) \<times> 's"
  ne_static :: "'s provider option"
  ne_new :: "string \<times> string \<times> string \<Rightarrow> 's provider"
  ne_envAPIKey :: string
  ne_memory :: "'s NlMemory option"
  ne_fallback :: bool
  ne_defaultImage :: string
  ne_help :: string
  ne_marshal :: "gmap \<Rightarrow> string + string"

record Message =
  me_room :: string
  me_sender :: string
  me_text :: string
  me_now :: gotime
  me_later :: gotime
  me_traceID :: string
  me_agents :: fault
  me_meta :: "string \<Rightarrow> fault"
  me_secret :: fault
  me_model :: fault
  me_endpoint :: fault
  me_audit :: fault

definition session_key :: "Message \<Rightarrow> string" where
  "session_key m = me_room m @ '':'' @ me_sender m"

definition get_session :: "Message \<Rightarrow> 's NlState \<Rightarrow> conversationSession option \<times> 's NlState" where
  "get_session m st = (case map_of (nl_sessions st) (session_key m) of
       None \<Rightarrow> (None, st)
     | Some s \<Rightarrow> if me_now m > cv_expiresAt s then (None, st\<lparr>nl_sessions := AList.delete (session_key m) (nl_sessions st)\<rparr>) else (Some s, st))"

definition set_session :: "Message \<Rightarrow> conversationSession \<Rightarrow> 's NlState \<Rightarrow> 's NlState" where
  "set_session m s st = st\<lparr>nl_sessions := AList.update (session_key m) s (nl_sessions st)\<rparr>"

definition delete_session :: "Message \<Rightarrow> 's NlState \<Rightarrow> 's NlState" where
  "delete_session m st = st\<lparr>nl_sessions := AList.delete (session_key m) (nl_sessions st)\<rparr>"

definition get_history :: "Message \<Rightarrow> 's NlState \<Rightarrow> HistoryMessage list" where
  "get_history m st = (case map_of (nl_history st) (session_key m) of Some ms \<Rightarrow> ms | None \<Rightarrow> [])"

definition append_history :: "Message \<Rightarrow> string \<Rightarrow> string \<Rightarrow> 's NlState \<Rightarrow> 's NlState" where
  "append_history m role content0 st =
     (let content = trim_space content0 in
      if content = [] then st
      else (let messages = get_history m st @ [\<lparr>hm_Role = role, hm_Content = content\<rparr>];
                kept = (if length messages > nlHistoryFallbackMaxMessages then drop (length messages - nlHistoryFallbackMaxMessages) messages else messages)
            in st\<lparr>nl_history := AList.update (session_key m) kept (nl_history st)\<rparr>))"

definition recordAssistantMessage :: "'s NlEnv \<Rightarrow> Message \<Rightarrow> string \<Rightarrow> 's NlState \<Rightarrow> 's NlState" where
  "recordAssistantMessage env m content st =
     (let fallback = (if ne_fallback env then append_history m ''assistant'' content st else st) in
      case ne_memory env of
        None \<Rightarrow> fallback
      | Some mem \<Rightarrow> (case nm_recorder mem of
            None \<Rightarrow> fallback
          | Some None \<Rightarrow> st
          | Some (Some record_message) \<Rightarrow> st\<lparr>nl_world := snd (record_message (me_room m) (me_sender m) ''assistant'' content (nl_world st))\<rparr>))"

definition write_audit :: "'s NlEnv \<Rightarrow> Message \<Rightarrow> string \<Rightarrow> string \<Rightarrow> string \<Rightarrow> gmap \<Rightarrow> 's NlState \<Rightarrow> 's NlState" where
  "write_audit env m action target result payload st =
     (if \<not> ne_hasStore env then st
      else st\<lparr>nl_world := ne_put env (snd (WriteAudit (me_audit m) (me_later m) (me_traceID m) (me_sender m) action target result
        (Some (ne_marshal env payload)) [] (ne_db env (nl_world st)))) (nl_world st)\<rparr>)"

subsection \<open>Provider\<close>

definition nlpSecretName :: string where "nlpSecretName = ''ruriko.nlp-api-key''"

definition resolveNLPConfig :: "'s NlEnv \<Rightarrow> Message \<Rightarrow> 's \<Rightarrow> string \<times> string" where
  "resolveNLPConfig env m s =
     (if \<not> ne_hasConfig env then ([], [])
      else ((case Get_config (me_model m) ''nlp.model'' (ne_db env s) of Inr v \<Rightarrow> v | Inl _ \<Rightarrow> []),
            (case Get_config (me_endpoint m) ''nlp.endpoint'' (ne_db env s) of Inr v \<Rightarrow> v | Inl _ \<Rightarrow> [])))"

definition resolveNLPProvider :: "'s NlEnv \<Rightarrow> Message \<Rightarrow> 's NlState \<Rightarrow> 's provider option \<times> 's NlState" where
  "resolveNLPProvider env m st =
     (if \<not> ne_hasSecrets env \<and> ne_envAPIKey env = [] then (ne_static env, st)
      else (let secretKey = (if ne_hasSecrets env
                  then (case Get_secret (ne_unseal env) (me_secret m) (ne_masterKey env) nlpSecretName (ne_db env (nl_world st)) of
                          Inr raw \<Rightarrow> map char_of raw | Inl _ \<Rightarrow> []) else []);
                apiKey = (if secretKey = [] then ne_envAPIKey env else secretKey)
            in if apiKey = [] then (None, st)
               else (let key = (case resolveNLPConfig env m (nl_world st) of (model, endpoint) \<Rightarrow> (apiKey, model, endpoint)) in
                 if nl_cache st = Some key then (Some (ne_new env key), st)
                 else (Some (ne_new env key), st\<lparr>nl_cache := Some key\<rparr>))))"

subsection \<open>Keyword path\<close>

definition missing_secrets :: "'s NlEnv \<Rightarrow> Message \<Rightarrow> string list \<Rightarrow> 's NlState \<Rightarrow> string list" where
  "missing_secrets env m refs st = filter (\<lambda>ref. isl (GetMetadata (me_meta m ref) ref (ne_db env (nl_world st)))) refs"

definition empty_intent :: ParsedIntent where "empty_intent = \<lparr>pi_TemplateName = [], pi_AgentName = [], pi_Raw = []\<rparr>"

definition handleKeywordIntent :: "'s NlEnv \<Rightarrow> Templates \<Rightarrow> Message \<Rightarrow> 's NlState \<Rightarrow> (string + string) \<times> 's NlState" where
  "handleKeywordIntent env tm m st = (case ParseIntent (ne_wide env) (me_text m) of
       None \<Rightarrow> (Inr [], st)
     | Some intent0 \<Rightarrow>
         (case tm_List tm of
            Inl e \<Rightarrow> (Inr [], st)
          | Inr available \<Rightarrow>
              if pi_TemplateName intent0 \<notin> set available then (Inr [], st)
              else (case (if validateAgentID (pi_AgentName intent0) = None then Some intent0
                          else map_option (\<lambda>d. intent0\<lparr>pi_AgentName := d\<rparr>) (map_of templateDefaultNames (pi_TemplateName intent0))) of
                      None \<Rightarrow> (Inr [], st)
                    | Some intent \<Rightarrow>
                        (let img = (if ne_defaultImage env = [] then ''ghcr.io/bdobrica/gitai:latest'' else ne_defaultImage env);
                             required = (case tm_RequiredSecrets tm (pi_TemplateName intent) (pi_AgentName intent) of Inr rs \<Rightarrow> rs | Inl _ \<Rightarrow> []);
                             missing = missing_secrets env m required st;
                             session = \<lparr>cv_step = stepAwaitingConfirmation, cv_intent = intent, cv_missingSecrets = missing, cv_image = img,
                               cv_expiresAt = me_later m + sessionTTL, cv_nlPendingSteps = [], cv_nlTotalSteps = 0, cv_nlRawIntent = [],
                               cv_nlUserMessage = [], cv_nlRetryCount = 0\<rparr>
                         in (Inr (buildConfirmationPrompt intent missing img), set_session m session st)))))"

definition confirmationPositiveWords :: "string list" where
  "confirmationPositiveWords = [''yes'', ''y'', ''ok'', ''okay'', ''confirm'', ''proceed'', ''go ahead'', ''go'', ''create it'', ''do it'', ''continue'',
     ''sure'', ''yep'', ''yup'', ''affirmative'']"

definition confirmationNegativeWords :: "string list" where
  "confirmationNegativeWords = [''no'', ''n'', ''cancel'', ''abort'', ''stop'', ''nope'', ''nevermind'', ''never mind'', ''forget it'', ''nah'']"

definition says :: "string list \<Rightarrow> string \<Rightarrow> bool" where
  "says ws txt \<longleftrightarrow> (let lower = to_lower (trim_space txt) in list_ex (\<lambda>w. lower = w \<or> has_prefix lower (w @ '' '')) ws)"

definition handleConfirmationResponse :: "'s NlEnv \<Rightarrow> Message \<Rightarrow> conversationSession \<Rightarrow> 's NlState \<Rightarrow> (string + string) \<times> 's NlState" where
  "handleConfirmationResponse env m session st =
     (if says confirmationNegativeWords (me_text m)
      then (Inr (cross_mark @ '' Cancelled. Agent **'' @ pi_AgentName (cv_intent session) @ ''** will not be created.''), delete_session m st)
      else if \<not> says confirmationPositiveWords (me_text m) then (Inr [], st)
      else (let stillMissing = missing_secrets env m (cv_missingSecrets session) st in
        if stillMissing \<noteq> []
        then (Inr (stillMissingPrompt stillMissing),
          set_session m (session\<lparr>cv_missingSecrets := stillMissing, cv_expiresAt := me_later m + sessionTTL\<rparr>) st)
        else (case ne_create env (create_command (cv_intent session) (cv_image session)) (nl_world st) of
          (r, w) \<Rightarrow> (r, (delete_session m st)\<lparr>nl_world := w\<rparr>))))"

subsection \<open>Model path\<close>

definition RateLimitMessage :: string where
  "RateLimitMessage = hourglass @ '' I'' @ [CHR 0x27] @ ''m processing too many requests from you right now. Please try again in a moment, or use `/ruriko` commands directly.''"

definition APIRateLimitMessage :: string where
  "APIRateLimitMessage = hourglass @ '' The AI assistant is temporarily rate-limited by the upstream provider. You can still use `/ruriko help` to see all available commands.''"

definition MalformedOutputMessage :: string where
  "MalformedOutputMessage = ''I didn'' @ [CHR 0x27] @ ''t quite understand that. You can also use `/ruriko help` for available commands.''"

definition TokenBudgetExceededMessage :: string where
  "TokenBudgetExceededMessage = ''I'' @ [CHR 0x27] @ ''ve reached my daily conversation limit. You can still use `/ruriko` commands directly.''"

definition buildNLRequeryRequest :: "'s NlEnv \<Rightarrow> Message \<Rightarrow> string \<Rightarrow> 's NlState \<Rightarrow> ClassifyRequest" where
  "buildNLRequeryRequest env m msg st = \<lparr>cq_Message = msg, cq_CommandCatalogue = ne_help env,
     cq_KnownAgents = (if ne_hasStore env then (case ListAgents (me_agents m) (ne_db env (nl_world st)) of Inr as \<Rightarrow> map an_ID as | Inl _ \<Rightarrow> []) else []),
     cq_KnownTemplates = (case ne_templates env of Some tm \<Rightarrow> (case tm_List tm of Inr ts \<Rightarrow> ts | Inl _ \<Rightarrow> []) | None \<Rightarrow> []),
     cq_SenderMXID = me_sender m, cq_ConversationHistory = [],
     cq_CanonicalAgents = (case ne_templates env of
         Some tm \<Rightarrow> (case tm_DescribeAll tm of Inr infos \<Rightarrow> buildCanonicalAgentsFromTemplateInfos infos | Inl _ \<Rightarrow> []) | None \<Rightarrow> [])\<rparr>"

text \<open>The message goes into the memory, or into the fallback, and the history comes back.\<close>

definition remember_message :: "'s NlEnv \<Rightarrow> Message \<Rightarrow> 's NlState \<Rightarrow> HistoryMessage list \<times> 's NlState" where
  "remember_message env m st = (case ne_memory env of
       Some mem \<Rightarrow>
         (let w = (case nm_recorder mem of
                Some (Some record_message) \<Rightarrow> (case record_message (me_room m) (me_sender m) ''user'' (me_text m) (nl_world st) of
                  (sealed, w) \<Rightarrow> fold (nm_seal mem) sealed w)
              | _ \<Rightarrow> nl_world st)
          in (case nm_assemble mem (me_room m) (me_sender m) (me_text m) w of Inr h \<Rightarrow> h | Inl _ \<Rightarrow> [], st\<lparr>nl_world := w\<rparr>))
     | None \<Rightarrow> if ne_fallback env then (get_history m st, append_history m ''user'' (me_text m) st) else ([], st))"

fun run_read_queries ::
    "(string \<Rightarrow> Command \<Rightarrow> 's \<Rightarrow> (string + string) \<times> 's) \<Rightarrow> string list \<Rightarrow> string \<Rightarrow> 's \<Rightarrow> string \<times> 's"
where
  "run_read_queries dispatch [] out w = (out, w)"
| "run_read_queries dispatch (query # qs) out w = (case dispatch query (actionKeyToCommand query [] []) w of
       (Inl e, w') \<Rightarrow> run_read_queries dispatch qs out w'
     | (Inr result, w') \<Rightarrow> run_read_queries dispatch qs (if result \<noteq> [] then out @ result @ newline @ newline else out) w')"

definition trim_newlines :: "string \<Rightarrow> string" where
  "trim_newlines s = rev (dropWhile (\<lambda>c. c = CHR 0x0A) (rev s))"

definition handleNLReadQueries :: "'s NlEnv \<Rightarrow> Message \<Rightarrow> ClassifyResponse \<Rightarrow> 's NlState \<Rightarrow> (string + string) \<times> 's NlState" where
  "handleNLReadQueries env m resp st = (case ne_dispatch env of
       None \<Rightarrow> (Inr (cp_Response resp), st)
     | Some dispatch \<Rightarrow>
         (case run_read_queries dispatch (cp_ReadQueries resp) (if cp_Response resp \<noteq> [] then cp_Response resp @ newline @ newline else []) (nl_world st) of
            (out, w) \<Rightarrow> (Inr (trim_newlines out), write_audit env m ''nl.read'' (str_join '','' (cp_ReadQueries resp)) ''success''
              [(''source'', GStr ''nl''), (''llm_intent'', GStr (cp_Explanation resp)), (''read_queries'', GList (map GStr (cp_ReadQueries resp)))]
              (st\<lparr>nl_world := w\<rparr>))))"

definition plan_overview :: "ClassifyResponse \<Rightarrow> string" where
  "plan_overview resp = (if cp_Intent resp = IntentPlan \<and> cp_Explanation resp \<noteq> []
     then clipboard @ '' **Plan**: '' @ cp_Explanation resp @ newline @ newline else [])"

definition handleNLCommandIntent :: "'s NlEnv \<Rightarrow> Message \<Rightarrow> ClassifyResponse \<Rightarrow> 's NlState \<Rightarrow> (string + string) \<times> 's NlState" where
  "handleNLCommandIntent env m resp st =
     (if ne_dispatch env = None then (Inr [], st)
      else (case blockedNLMutationAction resp of
        Some blockedAction \<Rightarrow> (Inr (warning_sign @ '' Topology changes must be requested explicitly with `/ruriko topology ...` commands. NL dispatch will not run `''
          @ blockedAction @ ''`.''), st)
      | None \<Rightarrow>
          (let steps = steps_of_response resp;
               session = \<lparr>cv_step = stepNLAwaitingConfirmation, cv_intent = empty_intent, cv_missingSecrets = [], cv_image = [],
                 cv_expiresAt = me_later m + sessionTTL, cv_nlPendingSteps = steps, cv_nlTotalSteps = length steps, cv_nlRawIntent = cp_Explanation resp,
                 cv_nlUserMessage = trim_space (me_text m), cv_nlRetryCount = 0\<rparr>;
               firstStepPrompt = buildNLStepPrompt (hd steps) 1 (length steps)
           in (Inr (plan_overview resp @ firstStepPrompt), set_session m session st))))"

text \<open>What is done with an answer of the model.\<close>

definition record_reply :: "'s NlEnv \<Rightarrow> Message \<Rightarrow> (string + string) \<times> 's NlState \<Rightarrow> (string + string) \<times> 's NlState" where
  "record_reply env m rst = (case rst of
       (Inr reply, st) \<Rightarrow> (Inr reply, if reply \<noteq> [] then recordAssistantMessage env m reply st else st)
     | (Inl e, st) \<Rightarrow> (Inl e, st))"

definition route_response :: "'s NlEnv \<Rightarrow> Message \<Rightarrow> ClassifyResponse \<Rightarrow> 's NlState \<Rightarrow> (string + string) \<times> 's NlState" where
  "route_response env m resp st =
     (if cp_Intent resp = IntentConversational
      then record_reply env m (if cp_ReadQueries resp \<noteq> [] then handleNLReadQueries env m resp st else (Inr (cp_Response resp), st))
      else if cp_Intent resp = IntentCommand \<or> cp_Intent resp = IntentPlan
      then record_reply env m (handleNLCommandIntent env m resp st)
      else record_reply env m (Inr (cp_Response resp), st))"

definition handleNLClassify :: "'s NlEnv \<Rightarrow> 's provider \<Rightarrow> Message \<Rightarrow> 's NlState \<Rightarrow> (string + string) \<times> 's NlState" where
  "handleNLClassify env provider m st0 =
     (case (case nl_limiter st0 of None \<Rightarrow> (True, st0) | Some l \<Rightarrow> (case Allow_sender (me_now m) (me_sender m) l of (ok, l') \<Rightarrow> (ok, st0\<lparr>nl_limiter := Some l'\<rparr>))) of
        (ok, st1) \<Rightarrow> if \<not> ok then (Inr RateLimitMessage, st1) else
          (case (case nl_budget st1 of None \<Rightarrow> (True, st1) | Some b \<Rightarrow> (case Allow_tokens (me_now m) (me_sender m) b of (ok, b') \<Rightarrow> (ok, st1\<lparr>nl_budget := Some b'\<rparr>))) of
             (ok, st2) \<Rightarrow> if \<not> ok then (Inr TokenBudgetExceededMessage, st2) else
               (case remember_message env m st2 of (history, st3) \<Rightarrow>
                  (case provider ((buildNLRequeryRequest env m (me_text m) st2)\<lparr>cq_ConversationHistory := history\<rparr>) (nl_world st3) of
                     (Inl ErrRateLimit, w) \<Rightarrow> (Inr APIRateLimitMessage, st3\<lparr>nl_world := w, nl_health := nlpHealthDegraded\<rparr>)
                   | (Inl ErrMalformedOutput, w) \<Rightarrow> (Inr MalformedOutputMessage, st3\<lparr>nl_world := w, nl_health := nlpHealthDegraded\<rparr>)
                   | (Inl (OtherNlp e), w) \<Rightarrow>
                       (let st4 = st3\<lparr>nl_world := w, nl_health := nlpHealthUnavailable\<rparr> in
                        case ne_templates env of Some tm \<Rightarrow> handleKeywordIntent env tm m st4 | None \<Rightarrow> (Inr [], st4))
                   | (Inr resp, w) \<Rightarrow>
                       (let st4 = st3\<lparr>nl_world := w, nl_health := nlpHealthOK\<rparr>;
                            st5 = (case (cp_TotalTokens resp, nl_budget st4) of
                                (Some tokens, Some b) \<Rightarrow> st4\<lparr>nl_budget := Some (RecordUsage (me_later m) (me_later m) (me_sender m) tokens b)\<rparr>
                              | _ \<Rightarrow> st4)
                        in route_response env m resp st5)))))"

subsection \<open>Confirmation of commands\<close>

definition requery_message :: "conversationSession \<Rightarrow> nlStep \<Rightarrow> string \<Rightarrow> string" where
  "requery_message session step dispatchErr =
     (let original = trim_space (cv_nlUserMessage session) in
      ''The command `'' @ cm_RawText (ns_command step) @ ''` failed because: '' @ dispatchErr @ ''.'' @ newline
        @ ''Original user request: '' @ (if original = [] then ''(not available)'' else original) @ newline
        @ ''Please return a corrected command for the same intent.'' @ newline
        @ ''Return intent='' @ [CHR 0x22] @ ''command'' @ [CHR 0x22] @ '' with corrected action/args/flags.'')"

definition requeryFailedNLStep :: "'s NlEnv \<Rightarrow> Message \<Rightarrow> conversationSession \<Rightarrow> nlStep \<Rightarrow> string \<Rightarrow> 's NlState \<Rightarrow> (string + nlStep) \<times> 's NlState" where
  "requeryFailedNLStep env m session step dispatchErr st0 = (case resolveNLPProvider env m st0 of
       (None, st) \<Rightarrow> (Inl ''nlp provider unavailable for correction'', st)
     | (Some provider, st) \<Rightarrow>
         (case provider (buildNLRequeryRequest env m (requery_message session step dispatchErr) st) (nl_world st) of
            (Inl e, w) \<Rightarrow> (Inl ''classification failed'', st\<lparr>nl_world := w\<rparr>)
          | (Inr resp, w) \<Rightarrow> (correctedStepFromClassifyResponse resp (ns_action step), st\<lparr>nl_world := w\<rparr>)))"

definition failed_line :: "string \<Rightarrow> string \<Rightarrow> string \<Rightarrow> string" where
  "failed_line sign action err = sign @ '' Failed to run `'' @ action @ ''`: '' @ err"

definition retry_reply :: "string \<Rightarrow> string \<Rightarrow> string" where
  "retry_reply action err = failed_line cross_mark action err @ newline @ newline @ ''Reply **yes** to retry or **no** to cancel.''"

text \<open>A step that failed: another attempt with a corrected command, the end, or the same step again.\<close>

definition step_failed ::
    "'s NlEnv \<Rightarrow> Message \<Rightarrow> conversationSession \<Rightarrow> nlStep \<Rightarrow> nlStep list \<Rightarrow> string \<Rightarrow> 's NlState \<Rightarrow> (string + string) \<times> 's NlState"
where
  "step_failed env m session step remaining err st =
     (if \<not> isNLValidationError err then (Inr (retry_reply (ns_action step) err), st)
      else if cv_nlRetryCount session \<ge> nlMaxCorrectionRetries
      then (Inr (failed_line cross_mark (ns_action step) err @ newline @ newline @ ''I couldn'' @ [CHR 0x27] @ ''t auto-correct this command after ''
        @ itoa (int nlMaxCorrectionRetries) @ '' attempts. Please rephrase your request.''), delete_session m st)
      else (case requeryFailedNLStep env m session step err st of
          (Inl e, st1) \<Rightarrow> (Inr (retry_reply (ns_action step) err), st1)
        | (Inr correctedStep, st1) \<Rightarrow>
            (let session' = session\<lparr>cv_nlPendingSteps := correctedStep # remaining, cv_nlRetryCount := cv_nlRetryCount session + 1,
                   cv_expiresAt := me_later m + sessionTTL\<rparr>
             in (Inr (failed_line warning_sign (ns_action step) err @ newline @ ''I asked the NLP model to correct it (attempt ''
                   @ itoa (int (cv_nlRetryCount session')) @ ''/'' @ itoa (int nlMaxCorrectionRetries) @ '').'' @ newline @ newline
                   @ buildNLStepPrompt correctedStep (cv_nlTotalSteps session - length (cv_nlPendingSteps session) + 1) (cv_nlTotalSteps session)),
                 set_session m session' st1))))"

definition step_done :: "Message \<Rightarrow> conversationSession \<Rightarrow> nlStep list \<Rightarrow> string \<Rightarrow> 's NlState \<Rightarrow> (string + string) \<times> 's NlState" where
  "step_done m session remaining result st = (case remaining of
       [] \<Rightarrow> (Inr result, delete_session m st)
     | nextStep # _ \<Rightarrow>
         (Inr ((if result \<noteq> [] then result @ newline @ newline else []) @
            buildNLStepPrompt nextStep (cv_nlTotalSteps session - length (cv_nlPendingSteps session) + 2) (cv_nlTotalSteps session)),
          set_session m (session\<lparr>cv_nlPendingSteps := remaining, cv_nlRetryCount := 0, cv_expiresAt := me_later m + sessionTTL\<rparr>) st))"

definition audit_step :: "'s NlEnv \<Rightarrow> Message \<Rightarrow> conversationSession \<Rightarrow> nlStep \<Rightarrow> 's NlState \<Rightarrow> 's NlState" where
  "audit_step env m session step st = write_audit env m ''nl.dispatch'' (ns_action step) ''dispatching''
     [(''source'', GStr ''nl''), (''llm_intent'', GStr (cv_nlRawIntent session)), (''action'', GStr (ns_action step)),
      (''step'', GInt (int (cv_nlTotalSteps session) - int (length (cv_nlPendingSteps session)) + 1)), (''total'', GInt (int (cv_nlTotalSteps session)))] st"

definition handleNLConfirmationResponse :: "'s NlEnv \<Rightarrow> Message \<Rightarrow> conversationSession \<Rightarrow> 's NlState \<Rightarrow> (string + string) \<times> 's NlState" where
  "handleNLConfirmationResponse env m session st =
     (if says confirmationNegativeWords (me_text m) then (Inr (cross_mark @ '' Cancelled. No changes were made.''), delete_session m st)
      else if \<not> says confirmationPositiveWords (me_text m) then (Inr [], st)
      else (case cv_nlPendingSteps session of
          [] \<Rightarrow> (Inr [], delete_session m st)
        | step # remaining \<Rightarrow>
            (let st1 = audit_step env m session step st
             in (case ne_dispatch env of
                   None \<Rightarrow> (Inl ''nil dispatch'', st1)
                 | Some dispatch \<Rightarrow>
                     (case dispatch (ns_action step) (ns_command step) (nl_world st1) of
                        (Inl err, w) \<Rightarrow> step_failed env m session step remaining err (st1\<lparr>nl_world := w\<rparr>)
                      | (Inr result, w) \<Rightarrow> step_done m session remaining result (st1\<lparr>nl_world := w\<rparr>))))))"

definition HandleNaturalLanguage :: "'s NlEnv \<Rightarrow> Message \<Rightarrow> 's NlState \<Rightarrow> (string + string) \<times> 's NlState" where
  "HandleNaturalLanguage env m st0 =
     (if has_prefix (trim_space (me_text m)) ''/ruriko'' then (Inr [], st0)
      else (case get_session m st0 of
          (Some session, st) \<Rightarrow>
            (case cv_step session of
               stepNLAwaitingConfirmation \<Rightarrow> handleNLConfirmationResponse env m session st
             | stepAwaitingConfirmation \<Rightarrow> handleConfirmationResponse env m session st)
        | (None, st) \<Rightarrow>
            (case resolveNLPProvider env m st of
               (Some provider, st1) \<Rightarrow> handleNLClassify env provider m st1
             | (None, st1) \<Rightarrow> (case ne_templates env of None \<Rightarrow> (Inr [], st1) | Some tm \<Rightarrow> handleKeywordIntent env tm m st1))))"

subsection \<open>Sessions\<close>

lemma history_frame [simp]:
  "nl_sessions (append_history m role c st) = nl_sessions st" "nl_world (append_history m role c st) = nl_world st"
  by (simp_all add: append_history_def Let_def)

lemma record_frame [simp]: "nl_sessions (recordAssistantMessage env m c st) = nl_sessions st"
  by (simp add: recordAssistantMessage_def Let_def split: option.split)

lemma audit_frame [simp]: "nl_sessions (write_audit env m a t r p st) = nl_sessions st"
  by (simp add: write_audit_def)

lemma audit_step_frame [simp]: "nl_sessions (audit_step env m session step st) = nl_sessions st"
  by (simp add: audit_step_def)

lemma remember_frame: "remember_message env m st = (h, st') \<Longrightarrow> nl_sessions st' = nl_sessions st"
  by (auto simp: remember_message_def Let_def split: option.splits if_splits)

lemma resolve_frame: "resolveNLPProvider env m st = (p, st') \<Longrightarrow> nl_sessions st' = nl_sessions st \<and> nl_world st' = nl_world st"
  by (auto simp: resolveNLPProvider_def Let_def split: if_splits prod.splits)

lemma requery_frame: "requeryFailedNLStep env m s step e st = (r, st') \<Longrightarrow> nl_sessions st' = nl_sessions st"
  by (auto simp: requeryFailedNLStep_def Let_def dest!: resolve_frame split: prod.splits option.splits sum.splits)

lemma session_updates:
  "map_of (nl_sessions (set_session m s st)) = (map_of (nl_sessions st))(session_key m \<mapsto> s)"
  "map_of (nl_sessions (delete_session m st)) = (map_of (nl_sessions st))(session_key m := None)"
  "nl_world (set_session m s st) = nl_world st" "nl_world (delete_session m st) = nl_world st"
  by (simp_all add: set_session_def delete_session_def update_conv' delete_conv')

text \<open>A session that waits for an answer was announced by the reply, or goes on with the same plan to create an agent.\<close>

definition settled :: "conversationSession \<Rightarrow> bool" where
  "settled s \<longleftrightarrow> (case cv_step s of
       stepNLAwaitingConfirmation \<Rightarrow> cv_nlPendingSteps s \<noteq> [] \<and> length (cv_nlPendingSteps s) \<le> cv_nlTotalSteps s \<and> cv_nlRetryCount s \<le> nlMaxCorrectionRetries
     | stepAwaitingConfirmation \<Rightarrow> validateAgentID (pi_AgentName (cv_intent s)) = None)"

definition announced :: "string + string \<Rightarrow> conversationSession option \<Rightarrow> conversationSession \<Rightarrow> bool" where
  "announced r old s \<longleftrightarrow> ((\<forall>o'. old = Some o' \<longrightarrow> settled o') \<longrightarrow> settled s) \<and> (case cv_step s of
       stepNLAwaitingConfirmation \<Rightarrow> (\<exists>t step rest. r = Inr t \<and> cv_nlPendingSteps s = step # rest \<and> shows_step t (ns_action step) (ns_command step))
     | stepAwaitingConfirmation \<Rightarrow> (\<exists>missing. r = Inr (buildConfirmationPrompt (cv_intent s) missing (cv_image s))) \<or>
         (\<exists>o'. old = Some o' \<and> cv_step o' = stepAwaitingConfirmation \<and> cv_intent o' = cv_intent s \<and> cv_image o' = cv_image s))"

text \<open>What a handler may do to the sessions.\<close>

definition touches :: "Message \<Rightarrow> string + string \<Rightarrow> 's NlState \<Rightarrow> 's NlState \<Rightarrow> bool" where
  "touches m r st st' \<longleftrightarrow> (\<forall>k. k \<noteq> session_key m \<longrightarrow> map_of (nl_sessions st') k = map_of (nl_sessions st) k) \<and>
     (map_of (nl_sessions st') (session_key m) \<noteq> map_of (nl_sessions st) (session_key m) \<longrightarrow>
        (\<forall>s. map_of (nl_sessions st') (session_key m) = Some s \<longrightarrow> announced r (map_of (nl_sessions st) (session_key m)) s))"

lemma touches_same: "nl_sessions st' = nl_sessions st \<Longrightarrow> touches m r st st'"
  by (simp add: touches_def)

lemma touches_refl [simp]: "touches m r st st"
  by (simp add: touches_def)

lemma touches_delete: "touches m r st (delete_session m st)"
  by (simp add: touches_def session_updates)

lemma touches_delete_world: "touches m r st ((delete_session m st)\<lparr>nl_world := w\<rparr>)"
  by (simp add: touches_def session_updates)

lemma touches_set: "announced r (map_of (nl_sessions st) (session_key m)) s \<Longrightarrow> touches m r st (set_session m s st)"
  by (simp add: touches_def session_updates)

lemma touches_frame [simp]:
  "touches m r st (recordAssistantMessage env m' c st1) = touches m r st st1" "touches m r st (write_audit env m' a t q p st1) = touches m r st st1"
  "touches m r st (st1\<lparr>nl_world := w\<rparr>) = touches m r st st1"
  by (simp_all add: touches_def)

lemma touches_from: "nl_sessions st1 = nl_sessions st \<Longrightarrow> touches m r st1 st' \<Longrightarrow> touches m r st st'"
  by (auto simp: touches_def)

lemma keyword_touches: "handleKeywordIntent env tm m st = (r, st') \<Longrightarrow> touches m r st st'"
  by (auto simp: handleKeywordIntent_def Let_def announced_def settled_def default_names_valid intro!: touches_set split: option.splits sum.splits if_splits)

lemma create_touches:
  assumes "handleConfirmationResponse env m session st = (r, st')" "map_of (nl_sessions st) (session_key m) = Some session" "cv_step session = stepAwaitingConfirmation"
  shows "touches m r st st'"
  using assms
  by (auto simp: handleConfirmationResponse_def Let_def announced_def settled_def intro!: touches_set touches_delete touches_delete_world
      split: if_splits prod.splits)

lemma command_touches: "handleNLCommandIntent env m resp st = (r, st') \<Longrightarrow> touches m r st st'"
proof -
  assume h: "handleNLCommandIntent env m resp st = (r, st')"
  obtain step rest where s: "steps_of_response resp = step # rest" using steps_not_Nil by (meson list.exhaust)
  have "shows_step (a @ buildNLStepPrompt step n k) (ns_action step) (ns_command step)" for a n k
    using prompt_shows [of a step n k "[]"] by simp
  then show ?thesis using h
    by (auto simp: handleNLCommandIntent_def Let_def s announced_def settled_def intro!: touches_set split: if_splits option.splits)
qed

lemma route_touches: "route_response env m resp st = (r, st') \<Longrightarrow> touches m r st st'"
proof -
  have rec: "touches m r st st'" if "record_reply env m (q, st1) = (r, st')" "touches m q st st1" for q st1
    using that by (auto simp: record_reply_def split: sum.splits if_splits)
  assume h: "route_response env m resp st = (r, st')"
  obtain q st1 where c: "handleNLCommandIntent env m resp st = (q, st1)" by fastforce
  have read: "touches m q' st st2" if "handleNLReadQueries env m resp st = (q', st2)" for q' st2
    using that by (auto simp: handleNLReadQueries_def intro!: touches_same split: option.splits prod.splits)
  obtain q' st2 where d: "handleNLReadQueries env m resp st = (q', st2)" by fastforce
  from h show ?thesis
    by (auto simp: route_response_def c d intro: rec [OF _ command_touches [OF c]] rec [OF _ read [OF d]] rec [OF _ touches_refl] split: if_splits)
qed

lemma classify_cases:
  assumes "handleNLClassify env provider m st = (r, st')"
  obtains (stopped) "nl_sessions st' = nl_sessions st"
  | (answered) resp st5 req w w' where "provider req w = (Inr resp, w')" "route_response env m resp st5 = (r, st')" "nl_sessions st5 = nl_sessions st"
  | (fallback) tm st5 where "handleKeywordIntent env tm m st5 = (r, st')" "nl_sessions st5 = nl_sessions st"
proof -
  obtain ok st1 where l: "(case nl_limiter st of None \<Rightarrow> (True, st) | Some l \<Rightarrow> (case Allow_sender (me_now m) (me_sender m) l of (ok, l') \<Rightarrow> (ok, st\<lparr>nl_limiter := Some l'\<rparr>))) = (ok, st1)"
    by fastforce
  then have s1: "nl_sessions st1 = nl_sessions st" by (auto split: option.splits prod.splits)
  obtain ok2 st2 where b: "(case nl_budget st1 of None \<Rightarrow> (True, st1) | Some b \<Rightarrow> (case Allow_tokens (me_now m) (me_sender m) b of (ok, b') \<Rightarrow> (ok, st1\<lparr>nl_budget := Some b'\<rparr>))) = (ok2, st2)"
    by fastforce
  then have s2: "nl_sessions st2 = nl_sessions st" using s1 by (auto split: option.splits prod.splits)
  obtain hist st3 where rm: "remember_message env m st2 = (hist, st3)" by fastforce
  have s3: "nl_sessions st3 = nl_sessions st" using remember_frame [OF rm] s2 by simp
  note unfolded = assms [unfolded handleNLClassify_def l b rm prod.case]
  show thesis
  proof (cases "ok \<and> ok2")
    case False
    then show ?thesis using unfolded s1 s2 by (intro stopped) (auto split: if_splits)
  next
    case True
    let ?req = "(buildNLRequeryRequest env m (me_text m) st2)\<lparr>cq_ConversationHistory := hist\<rparr>"
    obtain ans w where p: "provider ?req (nl_world st3) = (ans, w)" by fastforce
    note cont = unfolded [unfolded p prod.case]
    show ?thesis
    proof (cases ans)
      case (Inr resp)
      obtain st5 where "route_response env m resp st5 = (r, st')" "nl_sessions st5 = nl_sessions st3"
        using cont True Inr by (auto simp: Let_def split: option.splits)
      then show ?thesis using s3 p Inr by (intro answered [of ?req "nl_world st3" resp w st5]) auto
    next
      case (Inl e)
      show ?thesis
      proof (cases "\<exists>x. e = OtherNlp x \<and> ne_templates env \<noteq> None")
        case other: True
        then obtain tm where "handleKeywordIntent env tm m (st3\<lparr>nl_world := w, nl_health := nlpHealthUnavailable\<rparr>) = (r, st')"
          using cont True Inl by (auto simp: Let_def)
        then show ?thesis by (rule fallback) (simp add: s3)
      next
        case False
        then show ?thesis using cont True Inl s3 by (intro stopped, cases e) (auto simp: Let_def split: option.splits)
      qed
    qed
  qed
qed

lemma classify_touches: "handleNLClassify env provider m st = (r, st') \<Longrightarrow> touches m r st st'"
  by (erule classify_cases) (auto intro: touches_same touches_from keyword_touches route_touches)

lemma step_prompt_announces:
  assumes "cv_step s = stepNLAwaitingConfirmation" "cv_nlPendingSteps s = step # rest" "(\<forall>o'. old = Some o' \<longrightarrow> settled o') \<Longrightarrow> settled s"
  shows "announced (Inr (a @ buildNLStepPrompt step n k)) old s"
  using assms prompt_shows [of a step n k "[]"] by (simp add: announced_def)

lemma failed_touches:
  assumes "step_failed env m session step remaining err st = (r, st')" "cv_step session = stepNLAwaitingConfirmation"
    "map_of (nl_sessions st) (session_key m) = Some session" "cv_nlPendingSteps session = step # remaining"
  shows "touches m r st st'"
proof -
  obtain q st1 where q: "requeryFailedNLStep env m session step err st = (q, st1)" by fastforce
  note s1 = requery_frame [OF q]
  show ?thesis
  proof (cases "isNLValidationError err \<and> \<not> nlMaxCorrectionRetries \<le> cv_nlRetryCount session")
    case True
    show ?thesis
    proof (cases q)
      case (Inl e)
      then show ?thesis using assms(1) True q s1 by (auto simp: step_failed_def intro: touches_same)
    next
      case (Inr corrected)
      define line where "line = failed_line warning_sign (ns_action step) err @ newline @ ''I asked the NLP model to correct it (attempt ''
        @ itoa (int (cv_nlRetryCount session + 1)) @ ''/'' @ itoa (int nlMaxCorrectionRetries) @ '').'' @ newline @ newline"
      define s' where "s' = session\<lparr>cv_nlPendingSteps := corrected # remaining, cv_nlRetryCount := cv_nlRetryCount session + 1, cv_expiresAt := me_later m + sessionTTL\<rparr>"
      have rs: "r = Inr (line @ buildNLStepPrompt corrected (cv_nlTotalSteps session - length (cv_nlPendingSteps session) + 1) (cv_nlTotalSteps session))" "st' = set_session m s' st1"
        using assms(1) True q Inr by (simp_all add: step_failed_def Let_def line_def s'_def)
      have "touches m r st1 st'" unfolding rs by (rule touches_set, rule step_prompt_announces [where rest = remaining])
        (use True in \<open>auto simp: s'_def assms(2-4) s1 settled_def\<close>)
      then show ?thesis by (rule touches_from [OF s1])
    qed
  next
    case False
    then show ?thesis using assms(1) by (auto simp: step_failed_def intro: touches_delete split: if_splits)
  qed
qed

lemma done_touches:
  assumes "step_done m session remaining result st = (r, st')" "cv_step session = stepNLAwaitingConfirmation"
    "map_of (nl_sessions st) (session_key m) = Some session" "cv_nlPendingSteps session = step # remaining"
  shows "touches m r st st'"
  using assms by (cases remaining) (auto simp: step_done_def settled_def intro!: touches_delete touches_set step_prompt_announces [of _ _ _ _ "[]", simplified] step_prompt_announces)

lemma confirm_touches:
  assumes "handleNLConfirmationResponse env m session st = (r, st')" "cv_step session = stepNLAwaitingConfirmation"
    "map_of (nl_sessions st) (session_key m) = Some session"
  shows "touches m r st st'"
proof (cases "says confirmationNegativeWords (me_text m) \<or> \<not> says confirmationPositiveWords (me_text m) \<or> cv_nlPendingSteps session = [] \<or> ne_dispatch env = None")
  case True
  then show ?thesis using assms(1)
    by (auto simp: handleNLConfirmationResponse_def Let_def intro: touches_delete touches_same split: if_splits list.splits option.splits)
next
  case False
  then obtain step remaining dispatch where s: "cv_nlPendingSteps session = step # remaining" "ne_dispatch env = Some dispatch" by (cases "cv_nlPendingSteps session") auto
  let ?st1 = "audit_step env m session step st"
  have st1: "(case dispatch (ns_action step) (ns_command step) (nl_world ?st1) of
          (Inl err, w) \<Rightarrow> step_failed env m session step remaining err (?st1\<lparr>nl_world := w\<rparr>)
        | (Inr result, w) \<Rightarrow> step_done m session remaining result (?st1\<lparr>nl_world := w\<rparr>)) = (r, st')"
    using assms(1) False s by (simp add: handleNLConfirmationResponse_def Let_def)
  obtain ans w where d: "dispatch (ns_action step) (ns_command step) (nl_world ?st1) = (ans, w)" by fastforce
  have "touches m r (?st1\<lparr>nl_world := w\<rparr>) st'"
  proof (cases ans)
    case (Inl err)
    show ?thesis by (rule failed_touches [OF _ assms(2) _ s(1)]) (use st1 d Inl assms(3) in simp_all)
  next
    case (Inr result)
    show ?thesis by (rule done_touches [OF _ assms(2) _ s(1)]) (use st1 d Inr assms(3) in simp_all)
  qed
  then show ?thesis by (rule touches_from [rotated]) simp
qed

lemma message_touches: "HandleNaturalLanguage env m st = (r, st') \<Longrightarrow> touches m r st st'"
proof -
  assume h: "HandleNaturalLanguage env m st = (r, st')"
  show ?thesis
  proof (cases "has_prefix (trim_space (me_text m)) ''/ruriko''")
    case False
    obtain so st1 where g: "get_session m st = (so, st1)" by fastforce
    show ?thesis
    proof (cases so)
      case (Some session)
      then have s: "st1 = st" "map_of (nl_sessions st) (session_key m) = Some session" using g by (auto simp: get_session_def split: option.splits if_splits)
      show ?thesis using h False g Some s create_touches [of env m session st r st'] confirm_touches [of env m session st r st']
        by (cases "cv_step session") (auto simp: HandleNaturalLanguage_def)
    next
      case None
      have del: "st1 = st \<or> st1 = delete_session m st" using g None by (auto simp: get_session_def delete_session_def split: option.splits if_splits)
      have gone: "map_of (nl_sessions st1) (session_key m) = None" using g None by (auto simp: get_session_def delete_conv' split: option.splits if_splits)
      obtain po st2 where p: "resolveNLPProvider env m st1 = (po, st2)" by fastforce
      have s2: "nl_sessions st2 = nl_sessions st1" using resolve_frame [OF p] by simp
      have "touches m r st2 st'"
        using h False g None p classify_touches keyword_touches by (auto simp: HandleNaturalLanguage_def split: option.splits)
      then have t: "touches m r st1 st'" by (rule touches_from [OF s2])
      then show ?thesis using del gone by (auto simp: touches_def session_updates announced_def split: conversationStep.splits)
    qed
  qed (use h in \<open>simp add: HandleNaturalLanguage_def\<close>)
qed

subsection \<open>Commands that are run\<close>

type_synonym call = "string \<times> Command"

text \<open>The queries of an answer are run as commands without arguments and flags; the code does not check which actions they name.\<close>

definition bare_calls :: "call list \<Rightarrow> bool" where
  "bare_calls new \<longleftrightarrow> (\<forall>(a, c) \<in> set new. c = actionKeyToCommand a [] [])"

text \<open>The command that a message confirms, if there is one.\<close>

definition confirmed :: "Message \<Rightarrow> 's NlState \<Rightarrow> call \<Rightarrow> bool" where
  "confirmed m st call \<longleftrightarrow> says confirmationPositiveWords (me_text m) \<and> \<not> says confirmationNegativeWords (me_text m) \<and>
     (\<exists>s. map_of (nl_sessions st) (session_key m) = Some s \<and> me_now m \<le> cv_expiresAt s \<and> (case cv_step s of
        stepNLAwaitingConfirmation \<Rightarrow> (\<exists>step rest. cv_nlPendingSteps s = step # rest \<and> call = (ns_action step, ns_command step))
      | stepAwaitingConfirmation \<Rightarrow> call = (''agents.create'', create_command (cv_intent s) (cv_image s))))"

definition permitted :: "Message \<Rightarrow> 's NlState \<Rightarrow> call list \<Rightarrow> bool" where
  "permitted m st new \<longleftrightarrow> bare_calls new \<or> (\<exists>c. new = [c] \<and> confirmed m st c)"

lemma keyword_world: "handleKeywordIntent env tm m st = (r, st') \<Longrightarrow> nl_world st' = nl_world st"
  by (auto simp: handleKeywordIntent_def Let_def session_updates split: option.splits sum.splits if_splits)

lemma command_world: "handleNLCommandIntent env m resp st = (r, st') \<Longrightarrow> nl_world st' = nl_world st"
  by (auto simp: handleNLCommandIntent_def Let_def session_updates split: option.splits if_splits)

text \<open>A world that records the commands that are run on it.\<close>

locale recording =
  fixes env :: "'s NlEnv" and calls :: "'s \<Rightarrow> call list"
  assumes dispatch_records: "ne_dispatch env = Some dispatch \<Longrightarrow> calls (snd (dispatch action cmd w)) = calls w @ [(action, cmd)]"
    and create_records: "calls (snd (ne_create env cmd w)) = calls w @ [(''agents.create'', cmd)]"
    and model_silent: "calls (snd (ne_new env key req w)) = calls w" "ne_static env = Some p \<Longrightarrow> calls (snd (p req w)) = calls w"
    and put_silent: "calls (ne_put env db w) = calls w"
    and memory_silent: "ne_memory env = Some mem \<Longrightarrow> nm_recorder mem = Some (Some rec) \<Longrightarrow> calls (snd (rec room sender role content w)) = calls w"
      "ne_memory env = Some mem \<Longrightarrow> calls (nm_seal mem i w) = calls w"
begin

lemma record_silent: "calls (nl_world (recordAssistantMessage env m c st)) = calls (nl_world st)"
  by (auto simp: recordAssistantMessage_def Let_def memory_silent split: option.split)

lemma audit_silent: "calls (nl_world (write_audit env m a t r p st)) = calls (nl_world st)"
  by (simp add: write_audit_def put_silent)

lemma seals_silent: "ne_memory env = Some mem \<Longrightarrow> calls (fold (nm_seal mem) ids w) = calls w"
  by (induction ids arbitrary: w) (simp_all add: memory_silent)

lemma remember_silent:
  assumes "remember_message env m st = (h, st')"
  shows "calls (nl_world st') = calls (nl_world st)"
proof (cases "ne_memory env")
  case (Some mem)
  have "calls (case rec (me_room m) (me_sender m) ''user'' (me_text m) (nl_world st) of (sealed, w) \<Rightarrow> fold (nm_seal mem) sealed w) = calls (nl_world st)"
    if "nm_recorder mem = Some (Some rec)" for rec
    using memory_silent(1) [OF Some that, of "me_room m" "me_sender m" "''user''" "me_text m" "nl_world st"]
    by (auto simp: seals_silent [OF Some] split: prod.splits)
  then show ?thesis using assms Some by (auto simp: remember_message_def Let_def split: option.splits)
qed (use assms in \<open>auto simp: remember_message_def split: if_splits\<close>)

lemma resolve_silent: "resolveNLPProvider env m st = (Some p, st') \<Longrightarrow> calls (snd (p req w)) = calls w"
  by (auto simp: resolveNLPProvider_def Let_def model_silent split: if_splits prod.splits)

lemma requery_silent: "requeryFailedNLStep env m s step e st = (r, st') \<Longrightarrow> calls (nl_world st') = calls (nl_world st)"
proof -
  assume h: "requeryFailedNLStep env m s step e st = (r, st')"
  obtain po st1 where p: "resolveNLPProvider env m st = (po, st1)" by fastforce
  show ?thesis
  proof (cases po)
    case (Some provider)
    have "calls (snd (provider req w)) = calls w" for req w using resolve_silent p Some by simp
    then show ?thesis using h p Some resolve_frame [OF p]
      by (auto simp: requeryFailedNLStep_def Let_def split: prod.splits sum.splits) (metis snd_conv)+
  qed (use h p resolve_frame [OF p] in \<open>auto simp: requeryFailedNLStep_def\<close>)
qed

lemma queries_calls:
  assumes "ne_dispatch env = Some dispatch" "run_read_queries dispatch qs out w = (out', w')"
  shows "calls w' = calls w @ map (\<lambda>q. (q, actionKeyToCommand q [] [])) qs"
  using assms(2)
proof (induction qs arbitrary: out w)
  case (Cons q qs)
  obtain r w1 where d: "dispatch q (actionKeyToCommand q [] []) w = (r, w1)" by fastforce
  have "calls w1 = calls w @ [(q, actionKeyToCommand q [] [])]" using dispatch_records [OF assms(1), of q "actionKeyToCommand q [] []" w] d by simp
  with Cons d show ?case by (cases r) auto
qed simp

lemma route_calls:
  assumes "route_response env m resp st = (r, st')"
  shows "\<exists>new. calls (nl_world st') = calls (nl_world st) @ new \<and> bare_calls new"
proof -
  have rec: "calls (nl_world st') = calls (nl_world st1)" if "record_reply env m (q, st1) = (r, st')" for q st1
    using that by (auto simp: record_reply_def record_silent split: sum.splits if_splits)
  obtain q1 st1 where c: "handleNLCommandIntent env m resp st = (q1, st1)" by fastforce
  obtain q2 st2 where d: "handleNLReadQueries env m resp st = (q2, st2)" by fastforce
  have read: "\<exists>new. calls (nl_world st2) = calls (nl_world st) @ new \<and> bare_calls new"
  proof (cases "ne_dispatch env")
    case (Some dispatch)
    obtain out w where q: "run_read_queries dispatch (cp_ReadQueries resp)
        (if cp_Response resp \<noteq> [] then cp_Response resp @ newline @ newline else []) (nl_world st) = (out, w)" by fastforce
    have "calls (nl_world st2) = calls w" using d Some q by (auto simp: handleNLReadQueries_def audit_silent)
    then show ?thesis using queries_calls [OF Some q]
      by (intro exI [of _ "map (\<lambda>q. (q, actionKeyToCommand q [] [])) (cp_ReadQueries resp)"]) (auto simp: bare_calls_def)
  qed (use d in \<open>auto simp: handleNLReadQueries_def bare_calls_def\<close>)
  have none: "\<exists>new. calls (nl_world st) = calls (nl_world st) @ new \<and> bare_calls new" by (auto simp: bare_calls_def)
  show ?thesis using assms rec [of q1 st1] rec [of q2 st2] rec [of _ st] command_world [OF c] read none
    by (auto simp: route_response_def c d split: if_splits)
qed

lemma classify_calls:
  assumes "handleNLClassify env provider m st = (r, st')" "\<And>req w. calls (snd (provider req w)) = calls w"
  shows "\<exists>new. calls (nl_world st') = calls (nl_world st) @ new \<and> bare_calls new"
proof -
  obtain ok st1 where l: "(case nl_limiter st of None \<Rightarrow> (True, st) | Some l \<Rightarrow> (case Allow_sender (me_now m) (me_sender m) l of (ok, l') \<Rightarrow> (ok, st\<lparr>nl_limiter := Some l'\<rparr>))) = (ok, st1)"
    by fastforce
  then have s1: "nl_world st1 = nl_world st" by (auto split: option.splits prod.splits)
  obtain ok2 st2 where b: "(case nl_budget st1 of None \<Rightarrow> (True, st1) | Some b \<Rightarrow> (case Allow_tokens (me_now m) (me_sender m) b of (ok, b') \<Rightarrow> (ok, st1\<lparr>nl_budget := Some b'\<rparr>))) = (ok2, st2)"
    by fastforce
  then have s2: "nl_world st2 = nl_world st" using s1 by (auto split: option.splits prod.splits)
  obtain hist st3 where rm: "remember_message env m st2 = (hist, st3)" by fastforce
  have s3: "calls (nl_world st3) = calls (nl_world st)" using remember_silent [OF rm] s2 by simp
  have none: "\<exists>new. calls (nl_world st) = calls (nl_world st) @ new \<and> bare_calls new" by (auto simp: bare_calls_def)
  note unfolded = assms(1) [unfolded handleNLClassify_def l b rm prod.case]
  show ?thesis
  proof (cases "ok \<and> ok2")
    case False
    then show ?thesis using unfolded s1 s2 none by (auto split: if_splits)
  next
    case True
    let ?req = "(buildNLRequeryRequest env m (me_text m) st2)\<lparr>cq_ConversationHistory := hist\<rparr>"
    obtain ans w where p: "provider ?req (nl_world st3) = (ans, w)" by fastforce
    have w: "calls w = calls (nl_world st)" using assms(2) [of ?req "nl_world st3"] p s3 by simp
    note cont = unfolded [unfolded p prod.case]
    show ?thesis
    proof (cases ans)
      case (Inr resp)
      obtain st5 where "route_response env m resp st5 = (r, st')" "nl_world st5 = w"
        using cont True Inr by (auto simp: Let_def split: option.splits)
      then show ?thesis using route_calls w by metis
    next
      case (Inl e)
      have "calls (nl_world st') = calls w"
        using cont True Inl by (cases e) (auto simp: Let_def dest!: keyword_world split: option.splits)
      then show ?thesis using w none by simp
    qed
  qed
qed

lemma failed_calls: "step_failed env m session step remaining err st = (r, st') \<Longrightarrow> calls (nl_world st') = calls (nl_world st)"
proof -
  assume h: "step_failed env m session step remaining err st = (r, st')"
  obtain q st1 where q: "requeryFailedNLStep env m session step err st = (q, st1)" by fastforce
  show ?thesis using h q requery_silent [OF q]
    by (cases q) (auto simp: step_failed_def Let_def session_updates split: if_splits)
qed

lemma confirm_calls:
  assumes "handleNLConfirmationResponse env m session st = (r, st')" "map_of (nl_sessions st) (session_key m) = Some session"
    "me_now m \<le> cv_expiresAt session" "cv_step session = stepNLAwaitingConfirmation"
  shows "\<exists>new. calls (nl_world st') = calls (nl_world st) @ new \<and> permitted m st new"
proof (cases "says confirmationNegativeWords (me_text m) \<or> \<not> says confirmationPositiveWords (me_text m) \<or> cv_nlPendingSteps session = [] \<or> ne_dispatch env = None")
  case True
  then have "calls (nl_world st') = calls (nl_world st) @ []" using assms(1)
    by (auto simp: handleNLConfirmationResponse_def Let_def session_updates audit_step_def audit_silent split: if_splits list.splits option.splits)
  then show ?thesis by (intro exI [of _ "[]"]) (simp add: permitted_def bare_calls_def)
next
  case False
  then obtain step remaining dispatch where s: "cv_nlPendingSteps session = step # remaining" "ne_dispatch env = Some dispatch" by (cases "cv_nlPendingSteps session") auto
  let ?st1 = "audit_step env m session step st"
  obtain ans w where d: "dispatch (ns_action step) (ns_command step) (nl_world ?st1) = (ans, w)" by fastforce
  have "calls (nl_world st') = calls w"
    using assms(1) False s d failed_calls [of m session step remaining _ "?st1\<lparr>nl_world := w\<rparr>" r st']
    by (auto simp: handleNLConfirmationResponse_def Let_def step_done_def session_updates split: sum.splits list.splits)
  also have "\<dots> = calls (nl_world st) @ [(ns_action step, ns_command step)]"
    using dispatch_records [OF s(2), of "ns_action step" "ns_command step" "nl_world ?st1"] d by (simp add: audit_step_def audit_silent)
  finally show ?thesis using False assms(2-4) s
    by (intro exI [of _ "[(ns_action step, ns_command step)]"]) (auto simp: permitted_def confirmed_def)
qed

lemma create_calls:
  assumes "handleConfirmationResponse env m session st = (r, st')" "map_of (nl_sessions st) (session_key m) = Some session"
    "me_now m \<le> cv_expiresAt session" "cv_step session = stepAwaitingConfirmation"
  shows "\<exists>new. calls (nl_world st') = calls (nl_world st) @ new \<and> permitted m st new"
proof (cases "says confirmationNegativeWords (me_text m) \<or> \<not> says confirmationPositiveWords (me_text m) \<or> missing_secrets env m (cv_missingSecrets session) st \<noteq> []")
  case True
  then have "calls (nl_world st') = calls (nl_world st) @ []" using assms(1)
    by (auto simp: handleConfirmationResponse_def Let_def session_updates split: if_splits)
  then show ?thesis by (intro exI [of _ "[]"]) (simp add: permitted_def bare_calls_def)
next
  case False
  let ?cmd = "create_command (cv_intent session) (cv_image session)"
  have "nl_world st' = snd (ne_create env ?cmd (nl_world st))" using assms(1) False
    by (auto simp: handleConfirmationResponse_def Let_def split: prod.splits)
  then have "calls (nl_world st') = calls (nl_world st) @ [(''agents.create'', ?cmd)]" by (simp add: create_records)
  then show ?thesis using False assms(2-4)
    by (intro exI [of _ "[(''agents.create'', ?cmd)]"]) (auto simp: permitted_def confirmed_def)
qed

lemma message_calls:
  assumes "HandleNaturalLanguage env m st = (r, st')"
  shows "\<exists>new. calls (nl_world st') = calls (nl_world st) @ new \<and> permitted m st new"
proof -
  have none: "\<exists>new. calls (nl_world st) = calls (nl_world st) @ new \<and> permitted m st new"
    by (intro exI [of _ "[]"]) (simp add: permitted_def bare_calls_def)
  obtain so st1 where g: "get_session m st = (so, st1)" by fastforce
  have w1: "nl_world st1 = nl_world st" using g by (auto simp: get_session_def split: option.splits if_splits)
  show ?thesis
  proof (cases "has_prefix (trim_space (me_text m)) ''/ruriko''")
    case False
    show ?thesis
    proof (cases so)
      case (Some session)
      then have s: "st1 = st" "map_of (nl_sessions st) (session_key m) = Some session" "me_now m \<le> cv_expiresAt session"
        using g by (auto simp: get_session_def split: option.splits if_splits)
      show ?thesis using assms False g Some s create_calls [of m session st r st'] confirm_calls [of m session st r st']
        by (cases "cv_step session") (auto simp: HandleNaturalLanguage_def)
    next
      case None
      obtain po st2 where p: "resolveNLPProvider env m st1 = (po, st2)" by fastforce
      have w2: "nl_world st2 = nl_world st" using resolve_frame [OF p] w1 by simp
      show ?thesis
      proof (cases po)
        case (Some provider)
        have "handleNLClassify env provider m st2 = (r, st')" using assms False g None p Some by (simp add: HandleNaturalLanguage_def)
        then show ?thesis using classify_calls resolve_silent p Some w2 unfolding permitted_def by metis
      next
        case po: None
        then have "nl_world st' = nl_world st" using assms False g None p w2
          by (auto simp: HandleNaturalLanguage_def dest!: keyword_world split: option.splits)
        then show ?thesis using none by simp
      qed
    qed
  qed (use assms none in \<open>auto simp: HandleNaturalLanguage_def\<close>)
qed

end

subsection \<open>Conversations\<close>

definition lift_provider :: "'s provider \<Rightarrow> ('s \<times> call list) provider" where
  "lift_provider p req wl = (case p req (fst wl) of (r, w) \<Rightarrow> (r, (w, snd wl)))"

definition lift_memory :: "'s NlMemory \<Rightarrow> ('s \<times> call list) NlMemory" where
  "lift_memory mem = \<lparr>nm_recorder = map_option (map_option (\<lambda>rec room sender role content wl. case rec room sender role content (fst wl) of
       (sealed, w) \<Rightarrow> (sealed, (w, snd wl)))) (nm_recorder mem),
     nm_seal = (\<lambda>i wl. (nm_seal mem i (fst wl), snd wl)), nm_assemble = (\<lambda>room sender txt wl. nm_assemble mem room sender txt (fst wl))\<rparr>"

text \<open>An environment whose world also holds the commands that were run.\<close>

definition logged :: "'s NlEnv \<Rightarrow> ('s \<times> call list) NlEnv" where
  "logged env = \<lparr>ne_wide = ne_wide env, ne_db = (\<lambda>wl. ne_db env (fst wl)), ne_put = (\<lambda>db wl. (ne_put env db (fst wl), snd wl)),
     ne_hasStore = ne_hasStore env, ne_hasSecrets = ne_hasSecrets env, ne_hasConfig = ne_hasConfig env, ne_unseal = ne_unseal env,
     ne_masterKey = ne_masterKey env, ne_templates = ne_templates env,
     ne_dispatch = map_option (\<lambda>d action cmd wl. case d action cmd (fst wl) of (r, w) \<Rightarrow> (r, (w, snd wl @ [(action, cmd)]))) (ne_dispatch env),
     ne_create = (\<lambda>cmd wl. case ne_create env cmd (fst wl) of (r, w) \<Rightarrow> (r, (w, snd wl @ [(''agents.create'', cmd)]))),
     ne_static = map_option lift_provider (ne_static env), ne_new = (\<lambda>key. lift_provider (ne_new env key)), ne_envAPIKey = ne_envAPIKey env,
     ne_memory = map_option lift_memory (ne_memory env), ne_fallback = ne_fallback env, ne_defaultImage = ne_defaultImage env, ne_help = ne_help env,
     ne_marshal = ne_marshal env\<rparr>"

interpretation log: recording "logged env" snd for env
proof
  show "ne_dispatch (logged env) = Some dispatch \<Longrightarrow> snd (snd (dispatch action cmd w)) = snd w @ [(action, cmd)]" for dispatch action cmd w
    by (auto simp: logged_def split: prod.splits)
  show "snd (snd (ne_create (logged env) cmd w)) = snd w @ [(''agents.create'', cmd)]" for cmd w
    by (simp add: logged_def split: prod.split)
  show "snd (snd (ne_new (logged env) key req w)) = snd w" for key req w
    by (simp add: logged_def lift_provider_def split: prod.split)
  show "ne_static (logged env) = Some p \<Longrightarrow> snd (snd (p req w)) = snd w" for p req w
    by (auto simp: logged_def lift_provider_def split: prod.split)
  show "snd (ne_put (logged env) db w) = snd w" for db w by (simp add: logged_def)
  show "ne_memory (logged env) = Some mem \<Longrightarrow> nm_recorder mem = Some (Some rec) \<Longrightarrow> snd (snd (rec room sender role content w)) = snd w"
    for mem rec room sender role content w by (auto simp: logged_def lift_memory_def split: prod.split)
  show "ne_memory (logged env) = Some mem \<Longrightarrow> snd (nm_seal mem i w) = snd w" for mem i w by (auto simp: logged_def lift_memory_def)
qed

record exchange =
  ex_message :: Message
  ex_reply :: "string + string"
  ex_calls :: "call list"

fun converse :: "'s NlEnv \<Rightarrow> Message list \<Rightarrow> ('s \<times> call list) NlState \<Rightarrow> exchange list \<times> ('s \<times> call list) NlState" where
  "converse env [] st = ([], st)"
| "converse env (m # ms) st = (case HandleNaturalLanguage (logged env) m st of (r, st') \<Rightarrow>
     (case converse env ms st' of (xs, st'') \<Rightarrow>
        (\<lparr>ex_message = m, ex_reply = r, ex_calls = drop (length (snd (nl_world st))) (snd (nl_world st'))\<rparr> # xs, st'')))"

text \<open>A reply that tells the reader which command is proposed.\<close>

definition proposes :: "exchange \<Rightarrow> call \<Rightarrow> bool" where
  "proposes x call \<longleftrightarrow> (\<exists>t. ex_reply x = Inr t \<and> (shows_step t (fst call) (snd call) \<or>
     (\<exists>intent missing img. call = (''agents.create'', create_command intent img) \<and> t = buildConfirmationPrompt intent missing img)))"

definition proposed_call :: "conversationSession \<Rightarrow> call option" where
  "proposed_call s = (case cv_step s of
       stepNLAwaitingConfirmation \<Rightarrow> (case cv_nlPendingSteps s of step # _ \<Rightarrow> Some (ns_action step, ns_command step) | [] \<Rightarrow> None)
     | stepAwaitingConfirmation \<Rightarrow> Some (''agents.create'', create_command (cv_intent s) (cv_image s)))"

definition waiting_ok :: "exchange list \<Rightarrow> 's NlState \<Rightarrow> bool" where
  "waiting_ok past st \<longleftrightarrow> (\<forall>k s. map_of (nl_sessions st) k = Some s \<longrightarrow>
     (\<exists>call. proposed_call s = Some call \<and> (\<exists>y \<in> set past. session_key (ex_message y) = k \<and> proposes y call)))"

lemma announced_proposes:
  assumes "announced r old s" "ex_reply x = r"
  shows "(\<exists>call. proposed_call s = Some call \<and> proposes x call) \<or> (\<exists>o'. old = Some o' \<and> proposed_call o' = proposed_call s)"
proof (cases "cv_step s")
  case stepNLAwaitingConfirmation
  then show ?thesis using assms by (auto simp: announced_def proposed_call_def proposes_def)
next
  case stepAwaitingConfirmation
  then have "(\<exists>missing. r = Inr (buildConfirmationPrompt (cv_intent s) missing (cv_image s))) \<or>
      (\<exists>o'. old = Some o' \<and> cv_step o' = stepAwaitingConfirmation \<and> cv_intent o' = cv_intent s \<and> cv_image o' = cv_image s)"
    using assms(1) by (simp add: announced_def)
  then show ?thesis
  proof
    assume "\<exists>missing. r = Inr (buildConfirmationPrompt (cv_intent s) missing (cv_image s))"
    then have "proposes x (''agents.create'', create_command (cv_intent s) (cv_image s))" using assms(2) by (auto simp: proposes_def)
    then show ?thesis using stepAwaitingConfirmation by (simp add: proposed_call_def)
  qed (use stepAwaitingConfirmation in \<open>auto simp: proposed_call_def\<close>)
qed

lemma waiting_step:
  assumes "waiting_ok past st" "HandleNaturalLanguage env m st = (r, st')" "ex_message x = m" "ex_reply x = r"
  shows "waiting_ok (past @ [x]) st'"
  unfolding waiting_ok_def
proof (intro allI impI)
  fix k s assume s: "map_of (nl_sessions st') k = Some s"
  have t: "touches m r st st'" by (rule message_touches [OF assms(2)])
  show "\<exists>call. proposed_call s = Some call \<and> (\<exists>y \<in> set (past @ [x]). session_key (ex_message y) = k \<and> proposes y call)"
  proof (cases "map_of (nl_sessions st) k = Some s")
    case True
    then show ?thesis using assms(1) by (fastforce simp: waiting_ok_def)
  next
    case False
    have k: "k = session_key m" using t s False by (auto simp: touches_def)
    then have "announced r (map_of (nl_sessions st) k) s" using t s False by (auto simp: touches_def)
    from announced_proposes [OF this assms(4)] show ?thesis
    proof
      assume "\<exists>call. proposed_call s = Some call \<and> proposes x call"
      then show ?thesis using k assms(3) by auto
    next
      assume "\<exists>o'. map_of (nl_sessions st) k = Some o' \<and> proposed_call o' = proposed_call s"
      then obtain o' where o': "map_of (nl_sessions st) k = Some o'" "proposed_call o' = proposed_call s" by blast
      then obtain call y where "proposed_call o' = Some call" "y \<in> set past" "session_key (ex_message y) = k" "proposes y call"
        using assms(1) unfolding waiting_ok_def by blast
      then show ?thesis using o'(2) by auto
    qed
  qed
qed

lemma confirmed_proposed: "confirmed m st call \<Longrightarrow> \<exists>s. map_of (nl_sessions st) (session_key m) = Some s \<and> proposed_call s = Some call"
  by (auto simp: confirmed_def proposed_call_def split: conversationStep.splits list.splits)

definition confirmed_exchange :: "exchange list \<Rightarrow> exchange \<Rightarrow> bool" where
  "confirmed_exchange past x \<longleftrightarrow> bare_calls (ex_calls x) \<or>
     (\<exists>call. ex_calls x = [call] \<and> says confirmationPositiveWords (me_text (ex_message x)) \<and> \<not> says confirmationNegativeWords (me_text (ex_message x)) \<and>
        (\<exists>y \<in> set past. session_key (ex_message y) = session_key (ex_message x) \<and> proposes y call))"

lemma converse_confirmed:
  assumes "converse env ms st = (xs, st')" "waiting_ok past st" "xs = before @ x # after"
  shows "confirmed_exchange (past @ before) x"
  using assms
proof (induction ms arbitrary: st xs past before)
  case (Cons m ms)
  obtain r st1 where h: "HandleNaturalLanguage (logged env) m st = (r, st1)" by fastforce
  obtain ys where ys: "converse env ms st1 = (ys, st')" "xs = \<lparr>ex_message = m, ex_reply = r, ex_calls = drop (length (snd (nl_world st))) (snd (nl_world st1))\<rparr> # ys"
    using Cons.prems(1) h by (auto split: prod.splits)
  let ?x = "\<lparr>ex_message = m, ex_reply = r, ex_calls = drop (length (snd (nl_world st))) (snd (nl_world st1))\<rparr>"
  show ?case
  proof (cases before)
    case Nil
    then have x: "x = ?x" using Cons.prems(3) ys(2) by simp
    obtain new where new: "snd (nl_world st1) = snd (nl_world st) @ new" "permitted m st new" using log.message_calls [OF h] by blast
    show ?thesis
    proof (cases "bare_calls new")
      case False
      then obtain call where c: "new = [call]" "confirmed m st call" using new(2) by (auto simp: permitted_def)
      then obtain s where "map_of (nl_sessions st) (session_key m) = Some s" "proposed_call s = Some call" using confirmed_proposed by blast
      then have "\<exists>y \<in> set past. session_key (ex_message y) = session_key m \<and> proposes y call" using Cons.prems(2) by (fastforce simp: waiting_ok_def)
      then show ?thesis using c x new(1) Nil by (auto simp: confirmed_exchange_def confirmed_def)
    qed (use x new(1) in \<open>simp add: confirmed_exchange_def\<close>)
  next
    case (Cons b before')
    then have "ys = before' @ x # after" "b = ?x" using Cons.prems(3) ys(2) by auto
    moreover have "waiting_ok (past @ [?x]) st1" using waiting_step [OF Cons.prems(2) h, of ?x] by simp
    ultimately show ?thesis using Cons.IH [OF ys(1)] \<open>before = b # before'\<close> by fastforce
  qed
qed simp

text \<open>A chat with a model that proposes to delete an agent.\<close>

definition chat_env :: "Db provider \<Rightarrow> Db NlEnv" where
  "chat_env p = \<lparr>ne_wide = (\<lambda>r. False), ne_db = (\<lambda>w. w), ne_put = (\<lambda>db w. db), ne_hasStore = True, ne_hasSecrets = False, ne_hasConfig = False,
     ne_unseal = sample_open, ne_masterKey = sample_key, ne_templates = None, ne_dispatch = Some (\<lambda>a c w. (Inr ''done'', w)),
     ne_create = (\<lambda>c w. (Inr ''created'', w)), ne_static = None, ne_new = (\<lambda>key. p), ne_envAPIKey = ''key'', ne_memory = None, ne_fallback = True,
     ne_defaultImage = [], ne_help = ''help'', ne_marshal = (\<lambda>g. Inr ''{}'')\<rparr>"

definition say :: "string \<Rightarrow> gotime \<Rightarrow> Message" where
  "say txt now = \<lparr>me_room = ''!r'', me_sender = ''@o'', me_text = txt, me_now = now, me_later = now, me_traceID = ''t'', me_agents = None,
     me_meta = (\<lambda>n. None), me_secret = None, me_model = None, me_endpoint = None, me_audit = None\<rparr>"

definition chat_start :: "(Db \<times> call list) NlState" where
  "chat_start = \<lparr>nl_sessions = [], nl_history = [], nl_limiter = None, nl_budget = None, nl_health = nlpHealthOK, nl_cache = None, nl_world = (empty_db, [])\<rparr>"

definition delete_model :: "Db provider" where
  "delete_model req w = (Inr (zero_response\<lparr>cp_Intent := ''command'', cp_Action := ''agents.delete'', cp_Args := [''Kairo''],
     cp_Flags := [(''_approved'', ''true'')], cp_Confidence := Dec 9 (-1)\<rparr>), w)"

definition sample_chat :: "Db provider \<Rightarrow> exchange list" where
  "sample_chat p = fst (converse (chat_env p) [say ''remove kairo'' 1, say ''yes'' 2] chat_start)"

lemma sample_chat_split: "sample_chat p = [sample_chat p ! 0] @ sample_chat p ! 1 # []"
proof -
  have "length (sample_chat p) = 2" by (simp add: sample_chat_def split: prod.splits)
  then show ?thesis by (auto simp: numeral_2_eq_2 length_Suc_conv)
qed

lemma sample_converse: "converse (chat_env p) [say ''remove kairo'' 1, say ''yes'' 2] chat_start =
    (sample_chat p, snd (converse (chat_env p) [say ''remove kairo'' 1, say ''yes'' 2] chat_start))"
  unfolding sample_chat_def by (rule prod.collapse [symmetric])

subsection \<open>Bounds of the state\<close>

definition history_ok :: "'s NlState \<Rightarrow> bool" where
  "history_ok st \<longleftrightarrow> (\<forall>k h. map_of (nl_history st) k = Some h \<longrightarrow> length h \<le> nlHistoryFallbackMaxMessages)"

lemma append_history_ok: "history_ok st \<Longrightarrow> history_ok (append_history m role c st)"
  by (auto simp: history_ok_def append_history_def Let_def update_conv' split: if_splits)

lemma history_frames [simp]:
  "history_ok (st\<lparr>nl_world := w\<rparr>) = history_ok st" "history_ok (st\<lparr>nl_health := hs\<rparr>) = history_ok st" "history_ok (st\<lparr>nl_cache := ca\<rparr>) = history_ok st"
  "history_ok (st\<lparr>nl_limiter := l\<rparr>) = history_ok st" "history_ok (st\<lparr>nl_budget := b\<rparr>) = history_ok st" "history_ok (set_session m s st) = history_ok st"
  "history_ok (delete_session m st) = history_ok st" "history_ok (write_audit env m a t r p st) = history_ok st" "history_ok (audit_step env m se sp st) = history_ok st"
  by (simp_all add: history_ok_def set_session_def delete_session_def write_audit_def audit_step_def)

lemma record_history_ok: "history_ok st \<Longrightarrow> history_ok (recordAssistantMessage env m c st)"
  by (auto simp: recordAssistantMessage_def Let_def append_history_ok split: option.split)

lemma remember_history_ok: "remember_message env m st = (h, st') \<Longrightarrow> history_ok st \<Longrightarrow> history_ok st'"
  by (auto simp: remember_message_def Let_def append_history_ok split: option.splits if_splits)

lemma resolve_history_ok: "resolveNLPProvider env m st = (p, st') \<Longrightarrow> history_ok st' = history_ok st"
  by (auto simp: resolveNLPProvider_def Let_def split: if_splits prod.splits)

lemma requery_history_ok: "requeryFailedNLStep env m s step e st = (r, st') \<Longrightarrow> history_ok st' = history_ok st"
  by (auto simp: requeryFailedNLStep_def Let_def dest!: resolve_history_ok split: prod.splits option.splits sum.splits)

lemma keyword_history_ok: "handleKeywordIntent env tm m st = (r, st') \<Longrightarrow> history_ok st' = history_ok st"
  by (auto simp: handleKeywordIntent_def Let_def split: option.splits sum.splits if_splits)

lemma route_history_ok: "route_response env m resp st = (r, st') \<Longrightarrow> history_ok st \<Longrightarrow> history_ok st'"
  by (auto simp: route_response_def record_reply_def handleNLReadQueries_def handleNLCommandIntent_def Let_def record_history_ok
      split: if_splits option.splits prod.splits)

lemma classify_history_ok:
  assumes "handleNLClassify env provider m st = (r, st')" "history_ok st"
  shows "history_ok st'"
  using assms
  by (auto simp: handleNLClassify_def Let_def dest!: keyword_history_ok route_history_ok remember_history_ok
      split: if_splits option.splits prod.splits sum.splits nlp_error.splits)

lemma message_history_ok: "HandleNaturalLanguage env m st = (r, st') \<Longrightarrow> history_ok st \<Longrightarrow> history_ok st'"
proof -
  assume h: "HandleNaturalLanguage env m st = (r, st')" "history_ok st"
  obtain so st1 where g: "get_session m st = (so, st1)" by fastforce
  have ok: "history_ok st1" using g h(2) by (auto simp: get_session_def history_ok_def split: option.splits if_splits)
  obtain po st2 where p: "resolveNLPProvider env m st1 = (po, st2)" by fastforce
  have fails: "history_ok st'" if "step_failed env m s sp rest e st3 = (r, st')" "history_ok st3" for s sp rest e st3
    using that by (auto simp: step_failed_def Let_def dest!: requery_history_ok split: if_splits prod.splits sum.splits)
  have dones: "history_ok st'" if "step_done m s rest res st3 = (r, st')" "history_ok st3" for s rest res st3
    using that by (auto simp: step_done_def split: list.splits)
  have conf: "history_ok st'" if "handleNLConfirmationResponse env m s st1 = (r, st')" for s
    using that ok by (auto simp: handleNLConfirmationResponse_def Let_def dest!: fails dones split: if_splits list.splits option.splits prod.splits sum.splits)
  have create: "history_ok st'" if "handleConfirmationResponse env m s st1 = (r, st')" for s
    using that ok by (auto simp: handleConfirmationResponse_def Let_def split: if_splits prod.splits)
  show ?thesis using h g p ok resolve_history_ok [OF p]
    by (auto simp: HandleNaturalLanguage_def dest!: keyword_history_ok intro: conf create classify_history_ok split: if_splits option.splits conversationStep.splits)
qed

definition sessions_ok :: "'s NlState \<Rightarrow> bool" where
  "sessions_ok st \<longleftrightarrow> (\<forall>k s. map_of (nl_sessions st) k = Some s \<longrightarrow> settled s)"

lemma message_sessions_ok: "HandleNaturalLanguage env m st = (r, st') \<Longrightarrow> sessions_ok st \<Longrightarrow> sessions_ok st'"
proof -
  assume h: "HandleNaturalLanguage env m st = (r, st')" and ok: "sessions_ok st"
  have "settled s" if s: "map_of (nl_sessions st') k = Some s" for k s
  proof (cases "map_of (nl_sessions st) k = Some s")
    case False
    have t: "touches m r st st'" by (rule message_touches [OF h])
    then have "k = session_key m" using s False by (auto simp: touches_def)
    then have "announced r (map_of (nl_sessions st) k) s" using t s False by (auto simp: touches_def)
    then show ?thesis using ok by (auto simp: announced_def sessions_ok_def)
  qed (use ok in \<open>auto simp: sessions_ok_def\<close>)
  then show ?thesis by (simp add: sessions_ok_def)
qed

interpretation chat: invariant_system "HandleNaturalLanguage env" "\<lambda>st. sessions_ok st \<and> history_ok st" for env
  by unfold_locales (metis message_sessions_ok message_history_ok prod.collapse)

text \<open>over any sequence of messages every open session stays well formed: it has a step to run, no more steps than it began with and at most two
  corrections behind it, or it is a plan for an agent with a valid name; and no history grows beyond twenty messages.\<close>

theorem chat_state_bounded:
  assumes "nl_sessions st = []" "nl_history st = []"
  shows "sessions_ok (run_state (HandleNaturalLanguage env) ms st) \<and> history_ok (run_state (HandleNaturalLanguage env) ms st)"
  by (rule chat.run_keeps) (simp add: assms sessions_ok_def history_ok_def)

theorem chat_state_bounded_witness:
  "sessions_ok (run_state (HandleNaturalLanguage (logged (chat_env delete_model))) [say ''remove kairo'' 1] chat_start) \<and>
     length (nl_sessions (run_state (HandleNaturalLanguage (logged (chat_env delete_model))) [say ''remove kairo'' 1] chat_start)) = 1"
proof
  show "sessions_ok (run_state (HandleNaturalLanguage (logged (chat_env delete_model))) [say ''remove kairo'' 1] chat_start)"
    by (rule conjunct1 [OF chat_state_bounded]) (simp_all add: chat_start_def)
qed code_simp

subsection \<open>Internal flags\<close>

definition session_free :: "conversationSession \<Rightarrow> bool" where
  "session_free s \<longleftrightarrow> (\<forall>step \<in> set (cv_nlPendingSteps s). internal_free (cm_Flags (ns_command step)))"

definition sessions_free :: "'s NlState \<Rightarrow> bool" where
  "sessions_free st \<longleftrightarrow> (\<forall>k s. map_of (nl_sessions st) k = Some s \<longrightarrow> session_free s)"

text \<open>A model whose answers carry no internal flags, such as one behind the classifier.\<close>

definition clean_provider :: "'s provider \<Rightarrow> bool" where
  "clean_provider p \<longleftrightarrow> (\<forall>req w resp w'. p req w = (Inr resp, w') \<longrightarrow> response_clean resp)"

lemma Classify_clean: "clean_provider (Classify p keys)"
  by (auto simp: clean_provider_def Classify_def check_response_clean split: prod.splits sum.splits)

definition clean_env :: "'s NlEnv \<Rightarrow> bool" where
  "clean_env env \<longleftrightarrow> (\<forall>key. clean_provider (ne_new env key)) \<and> (\<forall>p. ne_static env = Some p \<longrightarrow> clean_provider p)"

lemma free_updates:
  "sessions_free st \<Longrightarrow> sessions_free (delete_session m st)" "sessions_free st \<Longrightarrow> session_free s \<Longrightarrow> sessions_free (set_session m s st)"
  by (auto simp: sessions_free_def session_updates)

lemma free_frame [simp]: "sessions_free (audit_step env m se sp st) = sessions_free st" "sessions_free (st\<lparr>nl_world := w\<rparr>) = sessions_free st"
  by (simp_all add: sessions_free_def)

lemma resolve_provider: "resolveNLPProvider env m st = (Some p, st') \<Longrightarrow> ne_static env = Some p \<or> (\<exists>key. p = ne_new env key)"
  by (cases "resolveNLPConfig env m (nl_world st)") (auto simp: resolveNLPProvider_def Let_def split: if_splits)

lemma resolve_clean: "resolveNLPProvider env m st = (Some p, st') \<Longrightarrow> clean_env env \<Longrightarrow> clean_provider p"
  using resolve_provider [of env m st p st'] unfolding clean_env_def by blast

lemma keyword_free: "handleKeywordIntent env tm m st = (r, st') \<Longrightarrow> sessions_free st \<Longrightarrow> sessions_free st'"
  by (auto simp: handleKeywordIntent_def Let_def session_free_def intro!: free_updates(2) split: option.splits sum.splits if_splits)

lemma route_free: "route_response env m resp st = (r, st') \<Longrightarrow> response_clean resp \<Longrightarrow> sessions_free st \<Longrightarrow> sessions_free st'"
proof -
  assume h: "route_response env m resp st = (r, st')" "response_clean resp" "sessions_free st"
  obtain q1 st1 where c: "handleNLCommandIntent env m resp st = (q1, st1)" by fastforce
  have cf: "sessions_free st1" using c h(3) steps_free [OF h(2)]
    by (auto simp: handleNLCommandIntent_def Let_def session_free_def intro!: free_updates(2) split: if_splits option.splits)
  obtain q2 st2 where d: "handleNLReadQueries env m resp st = (q2, st2)" by fastforce
  have df: "sessions_free st2" using d h(3) by (auto simp: handleNLReadQueries_def sessions_free_def split: option.splits prod.splits)
  have rec: "sessions_free st'" if "record_reply env m (q, st3) = (r, st')" "sessions_free st3" for q st3
    using that by (auto simp: record_reply_def sessions_free_def split: sum.splits if_splits)
  show ?thesis using h(1,3) cf df by (auto simp: route_response_def c d intro: rec split: if_splits)
qed

lemma classify_free:
  assumes "handleNLClassify env provider m st = (r, st')" "clean_provider provider" "sessions_free st"
  shows "sessions_free st'"
  using assms(1)
proof (cases rule: classify_cases)
  case stopped
  then show ?thesis using assms(3) by (simp add: sessions_free_def)
next
  case (answered resp st5 req w w')
  then show ?thesis using route_free [OF answered(2)] assms(2,3) by (auto simp: clean_provider_def sessions_free_def)
next
  case (fallback tm st5)
  then show ?thesis using keyword_free [OF fallback(1)] assms(3) by (simp add: sessions_free_def)
qed

lemma requery_free:
  "requeryFailedNLStep env m s step e st = (Inr step', st') \<Longrightarrow> clean_env env \<Longrightarrow> internal_free (cm_Flags (ns_command step'))"
proof -
  assume h: "requeryFailedNLStep env m s step e st = (Inr step', st')" "clean_env env"
  obtain po st1 where p: "resolveNLPProvider env m st = (po, st1)" by fastforce
  show ?thesis
  proof (cases po)
    case (Some provider)
    obtain req w resp w' where a: "provider req w = (Inr resp, w')" "correctedStepFromClassifyResponse resp (ns_action step) = Inr step'"
      using h(1) p Some by (auto simp: requeryFailedNLStep_def split: prod.splits sum.splits)
    have "response_clean resp" using resolve_clean [of env m st provider st1] p Some h(2) a(1) unfolding clean_provider_def by blast
    then show ?thesis using a(2) by (rule corrected_free)
  qed (use h p in \<open>auto simp: requeryFailedNLStep_def\<close>)
qed

lemma confirm_free:
  assumes "handleNLConfirmationResponse env m session st = (r, st')" "sessions_free st" "session_free session" "clean_env env"
  shows "sessions_free st'"
proof (cases "says confirmationNegativeWords (me_text m) \<or> \<not> says confirmationPositiveWords (me_text m) \<or> cv_nlPendingSteps session = [] \<or> ne_dispatch env = None")
  case True
  then show ?thesis using assms(1,2)
    by (auto simp: handleNLConfirmationResponse_def Let_def intro: free_updates split: if_splits list.splits option.splits)
next
  case False
  then obtain step remaining dispatch where s: "cv_nlPendingSteps session = step # remaining" "ne_dispatch env = Some dispatch" by (cases "cv_nlPendingSteps session") auto
  let ?st1 = "audit_step env m session step st"
  obtain ans w where d: "dispatch (ns_action step) (ns_command step) (nl_world ?st1) = (ans, w)" by fastforce
  let ?st2 = "?st1\<lparr>nl_world := w\<rparr>"
  have free2: "sessions_free ?st2" using assms(2) by (simp add: sessions_free_def)
  show ?thesis
  proof (cases ans)
    case (Inr result)
    then have "step_done m session remaining result ?st2 = (r, st')" using assms(1) False s d by (simp add: handleNLConfirmationResponse_def Let_def)
    then show ?thesis using free2 assms(3) s(1) by (auto simp: step_done_def session_free_def intro!: free_updates split: list.splits)
  next
    case (Inl err)
    then have f: "step_failed env m session step remaining err ?st2 = (r, st')" using assms(1) False s d by (simp add: handleNLConfirmationResponse_def Let_def)
    obtain q st3 where q: "requeryFailedNLStep env m session step err ?st2 = (q, st3)" by fastforce
    have "sessions_free st3" using requery_frame [OF q] free2 by (simp add: sessions_free_def)
    then show ?thesis using f q free2 requery_free [of env m session step err ?st2 _ st3] assms(3,4) s(1)
      by (cases q) (auto simp: step_failed_def Let_def session_free_def intro!: free_updates split: if_splits)
  qed
qed

lemma message_free:
  assumes "HandleNaturalLanguage env m st = (r, st')" "sessions_free st" "clean_env env"
  shows "sessions_free st'"
proof -
  obtain so st1 where g: "get_session m st = (so, st1)" by fastforce
  have f1: "sessions_free st1" using g assms(2) free_updates(1) [OF assms(2), of m]
    by (auto simp: get_session_def delete_session_def split: option.splits if_splits)
  obtain po st2 where p: "resolveNLPProvider env m st1 = (po, st2)" by fastforce
  have f2: "sessions_free st2" using resolve_frame [OF p] f1 by (simp add: sessions_free_def)
  show ?thesis
  proof (cases "has_prefix (trim_space (me_text m)) ''/ruriko'' \<or> so \<noteq> None")
    case True
    have sf: "session_free s" if "so = Some s" for s using g assms(2) that by (auto simp: get_session_def sessions_free_def split: option.splits if_splits)
    have create: "sessions_free st'" if "handleConfirmationResponse env m s st1 = (r, st')" "session_free s" for s
      using that f1 by (auto simp: handleConfirmationResponse_def Let_def session_free_def intro!: free_updates split: if_splits prod.splits)
    show ?thesis using assms True g sf confirm_free [OF _ f1 sf assms(3)] create
      by (auto simp: HandleNaturalLanguage_def split: if_splits option.splits conversationStep.splits)
  next
    case False
    then show ?thesis using assms(1) g p f2 classify_free keyword_free resolve_clean [of env m st1 _ st2] assms(3)
      by (auto simp: HandleNaturalLanguage_def split: option.splits)
  qed
qed

end
