(* ===== verification/State_Lifting.thy ===== *)
theory State_Lifting
  imports "HOL-Library.State_Monad"
begin

section \<open>Relations kept by stateful computations\<close>

text \<open>
  Handlers and tools are computations of the state monad.  A relation between states that is reflexive and transitive, and that every single
  action keeps, is kept by what is composed of them; one rule per construct of the programs.
\<close>

locale state_relation =
  fixes R :: "'s \<Rightarrow> 's \<Rightarrow> bool"
  assumes R_refl: "R s s"
    and R_trans: "R s t \<Longrightarrow> R t u \<Longrightarrow> R s u"
begin

lemma io_return: "state_io_rel R (State_Monad.return x)"
  by (simp add: state_io_rel_def R_refl)

lemma io_bind_result:
  assumes "state_io_rel R m" "\<And>x. x \<in> set_state m \<Longrightarrow> state_io_rel R (f x)"
  shows "state_io_rel R (State_Monad.bind m f)"
proof (rule state_io_relI)
  fix y s s' assume "State_Monad.run_state (State_Monad.bind m f) s = (y, s')"
  then obtain x t where m: "State_Monad.run_state m s = (x, t)" and f: "State_Monad.run_state (f x) t = (y, s')"
    by (auto split: prod.splits)
  from m have "x \<in> set_state m" by (auto simp: set_state_iff)
  from state_io_relD [OF assms(2) [OF this] f] state_io_relD [OF assms(1) m] show "R s s'" by (rule R_trans [rotated])
qed

lemma io_bind: "state_io_rel R m \<Longrightarrow> (\<And>x. state_io_rel R (f x)) \<Longrightarrow> state_io_rel R (State_Monad.bind m f)"
  by (rule io_bind_result)

lemma io_traverse: "(\<And>x. state_io_rel R (f x)) \<Longrightarrow> state_io_rel R (State_Monad.traverse_list f xs)"
  by (induction xs) (auto intro: io_bind io_return)

end

lemma io_if: "(b \<Longrightarrow> state_io_rel R m) \<Longrightarrow> (\<not> b \<Longrightarrow> state_io_rel R n) \<Longrightarrow> state_io_rel R (if b then m else n)"
  by simp

lemma io_sum: "(\<And>x. r = Inl x \<Longrightarrow> state_io_rel R (f x)) \<Longrightarrow> (\<And>y. r = Inr y \<Longrightarrow> state_io_rel R (g y)) \<Longrightarrow>
    state_io_rel R (case r of Inl x \<Rightarrow> f x | Inr y \<Rightarrow> g y)"
  by (cases r) simp_all

lemma io_option: "(r = None \<Longrightarrow> state_io_rel R n) \<Longrightarrow> (\<And>y. r = Some y \<Longrightarrow> state_io_rel R (g y)) \<Longrightarrow>
    state_io_rel R (case r of None \<Rightarrow> n | Some y \<Rightarrow> g y)"
  by (cases r) simp_all

lemma io_prod: "(\<And>x y. r = (x, y) \<Longrightarrow> state_io_rel R (f x y)) \<Longrightarrow> state_io_rel R (case r of (x, y) \<Rightarrow> f x y)"
  by (cases r) simp

lemma io_let: "(\<And>x. x = t \<Longrightarrow> state_io_rel R (f x)) \<Longrightarrow> state_io_rel R (let x = t in f x)"
  by (simp add: Let_def)

end
