(* ===== verification/Control_Plane.thy ===== *)
theory Control_Plane
  imports Ruriko_Approvals Distributor Reconciler Kuze_Server State_Lifting
begin

section \<open>The state of the command handlers\<close>

text \<open>
  What the handlers of \<^verbatim>\<open>internal/ruriko/commands\<close> work on, and the monad they are written in.  A handler is a computation on the state of the
  control plane: the approvals, the database, the operations that reached containers, accounts and rooms, and the world behind the parameters.
  The environment is the configuration of \<^verbatim>\<open>Handlers\<close> (\<^verbatim>\<open>handlers.go\<close>) and the outside: each statement on the database asks it for the failure of
  the driver and for the time, so that every error path can be taken.  YAML, JSON, SHA-256, the container runtime, the provisioning of
  Matrix accounts and the text of an error are fields of the environment.
  A reply is the name of its fixed text and the values that are formatted into it; a time among them is written as RFC 3339.

  The locale \<open>state_relation\<close> carries a reflexive and transitive relation over a computation.  It is interpreted on the steps of the control
  plane with labels from a given set, the footprint of a computation: what a computation can change is a matter of the labels of its statements.
\<close>

subsection \<open>State and environment\<close>

record AgentSpec =
  as_ID :: string
  as_DisplayName :: string
  as_Image :: string
  as_Template :: string
  as_Env :: "(string \<times> string) list"
  as_RestartPolicy :: string

text \<open>The arguments of the provisioning pipeline (\<^verbatim>\<open>provision.go\<close>), which runs in the background.\<close>

record provisionArgs =
  pv_agentID :: string
  pv_template :: string
  pv_displayName :: string
  pv_peerAlias :: string
  pv_peerMXID :: string
  pv_peerRoom :: string
  pv_peerProtocolID :: string
  pv_peerProtocolPrefix :: string
  pv_handle :: AgentHandle
  pv_controlURL :: string
  pv_acpToken :: string
  pv_roomID :: string
  pv_operatorMXID :: string
  pv_traceID :: string

record TemplateVars =
  tv_AgentName :: string
  tv_DisplayName :: string
  tv_AdminRoom :: string
  tv_AgentMXID :: string
  tv_UserRoom :: string
  tv_KairoAdminRoom :: string
  tv_KumoAdminRoom :: string
  tv_OperatorMXID :: string
  tv_PeerAlias :: string
  tv_PeerMXID :: string
  tv_PeerRoom :: string
  tv_PeerProtocolID :: string
  tv_PeerProtocolPrefix :: string

text \<open>What reaches the outside: containers, accounts, the notifier, notices in rooms, and the requests that change an agent or the token server.\<close>

datatype plane_op =
    Spawned AgentSpec
  | Started string
  | Stopped string
  | Restarted string
  | Deleted string
  | Registered string
  | Invited string
  | Kicked string
  | Deactivated string bool
  | Notified string string string
  | Noticed string string "string list"
  | Launched provisionArgs
  | Linked string
  | Replied string string
  | Posted string string string
  | ConfigPushed string GosutoVersion
  | SecretsPushed string
  | TaskCancelled string
  | ToolCalled string string

record 'w Plane =
  pl_db :: Db
  pl_ops :: "plane_op list"
  pl_world :: 'w

type_synonym 'w control = "'w Plane Ruriko_Approvals.Handlers"

type_synonym ('w, 'a) plane = "('w control, 'a) state"

datatype failure =
    InDatabase store_error
  | InSecrets secrets_error
  | InClient "client_error list"
  | InConfig parse_error
  | InDistributor dist_error
  | InApprovals approval_error
  | Outside string

datatype handler_error = Plain string | Because string failure

datatype answer = Reply string "string list" | Report string "AgentRow list" "string list" | Pending Approval

text \<open>The answer of \<^verbatim>\<open>/status\<close>: the fields that are read.\<close>

record StatusResponse =
  sr_GosutoHash :: string
  sr_MCPs :: "string list"
  sr_Gateways :: "string list"

record 'w Containers =
  ct_Spawn :: "AgentSpec \<Rightarrow> 'w \<Rightarrow> (string + AgentHandle) \<times> 'w"
  ct_Start :: "AgentHandle \<Rightarrow> 'w \<Rightarrow> string option \<times> 'w"
  ct_Stop :: "AgentHandle \<Rightarrow> 'w \<Rightarrow> string option \<times> 'w"
  ct_Restart :: "AgentHandle \<Rightarrow> 'w \<Rightarrow> string option \<times> 'w"
  ct_Remove :: "AgentHandle \<Rightarrow> 'w \<Rightarrow> string option \<times> 'w"
  ct_Status :: "AgentHandle \<Rightarrow> 'w \<Rightarrow> (string + RuntimeStatus) \<times> 'w"

record 'w Accounts =
  ac_Register :: "string \<Rightarrow> string \<Rightarrow> 'w \<Rightarrow> (string + string \<times> string) \<times> 'w"
  ac_Invite :: "string \<Rightarrow> 'w \<Rightarrow> string list \<times> 'w"
  ac_RemoveFromRooms :: "string \<Rightarrow> 'w \<Rightarrow> string list \<times> 'w"
  ac_Deactivate :: "string \<Rightarrow> bool \<Rightarrow> 'w \<Rightarrow> string option \<times> 'w"

record 'w HEnv =
  hv_fault :: "'w \<Rightarrow> fault \<times> 'w"
  hv_now :: "'w \<Rightarrow> gotime \<times> 'w"
  hv_traceID :: "'w \<Rightarrow> string \<times> 'w"
  hv_rand :: "'w \<Rightarrow> (string + nat list) \<times> 'w"
  hv_approvalIDs :: "'w \<Rightarrow> (nat \<Rightarrow> string + nat list) \<times> 'w"
  hv_getenv :: "string \<Rightarrow> string"
  hv_text :: "failure \<Rightarrow> string"
  hv_json :: "gmap \<Rightarrow> string + string"
  hv_decode :: "string \<Rightarrow> Config option"
  hv_unmarshal :: "string \<Rightarrow> string + Config"
  hv_marshal :: "Config \<Rightarrow> string + string"
  hv_unmarshalInstructions :: "string \<Rightarrow> string + Instructions"
  hv_unmarshalPersona :: "string \<Rightarrow> string + Persona"
  hv_marshalInstructions :: "Instructions \<Rightarrow> string"
  hv_marshalPersona :: "Persona \<Rightarrow> string"
  hv_sha256 :: "string \<Rightarrow> string"
  hv_seal :: aead_seal
  hv_unseal :: aead_open
  hv_masterKey :: "nat list"
  hv_runtime :: "'w Containers option"
  hv_accounts :: "'w Accounts option"
  hv_homeserver :: string
  hv_gate :: "int option"
  hv_params :: "Params \<Rightarrow> string"
  hv_net :: "'w Net"
  hv_before :: "nat \<Rightarrow> client_error option"
  hv_during :: "nat \<Rightarrow> client_error option"
  hv_status :: "string \<Rightarrow> string + StatusResponse"
  hv_templates :: "(string \<Rightarrow> TemplateVars \<Rightarrow> string + string) option"
  hv_gateways :: "string \<Rightarrow> (string \<times> (string \<times> string) list) list"
  hv_waited :: "'w \<Rightarrow> bool \<times> 'w"
  hv_adminRooms :: "string list"
  hv_roomSender :: bool
  hv_configStore :: bool
  hv_distributor :: bool
  hv_distFaults :: "'w \<Rightarrow> dist_faults \<times> 'w"
  hv_issueAgent :: "(string \<Rightarrow> string \<Rightarrow> string \<Rightarrow> string \<Rightarrow> 'w \<Rightarrow> (string + TokenLeaseResult) \<times> 'w) option"
  hv_issueHuman :: "(string \<Rightarrow> string \<Rightarrow> 'w \<Rightarrow> (string + string \<times> gotime) \<times> 'w) option"

subsection \<open>Statements\<close>

definition db_of :: "'w control \<Rightarrow> Db" where
  "db_of s = pl_db (ha_world s)"

definition put_db :: "Db \<Rightarrow> 'w control \<Rightarrow> 'w control" where
  "put_db db s = s\<lparr>ha_world := (ha_world s)\<lparr>pl_db := db\<rparr>\<rparr>"

definition put_world :: "'w \<Rightarrow> 'w control \<Rightarrow> 'w control" where
  "put_world w s = s\<lparr>ha_world := (ha_world s)\<lparr>pl_world := w\<rparr>\<rparr>"

definition add_op :: "plane_op \<Rightarrow> 'w control \<Rightarrow> 'w control" where
  "add_op x s = s\<lparr>ha_world := (ha_world s)\<lparr>pl_ops := pl_ops (ha_world s) @ [x]\<rparr>\<rparr>"

definition on_world :: "('w \<Rightarrow> 'a \<times> 'w) \<Rightarrow> ('w, 'a) plane" where
  "on_world f = State (\<lambda>s. case f (pl_world (ha_world s)) of (x, w) \<Rightarrow> (x, put_world w s))"

definition on_db :: "(Db \<Rightarrow> 'a \<times> Db) \<Rightarrow> ('w, 'a) plane" where
  "on_db f = State (\<lambda>s. case f (db_of s) of (x, db) \<Rightarrow> (x, put_db db s))"

definition note_op :: "plane_op \<Rightarrow> ('w, unit) plane" where
  "note_op x = State (\<lambda>s. ((), add_op x s))"

definition statement :: "'w HEnv \<Rightarrow> (fault \<Rightarrow> gotime \<Rightarrow> Db \<Rightarrow> 'a \<times> Db) \<Rightarrow> ('w, 'a) plane" where
  "statement env f = do { e \<leftarrow> on_world (hv_fault env); now \<leftarrow> on_world (hv_now env); on_db (f e now) }"

definition ask :: "'w HEnv \<Rightarrow> (fault \<Rightarrow> Db \<Rightarrow> 'a) \<Rightarrow> ('w, 'a) plane" where
  "ask env f = do { e \<leftarrow> on_world (hv_fault env); on_db (\<lambda>db. (f e db, db)) }"

definition store_version :: "'w HEnv \<Rightarrow> GosutoVersion \<Rightarrow> ('w, store_error option) plane" where
  "store_version env v = do {
     b \<leftarrow> on_world (hv_fault env); i \<leftarrow> on_world (hv_fault env); u \<leftarrow> on_world (hv_fault env); c \<leftarrow> on_world (hv_fault env);
     now \<leftarrow> on_world (hv_now env);
     on_db (CreateGosutoVersion \<lparr>vf_begin = b, vf_insert = i, vf_update = u, vf_commit = c\<rparr> now v) }"

definition error_text :: "'w HEnv \<Rightarrow> handler_error \<Rightarrow> string" where
  "error_text env e = (case e of Plain s \<Rightarrow> s | Because s f \<Rightarrow> s @ '': '' @ hv_text env f)"

definition write_audit ::
    "'w HEnv \<Rightarrow> string \<Rightarrow> string \<Rightarrow> string \<Rightarrow> string \<Rightarrow> string \<Rightarrow> gmap option \<Rightarrow> string \<Rightarrow> ('w, store_error option) plane"
where
  "write_audit env traceID sender action target result payload msg =
     statement env (\<lambda>e now. WriteAudit e now traceID sender action target result (map_option (hv_json env) payload) msg)"

text \<open>The way most handlers fail: an entry in the audit log, then the error.\<close>

definition audited_error ::
    "'w HEnv \<Rightarrow> string \<Rightarrow> string \<Rightarrow> string \<Rightarrow> string \<Rightarrow> string \<Rightarrow> handler_error \<Rightarrow> ('w, handler_error + answer) plane"
where
  "audited_error env traceID sender action target msg err = do {
     _ \<leftarrow> write_audit env traceID sender action target ''error'' None msg;
     State_Monad.return (Inl err) }"

subsection \<open>The approval gate\<close>

definition approval_gate :: "'w HEnv \<Rightarrow> string \<Rightarrow> string \<Rightarrow> Command \<Rightarrow> string \<Rightarrow> ('w, approval_error + Approval option) plane" where
  "approval_gate env action target cmd sender = do {
     rnd \<leftarrow> on_world (hv_approvalIDs env); e \<leftarrow> on_world (hv_fault env); now \<leftarrow> on_world (hv_now env);
     State (requestApprovalIfNeeded (hv_params env) rnd (\<lambda>_. e) now (case hv_gate env of Some ttl \<Rightarrow> ttl | None \<Rightarrow> 0)
       (hv_gate env \<noteq> None) action target cmd sender) }"

text \<open>The rest of a handler runs only if the gate lets the command through.\<close>

definition behind_gate ::
    "'w HEnv \<Rightarrow> string \<Rightarrow> string \<Rightarrow> Command \<Rightarrow> string \<Rightarrow> ('w, handler_error + answer) plane \<Rightarrow> ('w, handler_error + answer) plane"
where
  "behind_gate env action target cmd sender rest = do {
     r \<leftarrow> approval_gate env action target cmd sender;
     case r of
       Inl e \<Rightarrow> State_Monad.return (Inl (Because ''failed to create approval request'' (InApprovals e)))
     | Inr (Some a) \<Rightarrow> State_Monad.return (Inr (Pending a))
     | Inr None \<Rightarrow> rest }"

subsection \<open>Footprints\<close>

text \<open>The part of the database a statement may change.\<close>

datatype kind =
    KAudit
  | KAgent string
  | KDesired string
  | KProvision string
  | KNewAgent string
  | KDropAgent string
  | KVersion string string
  | KPrune string
  | KSecret string
  | KBinding string
  | KConfig string

definition same_agents_but :: "string \<Rightarrow> Db \<Rightarrow> Db \<Rightarrow> bool" where
  "same_agents_but i db db' \<longleftrightarrow> map an_ID (db_agents db') = map an_ID (db_agents db) \<and>
     (\<forall>j. j \<noteq> i \<longrightarrow> find_agent j db' = find_agent j db)"

definition same_provisioning :: "string \<Rightarrow> Db \<Rightarrow> Db \<Rightarrow> bool" where
  "same_provisioning i db db' \<longleftrightarrow> map_option an_ProvisioningState (find_agent i db') = map_option an_ProvisioningState (find_agent i db)"

definition but_desired :: "AgentRow \<Rightarrow> AgentRow" where
  "but_desired a = a\<lparr>an_DesiredGosutoHash := None, an_UpdatedAt := 0\<rparr>"

definition keeps_tables :: "Db \<Rightarrow> Db \<Rightarrow> bool" where
  "keeps_tables db db' \<longleftrightarrow> db_versions db' = db_versions db \<and> db_secrets db' = db_secrets db \<and> db_bindings db' = db_bindings db \<and>
     db_config db' = db_config db"

fun frame :: "kind \<Rightarrow> Db \<Rightarrow> Db \<Rightarrow> bool" where
  "frame KAudit db db' \<longleftrightarrow> keeps_tables db db' \<and> db_agents db' = db_agents db"
| "frame (KAgent i) db db' \<longleftrightarrow> keeps_tables db db' \<and> same_agents_but i db db' \<and> same_provisioning i db db'"
| "frame (KDesired i) db db' \<longleftrightarrow> keeps_tables db db' \<and> same_agents_but i db db' \<and> same_provisioning i db db' \<and>
     map but_desired (db_agents db') = map but_desired (db_agents db)"
| "frame (KProvision i) db db' \<longleftrightarrow> keeps_tables db db' \<and> same_agents_but i db db'"
| "frame (KNewAgent i) db db' \<longleftrightarrow> keeps_tables db db' \<and> (db_agents db' = db_agents db \<or> (\<exists>a. an_ID a = i \<and> db_agents db' = db_agents db @ [a]))"
| "frame (KDropAgent i) db db' \<longleftrightarrow> db_secrets db' = db_secrets db \<and> db_config db' = db_config db \<and>
     set (db_versions db') \<subseteq> set (db_versions db) \<and> (\<forall>j. j \<noteq> i \<longrightarrow> find_agent j db' = find_agent j db)"
| "frame (KVersion i yaml) db db' \<longleftrightarrow> db_secrets db' = db_secrets db \<and> db_bindings db' = db_bindings db \<and> db_config db' = db_config db \<and>
     same_agents_but i db db' \<and> same_provisioning i db db' \<and>
     (db_versions db' = db_versions db \<or> (\<exists>v. gv_AgentID v = i \<and> gv_YAMLBlob v = yaml \<and> db_versions db' = db_versions db @ [v]))"
| "frame (KPrune i) db db' \<longleftrightarrow> db_secrets db' = db_secrets db \<and> db_bindings db' = db_bindings db \<and> db_config db' = db_config db \<and>
     db_agents db' = db_agents db \<and> set (db_versions db') \<subseteq> set (db_versions db)"
| "frame (KSecret n) db db' \<longleftrightarrow> db_agents db' = db_agents db \<and> db_versions db' = db_versions db \<and> db_config db' = db_config db"
| "frame (KBinding i) db db' \<longleftrightarrow> db_agents db' = db_agents db \<and> db_versions db' = db_versions db \<and> db_config db' = db_config db \<and>
     db_secrets db' = db_secrets db"
| "frame (KConfig k) db db' \<longleftrightarrow> db_agents db' = db_agents db \<and> db_versions db' = db_versions db \<and> db_secrets db' = db_secrets db \<and>
     db_bindings db' = db_bindings db \<and> (\<forall>j. j \<noteq> k \<longrightarrow> map_of (db_config db') j = map_of (db_config db) j)"

datatype label = World | Op plane_op | Gate | Table kind

inductive plane_step :: "label \<Rightarrow> 'w control \<Rightarrow> 'w control \<Rightarrow> bool" where
  step_world: "plane_step World s (put_world w s)"
| step_op: "plane_step (Op x) s (add_op x s)"
| step_gate: "requestApprovalIfNeeded marshal rnd ins now ttl gate action target cmd sender s = (r, s') \<Longrightarrow> plane_step Gate s s'"
| step_expiry: "plane_step Gate s (s\<lparr>ha_rows := snd (CheckExpiry e now (ha_rows s))\<rparr>)"
| step_table: "db_step l (db_of s) db \<Longrightarrow> frame k (db_of s) db \<Longrightarrow> plane_step (Table k) s (put_db db s)"

inductive_cases plane_stepE: "plane_step l s s'"

definition plane_steps :: "label set \<Rightarrow> 'w control \<Rightarrow> 'w control \<Rightarrow> bool" where
  "plane_steps A = (\<lambda>s s'. \<exists>l \<in> A. plane_step l s s')\<^sup>*\<^sup>*"

abbreviation footprint :: "label set \<Rightarrow> ('w, 'a) plane \<Rightarrow> bool" where
  "footprint A m \<equiv> state_io_rel (plane_steps A) m"

interpretation fp: state_relation "plane_steps A" for A :: "label set"
  by unfold_locales (auto simp: plane_steps_def)

lemma plane_steps_step: "l \<in> A \<Longrightarrow> plane_step l s s' \<Longrightarrow> plane_steps A s s'"
  by (auto simp: plane_steps_def)

lemma plane_steps_mono: "plane_steps A s s' \<Longrightarrow> A \<subseteq> B \<Longrightarrow> plane_steps B s s'"
  unfolding plane_steps_def by (induction rule: rtranclp_induct) (auto intro: rtranclp.rtrancl_into_rtrancl)

lemma footprint_mono: "footprint A m \<Longrightarrow> A \<subseteq> B \<Longrightarrow> footprint B m"
  by (auto simp: state_io_rel_def intro: plane_steps_mono)

subsection \<open>Rules for footprints\<close>

lemma footprint_on_world: "World \<in> A \<Longrightarrow> footprint A (on_world f)"
  by (auto simp: state_io_rel_def on_world_def split: prod.splits intro: plane_steps_step step_world)

lemma footprint_note_op: "Op x \<in> A \<Longrightarrow> footprint A (note_op x)"
  by (auto simp: state_io_rel_def note_op_def intro: plane_steps_step step_op)

definition touches :: "kind \<Rightarrow> (Db \<Rightarrow> 'a \<times> Db) \<Rightarrow> bool" where
  "touches k f \<longleftrightarrow> (\<forall>db. (\<exists>l. db_step l db (snd (f db))) \<and> frame k db (snd (f db)))"

lemma footprint_on_db: "touches k f \<Longrightarrow> Table k \<in> A \<Longrightarrow> footprint A (on_db f)"
  unfolding touches_def state_io_rel_def on_db_def
  by (auto split: prod.splits intro!: plane_steps_step [of "Table k"] intro: step_table) (metis snd_conv step_table)

lemma put_db_same [simp]: "put_db (db_of s) s = s"
  by (simp add: put_db_def db_of_def)

lemma footprint_ask: "World \<in> A \<Longrightarrow> footprint A (ask env f)"
  unfolding ask_def
  by (intro fp.io_bind footprint_on_world) (auto simp: on_db_def state_io_rel_def intro: fp.R_refl)

lemma footprint_statement: "(\<And>e now. touches k (f e now)) \<Longrightarrow> World \<in> A \<Longrightarrow> Table k \<in> A \<Longrightarrow> footprint A (statement env f)"
  unfolding statement_def by (intro fp.io_bind footprint_on_world footprint_on_db)

lemma db_step_snd: "(\<And>r db'. f db = (r, db') \<Longrightarrow> db_step l db db') \<Longrightarrow> \<exists>l. db_step l db (snd (f db))"
  by (cases "f db") auto

lemma touchesI: "(\<And>db. db_step l db (snd (f db))) \<Longrightarrow> (\<And>db. frame k db (snd (f db))) \<Longrightarrow> touches k f"
  by (auto simp: touches_def)

lemma update_agent_frame:
  assumes "\<And>a. an_ID (f a) = an_ID a"
  shows "frame (KProvision i) db (snd (update_agent exec now i f db))"
    and "(\<And>a. an_ProvisioningState (f a) = an_ProvisioningState a) \<Longrightarrow> frame (KAgent i) db (snd (update_agent exec now i f db))"
    and "(\<And>a. an_ProvisioningState (f a) = an_ProvisioningState a) \<Longrightarrow> (\<And>a. but_desired (f a) = but_desired a) \<Longrightarrow>
      frame (KDesired i) db (snd (update_agent exec now i f db))"
proof -
  let ?db = "snd (update_agent exec now i f db)"
  show 1: "frame (KProvision i) db ?db"
    using assms
    by (auto simp: update_agent_def keeps_tables_def same_agents_but_def find_map_agent option.map_ident_strong comp_def
        split: option.splits if_splits intro!: option.map_ident_strong dest!: find_agent_Some) (auto simp: map_agent_def)
  have 2: "same_provisioning i db ?db" if "\<And>a. an_ProvisioningState (f a) = an_ProvisioningState a"
    using that assms
    by (auto simp: update_agent_def same_provisioning_def find_map_agent option.map_comp comp_def split: option.splits
        intro!: option.map_cong0)
  from 1 2 show "frame (KAgent i) db ?db" if "\<And>a. an_ProvisioningState (f a) = an_ProvisioningState a" using that by simp
  have "map but_desired (db_agents ?db) = map but_desired (db_agents db)" if "\<And>a. but_desired (f a) = but_desired a"
  proof -
    have "but_desired ((f a)\<lparr>an_UpdatedAt := now\<rparr>) = but_desired a" for a using that [of a] by (simp add: but_desired_def)
    then show ?thesis by (auto simp: update_agent_def map_agent_def split: option.splits)
  qed
  with 1 2 show "frame (KDesired i) db ?db"
    if "\<And>a. an_ProvisioningState (f a) = an_ProvisioningState a" "\<And>a. but_desired (f a) = but_desired a"
    using that by simp
qed

lemma touches_agent:
  "touches (KAgent i) (UpdateAgentStatus e now i st)"
  "touches (KAgent i) (UpdateAgentHandle e now i c u img)"
  "touches (KProvision i) (UpdateAgentProvisioningState e now i st)"
  "touches (KAgent i) (UpdateAgentGosutoApplied e now i n)"
  "touches (KAgent i) (UpdateAgentDisabled e now i)"
  "touches (KAgent i) (SetAgentACPToken e now i t)"
  "touches (KDesired i) (SetAgentDesiredGosutoHash e now i h)"
  "touches (KAgent i) (SetAgentActualGosutoHash e now i h)"
  "touches (KAgent i) (UpdateAgentMXID e now i m)"
proof -
  show "touches (KAgent i) (UpdateAgentStatus e now i st)"
    by (rule touchesI, rule step_Status, rule prod.collapse [symmetric]) (simp add: UpdateAgentStatus_def update_agent_frame del: frame.simps)
  show "touches (KAgent i) (UpdateAgentHandle e now i c u img)"
    by (rule touchesI, rule step_Handle, rule prod.collapse [symmetric]) (simp add: UpdateAgentHandle_def update_agent_frame del: frame.simps)
  show "touches (KProvision i) (UpdateAgentProvisioningState e now i st)"
    by (rule touchesI, rule step_Provisioning, rule prod.collapse [symmetric])
      (simp add: UpdateAgentProvisioningState_def update_agent_frame del: frame.simps)
  show "touches (KAgent i) (UpdateAgentGosutoApplied e now i n)"
    by (rule touchesI, rule step_GosutoApplied, rule prod.collapse [symmetric])
      (simp add: UpdateAgentGosutoApplied_def update_agent_frame del: frame.simps)
  show "touches (KAgent i) (UpdateAgentDisabled e now i)"
    by (rule touchesI, rule step_Disabled, rule prod.collapse [symmetric]) (simp add: UpdateAgentDisabled_def update_agent_frame del: frame.simps)
  show "touches (KAgent i) (SetAgentACPToken e now i t)"
    by (rule touchesI, rule step_ACPToken, rule prod.collapse [symmetric]) (simp add: SetAgentACPToken_def update_agent_frame del: frame.simps)
  show "touches (KDesired i) (SetAgentDesiredGosutoHash e now i h)"
    by (rule touchesI, rule step_Desired, rule prod.collapse [symmetric])
      (simp add: SetAgentDesiredGosutoHash_def update_agent_frame but_desired_def del: frame.simps)
  show "touches (KAgent i) (SetAgentActualGosutoHash e now i h)"
    by (rule touchesI, rule step_Actual, rule prod.collapse [symmetric])
      (simp add: SetAgentActualGosutoHash_def update_agent_frame del: frame.simps)
  have "frame (KAgent i) db db" for db by (simp add: keeps_tables_def same_agents_but_def same_provisioning_def)
  then show "touches (KAgent i) (UpdateAgentMXID e now i m)"
    by (intro touchesI, rule_tac step_MXID, rule_tac prod.collapse [symmetric])
      (simp add: UpdateAgentMXID_def update_agent_frame del: frame.simps)
qed

lemma touches_audit: "touches KAudit (WriteAudit e now traceID actor action target result payload msg)"
  by (rule touchesI, rule step_Audit, rule prod.collapse [symmetric])
    (auto simp: WriteAudit_def keeps_tables_def split: option.splits sum.splits)

lemma touches_new_agent: "i = an_ID a \<Longrightarrow> touches (KNewAgent i) (CreateAgent e now a)"
  by (rule touchesI, rule step_CreateAgent, rule prod.collapse [symmetric])
    (auto simp: CreateAgent_def keeps_tables_def split: option.splits)

lemma find_filter_agent: "j \<noteq> i \<Longrightarrow> find (\<lambda>a. an_ID a = j) (filter (\<lambda>a. an_ID a \<noteq> i) xs) = find (\<lambda>a. an_ID a = j) xs"
  by (induction xs) auto

lemma touches_drop_agent: "touches (KDropAgent i) (DeleteAgent e i)"
  by (rule touchesI, rule step_DeleteAgent, rule prod.collapse [symmetric])
    (auto simp: DeleteAgent_def find_agent_def find_filter_agent split: option.splits)

lemma touches_prune: "touches (KPrune i) (PruneGosutoVersions e i n)"
  by (rule touchesI, rule step_Prune, rule prod.collapse [symmetric])
    (auto simp: PruneGosutoVersions_def Let_def split: option.splits)

lemma touches_version: "i = gv_AgentID v \<Longrightarrow> yaml = gv_YAMLBlob v \<Longrightarrow> touches (KVersion i yaml) (CreateGosutoVersion fs now v)"
proof (rule touchesI, rule step_CreateVersion, rule prod.collapse [symmetric])
  fix db :: Db assume [simp]: "i = gv_AgentID v" "yaml = gv_YAMLBlob v"
  let ?db = "db\<lparr>db_vseq := db_vseq db + 1, db_versions := db_versions db @ [v\<lparr>gv_ID := db_vseq db + 1, gv_CreatedAt := now\<rparr>]\<rparr>"
  let ?f = "\<lambda>a. a\<lparr>an_GosutoVersion := Some (gv_Version v), an_UpdatedAt := now\<rparr>"
  have "frame (KVersion i yaml) db (map_agent i ?f ?db)"
  proof -
    have "find_agent j (map_agent i ?f ?db) = find_agent j db" if "j \<noteq> i" for j
    proof -
      have "find_agent j ?db = find_agent j db" by (simp add: find_agent_def)
      then show ?thesis using that by (cases "find_agent j db") (auto simp: find_map_agent dest: find_agent_Some)
    qed
    then have "same_agents_but i db (map_agent i ?f ?db)" by (auto simp: same_agents_but_def map_agent_def)
    moreover have "find_agent i ?db = find_agent i db" by (simp add: find_agent_def)
    then have "same_provisioning i db (map_agent i ?f ?db)"
      by (auto simp: same_provisioning_def find_map_agent option.map_comp comp_def intro!: option.map_cong0)
    ultimately show ?thesis by (simp add: map_agent_def)
  qed
  moreover have "frame (KVersion i yaml) db db" by (simp add: same_agents_but_def same_provisioning_def)
  ultimately show "frame (KVersion i yaml) db (snd (CreateGosutoVersion fs now v db))"
    by (auto simp: CreateGosutoVersion_def simp del: frame.simps split: option.splits)
qed

lemma touches_secret:
  "touches (KSecret n) (Delete_secret e n)"
  "touches (KSecret n) (Set_secret seal rnd e now key n ty val)"
  by (rule touchesI, rule step_DeleteSecret step_SetSecret, rule prod.collapse [symmetric],
      auto simp: Delete_secret_def Set_secret_def upsert_secret_def split: option.splits sum.splits)+

lemma touches_binding:
  "touches (KBinding i) (Bind e i n scope)"
  "touches (KBinding i) (Unbind e i n)"
  "touches (KBinding i) (UnbindAll e i)"
  "touches (KBinding i) (MarkPushed e i n)"
  by (rule touchesI, rule step_Bind step_Unbind step_UnbindAll step_MarkPushed, rule prod.collapse [symmetric],
      auto simp: Bind_def Unbind_def UnbindAll_def MarkPushed_def split: option.splits)+

lemma touches_config:
  "touches (KConfig k) (Set_config e k v)"
  "touches (KConfig k) (Delete_config e k)"
  by (rule touchesI, rule step_SetConfig step_DeleteConfig, rule prod.collapse [symmetric],
      auto simp: Set_config_def Delete_config_def update_conv delete_conv map_of_delete split: option.splits)+

lemma footprint_store_version:
  "World \<in> A \<Longrightarrow> Table (KVersion (gv_AgentID v) (gv_YAMLBlob v)) \<in> A \<Longrightarrow> footprint A (store_version env v)"
  unfolding store_version_def by (intro fp.io_bind footprint_on_world footprint_on_db [OF touches_version [OF refl refl]])

lemma footprint_write_audit: "World \<in> A \<Longrightarrow> Table KAudit \<in> A \<Longrightarrow> footprint A (write_audit env traceID sender action target result payload msg)"
  unfolding write_audit_def by (rule footprint_statement [OF touches_audit])

lemma footprint_audited_error: "World \<in> A \<Longrightarrow> Table KAudit \<in> A \<Longrightarrow> footprint A (audited_error env traceID sender action target msg err)"
  unfolding audited_error_def by (intro fp.io_bind fp.io_return footprint_write_audit)

lemma footprint_approval_gate: "World \<in> A \<Longrightarrow> Gate \<in> A \<Longrightarrow> footprint A (approval_gate env action target cmd sender)"
  unfolding approval_gate_def
  by (intro fp.io_bind footprint_on_world)
    (auto simp: state_io_rel_def intro!: plane_steps_step [of Gate] step_gate [OF prod.collapse [symmetric]])

text \<open>The gate lets an unapproved command for a gated action through only if there is no gate.\<close>

definition unapproved :: "'w HEnv \<Rightarrow> string \<Rightarrow> Command \<Rightarrow> bool" where
  "unapproved env action cmd \<longleftrightarrow> hv_gate env \<noteq> None \<and> IsGated action \<and> GetFlag cmd ''_approved'' [] \<noteq> ''true''"

lemma approval_gate_result:
  assumes "x \<in> set_state (approval_gate env action target cmd sender)" "unapproved env action cmd"
  shows "x \<noteq> Inr None"
  using assms
  by (auto simp: set_state_iff approval_gate_def unapproved_def requestApprovalIfNeeded_def Let_def on_world_def
      split: prod.splits sum.splits if_splits)

lemma footprint_behind_gate:
  assumes "World \<in> A" "Gate \<in> A" "\<not> unapproved env action cmd \<Longrightarrow> footprint A rest"
  shows "footprint A (behind_gate env action target cmd sender rest)"
  unfolding behind_gate_def
  by (rule fp.io_bind_result [OF footprint_approval_gate])
    (use assms approval_gate_result in \<open>force intro!: fp.io_return io_sum io_option\<close>)+

lemmas footprint_statements =
  touches_agent [THEN footprint_statement] touches_drop_agent [THEN footprint_statement] touches_prune [THEN footprint_statement]
  touches_new_agent [OF refl, THEN footprint_statement]
  touches_secret [THEN footprint_statement] touches_binding [THEN footprint_statement] touches_config [THEN footprint_statement]

lemmas footprint_intros =
  fp.io_bind fp.io_return fp.io_traverse io_if io_sum io_option io_prod io_let
  footprint_on_world footprint_note_op footprint_ask footprint_statements footprint_store_version footprint_write_audit
  footprint_audited_error footprint_behind_gate

subsection \<open>What footprints mean\<close>

lemma requestApproval_world:
  "requestApprovalIfNeeded marshal rnd ins now ttl gate action target cmd sender s = (r, s') \<Longrightarrow> ha_world s' = ha_world s"
  by (auto simp: requestApprovalIfNeeded_def log_effect_def Let_def split: if_splits prod.splits sum.splits)

lemma state_parts [simp]:
  "db_of (put_db db s) = db" "db_of (put_world w s) = db_of s" "db_of (add_op x s) = db_of s"
  "pl_ops (ha_world (put_db db s)) = pl_ops (ha_world s)" "pl_ops (ha_world (put_world w s)) = pl_ops (ha_world s)"
  "pl_ops (ha_world (add_op x s)) = pl_ops (ha_world s) @ [x]" "db_of (s\<lparr>ha_rows := rows\<rparr>) = db_of s"
  by (simp_all add: db_of_def put_db_def put_world_def add_op_def)

lemma requestApproval_db:
  "requestApprovalIfNeeded marshal rnd ins now ttl gate action target cmd sender s = (r, s') \<Longrightarrow> db_of s' = db_of s"
  by (simp add: db_of_def requestApproval_world)

lemma plane_step_db:
  assumes "plane_step l s s'"
  shows "db_of s' = db_of s \<or> (\<exists>k m. l = Table k \<and> db_step m (db_of s) (db_of s') \<and> frame k (db_of s) (db_of s'))"
  using assms by (cases rule: plane_stepE) (auto dest: requestApproval_db)

lemma plane_step_ops: "plane_step l s s' \<Longrightarrow> pl_ops (ha_world s') = pl_ops (ha_world s) \<or> (\<exists>x. l = Op x \<and> pl_ops (ha_world s') = pl_ops (ha_world s) @ [x])"
  by (cases rule: plane_stepE) (auto dest: requestApproval_world)

text \<open>Every computation with a footprint is a sequence of statements of the database.\<close>

lemma footprint_db_steps: "plane_steps A s s' \<Longrightarrow> db_steps (db_of s) (db_of s')"
  unfolding plane_steps_def
proof (induction rule: rtranclp_induct)
  case base
  then show ?case by (simp add: db_steps_def)
next
  case (step t u)
  then obtain l where "plane_step l t u" by blast
  from plane_step_db [OF this] step.IH show ?case
    by (auto simp: db_steps_def intro: rtranclp.rtrancl_into_rtrancl)
qed

text \<open>A property of the database that every statement of the footprint keeps is kept.\<close>

lemma footprint_invariant:
  assumes "plane_steps A s s'" "P (db_of s)"
    and "\<And>k db db'. Table k \<in> A \<Longrightarrow> frame k db db' \<Longrightarrow> P db \<Longrightarrow> P db'"
  shows "P (db_of s')"
  using assms(1) unfolding plane_steps_def
proof (induction rule: rtranclp_induct)
  case (step t u)
  then obtain l where "l \<in> A" "plane_step l t u" by blast
  with plane_step_db [OF this(2)] step.IH assms(3) show ?case by metis
qed (rule assms(2))

lemma footprint_ops:
  assumes "plane_steps A s s'"
  shows "\<exists>xs. pl_ops (ha_world s') = pl_ops (ha_world s) @ xs \<and> (\<forall>x \<in> set xs. Op x \<in> A)"
  using assms unfolding plane_steps_def
proof (induction rule: rtranclp_induct)
  case (step t u)
  then obtain l where "l \<in> A" "plane_step l t u" by blast
  moreover obtain xs where "pl_ops (ha_world t) = pl_ops (ha_world s) @ xs" "\<forall>x \<in> set xs. Op x \<in> A" using step.IH by blast
  ultimately show ?case using plane_step_ops [of l t u] by (cases "pl_ops (ha_world u) = pl_ops (ha_world t)") auto
qed simp

subsection \<open>Results of a run\<close>

text \<open>A finished run is taken apart statement by statement.\<close>

lemma run_bindE:
  assumes "State_Monad.run_state (State_Monad.bind m f) s = (y, s')"
  obtains x t where "State_Monad.run_state m s = (x, t)" "State_Monad.run_state (f x) t = (y, s')"
  using assms by (auto split: prod.splits)

lemma run_worldE:
  assumes "State_Monad.run_state (on_world f) s = (x, t)"
  obtains w where "f (pl_world (ha_world s)) = (x, w)" "t = put_world w s"
  using assms by (auto simp: on_world_def split: prod.splits)

lemma run_askE:
  assumes "State_Monad.run_state (ask env f) s = (x, t)"
  obtains e where "x = f e (db_of s)" "db_of t = db_of s"
  using assms by (auto simp: ask_def on_db_def on_world_def split: prod.splits)

lemma run_statementE:
  assumes "State_Monad.run_state (statement env f) s = (x, t)"
  obtains e now where "f e now (db_of s) = (x, db_of t)"
  using assms by (auto simp: statement_def on_db_def on_world_def split: prod.splits)

lemma run_store_versionE:
  assumes "State_Monad.run_state (store_version env v) s = (x, t)"
  obtains fs now where "CreateGosutoVersion fs now v (db_of s) = (x, db_of t)"
  using assms by (auto simp: store_version_def on_db_def on_world_def split: prod.splits)

lemma run_auditD:
  assumes "State_Monad.run_state (write_audit env traceID sender action target result payload msg) s = (x, t)"
  shows "frame KAudit (db_of s) (db_of t)"
proof -
  obtain e now where "WriteAudit e now traceID sender action target result (map_option (hv_json env) payload) msg (db_of s) = (x, db_of t)"
    using assms unfolding write_audit_def by (rule run_statementE)
  with touches_audit [of e now] show ?thesis unfolding touches_def by (metis snd_conv)
qed

lemma run_audited_errorD:
  "State_Monad.run_state (audited_error env traceID sender action target msg err) s = (x, t) \<Longrightarrow> x = Inl err"
  by (auto simp: audited_error_def split: prod.splits)

lemma run_behind_gateE:
  assumes "State_Monad.run_state (behind_gate env action target cmd sender rest) s = (Inr r, t)" "\<And>a. r \<noteq> Pending a"
  obtains u where "State_Monad.run_state rest u = (Inr r, t)" "db_of u = db_of s" "\<not> unapproved env action cmd"
proof -
  from assms(1) obtain x u where g: "State_Monad.run_state (approval_gate env action target cmd sender) s = (x, u)"
      and c: "State_Monad.run_state (case x of Inl e \<Rightarrow> State_Monad.return (Inl (Because ''failed to create approval request'' (InApprovals e)))
        | Inr (Some a) \<Rightarrow> State_Monad.return (Inr (Pending a)) | Inr None \<Rightarrow> rest) u = (Inr r, t)"
    unfolding behind_gate_def by (rule run_bindE)
  from c assms(2) have x: "x = Inr None" "State_Monad.run_state rest u = (Inr r, t)" by (auto split: sum.splits option.splits)
  have "db_of u = db_of s" using g by (auto simp: approval_gate_def on_world_def split: prod.splits dest: requestApproval_db)
  moreover have "x \<in> set_state (approval_gate env action target cmd sender)" using g by (auto simp: set_state_iff)
  then have "\<not> unapproved env action cmd" using approval_gate_result x(1) by blast
  ultimately show thesis using that x(2) by blast
qed

subsection \<open>A small environment\<close>

text \<open>Statements that succeed, a network whose answers are empty, no runtime and no gate: the environment of concrete runs.\<close>

definition sample_net :: "unit Net" where
  "sample_net = \<lparr>nt_badURL = (\<lambda>_. None), nt_newID = (\<lambda>w. (''r'', w)),
     nt_do = (\<lambda>_ w. (Inr \<lparr>hr_StatusCode = 200, hr_Status = ''OK'', hr_Body = [], hr_ReadError = None\<rparr>, w)), nt_errorField = (\<lambda>_. None),
     nt_marshalConfig = (\<lambda>r. Inr (ca_YAML r)), nt_marshalSecrets = (\<lambda>_. Inr ''{}''), nt_marshalLeases = (\<lambda>_. Inr ''{}''),
     nt_marshalTool = (\<lambda>_. Inr ''{}''), nt_health = (\<lambda>_. Inr (''ok'', [])), nt_statusHash = Inr, nt_toolResult = Inr\<rparr>"

definition sample_HEnv :: "unit HEnv" where
  "sample_HEnv =
     \<lparr>hv_fault = Pair None, hv_now = Pair 7, hv_traceID = Pair ''t'', hv_rand = Pair (Inr (replicate 16 1)),
      hv_approvalIDs = Pair (\<lambda>_. Inr [1, 2]), hv_getenv = (\<lambda>_. []), hv_text = (\<lambda>_. ''error''), hv_json = (\<lambda>_. Inr ''{}''),
      hv_decode = (\<lambda>_. None), hv_unmarshal = (\<lambda>_. Inl ''no yaml''), hv_marshal = (\<lambda>_. Inl ''no yaml''),
      hv_unmarshalInstructions = (\<lambda>_. Inl ''no yaml''), hv_unmarshalPersona = (\<lambda>_. Inl ''no yaml''), hv_marshalInstructions = (\<lambda>_. []),
      hv_marshalPersona = (\<lambda>_. []), hv_sha256 = (\<lambda>s. s), hv_seal = (\<lambda>_ _ plain. plain), hv_unseal = (\<lambda>_ _ data. Inr data),
      hv_masterKey = replicate 32 7, hv_runtime = None, hv_accounts = None, hv_homeserver = [], hv_gate = None, hv_params = (\<lambda>_. ''{}''),
      hv_net = sample_net, hv_before = (\<lambda>_. None), hv_during = (\<lambda>_. None), hv_status = (\<lambda>_. Inl ''no json''),
      hv_templates = None, hv_gateways = (\<lambda>_. []), hv_waited = Pair False, hv_adminRooms = [], hv_roomSender = False, hv_configStore = True,
      hv_distributor = False, hv_distFaults = Pair \<lparr>df_agent = None, df_bindings = None, df_read = (\<lambda>_. None), df_mark = (\<lambda>_. None)\<rparr>,
      hv_issueAgent = None, hv_issueHuman = None\<rparr>"

definition sample_control :: "Db \<Rightarrow> unit control" where
  "sample_control db = \<lparr>ha_rows = [], ha_log = [], ha_world = \<lparr>pl_db = db, pl_ops = [], pl_world = ()\<rparr>\<rparr>"

end
