(* ===== verification/Lifecycle_Handlers.thy ===== *)
theory Lifecycle_Handlers
  imports Control_Plane
begin

section \<open>The life cycle of agents\<close>

text \<open>
  \<^verbatim>\<open>internal/ruriko/commands/lifecycle_handlers.go\<close> and \<^verbatim>\<open>provisioning_handlers.go\<close>: creating, starting, stopping, respawning, disabling and deleting
  agents, their status, and the registration of Matrix accounts.  The provisioning pipeline that a creation launches in the
  background is theory \<open>Provisioning\<close>; the launch is an operation of the log.
  The theory gives the footprint of every handler: the rows, the operations outside and the requests of approval it is limited to.
\<close>

subsection \<open>Helpers\<close>

definition truncateID :: "string \<Rightarrow> nat \<Rightarrow> string" where
  "truncateID s n = (if length s \<le> n then s else take n s)"

definition single_quoted :: "string \<Rightarrow> string" where
  "single_quoted s = CHR 0x27 # s @ [CHR 0x27]"

definition first_arg :: "Command \<Rightarrow> string" where
  "first_arg cmd = (case GetArg cmd 0 of Some a \<Rightarrow> a | None \<Rightarrow> [])"

definition set_unless_empty :: "string \<Rightarrow> string \<Rightarrow> (string \<times> string) list \<Rightarrow> (string \<times> string) list" where
  "set_unless_empty k v m = (if v \<noteq> [] then AList.update k v m else m)"

definition llm_api_key :: "(string \<Rightarrow> string) \<Rightarrow> string" where
  "llm_api_key getenv =
     (let a = trim_space (getenv ''LLM_API_KEY''); b = trim_space (getenv ''GLOBAL_LLM_API_KEY'') in
      if a \<noteq> [] then a else if b \<noteq> [] then b else trim_space (getenv ''RURIKO_NLP_API_KEY''))"

definition injectAgentLLMEnv :: "(string \<Rightarrow> string) \<Rightarrow> (string \<times> string) list \<Rightarrow> (string \<times> string) list" where
  "injectAgentLLMEnv getenv m =
     fold (\<lambda>k. set_unless_empty k (trim_space (getenv k)))
       [''LLM_PROVIDER'', ''LLM_BASE_URL'', ''LLM_MODEL'', ''LLM_MAX_TOKENS'', ''GITAI_LLM_CALL_HARD_LIMIT'']
       (set_unless_empty ''LLM_API_KEY'' (llm_api_key getenv) m)"

definition agentRestartPolicyFromEnv :: "(string \<Rightarrow> string) \<Rightarrow> string" where
  "agentRestartPolicyFromEnv getenv =
     (let policy = trim_space (getenv ''RURIKO_AGENT_RESTART_POLICY'') in if policy = [] then ''unless-stopped'' else policy)"

definition generateACPToken :: "'w HEnv \<Rightarrow> ('w, string + string) plane" where
  "generateACPToken env = do { r \<leftarrow> on_world (hv_rand env);
     State_Monad.return (case r of Inl e \<Rightarrow> Inl e | Inr b \<Rightarrow> Inr (Base64.hex_encode (take 16 b))) }"

definition isContainerMissingErr :: "string \<Rightarrow> bool" where
  "isContainerMissingErr msg \<longleftrightarrow> str_contains (to_lower msg) ''no such container'' \<or> str_contains (to_lower msg) ''not found''"

definition handle_of :: "string \<Rightarrow> string \<Rightarrow> AgentHandle" where
  "handle_of agentID containerID = \<lparr>ah_AgentID = agentID, ah_ContainerID = containerID, ah_ContainerName = [], ah_ControlURL = []\<rparr>"

text \<open>A call of the container runtime that succeeds is an operation of the log.\<close>

definition container_call :: "(AgentHandle \<Rightarrow> 'w \<Rightarrow> string option \<times> 'w) \<Rightarrow> AgentHandle \<Rightarrow> plane_op \<Rightarrow> ('w, string option) plane" where
  "container_call f h x = do { r \<leftarrow> on_world (f h);
     case r of Some e \<Rightarrow> State_Monad.return (Some e) | None \<Rightarrow> do { note_op x; State_Monad.return None } }"

definition spawn_container :: "'w Containers \<Rightarrow> AgentSpec \<Rightarrow> ('w, string + AgentHandle) plane" where
  "spawn_container rt spec = do { r \<leftarrow> on_world (ct_Spawn rt spec);
     case r of Inl e \<Rightarrow> State_Monad.return (Inl e) | Inr h \<Rightarrow> do { note_op (Spawned spec); State_Monad.return (Inr h) } }"

definition matrix_token_name :: "string \<Rightarrow> string" where
  "matrix_token_name agentID = ''agent.'' @ agentID @ ''.matrix_token''"

definition container_env :: "'w HEnv \<Rightarrow> string \<Rightarrow> string \<Rightarrow> string \<Rightarrow> string \<Rightarrow> (string \<times> string) list" where
  "container_env env agentID acpToken mxid accessToken =
     injectAgentLLMEnv (hv_getenv env)
       (set_unless_empty ''MATRIX_ACCESS_TOKEN'' accessToken
         (set_unless_empty ''MATRIX_USER_ID'' mxid
           (set_unless_empty ''MATRIX_HOMESERVER'' (hv_homeserver env)
             [(''GITAI_AGENT_ID'', agentID), (''GITAI_ACP_TOKEN'', acpToken)])))"

subsection \<open>Creating an agent\<close>

record create_flags =
  cr_agentID :: string
  cr_template :: string
  cr_image :: string
  cr_displayName :: string
  cr_peerAlias :: string
  cr_peerMXID :: string
  cr_peerRoom :: string
  cr_peerProtocolID :: string
  cr_peerProtocolPrefix :: string

definition create_usage :: string where
  "create_usage = ''usage: /ruriko agents create --name <id> --template <template> --image <image> [--peer-alias <alias> --peer-mxid <mxid> --peer-room <room-id> --peer-protocol-id <id> --peer-protocol-prefix <prefix>]''"

definition read_create_flags :: "Command \<Rightarrow> create_flags" where
  "read_create_flags cmd =
     \<lparr>cr_agentID = GetFlag cmd ''name'' [], cr_template = GetFlag cmd ''template'' [], cr_image = GetFlag cmd ''image'' [],
      cr_displayName = GetFlag cmd ''display-name'' (GetFlag cmd ''name'' []),
      cr_peerAlias = trim_space (GetFlag cmd ''peer-alias'' ''kairo''), cr_peerMXID = trim_space (GetFlag cmd ''peer-mxid'' ''@kairo:localhost''),
      cr_peerRoom = trim_space (GetFlag cmd ''peer-room'' []), cr_peerProtocolID = trim_space (GetFlag cmd ''peer-protocol-id'' ''kairo.news.request.v1''),
      cr_peerProtocolPrefix = trim_space (GetFlag cmd ''peer-protocol-prefix'' ''KAIRO_NEWS_REQUEST'')\<rparr>"

definition create_flags_error :: "create_flags \<Rightarrow> string option" where
  "create_flags_error f = first_of
     [reject (cr_agentID f = []) create_usage,
      validateAgentID (cr_agentID f),
      reject (cr_template f = []) ''--template is required'',
      reject (cr_image f = []) ''--image is required'',
      reject (cr_peerAlias f = []) ''--peer-alias must not be empty'',
      reject (cr_peerMXID f = [] \<or> \<not> has_prefix (cr_peerMXID f) ''@'') (''--peer-mxid must start with '' @ single_quoted ''@''),
      reject (cr_peerRoom f \<noteq> [] \<and> \<not> has_prefix (cr_peerRoom f) ''!'') (''--peer-room must start with '' @ single_quoted ''!''),
      reject (cr_peerProtocolID f = []) ''--peer-protocol-id must not be empty'',
      reject (cr_peerProtocolPrefix f = []) ''--peer-protocol-prefix must not be empty'']"

definition new_agent_row :: "create_flags \<Rightarrow> string \<Rightarrow> AgentRow" where
  "new_agent_row f acpToken =
     \<lparr>an_ID = cr_agentID f, an_MXID = None, an_DisplayName = cr_displayName f, an_Template = cr_template f, an_Status = ''creating'',
      an_LastSeen = None, an_RuntimeVersion = None, an_GosutoVersion = None, an_ContainerID = None, an_ControlURL = None,
      an_Image = Some (cr_image f), an_ACPToken = Some acpToken, an_ProvisioningState = ''pending'', an_CreatedAt = 0, an_UpdatedAt = 0,
      an_DesiredGosutoHash = None, an_ActualGosutoHash = None, an_Enabled = True, an_LastHealthCheck = None\<rparr>"

definition blank :: "string option \<Rightarrow> bool" where
  "blank c \<longleftrightarrow> (case c of None \<Rightarrow> True | Some s \<Rightarrow> trim_space s = [])"

definition already_exists :: "bool \<Rightarrow> string \<Rightarrow> AgentRow \<Rightarrow> string" where
  "already_exists runtime agentID existing =
     (if runtime \<and> blank (an_ContainerID existing)
      then ''agent '' @ go_quote agentID @ '' already exists in database but has no container; run '' @ single_quoted (''/ruriko agents start '' @ agentID) @
        '' to recover or '' @ single_quoted (''/ruriko agents delete '' @ agentID) @ '' before re-creating''
      else ''agent '' @ go_quote agentID @ '' already exists'')"

text \<open>A failure after the row exists: it is marked and the audit log is written.\<close>

definition create_failed :: "'w HEnv \<Rightarrow> string \<Rightarrow> string \<Rightarrow> string \<Rightarrow> string \<Rightarrow> string \<Rightarrow> ('w, handler_error + answer) plane" where
  "create_failed env traceID sender agentID msg what = do {
     _ \<leftarrow> statement env (\<lambda>e now. UpdateAgentStatus e now agentID ''error'');
     _ \<leftarrow> statement env (\<lambda>e now. UpdateAgentProvisioningState e now agentID ''error'');
     audited_error env traceID sender ''agents.create'' agentID msg (Because what (Outside msg)) }"

definition register_account :: "'w HEnv \<Rightarrow> string \<Rightarrow> string \<Rightarrow> ('w, string + string \<times> string) plane" where
  "register_account env agentID displayName = (case hv_accounts env of
       None \<Rightarrow> State_Monad.return (Inr ([], []))
     | Some ac \<Rightarrow> do {
         r \<leftarrow> on_world (ac_Register ac agentID displayName);
         case r of
           Inl e \<Rightarrow> State_Monad.return (Inl e)
         | Inr (mxid, token) \<Rightarrow> do {
             note_op (Registered mxid);
             _ \<leftarrow> statement env (\<lambda>e now. UpdateAgentMXID e now agentID mxid);
             _ \<leftarrow> on_world (ac_Invite ac mxid);
             note_op (Invited mxid);
             State_Monad.return (Inr (mxid, token)) } })"

definition pipeline_args :: "create_flags \<Rightarrow> string \<Rightarrow> AgentHandle \<Rightarrow> string \<Rightarrow> string \<Rightarrow> string \<Rightarrow> provisionArgs" where
  "pipeline_args f acpToken h room sender traceID =
     \<lparr>pv_agentID = cr_agentID f, pv_template = cr_template f, pv_displayName = cr_displayName f, pv_peerAlias = cr_peerAlias f,
      pv_peerMXID = cr_peerMXID f, pv_peerRoom = cr_peerRoom f, pv_peerProtocolID = cr_peerProtocolID f,
      pv_peerProtocolPrefix = cr_peerProtocolPrefix f, pv_handle = h, pv_controlURL = ah_ControlURL h, pv_acpToken = acpToken,
      pv_roomID = room, pv_operatorMXID = sender, pv_traceID = traceID\<rparr>"

definition created_reply :: "string \<Rightarrow> create_flags \<Rightarrow> AgentHandle \<Rightarrow> string \<Rightarrow> answer" where
  "created_reply what f h traceID =
     Reply what [cr_agentID f, cr_template f, cr_image f, truncateID (ah_ContainerID h) 12, ah_ControlURL h, traceID]"

text \<open>Without a runtime the agent is created as stopped.\<close>

definition create_stopped :: "'w HEnv \<Rightarrow> create_flags \<Rightarrow> string \<Rightarrow> string \<Rightarrow> ('w, handler_error + answer) plane" where
  "create_stopped env f traceID sender = (let agentID = cr_agentID f in do {
     _ \<leftarrow> statement env (\<lambda>e now. UpdateAgentStatus e now agentID ''stopped'');
     _ \<leftarrow> statement env (\<lambda>e now. UpdateAgentProvisioningState e now agentID []);
     _ \<leftarrow> write_audit env traceID sender ''agents.create'' agentID ''success''
       (Some [(''note'', GStr ''no runtime configured, agent created as stopped'')]) [];
     note_op (Notified ''agent.created'' sender agentID);
     State_Monad.return (Inr (Reply ''agent created, no runtime'' [agentID, traceID])) })"

definition spawn_details :: "AgentHandle \<Rightarrow> string \<Rightarrow> string \<Rightarrow> gmap" where
  "spawn_details h k v = [(''container_id'', GStr (truncateID (ah_ContainerID h) 12)), (''control_url'', GStr (ah_ControlURL h)), (k, GStr v)]"

text \<open>The container is spawned and its handle saved; then the pipeline is launched, or without templates the agent is marked as running.\<close>

definition create_spawned ::
    "'w HEnv \<Rightarrow> create_flags \<Rightarrow> string \<Rightarrow> string \<Rightarrow> string \<Rightarrow> string \<Rightarrow> AgentHandle \<Rightarrow> ('w, handler_error + answer) plane"
where
  "create_spawned env f acpToken traceID sender room h = (let agentID = cr_agentID f in do {
     r \<leftarrow> statement env (\<lambda>e now. UpdateAgentHandle e now agentID (ah_ContainerID h) (ah_ControlURL h) (cr_image f));
     case r of
       Some e \<Rightarrow> audited_error env traceID sender ''agents.create'' agentID (hv_text env (InDatabase e))
         (Because ''container spawned but failed to save handle'' (InDatabase e))
     | None \<Rightarrow>
         (case hv_templates env of
            Some _ \<Rightarrow> do {
              note_op (Launched (pipeline_args f acpToken h room sender traceID));
              _ \<leftarrow> write_audit env traceID sender ''agents.create'' agentID ''success'' (Some (spawn_details h ''pipeline'' ''async'')) [];
              State_Monad.return (Inr (created_reply ''container spawned, pipeline started'' f h traceID)) }
          | None \<Rightarrow> do {
              _ \<leftarrow> statement env (\<lambda>e now. UpdateAgentStatus e now agentID ''running'');
              _ \<leftarrow> statement env (\<lambda>e now. UpdateAgentProvisioningState e now agentID []);
              _ \<leftarrow> write_audit env traceID sender ''agents.create'' agentID ''success''
                (Some (spawn_details h ''note'' ''no template registry; gosuto not applied'')) [];
              note_op (Notified ''agent.created'' sender agentID);
              State_Monad.return (Inr (created_reply ''agent created and started, no gosuto'' f h traceID)) }) })"

definition create_container ::
    "'w HEnv \<Rightarrow> 'w Containers \<Rightarrow> create_flags \<Rightarrow> string \<Rightarrow> string \<Rightarrow> string \<Rightarrow> string \<Rightarrow> ('w, handler_error + answer) plane"
where
  "create_container env rt f acpToken traceID sender room = (let agentID = cr_agentID f in do {
     acc \<leftarrow> register_account env agentID (cr_displayName f);
     case acc of
       Inl e \<Rightarrow> create_failed env traceID sender agentID e (''failed to provision Matrix account for agent '' @ agentID)
     | Inr (mxid, token) \<Rightarrow> do {
         r \<leftarrow> spawn_container rt \<lparr>as_ID = agentID, as_DisplayName = cr_displayName f, as_Image = cr_image f, as_Template = cr_template f,
           as_Env = container_env env agentID acpToken mxid token, as_RestartPolicy = agentRestartPolicyFromEnv (hv_getenv env)\<rparr>;
         case r of
           Inl e \<Rightarrow> create_failed env traceID sender agentID e ''failed to spawn container''
         | Inr h \<Rightarrow> create_spawned env f acpToken traceID sender room h } })"

definition HandleAgentsCreate :: "'w HEnv \<Rightarrow> Command \<Rightarrow> string \<Rightarrow> string \<Rightarrow> ('w, handler_error + answer) plane" where
  "HandleAgentsCreate env cmd sender room = do {
     traceID \<leftarrow> on_world (hv_traceID env);
     let f = read_create_flags cmd;
     let agentID = cr_agentID f;
     case create_flags_error f of
       Some msg \<Rightarrow> State_Monad.return (Inl (Plain msg))
     | None \<Rightarrow> do {
         existing \<leftarrow> ask env (\<lambda>e. GetAgent e agentID);
         case existing of
           Inr a \<Rightarrow> State_Monad.return (Inl (Plain (already_exists (hv_runtime env \<noteq> None) agentID a)))
         | Inl _ \<Rightarrow> do {
             token \<leftarrow> generateACPToken env;
             case token of
               Inl e \<Rightarrow> State_Monad.return (Inl (Because ''failed to generate ACP token'' (Outside e)))
             | Inr acpToken \<Rightarrow> do {
                 r \<leftarrow> statement env (\<lambda>e now. CreateAgent e now (new_agent_row f acpToken));
                 case r of
                   Some e \<Rightarrow> audited_error env traceID sender ''agents.create'' agentID (hv_text env (InDatabase e))
                     (Because ''failed to create agent record'' (InDatabase e))
                 | None \<Rightarrow>
                     (case hv_runtime env of
                        None \<Rightarrow> create_stopped env f traceID sender
                      | Some rt \<Rightarrow> create_container env rt f acpToken traceID sender room) } } } }"

subsection \<open>Stopping, starting, respawning\<close>

definition agent_lookup ::
    "'w HEnv \<Rightarrow> string \<Rightarrow> string \<Rightarrow> string \<Rightarrow> string \<Rightarrow> (AgentRow \<Rightarrow> ('w, handler_error + answer) plane) \<Rightarrow> ('w, handler_error + answer) plane"
where
  "agent_lookup env traceID sender action agentID rest = do {
     r \<leftarrow> ask env (\<lambda>e. GetAgent e agentID);
     case r of
       Inl e \<Rightarrow> audited_error env traceID sender action agentID (hv_text env (InDatabase e)) (Plain (''agent not found: '' @ agentID))
     | Inr agent \<Rightarrow> rest agent }"

text \<open>The end of a successful command: status, audit entry, notification, reply.\<close>

definition status_done ::
    "'w HEnv \<Rightarrow> string \<Rightarrow> string \<Rightarrow> string \<Rightarrow> string \<Rightarrow> string \<Rightarrow> string \<Rightarrow> answer \<Rightarrow> ('w, handler_error + answer) plane"
where
  "status_done env traceID sender action agentID status event reply = do {
     _ \<leftarrow> statement env (\<lambda>e now. UpdateAgentStatus e now agentID status);
     _ \<leftarrow> write_audit env traceID sender action agentID ''success'' None [];
     note_op (Notified event sender agentID);
     State_Monad.return (Inr reply) }"

definition HandleAgentsStop :: "'w HEnv \<Rightarrow> Command \<Rightarrow> string \<Rightarrow> ('w, handler_error + answer) plane" where
  "HandleAgentsStop env cmd sender = do {
     traceID \<leftarrow> on_world (hv_traceID env);
     let agentID = first_arg cmd;
     if agentID = [] then State_Monad.return (Inl (Plain ''usage: /ruriko agents stop <name>''))
     else agent_lookup env traceID sender ''agents.stop'' agentID (\<lambda>agent.
       if an_Status agent = ''stopped'' then State_Monad.return (Inr (Reply ''already stopped'' [agentID, traceID]))
       else do {
         r \<leftarrow> (case (hv_runtime env, an_ContainerID agent) of
             (Some rt, Some c) \<Rightarrow> container_call (ct_Stop rt) (handle_of agentID c) (Stopped c)
           | _ \<Rightarrow> State_Monad.return None);
         case r of
           Some e \<Rightarrow> audited_error env traceID sender ''agents.stop'' agentID e (Because ''failed to stop container'' (Outside e))
         | None \<Rightarrow> status_done env traceID sender ''agents.stop'' agentID ''stopped'' ''agent.stopped'' (Reply ''agent stopped'' [agentID, traceID]) }) }"

definition recovery_token :: "'w HEnv \<Rightarrow> AgentRow \<Rightarrow> ('w, handler_error + string) plane" where
  "recovery_token env agent =
     (let acpToken = trim_space (case an_ACPToken agent of Some t \<Rightarrow> t | None \<Rightarrow> []) in
      if acpToken \<noteq> [] then State_Monad.return (Inr acpToken)
      else do {
        g \<leftarrow> generateACPToken env;
        case g of
          Inl e \<Rightarrow> State_Monad.return (Inl (Because ''failed to generate ACP token for recovery'' (Outside e)))
        | Inr generated \<Rightarrow> do {
            r \<leftarrow> statement env (\<lambda>e now. SetAgentACPToken e now (an_ID agent) generated);
            State_Monad.return (case r of
                Some e \<Rightarrow> Inl (Because ''failed to persist ACP token for recovery'' (InDatabase e))
              | None \<Rightarrow> Inr generated) } })"

definition no_identity :: "string \<Rightarrow> string" where
  "no_identity i = ''agent '' @ i @ '' has no Matrix identity; run '' @ single_quoted (''/ruriko agents matrix register '' @ i) @
     '' then retry '' @ single_quoted (''/ruriko agents start '' @ i)"

text \<open>What the container of a recovered agent needs besides the token: its account and the secret that holds the access token.\<close>

definition recovery_account :: "'w HEnv \<Rightarrow> AgentRow \<Rightarrow> ('w, handler_error + string \<times> string) plane" where
  "recovery_account env agent =
     (let i = an_ID agent; mxid = trim_space (case an_MXID agent of Some m \<Rightarrow> m | None \<Rightarrow> []); name = matrix_token_name i in
      if mxid = [] then State_Monad.return (Inl (Plain (no_identity i)))
      else do {
        r \<leftarrow> ask env (\<lambda>e. Get_secret (hv_unseal env) e (hv_masterKey env) name);
        State_Monad.return (case r of
            Inl e \<Rightarrow> Inl (Plain (''agent '' @ i @ '' has MXID '' @ mxid @ '' but missing secret '' @ go_quote name @
              ''; store and bind a matrix token, then retry''))
          | Inr tok \<Rightarrow>
              if tok = [] then Inl (Plain (''agent '' @ i @ '' has empty matrix token secret '' @ go_quote name @ ''; set a valid token and retry''))
              else Inr (mxid, map char_of tok)) })"

definition recoverAgentContainer :: "'w HEnv \<Rightarrow> AgentRow \<Rightarrow> ('w, handler_error + AgentHandle) plane" where
  "recoverAgentContainer env agent =
     (let i = an_ID agent; img = trim_space (case an_Image agent of Some m \<Rightarrow> m | None \<Rightarrow> []) in
      case hv_runtime env of
        None \<Rightarrow> State_Monad.return (Inl (Plain ''runtime is not configured''))
      | Some rt \<Rightarrow>
          if img = []
          then State_Monad.return (Inl (Plain (''agent '' @ i @ '' has no image metadata; delete and recreate the agent with --image'')))
          else do {
            t \<leftarrow> recovery_token env agent;
            case t of
              Inl e \<Rightarrow> State_Monad.return (Inl e)
            | Inr acpToken \<Rightarrow> do {
                a \<leftarrow> recovery_account env agent;
                case a of
                  Inl e \<Rightarrow> State_Monad.return (Inl e)
                | Inr (mxid, token) \<Rightarrow> do {
                    r \<leftarrow> spawn_container rt \<lparr>as_ID = i, as_DisplayName = an_DisplayName agent, as_Image = img, as_Template = an_Template agent,
                      as_Env = container_env env i acpToken mxid token, as_RestartPolicy = agentRestartPolicyFromEnv (hv_getenv env)\<rparr>;
                    case r of
                      Inl e \<Rightarrow> State_Monad.return (Inl (Because (''failed to recover container for '' @ i) (Outside e)))
                    | Inr h \<Rightarrow> do {
                        u \<leftarrow> statement env (\<lambda>e now. UpdateAgentHandle e now i (ah_ContainerID h) (ah_ControlURL h) img);
                        State_Monad.return (case u of
                            Some e \<Rightarrow> Inl (Because ''container recovered but failed to persist handle'' (InDatabase e))
                          | None \<Rightarrow> Inr h) } } } })"

text \<open>Starting or restarting: \<open>Inr True\<close> if the container had to be created anew.\<close>

definition bring_up ::
    "'w HEnv \<Rightarrow> ('w Containers \<Rightarrow> AgentHandle \<Rightarrow> 'w \<Rightarrow> string option \<times> 'w) \<Rightarrow> (string \<Rightarrow> plane_op) \<Rightarrow> string \<Rightarrow> AgentRow \<Rightarrow>
     ('w, handler_error + bool) plane"
where
  "bring_up env call mark what agent = (case hv_runtime env of
       None \<Rightarrow> State_Monad.return (Inr False)
     | Some rt \<Rightarrow>
         (case an_ContainerID agent of
            Some c \<Rightarrow>
              if trim_space c = [] then do { r \<leftarrow> recoverAgentContainer env agent; State_Monad.return (map_sum id (\<lambda>_. True) r) }
              else do {
                r \<leftarrow> container_call (call rt) (handle_of (an_ID agent) c) (mark c);
                case r of
                  None \<Rightarrow> State_Monad.return (Inr False)
                | Some e \<Rightarrow>
                    if \<not> isContainerMissingErr e then State_Monad.return (Inl (Because what (Outside e)))
                    else do { r \<leftarrow> recoverAgentContainer env agent; State_Monad.return (map_sum id (\<lambda>_. True) r) } }
          | None \<Rightarrow> do { r \<leftarrow> recoverAgentContainer env agent; State_Monad.return (map_sum id (\<lambda>_. True) r) }))"

text \<open>The audit entry of a failed call holds the runtime's own error.\<close>

definition cause_text :: "'w HEnv \<Rightarrow> string \<Rightarrow> handler_error \<Rightarrow> string" where
  "cause_text env what e = (case e of Because w (Outside x) \<Rightarrow> if w = what then x else error_text env e | _ \<Rightarrow> error_text env e)"

definition HandleAgentsStart :: "'w HEnv \<Rightarrow> Command \<Rightarrow> string \<Rightarrow> ('w, handler_error + answer) plane" where
  "HandleAgentsStart env cmd sender = do {
     traceID \<leftarrow> on_world (hv_traceID env);
     let agentID = first_arg cmd;
     if agentID = [] then State_Monad.return (Inl (Plain ''usage: /ruriko agents start <name>''))
     else agent_lookup env traceID sender ''agents.start'' agentID (\<lambda>agent.
       if an_Status agent = ''running'' then State_Monad.return (Inr (Reply ''already running'' [agentID, traceID]))
       else do {
         r \<leftarrow> bring_up env ct_Start Started ''failed to start container'' agent;
         case r of
           Inl e \<Rightarrow> audited_error env traceID sender ''agents.start'' agentID (cause_text env ''failed to start container'' e) e
         | Inr recovered \<Rightarrow> status_done env traceID sender ''agents.start'' agentID ''running'' ''agent.started''
             (Reply (if recovered then ''agent recovered and started'' else ''agent started'') [agentID, traceID]) }) }"

definition HandleAgentsRespawn :: "'w HEnv \<Rightarrow> Command \<Rightarrow> string \<Rightarrow> ('w, handler_error + answer) plane" where
  "HandleAgentsRespawn env cmd sender = do {
     traceID \<leftarrow> on_world (hv_traceID env);
     let agentID = first_arg cmd;
     if agentID = [] then State_Monad.return (Inl (Plain ''usage: /ruriko agents respawn <name>''))
     else agent_lookup env traceID sender ''agents.respawn'' agentID (\<lambda>agent. do {
         r \<leftarrow> bring_up env ct_Restart Restarted ''failed to respawn container'' agent;
         case r of
           Inl e \<Rightarrow> audited_error env traceID sender ''agents.respawn'' agentID (cause_text env ''failed to respawn container'' e) e
         | Inr recovered \<Rightarrow> status_done env traceID sender ''agents.respawn'' agentID ''running'' ''agent.respawned''
             (Reply (if recovered then ''agent recovered and respawned'' else ''agent respawned'') [agentID, traceID]) }) }"

subsection \<open>Deleting, cancelling, status\<close>

definition HandleAgentsDelete :: "'w HEnv \<Rightarrow> Command \<Rightarrow> string \<Rightarrow> ('w, handler_error + answer) plane" where
  "HandleAgentsDelete env cmd sender = do {
     traceID \<leftarrow> on_world (hv_traceID env);
     let agentID = first_arg cmd;
     if agentID = [] then State_Monad.return (Inl (Plain ''usage: /ruriko agents delete <name>''))
     else agent_lookup env traceID sender ''agents.delete'' agentID (\<lambda>agent.
       behind_gate env ''agents.delete'' agentID cmd sender (do {
         r \<leftarrow> (case (hv_runtime env, an_ContainerID agent) of
             (Some rt, Some c) \<Rightarrow> container_call (ct_Remove rt) (handle_of agentID c) (Deleted c)
           | _ \<Rightarrow> State_Monad.return None);
         case r of
           Some e \<Rightarrow> audited_error env traceID sender ''agents.delete'' agentID e (Because ''failed to remove container'' (Outside e))
         | None \<Rightarrow> do {
             d \<leftarrow> statement env (\<lambda>e now. DeleteAgent e agentID);
             case d of
               Some e \<Rightarrow> audited_error env traceID sender ''agents.delete'' agentID (hv_text env (InDatabase e))
                 (Because ''failed to delete agent record'' (InDatabase e))
             | None \<Rightarrow> do {
                 _ \<leftarrow> write_audit env traceID sender ''agents.delete'' agentID ''success'' None [];
                 note_op (Notified ''agent.deleted'' sender agentID);
                 State_Monad.return (Inr (Reply ''agent deleted'' [agentID, traceID])) } } })) }"

definition client_of :: "AgentRow \<Rightarrow> Client" where
  "client_of agent = New_client (column (an_ControlURL agent)) (Some (column (an_ACPToken agent)))"

definition HandleAgentsCancel :: "'w HEnv \<Rightarrow> Command \<Rightarrow> string \<Rightarrow> ('w, handler_error + answer) plane" where
  "HandleAgentsCancel env cmd sender = do {
     traceID \<leftarrow> on_world (hv_traceID env);
     let agentID = first_arg cmd;
     if agentID = [] then State_Monad.return (Inl (Plain ''usage: /ruriko agents cancel <name>''))
     else agent_lookup env traceID sender ''agents.cancel'' agentID (\<lambda>agent.
       if column (an_ControlURL agent) = []
       then State_Monad.return (Inl (Plain (''agent '' @ agentID @ '' has no control URL; is it running?'')))
       else do {
         note_op (TaskCancelled (column (an_ControlURL agent)));
         r \<leftarrow> on_world (Cancel_acp (hv_net env) (client_of agent) traceID);
         case r of
           Some e \<Rightarrow> audited_error env traceID sender ''agents.cancel'' agentID (hv_text env (InClient [e]))
             (Because ''cancel request failed'' (InClient [e]))
         | None \<Rightarrow> do {
             _ \<leftarrow> write_audit env traceID sender ''agents.cancel'' agentID ''success'' None [];
             State_Monad.return (Inr (Reply ''task cancel sent'' [agentID, traceID])) } }) }"

text \<open>The lines of the report that come from the live container and from the control server; the columns of the row are the row itself.\<close>

definition container_lines :: "'w HEnv \<Rightarrow> string \<Rightarrow> AgentRow \<Rightarrow> ('w, string list) plane" where
  "container_lines env agentID agent = (case (hv_runtime env, an_ContainerID agent) of
       (Some rt, Some c) \<Rightarrow> do {
         r \<leftarrow> on_world (ct_Status rt (handle_of agentID c));
         State_Monad.return (case r of
             Inl _ \<Rightarrow> []
           | Inr st \<Rightarrow> [''State:        '' @ rs_State st @ (if rs_ExitCode st \<noteq> 0 then '' (exit '' @ itoa (rs_ExitCode st) @ '')'' else [])]) }
     | _ \<Rightarrow> State_Monad.return [])"

definition names_line :: "string \<Rightarrow> string list \<Rightarrow> string" where
  "names_line label ns = label @ (if ns = [] then ''(none)'' else str_join '', '' ns)"

definition control_lines :: "'w HEnv \<Rightarrow> string \<Rightarrow> AgentRow \<Rightarrow> ('w, string list) plane" where
  "control_lines env traceID agent =
     (if column (an_ControlURL agent) = [] then State_Monad.return []
      else do {
        h \<leftarrow> on_world (Health (hv_net env) (client_of agent) traceID);
        case h of
          Inl _ \<Rightarrow> State_Monad.return [''ACP Health:   unreachable'']
        | Inr health \<Rightarrow> do {
            st \<leftarrow> on_world (get_request (hv_net env) (client_of agent) traceID ''/status'' (Some (hv_status env)));
            State_Monad.return ((''ACP Health:   '' @ (case health of Some (status, _) \<Rightarrow> status | None \<Rightarrow> [])) #
              (case st of
                 Inl _ \<Rightarrow> []
               | Inr resp \<Rightarrow>
                   [names_line ''MCPs:         '' (case resp of Some x \<Rightarrow> sr_MCPs x | None \<Rightarrow> []),
                    names_line ''Gateways:     '' (case resp of Some x \<Rightarrow> sr_Gateways x | None \<Rightarrow> [])])) } })"

definition HandleAgentsStatus :: "'w HEnv \<Rightarrow> Command \<Rightarrow> string \<Rightarrow> ('w, handler_error + answer) plane" where
  "HandleAgentsStatus env cmd sender = do {
     traceID \<leftarrow> on_world (hv_traceID env);
     let agentID = first_arg cmd;
     if agentID = [] then State_Monad.return (Inl (Plain ''usage: /ruriko agents status <name>''))
     else agent_lookup env traceID sender ''agents.status'' agentID (\<lambda>agent. do {
       ls \<leftarrow> container_lines env agentID agent;
       cs \<leftarrow> control_lines env traceID agent;
       _ \<leftarrow> write_audit env traceID sender ''agents.status'' agentID ''success'' None [];
       State_Monad.return (Inr (Report ''agent status'' [agent] (ls @ cs @ [traceID]))) }) }"

subsection \<open>Matrix accounts\<close>

definition register_usage :: string where
  "register_usage = ''usage: /ruriko agents matrix register <name> [--mxid <@user:server>]''"

definition associate_account :: "'w HEnv \<Rightarrow> string \<Rightarrow> string \<Rightarrow> string \<Rightarrow> string \<Rightarrow> ('w, handler_error + answer) plane" where
  "associate_account env traceID sender agentID mxid = do {
     r \<leftarrow> statement env (\<lambda>e now. UpdateAgentMXID e now agentID mxid);
     case r of
       Some e \<Rightarrow> audited_error env traceID sender ''agents.matrix.register'' agentID (hv_text env (InDatabase e))
         (Because ''failed to update agent MXID'' (InDatabase e))
     | None \<Rightarrow> do {
         _ \<leftarrow> write_audit env traceID sender ''agents.matrix.register'' agentID ''success''
           (Some [(''mxid'', GStr mxid), (''provisioned'', GBool False)]) [];
         State_Monad.return (Inr (Reply ''account associated'' [agentID, mxid, traceID])) } }"

text \<open>The new account is recorded, its access token becomes a secret that is bound to the agent, and the agent is invited to the rooms.\<close>

definition record_account :: "'w HEnv \<Rightarrow> 'w Accounts \<Rightarrow> string \<Rightarrow> string \<Rightarrow> string \<Rightarrow> string \<Rightarrow> string \<Rightarrow> ('w, handler_error + answer) plane" where
  "record_account env ac traceID sender agentID mxid token = (let name = matrix_token_name agentID in do {
     note_op (Registered mxid);
     _ \<leftarrow> statement env (\<lambda>e now. UpdateAgentMXID e now agentID mxid);
     rnd \<leftarrow> on_world (hv_rand env);
     s \<leftarrow> statement env (\<lambda>e now. Set_secret (hv_seal env) rnd e now (hv_masterKey env) name ''matrix_token'' (map of_char token));
     case s of
       Some e \<Rightarrow> audited_error env traceID sender ''agents.matrix.register'' agentID
         (''account created but token storage failed: '' @ hv_text env (InSecrets e))
         (Because (''Matrix account created ('' @ mxid @ '') but access token could not be stored'') (InSecrets e))
     | None \<Rightarrow> do {
         _ \<leftarrow> statement env (\<lambda>e now. Bind e agentID name ''matrix_identity'');
         errs \<leftarrow> on_world (ac_Invite ac mxid);
         note_op (Invited mxid);
         _ \<leftarrow> write_audit env traceID sender ''agents.matrix.register'' agentID ''success''
           (Some [(''mxid'', GStr mxid), (''provisioned'', GBool True), (''secret'', GStr name)]) [];
         State_Monad.return (Inr (Reply ''account provisioned'' ([agentID, mxid, name] @ errs @ [traceID]))) } })"

definition provision_account :: "'w HEnv \<Rightarrow> string \<Rightarrow> string \<Rightarrow> AgentRow \<Rightarrow> string \<Rightarrow> ('w, handler_error + answer) plane" where
  "provision_account env traceID sender agent agentID = (case hv_accounts env of
       None \<Rightarrow> audited_error env traceID sender ''agents.matrix.register'' agentID ''no provisioner configured''
         (Plain ''Matrix provisioning is not configured (MATRIX_HOMESERVER_TYPE, MATRIX_SHARED_SECRET etc. must be set)'')
     | Some ac \<Rightarrow>
         if column (an_MXID agent) \<noteq> []
         then State_Monad.return (Inr (Reply ''already has an account'' [agentID, column (an_MXID agent), traceID]))
         else do {
           r \<leftarrow> on_world (ac_Register ac agentID (an_DisplayName agent));
           case r of
             Inl e \<Rightarrow> audited_error env traceID sender ''agents.matrix.register'' agentID e (Because ''Matrix account provisioning failed'' (Outside e))
           | Inr (mxid, token) \<Rightarrow> record_account env ac traceID sender agentID mxid token })"

definition HandleAgentsMatrixRegister :: "'w HEnv \<Rightarrow> Command \<Rightarrow> string \<Rightarrow> ('w, handler_error + answer) plane" where
  "HandleAgentsMatrixRegister env cmd sender = do {
     traceID \<leftarrow> on_world (hv_traceID env);
     if first_arg cmd \<noteq> ''register'' then State_Monad.return (Inl (Plain register_usage))
     else (case GetArg cmd 1 of
         None \<Rightarrow> State_Monad.return (Inl (Plain register_usage))
       | Some agentID \<Rightarrow> agent_lookup env traceID sender ''agents.matrix.register'' agentID (\<lambda>agent.
           if GetFlag cmd ''mxid'' [] \<noteq> [] then associate_account env traceID sender agentID (GetFlag cmd ''mxid'' [])
           else provision_account env traceID sender agent agentID)) }"

subsection \<open>Disabling\<close>

definition disable_container :: "'w HEnv \<Rightarrow> string \<Rightarrow> AgentRow \<Rightarrow> ('w, string list) plane" where
  "disable_container env agentID agent = (case (hv_runtime env, an_ContainerID agent) of
       (Some rt, Some c) \<Rightarrow> do {
         r \<leftarrow> container_call (ct_Stop rt) (handle_of agentID c) (Stopped c);
         State_Monad.return [case r of Some e \<Rightarrow> ''Container stop failed (continuing): '' @ e | None \<Rightarrow> ''Container stopped''] }
     | _ \<Rightarrow> State_Monad.return [])"

definition disable_account :: "'w HEnv \<Rightarrow> AgentRow \<Rightarrow> bool \<Rightarrow> ('w, string list) plane" where
  "disable_account env agent erase = (let mxid = column (an_MXID agent) in
     if mxid = [] then State_Monad.return []
     else (case hv_accounts env of
         None \<Rightarrow> State_Monad.return [''Provisioner not configured: Matrix account '' @ mxid @ '' was NOT deactivated'']
       | Some ac \<Rightarrow> do {
           errs \<leftarrow> on_world (ac_RemoveFromRooms ac mxid);
           note_op (Kicked mxid);
           d \<leftarrow> on_world (ac_Deactivate ac mxid erase);
           note_op (Deactivated mxid erase);
           State_Monad.return ((if errs = [] then [''Removed from rooms''] else map (\<lambda>e. ''Room kick error (continuing): '' @ e) errs) @
             [case d of
                Some e \<Rightarrow> ''Account deactivation failed (continuing): '' @ e
              | None \<Rightarrow> ''Matrix account '' @ mxid @ '' deactivated'' @ (if erase then '' and data erased'' else [])]) }))"

definition disable_secrets :: "'w HEnv \<Rightarrow> string \<Rightarrow> ('w, string list) plane" where
  "disable_secrets env agentID = do {
     u \<leftarrow> statement env (\<lambda>e now. UnbindAll e agentID);
     d \<leftarrow> statement env (\<lambda>e now. Delete_secret e (matrix_token_name agentID));
     State_Monad.return (
       (case u of
          Inl e \<Rightarrow> [''Failed to unbind remaining secrets: '' @ hv_text env (InSecrets e)]
        | Inr n \<Rightarrow> if n > 0 then [''Unbound '' @ itoa_nat n @ '' secret binding(s)''] else []) @
       (case d of Some _ \<Rightarrow> [] | None \<Rightarrow> [''Secret '' @ matrix_token_name agentID @ '' removed''])) }"

definition HandleAgentsDisable :: "'w HEnv \<Rightarrow> Command \<Rightarrow> string \<Rightarrow> ('w, handler_error + answer) plane" where
  "HandleAgentsDisable env cmd sender = do {
     traceID \<leftarrow> on_world (hv_traceID env);
     case GetArg cmd 0 of
       None \<Rightarrow> State_Monad.return (Inl (Plain ''usage: /ruriko agents disable <name> [--erase]''))
     | Some agentID \<Rightarrow> agent_lookup env traceID sender ''agents.disable'' agentID (\<lambda>agent.
         if an_Status agent = ''disabled'' then State_Monad.return (Inr (Reply ''already disabled'' [agentID, traceID]))
         else behind_gate env ''agents.disable'' agentID cmd sender (do {
           let erase = HasFlag cmd ''erase'';
           ls \<leftarrow> disable_container env agentID agent;
           as \<leftarrow> disable_account env agent erase;
           r \<leftarrow> statement env (\<lambda>e now. UpdateAgentDisabled e now agentID);
           case r of
             Some e \<Rightarrow> audited_error env traceID sender ''agents.disable'' agentID (hv_text env (InDatabase e))
               (Because ''failed to mark agent as disabled'' (InDatabase e))
           | None \<Rightarrow> do {
               ss \<leftarrow> disable_secrets env agentID;
               _ \<leftarrow> write_audit env traceID sender ''agents.disable'' agentID ''success''
                 (Some [(''mxid'', GStr (column (an_MXID agent))), (''erase'', GBool erase)]) [];
               note_op (Notified ''agent.disabled'' sender agentID);
               State_Monad.return (Inr (Reply ''disabling agent'' ([agentID] @ ls @ as @ [''Agent marked as disabled''] @ ss @ [traceID]))) } })) }"

subsection \<open>What the handlers may change\<close>

definition agent_labels :: "string \<Rightarrow> label set" where
  "agent_labels i = {World, Table KAudit, Table (KAgent i), Table (KDesired i), Table (KProvision i)} \<union> range Op"

definition quiet :: "label set" where
  "quiet = {World, Gate, Table KAudit}"

lemma agent_labels_mem [simp]:
  "World \<in> agent_labels i" "Table KAudit \<in> agent_labels i" "Table (KAgent i) \<in> agent_labels i" "Op x \<in> agent_labels i"
  "Table (KDesired i) \<in> agent_labels i" "Table (KProvision i) \<in> agent_labels i"
  by (simp_all add: agent_labels_def)

lemma lookup_footprint:
  "World \<in> A \<Longrightarrow> Table KAudit \<in> A \<Longrightarrow> (\<And>agent. an_ID agent = agentID \<Longrightarrow> footprint A (rest agent)) \<Longrightarrow>
   footprint A (agent_lookup env traceID sender action agentID rest)"
  unfolding agent_lookup_def
  by (rule fp.io_bind_result [OF footprint_ask])
    (auto intro!: io_sum footprint_audited_error
      simp: set_state_iff ask_def on_world_def on_db_def GetAgent_def dest: find_agent_Some split: prod.splits option.splits)

lemma container_call_footprint: "World \<in> A \<Longrightarrow> Op x \<in> A \<Longrightarrow> footprint A (container_call f h x)"
  unfolding container_call_def by (intro footprint_intros)

lemma spawn_container_footprint: "World \<in> A \<Longrightarrow> Op (Spawned spec) \<in> A \<Longrightarrow> footprint A (spawn_container rt spec)"
  unfolding spawn_container_def by (intro footprint_intros)

lemma generateACPToken_footprint: "World \<in> A \<Longrightarrow> footprint A (generateACPToken env)"
  unfolding generateACPToken_def by (intro footprint_intros)

lemmas lifecycle_intros = footprint_intros lookup_footprint container_call_footprint spawn_container_footprint generateACPToken_footprint

lemma status_done_footprint: "footprint (agent_labels agentID) (status_done env traceID sender action agentID status event reply)"
  unfolding status_done_def by (intro lifecycle_intros) (simp_all add: agent_labels_def)

lemma recover_footprint: "an_ID agent = i \<Longrightarrow> footprint (agent_labels i) (recoverAgentContainer env agent)"
  unfolding recoverAgentContainer_def recovery_token_def recovery_account_def
  by (intro lifecycle_intros) (simp_all add: agent_labels_def)

lemma bring_up_footprint: "an_ID agent = i \<Longrightarrow> footprint (agent_labels i) (bring_up env call mark what agent)"
  unfolding bring_up_def by (intro lifecycle_intros recover_footprint) (simp_all add: agent_labels_def)

lemma HandleAgentsStop_footprint: "footprint (agent_labels (first_arg cmd)) (HandleAgentsStop env cmd sender)"
  unfolding HandleAgentsStop_def Let_def
  by (intro lifecycle_intros status_done_footprint bring_up_footprint) auto

lemma HandleAgentsStart_footprint: "footprint (agent_labels (first_arg cmd)) (HandleAgentsStart env cmd sender)"
  unfolding HandleAgentsStart_def Let_def
  by (intro lifecycle_intros status_done_footprint bring_up_footprint) auto

lemma HandleAgentsRespawn_footprint: "footprint (agent_labels (first_arg cmd)) (HandleAgentsRespawn env cmd sender)"
  unfolding HandleAgentsRespawn_def Let_def
  by (intro lifecycle_intros status_done_footprint bring_up_footprint) auto

lemma HandleAgentsCreate_footprint:
  "footprint (insert (Table (KNewAgent (GetFlag cmd ''name'' []))) (agent_labels (GetFlag cmd ''name'' []))) (HandleAgentsCreate env cmd sender room)"
proof -
  have f [simp]: "an_ID (new_agent_row (read_create_flags cmd) t) = GetFlag cmd ''name'' []" "cr_agentID (read_create_flags cmd) = GetFlag cmd ''name'' []" for t
    by (simp_all add: new_agent_row_def read_create_flags_def)
  show ?thesis
    unfolding HandleAgentsCreate_def create_container_def create_stopped_def create_spawned_def create_failed_def register_account_def
    by (intro lifecycle_intros) (auto simp: agent_labels_def)
qed

lemma HandleAgentsDelete_footprint:
  "footprint (quiet \<union> (if unapproved env ''agents.delete'' cmd then {} else insert (Table (KDropAgent (first_arg cmd))) (range Op)))
     (HandleAgentsDelete env cmd sender)"
  unfolding HandleAgentsDelete_def by (intro lifecycle_intros) (auto simp: quiet_def)

lemma HandleAgentsCancel_footprint: "footprint (quiet \<union> range Op) (HandleAgentsCancel env cmd sender)"
  unfolding HandleAgentsCancel_def by (intro lifecycle_intros) (auto simp: quiet_def)

lemma HandleAgentsStatus_footprint: "footprint quiet (HandleAgentsStatus env cmd sender)"
  unfolding HandleAgentsStatus_def container_lines_def control_lines_def by (intro lifecycle_intros) (auto simp: quiet_def)

lemma HandleAgentsMatrixRegister_footprint:
  "footprint (\<Union>i. agent_labels i \<union> {Table (KSecret (matrix_token_name i)), Table (KBinding i)}) (HandleAgentsMatrixRegister env cmd sender)"
  unfolding HandleAgentsMatrixRegister_def associate_account_def provision_account_def record_account_def
  by (intro lifecycle_intros) (auto simp: agent_labels_def)

lemma HandleAgentsDisable_footprint:
  "footprint (quiet \<union> (if unapproved env ''agents.disable'' cmd then {} else
      agent_labels (first_arg cmd) \<union> {Table (KSecret (matrix_token_name (first_arg cmd))), Table (KBinding (first_arg cmd))}))
     (HandleAgentsDisable env cmd sender)"
  unfolding HandleAgentsDisable_def disable_container_def disable_account_def disable_secrets_def
  by (intro lifecycle_intros) (auto simp: agent_labels_def quiet_def first_arg_def)

end
