(* ===== verification/Gosuto_Diff.thy ===== *)
theory Gosuto_Diff
  imports Go_Values "HOL-Library.Sublist"
begin

section \<open>Comparing two configurations\<close>

text \<open>
  The end of \<^verbatim>\<open>internal/ruriko/commands/gosuto_handlers.go\<close>: the longest common subsequence of two lists of lines by dynamic programming and the
  difference that is shown from it.  The table is a list of rows, filled from left to right as the loops do; the slice that is appended to while going back
  through the table is a list in the order of the appends.
  The theory shows that the table holds the lengths of the recursive definition, that the result is a common subsequence and that no common subsequence is
  longer, and that both inputs can be read back from the difference.
\<close>

subsection \<open>The longest common subsequence\<close>

definition maxDiffLines :: nat where "maxDiffLines = 2000"

text \<open>The inner loop: \<open>p0\<close> is \<^verbatim>\<open>dp[i-1][j-1]\<close>, \<open>p1\<close> is \<^verbatim>\<open>dp[i-1][j]\<close> and \<open>l\<close> is \<^verbatim>\<open>dp[i][j-1]\<close>.\<close>

fun dp_fill :: "string \<Rightarrow> string list \<Rightarrow> nat list \<Rightarrow> nat \<Rightarrow> nat list" where
  "dp_fill x (y # ys) (p0 # p1 # ps) l = (let c = (if x = y then p0 + 1 else if p1 > l then p1 else l) in c # dp_fill x ys (p1 # ps) c)"
| "dp_fill x ys ps l = []"

fun dp_rows :: "string list \<Rightarrow> string list \<Rightarrow> nat list \<Rightarrow> nat list list" where
  "dp_rows [] b prev = [prev]"
| "dp_rows (x # xs) b prev = prev # dp_rows xs b (0 # dp_fill x b prev 0)"

definition dp_table :: "string list \<Rightarrow> string list \<Rightarrow> nat list list" where
  "dp_table a b = dp_rows a b (replicate (length b + 1) 0)"

text \<open>The way back, in the order in which lines are appended.\<close>

function backtrack :: "string list \<Rightarrow> string list \<Rightarrow> nat list list \<Rightarrow> nat \<Rightarrow> nat \<Rightarrow> string list" where
  "backtrack a b dp i j =
     (if 0 < i \<and> 0 < j
      then if a ! (i - 1) = b ! (j - 1) then a ! (i - 1) # backtrack a b dp (i - 1) (j - 1)
        else if dp ! (i - 1) ! j > dp ! i ! (j - 1) then backtrack a b dp (i - 1) j
        else backtrack a b dp i (j - 1)
      else [])"
  by pat_completeness auto
termination by (relation "measure (\<lambda>(a, b, dp, i, j). i + j)") auto

declare backtrack.simps [simp del]

definition lcsLines :: "string list \<Rightarrow> string list \<Rightarrow> string list option" where
  "lcsLines a b =
     (if length a > maxDiffLines \<or> length b > maxDiffLines then None
      else Some (rev (backtrack a b (dp_table a b) (length a) (length b))))"

subsection \<open>The difference\<close>

datatype entry = Removed_line string | Added_line string | Same_line string

fun diff_entries :: "string list \<Rightarrow> string list \<Rightarrow> string list \<Rightarrow> entry list" where
  "diff_entries as bs [] = map Removed_line as @ map Added_line bs"
| "diff_entries as bs (l # ls) =
     map Removed_line (takeWhile (\<lambda>x. x \<noteq> l) as) @ map Added_line (takeWhile (\<lambda>x. x \<noteq> l) bs) @ Same_line l #
     diff_entries (drop 1 (dropWhile (\<lambda>x. x \<noteq> l) as)) (drop 1 (dropWhile (\<lambda>x. x \<noteq> l) bs)) ls"

definition newline :: char where "newline = CHR 0x0A"

fun write_entry :: "entry \<Rightarrow> string" where
  "write_entry (Removed_line x) = ''- '' @ x @ [newline]"
| "write_entry (Added_line x) = ''+ '' @ x @ [newline]"
| "write_entry (Same_line x) = ''  '' @ x @ [newline]"

definition trim_newlines :: "string \<Rightarrow> string" where
  "trim_newlines s = rev (dropWhile (\<lambda>c. c = newline) (rev s))"

definition config_lines :: "string \<Rightarrow> string list" where
  "config_lines s = split_on newline (trim_newlines s)"

datatype diff_text = TooLarge nat nat | Diff string

definition diffLines :: "string \<Rightarrow> string \<Rightarrow> diff_text" where
  "diffLines a b = (case lcsLines (config_lines a) (config_lines b) of
       None \<Rightarrow> TooLarge (length (config_lines a)) (length (config_lines b))
     | Some lcs \<Rightarrow> Diff (trim_newlines (concat (map write_entry (diff_entries (config_lines a) (config_lines b) lcs)))))"

subsection \<open>The table holds the lengths\<close>

fun lcs_len :: "string list \<Rightarrow> string list \<Rightarrow> nat \<Rightarrow> nat \<Rightarrow> nat" where
  "lcs_len a b 0 j = 0"
| "lcs_len a b (Suc i) 0 = 0"
| "lcs_len a b (Suc i) (Suc j) =
     (if a ! i = b ! j then lcs_len a b i j + 1 else max (lcs_len a b i (Suc j)) (lcs_len a b (Suc i) j))"

lemma lcs_len_zero [simp]: "lcs_len a b i 0 = 0"
  by (cases i) simp_all

definition len_row :: "string list \<Rightarrow> string list \<Rightarrow> nat \<Rightarrow> nat \<Rightarrow> nat list" where
  "len_row a b i k = map (lcs_len a b i) [k..<Suc (length b)]"

lemma dp_fill_row:
  assumes "j \<le> length b"
  shows "dp_fill (a ! i) (drop j b) (len_row a b i j) (lcs_len a b (Suc i) j) = len_row a b (Suc i) (Suc j)"
  using assms
proof (induction "length b - j" arbitrary: j)
  case 0
  then show ?case by (simp add: len_row_def)
next
  case (Suc n)
  then have j: "j < length b" by simp
  have d: "drop j b = b ! j # drop (Suc j) b" using j by (simp add: Cons_nth_drop_Suc)
  have r: "len_row a b i' k = lcs_len a b i' k # len_row a b i' (Suc k)" if "k \<le> length b" for i' k
    using that by (simp add: len_row_def upt_rec)
  have "n = length b - Suc j" using Suc.hyps(2) by simp
  from Suc.hyps(1) [OF this] j
  have "dp_fill (a ! i) (drop (Suc j) b) (len_row a b i (Suc j)) (lcs_len a b (Suc i) (Suc j)) = len_row a b (Suc i) (Suc (Suc j))" by simp
  moreover have "len_row a b i j = lcs_len a b i j # lcs_len a b i (Suc j) # len_row a b i (Suc (Suc j))"
    "len_row a b i (Suc j) = lcs_len a b i (Suc j) # len_row a b i (Suc (Suc j))"
    "len_row a b (Suc i) (Suc j) = lcs_len a b (Suc i) (Suc j) # len_row a b (Suc i) (Suc (Suc j))"
    using j by (simp_all add: r)
  ultimately show ?case by (auto simp: d Let_def max_def)
qed

lemma dp_rows_lengths:
  "i \<le> length a \<Longrightarrow> dp_rows (drop i a) b (len_row a b i 0) = map (\<lambda>k. len_row a b k 0) [i..<Suc (length a)]"
proof (induction "length a - i" arbitrary: i)
  case (Suc n)
  then have i: "i < length a" by simp
  have d: "drop i a = a ! i # drop (Suc i) a" using i by (simp add: Cons_nth_drop_Suc)
  have "0 # dp_fill (a ! i) b (len_row a b i 0) 0 = len_row a b (Suc i) 0"
    using dp_fill_row [of 0 b a i] by (simp add: len_row_def upt_rec del: upt_Suc)
  moreover have "dp_rows (drop (Suc i) a) b (len_row a b (Suc i) 0) = map (\<lambda>k. len_row a b k 0) [Suc i..<Suc (length a)]"
    using Suc.hyps(1) [of "Suc i"] Suc.hyps(2) i by simp
  moreover have "[i..<Suc (length a)] = i # [Suc i..<Suc (length a)]" using i by (intro upt_conv_Cons) simp
  ultimately show ?case by (simp add: d del: upt_Suc)
qed (simp add: upt_rec)

lemma dp_table_lengths:
  assumes "i \<le> length a" "j \<le> length b"
  shows "dp_table a b ! i ! j = lcs_len a b i j"
proof -
  have "len_row a b 0 0 = replicate (length b + 1) 0"
    by (rule nth_equalityI) (simp_all add: len_row_def del: upt_Suc replicate_Suc)
  then have "dp_table a b = map (\<lambda>k. len_row a b k 0) [0..<Suc (length a)]"
    using dp_rows_lengths [of 0 a b] by (simp add: dp_table_def)
  then show ?thesis using assms by (simp add: len_row_def nth_append del: upt_Suc)
qed

subsection \<open>The result is longest\<close>

lemma subseq_snoc:
  assumes "subseq zs (xs @ [x])"
  shows "subseq zs xs \<or> (\<exists>us. zs = us @ [x] \<and> subseq us xs)"
proof -
  obtain us vs where uv: "zs = us @ vs" "subseq us xs" "subseq vs [x]" using assms by (auto simp: subseq_append_iff)
  then show ?thesis by (cases vs) (auto simp: Cons_eq_append_conv split: if_splits)
qed

lemma lcs_len_bound:
  "i \<le> length a \<Longrightarrow> j \<le> length b \<Longrightarrow> subseq zs (take i a) \<Longrightarrow> subseq zs (take j b) \<Longrightarrow> length zs \<le> lcs_len a b i j"
proof (induction a b i j arbitrary: zs rule: lcs_len.induct)
  case (3 a b i j)
  have t: "take (Suc i) a = take i a @ [a ! i]" "take (Suc j) b = take j b @ [b ! j]"
    using 3(4,5) by (simp_all add: take_Suc_conv_app_nth)
  note za = subseq_snoc [OF 3(6) [unfolded t(1)]] and zb = subseq_snoc [OF 3(7) [unfolded t(2)]]
  show ?case
  proof (cases "a ! i = b ! j")
    case True
    have "subseq (butlast zs) (take i a)" "subseq (butlast zs) (take j b)"
      using za zb by (auto intro: subseq_order.trans [OF sublist_imp_subseq] prefixeq_butlast prefix_imp_sublist)
    from 3(1) [OF True _ _ this] 3(4,5) have "length (butlast zs) \<le> lcs_len a b i j" by simp
    then show ?thesis using True by simp
  next
    case False
    with za zb have "subseq zs (take i a) \<or> subseq zs (take j b)" by auto
    then show ?thesis
    proof
      assume "subseq zs (take i a)"
      then have "length zs \<le> lcs_len a b i (Suc j)" using 3(2) [OF False] 3(4,5,7) by simp
      then show ?thesis using False by simp
    next
      assume "subseq zs (take j b)"
      then have "length zs \<le> lcs_len a b (Suc i) j" using 3(3) [OF False] 3(4,5,6) by simp
      then show ?thesis using False by simp
    qed
  qed
qed auto

lemma backtrack_common:
  assumes "i \<le> length a" "j \<le> length b"
  shows "subseq (rev (backtrack a b (dp_table a b) i j)) (take i a) \<and> subseq (rev (backtrack a b (dp_table a b) i j)) (take j b) \<and>
    length (backtrack a b (dp_table a b) i j) = lcs_len a b i j"
  using assms
proof (induction a b i j rule: lcs_len.induct)
  case (3 a b i j)
  have t: "take (Suc i) a = take i a @ [a ! i]" "take (Suc j) b = take j b @ [b ! j]"
    using 3(4,5) by (simp_all add: take_Suc_conv_app_nth)
  have dp: "dp_table a b ! i ! Suc j = lcs_len a b i (Suc j)" "dp_table a b ! Suc i ! j = lcs_len a b (Suc i) j"
    using 3(4,5) by (simp_all add: dp_table_lengths)
  let ?B = "backtrack a b (dp_table a b)"
  show ?case
  proof (cases "a ! i = b ! j")
    case True
    then have B: "?B (Suc i) (Suc j) = a ! i # ?B i j" by (subst backtrack.simps) simp
    then show ?thesis using 3(1) [OF True] 3(4,5) True by (simp add: t B list_emb_append_mono)
  next
    case False
    then have B: "?B (Suc i) (Suc j) = (if lcs_len a b i (Suc j) > lcs_len a b (Suc i) j then ?B i (Suc j) else ?B (Suc i) j)"
      by (subst backtrack.simps) (simp add: dp)
    show ?thesis
    proof (cases "lcs_len a b i (Suc j) > lcs_len a b (Suc i) j")
      case True
      then show ?thesis using 3(2) [OF False] 3(4,5) False by (auto simp: B t(1) intro: subseq_order.trans)
    next
      case less: False
      then show ?thesis using 3(3) [OF False] 3(4,5) False by (auto simp: B t(2) intro: subseq_order.trans)
    qed
  qed
qed (subst backtrack.simps, simp)+

subsection \<open>Properties\<close>

fun old_side :: "entry list \<Rightarrow> string list" where
  "old_side [] = []"
| "old_side (Removed_line x # es) = x # old_side es"
| "old_side (Same_line x # es) = x # old_side es"
| "old_side (Added_line x # es) = old_side es"

fun new_side :: "entry list \<Rightarrow> string list" where
  "new_side [] = []"
| "new_side (Removed_line x # es) = new_side es"
| "new_side (Same_line x # es) = x # new_side es"
| "new_side (Added_line x # es) = x # new_side es"

lemma sides_append [simp]:
  "old_side (xs @ ys) = old_side xs @ old_side ys" "new_side (xs @ ys) = new_side xs @ new_side ys"
  by (induction xs rule: old_side.induct) simp_all

lemma sides_map [simp]:
  "old_side (map Removed_line xs) = xs" "old_side (map Added_line xs) = []"
  "new_side (map Removed_line xs) = []" "new_side (map Added_line xs) = xs"
  by (induction xs) simp_all

lemma subseq_past_first:
  assumes "subseq (l # ls) xs"
  shows "takeWhile (\<lambda>x. x \<noteq> l) xs @ l # drop 1 (dropWhile (\<lambda>x. x \<noteq> l) xs) = xs \<and> subseq ls (drop 1 (dropWhile (\<lambda>x. x \<noteq> l) xs))"
proof -
  have "subseq (l # ls) xs \<longrightarrow> ?thesis"
    by (induction xs) (auto simp: subseq_Cons2_neq dest: subseq_Cons2')
  with assms show ?thesis by blast
qed

lemma diff_entries_sides: "subseq lcs as \<Longrightarrow> subseq lcs bs \<Longrightarrow> old_side (diff_entries as bs lcs) = as \<and> new_side (diff_entries as bs lcs) = bs"
proof (induction as bs lcs rule: diff_entries.induct)
  case (2 as bs l ls)
  from 2(1) subseq_past_first [OF 2(2)] subseq_past_first [OF 2(3)] show ?case by simp
qed simp

text \<open>
  C39: The difference of two configurations is faithful and as small as possible: for inputs of at most 2000 lines it exists, both lists of lines are read
  back from it exactly, and the lines it shows as common are a longest common subsequence.
\<close>

theorem diff_faithful_minimal:
  assumes "length as \<le> maxDiffLines" "length bs \<le> maxDiffLines"
  shows "\<exists>lcs. lcsLines as bs = Some lcs \<and> old_side (diff_entries as bs lcs) = as \<and> new_side (diff_entries as bs lcs) = bs \<and>
    subseq lcs as \<and> subseq lcs bs \<and> (\<forall>zs. subseq zs as \<and> subseq zs bs \<longrightarrow> length zs \<le> length lcs)"
proof -
  let ?lcs = "rev (backtrack as bs (dp_table as bs) (length as) (length bs))"
  have lcs: "lcsLines as bs = Some ?lcs" using assms by (simp add: lcsLines_def)
  have common: "subseq ?lcs as" "subseq ?lcs bs" and len: "length ?lcs = lcs_len as bs (length as) (length bs)"
    using backtrack_common [of "length as" as "length bs" bs] by simp_all
  have "length zs \<le> length ?lcs" if "subseq zs as" "subseq zs bs" for zs
    using lcs_len_bound [of "length as" as "length bs" bs zs] that len by simp
  then show ?thesis using lcs common diff_entries_sides [OF common] by blast
qed

theorem diff_faithful_minimal_witness:
  "\<exists>lcs. lcsLines [''a'', ''b'', ''c''] [''b'', ''x'', ''c''] = Some lcs \<and>
     new_side (diff_entries [''a'', ''b'', ''c''] [''b'', ''x'', ''c''] lcs) = [''b'', ''x'', ''c''] \<and> lcs = [''b'', ''c'']"
proof -
  have "lcsLines [''a'', ''b'', ''c''] [''b'', ''x'', ''c''] = Some [''b'', ''c'']" by code_simp
  with diff_faithful_minimal [of "[''a'', ''b'', ''c'']" "[''b'', ''x'', ''c'']"] show ?thesis by (auto simp: maxDiffLines_def)
qed

text \<open>Without a change every line is common.\<close>

lemma diff_of_equal: "diff_entries as as as = map Same_line as"
  by (induction as) simp_all

end
