(* ===== verification/Gosuto_Handlers.thy ===== *)
theory Gosuto_Handlers
  imports Lifecycle_Handlers Gosuto_Diff
begin

section \<open>Configurations of agents\<close>

text \<open>
  \<^verbatim>\<open>internal/ruriko/commands/gosuto_handlers.go\<close>: showing, comparing, storing, patching, rolling back and pushing configurations, and pushing
  secrets.  YAML, SHA-256 and the client of the control protocol come from the environment.  Of the persona, the report leaves out the temperature.
  The theory gives the footprint of every handler.
\<close>

subsection \<open>Reading\<close>

definition GosutoVersionsRetainN :: int where "GosutoVersionsRetainN = 20"

definition clip_line :: "nat \<Rightarrow> string \<Rightarrow> string" where
  "clip_line n s = (let s = trim_space s in
     case index_of s [newline] of
       Some i \<Rightarrow> if i > 0 then take i s @ ellipsis else if length s > n then take n s @ ellipsis else s
     | None \<Rightarrow> if length s > n then take n s @ ellipsis else s)"

definition clip :: "nat \<Rightarrow> string \<Rightarrow> string" where
  "clip n s = (if length s > n then take n s @ ellipsis else s)"

definition model_name :: "Persona \<Rightarrow> string" where
  "model_name p =
     (if pe_LLMProvider p = [] then pe_Model p
      else if pe_Model p = [] then pe_LLMProvider p
      else trim_space (pe_LLMProvider p @ ''/'' @ pe_Model p))"

definition persona_lines :: "Persona \<Rightarrow> string list" where
  "persona_lines p =
     (if pe_LLMProvider p \<noteq> [] \<or> pe_Model p \<noteq> [] then [''Model: '' @ model_name p] else []) @
     [if pe_SystemPrompt p \<noteq> [] then ''System prompt: '' @ clip_line 120 (pe_SystemPrompt p) else ''_(no system prompt)_'']"

definition workflow_line :: "nat \<Rightarrow> WorkflowStep \<Rightarrow> string" where
  "workflow_line i st = ''  '' @ itoa_nat i @ ''. ['' @ trim_space (st_Trigger st) @ ''] '' @ clip 80 (trim_space (st_Action st))"

definition instruction_lines :: "Instructions \<Rightarrow> string list" where
  "instruction_lines x =
     (if in_Role x = [] \<and> in_Workflow x = [] \<and> ic_User (in_Context x) = [] \<and> ic_Peers (in_Context x) = []
      then [''_(no instructions configured)_'']
      else (if in_Role x \<noteq> [] then [''Role: '' @ clip_line 120 (in_Role x)] else []) @
        (if in_Workflow x \<noteq> [] then (''Workflow: '' @ itoa_nat (length (in_Workflow x)) @ '' step(s)'') #
           map (\<lambda>(i, st). workflow_line (Suc i) st) (List.enumerate 0 (in_Workflow x)) else []) @
        (if ic_User (in_Context x) \<noteq> [] then [''User context: '' @ clip 100 (trim_space (ic_User (in_Context x)))] else []) @
        (if ic_Peers (in_Context x) \<noteq> [] then [''Peers: '' @ str_join '', '' (map pr_Name (ic_Peers (in_Context x)))] else []))"

definition formatGosutoShow :: "'w HEnv \<Rightarrow> string \<Rightarrow> GosutoVersion \<Rightarrow> string \<Rightarrow> answer" where
  "formatGosutoShow env agentID gv traceID = Reply ''gosuto config''
     ([agentID, itoa (gv_Version gv), take 16 (gv_Hash gv), gv_CreatedByMXID gv, fmt_rfc3339 (gv_CreatedAt gv)] @
      (case hv_unmarshal env (gv_YAMLBlob gv) of
         Inl _ \<Rightarrow> []
       | Inr cfg \<Rightarrow> persona_lines (cf_Persona cfg) @ instruction_lines (cf_Instructions cfg)) @
      [trim_newlines (gv_YAMLBlob gv), traceID])"

definition find_version :: "'w HEnv \<Rightarrow> string \<Rightarrow> string \<Rightarrow> ('w, handler_error + (store_error + GosutoVersion)) plane" where
  "find_version env agentID vStr =
     (if vStr = [] then do { r \<leftarrow> ask env (\<lambda>e. GetLatestGosutoVersion e agentID); State_Monad.return (Inr r) }
      else (case sscan_int vStr of
              None \<Rightarrow> State_Monad.return (Inl (Plain (''--version must be an integer, got '' @ go_quote vStr)))
            | Some n \<Rightarrow> do { r \<leftarrow> ask env (\<lambda>e. GetGosutoVersion e agentID n); State_Monad.return (Inr r) }))"

definition HandleGosutoShow :: "'w HEnv \<Rightarrow> Command \<Rightarrow> string \<Rightarrow> ('w, handler_error + answer) plane" where
  "HandleGosutoShow env cmd sender = do {
     traceID \<leftarrow> on_world (hv_traceID env);
     case GetArg cmd 0 of
       None \<Rightarrow> State_Monad.return (Inl (Plain ''usage: /ruriko gosuto show <agent> [--version <n>]''))
     | Some agentID \<Rightarrow> agent_lookup env traceID sender ''gosuto.show'' agentID (\<lambda>_. do {
         v \<leftarrow> find_version env agentID (GetFlag cmd ''version'' []);
         case v of
           Inl e \<Rightarrow> State_Monad.return (Inl e)
         | Inr (Inl e) \<Rightarrow> audited_error env traceID sender ''gosuto.show'' agentID (hv_text env (InDatabase e))
             (Because (''no gosuto config found for agent '' @ go_quote agentID) (InDatabase e))
         | Inr (Inr gv) \<Rightarrow> do {
             _ \<leftarrow> write_audit env traceID sender ''gosuto.show'' agentID ''success'' (Some [(''version'', GInt (gv_Version gv))]) [];
             State_Monad.return (Inr (formatGosutoShow env agentID gv traceID)) } }) }"

definition version_line :: "GosutoVersion \<Rightarrow> string" where
  "version_line v = ''v'' @ itoa (gv_Version v) @ ''  '' @ fmt_rfc3339 (gv_CreatedAt v) @ ''  '' @
     (if length (gv_CreatedByMXID v) > 18 then take 15 (gv_CreatedByMXID v) @ ellipsis else gv_CreatedByMXID v) @ ''  '' @ take 16 (gv_Hash v)"

definition HandleGosutoVersions :: "'w HEnv \<Rightarrow> Command \<Rightarrow> string \<Rightarrow> ('w, handler_error + answer) plane" where
  "HandleGosutoVersions env cmd sender = do {
     traceID \<leftarrow> on_world (hv_traceID env);
     case GetArg cmd 0 of
       None \<Rightarrow> State_Monad.return (Inl (Plain ''usage: /ruriko gosuto versions <agent>''))
     | Some agentID \<Rightarrow> agent_lookup env traceID sender ''gosuto.versions'' agentID (\<lambda>_. do {
         r \<leftarrow> ask env (\<lambda>e. ListGosutoVersions e agentID);
         case r of
           Inl e \<Rightarrow> audited_error env traceID sender ''gosuto.versions'' agentID (hv_text env (InDatabase e))
             (Because ''failed to list versions'' (InDatabase e))
         | Inr vs \<Rightarrow> do {
             _ \<leftarrow> write_audit env traceID sender ''gosuto.versions'' agentID ''success'' (Some [(''count'', GInt (int (length vs)))]) [];
             State_Monad.return (Inr (if vs = [] then Reply ''no gosuto versions'' [agentID, traceID]
               else Reply ''gosuto versions'' ([agentID, itoa_nat (length vs)] @ map version_line vs @ [traceID]))) } }) }"

definition section_text :: "string + string \<Rightarrow> string" where
  "section_text r = (case r of Inl _ \<Rightarrow> [] | Inr s \<Rightarrow> s)"

definition zero_Persona :: Persona where "zero_Persona = cf_Persona zero_Config"
definition zero_Instructions :: Instructions where "zero_Instructions = cf_Instructions zero_Config"

definition gosutoDiffSections :: "'w HEnv \<Rightarrow> string \<Rightarrow> string \<Rightarrow> string" where
  "gosutoDiffSections env fromYAML toYAML = (case (hv_unmarshal env fromYAML, hv_unmarshal env toYAML) of
       (Inr a, Inr b) \<Rightarrow>
         (let rest = (\<lambda>c. section_text (hv_marshal env (c\<lparr>cf_Persona := zero_Persona, cf_Instructions := zero_Instructions\<rparr>)));
              parts = (if hv_marshalPersona env (cf_Persona a) \<noteq> hv_marshalPersona env (cf_Persona b) then [''**persona**''] else []) @
                (if hv_marshalInstructions env (cf_Instructions a) \<noteq> hv_marshalInstructions env (cf_Instructions b) then [''**instructions**''] else []) @
                (if rest a \<noteq> rest b then [''**policy/trust/other**''] else [])
          in if parts = [] then ''_No section differences detected._'' else ''Changed sections: '' @ str_join '', '' parts)
     | _ \<Rightarrow> ''_Section analysis unavailable (YAML parse error)_'')"

definition diff_parts :: "diff_text \<Rightarrow> string list" where
  "diff_parts d = (case d of TooLarge n m \<Rightarrow> [''too large'', itoa_nat n, itoa_nat m] | Diff s \<Rightarrow> [s])"

definition diff_usage :: string where "diff_usage = ''usage: /ruriko gosuto diff <agent> --from <v1> --to <v2>''"

definition diff_versions :: "'w HEnv \<Rightarrow> string \<Rightarrow> string \<Rightarrow> string \<Rightarrow> int \<Rightarrow> int \<Rightarrow> ('w, handler_error + answer) plane" where
  "diff_versions env traceID sender agentID fromN toN = do {
     a \<leftarrow> ask env (\<lambda>e. GetGosutoVersion e agentID fromN);
     case a of
       Inl e \<Rightarrow> State_Monad.return (Inl (Because (''from version '' @ itoa fromN) (InDatabase e)))
     | Inr fromGV \<Rightarrow> do {
         b \<leftarrow> ask env (\<lambda>e. GetGosutoVersion e agentID toN);
         case b of
           Inl e \<Rightarrow> State_Monad.return (Inl (Because (''to version '' @ itoa toN) (InDatabase e)))
         | Inr toGV \<Rightarrow> do {
             _ \<leftarrow> write_audit env traceID sender ''gosuto.diff'' agentID ''success'' (Some [(''from'', GInt fromN), (''to'', GInt toN)]) [];
             State_Monad.return (Inr (
               if gv_Hash fromGV = gv_Hash toGV then Reply ''gosuto diff: no differences'' [agentID, itoa fromN, itoa toN, traceID]
               else Reply ''gosuto diff'' ([agentID, itoa fromN, itoa toN, gosutoDiffSections env (gv_YAMLBlob fromGV) (gv_YAMLBlob toGV)] @
                 diff_parts (diffLines (gv_YAMLBlob fromGV) (gv_YAMLBlob toGV)) @ [traceID]))) } } }"

definition HandleGosutoDiff :: "'w HEnv \<Rightarrow> Command \<Rightarrow> string \<Rightarrow> ('w, handler_error + answer) plane" where
  "HandleGosutoDiff env cmd sender = do {
     traceID \<leftarrow> on_world (hv_traceID env);
     case GetArg cmd 0 of
       None \<Rightarrow> State_Monad.return (Inl (Plain diff_usage))
     | Some agentID \<Rightarrow>
         (let fromStr = GetFlag cmd ''from'' []; toStr = GetFlag cmd ''to'' [] in
          if fromStr = [] \<or> toStr = [] then State_Monad.return (Inl (Plain diff_usage))
          else (case sscan_int fromStr of
              None \<Rightarrow> State_Monad.return (Inl (Plain (''--from must be an integer, got '' @ go_quote fromStr)))
            | Some fromN \<Rightarrow> (case sscan_int toStr of
                None \<Rightarrow> State_Monad.return (Inl (Plain (''--to must be an integer, got '' @ go_quote toStr)))
              | Some toN \<Rightarrow> agent_lookup env traceID sender ''gosuto.diff'' agentID (\<lambda>_. diff_versions env traceID sender agentID fromN toN)))) }"

subsection \<open>Storing\<close>

text \<open>Standard base64, then the URL-safe alphabet.\<close>

definition url_char :: "char \<Rightarrow> char" where
  "url_char c = (if c = CHR ''-'' then CHR ''+'' else if c = CHR ''_'' then CHR ''/'' else c)"

definition URLDecodeString :: "string \<Rightarrow> nat list option" where
  "URLDecodeString s = (if CHR ''+'' \<in> set s \<or> CHR ''/'' \<in> set s then None else DecodeString (map url_char s))"

definition decode_content :: "string \<Rightarrow> string option" where
  "decode_content b64 = map_option (map char_of)
     (case DecodeString b64 of Some bs \<Rightarrow> Some bs | None \<Rightarrow> URLDecodeString b64)"

definition new_version :: "string \<Rightarrow> int \<Rightarrow> string \<Rightarrow> string \<Rightarrow> string \<Rightarrow> GosutoVersion" where
  "new_version agentID ver hash yaml sender =
     \<lparr>gv_ID = 0, gv_AgentID = agentID, gv_Version = ver, gv_Hash = hash, gv_YAMLBlob = yaml, gv_CreatedAt = 0, gv_CreatedByMXID = sender\<rparr>"

definition version_payload :: "GosutoVersion \<Rightarrow> gmap" where
  "version_payload gv = [(''version'', GInt (gv_Version gv)), (''hash'', GStr (take 16 (gv_Hash gv)))]"

definition stored_reply :: "string \<Rightarrow> GosutoVersion \<Rightarrow> string \<Rightarrow> answer" where
  "stored_reply what gv traceID = Reply what [gv_AgentID gv, itoa (gv_Version gv), take 16 (gv_Hash gv), gv_AgentID gv, traceID]"

text \<open>The next version is numbered, stored and old ones are pruned; a failure of the pruning is only logged.\<close>

definition append_version :: "'w HEnv \<Rightarrow> string \<Rightarrow> string \<Rightarrow> string \<Rightarrow> string \<Rightarrow> ('w, (store_error + store_error) + GosutoVersion) plane" where
  "append_version env agentID hash yaml sender = do {
     n \<leftarrow> ask env (\<lambda>e. NextGosutoVersion e agentID);
     case n of
       Inl e \<Rightarrow> State_Monad.return (Inl (Inl e))
     | Inr nextVer \<Rightarrow> do {
         let gv = new_version agentID nextVer hash yaml sender;
         c \<leftarrow> store_version env gv;
         case c of
           Some e \<Rightarrow> State_Monad.return (Inl (Inr e))
         | None \<Rightarrow> do {
             _ \<leftarrow> statement env (\<lambda>e now. PruneGosutoVersions e agentID GosutoVersionsRetainN);
             State_Monad.return (Inr gv) } } }"

definition store_config :: "'w HEnv \<Rightarrow> string \<Rightarrow> string \<Rightarrow> string \<Rightarrow> string \<Rightarrow> ('w, handler_error + answer) plane" where
  "store_config env traceID sender agentID rawYAML = (let hash = hv_sha256 env rawYAML in do {
     l \<leftarrow> ask env (\<lambda>e. GetLatestGosutoVersion e agentID);
     if (case l of Inr latest \<Rightarrow> gv_Hash latest = hash | Inl _ \<Rightarrow> False)
     then State_Monad.return (Inr (Reply ''gosuto unchanged'' [agentID, (case l of Inr latest \<Rightarrow> itoa (gv_Version latest) | Inl _ \<Rightarrow> []), traceID]))
     else do {
       r \<leftarrow> append_version env agentID hash rawYAML sender;
       case r of
         Inl (Inl e) \<Rightarrow> audited_error env traceID sender ''gosuto.set'' agentID (hv_text env (InDatabase e))
           (Because ''failed to determine next version'' (InDatabase e))
       | Inl (Inr e) \<Rightarrow> audited_error env traceID sender ''gosuto.set'' agentID (hv_text env (InDatabase e))
           (Because ''failed to store Gosuto version'' (InDatabase e))
       | Inr gv \<Rightarrow> do {
           _ \<leftarrow> write_audit env traceID sender ''gosuto.set'' agentID ''success'' (Some (version_payload gv)) [];
           State_Monad.return (Inr (stored_reply ''gosuto stored'' gv traceID)) } } })"

definition HandleGosutoSet :: "'w HEnv \<Rightarrow> Command \<Rightarrow> string \<Rightarrow> ('w, handler_error + answer) plane" where
  "HandleGosutoSet env cmd sender = do {
     traceID \<leftarrow> on_world (hv_traceID env);
     case GetArg cmd 0 of
       None \<Rightarrow> State_Monad.return (Inl (Plain ''usage: /ruriko gosuto set <agent> --content <base64-yaml>''))
     | Some agentID \<Rightarrow>
         if GetFlag cmd ''content'' [] = [] then State_Monad.return (Inl (Plain ''--content is required (base64-encoded YAML)''))
         else agent_lookup env traceID sender ''gosuto.set'' agentID (\<lambda>_.
           case decode_content (GetFlag cmd ''content'' []) of
             None \<Rightarrow> State_Monad.return (Inl (Plain ''--content must be valid base64''))
           | Some rawYAML \<Rightarrow>
               (case Parse (hv_decode env) rawYAML of
                  Inl e \<Rightarrow> audited_error env traceID sender ''gosuto.set'' agentID (hv_text env (InConfig e))
                    (Because ''invalid Gosuto config'' (InConfig e))
                | Inr _ \<Rightarrow> behind_gate env ''gosuto.set'' agentID cmd sender (store_config env traceID sender agentID rawYAML))) }"

definition rollback_to :: "'w HEnv \<Rightarrow> string \<Rightarrow> string \<Rightarrow> string \<Rightarrow> int \<Rightarrow> GosutoVersion \<Rightarrow> ('w, handler_error + answer) plane" where
  "rollback_to env traceID sender agentID targetVer target = do {
     l \<leftarrow> ask env (\<lambda>e. GetLatestGosutoVersion e agentID);
     if (case l of Inr latest \<Rightarrow> gv_Hash latest = gv_Hash target | Inl _ \<Rightarrow> False)
     then State_Monad.return (Inr (Reply ''gosuto already at that content'' ([agentID, itoa targetVer] @
       (case l of Inr latest \<Rightarrow> [itoa (gv_Version latest), take 8 (gv_Hash latest)] | Inl _ \<Rightarrow> []) @ [traceID])))
     else do {
       r \<leftarrow> append_version env agentID (gv_Hash target) (gv_YAMLBlob target) sender;
       case r of
         Inl (Inl e) \<Rightarrow> State_Monad.return (Inl (Because ''failed to determine next version'' (InDatabase e)))
       | Inl (Inr e) \<Rightarrow> audited_error env traceID sender ''gosuto.rollback'' agentID (hv_text env (InDatabase e))
           (Because ''failed to store rollback version'' (InDatabase e))
       | Inr gv \<Rightarrow> do {
           _ \<leftarrow> write_audit env traceID sender ''gosuto.rollback'' agentID ''success''
             (Some [(''rolled_back_from'', GInt targetVer), (''new_version'', GInt (gv_Version gv))]) [];
           State_Monad.return (Inr (Reply ''gosuto rolled back'' [agentID, itoa targetVer, itoa (gv_Version gv), agentID, traceID])) } } }"

definition HandleGosutoRollback :: "'w HEnv \<Rightarrow> Command \<Rightarrow> string \<Rightarrow> ('w, handler_error + answer) plane" where
  "HandleGosutoRollback env cmd sender = do {
     traceID \<leftarrow> on_world (hv_traceID env);
     case GetArg cmd 0 of
       None \<Rightarrow> State_Monad.return (Inl (Plain ''usage: /ruriko gosuto rollback <agent> --to <version>''))
     | Some agentID \<Rightarrow>
         if GetFlag cmd ''to'' [] = [] then State_Monad.return (Inl (Plain ''--to <version> is required''))
         else (case sscan_int (GetFlag cmd ''to'' []) of
             None \<Rightarrow> State_Monad.return (Inl (Plain (''--to must be an integer, got '' @ go_quote (GetFlag cmd ''to'' []))))
           | Some targetVer \<Rightarrow> agent_lookup env traceID sender ''gosuto.rollback'' agentID (\<lambda>_.
               behind_gate env ''gosuto.rollback'' agentID cmd sender (do {
                 t \<leftarrow> ask env (\<lambda>e. GetGosutoVersion e agentID targetVer);
                 case t of
                   Inl e \<Rightarrow> audited_error env traceID sender ''gosuto.rollback'' agentID (hv_text env (InDatabase e))
                     (Because (''version '' @ itoa targetVer @ '' not found'') (InDatabase e))
                 | Inr target \<Rightarrow> rollback_to env traceID sender agentID targetVer target }))) }"

subsection \<open>Replacing a section\<close>

text \<open>The result is the version and whether nothing changed.\<close>

definition patchCurrentGosuto :: "'w HEnv \<Rightarrow> string \<Rightarrow> string \<Rightarrow> (Config \<Rightarrow> Config) \<Rightarrow> ('w, handler_error + GosutoVersion \<times> bool) plane" where
  "patchCurrentGosuto env agentID sender fn = do {
     l \<leftarrow> ask env (\<lambda>e. GetLatestGosutoVersion e agentID);
     case l of
       Inl e \<Rightarrow> State_Monad.return (Inl (Because (''no gosuto config found for agent '' @ go_quote agentID) (InDatabase e)))
     | Inr current \<Rightarrow>
         (case hv_unmarshal env (gv_YAMLBlob current) of
            Inl e \<Rightarrow> State_Monad.return (Inl (Because ''failed to parse current gosuto config'' (Outside e)))
          | Inr cfg \<Rightarrow>
              (case hv_marshal env (fn cfg) of
                 Inl e \<Rightarrow> State_Monad.return (Inl (Because ''failed to serialise patched config'' (Outside e)))
               | Inr newYAML \<Rightarrow>
                   (case Parse (hv_decode env) newYAML of
                      Inl e \<Rightarrow> State_Monad.return (Inl (Because ''patched config is invalid'' (InConfig e)))
                    | Inr _ \<Rightarrow>
                        if gv_Hash current = hv_sha256 env newYAML then State_Monad.return (Inr (current, True))
                        else do {
                          r \<leftarrow> append_version env agentID (hv_sha256 env newYAML) newYAML sender;
                          State_Monad.return (case r of
                              Inl (Inl e) \<Rightarrow> Inl (Because ''next gosuto version'' (InDatabase e))
                            | Inl (Inr e) \<Rightarrow> Inl (Because ''store gosuto version'' (InDatabase e))
                            | Inr gv \<Rightarrow> Inr (gv, False)) }))) }"

text \<open>Both commands that replace a section: \<open>decode\<close> reads the section, \<open>put\<close> puts it in place.\<close>

definition set_section ::
    "'w HEnv \<Rightarrow> string \<Rightarrow> string \<Rightarrow> string \<Rightarrow> (string \<Rightarrow> string + 'c) \<Rightarrow> ('c \<Rightarrow> Config \<Rightarrow> Config) \<Rightarrow> Command \<Rightarrow> string \<Rightarrow>
     ('w, handler_error + answer) plane"
where
  "set_section env action section usage decode put cmd sender = do {
     traceID \<leftarrow> on_world (hv_traceID env);
     case GetArg cmd 0 of
       None \<Rightarrow> State_Monad.return (Inl (Plain usage))
     | Some agentID \<Rightarrow>
         if GetFlag cmd ''content'' [] = []
         then State_Monad.return (Inl (Plain (''--content is required (base64-encoded YAML of the '' @ section @ '' section)'')))
         else agent_lookup env traceID sender action agentID (\<lambda>_.
           case decode_content (GetFlag cmd ''content'' []) of
             None \<Rightarrow> State_Monad.return (Inl (Plain ''--content must be valid base64''))
           | Some rawSection \<Rightarrow>
               (case decode rawSection of
                  Inl e \<Rightarrow> State_Monad.return (Inl (Because (''invalid '' @ section @ '' YAML'') (Outside e)))
                | Inr new \<Rightarrow> behind_gate env action agentID cmd sender (do {
                    r \<leftarrow> patchCurrentGosuto env agentID sender (put new);
                    case r of
                      Inl e \<Rightarrow> audited_error env traceID sender action agentID (error_text env e) e
                    | Inr (gv, noChange) \<Rightarrow>
                        if noChange then State_Monad.return (Inr (Reply (section @ '' unchanged'') [agentID, itoa (gv_Version gv), traceID]))
                        else do {
                          _ \<leftarrow> write_audit env traceID sender action agentID ''success'' (Some (version_payload gv)) [];
                          State_Monad.return (Inr (stored_reply (section @ '' updated'') gv traceID)) } }))) }"

definition HandleGosutoSetInstructions :: "'w HEnv \<Rightarrow> Command \<Rightarrow> string \<Rightarrow> ('w, handler_error + answer) plane" where
  "HandleGosutoSetInstructions env = set_section env ''gosuto.set-instructions'' ''instructions''
     ''usage: /ruriko gosuto set-instructions <agent> --content <base64-yaml>'' (hv_unmarshalInstructions env) (\<lambda>x. cf_Instructions_update (\<lambda>_. x))"

definition HandleGosutoSetPersona :: "'w HEnv \<Rightarrow> Command \<Rightarrow> string \<Rightarrow> ('w, handler_error + answer) plane" where
  "HandleGosutoSetPersona env = set_section env ''gosuto.set-persona'' ''persona''
     ''usage: /ruriko gosuto set-persona <agent> --content <base64-yaml>'' (hv_unmarshalPersona env) (\<lambda>x. cf_Persona_update (\<lambda>_. x))"

subsection \<open>Pushing\<close>

definition pushGosuto :: "'w HEnv \<Rightarrow> string \<Rightarrow> string \<Rightarrow> string \<Rightarrow> GosutoVersion \<Rightarrow> ('w, client_error list) plane" where
  "pushGosuto env traceID controlURL acpToken gv = do {
     note_op (ConfigPushed controlURL gv);
     on_world (\<lambda>w.
       case Do (hv_before env) (hv_during env) DefaultConfig
              (ApplyConfig (hv_net env) (New_client controlURL (Some acpToken)) traceID \<lparr>ca_YAML = gv_YAMLBlob gv, ca_Hash = gv_Hash gv\<rparr>) w of
         (errs, _, w') \<Rightarrow> (errs, w')) }"

definition HandleGosutoPush :: "'w HEnv \<Rightarrow> Command \<Rightarrow> string \<Rightarrow> ('w, handler_error + answer) plane" where
  "HandleGosutoPush env cmd sender = do {
     traceID \<leftarrow> on_world (hv_traceID env);
     case GetArg cmd 0 of
       None \<Rightarrow> State_Monad.return (Inl (Plain ''usage: /ruriko gosuto push <agent>''))
     | Some agentID \<Rightarrow> agent_lookup env traceID sender ''gosuto.push'' agentID (\<lambda>agent.
         if column (an_ControlURL agent) = []
         then State_Monad.return (Inl (Plain (''agent '' @ go_quote agentID @ '' has no control URL; is it running?'')))
         else do {
           l \<leftarrow> ask env (\<lambda>e. GetLatestGosutoVersion e agentID);
           case l of
             Inl e \<Rightarrow> audited_error env traceID sender ''gosuto.push'' agentID (hv_text env (InDatabase e))
               (Plain (''no Gosuto config stored for agent '' @ go_quote agentID))
           | Inr gv \<Rightarrow> do {
               errs \<leftarrow> pushGosuto env traceID (column (an_ControlURL agent)) (column (an_ACPToken agent)) gv;
               if errs \<noteq> []
               then audited_error env traceID sender ''gosuto.push'' agentID (hv_text env (InClient errs))
                 (Because ''failed to push Gosuto config'' (InClient errs))
               else do {
                 _ \<leftarrow> statement env (\<lambda>e now. SetAgentDesiredGosutoHash e now agentID (gv_Hash gv));
                 _ \<leftarrow> write_audit env traceID sender ''gosuto.push'' agentID ''success'' (Some (version_payload gv)) [];
                 State_Monad.return (Inr (Reply ''gosuto pushed'' [itoa (gv_Version gv), agentID, traceID])) } } }) }"

text \<open>The distributor works on the same database and world.\<close>

definition lift_net :: "'w Net \<Rightarrow> 'w control Net" where
  "lift_net nt =
     \<lparr>nt_badURL = nt_badURL nt,
      nt_newID = (\<lambda>s. case nt_newID nt (pl_world (ha_world s)) of (i, w) \<Rightarrow> (i, put_world w s)),
      nt_do = (\<lambda>req s. case nt_do nt req (pl_world (ha_world s)) of (r, w) \<Rightarrow> (r, put_world w s)),
      nt_errorField = nt_errorField nt, nt_marshalConfig = nt_marshalConfig nt, nt_marshalSecrets = nt_marshalSecrets nt,
      nt_marshalLeases = nt_marshalLeases nt, nt_marshalTool = nt_marshalTool nt, nt_health = nt_health nt,
      nt_statusHash = nt_statusHash nt, nt_toolResult = nt_toolResult nt\<rparr>"

definition dist_env :: "'w HEnv \<Rightarrow> 'w control DistEnv" where
  "dist_env env =
     \<lparr>de_db = db_of, de_put = put_db,
      de_issue = map_option (\<lambda>f a b c d s. case f a b c d (pl_world (ha_world s)) of (r, w) \<Rightarrow> (r, put_world w s)) (hv_issueAgent env),
      de_net = lift_net (hv_net env), de_unseal = hv_unseal env, de_masterKey = hv_masterKey env,
      de_before = hv_before env, de_during = hv_during env\<rparr>"

definition push_secrets :: "'w HEnv \<Rightarrow> string \<Rightarrow> string \<Rightarrow> ('w, dist_error option \<times> nat) plane" where
  "push_secrets env traceID agentID = do {
     note_op (SecretsPushed agentID);
     fs \<leftarrow> on_world (hv_distFaults env);
     State (PushToAgent (dist_env env) fs traceID agentID) }"

definition HandleSecretsPush :: "'w HEnv \<Rightarrow> Command \<Rightarrow> string \<Rightarrow> ('w, handler_error + answer) plane" where
  "HandleSecretsPush env cmd sender = do {
     traceID \<leftarrow> on_world (hv_traceID env);
     case GetArg cmd 0 of
       None \<Rightarrow> State_Monad.return (Inl (Plain ''usage: /ruriko secrets push <agent>''))
     | Some agentID \<Rightarrow>
         if \<not> hv_distributor env then State_Monad.return (Inl (Plain ''secrets distributor is not configured''))
         else do {
           r \<leftarrow> push_secrets env traceID agentID;
           case r of
             (Some e, _) \<Rightarrow> audited_error env traceID sender ''secrets.push'' agentID (hv_text env (InDistributor e))
               (Because ''secrets push failed'' (InDistributor e))
           | (None, n) \<Rightarrow> do {
               _ \<leftarrow> write_audit env traceID sender ''secrets.push'' agentID ''success'' (Some [(''pushed'', GInt (int n))]) [];
               note_op (Notified ''secrets.pushed'' sender agentID);
               State_Monad.return (Inr (Reply ''secrets pushed'' [itoa_nat n, agentID, traceID])) } } }"

subsection \<open>What the handlers may change\<close>

definition config_ok_for :: "'w HEnv \<Rightarrow> string \<Rightarrow> bool" where
  "config_ok_for env yaml \<longleftrightarrow> (\<exists>cfg. Parse (hv_decode env) yaml = Inr cfg)"

definition version_labels :: "'w HEnv \<Rightarrow> string \<Rightarrow> label set" where
  "version_labels env i = {World, Table KAudit, Table (KPrune i)} \<union> {Table (KVersion i y) |y. config_ok_for env y}"

lemma version_labels_mem [simp]:
  "World \<in> version_labels env i" "Table KAudit \<in> version_labels env i" "Table (KPrune i) \<in> version_labels env i"
  "Table (KVersion i y) \<in> version_labels env i \<longleftrightarrow> config_ok_for env y"
  by (auto simp: version_labels_def)

lemma quiet_mem [simp]: "World \<in> quiet" "Gate \<in> quiet" "Table KAudit \<in> quiet"
  by (simp_all add: quiet_def)

lemma GetArg_first: "GetArg cmd 0 = Some a \<Longrightarrow> first_arg cmd = a"
  by (simp add: first_arg_def)

lemma new_version_sel [simp]:
  "gv_AgentID (new_version a n h y s) = a" "gv_YAMLBlob (new_version a n h y s) = y"
  by (simp_all add: new_version_def)

lemma append_version_footprint:
  "World \<in> A \<Longrightarrow> Table (KPrune agentID) \<in> A \<Longrightarrow> Table (KVersion agentID yaml) \<in> A \<Longrightarrow> footprint A (append_version env agentID hash yaml sender)"
  unfolding append_version_def Let_def by (intro lifecycle_intros) simp_all

lemma HandleGosutoShow_footprint: "footprint quiet (HandleGosutoShow env cmd sender)"
  unfolding HandleGosutoShow_def find_version_def by (intro lifecycle_intros) simp_all

lemma HandleGosutoVersions_footprint: "footprint quiet (HandleGosutoVersions env cmd sender)"
  unfolding HandleGosutoVersions_def by (intro lifecycle_intros) simp_all

lemma HandleGosutoDiff_footprint: "footprint quiet (HandleGosutoDiff env cmd sender)"
  unfolding HandleGosutoDiff_def diff_versions_def Let_def by (intro lifecycle_intros) simp_all

lemma HandleGosutoSet_footprint:
  "footprint (quiet \<union> (if unapproved env ''gosuto.set'' cmd then {} else version_labels env (first_arg cmd))) (HandleGosutoSet env cmd sender)"
  unfolding HandleGosutoSet_def store_config_def Let_def
  by (intro lifecycle_intros append_version_footprint) (auto simp: GetArg_first config_ok_for_def)

lemma rollback_to_footprint:
  "config_ok_for env (gv_YAMLBlob target) \<Longrightarrow> footprint (version_labels env agentID) (rollback_to env traceID sender agentID targetVer target)"
  unfolding rollback_to_def by (intro lifecycle_intros append_version_footprint) auto

lemma HandleGosutoRollback_unapproved:
  "unapproved env ''gosuto.rollback'' cmd \<Longrightarrow> footprint quiet (HandleGosutoRollback env cmd sender)"
  unfolding HandleGosutoRollback_def by (intro lifecycle_intros) auto

lemma patch_footprint: "footprint (version_labels env agentID) (patchCurrentGosuto env agentID sender fn)"
  unfolding patchCurrentGosuto_def by (intro lifecycle_intros append_version_footprint) (auto simp: config_ok_for_def)

lemma set_section_footprint:
  "footprint (insert Gate (version_labels env (first_arg cmd))) (set_section env action section usage decode put cmd sender)"
  unfolding set_section_def
  by (intro lifecycle_intros footprint_mono [OF patch_footprint]) (auto simp: GetArg_first)

lemma HandleGosutoPush_footprint: "footprint (agent_labels (first_arg cmd)) (HandleGosutoPush env cmd sender)"
  unfolding HandleGosutoPush_def pushGosuto_def by (intro lifecycle_intros) (auto simp: GetArg_first agent_labels_def)

subsection \<open>The footprint of a push of secrets\<close>

context state_relation
begin

lemma retry_loop_rel:
  assumes "\<And>w. R w (snd (fn w))"
  shows "R w (snd (snd (retry_loop before during shouldRetry maxDelay fn left k delay lastErr w)))"
proof (induction left arbitrary: k delay lastErr w)
  case (Suc left)
  show ?case
  proof (cases "fn w")
    case (Pair e w1)
    have step: "R w w1" using assms [of w] Pair by simp
    have rest: "R w (snd (snd (retry_loop before during shouldRetry maxDelay fn left k' delay' err' w1)))" for k' delay' err'
      using R_trans [OF step Suc.IH] .
    show ?thesis using rest step R_refl Pair
      by (auto split: option.splits prod.splits) (metis snd_conv)+
  qed
qed (simp add: R_refl)

lemma Do_rel: "(\<And>w. R w (snd (fn w))) \<Longrightarrow> R w (snd (snd (Do before during cfg fn w)))"
  unfolding Do_def Let_def by (rule retry_loop_rel)

end

lemma put_world_step: "World \<in> A \<Longrightarrow> plane_steps A s (put_world w s)"
  by (rule plane_steps_step [OF _ step_world])

lemma lifted_post_steps:
  assumes "World \<in> A"
  shows "plane_steps A s (snd (post (lift_net nt) c traceID path body out idem s))"
proof -
  have "plane_steps A s (snd (do_request (lift_net nt) req out s))" for req s
    using put_world_step [OF assms, of s]
    by (auto simp: do_request_def lift_net_def split: prod.splits sum.splits option.splits)
  moreover have "plane_steps A s (snd (setCommonHeaders (lift_net nt) c traceID idem req s))" for req s
    using put_world_step [OF assms, of s] by (auto simp: setCommonHeaders_def lift_net_def split: prod.splits)
  ultimately have "plane_steps A s (snd (case setCommonHeaders (lift_net nt) c traceID idem req s of (req, w) \<Rightarrow> do_request (lift_net nt) req out w))" for req s
    by (auto split: prod.splits) (metis fp.R_trans snd_conv)
  then show ?thesis by (auto simp: post_def fp.R_refl split: option.splits sum.splits)
qed

lemma snd_failure_of: "snd (failure_of r) = snd r"
  by (auto simp: failure_of_def split: prod.splits sum.splits)

lemma issue_leases_steps:
  assumes "World \<in> A" "\<And>a b c d s. plane_steps A s (snd (iss a b c d s))"
  shows "plane_steps A s (snd (snd (snd (issue_leases de iss fs agentID bs s))))"
proof (induction bs arbitrary: s)
  case (Cons b bs)
  then have "plane_steps A s (snd (snd (snd (issue_leases de iss fs agentID bs (snd (iss a n c d s))))))" for a n c d
    using fp.R_trans [OF assms(2)] by blast
  with Cons show ?case by (auto split: prod.splits sum.splits) (metis snd_conv)+
qed (simp add: fp.R_refl)

lemma mark_pushed_steps:
  assumes "Table (KBinding agentID) \<in> A"
  shows "plane_steps A s (snd (mark_pushed (dist_env env) fs agentID refs bs s))"
proof (induction bs arbitrary: s)
  case (Cons b bs)
  obtain r db where m: "MarkPushed (df_mark fs (bi_SecretName b)) agentID (bi_SecretName b) (db_of s) = (r, db)"
    by (cases "MarkPushed (df_mark fs (bi_SecretName b)) agentID (bi_SecretName b) (db_of s)")
  have "(\<exists>l. db_step l (db_of s) db) \<and> frame (KBinding agentID) (db_of s) db"
    using touches_binding(4) [of agentID "df_mark fs (bi_SecretName b)" "bi_SecretName b"] m unfolding touches_def by (metis snd_conv)
  then have "plane_steps A s (put_db db s)" using assms by (blast intro: plane_steps_step step_table)
  from fp.R_trans [OF this Cons.IH [of "put_db db s"]] Cons.IH [of s] m show ?case
    by (cases r) (simp_all add: dist_env_def)
qed (simp add: fp.R_refl)

lemma send_and_mark_steps:
  assumes "Table (KBinding agentID) \<in> A" "\<And>s. plane_steps A s (snd (send s))"
  shows "plane_steps A s (snd (send_and_mark (dist_env env) fs agentID send refs errs bs s))"
proof -
  have "plane_steps A s (snd (snd (Do before during cfg send s)))" for before during cfg by (rule fp.Do_rel [OF assms(2)])
  with fp.R_trans [OF this mark_pushed_steps [OF assms(1)]] show ?thesis
    by (auto simp: send_and_mark_def split: prod.splits list.splits) (metis snd_conv)+
qed

lemma push_secrets_footprint:
  assumes "World \<in> A" "Table (KBinding agentID) \<in> A" "Op (SecretsPushed agentID) \<in> A"
  shows "footprint A (push_secrets env traceID agentID)"
proof -
  have send: "plane_steps A s (snd (failure_of (post (lift_net nt) c traceID path body out idem s)))"
    for s nt c path body idem and out :: "(string \<Rightarrow> string + unit) option"
    by (simp add: snd_failure_of lifted_post_steps [OF assms(1)])
  have net: "de_net (dist_env env) = lift_net (hv_net env)" by (simp add: dist_env_def)
  have raw: "plane_steps A s (snd (pushRaw (dist_env env) fs traceID agentID s))" for fs s
    unfolding pushRaw_def net
    by (auto simp: fp.R_refl ApplySecrets_def split: prod.splits sum.splits intro!: send_and_mark_steps [OF assms(2)] send)
  have issue: "plane_steps A s (snd (f a b c d s))" if "de_issue (dist_env env) = Some f" for f a b c d s
    using that put_world_step [OF assms(1), of s] by (auto simp: dist_env_def split: prod.splits)
  have "plane_steps A s (snd (distributeViaTokens (dist_env env) f fs traceID agentID s))" if f: "de_issue (dist_env env) = Some f" for f fs s
  proof (cases "push_target (dist_env env) fs agentID s")
    case (Inr x)
    obtain u t bs where x: "x = (u, t, bs)" by (cases x)
    obtain ls refs errs s1 where l: "issue_leases (dist_env env) f fs agentID bs s = (ls, refs, errs, s1)"
      by (cases "issue_leases (dist_env env) f fs agentID bs s") auto
    have s1: "plane_steps A s s1" using issue_leases_steps [OF assms(1), of f s "dist_env env" fs agentID bs] issue [OF f] l by simp
    have "plane_steps A s1 (snd (send_and_mark (dist_env env) fs agentID
        (ApplySecretsToken (de_net (dist_env env)) (New_client u (Some t)) traceID ls) refs errs bs s1))"
      unfolding net by (rule send_and_mark_steps [OF assms(2)]) (simp add: ApplySecretsToken_def send)
    from fp.R_trans [OF s1 this] s1 show ?thesis using Inr x l by (simp add: distributeViaTokens_def fp.R_refl)
  qed (simp add: distributeViaTokens_def fp.R_refl)
  then have "footprint A (State (PushToAgent (dist_env env) fs traceID agentID))" for fs
    using raw by (auto simp: state_io_rel_def PushToAgent_def split: option.splits)
  then show ?thesis unfolding push_secrets_def by (intro lifecycle_intros assms)
qed

lemma HandleSecretsPush_footprint:
  "footprint ({World, Table KAudit, Table (KBinding (first_arg cmd))} \<union> range Op) (HandleSecretsPush env cmd sender)"
  unfolding HandleSecretsPush_def by (intro lifecycle_intros push_secrets_footprint) (auto simp: GetArg_first)

end
