(* ===== verification/Registry_Handlers.thy ===== *)
theory Registry_Handlers
  imports Lifecycle_Handlers
begin

section \<open>Secrets, settings and reports\<close>

text \<open>
  \<^verbatim>\<open>internal/ruriko/commands/secrets_handlers.go\<close>, \<^verbatim>\<open>config_handlers.go\<close>, \<^verbatim>\<open>schedule_handlers.go\<close>, the reports of \<^verbatim>\<open>handlers.go\<close> and the two
  listings of \<^verbatim>\<open>approval_handlers.go\<close>.  Values of secrets never pass through these handlers: they hand out links of the token server.
  The theory gives the footprint of every handler; the settings that can be changed are exactly the three of the allowlist.
\<close>

subsection \<open>Secrets\<close>

definition HandleSecretsList :: "'w HEnv \<Rightarrow> Command \<Rightarrow> string \<Rightarrow> ('w, handler_error + answer) plane" where
  "HandleSecretsList env cmd sender = do {
     traceID \<leftarrow> on_world (hv_traceID env);
     r \<leftarrow> ask env List_secrets;
     case r of
       Inl e \<Rightarrow> audited_error env traceID sender ''secrets.list'' [] (hv_text env (InSecrets e)) (Because ''failed to list secrets'' (InSecrets e))
     | Inr secs \<Rightarrow> do {
         _ \<leftarrow> write_audit env traceID sender ''secrets.list'' [] ''success'' (Some [(''count'', GInt (int (length secs)))]) [];
         State_Monad.return (Inr (if secs = [] then Reply ''no secrets'' [traceID]
           else Reply ''secrets'' (itoa_nat (length secs) #
             concat (map (\<lambda>m. [sx_Name m, sx_Type m, itoa (sx_RotationVersion m)]) secs) @ [traceID]))) } }"

definition HandleSecretsInfo :: "'w HEnv \<Rightarrow> Command \<Rightarrow> string \<Rightarrow> ('w, handler_error + answer) plane" where
  "HandleSecretsInfo env cmd sender = do {
     traceID \<leftarrow> on_world (hv_traceID env);
     case GetArg cmd 0 of
       None \<Rightarrow> State_Monad.return (Inl (Plain ''usage: /ruriko secrets info <name>''))
     | Some name \<Rightarrow> do {
         r \<leftarrow> ask env (\<lambda>e. GetMetadata e name);
         case r of
           Inl e \<Rightarrow> audited_error env traceID sender ''secrets.info'' name (hv_text env (InSecrets e)) (Because ''secret not found'' (InSecrets e))
         | Inr m \<Rightarrow> do {
             _ \<leftarrow> write_audit env traceID sender ''secrets.info'' name ''success'' None [];
             State_Monad.return (Inr (Reply ''secret info'' [sx_Name m, sx_Type m, itoa (sx_RotationVersion m),
               fmt_rfc3339 (sx_CreatedAt m), fmt_rfc3339 (sx_UpdatedAt m), traceID])) } } }"

definition secret_types :: "string list" where
  "secret_types = [''matrix_token'', ''api_key'', ''generic_json'']"

text \<open>Both commands that hand out a link of the token server.\<close>

definition issue_link ::
    "'w HEnv \<Rightarrow> (string \<Rightarrow> string \<Rightarrow> 'w \<Rightarrow> (string + string \<times> gotime) \<times> 'w) \<Rightarrow> string \<Rightarrow> string \<Rightarrow> string \<Rightarrow> string \<Rightarrow> string \<Rightarrow> string \<Rightarrow> string \<Rightarrow>
     ('w, handler_error + answer) plane"
where
  "issue_link env kuze traceID sender action name secretType what reply = do {
     r \<leftarrow> on_world (kuze name secretType);
     case r of
       Inl e \<Rightarrow> audited_error env traceID sender action name e (Because what (Outside e))
     | Inr (link, expires) \<Rightarrow> do {
         note_op (Linked name);
         _ \<leftarrow> write_audit env traceID sender (action @ ''.link_issued'') name ''success''
           (Some [(''type'', GStr secretType), (''expires_at'', GStr (fmt_rfc3339 expires))]) [];
         State_Monad.return (Inr (Reply reply [name, secretType, link, fmt_rfc3339 expires, traceID])) } }"

definition HandleSecretsSet :: "'w HEnv \<Rightarrow> Command \<Rightarrow> string \<Rightarrow> ('w, handler_error + answer) plane" where
  "HandleSecretsSet env cmd sender = do {
     traceID \<leftarrow> on_world (hv_traceID env);
     case GetArg cmd 0 of
       None \<Rightarrow> State_Monad.return (Inl (Plain ''usage: /ruriko secrets set <name> --type <type>''))
     | Some name \<Rightarrow>
         (let secretType = GetFlag cmd ''type'' [] in
          if secretType = [] then State_Monad.return (Inl (Plain (''usage: /ruriko secrets set <name> --type <type>'' @ [CHR 0x0A] @
            ''Valid types: matrix_token, api_key, generic_json'')))
          else if secretType \<notin> set secret_types
          then State_Monad.return (Inl (Plain (''unknown secret type '' @ go_quote secretType @ ''; valid types: matrix_token, api_key, generic_json'')))
          else (case hv_issueHuman env of
              None \<Rightarrow> State_Monad.return (Inl (Plain (''secure secret entry requires Kuze; configure KUZE_BASE_URL and HTTP_ADDR, then rerun: /ruriko secrets set '' @
                name @ '' --type '' @ secretType)))
            | Some kuze \<Rightarrow> issue_link env kuze traceID sender ''secrets.set'' name secretType ''failed to generate secret-entry link'' ''secret entry link'')) }"

definition secret_lookup ::
    "'w HEnv \<Rightarrow> string \<Rightarrow> string \<Rightarrow> string \<Rightarrow> string \<Rightarrow> string \<Rightarrow> (SecretMeta \<Rightarrow> ('w, handler_error + answer) plane) \<Rightarrow> ('w, handler_error + answer) plane"
where
  "secret_lookup env traceID sender action target name rest = do {
     r \<leftarrow> ask env (\<lambda>e. GetMetadata e name);
     case r of
       Inl e \<Rightarrow> audited_error env traceID sender action target (hv_text env (InSecrets e)) (Plain (''secret not found: '' @ name))
     | Inr m \<Rightarrow> rest m }"

definition HandleSecretsRotate :: "'w HEnv \<Rightarrow> Command \<Rightarrow> string \<Rightarrow> ('w, handler_error + answer) plane" where
  "HandleSecretsRotate env cmd sender = do {
     traceID \<leftarrow> on_world (hv_traceID env);
     case GetArg cmd 0 of
       None \<Rightarrow> State_Monad.return (Inl (Plain ''usage: /ruriko secrets rotate <name>''))
     | Some name \<Rightarrow> (case hv_issueHuman env of
         None \<Rightarrow> State_Monad.return (Inl (Plain (''secure rotation requires Kuze; configure KUZE_BASE_URL and HTTP_ADDR, then rerun: /ruriko secrets rotate '' @ name)))
       | Some kuze \<Rightarrow> secret_lookup env traceID sender ''secrets.rotate'' name name (\<lambda>m.
           behind_gate env ''secrets.rotate'' name cmd sender
             (issue_link env kuze traceID sender ''secrets.rotate'' name (sx_Type m) ''failed to generate rotate link'' ''rotate link''))) }"

definition HandleSecretsDelete :: "'w HEnv \<Rightarrow> Command \<Rightarrow> string \<Rightarrow> ('w, handler_error + answer) plane" where
  "HandleSecretsDelete env cmd sender = do {
     traceID \<leftarrow> on_world (hv_traceID env);
     case GetArg cmd 0 of
       None \<Rightarrow> State_Monad.return (Inl (Plain ''usage: /ruriko secrets delete <name>''))
     | Some name \<Rightarrow> secret_lookup env traceID sender ''secrets.delete'' name name (\<lambda>_.
         behind_gate env ''secrets.delete'' name cmd sender (do {
           d \<leftarrow> statement env (\<lambda>e now. Delete_secret e name);
           case d of
             Some e \<Rightarrow> audited_error env traceID sender ''secrets.delete'' name (hv_text env (InSecrets e)) (Because ''failed to delete secret'' (InSecrets e))
           | None \<Rightarrow> do {
               _ \<leftarrow> write_audit env traceID sender ''secrets.delete'' name ''success'' None [];
               State_Monad.return (Inr (Reply ''secret deleted'' [name, traceID])) } })) }"

text \<open>Both commands on a binding: the agent and the secret must exist.\<close>

definition on_binding ::
    "'w HEnv \<Rightarrow> string \<Rightarrow> string \<Rightarrow> (string \<Rightarrow> string \<Rightarrow> fault \<Rightarrow> Db \<Rightarrow> secrets_error option \<times> Db) \<Rightarrow> string \<Rightarrow> gmap option \<Rightarrow> string \<Rightarrow> string list \<Rightarrow>
     Command \<Rightarrow> string \<Rightarrow> ('w, handler_error + answer) plane"
where
  "on_binding env action usage act what payload reply extra cmd sender = do {
     traceID \<leftarrow> on_world (hv_traceID env);
     case (GetArg cmd 0, GetArg cmd 1) of
       (Some agentID, Some name) \<Rightarrow>
         (let target = agentID @ ''/'' @ name in do {
           a \<leftarrow> ask env (\<lambda>e. GetAgent e agentID);
           case a of
             Inl e \<Rightarrow> audited_error env traceID sender action target (hv_text env (InDatabase e)) (Plain (''agent not found: '' @ agentID))
           | Inr _ \<Rightarrow> secret_lookup env traceID sender action target name (\<lambda>_. do {
               b \<leftarrow> statement env (\<lambda>e now. act agentID name e);
               case b of
                 Some e \<Rightarrow> audited_error env traceID sender action target (hv_text env (InSecrets e)) (Because what (InSecrets e))
               | None \<Rightarrow> do {
                   _ \<leftarrow> write_audit env traceID sender action target ''success'' payload [];
                   State_Monad.return (Inr (Reply reply ([agentID, name] @ extra @ [traceID]))) } }) })
     | _ \<Rightarrow> State_Monad.return (Inl (Plain usage)) }"

definition HandleSecretsBind :: "'w HEnv \<Rightarrow> Command \<Rightarrow> string \<Rightarrow> ('w, handler_error + answer) plane" where
  "HandleSecretsBind env cmd sender = (let scope = GetFlag cmd ''scope'' ''read'' in
     on_binding env ''secrets.bind'' ''usage: /ruriko secrets bind <agent> <secret> [--scope <scope>]'' (\<lambda>a n e. Bind e a n scope)
       ''failed to bind secret'' (Some [(''scope'', GStr scope)]) ''access granted'' [scope] cmd sender)"

definition HandleSecretsUnbind :: "'w HEnv \<Rightarrow> Command \<Rightarrow> string \<Rightarrow> ('w, handler_error + answer) plane" where
  "HandleSecretsUnbind env cmd sender =
     on_binding env ''secrets.unbind'' ''usage: /ruriko secrets unbind <agent> <secret>'' (\<lambda>a n e. Unbind e a n)
       ''failed to unbind secret'' None ''access revoked'' [] cmd sender"

subsection \<open>Settings\<close>

definition permittedConfigKeys :: "string list" where
  "permittedConfigKeys = [''nlp.model'', ''nlp.endpoint'', ''nlp.rate-limit'']"

definition isPermittedKey :: "string \<Rightarrow> bool" where
  "isPermittedKey key \<longleftrightarrow> key \<in> set permittedConfigKeys"

definition permittedKeyList :: string where
  "permittedKeyList = str_join '', '' (map (\<lambda>k. [CHR 0x60] @ k @ [CHR 0x60]) permittedConfigKeys)"

text \<open>What the commands on one setting share: the store, the number of arguments and the allowlist.\<close>

definition with_config_key ::
    "'w HEnv \<Rightarrow> nat \<Rightarrow> string \<Rightarrow> Command \<Rightarrow> (string \<Rightarrow> string \<Rightarrow> ('w, handler_error + answer) plane) \<Rightarrow> ('w, handler_error + answer) plane"
where
  "with_config_key env n usage cmd rest = do {
     traceID \<leftarrow> on_world (hv_traceID env);
     if \<not> hv_configStore env then State_Monad.return (Inl (Plain ''config store is not available''))
     else if length (cm_Args cmd) < n
     then State_Monad.return (Inl (Plain (usage @ [CHR 0x0A, CHR 0x0A] @ ''Permitted keys: '' @ permittedKeyList)))
     else if \<not> isPermittedKey (cm_Args cmd ! 0)
     then State_Monad.return (Inl (Plain (''unknown config key '' @ go_quote (cm_Args cmd ! 0) @ '', permitted keys: '' @ permittedKeyList)))
     else rest traceID (cm_Args cmd ! 0) }"

definition HandleConfigSet :: "'w HEnv \<Rightarrow> Command \<Rightarrow> string \<Rightarrow> ('w, handler_error + answer) plane" where
  "HandleConfigSet env cmd sender = with_config_key env 2 ''usage: /ruriko config set <key> <value>'' cmd (\<lambda>traceID key. do {
     let val = cm_Args cmd ! 1;
     r \<leftarrow> statement env (\<lambda>e now. Set_config e key val);
     case r of
       Some e \<Rightarrow> audited_error env traceID sender ''config.set'' key (hv_text env (InDatabase e)) (Because ''failed to set config'' (InDatabase e))
     | None \<Rightarrow> do {
         _ \<leftarrow> write_audit env traceID sender ''config.set'' key ''success'' (Some [(''key'', GStr key), (''value'', GStr val)]) [];
         State_Monad.return (Inr (Reply ''config set'' [key, val, traceID])) } })"

definition HandleConfigGet :: "'w HEnv \<Rightarrow> Command \<Rightarrow> string \<Rightarrow> ('w, handler_error + answer) plane" where
  "HandleConfigGet env cmd sender = with_config_key env 1 ''usage: /ruriko config get <key>'' cmd (\<lambda>traceID key. do {
     r \<leftarrow> ask env (\<lambda>e. Get_config e key);
     case r of
       Inr val \<Rightarrow> do {
         _ \<leftarrow> write_audit env traceID sender ''config.get'' key ''success'' (Some [(''key'', GStr key), (''found'', GBool True)]) [];
         State_Monad.return (Inr (Reply ''config value'' [key, val, traceID])) }
     | Inl e \<Rightarrow>
         if e = ConfigNotFound
         then do {
           _ \<leftarrow> write_audit env traceID sender ''config.get'' key ''success'' (Some [(''key'', GStr key), (''found'', GBool False)]) [];
           State_Monad.return (Inr (Reply ''config not set'' [key, traceID])) }
         else audited_error env traceID sender ''config.get'' key (hv_text env (InDatabase e)) (Because ''failed to get config'' (InDatabase e)) })"

definition HandleConfigUnset :: "'w HEnv \<Rightarrow> Command \<Rightarrow> string \<Rightarrow> ('w, handler_error + answer) plane" where
  "HandleConfigUnset env cmd sender = with_config_key env 1 ''usage: /ruriko config unset <key>'' cmd (\<lambda>traceID key. do {
     r \<leftarrow> statement env (\<lambda>e now. Delete_config e key);
     case r of
       Some e \<Rightarrow> audited_error env traceID sender ''config.unset'' key (hv_text env (InDatabase e)) (Because ''failed to unset config'' (InDatabase e))
     | None \<Rightarrow> do {
         _ \<leftarrow> write_audit env traceID sender ''config.unset'' key ''success'' (Some [(''key'', GStr key)]) [];
         State_Monad.return (Inr (Reply ''config unset'' [key, traceID])) } })"

definition HandleConfigList :: "'w HEnv \<Rightarrow> Command \<Rightarrow> string \<Rightarrow> ('w, handler_error + answer) plane" where
  "HandleConfigList env cmd sender = do {
     traceID \<leftarrow> on_world (hv_traceID env);
     if \<not> hv_configStore env then State_Monad.return (Inl (Plain ''config store is not available''))
     else do {
       r \<leftarrow> ask env List_config;
       case r of
         Inl e \<Rightarrow> audited_error env traceID sender ''config.list'' [] (hv_text env (InDatabase e)) (Because ''failed to list config'' (InDatabase e))
       | Inr entries \<Rightarrow> do {
           _ \<leftarrow> write_audit env traceID sender ''config.list'' [] ''success'' (Some [(''count'', GInt (int (length entries)))]) [];
           State_Monad.return (Inr (if entries = [] then Reply ''no config values'' [traceID]
             else Reply ''runtime config'' (itoa_nat (length entries) #
               concat (map (\<lambda>k. case map_of entries k of Some v \<Rightarrow> [k, v] | None \<Rightarrow> []) permittedConfigKeys) @ [traceID]))) } } }"

subsection \<open>Reports\<close>

definition HandleVersion :: "string \<Rightarrow> string \<Rightarrow> string \<Rightarrow> Command \<Rightarrow> string \<Rightarrow> ('w, handler_error + answer) plane" where
  "HandleVersion ver commit buildTime cmd sender = State_Monad.return (Inr (Reply ''version'' [ver, commit, buildTime]))"

definition HandlePing :: "'w HEnv \<Rightarrow> Command \<Rightarrow> string \<Rightarrow> ('w, handler_error + answer) plane" where
  "HandlePing env cmd sender = do {
     traceID \<leftarrow> on_world (hv_traceID env);
     _ \<leftarrow> write_audit env traceID sender ''ping'' [] ''success'' None [];
     State_Monad.return (Inr (Reply ''pong'' [traceID])) }"

definition HandleAgentsList :: "'w HEnv \<Rightarrow> Command \<Rightarrow> string \<Rightarrow> ('w, handler_error + answer) plane" where
  "HandleAgentsList env cmd sender = do {
     traceID \<leftarrow> on_world (hv_traceID env);
     r \<leftarrow> ask env ListAgents;
     case r of
       Inl e \<Rightarrow> audited_error env traceID sender ''agents.list'' [] (hv_text env (InDatabase e)) (Because ''failed to list agents'' (InDatabase e))
     | Inr agents \<Rightarrow> do {
         _ \<leftarrow> write_audit env traceID sender ''agents.list'' [] ''success'' (Some [(''count'', GInt (int (length agents)))]) [];
         State_Monad.return (Inr (if agents = [] then Reply ''no agents'' [traceID] else Report ''agents'' agents [traceID])) } }"

definition HandleAgentsShow :: "'w HEnv \<Rightarrow> Command \<Rightarrow> string \<Rightarrow> ('w, handler_error + answer) plane" where
  "HandleAgentsShow env cmd sender = do {
     traceID \<leftarrow> on_world (hv_traceID env);
     case GetArg cmd 0 of
       None \<Rightarrow> State_Monad.return (Inl (Plain ''usage: /ruriko agents show <name>''))
     | Some name \<Rightarrow> do {
         r \<leftarrow> ask env (\<lambda>e. GetAgent e name);
         case r of
           Inl e \<Rightarrow> audited_error env traceID sender ''agents.show'' name (hv_text env (InDatabase e)) (Because ''failed to get agent'' (InDatabase e))
         | Inr agent \<Rightarrow> do {
             _ \<leftarrow> write_audit env traceID sender ''agents.show'' name ''success'' None [];
             State_Monad.return (Inr (Report ''agent'' [agent] [traceID])) } } }"

definition audit_line :: "AuditEntry \<Rightarrow> string list" where
  "audit_line a = [ae_Result a, fmt_rfc3339 (ae_Timestamp a), ae_Action a, ae_ActorMXID a, column (ae_Target a), column (ae_ErrorMessage a), ae_TraceID a]"

text \<open>\<^verbatim>\<open>Sscanf\<close> leaves the limit as it is when the argument is no number; \<open>scan\<close> is its reading of a number.\<close>

definition audit_limit :: "(string \<Rightarrow> int option) \<Rightarrow> Command \<Rightarrow> int" where
  "audit_limit scan cmd =
     (let limit = (case GetArg cmd 0 of None \<Rightarrow> 10 | Some s \<Rightarrow> (case scan s of Some n \<Rightarrow> n | None \<Rightarrow> 10)) in
      if limit \<le> 0 \<or> limit > 100 then 10 else limit)"

definition HandleAuditTail :: "'w HEnv \<Rightarrow> (string \<Rightarrow> int option) \<Rightarrow> Command \<Rightarrow> string \<Rightarrow> ('w, handler_error + answer) plane" where
  "HandleAuditTail env scan cmd sender = do {
     traceID \<leftarrow> on_world (hv_traceID env);
     let limit = audit_limit scan cmd;
     r \<leftarrow> ask env (\<lambda>e. GetAuditLog e limit);
     case r of
       Inl e \<Rightarrow> State_Monad.return (Inl (Because ''failed to get audit log'' (InDatabase e)))
     | Inr entries \<Rightarrow> do {
         _ \<leftarrow> write_audit env traceID sender ''audit.tail'' [] ''success'' (Some [(''limit'', GInt limit)]) [];
         State_Monad.return (Inr (Reply ''recent audit entries'' (itoa limit # concat (map audit_line entries) @ [traceID]))) } }"

definition HandleTrace :: "'w HEnv \<Rightarrow> Command \<Rightarrow> string \<Rightarrow> ('w, handler_error + answer) plane" where
  "HandleTrace env cmd sender = do {
     traceID \<leftarrow> on_world (hv_traceID env);
     let search = (if cm_Subcommand cmd = [] then first_arg cmd else cm_Subcommand cmd);
     if search = [] then State_Monad.return (Inl (Plain ''usage: /ruriko trace <trace_id>''))
     else do {
       r \<leftarrow> ask env (\<lambda>e. GetAuditByTrace e search);
       case r of
         Inl e \<Rightarrow> audited_error env traceID sender ''trace'' search (hv_text env (InDatabase e)) (Because ''failed to get trace'' (InDatabase e))
       | Inr entries \<Rightarrow> do {
           _ \<leftarrow> write_audit env traceID sender ''trace'' search ''success'' (Some [(''entries'', GInt (int (length entries)))]) [];
           State_Monad.return (Inr (if entries = [] then Reply ''no entries for trace'' [search, traceID]
             else Reply ''trace'' ([search, itoa_nat (length entries)] @ concat (map (\<lambda>a. audit_line a @ [column (ae_Payload a)]) entries) @ [traceID]))) } } }"

subsection \<open>Listing approvals\<close>

definition expire_approvals :: "'w HEnv \<Rightarrow> ('w, unit) plane" where
  "expire_approvals env = do {
     e \<leftarrow> on_world (hv_fault env); now \<leftarrow> on_world (hv_now env);
     State (\<lambda>s. ((), s\<lparr>ha_rows := snd (CheckExpiry e now (ha_rows s))\<rparr>)) }"

definition ask_approvals :: "'w HEnv \<Rightarrow> (fault \<Rightarrow> Approval list \<Rightarrow> 'a) \<Rightarrow> ('w, 'a) plane" where
  "ask_approvals env f = do { e \<leftarrow> on_world (hv_fault env); State (\<lambda>s. (f e (ha_rows s), s)) }"

definition truncateTarget :: "string \<Rightarrow> nat \<Rightarrow> string" where
  "truncateTarget s n = (if length s \<le> n then s else take (n - 1) s @ ellipsis)"

definition approval_line :: "Approval \<Rightarrow> string list" where
  "approval_line a = [ap_ID a, status_string (ap_Status a), ap_Action a, truncateTarget (ap_Target a) 12,
     (case ap_ResolvedAt a of None \<Rightarrow> ''exp:'' @ fmt_rfc3339 (ap_ExpiresAt a) | Some t \<Rightarrow> ''res:'' @ fmt_rfc3339 t)]"

definition approval_details :: "gotime \<Rightarrow> Approval \<Rightarrow> string list" where
  "approval_details now a =
     [ap_ID a, status_string (ap_Status a), ap_Action a, ap_Target a, ap_RequestorMXID a, fmt_rfc3339 (ap_CreatedAt a), fmt_rfc3339 (ap_ExpiresAt a)] @
     (case ap_ResolvedAt a of Some t \<Rightarrow> [fmt_rfc3339 t] | None \<Rightarrow> []) @
     (case ap_ResolvedByMXID a of Some by_whom \<Rightarrow> [by_whom] | None \<Rightarrow> []) @
     (case ap_ResolveReason a of Some r \<Rightarrow> if r \<noteq> [] then [r] else [] | None \<Rightarrow> []) @
     (if Ruriko_Approvals.IsExpired now a then [''This approval has expired.'']
      else if ap_Status a = StatusPending then [''approve '' @ ap_ID a, ''deny '' @ ap_ID a] else [])"

definition HandleApprovalsList :: "'w HEnv \<Rightarrow> Command \<Rightarrow> string \<Rightarrow> ('w, handler_error + answer) plane" where
  "HandleApprovalsList env cmd sender = do {
     traceID \<leftarrow> on_world (hv_traceID env);
     if hv_gate env = None then State_Monad.return (Inl (Plain ''approval workflow is not configured''))
     else do {
       _ \<leftarrow> expire_approvals env;
       r \<leftarrow> ask_approvals env (\<lambda>e. List_approvals e (GetFlag cmd ''status'' []));
       case r of
         Inl e \<Rightarrow> audited_error env traceID sender ''approvals.list'' [] (hv_text env (InApprovals e)) (Because ''failed to list approvals'' (InApprovals e))
       | Inr l \<Rightarrow> do {
           _ \<leftarrow> write_audit env traceID sender ''approvals.list'' [] ''success''
             (Some [(''count'', GInt (int (length l))), (''status_filter'', GStr (GetFlag cmd ''status'' []))]) [];
           State_Monad.return (Inr (if l = [] then Reply ''no approvals'' [traceID]
             else Reply ''approvals'' (itoa_nat (length l) # concat (map approval_line l) @ [traceID]))) } } }"

definition HandleApprovalsShow :: "'w HEnv \<Rightarrow> Command \<Rightarrow> string \<Rightarrow> ('w, handler_error + answer) plane" where
  "HandleApprovalsShow env cmd sender = do {
     traceID \<leftarrow> on_world (hv_traceID env);
     if hv_gate env = None then State_Monad.return (Inl (Plain ''approval workflow is not configured''))
     else (case GetArg cmd 0 of
         None \<Rightarrow> State_Monad.return (Inl (Plain ''usage: /ruriko approvals show <id>''))
       | Some i \<Rightarrow> do {
           _ \<leftarrow> expire_approvals env;
           r \<leftarrow> ask_approvals env (\<lambda>e. Get_approval e i);
           case r of
             Inl e \<Rightarrow> audited_error env traceID sender ''approvals.show'' i (hv_text env (InApprovals e)) (Plain (''approval not found: '' @ i))
           | Inr a \<Rightarrow> do {
               _ \<leftarrow> write_audit env traceID sender ''approvals.show'' i ''success'' None [];
               now \<leftarrow> on_world (hv_now env);
               State_Monad.return (Inr (Reply ''approval'' (approval_details now a @ [traceID]))) } }) }"

subsection \<open>Schedules of an agent\<close>

definition resolveAgentACPClient :: "'w HEnv \<Rightarrow> string \<Rightarrow> ('w, handler_error + Client) plane" where
  "resolveAgentACPClient env raw = (let agentID = trim_space raw in
     if agentID = [] then State_Monad.return (Inl (Plain ''agent ID must not be empty''))
     else do {
       r \<leftarrow> ask env (\<lambda>e. GetAgent e agentID);
       State_Monad.return (case r of
           Inl _ \<Rightarrow> Inl (Plain (''agent not found: '' @ agentID))
         | Inr agent \<Rightarrow>
             if trim_space (column (an_ControlURL agent)) = []
             then Inl (Plain (''agent '' @ agentID @ '' has no control URL; is it running?''))
             else Inr (client_of agent)) })"

text \<open>The call of a tool on the agent and its audit entries; a failed call is recorded with its arguments.\<close>

definition call_schedule_tool :: "'w HEnv \<Rightarrow> string \<Rightarrow> string \<Rightarrow> string \<Rightarrow> string \<Rightarrow> gmap \<Rightarrow> string \<Rightarrow> (string \<Rightarrow> string list) \<Rightarrow> ('w, handler_error + answer) plane" where
  "call_schedule_tool env traceID sender tool agentID args what parts = do {
     c \<leftarrow> resolveAgentACPClient env agentID;
     case c of
       Inl e \<Rightarrow> audited_error env traceID sender tool agentID (error_text env e) e
     | Inr client \<Rightarrow> do {
         note_op (ToolCalled (cl_baseURL client) tool);
         r \<leftarrow> on_world (CallTool (hv_net env) client traceID \<lparr>tc_ToolRef = tool, tc_Args = Some args, tc_Sender = sender\<rparr>);
         case r of
           Inl e \<Rightarrow> do {
             _ \<leftarrow> write_audit env traceID sender tool agentID ''error'' (Some args) (hv_text env (InClient [e]));
             State_Monad.return (Inl (Because (what @ '' failed'') (InClient [e]))) }
         | Inr resp \<Rightarrow> do {
             _ \<leftarrow> write_audit env traceID sender tool agentID ''success'' (Some args) [];
             State_Monad.return (Inr (Reply what (parts (case resp of Some x \<Rightarrow> x | None \<Rightarrow> []) @ [traceID]))) } } }"

text \<open>\<^verbatim>\<open>strconv.ParseBool\<close>.\<close>

definition parse_bool :: "string \<Rightarrow> bool option" where
  "parse_bool s =
     (if s \<in> {''1'', ''t'', ''T'', ''true'', ''TRUE'', ''True''} then Some True
      else if s \<in> {''0'', ''f'', ''F'', ''false'', ''FALSE'', ''False''} then Some False
      else None)"

text \<open>\<^verbatim>\<open>float64\<close> of a positive integer: exact up to 2 ^ 53, above rounded to a multiple of a power of two, ties to even.\<close>

fun round_float :: "nat \<Rightarrow> int \<Rightarrow> int \<Rightarrow> int" where
  "round_float 0 m p = m"
| "round_float (Suc k) m p =
     (if m \<ge> 2 ^ 53 * p
      then round_float k m (2 * p)
      else (let q = m div p; r = m mod p in
        p * (if 2 * r > p \<or> 2 * r = p \<and> odd q then q + 1 else q)))"

definition to_float64 :: "int \<Rightarrow> gvalue" where
  "to_float64 n = GFloat (Dec (if n \<le> 2 ^ 53 then n else round_float 11 n 1) 0)"

definition schedule_id :: "string \<Rightarrow> handler_error + gmap" where
  "schedule_id rawID = (case atoi rawID of
       Some n \<Rightarrow> if n \<le> 0 then Inl (Plain (''invalid --id '' @ go_quote rawID @ '': must be a positive integer'')) else Inr [(''id'', to_float64 n)]
     | None \<Rightarrow> Inl (Plain (''invalid --id '' @ go_quote rawID @ '': must be a positive integer'')))"

definition enabled_flag :: "string \<Rightarrow> Command \<Rightarrow> handler_error + gmap" where
  "enabled_flag key cmd = (let raw = trim_space (GetFlag cmd ''enabled'' []) in
     if raw = [] then Inr []
     else (case parse_bool raw of
         None \<Rightarrow> Inl (Plain (''invalid --enabled '' @ go_quote raw @ '': expected true or false''))
       | Some b \<Rightarrow> Inr [(key, GBool b)]))"

definition HandleScheduleUpsert :: "'w HEnv \<Rightarrow> Command \<Rightarrow> string \<Rightarrow> ('w, handler_error + answer) plane" where
  "HandleScheduleUpsert env cmd sender = do {
     traceID \<leftarrow> on_world (hv_traceID env);
     let cronExpr = trim_space (GetFlag cmd ''cron'' []);
     let alias = trim_space (GetFlag cmd ''target'' []);
     let message = GetFlag cmd ''message'' [];
     let rawID = trim_space (GetFlag cmd ''id'' []);
     if cronExpr = [] \<or> alias = [] \<or> trim_space message = []
     then State_Monad.return (Inl (Plain ''usage: /ruriko schedule upsert --agent <id> --cron <expr> --target <alias> --message <text> [--id <n>] [--enabled true|false]''))
     else (case (if rawID = [] then Inr [] else schedule_id rawID) of
         Inl e \<Rightarrow> State_Monad.return (Inl e)
       | Inr idArg \<Rightarrow> (case enabled_flag ''enabled'' cmd of
           Inl e \<Rightarrow> State_Monad.return (Inl e)
         | Inr enabledArg \<Rightarrow>
             call_schedule_tool env traceID sender ''schedule.upsert'' (GetFlag cmd ''agent'' ''saito'')
               ([(''cron_expression'', GStr cronExpr), (''target_alias'', GStr alias), (''message'', GStr message)] @ idArg @ enabledArg)
               ''schedule upsert'' (\<lambda>x. [x]))) }"

definition HandleScheduleDisable :: "'w HEnv \<Rightarrow> Command \<Rightarrow> string \<Rightarrow> ('w, handler_error + answer) plane" where
  "HandleScheduleDisable env cmd sender = do {
     traceID \<leftarrow> on_world (hv_traceID env);
     let rawID = trim_space (GetFlag cmd ''id'' []);
     if rawID = [] then State_Monad.return (Inl (Plain ''usage: /ruriko schedule disable --agent <id> --id <n>''))
     else (case schedule_id rawID of
         Inl e \<Rightarrow> State_Monad.return (Inl e)
       | Inr idArg \<Rightarrow> call_schedule_tool env traceID sender ''schedule.disable'' (GetFlag cmd ''agent'' ''saito'') idArg ''schedule disable'' (\<lambda>x. [x])) }"

definition HandleScheduleList :: "'w HEnv \<Rightarrow> Command \<Rightarrow> string \<Rightarrow> ('w, handler_error + answer) plane" where
  "HandleScheduleList env cmd sender = do {
     traceID \<leftarrow> on_world (hv_traceID env);
     let agentID = GetFlag cmd ''agent'' ''saito'';
     let gw = trim_space (GetFlag cmd ''gateway'' []);
     case enabled_flag ''enabled_only'' cmd of
       Inl e \<Rightarrow> State_Monad.return (Inl e)
     | Inr enabledArg \<Rightarrow>
         call_schedule_tool env traceID sender ''schedule.list'' agentID ((if gw \<noteq> [] then [(''gateway'', GStr gw)] else []) @ enabledArg)
           ''schedule list'' (\<lambda>x. [agentID, x]) }"

subsection \<open>What the handlers may change\<close>

lemma secret_lookup_footprint:
  "World \<in> A \<Longrightarrow> Table KAudit \<in> A \<Longrightarrow> (\<And>m. footprint A (rest m)) \<Longrightarrow> footprint A (secret_lookup env traceID sender action target name rest)"
  unfolding secret_lookup_def by (intro lifecycle_intros)

lemma issue_link_footprint:
  "World \<in> A \<Longrightarrow> Table KAudit \<in> A \<Longrightarrow> Op (Linked name) \<in> A \<Longrightarrow> footprint A (issue_link env kuze traceID sender action name ty what reply)"
  unfolding issue_link_def by (intro lifecycle_intros)

lemma with_config_key_footprint:
  "World \<in> A \<Longrightarrow> (\<And>traceID key. isPermittedKey key \<Longrightarrow> footprint A (rest traceID key)) \<Longrightarrow> footprint A (with_config_key env n usage cmd rest)"
  unfolding with_config_key_def by (intro lifecycle_intros) auto

lemma footprint_expire: "World \<in> A \<Longrightarrow> Gate \<in> A \<Longrightarrow> footprint A (expire_approvals env)"
  unfolding expire_approvals_def
  by (intro lifecycle_intros) (auto simp: state_io_rel_def intro: plane_steps_step step_expiry)

lemma footprint_ask_approvals: "World \<in> A \<Longrightarrow> footprint A (ask_approvals env f)"
  unfolding ask_approvals_def by (intro lifecycle_intros) (auto simp: state_io_rel_def intro: fp.R_refl)

lemma call_tool_footprint:
  "World \<in> A \<Longrightarrow> Table KAudit \<in> A \<Longrightarrow> (\<And>u. Op (ToolCalled u tool) \<in> A) \<Longrightarrow>
   footprint A (call_schedule_tool env traceID sender tool agentID args what parts)"
  unfolding call_schedule_tool_def resolveAgentACPClient_def by (intro lifecycle_intros)

lemmas registry_intros = lifecycle_intros secret_lookup_footprint issue_link_footprint with_config_key_footprint footprint_expire
  footprint_ask_approvals call_tool_footprint

lemma reports_quiet:
  "footprint quiet (HandleSecretsList env cmd sender)" "footprint quiet (HandleSecretsInfo env cmd sender)"
  "footprint quiet (HandleConfigGet env cmd sender)" "footprint quiet (HandleConfigList env cmd sender)"
  "footprint quiet (HandleVersion ver commit buildTime cmd sender)" "footprint quiet (HandlePing env cmd sender)"
  "footprint quiet (HandleAgentsList env cmd sender)" "footprint quiet (HandleAgentsShow env cmd sender)"
  "footprint quiet (HandleAuditTail env scan cmd sender)" "footprint quiet (HandleTrace env cmd sender)"
  "footprint quiet (HandleApprovalsList env cmd sender)" "footprint quiet (HandleApprovalsShow env cmd sender)"
  unfolding HandleSecretsList_def HandleSecretsInfo_def HandleConfigGet_def HandleConfigList_def
    HandleVersion_def HandlePing_def HandleAgentsList_def HandleAgentsShow_def HandleAuditTail_def HandleTrace_def HandleApprovalsList_def
    HandleApprovalsShow_def Let_def
  by (intro registry_intros; simp add: quiet_def)+

definition tool_labels :: "string \<Rightarrow> label set" where
  "tool_labels tool = quiet \<union> {Op (ToolCalled u tool) |u. True}"

lemma schedules_footprint:
  "footprint (tool_labels ''schedule.upsert'') (HandleScheduleUpsert env cmd sender)"
  "footprint (tool_labels ''schedule.disable'') (HandleScheduleDisable env cmd sender)"
  "footprint (tool_labels ''schedule.list'') (HandleScheduleList env cmd sender)"
  unfolding HandleScheduleUpsert_def HandleScheduleDisable_def HandleScheduleList_def Let_def
  by (intro registry_intros; simp add: tool_labels_def quiet_def)+

lemma HandleSecretsSet_footprint: "footprint (quiet \<union> range Op) (HandleSecretsSet env cmd sender)"
  unfolding HandleSecretsSet_def Let_def by (intro registry_intros) (auto simp: quiet_def)

lemma HandleSecretsRotate_footprint:
  "footprint (quiet \<union> (if unapproved env ''secrets.rotate'' cmd then {} else range Op)) (HandleSecretsRotate env cmd sender)"
  unfolding HandleSecretsRotate_def by (intro registry_intros) (auto simp: quiet_def)

lemma HandleSecretsDelete_footprint:
  "footprint (quiet \<union> (if unapproved env ''secrets.delete'' cmd then {} else {Table (KSecret (first_arg cmd))})) (HandleSecretsDelete env cmd sender)"
  unfolding HandleSecretsDelete_def by (intro registry_intros) (auto simp: quiet_def first_arg_def)

lemma on_binding_footprint:
  assumes "\<And>a n e. touches (KBinding a) (act a n e)"
  shows "footprint (insert (Table (KBinding (first_arg cmd))) quiet) (on_binding env action usage act what payload reply extra cmd sender)"
  unfolding on_binding_def Let_def
  by (intro registry_intros footprint_statement [OF assms]) (auto simp: quiet_def first_arg_def)

lemma bindings_footprint:
  "footprint (insert (Table (KBinding (first_arg cmd))) quiet) (HandleSecretsBind env cmd sender)"
  "footprint (insert (Table (KBinding (first_arg cmd))) quiet) (HandleSecretsUnbind env cmd sender)"
  unfolding HandleSecretsBind_def HandleSecretsUnbind_def Let_def by (rule on_binding_footprint, rule touches_binding)+

lemma config_footprint:
  "footprint (quiet \<union> (Table ` KConfig ` set permittedConfigKeys)) (HandleConfigSet env cmd sender)"
  "footprint (quiet \<union> (Table ` KConfig ` set permittedConfigKeys)) (HandleConfigUnset env cmd sender)"
  unfolding HandleConfigSet_def HandleConfigUnset_def Let_def
  by (intro registry_intros; auto simp: quiet_def isPermittedKey_def)+

end
