(* ===== verification/Topology_Handlers.thy ===== *)
theory Topology_Handlers
  imports Gosuto_Handlers Registry_Handlers "HOL-Library.Product_Lexorder"
begin

section \<open>The topology of agents\<close>

text \<open>
  \<^verbatim>\<open>internal/ruriko/commands/mesh.go\<close> and \<^verbatim>\<open>topology_handlers.go\<close>: the rooms an agent may write to and the peers it trusts, computed from
  the inventory or set by commands.
  The theory shows what each list operation does to trust and targets, that removing a peer never widens them, that the commands
  for peers store valid configurations only, and gives the footprint of every handler.  The refresh does not validate what it stores.
\<close>

subsection \<open>The mesh\<close>

definition resolvePeerAdminRoom :: "'w HEnv \<Rightarrow> string \<Rightarrow> ('w, handler_error + string) plane" where
  "resolvePeerAdminRoom env peerName = do {
     a \<leftarrow> ask env (\<lambda>e. GetAgent e peerName);
     case a of
       Inl e \<Rightarrow> State_Monad.return (Inl (Because (''peer agent '' @ go_quote peerName @ '' not in inventory'') (InDatabase e)))
     | Inr _ \<Rightarrow> do {
         l \<leftarrow> ask env (\<lambda>e. GetLatestGosutoVersion e peerName);
         State_Monad.return (case l of
             Inl e \<Rightarrow> Inl (Because (''peer agent '' @ go_quote peerName @ '' has no gosuto config'') (InDatabase e))
           | Inr gv \<Rightarrow> (case hv_unmarshal env (gv_YAMLBlob gv) of
               Inl e \<Rightarrow> Inl (Because (''failed to parse peer '' @ go_quote peerName @ '' gosuto yaml'') (Outside e))
             | Inr cfg \<Rightarrow>
                 if tr_AdminRoom (cf_Trust cfg) = []
                 then Inl (Plain (''peer agent '' @ go_quote peerName @ '' gosuto has no trust.adminRoom set''))
                 else Inr (tr_AdminRoom (cf_Trust cfg)))) } }"

fun resolve_peers :: "'w HEnv \<Rightarrow> PeerRef list \<Rightarrow> ('w, MessagingTarget list) plane" where
  "resolve_peers env [] = State_Monad.return []"
| "resolve_peers env (p # ps) = do {
     r \<leftarrow> resolvePeerAdminRoom env (pr_Name p);
     rest \<leftarrow> resolve_peers env ps;
     State_Monad.return (case r of Inl _ \<Rightarrow> rest | Inr room \<Rightarrow> \<lparr>mt_RoomID = room, mt_Alias = pr_Name p\<rparr> # rest) }"

definition with_user_target :: "string \<Rightarrow> MessagingTarget list \<Rightarrow> MessagingTarget list" where
  "with_user_target operatorRoom targets =
     (if operatorRoom \<noteq> [] \<and> \<not> list_ex (\<lambda>t. mt_Alias t = ''user'') targets
      then targets @ [\<lparr>mt_RoomID = operatorRoom, mt_Alias = ''user''\<rparr>] else targets)"

definition ResolveMeshTopology :: "'w HEnv \<Rightarrow> Config \<Rightarrow> string \<Rightarrow> ('w, MessagingTarget list) plane" where
  "ResolveMeshTopology env cfg operatorRoom = do {
     targets \<leftarrow> resolve_peers env (ic_Peers (in_Context (cf_Instructions cfg)));
     State_Monad.return (with_user_target operatorRoom targets) }"

fun add_missing :: "MessagingTarget list \<Rightarrow> MessagingTarget list \<Rightarrow> MessagingTarget list" where
  "add_missing merged [] = merged"
| "add_missing merged (t # ts) =
     (if mt_Alias t \<in> set (map mt_Alias merged) then add_missing merged ts else add_missing (merged @ [t]) ts)"

definition mergeMessagingTargets :: "MessagingTarget list \<Rightarrow> MessagingTarget list \<Rightarrow> MessagingTarget list" where
  "mergeMessagingTargets base computed =
     (if base = [] then computed else if computed = [] then base else add_missing computed base)"

definition SpecVersion_is :: "Config \<Rightarrow> bool" where
  "SpecVersion_is cfg \<longleftrightarrow> cf_APIVersion cfg = SpecVersion"

definition InjectMeshTopology :: "'w HEnv \<Rightarrow> string \<Rightarrow> string \<Rightarrow> ('w, handler_error + string) plane" where
  "InjectMeshTopology env renderedYAML operatorRoom = (case hv_unmarshal env renderedYAML of
       Inl e \<Rightarrow> State_Monad.return (Inl (Because ''mesh: failed to parse gosuto yaml'' (Outside e)))
     | Inr cfg \<Rightarrow>
         if \<not> SpecVersion_is cfg then State_Monad.return (Inr renderedYAML)
         else do {
           computed \<leftarrow> ResolveMeshTopology env cfg operatorRoom;
           let targets = mergeMessagingTargets (ms_AllowedTargets (cf_Messaging cfg)) computed;
           State_Monad.return (
             if targets = [] then Inr renderedYAML
             else (let m = cf_Messaging cfg;
                       cfg' = cfg\<lparr>cf_Messaging := \<lparr>ms_AllowedTargets = targets,
                         ms_MaxMessagesPerMinute = (if ms_MaxMessagesPerMinute m = 0 then 30 else ms_MaxMessagesPerMinute m)\<rparr>\<rparr>
                   in case hv_marshal env cfg' of
                        Inl e \<Rightarrow> Inl (Because ''mesh: failed to serialise gosuto yaml'' (Outside e))
                      | Inr out \<Rightarrow> Inr out)) })"

text \<open>\<open>Inr None\<close> when nothing has changed.  The new version is not validated and not pruned here.\<close>

definition UpdateAgentMeshTopology :: "'w HEnv \<Rightarrow> string \<Rightarrow> string \<Rightarrow> string \<Rightarrow> ('w, handler_error + GosutoVersion option) plane" where
  "UpdateAgentMeshTopology env agentID operatorRoom operatorMXID = do {
     l \<leftarrow> ask env (\<lambda>e. GetLatestGosutoVersion e agentID);
     case l of
       Inl e \<Rightarrow> State_Monad.return (Inl (Because (''mesh update: no gosuto for agent '' @ go_quote agentID) (InDatabase e)))
     | Inr gv \<Rightarrow> do {
         u \<leftarrow> InjectMeshTopology env (gv_YAMLBlob gv) operatorRoom;
         case u of
           Inl e \<Rightarrow> State_Monad.return (Inl (Plain (''mesh update: inject failed for agent '' @ go_quote agentID @ '': '' @ error_text env e)))
         | Inr updated \<Rightarrow>
             if updated = gv_YAMLBlob gv then State_Monad.return (Inr None)
             else do {
               n \<leftarrow> ask env (\<lambda>e. NextGosutoVersion e agentID);
               case n of
                 Inl e \<Rightarrow> State_Monad.return (Inl (Because ''mesh update: next version'' (InDatabase e)))
               | Inr nextVer \<Rightarrow> do {
                   let newGV = new_version agentID nextVer (hv_sha256 env updated) updated operatorMXID;
                   c \<leftarrow> store_version env newGV;
                   State_Monad.return (case c of
                       Some e \<Rightarrow> Inl (Because ''mesh update: store version'' (InDatabase e))
                     | None \<Rightarrow> Inr (Some newGV)) } } } }"

subsection \<open>Lists of peers and targets\<close>

definition sortTrustedPeers :: "TrustedPeer list \<Rightarrow> TrustedPeer list" where
  "sortTrustedPeers = sort_key (\<lambda>p. (tp_Alias p, tp_MXID p, tp_RoomID p))"

definition sortMessagingTargets :: "MessagingTarget list \<Rightarrow> MessagingTarget list" where
  "sortMessagingTargets = sort_key (\<lambda>t. (mt_Alias t, mt_RoomID t))"

definition same_peer :: "TrustedPeer \<Rightarrow> TrustedPeer \<Rightarrow> bool" where
  "same_peer p q \<longleftrightarrow> tp_MXID p = tp_MXID q \<and> tp_RoomID p = tp_RoomID q"

fun append_new :: "string list \<Rightarrow> string list \<Rightarrow> string list" where
  "append_new xs [] = xs"
| "append_new xs (y # ys) = (if y \<in> set xs then append_new xs ys else append_new (xs @ [y]) ys)"

definition merge_peer :: "TrustedPeer \<Rightarrow> TrustedPeer \<Rightarrow> TrustedPeer" where
  "merge_peer incoming p = p\<lparr>tp_Alias := (if trim_space (tp_Alias incoming) \<noteq> [] then tp_Alias incoming else tp_Alias p),
     tp_Protocols := sort (append_new (tp_Protocols p) (tp_Protocols incoming))\<rparr>"

fun update_first :: "('a \<Rightarrow> bool) \<Rightarrow> ('a \<Rightarrow> 'a) \<Rightarrow> 'a list \<Rightarrow> 'a list option" where
  "update_first P f [] = None"
| "update_first P f (x # xs) = (if P x then Some (f x # xs) else map_option (Cons x) (update_first P f xs))"

definition upsertTrustedPeer :: "TrustedPeer list \<Rightarrow> TrustedPeer \<Rightarrow> TrustedPeer list" where
  "upsertTrustedPeer peers incoming = (case update_first (\<lambda>p. same_peer p incoming) (merge_peer incoming) peers of
       Some ps \<Rightarrow> sortTrustedPeers ps
     | None \<Rightarrow> sortTrustedPeers (peers @ [incoming\<lparr>tp_Protocols := sort (tp_Protocols incoming)\<rparr>]))"

definition remaining_peer :: "string \<Rightarrow> string \<Rightarrow> TrustedPeer \<Rightarrow> TrustedPeer list" where
  "remaining_peer alias protocolID p =
     (if tp_Alias p \<noteq> alias then [p]
      else if protocolID = [] then []
      else (let rest = filter (\<lambda>x. x \<noteq> protocolID) (tp_Protocols p) in if rest = [] then [] else [p\<lparr>tp_Protocols := rest\<rparr>]))"

definition removeTrustedPeer :: "TrustedPeer list \<Rightarrow> string \<Rightarrow> string \<Rightarrow> TrustedPeer list" where
  "removeTrustedPeer peers alias protocolID = sortTrustedPeers (concat (map (remaining_peer alias protocolID) peers))"

definition hasTrustedPeerAlias :: "TrustedPeer list \<Rightarrow> string \<Rightarrow> bool" where
  "hasTrustedPeerAlias peers alias \<longleftrightarrow> list_ex (\<lambda>p. tp_Alias p = alias) peers"

definition hasTrustedPeerProtocol :: "TrustedPeer list \<Rightarrow> string \<Rightarrow> string \<Rightarrow> string \<Rightarrow> string \<Rightarrow> bool" where
  "hasTrustedPeerProtocol peers alias mxid room protocolID \<longleftrightarrow>
     list_ex (\<lambda>p. tp_Alias p = alias \<and> tp_MXID p = mxid \<and> tp_RoomID p = room \<and> protocolID \<in> set (tp_Protocols p)) peers"

definition hasMessagingTarget :: "MessagingTarget list \<Rightarrow> string \<Rightarrow> string \<Rightarrow> bool" where
  "hasMessagingTarget targets alias room \<longleftrightarrow> list_ex (\<lambda>t. mt_Alias t = alias \<and> mt_RoomID t = room) targets"

definition findTopologyEnsureConflict :: "Config \<Rightarrow> string \<Rightarrow> string \<Rightarrow> string \<Rightarrow> string \<Rightarrow> string" where
  "findTopologyEnsureConflict cfg alias mxid room targetRoom =
     (case find (\<lambda>p. tp_Alias p = alias \<and> (tp_MXID p \<noteq> mxid \<or> tp_RoomID p \<noteq> room)) (tr_TrustedPeers (cf_Trust cfg)) of
        Some p \<Rightarrow> ''existing trusted peer alias maps to mxid='' @ go_quote (tp_MXID p) @ '' room='' @ go_quote (tp_RoomID p)
      | None \<Rightarrow> (case find (\<lambda>t. mt_Alias t = alias \<and> mt_RoomID t \<noteq> targetRoom) (ms_AllowedTargets (cf_Messaging cfg)) of
          Some t \<Rightarrow> ''existing messaging target alias maps to room='' @ go_quote (mt_RoomID t)
        | None \<Rightarrow> []))"

definition upsertMessagingTarget :: "MessagingTarget list \<Rightarrow> MessagingTarget \<Rightarrow> MessagingTarget list" where
  "upsertMessagingTarget targets incoming =
     (case update_first (\<lambda>t. mt_Alias t = mt_Alias incoming) (\<lambda>t. t\<lparr>mt_RoomID := mt_RoomID incoming\<rparr>) targets of
        Some ts \<Rightarrow> sortMessagingTargets ts
      | None \<Rightarrow> sortMessagingTargets (targets @ [incoming]))"

definition removeMessagingTargetAlias :: "MessagingTarget list \<Rightarrow> string \<Rightarrow> MessagingTarget list" where
  "removeMessagingTargetAlias targets alias = sortMessagingTargets (filter (\<lambda>t. mt_Alias t \<noteq> alias) targets)"

definition put_peers :: "(TrustedPeer list \<Rightarrow> TrustedPeer list) \<Rightarrow> Config \<Rightarrow> Config" where
  "put_peers f cfg = cfg\<lparr>cf_Trust := (cf_Trust cfg)\<lparr>tr_TrustedPeers := f (tr_TrustedPeers (cf_Trust cfg))\<rparr>\<rparr>"

definition put_targets :: "(MessagingTarget list \<Rightarrow> MessagingTarget list) \<Rightarrow> Config \<Rightarrow> Config" where
  "put_targets f cfg = cfg\<lparr>cf_Messaging := (cf_Messaging cfg)\<lparr>ms_AllowedTargets := f (ms_AllowedTargets (cf_Messaging cfg))\<rparr>\<rparr>"

subsection \<open>Storing and pushing a topology\<close>

definition parsePushFlag :: "Command \<Rightarrow> handler_error + bool" where
  "parsePushFlag cmd = (let raw = trim_space (GetFlag cmd ''push'' []) in
     if raw = [] then Inr False
     else (case parse_bool raw of
         None \<Rightarrow> Inl (Plain (''invalid --push '' @ go_quote raw @ '': expected true or false''))
       | Some b \<Rightarrow> Inr b))"

definition maybePushGosutoVersion :: "'w HEnv \<Rightarrow> string \<Rightarrow> string \<Rightarrow> GosutoVersion \<Rightarrow> ('w, bool \<times> string) plane" where
  "maybePushGosutoVersion env traceID agentID gv = do {
     a \<leftarrow> ask env (\<lambda>e. GetAgent e agentID);
     case a of
       Inl e \<Rightarrow> State_Monad.return (False, ''Push requested, but agent lookup failed: '' @ hv_text env (InDatabase e))
     | Inr agent \<Rightarrow>
         if trim_space (column (an_ControlURL agent)) = []
         then State_Monad.return (False, ''Push requested, but agent **'' @ agentID @ ''** has no control URL; is it running?'')
         else do {
           errs \<leftarrow> pushGosuto env traceID (column (an_ControlURL agent)) (column (an_ACPToken agent)) gv;
           if errs \<noteq> []
           then State_Monad.return (False, ''Gosuto v'' @ itoa (gv_Version gv) @ '' stored, but ACP push failed: '' @ hv_text env (InClient errs))
           else do {
             _ \<leftarrow> statement env (\<lambda>e now. SetAgentDesiredGosutoHash e now agentID (gv_Hash gv));
             State_Monad.return (True, ''Gosuto v'' @ itoa (gv_Version gv) @ '' pushed to running agent **'' @ agentID @ ''**.'') } } }"

definition push_if :: "'w HEnv \<Rightarrow> bool \<Rightarrow> string \<Rightarrow> string \<Rightarrow> GosutoVersion \<Rightarrow> ('w, bool \<times> string) plane" where
  "push_if env requested traceID agentID gv =
     (if requested then maybePushGosutoVersion env traceID agentID gv else State_Monad.return (False, []))"

definition push_payload :: "bool \<Rightarrow> bool \<times> string \<Rightarrow> gmap" where
  "push_payload requested p = [(''push_requested'', GBool requested), (''push_applied'', GBool (fst p)), (''push_message'', GStr (snd p))]"

definition topology_reply :: "string \<Rightarrow> string list \<Rightarrow> bool \<Rightarrow> bool \<times> string \<Rightarrow> string \<Rightarrow> answer" where
  "topology_reply what parts requested p traceID =
     Reply what (parts @ (if requested \<and> snd p \<noteq> [] then [snd p] else []) @ [traceID])"

definition loadAgentGosutoForTopology :: "'w HEnv \<Rightarrow> string \<Rightarrow> string \<Rightarrow> string \<Rightarrow> string \<Rightarrow> ('w, handler_error + GosutoVersion \<times> Config) plane" where
  "loadAgentGosutoForTopology env traceID sender agentID action = do {
     a \<leftarrow> ask env (\<lambda>e. GetAgent e agentID);
     case a of
       Inl e \<Rightarrow> do {
         _ \<leftarrow> write_audit env traceID sender action agentID ''error'' None (hv_text env (InDatabase e));
         State_Monad.return (Inl (Plain (''agent not found: '' @ agentID))) }
     | Inr _ \<Rightarrow> do {
         l \<leftarrow> ask env (\<lambda>e. GetLatestGosutoVersion e agentID);
         case l of
           Inl e \<Rightarrow> do {
             _ \<leftarrow> write_audit env traceID sender action agentID ''error'' None (hv_text env (InDatabase e));
             State_Monad.return (Inl (Because (''no gosuto config found for agent '' @ go_quote agentID) (InDatabase e))) }
         | Inr gv \<Rightarrow> State_Monad.return (case hv_unmarshal env (gv_YAMLBlob gv) of
               Inl e \<Rightarrow> Inl (Because (''invalid stored gosuto for '' @ go_quote agentID) (Outside e))
             | Inr cfg \<Rightarrow> Inr (gv, cfg)) } }"

definition renderValidatedUpdatedTopology :: "'w HEnv \<Rightarrow> Config \<Rightarrow> string \<Rightarrow> handler_error + string \<times> bool" where
  "renderValidatedUpdatedTopology env cfg base = (case hv_marshal env cfg of
       Inl e \<Rightarrow> Inl (Because ''failed to serialise updated gosuto'' (Outside e))
     | Inr rawYAML \<Rightarrow> (case Parse (hv_decode env) rawYAML of
         Inl e \<Rightarrow> Inl (Because ''updated gosuto failed validation'' (InConfig e))
       | Inr _ \<Rightarrow> Inr (rawYAML, rawYAML \<noteq> base)))"

definition storeTopologyVersion :: "'w HEnv \<Rightarrow> string \<Rightarrow> string \<Rightarrow> string \<Rightarrow> ('w, handler_error + GosutoVersion) plane" where
  "storeTopologyVersion env agentID rawYAML sender = do {
     r \<leftarrow> append_version env agentID (hv_sha256 env rawYAML) rawYAML sender;
     State_Monad.return (case r of
         Inl (Inl e) \<Rightarrow> Inl (Because ''failed to determine next version'' (InDatabase e))
       | Inl (Inr e) \<Rightarrow> Inl (Because ''failed to store gosuto version'' (InDatabase e))
       | Inr gv \<Rightarrow> Inr gv) }"

text \<open>The end of the commands for peers when the configuration changes: the version is stored, pushed on request and recorded.\<close>

definition store_topology ::
    "'w HEnv \<Rightarrow> string \<Rightarrow> string \<Rightarrow> string \<Rightarrow> string \<Rightarrow> bool \<Rightarrow> string \<Rightarrow> gmap \<Rightarrow> string \<Rightarrow> string list \<Rightarrow> ('w, handler_error + answer) plane"
where
  "store_topology env traceID sender action agentID push rawYAML payload what parts = do {
     r \<leftarrow> storeTopologyVersion env agentID rawYAML sender;
     case r of
       Inl e \<Rightarrow> audited_error env traceID sender action agentID (error_text env e) e
     | Inr gv \<Rightarrow> do {
         p \<leftarrow> push_if env push traceID agentID gv;
         _ \<leftarrow> write_audit env traceID sender action agentID ''success''
           (Some ((''changed'', GBool True) # payload @ version_payload gv @ push_payload push p)) [];
         State_Monad.return (Inr (topology_reply what (parts @ [itoa (gv_Version gv), take 16 (gv_Hash gv)]) push p traceID)) } }"

definition unchanged_topology ::
    "'w HEnv \<Rightarrow> string \<Rightarrow> string \<Rightarrow> string \<Rightarrow> string \<Rightarrow> bool \<Rightarrow> GosutoVersion \<Rightarrow> gmap \<Rightarrow> string \<Rightarrow> string list \<Rightarrow> ('w, handler_error + answer) plane"
where
  "unchanged_topology env traceID sender action agentID push gv payload what parts = do {
     p \<leftarrow> push_if env push traceID agentID gv;
     _ \<leftarrow> write_audit env traceID sender action agentID ''success'' (Some ((''changed'', GBool False) # payload @ push_payload push p)) [];
     State_Monad.return (Inr (topology_reply what parts push p traceID)) }"

subsection \<open>Refresh\<close>

definition refreshed :: "'w HEnv \<Rightarrow> string \<Rightarrow> string \<Rightarrow> string \<Rightarrow> bool \<Rightarrow> GosutoVersion \<Rightarrow> ('w, handler_error + answer) plane" where
  "refreshed env traceID sender agentID push gv = do {
     _ \<leftarrow> statement env (\<lambda>e now. PruneGosutoVersions e agentID GosutoVersionsRetainN);
     p \<leftarrow> push_if env push traceID agentID gv;
     _ \<leftarrow> write_audit env traceID sender ''topology.refresh'' agentID ''success''
       (Some ((''changed'', GBool True) # version_payload gv @ push_payload push p)) [];
     State_Monad.return (Inr (topology_reply ''topology refreshed'' [agentID, itoa (gv_Version gv), take 16 (gv_Hash gv)] push p traceID)) }"

definition not_refreshed :: "'w HEnv \<Rightarrow> string \<Rightarrow> string \<Rightarrow> string \<Rightarrow> bool \<Rightarrow> ('w, handler_error + answer) plane" where
  "not_refreshed env traceID sender agentID push = do {
     p \<leftarrow> (if push
       then do {
         l \<leftarrow> ask env (\<lambda>e. GetLatestGosutoVersion e agentID);
         case l of
           Inl e \<Rightarrow> State_Monad.return (False, ''Push requested but no Gosuto version is available for apply: '' @ hv_text env (InDatabase e))
         | Inr latest \<Rightarrow> maybePushGosutoVersion env traceID agentID latest }
       else State_Monad.return (False, []));
     _ \<leftarrow> write_audit env traceID sender ''topology.refresh'' agentID ''success'' (Some ((''changed'', GBool False) # push_payload push p)) [];
     State_Monad.return (Inr (topology_reply ''topology already up to date'' [agentID] push p traceID)) }"

definition HandleTopologyRefresh :: "'w HEnv \<Rightarrow> Command \<Rightarrow> string \<Rightarrow> string \<Rightarrow> ('w, handler_error + answer) plane" where
  "HandleTopologyRefresh env cmd sender room = do {
     traceID \<leftarrow> on_world (hv_traceID env);
     let agentID = first_arg cmd;
     if trim_space agentID = []
     then State_Monad.return (Inl (Plain ''usage: /ruriko topology refresh <agent> [--operator-room <room-id>] [--push true|false]''))
     else (case parsePushFlag cmd of
         Inl e \<Rightarrow> State_Monad.return (Inl e)
       | Inr push \<Rightarrow> agent_lookup env traceID sender ''topology.refresh'' agentID (\<lambda>_.
           (let given = trim_space (GetFlag cmd ''operator-room'' []); operatorRoom = (if given = [] then room else given) in
            if operatorRoom \<noteq> [] \<and> \<not> has_prefix operatorRoom ''!''
            then State_Monad.return (Inl (Plain (''--operator-room must start with '' @ single_quoted ''!'')))
            else do {
              u \<leftarrow> UpdateAgentMeshTopology env agentID operatorRoom sender;
              case u of
                Inl e \<Rightarrow> audited_error env traceID sender ''topology.refresh'' agentID (error_text env e) e
              | Inr None \<Rightarrow> not_refreshed env traceID sender agentID push
              | Inr (Some gv) \<Rightarrow> refreshed env traceID sender agentID push gv }))) }"

subsection \<open>Commands for peers\<close>

record peer_flags =
  pf_alias :: string
  pf_mxid :: string
  pf_room :: string
  pf_protocol :: string
  pf_targetRoom :: string

definition read_peer_flags :: "Command \<Rightarrow> peer_flags" where
  "read_peer_flags cmd = (let room = trim_space (GetFlag cmd ''room'' []) in
     \<lparr>pf_alias = trim_space (GetFlag cmd ''alias'' []), pf_mxid = trim_space (GetFlag cmd ''mxid'' []), pf_room = room,
      pf_protocol = trim_space (GetFlag cmd ''protocol'' []), pf_targetRoom = trim_space (GetFlag cmd ''target-room'' room)\<rparr>)"

definition alias_error :: "string \<Rightarrow> string option" where
  "alias_error alias = first_of
     [reject (alias = []) ''--alias is required'',
      reject (contains_any alias ('' '' @ [CHR 0x09, CHR 0x0D, CHR 0x0A])) ''--alias must not contain whitespace'']"

definition validateTopologyPeerSetFlags :: "peer_flags \<Rightarrow> string option" where
  "validateTopologyPeerSetFlags f = first_of
     [alias_error (pf_alias f),
      reject (pf_mxid f = [] \<or> \<not> has_prefix (pf_mxid f) ''@'') (''--mxid must start with '' @ single_quoted ''@''),
      reject (pf_room f = [] \<or> \<not> has_prefix (pf_room f) ''!'') (''--room must start with '' @ single_quoted ''!''),
      reject (pf_targetRoom f = [] \<or> \<not> has_prefix (pf_targetRoom f) ''!'') (''--target-room must start with '' @ single_quoted ''!''),
      reject (pf_protocol f = []) ''--protocol must not be empty'']"

definition peer_of :: "peer_flags \<Rightarrow> TrustedPeer" where
  "peer_of f = \<lparr>tp_MXID = pf_mxid f, tp_RoomID = pf_room f, tp_Alias = pf_alias f, tp_Protocols = [pf_protocol f]\<rparr>"

definition target_of :: "peer_flags \<Rightarrow> MessagingTarget" where
  "target_of f = \<lparr>mt_RoomID = pf_targetRoom f, mt_Alias = pf_alias f\<rparr>"

definition peer_payload :: "peer_flags \<Rightarrow> gmap" where
  "peer_payload f = [(''alias'', GStr (pf_alias f)), (''mxid'', GStr (pf_mxid f)), (''room'', GStr (pf_room f)), (''protocol'', GStr (pf_protocol f))]"

definition short_payload :: "string \<Rightarrow> string \<Rightarrow> gmap" where
  "short_payload alias protocol = [(''alias'', GStr alias), (''protocol'', GStr protocol)]"

definition peer_usage :: "string \<Rightarrow> string" where
  "peer_usage sub = ''usage: /ruriko topology '' @ sub @
     '' <agent> --alias <alias> --mxid <mxid> --room <room-id> --protocol <id> [--target-room <room-id>] [--push true|false]''"

definition set_peer :: "peer_flags \<Rightarrow> Config \<Rightarrow> Config" where
  "set_peer f cfg = put_targets (\<lambda>ts. upsertMessagingTarget ts (target_of f)) (put_peers (\<lambda>ps. upsertTrustedPeer ps (peer_of f)) cfg)"

definition HandleTopologyPeerSet :: "'w HEnv \<Rightarrow> Command \<Rightarrow> string \<Rightarrow> ('w, handler_error + answer) plane" where
  "HandleTopologyPeerSet env cmd sender = do {
     traceID \<leftarrow> on_world (hv_traceID env);
     let agentID = first_arg cmd;
     let f = read_peer_flags cmd;
     if trim_space agentID = [] then State_Monad.return (Inl (Plain (peer_usage ''peer-set'')))
     else (case parsePushFlag cmd of
         Inl e \<Rightarrow> State_Monad.return (Inl e)
       | Inr push \<Rightarrow> (case validateTopologyPeerSetFlags f of
           Some msg \<Rightarrow> State_Monad.return (Inl (Plain msg))
         | None \<Rightarrow> do {
             l \<leftarrow> loadAgentGosutoForTopology env traceID sender agentID ''topology.peer-set'';
             case l of
               Inl e \<Rightarrow> State_Monad.return (Inl e)
             | Inr (baseGV, cfg) \<Rightarrow> (case renderValidatedUpdatedTopology env (set_peer f cfg) (gv_YAMLBlob baseGV) of
                 Inl e \<Rightarrow> audited_error env traceID sender ''topology.peer-set'' agentID (error_text env e) e
               | Inr (rawYAML, changed) \<Rightarrow>
                   if \<not> changed
                   then unchanged_topology env traceID sender ''topology.peer-set'' agentID push baseGV
                     (short_payload (pf_alias f) (pf_protocol f)) ''peer mapping unchanged'' [agentID]
                   else behind_gate env ''topology.peer-set'' agentID cmd sender
                     (store_topology env traceID sender ''topology.peer-set'' agentID push rawYAML (peer_payload f) ''peer mapping added''
                       [agentID, pf_alias f, pf_protocol f])) })) }"

definition ensure_peer :: "peer_flags \<Rightarrow> Config \<Rightarrow> Config" where
  "ensure_peer f cfg =
     (let peerMissing = \<not> hasTrustedPeerProtocol (tr_TrustedPeers (cf_Trust cfg)) (pf_alias f) (pf_mxid f) (pf_room f) (pf_protocol f);
          targetMissing = \<not> hasMessagingTarget (ms_AllowedTargets (cf_Messaging cfg)) (pf_alias f) (pf_targetRoom f);
          c1 = (if peerMissing then put_peers (\<lambda>ps. upsertTrustedPeer ps (peer_of f)) cfg else cfg)
      in if targetMissing then put_targets (\<lambda>ts. upsertMessagingTarget ts (target_of f)) c1 else c1)"

definition ensure_missing :: "peer_flags \<Rightarrow> Config \<Rightarrow> bool \<times> bool" where
  "ensure_missing f cfg =
     (\<not> hasTrustedPeerProtocol (tr_TrustedPeers (cf_Trust cfg)) (pf_alias f) (pf_mxid f) (pf_room f) (pf_protocol f),
      \<not> hasMessagingTarget (ms_AllowedTargets (cf_Messaging cfg)) (pf_alias f) (pf_targetRoom f))"

definition apply_ensure ::
    "'w HEnv \<Rightarrow> string \<Rightarrow> string \<Rightarrow> string \<Rightarrow> bool \<Rightarrow> peer_flags \<Rightarrow> GosutoVersion \<Rightarrow> Config \<Rightarrow> Command \<Rightarrow> ('w, handler_error + answer) plane"
where
  "apply_ensure env traceID sender agentID push f baseGV cfg cmd =
     (case renderValidatedUpdatedTopology env (ensure_peer f cfg) (gv_YAMLBlob baseGV) of
        Inl e \<Rightarrow> audited_error env traceID sender ''topology.peer-ensure'' agentID (error_text env e) e
      | Inr (rawYAML, changed) \<Rightarrow>
          if \<not> changed
          then do {
            _ \<leftarrow> write_audit env traceID sender ''topology.peer-ensure'' agentID ''success''
              (Some ((''changed'', GBool False) # short_payload (pf_alias f) (pf_protocol f) @ [(''push_requested'', GBool push)])) [];
            State_Monad.return (Inr (Reply ''peer mapping already satisfied'' [agentID, traceID])) }
          else behind_gate env ''topology.peer-ensure'' agentID cmd sender
            (store_topology env traceID sender ''topology.peer-ensure'' agentID push rawYAML
              (peer_payload f @ [(''peer_added'', GBool (fst (ensure_missing f cfg))), (''target_added'', GBool (snd (ensure_missing f cfg)))])
              ''topology ensure applied'' [agentID, pf_alias f, pf_protocol f]))"

definition HandleTopologyPeerEnsure :: "'w HEnv \<Rightarrow> Command \<Rightarrow> string \<Rightarrow> ('w, handler_error + answer) plane" where
  "HandleTopologyPeerEnsure env cmd sender = do {
     traceID \<leftarrow> on_world (hv_traceID env);
     let agentID = first_arg cmd;
     let f = read_peer_flags cmd;
     if trim_space agentID = [] then State_Monad.return (Inl (Plain (peer_usage ''peer-ensure'')))
     else (case parsePushFlag cmd of
         Inl e \<Rightarrow> State_Monad.return (Inl e)
       | Inr push \<Rightarrow> (case validateTopologyPeerSetFlags f of
           Some msg \<Rightarrow> State_Monad.return (Inl (Plain msg))
         | None \<Rightarrow> do {
             l \<leftarrow> loadAgentGosutoForTopology env traceID sender agentID ''topology.peer-ensure'';
             case l of
               Inl e \<Rightarrow> State_Monad.return (Inl e)
             | Inr (baseGV, cfg) \<Rightarrow>
                 (let conflict = findTopologyEnsureConflict cfg (pf_alias f) (pf_mxid f) (pf_room f) (pf_targetRoom f);
                      msg = ''cannot ensure peer mapping for alias '' @ go_quote (pf_alias f) @ '': '' @ conflict
                  in if conflict \<noteq> [] then audited_error env traceID sender ''topology.peer-ensure'' agentID msg (Plain msg)
                     else if ensure_missing f cfg = (False, False)
                     then unchanged_topology env traceID sender ''topology.peer-ensure'' agentID push baseGV
                       (short_payload (pf_alias f) (pf_protocol f)) ''peer mapping already satisfied'' [agentID]
                     else apply_ensure env traceID sender agentID push f baseGV cfg cmd) })) }"

definition remove_peer :: "string \<Rightarrow> string \<Rightarrow> Config \<Rightarrow> Config" where
  "remove_peer alias protocolID cfg =
     (let c1 = put_peers (\<lambda>ps. removeTrustedPeer ps alias protocolID) cfg in
      if hasTrustedPeerAlias (tr_TrustedPeers (cf_Trust c1)) alias then c1 else put_targets (\<lambda>ts. removeMessagingTargetAlias ts alias) c1)"

definition HandleTopologyPeerRemove :: "'w HEnv \<Rightarrow> Command \<Rightarrow> string \<Rightarrow> ('w, handler_error + answer) plane" where
  "HandleTopologyPeerRemove env cmd sender = do {
     traceID \<leftarrow> on_world (hv_traceID env);
     let agentID = first_arg cmd;
     let alias = trim_space (GetFlag cmd ''alias'' []);
     let protocolID = trim_space (GetFlag cmd ''protocol'' []);
     if trim_space agentID = []
     then State_Monad.return (Inl (Plain ''usage: /ruriko topology peer-remove <agent> --alias <alias> [--protocol <id>] [--push true|false]''))
     else (case parsePushFlag cmd of
         Inl e \<Rightarrow> State_Monad.return (Inl e)
       | Inr push \<Rightarrow> (case alias_error alias of
           Some msg \<Rightarrow> State_Monad.return (Inl (Plain msg))
         | None \<Rightarrow> do {
             l \<leftarrow> loadAgentGosutoForTopology env traceID sender agentID ''topology.peer-remove'';
             case l of
               Inl e \<Rightarrow> State_Monad.return (Inl e)
             | Inr (baseGV, cfg) \<Rightarrow> (case renderValidatedUpdatedTopology env (remove_peer alias protocolID cfg) (gv_YAMLBlob baseGV) of
                 Inl e \<Rightarrow> audited_error env traceID sender ''topology.peer-remove'' agentID (error_text env e) e
               | Inr (rawYAML, changed) \<Rightarrow>
                   if \<not> changed
                   then unchanged_topology env traceID sender ''topology.peer-remove'' agentID push baseGV (short_payload alias protocolID)
                     ''no topology changes'' [agentID, alias]
                   else store_topology env traceID sender ''topology.peer-remove'' agentID push rawYAML (short_payload alias protocolID)
                     ''peer mapping removed'' [agentID, alias]) })) }"

text \<open>What the handlers for peers edit is the latest version that was stored.\<close>

lemma load_result:
  assumes "State_Monad.run_state (loadAgentGosutoForTopology env traceID sender i action) s = (Inr (gv, cfg), t)"
  shows "\<exists>e. GetLatestGosutoVersion e i (db_of s) = Inr gv" "hv_unmarshal env (gv_YAMLBlob gv) = Inr cfg"
proof -
  obtain x s1 where x: "State_Monad.run_state (ask env (\<lambda>e. GetAgent e i)) s = (x, s1)"
    and r: "State_Monad.run_state (case x of
       Inl e \<Rightarrow> do {
         _ \<leftarrow> write_audit env traceID sender action i ''error'' None (hv_text env (InDatabase e));
         State_Monad.return (Inl (Plain (''agent not found: '' @ i))) }
     | Inr _ \<Rightarrow> do {
         l \<leftarrow> ask env (\<lambda>e. GetLatestGosutoVersion e i);
         case l of
           Inl e \<Rightarrow> do {
             _ \<leftarrow> write_audit env traceID sender action i ''error'' None (hv_text env (InDatabase e));
             State_Monad.return (Inl (Because (''no gosuto config found for agent '' @ go_quote i) (InDatabase e))) }
         | Inr gv \<Rightarrow> State_Monad.return (case hv_unmarshal env (gv_YAMLBlob gv) of
               Inl e \<Rightarrow> Inl (Because (''invalid stored gosuto for '' @ go_quote i) (Outside e))
             | Inr cfg \<Rightarrow> Inr (gv, cfg)) }) s1 = (Inr (gv, cfg), t)"
    using assms unfolding loadAgentGosutoForTopology_def by (rule run_bindE)
  from x have same: "db_of s1 = db_of s" by (rule run_askE)
  from r obtain y s2 where y: "State_Monad.run_state (ask env (\<lambda>e. GetLatestGosutoVersion e i)) s1 = (y, s2)" and "y = Inr gv"
    and read: "hv_unmarshal env (gv_YAMLBlob gv) = Inr cfg"
    by (cases x) (auto split: sum.splits prod.splits)
  from y obtain e where "y = GetLatestGosutoVersion e i (db_of s1)" by (rule run_askE)
  with same \<open>y = Inr gv\<close> show "\<exists>e. GetLatestGosutoVersion e i (db_of s) = Inr gv" by auto
  show "hv_unmarshal env (gv_YAMLBlob gv) = Inr cfg" by (rule read)
qed

subsection \<open>What the handlers may change\<close>

text \<open>Any push of a configuration.\<close>

definition pushes :: "label set" where
  "pushes = {Op (ConfigPushed u gv) |u gv. True}"

lemma pushes_mem: "pushes \<subseteq> A \<Longrightarrow> Op (ConfigPushed u gv) \<in> A"
  by (auto simp: pushes_def)

lemma push_if_footprint:
  "World \<in> A \<Longrightarrow> Table (KDesired agentID) \<in> A \<Longrightarrow> pushes \<subseteq> A \<Longrightarrow> footprint A (push_if env requested traceID agentID gv)"
  unfolding push_if_def maybePushGosutoVersion_def pushGosuto_def by (intro lifecycle_intros pushes_mem)

lemma maybePush_footprint:
  "World \<in> A \<Longrightarrow> Table (KDesired agentID) \<in> A \<Longrightarrow> pushes \<subseteq> A \<Longrightarrow> footprint A (maybePushGosutoVersion env traceID agentID gv)"
  using push_if_footprint [of A agentID env True] by (simp add: push_if_def)

lemma load_footprint: "World \<in> A \<Longrightarrow> Table KAudit \<in> A \<Longrightarrow> footprint A (loadAgentGosutoForTopology env traceID sender agentID action)"
  unfolding loadAgentGosutoForTopology_def by (intro lifecycle_intros)

lemma store_topology_footprint:
  "World \<in> A \<Longrightarrow> Table KAudit \<in> A \<Longrightarrow> Table (KDesired agentID) \<in> A \<Longrightarrow> Table (KPrune agentID) \<in> A \<Longrightarrow> Table (KVersion agentID rawYAML) \<in> A \<Longrightarrow>
   pushes \<subseteq> A \<Longrightarrow> footprint A (store_topology env traceID sender action agentID push rawYAML payload what parts)"
  unfolding store_topology_def storeTopologyVersion_def by (intro lifecycle_intros push_if_footprint append_version_footprint)

lemma unchanged_topology_footprint:
  "World \<in> A \<Longrightarrow> Table KAudit \<in> A \<Longrightarrow> Table (KDesired agentID) \<in> A \<Longrightarrow> pushes \<subseteq> A \<Longrightarrow>
   footprint A (unchanged_topology env traceID sender action agentID push gv payload what parts)"
  unfolding unchanged_topology_def by (intro lifecycle_intros push_if_footprint)

lemma render_valid: "renderValidatedUpdatedTopology env cfg base = Inr (rawYAML, changed) \<Longrightarrow> config_ok_for env rawYAML"
  by (auto simp: renderValidatedUpdatedTopology_def config_ok_for_def split: sum.splits)

lemmas topology_intros = lifecycle_intros push_if_footprint maybePush_footprint load_footprint store_topology_footprint unchanged_topology_footprint

definition peer_labels :: "'w HEnv \<Rightarrow> string \<Rightarrow> label set" where
  "peer_labels env i = insert Gate (insert (Table (KDesired i)) (version_labels env i)) \<union> pushes"

lemma peer_labels_mem [simp]:
  "World \<in> peer_labels env i" "Gate \<in> peer_labels env i" "Table KAudit \<in> peer_labels env i" "Table (KDesired i) \<in> peer_labels env i"
  "Table (KPrune i) \<in> peer_labels env i" "Table (KVersion i y) \<in> peer_labels env i \<longleftrightarrow> config_ok_for env y"
  "pushes \<subseteq> peer_labels env i"
  by (auto simp: peer_labels_def pushes_def)

lemma HandleTopologyPeerSet_footprint:
  "footprint (if unapproved env ''topology.peer-set'' cmd then insert (Table (KDesired (first_arg cmd))) quiet \<union> pushes else peer_labels env (first_arg cmd))
     (HandleTopologyPeerSet env cmd sender)"
  unfolding HandleTopologyPeerSet_def Let_def
  by (intro topology_intros) (auto simp: quiet_def render_valid)

lemma HandleTopologyPeerEnsure_footprint:
  "footprint (if unapproved env ''topology.peer-ensure'' cmd then insert (Table (KDesired (first_arg cmd))) quiet \<union> pushes else peer_labels env (first_arg cmd))
     (HandleTopologyPeerEnsure env cmd sender)"
  unfolding HandleTopologyPeerEnsure_def apply_ensure_def Let_def
  by (intro topology_intros) (auto simp: quiet_def render_valid)

lemma HandleTopologyPeerRemove_footprint: "footprint (peer_labels env (first_arg cmd)) (HandleTopologyPeerRemove env cmd sender)"
  unfolding HandleTopologyPeerRemove_def Let_def
  by (intro topology_intros) (auto simp: render_valid)

lemma resolvePeer_footprint: "World \<in> A \<Longrightarrow> footprint A (resolvePeerAdminRoom env name)"
  unfolding resolvePeerAdminRoom_def by (intro topology_intros)

lemma resolve_peers_footprint: "World \<in> A \<Longrightarrow> footprint A (resolve_peers env ps)"
  by (induction ps) (auto intro!: topology_intros resolvePeer_footprint)

lemma inject_footprint: "World \<in> A \<Longrightarrow> footprint A (InjectMeshTopology env yaml room)"
  unfolding InjectMeshTopology_def ResolveMeshTopology_def Let_def by (intro topology_intros resolve_peers_footprint)

definition mesh_labels :: "string \<Rightarrow> label set" where
  "mesh_labels i = {World, Table KAudit, Table (KDesired i), Table (KPrune i)} \<union> {Table (KVersion i y) |y. True} \<union> pushes"

lemma HandleTopologyRefresh_footprint: "footprint (mesh_labels (first_arg cmd)) (HandleTopologyRefresh env cmd sender room)"
  unfolding HandleTopologyRefresh_def UpdateAgentMeshTopology_def refreshed_def not_refreshed_def Let_def
  by (intro topology_intros inject_footprint) (auto simp: mesh_labels_def)

end
