(* ===== verification/Provisioning.thy ===== *)
theory Provisioning
  imports Topology_Handlers
begin

section \<open>The provisioning pipeline\<close>

text \<open>
  \<^verbatim>\<open>internal/ruriko/commands/provision.go\<close>: what runs in the background after the container of a new agent is spawned.  It waits for the
  container and for the control server, renders the configuration from its template, adds the targets of the mesh, stores and pushes it, compares the
  hash that the agent reports, pushes secrets and marks the agent as healthy; a step that fails marks it as in error.

  A wait ends by its context at the latest after timeout over interval rounds, 30 for the container and 45 for the control server; the environment
  may end it earlier in every round.  Notices to the room are operations of the log.

  The theory shows which rows the pipeline may change, and that it always ends with the agent marked as healthy or in error when the statements succeed.
\<close>

subsection \<open>Waiting\<close>

definition provisionContainerTimeout :: nat where "provisionContainerTimeout = 60"
definition provisionACPHealthTimeout :: nat where "provisionACPHealthTimeout = 90"
definition provisionPollInterval :: nat where "provisionPollInterval = 2"

definition container_timeout :: "string \<Rightarrow> handler_error" where
  "container_timeout lastState = Plain (''timeout waiting for container to reach '' @ single_quoted ''running'' @ '' (last state: '' @ go_quote lastState @ '')'')"

fun pollContainerRunning :: "'w HEnv \<Rightarrow> 'w Containers \<Rightarrow> AgentHandle \<Rightarrow> nat \<Rightarrow> string \<Rightarrow> ('w, handler_error option) plane" where
  "pollContainerRunning env rt h 0 lastState = State_Monad.return (Some (container_timeout lastState))"
| "pollContainerRunning env rt h (Suc n) lastState = do {
     over \<leftarrow> on_world (hv_waited env);
     if over then State_Monad.return (Some (container_timeout lastState))
     else do {
       r \<leftarrow> on_world (ct_Status rt h);
       case r of
         Inl _ \<Rightarrow> pollContainerRunning env rt h n lastState
       | Inr st \<Rightarrow>
           if rs_State st = StateRunning then State_Monad.return None
           else if rs_State st = StateExited \<or> rs_State st = StateRemoving
           then State_Monad.return (Some (Plain (''container exited prematurely with exit code '' @ itoa (rs_ExitCode st))))
           else pollContainerRunning env rt h n (rs_State st) } }"

definition health_timeout :: "client_error option \<Rightarrow> handler_error" where
  "health_timeout lastErr = (case lastErr of
       None \<Rightarrow> Plain ''timeout waiting for ACP to become healthy''
     | Some e \<Rightarrow> Because ''timeout waiting for ACP to become healthy'' (InClient [e]))"

fun pollACPHealth :: "'w HEnv \<Rightarrow> Client \<Rightarrow> string \<Rightarrow> nat \<Rightarrow> client_error option \<Rightarrow> ('w, handler_error option) plane" where
  "pollACPHealth env c traceID 0 lastErr = State_Monad.return (Some (health_timeout lastErr))"
| "pollACPHealth env c traceID (Suc n) lastErr = do {
     over \<leftarrow> on_world (hv_waited env);
     if over then State_Monad.return (Some (health_timeout lastErr))
     else do {
       r \<leftarrow> on_world (Health (hv_net env) c traceID);
       case r of
         Inr _ \<Rightarrow> State_Monad.return None
       | Inl e \<Rightarrow> pollACPHealth env c traceID n (Some e) } }"

subsection \<open>Progress and failure\<close>

definition send_notice :: "'w HEnv \<Rightarrow> provisionArgs \<Rightarrow> string \<Rightarrow> string list \<Rightarrow> ('w, unit) plane" where
  "send_notice env args what parts =
     (if \<not> hv_roomSender env \<or> pv_roomID args = [] then State_Monad.return () else note_op (Noticed (pv_roomID args) what parts))"

definition setState :: "'w HEnv \<Rightarrow> string \<Rightarrow> string \<Rightarrow> ('w, unit) plane" where
  "setState env agentID st = do {
     _ \<leftarrow> statement env (\<lambda>e now. UpdateAgentProvisioningState e now agentID st);
     State_Monad.return () }"

definition failStep :: "'w HEnv \<Rightarrow> provisionArgs \<Rightarrow> string \<Rightarrow> handler_error \<Rightarrow> ('w, unit) plane" where
  "failStep env args step err = (let agentID = pv_agentID args in do {
     setState env agentID ''error'';
     _ \<leftarrow> statement env (\<lambda>e now. UpdateAgentStatus e now agentID ''error'');
     send_notice env args ''provisioning failed'' [agentID, step, error_text env err, pv_traceID args];
     _ \<leftarrow> write_audit env (pv_traceID args) (pv_operatorMXID args) ''agents.provision'' agentID ''error'' (Some [(''step'', GStr step)]) (error_text env err);
     note_op (Notified ''error'' (pv_operatorMXID args) agentID) })"

text \<open>A step that may fail, and what follows when it does not.\<close>

definition step_then :: "'w HEnv \<Rightarrow> provisionArgs \<Rightarrow> string \<Rightarrow> ('w, handler_error + 'a) plane \<Rightarrow> ('a \<Rightarrow> ('w, unit) plane) \<Rightarrow> ('w, unit) plane" where
  "step_then env args step m rest = do {
     r \<leftarrow> m;
     case r of Inl e \<Rightarrow> failStep env args step e | Inr x \<Rightarrow> rest x }"

subsection \<open>Waiting for the agent\<close>

definition none_is_ok :: "handler_error option \<Rightarrow> handler_error + unit" where
  "none_is_ok r = (case r of Some e \<Rightarrow> Inl e | None \<Rightarrow> Inr ())"

definition await_container :: "'w HEnv \<Rightarrow> provisionArgs \<Rightarrow> ('w, handler_error + unit) plane" where
  "await_container env args = (let agentID = pv_agentID args; h = pv_handle args in
     case hv_runtime env of
       Some rt \<Rightarrow>
         if ah_ContainerID h \<noteq> []
         then do {
           setState env agentID ''creating'';
           send_notice env args ''[1/5] waiting for container'' [agentID];
           r \<leftarrow> pollContainerRunning env rt h (provisionContainerTimeout div provisionPollInterval) [];
           if r = None then do { send_notice env args ''[1/5] container is running'' [agentID]; State_Monad.return (Inr ()) }
           else State_Monad.return (none_is_ok r) }
         else do { send_notice env args ''[1/5] skipping container check'' []; State_Monad.return (Inr ()) }
     | None \<Rightarrow> do { send_notice env args ''[1/5] skipping container check'' []; State_Monad.return (Inr ()) })"

definition await_health :: "'w HEnv \<Rightarrow> provisionArgs \<Rightarrow> Client \<Rightarrow> ('w, handler_error + unit) plane" where
  "await_health env args c = (let agentID = pv_agentID args in do {
     setState env agentID ''configuring'';
     send_notice env args ''[2/5] waiting for health'' [agentID];
     r \<leftarrow> pollACPHealth env c (pv_traceID args) (provisionACPHealthTimeout div provisionPollInterval) None;
     if r = None
     then do {
       send_notice env args ''[2/5] control server responds'' [agentID];
       send_notice env args ''[3/5] rendering template'' [pv_template args, agentID];
       State_Monad.return (Inr ()) }
     else State_Monad.return (none_is_ok r) })"

subsection \<open>The configuration\<close>

definition room_at :: "string list \<Rightarrow> nat \<Rightarrow> string" where
  "room_at rooms n = (if n < length rooms then rooms ! n else [])"

definition provision_vars :: "'w HEnv \<Rightarrow> provisionArgs \<Rightarrow> TemplateVars" where
  "provision_vars env args = (let rooms = hv_adminRooms env; admin = room_at rooms 0 in
     \<lparr>tv_AgentName = pv_agentID args, tv_DisplayName = pv_displayName args, tv_AdminRoom = admin, tv_AgentMXID = [],
      tv_UserRoom = (if length rooms > 1 then room_at rooms 1 else admin), tv_KairoAdminRoom = admin, tv_KumoAdminRoom = admin,
      tv_OperatorMXID = pv_operatorMXID args, tv_PeerAlias = pv_peerAlias args, tv_PeerMXID = pv_peerMXID args,
      tv_PeerRoom = (if pv_peerRoom args \<noteq> [] then pv_peerRoom args else admin),
      tv_PeerProtocolID = pv_peerProtocolID args, tv_PeerProtocolPrefix = pv_peerProtocolPrefix args\<rparr>)"

definition render_template :: "'w HEnv \<Rightarrow> provisionArgs \<Rightarrow> string \<times> handler_error + string" where
  "render_template env args = (case hv_templates env of
       None \<Rightarrow> Inl (''gosuto-template'', Plain (''no template registry configured; cannot render '' @ go_quote (pv_template args)))
     | Some render \<Rightarrow> (case render (pv_template args) (provision_vars env args) of
         Inl e \<Rightarrow> Inl (''gosuto-render'', Because (''render template '' @ go_quote (pv_template args)) (Outside e))
       | Inr yaml \<Rightarrow> Inr yaml))"

text \<open>A failed injection is only logged; what it returns then, no bytes at all, replaces the rendered configuration.\<close>

definition with_mesh :: "'w HEnv \<Rightarrow> provisionArgs \<Rightarrow> string \<Rightarrow> ('w, string) plane" where
  "with_mesh env args renderedYAML = do {
     r \<leftarrow> InjectMeshTopology env renderedYAML (pv_roomID args);
     State_Monad.return (case r of Inl _ \<Rightarrow> [] | Inr yaml \<Rightarrow> yaml) }"

definition provision_version :: "'w HEnv \<Rightarrow> provisionArgs \<Rightarrow> string \<Rightarrow> ('w, handler_error + GosutoVersion) plane" where
  "provision_version env args yaml = (let agentID = pv_agentID args; hash = hv_sha256 env yaml in do {
     l \<leftarrow> ask env (\<lambda>e. GetLatestGosutoVersion e agentID);
     case (case l of Inr latest \<Rightarrow> if gv_Hash latest = hash then Some latest else None | Inl _ \<Rightarrow> None) of
       Some latest \<Rightarrow> State_Monad.return (Inr latest)
     | None \<Rightarrow> do {
         r \<leftarrow> append_version env agentID hash yaml (pv_operatorMXID args);
         State_Monad.return (case r of
             Inl (Inl e) \<Rightarrow> Inl (Because ''next gosuto version'' (InDatabase e))
           | Inl (Inr e) \<Rightarrow> Inl (Because ''store gosuto version'' (InDatabase e))
           | Inr gv \<Rightarrow> Inr gv) } })"

definition push_version :: "'w HEnv \<Rightarrow> provisionArgs \<Rightarrow> GosutoVersion \<Rightarrow> ('w, handler_error + unit) plane" where
  "push_version env args gv = do {
     errs \<leftarrow> pushGosuto env (pv_traceID args) (pv_controlURL args) (pv_acpToken args) gv;
     State_Monad.return (if errs \<noteq> [] then Inl (Plain (hv_text env (InClient errs))) else Inr ()) }"

definition record_applied :: "'w HEnv \<Rightarrow> provisionArgs \<Rightarrow> GosutoVersion \<Rightarrow> string \<Rightarrow> ('w, unit) plane" where
  "record_applied env args gv hash = (let agentID = pv_agentID args in do {
     send_notice env args ''[3/5] gosuto applied'' [itoa (gv_Version gv), take 8 hash, agentID];
     _ \<leftarrow> statement env (\<lambda>e now. UpdateAgentGosutoApplied e now agentID (gv_Version gv));
     _ \<leftarrow> statement env (\<lambda>e now. SetAgentDesiredGosutoHash e now agentID hash);
     send_notice env args ''[4/5] verifying config hash'' [agentID] })"

definition verify_status :: "'w HEnv \<Rightarrow> provisionArgs \<Rightarrow> Client \<Rightarrow> string \<Rightarrow> ('w, handler_error + StatusResponse) plane" where
  "verify_status env args c hash = do {
     r \<leftarrow> on_world (get_request (hv_net env) c (pv_traceID args) ''/status'' (Some (hv_status env)));
     State_Monad.return (case r of
         Inl e \<Rightarrow> Inl (Because ''ACP /status'' (InClient [e]))
       | Inr resp \<Rightarrow>
           (let st = (case resp of Some x \<Rightarrow> x | None \<Rightarrow> \<lparr>sr_GosutoHash = [], sr_MCPs = [], sr_Gateways = []\<rparr>) in
            if sr_GosutoHash st \<noteq> [] \<and> sr_GosutoHash st \<noteq> hash
            then Inl (Plain (''config hash mismatch: agent reports '' @ go_quote (sr_GosutoHash st) @ '', expected '' @ go_quote hash))
            else Inr st)) }"

subsection \<open>Gateways and secrets\<close>

fun add_refs :: "string list \<Rightarrow> (string \<times> string) list \<Rightarrow> string list \<Rightarrow> string list" where
  "add_refs refs config [] = refs"
| "add_refs refs config (k # ks) = (case map_of config k of
       Some ref \<Rightarrow> if ref \<noteq> [] \<and> ref \<notin> set refs then add_refs (refs @ [ref]) config ks else add_refs refs config ks
     | None \<Rightarrow> add_refs refs config ks)"

definition gosutoGatewaySummary :: "'w HEnv \<Rightarrow> string \<Rightarrow> string list \<times> string list" where
  "gosutoGatewaySummary env data =
     (filter (\<lambda>n. n \<noteq> []) (map fst (hv_gateways env data)),
      fold (\<lambda>(_, config) refs. add_refs refs config [''hmacSecretRef'', ''passwordSecretRef'', ''tokenSecretRef'']) (hv_gateways env data) [])"

definition gateway_lines :: "string list \<Rightarrow> string list \<Rightarrow> string list" where
  "gateway_lines expected running = map (\<lambda>n. n @ (if n \<in> set running then '' (running)'' else '' (not yet running)'')) expected"

definition secret_note :: "string list \<Rightarrow> string list" where
  "secret_note refs = (if refs \<noteq> [] then [itoa_nat (length refs), str_join '', '' refs] else [])"

definition provision_secrets :: "'w HEnv \<Rightarrow> provisionArgs \<Rightarrow> string list \<Rightarrow> ('w, unit) plane" where
  "provision_secrets env args refs = (let agentID = pv_agentID args in
     if \<not> hv_distributor env
     then send_notice env args (if refs \<noteq> [] then ''[5/5] no distributor, gateway secrets not pushed'' else ''[5/5] no distributor'') (agentID # secret_note refs)
     else do {
       send_notice env args ''[5/5] pushing secrets'' (agentID # secret_note refs);
       r \<leftarrow> push_secrets env (pv_traceID args) agentID;
       (case r of
          (Some e, _) \<Rightarrow> send_notice env args ''[5/5] secrets push warning'' [hv_text env (InDistributor e)]
        | (None, n) \<Rightarrow>
            if n > 0 then send_notice env args ''[5/5] secrets distributed'' [itoa_nat n, agentID]
            else send_notice env args ''[5/5] no secrets bound'' [agentID]) })"

subsection \<open>The pipeline\<close>

definition ensure_command :: "provisionArgs \<Rightarrow> string \<Rightarrow> Command" where
  "ensure_command args room =
     \<lparr>cm_Name = ''topology'', cm_Subcommand = ''peer-ensure'', cm_Args = [pv_agentID args],
      cm_Flags = [(''alias'', pv_peerAlias args), (''mxid'', pv_peerMXID args), (''room'', room), (''protocol'', pv_peerProtocolID args), (''push'', ''true'')],
      cm_RawText = []\<rparr>"

definition ensure_room :: "'w HEnv \<Rightarrow> provisionArgs \<Rightarrow> ('w, string) plane" where
  "ensure_room env args =
     (if trim_space (pv_peerRoom args) \<noteq> [] then State_Monad.return (trim_space (pv_peerRoom args))
      else do {
        r \<leftarrow> resolvePeerAdminRoom env (pv_peerAlias args);
        State_Monad.return (case r of Inl _ \<Rightarrow> [] | Inr room \<Rightarrow> trim_space room) })"

definition runCanonicalProvisioningEnsure :: "'w HEnv \<Rightarrow> provisionArgs \<Rightarrow> ('w, unit) plane" where
  "runCanonicalProvisioningEnsure env args = (let agentID = pv_agentID args in
     if trim_space (pv_template args) \<noteq> ''kumo-agent'' then State_Monad.return ()
     else if trim_space (pv_peerAlias args) = [] \<or> trim_space (pv_peerMXID args) = [] \<or> trim_space (pv_peerProtocolID args) = []
     then State_Monad.return ()
     else do {
       room \<leftarrow> ensure_room env args;
       if room = [] \<or> \<not> has_prefix room ''!''
       then send_notice env args ''canonical ensure skipped'' [agentID, pv_peerAlias args, agentID, pv_peerAlias args, pv_peerMXID args, pv_peerProtocolID args]
       else do {
         r \<leftarrow> HandleTopologyPeerEnsure env (ensure_command args room) (pv_operatorMXID args);
         (case r of
            Inl e \<Rightarrow> send_notice env args ''canonical ensure failed'' [agentID, error_text env e]
          | Inr _ \<Rightarrow> send_notice env args ''post-provision ensure'' [agentID]) } })"

definition provisioned :: "'w HEnv \<Rightarrow> provisionArgs \<Rightarrow> GosutoVersion \<Rightarrow> string \<Rightarrow> ('w, unit) plane" where
  "provisioned env args gv hash = (let agentID = pv_agentID args in do {
     setState env agentID ''healthy'';
     _ \<leftarrow> statement env (\<lambda>e now. UpdateAgentStatus e now agentID ''running'');
     _ \<leftarrow> write_audit env (pv_traceID args) (pv_operatorMXID args) ''agents.provision'' agentID ''success''
       (Some [(''gosuto_hash'', GStr (take 16 hash)), (''gosuto_version'', GInt (gv_Version gv))]) [];
     note_op (Notified ''agent.created'' (pv_operatorMXID args) agentID);
     runCanonicalProvisioningEnsure env args;
     send_notice env args ''provisioned and healthy'' [agentID, pv_traceID args] })"

definition verified :: "'w HEnv \<Rightarrow> provisionArgs \<Rightarrow> GosutoVersion \<Rightarrow> string \<Rightarrow> StatusResponse \<Rightarrow> ('w, unit) plane" where
  "verified env args gv yaml st = (let agentID = pv_agentID args; hash = hv_sha256 env yaml; summary = gosutoGatewaySummary env yaml in do {
     _ \<leftarrow> statement env (\<lambda>e now. SetAgentActualGosutoHash e now agentID (if sr_GosutoHash st = [] then hash else sr_GosutoHash st));
     send_notice env args ''[4/5] config hash verified'' (agentID # gateway_lines (fst summary) (sr_Gateways st));
     provision_secrets env args (snd summary);
     provisioned env args gv hash })"

definition provision_config :: "'w HEnv \<Rightarrow> provisionArgs \<Rightarrow> Client \<Rightarrow> string \<Rightarrow> ('w, unit) plane" where
  "provision_config env args c yaml = (let hash = hv_sha256 env yaml in
     step_then env args ''gosuto-store'' (provision_version env args yaml) (\<lambda>gv.
     step_then env args ''gosuto-push'' (push_version env args gv) (\<lambda>_. do {
       record_applied env args gv hash;
       step_then env args ''status-verify'' (verify_status env args c hash) (\<lambda>st. verified env args gv yaml st) })))"

definition runProvisioningPipeline :: "'w HEnv \<Rightarrow> provisionArgs \<Rightarrow> ('w, unit) plane" where
  "runProvisioningPipeline env args = (let c = New_client (pv_controlURL args) (Some (pv_acpToken args)) in
     step_then env args ''container-start'' (await_container env args) (\<lambda>_.
     step_then env args ''acp-health'' (await_health env args c) (\<lambda>_.
       case render_template env args of
         Inl (step, e) \<Rightarrow> failStep env args step e
       | Inr rendered \<Rightarrow> do {
           yaml \<leftarrow> with_mesh env args rendered;
           provision_config env args c yaml })))"

subsection \<open>What the pipeline may change\<close>

text \<open>After the last change of the provisioning state only labels of \<open>settled_labels\<close> occur.\<close>

definition settled_labels :: "string \<Rightarrow> label set" where
  "settled_labels i = {World, Gate, Table KAudit, Table (KAgent i), Table (KDesired i), Table (KPrune i), Table (KBinding i)} \<union>
     {Table (KVersion i y) |y. True} \<union> range Op"

definition pipeline_labels :: "string \<Rightarrow> label set" where
  "pipeline_labels i = insert (Table (KProvision i)) (settled_labels i)"

lemma settled_labels_mem [simp]:
  "World \<in> settled_labels i" "Gate \<in> settled_labels i" "Table KAudit \<in> settled_labels i" "Table (KAgent i) \<in> settled_labels i"
  "Table (KDesired i) \<in> settled_labels i" "Table (KPrune i) \<in> settled_labels i" "Table (KBinding i) \<in> settled_labels i"
  "Table (KVersion i y) \<in> settled_labels i" "Op x \<in> settled_labels i"
  by (simp_all add: settled_labels_def)

lemma pipeline_labels_mem [simp]:
  "Table (KProvision i) \<in> pipeline_labels i" "l \<in> settled_labels i \<Longrightarrow> l \<in> pipeline_labels i" "settled_labels i \<subseteq> pipeline_labels i"
  by (auto simp: pipeline_labels_def)

lemma peer_labels_settled: "peer_labels env i \<subseteq> settled_labels i" "insert (Table (KDesired i)) quiet \<union> pushes \<subseteq> settled_labels i"
  by (auto simp: peer_labels_def version_labels_def quiet_def pushes_def)

lemma send_notice_footprint: "(\<And>x. Op x \<in> A) \<Longrightarrow> footprint A (send_notice env args what parts)"
  unfolding send_notice_def by (intro footprint_intros) simp_all

lemma setState_footprint: "footprint (pipeline_labels i) (setState env i st)"
  unfolding setState_def by (intro footprint_intros) simp_all

lemma poll_footprint:
  assumes "World \<in> A"
  shows "footprint A (pollContainerRunning env rt h n lastState)" "footprint A (pollACPHealth env c traceID n lastErr)"
  using assms by (induction n arbitrary: lastState lastErr) (auto intro!: footprint_intros)

lemma ensure_footprint: "footprint (settled_labels (pv_agentID args)) (runCanonicalProvisioningEnsure env args)"
proof -
  have "footprint (settled_labels (pv_agentID args)) (HandleTopologyPeerEnsure env (ensure_command args room) (pv_operatorMXID args))" for room
    by (rule footprint_mono [OF HandleTopologyPeerEnsure_footprint]) (use peer_labels_settled in \<open>auto simp: first_arg_def ensure_command_def GetArg_def\<close>)
  then show ?thesis
    unfolding runCanonicalProvisioningEnsure_def ensure_room_def Let_def
    by (intro footprint_intros resolvePeer_footprint send_notice_footprint) simp_all
qed

lemma secrets_footprint: "footprint (settled_labels (pv_agentID args)) (provision_secrets env args refs)"
  unfolding provision_secrets_def Let_def by (intro footprint_intros send_notice_footprint push_secrets_footprint) simp_all

lemma version_footprint: "footprint (settled_labels (pv_agentID args)) (provision_version env args yaml)"
  unfolding provision_version_def Let_def by (intro footprint_intros append_version_footprint) simp_all

lemma config_steps_footprint:
  "footprint (settled_labels (pv_agentID args)) (push_version env args gv)"
  "footprint (settled_labels (pv_agentID args)) (record_applied env args gv hash)"
  "footprint (settled_labels (pv_agentID args)) (verify_status env args c hash)"
  "footprint (settled_labels (pv_agentID args)) (with_mesh env args rendered)"
  unfolding push_version_def pushGosuto_def record_applied_def verify_status_def with_mesh_def Let_def
  by (intro footprint_intros send_notice_footprint inject_footprint; simp)+

lemma await_footprint:
  "footprint (pipeline_labels (pv_agentID args)) (await_container env args)"
  "footprint (pipeline_labels (pv_agentID args)) (await_health env args c)"
  unfolding await_container_def await_health_def Let_def
  by (intro footprint_intros setState_footprint poll_footprint send_notice_footprint; simp)+

subsection \<open>The pipeline ends\<close>

definition provisioning_of :: "string \<Rightarrow> 'w control \<Rightarrow> string option" where
  "provisioning_of i s = map_option an_ProvisioningState (find_agent i (db_of s))"

lemma settled_steps_keep: "plane_steps (settled_labels i) s s' \<Longrightarrow> provisioning_of i s' = provisioning_of i s"
proof -
  assume steps: "plane_steps (settled_labels i) s s'"
  have "frame k db db' \<Longrightarrow> map_option an_ProvisioningState (find_agent i db) = v \<Longrightarrow> map_option an_ProvisioningState (find_agent i db') = v"
    if "Table k \<in> settled_labels i" for k db db' v
    using that by (auto simp: settled_labels_def same_provisioning_def find_agent_def)
  from footprint_invariant [OF steps, of "\<lambda>db. map_option an_ProvisioningState (find_agent i db) = provisioning_of i s"] this
  show ?thesis by (simp add: provisioning_of_def)
qed

lemma pipeline_steps_exist:
  assumes "plane_steps (pipeline_labels i) s s'" "find_agent i (db_of s) \<noteq> None"
  shows "find_agent i (db_of s') \<noteq> None"
proof (rule footprint_invariant [where P = "\<lambda>db. find_agent i db \<noteq> None", OF assms])
  fix k db db' assume k: "Table k \<in> pipeline_labels i" and f: "frame k db db'" and ex: "find_agent i db \<noteq> None"
  from k f have "map an_ID (db_agents db') = map an_ID (db_agents db)"
    unfolding pipeline_labels_def settled_labels_def by (auto simp: same_agents_but_def)
  then have "agent_ids db' = agent_ids db" unfolding agent_ids_def by (metis set_map)
  with ex show "find_agent i db' \<noteq> None" by (simp add: find_agent_None)
qed

definition fault_free :: "'w HEnv \<Rightarrow> bool" where
  "fault_free env \<longleftrightarrow> (\<forall>w. fst (hv_fault env w) = None)"

definition ends_settled :: "string \<Rightarrow> ('w, 'a) plane \<Rightarrow> bool" where
  "ends_settled i m \<longleftrightarrow> (\<forall>s x s'. find_agent i (db_of s) \<noteq> None \<longrightarrow> State_Monad.run_state m s = (x, s') \<longrightarrow>
     provisioning_of i s' \<in> {Some ''healthy'', Some ''error''})"

lemma ends_bind:
  assumes "footprint (pipeline_labels i) m" "\<And>x. ends_settled i (f x)"
  shows "ends_settled i (State_Monad.bind m f)"
  unfolding ends_settled_def
proof (intro allI impI)
  fix s x s' assume "find_agent i (db_of s) \<noteq> None" and run: "State_Monad.run_state (State_Monad.bind m f) s = (x, s')"
  from run obtain y t where m: "State_Monad.run_state m s = (y, t)" and f: "State_Monad.run_state (f y) t = (x, s')" by (rule run_bindE)
  have "plane_steps (pipeline_labels i) s t" using assms(1) m by (rule state_io_relD)
  then have "find_agent i (db_of t) \<noteq> None" by (rule pipeline_steps_exist) fact
  with assms(2) f show "provisioning_of i s' \<in> {Some ''healthy'', Some ''error''}" unfolding ends_settled_def by blast
qed

lemma ends_setState:
  assumes "fault_free env" "st = ''healthy'' \<or> st = ''error''" "\<And>x. footprint (settled_labels i) (f x)"
  shows "ends_settled i (State_Monad.bind (setState env i st) f)"
  unfolding ends_settled_def
proof (intro allI impI)
  fix s x s' assume a: "find_agent i (db_of s) \<noteq> None" and run: "State_Monad.run_state (State_Monad.bind (setState env i st) f) s = (x, s')"
  from run obtain y t where m: "State_Monad.run_state (setState env i st) s = (y, t)" and f: "State_Monad.run_state (f y) t = (x, s')"
    by (rule run_bindE)
  from m obtain now where db: "snd (UpdateAgentProvisioningState None now i st (db_of s)) = db_of t"
    using assms(1) unfolding setState_def statement_def fault_free_def on_world_def on_db_def
    by (auto split: prod.splits) (metis fst_conv snd_conv)
  from a obtain row where row: "find_agent i (db_of s) = Some row" "an_ID row = i" by (auto dest: find_agent_Some)
  then have "provisioning_of i t = Some st"
    unfolding provisioning_of_def db [symmetric] by (simp add: UpdateAgentProvisioningState_def update_agent_def find_map_agent)
  moreover have "plane_steps (settled_labels i) t s'" using assms(3) f by (rule state_io_relD)
  ultimately show "provisioning_of i s' \<in> {Some ''healthy'', Some ''error''}" using settled_steps_keep assms(2) by fastforce
qed

lemma failStep_ends: "fault_free env \<Longrightarrow> ends_settled (pv_agentID args) (failStep env args step err)"
  unfolding failStep_def Let_def by (intro ends_setState footprint_intros send_notice_footprint) auto

lemma step_then_ends:
  assumes "fault_free env" "footprint (pipeline_labels (pv_agentID args)) m" "\<And>x. ends_settled (pv_agentID args) (rest x)"
  shows "ends_settled (pv_agentID args) (step_then env args step m rest)"
  unfolding step_then_def
proof (rule ends_bind [OF assms(2)])
  show "ends_settled (pv_agentID args) (case r of Inl e \<Rightarrow> failStep env args step e | Inr x \<Rightarrow> rest x)" for r
    using failStep_ends [OF assms(1)] assms(3) by (cases r) auto
qed

lemma settled_footprint: "footprint (settled_labels i) m \<Longrightarrow> footprint (pipeline_labels i) m"
  by (erule footprint_mono) simp

lemma verified_ends: "fault_free env \<Longrightarrow> ends_settled (pv_agentID args) (verified env args gv yaml st)"
  unfolding verified_def provisioned_def Let_def
  by (intro ends_bind ends_setState settled_footprint secrets_footprint footprint_intros send_notice_footprint ensure_footprint) auto

lemma provision_config_ends: "fault_free env \<Longrightarrow> ends_settled (pv_agentID args) (provision_config env args c yaml)"
  unfolding provision_config_def Let_def
  by (intro step_then_ends ends_bind verified_ends settled_footprint version_footprint config_steps_footprint)

lemma pipeline_ends: "fault_free env \<Longrightarrow> ends_settled (pv_agentID args) (runProvisioningPipeline env args)"
proof -
  assume ff: "fault_free env"
  have "ends_settled (pv_agentID args) (case render_template env args of Inl (step, e) \<Rightarrow> failStep env args step e
      | Inr rendered \<Rightarrow> State_Monad.bind (with_mesh env args rendered) (provision_config env args c))" for c
    by (auto split: sum.splits intro!: failStep_ends [OF ff] ends_bind settled_footprint config_steps_footprint provision_config_ends [OF ff])
  then show ?thesis
    unfolding runProvisioningPipeline_def Let_def by (intro step_then_ends await_footprint ff)
qed

lemma failStep_footprint: "footprint (pipeline_labels (pv_agentID args)) (failStep env args step err)"
  unfolding failStep_def Let_def by (intro footprint_intros setState_footprint send_notice_footprint) simp_all

lemma step_then_footprint:
  "footprint (pipeline_labels (pv_agentID args)) m \<Longrightarrow> (\<And>x. footprint (pipeline_labels (pv_agentID args)) (rest x)) \<Longrightarrow>
   footprint (pipeline_labels (pv_agentID args)) (step_then env args step m rest)"
  unfolding step_then_def by (intro footprint_intros failStep_footprint)

lemma provision_config_footprint: "footprint (pipeline_labels (pv_agentID args)) (provision_config env args c yaml)"
  unfolding provision_config_def verified_def provisioned_def Let_def
  by (intro step_then_footprint settled_footprint [OF version_footprint] config_steps_footprint [THEN settled_footprint] footprint_intros
      settled_footprint [OF secrets_footprint] settled_footprint [OF ensure_footprint] setState_footprint send_notice_footprint) simp_all

lemma pipeline_footprint: "footprint (pipeline_labels (pv_agentID args)) (runProvisioningPipeline env args)"
  unfolding runProvisioningPipeline_def Let_def
  by (intro step_then_footprint await_footprint footprint_intros failStep_footprint config_steps_footprint [THEN settled_footprint]
      provision_config_footprint)

text \<open>C16: The pipeline does not leave an agent half way: when the statements on the database succeed and the agent is in the registry, it
  ends, whatever the container, the agent, the templates and the network do, with the agent marked as healthy or as in error.\<close>

theorem provisioning_ends:
  assumes "fault_free env" "find_agent (pv_agentID args) (db_of s) \<noteq> None" "State_Monad.run_state (runProvisioningPipeline env args) s = (x, s')"
  shows "provisioning_of (pv_agentID args) s' \<in> {Some ''healthy'', Some ''error''}"
  using pipeline_ends [OF assms(1)] assms(2, 3) unfolding ends_settled_def by blast

definition sample_provision :: provisionArgs where
  "sample_provision = \<lparr>pv_agentID = ''a'', pv_template = ''kumo-agent'', pv_displayName = ''a'', pv_peerAlias = ''kairo'', pv_peerMXID = ''@k:x'',
     pv_peerRoom = ''!r:x'', pv_peerProtocolID = ''p'', pv_peerProtocolPrefix = ''P'', pv_handle = handle_of ''a'' ''c'', pv_controlURL = ''http://a:8765'',
     pv_acpToken = ''tok'', pv_roomID = ''!o:x'', pv_operatorMXID = ''@o:x'', pv_traceID = ''t''\<rparr>"

definition provision_env :: "unit HEnv" where
  "provision_env = sample_HEnv\<lparr>hv_templates := Some (\<lambda>_ _. Inr ''new''), hv_waited := Pair True\<rparr>"

theorem provisioning_ends_witness:
  "\<exists>s'. State_Monad.run_state (runProvisioningPipeline provision_env sample_provision) (sample_control sample_db) = ((), s') \<and>
     provisioning_of ''a'' s' \<in> {Some ''healthy'', Some ''error''}"
proof -
  let ?run = "State_Monad.run_state (runProvisioningPipeline provision_env sample_provision) (sample_control sample_db)"
  obtain s' where run: "?run = ((), s')" by (cases ?run) auto
  have "fault_free provision_env" by (simp add: fault_free_def provision_env_def sample_HEnv_def)
  moreover have "find_agent (pv_agentID sample_provision) (db_of (sample_control sample_db)) \<noteq> None" by code_simp
  ultimately have "provisioning_of (pv_agentID sample_provision) s' \<in> {Some ''healthy'', Some ''error''}" using run by (rule provisioning_ends)
  then show ?thesis using run by (auto simp: sample_provision_def)
qed

end
