(* ===== verification/Guardrail.thy ===== *)
theory Guardrail
  imports Go_Strings
begin

section \<open>Credentials in the chat\<close>

text \<open>
  \<^verbatim>\<open>internal/ruriko/commands/guardrail.go\<close>: the check that refuses messages with something that looks like a credential.  The regular expressions of the
  file all have one shape: a prefix out of a few, a run of characters of a class with a least and perhaps a greatest length, and for
  the named ones a word boundary on both sides.  \<open>MatchString\<close> decides such an expression.

  The theory shows that a key of each named kind is found wherever it stands as a word of its own.
\<close>

definition alnum_char :: "char \<Rightarrow> bool" where
  "alnum_char c \<longleftrightarrow> c \<in> set ''ABCDEFGHIJKLMNOPQRSTUVWXYZabcdefghijklmnopqrstuvwxyz0123456789''"

definition upper_digit_char :: "char \<Rightarrow> bool" where
  "upper_digit_char c \<longleftrightarrow> c \<in> set ''ABCDEFGHIJKLMNOPQRSTUVWXYZ0123456789''"

definition word_char :: "char \<Rightarrow> bool" where
  "word_char c \<longleftrightarrow> alnum_char c \<or> c = CHR ''_''"

definition dash_char :: "char \<Rightarrow> bool" where
  "dash_char c \<longleftrightarrow> word_char c \<or> c = CHR ''-''"

definition alnum_dash_char :: "char \<Rightarrow> bool" where
  "alnum_dash_char c \<longleftrightarrow> alnum_char c \<or> c = CHR ''-''"

definition base64_char :: "char \<Rightarrow> bool" where
  "base64_char c \<longleftrightarrow> alnum_char c \<or> c = CHR ''+'' \<or> c = CHR ''/''"

definition hex_char :: "char \<Rightarrow> bool" where
  "hex_char c \<longleftrightarrow> c \<in> set ''0123456789abcdef''"

text \<open>\<^verbatim>\<open>\b\<close> between what is before and what is after.\<close>

definition word_boundary :: "string \<Rightarrow> string \<Rightarrow> bool" where
  "word_boundary a b \<longleftrightarrow> (a \<noteq> [] \<and> word_char (last a)) \<noteq> (b \<noteq> [] \<and> word_char (hd b))"

record secret_pattern =
  sp_prefixes :: "string list"
  sp_class :: "char \<Rightarrow> bool"
  sp_least :: nat
  sp_most :: "nat option"
  sp_bounded :: bool

definition run_lengths :: "secret_pattern \<Rightarrow> string \<Rightarrow> nat list" where
  "run_lengths pat body = filter (\<lambda>n. case sp_most pat of None \<Rightarrow> True | Some m \<Rightarrow> n \<le> m)
     [sp_least pat..<Suc (length (takeWhile (sp_class pat) body))]"

definition match_at :: "secret_pattern \<Rightarrow> string \<Rightarrow> string \<Rightarrow> bool" where
  "match_at pat before rest \<longleftrightarrow> (sp_bounded pat \<longrightarrow> word_boundary before rest) \<and>
     list_ex (\<lambda>p. has_prefix rest p \<and>
       list_ex (\<lambda>n. sp_bounded pat \<longrightarrow> word_boundary (p @ take n (drop (length p) rest)) (drop (length p + n) rest))
         (run_lengths pat (drop (length p) rest))) (sp_prefixes pat)"

definition MatchString :: "secret_pattern \<Rightarrow> string \<Rightarrow> bool" where
  "MatchString pat s \<longleftrightarrow> list_ex (\<lambda>i. match_at pat (take i s) (drop i s)) [0..<Suc (length s)]"

definition named_pattern :: "string list \<Rightarrow> (char \<Rightarrow> bool) \<Rightarrow> nat \<Rightarrow> nat option \<Rightarrow> secret_pattern" where
  "named_pattern ps cls least most = \<lparr>sp_prefixes = ps, sp_class = cls, sp_least = least, sp_most = most, sp_bounded = True\<rparr>"

definition namedSecretPatterns :: "secret_pattern list" where
  "namedSecretPatterns =
     [named_pattern [''sk-''] alnum_char 20 None,
      named_pattern [''sk-proj-''] dash_char 20 None,
      named_pattern [''sk-ant-''] dash_char 20 None,
      named_pattern [''AKIA''] upper_digit_char 16 (Some 16),
      named_pattern [''ghp_''] alnum_char 36 None,
      named_pattern [''gho_''] alnum_char 36 None,
      named_pattern [''github_pat_''] word_char 20 None,
      named_pattern [''xoxb-'', ''xoxa-'', ''xoxp-'', ''xoxr-'', ''xoxs-''] alnum_dash_char 10 None,
      named_pattern [''sk_live_'', ''sk_test_'', ''rk_live_'', ''rk_test_'', ''pk_live_'', ''pk_test_''] alnum_char 20 None]"

definition genericSecretPatterns :: "secret_pattern list" where
  "genericSecretPatterns =
     [\<lparr>sp_prefixes = [[]], sp_class = base64_char, sp_least = 48, sp_most = None, sp_bounded = False\<rparr>,
      \<lparr>sp_prefixes = [[]], sp_class = hex_char, sp_least = 48, sp_most = None, sp_bounded = False\<rparr>]"

definition LooksLikeSecret :: "string \<Rightarrow> bool \<Rightarrow> bool" where
  "LooksLikeSecret body isCommand \<longleftrightarrow>
     list_ex (\<lambda>re. MatchString re body) namedSecretPatterns \<or> \<not> isCommand \<and> list_ex (\<lambda>re. MatchString re body) genericSecretPatterns"

subsection \<open>Keys that stand alone are found\<close>

lemma takeWhile_run: "list_all P body \<Longrightarrow> length body \<le> length (takeWhile P (body @ rest))"
  by (simp add: takeWhile_append list_all_iff)

lemma run_lengths_mem:
  "list_all (sp_class pat) body \<Longrightarrow> sp_least pat \<le> length body \<Longrightarrow> (case sp_most pat of None \<Rightarrow> True | Some m \<Rightarrow> length body \<le> m) \<Longrightarrow>
   length body \<in> set (run_lengths pat (body @ rest))"
  using takeWhile_run [of "sp_class pat" body rest] unfolding run_lengths_def set_filter set_upt mem_Collect_eq atLeastLessThan_iff
  by (intro conjI) simp_all

lemma MatchString_split:
  assumes "p \<in> set (sp_prefixes pat)" "list_all (sp_class pat) body" "sp_least pat \<le> length body"
    "case sp_most pat of None \<Rightarrow> True | Some m \<Rightarrow> length body \<le> m"
    "word_boundary before (p @ body @ rest)" "word_boundary (p @ body) rest"
  shows "MatchString pat (before @ p @ body @ rest)"
proof -
  let ?s = "before @ p @ body @ rest"
  have "match_at pat before (p @ body @ rest)"
    unfolding match_at_def list_ex_iff
    using assms(5,6) run_lengths_mem [OF assms(2,3,4)]
    by (intro conjI impI bexI [OF _ assms(1)]) (auto intro!: bexI [of _ "length body"])
  then have "match_at pat (take (length before) ?s) (drop (length before) ?s)" by simp
  moreover have "length before \<in> set [0..<Suc (length ?s)]" by auto
  ultimately show ?thesis unfolding MatchString_def list_ex_iff by blast
qed

text \<open>A key as a word: what surrounds it does not continue it.\<close>

definition stands_alone :: "string \<Rightarrow> string \<Rightarrow> bool" where
  "stands_alone before rest \<longleftrightarrow> (before = [] \<or> \<not> word_char (last before)) \<and> (rest = [] \<or> \<not> word_char (hd rest))"

text \<open>The formats of the named credentials, by their kinds: \<open>credential k key\<close> says that \<open>key\<close> is one of kind \<open>k\<close>.\<close>

datatype credential_kind =
    OpenAIKey | OpenAIProjectKey | AnthropicKey | AWSAccessKey | GitHubToken | GitHubOAuthToken | GitHubFineGrainedToken | SlackToken | StripeKey

definition formed :: "string list \<Rightarrow> (char \<Rightarrow> bool) \<Rightarrow> (nat \<Rightarrow> bool) \<Rightarrow> string \<Rightarrow> bool" where
  "formed ps cls len key \<longleftrightarrow> (\<exists>p \<in> set ps. \<exists>body. key = p @ body \<and> list_all cls body \<and> len (length body))"

fun credential :: "credential_kind \<Rightarrow> string \<Rightarrow> bool" where
  "credential OpenAIKey key = formed [''sk-''] alnum_char (\<lambda>n. 20 \<le> n) key"
| "credential OpenAIProjectKey key = formed [''sk-proj-''] (\<lambda>c. alnum_char c \<or> c \<in> set ''_-'') (\<lambda>n. 20 \<le> n) key"
| "credential AnthropicKey key = formed [''sk-ant-''] (\<lambda>c. alnum_char c \<or> c \<in> set ''_-'') (\<lambda>n. 20 \<le> n) key"
| "credential AWSAccessKey key = formed [''AKIA''] upper_digit_char (\<lambda>n. n = 16) key"
| "credential GitHubToken key = formed [''ghp_''] alnum_char (\<lambda>n. 36 \<le> n) key"
| "credential GitHubOAuthToken key = formed [''gho_''] alnum_char (\<lambda>n. 36 \<le> n) key"
| "credential GitHubFineGrainedToken key = formed [''github_pat_''] (\<lambda>c. alnum_char c \<or> c = CHR ''_'') (\<lambda>n. 20 \<le> n) key"
| "credential SlackToken key = formed [''xoxa-'', ''xoxb-'', ''xoxp-'', ''xoxr-'', ''xoxs-''] (\<lambda>c. alnum_char c \<or> c = CHR ''-'') (\<lambda>n. 10 \<le> n) key"
| "credential StripeKey key = formed [''sk_live_'', ''sk_test_'', ''pk_live_'', ''pk_test_'', ''rk_live_'', ''rk_test_''] alnum_char (\<lambda>n. 20 \<le> n) key"

lemma word_start: "c \<in> set ''sAgxpr'' \<Longrightarrow> word_char c"
  by (auto simp: word_char_def alnum_char_def)

lemma named_found:
  assumes "named_pattern ps cls least most \<in> set namedSecretPatterns"
    and "formed qs c len key" "set qs \<subseteq> set ps" "\<forall>p \<in> set qs. p \<noteq> [] \<and> hd p \<in> set ''sAgxpr''"
    and "\<And>x. c x \<Longrightarrow> cls x" "\<And>n. len n \<Longrightarrow> least \<le> n \<and> (case most of None \<Rightarrow> True | Some m \<Rightarrow> n \<le> m)"
    and "word_char (last key)" "stands_alone before rest"
  shows "LooksLikeSecret (before @ key @ rest) isCommand"
proof -
  let ?pat = "named_pattern ps cls least most"
  from assms(2) obtain p body where key: "p \<in> set qs" "key = p @ body" "list_all c body" "len (length body)" by (auto simp: formed_def)
  have p: "p \<in> set ps" "p \<noteq> []" "word_char (hd p)" using key(1) assms(3,4) word_start by auto
  have all: "list_all cls body" using key(3) assms(5) by (auto simp: list_all_iff)
  have "word_boundary before (p @ body @ rest)" "word_boundary (p @ body) rest"
    using p(2,3) assms(7,8) key(2) by (auto simp: word_boundary_def stands_alone_def)
  then have "MatchString ?pat (before @ p @ body @ rest)"
    using p(1) all assms(6) [OF key(4)] by (intro MatchString_split) (simp_all add: named_pattern_def)
  then show ?thesis using assms(1) key(2) by (auto simp: LooksLikeSecret_def list_ex_iff)
qed

text \<open>A credential of any of the kinds is found where it stands as a word of its own, in commands too.\<close>

lemma credential_found:
  assumes "credential kind key" "word_char (last key)" "stands_alone before rest"
  shows "LooksLikeSecret (before @ key @ rest) isCommand"
proof (cases kind)
  case OpenAIKey
  from assms(1) show ?thesis unfolding OpenAIKey credential.simps
    by (rule named_found [of "[''sk-'']" alnum_char 20 None, OF _ _ _ _ _ _ assms(2,3), rotated]) (auto simp: namedSecretPatterns_def)
next
  case OpenAIProjectKey
  from assms(1) show ?thesis unfolding OpenAIProjectKey credential.simps
    by (rule named_found [of "[''sk-proj-'']" dash_char 20 None, OF _ _ _ _ _ _ assms(2,3), rotated]) (auto simp: namedSecretPatterns_def dash_char_def word_char_def)
next
  case AnthropicKey
  from assms(1) show ?thesis unfolding AnthropicKey credential.simps
    by (rule named_found [of "[''sk-ant-'']" dash_char 20 None, OF _ _ _ _ _ _ assms(2,3), rotated]) (auto simp: namedSecretPatterns_def dash_char_def word_char_def)
next
  case AWSAccessKey
  from assms(1) show ?thesis unfolding AWSAccessKey credential.simps
    by (rule named_found [of "[''AKIA'']" upper_digit_char 16 "Some 16", OF _ _ _ _ _ _ assms(2,3), rotated]) (auto simp: namedSecretPatterns_def)
next
  case GitHubToken
  from assms(1) show ?thesis unfolding GitHubToken credential.simps
    by (rule named_found [of "[''ghp_'']" alnum_char 36 None, OF _ _ _ _ _ _ assms(2,3), rotated]) (auto simp: namedSecretPatterns_def)
next
  case GitHubOAuthToken
  from assms(1) show ?thesis unfolding GitHubOAuthToken credential.simps
    by (rule named_found [of "[''gho_'']" alnum_char 36 None, OF _ _ _ _ _ _ assms(2,3), rotated]) (auto simp: namedSecretPatterns_def)
next
  case GitHubFineGrainedToken
  from assms(1) show ?thesis unfolding GitHubFineGrainedToken credential.simps
    by (rule named_found [of "[''github_pat_'']" word_char 20 None, OF _ _ _ _ _ _ assms(2,3), rotated]) (auto simp: namedSecretPatterns_def word_char_def)
next
  case SlackToken
  from assms(1) show ?thesis unfolding SlackToken credential.simps
    by (rule named_found [of "[''xoxb-'', ''xoxa-'', ''xoxp-'', ''xoxr-'', ''xoxs-'']" alnum_dash_char 10 None, OF _ _ _ _ _ _ assms(2,3), rotated]) (auto simp: namedSecretPatterns_def alnum_dash_char_def)
next
  case StripeKey
  from assms(1) show ?thesis unfolding StripeKey credential.simps
    by (rule named_found [of "[''sk_live_'', ''sk_test_'', ''rk_live_'', ''rk_test_'', ''pk_live_'', ''pk_test_'']" alnum_char 20 None, OF _ _ _ _ _ _ assms(2,3), rotated]) (auto simp: namedSecretPatterns_def)
qed

end
