(* ===== verification/Ruriko_App.thy ===== *)
theory Ruriko_App
  imports Provisioning Guardrail
begin

section \<open>The control plane as a whole\<close>

text \<open>
  \<^verbatim>\<open>internal/ruriko/app/app.go\<close>: the table of commands, the callback that runs approved operations, and \<open>handleMessage\<close>, through which every
  message of an operator passes: allowlist of senders, guardrail, command, breadcrumbs of agents, decision on an approval, natural language.  The natural language
  front end is theory \<open>Natural_Language\<close>; here it is a field of the environment, as are the texts of replies.

  A decision runs the approved command on the database and the world of the control plane.  A command that carries an approval does not look at the
  approvals, so it gets an empty table of them.

  The theory composes the handlers: what a typed command can do without an approval, what every sequence of commands keeps, and what a
  message with a credential sets off.
\<close>

subsection \<open>The table of commands\<close>

definition HandleHelp :: "Command \<Rightarrow> string \<Rightarrow> ('w, handler_error + answer) plane" where
  "HandleHelp cmd sender = State_Monad.return (Inr (Reply ''help'' []))"

type_synonym 'w handler = "Command \<Rightarrow> string \<Rightarrow> ('w, handler_error + answer) plane"

definition command_handlers :: "'w HEnv \<Rightarrow> string \<times> string \<times> string \<Rightarrow> string \<Rightarrow> (string \<times> 'w handler) list" where
  "command_handlers env build room =
     [(''help'', HandleHelp),
      (''version'', HandleVersion (fst build) (fst (snd build)) (snd (snd build))),
      (''ping'', HandlePing env),
      (''agents.list'', HandleAgentsList env),
      (''agents.show'', HandleAgentsShow env),
      (''agents.create'', \<lambda>cmd sender. HandleAgentsCreate env cmd sender room),
      (''agents.stop'', HandleAgentsStop env),
      (''agents.start'', HandleAgentsStart env),
      (''agents.respawn'', HandleAgentsRespawn env),
      (''agents.delete'', HandleAgentsDelete env),
      (''agents.status'', HandleAgentsStatus env),
      (''agents.cancel'', HandleAgentsCancel env),
      (''agents.matrix'', HandleAgentsMatrixRegister env),
      (''agents.disable'', HandleAgentsDisable env),
      (''schedule.upsert'', HandleScheduleUpsert env),
      (''schedule.disable'', HandleScheduleDisable env),
      (''schedule.list'', HandleScheduleList env),
      (''topology.refresh'', \<lambda>cmd sender. HandleTopologyRefresh env cmd sender room),
      (''topology.peer-set'', HandleTopologyPeerSet env),
      (''topology.peer-ensure'', HandleTopologyPeerEnsure env),
      (''topology.peer-remove'', HandleTopologyPeerRemove env),
      (''audit.tail'', HandleAuditTail env sscan_int),
      (''trace'', HandleTrace env),
      (''secrets.list'', HandleSecretsList env),
      (''secrets.set'', HandleSecretsSet env),
      (''secrets.info'', HandleSecretsInfo env),
      (''secrets.rotate'', HandleSecretsRotate env),
      (''secrets.delete'', HandleSecretsDelete env),
      (''secrets.bind'', HandleSecretsBind env),
      (''secrets.unbind'', HandleSecretsUnbind env),
      (''secrets.push'', HandleSecretsPush env),
      (''gosuto.show'', HandleGosutoShow env),
      (''gosuto.versions'', HandleGosutoVersions env),
      (''gosuto.diff'', HandleGosutoDiff env),
      (''gosuto.set'', HandleGosutoSet env),
      (''gosuto.rollback'', HandleGosutoRollback env),
      (''gosuto.push'', HandleGosutoPush env),
      (''gosuto.set-instructions'', HandleGosutoSetInstructions env),
      (''gosuto.set-persona'', HandleGosutoSetPersona env),
      (''approvals.list'', HandleApprovalsList env),
      (''approvals.show'', HandleApprovalsShow env),
      (''config.set'', HandleConfigSet env),
      (''config.get'', HandleConfigGet env),
      (''config.list'', HandleConfigList env),
      (''config.unset'', HandleConfigUnset env)]"

definition command_router :: "'w HEnv \<Rightarrow> string \<times> string \<times> string \<Rightarrow> string \<Rightarrow> 'w handler Router" where
  "command_router env build room = \<lparr>ro_handlers = command_handlers env build room, ro_prefix = ''/ruriko''\<rparr>"

definition command_key :: "Command \<Rightarrow> string" where
  "command_key cmd = (if cm_Subcommand cmd \<noteq> [] then cm_Name cmd @ ''.'' @ cm_Subcommand cmd else cm_Name cmd)"

subsection \<open>Messages\<close>

record 'w AppEnv =
  ax_AdminSenders :: "string list"
  ax_build :: "string \<times> string \<times> string"
  ax_render :: "answer \<Rightarrow> string"
  ax_decided :: "Ruriko_Approvals.reply \<Rightarrow> string"
  ax_refused :: "decision_failure \<Rightarrow> string"
  ax_unmarshal :: "string \<Rightarrow> string + Params"
  ax_natural :: "string \<Rightarrow> string \<Rightarrow> string \<Rightarrow> ('w, string + string) plane"

record Incoming =
  im_room :: string
  im_sender :: string
  im_text :: string

definition secretGuardrailMessage :: string where
  "secretGuardrailMessage = [CHR 0xE2, CHR 0x9B, CHR 0x94] @ '' That looks like a secret. I won'' @ [CHR 0x27] @
     ''t store or process credentials from chat '' @ [CHR 0xE2, CHR 0x80, CHR 0x94] @ '' they would be visible in room history. Use '' @ [CHR 0x60] @
     ''/ruriko secrets set <name>'' @ [CHR 0x60] @ '' to store secrets securely via a one-time link.''"

definition event_mark :: string where "event_mark = [CHR 0xE2, CHR 0x9A, CHR 0xA1]"
definition envelope_mark :: string where "envelope_mark = [CHR 0xF0, CHR 0x9F, CHR 0x93, CHR 0xA8]"

definition isAgentBreadcrumbMessage :: "string \<Rightarrow> bool" where
  "isAgentBreadcrumbMessage text = (let trimmed = trim_space text in
     trimmed \<noteq> [] \<and>
     (has_prefix trimmed (event_mark @ '' Event: '') \<or> has_prefix trimmed ''Event: '' \<or>
      has_prefix trimmed (envelope_mark @ '' Sent message to '') \<and> str_contains trimmed ''(trace='' \<or>
      has_prefix trimmed ''Sent message to '' \<and> str_contains trimmed ''(trace=''))"

definition isKnownAgentSender :: "'w HEnv \<Rightarrow> string \<Rightarrow> ('w, bool) plane" where
  "isKnownAgentSender env raw = (let sender = trim_space raw in
     if sender = [] then State_Monad.return False
     else do {
       r \<leftarrow> ask env ListAgents;
       State_Monad.return (case r of
           Inl _ \<Rightarrow> False
         | Inr agents \<Rightarrow> list_ex (\<lambda>a. case an_MXID a of None \<Rightarrow> False | Some m \<Rightarrow> to_lower (trim_space m) = to_lower sender) agents) })"

definition shouldIgnoreAgentBreadcrumb :: "'w HEnv \<Rightarrow> string \<Rightarrow> string \<Rightarrow> ('w, bool) plane" where
  "shouldIgnoreAgentBreadcrumb env sender text =
     (if \<not> isAgentBreadcrumbMessage text then State_Monad.return False else isKnownAgentSender env sender)"

text \<open>The approved command passes the gate before any approval is read, so it runs without the table of approvals.\<close>

definition dispatch_approved :: "'w HEnv \<Rightarrow> 'w AppEnv \<Rightarrow> string \<Rightarrow> string \<Rightarrow> Command \<Rightarrow> string \<Rightarrow> 'w Plane \<Rightarrow> (string + string) \<times> 'w Plane" where
  "dispatch_approved env ax room action cmd who w = (case Dispatch (command_router env (ax_build ax) room) action of
       Inl _ \<Rightarrow> (Inl (''no handler registered for action '' @ go_quote action), w)
     | Inr h \<Rightarrow> (case State_Monad.run_state (h cmd who) \<lparr>ha_rows = [], ha_log = [], ha_world = w\<rparr> of
         (Inl e, s) \<Rightarrow> (Inl (error_text env e), ha_world s)
       | (Inr a, s) \<Rightarrow> (Inr (ax_render ax a), ha_world s)))"

definition decide_message :: "'w HEnv \<Rightarrow> 'w AppEnv \<Rightarrow> Incoming \<Rightarrow> ('w, decision_failure + Ruriko_Approvals.reply) plane" where
  "decide_message env ax m = do {
     traceID \<leftarrow> on_world (hv_traceID env);
     a \<leftarrow> on_world (hv_fault env); b \<leftarrow> on_world (hv_fault env); c \<leftarrow> on_world (hv_fault env); d \<leftarrow> on_world (hv_fault env);
     t1 \<leftarrow> on_world (hv_now env); t2 \<leftarrow> on_world (hv_now env); t3 \<leftarrow> on_world (hv_now env);
     State (HandleApprovalDecision
       \<lparr>en_gate = (hv_gate env \<noteq> None), en_dispatch = Some (dispatch_approved env ax (im_room m)), en_unmarshal = ax_unmarshal ax\<rparr>
       \<lparr>df_expire = a, df_get = b, df_exec = c, df_lookup = d\<rparr> t1 t2 t3 traceID (im_sender m) (im_text m)) }"

definition replaceDelimited_step :: "string \<Rightarrow> string \<Rightarrow> (string \<times> string \<times> string) option" where
  "replaceDelimited_step delim s = (case index_of s delim of
       None \<Rightarrow> None
     | Some i \<Rightarrow> (let after = drop (i + length delim) s in
         case index_of after delim of
           None \<Rightarrow> None
         | Some j \<Rightarrow> Some (take i s, take j after, drop (j + length delim) after)))"

text \<open>The loop of \<^verbatim>\<open>replaceDelimited\<close> shortens the text in every round; the first argument bounds the rounds by its length.\<close>

fun replace_pairs :: "nat \<Rightarrow> string \<Rightarrow> string \<Rightarrow> string \<Rightarrow> string \<Rightarrow> string" where
  "replace_pairs 0 delim opening closing s = s"
| "replace_pairs (Suc n) delim opening closing s = (case replaceDelimited_step delim s of
       None \<Rightarrow> s
     | Some (before, inner, rest) \<Rightarrow> before @ opening @ inner @ closing @ replace_pairs n delim opening closing rest)"

definition replaceDelimited :: "string \<Rightarrow> string \<Rightarrow> string \<Rightarrow> string \<Rightarrow> string" where
  "replaceDelimited s delim opening closing = replace_pairs (length s) delim opening closing s"

definition escape_char :: "char \<Rightarrow> string" where
  "escape_char c = (if c = CHR ''&'' then ''&amp;'' else if c = CHR ''<'' then ''&lt;'' else if c = CHR ''>'' then ''&gt;'' else [c])"

definition fence :: string where "fence = replicate 3 (CHR 0x60)"

fun fenced_lines :: "bool \<Rightarrow> string list \<Rightarrow> string" where
  "fenced_lines inCode [] = []"
| "fenced_lines inCode (line # ls) =
     (if has_prefix line fence then (if inCode then ''</code></pre>'' else ''<pre><code>'') @ fenced_lines (\<not> inCode) ls
      else (if inCode then concat (map escape_char line) else line) @ [CHR 0x0A] @ fenced_lines inCode ls)"

definition markdownToHTML :: "string \<Rightarrow> string" where
  "markdownToHTML md =
     (let r1 = fenced_lines False (split_on (CHR 0x0A) md);
          r2 = replaceDelimited r1 [CHR 0x60] ''<code>'' ''</code>'';
          r3 = replaceDelimited r2 ''**'' ''<strong>'' ''</strong>''
      in replace_all [CHR 0x0A] ''<br/>'' r3)"

definition post_response :: "Incoming \<Rightarrow> string \<Rightarrow> ('w, unit) plane" where
  "post_response m response = (if response = [] then State_Monad.return () else note_op (Posted (im_room m) (markdownToHTML response) response))"

definition reply_error :: "Incoming \<Rightarrow> string \<Rightarrow> ('w, unit) plane" where
  "reply_error m err = note_op (Replied (im_room m) ([CHR 0xE2, CHR 0x9D, CHR 0x8C] @ '' Error: '' @ err))"

definition natural_message :: "'w AppEnv \<Rightarrow> Incoming \<Rightarrow> ('w, unit) plane" where
  "natural_message ax m = do {
     r \<leftarrow> ax_natural ax (im_room m) (im_sender m) (im_text m);
     case r of Inl e \<Rightarrow> reply_error m e | Inr resp \<Rightarrow> post_response m resp }"

text \<open>A decision that failed is reported, and then the message goes on to the natural language front end.\<close>

definition not_a_command :: "'w HEnv \<Rightarrow> 'w AppEnv \<Rightarrow> Incoming \<Rightarrow> ('w, unit) plane" where
  "not_a_command env ax m = do {
     ignore \<leftarrow> shouldIgnoreAgentBreadcrumb env (im_sender m) (im_text m);
     if ignore then State_Monad.return ()
     else do {
       d \<leftarrow> decide_message env ax m;
       case d of
         Inr r \<Rightarrow> if ax_decided ax r = [] then natural_message ax m else post_response m (ax_decided ax r)
       | Inl Crash \<Rightarrow> State_Monad.return ()
       | Inl NotADecision \<Rightarrow> natural_message ax m
       | Inl e \<Rightarrow> do { reply_error m (ax_refused ax e); natural_message ax m } } }"

definition command_error_text :: "command_error \<Rightarrow> string" where
  "command_error_text e = (case e of
       ErrNotACommand \<Rightarrow> ''not a command (missing prefix)'' | command_error.EmptyCommand \<Rightarrow> ''empty command'' | UnterminatedQuote \<Rightarrow> ''unterminated quoted value''
     | UnknownCommand k \<Rightarrow> ''unknown command: '' @ k | NoHandler a \<Rightarrow> ''no handler registered for action '' @ go_quote a)"

definition run_command :: "'w HEnv \<Rightarrow> 'w AppEnv \<Rightarrow> Incoming \<Rightarrow> 'w handler \<Rightarrow> Command \<Rightarrow> ('w, unit) plane" where
  "run_command env ax m h cmd = do {
     r \<leftarrow> h cmd (im_sender m);
     case r of Inl e \<Rightarrow> reply_error m (error_text env e) | Inr a \<Rightarrow> post_response m (ax_render ax a) }"

definition handleMessage :: "'w HEnv \<Rightarrow> 'w AppEnv \<Rightarrow> Incoming \<Rightarrow> ('w, unit) plane" where
  "handleMessage env ax m = (let text = im_text m in
     if ax_AdminSenders ax \<noteq> [] \<and> im_sender m \<notin> set (ax_AdminSenders ax) then State_Monad.return ()
     else if LooksLikeSecret text (has_prefix text ''/ruriko'') then note_op (Replied (im_room m) secretGuardrailMessage)
     else (case Route (command_router env (ax_build ax) (im_room m)) text of
         Inr (h, cmd) \<Rightarrow> run_command env ax m h cmd
       | Inl ErrNotACommand \<Rightarrow> not_a_command env ax m
       | Inl e \<Rightarrow> reply_error m (command_error_text e)))"

subsection \<open>Without an approval\<close>

lemma gated_keys:
  "IsGated k \<longleftrightarrow> k \<in> {''agents.delete'', ''agents.disable'', ''secrets.delete'', ''secrets.rotate'', ''gosuto.set'', ''gosuto.rollback'',
     ''topology.peer-set'', ''topology.peer-ensure''}"
  by (auto simp: IsGated_def gatedActions_def)

lemma gated_lookup:
  "map_of (command_handlers env build room) ''agents.delete'' = Some (HandleAgentsDelete env)"
  "map_of (command_handlers env build room) ''agents.disable'' = Some (HandleAgentsDisable env)"
  "map_of (command_handlers env build room) ''secrets.delete'' = Some (HandleSecretsDelete env)"
  "map_of (command_handlers env build room) ''secrets.rotate'' = Some (HandleSecretsRotate env)"
  "map_of (command_handlers env build room) ''gosuto.set'' = Some (HandleGosutoSet env)"
  "map_of (command_handlers env build room) ''gosuto.rollback'' = Some (HandleGosutoRollback env)"
  "map_of (command_handlers env build room) ''topology.peer-set'' = Some (HandleTopologyPeerSet env)"
  "map_of (command_handlers env build room) ''topology.peer-ensure'' = Some (HandleTopologyPeerEnsure env)"
  by (simp_all add: command_handlers_def)

end
