(* ===== verification/Bare_Commands.thy ===== *)
theory Bare_Commands
  imports Ruriko_App
begin

section \<open>Commands without arguments\<close>

text \<open>
  What the model may have run without a confirmation are commands without arguments and flags (\<open>bare\<close>), of any action.  Every handler of the table refuses
  such a command with its usage, or it only reads: nothing changes but the audit log and the approvals, and the one thing that happens outside is that the
  tool \<open>schedule.list\<close> of the default agent is called.
\<close>

definition bare :: "Command \<Rightarrow> bool" where
  "bare cmd \<longleftrightarrow> cm_Args cmd = [] \<and> cm_Flags cmd = []"

lemma bare_empty: "bare cmd \<Longrightarrow> GetArg cmd i = None" "bare cmd \<Longrightarrow> GetFlag cmd f d = d" "bare cmd \<Longrightarrow> HasFlag cmd f = False" "bare cmd \<Longrightarrow> first_arg cmd = []"
  "bare cmd \<Longrightarrow> cm_Args cmd = []"
  by (auto simp: bare_def GetArg_def GetFlag_def HasFlag_def first_arg_def)

lemma trim_empty: "trim_space [] = []"
  by code_simp

lemma bare_create: "bare cmd \<Longrightarrow> create_flags_error (read_create_flags cmd) \<noteq> None"
  by (simp add: create_flags_error_def read_create_flags_def bare_empty)

lemma bare_agents:
  assumes "bare cmd"
  shows "footprint quiet (HandleAgentsCreate env cmd sender room)"
    "footprint quiet (HandleAgentsStop env cmd sender)" "footprint quiet (HandleAgentsStart env cmd sender)"
    "footprint quiet (HandleAgentsRespawn env cmd sender)" "footprint quiet (HandleAgentsDelete env cmd sender)"
    "footprint quiet (HandleAgentsCancel env cmd sender)" "footprint quiet (HandleAgentsMatrixRegister env cmd sender)"
    "footprint quiet (HandleAgentsDisable env cmd sender)"
  using assms bare_create [OF assms]
  unfolding HandleAgentsCreate_def HandleAgentsStop_def HandleAgentsStart_def HandleAgentsRespawn_def HandleAgentsDelete_def HandleAgentsCancel_def
    HandleAgentsMatrixRegister_def HandleAgentsDisable_def Let_def
  by (auto simp add: bare_empty trim_empty footprint_intros quiet_def)

lemma bare_registry:
  assumes "bare cmd"
  shows "footprint quiet (HandleScheduleUpsert env cmd sender)" "footprint quiet (HandleScheduleDisable env cmd sender)"
    "footprint quiet (HandleSecretsSet env cmd sender)" "footprint quiet (HandleSecretsRotate env cmd sender)"
    "footprint quiet (HandleSecretsDelete env cmd sender)" "footprint quiet (HandleSecretsBind env cmd sender)"
    "footprint quiet (HandleSecretsUnbind env cmd sender)" "footprint quiet (HandleSecretsPush env cmd sender)"
    "footprint quiet (HandleConfigSet env cmd sender)" "footprint quiet (HandleConfigUnset env cmd sender)"
  using assms
  unfolding HandleScheduleUpsert_def HandleScheduleDisable_def HandleSecretsSet_def HandleSecretsRotate_def HandleSecretsDelete_def
    HandleSecretsBind_def HandleSecretsUnbind_def on_binding_def HandleSecretsPush_def HandleConfigSet_def HandleConfigUnset_def with_config_key_def Let_def
  by (simp_all add: bare_empty trim_empty footprint_intros quiet_def)

lemma bare_configurations:
  assumes "bare cmd"
  shows "footprint quiet (HandleGosutoSet env cmd sender)" "footprint quiet (HandleGosutoRollback env cmd sender)"
    "footprint quiet (HandleGosutoPush env cmd sender)" "footprint quiet (HandleGosutoSetInstructions env cmd sender)"
    "footprint quiet (HandleGosutoSetPersona env cmd sender)" "footprint quiet (HandleTopologyRefresh env cmd sender room)"
    "footprint quiet (HandleTopologyPeerSet env cmd sender)" "footprint quiet (HandleTopologyPeerEnsure env cmd sender)"
    "footprint quiet (HandleTopologyPeerRemove env cmd sender)"
  using assms
  unfolding HandleGosutoSet_def HandleGosutoRollback_def HandleGosutoPush_def HandleGosutoSetInstructions_def HandleGosutoSetPersona_def
    set_section_def HandleTopologyRefresh_def HandleTopologyPeerSet_def HandleTopologyPeerEnsure_def HandleTopologyPeerRemove_def Let_def
  by (simp_all add: bare_empty trim_empty footprint_intros quiet_def)

text \<open>The whole table.\<close>

lemmas bare_footprints = bare_agents bare_registry bare_configurations

lemma HandleHelp_quiet: "footprint quiet (HandleHelp cmd sender)"
  unfolding HandleHelp_def by (intro footprint_intros)

lemmas quiet_footprints = HandleHelp_quiet reports_quiet HandleAgentsStatus_footprint HandleGosutoShow_footprint HandleGosutoVersions_footprint
  HandleGosutoDiff_footprint

lemma quiet_listing: "footprint quiet m \<Longrightarrow> footprint (tool_labels ''schedule.list'') m"
  by (rule footprint_mono) (auto simp: tool_labels_def)

lemma bare_command:
  assumes "bare cmd" "(k, h) \<in> set (command_handlers env build room)"
  shows "footprint (tool_labels ''schedule.list'') (h cmd sender)"
proof -
  have "list_all (\<lambda>(k, h). footprint (tool_labels ''schedule.list'') (h cmd sender)) (command_handlers env build room)"
    unfolding command_handlers_def list.pred_inject(2) prod.case
    by (intro conjI; (rule list.pred_inject(1) | rule quiet_listing, rule quiet_footprints | rule quiet_listing, rule bare_footprints, rule assms(1)
      | rule schedules_footprint(3)))
  with assms(2) show ?thesis by (auto simp: list_all_iff)
qed

text \<open>In terms of states: the agents, the configurations, the secrets, the bindings and the settings stay as they are.\<close>

definition harmless :: "'w HEnv \<Rightarrow> string \<times> Command \<Rightarrow> bool" where
  "harmless env call \<longleftrightarrow> (\<forall>build room h sender s r t.
     map_of (command_handlers env build room) (fst call) = Some h \<longrightarrow> State_Monad.run_state (h (snd call) sender) s = (r, t) \<longrightarrow>
     frame KAudit (db_of s) (db_of t) \<and>
     (\<exists>ops. pl_ops (ha_world t) = pl_ops (ha_world s) @ ops \<and> (\<forall>x \<in> set ops. \<exists>url. x = ToolCalled url ''schedule.list'')))"

lemma bare_harmless:
  assumes "bare (snd call)"
  shows "harmless env call"
  unfolding harmless_def
proof (intro allI impI)
  fix build room h sender s r t
  assume h: "map_of (command_handlers env build room) (fst call) = Some h" and run: "State_Monad.run_state (h (snd call) sender) s = (r, t)"
  have steps: "plane_steps (tool_labels ''schedule.list'') s t"
    using bare_command [OF assms map_of_SomeD [OF h]] run by (rule state_io_relD)
  have "frame KAudit (db_of s) (db_of t)"
  proof (rule footprint_invariant [OF steps, of "frame KAudit (db_of s)"])
    fix k db db' assume "Table k \<in> tool_labels ''schedule.list''" "frame k db db'" "frame KAudit (db_of s) db"
    then show "frame KAudit (db_of s) db'" by (auto simp: tool_labels_def quiet_def keeps_tables_def)
  qed (simp add: keeps_tables_def)
  moreover have "\<exists>ops. pl_ops (ha_world t) = pl_ops (ha_world s) @ ops \<and> (\<forall>x \<in> set ops. Op x \<in> tool_labels ''schedule.list'')"
    using footprint_ops [OF steps] by blast
  then have "\<exists>ops. pl_ops (ha_world t) = pl_ops (ha_world s) @ ops \<and> (\<forall>x \<in> set ops. \<exists>url. x = ToolCalled url ''schedule.list'')"
    by (simp add: tool_labels_def quiet_def)
  ultimately show "frame KAudit (db_of s) (db_of t) \<and>
     (\<exists>ops. pl_ops (ha_world t) = pl_ops (ha_world s) @ ops \<and> (\<forall>x \<in> set ops. \<exists>url. x = ToolCalled url ''schedule.list''))" by blast
qed

end
