(* ===== verification/Chat_Safety.thy ===== *)
theory Chat_Safety
  imports Natural_Language Ruriko_Approvals Bare_Commands
begin

section \<open>Chat and approvals\<close>

text \<open>
  The chat front end joined with the handlers of the commands and with the gate of theory \<open>Ruriko_Approvals\<close>.  What runs without a confirmation changes
  nothing; a gated command of a conversation passes the gate only with a mark that the person who confirmed it was shown.  The application does not put
  the classifier around the model that it builds from the stored key, and without it one answer of the model and one yes are enough.
\<close>

lemma logged_clean: "clean_env env \<Longrightarrow> clean_env (logged env)"
  by (auto simp: clean_env_def logged_def lift_provider_def clean_provider_def split: prod.splits) blast+

lemma create_free: "internal_free (cm_Flags (create_command intent img))"
  by (simp add: create_command_def internal_free_def has_prefix_def)

lemma confirmed_free: "confirmed m st call \<Longrightarrow> sessions_free st \<Longrightarrow> internal_free (cm_Flags (snd call))"
proof -
  assume c: "confirmed m st call" and f: "sessions_free st"
  then obtain s where s: "map_of (nl_sessions st) (session_key m) = Some s" "proposed_call s = Some call" using confirmed_proposed by blast
  then show ?thesis using f
    by (cases "cv_step s") (auto simp: proposed_call_def sessions_free_def session_free_def create_free split: list.splits)
qed

lemma bare_free: "bare_calls new \<Longrightarrow> (a, c) \<in> set new \<Longrightarrow> internal_free (cm_Flags c)"
proof -
  assume "bare_calls new" "(a, c) \<in> set new"
  then have "c = actionKeyToCommand a [] []" by (auto simp: bare_calls_def)
  then show ?thesis using command_free [of "[]"] by (simp add: internal_free_def)
qed

lemma converse_free:
  assumes "converse env ms st = (xs, st')" "sessions_free st" "clean_env env" "x \<in> set xs" "(a, c) \<in> set (ex_calls x)"
  shows "internal_free (cm_Flags c)"
  using assms
proof (induction ms arbitrary: st xs)
  case (Cons m ms)
  obtain r st1 where h: "HandleNaturalLanguage (logged env) m st = (r, st1)" by fastforce
  obtain ys where ys: "converse env ms st1 = (ys, st')" "xs = \<lparr>ex_message = m, ex_reply = r, ex_calls = drop (length (snd (nl_world st))) (snd (nl_world st1))\<rparr> # ys"
    using Cons.prems(1) h by (auto split: prod.splits)
  have f: "sessions_free st1" by (rule message_free [OF h Cons.prems(2) logged_clean [OF Cons.prems(3)]])
  show ?case
  proof (cases "x \<in> set ys")
    case False
    obtain new where new: "snd (nl_world st1) = snd (nl_world st) @ new" "permitted m st new" using log.message_calls [OF h] by blast
    have "(a, c) \<in> set new" using False Cons.prems(4,5) ys(2) new(1) by auto
    then show ?thesis using new(2) bare_free confirmed_free [OF _ Cons.prems(2)] by (fastforce simp: permitted_def)
  qed (use Cons.IH [OF ys(1) f Cons.prems(3)] Cons.prems(5) in blast)
qed simp

subsection \<open>Behind the classifier\<close>

text \<open>When the model is behind the classifier, nothing that is said in the chat, by the operators or by the model, gets a gated command past
  the approval gate.  The application does not build the classifier; the next section is about what it does build.\<close>

theorem chat_waits_for_approval:
  assumes "ne_new env = (\<lambda>key. Classify (raw key) keys)" "ne_static env = None" "nl_sessions st = []" "converse env ms st = (xs, st')"
    "x \<in> set xs" "(action, cmd) \<in> set (ex_calls x)" "IsGated action"
  shows "fst (requestApprovalIfNeeded marshal rnd ins now ttl True action target cmd sender h) \<noteq> Inr None"
proof -
  have "clean_env env" using assms(1,2) by (simp add: clean_env_def Classify_clean)
  moreover have "sessions_free st" using assms(3) by (simp add: sessions_free_def)
  ultimately have "internal_free (cm_Flags cmd)" using converse_free [OF assms(4)] assms(5,6) by blast
  then have "GetFlag cmd ''_approved'' [] = []" using internal_free_flag [of cmd "''_approved''"] by (simp add: has_prefix_def)
  then show ?thesis using assms(7) by (auto simp: requestApprovalIfNeeded_def Let_def split: prod.splits sum.splits)
qed

theorem chat_waits_for_approval_witness:
  "\<exists>cmd. ex_calls (sample_chat (Classify delete_model [''agents.delete'']) ! 1) = [(''agents.delete'', cmd)] \<and>
     fst (requestApprovalIfNeeded (\<lambda>_. ''{}'') (\<lambda>_. Inr [1, 2]) (\<lambda>_. None) 0 0 True ''agents.delete'' ''kairo'' cmd ''@o''
       \<lparr>ha_rows = [], ha_log = [], ha_world = ()\<rparr>) \<noteq> Inr None"
proof -
  let ?p = "Classify delete_model [''agents.delete'']"
  have "map fst (ex_calls (sample_chat ?p ! 1)) = [''agents.delete'']" by code_simp
  then obtain cmd where cmd: "ex_calls (sample_chat ?p ! 1) = [(''agents.delete'', cmd)]" by (auto simp: map_eq_Cons_conv)
  have x: "sample_chat ?p ! 1 \<in> set (sample_chat ?p)" using sample_chat_split [of ?p] by (metis in_set_conv_decomp)
  have "fst (requestApprovalIfNeeded (\<lambda>_. ''{}'') (\<lambda>_. Inr [1, 2]) (\<lambda>_. None) 0 0 True ''agents.delete'' ''kairo'' cmd ''@o''
       \<lparr>ha_rows = [], ha_log = [], ha_world = ()\<rparr>) \<noteq> Inr None"
  proof (rule chat_waits_for_approval [OF _ _ _ sample_converse x])
    show "ne_new (chat_env ?p) = (\<lambda>key. Classify delete_model [''agents.delete''])" by (simp add: chat_env_def)
    show "(''agents.delete'', cmd) \<in> set (ex_calls (sample_chat ?p ! 1))" unfolding cmd by simp
    show "IsGated ''agents.delete''" by code_simp
  qed (simp_all add: chat_env_def chat_start_def)
  with cmd show ?thesis by blast
qed

text \<open>With the model as the application builds it, without the classifier, the model can mark its own proposal as approved: after the operator's yes the
  gated command passes the gate, and no second person is asked.\<close>

theorem model_approves_itself:
  "\<exists>cmd. ex_calls (sample_chat delete_model ! 1) = [(''agents.delete'', cmd)] \<and> IsGated ''agents.delete'' \<and>
     (\<forall>marshal rnd ins now ttl target sender h. fst (requestApprovalIfNeeded marshal rnd ins now ttl True ''agents.delete'' target cmd sender h) = Inr None)"
proof -
  have "map fst (ex_calls (sample_chat delete_model ! 1)) = [''agents.delete'']" by code_simp
  then obtain cmd where cmd: "ex_calls (sample_chat delete_model ! 1) = [(''agents.delete'', cmd)]" by (auto simp: map_eq_Cons_conv)
  have "GetFlag (snd (hd (ex_calls (sample_chat delete_model ! 1)))) ''_approved'' [] = ''true''" by code_simp
  then have "GetFlag cmd ''_approved'' [] = ''true''" unfolding cmd by simp
  then have "\<forall>marshal rnd ins now ttl target sender h. fst (requestApprovalIfNeeded marshal rnd ins now ttl True ''agents.delete'' target cmd sender h) = Inr None"
    by (simp add: requestApprovalIfNeeded_def)
  moreover have "IsGated ''agents.delete''" by code_simp
  ultimately show ?thesis using cmd by blast
qed

subsection \<open>Any model\<close>

text \<open>A call that the message of \<open>x\<close> confirms: it says yes and not no, and an earlier reply to the same person in the same room proposed the call.\<close>

definition agreed :: "exchange list \<Rightarrow> exchange \<Rightarrow> call \<Rightarrow> bool" where
  "agreed past x call \<longleftrightarrow> ex_calls x = [call] \<and> says confirmationPositiveWords (me_text (ex_message x)) \<and>
     \<not> says confirmationNegativeWords (me_text (ex_message x)) \<and>
     (\<exists>y \<in> set past. session_key (ex_message y) = session_key (ex_message x) \<and> proposes y call)"

lemma command_bare: "bare (actionKeyToCommand action [] [])"
proof -
  have "promote_args ms [] [] = ([], [])" for ms by (cases ms) simp_all
  then show ?thesis by (simp add: actionKeyToCommand_def bare_def Let_def split: option.splits)
qed

lemma conversation_calls:
  assumes "nl_sessions st = []" "converse env ms st = (before @ x # after, st')"
  shows "(\<forall>call \<in> set (ex_calls x). bare (snd call)) \<or> (\<exists>call. agreed before x call)"
proof -
  have "confirmed_exchange before x" using converse_confirmed [OF assms(2), of "[]" before x after] assms(1) by (simp add: waiting_ok_def)
  then consider "bare_calls (ex_calls x)" | "\<exists>call. agreed before x call" by (auto simp: confirmed_exchange_def agreed_def)
  then show ?thesis
  proof cases
    case 1
    then have "snd call = actionKeyToCommand (fst call) [] []" if "call \<in> set (ex_calls x)" for call using that by (auto simp: bare_calls_def)
    then show ?thesis using command_bare by metis
  qed simp
qed

text \<open>C7: Over any conversation that begins without open sessions and with any model, the commands that a message makes the control plane run are either harmless,
  whatever handlers run them: agents, configurations, secrets, bindings and settings stay as they are and nothing happens outside but calls of the tool
  \<open>schedule.list\<close>; or there is one command, it was proposed earlier to the same person in the same room, in a reply that contains its full text or the plan
  to create the agent, and the message says yes and not no.\<close>

theorem nl_commands_confirmed:
  assumes "nl_sessions st = []" "converse env ms st = (before @ x # after, st')"
  shows "(\<forall>call \<in> set (ex_calls x). harmless plane call) \<or> (\<exists>call. agreed before x call)"
  using conversation_calls [OF assms] bare_harmless by blast

lemma sample_split: "converse (chat_env p) [say ''remove kairo'' 1, say ''yes'' 2] chat_start =
    ([sample_chat p ! 0] @ sample_chat p ! 1 # [], snd (converse (chat_env p) [say ''remove kairo'' 1, say ''yes'' 2] chat_start))"
  by (rule trans [OF sample_converse]) (rule arg_cong2 [of _ _ _ _ Pair, OF sample_chat_split refl])

definition kairo_db :: Db where
  "kairo_db = empty_db\<lparr>db_agents := [sample_agent_row ''kairo'']\<rparr>"

theorem nl_commands_confirmed_witness:
  "\<exists>cmd. agreed [sample_chat delete_model ! 0] (sample_chat delete_model ! 1) (''agents.delete'', cmd) \<and> \<not> harmless sample_HEnv (''agents.delete'', cmd)"
proof -
  have "map fst (ex_calls (sample_chat delete_model ! 1)) = [''agents.delete'']" by code_simp
  then obtain cmd where cmd: "ex_calls (sample_chat delete_model ! 1) = [(''agents.delete'', cmd)]" by (auto simp: map_eq_Cons_conv)
  let ?run = "\<lambda>cmd. State_Monad.run_state (HandleAgentsDelete sample_HEnv cmd ''@o'') (sample_control kairo_db)"
  have "db_agents (db_of (snd (?run (snd (hd (ex_calls (sample_chat delete_model ! 1))))))) = []" by code_simp
  then have "\<not> frame KAudit (db_of (sample_control kairo_db)) (db_of (snd (?run cmd)))"
    unfolding cmd by (simp add: kairo_db_def sample_control_def db_of_def)
  moreover have "map_of (command_handlers sample_HEnv ([], [], []) ''!r'') ''agents.delete'' = Some (HandleAgentsDelete sample_HEnv)" by (simp add: gated_lookup)
  moreover obtain r t where "?run cmd = (r, t)" by fastforce
  ultimately have harm: "\<not> harmless sample_HEnv (''agents.delete'', cmd)" unfolding harmless_def by (metis fst_conv snd_conv)
  then have "\<exists>call. agreed [sample_chat delete_model ! 0] (sample_chat delete_model ! 1) call"
    using nl_commands_confirmed [OF _ sample_split [of delete_model], of sample_HEnv] unfolding cmd by (auto simp: chat_start_def)
  with harm show ?thesis unfolding agreed_def cmd by auto
qed

text \<open>What a reply shows of a command shows each of its flags.\<close>

lemma raw_text_flag:
  assumes "(k, v) \<in> set flags"
  shows "str_contains (buildNLRawText action args flags) ('' --'' @ k @ '' '' @ v)"
proof -
  have "(k, v) \<in> set (sort_key fst flags)" using assms by simp
  then obtain us vs where "sort_key fst flags = us @ (k, v) # vs" by (meson split_list)
  then have "buildNLRawText action args flags = (''/ruriko '' @ replace_all ''.'' '' '' action @ concat (map (\<lambda>a. '' '' @ a) args) @
      concat (map (\<lambda>(k, v). '' --'' @ k @ '' '' @ v) us)) @ ('' --'' @ k @ '' '' @ v) @ concat (map (\<lambda>(k, v). '' --'' @ k @ '' '' @ v) vs)"
    by (simp add: buildNLRawText_def)
  then show ?thesis unfolding str_contains_iff by blast
qed

lemma str_contains_trans: "str_contains s t \<Longrightarrow> str_contains t u \<Longrightarrow> str_contains s u"
  unfolding str_contains_iff by (metis append.assoc)

lemma gate_flag:
  "fst (requestApprovalIfNeeded marshal rnd ins now ttl True action target cmd sender h) = Inr None \<Longrightarrow> IsGated action \<Longrightarrow>
   GetFlag cmd ''_approved'' [] = ''true''"
  by (auto simp: requestApprovalIfNeeded_def Let_def split: prod.splits sum.splits if_splits)

text \<open>C6: Over any conversation that begins without open sessions, with the model as the application builds it, a gated command passes the approval gate only
  if the message confirms it and an earlier reply to the same person in the same room showed the command, with the mark \<open>--_approved true\<close> in its text:
  the gate does not ask a second operator then, and nobody who confirms such a command was not shown it.\<close>

theorem chat_gate_passed_visibly:
  assumes "nl_sessions st = []" "converse env ms st = (before @ x # after, st')" "(action, cmd) \<in> set (ex_calls x)" "IsGated action"
    "fst (requestApprovalIfNeeded marshal rnd ins now ttl True action target cmd sender h) = Inr None"
  shows "ex_calls x = [(action, cmd)] \<and> says confirmationPositiveWords (me_text (ex_message x)) \<and>
    \<not> says confirmationNegativeWords (me_text (ex_message x)) \<and>
    (\<exists>y \<in> set before. session_key (ex_message y) = session_key (ex_message x) \<and>
      (\<exists>shown. ex_reply y = Inr shown \<and> str_contains shown (buildNLRawText action (cm_Args cmd) (cm_Flags cmd)) \<and> str_contains shown '' --_approved true''))"
proof -
  have flag: "map_of (cm_Flags cmd) ''_approved'' = Some ''true''"
    using gate_flag [OF assms(5,4)] by (auto simp: GetFlag_def split: option.splits)
  have "\<not> bare cmd" using flag by (auto simp: bare_def)
  then obtain call where a: "agreed before x call" using conversation_calls [OF assms(1,2)] assms(3) by fastforce
  then have call: "call = (action, cmd)" using assms(3) by (simp add: agreed_def)
  from a obtain y where y: "y \<in> set before" "session_key (ex_message y) = session_key (ex_message x)" "proposes y (action, cmd)"
    unfolding agreed_def call by blast
  have "cmd \<noteq> create_command intent img" for intent img
    using internal_free_flag [OF create_free, of "''_approved''" intent img] flag by (auto simp: has_prefix_def)
  then obtain shown where shown: "ex_reply y = Inr shown" "str_contains shown (buildNLRawText action (cm_Args cmd) (cm_Flags cmd))"
    using y(3) by (auto simp: proposes_def shows_step_def)
  have "str_contains (buildNLRawText action (cm_Args cmd) (cm_Flags cmd)) '' --_approved true''"
    using raw_text_flag [OF map_of_SomeD [OF flag], of action "cm_Args cmd"] by simp
  with shown y a call show ?thesis unfolding agreed_def by (blast intro: str_contains_trans)
qed

theorem chat_gate_passed_visibly_witness:
  "\<exists>cmd shown. ex_calls (sample_chat delete_model ! 1) = [(''agents.delete'', cmd)] \<and> ex_reply (sample_chat delete_model ! 0) = Inr shown \<and>
     str_contains shown '' --_approved true''"
proof -
  have "map fst (ex_calls (sample_chat delete_model ! 1)) = [''agents.delete'']" by code_simp
  then obtain cmd where cmd: "ex_calls (sample_chat delete_model ! 1) = [(''agents.delete'', cmd)]" by (auto simp: map_eq_Cons_conv)
  have "GetFlag (snd (hd (ex_calls (sample_chat delete_model ! 1)))) ''_approved'' [] = ''true''" by code_simp
  then have "fst (requestApprovalIfNeeded (\<lambda>_. ''{}'') (\<lambda>_. Inr [1, 2]) (\<lambda>_. None) 0 0 True ''agents.delete'' ''kairo'' cmd ''@o''
      \<lparr>ha_rows = [], ha_log = [], ha_world = ()\<rparr>) = Inr None" unfolding cmd by (simp add: requestApprovalIfNeeded_def)
  note passed = this
  have gated: "IsGated ''agents.delete''" by code_simp
  have called: "(''agents.delete'', cmd) \<in> set (ex_calls (sample_chat delete_model ! 1))" unfolding cmd by simp
  have start: "nl_sessions chat_start = []" by (simp add: chat_start_def)
  from chat_gate_passed_visibly [OF start sample_split called gated passed] obtain y shown where
    "y \<in> set [sample_chat delete_model ! 0]" "ex_reply y = Inr shown" "str_contains shown '' --_approved true''" by blast
  then have "ex_reply (sample_chat delete_model ! 0) = Inr shown" "str_contains shown '' --_approved true''" by simp_all
  with cmd show ?thesis by blast
qed

end
