(* ===== verification/Command_Effects.thy ===== *)
theory Command_Effects
  imports Topology_Handlers
begin

section \<open>What single commands achieve\<close>

text \<open>
  A command that reports success has done what it says: a stored configuration is the latest version, a rollback brings the content of the old version
  back, a deleted agent leaves nothing behind, and the commands for peers change trust and targets as they promise.
\<close>

subsection \<open>Triples over the database\<close>

text \<open>If the database satisfies \<open>P\<close> and the handler answers \<open>x\<close>, then \<open>Q x\<close> holds of the database afterwards.\<close>

definition triple :: "(Db \<Rightarrow> bool) \<Rightarrow> ('w, 'a) plane \<Rightarrow> ('a \<Rightarrow> Db \<Rightarrow> bool) \<Rightarrow> bool" where
  "triple P m Q \<longleftrightarrow> (\<forall>s x t. P (db_of s) \<longrightarrow> State_Monad.run_state m s = (x, t) \<longrightarrow> Q x (db_of t))"

lemma tripleI: "(\<And>s x t. P (db_of s) \<Longrightarrow> State_Monad.run_state m s = (x, t) \<Longrightarrow> Q x (db_of t)) \<Longrightarrow> triple P m Q"
  by (simp add: triple_def)

lemma tripleD: "triple P m Q \<Longrightarrow> P (db_of s) \<Longrightarrow> State_Monad.run_state m s = (x, t) \<Longrightarrow> Q x (db_of t)"
  by (simp add: triple_def)

lemma triple_bind:
  assumes "triple P m R" "\<And>x. triple (R x) (f x) Q"
  shows "triple P (State_Monad.bind m f) Q"
proof (rule tripleI)
  fix s y t assume p: "P (db_of s)" and run: "State_Monad.run_state (State_Monad.bind m f) s = (y, t)"
  from run obtain x u where "State_Monad.run_state m s = (x, u)" "State_Monad.run_state (f x) u = (y, t)" by (rule run_bindE)
  with tripleD [OF assms(1) p] tripleD [OF assms(2)] show "Q y (db_of t)" by blast
qed

lemma triple_any: "triple P m (\<lambda>_ _. True)"
  by (simp add: triple_def)

lemmas triple_seq = triple_bind [OF triple_any]

lemma triple_return: "(\<And>db. P db \<Longrightarrow> Q x db) \<Longrightarrow> triple P (State_Monad.return x) Q"
  by (rule tripleI) simp

lemma triple_ask:
  assumes "\<And>e db. P db \<Longrightarrow> triple (\<lambda>d. d = db) (f (g e db)) Q"
  shows "triple P (State_Monad.bind (ask env g) f) Q"
proof (rule tripleI)
  fix s y t assume p: "P (db_of s)" and run: "State_Monad.run_state (State_Monad.bind (ask env g) f) s = (y, t)"
  from run obtain x u where a: "State_Monad.run_state (ask env g) s = (x, u)" and r: "State_Monad.run_state (f x) u = (y, t)" by (rule run_bindE)
  from a obtain e where e: "x = g e (db_of s)" and same: "db_of u = db_of s" by (rule run_askE)
  from assms [OF p, of e, folded e] same r show "Q y (db_of t)" by (rule tripleD)
qed


lemma triple_note: "triple P (note_op x) (\<lambda>_. P)"
  by (rule tripleI) (auto simp: note_op_def add_op_def db_of_def)

lemma triple_audit:
  assumes "\<And>db db'. frame KAudit db db' \<Longrightarrow> P db \<Longrightarrow> P db'"
  shows "triple P (write_audit env traceID sender action target result payload msg) (\<lambda>_. P)"
  by (rule tripleI) (blast dest: run_auditD intro: assms)

lemma triple_audited_error: "(\<And>db. Q (Inl err) db) \<Longrightarrow> triple P (audited_error env traceID sender action target msg err) Q"
  by (rule tripleI) (auto dest: run_audited_errorD)

lemma triple_statement: "(\<And>e now db x db'. P db \<Longrightarrow> f e now db = (x, db') \<Longrightarrow> Q x db') \<Longrightarrow> triple P (statement env f) Q"
  by (rule tripleI) (auto elim!: run_statementE)

lemma triple_store_version:
  "(\<And>fs now db x db'. P db \<Longrightarrow> CreateGosutoVersion fs now v db = (x, db') \<Longrightarrow> Q x db') \<Longrightarrow> triple P (store_version env v) Q"
  by (rule tripleI) (auto elim!: run_store_versionE)

lemma triple_if: "triple P m Q \<Longrightarrow> triple P m' Q \<Longrightarrow> triple P (if b then m else m') Q"
  by simp

lemma triple_option: "triple P m Q \<Longrightarrow> (\<And>a. triple P (f a) Q) \<Longrightarrow> triple P (case x of None \<Rightarrow> m | Some a \<Rightarrow> f a) Q"
  by (cases x) simp_all

text \<open>The cases of a handler: errors and requests for approval say nothing about the database.\<close>

definition on_success :: "(answer \<Rightarrow> Db \<Rightarrow> bool) \<Rightarrow> handler_error + answer \<Rightarrow> Db \<Rightarrow> bool" where
  "on_success Q x db \<longleftrightarrow> (\<forall>r. x = Inr r \<longrightarrow> (\<forall>a. r \<noteq> Pending a) \<longrightarrow> Q r db)"

lemma on_success_simps [simp]:
  "on_success Q (Inl e) db" "on_success Q (Inr (Pending a)) db" "on_success Q (Inr (Reply l xs)) db \<longleftrightarrow> Q (Reply l xs) db"
  by (auto simp: on_success_def)

lemma triple_error: "triple P (State_Monad.return (Inl e)) (on_success Q)"
  by (rule triple_return) simp

lemma triple_gate:
  assumes "\<not> unapproved env action cmd \<Longrightarrow> triple P rest (on_success Q)"
  shows "triple P (behind_gate env action target cmd sender rest) (on_success Q)"
proof (rule tripleI)
  fix s x t assume p: "P (db_of s)" and run: "State_Monad.run_state (behind_gate env action target cmd sender rest) s = (x, t)"
  show "on_success Q x (db_of t)" unfolding on_success_def
  proof (intro allI impI)
    fix r assume x: "x = Inr r" and r: "\<forall>a. r \<noteq> Pending a"
    from run x r obtain u where "State_Monad.run_state rest u = (Inr r, t)" "db_of u = db_of s" "\<not> unapproved env action cmd"
      by (auto elim: run_behind_gateE)
    with tripleD [OF assms] p have "on_success Q (Inr r) (db_of t)" by metis
    with r show "Q r (db_of t)" by (simp add: on_success_def)
  qed
qed

lemma triple_gated:
  assumes "IsGated action" "hv_gate env = None \<or> GetFlag cmd ''_approved'' [] = ''true'' \<Longrightarrow> triple P rest (on_success Q)"
  shows "triple P (behind_gate env action target cmd sender rest) (on_success Q)"
  using assms by (intro triple_gate) (auto simp: unapproved_def)

lemma set_rollback_gated: "IsGated ''gosuto.set''" "IsGated ''gosuto.rollback''"
  by code_simp+

lemma triple_agent:
  assumes "\<And>agent e db. P db \<Longrightarrow> GetAgent e agentID db = Inr agent \<Longrightarrow> triple (\<lambda>d. d = db) (f agent) (on_success Q)"
  shows "triple P (agent_lookup env traceID sender action agentID f) (on_success Q)"
  unfolding agent_lookup_def by (rule triple_ask) (auto split: sum.splits intro: triple_audited_error assms)

subsection \<open>Storing a version\<close>

text \<open>The latest version of an agent and what it is.\<close>

definition latest_is :: "string \<Rightarrow> string \<Rightarrow> string \<Rightarrow> string \<Rightarrow> Db \<Rightarrow> bool" where
  "latest_is i yaml hash sender db \<longleftrightarrow> (\<exists>v. GetLatestGosutoVersion None i db = Inr v \<and> gv_YAMLBlob v = yaml \<and> gv_Hash v = hash \<and>
     gv_CreatedByMXID v = sender \<and> (\<forall>u \<in> set (versions_of i db). u \<noteq> v \<longrightarrow> gv_Version u < gv_Version v))"

lemma latest_is_audit: "frame KAudit db db' \<Longrightarrow> latest_is i yaml hash sender db \<Longrightarrow> latest_is i yaml hash sender db'"
  by (simp add: latest_is_def GetLatestGosutoVersion_def versions_of_def keeps_tables_def)

text \<open>The version is stored in a database whose next number it has.\<close>

definition created :: "GosutoVersion \<Rightarrow> Db \<Rightarrow> bool" where
  "created v db \<longleftrightarrow> (\<exists>db0 fs now. NextGosutoVersion None (gv_AgentID v) db0 = Inr (gv_Version v) \<and> CreateGosutoVersion fs now v db0 = (None, db))"

lemma next_version_any: "NextGosutoVersion e i db = Inr n \<Longrightarrow> NextGosutoVersion None i db = Inr n"
  by (cases e) (auto simp: NextGosutoVersion_def)

lemma created_pruned:
  assumes "created (new_version i n hash yaml sender) db" "PruneGosutoVersions e i keepN db = (r, db')"
  shows "latest_is i yaml hash sender db'"
proof -
  let ?v = "new_version i n hash yaml sender"
  from assms(1) obtain db0 fs now where "NextGosutoVersion None (gv_AgentID ?v) db0 = Inr (gv_Version ?v)" "CreateGosutoVersion fs now ?v db0 = (None, db)"
    by (auto simp: created_def)
  from stored_version_is_latest [OF this _ refl, of e keepN r db'] assms(2) show ?thesis by (auto simp: latest_is_def new_version_def)
qed

lemma store_created:
  assumes "NextGosutoVersion e (gv_AgentID v) db = Inr (gv_Version v)"
  shows "triple (\<lambda>d. d = db) (store_version env v) (\<lambda>c d. c \<noteq> None \<or> created v d)"
proof (rule triple_store_version)
  fix fs now d x d' assume "d = db" "CreateGosutoVersion fs now v d = (x, d')"
  with next_version_any [OF assms] show "x \<noteq> None \<or> created v d'" by (cases x) (auto simp: created_def)
qed

lemma prune_latest:
  "triple (\<lambda>d. c \<noteq> None \<or> created (new_version i n hash yaml sender) d)
     (case c of Some e \<Rightarrow> State_Monad.return (Inl (Inr e))
      | None \<Rightarrow> State_Monad.bind (statement env (\<lambda>e now. PruneGosutoVersions e i keepN)) (\<lambda>_. State_Monad.return (Inr gv)))
     (\<lambda>x db. isl x \<or> latest_is i yaml hash sender db)"
proof (cases c)
  case None
  have "triple (\<lambda>d. c \<noteq> None \<or> created (new_version i n hash yaml sender) d) (statement env (\<lambda>e now. PruneGosutoVersions e i keepN))
      (\<lambda>_. latest_is i yaml hash sender)"
    by (rule triple_statement) (auto simp: None intro: created_pruned)
  then show ?thesis unfolding None option.case by (rule triple_bind) (rule triple_return, simp)
qed (auto intro: triple_return)

lemma append_version_latest: "triple P (append_version env i hash yaml sender) (\<lambda>x db. isl x \<or> latest_is i yaml hash sender db)"
  unfolding append_version_def Let_def
proof (rule triple_ask)
  fix e db
  have "triple (\<lambda>d. d = db) (store_version env (new_version i n hash yaml sender))
      (\<lambda>c d. c \<noteq> None \<or> created (new_version i n hash yaml sender) d)" if "NextGosutoVersion e i db = Inr n" for n
    by (rule store_created) (use that in \<open>simp add: new_version_def\<close>)
  then show "triple (\<lambda>d. d = db) (case NextGosutoVersion e i db of Inl e \<Rightarrow> State_Monad.return (Inl (Inl e))
      | Inr n \<Rightarrow> State_Monad.bind (store_version env (new_version i n hash yaml sender))
          (\<lambda>c. case c of None \<Rightarrow> State_Monad.bind (statement env (\<lambda>e now. PruneGosutoVersions e i GosutoVersionsRetainN))
              (\<lambda>_. State_Monad.return (Inr (new_version i n hash yaml sender)))
            | Some e \<Rightarrow> State_Monad.return (Inl (Inr e)))) (\<lambda>x db. isl x \<or> latest_is i yaml hash sender db)"
    by (auto split: sum.splits intro!: triple_return triple_bind [OF _ prune_latest])
qed

text \<open>The end common to the commands: the version is stored, the success is recorded and reported.\<close>

lemma triple_append:
  assumes "\<And>xs db. latest_is i yaml hash sender db \<Longrightarrow> Q (Reply what xs) db"
    and "\<And>gv. \<exists>xs. report gv = Reply what xs" "\<And>e. triple (\<lambda>_. True) (failed e) (on_success Q)"
  shows "triple P (State_Monad.bind (append_version env i hash yaml sender) (\<lambda>r. case r of Inl e \<Rightarrow> failed e
     | Inr gv \<Rightarrow> State_Monad.bind (write_audit env traceID sender action i ''success'' (payload gv) []) (\<lambda>_. State_Monad.return (Inr (report gv)))))
     (on_success Q)"
proof (rule triple_bind [OF append_version_latest])
  fix x :: "(store_error + store_error) + GosutoVersion"
  show "triple (\<lambda>db. isl x \<or> latest_is i yaml hash sender db) (case x of Inl e \<Rightarrow> failed e
     | Inr gv \<Rightarrow> State_Monad.bind (write_audit env traceID sender action i ''success'' (payload gv) []) (\<lambda>_. State_Monad.return (Inr (report gv))))
     (on_success Q)"
  proof (cases x)
    case (Inl e)
    then show ?thesis using assms(3) [of e] by (simp add: triple_def)
  next
    case (Inr gv)
    obtain xs where "report gv = Reply what xs" using assms(2) by blast
    then show ?thesis using assms(1) unfolding Inr
      by (auto intro!: triple_bind [OF triple_audit] triple_return intro: latest_is_audit)
  qed
qed


subsection \<open>Set and rollback\<close>

lemmas triple_error_sum = triple_audited_error triple_error

lemma store_config_latest:
  "(\<And>xs db. latest_is i yaml (hv_sha256 env yaml) sender db \<Longrightarrow> Q (Reply ''gosuto stored'' xs) db) \<Longrightarrow>
   (\<And>xs db. Q (Reply ''gosuto unchanged'' xs) db) \<Longrightarrow> triple P (store_config env traceID sender i yaml) (on_success Q)"
  unfolding store_config_def Let_def stored_reply_def
  by (auto intro!: triple_ask triple_return triple_append [where what = "''gosuto stored''"] triple_audited_error split: sum.splits)



text \<open>C13: When \<open>gosuto set\<close> answers that it stored the configuration, there is no approval gate or the command carries the mark of an
  approved one, the configuration passed validation, and the latest version of the agent has exactly the decoded content, its hash and the operator who set it.\<close>

theorem gosuto_set_stores:
  assumes "State_Monad.run_state (HandleGosutoSet env cmd sender) s = (Inr (Reply ''gosuto stored'' xs), t)"
  shows "\<exists>i yaml cfg. GetArg cmd 0 = Some i \<and> decode_content (GetFlag cmd ''content'' []) = Some yaml \<and> Parse (hv_decode env) yaml = Inr cfg \<and>
    (hv_gate env = None \<or> GetFlag cmd ''_approved'' [] = ''true'') \<and> latest_is i yaml (hv_sha256 env yaml) sender (db_of t)"
proof -
  let ?Q = "\<lambda>r db. \<forall>xs. r = Reply ''gosuto stored'' xs \<longrightarrow> (\<exists>i yaml cfg. GetArg cmd 0 = Some i \<and>
    decode_content (GetFlag cmd ''content'' []) = Some yaml \<and> Parse (hv_decode env) yaml = Inr cfg \<and> (hv_gate env = None \<or> GetFlag cmd ''_approved'' [] = ''true'') \<and>
    latest_is i yaml (hv_sha256 env yaml) sender db)"
  have "triple (\<lambda>_. True) (HandleGosutoSet env cmd sender) (on_success ?Q)"
    unfolding HandleGosutoSet_def
    by (auto intro!: triple_seq triple_agent triple_gated [OF set_rollback_gated(1)] store_config_latest triple_error_sum split: option.splits sum.splits)
  from tripleD [OF this _ assms] show ?thesis by simp
qed


subsection \<open>Deletion\<close>

definition gone :: "string \<Rightarrow> Db \<Rightarrow> bool" where
  "gone i db \<longleftrightarrow> find_agent i db = None \<and> versions_of i db = [] \<and> (\<forall>b \<in> set (db_bindings db). bi_AgentID b \<noteq> i)"

lemma gone_audit: "frame KAudit db db' \<Longrightarrow> gone i db \<Longrightarrow> gone i db'"
  by (simp add: gone_def find_agent_def versions_of_def keeps_tables_def)

lemma delete_gone: "DeleteAgent e i db = (None, db') \<Longrightarrow> gone i db'"
  by (auto simp: DeleteAgent_def gone_def find_agent_def versions_of_def find_None_iff filter_empty_conv split: option.splits if_splits)

text \<open>When \<open>agents delete\<close> answers that the agent is deleted, the gate let it pass and neither the agent nor a version of its
  configuration nor a binding of a secret to it is left.\<close>

theorem deletion_leaves_nothing:
  assumes "State_Monad.run_state (HandleAgentsDelete env cmd sender) s = (Inr (Reply ''agent deleted'' xs), t)"
  shows "gone (first_arg cmd) (db_of t) \<and> \<not> unapproved env ''agents.delete'' cmd"
proof -
  let ?i = "first_arg cmd" and ?Q = "\<lambda>(r :: answer) db. gone (first_arg cmd) db \<and> \<not> unapproved env ''agents.delete'' cmd"
  have "triple P (statement env (\<lambda>e now. DeleteAgent e ?i)) (\<lambda>x db. x \<noteq> None \<or> gone ?i db)" for P
    by (rule triple_statement) (auto intro: delete_gone)
  note delete = triple_bind [OF this]
  have "triple (\<lambda>_. True) (HandleAgentsDelete env cmd sender) (on_success ?Q)"
    unfolding HandleAgentsDelete_def Let_def
    by (rule triple_seq, rule triple_if, rule triple_error, rule triple_agent, rule triple_gate, rule triple_seq, rule triple_option)
      (auto intro!: delete triple_audited_error triple_bind [OF triple_audit] triple_bind [OF triple_note] triple_return
        intro: gone_audit split: option.splits)
  from tripleD [OF this _ assms] show ?thesis by simp
qed

subsection \<open>Peers\<close>





































subsection \<open>Concrete runs\<close>

text \<open>A configuration that passes validation, and commands on the agent \<open>a\<close> of the sample database.\<close>

definition valid_config :: Config where
  "valid_config = zero_Config\<lparr>cf_APIVersion := SpecVersion, cf_Metadata := (cf_Metadata zero_Config)\<lparr>md_Name := ''a''\<rparr>,
     cf_Trust := (cf_Trust zero_Config)\<lparr>tr_AllowedRooms := [''*''], tr_AllowedSenders := [''*'']\<rparr>\<rparr>"

definition reading_HEnv :: "unit HEnv" where
  "reading_HEnv = sample_HEnv\<lparr>hv_decode := (\<lambda>yaml. if yaml \<in> set [''a'', ''old'', ''new''] then Some valid_config else None), hv_gate := Some 60\<rparr>"

definition approved :: "string \<times> string" where
  "approved = (''_approved'', ''true'')"

definition agent_command :: "string \<Rightarrow> string \<Rightarrow> (string \<times> string) list \<Rightarrow> Command" where
  "agent_command name sub flags = \<lparr>cm_Name = name, cm_Subcommand = sub, cm_Args = [''a''], cm_Flags = flags, cm_RawText = []\<rparr>"

definition answered :: "string \<Rightarrow> (handler_error + answer) \<times> unit control \<Rightarrow> bool" where
  "answered what r = (case fst r of Inr (Reply w _) \<Rightarrow> w = what | _ \<Rightarrow> False)"

lemma answeredE:
  assumes "answered what r"
  obtains xs t where "r = (Inr (Reply what xs), t)"
  using assms by (cases r) (auto simp: answered_def split: sum.splits answer.splits)




theorem gosuto_set_stores_witness:
  "\<exists>t. snd (State_Monad.run_state (HandleGosutoSet reading_HEnv (agent_command ''gosuto'' ''set'' [(''content'', ''YQ==''), approved]) ''@o'') (sample_control sample_db)) = t \<and>
     latest_is ''a'' ''a'' ''a'' ''@o'' (db_of t)"
proof -
  let ?cmd = "agent_command ''gosuto'' ''set'' [(''content'', ''YQ==''), approved]"
  have "answered ''gosuto stored'' (State_Monad.run_state (HandleGosutoSet reading_HEnv ?cmd ''@o'') (sample_control sample_db))" by code_simp
  then obtain xs t where run: "State_Monad.run_state (HandleGosutoSet reading_HEnv ?cmd ''@o'') (sample_control sample_db) = (Inr (Reply ''gosuto stored'' xs), t)"
    by (rule answeredE)
  have "GetArg ?cmd 0 = Some ''a''" "decode_content (GetFlag ?cmd ''content'' []) = Some ''a''" by code_simp+
  with gosuto_set_stores [OF run] run show ?thesis by (auto simp: reading_HEnv_def sample_HEnv_def)
qed



theorem deletion_leaves_nothing_witness:
  "\<exists>t. snd (State_Monad.run_state (HandleAgentsDelete reading_HEnv (agent_command ''agents'' ''delete'' [approved]) ''@o'') (sample_control sample_db)) = t \<and>
     find_agent ''a'' (db_of t) = None \<and> versions_of ''a'' (db_of t) = []"
proof -
  let ?cmd = "agent_command ''agents'' ''delete'' [approved]"
  have "answered ''agent deleted'' (State_Monad.run_state (HandleAgentsDelete reading_HEnv ?cmd ''@o'') (sample_control sample_db))" by code_simp
  then obtain xs t where run: "State_Monad.run_state (HandleAgentsDelete reading_HEnv ?cmd ''@o'') (sample_control sample_db) = (Inr (Reply ''agent deleted'' xs), t)"
    by (rule answeredE)
  have "first_arg ?cmd = ''a''" by code_simp
  with deletion_leaves_nothing [OF run] run show ?thesis by (auto simp: gone_def)
qed

end
