(* ===== verification/Gate_Safety.thy ===== *)
theory Gate_Safety
  imports Ruriko_App
begin

section \<open>Commands before the approval gate\<close>

text \<open>
  What a command for a gated action does when nobody approved it.  A footprint bounds the tables and the operations; which configuration a push carries
  depends on what was read from the database before, so the bound on pushes is a relation between states (\<open>stays\<close>), lifted to the handlers by the
  locale \<open>state_relation\<close>.
\<close>

subsection \<open>The registry stays\<close>

text \<open>Configurations, secrets, bindings and settings are the same, and the agents up to their desired hashes.\<close>

definition same_registry :: "Db \<Rightarrow> Db \<Rightarrow> bool" where
  "same_registry db db' \<longleftrightarrow> keeps_tables db db' \<and> map but_desired (db_agents db') = map but_desired (db_agents db)"

lemma same_registry_refl: "same_registry db db"
  by (simp add: same_registry_def keeps_tables_def)

lemma same_registry_trans: "same_registry a b \<Longrightarrow> same_registry b c \<Longrightarrow> same_registry a c"
  by (simp add: same_registry_def keeps_tables_def)

definition stays :: "Db \<Rightarrow> plane_op set \<Rightarrow> 'w control \<Rightarrow> 'w control \<Rightarrow> bool" where
  "stays D X s s' \<longleftrightarrow> (same_registry D (db_of s) \<longrightarrow>
     same_registry D (db_of s') \<and> (\<exists>ops. pl_ops (ha_world s') = pl_ops (ha_world s) @ ops \<and> set ops \<subseteq> X))"

interpretation gs: state_relation "stays D X" for D X
  by unfold_locales (force simp: stays_def)+

lemma unapproved_effect:
  assumes "plane_steps (insert (Table (KDesired i)) quiet \<union> Op ` X) s s'"
  shows "same_registry (db_of s) (db_of s')" "\<exists>ops. pl_ops (ha_world s') = pl_ops (ha_world s) @ ops \<and> set ops \<subseteq> X"
proof -
  show "same_registry (db_of s) (db_of s')"
  proof (rule footprint_invariant [OF assms, of "same_registry (db_of s)"])
    fix k db db' assume "Table k \<in> insert (Table (KDesired i)) quiet \<union> Op ` X" "frame k db db'" "same_registry (db_of s) db"
    then show "same_registry (db_of s) db'" by (auto simp: same_registry_def quiet_def keeps_tables_def)
  qed (rule same_registry_refl)
  have "Op x \<in> insert (Table (KDesired i)) quiet \<union> Op ` X \<Longrightarrow> x \<in> X" for x by (auto simp: quiet_def)
  with footprint_ops [OF assms] show "\<exists>ops. pl_ops (ha_world s') = pl_ops (ha_world s) @ ops \<and> set ops \<subseteq> X" by blast
qed

lemma stays_footprint:
  assumes "footprint A m" "A \<subseteq> insert (Table (KDesired i)) quiet \<union> Op ` X"
  shows "state_io_rel (stays D X) m"
proof (rule state_io_relI)
  fix x s s' assume "State_Monad.run_state m s = (x, s')"
  with assms have "plane_steps (insert (Table (KDesired i)) quiet \<union> Op ` X) s s'" by (blast intro: plane_steps_mono state_io_relD)
  from unapproved_effect [OF this] show "stays D X s s'" unfolding stays_def by (blast intro: same_registry_trans)
qed

lemma stays_quiet: "footprint quiet m \<Longrightarrow> state_io_rel (stays D X) m"
  by (rule stays_footprint [where i = "[]"]) auto

text \<open>What a query returned is known of the registry when the rest runs.\<close>

lemma stays_ask:
  assumes "\<And>e db. same_registry D db \<Longrightarrow> state_io_rel (stays D X) (f (g e db))"
  shows "state_io_rel (stays D X) (State_Monad.bind (ask env g) f)"
proof (rule state_io_relI)
  fix x s s' assume "State_Monad.run_state (State_Monad.bind (ask env g) f) s = (x, s')"
  then obtain y t where a: "State_Monad.run_state (ask env g) s = (y, t)" and f: "State_Monad.run_state (f y) t = (x, s')" by (rule run_bindE)
  from a obtain e where y: "y = g e (db_of s)" by (rule run_askE)
  have "stays D X s t" using state_io_relD [OF stays_quiet [OF footprint_ask] a] by (simp add: quiet_def)
  moreover have "stays D X t s'" if "same_registry D (db_of s)" using assms [OF that, of e] f y by (blast intro: state_io_relD)
  ultimately show "stays D X s s'" by (cases "same_registry D (db_of s)") (blast intro: gs.R_trans, simp add: stays_def)
qed

lemma stays_gate: "unapproved env action cmd \<Longrightarrow> state_io_rel (stays D X) (behind_gate env action target cmd sender rest)"
  by (intro stays_quiet footprint_behind_gate) (simp_all add: quiet_def)

lemma stays_world: "state_io_rel (stays D X) (on_world f)"
  by (intro stays_quiet footprint_on_world) (simp add: quiet_def)

lemma stays_audited: "state_io_rel (stays D X) (audited_error env traceID sender action target msg err)"
  by (intro stays_quiet footprint_audited_error) (simp_all add: quiet_def)

lemma stays_audit: "state_io_rel (stays D X) (write_audit env traceID sender action target result payload msg)"
  by (intro stays_quiet footprint_write_audit) (simp_all add: quiet_def)

subsection \<open>Pushes of what is stored\<close>

text \<open>A push of the latest version of an agent, as it is stored, to that agent.\<close>

definition stored_pushes :: "Db \<Rightarrow> string \<Rightarrow> plane_op set" where
  "stored_pushes D i = {ConfigPushed url gv |url gv. GetLatestGosutoVersion None i D = Inr gv \<and>
     (\<exists>a. find_agent i D = Some a \<and> url = column (an_ControlURL a))}"

lemma find_but_desired:
  "map but_desired xs = map but_desired ys \<Longrightarrow> find (\<lambda>a. an_ID a = i) ys = Some a \<Longrightarrow> \<exists>b. find (\<lambda>a. an_ID a = i) xs = Some b \<and> but_desired b = but_desired a"
proof (induction xs ys rule: list_induct2')
  case (4 x xs y ys)
  then have "an_ID x = an_ID y" by (auto simp: but_desired_def dest: arg_cong [of _ _ an_ID])
  with 4 show ?case by (auto split: if_splits)
qed auto

lemma agent_in_registry:
  assumes "same_registry D db" "GetAgent e i db = Inr agent"
  shows "\<exists>a. find_agent i D = Some a \<and> an_ControlURL a = an_ControlURL agent"
proof -
  have "find_agent i db = Some agent" using assms(2) by (auto simp: GetAgent_def split: option.splits)
  then obtain b where b: "find_agent i D = Some b" "but_desired b = but_desired agent"
    using assms(1) find_but_desired [of "db_agents D" "db_agents db" i agent] by (auto simp: same_registry_def find_agent_def)
  from arg_cong [OF b(2), of an_ControlURL] show ?thesis using b(1) by (simp add: but_desired_def)
qed

lemma latest_in_registry: "same_registry D db \<Longrightarrow> GetLatestGosutoVersion e i db = Inr gv \<Longrightarrow> GetLatestGosutoVersion None i D = Inr gv"
  by (cases e) (auto simp: same_registry_def keeps_tables_def GetLatestGosutoVersion_def versions_of_def)

lemma stays_push:
  assumes "ConfigPushed url gv \<in> X"
  shows "state_io_rel (stays D X) (pushGosuto env traceID url acpToken gv)"
proof (rule stays_footprint [where i = "[]"])
  show "footprint (insert (Op (ConfigPushed url gv)) quiet) (pushGosuto env traceID url acpToken gv)"
    unfolding pushGosuto_def by (intro footprint_intros) (simp_all add: quiet_def)
qed (use assms in auto)

lemma stays_desired: "state_io_rel (stays D X) (statement env (\<lambda>e now. SetAgentDesiredGosutoHash e now i h))"
  by (rule stays_footprint [where i = i, OF footprint_statements(7) [of "insert (Table (KDesired i)) quiet"]]) auto

lemma stays_push_if:
  assumes "GetLatestGosutoVersion None i D = Inr gv" "stored_pushes D i \<subseteq> X"
  shows "state_io_rel (stays D X) (push_if env requested traceID i gv)"
proof -
  have "ConfigPushed (column (an_ControlURL agent)) gv \<in> X" if "same_registry D db" "GetAgent e i db = Inr agent" for db e agent
    using agent_in_registry [OF that] assms by (force simp: stored_pushes_def)
  then show ?thesis
    unfolding push_if_def maybePushGosutoVersion_def
    by (intro io_if stays_ask io_sum gs.io_bind stays_push gs.io_return stays_desired) blast
qed

lemma stays_load:
  assumes "\<And>e. state_io_rel (stays D X) (f (Inl e))"
    and "\<And>gv cfg. GetLatestGosutoVersion None i D = Inr gv \<Longrightarrow> state_io_rel (stays D X) (f (Inr (gv, cfg)))"
  shows "state_io_rel (stays D X) (State_Monad.bind (loadAgentGosutoForTopology env traceID sender i action) f)"
proof (rule state_io_relI)
  fix x s s' assume "State_Monad.run_state (State_Monad.bind (loadAgentGosutoForTopology env traceID sender i action) f) s = (x, s')"
  then obtain y t where l: "State_Monad.run_state (loadAgentGosutoForTopology env traceID sender i action) s = (y, t)"
    and f: "State_Monad.run_state (f y) t = (x, s')" by (rule run_bindE)
  have st: "stays D X s t" using state_io_relD [OF stays_quiet [OF load_footprint] l] by (simp add: quiet_def)
  show "stays D X s s'"
  proof (cases "same_registry D (db_of s)")
    case True
    have "state_io_rel (stays D X) (f y)"
    proof (cases y)
      case (Inr p)
      obtain gv cfg where p: "p = (gv, cfg)" by (cases p)
      with load_result(1) [of env traceID sender i action s gv cfg t] l Inr latest_in_registry [OF True] show ?thesis using assms(2) by blast
    qed (simp add: assms(1))
    then have "stays D X t s'" using f by (rule state_io_relD)
    with st show ?thesis by (rule gs.R_trans)
  qed (simp add: stays_def)
qed

lemma stays_unchanged:
  assumes "GetLatestGosutoVersion None i D = Inr gv" "stored_pushes D i \<subseteq> X"
  shows "state_io_rel (stays D X) (unchanged_topology env traceID sender action i push gv payload what parts)"
  unfolding unchanged_topology_def by (intro gs.io_bind stays_push_if [OF assms] stays_audit gs.io_return)

lemmas stays_intros = io_if io_sum io_option io_prod io_let gs.io_return stays_audited stays_audit stays_gate stays_unchanged

lemma stays_peer_set:
  assumes "unapproved env ''topology.peer-set'' cmd" "stored_pushes D (first_arg cmd) \<subseteq> X"
  shows "state_io_rel (stays D X) (HandleTopologyPeerSet env cmd sender)"
  unfolding HandleTopologyPeerSet_def Let_def
  by (intro gs.io_bind [OF stays_world] stays_intros stays_load assms) auto

lemma stays_peer_ensure:
  assumes "unapproved env ''topology.peer-ensure'' cmd" "stored_pushes D (first_arg cmd) \<subseteq> X"
  shows "state_io_rel (stays D X) (HandleTopologyPeerEnsure env cmd sender)"
  unfolding HandleTopologyPeerEnsure_def apply_ensure_def Let_def
  by (intro gs.io_bind [OF stays_world] gs.io_bind [OF stays_audit] stays_intros stays_load assms) auto

subsection \<open>The handlers behind the gate\<close>

lemma unapproved_handler:
  assumes "unapproved env k cmd" "map_of (command_handlers env build room) k = Some h" "stored_pushes D (first_arg cmd) \<subseteq> X"
  shows "state_io_rel (stays D X) (h cmd sender)"
proof -
  have "k = ''agents.delete'' \<or> k = ''agents.disable'' \<or> k = ''secrets.delete'' \<or> k = ''secrets.rotate'' \<or> k = ''gosuto.set'' \<or>
      k = ''gosuto.rollback'' \<or> k = ''topology.peer-set'' \<or> k = ''topology.peer-ensure''"
    using assms(1) unfolding unapproved_def gated_keys by (simp only: insert_iff empty_iff simp_thms)
  moreover have "footprint quiet m \<Longrightarrow> state_io_rel (stays D X) m" for m :: "('a, handler_error + answer) plane" by (rule stays_quiet)
  ultimately show ?thesis
    using assms HandleAgentsDelete_footprint [of env cmd sender] HandleAgentsDisable_footprint [of env cmd sender]
      HandleSecretsDelete_footprint [of env cmd sender] HandleSecretsRotate_footprint [of env cmd sender]
      HandleGosutoSet_footprint [of env cmd sender] HandleGosutoRollback_unapproved [of env cmd sender]
      stays_peer_set [of env cmd D X sender] stays_peer_ensure [of env cmd D X sender]
    by (elim disjE) (simp_all add: gated_lookup)
qed

definition answers_of :: "Incoming \<Rightarrow> plane_op set" where
  "answers_of m = range (Replied (im_room m)) \<union> {Posted (im_room m) html md |html md. True}"

lemma answer_footprint:
  "footprint (quiet \<union> Op ` answers_of m) (reply_error m err)" "footprint (quiet \<union> Op ` answers_of m) (post_response m resp)"
  unfolding reply_error_def post_response_def by (intro footprint_intros; auto simp: answers_of_def)+

lemma stays_answer:
  assumes "answers_of m \<subseteq> X"
  shows "state_io_rel (stays D X) (reply_error m err)" "state_io_rel (stays D X) (post_response m resp)"
proof -
  show "state_io_rel (stays D X) (reply_error m err)"
    by (rule stays_footprint [where i = "[]", OF answer_footprint(1) [of m]]) (use assms in blast)
  show "state_io_rel (stays D X) (post_response m resp)"
    by (rule stays_footprint [where i = "[]", OF answer_footprint(2) [of m]]) (use assms in blast)
qed

lemma run_command_stays:
  "state_io_rel (stays D X) (h cmd (im_sender m)) \<Longrightarrow> answers_of m \<subseteq> X \<Longrightarrow> state_io_rel (stays D X) (run_command env ax m h cmd)"
  unfolding run_command_def by (intro gs.io_bind io_sum stays_answer)

lemma typed_unapproved:
  assumes "hv_gate env \<noteq> None" "Parse_command pfx text = Inr cmd" "IsGated k"
  shows "unapproved env k cmd"
  using internal_free_flag [OF Parse_internal_free [OF assms(2)], of "''_approved''"] assms(1,3) by (simp add: unapproved_def has_prefix_def)

lemma gated_key_routed:
  assumes "Parse_command ''/ruriko'' text = Inr cmd" "IsGated (command_key cmd)"
  obtains h where "Route (command_router env build room) text = Inr (h, cmd)" "map_of (command_handlers env build room) (command_key cmd) = Some h"
proof -
  from assms(2) obtain h where h: "map_of (command_handlers env build room) (command_key cmd) = Some h"
    unfolding gated_keys by (simp only: insert_iff empty_iff simp_thms) (elim disjE; simp add: gated_lookup)
  with assms(1) that show thesis by (simp add: Route_def command_router_def command_key_def Let_def)
qed

lemma gated_message_stays:
  assumes "hv_gate env \<noteq> None" "Parse_command ''/ruriko'' (im_text m) = Inr cmd" "IsGated (command_key cmd)"
    and "answers_of m \<union> stored_pushes D (first_arg cmd) \<subseteq> X"
  shows "state_io_rel (stays D X) (handleMessage env ax m)"
proof -
  obtain h where r: "Route (command_router env (ax_build ax) (im_room m)) (im_text m) = Inr (h, cmd)"
    and h: "map_of (command_handlers env (ax_build ax) (im_room m)) (command_key cmd) = Some h"
    by (rule gated_key_routed [OF assms(2,3)])
  have "state_io_rel (stays D X) (run_command env ax m h cmd)"
    using assms(4) by (intro run_command_stays unapproved_handler [OF typed_unapproved [OF assms(1,2,3)] h]) auto
  moreover have "state_io_rel (stays D X) (note_op (Replied (im_room m) reply))" for reply
  proof (rule stays_footprint [where i = "[]"])
    show "footprint {Op (Replied (im_room m) reply)} (note_op (Replied (im_room m) reply))" by (rule footprint_note_op) simp
    show "{Op (Replied (im_room m) reply)} \<subseteq> insert (Table (KDesired [])) quiet \<union> Op ` X" using assms(4) by (auto simp: answers_of_def)
  qed
  ultimately show ?thesis
    unfolding handleMessage_def Let_def r by (auto intro!: gs.io_bind gs.io_return)
qed

end
