(* ===== verification/Acp_Concurrency.thy ===== *)
theory Acp_Concurrency
  imports Acp_Safety
begin

section \<open>The idempotency cache under concurrent requests\<close>

text \<open>
  The HTTP server runs a handler per request, all at the same time; the cache of \<^verbatim>\<open>control/server.go\<close> is locked for a lookup and for an entry, not between them.
  Here a request is served in three steps: the lookup in the cache, the work of the handler, and the entry of the answer.  \<open>serve_in_steps\<close> shows
  that the three steps, one after the other, are \<open>serve_acp\<close>; their interleavings with those of other requests are what can happen.  A
  request that comes when an answer under its key has been stored is not carried out; two that overlap both are.
\<close>

subsection \<open>Requests in three steps\<close>

definition cached_paths :: "string list" where
  "cached_paths = [''/config/apply'', ''/secrets/apply'', ''/secrets/token'', ''/process/restart'', ''/tasks/cancel'', ''/tools/call'']"

text \<open>The requests that get as far as the lookup.\<close>

definition consults_cache :: "'w Handlers \<Rightarrow> AcpRequest \<Rightarrow> bool" where
  "consults_cache h r \<longleftrightarrow> ar_Path r \<in> set cached_paths \<and> ar_Method r = ''POST'' \<and> (hd_Token h = [] \<or> bearer_error h r = None) \<and>
     (ar_Path r = ''/secrets/apply'' \<longrightarrow> hd_DirectSecretPushEnabled h)"

definition lookup :: "'w Handlers \<Rightarrow> AcpRequest \<Rightarrow> 'w AcpServer \<Rightarrow> AcpResponse option" where
  "lookup h r s = (if consults_cache h r then replay r s else None)"

text \<open>The handler after a lookup that found nothing: it does not read the cache again, and what it wants to store is its answer.\<close>

definition work :: "'w Wire \<Rightarrow> 'w Handlers \<Rightarrow> AcpRequest \<Rightarrow> 'w AcpServer \<Rightarrow> AcpResponse \<times> bool \<times> 'w AcpServer" where
  "work wi h r s = (case serve_acp wi h r (s\<lparr>as_cache := []\<rparr>) of (resp, t) \<Rightarrow> (resp, as_cache t \<noteq> [], t\<lparr>as_cache := as_cache s\<rparr>))"

definition enter :: "AcpRequest \<Rightarrow> AcpResponse \<Rightarrow> bool \<Rightarrow> 'w AcpServer \<Rightarrow> 'w AcpServer" where
  "enter r resp keep s = (if keep then remember r (rp_Status resp) (rp_Body resp) s else s)"

definition in_steps :: "'w Wire \<Rightarrow> 'w Handlers \<Rightarrow> AcpRequest \<Rightarrow> 'w AcpServer \<Rightarrow> AcpResponse \<times> 'w AcpServer" where
  "in_steps wi h r s = (case lookup h r s of
       Some resp \<Rightarrow> (resp, s)
     | None \<Rightarrow> (case work wi h r s of (resp, keep, t) \<Rightarrow> (resp, enter r resp keep t)))"

named_theorems acp_handlers
lemmas [acp_handlers] = handleConfigApply_def handleSecretsApply_def handleSecretsToken_def handleRestart_def handleCancel_def handleToolCall_def

definition splits :: "AcpRequest \<Rightarrow> 'w AcpServer \<Rightarrow> AcpResponse \<times> 'w AcpServer \<Rightarrow> AcpResponse \<times> 'w AcpServer \<Rightarrow> bool" where
  "splits r s out bare \<longleftrightarrow> fst out = fst bare \<and>
     snd out = enter r (fst bare) (as_cache (snd bare) \<noteq> []) ((snd bare)\<lparr>as_cache := as_cache s\<rparr>)"

lemma splits_simps [simp]:
  "splits r s (resp, s) (resp, s\<lparr>as_cache := []\<rparr>)"
  "splits r s (resp, s\<lparr>as_world := w\<rparr>) (resp, s\<lparr>as_cache := [], as_world := w\<rparr>)"
  "splits r s (resp, s\<lparr>as_limiter := l\<rparr>) (resp, s\<lparr>as_cache := [], as_limiter := l\<rparr>)"
  "splits r s (\<lparr>rp_Status = c, rp_Body = b\<rparr>, remember r c b s) (\<lparr>rp_Status = c, rp_Body = b\<rparr>, remember r c b (s\<lparr>as_cache := []\<rparr>))"
  "splits r s (\<lparr>rp_Status = c, rp_Body = b\<rparr>, remember r c b (s\<lparr>as_world := w\<rparr>))
     (\<lparr>rp_Status = c, rp_Body = b\<rparr>, remember r c b (s\<lparr>as_cache := [], as_world := w\<rparr>))"
  by (auto simp: splits_def enter_def remember_def cache_set_def)

lemma replay_bare [simp]: "replay r (s\<lparr>as_cache := []\<rparr>) = None"
  by (simp add: replay_def cache_get_def)

lemma handlers_split:
  "ar_Method r = ''POST'' \<longrightarrow> replay r s = None \<Longrightarrow> splits r s (handleConfigApply wi h r s) (handleConfigApply wi h r (s\<lparr>as_cache := []\<rparr>))"
  "ar_Method r = ''POST'' \<longrightarrow> hd_DirectSecretPushEnabled h \<longrightarrow> replay r s = None \<Longrightarrow>
     splits r s (handleSecretsApply wi h r s) (handleSecretsApply wi h r (s\<lparr>as_cache := []\<rparr>))"
  "ar_Method r = ''POST'' \<longrightarrow> replay r s = None \<Longrightarrow> splits r s (handleSecretsToken wi h r s) (handleSecretsToken wi h r (s\<lparr>as_cache := []\<rparr>))"
  "ar_Method r = ''POST'' \<longrightarrow> replay r s = None \<Longrightarrow> splits r s (handleRestart h r s) (handleRestart h r (s\<lparr>as_cache := []\<rparr>))"
  "ar_Method r = ''POST'' \<longrightarrow> replay r s = None \<Longrightarrow> splits r s (handleCancel h r s) (handleCancel h r (s\<lparr>as_cache := []\<rparr>))"
  "ar_Method r = ''POST'' \<longrightarrow> replay r s = None \<Longrightarrow> splits r s (handleToolCall wi h r s) (handleToolCall wi h r (s\<lparr>as_cache := []\<rparr>))"
  by (simp_all add: acp_handlers Let_def split: option.split sum.split prod.split)

lemma others_split:
  "splits r s (handleHealth h r s) (handleHealth h r (s\<lparr>as_cache := []\<rparr>))"
  "splits r s (handleStatus h r s) (handleStatus h r (s\<lparr>as_cache := []\<rparr>))"
  "splits r s (handleApprovalDecision wi h r s) (handleApprovalDecision wi h r (s\<lparr>as_cache := []\<rparr>))"
  by (simp_all add: handleHealth_def handleStatus_def handleApprovalDecision_def Let_def split: option.split sum.split prod.split)

lemma events_split: "splits r s (handleEventIngress wi h source r s) (handleEventIngress wi h source r (s\<lparr>as_cache := []\<rparr>))"
proof -
  have d: "splits r s (deliver h evt (s\<lparr>as_limiter := l\<rparr>)) (deliver h evt (s\<lparr>as_cache := [], as_limiter := l\<rparr>))" for evt l
    by (auto simp: deliver_def splits_def enter_def split: option.split)
  then have "splits r s (handlePlainEvent wi h source n r s) (handlePlainEvent wi h source n r (s\<lparr>as_cache := []\<rparr>))"
    "splits r s (handleWebhookEvent wi h source gw n r s) (handleWebhookEvent wi h source gw n r (s\<lparr>as_cache := []\<rparr>))" for n gw
    by (simp_all add: handlePlainEvent_def handleWebhookEvent_def split: option.split sum.split prod.split bool.split)
  then show ?thesis by (simp add: handleEventIngress_def split: option.split)
qed

lemma serve_splits:
  assumes "lookup h r s = None"
  shows "splits r s (serve_acp wi h r s) (serve_acp wi h r (s\<lparr>as_cache := []\<rparr>))"
proof (cases "event_source (ar_Path r)")
  case None
  have mux: "splits r s (inner_mux wi h r s) (inner_mux wi h r (s\<lparr>as_cache := []\<rparr>))" if "hd_Token h = [] \<or> bearer_error h r = None"
    using assms that
    by (auto simp: inner_mux_def lookup_def consults_cache_def cached_paths_def Let_def handlers_split others_split split: if_splits)
  then show ?thesis using None by (auto simp: serve_acp_def authMiddleware_def split: option.split)
qed (simp add: serve_acp_def events_split)

lemma replay_answers:
  assumes "lookup h r s = Some resp"
  shows "serve_acp wi h r s = (resp, s)"
proof -
  from assms have c: "consults_cache h r" "replay r s = Some resp" by (auto simp: lookup_def split: if_splits)
  then have "event_source (ar_Path r) = None" by (auto simp: consults_cache_def cached_paths_def event_source_def has_prefix_def)
  moreover have "inner_mux wi h r s = (resp, s)"
    using c by (auto simp: consults_cache_def cached_paths_def inner_mux_def acp_handlers)
  ultimately show ?thesis using c(1) by (auto simp: serve_acp_def authMiddleware_def consults_cache_def)
qed

text \<open>A request that is served without interruption is served by its three steps.\<close>

theorem serve_in_steps: "serve_acp wi h r s = in_steps wi h r s"
proof (cases "lookup h r s")
  case None
  from serve_splits [OF this, of wi] show ?thesis
    by (auto simp: in_steps_def None work_def splits_def split: prod.splits intro: prod_eqI)
qed (simp add: in_steps_def replay_answers)

subsection \<open>Interleavings\<close>

datatype acp_event = Lookup nat | Work nat | Enter nat

datatype acp_phase = Received | Missed | Worked AcpResponse bool | Answered AcpResponse

text \<open>Requests are numbered; \<open>ap_carried\<close> lists those that were carried out, in the order of their work.\<close>

record 'w AcpRun =
  ap_server :: "'w AcpServer"
  ap_phase :: "nat \<Rightarrow> acp_phase"
  ap_carried :: "nat list"

definition acp_start :: "'w AcpServer \<Rightarrow> 'w AcpRun" where
  "acp_start s = \<lparr>ap_server = s, ap_phase = (\<lambda>_. Received), ap_carried = []\<rparr>"

definition set_ap_phase :: "nat \<Rightarrow> acp_phase \<Rightarrow> 'w AcpRun \<Rightarrow> 'w AcpRun" where
  "set_ap_phase i ph st = st\<lparr>ap_phase := (ap_phase st)(i := ph)\<rparr>"

fun acp_exec :: "'w Wire \<Rightarrow> 'w Handlers \<Rightarrow> (nat \<Rightarrow> AcpRequest) \<Rightarrow> acp_event \<Rightarrow> 'w AcpRun \<Rightarrow> 'w AcpRun" where
  "acp_exec wi h req (Lookup i) st = (case ap_phase st i of
       Received \<Rightarrow> set_ap_phase i (case lookup h (req i) (ap_server st) of Some resp \<Rightarrow> Answered resp | None \<Rightarrow> Missed) st
     | _ \<Rightarrow> st)"
| "acp_exec wi h req (Work i) st = (case ap_phase st i of
       Missed \<Rightarrow> (case work wi h (req i) (ap_server st) of (resp, keep, s) \<Rightarrow>
         set_ap_phase i (Worked resp keep) (st\<lparr>ap_server := s, ap_carried := ap_carried st @ [i]\<rparr>))
     | _ \<Rightarrow> st)"
| "acp_exec wi h req (Enter i) st = (case ap_phase st i of
       Worked resp keep \<Rightarrow> set_ap_phase i (Answered resp) (st\<lparr>ap_server := enter (req i) resp keep (ap_server st)\<rparr>)
     | _ \<Rightarrow> st)"

abbreviation acp_execs where
  "acp_execs wi h req evs st \<equiv> fold (acp_exec wi h req) evs st"

lemma work_cache: "work wi h r s = (resp, keep, t) \<Longrightarrow> as_cache t = as_cache s"
  by (auto simp: work_def split: prod.splits)

text \<open>An answer that was stored stays, or makes way for one that was stored later.\<close>

definition stored_until :: "gotime \<Rightarrow> string \<Rightarrow> 'w AcpServer \<Rightarrow> bool" where
  "stored_until x key s \<longleftrightarrow> (\<exists>e. map_of (as_cache s) key = Some e \<and> x \<le> ie_expiresAt e)"

lemma enter_stored: "key \<noteq> [] \<Longrightarrow> ar_IdempotencyKey r = key \<Longrightarrow> stored_until (ar_done r + idempotencyTTL) key (enter r resp True s)"
  by (simp add: stored_until_def enter_def remember_def cache_set_def)

lemma enter_keeps_stored:
  "stored_until x key s \<Longrightarrow> ar_IdempotencyKey r = key \<longrightarrow> x \<le> ar_done r + idempotencyTTL \<Longrightarrow> stored_until x key (enter r resp keep s)"
  by (auto simp: stored_until_def enter_def remember_def cache_set_def)

lemma exec_keeps_stored:
  assumes "stored_until x key (ap_server st)" "\<And>i. ev = Enter i \<Longrightarrow> ar_IdempotencyKey (req i) = key \<Longrightarrow> x \<le> ar_done (req i) + idempotencyTTL"
  shows "stored_until x key (ap_server (acp_exec wi h req ev st))"
proof (cases ev)
  case (Work i)
  then show ?thesis using assms(1)
    by (auto simp: set_ap_phase_def stored_until_def dest!: work_cache split: acp_phase.splits prod.splits)
next
  case (Enter i)
  then show ?thesis using assms by (auto simp: set_ap_phase_def intro!: enter_keeps_stored split: acp_phase.splits)
qed (use assms(1) in \<open>simp add: set_ap_phase_def split: acp_phase.splits\<close>)

lemma execs_keep_stored:
  assumes "stored_until x key (ap_server st)"
    "\<And>i. Enter i \<in> set evs \<Longrightarrow> ar_IdempotencyKey (req i) = key \<Longrightarrow> x \<le> ar_done (req i) + idempotencyTTL"
  shows "stored_until x key (ap_server (acp_execs wi h req evs st))"
  using assms
proof (induction evs arbitrary: st)
  case (Cons ev evs)
  have "stored_until x key (ap_server (acp_exec wi h req ev st))" by (rule exec_keeps_stored [OF Cons.prems(1)]) (auto intro: Cons.prems(2))
  with Cons show ?case by simp
qed simp

lemma stored_replayed:
  assumes "stored_until x key s" "consults_cache h r" "ar_IdempotencyKey r = key" "key \<noteq> []" "ar_now r \<le> x"
  shows "\<exists>resp. lookup h r s = Some resp"
  using assms by (auto simp: lookup_def replay_def cache_get_def stored_until_def)

text \<open>What a request that was not looked up, and one that was answered, has done.\<close>

lemma untouched: "Lookup k \<notin> set evs \<Longrightarrow> ap_phase st k = Received \<Longrightarrow> k \<notin> set (ap_carried st) \<Longrightarrow>
    ap_phase (acp_execs wi h req evs st) k = Received \<and> k \<notin> set (ap_carried (acp_execs wi h req evs st))"
proof (induction evs arbitrary: st)
  case (Cons ev evs)
  have "ap_phase (acp_exec wi h req ev st) k = Received \<and> k \<notin> set (ap_carried (acp_exec wi h req ev st))"
    using Cons.prems by (cases ev) (auto simp: set_ap_phase_def split: acp_phase.splits prod.splits option.splits)
  with Cons show ?case by simp
qed simp

lemma answered_final: "ap_phase st k = Answered resp \<Longrightarrow> k \<notin> set (ap_carried st) \<Longrightarrow>
    ap_phase (acp_execs wi h req evs st) k = Answered resp \<and> k \<notin> set (ap_carried (acp_execs wi h req evs st))"
proof (induction evs arbitrary: st)
  case (Cons ev evs)
  have "ap_phase (acp_exec wi h req ev st) k = Answered resp \<and> k \<notin> set (ap_carried (acp_exec wi h req ev st))"
    using Cons.prems by (cases ev) (auto simp: set_ap_phase_def split: acp_phase.splits prod.splits option.splits)
  with Cons show ?case by simp
qed simp

text \<open>C33: a request is not carried out a second time once the answer is stored.  In every interleaving of the lookups, the work and the entries of any
  requests: after the entry of a request that succeeded with a key, a request with the same key to any of the endpoints with a cache that is looked up within a
  minute is answered from the cache and never carried out.  The key alone counts: this is so even for a request to
  another endpoint.  The clock does not run backwards between the entries under this key.\<close>

theorem replay_after_entry:
  assumes "ap_phase (acp_execs wi h req before (acp_start s)) i = Worked resp True"
    "ar_IdempotencyKey (req i) = key" "key \<noteq> []"
    "\<And>j. Enter j \<in> set between \<Longrightarrow> ar_IdempotencyKey (req j) = key \<Longrightarrow> ar_done (req i) \<le> ar_done (req j)"
    "consults_cache h (req k)" "ar_IdempotencyKey (req k) = key" "ar_now (req k) \<le> ar_done (req i) + 60 * second"
    "Lookup k \<notin> set (before @ between)"
  shows "\<exists>resp'. ap_phase (acp_execs wi h req (before @ [Enter i] @ between @ [Lookup k] @ after) (acp_start s)) k = Answered resp' \<and>
    k \<notin> set (ap_carried (acp_execs wi h req (before @ [Enter i] @ between @ [Lookup k] @ after) (acp_start s)))"
proof -
  let ?x = "ar_done (req i) + idempotencyTTL"
  define st where "st = acp_execs wi h req before (acp_start s)"
  define st1 where "st1 = acp_execs wi h req ([Enter i] @ between) st"
  have "stored_until ?x key (ap_server (acp_exec wi h req (Enter i) st))"
    using assms(1,2,3) by (simp add: st_def [symmetric] set_ap_phase_def enter_stored)
  then have stored: "stored_until ?x key (ap_server st1)"
    unfolding st1_def fold_append comp_apply fold_simps using assms(4) by (intro execs_keep_stored) fastforce+
  have "ap_phase st1 k = Received \<and> k \<notin> set (ap_carried st1)"
    using untouched [of k "before @ [Enter i] @ between" "acp_start s" wi h req] assms(8) by (simp add: st_def st1_def acp_start_def)
  moreover obtain resp' where "lookup h (req k) (ap_server st1) = Some resp'"
    using stored_replayed [OF stored assms(5,6,3)] assms(7) by (auto simp: idempotencyTTL_def)
  ultimately have "ap_phase (acp_exec wi h req (Lookup k) st1) k = Answered resp' \<and> k \<notin> set (ap_carried (acp_exec wi h req (Lookup k) st1))"
    by (simp add: set_ap_phase_def)
  from answered_final [OF this [THEN conjunct1] this [THEN conjunct2], of wi h req after] show ?thesis by (auto simp: st_def st1_def)
qed

definition keyed_requests :: "nat \<Rightarrow> AcpRequest" where
  "keyed_requests i = (if i = 0 then sample_acp_request ''/config/apply'' ''k'' 1 else sample_acp_request ''/tasks/cancel'' ''k'' 2)"

theorem replay_after_entry_witness:
  "1 \<notin> set (ap_carried (acp_execs sample_wire sample_handlers keyed_requests
     ([Lookup 0, Work 0] @ [Enter 0] @ [] @ [Lookup 1] @ [Work 1, Enter 1]) (acp_start (New_acp []))))"
proof -
  have "\<exists>resp. ap_phase (acp_execs sample_wire sample_handlers keyed_requests [Lookup 0, Work 0] (acp_start (New_acp []))) 0 = Worked resp True"
  proof -
    have "(case ap_phase (acp_execs sample_wire sample_handlers keyed_requests [Lookup 0, Work 0] (acp_start (New_acp []))) 0 of
        Worked _ keep \<Rightarrow> keep | _ \<Rightarrow> False)" by code_simp
    then show ?thesis by (auto split: acp_phase.splits)
  qed
  then obtain resp where w: "ap_phase (acp_execs sample_wire sample_handlers keyed_requests [Lookup 0, Work 0] (acp_start (New_acp []))) 0 = Worked resp True" ..
  have "\<exists>resp'. ap_phase (acp_execs sample_wire sample_handlers keyed_requests
        ([Lookup 0, Work 0] @ [Enter 0] @ [] @ [Lookup 1] @ [Work 1, Enter 1]) (acp_start (New_acp []))) 1 = Answered resp' \<and>
      1 \<notin> set (ap_carried (acp_execs sample_wire sample_handlers keyed_requests
        ([Lookup 0, Work 0] @ [Enter 0] @ [] @ [Lookup 1] @ [Work 1, Enter 1]) (acp_start (New_acp []))))"
  proof (rule replay_after_entry [OF w, of "''k''"])
    show "consults_cache sample_handlers (keyed_requests 1)" by code_simp
  qed (simp_all add: keyed_requests_def sample_acp_request_def second_def)
  then show ?thesis by blast
qed

text \<open>The cache is not locked between the lookup and the entry: two requests with the same key that overlap are both carried out.\<close>

theorem overlapping_requests_both_run:
  "ap_carried (acp_execs sample_wire sample_handlers (\<lambda>_. sample_acp_request ''/config/apply'' ''k'' 1)
     [Lookup 0, Lookup 1, Work 0, Enter 0, Work 1, Enter 1] (acp_start (New_acp []))) = [0, 1]"
  by code_simp

end
