(* ===== verification/Builtin_Tools.thy ===== *)
theory Builtin_Tools
  imports Gitai_Turn Cron_Manager Rate_Limits State_Lifting
begin

section \<open>The built-in tools of the agent\<close>

text \<open>
  \<^verbatim>\<open>internal/gitai/builtin/matrix_send.go\<close> and \<^verbatim>\<open>schedule.go\<close>: the tools that the agent offers to its model besides the MCP servers.  The state is the table of
  schedules, the window of outgoing messages and the messages sent; clock readings, failures of statements and of the Matrix client are drawn from the
  world.  The property: whatever arguments the model invents, messages go to configured targets only, and the table stays well formed, with
  schedules that parse and that do nothing but send messages.
\<close>

record 'w tools =
  bt_table :: cron_table
  bt_limiter :: rateLimiter
  bt_sent :: "(string \<times> string) list"
  bt_world :: 'w

record 'w ToolEnv =
  te_config :: "Config option"
  te_now :: "'w \<Rightarrow> gotime \<times> 'w"
  te_fault :: "'w \<Rightarrow> fault \<times> 'w"
  te_send :: "string \<Rightarrow> string \<Rightarrow> 'w \<Rightarrow> fault \<times> 'w"
  te_json :: "gvalue \<Rightarrow> string + string"
  te_cronText :: "cron_error \<Rightarrow> string"
  te_storeText :: "schedule_error \<Rightarrow> string"

type_synonym ('w, 'a) tool_io = "('w tools, 'a) state"

definition draw :: "('w \<Rightarrow> 'a \<times> 'w) \<Rightarrow> ('w, 'a) tool_io" where
  "draw f = State (\<lambda>s. case f (bt_world s) of (x, w) \<Rightarrow> (x, s\<lparr>bt_world := w\<rparr>))"

definition on_table :: "(cron_table \<Rightarrow> 'a \<times> cron_table) \<Rightarrow> ('w, 'a) tool_io" where
  "on_table f = State (\<lambda>s. case f (bt_table s) of (x, t) \<Rightarrow> (x, s\<lparr>bt_table := t\<rparr>))"

definition read_table :: "('w, cron_table) tool_io" where
  "read_table = State (\<lambda>s. (bt_table s, s))"

definition refuse :: "string \<Rightarrow> ('w, string + string) tool_io" where
  "refuse msg = State_Monad.return (Inl msg)"

subsection \<open>Arguments\<close>

definition apostrophes :: "string \<Rightarrow> string" where
  "apostrophes s = CHR 0x27 # s @ [CHR 0x27]"

definition stringArg :: "gmap \<Rightarrow> string \<Rightarrow> string option" where
  "stringArg args key = (case map_of args key of None \<Rightarrow> None | Some v \<Rightarrow> as_string v)"

definition required_arg :: "string \<Rightarrow> gmap \<Rightarrow> string \<Rightarrow> string + string" where
  "required_arg tool args key =
     (case stringArg args key of
        Some v \<Rightarrow> if v = [] then Inl (tool @ '': missing required argument '' @ apostrophes key) else Inr v
      | None \<Rightarrow> Inl (tool @ '': missing required argument '' @ apostrophes key))"

definition bool_arg :: "string \<Rightarrow> bool \<Rightarrow> gmap \<Rightarrow> string \<Rightarrow> string + bool" where
  "bool_arg tool dflt args key = (case map_of args key of
       None \<Rightarrow> Inr dflt
     | Some (GBool b) \<Rightarrow> Inr b
     | Some _ \<Rightarrow> Inl (tool @ '': argument '' @ apostrophes key @ '' must be boolean''))"

text \<open>\<^verbatim>\<open>int64(n)\<close> for an integral float in the range of \<^verbatim>\<open>int64\<close>.  Floats from \<open>2 ^ 53\<close> on are multiples of a power of two; the shortest decimal form
  need not be, so it is rounded to the float it stands for.\<close>

definition bit_count :: "int \<Rightarrow> nat" where
  "bit_count n = length (takeWhile (\<lambda>k. 2 ^ k \<le> n) [0..<64])"

definition int64_of :: "gofloat \<Rightarrow> int" where
  "int64_of f = (case f of
       Dec m e \<Rightarrow> (let n = m * 10 ^ nat e; spacing = 2 ^ (bit_count n - 53) in (n + spacing div 2) div spacing * spacing)
     | _ \<Rightarrow> 0)"

definition optionalInt64Arg :: "gmap \<Rightarrow> string \<Rightarrow> string + int option" where
  "optionalInt64Arg args key = (case map_of args key of
       None \<Rightarrow> Inr None
     | Some (GFloat n) \<Rightarrow>
         if float_less n (Dec 1 0) \<or> \<not> int64_float n then Inl (''argument '' @ go_quote key @ '' must be a positive integer'')
         else Inr (Some (int64_of n))
     | Some _ \<Rightarrow> Inl (''argument '' @ go_quote key @ '' must be numeric''))"

definition requiredInt64Arg :: "gmap \<Rightarrow> string \<Rightarrow> string + int" where
  "requiredInt64Arg args key = (case optionalInt64Arg args key of
       Inl e \<Rightarrow> Inl e
     | Inr None \<Rightarrow> Inl (''missing required argument '' @ go_quote key)
     | Inr (Some i) \<Rightarrow> Inr i)"

subsection \<open>Sending messages\<close>

definition resolveTarget :: "MessagingTarget list \<Rightarrow> string \<Rightarrow> string option" where
  "resolveTarget targets alias = map_option mt_RoomID (find (\<lambda>t. mt_Alias t = alias) targets)"

definition pass_limiter :: "'w ToolEnv \<Rightarrow> int \<Rightarrow> ('w, bool) tool_io" where
  "pass_limiter env limit =
     (if limit \<le> 0 then State_Monad.return True
      else do {
        now \<leftarrow> draw (te_now env);
        State (\<lambda>s. case allow_message now limit (bt_limiter s) of (ok, l) \<Rightarrow> (ok, s\<lparr>bt_limiter := l\<rparr>)) })"

definition send_text :: "'w ToolEnv \<Rightarrow> string \<Rightarrow> string \<Rightarrow> ('w, fault) tool_io" where
  "send_text env room message = State (\<lambda>s. case te_send env room message (bt_world s) of
     (e, w) \<Rightarrow> (e, s\<lparr>bt_world := w, bt_sent := bt_sent s @ [(room, message)]\<rparr>))"

definition sends :: "'w ToolEnv \<Rightarrow> string \<Rightarrow> string \<Rightarrow> string \<Rightarrow> int \<Rightarrow> ('w, string + string) tool_io" where
  "sends env alias message room limit = do {
     ok \<leftarrow> pass_limiter env limit;
     if \<not> ok then refuse (''matrix.send_message: rate limit exceeded ('' @ itoa limit @ '' messages/minute)'')
     else do {
       e \<leftarrow> send_text env room message;
       State_Monad.return (case e of
           Some err \<Rightarrow> Inl (''matrix.send_message: send failed: '' @ err)
         | None \<Rightarrow> Inr (''Message sent to '' @ go_quote alias @ '' ('' @ room @ '').'')) } }"

definition MatrixSend_Execute :: "'w ToolEnv \<Rightarrow> gmap \<Rightarrow> ('w, string + string) tool_io" where
  "MatrixSend_Execute env args = (case required_arg ''matrix.send_message'' args ''target'' of
       Inl e \<Rightarrow> refuse e
     | Inr alias \<Rightarrow> (case required_arg ''matrix.send_message'' args ''message'' of
         Inl e \<Rightarrow> refuse e
       | Inr message \<Rightarrow> (case te_config env of
           None \<Rightarrow> refuse ''matrix.send_message: no Gosuto config loaded''
         | Some cfg \<Rightarrow> (case resolveTarget (ms_AllowedTargets (cf_Messaging cfg)) alias of
             None \<Rightarrow> refuse (''matrix.send_message: target '' @ go_quote alias @ '' is not in the allowed targets list'')
           | Some room \<Rightarrow> sends env alias message room (ms_MaxMessagesPerMinute (cf_Messaging cfg))))))"

subsection \<open>Schedules\<close>

definition ScheduleUpsertToolName :: string where "ScheduleUpsertToolName = ''schedule.upsert''"
definition ScheduleDisableToolName :: string where "ScheduleDisableToolName = ''schedule.disable''"
definition ScheduleListToolName :: string where "ScheduleListToolName = ''schedule.list''"

record upsert_args =
  ua_gateway :: string
  ua_cron :: string
  ua_payload :: CronSchedulePayload
  ua_enabled :: bool

definition read_upsert :: "gmap \<Rightarrow> string + upsert_args" where
  "read_upsert args =
     (let gw = (case stringArg args ''gateway'' of Some v \<Rightarrow> if v \<noteq> [] then v else ''scheduler'' | None \<Rightarrow> ''scheduler'') in
      case required_arg ''schedule.upsert'' args ''cron_expression'' of
        Inl e \<Rightarrow> Inl e
      | Inr cron \<Rightarrow> (case required_arg ''schedule.upsert'' args ''target_alias'' of
          Inl e \<Rightarrow> Inl e
        | Inr alias \<Rightarrow> (case required_arg ''schedule.upsert'' args ''message'' of
            Inl e \<Rightarrow> Inl e
          | Inr message \<Rightarrow> map_sum (\<lambda>e. e)
              (\<lambda>b. \<lparr>ua_gateway = gw, ua_cron = cron, ua_payload = \<lparr>pl_TargetAlias = alias, pl_Message = message\<rparr>, ua_enabled = b\<rparr>)
              (bool_arg ''schedule.upsert'' True args ''enabled''))))"

definition upsert_reply :: "string \<Rightarrow> int \<Rightarrow> upsert_args \<Rightarrow> gotime \<Rightarrow> string" where
  "upsert_reply verb i a next_at =
     verb @ '' schedule '' @ itoa i @ '' (gateway='' @ go_quote (ua_gateway a) @ '', next='' @ fmt_rfc3339 next_at @ '').''"

definition update_schedule :: "'w ToolEnv \<Rightarrow> int \<Rightarrow> upsert_args \<Rightarrow> gotime \<Rightarrow> ('w, string + string) tool_io" where
  "update_schedule env i a next_at = do {
     e \<leftarrow> draw (te_fault env); affected \<leftarrow> draw (te_fault env); stamp \<leftarrow> draw (te_now env);
     r \<leftarrow> on_table (UpdateCronSchedule e affected stamp i (ua_cron a) (ua_payload a) (ua_enabled a) next_at);
     State_Monad.return (case r of
         Some err \<Rightarrow> Inl (''schedule.upsert: update schedule '' @ itoa i @ '': '' @ te_storeText env err)
       | None \<Rightarrow> Inr (upsert_reply ''Updated'' i a next_at)) }"

definition create_schedule :: "'w ToolEnv \<Rightarrow> upsert_args \<Rightarrow> gotime \<Rightarrow> ('w, string + string) tool_io" where
  "create_schedule env a next_at = do {
     e \<leftarrow> draw (te_fault env); stamp \<leftarrow> draw (te_now env);
     r \<leftarrow> on_table (CreateCronSchedule e stamp (ua_gateway a) (ua_cron a) MatrixSendToolName (ua_payload a) (ua_enabled a) next_at);
     State_Monad.return (case r of
         Inl err \<Rightarrow> Inl (''schedule.upsert: create schedule: '' @ te_storeText env err)
       | Inr i \<Rightarrow> Inr (upsert_reply ''Created'' i a next_at)) }"

definition store_schedule :: "'w ToolEnv \<Rightarrow> gmap \<Rightarrow> upsert_args \<Rightarrow> gotime \<Rightarrow> ('w, string + string) tool_io" where
  "store_schedule env args a next_at = (case optionalInt64Arg args ''id'' of
       Inl e \<Rightarrow> refuse (''schedule.upsert: '' @ e)
     | Inr (Some i) \<Rightarrow> update_schedule env i a next_at
     | Inr None \<Rightarrow> create_schedule env a next_at)"

definition ScheduleUpsert_Execute :: "'w ToolEnv \<Rightarrow> gmap \<Rightarrow> ('w, string + string) tool_io" where
  "ScheduleUpsert_Execute env args = (case read_upsert args of
       Inl e \<Rightarrow> refuse e
     | Inr a \<Rightarrow> do {
         now \<leftarrow> draw (te_now env);
         case NextCronTick (\<lambda>_. 0) (ua_cron a) now of
           Inl e \<Rightarrow> refuse (''schedule.upsert: invalid cron_expression: '' @ te_cronText env e)
         | Inr next_at \<Rightarrow>
             if is_zero_time next_at then refuse ''schedule.upsert: invalid cron_expression: no next trigger time''
             else store_schedule env args a next_at })"

definition ScheduleDisable_Execute :: "'w ToolEnv \<Rightarrow> gmap \<Rightarrow> ('w, string + string) tool_io" where
  "ScheduleDisable_Execute env args = (case requiredInt64Arg args ''id'' of
       Inl e \<Rightarrow> refuse (''schedule.disable: '' @ e)
     | Inr i \<Rightarrow> do {
         e \<leftarrow> draw (te_fault env); affected \<leftarrow> draw (te_fault env); stamp \<leftarrow> draw (te_now env);
         r \<leftarrow> on_table (DisableCronSchedule e affected stamp i);
         State_Monad.return (case r of
             Some err \<Rightarrow> Inl (''schedule.disable: disable schedule '' @ itoa i @ '': '' @ te_storeText env err)
           | None \<Rightarrow> Inr (''Disabled schedule '' @ itoa i @ ''.'')) })"

definition outItem :: "CronSchedule \<Rightarrow> gvalue" where
  "outItem r = GMap
     ([(''id'', GInt (sc_ID r)), (''gateway'', GStr (sc_GatewayName r)), (''cron_expression'', GStr (sc_CronExpression r)), (''tool'', GStr (sc_Tool r)),
       (''target_alias'', GStr (pl_TargetAlias (sc_Payload r))), (''message'', GStr (pl_Message (sc_Payload r))), (''enabled'', GBool (sc_Enabled r)),
       (''next_trigger_at'', GStr (fmt_rfc3339 (sc_NextTriggerAt r)))] @
      (case sc_LastTriggerAt r of Some t \<Rightarrow> [(''last_trigger_at'', GStr (fmt_rfc3339 t))] | None \<Rightarrow> []))"

definition ScheduleList_Execute :: "'w ToolEnv \<Rightarrow> gmap \<Rightarrow> ('w, string + string) tool_io" where
  "ScheduleList_Execute env args =
     (let gw = (case stringArg args ''gateway'' of Some v \<Rightarrow> v | None \<Rightarrow> []) in
      case bool_arg ''schedule.list'' False args ''enabled_only'' of
        Inl e \<Rightarrow> refuse e
      | Inr enabledOnly \<Rightarrow> do {
          q \<leftarrow> draw (te_fault env);
          tbl \<leftarrow> read_table;
          State_Monad.return (case ListCronSchedules q gw enabledOnly tbl of
              Inl e \<Rightarrow> Inl (''schedule.list: '' @ e)
            | Inr items \<Rightarrow> (case te_json env (GList (map outItem items)) of
                Inl e \<Rightarrow> Inl (''schedule.list: encode result: '' @ e)
              | Inr blob \<Rightarrow> Inr blob)) })"

subsection \<open>What the model is told\<close>

definition described :: "string \<Rightarrow> string \<Rightarrow> gvalue" where
  "described ty what = GMap [(''type'', GStr ty), (''description'', GStr what)]"

definition object_schema :: "(string \<times> gvalue) list \<Rightarrow> string list \<Rightarrow> gvalue" where
  "object_schema props required = GMap ([(''type'', GStr ''object''), (''properties'', GMap props)] @
     (if required = [] then [] else [(''required'', GList (map GStr required))]))"

definition MatrixSend_Definition :: ToolDefinition where
  "MatrixSend_Definition = \<lparr>td_Name = MatrixSendToolName,
     td_Description = ''Send a message to another agent or user via Matrix. Use one of the alias names listed in your Messaging Targets section.'',
     td_Parameters = object_schema
       [(''target'', described ''string'' (''Alias of the target from the allowed targets list (e.g. '' @ go_quote ''kairo'' @ '', '' @ go_quote ''user'' @
           ''). Unknown aliases are rejected.'')),
        (''message'', described ''string'' ''The message content to send.'')] [''target'', ''message'']\<rparr>"

definition ScheduleUpsert_Definition :: ToolDefinition where
  "ScheduleUpsert_Definition = \<lparr>td_Name = ScheduleUpsertToolName,
     td_Description = ''Create or update a persistent cron schedule that executes matrix.send_message.'',
     td_Parameters = object_schema
       [(''id'', described ''number'' ''Existing schedule ID to update. Omit to create a new schedule.''),
        (''gateway'', described ''string'' (''Gateway name owning this schedule. Defaults to '' @ go_quote ''scheduler'' @ ''.'')),
        (''cron_expression'', described ''string'' ''Cron expression (5-field or @every <duration>).''),
        (''target_alias'', described ''string'' ''Messaging target alias from Gosuto messaging.allowedTargets.''),
        (''message'', described ''string'' ''Message text to send when the schedule triggers.''),
        (''enabled'', described ''boolean'' ''Whether the schedule is active. Defaults to true.'')]
       [''cron_expression'', ''target_alias'', ''message'']\<rparr>"

definition ScheduleDisable_Definition :: ToolDefinition where
  "ScheduleDisable_Definition = \<lparr>td_Name = ScheduleDisableToolName, td_Description = ''Disable a persistent cron schedule by ID.'',
     td_Parameters = object_schema [(''id'', described ''number'' ''Schedule ID to disable.'')] [''id'']\<rparr>"

definition ScheduleList_Definition :: ToolDefinition where
  "ScheduleList_Definition = \<lparr>td_Name = ScheduleListToolName, td_Description = ''List persistent cron schedules.'',
     td_Parameters = object_schema
       [(''gateway'', described ''string'' ''Optional gateway filter.''),
        (''enabled_only'', described ''boolean'' ''When true, returns only enabled schedules.'')] []\<rparr>"

subsection \<open>The registry\<close>

definition builtin_tools :: "'w ToolEnv \<Rightarrow> (string \<times> 'w tools tool) list" where
  "builtin_tools env =
     [(MatrixSendToolName, \<lambda>args. State_Monad.run_state (MatrixSend_Execute env args)),
      (ScheduleUpsertToolName, \<lambda>args. State_Monad.run_state (ScheduleUpsert_Execute env args)),
      (ScheduleDisableToolName, \<lambda>args. State_Monad.run_state (ScheduleDisable_Execute env args)),
      (ScheduleListToolName, \<lambda>args. State_Monad.run_state (ScheduleList_Execute env args))]"

subsection \<open>What the tools may do\<close>

text \<open>A row that only sends messages, by an expression that the scheduler can read.\<close>

definition sending_row :: "CronSchedule \<Rightarrow> bool" where
  "sending_row r \<longleftrightarrow> sc_Tool r = MatrixSendToolName \<and> \<not> isl (parseCron (sc_CronExpression r))"

definition allowed_rooms :: "'w ToolEnv \<Rightarrow> string set" where
  "allowed_rooms env = (case te_config env of None \<Rightarrow> {} | Some cfg \<Rightarrow> mt_RoomID ` set (ms_AllowedTargets (cf_Messaging cfg)))"

definition tools_ok :: "'w ToolEnv \<Rightarrow> 'w tools \<Rightarrow> bool" where
  "tools_ok env s \<longleftrightarrow> table_ok (bt_table s) \<and> list_all sending_row (ct_rows (bt_table s)) \<and> fst ` set (bt_sent s) \<subseteq> allowed_rooms env"

definition keeps_ok :: "'w ToolEnv \<Rightarrow> 'w tools \<Rightarrow> 'w tools \<Rightarrow> bool" where
  "keeps_ok env s s' \<longleftrightarrow> (tools_ok env s \<longrightarrow> tools_ok env s')"

interpretation bt: state_relation "keeps_ok env" for env :: "'w ToolEnv"
  by unfold_locales (auto simp: keeps_ok_def)

abbreviation confined :: "'w ToolEnv \<Rightarrow> ('w, 'a) tool_io \<Rightarrow> bool" where
  "confined env \<equiv> state_io_rel (keeps_ok env)"

lemma confined_draw: "confined env (draw f)"
  by (auto simp: state_io_rel_def draw_def keeps_ok_def tools_ok_def split: prod.splits)

lemma confined_read: "confined env read_table" "confined env (refuse msg)"
  by (auto simp: state_io_rel_def read_table_def refuse_def keeps_ok_def)

lemma confined_table:
  assumes "\<And>tbl. table_ok tbl \<Longrightarrow> table_ok (snd (f tbl))"
    and "\<And>tbl. list_all sending_row (ct_rows tbl) \<Longrightarrow> list_all sending_row (ct_rows (snd (f tbl)))"
  shows "confined (env :: 'w ToolEnv) (on_table f)"
proof (rule state_io_relI)
  fix x and s s' :: "'w tools" assume run: "State_Monad.run_state (on_table f) s = (x, s')"
  then have "s' = s\<lparr>bt_table := snd (f (bt_table s))\<rparr>" by (auto simp: on_table_def split: prod.splits)
  then show "keeps_ok env s s'" using assms [of "bt_table s"] by (simp add: keeps_ok_def tools_ok_def)
qed

lemma update_found_rows:
  "list_all P (ct_rows tbl) \<Longrightarrow> (\<And>r. P r \<Longrightarrow> P ((g r)\<lparr>sc_UpdatedAt := stamp\<rparr>)) \<Longrightarrow> list_all P (ct_rows (snd (update_found e a stamp i g tbl)))"
  by (auto simp: update_found_def update_row_def list_all_iff split: option.splits prod.splits if_splits)

lemma next_tick_parses: "NextCronTick off expr now = Inr t \<Longrightarrow> \<not> isl (parseCron expr)"
  by (cases "parseCron expr") (auto simp: NextCronTick_def)

lemma confined_update: "\<not> isl (parseCron expr) \<Longrightarrow> confined env (on_table (UpdateCronSchedule e a stamp i expr p en nx))"
  using exec_cron_ok [of _ "OpUpdate e a stamp i expr p en nx"]
  by (intro confined_table) (auto simp: UpdateCronSchedule_def sending_row_def intro!: update_found_rows)

lemma confined_create: "\<not> isl (parseCron expr) \<Longrightarrow> confined env (on_table (CreateCronSchedule e stamp gw expr MatrixSendToolName p en nx))"
  using exec_cron_ok [of _ "OpCreate e stamp gw expr MatrixSendToolName p en nx"]
  by (intro confined_table) (auto simp: CreateCronSchedule_def insert_row_def sending_row_def split: option.splits)

lemma confined_disable: "confined env (on_table (DisableCronSchedule e a stamp i))"
  using exec_cron_ok [of _ "OpDisable e a stamp i"]
  by (intro confined_table) (auto simp: DisableCronSchedule_def sending_row_def intro!: update_found_rows)

lemma confined_limiter: "confined env (pass_limiter env' limit)"
  unfolding pass_limiter_def
  by (intro io_if bt.io_return bt.io_bind confined_draw) (auto simp: state_io_rel_def keeps_ok_def tools_ok_def split: prod.splits)

lemma confined_send: "room \<in> allowed_rooms env \<Longrightarrow> confined env (send_text env room message)"
  by (auto simp: state_io_rel_def send_text_def keeps_ok_def tools_ok_def split: prod.splits)

lemma resolved_allowed: "te_config env = Some cfg \<Longrightarrow> resolveTarget (ms_AllowedTargets (cf_Messaging cfg)) alias = Some room \<Longrightarrow> room \<in> allowed_rooms env"
  by (auto simp: resolveTarget_def allowed_rooms_def find_Some_iff)

lemmas confined_intros = bt.io_bind bt.io_return io_if io_sum io_option confined_draw confined_read confined_limiter confined_send confined_update
  confined_create confined_disable

lemma tools_confined:
  "confined env (MatrixSend_Execute env args)" "confined env (ScheduleUpsert_Execute env args)"
  "confined env (ScheduleDisable_Execute env args)" "confined env (ScheduleList_Execute env args)"
  unfolding MatrixSend_Execute_def sends_def ScheduleUpsert_Execute_def store_schedule_def update_schedule_def create_schedule_def
    ScheduleDisable_Execute_def ScheduleList_Execute_def Let_def
  by (intro confined_intros; (erule (1) resolved_allowed | erule next_tick_parses))+

text \<open>A call of the model: the name of a tool and its arguments; a name that is not registered does nothing.\<close>

definition call_tool :: "'w ToolEnv \<Rightarrow> string \<times> gmap \<Rightarrow> 'w tools \<Rightarrow> (string + string) option \<times> 'w tools" where
  "call_tool env = (\<lambda>(name, args) s. case map_of (builtin_tools env) name of
       None \<Rightarrow> (None, s)
     | Some tool \<Rightarrow> (case tool args s of (r, s') \<Rightarrow> (Some r, s')))"

lemma call_tool_ok:
  assumes "tools_ok env s"
  shows "tools_ok env (snd (call_tool env c s))"
proof -
  obtain name args where c: "c = (name, args)" by (cases c)
  have "tools_ok env (snd (tool args s))" if "(name, tool) \<in> set (builtin_tools env)" for tool
    using that tools_confined [of env args] assms by (auto simp: builtin_tools_def state_io_rel_def keeps_ok_def)
  then show ?thesis
    by (auto simp: call_tool_def c assms split: option.splits prod.splits dest!: map_of_SomeD) (metis snd_conv)
qed

interpretation tool_calls: invariant_system "call_tool env" "tools_ok env" for env :: "'w ToolEnv"
  by unfold_locales (rule call_tool_ok)

text \<open>C30: Whatever the model calls the built-in tools with, in any order and with failures of the database, the clock and the Matrix client:
  messages go only to rooms of the configured targets, every schedule sends messages and nothing else, by an expression
  that the scheduler can read, and the table stays well formed.\<close>

theorem tool_calls_confined:
  assumes "tools_ok env s"
  shows "tools_ok env (Stores.run_state (call_tool env) calls s)"
  using assms by (rule tool_calls.run_keeps)

definition sample_tools :: "unit ToolEnv" where
  "sample_tools = \<lparr>te_config = Some (zero_Config\<lparr>cf_Messaging := \<lparr>ms_AllowedTargets = [\<lparr>mt_RoomID = ''!u'', mt_Alias = ''user''\<rparr>], ms_MaxMessagesPerMinute = 5\<rparr>\<rparr>),
     te_now = Pair minute, te_fault = Pair None, te_send = (\<lambda>_ _. Pair None), te_json = (\<lambda>_. Inr ''[]''), te_cronText = (\<lambda>_. ''bad''), te_storeText = (\<lambda>_. ''bad'')\<rparr>"

definition sample_calls :: "(string \<times> gmap) list" where
  "sample_calls =
     [(''matrix.send_message'', [(''target'', GStr ''user''), (''message'', GStr ''hello'')]),
      (''matrix.send_message'', [(''target'', GStr ''elsewhere''), (''message'', GStr ''hello'')]),
      (''schedule.disable'', [(''id'', GFloat (Dec 7 0))])]"

definition no_tools :: "unit tools" where
  "no_tools = \<lparr>bt_table = \<lparr>ct_rows = [], ct_seq = 0\<rparr>, bt_limiter = \<lparr>rl_count = 0, rl_windowStart = 0\<rparr>, bt_sent = [], bt_world = ()\<rparr>"

theorem tool_calls_confined_witness:
  "tools_ok sample_tools (Stores.run_state (call_tool sample_tools) sample_calls no_tools) \<and>
   bt_sent (Stores.run_state (call_tool sample_tools) sample_calls no_tools) = [(''!u'', ''hello'')]"
proof -
  have "tools_ok sample_tools no_tools" by (simp add: tools_ok_def no_tools_def table_ok_def)
  then have "tools_ok sample_tools (Stores.run_state (call_tool sample_tools) sample_calls no_tools)" by (rule tool_calls_confined)
  moreover have "bt_sent (Stores.run_state (call_tool sample_tools) sample_calls no_tools) = [(''!u'', ''hello'')]" by code_simp
  ultimately show ?thesis by simp
qed

end
