(* ===== verification/Ruriko_Memory.thy ===== *)
theory Ruriko_Memory
  imports Gitai_Memory "HOL-Library.Multiset"
begin

section \<open>The memory of the control plane\<close>

text \<open>
  \<^verbatim>\<open>internal/ruriko/memory\<close>: the tracker of active conversations (\<^verbatim>\<open>tracker.go\<close>), the pipeline that summarises, embeds and stores a sealed conversation
  (\<^verbatim>\<open>seal.go\<close>) and the table of the long-term memory (\<^verbatim>\<open>ltm_sqlite.go\<close>).  The map of conversations is an association list whose order is that
  of one \<^verbatim>\<open>range\<close> loop; clock readings and new identifiers are arguments; the summariser, the embedder and the failures of statements are
  drawn from the world.  A row keeps what its JSON columns read back as; a JSON encoder refuses floats that are not finite.
  Buffers stay within their limits, no conversation is handed to the archive twice, and every conversation that expired is archived with
  its messages whatever the summariser and the embedder do.
\<close>

subsection \<open>The tracker\<close>

record TrackerConfig =
  tk_Cooldown :: int
  tk_MaxMessages :: int
  tk_MaxTokens :: int

definition DefaultTrackerConfig :: TrackerConfig where
  "DefaultTrackerConfig = \<lparr>tk_Cooldown = 15 * minute, tk_MaxMessages = 50, tk_MaxTokens = 8000\<rparr>"

record ConversationTracker =
  ck_config :: TrackerConfig
  ck_convos :: "(string \<times> Conversation) list"

definition NewTracker :: "TrackerConfig \<Rightarrow> ConversationTracker" where
  "NewTracker cfg =
     \<lparr>ck_config =
        \<lparr>tk_Cooldown = (if tk_Cooldown cfg \<le> 0 then tk_Cooldown DefaultTrackerConfig else tk_Cooldown cfg),
         tk_MaxMessages = (if tk_MaxMessages cfg \<le> 0 then tk_MaxMessages DefaultTrackerConfig else tk_MaxMessages cfg),
         tk_MaxTokens = (if tk_MaxTokens cfg \<le> 0 then tk_MaxTokens DefaultTrackerConfig else tk_MaxTokens cfg)\<rparr>,
      ck_convos = []\<rparr>"

definition sessionKey :: "string \<Rightarrow> string \<Rightarrow> string" where
  "sessionKey roomID senderID = roomID @ '':'' @ senderID"

text \<open>The second loop is that of \<open>TrimToTokenBudget\<close>.\<close>

definition enforceBufferLimits :: "TrackerConfig \<Rightarrow> Conversation \<Rightarrow> Conversation" where
  "enforceBufferLimits cfg c = c\<lparr>cv_Messages := TrimToTokenBudget (cap_messages (tk_MaxMessages cfg) (cv_Messages c)) (tk_MaxTokens cfg)\<rparr>"

definition expired :: "TrackerConfig \<Rightarrow> gotime \<Rightarrow> Conversation \<Rightarrow> bool" where
  "expired cfg now c \<longleftrightarrow> \<not> cv_Sealed c \<and> now - cv_LastMsgAt c > tk_Cooldown cfg"

definition new_conversation :: "string \<Rightarrow> string \<Rightarrow> string \<Rightarrow> gotime \<Rightarrow> Conversation" where
  "new_conversation newID roomID senderID now =
     \<lparr>cv_ID = newID, cv_RoomID = roomID, cv_SenderID = senderID, cv_Messages = [], cv_StartedAt = now, cv_LastMsgAt = 0, cv_Sealed = False\<rparr>"

definition sealed_copy :: "Conversation \<Rightarrow> Conversation" where
  "sealed_copy c = c\<lparr>cv_Sealed := True\<rparr>"

definition add_message :: "TrackerConfig \<Rightarrow> string \<Rightarrow> string \<Rightarrow> gotime \<Rightarrow> Conversation \<Rightarrow> Conversation" where
  "add_message cfg role content now c = enforceBufferLimits cfg
     (c\<lparr>cv_Messages := cv_Messages c @ [\<lparr>me_Role = role, me_Content = content, me_Timestamp = now\<rparr>], cv_LastMsgAt := now\<rparr>)"

definition recordMessageAt ::
    "string \<Rightarrow> string \<Rightarrow> string \<Rightarrow> string \<Rightarrow> string \<Rightarrow> gotime \<Rightarrow> ConversationTracker \<Rightarrow> (string \<times> Conversation list) \<times> ConversationTracker"
where
  "recordMessageAt newID roomID senderID role content now t =
     (let key = sessionKey roomID senderID;
          existing = map_of (ck_convos t) key;
          sealed = (case existing of Some c \<Rightarrow> if expired (ck_config t) now c then [sealed_copy c] else [] | None \<Rightarrow> []);
          base = (case existing of
              Some c \<Rightarrow> if expired (ck_config t) now c \<or> cv_Sealed c then new_conversation newID roomID senderID now else c
            | None \<Rightarrow> new_conversation newID roomID senderID now);
          conv = add_message (ck_config t) role content now base
      in ((cv_ID conv, sealed), t\<lparr>ck_convos := AList.update key conv (ck_convos t)\<rparr>))"

definition GetActive :: "ConversationTracker \<Rightarrow> string \<Rightarrow> string \<Rightarrow> Conversation option" where
  "GetActive t roomID senderID = (case map_of (ck_convos t) (sessionKey roomID senderID) of
       None \<Rightarrow> None
     | Some c \<Rightarrow> if cv_Sealed c then None else Some c)"

definition SealExpired :: "gotime \<Rightarrow> ConversationTracker \<Rightarrow> Conversation list \<times> ConversationTracker" where
  "SealExpired now t =
     (map (sealed_copy \<circ> snd) (filter (\<lambda>(k, c). expired (ck_config t) now c) (ck_convos t)),
      t\<lparr>ck_convos := filter (\<lambda>(k, c). \<not> expired (ck_config t) now c) (ck_convos t)\<rparr>)"

subsection \<open>The long-term memory\<close>

definition finite_float :: "gofloat \<Rightarrow> bool" where
  "finite_float f = (case f of Dec _ _ \<Rightarrow> True | _ \<Rightarrow> False)"

record ltm_row =
  lr_id :: string
  lr_room :: string
  lr_sender :: string
  lr_summary :: string
  lr_embedding :: "gofloat list option"
  lr_messages :: "Message list"
  lr_sealedAt :: gotime
  lr_metadata :: "(string \<times> string) list"

type_synonym ltm_table = "ltm_row list"

text \<open>The embedding is apart from the entry because \<^verbatim>\<open>nil\<close> is stored as \<^verbatim>\<open>NULL\<close> and an empty vector is not.\<close>

definition row_of :: "MemoryEntry \<Rightarrow> gofloat list option \<Rightarrow> ltm_row" where
  "row_of e emb = \<lparr>lr_id = en_ConversationID e, lr_room = en_RoomID e, lr_sender = en_SenderID e, lr_summary = en_Summary e, lr_embedding = emb,
     lr_messages = en_Messages e, lr_sealedAt = truncate_time (en_SealedAt e) second, lr_metadata = en_Metadata e\<rparr>"

definition Store_ltm :: "fault \<Rightarrow> MemoryEntry \<Rightarrow> gofloat list option \<Rightarrow> ltm_table \<Rightarrow> string option \<times> ltm_table" where
  "Store_ltm exec e emb tbl =
     (if (case emb of Some v \<Rightarrow> \<not> list_all finite_float v | None \<Rightarrow> False)
      then (Some ''ltm sqlite: marshal embedding: json: unsupported value'', tbl)
      else (case exec of
          Some err \<Rightarrow> (Some (''ltm sqlite: insert conversation: '' @ err), tbl)
        | None \<Rightarrow> (None, filter (\<lambda>r. lr_id r \<noteq> en_ConversationID e) tbl @ [row_of e emb])))"

definition scanEntry :: "ltm_row \<Rightarrow> MemoryEntry" where
  "scanEntry r = \<lparr>en_ConversationID = lr_id r, en_RoomID = lr_room r, en_SenderID = lr_sender r, en_Summary = lr_summary r,
     en_Embedding = (case lr_embedding r of Some v \<Rightarrow> v | None \<Rightarrow> []), en_Messages = lr_messages r, en_SealedAt = lr_sealedAt r,
     en_Metadata = lr_metadata r\<rparr>"

definition ltm_rows :: "string \<Rightarrow> string \<Rightarrow> ltm_table \<Rightarrow> ltm_row list" where
  "ltm_rows roomID senderID tbl =
     sort_key (\<lambda>r. - lr_sealedAt r) (filter (\<lambda>r. lr_room r = roomID \<and> lr_sender r = senderID \<and> lr_embedding r \<noteq> None) tbl)"

definition Search_ltm :: "fault \<Rightarrow> string \<Rightarrow> string \<Rightarrow> string \<Rightarrow> int \<Rightarrow> ltm_table \<Rightarrow> string + MemoryEntry list" where
  "Search_ltm query q roomID senderID topK tbl =
     (if topK \<le> 0 then Inr []
      else (case query of
          Some e \<Rightarrow> Inl (''ltm sqlite: query conversations: '' @ e)
        | None \<Rightarrow> Inr (take (nat topK) (map scanEntry (ltm_rows roomID senderID tbl)))))"

text \<open>The inner loop of the insertion sort, from the last entry of the sorted part backwards: it passes the entries with a smaller score.\<close>

fun insert_score :: "'a \<times> gofloat \<Rightarrow> ('a \<times> gofloat) list \<Rightarrow> ('a \<times> gofloat) list" where
  "insert_score x [] = [x]"
| "insert_score x (y # ys) = (if float_less (snd y) (snd x) then y # insert_score x ys else x # y # ys)"

definition sortByScore :: "('a \<times> gofloat) list \<Rightarrow> ('a \<times> gofloat) list" where
  "sortByScore items = fold (\<lambda>x sorted. rev (insert_score x (rev sorted))) items []"

text \<open>The similarity, arithmetic on \<^verbatim>\<open>float64\<close>, is an argument.\<close>

definition SearchByEmbedding ::
    "(gofloat list \<Rightarrow> gofloat list \<Rightarrow> gofloat) \<Rightarrow> fault \<Rightarrow> gofloat list \<Rightarrow> string \<Rightarrow> string \<Rightarrow> int \<Rightarrow> ltm_table \<Rightarrow> string + MemoryEntry list"
where
  "SearchByEmbedding sim query v roomID senderID topK tbl =
     (if topK \<le> 0 \<or> v = [] then Inr []
      else (case query of
          Some e \<Rightarrow> Inl (''ltm sqlite: query conversations: '' @ e)
        | None \<Rightarrow> Inr (take (nat topK) (map fst (sortByScore
            (map (\<lambda>e. (e, sim v (en_Embedding e))) (filter (\<lambda>e. en_Embedding e \<noteq> []) (map scanEntry (ltm_rows roomID senderID tbl)))))))))"

subsection \<open>The pipeline\<close>

record 'w SealPipeline =
  sl_summarise :: "Message list \<Rightarrow> 'w \<Rightarrow> (string + string) \<times> 'w"
  sl_embed :: "string \<Rightarrow> 'w \<Rightarrow> (string + gofloat list option) \<times> 'w"
  sl_now :: "'w \<Rightarrow> gotime \<times> 'w"
  sl_fault :: "'w \<Rightarrow> fault \<times> 'w"

definition formatTranscript :: "Message list \<Rightarrow> string" where
  "formatTranscript messages = str_join [CHR 0x0A] (map (\<lambda>m. me_Role m @ '': '' @ me_Content m) messages)"

definition NoopSummarise :: "Message list \<Rightarrow> string" where
  "NoopSummarise messages = formatTranscript (drop (length messages - 3) messages)"

definition embed_summary :: "'w SealPipeline \<Rightarrow> string \<Rightarrow> 'w \<Rightarrow> gofloat list option \<times> 'w" where
  "embed_summary p summary w =
     (if summary = [] then (None, w)
      else (case sl_embed p summary w of (Inl _, w') \<Rightarrow> (None, w') | (Inr v, w') \<Rightarrow> (v, w')))"

definition memory_entry :: "Conversation \<Rightarrow> string \<Rightarrow> gotime \<Rightarrow> MemoryEntry" where
  "memory_entry conv summary now = \<lparr>en_ConversationID = cv_ID conv, en_RoomID = cv_RoomID conv, en_SenderID = cv_SenderID conv, en_Summary = summary,
     en_Embedding = [], en_Messages = cv_Messages conv, en_SealedAt = now, en_Metadata = []\<rparr>"

definition Seal :: "'w SealPipeline \<Rightarrow> Conversation \<Rightarrow> ltm_table \<times> 'w \<Rightarrow> string option \<times> ltm_table \<times> 'w" where
  "Seal p conv = (\<lambda>(tbl, w0).
     case sl_summarise p (cv_Messages conv) w0 of (s, w1) \<Rightarrow>
     (let summary = (case s of Inl _ \<Rightarrow> [] | Inr x \<Rightarrow> x) in
      case embed_summary p summary w1 of (emb, w2) \<Rightarrow>
      (case sl_now p w2 of (now, w3) \<Rightarrow>
      (case sl_fault p w3 of (f, w4) \<Rightarrow>
      (case Store_ltm f (memory_entry conv summary now) emb tbl of
         (Some err, tbl') \<Rightarrow> (Some (''seal pipeline: LTM storage failed for conversation '' @ cv_ID conv @ '': '' @ err), tbl', w4)
       | (None, tbl') \<Rightarrow> (None, tbl', w4))))))"

definition ProcessSealed :: "'w SealPipeline \<Rightarrow> Conversation list \<Rightarrow> ltm_table \<times> 'w \<Rightarrow> ltm_table \<times> 'w" where
  "ProcessSealed p convs st = fold (\<lambda>conv st. snd (Seal p conv st)) convs st"

definition sealExpired :: "'w SealPipeline \<Rightarrow> gotime \<Rightarrow> ConversationTracker \<Rightarrow> ltm_table \<times> 'w \<Rightarrow> ConversationTracker \<times> ltm_table \<times> 'w" where
  "sealExpired p now t st = (case SealExpired now t of (convs, t') \<Rightarrow> (t', ProcessSealed p convs st))"

subsection \<open>Buffers\<close>

definition within_limits :: "TrackerConfig \<Rightarrow> Conversation \<Rightarrow> bool" where
  "within_limits cfg c \<longleftrightarrow> cv_Messages c \<noteq> [] \<and> int (length (cv_Messages c)) \<le> tk_MaxMessages cfg \<and>
     (EstimateTokens (cv_Messages c) \<le> tk_MaxTokens cfg \<or> length (cv_Messages c) = 1)"

definition tracker_ok :: "ConversationTracker \<Rightarrow> bool" where
  "tracker_ok t \<longleftrightarrow> 0 < tk_MaxMessages (ck_config t) \<and> list_all (\<lambda>(k, c). within_limits (ck_config t) c) (ck_convos t)"

datatype tracker_op = Record string string string string string gotime | Expire gotime

fun exec_tracker :: "tracker_op \<Rightarrow> ConversationTracker \<Rightarrow> Conversation list \<times> ConversationTracker" where
  "exec_tracker (Record newID room sender role content now) t = map_prod snd (\<lambda>t. t) (recordMessageAt newID room sender role content now t)"
| "exec_tracker (Expire now) t = SealExpired now t"

lemma trim_last: "xs \<noteq> [] \<Longrightarrow> TrimToTokenBudget xs b \<noteq> [] \<and> last (TrimToTokenBudget xs b) = last xs"
  by (induction xs b rule: TrimToTokenBudget.induct) auto

lemma cap_last: "0 < m \<Longrightarrow> xs \<noteq> [] \<Longrightarrow> cap_messages m xs \<noteq> [] \<and> last (cap_messages m xs) = last xs"
  by (auto simp: cap_messages_def)

lemma cap_length: "0 < m \<Longrightarrow> int (length (cap_messages m xs)) \<le> m"
  by (auto simp: cap_messages_def)

lemma trim_length: "length (TrimToTokenBudget xs b) \<le> length xs"
  using TrimToTokenBudget_suffix suffix_length_le by blast

lemma add_message_within:
  assumes "0 < tk_MaxMessages cfg"
  shows "within_limits cfg (add_message cfg role content now c)"
    and "last (cv_Messages (add_message cfg role content now c)) = \<lparr>me_Role = role, me_Content = content, me_Timestamp = now\<rparr>"
    and "cv_LastMsgAt (add_message cfg role content now c) = now" "cv_ID (add_message cfg role content now c) = cv_ID c"
    and "cv_Sealed (add_message cfg role content now c) = cv_Sealed c"
proof -
  let ?ms = "cv_Messages c @ [\<lparr>me_Role = role, me_Content = content, me_Timestamp = now\<rparr>]"
  let ?capped = "cap_messages (tk_MaxMessages cfg) ?ms"
  let ?trimmed = "TrimToTokenBudget ?capped (tk_MaxTokens cfg)"
  have capped: "?capped \<noteq> []" "last ?capped = last ?ms" using cap_last [OF assms, of ?ms] by simp_all
  have trimmed: "?trimmed \<noteq> []" "last ?trimmed = last ?ms" using trim_last [OF capped(1)] capped(2) by simp_all
  have "int (length ?trimmed) \<le> tk_MaxMessages cfg"
    using trim_length [of ?capped "tk_MaxTokens cfg"] cap_length [OF assms, of ?ms] by linarith
  moreover have "EstimateTokens ?trimmed \<le> tk_MaxTokens cfg \<or> length ?trimmed = 1"
    using TrimToTokenBudget_fits [of ?capped "tk_MaxTokens cfg"] trimmed(1) by (cases ?trimmed) auto
  ultimately show "within_limits cfg (add_message cfg role content now c)"
    using trimmed(1) by (simp add: within_limits_def add_message_def enforceBufferLimits_def)
qed (use assms trim_last cap_last in \<open>auto simp: add_message_def enforceBufferLimits_def\<close>)

lemma set_update_subset: "set (AList.update k v xs) \<subseteq> insert (k, v) (set xs)"
  by (induction xs) auto

lemma record_ok: "tracker_ok t \<Longrightarrow> tracker_ok (snd (recordMessageAt newID room sender role content now t))"
  using set_update_subset add_message_within(1)
  by (fastforce simp: tracker_ok_def recordMessageAt_def Let_def list_all_iff)

lemma exec_tracker_ok:
  assumes "tracker_ok t"
  shows "tracker_ok (snd (exec_tracker op t))"
proof (cases op)
  case (Expire now)
  then show ?thesis using assms by (auto simp: SealExpired_def tracker_ok_def list_all_iff)
qed (simp add: record_ok assms)

interpretation tracker: invariant_system exec_tracker tracker_ok
  by unfold_locales (rule exec_tracker_ok)

text \<open>Over any sequence of messages and expiry checks every active conversation stays within its limits: it has a message, at most the
  configured number of them, and fits the token budget unless a single message is left.\<close>

theorem tracker_stays_bounded: "tracker_ok (run_state exec_tracker ops (NewTracker cfg))"
proof (rule tracker.run_keeps)
  show "tracker_ok (NewTracker cfg)" by (simp add: tracker_ok_def NewTracker_def DefaultTrackerConfig_def)
qed

text \<open>A recorded message is the last one of the active conversation of its room and sender, until the conversation expires.\<close>

theorem recorded_message_active:
  assumes "tracker_ok t" "recordMessageAt newID room sender role content now t = ((i, sealed), t')"
  shows "\<exists>c. GetActive t' room sender = Some c \<and> cv_ID c = i \<and> last (cv_Messages c) = \<lparr>me_Role = role, me_Content = content, me_Timestamp = now\<rparr>"
proof -
  have m: "0 < tk_MaxMessages (ck_config t)" using assms(1) by (simp add: tracker_ok_def)
  show ?thesis using assms(2) add_message_within(2,4,5) [OF m]
    by (auto simp: recordMessageAt_def Let_def GetActive_def update_conv' new_conversation_def split: option.splits if_splits)
qed

theorem recorded_message_active_witness:
  "\<exists>c. GetActive (snd (recordMessageAt ''id'' ''!r'' ''@u'' ''user'' ''hello'' 5 (NewTracker DefaultTrackerConfig))) ''!r'' ''@u'' = Some c \<and> me_Content (last (cv_Messages c)) = ''hello''"
proof -
  obtain i sealed t' where r: "recordMessageAt ''id'' ''!r'' ''@u'' ''user'' ''hello'' 5 (NewTracker DefaultTrackerConfig) = ((i, sealed), t')"
    by (metis surj_pair)
  have "tracker_ok (NewTracker DefaultTrackerConfig)" by code_simp
  from recorded_message_active [OF this r] r show ?thesis by auto
qed

subsection \<open>Sealed once\<close>

text \<open>The identifiers of the active conversations, and those that an operation may draw.\<close>

definition active_ids :: "ConversationTracker \<Rightarrow> string list" where
  "active_ids t = map (cv_ID \<circ> snd) (ck_convos t)"

fun drawn :: "tracker_op \<Rightarrow> string list" where
  "drawn (Record newID room sender role content now) = [newID]"
| "drawn (Expire now) = []"

fun handed_out :: "tracker_op list \<Rightarrow> ConversationTracker \<Rightarrow> Conversation list" where
  "handed_out [] t = []"
| "handed_out (op # ops) t = (case exec_tracker op t of (out, t') \<Rightarrow> out @ handed_out ops t')"

lemma update_ids:
  assumes "map_of xs k = Some c"
  shows "mset (map (cv_ID \<circ> snd) (AList.update k v xs)) + {# cv_ID c #} = mset (map (cv_ID \<circ> snd) xs) + {# cv_ID v #}"
  using assms by (induction xs) (auto split: if_splits)

lemma update_ids_new:
  "map_of xs k = None \<Longrightarrow> image_mset (cv_ID \<circ> snd) (mset (AList.update k v xs)) = add_mset (cv_ID v) (image_mset (cv_ID \<circ> snd) (mset xs))"
  by (induction xs) (auto split: if_splits)

lemma distinct_subset:
  assumes "mset xs \<subseteq># mset ys" "distinct ys"
  shows "distinct xs"
proof -
  have le: "count (mset xs) a \<le> 1" for a
  proof -
    have "count (mset ys) a \<le> 1" using assms(2) by (simp add: distinct_count_atmost_1)
    with mset_subset_eq_count [OF assms(1), of a] show ?thesis by linarith
  qed
  have "count (mset xs) a = (if a \<in> set xs then 1 else 0)" for a
    using le [of a] count_mset_0_iff [of xs a] by (cases "count (mset xs) a") auto
  then show ?thesis by (simp add: distinct_count_atmost_1)
qed

text \<open>An operation gives out or keeps every identifier at most as often as it was active or drawn.\<close>

lemma add_message_id [simp]: "cv_ID (add_message cfg role content now c) = cv_ID c"
  by (simp add: add_message_def enforceBufferLimits_def)

lemma record_ids:
  assumes "recordMessageAt newID room sender role content now t = ((i, out), t')"
  shows "mset (map cv_ID out) + mset (active_ids t') \<subseteq># mset (active_ids t) + {# newID #}"
proof (cases "map_of (ck_convos t) (sessionKey room sender)")
  case None
  then show ?thesis using assms by (auto simp: recordMessageAt_def Let_def active_ids_def update_ids_new new_conversation_def)
next
  case (Some c)
  define fresh where "fresh = add_message (ck_config t) role content now (new_conversation newID room sender now)"
  define next_conv where "next_conv = (if expired (ck_config t) now c \<or> cv_Sealed c then fresh else add_message (ck_config t) role content now c)"
  have t': "active_ids t' = map (cv_ID \<circ> snd) (AList.update (sessionKey room sender) next_conv (ck_convos t))"
    and out: "map cv_ID out = (if expired (ck_config t) now c then [cv_ID c] else [])"
    using assms Some by (auto simp: recordMessageAt_def Let_def active_ids_def next_conv_def fresh_def sealed_copy_def)
  have sum: "mset (active_ids t') + {# cv_ID c #} = mset (active_ids t) + {# cv_ID next_conv #}"
    using update_ids [OF Some, of next_conv] t' by (simp add: active_ids_def)
  show ?thesis
  proof (cases "expired (ck_config t) now c \<or> cv_Sealed c")
    case True
    then have "cv_ID next_conv = newID" by (simp add: next_conv_def fresh_def new_conversation_def)
    moreover have "mset (map cv_ID out) + mset (active_ids t') \<subseteq># mset (active_ids t') + {# cv_ID c #}" using out by simp
    ultimately show ?thesis unfolding sum by simp
  next
    case False
    then show ?thesis using sum out by (simp add: next_conv_def)
  qed
qed

lemma filter_ids: "mset (map f (filter P xs)) + mset (map f (filter (\<lambda>x. \<not> P x) xs)) = mset (map f xs)"
  by (induction xs) auto

lemma exec_ids:
  assumes "exec_tracker op t = (out, t')"
  shows "mset (map cv_ID out) + mset (active_ids t') \<subseteq># mset (active_ids t) + mset (drawn op)"
proof (cases op)
  case (Record newID room sender role content now)
  then show ?thesis using assms record_ids [of newID room sender role content now t]
    by (cases "recordMessageAt newID room sender role content now t") (auto simp: map_prod_def)
next
  case (Expire now)
  let ?P = "\<lambda>(k, c). expired (ck_config t) now c"
  have "map cv_ID out = map (cv_ID \<circ> snd) (filter ?P (ck_convos t))"
    "active_ids t' = map (cv_ID \<circ> snd) (filter (\<lambda>x. \<not> ?P x) (ck_convos t))"
    using Expire assms by (auto simp: SealExpired_def sealed_copy_def active_ids_def case_prod_unfold)
  then show ?thesis using Expire filter_ids [of "cv_ID \<circ> snd" ?P "ck_convos t"] by (simp only: active_ids_def) simp
qed

lemma handed_out_ids:
  "mset (map cv_ID (handed_out ops t)) + mset (active_ids (run_state exec_tracker ops t)) \<subseteq># mset (active_ids t) + mset (concat (map drawn ops))"
proof (induction ops arbitrary: t)
  case (Cons op ops)
  obtain out t' where e: "exec_tracker op t = (out, t')" by (cases "exec_tracker op t")
  let ?D = "mset (concat (map drawn ops))"
  have "mset (map cv_ID out) + (mset (map cv_ID (handed_out ops t')) + mset (active_ids (run_state exec_tracker ops t'))) \<subseteq>#
      mset (map cv_ID out) + (mset (active_ids t') + ?D)"
    by (rule subset_mset.add_left_mono, rule Cons.IH)
  also have "\<dots> = (mset (map cv_ID out) + mset (active_ids t')) + ?D" by (simp only: add.assoc)
  also have "\<dots> \<subseteq># (mset (active_ids t) + mset (drawn op)) + ?D" by (rule subset_mset.add_right_mono, rule exec_ids [OF e])
  finally show ?case using e by (simp add: add.assoc)
qed simp

text \<open>No conversation reaches the archive twice, nor while it is still active: when identifiers are not drawn twice, those of the conversations given
  out over any sequence of messages and expiry checks are distinct from each other and from the active ones.\<close>

theorem conversations_sealed_once:
  assumes "distinct (active_ids t @ concat (map drawn ops))"
  shows "distinct (map cv_ID (handed_out ops t) @ active_ids (run_state exec_tracker ops t))"
proof (rule distinct_subset [OF _ assms])
  show "mset (map cv_ID (handed_out ops t) @ active_ids (run_state exec_tracker ops t)) \<subseteq># mset (active_ids t @ concat (map drawn ops))"
    using handed_out_ids [of ops t] by simp
qed

definition sample_ops :: "tracker_op list" where
  "sample_ops = [Record ''1'' ''!r'' ''@u'' ''user'' ''hello'' 5, Record ''2'' ''!r'' ''@u'' ''user'' ''again'' (20 * minute), Expire (60 * minute)]"

theorem conversations_sealed_once_witness:
  "distinct (map cv_ID (handed_out sample_ops (NewTracker DefaultTrackerConfig)) @ active_ids (run_state exec_tracker sample_ops (NewTracker DefaultTrackerConfig))) \<and>
   map cv_ID (handed_out sample_ops (NewTracker DefaultTrackerConfig)) = [''1'', ''2'']"
proof -
  have "distinct (active_ids (NewTracker DefaultTrackerConfig) @ concat (map drawn sample_ops))" by code_simp
  moreover have "map cv_ID (handed_out sample_ops (NewTracker DefaultTrackerConfig)) = [''1'', ''2'']" by code_simp
  ultimately show ?thesis using conversations_sealed_once by blast
qed

subsection \<open>Archived\<close>

definition archived :: "Conversation \<Rightarrow> ltm_table \<Rightarrow> bool" where
  "archived c tbl \<longleftrightarrow> (\<exists>r \<in> set tbl. lr_id r = cv_ID c \<and> lr_room r = cv_RoomID c \<and> lr_sender r = cv_SenderID c \<and> lr_messages r = cv_Messages c)"

text \<open>What the archive needs of the outside: statements succeed and the vectors of the embedder are finite.\<close>

definition archive_works :: "'w SealPipeline \<Rightarrow> bool" where
  "archive_works p \<longleftrightarrow> (\<forall>w. fst (sl_fault p w) = None) \<and> (\<forall>s w v. fst (sl_embed p s w) = Inr (Some v) \<longrightarrow> list_all finite_float v)"

lemma embedding_finite: "archive_works p \<Longrightarrow> embed_summary p summary w = (Some v, w') \<Longrightarrow> list_all finite_float v"
  by (auto simp: archive_works_def embed_summary_def split: if_splits prod.splits sum.splits) (metis fst_conv)

lemma Seal_archives:
  assumes "archive_works p"
  shows "archived c (fst (snd (Seal p c (tbl, w))))"
    and "archived d tbl \<Longrightarrow> cv_ID d \<noteq> cv_ID c \<Longrightarrow> archived d (fst (snd (Seal p c (tbl, w))))"
proof -
  obtain s w1 where s: "sl_summarise p (cv_Messages c) w = (s, w1)" by (cases "sl_summarise p (cv_Messages c) w")
  define summary where "summary = (case s of Inl _ \<Rightarrow> [] | Inr x \<Rightarrow> x)"
  obtain emb w2 where e: "embed_summary p summary w1 = (emb, w2)" by (cases "embed_summary p summary w1")
  obtain now w3 where n: "sl_now p w2 = (now, w3)" by (cases "sl_now p w2")
  obtain w4 where f: "sl_fault p w3 = (None, w4)" using assms by (cases "sl_fault p w3") (auto simp: archive_works_def, metis fst_conv)
  have "emb = Some v \<Longrightarrow> list_all finite_float v" for v using embedding_finite [OF assms] e by blast
  then have tbl: "fst (snd (Seal p c (tbl, w))) = filter (\<lambda>r. lr_id r \<noteq> cv_ID c) tbl @ [row_of (memory_entry c summary now) emb]"
    using s e n f by (auto simp: Seal_def Store_ltm_def summary_def [symmetric] memory_entry_def split: option.splits)
  show "archived c (fst (snd (Seal p c (tbl, w))))" "archived d tbl \<Longrightarrow> cv_ID d \<noteq> cv_ID c \<Longrightarrow> archived d (fst (snd (Seal p c (tbl, w))))"
    unfolding tbl by (auto simp: archived_def row_of_def memory_entry_def)
qed

lemma ProcessSealed_archives:
  assumes "archive_works p"
  shows "distinct (map cv_ID convs) \<Longrightarrow> c \<in> set convs \<or> (archived c (fst st) \<and> cv_ID c \<notin> cv_ID ` set convs) \<Longrightarrow>
    archived c (fst (ProcessSealed p convs st))"
proof (induction convs arbitrary: st)
  case (Cons d convs)
  have "c \<in> set convs \<or> archived c (fst (snd (Seal p d st))) \<and> cv_ID c \<notin> cv_ID ` set convs"
    using Cons.prems Seal_archives(1) [OF assms, of d "fst st" "snd st"] Seal_archives(2) [OF assms, of c "fst st" d "snd st"] by auto
  with Cons.IH [of "snd (Seal p d st)"] Cons.prems(1) show ?case by (simp add: ProcessSealed_def)
qed (simp add: ProcessSealed_def)

text \<open>Every conversation that expired is archived with all its messages, and no expired one stays active, whatever the summariser and the
  embedder answer, as long as the statements on the table succeed and vectors are finite.\<close>

theorem expired_conversations_archived:
  assumes "archive_works p" "distinct (active_ids t)" "sealExpired p now t st = (t', st')" "(k, c) \<in> set (ck_convos t)" "expired (ck_config t) now c"
  shows "archived c (fst st') \<and> (\<forall>(k', c') \<in> set (ck_convos t'). \<not> expired (ck_config t) now c')"
proof -
  let ?convs = "map (sealed_copy \<circ> snd) (filter (\<lambda>(k, c). expired (ck_config t) now c) (ck_convos t))"
  have "map cv_ID ?convs = map (cv_ID \<circ> snd) (filter (\<lambda>(k, c). expired (ck_config t) now c) (ck_convos t))" by (simp add: sealed_copy_def)
  moreover have "distinct (map (cv_ID \<circ> snd) (filter (\<lambda>(k, c). expired (ck_config t) now c) (ck_convos t)))"
    using assms(2) by (simp add: active_ids_def distinct_map_filter)
  ultimately have d: "distinct (map cv_ID ?convs)" by (simp only:)
  have "sealed_copy c \<in> set ?convs" using assms(4,5) by force
  then have "archived (sealed_copy c) (fst (ProcessSealed p ?convs st))" using ProcessSealed_archives [OF assms(1) d] by blast
  then have "archived c (fst st')" using assms(3) by (simp add: archived_def sealed_copy_def sealExpired_def SealExpired_def)
  moreover have "\<forall>(k', c') \<in> set (ck_convos t'). \<not> expired (ck_config t) now c'" using assms(3) by (auto simp: sealExpired_def SealExpired_def)
  ultimately show ?thesis by simp
qed

definition failing_pipeline :: "unit SealPipeline" where
  "failing_pipeline = \<lparr>sl_summarise = (\<lambda>_. Pair (Inl ''no model'')), sl_embed = (\<lambda>_. Pair (Inl ''no model'')), sl_now = Pair 0, sl_fault = Pair None\<rparr>"

theorem expired_conversations_archived_witness:
  "\<exists>c. archived c (fst (snd (sealExpired failing_pipeline (60 * minute)
      (snd (recordMessageAt ''1'' ''!r'' ''@u'' ''user'' ''hello'' 5 (NewTracker DefaultTrackerConfig))) ([], ())))) \<and> me_Content (hd (cv_Messages c)) = ''hello''"
proof -
  let ?t = "snd (recordMessageAt ''1'' ''!r'' ''@u'' ''user'' ''hello'' 5 (NewTracker DefaultTrackerConfig))"
  obtain t' st' where run: "sealExpired failing_pipeline (60 * minute) ?t ([], ()) = (t', st')" by (metis surj_pair)
  have "archive_works failing_pipeline" by (simp add: archive_works_def failing_pipeline_def)
  moreover have "distinct (active_ids ?t)" by code_simp
  moreover have "hd (ck_convos ?t) \<in> set (ck_convos ?t)" by (rule hd_in_set) code_simp
  moreover have "expired (ck_config ?t) (60 * minute) (snd (hd (ck_convos ?t)))" by code_simp
  ultimately have "archived (snd (hd (ck_convos ?t))) (fst st')"
    using expired_conversations_archived [OF _ _ run, of "fst (hd (ck_convos ?t))" "snd (hd (ck_convos ?t))"] by simp
  moreover have "me_Content (hd (cv_Messages (snd (hd (ck_convos ?t))))) = ''hello''" by code_simp
  ultimately show ?thesis using run by auto
qed

end
