(* ===== verification/Redact.thy ===== *)
theory Redact
  imports Go_Values
begin

section \<open>Redaction\<close>

text \<open>
  \<^verbatim>\<open>common/redact/redact.go\<close>, which strips sensitive values from log lines and maps.  A value of at least four bytes that shares no character with the
  placeholder does not survive, whatever else is redacted; a value that overlaps the placeholder can.
\<close>

definition placeholder :: string where "placeholder = ''[REDACTED]''"

definition String_redact :: "string \<Rightarrow> string list \<Rightarrow> string" where
  "String_redact s sensitiveValues = fold (\<lambda>v s. if length v < 4 then s else replace_all v placeholder s) sensitiveValues s"

definition isSensitiveKey :: "string \<Rightarrow> bool" where
  "isSensitiveKey key = (let lower = to_lower key in
     list_ex (str_contains lower) [''password'', ''passwd'', ''token'', ''secret'', ''key'', ''credential'', ''auth'', ''apikey''])"

definition redact_value :: "string \<Rightarrow> gvalue \<Rightarrow> gvalue" where
  "redact_value k v = (if isSensitiveKey k then (case v of GStr s \<Rightarrow> if s \<noteq> [] then GStr placeholder else v | _ \<Rightarrow> v) else v)"

definition Map_redact :: "gmap \<Rightarrow> gmap" where
  "Map_redact m = map (\<lambda>(k, v). (k, redact_value k v)) m"

definition RedactSecrets :: "string \<Rightarrow> string list \<Rightarrow> string" where
  "RedactSecrets msg sensitiveValues = String_redact msg sensitiveValues"

subsection \<open>Replaced text is gone\<close>

lemma replace_all_Nil [simp]: "replace_all old new [] = []"
  by (subst replace_all.simps) simp

lemma replace_all_Cons:
  "replace_all old new (c # cs) = (if old \<noteq> [] \<and> has_prefix (c # cs) old then new @ replace_all old new (drop (length old) (c # cs)) else c # replace_all old new cs)"
  by (subst replace_all.simps) simp

text \<open>Text before a replacement that shares no character with it was copied.\<close>

lemma copied_prefix:
  "replace_all old new s = x @ b \<Longrightarrow> set x \<inter> set new = {} \<Longrightarrow> new \<noteq> [] \<Longrightarrow> has_prefix s x"
proof (induction s arbitrary: x b)
  case (Cons c cs)
  show ?case
  proof (cases x)
    case (Cons d x')
    show ?thesis
    proof (cases "old \<noteq> [] \<and> has_prefix (c # cs) old")
      case True
      then have "hd new = d" using Cons.prems Cons by (cases new) (auto simp: replace_all_Cons)
      then show ?thesis using Cons.prems Cons hd_in_set by fastforce
    next
      case False
      then have "c = d" "replace_all old new cs = x' @ b" using Cons.prems(1) Cons by (auto simp: replace_all_Cons)
      then show ?thesis using Cons.IH [of x' b] Cons.prems(2,3) Cons by (auto simp: has_prefix_iff)
    qed
  qed (simp add: has_prefix_iff)
qed (simp add: has_prefix_iff)

lemma skip_new:
  assumes "new @ r = a @ x @ b" "set x \<inter> set new = {}" "x \<noteq> []"
  shows "\<exists>a'. r = a' @ x @ b"
proof (cases "length a < length new")
  case True
  then have "(new @ r) ! length a = new ! length a" by (simp add: nth_append)
  moreover have "(new @ r) ! length a = hd x" using assms(1,3) by (simp add: nth_append hd_conv_nth)
  ultimately have "hd x \<in> set new" using True by (metis nth_mem)
  then show ?thesis using assms(2,3) hd_in_set by blast
next
  case False
  then have "r = drop (length new) a @ x @ b" using arg_cong [OF assms(1), of "drop (length new)"] by simp
  then show ?thesis by blast
qed

lemma copied_occurrence:
  "replace_all old new s = a @ x @ b \<Longrightarrow> set x \<inter> set new = {} \<Longrightarrow> new \<noteq> [] \<Longrightarrow> x \<noteq> [] \<Longrightarrow> str_contains s x \<and> x \<noteq> old"
proof (induction old new s arbitrary: a rule: replace_all.induct)
  case (1 old new s)
  show ?case
  proof (cases s)
    case (Cons c cs)
    show ?thesis
    proof (cases "old \<noteq> [] \<and> has_prefix s old")
      case True
      then have "new @ replace_all old new (drop (length old) s) = a @ x @ b" using "1.prems"(1) Cons by (simp add: replace_all_Cons)
      then obtain a' where "replace_all old new (drop (length old) s) = a' @ x @ b" using skip_new "1.prems"(2,4) by blast
      then have "str_contains (drop (length old) s) x \<and> x \<noteq> old" using "1.IH"(1) [OF Cons] True "1.prems"(2,3,4) by blast
      then show ?thesis using str_contains_append_left [of "drop (length old) s" x "take (length old) s"] by simp
    next
      case False
      then have r: "c # replace_all old new cs = a @ x @ b" using "1.prems"(1) Cons by (auto simp: replace_all_Cons)
      show ?thesis
      proof (cases a)
        case Nil
        then obtain x' where x: "x = c # x'" "replace_all old new cs = x' @ b" using r "1.prems"(4) by (cases x) auto
        then have "has_prefix cs x'" using copied_prefix [OF x(2)] "1.prems"(2,3) by auto
        then have "has_prefix s x" using x(1) Cons by (auto simp: has_prefix_iff)
        then show ?thesis using False "1.prems"(4) by (auto simp: str_contains_iff has_prefix_iff)
      next
        case (Cons d a')
        then have "str_contains cs x \<and> x \<noteq> old" using "1.IH"(2) [OF \<open>s = c # cs\<close>, of a'] False r "1.prems"(2,3,4) by auto
        then show ?thesis using \<open>s = c # cs\<close> str_contains_append_left [of cs x "[c]"] by simp
      qed
    qed
  qed (use "1.prems" in simp)
qed

lemma replaced_gone:
  "set x \<inter> set new = {} \<Longrightarrow> new \<noteq> [] \<Longrightarrow> x \<noteq> [] \<Longrightarrow> \<not> str_contains (replace_all x new s) x"
  using copied_occurrence [of x new s _ x] by (auto simp: str_contains_iff)

lemma replaced_stays_gone:
  "set x \<inter> set new = {} \<Longrightarrow> new \<noteq> [] \<Longrightarrow> x \<noteq> [] \<Longrightarrow> \<not> str_contains s x \<Longrightarrow> \<not> str_contains (replace_all old new s) x"
  using copied_occurrence [of old new s _ x] by (metis str_contains_iff)

text \<open>A sensitive value of at least four bytes that shares no character with the placeholder does not occur in the redacted text, whatever other
  values are redacted before or after it.\<close>

theorem redacted_values_gone:
  assumes "v \<in> set vs" "4 \<le> length v" "set v \<inter> set placeholder = {}"
  shows "\<not> str_contains (RedactSecrets s vs) v"
proof -
  have ne: "v \<noteq> []" "placeholder \<noteq> []" using assms(2) by (auto simp: placeholder_def)
  have stays: "\<not> str_contains t v \<Longrightarrow> \<not> str_contains (String_redact t us) v" for t us
    unfolding String_redact_def by (induction us arbitrary: t) (simp_all add: replaced_stays_gone [OF assms(3) ne(2,1)])
  obtain us ws where "vs = us @ v # ws" using assms(1) by (auto dest: split_list)
  then have "RedactSecrets s vs = String_redact (replace_all v placeholder (String_redact s us)) ws"
    using assms(2) by (simp add: RedactSecrets_def String_redact_def)
  then show ?thesis using stays replaced_gone [OF assms(3) ne(2,1)] by simp
qed

theorem redacted_values_gone_witness: "\<not> str_contains (RedactSecrets ''token=abcd1234 ok'' [''abcd1234'', ''xyzw'']) ''abcd1234''"
  by (rule redacted_values_gone) (simp_all add: placeholder_def)

text \<open>A value that overlaps the placeholder can be put together again by the replacement.\<close>

theorem redaction_rebuilds_value: "str_contains (RedactSecrets ''D]ab and D]abab'' [''D]ab'']) ''D]ab''"
  by code_simp

text \<open>A string under a sensitive key does not survive the redaction of a map.\<close>

theorem sensitive_keys_redacted:
  "map_of (Map_redact m) k = Some (GStr s) \<Longrightarrow> isSensitiveKey k \<Longrightarrow> s = [] \<or> s = placeholder"
  by (induction m) (auto simp: Map_redact_def redact_value_def split: if_splits gvalue.splits)

end
