(* ===== verification/Gosuto_Loader.thy ===== *)
theory Gosuto_Loader
  imports Gosuto_Validate Stores
begin

section \<open>The live configuration of the agent\<close>

text \<open>
  \<^verbatim>\<open>internal/gitai/gosuto/loader.go\<close>: the loader holds the configuration an agent runs.  The YAML decoder, SHA-256 and the file system are parameters.  A
  configuration that does not parse or validate changes nothing, so that what an agent runs is always valid and its hash is that of its text.
\<close>

record Loader =
  ld_config :: "Config option"
  ld_hash :: string
  ld_yaml :: string

definition New_loader :: Loader where
  "New_loader = \<lparr>ld_config = None, ld_hash = [], ld_yaml = []\<rparr>"

datatype load_error = ReadFile string | ParseYAML string | InvalidConfig gosuto_error

definition Apply :: "(string \<Rightarrow> string + Config) \<Rightarrow> (string \<Rightarrow> string) \<Rightarrow> string \<Rightarrow> Loader \<Rightarrow> load_error option \<times> Loader" where
  "Apply unmarshal sha data l = (case unmarshal data of
       Inl e \<Rightarrow> (Some (ParseYAML e), l)
     | Inr cfg \<Rightarrow> (case Validate (Some cfg) of
         Some e \<Rightarrow> (Some (InvalidConfig e), l)
       | None \<Rightarrow> (None, \<lparr>ld_config = Some cfg, ld_hash = sha data, ld_yaml = data\<rparr>)))"

definition LoadFile :: "(string \<Rightarrow> string + Config) \<Rightarrow> (string \<Rightarrow> string) \<Rightarrow> (string \<Rightarrow> string + string) \<Rightarrow> string \<Rightarrow> Loader \<Rightarrow> load_error option \<times> Loader" where
  "LoadFile unmarshal sha readFile path l = (case readFile path of
       Inl e \<Rightarrow> (Some (ReadFile e), l)
     | Inr data \<Rightarrow> Apply unmarshal sha data l)"

definition live_ok :: "(string \<Rightarrow> string + Config) \<Rightarrow> (string \<Rightarrow> string) \<Rightarrow> Loader \<Rightarrow> bool" where
  "live_ok unmarshal sha l \<longleftrightarrow> (case ld_config l of
       None \<Rightarrow> ld_hash l = [] \<and> ld_yaml l = []
     | Some cfg \<Rightarrow> Validate (Some cfg) = None \<and> unmarshal (ld_yaml l) = Inr cfg \<and> ld_hash l = sha (ld_yaml l))"

datatype load_op = ApplyData string | ReadAndApply "string + string"

fun exec_loader :: "(string \<Rightarrow> string + Config) \<Rightarrow> (string \<Rightarrow> string) \<Rightarrow> load_op \<Rightarrow> Loader \<Rightarrow> load_error option \<times> Loader" where
  "exec_loader unmarshal sha (ApplyData data) l = Apply unmarshal sha data l"
| "exec_loader unmarshal sha (ReadAndApply file) l = LoadFile unmarshal sha (\<lambda>_. file) [] l"

lemma exec_loader_ok: "live_ok unmarshal sha l \<Longrightarrow> live_ok unmarshal sha (snd (exec_loader unmarshal sha op l))"
  by (cases op) (auto simp: Apply_def LoadFile_def live_ok_def split: sum.splits option.splits)

interpretation loader: invariant_system "exec_loader unmarshal sha" "live_ok unmarshal sha" for unmarshal sha
  by unfold_locales (rule exec_loader_ok)

text \<open>Over any sequence of reloads, from files and over the network, the configuration that the agent runs passes validation, is what its text
  decodes to, and is reported with the hash of that text.\<close>

theorem live_configuration_valid: "live_ok unmarshal sha (run_state (exec_loader unmarshal sha) ops New_loader)"
  by (rule loader.run_keeps) (simp add: live_ok_def New_loader_def)

text \<open>A reload that is refused leaves the running configuration as it is.\<close>

theorem refused_reload_harmless: "fst (exec_loader unmarshal sha op l) \<noteq> None \<Longrightarrow> snd (exec_loader unmarshal sha op l) = l"
  by (cases op) (auto simp: Apply_def LoadFile_def split: sum.splits option.splits)

theorem refused_reload_harmless_witness:
  "snd (exec_loader (\<lambda>_. Inl ''bad yaml'') id (ApplyData ''x'') New_loader) = New_loader"
  by (rule refused_reload_harmless) (simp add: Apply_def)

end
