(* ===== verification/Supervisors.thy ===== *)
theory Supervisors
  imports Gosuto_Types Stores
begin

section \<open>The child processes of the agent\<close>

text \<open>
  \<^verbatim>\<open>internal/gitai/supervisor\<close>: the supervisor of the MCP servers (\<^verbatim>\<open>supervisor.go\<close>) and that of external gateways (\<^verbatim>\<open>gateway.go\<close>).  The environment of the
  process and the fate of a start are arguments; the goroutine that watches a server is a round of \<open>watch_tick\<close>, and the life of one gateway together
  with a reconciliation that stops it is a step relation.  The theory shows what a reconciliation leaves running, and where the code falls short of
  it: a watcher brings back a server that was removed, and a reconciliation can wait for ever for a gateway that waits for its lock.
\<close>

subsection \<open>MCP servers\<close>

record mcp_process =
  mc_spec :: MCPServer
  mc_env :: "string list"

record Supervisor =
  su_clients :: "(string \<times> mcp_process) list"
  su_specs :: "MCPServer list"
  su_secretEnv :: "(string \<times> string) list"
  su_watchers :: "MCPServer list"
  su_stopped :: bool

definition New_supervisor :: Supervisor where
  "New_supervisor = \<lparr>su_clients = [], su_specs = [], su_secretEnv = [], su_watchers = [], su_stopped = False\<rparr>"

definition assignments :: "(string \<times> string) list \<Rightarrow> string list" where
  "assignments env = map (\<lambda>(k, v). k @ ''='' @ v) env"

definition buildEnv :: "string list \<Rightarrow> MCPServer \<Rightarrow> (string \<times> string) list \<Rightarrow> string list" where
  "buildEnv environ sp secretEnv = environ @ assignments (mcp_Env sp) @ assignments secretEnv"

text \<open>\<open>up sp\<close> says whether the process of a server starts.\<close>

definition put_client :: "string list \<Rightarrow> MCPServer \<Rightarrow> Supervisor \<Rightarrow> Supervisor" where
  "put_client environ sp s =
     s\<lparr>su_clients := AList.update (mcp_Name sp) \<lparr>mc_spec = sp, mc_env = buildEnv environ sp (su_secretEnv s)\<rparr> (su_clients s)\<rparr>"

definition start_server :: "string list \<Rightarrow> (MCPServer \<Rightarrow> bool) \<Rightarrow> MCPServer \<Rightarrow> Supervisor \<Rightarrow> Supervisor" where
  "start_server environ up sp s =
     (let s1 = (if up sp then put_client environ sp s else s) in
      if mcp_AutoRestart sp then s1\<lparr>su_watchers := su_watchers s1 @ [sp]\<rparr> else s1)"

definition ApplySecrets_mcp :: "string list \<Rightarrow> (MCPServer \<Rightarrow> bool) \<Rightarrow> (string \<times> string) list \<Rightarrow> Supervisor \<Rightarrow> Supervisor" where
  "ApplySecrets_mcp environ up env s =
     (let s1 = s\<lparr>su_secretEnv := env\<rparr> in
      if su_clients s1 = [] then s1
      else fold (start_server environ up) (su_specs s1) (s1\<lparr>su_clients := []\<rparr>))"

definition index_specs :: "('a \<Rightarrow> string) \<Rightarrow> 'a list \<Rightarrow> (string \<times> 'a) list" where
  "index_specs name specs = fold (\<lambda>sp w. AList.update (name sp) sp w) specs []"

definition start_if_missing :: "string list \<Rightarrow> (MCPServer \<Rightarrow> bool) \<Rightarrow> string \<times> MCPServer \<Rightarrow> Supervisor \<Rightarrow> Supervisor" where
  "start_if_missing environ up = (\<lambda>(name, sp) s. if map_of (su_clients s) name = None then start_server environ up sp s else s)"

definition Reconcile_mcp :: "string list \<Rightarrow> (MCPServer \<Rightarrow> bool) \<Rightarrow> MCPServer list \<Rightarrow> Supervisor \<Rightarrow> Supervisor" where
  "Reconcile_mcp environ up specs s =
     (let wanted = index_specs mcp_Name specs;
          s1 = s\<lparr>su_clients := filter (\<lambda>(name, _). map_of wanted name \<noteq> None) (su_clients s)\<rparr>
      in (fold (start_if_missing environ up) wanted s1)\<lparr>su_specs := specs\<rparr>)"

definition Get_mcp :: "Supervisor \<Rightarrow> string \<Rightarrow> mcp_process option" where
  "Get_mcp s name = map_of (su_clients s) name"

definition Names_mcp :: "Supervisor \<Rightarrow> string list" where
  "Names_mcp s = map fst (su_clients s)"

definition Stop_mcp :: "Supervisor \<Rightarrow> Supervisor" where
  "Stop_mcp s = s\<lparr>su_clients := [], su_stopped := True\<rparr>"

text \<open>One round of the watcher of a server.\<close>

definition watch_tick :: "string list \<Rightarrow> (MCPServer \<Rightarrow> bool) \<Rightarrow> MCPServer \<Rightarrow> Supervisor \<Rightarrow> Supervisor" where
  "watch_tick environ up sp s =
     (if su_stopped s then s\<lparr>su_watchers := remove1 sp (su_watchers s)\<rparr>
      else if map_of (su_clients s) (mcp_Name sp) \<noteq> None then s
      else if up sp then put_client environ sp s else s)"

definition running :: "Supervisor \<Rightarrow> string set" where
  "running s = set (Names_mcp s)"

lemma index_specs_keys: "fst ` set (index_specs name specs) = name ` set specs"
proof -
  have "fst ` set (fold (\<lambda>sp w. AList.update (name sp) sp w) specs w) = fst ` set w \<union> name ` set specs" for w
    by (induction specs arbitrary: w) (auto simp: dom_update)
  then show ?thesis by (simp add: index_specs_def)
qed

lemma index_specs_name: "(n, sp) \<in> set (index_specs name specs) \<Longrightarrow> n = name sp \<and> sp \<in> set specs"
proof -
  have "(n, sp) \<in> set (fold (\<lambda>sp w. AList.update (name sp) sp w) specs w) \<Longrightarrow> (n = name sp \<and> sp \<in> set specs) \<or> (n, sp) \<in> set w" for w
  proof (induction specs arbitrary: w)
    case (Cons s specs)
    have "set (AList.update (name s) s w) \<subseteq> insert (name s, s) (set w)" by (induction w) auto
    with Cons show ?case by fastforce
  qed simp
  then show "(n, sp) \<in> set (index_specs name specs) \<Longrightarrow> n = name sp \<and> sp \<in> set specs" by (force simp: index_specs_def)
qed

lemma start_running: "running (start_if_missing environ up (mcp_Name sp, sp) s) = running s \<union> (if up sp then {mcp_Name sp} else {})"
  by (auto simp: start_if_missing_def start_server_def put_client_def running_def Names_mcp_def Let_def dom_update map_of_eq_None_iff)

text \<open>What a reconciliation leaves running: of the servers in the configuration those that ran already or whose start succeeds, and no others.\<close>

theorem mcp_reconcile_exact:
  "running (Reconcile_mcp environ up specs s) =
     mcp_Name ` set specs \<inter> (running s \<union> {mcp_Name sp |sp. sp \<in> snd ` set (index_specs mcp_Name specs) \<and> up sp})"
proof -
  let ?wanted = "index_specs mcp_Name specs"
  let ?s1 = "s\<lparr>su_clients := filter (\<lambda>(name, _). map_of ?wanted name \<noteq> None) (su_clients s)\<rparr>"
  have "(\<forall>(n, sp) \<in> set w. n = mcp_Name sp) \<Longrightarrow>
      running (fold (start_if_missing environ up) w t) = running t \<union> {mcp_Name sp |sp. sp \<in> snd ` set w \<and> up sp}" for w t
  proof (induction w arbitrary: t)
    case (Cons p w)
    then obtain sp where p: "p = (mcp_Name sp, sp)" by (cases p) auto
    show ?case using Cons.IH [of "start_if_missing environ up p t"] Cons.prems unfolding p by (auto simp: start_running)
  qed simp
  moreover have "\<forall>(n, sp) \<in> set ?wanted. n = mcp_Name sp" using index_specs_name by fastforce
  ultimately have "running (Reconcile_mcp environ up specs s) = running ?s1 \<union> {mcp_Name sp |sp. sp \<in> snd ` set ?wanted \<and> up sp}"
    by (simp add: Reconcile_mcp_def Let_def running_def Names_mcp_def)
  moreover have "running ?s1 = running s \<inter> mcp_Name ` set specs"
    using index_specs_keys [of mcp_Name specs] by (auto simp: running_def Names_mcp_def map_of_eq_None_iff image_iff)
  moreover have "{mcp_Name sp |sp. sp \<in> snd ` set ?wanted \<and> up sp} \<subseteq> mcp_Name ` set specs" using index_specs_name by fastforce
  ultimately show ?thesis by blast
qed

definition sample_server :: MCPServer where
  "sample_server = \<lparr>mcp_Name = ''files'', mcp_Command = ''mcp-files'', mcp_Args = [], mcp_Env = [], mcp_AutoRestart = True\<rparr>"

text \<open>The watcher of a server does not look at the configuration: a server that was removed is started again five seconds later.\<close>

theorem removed_server_returns:
  "''files'' \<notin> running (Reconcile_mcp [] (\<lambda>_. True) [] (Reconcile_mcp [] (\<lambda>_. True) [sample_server] New_supervisor)) \<and>
   ''files'' \<in> running (watch_tick [] (\<lambda>_. True) sample_server
     (Reconcile_mcp [] (\<lambda>_. True) [] (Reconcile_mcp [] (\<lambda>_. True) [sample_server] New_supervisor)))"
  by code_simp

text \<open>A server whose command changed keeps running with the old one.\<close>

theorem changed_server_not_restarted:
  "map (mc_spec \<circ> snd) (su_clients (Reconcile_mcp [] (\<lambda>_. True) [sample_server\<lparr>mcp_Command := ''mcp-files-2''\<rparr>]
     (Reconcile_mcp [] (\<lambda>_. True) [sample_server] New_supervisor))) = [sample_server]"
  by code_simp

text \<open>Every refresh of the secrets starts another watcher of the same server, and none ends before the supervisor does.\<close>

theorem watchers_accumulate:
  "length (su_watchers (ApplySecrets_mcp [] (\<lambda>_. True) env2 (ApplySecrets_mcp [] (\<lambda>_. True) env1
     (Reconcile_mcp [] (\<lambda>_. True) [sample_server] New_supervisor)))) = 3"
  by (simp add: ApplySecrets_mcp_def Reconcile_mcp_def start_if_missing_def index_specs_def start_server_def put_client_def sample_server_def
      New_supervisor_def Let_def)

subsection \<open>External gateways\<close>

record GatewaySupervisor =
  gs_processes :: "(string \<times> Gateway) list"
  gs_specs :: "Gateway list"
  gs_secretEnv :: "(string \<times> string) list"
  gs_acpURL :: string

definition NewExternalGatewaySupervisor :: "string \<Rightarrow> GatewaySupervisor" where
  "NewExternalGatewaySupervisor acpURL = \<lparr>gs_processes = [], gs_specs = [], gs_secretEnv = [], gs_acpURL = acpURL\<rparr>"

definition ApplySecrets_gateways :: "(string \<times> string) list \<Rightarrow> GatewaySupervisor \<Rightarrow> GatewaySupervisor" where
  "ApplySecrets_gateways env s = s\<lparr>gs_secretEnv := env\<rparr>"

definition buildGatewayEnv :: "string list \<Rightarrow> Gateway \<Rightarrow> string \<Rightarrow> (string \<times> string) list \<Rightarrow> string list" where
  "buildGatewayEnv environ gw acpURL secretEnv =
     environ @ assignments secretEnv @ assignments (gw_Env gw) @ [''GATEWAY_TARGET_URL='' @ acpURL @ ''/events/'' @ gw_Name gw] @
     map (\<lambda>(k, v). ''GATEWAY_'' @ map (\<lambda>c. if CHR ''a'' \<le> c \<and> c \<le> CHR ''z'' then char_of (of_char c - 32 :: nat) else c) k @ ''='' @ v) (gw_Config gw)"

definition stringMapEqual :: "(string \<times> string) list \<Rightarrow> (string \<times> string) list \<Rightarrow> bool" where
  "stringMapEqual a b \<longleftrightarrow> length a = length b \<and>
     list_all (\<lambda>(k, v). (case map_of b k of Some x \<Rightarrow> x | None \<Rightarrow> []) = v) a"

definition externalGatewayChanged :: "Gateway \<Rightarrow> Gateway \<Rightarrow> bool" where
  "externalGatewayChanged old newSpec \<longleftrightarrow>
     gw_Command old \<noteq> gw_Command newSpec \<or> gw_Args old \<noteq> gw_Args newSpec \<or> \<not> stringMapEqual (gw_Env old) (gw_Env newSpec) \<or>
     \<not> stringMapEqual (gw_Config old) (gw_Config newSpec) \<or> gw_AutoRestart old \<noteq> gw_AutoRestart newSpec"

definition wanted_gateways :: "Gateway list \<Rightarrow> (string \<times> Gateway) list" where
  "wanted_gateways gateways = index_specs gw_Name (filter (\<lambda>gw. gw_Command gw \<noteq> []) gateways)"

definition keep_gateway :: "(string \<times> Gateway) list \<Rightarrow> string \<times> Gateway \<Rightarrow> bool" where
  "keep_gateway wanted = (\<lambda>(name, spec). case map_of wanted name of None \<Rightarrow> False | Some newSpec \<Rightarrow> \<not> externalGatewayChanged spec newSpec)"

definition Reconcile_gateways :: "Gateway list \<Rightarrow> GatewaySupervisor \<Rightarrow> GatewaySupervisor" where
  "Reconcile_gateways gateways s =
     (let wanted = wanted_gateways gateways;
          kept = filter (keep_gateway wanted) (gs_processes s)
      in s\<lparr>gs_processes := kept @ filter (\<lambda>(name, gw). map_of kept name = None) wanted, gs_specs := gateways\<rparr>)"

definition Stop_gateways :: "GatewaySupervisor \<Rightarrow> GatewaySupervisor" where
  "Stop_gateways s = s\<lparr>gs_processes := []\<rparr>"

lemma map_of_filter_keys: "map_of (filter (\<lambda>(k, v). P k) xs) k = (if P k then map_of xs k else None)"
  by (induction xs) auto

text \<open>A reconciliation that returns leaves a process for exactly the gateways with a command, each run with a specification in which
  the supervisor sees no difference to the configured one.\<close>

theorem gateway_reconcile_exact:
  "(case map_of (gs_processes (Reconcile_gateways gateways s)) n of
       None \<Rightarrow> map_of (wanted_gateways gateways) n = None
     | Some spec \<Rightarrow> (\<exists>gw. map_of (wanted_gateways gateways) n = Some gw \<and> (spec = gw \<or> \<not> externalGatewayChanged spec gw)))"
proof -
  let ?w = "wanted_gateways gateways"
  let ?kept = "filter (keep_gateway ?w) (gs_processes s)"
  have all: "map_of (gs_processes (Reconcile_gateways gateways s)) n =
      (case map_of ?kept n of Some spec \<Rightarrow> Some spec | None \<Rightarrow> map_of ?w n)"
    by (simp add: Reconcile_gateways_def Let_def map_add_def map_of_filter_keys split: option.splits)
  show ?thesis
  proof (cases "map_of ?kept n")
    case (Some spec)
    then have "keep_gateway ?w (n, spec)" using map_of_SomeD [OF Some] by simp
    then show ?thesis using all Some by (auto simp: keep_gateway_def split: option.splits)
  qed (use all in \<open>auto split: option.splits\<close>)
qed

text \<open>Two maps with different keys count as equal when the values are empty, so such a change of the configuration does not reach the process.\<close>

theorem empty_value_change_ignored: "stringMapEqual [(''a'', [])] [(''b'', [])]"
  by code_simp

subsection \<open>A gateway and the reconciliation that stops it\<close>

text \<open>
  The loop of \<^verbatim>\<open>runGateway\<close> and a call of \<^verbatim>\<open>Reconcile\<close> (or \<^verbatim>\<open>Stop\<close>) that stops the gateway.  The call holds the lock of the supervisor from
  cancelling the context until the goroutine is done; building the environment of a process takes the same lock for reading.
\<close>

datatype gateway_phase = BuildingEnv | Starting | RunningProcess | WaitingToRestart | Finished

record gateway_run =
  gr_autoRestart :: bool
  gr_phase :: gateway_phase
  gr_cancelled :: bool
  gr_waiting :: bool

definition started_gateway :: "Gateway \<Rightarrow> gateway_run" where
  "started_gateway gw = \<lparr>gr_autoRestart = gw_AutoRestart gw, gr_phase = BuildingEnv, gr_cancelled = False, gr_waiting = False\<rparr>"

definition after_exit :: "gateway_run \<Rightarrow> gateway_run" where
  "after_exit s = s\<lparr>gr_phase := if gr_autoRestart s then WaitingToRestart else Finished\<rparr>"

inductive gateway_step :: "gateway_run \<Rightarrow> gateway_run \<Rightarrow> bool" where
  env_built: "gr_phase s = BuildingEnv \<Longrightarrow> \<not> gr_waiting s \<Longrightarrow> gateway_step s (s\<lparr>gr_phase := Starting\<rparr>)"
| process_started: "gr_phase s = Starting \<Longrightarrow> gateway_step s (s\<lparr>gr_phase := RunningProcess\<rparr>)"
| start_failed: "gr_phase s = Starting \<Longrightarrow> gateway_step s (after_exit s)"
| process_exited: "gr_phase s = RunningProcess \<Longrightarrow> gateway_step s (after_exit s)"
| process_stopped: "gr_phase s = RunningProcess \<Longrightarrow> gr_cancelled s \<Longrightarrow> gateway_step s (s\<lparr>gr_phase := Finished\<rparr>)"
| restart_due: "gr_phase s = WaitingToRestart \<Longrightarrow> gateway_step s (s\<lparr>gr_phase := BuildingEnv\<rparr>)"
| restart_cancelled: "gr_phase s = WaitingToRestart \<Longrightarrow> gr_cancelled s \<Longrightarrow> gateway_step s (s\<lparr>gr_phase := Finished\<rparr>)"
| reconcile_begins: "\<not> gr_waiting s \<Longrightarrow> \<not> gr_cancelled s \<Longrightarrow> gateway_step s (s\<lparr>gr_waiting := True, gr_cancelled := True\<rparr>)"
| reconcile_ends: "gr_waiting s \<Longrightarrow> gr_phase s = Finished \<Longrightarrow> gateway_step s (s\<lparr>gr_waiting := False\<rparr>)"

inductive_cases gateway_stepE: "gateway_step s s'"

definition stuck :: "gateway_run \<Rightarrow> bool" where
  "stuck s \<longleftrightarrow> gr_waiting s \<and> (\<forall>s'. \<not> gateway_step s s')"

definition reachable_run :: "Gateway \<Rightarrow> gateway_run \<Rightarrow> bool" where
  "reachable_run gw s \<longleftrightarrow> gateway_step\<^sup>*\<^sup>* (started_gateway gw) s"

lemma waiting_cancelled: "reachable_run gw s \<Longrightarrow> gr_waiting s \<Longrightarrow> gr_cancelled s"
  unfolding reachable_run_def
  by (induction rule: rtranclp_induct) (auto simp: started_gateway_def after_exit_def elim!: gateway_stepE)

lemma reconcile_meets_start:
  fixes gw :: Gateway
  defines "s \<equiv> started_gateway gw\<lparr>gr_waiting := True, gr_cancelled := True\<rparr>"
  shows "reachable_run gw s" "stuck s"
proof -
  have "gateway_step (started_gateway gw) s" unfolding s_def by (rule reconcile_begins) (simp_all add: started_gateway_def)
  then show "reachable_run gw s" unfolding reachable_run_def by blast
  show "stuck s" by (auto simp: s_def stuck_def started_gateway_def elim!: gateway_stepE)
qed

lemma stuck_iff:
  assumes "reachable_run gw s" "gr_waiting s"
  shows "stuck s \<longleftrightarrow> gr_phase s = BuildingEnv"
proof
  note c = waiting_cancelled [OF assms]
  assume "stuck s"
  then show "gr_phase s = BuildingEnv"
    using c process_started [of s] process_stopped [of s] restart_cancelled [of s] reconcile_ends [of s]
    by (cases "gr_phase s") (auto simp: stuck_def)
next
  assume "gr_phase s = BuildingEnv"
  with assms(2) waiting_cancelled [OF assms] show "stuck s" by (auto simp: stuck_def elim!: gateway_stepE)
qed

text \<open>C40: The comment in the code says that the goroutine never takes the lock.  It does, to build the environment, and a
  reconciliation that waits for the goroutine while this waits for the lock never returns: exactly the states in which the environment is about to be built
  are stuck, and one is reached, for every gateway, when a reconciliation follows its start closely enough.\<close>

theorem reconcile_deadlocks:
  "(\<exists>s. reachable_run gw s \<and> stuck s) \<and> (\<forall>s. reachable_run gw s \<and> gr_waiting s \<longrightarrow> (stuck s \<longleftrightarrow> gr_phase s = BuildingEnv))"
  using reconcile_meets_start [of gw] stuck_iff [of gw] by blast

definition imap_gateway :: Gateway where
  "imap_gateway = \<lparr>gw_Name = ''imap'', gw_Type = [], gw_Command = ''gateway-imap'', gw_Args = [], gw_Env = [], gw_Config = [], gw_AutoRestart = True\<rparr>"

theorem reconcile_deadlocks_witness:
  "reachable_run imap_gateway (started_gateway imap_gateway\<lparr>gr_waiting := True, gr_cancelled := True\<rparr>) \<and>
   stuck (started_gateway imap_gateway\<lparr>gr_waiting := True, gr_cancelled := True\<rparr>)"
  using reconcile_deadlocks [of imap_gateway] reconcile_meets_start(1) [of imap_gateway] by (simp add: started_gateway_def)

text \<open>Otherwise the call returns: from every state in which it waits and the environment is not about to be built, some sequence of steps ends the
  goroutine and the call, without another start of the process.\<close>

theorem reconcile_can_end:
  assumes "reachable_run gw s" "gr_waiting s" "gr_phase s \<noteq> BuildingEnv"
  shows "\<exists>s'. gateway_step\<^sup>*\<^sup>* s s' \<and> gr_phase s' = Finished \<and> \<not> gr_waiting s'"
proof -
  note c = waiting_cancelled [OF assms(1,2)]
  have fin: "gateway_step\<^sup>*\<^sup>* t (t\<lparr>gr_waiting := False\<rparr>)" if "gr_phase t = Finished" "gr_waiting t" for t
    using reconcile_ends [of t] that by blast
  have run: "gateway_step\<^sup>*\<^sup>* t (t\<lparr>gr_phase := Finished\<rparr>)" if "gr_phase t = RunningProcess" "gr_cancelled t" for t
    using process_stopped [of t] that by blast
  have "gateway_step\<^sup>*\<^sup>* s (s\<lparr>gr_phase := Finished\<rparr>)"
  proof (cases "gr_phase s")
    case Starting
    then have "gateway_step s (s\<lparr>gr_phase := RunningProcess\<rparr>)" by (rule process_started)
    then show ?thesis using run [of "s\<lparr>gr_phase := RunningProcess\<rparr>"] c by (simp add: converse_rtranclp_into_rtranclp)
  next
    case Finished
    then have "s\<lparr>gr_phase := Finished\<rparr> = s" by (cases s) simp
    then show ?thesis by simp
  qed (use assms(3) run [of s] restart_cancelled [of s] c in auto)
  then show ?thesis using fin [of "s\<lparr>gr_phase := Finished\<rparr>"] assms(2) by (intro exI [of _ "s\<lparr>gr_phase := Finished, gr_waiting := False\<rparr>"]) auto
qed

end
