(* ===== verification/Migrations.thy ===== *)
theory Migrations
  imports Stores
begin

section \<open>Schema migrations\<close>

text \<open>
  \<^verbatim>\<open>common/sqliteutil/migrate.go\<close>, run by both programs when they open their database.  The database is the table \<^verbatim>\<open>schema_migrations\<close> and the list of the
  scripts that were committed; the directory and the failures of statements are arguments.  A run applies a beginning of the pending migrations, each
  script together with its row, and all of them when it succeeds; a second run then applies nothing.
\<close>

record migration_db =
  sd_rows :: "(int \<times> string) list"
  sd_scripts :: "string list"

record MigrationOptions =
  mo_entries :: "string + (string \<times> bool) list"
  mo_readFile :: "string \<Rightarrow> string + string"
  mo_ValidateUniqueVersions :: bool

record migration_faults =
  mf_create :: fault
  mf_query :: fault
  mf_begin :: "int \<Rightarrow> fault"
  mf_exec :: "int \<Rightarrow> fault"
  mf_record :: "int \<Rightarrow> fault"
  mf_commit :: "int \<Rightarrow> fault"

datatype migration_error =
    CreateTable string
  | CurrentVersion string
  | ReadMigrations string
  | DuplicateVersion int string string
  | ReadMigration string string
  | BeginMigration int string
  | ExecuteMigration int string
  | RecordMigration int string
  | CommitMigration int string

definition trim_suffix_sql :: "string \<Rightarrow> string" where
  "trim_suffix_sql s = (if has_suffix s ''.sql'' then take (length s - 4) s else s)"

definition parseMigrationName :: "string \<Rightarrow> (int \<times> string) option" where
  "parseMigrationName name = (case cut_at (CHR ''_'') name of
       None \<Rightarrow> None
     | Some (before, after) \<Rightarrow> (case sscan_int before of
         None \<Rightarrow> None
       | Some version \<Rightarrow> Some (version, trim_suffix_sql after)))"

text \<open>A migration of the directory: its file, version and description, in the order of the names.\<close>

definition migrations :: "(string \<times> bool) list \<Rightarrow> (string \<times> int \<times> string) list" where
  "migrations entries = List.map_filter (\<lambda>(name, isDir).
     if isDir \<or> \<not> has_suffix name ''.sql'' then None else map_option (Pair name) (parseMigrationName name)) (sort_key fst entries)"

fun duplicate_version :: "(int \<times> string) list \<Rightarrow> (string \<times> int \<times> string) list \<Rightarrow> migration_error option" where
  "duplicate_version seen [] = None"
| "duplicate_version seen ((name, version, _) # ms) = (case map_of seen version of
       Some prev \<Rightarrow> Some (DuplicateVersion version prev name)
     | None \<Rightarrow> duplicate_version ((version, name) # seen) ms)"

definition currentVersion :: "migration_db \<Rightarrow> int" where
  "currentVersion db = fold max (map fst (sd_rows db)) (case map fst (sd_rows db) of [] \<Rightarrow> 0 | v # _ \<Rightarrow> v)"

text \<open>One migration: the script and its row are committed together or not at all; a version that is in the table already violates its primary key.\<close>

definition apply_migration ::
    "MigrationOptions \<Rightarrow> migration_faults \<Rightarrow> string \<times> int \<times> string \<Rightarrow> migration_db \<Rightarrow> migration_error option \<times> migration_db"
where
  "apply_migration opts fs m db = (case m of (name, version, description) \<Rightarrow>
     (case mo_readFile opts name of
        Inl e \<Rightarrow> (Some (ReadMigration name e), db)
      | Inr content \<Rightarrow>
          case mf_begin fs version of Some e \<Rightarrow> (Some (BeginMigration version e), db) | None \<Rightarrow>
          (case mf_exec fs version of Some e \<Rightarrow> (Some (ExecuteMigration version e), db) | None \<Rightarrow>
          (case mf_record fs version of Some e \<Rightarrow> (Some (RecordMigration version e), db) | None \<Rightarrow>
           if version \<in> fst ` set (sd_rows db) then (Some (RecordMigration version ''UNIQUE constraint failed: schema_migrations.version''), db)
           else (case mf_commit fs version of
               Some e \<Rightarrow> (Some (CommitMigration version e), db)
             | None \<Rightarrow> (None, \<lparr>sd_rows = sd_rows db @ [(version, description)], sd_scripts = sd_scripts db @ [content]\<rparr>))))))"

fun apply_pending ::
    "MigrationOptions \<Rightarrow> migration_faults \<Rightarrow> (string \<times> int \<times> string) list \<Rightarrow> migration_db \<Rightarrow> migration_error option \<times> migration_db"
where
  "apply_pending opts fs [] db = (None, db)"
| "apply_pending opts fs (m # ms) db = (case apply_migration opts fs m db of
       (Some e, db') \<Rightarrow> (Some e, db')
     | (None, db') \<Rightarrow> apply_pending opts fs ms db')"

definition pending_migrations :: "MigrationOptions \<Rightarrow> migration_db \<Rightarrow> (string \<times> int \<times> string) list" where
  "pending_migrations opts db = (case mo_entries opts of
       Inl _ \<Rightarrow> []
     | Inr entries \<Rightarrow> filter (\<lambda>(_, version, _). currentVersion db < version) (migrations entries))"

definition RunMigrations :: "MigrationOptions \<Rightarrow> migration_faults \<Rightarrow> migration_db \<Rightarrow> migration_error option \<times> migration_db" where
  "RunMigrations opts fs db = (case mf_create fs of
       Some e \<Rightarrow> (Some (CreateTable e), db)
     | None \<Rightarrow> (case mf_query fs of
         Some e \<Rightarrow> (Some (CurrentVersion e), db)
       | None \<Rightarrow> (case mo_entries opts of
           Inl e \<Rightarrow> (Some (ReadMigrations e), db)
         | Inr entries \<Rightarrow> (case (if mo_ValidateUniqueVersions opts then duplicate_version [] (migrations entries) else None) of
             Some e \<Rightarrow> (Some e, db)
           | None \<Rightarrow> apply_pending opts fs (pending_migrations opts db) db))))"

subsection \<open>What a run does\<close>

definition row_of_migration :: "string \<times> int \<times> string \<Rightarrow> int \<times> string" where
  "row_of_migration m = snd m"

definition script_of :: "MigrationOptions \<Rightarrow> string \<times> int \<times> string \<Rightarrow> string" where
  "script_of opts m = (case mo_readFile opts (fst m) of Inr content \<Rightarrow> content | Inl _ \<Rightarrow> [])"

lemma apply_migration_cases:
  assumes "apply_migration opts fs m db = (r, db')"
  shows "(r \<noteq> None \<and> db' = db) \<or> (r = None \<and> db' = \<lparr>sd_rows = sd_rows db @ [row_of_migration m], sd_scripts = sd_scripts db @ [script_of opts m]\<rparr>)"
  using assms by (auto simp: apply_migration_def row_of_migration_def script_of_def split: prod.splits sum.splits option.splits if_splits)

lemma apply_pending_prefix:
  assumes "apply_pending opts fs ms db = (r, db')"
  shows "\<exists>k \<le> length ms. sd_rows db' = sd_rows db @ map row_of_migration (take k ms) \<and> sd_scripts db' = sd_scripts db @ map (script_of opts) (take k ms) \<and>
    (r = None \<longrightarrow> k = length ms)"
  using assms
proof (induction ms arbitrary: db)
  case (Cons m ms)
  obtain x db1 where a: "apply_migration opts fs m db = (x, db1)" by (cases "apply_migration opts fs m db")
  show ?case
  proof (cases x)
    case None
    then have "apply_pending opts fs ms db1 = (r, db')" using Cons.prems a by simp
    from Cons.IH [OF this] obtain k where "k \<le> length ms" "sd_rows db' = sd_rows db1 @ map row_of_migration (take k ms)"
      "sd_scripts db' = sd_scripts db1 @ map (script_of opts) (take k ms)" "r = None \<longrightarrow> k = length ms" by blast
    then show ?thesis using apply_migration_cases [OF a] None by (intro exI [of _ "Suc k"]) auto
  next
    case (Some e)
    then show ?thesis using Cons.prems a apply_migration_cases [OF a] by (intro exI [of _ 0]) auto
  qed
qed simp

text \<open>A run commits a beginning of the pending migrations, in the order of their file names and each script with its row in the table, and all of them
  when it reports success, whatever statement fails.\<close>

theorem migrations_in_order:
  assumes "RunMigrations opts fs db = (r, db')"
  shows "\<exists>k. sd_rows db' = sd_rows db @ map row_of_migration (take k (pending_migrations opts db)) \<and>
    sd_scripts db' = sd_scripts db @ map (script_of opts) (take k (pending_migrations opts db)) \<and> (r = None \<longrightarrow> k = length (pending_migrations opts db))"
proof -
  have stays: ?thesis if "db' = db" "r \<noteq> None" using that by (intro exI [of _ 0]) auto
  from assms consider "db' = db" "r \<noteq> None" | "apply_pending opts fs (pending_migrations opts db) db = (r, db')"
    by (auto simp: RunMigrations_def split: option.splits sum.splits if_splits)
  then show ?thesis
  proof cases
    case 2
    from apply_pending_prefix [OF this] show ?thesis by blast
  qed (rule stays)
qed

lemma fold_max_start: "(a :: int) \<le> fold max xs a"
  by (induction xs arbitrary: a) (simp, metis fold_simps(2) max.cobounded2 order_trans)

lemma fold_max_ge: "(x :: int) \<in> set xs \<Longrightarrow> x \<le> fold max xs a"
proof (induction xs arbitrary: a)
  case (Cons y ys)
  then show ?case using fold_max_start [of "max y a" ys] by fastforce
qed simp

lemma currentVersion_ge: "(v, d) \<in> set (sd_rows db) \<Longrightarrow> v \<le> currentVersion db"
  by (force simp: currentVersion_def intro: fold_max_ge)

text \<open>After a run that succeeded there is nothing left to do: another run with the same directory applies no migration.\<close>

theorem migrations_run_once:
  assumes "RunMigrations opts fs db = (None, db')"
  shows "pending_migrations opts db' = [] \<and> snd (RunMigrations opts fs' db') = db'"
proof -
  from migrations_in_order [OF assms] have rows: "sd_rows db' = sd_rows db @ map row_of_migration (pending_migrations opts db)" by auto
  have done_ver: "version \<le> currentVersion db'" if "(name, version, d) \<in> set (pending_migrations opts db)" for name version d
    using that currentVersion_ge [of version d db'] rows by (force simp: row_of_migration_def)
  have "pending_migrations opts db' = []"
  proof (cases "pending_migrations opts db")
    case Nil
    with rows have "currentVersion db' = currentVersion db" by (simp add: currentVersion_def)
    with Nil show ?thesis by (simp add: pending_migrations_def split: sum.splits)
  next
    case (Cons m ms)
    obtain name version d where m: "m = (name, version, d)" by (cases m)
    then have mem: "(name, version, d) \<in> set (pending_migrations opts db)" using Cons by simp
    then have "currentVersion db < version" by (auto simp: pending_migrations_def split: sum.splits)
    with done_ver [OF mem] have later: "currentVersion db < currentVersion db'" by simp
    have "set (pending_migrations opts db') \<subseteq> set (pending_migrations opts db)" using later by (auto simp: pending_migrations_def split: sum.splits)
    moreover have "currentVersion db' < v" if "(n, v, e) \<in> set (pending_migrations opts db')" for n v e using that by (auto simp: pending_migrations_def split: sum.splits)
    ultimately show ?thesis using done_ver by (cases "pending_migrations opts db'") (force, metis list.set_intros(1) not_less prod_cases3 subsetD)
  qed
  moreover have "snd (RunMigrations opts fs' db') = db'" if "pending_migrations opts db' = []"
    using that by (auto simp: RunMigrations_def split: option.splits sum.splits if_splits)
  ultimately show ?thesis by simp
qed

definition sample_migrations :: MigrationOptions where
  "sample_migrations = \<lparr>mo_entries = Inr [(''0002_b.sql'', False), (''0001_a.sql'', False), (''notes.txt'', False)], mo_readFile = Inr,
     mo_ValidateUniqueVersions = True\<rparr>"

definition no_migration_faults :: migration_faults where
  "no_migration_faults = \<lparr>mf_create = None, mf_query = None, mf_begin = (\<lambda>_. None), mf_exec = (\<lambda>_. None), mf_record = (\<lambda>_. None), mf_commit = (\<lambda>_. None)\<rparr>"

definition empty_migration_db :: migration_db where
  "empty_migration_db = \<lparr>sd_rows = [], sd_scripts = []\<rparr>"

lemma sample_migrations_run:
  "RunMigrations sample_migrations no_migration_faults empty_migration_db =
     (None, \<lparr>sd_rows = [(1, ''a''), (2, ''b'')], sd_scripts = [''0001_a.sql'', ''0002_b.sql'']\<rparr>)"
  by code_simp

theorem migrations_in_order_witness:
  "map row_of_migration (pending_migrations sample_migrations empty_migration_db) = [(1, ''a''), (2, ''b'')]"
  using migrations_in_order [OF sample_migrations_run] by (auto simp: empty_migration_db_def)

theorem migrations_run_once_witness:
  "pending_migrations sample_migrations \<lparr>sd_rows = [(1, ''a''), (2, ''b'')], sd_scripts = [''0001_a.sql'', ''0002_b.sql'']\<rparr> = []"
  using migrations_run_once [OF sample_migrations_run] by simp

text \<open>Pending is what is above the highest version: a migration that is added later with a lower number is never applied.\<close>

theorem late_migration_skipped:
  "RunMigrations (sample_migrations\<lparr>mo_entries := Inr [(''0002_b.sql'', False), (''0001_a.sql'', False)]\<rparr>) no_migration_faults
     \<lparr>sd_rows = [(2, ''b'')], sd_scripts = []\<rparr> = (None, \<lparr>sd_rows = [(2, ''b'')], sd_scripts = []\<rparr>)"
  by code_simp

end
