(* ===== verification/Mcp_Client.thy ===== *)
theory Mcp_Client
  imports Go_Values
begin

section \<open>The client of an MCP server\<close>

text \<open>
  \<^verbatim>\<open>internal/gitai/mcp/client.go\<close>: requests and answers over the pipes of a child process.  Any number of calls run at the same time as the loop that
  reads answers; each step of a call between two accesses to shared state, and each step of the loop, is a step of a relation on the shared
  state.  The channel of a call has room for one answer.  Identifiers of calls are numbered from one and never wrap.  What comes from the server, when a
  write fails and when a context ends is up to the environment.  The theory shows that a call gets an answer to its own request, that the loop
  never blocks on a channel, and when a call can be left without an answer.
\<close>

record ResponseError =
  re_Code :: int
  re_Message :: string

record Response =
  rs_ID :: int
  rs_Result :: gvalue
  rs_Error :: "ResponseError option"

record Request =
  rp_ID :: int
  rp_Method :: string
  rp_Params :: "gmap option"

definition mcp_request :: "int \<Rightarrow> string \<Rightarrow> gmap option \<Rightarrow> Request" where
  "mcp_request i verb params = \<lparr>rp_ID = i, rp_Method = verb, rp_Params = params\<rparr>"

definition process_closed :: "int \<Rightarrow> Response" where
  "process_closed i = \<lparr>rs_ID = i, rs_Result = GNil, rs_Error = Some \<lparr>re_Code = -32000, re_Message = ''MCP process closed''\<rparr>\<rparr>"

subsection \<open>Calls and the reading loop\<close>

datatype call_end = MarshalFailed string | WriteFailed string | ContextEnded string | Answered Response

text \<open>A call encodes its request, registers its channel, writes the request and waits.\<close>

datatype call_phase = Encoded Request | Registered_call Request | Waiting | Returned call_end

datatype reader = Reading | Sending int Response | Ended

record mcp_state =
  ms_nextID :: int
  ms_pending :: "int set"
  ms_channel :: "int \<Rightarrow> Response list"
  ms_calls :: "int \<Rightarrow> call_phase option"
  ms_written :: "Request list"
  ms_reader :: reader

definition fresh_client :: mcp_state where
  "fresh_client = \<lparr>ms_nextID = 0, ms_pending = {}, ms_channel = (\<lambda>_. []), ms_calls = (\<lambda>_. None), ms_written = [], ms_reader = Reading\<rparr>"

definition set_phase :: "int \<Rightarrow> call_phase \<Rightarrow> mcp_state \<Rightarrow> mcp_state" where
  "set_phase i ph s = s\<lparr>ms_calls := (ms_calls s)(i := Some ph)\<rparr>"

definition drop_pending :: "int \<Rightarrow> mcp_state \<Rightarrow> mcp_state" where
  "drop_pending i s = s\<lparr>ms_pending := ms_pending s - {i}\<rparr>"

definition begin_call :: "string \<Rightarrow> gmap option \<Rightarrow> mcp_state \<Rightarrow> mcp_state" where
  "begin_call verb params s = (let i = ms_nextID s + 1 in set_phase i (Encoded (mcp_request i verb params)) (s\<lparr>ms_nextID := i\<rparr>))"

definition refuse_call :: "string \<Rightarrow> mcp_state \<Rightarrow> mcp_state" where
  "refuse_call e s = (let i = ms_nextID s + 1 in set_phase i (Returned (MarshalFailed e)) (s\<lparr>ms_nextID := i\<rparr>))"

definition has_room :: "mcp_state \<Rightarrow> int \<Rightarrow> bool" where
  "has_room s i \<longleftrightarrow> length (ms_channel s i) < 1"

definition send :: "int \<Rightarrow> Response \<Rightarrow> mcp_state \<Rightarrow> mcp_state" where
  "send i r s = s\<lparr>ms_channel := (ms_channel s)(i := ms_channel s i @ [r])\<rparr>"

definition drain :: "mcp_state \<Rightarrow> mcp_state" where
  "drain s = s\<lparr>ms_channel := (\<lambda>i. if i \<in> ms_pending s then ms_channel s i @ [process_closed i] else ms_channel s i), ms_pending := {}, ms_reader := Ended\<rparr>"

inductive mcp_step :: "mcp_state \<Rightarrow> mcp_state \<Rightarrow> bool" where
  call_begins: "mcp_step s (begin_call verb params s)"
| call_refused: "mcp_step s (refuse_call e s)"
| call_registers: "ms_calls s i = Some (Encoded req) \<Longrightarrow>
    mcp_step s (set_phase i (Registered_call req) (s\<lparr>ms_pending := insert i (ms_pending s)\<rparr>))"
| call_writes: "ms_calls s i = Some (Registered_call req) \<Longrightarrow> mcp_step s (set_phase i Waiting (s\<lparr>ms_written := ms_written s @ [req]\<rparr>))"
| call_write_fails: "ms_calls s i = Some (Registered_call req) \<Longrightarrow> mcp_step s (set_phase i (Returned (WriteFailed e)) (drop_pending i s))"
| call_cancelled: "ms_calls s i = Some Waiting \<Longrightarrow> mcp_step s (set_phase i (Returned (ContextEnded e)) (drop_pending i s))"
| call_answered: "ms_calls s i = Some Waiting \<Longrightarrow> ms_channel s i = r # rest \<Longrightarrow>
    mcp_step s (set_phase i (Returned (Answered r)) (s\<lparr>ms_channel := (ms_channel s)(i := rest)\<rparr>))"
| line_for_call: "ms_reader s = Reading \<Longrightarrow> rs_ID r \<in> ms_pending s \<Longrightarrow>
    mcp_step s (drop_pending (rs_ID r) s\<lparr>ms_reader := Sending (rs_ID r) r\<rparr>)"
| line_ignored: "ms_reader s = Reading \<Longrightarrow> mcp_step s s"
| answer_sent: "ms_reader s = Sending i r \<Longrightarrow> has_room s i \<Longrightarrow> mcp_step s (send i r s\<lparr>ms_reader := Reading\<rparr>)"
| input_ends: "ms_reader s = Reading \<Longrightarrow> \<forall>i \<in> ms_pending s. has_room s i \<Longrightarrow> mcp_step s (drain s)"

inductive_cases mcp_stepE: "mcp_step s s'"

definition reachable_client :: "mcp_state \<Rightarrow> bool" where
  "reachable_client s \<longleftrightarrow> mcp_step\<^sup>*\<^sup>* fresh_client s"

text \<open>What the caller makes of the end of its call; \<open>decode\<close> reads the result into the type that is expected.\<close>

definition call_result :: "(gvalue \<Rightarrow> string + 'a) \<Rightarrow> call_end \<Rightarrow> string + 'a" where
  "call_result decode x = (case x of
       MarshalFailed e \<Rightarrow> Inl (''marshal request: '' @ e)
     | WriteFailed e \<Rightarrow> Inl (''write request: '' @ e)
     | ContextEnded e \<Rightarrow> Inl e
     | Answered r \<Rightarrow> (case rs_Error r of Some e \<Rightarrow> Inl (re_Message e) | None \<Rightarrow> decode (rs_Result r)))"

subsection \<open>Where the answer of a call is\<close>

text \<open>The answer of a call is expected, held by the loop or in the channel of the call; \<open>places\<close> counts how many of these hold, and \<open>place_ok\<close> says how many do in
  each phase of the call.\<close>

definition sending :: "reader \<Rightarrow> int \<Rightarrow> bool" where
  "sending x i \<longleftrightarrow> (case x of Sending j _ \<Rightarrow> j = i | _ \<Rightarrow> False)"

definition places :: "mcp_state \<Rightarrow> int \<Rightarrow> nat" where
  "places s i = of_bool (i \<in> ms_pending s) + of_bool (sending (ms_reader s) i) + length (ms_channel s i)"

fun place_ok :: "call_phase option \<Rightarrow> nat \<Rightarrow> bool" where
  "place_ok None n = (n = 0)"
| "place_ok (Some (Encoded _)) n = (n = 0)"
| "place_ok (Some (Registered_call _)) n = (n = 1)"
| "place_ok (Some Waiting) n = (n = 1)"
| "place_ok (Some (Returned _)) n = (n \<le> 1)"

definition places_ok :: "mcp_state \<Rightarrow> bool" where
  "places_ok s \<longleftrightarrow> (\<forall>i. place_ok (ms_calls s i) (places s i) \<and> (ms_nextID s < i \<longrightarrow> ms_calls s i = None))"

definition answers_ok :: "mcp_state \<Rightarrow> bool" where
  "answers_ok s \<longleftrightarrow> (\<forall>i. (\<forall>r \<in> set (ms_channel s i). rs_ID r = i) \<and> (\<forall>r. ms_reader s = Sending i r \<longrightarrow> rs_ID r = i) \<and>
     (\<forall>r. ms_calls s i = Some (Returned (Answered r)) \<longrightarrow> rs_ID r = i))"

lemmas mcp_updates = begin_call_def refuse_call_def set_phase_def drop_pending_def send_def drain_def mcp_request_def process_closed_def

lemma places_okD: "places_ok s \<Longrightarrow> place_ok (ms_calls s i) (places s i)"
  by (simp add: places_ok_def)

lemma places_new: "places_ok s \<Longrightarrow> places s (ms_nextID s + 1) = 0"
  using places_okD [of s "ms_nextID s + 1"] by (simp add: places_ok_def)

lemma places_keep: "mcp_step s s' \<Longrightarrow> places_ok s \<Longrightarrow> places_ok s'"
proof (induction rule: mcp_step.induct)
  case (call_begins s verb params)
  with places_new [of s] show ?case by (auto simp: places_ok_def places_def mcp_updates Let_def)
next
  case (call_refused s e)
  with places_new [of s] show ?case by (auto simp: places_ok_def places_def mcp_updates Let_def)
next
  case (call_registers s i req)
  with places_okD [of s i] show ?case by (auto simp: places_ok_def places_def mcp_updates)
next
  case (call_writes s i req)
  with places_okD [of s i] show ?case by (auto simp: places_ok_def places_def mcp_updates)
next
  case (call_write_fails s i req e)
  with places_okD [of s i] show ?case by (auto simp: places_ok_def places_def mcp_updates)
next
  case (call_cancelled s i e)
  with places_okD [of s i] show ?case by (auto simp: places_ok_def places_def mcp_updates)
next
  case (call_answered s i r rest)
  with places_okD [of s i] show ?case by (auto simp: places_ok_def places_def mcp_updates)
next
  case (line_for_call s r)
  have "places (drop_pending (rs_ID r) s\<lparr>ms_reader := Sending (rs_ID r) r\<rparr>) j = places s j" for j
    using line_for_call by (auto simp: places_def sending_def mcp_updates)
  then show ?case using line_for_call by (simp add: places_ok_def drop_pending_def)
next
  case (answer_sent s i r)
  have "places (send i r s\<lparr>ms_reader := Reading\<rparr>) j = places s j" for j
    using answer_sent by (auto simp: places_def sending_def mcp_updates)
  then show ?case using answer_sent by (simp add: places_ok_def send_def)
next
  case (input_ends s)
  have "places (drain s) j = places s j" for j using input_ends by (auto simp: places_def sending_def mcp_updates)
  then show ?case using input_ends by (simp add: places_ok_def drain_def)
qed

lemma answers_keep: "mcp_step s s' \<Longrightarrow> answers_ok s \<Longrightarrow> answers_ok s'"
  by (induction rule: mcp_step.induct) (fastforce simp: answers_ok_def mcp_updates Let_def)+

lemma reachable_ok:
  assumes "reachable_client s"
  shows "places_ok s" "answers_ok s"
proof -
  have "places_ok s \<and> answers_ok s"
    using assms unfolding reachable_client_def
  proof (induction rule: rtranclp_induct)
    case base
    show ?case by (simp add: places_ok_def answers_ok_def fresh_client_def places_def sending_def)
  qed (auto intro: places_keep answers_keep)
  then show "places_ok s" "answers_ok s" by simp_all
qed

subsection \<open>What a call gets\<close>

text \<open>A call that returns with an answer returns the answer to its own request, however calls, cancellations and lines of the server interleave.\<close>

theorem answers_match_calls: "reachable_client s \<Longrightarrow> ms_calls s i = Some (Returned (Answered r)) \<Longrightarrow> rs_ID r = i"
  using reachable_ok(2) by (simp add: answers_ok_def)

text \<open>The loop never blocks on the channel of a call, not even that of one that was cancelled: there is room for the answer it sends, and at the end of
  the input for the closing answer of every call that waits.\<close>

lemma sending_room: "places_ok s \<Longrightarrow> ms_reader s = Sending i r \<Longrightarrow> has_room s i"
  using places_okD [of s i] by (cases "(ms_calls s i, places s i)" rule: place_ok.cases) (auto simp: places_def sending_def has_room_def)

lemma pending_room: "places_ok s \<Longrightarrow> i \<in> ms_pending s \<Longrightarrow> has_room s i"
  using places_okD [of s i] by (cases "(ms_calls s i, places s i)" rule: place_ok.cases) (auto simp: places_def has_room_def)

theorem reader_never_blocks:
  assumes "reachable_client s"
  shows "(case ms_reader s of
      Sending i r \<Rightarrow> mcp_step s (send i r s\<lparr>ms_reader := Reading\<rparr>)
    | Reading \<Rightarrow> mcp_step s (drain s)
    | Ended \<Rightarrow> True)"
  using reachable_ok(1) [OF assms] by (auto intro: answer_sent input_ends sending_room pending_room split: reader.split)

lemma returned_final:
  assumes "mcp_step s s'" "places_ok s" "ms_calls s i = Some (Returned x)"
  shows "ms_calls s' i = Some (Returned x)"
proof -
  have "ms_calls s (ms_nextID s + 1) = None" using assms(2) by (simp add: places_ok_def)
  with assms(3) have "i \<noteq> ms_nextID s + 1" by auto
  with assms(1,3) show ?thesis by cases (auto simp: mcp_updates Let_def)
qed

text \<open>A call whose answer is expected when the input has ended gets none: only its context ends it.\<close>

definition abandoned :: "int \<Rightarrow> mcp_state \<Rightarrow> bool" where
  "abandoned i s \<longleftrightarrow> ms_reader s = Ended \<and>
     (i \<in> ms_pending s \<and> ms_calls s i = Some Waiting \<or> (\<exists>e. ms_calls s i = Some (Returned (ContextEnded e))))"

lemma abandoned_keeps:
  assumes "mcp_step s s'" "places_ok s" "abandoned i s"
  shows "abandoned i s'"
proof (cases "i \<in> ms_pending s \<and> ms_calls s i = Some Waiting")
  case True
  then have new: "i \<noteq> ms_nextID s + 1" "ms_channel s i = []"
    using places_new [OF assms(2)] places_okD [OF assms(2), of i] by (auto simp: places_def)
  from assms(1) show ?thesis using assms(3) True new by cases (auto simp: abandoned_def mcp_updates Let_def)
next
  case False
  then obtain e where e: "ms_calls s i = Some (Returned (ContextEnded e))" "ms_reader s = Ended" using assms(3) by (auto simp: abandoned_def)
  have "ms_reader s' = Ended" using assms(1) e(2) by cases (auto simp: mcp_updates Let_def)
  with returned_final [OF assms(1,2) e(1)] show ?thesis by (auto simp: abandoned_def)
qed

lemma abandoned_for_ever:
  assumes "mcp_step\<^sup>*\<^sup>* s s'" "places_ok s" "abandoned i s"
  shows "abandoned i s'"
proof -
  from assms have "places_ok s' \<and> abandoned i s'"
    by (induction rule: rtranclp_induct) (auto intro: places_keep abandoned_keeps)
  then show ?thesis ..
qed

lemma answer_taken: "ms_calls s i = Some Waiting \<Longrightarrow> ms_channel s i \<noteq> [] \<Longrightarrow> \<exists>s' r. mcp_step\<^sup>*\<^sup>* s s' \<and> ms_calls s' i = Some (Returned (Answered r))"
proof -
  assume w: "ms_calls s i = Some Waiting" and "ms_channel s i \<noteq> []"
  then obtain r rest where "ms_channel s i = r # rest" by (cases "ms_channel s i") auto
  with w have "mcp_step s (set_phase i (Returned (Answered r)) (s\<lparr>ms_channel := (ms_channel s)(i := rest)\<rparr>))" by (rule call_answered)
  then show ?thesis by (intro exI conjI, rule r_into_rtranclp) (auto simp: set_phase_def)
qed

lemma answer_when_reading:
  assumes "places_ok s" "ms_calls s i = Some Waiting" "ms_reader s = Reading"
  shows "\<exists>s' r. mcp_step\<^sup>*\<^sup>* s s' \<and> ms_calls s' i = Some (Returned (Answered r))"
proof (cases "i \<in> ms_pending s")
  case True
  have "mcp_step s (drain s)" using assms pending_room by (intro input_ends) auto
  moreover from True have "\<exists>s' r. mcp_step\<^sup>*\<^sup>* (drain s) s' \<and> ms_calls s' i = Some (Returned (Answered r))"
    using assms(2) by (intro answer_taken) (auto simp: drain_def)
  ultimately show ?thesis by (meson converse_rtranclp_into_rtranclp)
next
  case False
  then show ?thesis using places_okD [OF assms(1), of i] assms(2,3) by (intro answer_taken) (auto simp: places_def sending_def)
qed

text \<open>A call that waits can still get an answer exactly if the input has not ended before it registered: a call that comes later is left
  to its context.\<close>

theorem answer_possible_iff:
  assumes "reachable_client s" "ms_calls s i = Some Waiting"
  shows "(\<exists>s' r. mcp_step\<^sup>*\<^sup>* s s' \<and> ms_calls s' i = Some (Returned (Answered r))) \<longleftrightarrow> \<not> (ms_reader s = Ended \<and> i \<in> ms_pending s)"
proof -
  note ok = reachable_ok(1) [OF assms(1)]
  have "\<not> (ms_reader s = Ended \<and> i \<in> ms_pending s)" if "mcp_step\<^sup>*\<^sup>* s s'" "ms_calls s' i = Some (Returned (Answered r))" for s' r
    using abandoned_for_ever [OF that(1) ok, of i] that(2) assms(2) by (auto simp: abandoned_def)
  moreover have "\<exists>s' r. mcp_step\<^sup>*\<^sup>* s s' \<and> ms_calls s' i = Some (Returned (Answered r))" if "\<not> (ms_reader s = Ended \<and> i \<in> ms_pending s)"
  proof (cases "ms_reader s")
    case Reading
    then show ?thesis using answer_when_reading [OF ok assms(2)] by simp
  next
    case (Sending j r)
    let ?s = "send j r s\<lparr>ms_reader := Reading\<rparr>"
    have step: "mcp_step s ?s" using Sending sending_room [OF ok] by (intro answer_sent) auto
    have "\<exists>s' r. mcp_step\<^sup>*\<^sup>* ?s s' \<and> ms_calls s' i = Some (Returned (Answered r))"
      using places_keep [OF step ok] assms(2) by (intro answer_when_reading) (auto simp: send_def)
    with step show ?thesis by (meson converse_rtranclp_into_rtranclp)
  next
    case Ended
    then show ?thesis using that places_okD [OF ok, of i] assms(2) by (intro answer_taken) (auto simp: places_def sending_def)
  qed
  ultimately show ?thesis by blast
qed

definition late_call :: mcp_state where
  "late_call = \<lparr>ms_nextID = 1, ms_pending = {1}, ms_channel = (\<lambda>_. []), ms_calls = [1 \<mapsto> Waiting],
     ms_written = [mcp_request 1 ''tools/list'' None], ms_reader = Ended\<rparr>"

lemma late_call_reachable: "reachable_client late_call"
proof -
  define req where "req = mcp_request 1 ''tools/list'' None"
  define a where "a = drain fresh_client"
  define b where "b = begin_call ''tools/list'' None a"
  define c where "c = set_phase 1 (Registered_call req) (b\<lparr>ms_pending := insert 1 (ms_pending b)\<rparr>)"
  define d where "d = set_phase 1 Waiting (c\<lparr>ms_written := ms_written c @ [req]\<rparr>)"
  note defs = req_def a_def b_def c_def d_def
  have "mcp_step fresh_client a" unfolding a_def by (rule input_ends) (simp_all add: fresh_client_def)
  moreover have "mcp_step a b" unfolding b_def by (rule call_begins)
  moreover have "mcp_step b c" unfolding c_def by (rule call_registers) (simp add: defs mcp_updates fresh_client_def Let_def)
  moreover have "mcp_step c d" unfolding d_def by (rule call_writes) (simp add: c_def set_phase_def)
  ultimately have "mcp_step\<^sup>*\<^sup>* fresh_client d" by simp
  moreover have "d = late_call" by (auto simp: late_call_def defs mcp_updates fresh_client_def Let_def)
  ultimately show ?thesis by (simp add: reachable_client_def)
qed

theorem answer_possible_iff_witness: "\<not> (\<exists>s' r. mcp_step\<^sup>*\<^sup>* late_call s' \<and> ms_calls s' 1 = Some (Returned (Answered r)))"
  using answer_possible_iff [OF late_call_reachable, of 1] by (simp add: late_call_def)

end
