(* ===== verification/Matrix_Accounts.thy ===== *)
theory Matrix_Accounts
  imports Lifecycle_Handlers
begin

section \<open>Accounts on the homeserver\<close>

text \<open>
  \<^verbatim>\<open>internal/ruriko/provisioning/matrix.go\<close>: the provisioner that registers, invites, removes and deactivates the Matrix accounts of agents.  The
  homeserver and the source of randomness are a record of functions over the world, and \<open>accounts_of\<close> makes the provisioner the provider
  behind the interface \<open>Accounts\<close> of the command handlers.  The theory shows that agents get accounts of their own, that registration copes with
  the two-step authentication of the homeserver, and what the handlers report when the homeserver cannot deactivate an account.
\<close>

subsection \<open>Configuration\<close>

record MatrixConfig =
  mx_Homeserver :: string
  mx_AdminUserID :: string
  mx_AdminAccessToken :: string
  mx_HomeserverType :: string
  mx_SharedSecret :: string
  mx_RegistrationToken :: string
  mx_UsernameSuffix :: string
  mx_AdminRooms :: "string list"

record ReqRegister =
  rq_Username :: string
  rq_Password :: string
  rq_InitialDeviceDisplayName :: string
  rq_Auth :: "(string \<times> string \<times> string) option"

record ReqSharedSecretRegister =
  ss_Username :: string
  ss_Password :: string
  ss_Displayname :: string
  ss_UserType :: string
  ss_Admin :: bool

text \<open>An answer to a registration is the account, if there is one, and the session of a challenge, if there is one.\<close>

record 'w MatrixServer =
  hs_rand :: "'w \<Rightarrow> (string + nat list) \<times> 'w"
  hs_SharedSecretRegister :: "string \<Rightarrow> ReqSharedSecretRegister \<Rightarrow> 'w \<Rightarrow> (string + string \<times> string) \<times> 'w"
  hs_Register :: "ReqRegister \<Rightarrow> 'w \<Rightarrow> (string + (string \<times> string) option \<times> string option) \<times> 'w"
  hs_RegisterDummy :: "ReqRegister \<Rightarrow> 'w \<Rightarrow> (string + string \<times> string) \<times> 'w"
  hs_InviteUser :: "string \<Rightarrow> string \<Rightarrow> 'w \<Rightarrow> fault \<times> 'w"
  hs_KickUser :: "string \<Rightarrow> string \<Rightarrow> string \<Rightarrow> 'w \<Rightarrow> fault \<times> 'w"
  hs_DeactivateAccount :: "string \<Rightarrow> bool \<Rightarrow> 'w \<Rightarrow> fault \<times> 'w"

text \<open>\<open>newClient\<close> is the error of the client library for an address and a user.\<close>

definition New_provisioner :: "(MatrixConfig \<Rightarrow> fault) \<Rightarrow> MatrixConfig \<Rightarrow> string + MatrixConfig" where
  "New_provisioner newClient cfg =
     (if mx_Homeserver cfg = [] then Inl ''provisioning: Homeserver is required''
      else if mx_AdminUserID cfg = [] then Inl ''provisioning: AdminUserID is required''
      else if mx_AdminAccessToken cfg = [] then Inl ''provisioning: AdminAccessToken is required''
      else let cfg1 = (if mx_HomeserverType cfg = [] then cfg\<lparr>mx_HomeserverType := ''tuwunel''\<rparr> else cfg) in
        if mx_HomeserverType cfg1 = ''synapse'' \<and> mx_SharedSecret cfg1 = []
        then Inl ''provisioning: SharedSecret is required for synapse homeserver type''
        else (case newClient cfg1 of
            Some e \<Rightarrow> Inl (''provisioning: failed to create Matrix client: '' @ e)
          | None \<Rightarrow> Inr cfg1))"

subsection \<open>Names\<close>

text \<open>Lower-casing turns two letters outside ASCII into ASCII letters: the Kelvin sign, and the capital I with a dot, whose dot is stripped afterwards
  with everything else that no localpart may contain.\<close>

definition lower_letters :: "string \<Rightarrow> string" where
  "lower_letters s = to_lower (replace_all [CHR 0xE2, CHR 0x84, CHR 0xAA] ''k'' (replace_all [CHR 0xC4, CHR 0xB0] ''i'' s))"

definition localpart_char :: "char \<Rightarrow> bool" where
  "localpart_char c \<longleftrightarrow> id_char c \<or> c \<in> set ''._-/''"

definition usernameForAgent :: "MatrixConfig \<Rightarrow> string \<Rightarrow> string + string" where
  "usernameForAgent cfg agentID =
     (let localpart = filter localpart_char (replace_all ''_'' ''-'' (lower_letters agentID)) in
      if localpart = [] then Inl (''agent name '' @ go_quote agentID @ '' produces empty Matrix localpart after sanitization'')
      else Inr (localpart @ mx_UsernameSuffix cfg))"

definition mxidForAgent :: "MatrixConfig \<Rightarrow> string \<Rightarrow> string + string" where
  "mxidForAgent cfg agentID = (case cut_at (CHR '':'') (mx_AdminUserID cfg) of
       None \<Rightarrow> Inl (''invalid AdminUserID '' @ go_quote (mx_AdminUserID cfg) @ '': expected @localpart:server'')
     | Some (_, server) \<Rightarrow> (case usernameForAgent cfg agentID of
         Inl e \<Rightarrow> Inl e
       | Inr username \<Rightarrow> Inr (''@'' @ username @ '':'' @ server)))"

subsection \<open>Registration\<close>

definition generatePassword :: "'w MatrixServer \<Rightarrow> 'w \<Rightarrow> (string + string) \<times> 'w" where
  "generatePassword hs w = (case hs_rand hs w of
       (Inl e, w') \<Rightarrow> (Inl (''failed to generate random password: '' @ e), w')
     | (Inr bytes, w') \<Rightarrow> (Inr (hex_encode bytes), w'))"

definition registerViaSynapse ::
    "MatrixConfig \<Rightarrow> 'w MatrixServer \<Rightarrow> string \<Rightarrow> string \<Rightarrow> string \<Rightarrow> 'w \<Rightarrow> (string + string \<times> string) \<times> 'w" where
  "registerViaSynapse cfg hs username password displayName w =
     (case hs_SharedSecretRegister hs (mx_SharedSecret cfg)
         \<lparr>ss_Username = username, ss_Password = password, ss_Displayname = displayName, ss_UserType = ''bot'', ss_Admin = False\<rparr> w of
        (Inl e, w') \<Rightarrow> (Inl (''synapse registration failed for '' @ go_quote username @ '': '' @ e), w')
      | (Inr account, w') \<Rightarrow> (Inr account, w'))"

definition token_auth :: "MatrixConfig \<Rightarrow> string \<Rightarrow> ReqRegister \<Rightarrow> ReqRegister" where
  "token_auth cfg session req = req\<lparr>rq_Auth := Some (''m.login.registration_token'', mx_RegistrationToken cfg, session)\<rparr>"

text \<open>What is done with the answer to the last request, and the two requests.\<close>

definition registered :: "string \<Rightarrow> (string \<times> string) option \<Rightarrow> string + string \<times> string" where
  "registered username resp = (case resp of
       None \<Rightarrow> Inl (''tuwunel registration for '' @ go_quote username @ '' returned no response (possible UIA mismatch)'')
     | Some account \<Rightarrow> Inr account)"

definition register_with_token ::
    "MatrixConfig \<Rightarrow> 'w MatrixServer \<Rightarrow> ReqRegister \<Rightarrow> 'w \<Rightarrow> (string + string \<times> string) \<times> 'w" where
  "register_with_token cfg hs req w = (let username = rq_Username req in
     case hs_Register hs (token_auth cfg [] req) w of
       (Inl e, w1) \<Rightarrow> (Inl (''tuwunel token registration failed for '' @ go_quote username @ '': '' @ e), w1)
     | (Inr (resp, uia), w1) \<Rightarrow>
         (case (resp, uia) of
            (None, Some session) \<Rightarrow>
              if session \<noteq> [] then
                (case hs_Register hs (token_auth cfg session req) w1 of
                   (Inl e, w2) \<Rightarrow> (Inl (''tuwunel token registration (UIA step 2) failed for '' @ go_quote username @ '': '' @ e), w2)
                 | (Inr (resp2, _), w2) \<Rightarrow> (registered username resp2, w2))
              else (registered username resp, w1)
          | _ \<Rightarrow> (registered username resp, w1)))"

definition register_request :: "string \<Rightarrow> string \<Rightarrow> string \<Rightarrow> ReqRegister" where
  "register_request username password displayName =
     \<lparr>rq_Username = username, rq_Password = password, rq_InitialDeviceDisplayName = displayName, rq_Auth = None\<rparr>"

definition registerViaTuwunel ::
    "MatrixConfig \<Rightarrow> 'w MatrixServer \<Rightarrow> string \<Rightarrow> string \<Rightarrow> string \<Rightarrow> 'w \<Rightarrow> (string + string \<times> string) \<times> 'w" where
  "registerViaTuwunel cfg hs username password displayName w =
     (let req = register_request username password displayName in
      if mx_RegistrationToken cfg \<noteq> [] then register_with_token cfg hs req w
      else (case hs_RegisterDummy hs req w of
          (Inl e, w') \<Rightarrow> (Inl (''tuwunel open registration failed for '' @ go_quote username @ '': '' @ e @
                               '' (is CONDUWUIT_ALLOW_REGISTRATION=true?)''), w')
        | (Inr account, w') \<Rightarrow> (Inr account, w')))"

definition registerViaClientAPI ::
    "'w MatrixServer \<Rightarrow> string \<Rightarrow> string \<Rightarrow> string \<Rightarrow> 'w \<Rightarrow> (string + string \<times> string) \<times> 'w" where
  "registerViaClientAPI hs username password displayName w =
     (case hs_RegisterDummy hs (register_request username password displayName) w of
        (Inl e, w') \<Rightarrow> (Inl (''client-server registration failed for '' @ go_quote username @ '': '' @ e), w')
      | (Inr account, w') \<Rightarrow> (Inr account, w'))"

definition register_on ::
    "MatrixConfig \<Rightarrow> 'w MatrixServer \<Rightarrow> string \<Rightarrow> string \<Rightarrow> string \<Rightarrow> 'w \<Rightarrow> (string + string \<times> string) \<times> 'w" where
  "register_on cfg hs username password displayName w =
     (let type = mx_HomeserverType cfg in
      if type = ''synapse'' then registerViaSynapse cfg hs username password displayName w
      else if type = ''tuwunel'' then registerViaTuwunel cfg hs username password displayName w
      else if type = ''generic'' then registerViaClientAPI hs username password displayName w
      else (Inl (''provisioning: unsupported homeserver type '' @ go_quote type), w))"

definition Register_account ::
    "MatrixConfig \<Rightarrow> 'w MatrixServer \<Rightarrow> string \<Rightarrow> string \<Rightarrow> 'w \<Rightarrow> (string + string \<times> string) \<times> 'w" where
  "Register_account cfg hs agentID displayName w = (case generatePassword hs w of
       (Inl e, w1) \<Rightarrow> (Inl e, w1)
     | (Inr password, w1) \<Rightarrow>
         (case mxidForAgent cfg agentID of
            Inl e \<Rightarrow> (Inl e, w1)
          | Inr _ \<Rightarrow> (case usernameForAgent cfg agentID of
              Inl e \<Rightarrow> (Inl e, w1)
            | Inr username \<Rightarrow> register_on cfg hs username password displayName w1)))"

subsection \<open>Rooms and deactivation\<close>

fun for_rooms :: "(string \<Rightarrow> 'w \<Rightarrow> fault \<times> 'w) \<Rightarrow> string list \<Rightarrow> 'w \<Rightarrow> string list \<times> 'w" where
  "for_rooms act [] w = ([], w)"
| "for_rooms act (roomID # rooms) w = (case act roomID w of
       (r, w1) \<Rightarrow> (case for_rooms act rooms w1 of
         (errs, w2) \<Rightarrow> ((case r of Some e \<Rightarrow> [''room '' @ roomID @ '': '' @ e] | None \<Rightarrow> []) @ errs, w2)))"

definition InviteToRooms :: "MatrixConfig \<Rightarrow> 'w MatrixServer \<Rightarrow> string \<Rightarrow> 'w \<Rightarrow> string list \<times> 'w" where
  "InviteToRooms cfg hs userID = for_rooms (\<lambda>roomID. hs_InviteUser hs roomID userID) (mx_AdminRooms cfg)"

definition RemoveFromRooms :: "MatrixConfig \<Rightarrow> 'w MatrixServer \<Rightarrow> string \<Rightarrow> 'w \<Rightarrow> string list \<times> 'w" where
  "RemoveFromRooms cfg hs userID =
     for_rooms (\<lambda>roomID. hs_KickUser hs roomID userID ''Agent deprovisioned by Ruriko'') (mx_AdminRooms cfg)"

definition Deactivate :: "MatrixConfig \<Rightarrow> 'w MatrixServer \<Rightarrow> string \<Rightarrow> bool \<Rightarrow> 'w \<Rightarrow> string option \<times> 'w" where
  "Deactivate cfg hs userID erase w =
     (if mx_HomeserverType cfg = ''synapse'' then
        (case hs_DeactivateAccount hs userID erase w of
           (Some e, w') \<Rightarrow> (Some (''failed to deactivate '' @ userID @ '': '' @ e), w')
         | (None, w') \<Rightarrow> (None, w'))
      else (None, w))"

text \<open>The provisioner as the provider of the accounts of the handlers.\<close>

definition accounts_of :: "MatrixConfig \<Rightarrow> 'w MatrixServer \<Rightarrow> 'w Accounts" where
  "accounts_of cfg hs =
     \<lparr>ac_Register = Register_account cfg hs, ac_Invite = InviteToRooms cfg hs, ac_RemoveFromRooms = RemoveFromRooms cfg hs,
      ac_Deactivate = Deactivate cfg hs\<rparr>"

subsection \<open>Every agent has an account of its own\<close>

lemma replace_all_absent: "old \<noteq> [] \<Longrightarrow> hd old \<notin> set s \<Longrightarrow> replace_all old new s = s"
proof (induction s)
  case (Cons c s)
  then have "\<not> has_prefix (c # s) old" by (cases old) (auto simp: has_prefix_iff)
  then show ?case using Cons by (subst replace_all.simps) simp
qed (subst replace_all.simps, simp)

lemma agent_id_chars: "validateAgentID a = None \<Longrightarrow> a \<noteq> [] \<and> (\<forall>c \<in> set a. id_char c \<or> c = CHR ''-'')"
  by (cases a) (auto simp: validateAgentID_def list_all_iff split: if_splits)

lemma id_char_lower: "id_char c \<or> c = CHR ''-'' \<Longrightarrow> lower_char c = c \<and> localpart_char c \<and> c \<notin> set [CHR 0xE2, CHR 0xC4, CHR ''_'']"
  by (auto simp: id_char_def lower_char_def localpart_char_def Let_def)

lemma username_of_valid:
  assumes "validateAgentID a = None"
  shows "usernameForAgent cfg a = Inr (a @ mx_UsernameSuffix cfg)"
proof -
  from agent_id_chars [OF assms] have chars: "a \<noteq> []" "\<And>c. c \<in> set a \<Longrightarrow> lower_char c = c \<and> localpart_char c \<and> c \<notin> set [CHR 0xE2, CHR 0xC4, CHR ''_'']"
    using id_char_lower by auto
  have "replace_all [CHR 0xC4, CHR 0xB0] ''i'' a = a" "replace_all [CHR 0xE2, CHR 0x84, CHR 0xAA] ''k'' a = a" "replace_all ''_'' ''-'' a = a"
    using chars(2) [of "CHR 0xC4"] chars(2) [of "CHR 0xE2"] chars(2) [of "CHR ''_''"] by (auto intro!: replace_all_absent)
  moreover have "to_lower a = a" using chars(2) by (simp add: to_lower_def map_idI)
  moreover have "filter localpart_char a = a" using chars(2) by (simp add: filter_id_conv)
  ultimately show ?thesis using chars(1) by (simp add: usernameForAgent_def lower_letters_def Let_def)
qed

text \<open>Two agents whose identifiers the control plane accepts never share an account: what the sanitisation removes does not occur in such identifiers.\<close>

theorem accounts_distinct:
  assumes "validateAgentID a = None" "validateAgentID b = None" "mxidForAgent cfg a = Inr mxid" "mxidForAgent cfg b = Inr mxid"
  shows "a = b"
  using assms by (auto simp: mxidForAgent_def username_of_valid split: option.splits prod.splits)

definition sample_matrix :: MatrixConfig where
  "sample_matrix = \<lparr>mx_Homeserver = ''https://hs'', mx_AdminUserID = ''@ruriko:hs'', mx_AdminAccessToken = ''t'', mx_HomeserverType = ''tuwunel'',
     mx_SharedSecret = [], mx_RegistrationToken = ''reg'', mx_UsernameSuffix = ''-agent'', mx_AdminRooms = [''!a:hs'', ''!b:hs'']\<rparr>"

theorem accounts_distinct_witness: "\<not> (\<exists>mxid. mxidForAgent sample_matrix ''kairo'' = Inr mxid \<and> mxidForAgent sample_matrix ''kumo'' = Inr mxid)"
  using accounts_distinct [of "''kairo''" "''kumo''" sample_matrix] by (auto simp: validateAgentID_def id_char_def)

text \<open>Identifiers that were not checked can collide.\<close>

theorem unchecked_names_collide: "mxidForAgent sample_matrix ''A_b!'' = mxidForAgent sample_matrix ''a-b''"
  by code_simp

subsection \<open>Registration copes with the challenge\<close>

text \<open>A homeserver that asks for its session to be sent back creates the account in the second request.\<close>

theorem challenge_answered:
  assumes "mx_HomeserverType cfg = ''tuwunel''" "mx_RegistrationToken cfg \<noteq> []" "validateAgentID agentID = None" "mxidForAgent cfg agentID = Inr mxid"
    and "hs_rand hs w = (Inr bytes, w1)"
    and "req = register_request (agentID @ mx_UsernameSuffix cfg) (hex_encode bytes) displayName"
    and "hs_Register hs (token_auth cfg [] req) w1 = (Inr (None, Some session), w2)" "session \<noteq> []"
    and "hs_Register hs (token_auth cfg session req) w2 = (Inr (Some account, c), w3)"
  shows "Register_account cfg hs agentID displayName w = (Inr account, w3)"
  using assms by (simp add: Register_account_def generatePassword_def username_of_valid register_on_def registerViaTuwunel_def register_with_token_def
      registered_def register_request_def Let_def)

text \<open>A homeserver that keeps the requests it was sent.\<close>

definition logging :: "'w MatrixServer \<Rightarrow> ('w \<times> ReqRegister list) MatrixServer" where
  "logging hs =
     \<lparr>hs_rand = (\<lambda>(w, l). case hs_rand hs w of (r, w') \<Rightarrow> (r, w', l)),
      hs_SharedSecretRegister = (\<lambda>secret req (w, l). case hs_SharedSecretRegister hs secret req w of (r, w') \<Rightarrow> (r, w', l)),
      hs_Register = (\<lambda>req (w, l). case hs_Register hs req w of (r, w') \<Rightarrow> (r, w', l @ [req])),
      hs_RegisterDummy = (\<lambda>req (w, l). case hs_RegisterDummy hs req w of (r, w') \<Rightarrow> (r, w', l @ [req])),
      hs_InviteUser = (\<lambda>room user (w, l). case hs_InviteUser hs room user w of (r, w') \<Rightarrow> (r, w', l)),
      hs_KickUser = (\<lambda>room user reason (w, l). case hs_KickUser hs room user reason w of (r, w') \<Rightarrow> (r, w', l)),
      hs_DeactivateAccount = (\<lambda>user erase (w, l). case hs_DeactivateAccount hs user erase w of (r, w') \<Rightarrow> (r, w', l))\<rparr>"

text \<open>Whatever the homeserver answers, it is asked at most twice, for the same user, and the second time only with the session it gave.\<close>

theorem registration_bounded:
  assumes "Register_account cfg (logging hs) agentID displayName (w, l) = (r, w', l')"
  shows "\<exists>reqs. l' = l @ reqs \<and> length reqs \<le> 2 \<and> (\<forall>req \<in> set reqs. usernameForAgent cfg agentID = Inr (rq_Username req)) \<and>
    (\<forall>req \<in> set (tl reqs). \<exists>session. rq_Auth req = Some (''m.login.registration_token'', mx_RegistrationToken cfg, session) \<and> session \<noteq> [])"
  using assms
  by (auto simp: Register_account_def generatePassword_def register_on_def registerViaTuwunel_def registerViaSynapse_def registerViaClientAPI_def
      register_with_token_def logging_def token_auth_def register_request_def Let_def
      split: prod.splits sum.splits option.splits if_splits)

subsection \<open>Rooms, and accounts that cannot be deactivated\<close>

text \<open>Every room is visited, whatever fails before it, and exactly the rooms that failed are reported.\<close>

theorem rooms_all_visited:
  "snd (for_rooms act rooms w) = fold (\<lambda>roomID w. snd (act roomID w)) rooms w \<and>
   (fst (for_rooms act rooms w) = [] \<longleftrightarrow> (\<forall>i < length rooms. fst (act (rooms ! i) (fold (\<lambda>roomID w. snd (act roomID w)) (take i rooms) w)) = None))"
proof (induction rooms arbitrary: w)
  case (Cons roomID rooms)
  show ?case using Cons.IH [of "snd (act roomID w)"]
    by (auto simp: nth_Cons take_Cons' less_Suc_eq_0_disj split: prod.splits option.splits)
qed simp

text \<open>Disabling an agent on a homeserver that is not Synapse reports that the account was deactivated, but nothing was done to it: it was removed from the rooms only.\<close>

theorem deactivation_reported_not_done:
  assumes "hv_accounts env = Some (accounts_of cfg hs)" "mx_HomeserverType cfg \<noteq> ''synapse''" "an_MXID agent = Some mxid" "mxid \<noteq> []"
    and "State_Monad.run_state (disable_account env agent False) s = (notes, s')"
  shows "last notes = ''Matrix account '' @ mxid @ '' deactivated'' \<and>
    pl_world (ha_world s') = snd (RemoveFromRooms cfg hs mxid (pl_world (ha_world s)))"
  using assms by (auto simp: disable_account_def accounts_of_def Deactivate_def on_world_def note_op_def column_def put_world_def add_op_def Let_def
      split: prod.splits)

end
