(* ===== verification/Spec2Isabelle.thy ===== *)
theory Spec2Isabelle
  imports Gosuto_Validate Policy Workflow_Match Workflow_Runner Kuze_Server Ruriko_Approvals Gitai_Approvals Cron_Manager
    Gitai_Turn_Safety Acp_Safety Webhook_Proxy Reconciler Secret_Delivery Chat_Safety Command_Effects Command_Safety
    Gate_Safety Acp_Concurrency Builtin_Tools Ruriko_Memory Redact Gosuto_Loader Supervisors Migrations Mcp_Client Matrix_Accounts
begin

text \<open>
  \<^bold>\<open>Ruriko\<close> is a control plane, operated over Matrix chat, for a fleet of AI agents.  Two programs make up the system.  \<^emph>\<open>Ruriko\<close>
  (\<^verbatim>\<open>internal/ruriko\<close>) takes operator messages, parses them as commands or classifies them as natural language, asks a second operator for
  approval of destructive operations, keeps agents, configurations and secrets in an SQLite database, hands secrets out through one-time tokens
  (\<^emph>\<open>Kuze\<close>), forwards webhooks and reconciles its database with the containers that run.  \<^emph>\<open>Gitai\<close> (\<^verbatim>\<open>internal/gitai\<close>) is the runtime inside a
  container: it is configured by a \<^emph>\<open>Gosuto\<close> document, is controlled over HTTP (\<^emph>\<open>ACP\<close>), answers messages and events by rounds of calls of a
  language model or by deterministic workflows, and lets a tool call run only if its policy, and where needed a human, agrees.
  \<^verbatim>\<open>common/\<close> holds what both share.

  \<^bold>\<open>Conventions.\<close>  Strings are byte strings.  \<^verbatim>\<open>interface{}\<close> values decoded from YAML or JSON are the datatype \<open>gval\<close>.  A pair of result and
  error is \<open>error + 'a\<close> with the error on the left, except where the code returns both.  Times are \<open>int\<close> nanoseconds and never wrap;
  64-bit integer arithmetic wraps where user input reaches it (the cron parser).  Tables are lists of rows in insertion order; every statement takes
  a \<open>fault\<close>, the error the driver may return, so that each error path is a branch.  The clock, random bytes, the JSON and YAML codecs, the
  cryptographic primitives, the network, the model and the processes an agent starts are parameters: arguments of the definitions or
  fields of an environment record.  A property that relies on such a parameter says so in a named hypothesis (\<open>codecs_ok\<close>, \<open>deliverable\<close>,
  the laws of a cipher) and its witness instantiates the parameter with a concrete function.  Log lines and trace identifiers are dropped
  unless a reply contains them.

  \<^bold>\<open>Prelude.\<close>
  \<^item> \<open>Go_Strings\<close>: the functions of packages \<^verbatim>\<open>strings\<close>, \<^verbatim>\<open>strconv\<close>, \<^verbatim>\<open>unicode\<close> the program calls, and \<open>matchGlob\<close>;
    the collection \<open>go_string\<close>.
  \<^item> \<open>Go_Values\<close>: dynamic values, maps with Go's sorted key order, the JSON schema subset.
  \<^item> \<open>Base64\<close>: the two encodings with their round trips.
  \<^item> \<open>Stores\<close>: tables with failing statements and the locales \<open>invariant_system\<close> (an invariant that every operation keeps holds after any
    sequence) and \<open>one_shot\<close> (a thing that is live at most until it is used is used at most once).  They are interpreted on the token table, the approvals
    table, the cron table, the agent's secrets, its memory and the chat state.

  \<^bold>\<open>What both programs share.\<close>
  \<^item> \<open>Gosuto_Types\<close>, \<open>Gosuto_Validate\<close> (\<^verbatim>\<open>common/spec/gosuto\<close>): one record per struct; \<open>Validate\<close> with all its helpers in the
    order of the checks.  \<open>Validate_iff_wf\<close> compares it with a declarative well-formedness predicate.
  \<^item> \<open>Envelope\<close>, \<open>Webhook_Auth\<close>, \<open>Rate_Limits\<close>, \<open>Retry\<close> (\<^verbatim>\<open>common/spec/envelope\<close>, \<^verbatim>\<open>webhookauth\<close>, \<^verbatim>\<open>ratelimit\<close>, \<^verbatim>\<open>retry\<close>, and the
    limiters of \<^verbatim>\<open>nlp\<close> and \<^verbatim>\<open>webhook\<close>): validity of events, HMAC headers, fixed and sliding windows
    (locale \<open>window_limiter\<close>; \<open>sliding_window_exact\<close> compares the pruned list with a limiter that forgets nothing), retries with backoff.

  \<^bold>\<open>The agent.\<close>
  \<^item> \<open>Policy\<close> (\<^verbatim>\<open>policy/engine.go\<close>): \<open>Evaluate\<close> and its constraint checks; \<open>Evaluate_refines_policy\<close> against an abstract first-match policy with
    default deny.  The locale \<open>first_match\<close> is shared with the workflow triggers.
  \<^item> \<open>Workflow_Match\<close>, \<open>Workflow_Template\<close>, \<open>Workflow_Runner\<close> (\<^verbatim>\<open>workflow/*.go\<close>): trusted peers, schemas, triggers; \<open>Interpolate\<close>; the runner
    of steps (\<^verbatim>\<open>parse_input\<close>, \<^verbatim>\<open>tool\<close>, \<^verbatim>\<open>summarize\<close>, \<^verbatim>\<open>plan\<close>, \<^verbatim>\<open>for_each\<close>, \<^verbatim>\<open>collect\<close>, \<^verbatim>\<open>persist\<close>, \<dots>) with retries.  The locale \<open>step_relation\<close>
    lifts a relation kept by a call of the runtime to whole runs.
  \<^item> \<open>Gitai_Approvals\<close>, \<open>Gitai_Dispatch\<close>, \<open>Gitai_Memory\<close>, \<open>Gitai_Turn\<close>, \<open>Gitai_Turn_Safety\<close> (\<^verbatim>\<open>approvals/approvals.go\<close>, \<^verbatim>\<open>app/*.go\<close>,
    \<^verbatim>\<open>builtin/tool.go\<close>, \<^verbatim>\<open>common/memory\<close>): the approval gate with its select loop, \<open>DispatchToolCall\<close>, the memory,
    \<open>handleMessage\<close>, \<open>runEventTurn\<close> and \<open>runTurn\<close>.  Locale \<open>turn_relation\<close> lifts what one dispatch keeps to whole turns; it is
    interpreted for obeying the policy and for the limit on model calls.
  \<^item> \<open>Cron\<close>, \<open>Cron_Store\<close>, \<open>Cron_Manager\<close> (\<^verbatim>\<open>gateway/cron.go\<close>, the table of \<^verbatim>\<open>store/store.go\<close>): parsing of expressions, the next tick,
    jobs and their reconciliation, the scheduler that polls the table.
  \<^item> \<open>Gitai_Secrets\<close> (\<^verbatim>\<open>secrets/*.go\<close>): the store with expiry and the manager that redeems tokens.
  \<^item> \<open>Acp_Server\<close>, \<open>Acp_Safety\<close>, \<open>Acp_Concurrency\<close> (\<^verbatim>\<open>control/server.go\<close>): every handler, authentication, idempotency cache, event admission.  The server runs
    its handlers at the same time and holds no lock across one: the last theory splits a request into the steps between which the cache is unlocked and lets any
    number of them interleave.

  \<^bold>\<open>The control plane.\<close>
  \<^item> \<open>Ruriko_Commands\<close>, \<open>Ruriko_Approvals\<close> (\<^verbatim>\<open>commands/router.go\<close>, \<^verbatim>\<open>approvals/*.go\<close>, \<^verbatim>\<open>commands/approval_handlers.go\<close>): tokenizer, parser,
    dispatch, the gate and the decisions.
  \<^item> \<open>Ruriko_Store\<close>, \<open>Ruriko_Secrets\<close> (\<^verbatim>\<open>store/*.go\<close>, \<^verbatim>\<open>secrets/store.go\<close>, \<^verbatim>\<open>common/crypto\<close>): the database \<open>Db\<close>, the statements on it, encryption
    at rest; the relation \<open>db_step\<close> of single statements and its invariant.
  \<^item> \<open>Kuze_Tokens\<close>, \<open>Kuze_Server\<close> (\<^verbatim>\<open>kuze/*.go\<close>): one-time tokens and the HTTP handlers.
  \<^item> \<open>Acp_Client\<close>, \<open>Distributor\<close>, \<open>Secret_Delivery\<close> (\<^verbatim>\<open>runtime/acp/client.go\<close>, \<^verbatim>\<open>secrets/distributor.go\<close>): a push of secrets; the last theory joins
    database, token server, distributor, client and agent into one installation.
  \<^item> \<open>Webhook_Proxy\<close>, \<open>Reconciler\<close> (\<^verbatim>\<open>webhook/proxy.go\<close>, \<^verbatim>\<open>runtime/reconciler.go\<close>).
  \<^item> \<open>Nlp_Classifier\<close>, \<open>Nl_Intent\<close>, \<open>Natural_Language\<close>, \<open>Chat_Safety\<close> (\<^verbatim>\<open>nlp/*.go\<close>, \<^verbatim>\<open>commands/natural_language.go\<close>): checks on the model's proposals,
    keyword intents, the confirmation state machine, and the joint guarantee with the approval gate.
  \<^item> \<open>Control_Plane\<close> (\<^verbatim>\<open>commands/handlers.go\<close>, \<^verbatim>\<open>approval_handlers.go\<close>): the state of a command handler, a state monad over the database, the approvals and
    the log of operations on the outside; \<open>HEnv\<close> holds what the handlers are built with, and every statement, clock reading and answer from
    outside is drawn from the world, so that any of them may fail.  Locale \<open>state_relation\<close> of \<open>State_Lifting\<close> lifts a relation kept by single actions to handlers; it is
    interpreted for footprints (\<open>fp\<close>: which tables, agents and outside operations a handler is limited to), for what an unapproved command may do (\<open>gs\<close>) and
    for valid configurations (\<open>kv\<close>).
  \<^item> \<open>Lifecycle_Handlers\<close>, \<open>Gosuto_Handlers\<close>, \<open>Registry_Handlers\<close>, \<open>Topology_Handlers\<close>, \<open>Gosuto_Diff\<close> (\<^verbatim>\<open>commands/*_handlers.go\<close>, \<^verbatim>\<open>mesh.go\<close>): every handler
    registered with the router, each with its footprint, and pushes, cancellations and tool calls on agents logged as operations; the line difference of two configurations.
  \<^item> \<open>Provisioning\<close>, \<open>Guardrail\<close>, \<open>Ruriko_App\<close> (\<^verbatim>\<open>commands/provision.go\<close>, \<^verbatim>\<open>guardrail.go\<close>, \<^verbatim>\<open>app/app.go\<close>): the pipeline behind a creation, the patterns of credentials, and
    \<open>handleMessage\<close> with the table of commands, the decisions and the conversion of answers to HTML.
  \<^item> \<open>Command_Effects\<close>, \<open>Command_Safety\<close>, \<open>Gate_Safety\<close>, \<open>Bare_Commands\<close>: triples over the database for what single commands achieve, the invariants over any sequence
    of commands, what a gated command does before it is approved, and what a command without arguments does.

  \<^bold>\<open>The rest of the agent and of the infrastructure.\<close>
  \<^item> \<open>Builtin_Tools\<close> (\<^verbatim>\<open>gitai/builtin\<close>): the message tool and the schedule tools; \<open>tool_calls_confined\<close> bounds what the arguments of the model can do
    (another interpretation of \<open>state_relation\<close>, \<open>bt\<close>).
  \<^item> \<open>Gosuto_Loader\<close> (\<^verbatim>\<open>gitai/gosuto\<close>): the live configuration of the agent, always one that passed validation (interpretation \<open>loader\<close>).
  \<^item> \<open>Supervisors\<close> (\<^verbatim>\<open>gitai/supervisor\<close>): what a reconciliation leaves running, the watcher of a server, and the step relation of a gateway and
    the call that stops it, with its deadlock.
  \<^item> \<open>Ruriko_Memory\<close> (\<^verbatim>\<open>ruriko/memory\<close>): the tracker of conversations (interpretation \<open>tracker\<close>), sealing, and the table of the long-term memory.
  \<^item> \<open>Redact\<close>, \<open>Migrations\<close> (\<^verbatim>\<open>common/redact\<close>, \<^verbatim>\<open>common/sqliteutil\<close>): redaction of texts and maps; schema migrations, applied in order and once.
  \<^item> \<open>Mcp_Client\<close> (\<^verbatim>\<open>gitai/mcp/client.go\<close>): callers, the table of pending requests and the read loop as a step relation.
  \<^item> \<open>Matrix_Accounts\<close> (\<^verbatim>\<open>provisioning/matrix.go\<close>): registration, rooms and deactivation of the agents' accounts.

  \<^bold>\<open>What the properties show.\<close>  Authorisation: no tool runs against the policy and without its approval (C1--C3); what a decision dispatches was requested by another
  operator and stored, and a typed gated command changes nothing before (C4, C5).  Spoken commands are weaker: what runs without a confirmation is harmless, and a gated command
  passes the gate only with a mark that was shown to the person who confirmed it (C6, C7); but the model can set that mark, as the application builds it without the
  classifier, and then no second operator is asked (\<open>model_approves_itself\<close>).  Events, messages and webhooks are acted on only when authentic, trusted and within
  limits, once there is a configuration that states them.    Secrets: tokens are spent once, secrets leave over valid tokens only, and a tool call shows the values it resolved to the called server only, a push delivers
  what is bound, and a message with a credential is not processed.  Functional exactness: validation, policy, next tick, reconciliation, drift, storing and
  rolling back configurations, trust of peers.  State: invariants of each table over any sequence of
  statements with failures.  Bounds and termination: model calls, retries, memory budgets, loops.

  \<^bold>\<open>Loops and fuel.\<close>  Loops over data are structural or have a termination proof.  The field loop of the cron parser runs on 64-bit integers that may
  wrap: it has fuel \<open>step_fuel\<close> = 200, and \<open>step_fuel_enough\<close> shows that this is enough for every bound and step the parser lets through.  The search
  for the next tick runs over the minutes of 366 days, the code's own bound.  The search for a free tool name gets one candidate more than there are names.
  Interpolation and with it the runner are partial (\<open>partial_function\<close>, \<open>None\<close> for a loop that never ends): \<open>interpolation_terminates\<close> says when they
  return and \<open>interpolation_diverges\<close> shows a payload for which they do not.  The waits of the approval gate consume the events of
  the select; \<open>gate_fails_safe\<close> shows that the gate answers once the timer fires or the context ends.  The polls of the provisioning pipeline run at most
  30 and 45 times, the timeouts of 60 and 90 seconds divided by the pause of 2 seconds, or end earlier when the context does.  The replacement of
  delimiters in messages gets the length of the text as its bound, which every round shortens.

  \<^bold>\<open>Not modelled.\<close>  The SQLite, Docker, OpenAI and Matrix synchronisation clients, the HTTP clients of the memory, entry points and logging: transport to
  services with no logic of their own; they appear as parameters.  The HTML form of Kuze is its fields only.  Concurrency: a command of an operator, a turn of an agent and a tick
  of a scheduler run to completion in the model.  Interleavings are modelled where requests overlap or goroutines share a table or a lock: requests to an agent's
  server, decisions racing a timer, two redemptions of a token, a poll against a change of the table, calls of an MCP server against its read loop, and the
  supervisor's lock against the goroutine of a gateway.
\<close>

section \<open>Across components\<close>



end
